(* ===== verification/Prelude.thy ===== *)
theory Prelude
  imports Main "HOL-Library.Word"
begin

text \<open>
  Shared vocabulary of the development.

  A Rust \<open>String\<close> is a UTF-8 byte vector, so it is modelled by \<^typ>\<open>string\<close>, one \<^typ>\<open>char\<close>
  per byte: \<open>value.len()\<close> is \<^const>\<open>length\<close>.  What the code asks of Unicode scalar values
  (\<open>chars().count()\<close>, \<open>trim\<close>, \<open>char::is_control\<close>, \<open>char::is_whitespace\<close>) is computed on the
  byte groups of the scalars (\<open>utf8_chunks\<close>), each group a lead byte with its continuation bytes.

  A \<open>Uuid\<close> is identified with its canonical hyphenated rendering, the form every \<open>format!\<close>,
  JSON document and row of the program shows.  A \<open>DateTime<Utc>\<close> is an \<^typ>\<open>int\<close> counting
  nanoseconds.  An \<open>i64\<close> is an \<^typ>\<open>int\<close>; where the code saturates, the bound is written out,
  and where it adds unguarded the sum wraps (\<open>wrap_i64\<close>: the release profile has no overflow
  checks) or is proved in range.
\<close>

section \<open>Collections\<close>

named_theorems machine_defs "unfolding equations of the aggregate state machines"
named_theorems validate_defs "unfolding equations of the payload validators"
named_theorems handler_defs "unfolding equations of the command handlers"
named_theorems store_simps "reads of the tables after a write"

type_synonym uuid = string
type_synonym pubky = string
type_synonym datetime = int

definition i64_max :: int where
  "i64_max = 9223372036854775807"

definition i64_min :: int where
  "i64_min = - 9223372036854775808"

text \<open>\<open>i64::saturating_add\<close>.\<close>

definition saturating_add :: "int \<Rightarrow> int \<Rightarrow> int" where
  "saturating_add a b =
     (if a + b > i64_max then i64_max else if a + b < i64_min then i64_min else a + b)"

text \<open>Plain \<open>i64\<close> addition in the release profile, which builds without overflow checks.\<close>

definition wrap_i64 :: "int \<Rightarrow> int" where
  "wrap_i64 x = (x + 9223372036854775808) mod 18446744073709551616 - 9223372036854775808"

lemma wrap_i64_exact: "i64_min \<le> x \<Longrightarrow> x \<le> i64_max \<Longrightarrow> wrap_i64 x = x"
  by (simp add: wrap_i64_def i64_min_def i64_max_def)

text \<open>\<open>Iterator::sum\<close> on \<open>i64\<close>.\<close>

definition sum_i64 :: "int list \<Rightarrow> int" where
  "sum_i64 = foldl (\<lambda>a x. wrap_i64 (a + x)) 0"

text \<open>\<open>chrono::Duration::seconds\<close> as nanoseconds.\<close>

definition seconds :: "int \<Rightarrow> int" where
  "seconds n = n * 1000000000"

lemma seconds_mono [simp]: "seconds a \<le> seconds b \<longleftrightarrow> a \<le> b"
  by (simp add: seconds_def)

lemma seconds_0 [simp]: "seconds 0 = 0"
  by (simp add: seconds_def)

lemma seconds_pos [simp]: "0 < seconds a \<longleftrightarrow> 0 < a"
  by (simp add: seconds_def)

lemma seconds_nonneg [simp]: "0 \<le> seconds a \<longleftrightarrow> 0 \<le> a"
  by (simp add: seconds_def)

text \<open>\<open>(lo..=hi).contains(&x)\<close>.\<close>

definition in_range :: "int \<Rightarrow> int \<Rightarrow> int \<Rightarrow> bool" where
  "in_range lo hi x \<longleftrightarrow> lo \<le> x \<and> x \<le> hi"

lemma saturating_add_exact:
  "i64_min \<le> a + b \<Longrightarrow> a + b \<le> i64_max \<Longrightarrow> saturating_add a b = a + b"
  by (simp add: saturating_add_def)

lemma saturating_add_bounds: "i64_min \<le> saturating_add a b \<and> saturating_add a b \<le> i64_max"
  by (simp add: saturating_add_def i64_max_def i64_min_def)

section \<open>Bytes and text\<close>

abbreviation byte :: "char \<Rightarrow> nat" where
  "byte c \<equiv> of_char c"

definition is_ascii_lower :: "char \<Rightarrow> bool" where
  "is_ascii_lower c \<longleftrightarrow> 97 \<le> byte c \<and> byte c \<le> 122"

definition is_ascii_upper :: "char \<Rightarrow> bool" where
  "is_ascii_upper c \<longleftrightarrow> 65 \<le> byte c \<and> byte c \<le> 90"

definition is_ascii_digit :: "char \<Rightarrow> bool" where
  "is_ascii_digit c \<longleftrightarrow> 48 \<le> byte c \<and> byte c \<le> 57"

definition is_ascii_alphanumeric :: "char \<Rightarrow> bool" where
  "is_ascii_alphanumeric c \<longleftrightarrow> is_ascii_lower c \<or> is_ascii_upper c \<or> is_ascii_digit c"

definition ascii_up :: "char \<Rightarrow> char" where
  "ascii_up c = (if is_ascii_lower c then char_of (byte c - 32) else c)"

definition ascii_down :: "char \<Rightarrow> char" where
  "ascii_down c = (if is_ascii_upper c then char_of (byte c + 32) else c)"

definition to_ascii_uppercase :: "string \<Rightarrow> string" where
  "to_ascii_uppercase s = map ascii_up s"

definition to_ascii_lowercase :: "string \<Rightarrow> string" where
  "to_ascii_lowercase s = map ascii_down s"

text \<open>\<open>str::eq_ignore_ascii_case\<close>.\<close>

definition eq_ignore_ascii_case :: "string \<Rightarrow> string \<Rightarrow> bool" where
  "eq_ignore_ascii_case a b \<longleftrightarrow> to_ascii_lowercase a = to_ascii_lowercase b"

subsection \<open>Unicode scalars as byte groups\<close>

definition is_cont :: "char \<Rightarrow> bool" where
  "is_cont c \<longleftrightarrow> 128 \<le> byte c \<and> byte c < 192"

function utf8_chunks :: "string \<Rightarrow> string list" where
  "utf8_chunks [] = []"
| "utf8_chunks (c # cs) = (c # takeWhile is_cont cs) # utf8_chunks (dropWhile is_cont cs)"
  by pat_completeness auto
termination
  by (relation "measure length") (auto simp: le_imp_less_Suc length_dropWhile_le)

text \<open>\<open>s.chars().count()\<close>.\<close>

definition chars_count :: "string \<Rightarrow> nat" where
  "chars_count s = length (utf8_chunks s)"

text \<open>
  \<open>char::is_whitespace\<close>: the Unicode \<open>White_Space\<close> property, U+0009--U+000D, U+0020, U+0085,
  U+00A0, U+1680, U+2000--U+200A, U+2028, U+2029, U+202F, U+205F, U+3000.
\<close>

definition is_whitespace_chunk :: "string \<Rightarrow> bool" where
  "is_whitespace_chunk k \<longleftrightarrow>
     (case map byte k of
        [a] \<Rightarrow> (9 \<le> a \<and> a \<le> 13) \<or> a = 32
      | [a, b] \<Rightarrow> a = 194 \<and> (b = 133 \<or> b = 160)
      | [a, b, c] \<Rightarrow> (a = 225 \<and> b = 154 \<and> c = 128)
                  \<or> (a = 226 \<and> b = 128 \<and> ((128 \<le> c \<and> c \<le> 138) \<or> c = 168 \<or> c = 169 \<or> c = 175))
                  \<or> (a = 226 \<and> b = 129 \<and> c = 159)
                  \<or> (a = 227 \<and> b = 128 \<and> c = 128)
      | _ \<Rightarrow> False)"

text \<open>\<open>char::is_control\<close>: the category Cc, U+0000--U+001F and U+007F--U+009F.\<close>

definition is_control_chunk :: "string \<Rightarrow> bool" where
  "is_control_chunk k \<longleftrightarrow>
     (case map byte k of
        [a] \<Rightarrow> a < 32 \<or> a = 127
      | [a, b] \<Rightarrow> a = 194 \<and> 128 \<le> b \<and> b \<le> 159
      | _ \<Rightarrow> False)"

definition strip_ends :: "('a \<Rightarrow> bool) \<Rightarrow> 'a list \<Rightarrow> 'a list" where
  "strip_ends p xs = rev (dropWhile p (rev (dropWhile p xs)))"

text \<open>\<open>str::trim\<close>.\<close>

definition trim :: "string \<Rightarrow> string" where
  "trim s = concat (strip_ends is_whitespace_chunk (utf8_chunks s))"

definition any_control :: "string \<Rightarrow> bool" where
  "any_control s \<longleftrightarrow> list_ex is_control_chunk (utf8_chunks s)"

definition any_whitespace :: "string \<Rightarrow> bool" where
  "any_whitespace s \<longleftrightarrow> list_ex is_whitespace_chunk (utf8_chunks s)"

subsection \<open>Searching and rendering\<close>

text \<open>\<open>str::strip_prefix\<close>, \<open>str::strip_suffix\<close> and \<open>str::split_once\<close> (first occurrence).\<close>

definition strip_prefix :: "string \<Rightarrow> string \<Rightarrow> string option" where
  "strip_prefix p s = (if take (length p) s = p then Some (drop (length p) s) else None)"

definition strip_suffix :: "string \<Rightarrow> string \<Rightarrow> string option" where
  "strip_suffix p s = map_option rev (strip_prefix (rev p) (rev s))"

fun split_once :: "string \<Rightarrow> string \<Rightarrow> (string \<times> string) option" where
  "split_once pat [] = (if pat = [] then Some ([], []) else None)"
| "split_once pat (c # cs) =
     (if take (length pat) (c # cs) = pat then Some ([], drop (length pat) (c # cs))
      else map_option (\<lambda>(a, b). (c # a, b)) (split_once pat cs))"

fun show_nat :: "nat \<Rightarrow> string" where
  "show_nat n =
     (if n < 10 then [char_of (48 + n)] else show_nat (n div 10) @ [char_of (48 + n mod 10)])"

declare show_nat.simps [simp del]

section \<open>JSON values\<close>

text \<open>\<open>serde_json::Value\<close>; the keys of an object are distinct, and a number that is no integer is opaque.\<close>

datatype json =
    JNull
  | JBool bool
  | JInt int
  | JFloat string
  | JString string
  | JArray "json list"
  | JObject "(string \<times> json) list"

section \<open>Lemmas on text\<close>

subsection \<open>Stripping both ends\<close>

lemma strip_ends_Nil [simp]: "strip_ends p [] = []"
  by (simp add: strip_ends_def)

lemma strip_ends_sublist: "\<exists>as bs. xs = as @ strip_ends p xs @ bs"
proof -
  have "xs = takeWhile p xs @ dropWhile p xs" by simp
  moreover have "rev (dropWhile p xs)
      = takeWhile p (rev (dropWhile p xs)) @ dropWhile p (rev (dropWhile p xs))" by simp
  then have "dropWhile p xs
      = strip_ends p xs @ rev (takeWhile p (rev (dropWhile p xs)))"
    unfolding strip_ends_def by (metis rev_append rev_rev_ident)
  ultimately show ?thesis by metis
qed

lemma length_strip_ends [simp]: "length (strip_ends p xs) \<le> length xs"
  by (metis strip_ends_def length_rev length_dropWhile_le le_trans)

lemma strip_ends_hd: "strip_ends p xs \<noteq> [] \<Longrightarrow> \<not> p (hd (strip_ends p xs))"
proof -
  assume ne: "strip_ends p xs \<noteq> []"
  let ?d = "dropWhile p xs"
  have d: "?d \<noteq> []" using ne unfolding strip_ends_def by (metis dropWhile.simps(1) rev.simps(1))
  have "?d = strip_ends p xs @ rev (takeWhile p (rev ?d))"
    unfolding strip_ends_def
    by (metis rev_append rev_rev_ident takeWhile_dropWhile_id)
  then have "hd ?d = hd (strip_ends p xs)" using ne by (metis hd_append2)
  moreover have "\<not> p (hd ?d)" using d by (rule hd_dropWhile)
  ultimately show ?thesis by simp
qed

lemma strip_ends_last: "strip_ends p xs \<noteq> [] \<Longrightarrow> \<not> p (last (strip_ends p xs))"
  unfolding strip_ends_def by (metis hd_dropWhile last_rev rev_is_Nil_conv)

lemma strip_ends_id:
  "xs = [] \<or> (\<not> p (hd xs) \<and> \<not> p (last xs)) \<Longrightarrow> strip_ends p xs = xs"
proof (cases xs)
  case (Cons y ys)
  assume "xs = [] \<or> (\<not> p (hd xs) \<and> \<not> p (last xs))"
  with Cons have y: "\<not> p y" and l: "\<not> p (last xs)" by auto
  have "dropWhile p xs = xs" using Cons y by simp
  moreover have "dropWhile p (rev xs) = rev xs"
    using Cons l by (metis dropWhile_eq_self_iff hd_rev)
  ultimately show ?thesis by (simp add: strip_ends_def)
qed simp

lemma strip_ends_idem [simp]: "strip_ends p (strip_ends p xs) = strip_ends p xs"
  by (rule strip_ends_id) (use strip_ends_hd strip_ends_last in blast)

subsection \<open>Byte groups\<close>

definition wf_chunks :: "string list \<Rightarrow> bool" where
  "wf_chunks ks \<longleftrightarrow>
     (\<forall>k \<in> set ks. k \<noteq> [] \<and> (\<forall>c \<in> set (tl k). is_cont c)) \<and> (\<forall>k \<in> set (tl ks). \<not> is_cont (hd k))"

lemma concat_utf8_chunks [simp]: "concat (utf8_chunks s) = s"
  by (induction s rule: utf8_chunks.induct) auto

lemma utf8_chunks_ne: "k \<in> set (utf8_chunks s) \<Longrightarrow> k \<noteq> [] \<and> (\<forall>c \<in> set (tl k). is_cont c)"
  by (induction s rule: utf8_chunks.induct) (auto dest: set_takeWhileD)

lemma utf8_chunks_lead:
  "s \<noteq> [] \<Longrightarrow> \<not> is_cont (hd s) \<Longrightarrow> k \<in> set (utf8_chunks s) \<Longrightarrow> \<not> is_cont (hd k)"
proof (induction s rule: utf8_chunks.induct)
  case (2 c cs)
  show ?case
  proof (cases "dropWhile is_cont cs = []")
    case True
    with 2 show ?thesis by auto
  next
    case False
    with 2 hd_dropWhile [OF False] show ?thesis by auto
  qed
qed simp

lemma wf_utf8_chunks [simp]: "wf_chunks (utf8_chunks s)"
proof (cases s)
  case Nil
  then show ?thesis by (simp add: wf_chunks_def)
next
  case (Cons c cs)
  have "\<not> is_cont (hd k)" if "k \<in> set (utf8_chunks (dropWhile is_cont cs))" for k
  proof (cases "dropWhile is_cont cs = []")
    case True
    with that show ?thesis by simp
  next
    case False
    with that hd_dropWhile [OF False] show ?thesis by (metis utf8_chunks_lead)
  qed
  with utf8_chunks_ne [of _ s] Cons show ?thesis by (auto simp: wf_chunks_def)
qed

lemma wf_chunks_sub: "wf_chunks (as @ ks @ bs) \<Longrightarrow> wf_chunks ks"
  by (cases as; cases ks) (auto simp: wf_chunks_def)

lemma utf8_chunks_concat: "wf_chunks ks \<Longrightarrow> utf8_chunks (concat ks) = ks"
proof (induction ks)
  case Nil
  then show ?case by simp
next
  case (Cons k ks)
  then obtain c cs where k: "k = c # cs" and cont: "\<forall>x \<in> set cs. is_cont x"
    by (cases k) (auto simp: wf_chunks_def)
  have wf: "wf_chunks ks" using Cons.prems wf_chunks_sub [of "[k]" ks "[]"] by simp
  have lead: "concat ks = [] \<or> \<not> is_cont (hd (concat ks))"
    using Cons.prems by (cases ks) (auto simp: wf_chunks_def)
  have t: "takeWhile is_cont (concat ks) = []" and d: "dropWhile is_cont (concat ks) = concat ks"
    using lead takeWhile_eq_Nil_iff dropWhile_eq_self_iff by metis+
  have "takeWhile is_cont (cs @ concat ks) = cs" "dropWhile is_cont (cs @ concat ks) = concat ks"
    using cont t d by (simp_all add: takeWhile_append2 dropWhile_append2)
  with Cons.IH [OF wf] k show ?case by simp
qed

lemma utf8_chunks_trim: "utf8_chunks (trim s) = strip_ends is_whitespace_chunk (utf8_chunks s)"
proof -
  obtain as bs where eq: "utf8_chunks s = as @ strip_ends is_whitespace_chunk (utf8_chunks s) @ bs"
    using strip_ends_sublist by blast
  have "wf_chunks (strip_ends is_whitespace_chunk (utf8_chunks s))"
    by (rule wf_chunks_sub [of as _ bs]) (simp flip: eq)
  then show ?thesis by (simp add: trim_def utf8_chunks_concat)
qed

lemma trim_idem [simp]: "trim (trim s) = trim s"
  unfolding trim_def [of "trim s"] utf8_chunks_trim by (simp add: trim_def)

lemma chars_count_trim: "chars_count (trim s) \<le> chars_count s"
  by (simp add: chars_count_def utf8_chunks_trim)

lemma chars_count_le_length: "chars_count s \<le> length s"
  unfolding chars_count_def
  by (induction s rule: utf8_chunks.induct)
     (auto intro: le_trans [OF _ length_dropWhile_le])

lemma chars_count_0 [simp]: "chars_count s = 0 \<longleftrightarrow> s = []"
  by (cases s) (auto simp: chars_count_def)

text \<open>On ASCII text every byte is one scalar.\<close>

lemma utf8_chunks_ascii: "\<forall>c \<in> set s. byte c < 128 \<Longrightarrow> utf8_chunks s = map (\<lambda>c. [c]) s"
proof (induction s)
  case (Cons c cs)
  then have "takeWhile is_cont cs = []" "dropWhile is_cont cs = cs"
    by (cases cs; simp add: is_cont_def)+
  with Cons show ?case by simp
qed simp

lemma chars_count_ascii: "\<forall>c \<in> set s. byte c < 128 \<Longrightarrow> chars_count s = length s"
  by (simp add: chars_count_def utf8_chunks_ascii)

lemma trim_graphic:
  assumes "\<forall>c \<in> set s. 32 < byte c \<and> byte c < 128"
  shows "trim s = s"
proof -
  have u: "utf8_chunks s = map (\<lambda>c. [c]) s" using assms by (simp add: utf8_chunks_ascii)
  have "\<not> is_whitespace_chunk k" if "k \<in> set (utf8_chunks s)" for k
    using that assms unfolding u by (auto simp: is_whitespace_chunk_def)
  then have "strip_ends is_whitespace_chunk (utf8_chunks s) = utf8_chunks s"
    by (intro strip_ends_id) (metis hd_in_set last_in_set)
  then show ?thesis by (simp add: trim_def)
qed

subsection \<open>Searching\<close>

lemma strip_prefix_Some: "strip_prefix p s = Some r \<longleftrightarrow> s = p @ r"
  by (auto simp: strip_prefix_def) (metis append_take_drop_id)

lemma strip_suffix_Some: "strip_suffix p s = Some r \<longleftrightarrow> s = r @ p"
  by (auto simp: strip_suffix_def strip_prefix_Some) (metis rev_append rev_rev_ident)

lemma split_once_Some: "split_once pat s = Some (a, b) \<Longrightarrow> s = a @ pat @ b"
proof (induction pat s arbitrary: a rule: split_once.induct)
  case (2 pat c cs)
  then show ?case
    by (auto split: if_splits simp: strip_prefix_def) (metis append_take_drop_id)
qed (auto split: if_splits)

end
