(* ===== verification/Domain_Core.thy ===== *)
theory Domain_Core
  imports Prelude
begin

text \<open>
  The leaf modules of \<^verbatim>\<open>crates/domain\<close>: wire error codes and their HTTP statuses
  (\<^verbatim>\<open>error.rs\<close>), aggregate identifiers (\<^verbatim>\<open>ids.rs\<close>), integer-minor-unit money (\<^verbatim>\<open>money.rs\<close>)
  and the z-base-32 codec of Pubky identifiers (\<^verbatim>\<open>pubky.rs\<close>).  The codec works on the
  program's \<open>u64\<close> accumulator, kept at its width.
\<close>

unbundle bit_operations_syntax

section \<open>Error codes\<close>

datatype error_code =
    InvalidCommand | Unauthorized | NotFound | RevisionConflict | IdempotencyConflict
  | InsufficientInventory | InvariantViolation | OfferExpired | InvalidState | AuctionClosed
  | BidTooLow | SellerRegistrationRequired | UpstreamUnavailable | AwardExpired
  | AwardAlreadyConverted | AwardQuantityMismatch | AwardVariantMismatch | AwardListingChanged
  | AwardHoldMissing

fun http_status :: "error_code \<Rightarrow> nat" where
  "http_status InvalidCommand = 422"
| "http_status Unauthorized = 403"
| "http_status NotFound = 404"
| "http_status UpstreamUnavailable = 503"
| "http_status _ = 409"

section \<open>Aggregate identifiers\<close>

definition listing_aggregate_id :: "pubky \<Rightarrow> string \<Rightarrow> string" where
  "listing_aggregate_id seller_pubky listing_id = ''listing:'' @ seller_pubky @ ''_'' @ listing_id"

definition drop_aggregate_id :: "pubky \<Rightarrow> string \<Rightarrow> string" where
  "drop_aggregate_id seller_pubky drop_id = ''drop:'' @ seller_pubky @ ''_'' @ drop_id"

definition checkout_aggregate_id :: "uuid \<Rightarrow> string" where
  "checkout_aggregate_id command_id = ''checkout:'' @ command_id"

definition order_aggregate_id :: "uuid \<Rightarrow> string" where
  "order_aggregate_id order_id = ''order:'' @ order_id"

definition payment_aggregate_id :: "uuid \<Rightarrow> string" where
  "payment_aggregate_id payment_id = ''payment:'' @ payment_id"

definition offer_aggregate_id :: "uuid \<Rightarrow> string" where
  "offer_aggregate_id offer_id = ''offer:'' @ offer_id"

definition seller_settings_aggregate_id :: "pubky \<Rightarrow> string" where
  "seller_settings_aggregate_id seller_pubky = ''seller_settings:'' @ seller_pubky"

section \<open>Money\<close>

definition MAX_SAFE_INTEGER :: int where
  "MAX_SAFE_INTEGER = 9007199254740991"

record money =
  amount_minor :: int
  currency :: string
  exponent :: int

definition with_amount :: "money \<Rightarrow> int \<Rightarrow> money" where
  "with_amount m a = m\<lparr>amount_minor := a\<rparr>"

definition same_asset :: "money \<Rightarrow> money \<Rightarrow> bool" where
  "same_asset m other \<longleftrightarrow> currency m = currency other \<and> exponent m = exponent other"

section \<open>Pubky identifiers\<close>

definition Z_BASE_32_ALPHABET :: string where
  "Z_BASE_32_ALPHABET = ''ybndrfg8ejkmcpqxot1uwisza345h769''"

definition is_valid_pubky :: "string \<Rightarrow> bool" where
  "is_valid_pubky v \<longleftrightarrow> length v = 52 \<and> list_all (\<lambda>c. c \<in> set Z_BASE_32_ALPHABET) v"

text \<open>
  The inner loop of \<open>encode_pubky\<close>: while at least five bits are pending, the five highest of
  them become one character.
\<close>

function emit_groups :: "64 word \<Rightarrow> nat \<Rightarrow> string \<Rightarrow> nat \<times> string" where
  "emit_groups accumulator bit_count output =
     (if 5 \<le> bit_count
      then emit_groups accumulator (bit_count - 5)
             (output @ [Z_BASE_32_ALPHABET ! unat (drop_bit (bit_count - 5) accumulator AND 31)])
      else (bit_count, output))"
  by pat_completeness auto
termination
  by (relation "measure (\<lambda>(a, n, s). n)") auto

declare emit_groups.simps [simp del]

text \<open>The outer loop: one key byte enters the accumulator, then the full groups leave it.\<close>

fun encode_loop :: "8 word list \<Rightarrow> 64 word \<Rightarrow> nat \<Rightarrow> string \<Rightarrow> 64 word \<times> nat \<times> string" where
  "encode_loop [] accumulator bit_count output = (accumulator, bit_count, output)"
| "encode_loop (b # key) accumulator bit_count output =
     (let accumulator' = push_bit 8 accumulator OR ucast b;
          (bit_count', output') = emit_groups accumulator' (bit_count + 8) output
      in encode_loop key accumulator' bit_count' output')"

definition encode_pubky :: "8 word list \<Rightarrow> string" where
  "encode_pubky key =
     (let (accumulator, bit_count, output) = encode_loop key 0 0 []
      in output @ [Z_BASE_32_ALPHABET ! unat (push_bit (5 - bit_count) accumulator AND 31)])"

section \<open>Facts on identifiers and money\<close>

lemma order_aggregate_id_inj [simp]: "order_aggregate_id a = order_aggregate_id b \<longleftrightarrow> a = b"
  by (simp add: order_aggregate_id_def)

lemma payment_aggregate_id_inj [simp]: "payment_aggregate_id a = payment_aggregate_id b \<longleftrightarrow> a = b"
  by (simp add: payment_aggregate_id_def)

lemma order_ne_payment [simp]: "order_aggregate_id a \<noteq> payment_aggregate_id b"
  by (simp add: order_aggregate_id_def payment_aggregate_id_def)

text \<open>A listing id names one seller and one listing: a pubky has a fixed length.\<close>

lemma listing_aggregate_id_inj:
  assumes "is_valid_pubky s" "is_valid_pubky s'"
    and "listing_aggregate_id s l = listing_aggregate_id s' l'"
  shows "s = s' \<and> l = l'"
  using assms by (simp add: listing_aggregate_id_def is_valid_pubky_def)

lemma with_amount_simps [simp]:
  "amount_minor (with_amount m a) = a"
  "currency (with_amount m a) = currency m"
  "exponent (with_amount m a) = exponent m"
  by (simp_all add: with_amount_def)

lemma same_asset_refl [simp]: "same_asset m m"
  by (simp add: same_asset_def)

lemma same_asset_sym: "same_asset m n \<Longrightarrow> same_asset n m"
  by (simp add: same_asset_def)

lemma same_asset_trans: "same_asset l m \<Longrightarrow> same_asset m n \<Longrightarrow> same_asset l n"
  by (simp add: same_asset_def)

section \<open>The z-base-32 codec as arithmetic\<close>

text \<open>
  The characters already written, read back as base-32 digits, and the pending low bits of the
  accumulator together hold the key bytes consumed so far, read as base-256 digits.
\<close>

definition zb32_digit :: "char \<Rightarrow> nat" where
  "zb32_digit c = length (takeWhile (\<lambda>d. d \<noteq> c) Z_BASE_32_ALPHABET)"

definition zb32_value :: "string \<Rightarrow> nat" where
  "zb32_value s = foldl (\<lambda>v c. 32 * v + zb32_digit c) 0 s"

definition key_value :: "8 word list \<Rightarrow> nat" where
  "key_value k = foldl (\<lambda>v b. 256 * v + unat b) 0 k"

lemma length_alphabet [simp]: "length Z_BASE_32_ALPHABET = 32"
  by (simp add: Z_BASE_32_ALPHABET_def)

lemma distinct_alphabet: "distinct Z_BASE_32_ALPHABET"
  by (simp add: Z_BASE_32_ALPHABET_def)

lemma length_takeWhile_nth:
  "distinct xs \<Longrightarrow> i < length xs \<Longrightarrow> length (takeWhile (\<lambda>d. d \<noteq> xs ! i) xs) = i"
proof (induction xs arbitrary: i)
  case (Cons x xs)
  then show ?case by (cases i) (auto simp: nth_Cons')
qed simp

lemma zb32_digit_nth [simp]: "i < 32 \<Longrightarrow> zb32_digit (Z_BASE_32_ALPHABET ! i) = i"
  unfolding zb32_digit_def by (rule length_takeWhile_nth) (simp_all add: distinct_alphabet)

lemma unat_and_31: "unat (w AND 31 :: 64 word) = unat w mod 32"
proof -
  have m: "w AND 31 = take_bit 5 w" by (simp add: take_bit_eq_mask mask_eq_exp_minus_1)
  have "unat (take_bit 5 w) = take_bit 5 (unat w)" by (rule unsigned_take_bit_eq)
  then show ?thesis unfolding m by (simp add: take_bit_eq_mod)
qed

lemma unat_group: "unat (drop_bit n (w :: 64 word) AND 31) = unat w div 2 ^ n mod 32"
  unfolding unat_and_31 unat_drop_bit_eq by (simp add: drop_bit_eq_div)

lemma unat_group_less [simp]: "unat (w AND 31 :: 64 word) < 32"
  by (simp add: unat_and_31)

lemma zb32_value_snoc [simp]: "zb32_value (s @ [c]) = 32 * zb32_value s + zb32_digit c"
  by (simp add: zb32_value_def)

lemma key_value_snoc [simp]: "key_value (k @ [b]) = 256 * key_value k + unat b"
  by (simp add: key_value_def)

lemma push_byte_mod:
  assumes "n + 8 \<le> 64"
  shows "unat (push_bit 8 (acc :: 64 word) OR ucast (b :: 8 word)) mod 2 ^ (n + 8)
         = (unat acc mod 2 ^ n) * 256 + unat b"
proof -
  let ?w = "push_bit 8 acc OR ucast b :: 64 word"
  have disj: "push_bit 8 acc AND ucast b = (0 :: 64 word)"
    by (rule bit_eqI) (auto simp: bit_simps dest: bit_imp_le_length)
  have w: "?w = push_bit 8 acc + ucast b"
    using disjunctive_add_eq_or [OF disj] by simp
  have b: "unat (ucast b :: 64 word) = unat b"
    using unsigned_less [where 'b = 8 and 'a = nat, of b]
    by (simp add: unsigned_ucast_eq take_bit_eq_mod)
  have "unat ?w = (unat acc * 256 + unat b) mod 2 ^ 64"
    unfolding w by (simp add: unat_word_ariths push_bit_eq_mult b mod_simps)
  then have "unat ?w mod 2 ^ (n + 8) = (unat acc * 256 + unat b) mod 2 ^ (n + 8)"
    using mod_mod_cancel [OF le_imp_power_dvd [OF assms, of "2 :: nat"]] by simp
  also have "\<dots> = (unat acc mod 2 ^ n) * 256 + unat b"
  proof -
    have "unat b < 256" using unsigned_less [where 'b = 8 and 'a = nat, of b] by simp
    then have "(unat acc * 256 + unat b) mod (256 * 2 ^ n)
        = 256 * ((unat acc * 256 + unat b) div 256 mod 2 ^ n) + (unat acc * 256 + unat b) mod 256"
      by (simp only: mod_mult2_eq)
    with \<open>unat b < 256\<close> show ?thesis by (simp add: power_add mult.commute)
  qed
  finally show ?thesis .
qed

lemma emit_groups_value:
  "emit_groups acc n out = (n', out') \<Longrightarrow>
     zb32_value out' * 2 ^ n' + unat acc mod 2 ^ n' = zb32_value out * 2 ^ n + unat acc mod 2 ^ n
     \<and> 5 * length out' + n' = 5 * length out + n \<and> n' < 5"
proof (induction acc n out rule: emit_groups.induct)
  case (1 acc n out)
  show ?case
  proof (cases "5 \<le> n")
    case False
    with "1.prems" show ?thesis by (auto simp: emit_groups.simps [of acc n out])
  next
    case True
    let ?d = "unat (drop_bit (n - 5) acc AND 31)"
    have step: "emit_groups acc (n - 5) (out @ [Z_BASE_32_ALPHABET ! ?d]) = (n', out')"
      using True "1.prems" by (simp add: emit_groups.simps [of acc n out])
    have pow: "(2 :: nat) ^ n = 2 ^ (n - 5) * 32"
      using power_add [of "2 :: nat" "n - 5" 5] True by simp
    have "unat acc mod 2 ^ n = 2 ^ (n - 5) * ?d + unat acc mod 2 ^ (n - 5)"
      unfolding pow mod_mult2_eq by (simp add: unat_group)
    with "1.IH" [OF True step] pow True show ?thesis
      by (simp add: algebra_simps)
  qed
qed

lemma encode_loop_value:
  assumes "encode_loop key acc n out = (acc', n', out')"
    and "key_value k = zb32_value out * 2 ^ n + unat acc mod 2 ^ n"
    and "5 * length out + n = 8 * length k" and "n < 5"
  shows "key_value (k @ key) = zb32_value out' * 2 ^ n' + unat acc' mod 2 ^ n'
    \<and> 5 * length out' + n' = 8 * (length k + length key) \<and> n' < 5"
  using assms
proof (induction key acc n out arbitrary: k rule: encode_loop.induct)
  case (2 b key acc n out)
  let ?a = "push_bit 8 acc OR ucast b :: 64 word"
  obtain m s where e: "emit_groups ?a (n + 8) out = (m, s)" by force
  note v = emit_groups_value [OF e]
  have "key_value (k @ [b]) = zb32_value out * 2 ^ (n + 8) + unat ?a mod 2 ^ (n + 8)"
    using "2.prems" push_byte_mod [of n acc b] by (simp add: power_add algebra_simps)
  with v have "key_value (k @ [b]) = zb32_value s * 2 ^ m + unat ?a mod 2 ^ m" by simp
  moreover have "encode_loop key ?a m s = (acc', n', out')"
    using "2.prems"(1) e by (simp add: Let_def)
  moreover have "5 * length s + m = 8 * length (k @ [b])" using v "2.prems" by simp
  ultimately show ?case
    using "2.IH" [OF refl e [symmetric] refl, of "k @ [b]"] v by simp
qed auto

lemma encode_pubky_value:
  assumes "length key = 32"
  shows "length (encode_pubky key) = 52" and "2 * zb32_value (encode_pubky key) = 32 * key_value key"
proof -
  obtain acc n out where l: "encode_loop key 0 0 [] = (acc, n, out)" by (metis prod_cases3)
  have inv: "key_value key = zb32_value out * 2 ^ n + unat acc mod 2 ^ n
    \<and> 5 * length out + n = 8 * length key \<and> n < 5"
    using encode_loop_value [OF l, of "[]"] by (simp add: key_value_def zb32_value_def)
  then have "5 * length out + n = 256" "n < 5" using assms by simp_all
  then have n: "n = 1" by presburger
  have out: "length out = 51" using inv assms \<open>n = 1\<close> by simp
  have v: "key_value key = zb32_value out * 2 + unat acc mod 2" using inv n by simp
  have "unat (push_bit 4 acc AND 31) = 16 * (unat acc mod 2)"
  proof -
    have "unat (push_bit 4 acc) = (unat acc * 16) mod 2 ^ 64"
      by (simp add: push_bit_eq_mult unat_word_ariths)
    then have "unat (push_bit 4 acc AND 31) = (unat acc * 16) mod 2 ^ 64 mod 32"
      by (simp only: unat_and_31)
    also have "\<dots> = (unat acc * 16) mod (2 * 16)"
      by (subst mod_mod_cancel) simp_all
    also have "\<dots> = 16 * (unat acc mod 2)"
      by (subst mod_mult_mult2) simp
    finally show ?thesis .
  qed
  with l n v out show "length (encode_pubky key) = 52"
    and "2 * zb32_value (encode_pubky key) = 32 * key_value key"
    by (simp_all add: encode_pubky_def)
qed

lemma key_value_less: "key_value k < 256 ^ length k"
proof (induction k rule: rev_induct)
  case (snoc b k)
  have "unat b < 256" using unsigned_less [where 'b = 8 and 'a = nat, of b] by simp
  with snoc show ?case by simp
qed (simp add: key_value_def)

lemma key_value_inj: "length k = length k' \<Longrightarrow> key_value k = key_value k' \<Longrightarrow> k = k'"
proof (induction k arbitrary: k' rule: rev_induct)
  case (snoc b k)
  obtain k0 b0 where k': "k' = k0 @ [b0]" using snoc.prems(1) by (cases k' rule: rev_cases) auto
  have lt: "unat b < 256" "unat b0 < 256"
    using unsigned_less [where 'b = 8 and 'a = nat, of b] unsigned_less [where 'b = 8 and 'a = nat, of b0]
    by simp_all
  have "(256 * key_value k + unat b) div 256 = (256 * key_value k0 + unat b0) div 256"
    and "(256 * key_value k + unat b) mod 256 = (256 * key_value k0 + unat b0) mod 256"
    using snoc.prems(2) k' by simp_all
  with lt have "key_value k = key_value k0" and b: "unat b = unat b0" by simp_all
  then have "k = k0" using snoc.IH snoc.prems(1) k' by simp
  with b k' show ?case by (simp add: word_unat_eq_iff)
qed auto

lemma emit_groups_alphabet:
  "emit_groups acc n out = (n', out') \<Longrightarrow> set out \<subseteq> set Z_BASE_32_ALPHABET \<Longrightarrow>
     set out' \<subseteq> set Z_BASE_32_ALPHABET"
proof (induction acc n out rule: emit_groups.induct)
  case (1 acc n out)
  have "Z_BASE_32_ALPHABET ! unat (w AND 31 :: 64 word) \<in> set Z_BASE_32_ALPHABET" for w
    by (rule nth_mem) simp
  with 1 show ?case
    by (simp add: emit_groups.simps [of acc n out] split: if_splits)
qed

lemma encode_loop_alphabet:
  "encode_loop key acc n out = (acc', n', out') \<Longrightarrow> set out \<subseteq> set Z_BASE_32_ALPHABET \<Longrightarrow>
     set out' \<subseteq> set Z_BASE_32_ALPHABET"
proof (induction key acc n out rule: encode_loop.induct)
  case (2 b key acc n out)
  obtain m s where e: "emit_groups (push_bit 8 acc OR ucast b) (n + 8) out = (m, s)" by force
  then have "set s \<subseteq> set Z_BASE_32_ALPHABET" using emit_groups_alphabet "2.prems"(2) by blast
  with "2.IH" [OF refl e [symmetric] refl] "2.prems"(1) e show ?case by (simp add: Let_def)
qed simp

section \<open>Properties\<close>

text \<open>Every 32-byte key encodes to a well-formed Pubky identifier: exactly 52 characters, all of
  the z-base-32 alphabet.\<close>

theorem encode_pubky_valid:
  assumes "length key = 32"
  shows "is_valid_pubky (encode_pubky key)"
proof -
  obtain acc n out where l: "encode_loop key 0 0 [] = (acc, n, out)" by (metis prod_cases3)
  have "set out \<subseteq> set Z_BASE_32_ALPHABET" using encode_loop_alphabet [OF l] by simp
  moreover have "Z_BASE_32_ALPHABET ! unat (push_bit (5 - n) acc AND 31) \<in> set Z_BASE_32_ALPHABET"
    by (rule nth_mem) simp
  ultimately show ?thesis
    using l encode_pubky_value(1) [OF assms]
    by (auto simp: is_valid_pubky_def encode_pubky_def list_all_iff)
qed

theorem encode_pubky_valid_witness:
  "length (replicate 32 (255 :: 8 word)) = 32 \<and> is_valid_pubky (encode_pubky (replicate 32 255))"
  using encode_pubky_valid [of "replicate 32 255"] by simp

text \<open>The encoding loses nothing: two different 32-byte keys never share a Pubky, although the
  accumulator is a 64-bit word that drops the high bits of every earlier byte.\<close>

theorem encode_pubky_injective:
  assumes "length key = 32" and "length key' = 32"
  shows "encode_pubky key = encode_pubky key' \<longleftrightarrow> key = key'"
proof
  assume "encode_pubky key = encode_pubky key'"
  then have "32 * key_value key = 32 * key_value key'"
    using encode_pubky_value(2) assms by metis
  then show "key = key'" using assms by (simp add: key_value_inj)
qed simp

theorem encode_pubky_injective_witness:
  "encode_pubky (replicate 32 0) \<noteq> encode_pubky (1 # replicate 31 0)"
  using encode_pubky_injective [of "replicate 32 0" "1 # replicate 31 0"]
  by (simp add: numeral_eq_Suc)

end
