(* ===== verification/Postal.thy ===== *)
theory Postal
  imports Prelude
begin

text \<open>
  The postal-region rules of \<^verbatim>\<open>crates/domain/src/postal.rs\<close> and the table
  \<^verbatim>\<open>contracts/postal-region-rules.json\<close> they are compiled with.  The table is transcribed as the
  value that deserializing the file gives (an absent \<open>region_label\<close> is \<^const>\<open>None\<close>, an absent
  \<open>subdivisions\<close> is the empty list).  The two \<open>tracing::warn!\<close> calls of \<open>canonicalize_region\<close> are
  not modelled: they do not influence its result.
\<close>

section \<open>The rules file\<close>

record subdivision =
  sub_code :: string
  sub_name :: string

record country_override =
  ov_region_required :: bool
  ov_region_label :: "string option"
  ov_subdivisions :: "subdivision list"

record default_rule =
  df_region_required :: bool
  df_region_label :: string

record postal_region_rules_file =
  rf_version :: nat
  rf_region_max_chars :: nat
  rf_default :: default_rule
  rf_countries :: "(string \<times> country_override) list"

record postal_country_rule =
  region_required :: bool
  region_label :: string
  subdivisions :: "(string \<times> string) list"

record postal_region_rules =
  pr_region_max_chars :: nat
  pr_default :: postal_country_rule
  pr_countries :: "(string \<times> postal_country_rule) list"

definition us_subdivisions :: "subdivision list" where
  "us_subdivisions =
      [
       \<lparr>sub_code = ''AL'', sub_name = ''Alabama''\<rparr>,
       \<lparr>sub_code = ''AK'', sub_name = ''Alaska''\<rparr>,
       \<lparr>sub_code = ''AZ'', sub_name = ''Arizona''\<rparr>,
       \<lparr>sub_code = ''AR'', sub_name = ''Arkansas''\<rparr>,
       \<lparr>sub_code = ''CA'', sub_name = ''California''\<rparr>,
       \<lparr>sub_code = ''CO'', sub_name = ''Colorado''\<rparr>,
       \<lparr>sub_code = ''CT'', sub_name = ''Connecticut''\<rparr>,
       \<lparr>sub_code = ''DE'', sub_name = ''Delaware''\<rparr>,
       \<lparr>sub_code = ''DC'', sub_name = ''District of Columbia''\<rparr>,
       \<lparr>sub_code = ''FL'', sub_name = ''Florida''\<rparr>,
       \<lparr>sub_code = ''GA'', sub_name = ''Georgia''\<rparr>,
       \<lparr>sub_code = ''HI'', sub_name = ''Hawaii''\<rparr>,
       \<lparr>sub_code = ''ID'', sub_name = ''Idaho''\<rparr>,
       \<lparr>sub_code = ''IL'', sub_name = ''Illinois''\<rparr>,
       \<lparr>sub_code = ''IN'', sub_name = ''Indiana''\<rparr>,
       \<lparr>sub_code = ''IA'', sub_name = ''Iowa''\<rparr>,
       \<lparr>sub_code = ''KS'', sub_name = ''Kansas''\<rparr>,
       \<lparr>sub_code = ''KY'', sub_name = ''Kentucky''\<rparr>,
       \<lparr>sub_code = ''LA'', sub_name = ''Louisiana''\<rparr>,
       \<lparr>sub_code = ''ME'', sub_name = ''Maine''\<rparr>,
       \<lparr>sub_code = ''MD'', sub_name = ''Maryland''\<rparr>,
       \<lparr>sub_code = ''MA'', sub_name = ''Massachusetts''\<rparr>,
       \<lparr>sub_code = ''MI'', sub_name = ''Michigan''\<rparr>,
       \<lparr>sub_code = ''MN'', sub_name = ''Minnesota''\<rparr>,
       \<lparr>sub_code = ''MS'', sub_name = ''Mississippi''\<rparr>,
       \<lparr>sub_code = ''MO'', sub_name = ''Missouri''\<rparr>,
       \<lparr>sub_code = ''MT'', sub_name = ''Montana''\<rparr>,
       \<lparr>sub_code = ''NE'', sub_name = ''Nebraska''\<rparr>,
       \<lparr>sub_code = ''NV'', sub_name = ''Nevada''\<rparr>,
       \<lparr>sub_code = ''NH'', sub_name = ''New Hampshire''\<rparr>,
       \<lparr>sub_code = ''NJ'', sub_name = ''New Jersey''\<rparr>,
       \<lparr>sub_code = ''NM'', sub_name = ''New Mexico''\<rparr>,
       \<lparr>sub_code = ''NY'', sub_name = ''New York''\<rparr>,
       \<lparr>sub_code = ''NC'', sub_name = ''North Carolina''\<rparr>,
       \<lparr>sub_code = ''ND'', sub_name = ''North Dakota''\<rparr>,
       \<lparr>sub_code = ''OH'', sub_name = ''Ohio''\<rparr>,
       \<lparr>sub_code = ''OK'', sub_name = ''Oklahoma''\<rparr>,
       \<lparr>sub_code = ''OR'', sub_name = ''Oregon''\<rparr>,
       \<lparr>sub_code = ''PA'', sub_name = ''Pennsylvania''\<rparr>,
       \<lparr>sub_code = ''RI'', sub_name = ''Rhode Island''\<rparr>,
       \<lparr>sub_code = ''SC'', sub_name = ''South Carolina''\<rparr>,
       \<lparr>sub_code = ''SD'', sub_name = ''South Dakota''\<rparr>,
       \<lparr>sub_code = ''TN'', sub_name = ''Tennessee''\<rparr>,
       \<lparr>sub_code = ''TX'', sub_name = ''Texas''\<rparr>,
       \<lparr>sub_code = ''UT'', sub_name = ''Utah''\<rparr>,
       \<lparr>sub_code = ''VT'', sub_name = ''Vermont''\<rparr>,
       \<lparr>sub_code = ''VA'', sub_name = ''Virginia''\<rparr>,
       \<lparr>sub_code = ''WA'', sub_name = ''Washington''\<rparr>,
       \<lparr>sub_code = ''WV'', sub_name = ''West Virginia''\<rparr>,
       \<lparr>sub_code = ''WI'', sub_name = ''Wisconsin''\<rparr>,
       \<lparr>sub_code = ''WY'', sub_name = ''Wyoming''\<rparr>,
       \<lparr>sub_code = ''AS'', sub_name = ''American Samoa''\<rparr>,
       \<lparr>sub_code = ''GU'', sub_name = ''Guam''\<rparr>,
       \<lparr>sub_code = ''MP'', sub_name = ''Northern Mariana Islands''\<rparr>,
       \<lparr>sub_code = ''PR'', sub_name = ''Puerto Rico''\<rparr>,
       \<lparr>sub_code = ''VI'', sub_name = ''U.S. Virgin Islands''\<rparr>,
       \<lparr>sub_code = ''AA'', sub_name = ''Armed Forces Americas''\<rparr>,
       \<lparr>sub_code = ''AE'', sub_name = ''Armed Forces Europe''\<rparr>,
       \<lparr>sub_code = ''AP'', sub_name = ''Armed Forces Pacific''\<rparr>]"

definition ca_subdivisions :: "subdivision list" where
  "ca_subdivisions =
      [
       \<lparr>sub_code = ''AB'', sub_name = ''Alberta''\<rparr>,
       \<lparr>sub_code = ''BC'', sub_name = ''British Columbia''\<rparr>,
       \<lparr>sub_code = ''MB'', sub_name = ''Manitoba''\<rparr>,
       \<lparr>sub_code = ''NB'', sub_name = ''New Brunswick''\<rparr>,
       \<lparr>sub_code = ''NL'', sub_name = ''Newfoundland and Labrador''\<rparr>,
       \<lparr>sub_code = ''NS'', sub_name = ''Nova Scotia''\<rparr>,
       \<lparr>sub_code = ''NT'', sub_name = ''Northwest Territories''\<rparr>,
       \<lparr>sub_code = ''NU'', sub_name = ''Nunavut''\<rparr>,
       \<lparr>sub_code = ''ON'', sub_name = ''Ontario''\<rparr>,
       \<lparr>sub_code = ''PE'', sub_name = ''Prince Edward Island''\<rparr>,
       \<lparr>sub_code = ''QC'', sub_name = ''Quebec''\<rparr>,
       \<lparr>sub_code = ''SK'', sub_name = ''Saskatchewan''\<rparr>,
       \<lparr>sub_code = ''YT'', sub_name = ''Yukon''\<rparr>]"

definition au_subdivisions :: "subdivision list" where
  "au_subdivisions =
      [
       \<lparr>sub_code = ''ACT'', sub_name = ''Australian Capital Territory''\<rparr>,
       \<lparr>sub_code = ''NSW'', sub_name = ''New South Wales''\<rparr>,
       \<lparr>sub_code = ''NT'', sub_name = ''Northern Territory''\<rparr>,
       \<lparr>sub_code = ''QLD'', sub_name = ''Queensland''\<rparr>,
       \<lparr>sub_code = ''SA'', sub_name = ''South Australia''\<rparr>,
       \<lparr>sub_code = ''TAS'', sub_name = ''Tasmania''\<rparr>,
       \<lparr>sub_code = ''VIC'', sub_name = ''Victoria''\<rparr>,
       \<lparr>sub_code = ''WA'', sub_name = ''Western Australia''\<rparr>]"

definition postal_region_rules_json :: postal_region_rules_file where
  "postal_region_rules_json = \<lparr>
     rf_version = 1,
     rf_region_max_chars = 100,
     rf_default = \<lparr>df_region_required = False, df_region_label = ''Region''\<rparr>,
     rf_countries = [
     (''US'', \<lparr>ov_region_required = True, ov_region_label = Some ''State'', ov_subdivisions = us_subdivisions\<rparr>),
     (''CA'', \<lparr>ov_region_required = True, ov_region_label = Some ''Province'', ov_subdivisions = ca_subdivisions\<rparr>),
     (''AU'', \<lparr>ov_region_required = True, ov_region_label = Some ''State'', ov_subdivisions = au_subdivisions\<rparr>),
     (''JP'', \<lparr>ov_region_required = False, ov_region_label = Some ''Prefecture'', ov_subdivisions = []\<rparr>),
     (''AE'', \<lparr>ov_region_required = True, ov_region_label = None, ov_subdivisions = []\<rparr>),
     (''AR'', \<lparr>ov_region_required = True, ov_region_label = None, ov_subdivisions = []\<rparr>),
     (''BD'', \<lparr>ov_region_required = True, ov_region_label = None, ov_subdivisions = []\<rparr>),
     (''BR'', \<lparr>ov_region_required = True, ov_region_label = Some ''State'', ov_subdivisions = []\<rparr>),
     (''CL'', \<lparr>ov_region_required = True, ov_region_label = None, ov_subdivisions = []\<rparr>),
     (''CN'', \<lparr>ov_region_required = True, ov_region_label = None, ov_subdivisions = []\<rparr>),
     (''CO'', \<lparr>ov_region_required = True, ov_region_label = None, ov_subdivisions = []\<rparr>),
     (''EG'', \<lparr>ov_region_required = True, ov_region_label = None, ov_subdivisions = []\<rparr>),
     (''ID'', \<lparr>ov_region_required = True, ov_region_label = None, ov_subdivisions = []\<rparr>),
     (''IN'', \<lparr>ov_region_required = True, ov_region_label = Some ''State'', ov_subdivisions = []\<rparr>),
     (''KR'', \<lparr>ov_region_required = True, ov_region_label = None, ov_subdivisions = []\<rparr>),
     (''MX'', \<lparr>ov_region_required = True, ov_region_label = Some ''State'', ov_subdivisions = []\<rparr>),
     (''MY'', \<lparr>ov_region_required = True, ov_region_label = None, ov_subdivisions = []\<rparr>),
     (''NG'', \<lparr>ov_region_required = True, ov_region_label = None, ov_subdivisions = []\<rparr>),
     (''PE'', \<lparr>ov_region_required = True, ov_region_label = None, ov_subdivisions = []\<rparr>),
     (''PH'', \<lparr>ov_region_required = True, ov_region_label = None, ov_subdivisions = []\<rparr>),
     (''PK'', \<lparr>ov_region_required = True, ov_region_label = None, ov_subdivisions = []\<rparr>),
     (''SA'', \<lparr>ov_region_required = True, ov_region_label = None, ov_subdivisions = []\<rparr>),
     (''TH'', \<lparr>ov_region_required = True, ov_region_label = None, ov_subdivisions = []\<rparr>),
     (''TR'', \<lparr>ov_region_required = True, ov_region_label = None, ov_subdivisions = []\<rparr>),
     (''VN'', \<lparr>ov_region_required = True, ov_region_label = None, ov_subdivisions = []\<rparr>),
     (''ZA'', \<lparr>ov_region_required = True, ov_region_label = None, ov_subdivisions = []\<rparr>)]\<rparr>"

section \<open>Rules and lookups\<close>

definition resolve_override :: "postal_region_rules_file \<Rightarrow> country_override \<Rightarrow> postal_country_rule" where
  "resolve_override file ov = \<lparr>
     region_required = ov_region_required ov,
     region_label = (case ov_region_label ov of
         Some l \<Rightarrow> l | None \<Rightarrow> df_region_label (rf_default file)),
     subdivisions = map (\<lambda>item. (sub_code item, sub_name item)) (ov_subdivisions ov)\<rparr>"

definition rules_of :: "postal_region_rules_file \<Rightarrow> postal_region_rules" where
  "rules_of file = \<lparr>
     pr_region_max_chars = rf_region_max_chars file,
     pr_default = \<lparr>region_required = df_region_required (rf_default file),
                   region_label = df_region_label (rf_default file), subdivisions = []\<rparr>,
     pr_countries = map (\<lambda>(code, ov). (code, resolve_override file ov)) (rf_countries file)\<rparr>"

definition rules :: postal_region_rules where
  "rules = rules_of postal_region_rules_json"

definition region_max_chars :: nat where
  "region_max_chars = pr_region_max_chars rules"

definition postal_country_rule_of :: "string \<Rightarrow> postal_country_rule" where
  "postal_country_rule_of country_code =
     (let country = to_ascii_uppercase (trim country_code)
      in case map_of (pr_countries rules) country of
           Some rule \<Rightarrow> rule | None \<Rightarrow> pr_default rules)"

definition is_region_required :: "string \<Rightarrow> bool" where
  "is_region_required country_code = region_required (postal_country_rule_of country_code)"

definition canonicalize_region :: "string \<Rightarrow> string \<Rightarrow> string + string" where
  "canonicalize_region country_code region =
     (let trimmed = trim region;
          rule = postal_country_rule_of country_code
      in if region_max_chars < chars_count trimmed then Inl ''Expected at most 100 characters''
         else if trimmed = [] then
           (if region_required rule then Inl ''Expected between 1 and 100 characters'' else Inr [])
         else if subdivisions rule = [] then Inr trimmed
         else let upper = to_ascii_uppercase trimmed
              in case find (\<lambda>(code, name). eq_ignore_ascii_case code upper) (subdivisions rule) of
                   Some (code, _) \<Rightarrow> Inr code
                 | None \<Rightarrow>
                     (let lower = to_ascii_lowercase trimmed
                      in case find (\<lambda>(code, name). to_ascii_lowercase name = lower) (subdivisions rule) of
                           Some (code, _) \<Rightarrow> Inr code
                         | None \<Rightarrow> Inr trimmed))"

section \<open>Facts on the table\<close>

text \<open>
  What the fixed point below needs of a rule: subdivision codes that differ up to ASCII case, none
  of them empty, over-long or with white space at an end.
\<close>

definition rule_ok :: "postal_country_rule \<Rightarrow> bool" where
  "rule_ok r \<longleftrightarrow> distinct (map (to_ascii_lowercase \<circ> fst) (subdivisions r)) \<and>
     list_all (\<lambda>(c, n). c \<noteq> [] \<and> trim c = c \<and> chars_count c \<le> region_max_chars) (subdivisions r)"

definition upper_code :: "string \<Rightarrow> bool" where
  "upper_code c \<longleftrightarrow> c \<noteq> [] \<and> length c \<le> 3 \<and> list_all (\<lambda>x. x \<in> set ''ABCDEFGHIJKLMNOPQRSTUVWXYZ'') c"

definition upper_codes :: "subdivision list \<Rightarrow> bool" where
  "upper_codes xs \<longleftrightarrow> list_all upper_code (map sub_code xs) \<and> distinct (map sub_code xs)"

lemma us_upper_codes: "upper_codes us_subdivisions"
  by (simp add: upper_codes_def upper_code_def us_subdivisions_def)

lemma ca_upper_codes: "upper_codes ca_subdivisions"
  by (simp add: upper_codes_def upper_code_def ca_subdivisions_def)

lemma au_upper_codes: "upper_codes au_subdivisions"
  by (simp add: upper_codes_def upper_code_def au_subdivisions_def)

lemma upper_letter: "x \<in> set ''ABCDEFGHIJKLMNOPQRSTUVWXYZ'' \<Longrightarrow> is_ascii_upper x"
  by (auto simp: is_ascii_upper_def)

lemma ascii_down_inj: "is_ascii_upper a \<Longrightarrow> is_ascii_upper b \<Longrightarrow> ascii_down a = ascii_down b \<Longrightarrow> a = b"
proof -
  assume a: "is_ascii_upper a" and b: "is_ascii_upper b" and eq: "ascii_down a = ascii_down b"
  have "byte (char_of (byte a + 32) :: char) = byte (char_of (byte b + 32) :: char)"
    using a b eq by (simp add: ascii_down_def)
  then have "byte a + 32 = byte b + 32"
    using a b by (simp add: is_ascii_upper_def)
  then show "a = b" by simp
qed

lemma upper_code_facts:
  assumes "upper_code c"
  shows "c \<noteq> [] \<and> trim c = c \<and> chars_count c \<le> 100"
proof -
  have "\<forall>x \<in> set c. 32 < byte x \<and> byte x < 128"
    using assms upper_letter by (fastforce simp: upper_code_def list_all_iff is_ascii_upper_def)
  then show ?thesis
    using assms trim_graphic [of c] chars_count_ascii [of c] by (simp add: upper_code_def)
qed

lemma upper_code_lower_inj:
  assumes "upper_code c" and "upper_code d" and "to_ascii_lowercase c = to_ascii_lowercase d"
  shows "c = d"
proof -
  have up: "is_ascii_upper x" if "x \<in> set c \<union> set d" for x
    using that assms(1,2) upper_letter unfolding upper_code_def list_all_iff by blast
  then have "inj_on ascii_down (set c \<union> set d)"
    using ascii_down_inj by (meson inj_onI)
  with assms(3) show ?thesis unfolding to_ascii_lowercase_def by (rule map_inj_on)
qed

lemma upper_codes_rule_ok:
  assumes "upper_codes (ov_subdivisions ov)"
  shows "rule_ok (resolve_override file ov)"
proof -
  let ?cs = "map sub_code (ov_subdivisions ov)"
  have u: "\<forall>c \<in> set ?cs. upper_code c" and d: "distinct ?cs"
    using assms by (auto simp: upper_codes_def list_all_iff)
  have "inj_on to_ascii_lowercase (set ?cs)"
    using u upper_code_lower_inj by (meson inj_onI)
  then have "distinct (map to_ascii_lowercase ?cs)" by (subst distinct_map) (use d in blast)
  then show ?thesis
    using u upper_code_facts
    by (simp add: rule_ok_def resolve_override_def region_max_chars_def rules_def rules_of_def
        postal_region_rules_json_def list_all_iff comp_def)
qed

lemma override_codes:
  "(code, ov) \<in> set (rf_countries postal_region_rules_json) \<Longrightarrow> upper_codes (ov_subdivisions ov)"
  using us_upper_codes ca_upper_codes au_upper_codes
  by (auto simp: postal_region_rules_json_def upper_codes_def [of "[]"])

lemma rules_ok: "list_all (rule_ok \<circ> snd) (pr_countries rules) \<and> rule_ok (pr_default rules)"
  by (auto simp: rules_def rules_of_def list_all_iff rule_ok_def [of "_\<lparr>subdivisions := []\<rparr>"]
      intro!: upper_codes_rule_ok dest: override_codes)
     (simp add: rule_ok_def)

lemma rule_ok_lookup: "rule_ok (postal_country_rule_of cc)"
  using rules_ok
  by (auto simp: postal_country_rule_of_def list_all_iff split: option.split dest!: map_of_SomeD)

lemma ascii_down_up [simp]: "ascii_down (ascii_up c) = ascii_down c"
  by (auto simp: ascii_down_def ascii_up_def is_ascii_lower_def is_ascii_upper_def)

lemma lower_upper [simp]: "to_ascii_lowercase (to_ascii_uppercase s) = to_ascii_lowercase s"
  by (simp add: to_ascii_lowercase_def to_ascii_uppercase_def)

lemma find_distinct_key:
  assumes "distinct (map (f \<circ> fst) xs)" and "(c, n) \<in> set xs"
  shows "find (\<lambda>(c', n'). f c' = f c) xs = Some (c, n)"
proof -
  obtain i where i: "i < length xs" "xs ! i = (c, n)" using assms(2) by (meson in_set_conv_nth)
  have "\<not> (\<lambda>(c', n'). f c' = f c) (xs ! j)" if "j < i" for j
    using assms(1) i that by (auto simp: distinct_conv_nth split: prod.split) (metis fst_conv less_trans nat_neq_iff)
  then have "find (\<lambda>(c', n'). f c' = f c) xs = Some (xs ! i)"
    using i unfolding find_Some_iff by (metis (mono_tags, lifting) case_prod_conv)
  with i show ?thesis by simp
qed

lemma find_code:
  assumes "rule_ok r" and "(c, n) \<in> set (subdivisions r)"
  shows "find (\<lambda>(code, name). eq_ignore_ascii_case code (to_ascii_uppercase c)) (subdivisions r)
    = Some (c, n)"
  using find_distinct_key [of to_ascii_lowercase "subdivisions r" c n] assms
  by (simp add: rule_ok_def eq_ignore_ascii_case_def)

lemma canonicalize_region_stable:
  assumes "canonicalize_region cc region = Inr stored"
  shows "canonicalize_region cc stored = Inr stored"
proof -
  let ?r = "postal_country_rule_of cc"
  let ?t = "trim region"
  have ok: "rule_ok ?r" by (rule rule_ok_lookup)
  consider (trimmed) "stored = ?t" | (code) n where "(stored, n) \<in> set (subdivisions ?r)"
    using assms unfolding canonicalize_region_def Let_def
    by (auto split: if_splits option.splits dest!: find_Some_iff [THEN iffD1] intro: nth_mem)
       (metis nth_mem)+
  then show ?thesis
  proof cases
    case trimmed
    then show ?thesis using assms by (simp add: canonicalize_region_def)
  next
    case code
    then have "stored \<noteq> []" "trim stored = stored" "chars_count stored \<le> region_max_chars"
      and "subdivisions ?r \<noteq> []"
      using ok by (auto simp: rule_ok_def list_all_iff)
    then show ?thesis
      using find_code [OF ok code] by (simp add: canonicalize_region_def Let_def)
  qed
qed

section \<open>Properties\<close>

text \<open>Normalizing a region is a projection: what \<open>canonicalize_region\<close> stores for a country is
  stored unchanged when it is submitted again, whether it came from an ISO suffix, a subdivision
  name or legacy free text.
\<close>

theorem canonicalize_region_fixpoint:
  assumes "canonicalize_region cc region = Inr stored"
  shows "canonicalize_region cc stored = Inr stored"
  using assms by (rule canonicalize_region_stable)

theorem canonicalize_region_fixpoint_witness:
  "canonicalize_region ''au'' '' New South Wales '' = Inr ''NSW''
   \<and> canonicalize_region ''au'' ''NSW'' = Inr ''NSW''"
proof -
  have h: "canonicalize_region ''au'' '' New South Wales '' = Inr ''NSW''" by code_simp
  show ?thesis using h canonicalize_region_fixpoint [OF h] by simp
qed

text \<open>The only refusals are an over-long region and an empty one in a country that requires a
  subdivision; every other text is accepted, so free-text regions of older clients never fail.\<close>

theorem canonicalize_region_refuses_iff:
  "(\<exists>e. canonicalize_region cc region = Inl e) \<longleftrightarrow>
     region_max_chars < chars_count (trim region) \<or> (trim region = [] \<and> is_region_required cc)"
  by (auto simp: canonicalize_region_def is_region_required_def Let_def
      split: option.split prod.split)

end
