(* ===== verification/Machines.thy ===== *)
theory Machines
  imports Prelude
begin

text \<open>
  The canonical aggregate state machines of \<^verbatim>\<open>crates/domain/src/state_machines.rs\<close>: the eight
  tables, transcribed row by row, and \<open>can_transition\<close>, the check the handlers guard their state
  changes with.  A locale states what makes a table a usable contract (every edge between declared
  states, every edge triggered, the initial state declared, the unreachable states exactly those no
  edge targets); it is interpreted on all eight tables, and the reachability facts below rest on it.
  \<open>contract_document\<close> and \<open>contract_json_pretty\<close> only serialize the tables and are not modelled.
\<close>

section \<open>Tables\<close>

datatype via = is_command: Command string | is_server: Server string

record transition =
  tr_from :: string
  tr_to :: string
  tr_via :: "via list"

record aggregate_machine =
  aggregate :: string
  states :: "string list"
  initial :: string
  transitions :: "transition list"
  commands :: "string list"
  unreachable_states :: "string list"

definition edge :: "string \<Rightarrow> string \<Rightarrow> via list \<Rightarrow> transition" where
  "edge from to via = \<lparr>tr_from = from, tr_to = to, tr_via = via\<rparr>"

definition listing_machine :: aggregate_machine where
  "listing_machine = \<lparr>
     aggregate = ''listing'',
     states = [''available'', ''reserved'', ''sold''],
     initial = ''available'',
     transitions = [
       edge ''available'' ''reserved'' [Command ''inventory.reserve'', Command ''checkout.create'', Command ''offer.accept'', Command ''auction.close''],
       edge ''reserved'' ''available'' [Server ''reservation_expiry'', Command ''order.cancel_request'', Command ''order.cancel_approve''],
       edge ''reserved'' ''sold'' [Command ''payment.sandbox_advance'', Server ''payment_confirmation''],
       edge ''sold'' ''available'' [Command ''order.cancel_approve'', Command ''order.cancel_request'']],
     commands = [''listing.register'', ''listing.sync'', ''inventory.reserve'', ''checkout.create'', ''offer.accept'', ''auction.close''],
     unreachable_states = []\<rparr>"

definition reservation_machine :: aggregate_machine where
  "reservation_machine = \<lparr>
     aggregate = ''reservation'',
     states = [''active'', ''converted'', ''released'', ''expired''],
     initial = ''active'',
     transitions = [
       edge ''active'' ''expired'' [Server ''reservation_expiry''],
       edge ''active'' ''released'' [Command ''order.cancel_request'', Command ''order.cancel_approve''],
       edge ''active'' ''converted'' [Command ''payment.sandbox_advance'', Server ''payment_confirmation'']],
     commands = [''inventory.reserve''],
     unreachable_states = []\<rparr>"

definition offer_machine :: aggregate_machine where
  "offer_machine = \<lparr>
     aggregate = ''offer'',
     states = [''pending'', ''countered'', ''accepted'', ''converted'', ''rejected'', ''withdrawn'', ''expired''],
     initial = ''pending'',
     transitions = [
       edge ''pending'' ''countered'' [Command ''offer.counter''],
       edge ''pending'' ''accepted'' [Command ''offer.accept''],
       edge ''pending'' ''rejected'' [Command ''offer.reject''],
       edge ''pending'' ''withdrawn'' [Command ''offer.withdraw''],
       edge ''pending'' ''expired'' [Server ''offer_expiry''],
       edge ''countered'' ''countered'' [Command ''offer.counter''],
       edge ''countered'' ''accepted'' [Command ''offer.accept''],
       edge ''countered'' ''rejected'' [Command ''offer.reject''],
       edge ''countered'' ''withdrawn'' [Command ''offer.withdraw''],
       edge ''countered'' ''expired'' [Server ''offer_expiry''],
       edge ''accepted'' ''converted'' [Command ''offer.checkout''],
       edge ''accepted'' ''expired'' [Server ''award_expiry'']],
     commands = [''offer.create'', ''offer.counter'', ''offer.accept'', ''offer.reject'', ''offer.withdraw'', ''offer.checkout''],
     unreachable_states = []\<rparr>"

definition auction_machine :: aggregate_machine where
  "auction_machine = \<lparr>
     aggregate = ''auction'',
     states = [''scheduled'', ''active'', ''sold'', ''unsold'', ''cancelled''],
     initial = ''scheduled'',
     transitions = [
       edge ''scheduled'' ''active'' [Server ''auction_start''],
       edge ''active'' ''sold'' [Command ''auction.close'', Server ''auction_close''],
       edge ''active'' ''unsold'' [Command ''auction.close'', Server ''auction_close'']],
     commands = [''listing.register'', ''auction.place_bid'', ''auction.close''],
     unreachable_states = [''cancelled'']\<rparr>"

definition order_machine :: aggregate_machine where
  "order_machine = \<lparr>
     aggregate = ''order'',
     states = [''pending_payment'', ''paid'', ''ready_for_pickup'', ''processing'', ''shipped'', ''delivered'', ''completed'', ''cancel_requested'', ''cancelled'', ''return_requested'', ''return_approved'', ''return_received'', ''refunded_external'', ''closed''],
     initial = ''pending_payment'',
     transitions = [
       edge ''pending_payment'' ''paid'' [Command ''payment.sandbox_advance'', Server ''payment_confirmation''],
       edge ''pending_payment'' ''cancelled'' [Command ''order.cancel_request'', Server ''payment_window''],
       edge ''paid'' ''shipped'' [Command ''fulfillment.ship''],
       edge ''paid'' ''ready_for_pickup'' [Command ''fulfillment.mark_ready''],
       edge ''paid'' ''delivered'' [Command ''fulfillment.confirm_pickup'', Command ''fulfillment.deliver_digital'', Server ''digital_delivery''],
       edge ''ready_for_pickup'' ''delivered'' [Command ''fulfillment.confirm_pickup''],
       edge ''ready_for_pickup'' ''cancel_requested'' [Command ''order.cancel_request''],
       edge ''paid'' ''cancelled'' [Command ''order.cancel_request''],
       edge ''ready_for_pickup'' ''cancelled'' [Command ''order.cancel_request''],
       edge ''paid'' ''cancel_requested'' [Command ''order.cancel_request''],
       edge ''processing'' ''shipped'' [Command ''fulfillment.ship''],
       edge ''processing'' ''cancel_requested'' [Command ''order.cancel_request''],
       edge ''cancel_requested'' ''cancelled'' [Command ''order.cancel_approve''],
       edge ''shipped'' ''delivered'' [Command ''fulfillment.confirm_delivery'', Server ''delivery_assume''],
       edge ''delivered'' ''return_requested'' [Command ''return.request''],
       edge ''delivered'' ''completed'' [Command ''review.create'', Server ''order_auto_complete''],
       edge ''completed'' ''return_requested'' [Command ''return.request''],
       edge ''return_requested'' ''return_approved'' [Command ''return.approve''],
       edge ''return_approved'' ''return_received'' [Command ''return.receive''],
       edge ''return_received'' ''refunded_external'' [Command ''refund.record_external'', Server ''paypal_refund''],
       edge ''cancelled'' ''refunded_external'' [Command ''refund.record_external'', Server ''paypal_refund''],
       edge ''paid'' ''refunded_external'' [Server ''paypal_refund''],
       edge ''ready_for_pickup'' ''refunded_external'' [Server ''paypal_refund''],
       edge ''shipped'' ''refunded_external'' [Server ''paypal_refund''],
       edge ''delivered'' ''refunded_external'' [Command ''refund.record_external'', Server ''paypal_refund''],
       edge ''completed'' ''refunded_external'' [Command ''refund.record_external'', Server ''paypal_refund''],
       edge ''cancel_requested'' ''refunded_external'' [Server ''paypal_refund''],
       edge ''return_requested'' ''refunded_external'' [Server ''paypal_refund''],
       edge ''return_approved'' ''refunded_external'' [Server ''paypal_refund''],
       edge ''refunded_external'' ''paid'' [Server ''paypal_reversal_cancelled''],
       edge ''refunded_external'' ''ready_for_pickup'' [Server ''paypal_reversal_cancelled''],
       edge ''refunded_external'' ''shipped'' [Server ''paypal_reversal_cancelled''],
       edge ''refunded_external'' ''delivered'' [Server ''paypal_reversal_cancelled''],
       edge ''refunded_external'' ''completed'' [Server ''paypal_reversal_cancelled''],
       edge ''refunded_external'' ''cancel_requested'' [Server ''paypal_reversal_cancelled''],
       edge ''refunded_external'' ''cancelled'' [Server ''paypal_reversal_cancelled''],
       edge ''refunded_external'' ''return_requested'' [Server ''paypal_reversal_cancelled''],
       edge ''refunded_external'' ''return_approved'' [Server ''paypal_reversal_cancelled''],
       edge ''refunded_external'' ''return_received'' [Server ''paypal_reversal_cancelled''],
       edge ''cancelled'' ''paid'' [Server ''paykit_resolution'', Server ''late_completion'']],
     commands = [''checkout.create'', ''payment.sandbox_advance'', ''order.cancel_request'', ''order.cancel_approve'', ''fulfillment.ship'', ''fulfillment.confirm_delivery'', ''fulfillment.mark_ready'', ''fulfillment.confirm_pickup'', ''fulfillment.deliver_digital'', ''order.set_delivery_email'', ''return.request'', ''return.approve'', ''return.receive'', ''refund.record_external'', ''review.create'', ''review.update''],
     unreachable_states = [''processing'', ''closed'']\<rparr>"

definition return_machine :: aggregate_machine where
  "return_machine = \<lparr>
     aggregate = ''return'',
     states = [''requested'', ''approved'', ''received'', ''refunded''],
     initial = ''requested'',
     transitions = [
       edge ''requested'' ''approved'' [Command ''return.approve''],
       edge ''approved'' ''received'' [Command ''return.receive''],
       edge ''received'' ''refunded'' [Command ''refund.record_external'', Server ''paypal_refund''],
       edge ''requested'' ''refunded'' [Server ''paypal_refund''],
       edge ''approved'' ''refunded'' [Server ''paypal_refund''],
       edge ''refunded'' ''requested'' [Server ''paypal_reversal_cancelled''],
       edge ''refunded'' ''approved'' [Server ''paypal_reversal_cancelled''],
       edge ''refunded'' ''received'' [Server ''paypal_reversal_cancelled'']],
     commands = [''return.request'', ''return.approve'', ''return.receive'', ''refund.record_external''],
     unreachable_states = []\<rparr>"

definition payment_machine :: aggregate_machine where
  "payment_machine = \<lparr>
     aggregate = ''payment'',
     states = [''awaiting_entitlement'', ''detected'', ''confirmed'', ''expired'', ''manual_review''],
     initial = ''awaiting_entitlement'',
     transitions = [
       edge ''awaiting_entitlement'' ''detected'' [Command ''payment.sandbox_advance''],
       edge ''awaiting_entitlement'' ''confirmed'' [Command ''payment.sandbox_advance'', Server ''locks_verification'', Server ''late_completion''],
       edge ''awaiting_entitlement'' ''expired'' [Command ''payment.sandbox_advance'', Command ''order.cancel_request'', Server ''payment_window''],
       edge ''awaiting_entitlement'' ''manual_review'' [Command ''payment.sandbox_advance'', Server ''locks_verification'', Server ''late_completion''],
       edge ''detected'' ''confirmed'' [Command ''payment.sandbox_advance''],
       edge ''detected'' ''manual_review'' [Command ''payment.sandbox_advance''],
       edge ''expired'' ''manual_review'' [Server ''locks_late_completion'', Server ''late_completion''],
       edge ''expired'' ''confirmed'' [Server ''late_completion''],
       edge ''manual_review'' ''confirmed'' [Server ''paykit_resolution''],
       edge ''manual_review'' ''expired'' [Server ''paykit_resolution'']],
     commands = [''payment.sandbox_advance'', ''payment.prepare_locks'', ''payment.register_locks''],
     unreachable_states = []\<rparr>"

definition drop_machine :: aggregate_machine where
  "drop_machine = \<lparr>
     aggregate = ''drop'',
     states = [''announced'', ''live'', ''ended_sold_out'', ''ended_closed'', ''ended_cancelled''],
     initial = ''announced'',
     transitions = [
       edge ''announced'' ''live'' [Command ''inventory.reserve'', Command ''checkout.create'', Server ''drop_start''],
       edge ''announced'' ''ended_closed'' [Server ''drop_end''],
       edge ''live'' ''ended_closed'' [Server ''drop_end''],
       edge ''live'' ''ended_sold_out'' [Command ''payment.sandbox_advance'', Server ''payment_confirmation''],
       edge ''announced'' ''ended_cancelled'' [Command ''drop.cancel''],
       edge ''live'' ''ended_cancelled'' [Command ''drop.cancel'']],
     commands = [''drop.sync'', ''drop.cancel'', ''drop.release_listings'', ''inventory.reserve'', ''checkout.create''],
     unreachable_states = []\<rparr>"

definition all_machines :: "aggregate_machine list" where
  "all_machines = [listing_machine, reservation_machine, offer_machine, auction_machine,
     order_machine, payment_machine, return_machine, drop_machine]"

definition can_transition :: "aggregate_machine \<Rightarrow> string \<Rightarrow> string \<Rightarrow> bool" where
  "can_transition machine from to =
     (if from = to then from \<in> set (states machine)
      else list_ex (\<lambda>tr. tr_from tr = from \<and> tr_to tr = to) (transitions machine))"

lemmas machine_tables [machine_defs] =
  listing_machine_def reservation_machine_def offer_machine_def auction_machine_def
  order_machine_def payment_machine_def return_machine_def drop_machine_def edge_def

section \<open>Reachability\<close>

text \<open>
  \<open>reach_by P m s s'\<close>: a path of edges of \<open>m\<close> from \<open>s\<close> to \<open>s'\<close>, each with a trigger that satisfies
  \<open>P\<close>.  A path under \<open>\<lambda>_. True\<close> uses any trigger, one under \<^const>\<open>is_command\<close> client commands only.
\<close>

inductive reach_by :: "(via \<Rightarrow> bool) \<Rightarrow> aggregate_machine \<Rightarrow> string \<Rightarrow> string \<Rightarrow> bool"
  for P :: "via \<Rightarrow> bool" and m :: aggregate_machine where
  reach_refl: "reach_by P m s s"
| reach_edge: "reach_by P m s (tr_from tr) \<Longrightarrow> tr \<in> set (transitions m) \<Longrightarrow>
     list_ex P (tr_via tr) \<Longrightarrow> reach_by P m s (tr_to tr)"

inductive_cases reach_byE: "reach_by P m s s'"

text \<open>
  A list of states is the reachable set of its head when no edge leaves it and every later state
  has an edge from an earlier one; both are computed.
\<close>

definition closed_under :: "(via \<Rightarrow> bool) \<Rightarrow> aggregate_machine \<Rightarrow> string list \<Rightarrow> bool" where
  "closed_under P m ss \<longleftrightarrow>
     list_all (\<lambda>tr. tr_from tr \<in> set ss \<and> list_ex P (tr_via tr) \<longrightarrow> tr_to tr \<in> set ss) (transitions m)"

fun generated :: "(via \<Rightarrow> bool) \<Rightarrow> aggregate_machine \<Rightarrow> string list \<Rightarrow> string list \<Rightarrow> bool" where
  "generated P m seen [] = True"
| "generated P m seen (s # ss) =
     (list_ex (\<lambda>tr. tr_to tr = s \<and> tr_from tr \<in> set seen \<and> list_ex P (tr_via tr)) (transitions m)
      \<and> generated P m (s # seen) ss)"

lemma generated_sound:
  "generated P m seen ss \<Longrightarrow> \<forall>s \<in> set seen. reach_by P m s0 s \<Longrightarrow> \<forall>s \<in> set ss. reach_by P m s0 s"
proof (induction ss arbitrary: seen)
  case (Cons s ss)
  then obtain tr where "tr \<in> set (transitions m)" "tr_to tr = s" "tr_from tr \<in> set seen"
    "list_ex P (tr_via tr)" by (auto simp: list_ex_iff)
  with Cons.prems(2) have s: "reach_by P m s0 s" using reach_edge by blast
  have "generated P m (s # seen) ss" using Cons.prems(1) by simp
  moreover have "\<forall>x \<in> set (s # seen). reach_by P m s0 x" using s Cons.prems(2) by simp
  ultimately have "\<forall>x \<in> set ss. reach_by P m s0 x" by (rule Cons.IH)
  with s show ?case by simp
qed simp

lemma closed_under_complete:
  "reach_by P m s0 s \<Longrightarrow> closed_under P m ss \<Longrightarrow> s0 \<in> set ss \<Longrightarrow> s \<in> set ss"
  by (induction rule: reach_by.induct) (auto simp: closed_under_def list_all_iff)

lemma reach_set_eq:
  assumes "closed_under P m (s0 # ss)" and "generated P m [s0] ss"
  shows "{s. reach_by P m s0 s} = set (s0 # ss)"
  using closed_under_complete [OF _ assms(1), of s0] generated_sound [OF assms(2), of s0]
    reach_refl [of P m s0]
  by auto

section \<open>The contract of a table\<close>

locale contract_machine =
  fixes m :: aggregate_machine
  assumes initial_declared: "initial m \<in> set (states m)"
    and edge_declared: "tr \<in> set (transitions m) \<Longrightarrow>
      tr_from tr \<in> set (states m) \<and> tr_to tr \<in> set (states m) \<and> tr_via tr \<noteq> []"
    and unreachable_untargeted: "s \<in> set (unreachable_states m) \<longleftrightarrow>
      s \<in> set (states m) \<and> s \<noteq> initial m \<and> s \<notin> tr_to ` set (transitions m)"
begin

lemma reach_declared: "reach_by P m s s' \<Longrightarrow> s \<in> set (states m) \<Longrightarrow> s' \<in> set (states m)"
  by (induction rule: reach_by.induct) (auto dest: edge_declared)

lemma reach_not_unreachable: "reach_by P m (initial m) s \<Longrightarrow> s \<notin> set (unreachable_states m)"
  by (erule reach_byE) (auto simp: unreachable_untargeted)

lemma can_transition_declared:
  "can_transition m s s' \<Longrightarrow> s \<in> set (states m) \<and> s' \<in> set (states m)"
  by (auto simp: can_transition_def list_ex_iff dest: edge_declared split: if_splits)

lemma can_transition_reach: "can_transition m s s' \<Longrightarrow> reach_by (\<lambda>_. True) m s s'"
proof (cases "s = s'")
  case False
  assume "can_transition m s s'"
  with False obtain tr where tr: "tr \<in> set (transitions m)" "tr_from tr = s" "tr_to tr = s'"
    by (auto simp: can_transition_def list_ex_iff)
  have "list_ex (\<lambda>_. True) (tr_via tr)" using edge_declared [OF tr(1)] by (cases "tr_via tr") auto
  with tr reach_edge [OF reach_refl [of _ m "tr_from tr"] tr(1)] show ?thesis by blast
qed (simp add: reach_refl)

lemma can_transition_self: "s \<in> set (states m) \<Longrightarrow> can_transition m s s"
  by (simp add: can_transition_def)

end

text \<open>The check of a table as a computable predicate.\<close>

definition well_formed_machine :: "aggregate_machine \<Rightarrow> bool" where
  "well_formed_machine m \<longleftrightarrow>
     initial m \<in> set (states m) \<and>
     list_all (\<lambda>tr. tr_from tr \<in> set (states m) \<and> tr_to tr \<in> set (states m) \<and> tr_via tr \<noteq> [])
       (transitions m) \<and>
     unreachable_states m =
       filter (\<lambda>s. s \<noteq> initial m \<and> s \<notin> set (map tr_to (transitions m))) (states m)"

lemma contract_machineI: "well_formed_machine m \<Longrightarrow> contract_machine m"
  by unfold_locales (auto simp: well_formed_machine_def list_all_iff)

lemma all_well_formed: "list_all well_formed_machine all_machines"
  by code_simp

lemmas machine_wf = all_well_formed [unfolded all_machines_def, simplified]

interpretation listing: contract_machine listing_machine
  by (rule contract_machineI) (simp add: machine_wf)

interpretation reservation: contract_machine reservation_machine
  by (rule contract_machineI) (simp add: machine_wf)

interpretation offer: contract_machine offer_machine
  by (rule contract_machineI) (simp add: machine_wf)

interpretation auction: contract_machine auction_machine
  by (rule contract_machineI) (simp add: machine_wf)

interpretation order: contract_machine order_machine
  by (rule contract_machineI) (simp add: machine_wf)

interpretation payment: contract_machine payment_machine
  by (rule contract_machineI) (simp add: machine_wf)

interpretation return: contract_machine return_machine
  by (rule contract_machineI) (simp add: machine_wf)

interpretation drop: contract_machine drop_machine
  by (rule contract_machineI) (simp add: machine_wf)

section \<open>Properties\<close>

text \<open>The declared order of the reachable states is an order of discovery on every table.\<close>

definition exact_table :: "aggregate_machine \<Rightarrow> bool" where
  "exact_table m \<longleftrightarrow>
     (let ss = filter (\<lambda>s. s \<notin> set (unreachable_states m)) (states m)
      in ss \<noteq> [] \<and> hd ss = initial m \<and> closed_under (\<lambda>_. True) m ss
         \<and> generated (\<lambda>_. True) m [hd ss] (tl ss))"

lemma exact_tables: "list_all exact_table all_machines"
  by code_simp

lemma exact_table_reach:
  assumes "exact_table m"
  shows "{s. reach_by (\<lambda>_. True) m (initial m) s} = set (states m) - set (unreachable_states m)"
proof -
  define ss where "ss = filter (\<lambda>s. s \<notin> set (unreachable_states m)) (states m)"
  have ne: "ss \<noteq> []" and hd: "hd ss = initial m" and c: "closed_under (\<lambda>_. True) m ss"
    and g: "generated (\<lambda>_. True) m [hd ss] (tl ss)"
    using assms unfolding exact_table_def ss_def Let_def by blast+
  have "ss = initial m # tl ss" using ne hd by (metis list.collapse)
  then have "{s. reach_by (\<lambda>_. True) m (initial m) s} = set ss"
    using reach_set_eq [of "\<lambda>_. True" m "initial m" "tl ss"] c g hd by simp
  then show ?thesis by (auto simp: ss_def)
qed

text \<open>C36: On every table the declared \<open>unreachable_states\<close> are exactly the declared states that no path
  of edges from the initial state reaches, and every other declared state is reached.
\<close>

theorem reachable_states_exactly:
  "list_all (\<lambda>m. {s. reach_by (\<lambda>_. True) m (initial m) s}
       = set (states m) - set (unreachable_states m)) all_machines"
  using exact_tables exact_table_reach unfolding list_all_iff by blast

text \<open>A confirmed payment is never un-paid: the only transition the payment table allows out of
  \<open>confirmed\<close> is staying there, and every path that starts there ends there.
\<close>

theorem payment_confirmed_terminal:
  "(can_transition payment_machine ''confirmed'' s \<longleftrightarrow> s = ''confirmed'')
   \<and> (reach_by (\<lambda>_. True) payment_machine ''confirmed'' s \<longleftrightarrow> s = ''confirmed'')"
proof -
  have "closed_under (\<lambda>_. True) payment_machine [''confirmed'']"
    by (simp add: closed_under_def machine_defs)
  then have "reach_by (\<lambda>_. True) payment_machine ''confirmed'' s \<longleftrightarrow> s = ''confirmed''"
    using reach_set_eq [of _ payment_machine "''confirmed''" "[]"] by auto
  moreover have "can_transition payment_machine ''confirmed'' ''confirmed''"
    by (simp add: can_transition_def machine_defs)
  ultimately show ?thesis using payment.can_transition_reach by blast
qed

text \<open>No sequence of client commands revives a cancelled order: by commands alone a cancelled order
  reaches only the recorded external refund, never \<open>paid\<close> or a fulfillment state.
\<close>

theorem cancelled_order_stays_cancelled_under_commands:
  "{s. reach_by is_command order_machine ''cancelled'' s} = {''cancelled'', ''refunded_external''}"
proof -
  have "closed_under is_command order_machine [''cancelled'', ''refunded_external'']"
    and "generated is_command order_machine [''cancelled''] [''refunded_external'']"
    by (simp_all add: closed_under_def machine_defs)
  from reach_set_eq [OF this] show ?thesis by simp
qed

text \<open>An ended drop never reopens: from each of the three ended states no trigger at all leads to
  another state.\<close>

theorem ended_drop_terminal:
  "list_all (\<lambda>e. {s. reach_by (\<lambda>_. True) drop_machine e s} = {e})
     [''ended_sold_out'', ''ended_closed'', ''ended_cancelled'']"
proof -
  have "closed_under (\<lambda>_. True) drop_machine [e]"
    if "e \<in> {''ended_sold_out'', ''ended_closed'', ''ended_cancelled''}" for e
    using that by (auto simp: closed_under_def machine_defs)
  then show ?thesis using reach_set_eq [of "\<lambda>_. True" drop_machine _ "[]"] by simp
qed

end
