(* ===== verification/Commands.thy ===== *)
theory Commands
  imports Domain_Core
begin

text \<open>
  The data of \<^verbatim>\<open>crates/domain/src/commands.rs\<close>: every payload struct as a record with the source's
  fields (prefixed, since HOL record fields share one name space), the payload enum, and the command
  with its wire kind.  \<open>serde\<close> attributes and the redacting \<open>Debug\<close> implementations have no
  counterpart.  \<open>canonical_json\<close> and \<open>request_hash\<close> serialize and hash; the executor's model takes
  the resulting digest as a parameter.
\<close>

section \<open>Enumerations\<close>

datatype sale_format = FixedPrice | Auction

datatype fulfillment_method = Shipping | Pickup | Digital

fun fulfillment_as_str :: "fulfillment_method \<Rightarrow> string" where
  "fulfillment_as_str Shipping = ''shipping''"
| "fulfillment_as_str Pickup = ''pickup''"
| "fulfillment_as_str Digital = ''digital''"

definition default_fulfillment_methods :: "fulfillment_method list" where
  "default_fulfillment_methods = [Shipping]"

definition is_default_fulfillment_methods :: "fulfillment_method list \<Rightarrow> bool" where
  "is_default_fulfillment_methods methods \<longleftrightarrow> methods = [Shipping]"

datatype digital_delivery_kind = KFile | KLink | KText | KEmail | KMessage

fun delivery_kind_as_str :: "digital_delivery_kind \<Rightarrow> string" where
  "delivery_kind_as_str KFile = ''file''"
| "delivery_kind_as_str KLink = ''link''"
| "delivery_kind_as_str KText = ''text''"
| "delivery_kind_as_str KEmail = ''email''"
| "delivery_kind_as_str KMessage = ''message''"

definition delivery_kind_parse :: "string \<Rightarrow> digital_delivery_kind option" where
  "delivery_kind_parse value =
     (if value = ''file'' then Some KFile
      else if value = ''link'' then Some KLink
      else if value = ''text'' then Some KText
      else if value = ''email'' then Some KEmail
      else if value = ''message'' then Some KMessage
      else None)"

fun is_instant :: "digital_delivery_kind \<Rightarrow> bool" where
  "is_instant KFile = True"
| "is_instant KLink = True"
| "is_instant KText = True"
| "is_instant _ = False"

datatype digital_delivery_channel = ChannelEmail | ChannelMessage

fun channel_kind :: "digital_delivery_channel \<Rightarrow> digital_delivery_kind" where
  "channel_kind ChannelEmail = KEmail"
| "channel_kind ChannelMessage = KMessage"

datatype sandbox_payment_target = Detected | Confirmed | Expired | ManualReview

fun sandbox_target_as_str :: "sandbox_payment_target \<Rightarrow> string" where
  "sandbox_target_as_str Detected = ''detected''"
| "sandbox_target_as_str Confirmed = ''confirmed''"
| "sandbox_target_as_str Expired = ''expired''"
| "sandbox_target_as_str ManualReview = ''manual_review''"

datatype pickup_details_kind = PickupAddress | PickupSpot

section \<open>Listings\<close>

record auction_terms =
  at_starts_at :: datetime
  at_ends_at :: datetime
  at_minimum_increment :: money
  at_anti_sniping_window_seconds :: int
  at_anti_sniping_extension_seconds :: int

record auction_reserve =
  ar_expected_record_revision :: int
  ar_record_revision :: int
  ar_reserve_price :: "money option"

record digital_lock_metadata =
  dl_policy_uri :: string
  dl_criterion_id :: string

record register_listing_payload =
  rl_seller_pubky :: pubky
  rl_listing_id :: string
  rl_title :: string
  rl_listing_revision :: int
  rl_content_hash :: string
  rl_quantity :: int
  rl_unit_price :: money
  rl_shipping_minor :: int
  rl_sale_format :: sale_format
  rl_auction_terms :: "auction_terms option"
  rl_auction_reserve :: "auction_reserve option"
  rl_fulfillment_methods :: "fulfillment_method list"
  rl_digital_lock :: "digital_lock_metadata option"

definition UNLIMITED_STOCK_QUANTITY :: int where
  "UNLIMITED_STOCK_QUANTITY = 1000000"

definition registers_unlimited_cap_with_physical_methods :: "register_listing_payload \<Rightarrow> bool" where
  "registers_unlimited_cap_with_physical_methods p \<longleftrightarrow>
     rl_quantity p = UNLIMITED_STOCK_QUANTITY
     \<and> list_ex (\<lambda>method. method = Shipping \<or> method = Pickup) (rl_fulfillment_methods p)"

record sync_listing_payload =
  sl_seller_pubky :: pubky
  sl_listing_id :: string

record sync_drop_payload =
  sd_seller_pubky :: pubky
  sd_drop_id :: string

section \<open>Checkout and offers\<close>

record reserve_inventory_payload =
  ri_quantity :: int
  ri_reservation_ttl_seconds :: int

record variant_option =
  vo_name :: string
  vo_value :: string

record checkout_line =
  cl_listing_aggregate_id :: string
  cl_expected_revision :: int
  cl_quantity :: int
  cl_variant_id :: "string option"
  cl_variant_options :: "variant_option list option"
  cl_fulfillment :: "fulfillment_method option"

record delivery_address =
  da_name :: string
  da_line1 :: string
  da_line2 :: string
  da_city :: string
  da_region :: string
  da_postal_code :: string
  da_country_code :: string

type_synonym delivery_email = string

definition DELIVERY_EMAIL_MAX_CHARS :: nat where
  "DELIVERY_EMAIL_MAX_CHARS = 254"

definition email_is_well_formed :: "delivery_email \<Rightarrow> bool" where
  "email_is_well_formed value =
     (case split_once ''@'' value of
        None \<Rightarrow> False
      | Some (local, domain) \<Rightarrow>
          chars_count value \<le> DELIVERY_EMAIL_MAX_CHARS \<and> local \<noteq> [] \<and> domain \<noteq> []
          \<and> CHR ''@'' \<notin> set domain \<and> \<not> (any_whitespace value \<or> any_control value))"

record create_checkout_payload =
  cc_lines :: "checkout_line list"
  cc_delivery_address :: "delivery_address option"
  cc_delivery_email :: "delivery_email option"
  cc_guarantee_policy_version :: nat

record offer_terms_payload =
  ot_amount :: money
  ot_quantity :: int
  ot_expires_in_seconds :: int
  ot_message :: string

record counter_offer_payload =
  co_offer_id :: uuid
  co_amount :: money
  co_quantity :: int
  co_expires_in_seconds :: int
  co_message :: string

record offer_action_payload =
  oa_offer_id :: uuid

record offer_checkout_payload =
  oc_offer_id :: uuid
  oc_award_id :: uuid
  oc_listing_aggregate_id :: string
  oc_listing_revision :: int
  oc_listing_record_sha256 :: string
  oc_variant_id :: string
  oc_quantity :: int
  oc_delivery_address :: "delivery_address option"
  oc_fulfillment :: "fulfillment_method option"
  oc_guarantee_policy_version :: nat

record place_bid_payload =
  pb_maximum_amount :: money

section \<open>Payments\<close>

record advance_sandbox_payment_payload =
  asp_payment_id :: uuid
  asp_target :: sandbox_payment_target
  asp_confirmations :: int

record register_locks_payload =
  rk_payment_id :: uuid
  rk_bundle_id :: string

record prepare_locks_payload =
  pk_payment_id :: uuid

section \<open>Orders\<close>

record order_action_payload =
  oap_order_id :: uuid

record request_cancellation_payload =
  rc_order_id :: uuid
  rc_reason :: string

record ship_order_payload =
  so_order_id :: uuid
  so_carrier :: string
  so_tracking_number :: string

record set_delivery_email_payload =
  sde_order_id :: uuid
  sde_delivery_email :: delivery_email

record deliver_digital_payload =
  dd_order_id :: uuid
  dd_channel :: digital_delivery_channel

record request_return_payload =
  rr_order_id :: uuid
  rr_reason :: string
  rr_requested_amount_minor :: int

record record_external_refund_payload =
  rer_order_id :: uuid
  rer_amount_minor :: int
  rer_transaction_id :: string

record review_terms_payload =
  rt_order_id :: uuid
  rt_rating :: int
  rt_text :: string
  rt_allow_amount_band :: bool

record set_band_consent_payload =
  sbc_allows_amount_band :: bool

section \<open>Pickup and digital delivery\<close>

record pickup_window =
  pw_day :: string
  pw_start :: string
  pw_end :: string

record pickup_availability =
  pa_windows :: "pickup_window list option"
  pa_zone :: string

record pickup_details =
  pd_kind :: pickup_details_kind
  pd_address :: "delivery_address option"
  pd_spot :: "string option"
  pd_instructions :: string
  pd_availability :: pickup_availability

record set_pickup_details_payload =
  spd_expected_version :: int
  spd_details :: pickup_details

record clear_pickup_details_payload =
  cpd_expected_version :: int

record digital_file =
  df_deliverable_id :: string
  df_version :: int
  df_key :: string
  df_iv :: string
  df_ciphertext_blake3 :: string
  df_plaintext_blake3 :: string
  df_size_bytes :: int
  df_content_type :: string
  df_file_name :: string

datatype digital_delivery =
    DFile digital_file | DLink string | DText string | DEmail | DMessage

fun digital_delivery_kind_of :: "digital_delivery \<Rightarrow> digital_delivery_kind" where
  "digital_delivery_kind_of (DFile _) = KFile"
| "digital_delivery_kind_of (DLink _) = KLink"
| "digital_delivery_kind_of (DText _) = KText"
| "digital_delivery_kind_of DEmail = KEmail"
| "digital_delivery_kind_of DMessage = KMessage"

record set_digital_delivery_payload =
  sdd_expected_version :: int
  sdd_delivery :: digital_delivery

record clear_digital_delivery_payload =
  cdd_expected_version :: int

section \<open>Commands\<close>

datatype command_payload =
    RegisterListing register_listing_payload
  | SyncListing sync_listing_payload
  | SyncDrop sync_drop_payload
  | CancelDrop
  | ReleaseDropListings
  | ReserveInventory reserve_inventory_payload
  | CreateCheckout create_checkout_payload
  | CreateOffer offer_terms_payload
  | CounterOffer counter_offer_payload
  | AcceptOffer offer_action_payload
  | OfferCheckout offer_checkout_payload
  | RejectOffer offer_action_payload
  | WithdrawOffer offer_action_payload
  | PlaceBid place_bid_payload
  | CloseAuction
  | AdvanceSandboxPayment advance_sandbox_payment_payload
  | PrepareLocks prepare_locks_payload
  | RegisterLocks register_locks_payload
  | RequestCancellation request_cancellation_payload
  | ApproveCancellation order_action_payload
  | ShipOrder ship_order_payload
  | ConfirmDelivery order_action_payload
  | SetPickupDetails set_pickup_details_payload
  | ClearPickupDetails clear_pickup_details_payload
  | SetDigitalDelivery set_digital_delivery_payload
  | ClearDigitalDelivery clear_digital_delivery_payload
  | SetDeliveryEmail set_delivery_email_payload
  | DeliverDigital deliver_digital_payload
  | MarkReadyForPickup order_action_payload
  | ConfirmPickup order_action_payload
  | RequestReturn request_return_payload
  | ApproveReturn order_action_payload
  | ReceiveReturn order_action_payload
  | RecordExternalRefund record_external_refund_payload
  | CreateReview review_terms_payload
  | UpdateReview review_terms_payload
  | SetBandConsent set_band_consent_payload

record command =
  cmd_command_id :: uuid
  cmd_aggregate_id :: string
  cmd_expected_revision :: int
  cmd_issued_at :: datetime
  cmd_payload :: command_payload

fun payload_kind :: "command_payload \<Rightarrow> string" where
  "payload_kind (RegisterListing _) = ''listing.register''"
| "payload_kind (SyncListing _) = ''listing.sync''"
| "payload_kind (SyncDrop _) = ''drop.sync''"
| "payload_kind CancelDrop = ''drop.cancel''"
| "payload_kind ReleaseDropListings = ''drop.release_listings''"
| "payload_kind (ReserveInventory _) = ''inventory.reserve''"
| "payload_kind (CreateCheckout _) = ''checkout.create''"
| "payload_kind (CreateOffer _) = ''offer.create''"
| "payload_kind (CounterOffer _) = ''offer.counter''"
| "payload_kind (AcceptOffer _) = ''offer.accept''"
| "payload_kind (OfferCheckout _) = ''offer.checkout''"
| "payload_kind (RejectOffer _) = ''offer.reject''"
| "payload_kind (WithdrawOffer _) = ''offer.withdraw''"
| "payload_kind (PlaceBid _) = ''auction.place_bid''"
| "payload_kind CloseAuction = ''auction.close''"
| "payload_kind (AdvanceSandboxPayment _) = ''payment.sandbox_advance''"
| "payload_kind (PrepareLocks _) = ''payment.prepare_locks''"
| "payload_kind (RegisterLocks _) = ''payment.register_locks''"
| "payload_kind (RequestCancellation _) = ''order.cancel_request''"
| "payload_kind (ApproveCancellation _) = ''order.cancel_approve''"
| "payload_kind (ShipOrder _) = ''fulfillment.ship''"
| "payload_kind (ConfirmDelivery _) = ''fulfillment.confirm_delivery''"
| "payload_kind (SetPickupDetails _) = ''pickup_details.set''"
| "payload_kind (ClearPickupDetails _) = ''pickup_details.clear''"
| "payload_kind (SetDigitalDelivery _) = ''digital_delivery.set''"
| "payload_kind (ClearDigitalDelivery _) = ''digital_delivery.clear''"
| "payload_kind (SetDeliveryEmail _) = ''order.set_delivery_email''"
| "payload_kind (DeliverDigital _) = ''fulfillment.deliver_digital''"
| "payload_kind (MarkReadyForPickup _) = ''fulfillment.mark_ready''"
| "payload_kind (ConfirmPickup _) = ''fulfillment.confirm_pickup''"
| "payload_kind (RequestReturn _) = ''return.request''"
| "payload_kind (ApproveReturn _) = ''return.approve''"
| "payload_kind (ReceiveReturn _) = ''return.receive''"
| "payload_kind (RecordExternalRefund _) = ''refund.record_external''"
| "payload_kind (CreateReview _) = ''review.create''"
| "payload_kind (UpdateReview _) = ''review.update''"
| "payload_kind (SetBandConsent _) = ''attestation.set_band_consent''"

definition command_kind :: "command \<Rightarrow> string" where
  "command_kind c = payload_kind (cmd_payload c)"

section \<open>Facts\<close>

lemma delivery_kind_parse_as_str [simp]: "delivery_kind_parse (delivery_kind_as_str k) = Some k"
  by (cases k) (simp_all add: delivery_kind_parse_def)

lemma delivery_kind_parse_Some:
  "delivery_kind_parse v = Some k \<longleftrightarrow> v = delivery_kind_as_str k"
  by (cases k) (auto simp: delivery_kind_parse_def)

lemma channel_kind_manual [simp]: "\<not> is_instant (channel_kind ch)"
  by (cases ch) simp_all

lemma email_well_formed_shape:
  assumes "email_is_well_formed v"
  shows "\<exists>local domain. v = local @ ''@'' @ domain \<and> local \<noteq> [] \<and> domain \<noteq> []
    \<and> CHR ''@'' \<notin> set domain"
  using assms by (auto simp: email_is_well_formed_def split: option.splits dest!: split_once_Some) blast

end
