(* ===== verification/Validation.thy ===== *)
theory Validation
  imports Commands Postal
begin

text \<open>
  The validators of \<^verbatim>\<open>crates/domain/src/commands.rs\<close>.  A Rust validator pushes issues onto a
  vector and normalizes fields in place; its model returns the normalized value and the list of the
  issues it pushes, in the same order, and a payload is accepted when the list is empty.

  Three libraries stay parameters, the fields of \<open>externals\<close>: the Crockford base32 codec and the URL
  parser.  \<open>serde_json\<close> is the parameter of \<open>parse_command\<close>: one decoder per payload type and one for
  the envelope, each giving a value or the text of its error.
\<close>

section \<open>Issues and patterns\<close>

record validation_issue =
  vi_path :: string
  vi_message :: string

definition issue :: "string \<Rightarrow> string \<Rightarrow> validation_issue" where
  "issue path message = \<lparr>vi_path = path, vi_message = message\<rparr>"

text \<open>\<open>if !ok { issues.push(issue(path, message)) }\<close>.\<close>

definition require :: "bool \<Rightarrow> string \<Rightarrow> string \<Rightarrow> validation_issue list" where
  "require ok path message = (if ok then [] else [issue path message])"

record externals =
  base32_decode :: "string \<Rightarrow> 8 word list option"
  base32_encode :: "8 word list \<Rightarrow> string"
  url_parse :: "string \<Rightarrow> (string \<times> string option) option"

definition is_id_char :: "char \<Rightarrow> bool" where
  "is_id_char c \<longleftrightarrow> is_ascii_alphanumeric c \<or> c = CHR ''_'' \<or> c = CHR ''-''"

text \<open>\<^verbatim>\<open>^[a-z][a-z0-9_-]{1,31}:[A-Za-z0-9_-]{1,256}$\<close>: no class contains a colon, so the match
  splits at the first one.\<close>

definition aggregate_id_regex :: "string \<Rightarrow> bool" where
  "aggregate_id_regex s =
     (case split_once '':'' s of
        Some (h # rest, ident) \<Rightarrow>
          is_ascii_lower h \<and> 1 \<le> length rest \<and> length rest \<le> 31
          \<and> list_all (\<lambda>c. is_ascii_lower c \<or> is_ascii_digit c \<or> c = CHR ''_'' \<or> c = CHR ''-'') rest
          \<and> 1 \<le> length ident \<and> length ident \<le> 256 \<and> list_all is_id_char ident
      | _ \<Rightarrow> False)"

definition entity_id_regex :: "string \<Rightarrow> bool" where
  "entity_id_regex s \<longleftrightarrow> 1 \<le> length s \<and> length s \<le> 128 \<and> list_all is_id_char s"

definition is_valid_entity_id :: "string \<Rightarrow> bool" where
  "is_valid_entity_id value = entity_id_regex value"

definition is_hex_lower :: "char \<Rightarrow> bool" where
  "is_hex_lower c \<longleftrightarrow> is_ascii_digit c \<or> (97 \<le> byte c \<and> byte c \<le> 102)"

definition content_hash_regex :: "string \<Rightarrow> bool" where
  "content_hash_regex s \<longleftrightarrow> length s = 64 \<and> list_all is_hex_lower s"

definition currency_regex :: "string \<Rightarrow> bool" where
  "currency_regex s =
     (case s of h # rest \<Rightarrow>
        is_ascii_upper h \<and> 2 \<le> length rest \<and> length rest \<le> 11
        \<and> list_all (\<lambda>c. is_ascii_upper c \<or> is_ascii_digit c) rest
      | [] \<Rightarrow> False)"

definition country_code_regex :: "string \<Rightarrow> bool" where
  "country_code_regex s \<longleftrightarrow> length s = 2 \<and> list_all is_ascii_upper s"

definition is_crockford :: "char \<Rightarrow> bool" where
  "is_crockford c \<longleftrightarrow> c \<in> set ''0123456789ABCDEFGHJKMNPQRSTVWXYZ''"

definition crockford_bundle_id_regex :: "string \<Rightarrow> bool" where
  "crockford_bundle_id_regex s \<longleftrightarrow> length s = 26 \<and> list_all is_crockford s"

definition crockford_id_regex_52 :: "string \<Rightarrow> bool" where
  "crockford_id_regex_52 s \<longleftrightarrow> length s = 52 \<and> list_all is_crockford s"

text \<open>\<^verbatim>\<open>^([01][0-9]|2[0-3]):[0-5][0-9]$\<close>\<close>

definition hhmm_regex :: "string \<Rightarrow> bool" where
  "hhmm_regex s =
     (case s of
        [a, b, c, d, e] \<Rightarrow>
          ((a = CHR ''0'' \<or> a = CHR ''1'') \<and> is_ascii_digit b
           \<or> a = CHR ''2'' \<and> 48 \<le> byte b \<and> byte b \<le> 51)
          \<and> c = CHR '':'' \<and> 48 \<le> byte d \<and> byte d \<le> 53 \<and> is_ascii_digit e
      | _ \<Rightarrow> False)"

text \<open>The order of \<open>str\<close>: lexicographic on bytes.\<close>

fun str_less :: "string \<Rightarrow> string \<Rightarrow> bool" where
  "str_less [] [] = False"
| "str_less [] (_ # _) = True"
| "str_less (_ # _) [] = False"
| "str_less (a # as) (b # bs) = (byte a < byte b \<or> a = b \<and> str_less as bs)"

section \<open>Lock resources\<close>

definition LOCKS_CONTENT_LOCK_PREFIX :: string where
  "LOCKS_CONTENT_LOCK_PREFIX = ''/pub/locks.app/''"

definition UPSTREAM_LOCKS_CONTENT_LOCK_PREFIX :: string where
  "UPSTREAM_LOCKS_CONTENT_LOCK_PREFIX = ''/pub/app.locks/''"

definition LOCKS_CONTENT_LOCK_PREFIXES :: "string list" where
  "LOCKS_CONTENT_LOCK_PREFIXES = [LOCKS_CONTENT_LOCK_PREFIX, UPSTREAM_LOCKS_CONTENT_LOCK_PREFIX]"

definition PUBKY_RESOURCE_SCHEME :: string where
  "PUBKY_RESOURCE_SCHEME = ''pubky://''"

text \<open>\<open>Iterator::find_map\<close>.\<close>

fun find_map :: "('a \<Rightarrow> 'b option) \<Rightarrow> 'a list \<Rightarrow> 'b option" where
  "find_map f [] = None"
| "find_map f (x # xs) = (case f x of Some y \<Rightarrow> Some y | None \<Rightarrow> find_map f xs)"

definition split_lock_resource :: "string \<Rightarrow> (string \<times> string \<times> string) option" where
  "split_lock_resource resource =
     find_map (\<lambda>prefix. case split_once prefix resource of
         Some (creator, path) \<Rightarrow> Some (creator, prefix, path) | None \<Rightarrow> None)
       LOCKS_CONTENT_LOCK_PREFIXES"

definition canonical_lock_resource :: "externals \<Rightarrow> string \<Rightarrow> string option" where
  "canonical_lock_resource ext resource0 =
     (let resource = (case strip_prefix PUBKY_RESOURCE_SCHEME resource0 of
            Some r \<Rightarrow> r | None \<Rightarrow> resource0)
      in case split_lock_resource resource of
           None \<Rightarrow> None
         | Some (creator, prefix, path) \<Rightarrow>
             (case strip_suffix ''.json'' path of
                None \<Rightarrow> None
              | Some stem \<Rightarrow>
                  (let lock_id = to_ascii_uppercase stem
                   in if \<not> (is_valid_pubky creator \<and> crockford_id_regex_52 lock_id) then None
                      else case base32_decode ext lock_id of
                             None \<Rightarrow> None
                           | Some decoded \<Rightarrow>
                               if length decoded = 32
                               then Some (creator @ prefix @ base32_encode ext decoded @ ''.json'')
                               else None)))"

section \<open>Shared field checks\<close>

definition validate_actor :: "string \<Rightarrow> validation_issue list + unit" where
  "validate_actor actor =
     (if is_valid_pubky actor then Inr ()
      else Inl [issue ''actor'' ''Expected a 52-character z-base-32 Pubky''])"

definition validate_money :: "string \<Rightarrow> money \<Rightarrow> validation_issue list" where
  "validate_money path m =
     require (in_range 0 MAX_SAFE_INTEGER (amount_minor m)) (path @ ''.amount_minor'')
       ''Expected a non-negative safe integer amount''
   @ require (currency_regex (currency m)) (path @ ''.currency'') ''Expected an uppercase asset code''
   @ require (in_range 0 18 (exponent m)) (path @ ''.exponent'')
       ''Expected an exponent between 0 and 18''"

definition validate_positive_money :: "string \<Rightarrow> money \<Rightarrow> validation_issue list" where
  "validate_positive_money path m =
     validate_money path m
   @ require (0 < amount_minor m) (path @ ''.amount_minor'') ''Expected a positive monetary amount''"

definition length_message :: "nat \<Rightarrow> nat \<Rightarrow> string" where
  "length_message mn mx =
     ''Expected between '' @ show_nat mn @ '' and '' @ show_nat mx @ '' characters''"

text \<open>The trimmed value, and the issue when its length in scalars is out of range.\<close>

definition validate_trimmed :: "string \<Rightarrow> string \<Rightarrow> nat \<Rightarrow> nat \<Rightarrow> string \<times> validation_issue list" where
  "validate_trimmed path value mn mx =
     (let v = trim value
      in (v, require (mn \<le> chars_count v \<and> chars_count v \<le> mx) path
               (length_message mn mx)))"

definition validate_printable :: "string \<Rightarrow> string \<Rightarrow> validation_issue list" where
  "validate_printable path value =
     require (\<not> any_control value) path ''Expected printable characters only''"

text \<open>\<open>if issues.is_empty() { Ok(..) } else { Err(issues) }\<close>.\<close>

definition accept :: "validation_issue list \<Rightarrow> 'a \<Rightarrow> validation_issue list + 'a" where
  "accept issues v = (if issues = [] then Inr v else Inl issues)"

section \<open>Listings\<close>

definition validate_sync_listing :: "sync_listing_payload \<Rightarrow> validation_issue list + command_payload" where
  "validate_sync_listing p =
     accept (require (is_valid_pubky (sl_seller_pubky p)) ''payload.seller_pubky''
               ''Expected a 52-character z-base-32 Pubky''
           @ require (entity_id_regex (sl_listing_id p)) ''payload.listing_id''
               ''Expected a path-safe commerce identifier'')
       (SyncListing p)"

definition validate_sync_drop :: "sync_drop_payload \<Rightarrow> validation_issue list + command_payload" where
  "validate_sync_drop p =
     accept (require (is_valid_pubky (sd_seller_pubky p)) ''payload.seller_pubky''
               ''Expected a 52-character z-base-32 Pubky''
           @ require (entity_id_regex (sd_drop_id p)) ''payload.drop_id''
               ''Expected a path-safe commerce identifier'')
       (SyncDrop p)"

definition validate_auction_terms :: "money \<Rightarrow> auction_terms \<Rightarrow> validation_issue list" where
  "validate_auction_terms unit_price terms =
     require (at_starts_at terms < at_ends_at terms) ''payload.auction_terms.ends_at''
       ''Auction end must follow start''
   @ validate_positive_money ''payload.auction_terms.minimum_increment'' (at_minimum_increment terms)
   @ require (same_asset (at_minimum_increment terms) unit_price)
       ''payload.auction_terms.minimum_increment''
       ''Auction amounts must use the listing asset and exponent''
   @ require (in_range 0 3600 (at_anti_sniping_window_seconds terms))
       ''payload.auction_terms.anti_sniping_window_seconds''
       ''Expected a window between 0 and 3600 seconds''
   @ require (in_range 0 3600 (at_anti_sniping_extension_seconds terms))
       ''payload.auction_terms.anti_sniping_extension_seconds''
       ''Expected an extension between 0 and 3600 seconds''"

definition validate_auction_reserve :: "money \<Rightarrow> auction_reserve \<Rightarrow> validation_issue list" where
  "validate_auction_reserve unit_price reserve =
     require (in_range 0 MAX_SAFE_INTEGER (ar_expected_record_revision reserve))
       ''payload.auction_reserve.expected_record_revision''
       ''Expected a non-negative reserve record revision''
   @ require (in_range 1 MAX_SAFE_INTEGER (ar_record_revision reserve))
       ''payload.auction_reserve.record_revision'' ''Expected a positive reserve record revision''
   @ (case ar_reserve_price reserve of
        None \<Rightarrow> []
      | Some reserve_price \<Rightarrow>
          validate_positive_money ''payload.auction_reserve.reserve_price'' reserve_price
        @ (if \<not> same_asset reserve_price unit_price
           then [issue ''payload.auction_reserve.reserve_price''
                   ''Auction amounts must use the listing asset and exponent'']
           else require (amount_minor unit_price \<le> amount_minor reserve_price)
                  ''payload.auction_reserve.reserve_price.amount_minor''
                  ''Auction reserve must not be below the opening price''))"

text \<open>One issue for each occurrence of a method that was seen before.\<close>

fun repeated_methods :: "fulfillment_method list \<Rightarrow> fulfillment_method list \<Rightarrow> validation_issue list" where
  "repeated_methods seen [] = []"
| "repeated_methods seen (m # ms) =
     require (m \<notin> set seen) ''payload.fulfillment_methods'' ''Fulfillment methods must be unique''
   @ repeated_methods (m # seen) ms"

definition validate_digital_lock ::
  "externals \<Rightarrow> digital_lock_metadata \<Rightarrow> digital_lock_metadata \<times> validation_issue list" where
  "validate_digital_lock ext lock =
     (let (lock', issues) =
        (case canonical_lock_resource ext (dl_policy_uri lock) of
           Some canonical \<Rightarrow> (lock\<lparr>dl_policy_uri := canonical\<rparr>, [])
         | None \<Rightarrow> (lock, [issue ''payload.digital_lock.policyUri''
                            ''Expected a canonical Locks public resource'']))
      in (lock', issues @ require (entity_id_regex (dl_criterion_id lock'))
                   ''payload.digital_lock.criterionId'' ''Expected a path-safe commerce identifier''))"

definition validate_listing_payload ::
  "externals \<Rightarrow> register_listing_payload \<Rightarrow> bool \<Rightarrow> validation_issue list + register_listing_payload" where
  "validate_listing_payload ext p require_auction_reserve =
     (let (title, title_issues) = validate_trimmed ''payload.title'' (rl_title p) 1 80;
          is_auction = (rl_sale_format p = Auction);
          has_auction_reserve = (rl_auction_reserve p \<noteq> None);
          (lock, lock_issues) =
            (case rl_digital_lock p of
               None \<Rightarrow> (None, [])
             | Some l \<Rightarrow> (let (l', i) = validate_digital_lock ext l in (Some l', i)));
          issues =
            require (is_valid_pubky (rl_seller_pubky p)) ''payload.seller_pubky''
              ''Expected a 52-character z-base-32 Pubky''
          @ require (entity_id_regex (rl_listing_id p)) ''payload.listing_id''
              ''Expected a path-safe commerce identifier''
          @ title_issues
          @ require (in_range 1 MAX_SAFE_INTEGER (rl_listing_revision p)) ''payload.listing_revision''
              ''Expected a positive listing revision''
          @ require (content_hash_regex (rl_content_hash p)) ''payload.content_hash''
              ''Expected a 64-character lowercase hex hash''
          @ require (in_range 1 1000000 (rl_quantity p)) ''payload.quantity''
              ''Expected a quantity between 1 and 1000000''
          @ validate_positive_money ''payload.unit_price'' (rl_unit_price p)
          @ require (in_range 0 MAX_SAFE_INTEGER (rl_shipping_minor p)) ''payload.shipping_minor''
              ''Expected a non-negative shipping amount''
          @ require (is_auction = (rl_auction_terms p \<noteq> None)) ''payload.auction_terms''
              ''Auction format and terms must be configured together''
          @ require (\<not> (\<not> is_auction \<and> has_auction_reserve
                        \<or> require_auction_reserve \<and> is_auction \<and> \<not> has_auction_reserve))
              ''payload.auction_reserve''
              ''Auction format and reserve authority must be configured together''
          @ (case rl_auction_terms p of None \<Rightarrow> []
             | Some terms \<Rightarrow> validate_auction_terms (rl_unit_price p) terms)
          @ (case rl_auction_reserve p of None \<Rightarrow> []
             | Some reserve \<Rightarrow> validate_auction_reserve (rl_unit_price p) reserve)
          @ require (rl_fulfillment_methods p \<noteq> []) ''payload.fulfillment_methods''
              ''Expected at least one fulfillment method''
          @ repeated_methods [] (rl_fulfillment_methods p)
          @ require (\<not> (is_auction \<and> rl_fulfillment_methods p \<noteq> [Shipping]))
              ''payload.fulfillment_methods'' ''Auction listings are shipping-only''
          @ lock_issues
      in accept issues (p\<lparr>rl_title := title, rl_digital_lock := lock\<rparr>))"

definition validate_register_listing_payload ::
  "externals \<Rightarrow> register_listing_payload \<Rightarrow> validation_issue list + register_listing_payload" where
  "validate_register_listing_payload ext p = validate_listing_payload ext p True"

definition validate_public_listing_payload ::
  "externals \<Rightarrow> register_listing_payload \<Rightarrow> validation_issue list + register_listing_payload" where
  "validate_public_listing_payload ext p = validate_listing_payload ext p False"

definition map_ok :: "('a \<Rightarrow> 'b) \<Rightarrow> 'e + 'a \<Rightarrow> 'e + 'b" where
  "map_ok f r = (case r of Inl e \<Rightarrow> Inl e | Inr v \<Rightarrow> Inr (f v))"

definition validate_register_listing ::
  "externals \<Rightarrow> register_listing_payload \<Rightarrow> validation_issue list + command_payload" where
  "validate_register_listing ext p = map_ok RegisterListing (validate_register_listing_payload ext p)"

definition validate_reserve_inventory ::
  "reserve_inventory_payload \<Rightarrow> validation_issue list + command_payload" where
  "validate_reserve_inventory p =
     accept (require (in_range 1 1000000 (ri_quantity p)) ''payload.quantity''
               ''Expected a quantity between 1 and 1000000''
           @ require (in_range 60 1800 (ri_reservation_ttl_seconds p))
               ''payload.reservation_ttl_seconds''
               ''Expected a reservation TTL between 60 and 1800 seconds'')
       (ReserveInventory p)"

section \<open>Addresses\<close>

definition validate_delivery_address ::
  "string \<Rightarrow> delivery_address \<Rightarrow> delivery_address \<times> validation_issue list" where
  "validate_delivery_address path a =
     (let (name, i1) = validate_trimmed (path @ ''.name'') (da_name a) 1 100;
          (line1, i2) = validate_trimmed (path @ ''.line1'') (da_line1 a) 1 200;
          (line2, i3) = validate_trimmed (path @ ''.line2'') (da_line2 a) 0 200;
          (city, i4) = validate_trimmed (path @ ''.city'') (da_city a) 1 100;
          (postal_code, i5) = validate_trimmed (path @ ''.postal_code'') (da_postal_code a) 1 32;
          a' = a\<lparr>da_name := name, da_line1 := line1, da_line2 := line2, da_city := city,
                 da_postal_code := postal_code\<rparr>;
          issues = i1 @ i2 @ i3 @ i4 @ i5
      in if \<not> country_code_regex (da_country_code a)
         then (let region = trim (da_region a)
               in (a'\<lparr>da_region := region\<rparr>,
                   issues @ [issue (path @ ''.country_code'')
                               ''Expected an ISO 3166-1 alpha-2 country code'']
                          @ require (chars_count region \<le> 100) (path @ ''.region'')
                              ''Expected at most 100 characters''))
         else case canonicalize_region (da_country_code a) (da_region a) of
                Inr region \<Rightarrow> (a'\<lparr>da_region := region\<rparr>, issues)
              | Inl message \<Rightarrow> (a', issues @ [issue (path @ ''.region'') message]))"

section \<open>Offers and bids\<close>

definition MAX_OFFER_TTL_SECONDS :: int where
  "MAX_OFFER_TTL_SECONDS = 7 * 24 * 60 * 60"

definition validate_offer_terms ::
  "money \<Rightarrow> int \<Rightarrow> int \<Rightarrow> string \<Rightarrow> string \<times> validation_issue list" where
  "validate_offer_terms amount quantity expires_in_seconds message =
     (let (msg, i) = validate_trimmed ''payload.message'' message 0 500
      in (msg,
          validate_positive_money ''payload.amount'' amount
        @ require (in_range 1 1000000 quantity) ''payload.quantity''
            ''Expected a quantity between 1 and 1000000''
        @ require (in_range 300 MAX_OFFER_TTL_SECONDS expires_in_seconds)
            ''payload.expires_in_seconds''
            ''Expected an offer lifetime between 300 and 604800 seconds''
        @ i))"

definition validate_create_offer :: "offer_terms_payload \<Rightarrow> validation_issue list + command_payload" where
  "validate_create_offer p =
     (let (msg, issues) = validate_offer_terms (ot_amount p) (ot_quantity p)
            (ot_expires_in_seconds p) (ot_message p)
      in accept issues (CreateOffer (p\<lparr>ot_message := msg\<rparr>)))"

definition validate_counter_offer :: "counter_offer_payload \<Rightarrow> validation_issue list + command_payload" where
  "validate_counter_offer p =
     (let (msg, issues) = validate_offer_terms (co_amount p) (co_quantity p)
            (co_expires_in_seconds p) (co_message p)
      in accept issues (CounterOffer (p\<lparr>co_message := msg\<rparr>)))"

definition validate_offer_checkout :: "offer_checkout_payload \<Rightarrow> validation_issue list + command_payload" where
  "validate_offer_checkout p =
     (let fulfillment = (case oc_fulfillment p of Some f \<Rightarrow> f | None \<Rightarrow> Shipping);
          (address, address_issues) =
            (case (fulfillment, oc_delivery_address p) of
               (Shipping, Some a) \<Rightarrow>
                 (let (a', i) = validate_delivery_address ''payload.delivery_address'' a in (Some a', i))
             | (Shipping, None) \<Rightarrow>
                 (None, [issue ''payload.delivery_address''
                           ''A delivery address is required when the offer ships''])
             | (Pickup, Some a) \<Rightarrow>
                 (Some a, [issue ''payload.delivery_address''
                             ''A pickup offer checkout must not carry a delivery address''])
             | (Pickup, None) \<Rightarrow> (None, [])
             | (Digital, d) \<Rightarrow>
                 (d, [issue ''payload.fulfillment'' ''Offer checkout supports shipping or pickup'']));
          issues =
            require (aggregate_id_regex (oc_listing_aggregate_id p)) ''payload.listing_aggregate_id''
              ''Expected type:identifier aggregate format''
          @ require (in_range 1 MAX_SAFE_INTEGER (oc_listing_revision p)) ''payload.listing_revision''
              ''Expected a positive listing revision''
          @ require (content_hash_regex (oc_listing_record_sha256 p)) ''payload.listing_record_sha256''
              ''Expected a 64-character lowercase hex hash''
          @ require (entity_id_regex (oc_variant_id p)) ''payload.variant_id''
              ''Expected a path-safe commerce identifier''
          @ require (in_range 1 1000000 (oc_quantity p)) ''payload.quantity''
              ''Expected a quantity between 1 and 1000000''
          @ address_issues
          @ require (oc_guarantee_policy_version p = 1) ''payload.guarantee_policy_version''
              ''Expected guarantee policy version 1''
      in accept issues (OfferCheckout (p\<lparr>oc_delivery_address := address\<rparr>)))"

definition validate_place_bid :: "place_bid_payload \<Rightarrow> validation_issue list + command_payload" where
  "validate_place_bid p =
     accept (validate_positive_money ''payload.maximum_amount'' (pb_maximum_amount p)) (PlaceBid p)"

section \<open>Payments and orders\<close>

definition validate_advance_sandbox_payment ::
  "advance_sandbox_payment_payload \<Rightarrow> validation_issue list + command_payload" where
  "validate_advance_sandbox_payment p =
     accept (require (in_range 0 6 (asp_confirmations p)) ''payload.confirmations''
               ''Expected between 0 and 6 confirmations'')
       (AdvanceSandboxPayment p)"

definition validate_register_locks :: "register_locks_payload \<Rightarrow> validation_issue list + command_payload" where
  "validate_register_locks p =
     accept (require (crockford_bundle_id_regex (rk_bundle_id p)) ''payload.bundle_id''
               ''Expected a canonical 26-character Crockford-base32 bundle id'')
       (RegisterLocks p)"

definition validate_request_cancellation ::
  "request_cancellation_payload \<Rightarrow> validation_issue list + command_payload" where
  "validate_request_cancellation p =
     (let (reason, issues) = validate_trimmed ''payload.reason'' (rc_reason p) 1 500
      in accept issues (RequestCancellation (p\<lparr>rc_reason := reason\<rparr>)))"

definition validate_ship_order :: "ship_order_payload \<Rightarrow> validation_issue list + command_payload" where
  "validate_ship_order p =
     (let (carrier, i1) = validate_trimmed ''payload.carrier'' (so_carrier p) 1 100;
          i2 = validate_printable ''payload.carrier'' carrier;
          (tracking_number, i3) =
            validate_trimmed ''payload.tracking_number'' (so_tracking_number p) 1 200;
          i4 = validate_printable ''payload.tracking_number'' tracking_number
      in accept (i1 @ i2 @ i3 @ i4)
           (ShipOrder (p\<lparr>so_carrier := carrier, so_tracking_number := tracking_number\<rparr>)))"

definition validate_request_return :: "request_return_payload \<Rightarrow> validation_issue list + command_payload" where
  "validate_request_return p =
     (let (reason, i) = validate_trimmed ''payload.reason'' (rr_reason p) 1 1000
      in accept (i @ require (in_range 1 MAX_SAFE_INTEGER (rr_requested_amount_minor p))
                       ''payload.requested_amount_minor'' ''Expected a positive requested amount'')
           (RequestReturn (p\<lparr>rr_reason := reason\<rparr>)))"

definition validate_record_external_refund ::
  "record_external_refund_payload \<Rightarrow> validation_issue list + command_payload" where
  "validate_record_external_refund p =
     (let (transaction_id, i) = validate_trimmed ''payload.transaction_id'' (rer_transaction_id p) 8 200
      in accept (require (in_range 1 MAX_SAFE_INTEGER (rer_amount_minor p)) ''payload.amount_minor''
                   ''Expected a positive refund amount'' @ i)
           (RecordExternalRefund (p\<lparr>rer_transaction_id := transaction_id\<rparr>)))"

definition validate_review_terms ::
  "review_terms_payload \<Rightarrow> (review_terms_payload \<Rightarrow> command_payload)
     \<Rightarrow> validation_issue list + command_payload" where
  "validate_review_terms p wrap =
     (let (text, i) = validate_trimmed ''payload.text'' (rt_text p) 1 5000
      in accept (require (in_range 1 5 (rt_rating p)) ''payload.rating''
                   ''Expected a rating between 1 and 5'' @ i)
           (wrap (p\<lparr>rt_text := text\<rparr>)))"

section \<open>Pickup details\<close>

definition WEEKDAYS :: "string list" where
  "WEEKDAYS = [''mon'', ''tue'', ''wed'', ''thu'', ''fri'', ''sat'', ''sun'']"

definition validate_window :: "nat \<Rightarrow> pickup_window \<Rightarrow> validation_issue list" where
  "validate_window index w =
     (let path = ''payload.details.availability.windows.'' @ show_nat index
      in require (pw_day w \<in> set WEEKDAYS) (path @ ''.day'') ''Expected a weekday (mon..sun)''
       @ require (hhmm_regex (pw_start w)) (path @ ''.start'')
           ''Expected a 24-hour HH:MM wall-clock time''
       @ require (hhmm_regex (pw_end w)) (path @ ''.end'')
           ''Expected a 24-hour HH:MM wall-clock time''
       @ require (\<not> (hhmm_regex (pw_start w) \<and> hhmm_regex (pw_end w)
                      \<and> \<not> str_less (pw_start w) (pw_end w)))
           (path @ ''.end'') ''Window end must follow start'')"

fun validate_windows :: "nat \<Rightarrow> pickup_window list \<Rightarrow> validation_issue list" where
  "validate_windows index [] = []"
| "validate_windows index (w # ws) = validate_window index w @ validate_windows (Suc index) ws"

definition validate_pickup_place :: "pickup_details \<Rightarrow> pickup_details \<times> validation_issue list" where
  "validate_pickup_place d =
     (case pd_kind d of
        PickupAddress \<Rightarrow>
          (let (d', i) =
             (case pd_address d of
                Some a \<Rightarrow> (let (a', i) = validate_delivery_address ''payload.details.address'' a
                           in (d\<lparr>pd_address := Some a'\<rparr>, i))
              | None \<Rightarrow> (d, [issue ''payload.details.address''
                              ''Address-kind pickup details require an address'']))
           in (d', i @ require (pd_spot d = None) ''payload.details.spot''
                         ''Address-kind pickup details cannot carry a spot''))
      | PickupSpot \<Rightarrow>
          (let (d', i) =
             (case pd_spot d of
                Some s \<Rightarrow> (let (s', i) = validate_trimmed ''payload.details.spot'' s 1 200
                           in (d\<lparr>pd_spot := Some s'\<rparr>,
                               i @ validate_printable ''payload.details.spot'' s'))
              | None \<Rightarrow> (d, [issue ''payload.details.spot''
                              ''Spot-kind pickup details require a meeting point'']))
           in (d', i @ require (pd_address d = None) ''payload.details.address''
                         ''Spot-kind pickup details cannot carry an address'')))"

definition validate_pickup_details :: "pickup_details \<Rightarrow> pickup_details \<times> validation_issue list" where
  "validate_pickup_details d0 =
     (let (d, place_issues) = validate_pickup_place d0;
          (instructions, i1) =
            validate_trimmed ''payload.details.instructions'' (pd_instructions d) 0 1000;
          i2 = validate_printable ''payload.details.instructions'' instructions;
          (zone, i3) =
            validate_trimmed ''payload.details.availability.zone'' (pa_zone (pd_availability d)) 3 64;
          i4 = validate_printable ''payload.details.availability.zone'' zone;
          i5 = require (CHR ''/'' \<in> set zone) ''payload.details.availability.zone''
                 ''Expected an IANA timezone (Area/City)'';
          i6 = (case pa_windows (pd_availability d) of
                  None \<Rightarrow> []
                | Some windows \<Rightarrow>
                    require (\<not> (windows = [] \<or> 14 < length windows))
                      ''payload.details.availability.windows''
                      ''Expected between 1 and 14 availability windows''
                  @ validate_windows 0 windows)
      in (d\<lparr>pd_instructions := instructions,
            pd_availability := (pd_availability d)\<lparr>pa_zone := zone\<rparr>\<rparr>,
          place_issues @ i1 @ i2 @ i3 @ i4 @ i5 @ i6))"

definition validate_set_pickup_details ::
  "set_pickup_details_payload \<Rightarrow> validation_issue list + command_payload" where
  "validate_set_pickup_details p =
     (let (details, issues) = validate_pickup_details (spd_details p)
      in accept (require (in_range 0 MAX_SAFE_INTEGER (spd_expected_version p))
                   ''payload.expected_version'' ''Expected a non-negative details version'' @ issues)
           (SetPickupDetails (p\<lparr>spd_details := details\<rparr>)))"

definition validate_clear_pickup_details ::
  "clear_pickup_details_payload \<Rightarrow> validation_issue list + command_payload" where
  "validate_clear_pickup_details p =
     accept (require (in_range 0 MAX_SAFE_INTEGER (cpd_expected_version p))
               ''payload.expected_version'' ''Expected a non-negative details version'')
       (ClearPickupDetails p)"

section \<open>Digital delivery\<close>

definition DIGITAL_TEXT_MAX_CHARS :: nat where
  "DIGITAL_TEXT_MAX_CHARS = 4000"

definition DIGITAL_LINK_MAX_CHARS :: nat where
  "DIGITAL_LINK_MAX_CHARS = 2048"

definition DIGITAL_FILE_NAME_MAX_CHARS :: nat where
  "DIGITAL_FILE_NAME_MAX_CHARS = 255"

definition DIGITAL_CONTENT_TYPE_MAX_CHARS :: nat where
  "DIGITAL_CONTENT_TYPE_MAX_CHARS = 127"

definition is_lower_hex :: "string \<Rightarrow> nat \<Rightarrow> bool" where
  "is_lower_hex value len \<longleftrightarrow> length value = len \<and> list_all is_hex_lower value"

definition is_valid_deliverable_id :: "string \<Rightarrow> bool" where
  "is_valid_deliverable_id value = is_lower_hex value 32"

definition is_mime_token :: "string \<Rightarrow> bool" where
  "is_mime_token part \<longleftrightarrow>
     part \<noteq> [] \<and> list_all (\<lambda>b. is_ascii_alphanumeric b \<or> b \<in> set ''!#$&-^_.+'') part"

definition is_valid_content_type :: "string \<Rightarrow> bool" where
  "is_valid_content_type value =
     (case split_once ''/'' value of
        None \<Rightarrow> False
      | Some (kind, subtype) \<Rightarrow>
          length value \<le> DIGITAL_CONTENT_TYPE_MAX_CHARS \<and> is_mime_token kind \<and> is_mime_token subtype)"

definition is_valid_file_name :: "string \<Rightarrow> bool" where
  "is_valid_file_name value \<longleftrightarrow>
     1 \<le> chars_count value \<and> chars_count value \<le> DIGITAL_FILE_NAME_MAX_CHARS
     \<and> trim value = value \<and> value \<noteq> ''.'' \<and> value \<noteq> ''..''
     \<and> \<not> (any_control value \<or> CHR ''/'' \<in> set value \<or> CHR 0x5C \<in> set value)"

definition is_valid_digital_link :: "externals \<Rightarrow> string \<Rightarrow> bool" where
  "is_valid_digital_link ext value =
     (if DIGITAL_LINK_MAX_CHARS < chars_count value \<or> any_control value \<or> any_whitespace value
      then False
      else case url_parse ext value of
             Some (scheme, host) \<Rightarrow>
               scheme = ''https'' \<and> (case host of Some h \<Rightarrow> h \<noteq> [] | None \<Rightarrow> False)
           | None \<Rightarrow> False)"

definition validate_digital_file :: "int \<Rightarrow> digital_file \<Rightarrow> validation_issue list" where
  "validate_digital_file expected_version file =
     require (is_valid_deliverable_id (df_deliverable_id file)) ''payload.delivery.deliverable_id''
       ''Expected 32 lowercase hexadecimal characters''
   @ require (df_version file = wrap_i64 (expected_version + 1)) ''payload.delivery.version''
       ''Expected the next delivery version''
   @ require (is_lower_hex (df_key file) 64) ''payload.delivery.key''
       ''Expected 64 lowercase hexadecimal characters''
   @ require (is_lower_hex (df_iv file) 24) ''payload.delivery.iv''
       ''Expected 24 lowercase hexadecimal characters''
   @ require (is_lower_hex (df_ciphertext_blake3 file) 64) ''payload.delivery.ciphertext_blake3''
       ''Expected 64 lowercase hexadecimal characters''
   @ require (is_lower_hex (df_plaintext_blake3 file) 64) ''payload.delivery.plaintext_blake3''
       ''Expected 64 lowercase hexadecimal characters''
   @ require (1 \<le> df_size_bytes file) ''payload.delivery.size_bytes'' ''Expected a positive file size''
   @ require (is_valid_content_type (df_content_type file)) ''payload.delivery.content_type''
       ''Expected a MIME type such as application/pdf''
   @ require (is_valid_file_name (df_file_name file)) ''payload.delivery.file_name''
       ''Expected a file name of 1-255 characters without slashes or control characters''"

definition validate_set_digital_delivery ::
  "externals \<Rightarrow> set_digital_delivery_payload \<Rightarrow> validation_issue list + command_payload" where
  "validate_set_digital_delivery ext p =
     accept
       (require (0 \<le> sdd_expected_version p \<and> sdd_expected_version p < MAX_SAFE_INTEGER)
          ''payload.expected_version'' ''Expected a non-negative delivery version''
      @ (case sdd_delivery p of
           DFile file \<Rightarrow> validate_digital_file (sdd_expected_version p) file
         | DLink url \<Rightarrow> require (is_valid_digital_link ext url) ''payload.delivery.url''
             ''Expected an https:// link of at most 2048 characters''
         | DText text \<Rightarrow>
             require (\<not> (trim text = [] \<or> DIGITAL_TEXT_MAX_CHARS < chars_count text
                          \<or> CHR 0x00 \<in> set text))
               ''payload.delivery.text'' ''Expected 1-4000 characters of text''
         | DEmail \<Rightarrow> []
         | DMessage \<Rightarrow> []))
       (SetDigitalDelivery p)"

definition validate_clear_digital_delivery ::
  "clear_digital_delivery_payload \<Rightarrow> validation_issue list + command_payload" where
  "validate_clear_digital_delivery p =
     accept (require (in_range 0 MAX_SAFE_INTEGER (cdd_expected_version p))
               ''payload.expected_version'' ''Expected a non-negative delivery version'')
       (ClearDigitalDelivery p)"

section \<open>Checkout\<close>

fun validate_variant_options ::
  "string \<Rightarrow> nat \<Rightarrow> variant_option list \<Rightarrow> variant_option list \<times> validation_issue list" where
  "validate_variant_options prefix option_index [] = ([], [])"
| "validate_variant_options prefix option_index (opt # opts) =
     (let path = prefix @ show_nat option_index;
          (name, i1) = validate_trimmed (path @ ''.name'') (vo_name opt) 1 40;
          (val, i2) = validate_trimmed (path @ ''.value'') (vo_value opt) 1 80;
          i3 = validate_printable (path @ ''.name'') name;
          i4 = validate_printable (path @ ''.value'') val;
          (rest, i5) = validate_variant_options prefix (Suc option_index) opts
      in (opt\<lparr>vo_name := name, vo_value := val\<rparr> # rest, i1 @ i2 @ i3 @ i4 @ i5))"

definition line_path :: "nat \<Rightarrow> string" where
  "line_path index = ''payload.lines.'' @ show_nat index"

definition validate_checkout_line ::
  "nat \<Rightarrow> checkout_line \<Rightarrow> checkout_line \<times> validation_issue list" where
  "validate_checkout_line index line =
     (let path = line_path index;
          (options, option_issues) =
            (case cl_variant_options line of
               None \<Rightarrow> (None, [])
             | Some opts \<Rightarrow>
                 (let (opts', i) =
                    validate_variant_options (path @ ''.variant_options.'') 0 opts
                  in (Some opts',
                      require (cl_variant_id line \<noteq> None) (path @ ''.variant_options'')
                        ''Variant options require a variant id''
                    @ require (\<not> (opts = [] \<or> 3 < length opts)) (path @ ''.variant_options'')
                        ''Expected between 1 and 3 variant options''
                    @ i)))
      in (line\<lparr>cl_variant_options := options\<rparr>,
          require (aggregate_id_regex (cl_listing_aggregate_id line))
            (path @ ''.listing_aggregate_id'') ''Expected type:identifier aggregate format''
        @ require (in_range 1 MAX_SAFE_INTEGER (cl_expected_revision line))
            (path @ ''.expected_revision'') ''Expected a positive expected revision''
        @ require (in_range 1 1000000 (cl_quantity line)) (path @ ''.quantity'')
            ''Expected a quantity between 1 and 1000000''
        @ (case cl_variant_id line of None \<Rightarrow> []
           | Some variant_id \<Rightarrow> require (entity_id_regex variant_id) (path @ ''.variant_id'')
               ''Expected a path-safe commerce identifier'')
        @ option_issues))"

text \<open>The loop over the lines; \<open>seen\<close> holds the listing ids of the earlier ones.\<close>

fun validate_lines ::
  "nat \<Rightarrow> string list \<Rightarrow> checkout_line list \<Rightarrow> checkout_line list \<times> validation_issue list" where
  "validate_lines index seen [] = ([], [])"
| "validate_lines index seen (line # lines) =
     (let (line', i1) = validate_checkout_line index line;
          i2 = require (cl_listing_aggregate_id line \<notin> set seen) ''payload.lines''
                 ''Checkout listing lines must be unique'';
          (lines', i3) = validate_lines (Suc index) (cl_listing_aggregate_id line # seen) lines
      in (line' # lines', i1 @ i2 @ i3))"

definition line_ships :: "checkout_line \<Rightarrow> bool" where
  "line_ships line \<longleftrightarrow> cl_fulfillment line = None \<or> cl_fulfillment line = Some Shipping"

definition validate_create_checkout :: "create_checkout_payload \<Rightarrow> validation_issue list + command_payload" where
  "validate_create_checkout p =
     (let i0 = require (\<not> (cc_lines p = [] \<or> 50 < length (cc_lines p))) ''payload.lines''
                 ''Expected between 1 and 50 checkout lines'';
          (lines, i1) = validate_lines 0 [] (cc_lines p);
          any_shipping = list_ex line_ships lines;
          all_pickup = list_all (\<lambda>line. cl_fulfillment line = Some Pickup) lines;
          (address, i2) =
            (case (cc_delivery_address p, any_shipping) of
               (Some a, True) \<Rightarrow>
                 (let (a', i) = validate_delivery_address ''payload.delivery_address'' a in (Some a', i))
             | (Some a, False) \<Rightarrow>
                 (Some a, [issue ''payload.delivery_address''
                    (if all_pickup then ''A pickup-only checkout must not carry a delivery address''
                     else ''A checkout with no shipped line must not carry a delivery address'')])
             | (None, True) \<Rightarrow>
                 (None, [issue ''payload.delivery_address''
                    ''A delivery address is required when any checkout line ships''])
             | (None, False) \<Rightarrow> (None, []));
          i3 = require (cc_guarantee_policy_version p = 1) ''payload.guarantee_policy_version''
                 ''Expected guarantee policy version 1''
      in accept (i0 @ i1 @ i2 @ i3)
           (CreateCheckout (p\<lparr>cc_lines := lines, cc_delivery_address := address\<rparr>)))"

section \<open>Commands on the wire\<close>

record 'v raw_envelope =
  re_version :: nat
  re_command_id :: uuid
  re_aggregate_id :: string
  re_expected_revision :: int
  re_issued_at :: datetime
  re_kind :: string
  re_payload :: 'v

text \<open>What \<open>serde_json::from_value\<close> does for each type it is called at.\<close>

record 'v decoders =
  d_envelope :: "'v \<Rightarrow> string + 'v raw_envelope"
  d_register_listing :: "'v \<Rightarrow> string + register_listing_payload"
  d_sync_listing :: "'v \<Rightarrow> string + sync_listing_payload"
  d_sync_drop :: "'v \<Rightarrow> string + sync_drop_payload"
  d_empty :: "'v \<Rightarrow> string + unit"
  d_reserve_inventory :: "'v \<Rightarrow> string + reserve_inventory_payload"
  d_create_checkout :: "'v \<Rightarrow> string + create_checkout_payload"
  d_offer_terms :: "'v \<Rightarrow> string + offer_terms_payload"
  d_counter_offer :: "'v \<Rightarrow> string + counter_offer_payload"
  d_offer_action :: "'v \<Rightarrow> string + offer_action_payload"
  d_offer_checkout :: "'v \<Rightarrow> string + offer_checkout_payload"
  d_place_bid :: "'v \<Rightarrow> string + place_bid_payload"
  d_advance_sandbox_payment :: "'v \<Rightarrow> string + advance_sandbox_payment_payload"
  d_prepare_locks :: "'v \<Rightarrow> string + prepare_locks_payload"
  d_register_locks :: "'v \<Rightarrow> string + register_locks_payload"
  d_request_cancellation :: "'v \<Rightarrow> string + request_cancellation_payload"
  d_order_action :: "'v \<Rightarrow> string + order_action_payload"
  d_ship_order :: "'v \<Rightarrow> string + ship_order_payload"
  d_set_pickup_details :: "'v \<Rightarrow> string + set_pickup_details_payload"
  d_clear_pickup_details :: "'v \<Rightarrow> string + clear_pickup_details_payload"
  d_set_digital_delivery :: "'v \<Rightarrow> string + set_digital_delivery_payload"
  d_clear_digital_delivery :: "'v \<Rightarrow> string + clear_digital_delivery_payload"
  d_set_delivery_email :: "'v \<Rightarrow> string + set_delivery_email_payload"
  d_deliver_digital :: "'v \<Rightarrow> string + deliver_digital_payload"
  d_request_return :: "'v \<Rightarrow> string + request_return_payload"
  d_record_external_refund :: "'v \<Rightarrow> string + record_external_refund_payload"
  d_review_terms :: "'v \<Rightarrow> string + review_terms_payload"
  d_set_band_consent :: "'v \<Rightarrow> string + set_band_consent_payload"

definition parse_payload ::
  "('v \<Rightarrow> string + 'p) \<Rightarrow> 'v \<Rightarrow> ('p \<Rightarrow> validation_issue list + 'q) \<Rightarrow> validation_issue list + 'q" where
  "parse_payload decode value k =
     (case decode value of
        Inl error \<Rightarrow> Inl [issue ''payload'' (''Invalid payload: '' @ error)]
      | Inr p \<Rightarrow> k p)"

definition parse_payload_of_kind ::
  "externals \<Rightarrow> 'v decoders \<Rightarrow> string \<Rightarrow> 'v \<Rightarrow> validation_issue list + command_payload" where
  "parse_payload_of_kind ext ds kind v =
    (if kind = ''listing.register'' then parse_payload (d_register_listing ds) v (validate_register_listing ext)
     else if kind = ''listing.sync'' then parse_payload (d_sync_listing ds) v validate_sync_listing
     else if kind = ''drop.sync'' then parse_payload (d_sync_drop ds) v validate_sync_drop
     else if kind = ''drop.cancel'' then parse_payload (d_empty ds) v (\<lambda>_. Inr CancelDrop)
     else if kind = ''drop.release_listings'' then
       parse_payload (d_empty ds) v (\<lambda>_. Inr ReleaseDropListings)
     else if kind = ''inventory.reserve'' then
       parse_payload (d_reserve_inventory ds) v validate_reserve_inventory
     else if kind = ''checkout.create'' then
       parse_payload (d_create_checkout ds) v validate_create_checkout
     else if kind = ''offer.create'' then parse_payload (d_offer_terms ds) v validate_create_offer
     else if kind = ''offer.counter'' then parse_payload (d_counter_offer ds) v validate_counter_offer
     else if kind = ''offer.accept'' then
       parse_payload (d_offer_action ds) v (\<lambda>p. Inr (AcceptOffer p))
     else if kind = ''offer.checkout'' then
       parse_payload (d_offer_checkout ds) v validate_offer_checkout
     else if kind = ''offer.reject'' then
       parse_payload (d_offer_action ds) v (\<lambda>p. Inr (RejectOffer p))
     else if kind = ''offer.withdraw'' then
       parse_payload (d_offer_action ds) v (\<lambda>p. Inr (WithdrawOffer p))
     else if kind = ''auction.place_bid'' then parse_payload (d_place_bid ds) v validate_place_bid
     else if kind = ''auction.close'' then parse_payload (d_empty ds) v (\<lambda>_. Inr CloseAuction)
     else if kind = ''payment.sandbox_advance'' then
       parse_payload (d_advance_sandbox_payment ds) v validate_advance_sandbox_payment
     else if kind = ''payment.prepare_locks'' then
       parse_payload (d_prepare_locks ds) v (\<lambda>p. Inr (PrepareLocks p))
     else if kind = ''payment.register_locks'' then
       parse_payload (d_register_locks ds) v validate_register_locks
     else if kind = ''order.cancel_request'' then
       parse_payload (d_request_cancellation ds) v validate_request_cancellation
     else if kind = ''order.cancel_approve'' then
       parse_payload (d_order_action ds) v (\<lambda>p. Inr (ApproveCancellation p))
     else if kind = ''fulfillment.ship'' then parse_payload (d_ship_order ds) v validate_ship_order
     else if kind = ''fulfillment.confirm_delivery'' then
       parse_payload (d_order_action ds) v (\<lambda>p. Inr (ConfirmDelivery p))
     else if kind = ''pickup_details.set'' then
       parse_payload (d_set_pickup_details ds) v validate_set_pickup_details
     else if kind = ''pickup_details.clear'' then
       parse_payload (d_clear_pickup_details ds) v validate_clear_pickup_details
     else if kind = ''digital_delivery.set'' then
       parse_payload (d_set_digital_delivery ds) v (validate_set_digital_delivery ext)
     else if kind = ''digital_delivery.clear'' then
       parse_payload (d_clear_digital_delivery ds) v validate_clear_digital_delivery
     else if kind = ''order.set_delivery_email'' then
       parse_payload (d_set_delivery_email ds) v (\<lambda>p. Inr (SetDeliveryEmail p))
     else if kind = ''fulfillment.deliver_digital'' then
       parse_payload (d_deliver_digital ds) v (\<lambda>p. Inr (DeliverDigital p))
     else if kind = ''fulfillment.mark_ready'' then
       parse_payload (d_order_action ds) v (\<lambda>p. Inr (MarkReadyForPickup p))
     else if kind = ''fulfillment.confirm_pickup'' then
       parse_payload (d_order_action ds) v (\<lambda>p. Inr (ConfirmPickup p))
     else if kind = ''return.request'' then
       parse_payload (d_request_return ds) v validate_request_return
     else if kind = ''return.approve'' then
       parse_payload (d_order_action ds) v (\<lambda>p. Inr (ApproveReturn p))
     else if kind = ''return.receive'' then
       parse_payload (d_order_action ds) v (\<lambda>p. Inr (ReceiveReturn p))
     else if kind = ''refund.record_external'' then
       parse_payload (d_record_external_refund ds) v validate_record_external_refund
     else if kind = ''review.create'' then
       parse_payload (d_review_terms ds) v (\<lambda>p. validate_review_terms p CreateReview)
     else if kind = ''review.update'' then
       parse_payload (d_review_terms ds) v (\<lambda>p. validate_review_terms p UpdateReview)
     else if kind = ''attestation.set_band_consent'' then
       parse_payload (d_set_band_consent ds) v (\<lambda>p. Inr (SetBandConsent p))
     else Inl [issue ''kind'' ''Unsupported command kind''])"

definition COMMERCE_CONTRACT_VERSION :: nat where
  "COMMERCE_CONTRACT_VERSION = 1"

definition parse_command ::
  "externals \<Rightarrow> 'v decoders \<Rightarrow> 'v \<Rightarrow> validation_issue list + command" where
  "parse_command ext ds raw =
     (case d_envelope ds raw of
        Inl error \<Rightarrow> Inl [issue [] (''Invalid envelope: '' @ error)]
      | Inr envelope \<Rightarrow>
          (let issues =
             require (re_version envelope = COMMERCE_CONTRACT_VERSION) ''version''
               ''Unsupported command version''
           @ require (aggregate_id_regex (re_aggregate_id envelope)) ''aggregate_id''
               ''Expected type:identifier aggregate format''
           @ require (in_range 0 MAX_SAFE_INTEGER (re_expected_revision envelope)) ''expected_revision''
               ''Expected a non-negative revision''
           in if issues \<noteq> [] then Inl issues
              else case parse_payload_of_kind ext ds (re_kind envelope) (re_payload envelope) of
                     Inl e \<Rightarrow> Inl e
                   | Inr payload \<Rightarrow>
                       Inr \<lparr>cmd_command_id = re_command_id envelope,
                            cmd_aggregate_id = re_aggregate_id envelope,
                            cmd_expected_revision = re_expected_revision envelope,
                            cmd_issued_at = re_issued_at envelope,
                            cmd_payload = payload\<rparr>))"

end
