(* ===== verification/Validation_Facts.thy ===== *)
theory Validation_Facts
  imports Validation
begin

text \<open>
  What acceptance means.  Field validators that normalize share one contract, the locale
  \<open>field_normalizer\<close>: a value they accept is accepted unchanged afterwards.  It is interpreted for
  trimmed text, addresses, locks, variant options, checkout lines and pickup details, and gives the
  properties of whole payloads: an accepted command is in normal form, carries the kind it was sent
  under, and satisfies the conditions the handlers rely on.
\<close>

section \<open>Conditions on accepted values\<close>

text \<open>The conditions on one line that the checkout handler relies on.\<close>

definition line_ok :: "checkout_line \<Rightarrow> bool" where
  "line_ok line \<longleftrightarrow>
     aggregate_id_regex (cl_listing_aggregate_id line)
     \<and> in_range 1 MAX_SAFE_INTEGER (cl_expected_revision line)
     \<and> in_range 1 1000000 (cl_quantity line)
     \<and> (cl_variant_options line \<noteq> None \<longrightarrow> cl_variant_id line \<noteq> None)"

text \<open>The minute of the day an \<open>HH:MM\<close> text names.\<close>

definition minutes_of_day :: "string \<Rightarrow> nat" where
  "minutes_of_day s =
     (case s of [a, b, _, d, e] \<Rightarrow>
        ((byte a - 48) * 10 + (byte b - 48)) * 60 + (byte d - 48) * 10 + (byte e - 48)
      | _ \<Rightarrow> 0)"

text \<open>What the base32 library documents: the canonical text of 32 bytes has 52 symbols of the
  Crockford alphabet, and decoding it gives the bytes back.\<close>

definition base32_ok :: "externals \<Rightarrow> bool" where
  "base32_ok ext \<longleftrightarrow>
     (\<forall>d. length d = 32 \<longrightarrow> crockford_id_regex_52 (base32_encode ext d)
        \<and> base32_decode ext (base32_encode ext d) = Some d)"

text \<open>A positive amount in an asset.\<close>

definition money_ok :: "money \<Rightarrow> bool" where
  "money_ok m \<longleftrightarrow>
     in_range 1 MAX_SAFE_INTEGER (amount_minor m) \<and> currency_regex (currency m) \<and> in_range 0 18 (exponent m)"

definition terms_ok :: "money \<Rightarrow> auction_terms \<Rightarrow> bool" where
  "terms_ok price t \<longleftrightarrow>
     at_starts_at t < at_ends_at t \<and> money_ok (at_minimum_increment t)
     \<and> same_asset (at_minimum_increment t) price
     \<and> in_range 0 3600 (at_anti_sniping_window_seconds t)
     \<and> in_range 0 3600 (at_anti_sniping_extension_seconds t)"

definition reserve_ok :: "money \<Rightarrow> auction_reserve \<Rightarrow> bool" where
  "reserve_ok price r \<longleftrightarrow>
     in_range 0 MAX_SAFE_INTEGER (ar_expected_record_revision r)
     \<and> in_range 1 MAX_SAFE_INTEGER (ar_record_revision r)
     \<and> pred_option (\<lambda>m. money_ok m \<and> same_asset m price \<and> amount_minor price \<le> amount_minor m)
         (ar_reserve_price r)"

text \<open>An accepted listing: an auction has terms, ships, and (when its reserve is registered with it) a
  reserve record; a fixed-price listing has none of these.\<close>

definition listing_ok :: "bool \<Rightarrow> register_listing_payload \<Rightarrow> bool" where
  "listing_ok strict p \<longleftrightarrow>
     is_valid_pubky (rl_seller_pubky p) \<and> entity_id_regex (rl_listing_id p)
     \<and> 1 \<le> chars_count (rl_title p) \<and> chars_count (rl_title p) \<le> 80
     \<and> in_range 1 MAX_SAFE_INTEGER (rl_listing_revision p)
     \<and> content_hash_regex (rl_content_hash p)
     \<and> in_range 1 1000000 (rl_quantity p)
     \<and> money_ok (rl_unit_price p) \<and> in_range 0 MAX_SAFE_INTEGER (rl_shipping_minor p)
     \<and> rl_fulfillment_methods p \<noteq> [] \<and> distinct (rl_fulfillment_methods p)
     \<and> pred_option (terms_ok (rl_unit_price p)) (rl_auction_terms p)
     \<and> pred_option (reserve_ok (rl_unit_price p)) (rl_auction_reserve p)
     \<and> (case rl_sale_format p of
          FixedPrice \<Rightarrow> rl_auction_terms p = None \<and> rl_auction_reserve p = None
        | Auction \<Rightarrow> rl_auction_terms p \<noteq> None \<and> rl_fulfillment_methods p = [Shipping]
            \<and> (strict \<longrightarrow> rl_auction_reserve p \<noteq> None))"

section \<open>A sample of the parameters\<close>

text \<open>A concrete base32 codec that satisfies \<open>base32_ok\<close>: positional notation in base 256 and base 32.\<close>

fun to_digits :: "nat \<Rightarrow> nat \<Rightarrow> nat \<Rightarrow> nat list" where
  "to_digits b 0 n = []"
| "to_digits b (Suc k) n = n mod b # to_digits b k (n div b)"

fun of_digits :: "nat \<Rightarrow> nat list \<Rightarrow> nat" where
  "of_digits b [] = 0"
| "of_digits b (d # ds) = d + b * of_digits b ds"

definition crockford_alphabet :: string where
  "crockford_alphabet = ''0123456789ABCDEFGHJKMNPQRSTVWXYZ''"

definition sample_encode :: "8 word list \<Rightarrow> string" where
  "sample_encode d = map ((!) crockford_alphabet) (to_digits 32 52 (of_digits 256 (map unat d)))"

definition symbol_index :: "char \<Rightarrow> nat" where
  "symbol_index c = length (takeWhile (\<lambda>x. x \<noteq> c) crockford_alphabet)"

definition sample_decode :: "string \<Rightarrow> 8 word list option" where
  "sample_decode s =
     (if list_all is_crockford s
      then Some (map of_nat (to_digits 256 32 (of_digits 32 (map symbol_index s)))) else None)"

definition sample_externals :: externals where
  "sample_externals = \<lparr>base32_decode = sample_decode, base32_encode = sample_encode, url_parse = (\<lambda>_. None)\<rparr>"

text \<open>Decoders that know one envelope and the empty payload.\<close>

definition sample_decoders :: "unit raw_envelope \<Rightarrow> unit decoders" where
  "sample_decoders env =
     \<lparr>d_envelope = \<lambda>_. Inr env, d_register_listing = \<lambda>_. Inl [], d_sync_listing = \<lambda>_. Inl [],
      d_sync_drop = \<lambda>_. Inl [], d_empty = \<lambda>_. Inr (), d_reserve_inventory = \<lambda>_. Inl [],
      d_create_checkout = \<lambda>_. Inl [], d_offer_terms = \<lambda>_. Inl [], d_counter_offer = \<lambda>_. Inl [],
      d_offer_action = \<lambda>_. Inl [], d_offer_checkout = \<lambda>_. Inl [], d_place_bid = \<lambda>_. Inl [],
      d_advance_sandbox_payment = \<lambda>_. Inl [], d_prepare_locks = \<lambda>_. Inl [],
      d_register_locks = \<lambda>_. Inl [], d_request_cancellation = \<lambda>_. Inl [],
      d_order_action = \<lambda>_. Inl [], d_ship_order = \<lambda>_. Inl [], d_set_pickup_details = \<lambda>_. Inl [],
      d_clear_pickup_details = \<lambda>_. Inl [], d_set_digital_delivery = \<lambda>_. Inl [],
      d_clear_digital_delivery = \<lambda>_. Inl [], d_set_delivery_email = \<lambda>_. Inl [],
      d_deliver_digital = \<lambda>_. Inl [], d_request_return = \<lambda>_. Inl [],
      d_record_external_refund = \<lambda>_. Inl [], d_review_terms = \<lambda>_. Inl [],
      d_set_band_consent = \<lambda>_. Inl []\<rparr>"

definition sample_envelope :: "unit raw_envelope" where
  "sample_envelope =
     \<lparr>re_version = 1, re_command_id = ''id'', re_aggregate_id = ''auction:a-1'', re_expected_revision = 3,
      re_issued_at = 0, re_kind = ''auction.close'', re_payload = ()\<rparr>"

section \<open>Acceptance\<close>

lemma require_Nil [simp]: "require ok path message = [] \<longleftrightarrow> ok"
  by (simp add: require_def)

lemma require_True [simp]: "require True path message = []"
  by simp

lemma issue_list_ne [simp]: "[issue p m] \<noteq> []"
  by simp

lemma accept_Inr [simp]: "accept issues v = Inr w \<longleftrightarrow> issues = [] \<and> v = w"
  by (simp add: accept_def)

lemma accept_Nil [simp]: "accept [] v = Inr v"
  by (simp add: accept_def)

lemma accept_Inl: "accept issues v = Inl e \<longleftrightarrow> issues \<noteq> [] \<and> e = issues"
  by (auto simp: accept_def)

lemma map_ok_Inr [simp]: "map_ok f r = Inr w \<longleftrightarrow> (\<exists>v. r = Inr v \<and> w = f v)"
  by (auto simp: map_ok_def split: sum.splits)

lemma parse_payload_Inr [simp]:
  "parse_payload decode v k = Inr q \<longleftrightarrow> (\<exists>p. decode v = Inr p \<and> k p = Inr q)"
  by (auto simp: parse_payload_def split: sum.splits)

lemma validate_trimmed_eq:
  "validate_trimmed path v mn mx
   = (trim v, require (mn \<le> chars_count (trim v) \<and> chars_count (trim v) \<le> mx) path (length_message mn mx))"
  by (simp add: validate_trimmed_def Let_def)

section \<open>Normalizing validators\<close>

locale field_normalizer =
  fixes validate :: "'a \<Rightarrow> 'a \<times> validation_issue list"
  assumes stable: "snd (validate x) = [] \<Longrightarrow> validate (fst (validate x)) = (fst (validate x), [])"
begin

lemma stable_pair: "validate x = (y, []) \<Longrightarrow> validate y = (y, [])"
  using stable [of x] by simp

text \<open>The accepted values are the images of accepted values: acceptance is normal form.\<close>

lemma accepted_iff_image: "validate y = (y, []) \<longleftrightarrow> (\<exists>x. validate x = (y, []))"
  using stable_pair by blast

text \<open>A normalizer lifts to an optional field that is checked when present.\<close>

lemma stable_option:
  "(case f of None \<Rightarrow> (None, []) | Some x \<Rightarrow> (let (y, i) = validate x in (Some y, i))) = (g, []) \<Longrightarrow>
   (case g of None \<Rightarrow> (None, []) | Some x \<Rightarrow> (let (y, i) = validate x in (Some y, i))) = (g, [])"
  using stable_pair by (auto split: option.splits prod.splits)

end

interpretation trimmed: field_normalizer "\<lambda>v. validate_trimmed path v mn mx" for path mn mx
  by unfold_locales (simp add: validate_trimmed_eq)

lemma validate_delivery_address_accepts:
  "snd (validate_delivery_address path a) = [] \<Longrightarrow>
   country_code_regex (da_country_code a)
   \<and> (\<exists>region. canonicalize_region (da_country_code a) (da_region a) = Inr region)"
  by (simp add: validate_delivery_address_def validate_trimmed_eq Let_def split: if_splits sum.splits)

interpretation address: field_normalizer "validate_delivery_address path" for path
proof unfold_locales
  fix a
  assume ok: "snd (validate_delivery_address path a) = []"
  then obtain region where c: "country_code_regex (da_country_code a)"
    and r: "canonicalize_region (da_country_code a) (da_region a) = Inr region"
    using validate_delivery_address_accepts by blast
  from ok c r canonicalize_region_stable [OF r]
  show "validate_delivery_address path (fst (validate_delivery_address path a))
        = (fst (validate_delivery_address path a), [])"
    by (simp add: validate_delivery_address_def validate_trimmed_eq Let_def)
qed

lemma validate_variant_options_stable:
  "snd (validate_variant_options prefix n opts) = [] \<Longrightarrow>
   validate_variant_options prefix n (fst (validate_variant_options prefix n opts))
   = (fst (validate_variant_options prefix n opts), [])"
  by (induction opts arbitrary: n)
     (auto simp: validate_trimmed_eq Let_def case_prod_beta)

interpretation variant_options: field_normalizer "validate_variant_options prefix n" for prefix n
  by unfold_locales (rule validate_variant_options_stable)

lemma length_validate_variant_options [simp]:
  "length (fst (validate_variant_options prefix n opts)) = length opts"
  by (induction opts arbitrary: n) (simp_all add: Let_def case_prod_beta)

lemma validate_variant_options_Nil [simp]:
  "fst (validate_variant_options prefix n opts) = [] \<longleftrightarrow> opts = []"
  by (cases opts) (simp_all add: Let_def case_prod_beta)

interpretation checkout_line: field_normalizer "validate_checkout_line index" for index
proof unfold_locales
  fix line
  assume ok: "snd (validate_checkout_line index line) = []"
  show "validate_checkout_line index (fst (validate_checkout_line index line))
        = (fst (validate_checkout_line index line), [])"
  proof (cases "cl_variant_options line")
    case None
    with ok show ?thesis by (simp add: validate_checkout_line_def Let_def)
  next
    case (Some opts)
    let ?v = "validate_variant_options (line_path index @ ''.variant_options.'') 0"
    from ok Some have "snd (?v opts) = []"
      by (simp add: validate_checkout_line_def Let_def case_prod_beta)
    from ok Some validate_variant_options_stable [OF this] show ?thesis
      by (simp add: validate_checkout_line_def Let_def case_prod_beta)
  qed
qed

lemma validate_checkout_line_id [simp]:
  "cl_listing_aggregate_id (fst (validate_checkout_line index line)) = cl_listing_aggregate_id line"
  "cl_expected_revision (fst (validate_checkout_line index line)) = cl_expected_revision line"
  "cl_quantity (fst (validate_checkout_line index line)) = cl_quantity line"
  "cl_variant_id (fst (validate_checkout_line index line)) = cl_variant_id line"
  "cl_fulfillment (fst (validate_checkout_line index line)) = cl_fulfillment line"
  by (simp_all add: validate_checkout_line_def Let_def case_prod_beta)

lemma validate_lines_stable:
  "snd (validate_lines index seen lines) = [] \<Longrightarrow>
   validate_lines index seen (fst (validate_lines index seen lines))
   = (fst (validate_lines index seen lines), [])"
  by (induction lines arbitrary: index seen) (simp_all add: Let_def case_prod_beta checkout_line.stable)

interpretation lines: field_normalizer "validate_lines index seen" for index seen
  by unfold_locales (rule validate_lines_stable)

lemma length_validate_lines [simp]: "length (fst (validate_lines index seen lines)) = length lines"
  by (induction lines arbitrary: index seen) (simp_all add: Let_def case_prod_beta)

lemma validate_lines_Nil [simp]: "fst (validate_lines index seen lines) = [] \<longleftrightarrow> lines = []"
  by (cases lines) (simp_all add: Let_def case_prod_beta)

lemma validate_lines_list_ex [simp]:
  "list_ex line_ships (fst (validate_lines index seen lines)) = list_ex line_ships lines"
  by (induction lines arbitrary: index seen) (simp_all add: Let_def case_prod_beta line_ships_def)

lemma validate_lines_distinct:
  "snd (validate_lines index seen lines) = [] \<Longrightarrow>
   distinct (map cl_listing_aggregate_id lines) \<and> set (map cl_listing_aggregate_id lines) \<inter> set seen = {}"
proof (induction lines arbitrary: index seen)
  case (Cons line lines)
  from Cons.prems have fresh: "cl_listing_aggregate_id line \<notin> set seen"
    and rest: "snd (validate_lines (Suc index) (cl_listing_aggregate_id line # seen) lines) = []"
    by (simp_all add: Let_def case_prod_beta)
  from Cons.IH [OF rest] fresh show ?case by auto
qed simp

lemma validate_checkout_line_ok:
  "snd (validate_checkout_line index line) = [] \<Longrightarrow> line_ok (fst (validate_checkout_line index line))"
  by (auto simp: validate_checkout_line_def line_ok_def Let_def case_prod_beta split: option.splits)

lemma validate_lines_ok:
  "snd (validate_lines index seen lines) = [] \<Longrightarrow> list_all line_ok (fst (validate_lines index seen lines))"
  by (induction lines arbitrary: index seen) (simp_all add: Let_def case_prod_beta validate_checkout_line_ok)

lemma validate_lines_ids [simp]:
  "map cl_listing_aggregate_id (fst (validate_lines index seen lines)) = map cl_listing_aggregate_id lines"
  by (induction lines arbitrary: index seen) (simp_all add: Let_def case_prod_beta)

lemma validate_create_checkout_Inr:
  "validate_create_checkout p = Inr c \<longleftrightarrow>
   (\<exists>address.
     cc_lines p \<noteq> [] \<and> length (cc_lines p) \<le> 50
     \<and> snd (validate_lines 0 [] (cc_lines p)) = []
     \<and> cc_guarantee_policy_version p = 1
     \<and> (case cc_delivery_address p of
          None \<Rightarrow> \<not> list_ex line_ships (cc_lines p) \<and> address = None
        | Some a \<Rightarrow> list_ex line_ships (cc_lines p)
            \<and> snd (validate_delivery_address ''payload.delivery_address'' a) = []
            \<and> address = Some (fst (validate_delivery_address ''payload.delivery_address'' a)))
     \<and> c = CreateCheckout (p\<lparr>cc_lines := fst (validate_lines 0 [] (cc_lines p)),
                                cc_delivery_address := address\<rparr>))"
  by (cases "cc_delivery_address p"; cases "list_ex line_ships (cc_lines p)")
     (auto simp: validate_create_checkout_def Let_def case_prod_beta)

section \<open>Pickup details\<close>

lemma validate_pickup_place_kind [simp]:
  "pd_kind (fst (validate_pickup_place d)) = pd_kind d"
  "pd_instructions (fst (validate_pickup_place d)) = pd_instructions d"
  "pd_availability (fst (validate_pickup_place d)) = pd_availability d"
  by (simp_all add: validate_pickup_place_def Let_def case_prod_beta
        split: pickup_details_kind.splits option.splits)

lemma validate_pickup_place_stable:
  assumes "snd (validate_pickup_place d) = []"
  shows "validate_pickup_place ((fst (validate_pickup_place d))\<lparr>pd_instructions := t, pd_availability := v\<rparr>)
    = ((fst (validate_pickup_place d))\<lparr>pd_instructions := t, pd_availability := v\<rparr>, [])"
proof (cases "pd_kind d")
  case PickupAddress
  with assms obtain a where "pd_address d = Some a"
    "snd (validate_delivery_address ''payload.details.address'' a) = []"
    by (auto simp: validate_pickup_place_def Let_def case_prod_beta split: option.splits)
  with assms PickupAddress show ?thesis
    by (simp add: validate_pickup_place_def Let_def case_prod_beta address.stable)
next
  case PickupSpot
  with assms show ?thesis
    by (auto simp: validate_pickup_place_def validate_trimmed_eq Let_def case_prod_beta
          split: option.splits)
qed

interpretation pickup: field_normalizer validate_pickup_details
proof unfold_locales
  fix d
  assume ok: "snd (validate_pickup_details d) = []"
  then have "snd (validate_pickup_place d) = []"
    by (simp add: validate_pickup_details_def Let_def case_prod_beta)
  from ok validate_pickup_place_stable [OF this]
  show "validate_pickup_details (fst (validate_pickup_details d)) = (fst (validate_pickup_details d), [])"
    by (simp add: validate_pickup_details_def validate_trimmed_eq Let_def case_prod_beta)
qed

text \<open>Wall-clock times: on strings the pattern accepts, the order of \<open>str\<close> is the order of minutes.\<close>

lemma hhmm_regex_cases:
  assumes "hhmm_regex s"
  obtains a b d e A B D E where "s = [a, b, CHR '':'', d, e]"
    "byte a = 48 + A" "byte b = 48 + B" "byte d = 48 + D" "byte e = 48 + E"
    "A \<le> 2" "B \<le> 9" "D \<le> 5" "E \<le> 9"
proof -
  from assms obtain a b d e where "s = [a, b, CHR '':'', d, e]"
    "48 \<le> byte a" "byte a \<le> 50" "48 \<le> byte b" "byte b \<le> 57"
    "48 \<le> byte d" "byte d \<le> 53" "48 \<le> byte e" "byte e \<le> 57"
    by (auto simp: hhmm_regex_def is_ascii_digit_def split: list.splits)
  then show thesis
    by (intro that [of a b d e "byte a - 48" "byte b - 48" "byte d - 48" "byte e - 48"]) auto
qed

lemma byte_eq_iff: "byte a = byte b \<longleftrightarrow> a = b"
  by simp

lemma digits_lexicographic:
  fixes a b d e a' b' d' e' :: nat
  assumes "b \<le> 9" "b' \<le> 9" "d \<le> 5" "d' \<le> 5" "e \<le> 9" "e' \<le> 9"
  shows "a < a' \<or> a = a' \<and> (b < b' \<or> b = b' \<and> (d < d' \<or> d = d' \<and> e < e'))
    \<longleftrightarrow> (a * 10 + b) * 60 + d * 10 + e < (a' * 10 + b') * 60 + d' * 10 + e'"
  using assms
  by (cases a a' rule: linorder_cases; cases b b' rule: linorder_cases; cases d d' rule: linorder_cases)
     auto

lemma str_less_hhmm:
  assumes "hhmm_regex s" "hhmm_regex t"
  shows "str_less s t \<longleftrightarrow> minutes_of_day s < minutes_of_day t"
proof -
  obtain a b d e A B D E where s: "s = [a, b, CHR '':'', d, e]"
    "byte a = 48 + A" "byte b = 48 + B" "byte d = 48 + D" "byte e = 48 + E"
    "B \<le> 9" "D \<le> 5" "E \<le> 9"
    using assms(1) by (rule hhmm_regex_cases)
  obtain a' b' d' e' A' B' D' E' where t: "t = [a', b', CHR '':'', d', e']"
    "byte a' = 48 + A'" "byte b' = 48 + B'" "byte d' = 48 + D'" "byte e' = 48 + E'"
    "B' \<le> 9" "D' \<le> 5" "E' \<le> 9"
    using assms(2) by (rule hhmm_regex_cases)
  show ?thesis
    unfolding s(1) t(1) str_less.simps minutes_of_day_def list.case byte_eq_iff [symmetric]
      s(2-5) t(2-5)
    using digits_lexicographic [of B B' D D' E E' A A'] s(6-) t(6-) by simp
qed

lemma validate_windows_minutes:
  "validate_windows n ws = [] \<Longrightarrow>
   list_all (\<lambda>w. minutes_of_day (pw_start w) < minutes_of_day (pw_end w)) ws"
  by (induction ws arbitrary: n) (auto simp: validate_window_def Let_def str_less_hhmm)

section \<open>Lock resources\<close>

lemma find_map_Some:
  "find_map f xs = Some y \<Longrightarrow> \<exists>x \<in> set xs. f x = Some y"
  by (induction xs) (auto split: option.splits)

lemma crockford_upper [simp]:
  assumes "crockford_id_regex_52 s"
  shows "to_ascii_uppercase s = s"
proof -
  have "ascii_up c = c" if "is_crockford c" for c
    using that by (auto simp: is_crockford_def ascii_up_def is_ascii_lower_def)
  with assms show ?thesis
    by (auto simp: crockford_id_regex_52_def to_ascii_uppercase_def list_all_iff intro: map_idI)
qed

lemma split_once_skip:
  "c \<notin> set a \<Longrightarrow>
   split_once (c # pat) (a @ s) = map_option (\<lambda>(x, y). (a @ x, y)) (split_once (c # pat) s)"
proof (induction a)
  case Nil
  show ?case by (cases "split_once (c # pat) s") auto
next
  case (Cons x a)
  then show ?case by (cases "split_once (c # pat) s") auto
qed

lemma split_once_absent: "c \<notin> set s \<Longrightarrow> split_once (c # pat) s = None"
  using split_once_skip [of c s pat "[]"] by simp

lemma strip_suffix_append [simp]: "strip_suffix p (s @ p) = Some s"
  by (simp add: strip_suffix_def strip_prefix_def)

lemma z_base_32_no_slash:
  assumes "is_valid_pubky k"
  shows "CHR ''/'' \<notin> set k" "CHR '':'' \<notin> set k" "length k = 52"
proof -
  have "CHR ''/'' \<notin> set Z_BASE_32_ALPHABET" "CHR '':'' \<notin> set Z_BASE_32_ALPHABET"
    by (simp_all add: Z_BASE_32_ALPHABET_def)
  with assms show "CHR ''/'' \<notin> set k" "CHR '':'' \<notin> set k" "length k = 52"
    unfolding is_valid_pubky_def list_all_iff by blast+
qed

lemma crockford_chars:
  assumes "crockford_id_regex_52 s"
  obtains c cs where "s = c # cs" "c \<noteq> CHR ''p''" "CHR ''/'' \<notin> set s"
proof -
  have "\<not> is_crockford (CHR ''p'')" "\<not> is_crockford (CHR ''/'')"
    by (simp_all add: is_crockford_def)
  moreover from assms obtain c cs where "s = c # cs"
    by (cases s) (simp_all add: crockford_id_regex_52_def)
  ultimately show thesis
    using assms that unfolding crockford_id_regex_52_def list_all_iff by auto
qed

lemma strip_scheme_pubky:
  assumes "is_valid_pubky k"
  shows "strip_prefix PUBKY_RESOURCE_SCHEME (k @ s) = None"
proof -
  have "CHR '':'' \<in> set PUBKY_RESOURCE_SCHEME" "length PUBKY_RESOURCE_SCHEME = 8"
    by (simp_all add: PUBKY_RESOURCE_SCHEME_def)
  moreover have "set (take 8 (k @ s)) \<subseteq> set k"
    using z_base_32_no_slash(3) [OF assms] by (auto dest: in_set_takeD)
  ultimately show ?thesis
    using z_base_32_no_slash(2) [OF assms] unfolding strip_prefix_def by (metis subsetD)
qed

lemma split_lock_resource_canonical:
  assumes "is_valid_pubky k" "crockford_id_regex_52 e" "prefix \<in> set LOCKS_CONTENT_LOCK_PREFIXES"
  shows "split_lock_resource (k @ prefix @ e @ ''.json'') = Some (k, prefix, e @ ''.json'')"
proof -
  note pubky = z_base_32_no_slash(1) [OF assms(1)]
  obtain c cs where e: "e = c # cs" "c \<noteq> CHR ''p''" "CHR ''/'' \<notin> set cs" "c \<noteq> CHR ''/''"
    using crockford_chars [OF assms(2)] by (metis list.set_intros)
  have absent: "split_once (CHR ''/'' # pat) (cs @ ''.json'') = None" for pat
    by (rule split_once_absent) (use e(3) in simp)
  show ?thesis
    using assms(3) e absent
    by (auto simp: split_lock_resource_def LOCKS_CONTENT_LOCK_PREFIXES_def LOCKS_CONTENT_LOCK_PREFIX_def
        UPSTREAM_LOCKS_CONTENT_LOCK_PREFIX_def split_once_skip [OF pubky])
qed

lemma canonical_lock_resource_stable:
  assumes ok: "base32_ok ext" and canon: "canonical_lock_resource ext r = Some s"
  shows "canonical_lock_resource ext s = Some s"
proof -
  from canon obtain k prefix e path resource d where split: "split_lock_resource resource = Some (k, prefix, path)"
    and k: "is_valid_pubky k" and d: "length d = 32" and s: "s = k @ prefix @ base32_encode ext d @ ''.json''"
    by (auto simp: canonical_lock_resource_def Let_def split: option.splits if_splits)
  from split have p: "prefix \<in> set LOCKS_CONTENT_LOCK_PREFIXES"
    by (auto simp: split_lock_resource_def dest!: find_map_Some split: option.splits)
  from ok d have e: "crockford_id_regex_52 (base32_encode ext d)"
    "base32_decode ext (base32_encode ext d) = Some d"
    by (simp_all add: base32_ok_def)
  show ?thesis
    unfolding s canonical_lock_resource_def Let_def strip_scheme_pubky [OF k]
    using d k e by (simp add: split_lock_resource_canonical [OF k e(1) p])
qed

lemma digital_lock_stable:
  assumes "base32_ok ext" "snd (validate_digital_lock ext l) = []"
  shows "validate_digital_lock ext (fst (validate_digital_lock ext l)) = (fst (validate_digital_lock ext l), [])"
  using assms canonical_lock_resource_stable [OF assms(1)]
  by (auto simp: validate_digital_lock_def split: option.splits)

section \<open>Listings\<close>

lemma repeated_methods_Nil:
  "repeated_methods seen ms = [] \<longleftrightarrow> distinct ms \<and> set ms \<inter> set seen = {}"
  by (induction ms arbitrary: seen) auto

lemma validate_money_Nil:
  "validate_money path m = [] \<longleftrightarrow>
   in_range 0 MAX_SAFE_INTEGER (amount_minor m) \<and> currency_regex (currency m) \<and> in_range 0 18 (exponent m)"
  by (simp add: validate_money_def)

lemma validate_positive_money_Nil:
  "validate_positive_money path m = [] \<longleftrightarrow>
   money_ok m"
  by (auto simp: validate_positive_money_def validate_money_Nil in_range_def money_ok_def)

lemma validate_auction_reserve_Nil:
  "validate_auction_reserve price r = [] \<longleftrightarrow> reserve_ok price r"
  by (auto simp: validate_auction_reserve_def validate_positive_money_Nil reserve_ok_def split: option.splits)

lemma validate_auction_terms_Nil:
  "validate_auction_terms price t = [] \<longleftrightarrow> terms_ok price t"
  by (auto simp: validate_auction_terms_def validate_positive_money_Nil terms_ok_def)

lemma validate_listing_payload_Inr:
  "validate_listing_payload ext p strict = Inr q \<longleftrightarrow>
   (\<exists>lock. q = p\<lparr>rl_title := trim (rl_title p), rl_digital_lock := lock\<rparr>
     \<and> listing_ok strict q
     \<and> (case rl_digital_lock p of None \<Rightarrow> lock = None
        | Some l \<Rightarrow> snd (validate_digital_lock ext l) = [] \<and> lock = Some (fst (validate_digital_lock ext l))))"
  by (cases "rl_digital_lock p"; cases "rl_sale_format p"; cases "rl_auction_terms p";
      cases "rl_auction_reserve p";
      simp add: validate_listing_payload_def listing_ok_def Let_def case_prod_beta validate_trimmed_eq
        validate_positive_money_Nil repeated_methods_Nil validate_auction_terms_Nil
        validate_auction_reserve_Nil; (blast | auto)?)

section \<open>Kinds\<close>

text \<open>Each validator answers with the payload constructor of its own kind.\<close>

lemma validated_kind:
  "validate_register_listing ext p1 = Inr q \<Longrightarrow> payload_kind q = ''listing.register''"
  "validate_sync_listing p2 = Inr q \<Longrightarrow> payload_kind q = ''listing.sync''"
  "validate_sync_drop p3 = Inr q \<Longrightarrow> payload_kind q = ''drop.sync''"
  "validate_reserve_inventory p4 = Inr q \<Longrightarrow> payload_kind q = ''inventory.reserve''"
  "validate_create_checkout p5 = Inr q \<Longrightarrow> payload_kind q = ''checkout.create''"
  "validate_create_offer p6 = Inr q \<Longrightarrow> payload_kind q = ''offer.create''"
  "validate_counter_offer p7 = Inr q \<Longrightarrow> payload_kind q = ''offer.counter''"
  "validate_offer_checkout p8 = Inr q \<Longrightarrow> payload_kind q = ''offer.checkout''"
  "validate_place_bid p9 = Inr q \<Longrightarrow> payload_kind q = ''auction.place_bid''"
  "validate_advance_sandbox_payment p10 = Inr q \<Longrightarrow> payload_kind q = ''payment.sandbox_advance''"
  "validate_register_locks p11 = Inr q \<Longrightarrow> payload_kind q = ''payment.register_locks''"
  "validate_request_cancellation p12 = Inr q \<Longrightarrow> payload_kind q = ''order.cancel_request''"
  "validate_ship_order p13 = Inr q \<Longrightarrow> payload_kind q = ''fulfillment.ship''"
  "validate_set_pickup_details p14 = Inr q \<Longrightarrow> payload_kind q = ''pickup_details.set''"
  "validate_clear_pickup_details p15 = Inr q \<Longrightarrow> payload_kind q = ''pickup_details.clear''"
  "validate_set_digital_delivery ext p16 = Inr q \<Longrightarrow> payload_kind q = ''digital_delivery.set''"
  "validate_clear_digital_delivery p17 = Inr q \<Longrightarrow> payload_kind q = ''digital_delivery.clear''"
  "validate_request_return p18 = Inr q \<Longrightarrow> payload_kind q = ''return.request''"
  "validate_record_external_refund p19 = Inr q \<Longrightarrow> payload_kind q = ''refund.record_external''"
  "validate_review_terms p20 CreateReview = Inr q \<Longrightarrow> payload_kind q = ''review.create''"
  "validate_review_terms p20 UpdateReview = Inr q \<Longrightarrow> payload_kind q = ''review.update''"
                      apply (auto simp: validate_register_listing_def)[1]
                      apply (auto simp: validate_sync_listing_def validate_sync_drop_def
     validate_reserve_inventory_def validate_create_checkout_def validate_create_offer_def
     validate_counter_offer_def validate_offer_checkout_def validate_place_bid_def
     validate_advance_sandbox_payment_def validate_register_locks_def
     validate_request_cancellation_def validate_ship_order_def validate_set_pickup_details_def
     validate_clear_pickup_details_def validate_set_digital_delivery_def
     validate_clear_digital_delivery_def validate_request_return_def
     validate_record_external_refund_def validate_review_terms_def Let_def case_prod_beta)
  done

lemma kind_chain:
  "\<lbrakk>(if k = s then r else r') = Inr p; r = Inr p \<Longrightarrow> payload_kind p = s;
    r' = Inr p \<Longrightarrow> payload_kind p = k\<rbrakk> \<Longrightarrow> payload_kind p = k"
  by (simp split: if_splits)

lemma parse_payload_of_kind_kind:
  "parse_payload_of_kind ext ds k v = Inr p \<Longrightarrow> payload_kind p = k"
  unfolding parse_payload_of_kind_def
  by (erule kind_chain, (clarsimp; drule validated_kind; assumption | clarsimp))+ simp

section \<open>The sample codec\<close>

lemma length_to_digits [simp]: "length (to_digits b k n) = k"
  by (induction k arbitrary: n) simp_all

lemma to_digits_less: "0 < b \<Longrightarrow> d \<in> set (to_digits b k n) \<Longrightarrow> d < b"
  by (induction k arbitrary: n) auto

lemma of_to_digits: "0 < b \<Longrightarrow> n < b ^ k \<Longrightarrow> of_digits b (to_digits b k n) = n"
  by (induction k arbitrary: n) (simp_all add: less_mult_imp_div_less mult.commute)

lemma to_of_digits: "list_all (\<lambda>d. d < b) ds \<Longrightarrow> to_digits b (length ds) (of_digits b ds) = ds"
  by (induction ds) auto

lemma of_digits_less: "list_all (\<lambda>d. d < b) ds \<Longrightarrow> of_digits b ds < b ^ length ds"
proof (induction ds)
  case (Cons d ds)
  then have "d < b" and "of_digits b ds + 1 \<le> b ^ length ds" by simp_all
  then have "d + b * of_digits b ds < b + b * of_digits b ds"
    and "b * (of_digits b ds + 1) \<le> b * b ^ length ds" by (simp, intro mult_le_mono2) simp
  then show ?case by simp
qed simp

lemma symbol_index_nth: "list_all (\<lambda>i. symbol_index (crockford_alphabet ! i) = i) [0..<32]"
  by (simp add: symbol_index_def crockford_alphabet_def upt_rec)

lemma alphabet_crockford: "i < 32 \<Longrightarrow> is_crockford (crockford_alphabet ! i)"
  unfolding is_crockford_def crockford_alphabet_def by (intro nth_mem) simp

lemma sample_encode_crockford: "crockford_id_regex_52 (sample_encode d)"
  by (auto simp: crockford_id_regex_52_def sample_encode_def list_all_iff
      dest!: to_digits_less [rotated] intro!: alphabet_crockford)

lemma sample_decode_encode:
  assumes "length d = 32"
  shows "sample_decode (sample_encode d) = Some d"
proof -
  let ?n = "of_digits 256 (map unat d)"
  have small: "list_all (\<lambda>i. i < 256) (map unat d)"
    using unsigned_less [where ?'a = nat and ?'b = 8] by (auto simp: list_all_iff)
  have "?n < 256 ^ 32" using of_digits_less [OF small] assms by simp
  also have "(256 ^ 32 :: nat) \<le> 32 ^ 52" by simp
  finally have n: "?n < 32 ^ 52" .
  have "map symbol_index (sample_encode d) = to_digits 32 52 ?n"
    using symbol_index_nth to_digits_less [of 32 _ 52 ?n]
    by (auto simp: sample_encode_def list_all_iff comp_def intro!: map_idI)
  moreover have "map of_nat (to_digits 256 32 ?n) = d"
    using to_of_digits [OF small] assms by (simp add: comp_def)
  ultimately show ?thesis
    using sample_encode_crockford [of d] of_to_digits [OF _ n]
    by (simp add: sample_decode_def crockford_id_regex_52_def)
qed

lemma base32_ok_sample: "base32_ok sample_externals"
  by (simp add: base32_ok_def sample_externals_def sample_encode_crockford sample_decode_encode)

section \<open>Properties\<close>

text \<open>A command that \<open>parse_command\<close> accepts carries the envelope it was sent in: the same command
  id, aggregate, expected revision and time, a payload of exactly the kind the envelope names, and an
  envelope of the supported version with a well-formed aggregate id and a revision in range.\<close>

theorem accepted_command_keeps_envelope:
  assumes "parse_command ext ds raw = Inr c"
  shows "\<exists>env. d_envelope ds raw = Inr env
    \<and> cmd_command_id c = re_command_id env \<and> cmd_aggregate_id c = re_aggregate_id env
    \<and> cmd_expected_revision c = re_expected_revision env \<and> cmd_issued_at c = re_issued_at env
    \<and> command_kind c = re_kind env
    \<and> re_version env = COMMERCE_CONTRACT_VERSION \<and> aggregate_id_regex (re_aggregate_id env)
    \<and> in_range 0 MAX_SAFE_INTEGER (re_expected_revision env)"
proof -
  from assms obtain env p where env: "d_envelope ds raw = Inr env"
    "re_version env = COMMERCE_CONTRACT_VERSION" "aggregate_id_regex (re_aggregate_id env)"
    "in_range 0 MAX_SAFE_INTEGER (re_expected_revision env)"
    and p: "parse_payload_of_kind ext ds (re_kind env) (re_payload env) = Inr p"
    and c: "c = \<lparr>cmd_command_id = re_command_id env, cmd_aggregate_id = re_aggregate_id env,
      cmd_expected_revision = re_expected_revision env, cmd_issued_at = re_issued_at env, cmd_payload = p\<rparr>"
    by (auto simp: parse_command_def Let_def split: sum.splits if_splits)
  show ?thesis
    using env parse_payload_of_kind_kind [OF p] by (simp add: c command_kind_def)
qed

theorem accepted_command_keeps_envelope_witness:
  "command_kind \<lparr>cmd_command_id = ''id'', cmd_aggregate_id = ''auction:a-1'', cmd_expected_revision = 3,
     cmd_issued_at = 0, cmd_payload = CloseAuction\<rparr> = re_kind sample_envelope"
proof -
  have "parse_command sample_externals (sample_decoders sample_envelope) () =
    Inr \<lparr>cmd_command_id = ''id'', cmd_aggregate_id = ''auction:a-1'', cmd_expected_revision = 3,
     cmd_issued_at = 0, cmd_payload = CloseAuction\<rparr>"
    by (simp add: parse_command_def sample_decoders_def sample_envelope_def COMMERCE_CONTRACT_VERSION_def
        aggregate_id_regex_def is_id_char_def is_ascii_alphanumeric_def is_ascii_lower_def
        is_ascii_digit_def is_ascii_upper_def in_range_def MAX_SAFE_INTEGER_def require_def
        parse_payload_of_kind_def parse_payload_def)
  from accepted_command_keeps_envelope [OF this] show ?thesis
    by (auto simp: sample_decoders_def)
qed

text \<open>A checkout the validator accepts has between one and fifty lines, no two for the same
  listing, each with a well-formed aggregate id, a revision and a quantity in range; it carries a
  delivery address exactly when some line ships, and it is in normal form: validating it again accepts
  it unchanged.\<close>

theorem accepted_checkout:
  assumes "validate_create_checkout p = Inr (CreateCheckout q)"
  shows "1 \<le> length (cc_lines q) \<and> length (cc_lines q) \<le> 50
    \<and> distinct (map cl_listing_aggregate_id (cc_lines q)) \<and> list_all line_ok (cc_lines q)
    \<and> (cc_delivery_address q \<noteq> None) = list_ex line_ships (cc_lines q)
    \<and> validate_create_checkout q = Inr (CreateCheckout q)"
proof -
  from assms have ok: "snd (validate_lines 0 [] (cc_lines p)) = []" "cc_lines p \<noteq> []"
    "length (cc_lines p) \<le> 50" "cc_lines q = fst (validate_lines 0 [] (cc_lines p))"
    and address: "(cc_delivery_address q \<noteq> None) = list_ex line_ships (cc_lines q)"
    by (auto simp: validate_create_checkout_Inr split: option.splits)
  from assms lines.stable [OF ok(1)] address.stable [of "''payload.delivery_address''"]
  have "validate_create_checkout q = Inr (CreateCheckout q)"
    unfolding validate_create_checkout_Inr
    by (cases "cc_delivery_address p") (auto intro!: create_checkout_payload.equality)
  with ok address validate_lines_ok [OF ok(1)] validate_lines_distinct [OF ok(1)] show ?thesis
    by (simp add: Suc_le_eq)
qed

theorem accepted_checkout_witness:
  "(let q = \<lparr>cc_lines = [\<lparr>cl_listing_aggregate_id = ''listing:a_1'', cl_expected_revision = 2, cl_quantity = 5,
                 cl_variant_id = None, cl_variant_options = None, cl_fulfillment = Some Pickup\<rparr>],
            cc_delivery_address = None, cc_delivery_email = None, cc_guarantee_policy_version = 1\<rparr>
    in list_all line_ok (cc_lines q) \<and> validate_create_checkout q = Inr (CreateCheckout q))"
proof -
  let ?q = "\<lparr>cc_lines = [\<lparr>cl_listing_aggregate_id = ''listing:a_1'', cl_expected_revision = 2, cl_quantity = 5,
                 cl_variant_id = None, cl_variant_options = None, cl_fulfillment = Some Pickup\<rparr>],
            cc_delivery_address = None, cc_delivery_email = None, cc_guarantee_policy_version = 1\<rparr>"
  have "validate_create_checkout ?q = Inr (CreateCheckout ?q)"
    by code_simp
  from accepted_checkout [OF this] show ?thesis by simp
qed

text \<open>Registering a listing accepts exactly the payloads that satisfy \<open>listing_ok\<close> (with the
  title trimmed) and whose lock, when there is one, is accepted; nothing but the title and the lock's
  URI changes.\<close>

theorem register_listing_accepts_iff:
  "validate_register_listing ext p = Inr c \<longleftrightarrow>
   (\<exists>q lock. c = RegisterListing q
     \<and> q = p\<lparr>rl_title := trim (rl_title p), rl_digital_lock := lock\<rparr> \<and> listing_ok True q
     \<and> (case rl_digital_lock p of
          None \<Rightarrow> lock = None
        | Some l \<Rightarrow> snd (validate_digital_lock ext l) = []
            \<and> lock = Some (fst (validate_digital_lock ext l))))"
  by (auto simp: validate_register_listing_def validate_register_listing_payload_def
      validate_listing_payload_Inr)

text \<open>Canonicalizing a lock resource is idempotent: the canonical resource of a creator and a
  lock id is its own canonical resource, whichever of the two path prefixes it uses.\<close>

theorem canonical_lock_resource_idempotent:
  assumes "base32_ok ext" "canonical_lock_resource ext r = Some s"
  shows "canonical_lock_resource ext s = Some s"
  using assms by (rule canonical_lock_resource_stable)

theorem canonical_lock_resource_idempotent_witness:
  "canonical_lock_resource sample_externals
     (replicate 52 (CHR ''y'') @ ''/pub/app.locks/A'' @ replicate 51 (CHR ''0'') @ ''.json'')
   = Some (replicate 52 (CHR ''y'') @ ''/pub/app.locks/A'' @ replicate 51 (CHR ''0'') @ ''.json'')"
proof -
  have "canonical_lock_resource sample_externals
     (''pubky://'' @ replicate 52 (CHR ''y'') @ ''/pub/app.locks/a'' @ replicate 51 (CHR ''0'') @ ''.json'')
   = Some (replicate 52 (CHR ''y'') @ ''/pub/app.locks/A'' @ replicate 51 (CHR ''0'') @ ''.json'')"
    by code_simp
  from canonical_lock_resource_idempotent [OF base32_ok_sample this] show ?thesis .
qed

text \<open>Accepted pickup details are in normal form, name an address or a meeting point according
  to their kind and never both, and every availability window ends at a later minute of the day than
  it starts.\<close>

theorem accepted_pickup_details:
  assumes "validate_pickup_details d = (e, [])"
  shows "validate_pickup_details e = (e, [])
    \<and> (pd_address e \<noteq> None) = (pd_kind e = PickupAddress) \<and> (pd_spot e \<noteq> None) = (pd_kind e = PickupSpot)
    \<and> pred_option (list_all (\<lambda>w. minutes_of_day (pw_start w) < minutes_of_day (pw_end w)))
        (pa_windows (pd_availability e))"
proof -
  from assms have e: "e = fst (validate_pickup_details d)" "snd (validate_pickup_details d) = []"
    by simp_all
  from e(2) have place: "snd (validate_pickup_place d) = []"
    and windows: "pa_windows (pd_availability d) = Some ws \<Longrightarrow> validate_windows 0 ws = []" for ws
    by (simp_all add: validate_pickup_details_def Let_def case_prod_beta)
  have "pred_option (list_all (\<lambda>w. minutes_of_day (pw_start w) < minutes_of_day (pw_end w)))
      (pa_windows (pd_availability d))"
    using windows validate_windows_minutes by (cases "pa_windows (pd_availability d)") auto
  moreover have "pa_windows (pd_availability e) = pa_windows (pd_availability d)"
    by (simp add: e(1) validate_pickup_details_def Let_def case_prod_beta)
  moreover have "(pd_address e \<noteq> None) = (pd_kind e = PickupAddress)"
    "(pd_spot e \<noteq> None) = (pd_kind e = PickupSpot)"
    using place
    by (auto simp: e(1) validate_pickup_details_def validate_pickup_place_def Let_def case_prod_beta
        split: option.splits pickup_details_kind.splits)
  ultimately show ?thesis using pickup.stable_pair [OF assms] by simp
qed

theorem accepted_pickup_details_witness:
  "(let d = \<lparr>pd_kind = PickupSpot, pd_address = None, pd_spot = Some ''Main gate'', pd_instructions = [],
            pd_availability = \<lparr>pa_windows = Some [\<lparr>pw_day = ''sat'', pw_start = ''09:30'', pw_end = ''12:00''\<rparr>],
                               pa_zone = ''Europe/Rome''\<rparr>\<rparr>
    in validate_pickup_details d = (d, []) \<and> minutes_of_day ''09:30'' < minutes_of_day ''12:00'')"
proof -
  let ?d = "\<lparr>pd_kind = PickupSpot, pd_address = None, pd_spot = Some ''Main gate'', pd_instructions = [],
            pd_availability = \<lparr>pa_windows = Some [\<lparr>pw_day = ''sat'', pw_start = ''09:30'', pw_end = ''12:00''\<rparr>],
                               pa_zone = ''Europe/Rome''\<rparr>\<rparr>"
  have "validate_pickup_details (?d\<lparr>pd_spot := Some '' Main gate ''\<rparr>) = (?d, [])"
    by code_simp
  from accepted_pickup_details [OF this] show ?thesis by simp
qed

end
