(* ===== verification/Store.thy ===== *)
theory Store
  imports Validation
begin

text \<open>
  The tables of the service (\<^verbatim>\<open>crates/service/migrations\<close>) and the rows of
  \<^verbatim>\<open>crates/service/src/model.rs\<close> that the modelled commands read and write, with the SQL
  statements as operations on lists of rows.

  A handler runs inside one transaction.  Its model takes the database and returns either a
  \<open>db_error\<close>, the \<open>sqlx::Error\<close> that aborts the transaction (or, as \<open>Panicked\<close>, the \<open>expect\<close> that unwinds
  the request and drops it), or its answer with the database as the
  transaction sees it: a refusal leaves the statements that ran before it in place, and it is the
  executor that rolls them back.  Row locks have no counterpart: a handler is one atomic step.

  A column constraint is checked on every row that is written, and a violation is an error of the
  statement.  \<open>Uuid::new_v4\<close> draws from the parameter \<open>new_v4\<close> at the database's counter.  A time is
  a number of nanoseconds; the database's rounding to microseconds is not modelled.
\<close>

section \<open>Statements\<close>

datatype db_error = RowNotFound | CheckViolation | UniqueViolation | Protocol string | Panicked string

type_synonym ('a, 'd) tx_result = "db_error + ('a \<times> 'd)"

definition seq :: "('a, 'd) tx_result \<Rightarrow> ('a \<Rightarrow> 'd \<Rightarrow> ('b, 'e) tx_result) \<Rightarrow> ('b, 'e) tx_result" where
  "seq r k = (case r of Inl e \<Rightarrow> Inl e | Inr (x, d) \<Rightarrow> k x d)"

text \<open>\<open>SELECT ... WHERE key = k\<close> on a unique key.\<close>

definition fetch :: "('r \<Rightarrow> 'k) \<Rightarrow> 'k \<Rightarrow> 'r list \<Rightarrow> 'r option" where
  "fetch key k rows = find (\<lambda>r. key r = k) rows"

text \<open>\<open>UPDATE ... SET f WHERE cond\<close>: the written rows and the new table.\<close>

definition sql_update ::
  "('r \<Rightarrow> bool) \<Rightarrow> ('r \<Rightarrow> bool) \<Rightarrow> ('r \<Rightarrow> 'r) \<Rightarrow> 'r list \<Rightarrow> ('r list, 'r list) tx_result" where
  "sql_update check cond f rows =
     (let written = map f (filter cond rows)
      in if list_all check written
         then Inr (written, map (\<lambda>r. if cond r then f r else r) rows)
         else Inl CheckViolation)"

text \<open>\<open>INSERT\<close>: \<open>clash\<close> says when an existing row violates a unique index with the new one.\<close>

definition sql_insert ::
  "('r \<Rightarrow> bool) \<Rightarrow> ('r \<Rightarrow> 'r \<Rightarrow> bool) \<Rightarrow> 'r \<Rightarrow> 'r list \<Rightarrow> (unit, 'r list) tx_result" where
  "sql_insert check clash row rows =
     (if \<not> check row then Inl CheckViolation
      else if list_ex (clash row) rows then Inl UniqueViolation
      else Inr ((), rows @ [row]))"

text \<open>\<open>fetch_one\<close> on the rows a statement returns.\<close>

definition fetch_one :: "('r list, 'd) tx_result \<Rightarrow> ('r, 'd) tx_result" where
  "fetch_one r = (case r of Inl e \<Rightarrow> Inl e | Inr ([], _) \<Rightarrow> Inl RowNotFound | Inr (x # _, d) \<Rightarrow> Inr (x, d))"

text \<open>A stable sort: \<open>slice::sort_by\<close> and \<open>ORDER BY\<close>.\<close>

fun insert_by :: "('a \<Rightarrow> 'a \<Rightarrow> bool) \<Rightarrow> 'a \<Rightarrow> 'a list \<Rightarrow> 'a list" where
  "insert_by le x [] = [x]"
| "insert_by le x (y # ys) = (if le x y then x # y # ys else y # insert_by le x ys)"

definition sort_by :: "('a \<Rightarrow> 'a \<Rightarrow> bool) \<Rightarrow> 'a list \<Rightarrow> 'a list" where
  "sort_by le xs = foldr (insert_by le) xs []"

section \<open>Timestamps\<close>

text \<open>\<open>format_timestamp\<close> keeps milliseconds; a wire timestamp stands for the time it denotes.\<close>

definition format_timestamp :: "datetime \<Rightarrow> datetime" where
  "format_timestamp t = t div 1000000 * 1000000"

section \<open>Rows\<close>

record auction_state =
  au_starts_at :: datetime
  au_ends_at :: datetime
  au_minimum_increment :: money
  au_anti_sniping_window_seconds :: int
  au_anti_sniping_extension_seconds :: int
  au_status :: string
  au_current_price :: money
  au_leader_pubky :: "pubky option"
  au_bid_count :: int

text \<open>The document as it is stored: its timestamps carry milliseconds.\<close>

definition auction_to_value :: "auction_state \<Rightarrow> auction_state" where
  "auction_to_value a =
     a\<lparr>au_starts_at := format_timestamp (au_starts_at a), au_ends_at := format_timestamp (au_ends_at a)\<rparr>"

record listing_row =
  ls_aggregate_id :: string
  ls_seller_pubky :: pubky
  ls_listing_id :: string
  ls_title :: string
  ls_listing_revision :: int
  ls_content_hash :: string
  ls_server_revision :: int
  ls_state :: string
  ls_total_quantity :: int
  ls_available_quantity :: int
  ls_reserved_quantity :: int
  ls_sold_quantity :: int
  ls_unit_price_amount_minor :: int
  ls_unit_price_currency :: string
  ls_unit_price_exponent :: int
  ls_shipping_minor :: int
  ls_sale_format :: string
  ls_auction :: "auction_state option"
  ls_fulfillment_methods :: "string list"
  ls_updated_at :: datetime
  ls_deleted_at :: "datetime option"
  ls_recreated_at :: "datetime option"
  ls_generation :: int
  ls_digital_delivery_kind :: "string option"
  ls_digital_delivery_content_type :: "string option"
  ls_digital_delivery_size_bytes :: "int option"
  ls_digital_lock_policy_uri :: "string option"
  ls_digital_lock_criterion_id :: "string option"
  ls_deleted_event_cursor :: "string option"
  ls_revived_from_cursor :: "string option"
  ls_record_epoch :: int

definition is_deleted :: "listing_row \<Rightarrow> bool" where
  "is_deleted l \<longleftrightarrow> ls_deleted_at l \<noteq> None"

definition accepts_commitment_created_at :: "listing_row \<Rightarrow> datetime \<Rightarrow> bool" where
  "accepts_commitment_created_at l created_at \<longleftrightarrow>
     \<not> is_deleted l \<and> (case ls_recreated_at l of None \<Rightarrow> True | Some r \<Rightarrow> r \<le> created_at)"

record auction_reserve_row =
  rs_listing_aggregate_id :: string
  rs_listing_revision :: int
  rs_record_revision :: int
  rs_reserve_price :: "money option"
  rs_last_command_id :: uuid
  rs_updated_at :: datetime

record reservation_row =
  rv_id :: uuid
  rv_listing_aggregate_id :: string
  rv_buyer_pubky :: pubky
  rv_quantity :: int
  rv_status :: string
  rv_expires_at :: datetime
  rv_created_at :: datetime
  rv_updated_at :: datetime
  rv_drop_aggregate_id :: "string option"
  rv_offer_award_id :: "uuid option"

record bid_row =
  bd_id :: uuid
  bd_listing_aggregate_id :: string
  bd_bidder_pubky :: pubky
  bd_maximum_amount_minor :: int
  bd_currency :: string
  bd_exponent :: int
  bd_sequence :: int
  bd_created_at :: datetime
  bd_visible_amount_minor :: "int option"

text \<open>A line of an order document; a key the document may lack is an option.  \<open>ol_offer\<close> stands for the keys
  \<open>shipping\<close>, \<open>priced_from\<close>, \<open>offer_id\<close> and \<open>award_id\<close> of a line priced from an offer.\<close>

record offer_line =
  of_shipping :: money
  of_offer_id :: uuid
  of_award_id :: uuid

record order_line =
  ol_listing_aggregate_id :: string
  ol_listing_revision :: int
  ol_content_hash :: "string option"
  ol_title :: string
  ol_quantity :: int
  ol_unit_price :: money
  ol_subtotal :: money
  ol_version_at_payment :: "int option"
  ol_digital_kind :: "string option"
  ol_fulfillment :: "string option"
  ol_variant_id :: "string option"
  ol_variant_options :: "variant_option list option"
  ol_offer :: "offer_line option"

record shipment_doc =
  sh_carrier :: string
  sh_tracking_number :: string
  sh_state :: string
  sh_shipped_at :: datetime
  sh_delivered_at :: "datetime option"

record return_request_doc =
  rq_state :: string
  rq_reason :: string
  rq_requested_amount_minor :: int
  rq_requested_at :: datetime
  rq_updated_at :: datetime

record external_refund_doc =
  er_amount_minor :: "int option"
  er_transaction_id :: "string option"
  er_recorded_at :: datetime

text \<open>The order's columns that the modelled commands use; the Paykit quote and the fiat evidence
  columns are only carried along by them.\<close>

record order_row =
  or_id :: uuid
  or_auction_aggregate_id :: "string option"
  or_drop_aggregate_id :: "string option"
  or_buyer_pubky :: pubky
  or_seller_pubky :: pubky
  or_revision :: int
  or_state :: string
  or_lines :: "order_line list"
  or_subtotal_minor :: int
  or_shipping_minor :: int
  or_total_minor :: int
  or_currency :: string
  or_exponent :: int
  or_guarantee_policy_version :: nat
  or_payment_id :: uuid
  or_cancellation_reason :: "string option"
  or_stock_held :: bool
  or_hold_expires_at :: "datetime option"
  or_hold_source :: "string option"
  or_shipment :: "shipment_doc option"
  or_return_request :: "return_request_doc option"
  or_external_refund :: "external_refund_doc option"
  or_payment_method :: "string option"
  or_paykit_request_state :: "string option"
  or_paykit_invoice_id :: "uuid option"
  or_paykit_stack_id :: "string option"
  or_paykit_stack_endpoint :: "string option"
  or_paykit_total_sats :: "int option"
  or_paykit_activation_state :: "string option"
  or_fulfillment :: string
  or_first_revealed_at :: "datetime option"
  or_checkout_command_id :: "uuid option"
  or_delivery_address :: "delivery_address option"
  or_receipt_id :: "uuid option"
  or_edition :: "int option"
  or_digital_delivered_at :: "datetime option"
  or_digital_message_delivered_at :: "datetime option"
  or_delivery_assumed :: bool
  or_payment_reversed_at :: "datetime option"
  or_offer_award_id :: "uuid option"
  or_priced_from :: string
  or_created_at :: datetime
  or_updated_at :: datetime

record payment_row =
  pm_id :: uuid
  pm_order_id :: uuid
  pm_buyer_pubky :: pubky
  pm_seller_pubky :: pubky
  pm_revision :: int
  pm_adapter :: string
  pm_state :: string
  pm_confirmations :: int
  pm_amount_minor :: int
  pm_currency :: string
  pm_exponent :: int
  pm_merchandise :: "money option"
  pm_manual_review_entered_at :: "datetime option"
  pm_review_reason :: "string option"
  pm_resolution_outcome :: "string option"
  pm_created_at :: datetime
  pm_updated_at :: datetime

record receipt_row =
  re_id :: uuid
  re_order_id :: uuid
  re_payment_id :: uuid
  re_issuer_pubky :: pubky
  re_recipient_pubky :: pubky
  re_total :: money
  re_merchandise_total :: money
  re_content_hash :: string
  re_issued_at :: datetime

record offer_history_entry =
  he_revision :: int
  he_actor_pubky :: pubky
  he_action :: string
  he_amount :: money
  he_quantity :: int
  he_message :: string
  he_occurred_at :: datetime

record terms_snapshot_doc =
  td_revision :: int
  td_title :: string
  td_currency :: string
  td_exponent :: int
  td_shipping_minor :: int
  td_variant :: "string option"

record offer_row =
  ro_id :: uuid
  ro_aggregate_id :: string
  ro_listing_aggregate_id :: string
  ro_buyer_pubky :: pubky
  ro_seller_pubky :: pubky
  ro_revision :: int
  ro_state :: string
  ro_offered_by :: pubky
  ro_amount_minor :: int
  ro_currency :: string
  ro_exponent :: int
  ro_quantity :: int
  ro_message :: string
  ro_history :: "offer_history_entry list"
  ro_expires_at :: datetime
  ro_created_at :: datetime
  ro_updated_at :: datetime
  ro_variant_id :: "string option"
  ro_terms_listing_revision :: "int option"
  ro_terms_listing_record_sha256 :: "string option"
  ro_terms_snapshot :: "terms_snapshot_doc option"
  ro_award_id :: "uuid option"
  ro_accepted_at :: "datetime option"
  ro_award_expires_at :: "datetime option"
  ro_reservation_id :: "uuid option"
  ro_accepted_unit_price_minor :: "int option"
  ro_accepted_currency :: "string option"
  ro_accepted_exponent :: "int option"
  ro_accepted_quantity :: "int option"
  ro_accepted_listing_aggregate_id :: "string option"
  ro_accepted_listing_title :: "string option"
  ro_accepted_listing_revision :: "int option"
  ro_accepted_listing_record_sha256 :: "string option"
  ro_accepted_variant_id :: "string option"
  ro_accepted_variant_sku :: "string option"
  ro_accepted_variant_options :: "variant_option list option"
  ro_accepted_shipping_minor :: "int option"
  ro_accepted_subtotal_minor :: "int option"
  ro_accepted_total_minor :: "int option"
  ro_accepted_fulfillment :: "string option"
  ro_accepted_fulfillment_methods :: "string list option"
  ro_converted_order_id :: "uuid option"
  ro_converted_at :: "datetime option"
  ro_expiry_reason :: "string option"

record drop_row =
  dr_aggregate_id :: string
  dr_seller_pubky :: pubky
  dr_drop_id :: string
  dr_record_revision :: int
  dr_revision :: int
  dr_state :: string
  dr_format :: string
  dr_starts_at :: datetime
  dr_ends_at :: "datetime option"
  dr_total_quantity :: int
  dr_per_buyer_limit :: int
  dr_remaining_quantity :: int
  dr_paid_quantity :: int
  dr_stock_display :: string
  dr_listing_ids :: "string list"
  dr_created_at :: datetime
  dr_updated_at :: datetime

record drop_listing_row =
  dg_drop_aggregate_id :: string
  dg_seller_pubky :: pubky
  dg_listing_id :: string
  dg_active :: bool
  dg_released :: bool
  dg_listing_generation :: int

record drop_purchase_row =
  dp_drop_aggregate_id :: string
  dp_buyer_pubky :: pubky
  dp_quantity :: int
  dp_per_buyer_limit :: int

record event_row =
  ev_id :: uuid
  ev_command_id :: uuid
  ev_aggregate_id :: string
  ev_revision :: int
  ev_actor_pubky :: pubky
  ev_kind :: string
  ev_occurred_at :: datetime

datatype outbox_payload =
    Notification pubky pubky string "money option"
  | PaykitActivate uuid
  | PaykitVoid uuid uuid string string string

record outbox_row =
  ob_event_id :: uuid
  ob_kind :: string
  ob_payload :: outbox_payload
  ob_created_at :: datetime
  ob_delivered_at :: "datetime option"

record review_row =
  rw_id :: uuid
  rw_order_id :: uuid
  rw_reviewer_pubky :: pubky
  rw_reviewer_role :: string
  rw_subject_pubky :: pubky
  rw_rating :: int
  rw_text :: string
  rw_created_at :: datetime
  rw_updated_at :: datetime

record band_consent_row =
  bc_seller_pubky :: pubky
  bc_allows_amount_band :: bool
  bc_revision :: int
  bc_updated_at :: datetime

record attestation_row =
  at_order_id :: uuid
  at_reviewer_pubky :: pubky
  at_order_ref :: string
  at_jws :: string
  at_claims :: json
  at_issued_at :: datetime

record pickup_details_row =
  pv_aggregate_id :: string
  pv_seller_pubky :: pubky
  pv_version :: int
  pv_ciphertext :: string
  pv_created_at :: datetime
  pv_updated_at :: datetime

record pickup_counter_row =
  pc_aggregate_id :: string
  pc_seller_pubky :: pubky
  pc_last_version :: int
  pc_cleared_at :: "datetime option"
  pc_updated_at :: datetime

record pickup_snapshot_row =
  ps_order_id :: uuid
  ps_line_index :: nat
  ps_listing_aggregate_id :: string
  ps_version :: int
  ps_ciphertext :: string
  ps_confirming_adapter :: string
  ps_created_at :: datetime

record digital_version_row =
  dv_listing_aggregate_id :: string
  dv_deliverable_id :: string
  dv_version :: int
  dv_kind :: string
  dv_ciphertext :: string
  dv_superseded_at :: "datetime option"
  dv_seller_pubky :: pubky
  dv_ciphertext_blake3 :: "string option"
  dv_size_bytes :: "int option"
  dv_content_type :: "string option"
  dv_created_at :: datetime

record digital_counter_row =
  dc_listing_aggregate_id :: string
  dc_seller_pubky :: pubky
  dc_last_version :: int
  dc_cleared_at :: "datetime option"
  dc_updated_at :: datetime

record digital_pin_row =
  dx_order_id :: uuid
  dx_line_index :: nat
  dx_listing_aggregate_id :: string
  dx_deliverable_id :: string
  dx_version :: int
  dx_kind :: string
  dx_ciphertext :: string
  dx_confirming_adapter :: string
  dx_created_at :: datetime

record delivery_email_row =
  em_order_id :: uuid
  em_buyer_pubky :: pubky
  em_ciphertext :: "string option"
  em_created_at :: datetime
  em_updated_at :: datetime
  em_emailed_at :: "datetime option"
  em_purged_at :: "datetime option"

record locks_snapshot_row =
  lk_payment_id :: uuid
  lk_order_id :: uuid
  lk_resource_ciphertext :: string
  lk_resource_hash :: string
  lk_criterion_id :: string
  lk_merchandise :: "money option"
  lk_expected_reader_pubky :: pubky
  lk_expected_recipient_pubky :: pubky
  lk_created_at :: datetime

record locks_correlation_row =
  co_id :: uuid
  co_payment_id :: uuid
  co_order_id :: uuid
  co_buyer_pubky :: pubky
  co_creator_pubky :: pubky
  co_lock_resource_hash :: string
  co_amount_minor :: int
  co_asset :: string
  co_exponent :: int
  co_policy_version :: nat
  co_verification_state :: string
  co_window_expires_at :: datetime
  co_expected_resource_ciphertext :: "string option"
  co_expected_resource_hash :: "string option"
  co_criterion_id :: "string option"
  co_expected_reader_pubky :: "pubky option"
  co_expected_recipient_pubky :: "pubky option"
  co_client_reference_ciphertext :: "string option"
  co_preparation_state :: string
  co_binding_outcome :: "string option"
  co_bundle_id_ciphertext :: "string option"
  co_bundle_lookup_token :: "string option"
  co_created_at :: datetime
  co_updated_at :: datetime

record binding_outcome_row =
  bo_id :: uuid
  bo_payment_id :: uuid
  bo_command_id :: uuid
  bo_outcome :: string
  bo_recorded_at :: datetime

record handover_row =
  ph_order_id :: uuid
  ph_confirmed_by :: string
  ph_confirmed_at :: datetime

section \<open>The database\<close>

text \<open>\<open>st_digital_access\<close> holds the order and line index of each opened digital line; \<open>st_gateway_refunds\<close> the
  order and refund transaction of each recorded gateway refund; \<open>st_released_attempts\<close> the order and
  invoice of each superseded Paykit attempt; \<open>st_annotations\<close> the salted order reference and outcome of each
  attestation annotation.\<close>

record db =
  st_listings :: "listing_row list"
  st_reserves :: "auction_reserve_row list"
  st_reservations :: "reservation_row list"
  st_bids :: "bid_row list"
  st_orders :: "order_row list"
  st_payments :: "payment_row list"
  st_drops :: "drop_row list"
  st_drop_listings :: "drop_listing_row list"
  st_drop_purchases :: "drop_purchase_row list"
  st_events :: "event_row list"
  st_outbox :: "outbox_row list"
  st_reviews :: "review_row list"
  st_handovers :: "handover_row list"
  st_offers :: "offer_row list"
  st_receipts :: "receipt_row list"
  st_band_consents :: "band_consent_row list"
  st_attestations :: "attestation_row list"
  st_pickup_details :: "pickup_details_row list"
  st_pickup_snapshots :: "pickup_snapshot_row list"
  st_digital_versions :: "digital_version_row list"
  st_digital_pins :: "digital_pin_row list"
  st_delivery_emails :: "delivery_email_row list"
  st_locks_snapshots :: "locks_snapshot_row list"
  st_pickup_counters :: "pickup_counter_row list"
  st_digital_counters :: "digital_counter_row list"
  st_locks_correlations :: "locks_correlation_row list"
  st_binding_outcomes :: "binding_outcome_row list"
  st_locks_observations :: "(uuid \<times> string \<times> string \<times> datetime) list"
  st_digital_access :: "(uuid \<times> nat) list"
  st_gateway_refunds :: "(uuid \<times> string) list"
  st_released_attempts :: "(uuid \<times> uuid) list"
  st_annotations :: "(uuid \<times> string) list"
  st_next_uuid :: nat

type_synonym 'a tx = "('a, db) tx_result"

section \<open>Constraints\<close>

definition in_bigint :: "int \<Rightarrow> bool" where
  "in_bigint i \<longleftrightarrow> i64_min \<le> i \<and> i \<le> i64_max"

text \<open>The cursor of a homeserver event: the digits of a \<open>u64\<close>.\<close>

definition is_cursor :: "string \<Rightarrow> bool" where
  "is_cursor v \<longleftrightarrow> v \<noteq> [] \<and> length v \<le> 20 \<and> list_all is_ascii_digit v"

text \<open>\<open>listings_deletion_evidence_check\<close> and \<open>listings_revived_from_cursor_check\<close>.\<close>

definition deletion_evidence_check :: "listing_row \<Rightarrow> bool" where
  "deletion_evidence_check l \<longleftrightarrow>
     (case (ls_deleted_at l, ls_deleted_event_cursor l) of
        (None, None) \<Rightarrow> True | (Some _, Some cursor) \<Rightarrow> is_cursor cursor | _ \<Rightarrow> False)
     \<and> (case ls_revived_from_cursor l of None \<Rightarrow> True | Some cursor \<Rightarrow> is_cursor cursor)"

definition listing_check :: "listing_row \<Rightarrow> bool" where
  "listing_check l \<longleftrightarrow>
     0 < ls_listing_revision l \<and> 0 < ls_server_revision l \<and> in_bigint (ls_server_revision l)
     \<and> ls_state l \<in> set [''available'', ''reserved'', ''sold'']
     \<and> 0 \<le> ls_total_quantity l \<and> 0 \<le> ls_available_quantity l \<and> 0 \<le> ls_reserved_quantity l
     \<and> 0 \<le> ls_sold_quantity l \<and> 0 < ls_unit_price_amount_minor l
     \<and> ls_available_quantity l + ls_reserved_quantity l + ls_sold_quantity l = ls_total_quantity l
     \<and> deletion_evidence_check l"

definition reservation_check :: "reservation_row \<Rightarrow> bool" where
  "reservation_check r \<longleftrightarrow>
     0 < rv_quantity r \<and> rv_status r \<in> set [''active'', ''converted'', ''released'', ''expired'']"

definition bid_check :: "bid_row \<Rightarrow> bool" where
  "bid_check b \<longleftrightarrow>
     0 < bd_maximum_amount_minor b \<and> 0 \<le> bd_exponent b \<and> bd_exponent b \<le> 18 \<and> 0 < bd_sequence b"

definition ORDER_STATES :: "string list" where
  "ORDER_STATES =
     [''pending_payment'', ''paid'', ''ready_for_pickup'', ''processing'', ''shipped'', ''delivered'',
      ''completed'', ''cancel_requested'', ''cancelled'', ''return_requested'', ''return_approved'',
      ''return_received'', ''refunded_external'', ''closed'']"

definition order_check :: "order_row \<Rightarrow> bool" where
  "order_check o' \<longleftrightarrow>
     0 < or_revision o' \<and> in_bigint (or_revision o') \<and> or_state o' \<in> set ORDER_STATES
     \<and> 0 \<le> or_subtotal_minor o' \<and> 0 \<le> or_shipping_minor o' \<and> 0 \<le> or_total_minor o'
     \<and> or_total_minor o' = or_subtotal_minor o' + or_shipping_minor o'
     \<and> (case or_external_refund o' of
          Some refund \<Rightarrow>
            (case er_amount_minor refund of
               Some a \<Rightarrow> 1 \<le> a \<and> a \<le> max (or_total_minor o')
                 (case or_paykit_total_sats o' of Some s \<Rightarrow> s | None \<Rightarrow> or_total_minor o')
             | None \<Rightarrow> True)
        | None \<Rightarrow> True)
     \<and> or_fulfillment o' \<in> set [''shipping'', ''pickup'', ''digital'']
     \<and> or_priced_from o' \<in> set [''listing'', ''offer'']"

definition payment_check :: "payment_row \<Rightarrow> bool" where
  "payment_check p \<longleftrightarrow>
     0 < pm_revision p \<and> in_bigint (pm_revision p) \<and> 0 \<le> pm_confirmations p \<and> 0 \<le> pm_amount_minor p
     \<and> pm_adapter p \<in> set [''sandbox'', ''locks'', ''paykit'', ''stripe'', ''paypal'']
     \<and> pm_state p \<in> set [''awaiting_entitlement'', ''detected'', ''confirmed'', ''expired'', ''manual_review'']"

definition drop_check :: "drop_row \<Rightarrow> bool" where
  "drop_check d \<longleftrightarrow>
     0 < dr_record_revision d \<and> 0 < dr_revision d \<and> in_bigint (dr_revision d)
     \<and> dr_state d \<in> set [''announced'', ''live'', ''ended_sold_out'', ''ended_closed'', ''ended_cancelled'']
     \<and> dr_format d = ''fcfs''
     \<and> 1 \<le> dr_total_quantity d \<and> dr_total_quantity d \<le> 1000000
     \<and> 1 \<le> dr_per_buyer_limit d \<and> dr_per_buyer_limit d \<le> 100
     \<and> dr_per_buyer_limit d \<le> dr_total_quantity d
     \<and> 0 \<le> dr_remaining_quantity d \<and> dr_remaining_quantity d \<le> dr_total_quantity d
     \<and> 0 \<le> dr_paid_quantity d \<and> dr_paid_quantity d \<le> dr_total_quantity d
     \<and> dr_stock_display d \<in> set [''exact'', ''bands'', ''hidden'']
     \<and> (case dr_ends_at d of None \<Rightarrow> True | Some e \<Rightarrow> dr_starts_at d < e)"

definition drop_purchase_check :: "drop_purchase_row \<Rightarrow> bool" where
  "drop_purchase_check p \<longleftrightarrow> 0 \<le> dp_quantity p \<and> dp_quantity p \<le> dp_per_buyer_limit p"

definition event_check :: "event_row \<Rightarrow> bool" where
  "event_check e \<longleftrightarrow> 0 < ev_revision e"

text \<open>The primary key, one event per aggregate revision, one confirmation per payment.\<close>

definition event_clash :: "event_row \<Rightarrow> event_row \<Rightarrow> bool" where
  "event_clash e e' \<longleftrightarrow>
     ev_id e = ev_id e' \<or> ev_aggregate_id e = ev_aggregate_id e' \<and> ev_revision e = ev_revision e'
     \<or> ev_aggregate_id e = ev_aggregate_id e'
       \<and> ev_kind e = ''payment.confirmed'' \<and> ev_kind e' = ''payment.confirmed''"

text \<open>The primary key, one winning order per auction, one order per offer award.\<close>

definition order_clash :: "order_row \<Rightarrow> order_row \<Rightarrow> bool" where
  "order_clash o1 o2 \<longleftrightarrow>
     or_id o1 = or_id o2
     \<or> or_auction_aggregate_id o1 \<noteq> None \<and> or_auction_aggregate_id o1 = or_auction_aggregate_id o2
     \<or> or_offer_award_id o1 \<noteq> None \<and> or_offer_award_id o1 = or_offer_award_id o2"

definition reservation_clash :: "reservation_row \<Rightarrow> reservation_row \<Rightarrow> bool" where
  "reservation_clash a b \<longleftrightarrow>
     rv_id a = rv_id b \<or> rv_offer_award_id a \<noteq> None \<and> rv_offer_award_id a = rv_offer_award_id b"

definition present :: "('a \<Rightarrow> bool) \<Rightarrow> 'a option \<Rightarrow> bool" where
  "present P x = (case x of None \<Rightarrow> False | Some y \<Rightarrow> P y)"

text \<open>\<open>offers_award_snapshot_check\<close>, and what the other constraints of the table ask.\<close>

definition award_snapshot_check :: "offer_row \<Rightarrow> bool" where
  "award_snapshot_check r \<longleftrightarrow>
     ro_award_id r \<noteq> None \<and> ro_accepted_at r \<noteq> None \<and> ro_award_expires_at r \<noteq> None
     \<and> ro_reservation_id r \<noteq> None \<and> present (\<lambda>i. 0 < i) (ro_accepted_unit_price_minor r)
     \<and> ro_accepted_currency r \<noteq> None \<and> present (\<lambda>i. 0 \<le> i \<and> i \<le> 18) (ro_accepted_exponent r)
     \<and> present (\<lambda>i. 0 < i) (ro_accepted_quantity r) \<and> ro_accepted_listing_aggregate_id r \<noteq> None
     \<and> ro_accepted_listing_title r \<noteq> None \<and> present (\<lambda>i. 0 < i) (ro_accepted_listing_revision r)
     \<and> ro_accepted_listing_record_sha256 r \<noteq> None \<and> ro_accepted_variant_id r \<noteq> None
     \<and> ro_accepted_variant_options r \<noteq> None \<and> present (\<lambda>i. 0 \<le> i) (ro_accepted_shipping_minor r)
     \<and> present (\<lambda>i. 0 < i) (ro_accepted_subtotal_minor r)
     \<and> present (\<lambda>i. 0 < i) (ro_accepted_total_minor r)
     \<and> ro_accepted_fulfillment r = Some ''shipping''"

definition accepted_methods_check :: "offer_row \<Rightarrow> bool" where
  "accepted_methods_check r \<longleftrightarrow>
     (case ro_accepted_fulfillment_methods r of
        None \<Rightarrow> True
      | Some ms \<Rightarrow> 1 \<le> length ms \<and> length ms \<le> 2 \<and> set ms \<subseteq> set [''shipping'', ''pickup'']
          \<and> (''shipping'' \<in> set ms \<or> ro_accepted_shipping_minor r = Some 0))"

definition offer_check :: "offer_row \<Rightarrow> bool" where
  "offer_check r \<longleftrightarrow>
     0 < ro_revision r \<and> in_bigint (ro_revision r)
     \<and> ro_state r \<in> set [''pending'', ''countered'', ''accepted'', ''converted'', ''rejected'', ''withdrawn'', ''expired'']
     \<and> 0 < ro_amount_minor r \<and> 0 \<le> ro_exponent r \<and> ro_exponent r \<le> 18 \<and> 0 < ro_quantity r
     \<and> (case ro_expiry_reason r of
          None \<Rightarrow> True | Some s \<Rightarrow> s \<in> set [''negotiation_window'', ''award_window'', ''legacy_unconvertible''])
     \<and> (ro_state r \<in> set [''accepted'', ''converted''] \<longrightarrow> award_snapshot_check r)
     \<and> (ro_state r = ''converted'' \<longrightarrow> ro_converted_order_id r \<noteq> None \<and> ro_converted_at r \<noteq> None)
     \<and> accepted_methods_check r"

definition receipt_check :: "receipt_row \<Rightarrow> bool" where
  "receipt_check r \<longleftrightarrow>
     0 \<le> amount_minor (re_total r) \<and> 0 \<le> exponent (re_total r) \<and> exponent (re_total r) \<le> 18
     \<and> 0 \<le> amount_minor (re_merchandise_total r) \<and> 0 \<le> exponent (re_merchandise_total r)
     \<and> exponent (re_merchandise_total r) \<le> 18"

definition receipt_clash :: "receipt_row \<Rightarrow> receipt_row \<Rightarrow> bool" where
  "receipt_clash a b \<longleftrightarrow> re_id a = re_id b \<or> re_order_id a = re_order_id b \<or> re_payment_id a = re_payment_id b"

definition review_check :: "review_row \<Rightarrow> bool" where
  "review_check r \<longleftrightarrow> rw_reviewer_role r \<in> set [''buyer'', ''seller''] \<and> 1 \<le> rw_rating r \<and> rw_rating r \<le> 5"

definition review_clash :: "review_row \<Rightarrow> review_row \<Rightarrow> bool" where
  "review_clash a b \<longleftrightarrow>
     rw_id a = rw_id b \<or> rw_order_id a = rw_order_id b \<and> rw_reviewer_role a = rw_reviewer_role b"

definition bid_clash :: "bid_row \<Rightarrow> bid_row \<Rightarrow> bool" where
  "bid_clash b b' \<longleftrightarrow>
     bd_id b = bd_id b'
     \<or> bd_listing_aggregate_id b = bd_listing_aggregate_id b' \<and> bd_sequence b = bd_sequence b'"

section \<open>Command results\<close>

datatype refusal_kind =
    RInvalidEnvelope | RInvalidCommand | RUnauthorized | RNotFound | RRevisionConflict
  | RIdempotencyConflict | RInsufficientInventory | RInvariantViolation | ROfferExpired | RInvalidState
  | RAuctionClosed | RBidTooLow | RUpstreamUnavailable | RAwardExpired | RAwardAlreadyConverted
  | RAwardQuantityMismatch | RAwardVariantMismatch | RAwardListingChanged | RAwardHoldMissing
  | RManualResolveInvalidReason | RManualResolveInvalidIdempotencyKey | RManualResolveInvalidOutcome
  | RManualResolveInvalidRefundReference | RManualResolveNotOrderSeller | RManualResolveOrderNotFound
  | RManualResolveNotApplicable | RManualResolveMissingPin | RManualResolveConflict
  | RManualResolveAlreadyResolved | RManualResolveNotInReview | RManualResolveStockUnavailable
  | RBidWrongAsset | RBidSellerForbidden | RBidNotAuction | RBidListingNotFound
  | RLocksIdentityMismatch | RLocksUpstreamUnavailable

record command_failure =
  cf_code :: error_code
  cf_refusal_kind :: refusal_kind
  cf_message :: string
  cf_current_revision :: "int option"
  cf_issues :: "validation_issue list option"
  cf_reason :: "string option"

definition refused :: "refusal_kind \<Rightarrow> error_code \<Rightarrow> string \<Rightarrow> command_failure" where
  "refused kind code message =
     \<lparr>cf_code = code, cf_refusal_kind = kind, cf_message = message, cf_current_revision = None,
      cf_issues = None, cf_reason = None\<rparr>"

definition refused_with_reason :: "refusal_kind \<Rightarrow> error_code \<Rightarrow> string \<Rightarrow> string \<Rightarrow> command_failure" where
  "refused_with_reason kind code message reason = (refused kind code message)\<lparr>cf_reason := Some reason\<rparr>"

definition refused_with_revision :: "refusal_kind \<Rightarrow> error_code \<Rightarrow> string \<Rightarrow> int \<Rightarrow> command_failure" where
  "refused_with_revision kind code message current_revision =
     (refused kind code message)\<lparr>cf_current_revision := Some current_revision\<rparr>"

definition refused_with_issues ::
  "refusal_kind \<Rightarrow> error_code \<Rightarrow> string \<Rightarrow> validation_issue list \<Rightarrow> command_failure" where
  "refused_with_issues kind code message issues = (refused kind code message)\<lparr>cf_issues := Some issues\<rparr>"

definition invalid_envelope :: "validation_issue list \<Rightarrow> command_failure" where
  "invalid_envelope issues =
     refused_with_issues RInvalidEnvelope InvalidCommand ''The marketplace command is invalid.'' issues"

record auction_close_outcome =
  ac_sold :: bool
  ac_winner_pubky :: "pubky option"
  ac_listing :: listing_row
  ac_reserve :: auction_reserve_row
  ac_reservation :: "reservation_row option"
  ac_order :: "order_row option"
  ac_payment :: "payment_row option"
  ac_event_ids :: "uuid list"

text \<open>The rows a command result projects; the JSON of the projections is not modelled.\<close>

datatype command_result =
    ResultReservation listing_row reservation_row
  | ResultBid listing_row bid_row
  | ResultAuction auction_close_outcome
  | ResultOrder order_row "review_row list"
  | ResultDrop drop_row
  | ResultReview order_row "review_row list" review_row "(string \<times> json) option"
  | ResultBandConsent band_consent_row
  | ResultPayment payment_row order_row "review_row list" "receipt_row option"
  | ResultCheckout "order_row list" "payment_row list"
  | ResultOffer offer_row
  | ResultListing listing_row
  | ResultListingDeleted listing_row
  | ResultAcceptedOffer offer_row listing_row reservation_row
  | ResultPickupDetails string int bool datetime
  | ResultDigitalDelivery string "(string \<times> string) option" int datetime
  | ResultLocksPrepared string datetime
  | ResultLocksRegistered payment_row datetime

record handler_success =
  hs_revision :: int
  hs_event_ids :: "uuid list"
  hs_result :: command_result

type_synonym handler_result = "command_failure + handler_success"

text \<open>\<open>return Ok(Err(failure))\<close>.\<close>

definition refuse :: "command_failure \<Rightarrow> db \<Rightarrow> (command_failure + 'a) tx" where
  "refuse failure d = Inr (Inl failure, d)"

text \<open>\<open>match step.await? { Ok(x) => ..., Err(failure) => return Ok(Err(failure)) }\<close>.\<close>

definition attempt ::
  "(command_failure + 'a) tx \<Rightarrow> ('a \<Rightarrow> db \<Rightarrow> (command_failure + 'b) tx) \<Rightarrow> (command_failure + 'b) tx" where
  "attempt r k = seq r (\<lambda>answer d. case answer of Inl failure \<Rightarrow> refuse failure d | Inr x \<Rightarrow> k x d)"

definition accepted :: "(command_failure + 'a) tx \<Rightarrow> bool" where
  "accepted r = (case r of Inr (Inr _, _) \<Rightarrow> True | _ \<Rightarrow> False)"

text \<open>The answer and the database of an accepted run satisfy \<open>P\<close>.\<close>

definition accepted_with :: "(command_failure + 'a) tx \<Rightarrow> ('a \<Rightarrow> db \<Rightarrow> bool) \<Rightarrow> bool" where
  "accepted_with r P = (case r of Inr (Inr x, d) \<Rightarrow> P x d | _ \<Rightarrow> False)"

section \<open>Statements on the tables\<close>

definition update_listings ::
  "(listing_row \<Rightarrow> bool) \<Rightarrow> (listing_row \<Rightarrow> listing_row) \<Rightarrow> db \<Rightarrow> listing_row list tx" where
  "update_listings cond f d =
     seq (sql_update listing_check cond f (st_listings d)) (\<lambda>w rows. Inr (w, d\<lparr>st_listings := rows\<rparr>))"

definition update_reservations ::
  "(reservation_row \<Rightarrow> bool) \<Rightarrow> (reservation_row \<Rightarrow> reservation_row) \<Rightarrow> db \<Rightarrow> reservation_row list tx" where
  "update_reservations cond f d =
     seq (sql_update reservation_check cond f (st_reservations d))
       (\<lambda>w rows. Inr (w, d\<lparr>st_reservations := rows\<rparr>))"

definition insert_reservation :: "reservation_row \<Rightarrow> db \<Rightarrow> unit tx" where
  "insert_reservation r d =
     seq (sql_insert reservation_check reservation_clash r (st_reservations d))
       (\<lambda>u rows. Inr (u, d\<lparr>st_reservations := rows\<rparr>))"

definition update_orders ::
  "(order_row \<Rightarrow> bool) \<Rightarrow> (order_row \<Rightarrow> order_row) \<Rightarrow> db \<Rightarrow> order_row list tx" where
  "update_orders cond f d =
     seq (sql_update order_check cond f (st_orders d)) (\<lambda>w rows. Inr (w, d\<lparr>st_orders := rows\<rparr>))"

definition insert_order :: "order_row \<Rightarrow> db \<Rightarrow> unit tx" where
  "insert_order r d =
     seq (sql_insert order_check order_clash r (st_orders d)) (\<lambda>u rows. Inr (u, d\<lparr>st_orders := rows\<rparr>))"

definition update_payments ::
  "(payment_row \<Rightarrow> bool) \<Rightarrow> (payment_row \<Rightarrow> payment_row) \<Rightarrow> db \<Rightarrow> payment_row list tx" where
  "update_payments cond f d =
     seq (sql_update payment_check cond f (st_payments d)) (\<lambda>w rows. Inr (w, d\<lparr>st_payments := rows\<rparr>))"

definition insert_payment :: "payment_row \<Rightarrow> db \<Rightarrow> unit tx" where
  "insert_payment r d =
     seq (sql_insert payment_check (\<lambda>a b. pm_id a = pm_id b \<or> pm_order_id a = pm_order_id b) r (st_payments d))
       (\<lambda>u rows. Inr (u, d\<lparr>st_payments := rows\<rparr>))"

definition update_drops :: "(drop_row \<Rightarrow> bool) \<Rightarrow> (drop_row \<Rightarrow> drop_row) \<Rightarrow> db \<Rightarrow> drop_row list tx" where
  "update_drops cond f d =
     seq (sql_update drop_check cond f (st_drops d)) (\<lambda>w rows. Inr (w, d\<lparr>st_drops := rows\<rparr>))"

definition update_drop_purchases ::
  "(drop_purchase_row \<Rightarrow> bool) \<Rightarrow> (drop_purchase_row \<Rightarrow> drop_purchase_row) \<Rightarrow> db \<Rightarrow> drop_purchase_row list tx" where
  "update_drop_purchases cond f d =
     seq (sql_update drop_purchase_check cond f (st_drop_purchases d))
       (\<lambda>w rows. Inr (w, d\<lparr>st_drop_purchases := rows\<rparr>))"

definition update_offers :: "(offer_row \<Rightarrow> bool) \<Rightarrow> (offer_row \<Rightarrow> offer_row) \<Rightarrow> db \<Rightarrow> offer_row list tx" where
  "update_offers cond f d =
     seq (sql_update offer_check cond f (st_offers d)) (\<lambda>w rows. Inr (w, d\<lparr>st_offers := rows\<rparr>))"

definition insert_offer :: "offer_row \<Rightarrow> db \<Rightarrow> unit tx" where
  "insert_offer r d =
     seq (sql_insert offer_check
            (\<lambda>a b. ro_id a = ro_id b \<or> ro_aggregate_id a = ro_aggregate_id b) r (st_offers d))
       (\<lambda>u rows. Inr (u, d\<lparr>st_offers := rows\<rparr>))"

definition insert_receipt :: "receipt_row \<Rightarrow> db \<Rightarrow> unit tx" where
  "insert_receipt r d =
     seq (sql_insert receipt_check receipt_clash r (st_receipts d)) (\<lambda>u rows. Inr (u, d\<lparr>st_receipts := rows\<rparr>))"

definition update_reviews ::
  "(review_row \<Rightarrow> bool) \<Rightarrow> (review_row \<Rightarrow> review_row) \<Rightarrow> db \<Rightarrow> review_row list tx" where
  "update_reviews cond f d =
     seq (sql_update review_check cond f (st_reviews d)) (\<lambda>w rows. Inr (w, d\<lparr>st_reviews := rows\<rparr>))"

definition insert_review :: "review_row \<Rightarrow> db \<Rightarrow> unit tx" where
  "insert_review r d =
     seq (sql_insert review_check review_clash r (st_reviews d)) (\<lambda>u rows. Inr (u, d\<lparr>st_reviews := rows\<rparr>))"

definition insert_bid :: "bid_row \<Rightarrow> db \<Rightarrow> unit tx" where
  "insert_bid b d =
     seq (sql_insert bid_check bid_clash b (st_bids d)) (\<lambda>u rows. Inr (u, d\<lparr>st_bids := rows\<rparr>))"

section \<open>Shared handler helpers\<close>

definition fetch_listing :: "db \<Rightarrow> string \<Rightarrow> listing_row option" where
  "fetch_listing d aggregate_id = fetch ls_aggregate_id aggregate_id (st_listings d)"

definition fetch_live_listing :: "db \<Rightarrow> string \<Rightarrow> listing_row option" where
  "fetch_live_listing d aggregate_id =
     (case fetch_listing d aggregate_id of
        Some l \<Rightarrow> if is_deleted l then None else Some l | None \<Rightarrow> None)"

definition fetch_auction_reserve :: "db \<Rightarrow> string \<Rightarrow> auction_reserve_row option" where
  "fetch_auction_reserve d aggregate_id = fetch rs_listing_aggregate_id aggregate_id (st_reserves d)"

definition current_listing_revision :: "db \<Rightarrow> string \<Rightarrow> int" where
  "current_listing_revision d aggregate_id =
     (case fetch_listing d aggregate_id of Some l \<Rightarrow> ls_server_revision l | None \<Rightarrow> 0)"

definition fetch_order :: "db \<Rightarrow> uuid \<Rightarrow> order_row option" where
  "fetch_order d order_id = fetch or_id order_id (st_orders d)"

definition order_line_listings :: "order_row \<Rightarrow> string list" where
  "order_line_listings o' = map ol_listing_aggregate_id (or_lines o')"

definition fetch_order_reviews :: "db \<Rightarrow> uuid \<Rightarrow> review_row list" where
  "fetch_order_reviews d order_id =
     sort_by (\<lambda>a b. rw_created_at a < rw_created_at b
                \<or> rw_created_at a = rw_created_at b \<and> \<not> str_less (rw_id b) (rw_id a))
       (filter (\<lambda>r. rw_order_id r = order_id) (st_reviews d))"

text \<open>\<open>new_v4\<close> is the parameter that names the \<open>n\<close>-th UUID drawn.\<close>

type_synonym uuid_source = "nat \<Rightarrow> uuid"

definition draw_uuid :: "uuid_source \<Rightarrow> db \<Rightarrow> uuid \<times> db" where
  "draw_uuid new_v4 d = (new_v4 (st_next_uuid d), d\<lparr>st_next_uuid := Suc (st_next_uuid d)\<rparr>)"

definition insert_event ::
  "uuid_source \<Rightarrow> uuid \<Rightarrow> string \<Rightarrow> int \<Rightarrow> pubky \<Rightarrow> string \<Rightarrow> datetime \<Rightarrow> db \<Rightarrow> uuid tx" where
  "insert_event new_v4 command_id aggregate_id revision actor kind occurred_at d0 =
     (let (event_id, d) = draw_uuid new_v4 d0
      in seq (sql_insert event_check event_clash
                \<lparr>ev_id = event_id, ev_command_id = command_id, ev_aggregate_id = aggregate_id,
                 ev_revision = revision, ev_actor_pubky = actor, ev_kind = kind,
                 ev_occurred_at = occurred_at\<rparr> (st_events d))
           (\<lambda>_ rows. Inr (event_id, d\<lparr>st_events := rows\<rparr>)))"

text \<open>\<open>ensure_reserve_free\<close> accepts these payloads: none of their keys names a reserve.\<close>

definition insert_notification_intent ::
  "uuid \<Rightarrow> string \<Rightarrow> pubky \<Rightarrow> pubky \<Rightarrow> string \<Rightarrow> money option \<Rightarrow> datetime \<Rightarrow> db \<Rightarrow> db" where
  "insert_notification_intent event_id notification_type recipient actor aggregate_id amount now d =
     d\<lparr>st_outbox := st_outbox d @
        [\<lparr>ob_event_id = event_id, ob_kind = ''notification.'' @ notification_type,
          ob_payload = Notification recipient actor aggregate_id amount, ob_created_at = now,
          ob_delivered_at = None\<rparr>]\<rparr>"

definition guard_order_action :: "pubky \<Rightarrow> command \<Rightarrow> order_row \<Rightarrow> command_failure option" where
  "guard_order_action actor command order =
     (if actor \<noteq> or_buyer_pubky order \<and> actor \<noteq> or_seller_pubky order
      then Some (refused RUnauthorized Unauthorized ''Only order participants may act on it.'')
      else if cmd_aggregate_id command \<noteq> order_aggregate_id (or_id order)
      then Some (refused RInvalidCommand InvalidCommand ''The order aggregate id is invalid.'')
      else if cmd_expected_revision command \<noteq> or_revision order
      then Some (refused_with_revision RRevisionConflict RevisionConflict
                   ''The order revision is stale.'' (or_revision order))
      else None)"

definition finish_order_action ::
  "uuid_source \<Rightarrow> pubky \<Rightarrow> command \<Rightarrow> order_row \<Rightarrow> string \<Rightarrow> string \<times> pubky \<Rightarrow> datetime \<Rightarrow> db
     \<Rightarrow> handler_result tx" where
  "finish_order_action new_v4 actor command order event_kind notification now d =
     seq (insert_event new_v4 (cmd_command_id command) (order_aggregate_id (or_id order))
            (or_revision order) actor event_kind now d)
       (\<lambda>event_id d1.
          let d2 = insert_notification_intent event_id (fst notification) (snd notification) actor
                     (order_aggregate_id (or_id order)) None now d1
          in Inr (Inr \<lparr>hs_revision = or_revision order, hs_event_ids = [event_id],
                       hs_result = ResultOrder order (fetch_order_reviews d2 (or_id order))\<rparr>, d2))"

section \<open>The empty database\<close>

definition empty_db :: db where
  "empty_db =
     \<lparr>st_listings = [], st_reserves = [], st_reservations = [], st_bids = [], st_orders = [], st_payments = [],
      st_drops = [], st_drop_listings = [], st_drop_purchases = [], st_events = [], st_outbox = [],
      st_reviews = [], st_handovers = [], st_offers = [], st_receipts = [], st_band_consents = [],
      st_attestations = [], st_pickup_details = [], st_pickup_snapshots = [], st_digital_versions = [],
      st_digital_pins = [], st_delivery_emails = [], st_locks_snapshots = [], st_pickup_counters = [],
      st_digital_counters = [], st_locks_correlations = [], st_binding_outcomes = [], st_locks_observations = [],
      st_digital_access = [], st_gateway_refunds = [], st_released_attempts = [], st_annotations = [],
      st_next_uuid = 0\<rparr>"

section \<open>Well-formed tables\<close>

text \<open>The primary key identifies a row and every row satisfies its constraint.\<close>

definition table_ok :: "('r \<Rightarrow> 'k) \<Rightarrow> ('r \<Rightarrow> bool) \<Rightarrow> 'r list \<Rightarrow> bool" where
  "table_ok key check rows \<longleftrightarrow> distinct (map key rows) \<and> list_all check rows"

text \<open>What the bookkeeping of a command writes: events, intents, drawn UUIDs.\<close>

definition log_step :: "db \<Rightarrow> db \<Rightarrow> bool" where
  "log_step d d' \<longleftrightarrow>
     (\<exists>events outbox n. d' = d\<lparr>st_events := events, st_outbox := outbox, st_next_uuid := n\<rparr>)"

section \<open>Facts\<close>

lemma seq_Inr [simp]: "seq (Inr (x, d)) k = k x d"
  by (simp add: seq_def)

lemma seq_Inl [simp]: "seq (Inl e) k = Inl e"
  by (simp add: seq_def)

lemma seq_eq_Inr: "seq r k = Inr y \<longleftrightarrow> (\<exists>x d. r = Inr (x, d) \<and> k x d = Inr y)"
  by (auto simp: seq_def split: sum.splits)

lemma seq_eq_Inl: "seq r k = Inl e \<longleftrightarrow> r = Inl e \<or> (\<exists>x d. r = Inr (x, d) \<and> k x d = Inl e)"
  by (auto simp: seq_def split: sum.splits)

lemma attempt_accept:
  "attempt r k = Inr (Inr y, d') \<longleftrightarrow> (\<exists>x d. r = Inr (Inr x, d) \<and> k x d = Inr (Inr y, d'))"
proof
  assume "attempt r k = Inr (Inr y, d')"
  then obtain z d where z: "r = Inr (z, d)"
      "(case z of Inl failure \<Rightarrow> refuse failure d | Inr x \<Rightarrow> k x d) = Inr (Inr y, d')"
    by (auto simp: attempt_def seq_eq_Inr)
  then show "\<exists>x d. r = Inr (Inr x, d) \<and> k x d = Inr (Inr y, d')"
    by (cases z) (auto simp: refuse_def)
qed (auto simp: attempt_def)

lemma refuse_accept [simp]: "refuse f d \<noteq> Inr (Inr x, d')"
  by (simp add: refuse_def)

lemma accepted_iff: "accepted r \<longleftrightarrow> (\<exists>x d. r = Inr (Inr x, d))"
  by (auto simp: accepted_def split: sum.splits)

lemma accepted_with_iff: "accepted_with r P \<longleftrightarrow> (\<exists>x d. r = Inr (Inr x, d) \<and> P x d)"
  by (auto simp: accepted_with_def split: sum.splits)

lemma fetch_Some: "fetch key k rows = Some r \<Longrightarrow> r \<in> set rows \<and> key r = k"
  by (auto simp: fetch_def find_Some_iff)

lemma fetch_None: "fetch key k rows = None \<longleftrightarrow> k \<notin> key ` set rows"
  by (auto simp: fetch_def find_None_iff)

lemma fetch_Some_iff:
  "distinct (map key rows) \<Longrightarrow> fetch key k rows = Some r \<longleftrightarrow> r \<in> set rows \<and> key r = k"
proof
  assume d: "distinct (map key rows)" and r: "r \<in> set rows \<and> key r = k"
  then obtain r' where r': "fetch key k rows = Some r'"
    using fetch_None [of key k rows] by (cases "fetch key k rows") auto
  with d r fetch_Some [OF r'] show "fetch key k rows = Some r"
    by (auto simp: distinct_map inj_on_def)
qed (rule fetch_Some)

lemma fetch_unique:
  assumes "table_ok key check rows" "fetch key k rows = Some r" "r' \<in> set rows" "key r' = k"
  shows "r' = r"
  using assms by (metis fetch_Some_iff option.inject table_ok_def)

lemma filter_unique_key:
  assumes "distinct (map key rows)"
  shows "filter (\<lambda>r. key r = k \<and> P r) rows
    = (case fetch key k rows of Some r \<Rightarrow> if P r then [r] else [] | None \<Rightarrow> [])"
  using assms
proof (induction rows)
  case (Cons r rows)
  show ?case
  proof (cases "key r = k")
    case True
    with Cons.prems have "filter (\<lambda>r. key r = k \<and> P r) rows = []"
      by (force simp: filter_empty_conv image_iff)
    with True show ?thesis by (simp add: fetch_def)
  next
    case False
    with Cons show ?thesis by (simp add: fetch_def)
  qed
qed (simp add: fetch_def)

lemma sum_list_update:
  fixes g :: "'r \<Rightarrow> 'a :: ab_group_add"
  shows "sum_list (map g (map (\<lambda>r. if c r then f r else r) rows))
    = sum_list (map g rows) + sum_list (map (\<lambda>r. g (f r) - g r) (filter c rows))"
  by (induction rows) (simp_all add: algebra_simps)

lemma set_insert_by [simp]: "set (insert_by le x xs) = insert x (set xs)"
  by (induction xs) auto

lemma set_sort_by [simp]: "set (sort_by le xs) = set xs"
  by (induction xs) (simp_all add: sort_by_def)

lemma length_insert_by: "length (insert_by le x xs) = Suc (length xs)"
  by (induction xs) auto

lemma length_sort_by [simp]: "length (sort_by le xs) = length xs"
  by (induction xs) (simp_all add: sort_by_def length_insert_by)

lemma fetch_one_Inr: "fetch_one r = Inr (x, d) \<longleftrightarrow> (\<exists>xs. r = Inr (x # xs, d))"
  by (auto simp: fetch_one_def split: sum.splits list.splits)

section \<open>Tables\<close>

text \<open>What an \<open>UPDATE\<close> does to a table of the database, once for all tables.\<close>

locale db_table =
  fixes get :: "db \<Rightarrow> 'r list" and put :: "'r list \<Rightarrow> db \<Rightarrow> db"
    and key :: "'r \<Rightarrow> 'k" and check :: "'r \<Rightarrow> bool"
    and upd :: "('r \<Rightarrow> bool) \<Rightarrow> ('r \<Rightarrow> 'r) \<Rightarrow> db \<Rightarrow> 'r list tx"
  assumes get_put: "get (put rows d) = rows"
    and upd_eq: "upd c f d = seq (sql_update check c f (get d)) (\<lambda>w rows. Inr (w, put rows d))"
begin

lemma upd_Inr:
  "upd c f d = Inr (w, d') \<longleftrightarrow>
   list_all check (map f (filter c (get d))) \<and> w = map f (filter c (get d))
   \<and> d' = put (map (\<lambda>r. if c r then f r else r) (get d)) d"
  by (auto simp: upd_eq sql_update_def Let_def)

lemma upd_Inl: "upd c f d = Inl e \<longleftrightarrow> \<not> list_all check (map f (filter c (get d))) \<and> e = CheckViolation"
  by (auto simp: upd_eq sql_update_def Let_def)

lemma upd_get: "upd c f d = Inr (w, d') \<Longrightarrow> get d' = map (\<lambda>r. if c r then f r else r) (get d)"
  by (auto simp: upd_Inr get_put)

lemma upd_ok:
  assumes "upd c f d = Inr (w, d')" "\<And>r. key (f r) = key r" "table_ok key check (get d)"
  shows "table_ok key check (get d')"
proof -
  have "map key (get d') = map key (get d)"
    using assms(2) by (auto simp: upd_get [OF assms(1)])
  moreover have "list_all check (get d')"
    using assms(1,3) by (auto simp: upd_Inr get_put table_ok_def list_all_iff)
  ultimately show ?thesis using assms(3) by (simp add: table_ok_def)
qed

lemma upd_fetch:
  assumes "upd c f d = Inr (w, d')" "\<And>r. key (f r) = key r"
  shows "fetch key k (get d') = map_option (\<lambda>r. if c r then f r else r) (fetch key k (get d))"
proof -
  have "fetch key k (map (\<lambda>r. if c r then f r else r) rows)
    = map_option (\<lambda>r. if c r then f r else r) (fetch key k rows)" for rows
    using assms(2) by (induction rows) (auto simp: fetch_def)
  then show ?thesis by (simp add: upd_get [OF assms(1)])
qed

lemma upd_sum:
  fixes g :: "'r \<Rightarrow> 'a :: ab_group_add"
  assumes "upd c f d = Inr (w, d')"
  shows "sum_list (map g (get d'))
    = sum_list (map g (get d)) + sum_list (map (\<lambda>r. g (f r) - g r) (filter c (get d)))"
  using sum_list_update [of g c f "get d"] by (simp add: upd_get [OF assms])

lemma upd_key_rows:
  assumes "table_ok key check (get d)"
  shows "filter (\<lambda>r. key r = k \<and> P r) (get d)
    = (case fetch key k (get d) of Some r \<Rightarrow> if P r then [r] else [] | None \<Rightarrow> [])"
  using assms unfolding table_ok_def by (intro filter_unique_key) simp

lemma upd_key_row:
  assumes "table_ok key check (get d)"
  shows "filter (\<lambda>r. key r = k) (get d) = (case fetch key k (get d) of Some r \<Rightarrow> [r] | None \<Rightarrow> [])"
  using upd_key_rows [OF assms, of k "\<lambda>_. True"] by (simp cong: option.case_cong)

text \<open>An update of one row by its key, guarded by a condition on it.\<close>

lemma upd_one:
  assumes "table_ok key check (get d)" "upd (\<lambda>r. key r = k \<and> P r) f d = Inr (w, d')"
  shows "(\<exists>r. fetch key k (get d) = Some r \<and> P r \<and> w = [f r] \<and> check (f r))
    \<or> w = [] \<and> get d' = get d \<and> (\<forall>r. fetch key k (get d) = Some r \<longrightarrow> \<not> P r)"
proof -
  have rows: "filter (\<lambda>r. key r = k \<and> P r) (get d)
    = (case fetch key k (get d) of Some r \<Rightarrow> if P r then [r] else [] | None \<Rightarrow> [])"
    by (rule upd_key_rows [OF assms(1)])
  show ?thesis
  proof (cases "\<exists>r. fetch key k (get d) = Some r \<and> P r")
    case True
    with rows assms(2) show ?thesis by (auto simp: upd_Inr)
  next
    case False
    then have none: "filter (\<lambda>r. key r = k \<and> P r) (get d) = []"
      by (cases "fetch key k (get d)") (auto simp: rows)
    then have "map (\<lambda>r. if key r = k \<and> P r then f r else r) (get d) = get d"
      by (intro map_idI) (auto simp: filter_empty_conv)
    with none False assms(2) show ?thesis by (auto simp: upd_Inr get_put)
  qed
qed

lemma upd_change:
  assumes t: "table_ok key check (get d)" and r: "fetch key k (get d) = Some r"
    and u: "upd (\<lambda>x. key x = k) f d = Inr (w, d')" and f: "\<And>x. key (f x) = key x"
  shows "w = [f r]" "check (f r)" "fetch key k (get d') = Some (f r)"
    "k' \<noteq> k \<Longrightarrow> fetch key k' (get d') = fetch key k' (get d)" "map key (get d') = map key (get d)"
    "table_ok key check (get d')" "d' = put (map (\<lambda>x. if key x = k then f x else x) (get d)) d"
    "\<And>P. list_all P (get d) \<Longrightarrow> P (f r) \<Longrightarrow> list_all P (get d')"
proof -
  have rows: "filter (\<lambda>x. key x = k) (get d) = [r]" using upd_key_row [OF t, of k] r by simp
  show "w = [f r]" "check (f r)" using u rows by (simp_all add: upd_Inr)
  show "fetch key k (get d') = Some (f r)" using upd_fetch [OF u f, of k] r fetch_Some [OF r] by simp
  show "fetch key k' (get d') = fetch key k' (get d)" if "k' \<noteq> k"
    using upd_fetch [OF u f, of k'] that
    by (cases "fetch key k' (get d)") (auto dest: fetch_Some)
  show "map key (get d') = map key (get d)" using f by (auto simp: upd_get [OF u])
  show "table_ok key check (get d')" by (rule upd_ok [OF u f t])
  show "d' = put (map (\<lambda>x. if key x = k then f x else x) (get d)) d" using u by (simp add: upd_Inr)
  show "list_all P (get d')" if "list_all P (get d)" "P (f r)" for P
    using that fetch_unique [OF t r] by (auto simp: upd_get [OF u] list_all_iff)
qed

end

interpretation listings: db_table st_listings "\<lambda>rows d. d\<lparr>st_listings := rows\<rparr>" ls_aggregate_id
  listing_check update_listings
  by unfold_locales (simp_all add: update_listings_def)

interpretation reservations: db_table st_reservations "\<lambda>rows d. d\<lparr>st_reservations := rows\<rparr>" rv_id
  reservation_check update_reservations
  by unfold_locales (simp_all add: update_reservations_def)

interpretation orders: db_table st_orders "\<lambda>rows d. d\<lparr>st_orders := rows\<rparr>" or_id
  order_check update_orders
  by unfold_locales (simp_all add: update_orders_def)

interpretation payments: db_table st_payments "\<lambda>rows d. d\<lparr>st_payments := rows\<rparr>" pm_id
  payment_check update_payments
  by unfold_locales (simp_all add: update_payments_def)

interpretation drops: db_table st_drops "\<lambda>rows d. d\<lparr>st_drops := rows\<rparr>" dr_aggregate_id
  drop_check update_drops
  by unfold_locales (simp_all add: update_drops_def)

interpretation purchases: db_table st_drop_purchases "\<lambda>rows d. d\<lparr>st_drop_purchases := rows\<rparr>"
  "\<lambda>p. (dp_drop_aggregate_id p, dp_buyer_pubky p)" drop_purchase_check update_drop_purchases
  by unfold_locales (simp_all add: update_drop_purchases_def)

interpretation offers: db_table st_offers "\<lambda>rows d. d\<lparr>st_offers := rows\<rparr>" ro_id offer_check update_offers
  by unfold_locales (simp_all add: update_offers_def)

interpretation reviews: db_table st_reviews "\<lambda>rows d. d\<lparr>st_reviews := rows\<rparr>" rw_id review_check update_reviews
  by unfold_locales (simp_all add: update_reviews_def)

text \<open>Inserting an event or an intent touches the event log and the outbox only.\<close>

lemma insert_event_Inr:
  "insert_event new_v4 c a r p k t d = Inr (e, d') \<Longrightarrow>
   e = new_v4 (st_next_uuid d) \<and>
   d' = d\<lparr>st_next_uuid := Suc (st_next_uuid d),
          st_events := st_events d @ [\<lparr>ev_id = e, ev_command_id = c, ev_aggregate_id = a, ev_revision = r,
            ev_actor_pubky = p, ev_kind = k, ev_occurred_at = t\<rparr>]\<rparr>"
  by (auto simp: insert_event_def draw_uuid_def sql_insert_def split: if_splits)

lemma log_stepI: "d' = d\<lparr>st_events := events, st_outbox := outbox, st_next_uuid := n\<rparr> \<Longrightarrow> log_step d d'"
  unfolding log_step_def by blast

lemma log_step_refl [simp]: "log_step d d"
  by (rule log_stepI [where events = "st_events d" and outbox = "st_outbox d" and n = "st_next_uuid d"]) simp

lemma log_step_trans:
  assumes "log_step d d'" "log_step d' d''"
  shows "log_step d d''"
proof -
  obtain e b n where "d'' = d'\<lparr>st_events := e, st_outbox := b, st_next_uuid := n\<rparr>"
    using assms(2) unfolding log_step_def by blast
  with assms(1) have "d'' = d\<lparr>st_events := e, st_outbox := b, st_next_uuid := n\<rparr>"
    by (auto simp: log_step_def)
  then show ?thesis by (rule log_stepI)
qed

lemma log_stepD:
  assumes "log_step d d'"
  shows "st_listings d' = st_listings d" "st_reserves d' = st_reserves d"
    "st_reservations d' = st_reservations d" "st_bids d' = st_bids d" "st_orders d' = st_orders d"
    "st_payments d' = st_payments d" "st_drops d' = st_drops d" "st_drop_listings d' = st_drop_listings d"
    "st_drop_purchases d' = st_drop_purchases d" "st_reviews d' = st_reviews d"
    "st_offers d' = st_offers d" "st_receipts d' = st_receipts d"
  using assms by (auto simp: log_step_def)

lemma insert_event_log: "insert_event new_v4 c a r p k t d = Inr (e, d') \<Longrightarrow> log_step d d'"
proof -
  assume "insert_event new_v4 c a r p k t d = Inr (e, d')"
  note d' = conjunct2 [OF insert_event_Inr [OF this]]
  have "d' = d\<lparr>st_events := st_events d', st_outbox := st_outbox d', st_next_uuid := st_next_uuid d'\<rparr>"
    by (simp add: d')
  then show ?thesis unfolding log_step_def by blast
qed

lemma insert_notification_log: "log_step d (insert_notification_intent e k r a g m now d)"
proof -
  have "insert_notification_intent e k r a g m now d
    = d\<lparr>st_events := st_events d, st_outbox := st_outbox (insert_notification_intent e k r a g m now d),
        st_next_uuid := st_next_uuid d\<rparr>"
    by (simp add: insert_notification_intent_def)
  then show ?thesis unfolding log_step_def by blast
qed

lemma draw_uuid_log: "draw_uuid new_v4 d = (u, d') \<Longrightarrow> log_step d d'"
proof -
  assume "draw_uuid new_v4 d = (u, d')"
  then have "d' = d\<lparr>st_events := st_events d, st_outbox := st_outbox d, st_next_uuid := st_next_uuid d'\<rparr>"
    by (auto simp: draw_uuid_def)
  then show ?thesis unfolding log_step_def by blast
qed

lemma finish_order_action_log:
  assumes "finish_order_action new_v4 actor command order kind notice now d = Inr (Inr s, d')"
  shows "log_step d d'" "hs_revision s = or_revision order"
    "\<exists>reviews. hs_result s = ResultOrder order reviews"
proof -
  obtain e d1 where "insert_event new_v4 (cmd_command_id command) (order_aggregate_id (or_id order))
      (or_revision order) actor kind now d = Inr (e, d1)"
    and "d' = insert_notification_intent e (fst notice) (snd notice) actor
      (order_aggregate_id (or_id order)) None now d1"
    and s: "hs_revision s = or_revision order" "\<exists>reviews. hs_result s = ResultOrder order reviews"
    using assms by (auto simp: finish_order_action_def seq_eq_Inr Let_def)
  then show "log_step d d'" using insert_event_log insert_notification_log log_step_trans by metis
  show "hs_revision s = or_revision order" "\<exists>reviews. hs_result s = ResultOrder order reviews" by (rule s)+
qed

end
