(* ===== verification/Auction.thy ===== *)
theory Auction
  imports Store
begin

text \<open>
  \<^verbatim>\<open>handlers/auction.rs\<close>: proxy bidding (\<open>auction.place_bid\<close>), the authoritative close shared by the
  seller's command and the server-time worker (\<^verbatim>\<open>workers.rs\<close>, \<open>close_due_auctions\<close>), and the reserve as
  the seller's projection shows it (\<^verbatim>\<open>model.rs\<close>).

  The stored auction document is typed in the model, so it always parses and the worker's lane of
  malformed documents is empty; a row that another worker has locked is not modelled.

  The facts are in the theory \<open>Auction_Facts\<close>.
\<close>

section \<open>Bids\<close>

definition AUCTION_HOLD_SECONDS :: int where
  "AUCTION_HOLD_SECONDS = 30 * 60"

definition personal_minimum_next_bid :: "int \<Rightarrow> int \<Rightarrow> int \<Rightarrow> int" where
  "personal_minimum_next_bid current_price_minor minimum_increment_minor bidder_previous_maximum =
     (let visible_price_minimum = saturating_add current_price_minor minimum_increment_minor
      in if bidder_previous_maximum = 0 then visible_price_minimum
         else max visible_price_minimum (saturating_add bidder_previous_maximum 1))"

definition parse_auction :: "listing_row \<Rightarrow> auction_state option" where
  "parse_auction listing = (if ls_sale_format listing \<noteq> ''auction'' then None else ls_auction listing)"

definition fetch_bids :: "db \<Rightarrow> string \<Rightarrow> bid_row list" where
  "fetch_bids d aggregate_id =
     sort_by (\<lambda>a b. bd_sequence a \<le> bd_sequence b)
       (filter (\<lambda>b. bd_listing_aggregate_id b = aggregate_id) (st_bids d))"

definition outranks :: "bid_row \<Rightarrow> bid_row \<Rightarrow> bool" where
  "outranks bid current \<longleftrightarrow>
     bd_maximum_amount_minor current < bd_maximum_amount_minor bid
     \<or> bd_maximum_amount_minor bid = bd_maximum_amount_minor current \<and> bd_sequence bid < bd_sequence current"

fun note_maximum :: "bid_row list \<Rightarrow> bid_row \<Rightarrow> bid_row list" where
  "note_maximum [] bid = [bid]"
| "note_maximum (current # latest) bid =
     (if bd_bidder_pubky current = bd_bidder_pubky bid
      then (if outranks bid current then bid else current) # latest
      else current # note_maximum latest bid)"

text \<open>The comparison of \<open>sort_by\<close>: maximum descending, then sequence ascending.\<close>

definition ranks_before :: "bid_row \<Rightarrow> bid_row \<Rightarrow> bool" where
  "ranks_before left right \<longleftrightarrow>
     bd_maximum_amount_minor right < bd_maximum_amount_minor left
     \<or> bd_maximum_amount_minor left = bd_maximum_amount_minor right \<and> bd_sequence left \<le> bd_sequence right"

definition ranked_bidder_maximums :: "bid_row list \<Rightarrow> bid_row list" where
  "ranked_bidder_maximums bids = sort_by ranks_before (foldl note_maximum [] bids)"

fun max_or_zero :: "int list \<Rightarrow> int" where
  "max_or_zero [] = 0"
| "max_or_zero (x # xs) = foldl max x xs"

definition bidder_previous_maximum :: "bid_row list \<Rightarrow> pubky \<Rightarrow> int" where
  "bidder_previous_maximum bids actor =
     max_or_zero (map bd_maximum_amount_minor (filter (\<lambda>b. bd_bidder_pubky b = actor) bids))"

text \<open>The visible price after a bid.  The \<open>i64\<close> sum wraps.\<close>

fun visible_amount :: "bid_row list \<Rightarrow> int \<Rightarrow> int \<Rightarrow> int" where
  "visible_amount (leader # runner_up # _) minimum_increment start_price =
     min (bd_maximum_amount_minor leader)
       (wrap_i64 (bd_maximum_amount_minor runner_up + minimum_increment))"
| "visible_amount _ minimum_increment start_price = start_price"

definition should_extend :: "auction_state \<Rightarrow> datetime \<Rightarrow> bool" where
  "should_extend auction now \<longleftrightarrow>
     0 < au_anti_sniping_window_seconds auction
     \<and> au_ends_at auction - now \<le> seconds (au_anti_sniping_window_seconds auction)"

definition auction_after_bid :: "auction_state \<Rightarrow> int \<Rightarrow> pubky \<Rightarrow> datetime \<Rightarrow> auction_state" where
  "auction_after_bid auction visible leader now =
     auction\<lparr>au_ends_at := (if should_extend auction now
                            then now + seconds (au_anti_sniping_extension_seconds auction)
                            else au_ends_at auction),
       au_current_price := with_amount (au_current_price auction) visible,
       au_leader_pubky := Some leader,
       au_bid_count := au_bid_count auction + 1\<rparr>"

text \<open>\<open>UPDATE bids SET visible_amount_minor\<close>: the column has no constraint.\<close>

definition set_visible_amount :: "uuid \<Rightarrow> int \<Rightarrow> db \<Rightarrow> db" where
  "set_visible_amount bid_id visible d =
     d\<lparr>st_bids := map (\<lambda>b. if bd_id b = bid_id then b\<lparr>bd_visible_amount_minor := Some visible\<rparr> else b)
        (st_bids d)\<rparr>"

definition notify_outbid ::
  "uuid \<Rightarrow> pubky option \<Rightarrow> pubky \<Rightarrow> pubky \<Rightarrow> listing_row \<Rightarrow> int \<Rightarrow> datetime \<Rightarrow> db \<Rightarrow> db" where
  "notify_outbid event_id previous_leader leader actor listing visible now d =
     (case previous_leader of
        None \<Rightarrow> d
      | Some previous \<Rightarrow>
          if previous \<noteq> leader \<and> previous \<noteq> actor
          then insert_notification_intent event_id ''outbid'' previous actor (ls_aggregate_id listing)
                 (Some \<lparr>amount_minor = visible, currency = ls_unit_price_currency listing,
                        exponent = ls_unit_price_exponent listing\<rparr>) now d
          else d)"

text \<open>The part of \<open>place_bid\<close> after its guards.\<close>

definition record_bid ::
  "uuid_source \<Rightarrow> pubky \<Rightarrow> command \<Rightarrow> listing_row \<Rightarrow> auction_state \<Rightarrow> money \<Rightarrow> datetime \<Rightarrow> db
     \<Rightarrow> handler_result tx" where
  "record_bid new_v4 actor command listing auction maximum now d =
     (let bid = \<lparr>bd_id = cmd_command_id command, bd_listing_aggregate_id = ls_aggregate_id listing,
                 bd_bidder_pubky = actor, bd_maximum_amount_minor = amount_minor maximum,
                 bd_currency = currency maximum, bd_exponent = exponent maximum,
                 bd_sequence = au_bid_count auction + 1, bd_created_at = now,
                 bd_visible_amount_minor = None\<rparr>;
          ranked = ranked_bidder_maximums (fetch_bids d (ls_aggregate_id listing) @ [bid]);
          leader = bd_bidder_pubky (hd ranked);
          visible = visible_amount ranked (amount_minor (au_minimum_increment auction))
                      (ls_unit_price_amount_minor listing)
      in seq (insert_bid bid d)
           (\<lambda>_ d1.
              seq (fetch_one (update_listings (\<lambda>l. ls_aggregate_id l = ls_aggregate_id listing)
                     (\<lambda>l. l\<lparr>ls_server_revision := ls_server_revision l + 1,
                            ls_auction := Some (auction_to_value (auction_after_bid auction visible leader now)),
                            ls_updated_at := now\<rparr>)
                     (set_visible_amount (bd_id bid) visible d1)))
                (\<lambda>updated d2.
                   seq (insert_event new_v4 (cmd_command_id command) (ls_aggregate_id listing)
                          (ls_server_revision updated) actor ''auction.bid_placed'' now d2)
                     (\<lambda>event_id d3.
                        Inr (Inr \<lparr>hs_revision = ls_server_revision updated, hs_event_ids = [event_id],
                                  hs_result = ResultBid updated bid\<rparr>,
                             notify_outbid event_id (au_leader_pubky auction) leader actor listing visible
                               now d3)))))"

definition place_bid ::
  "uuid_source \<Rightarrow> pubky \<Rightarrow> command \<Rightarrow> place_bid_payload \<Rightarrow> datetime \<Rightarrow> db \<Rightarrow> handler_result tx" where
  "place_bid new_v4 actor command payload now d =
     (case fetch_live_listing d (cmd_aggregate_id command) of
        None \<Rightarrow> refuse (refused RBidListingNotFound NotFound ''The auction listing is not registered.'') d
      | Some listing \<Rightarrow>
          if ls_seller_pubky listing = actor
          then refuse (refused RBidSellerForbidden Unauthorized ''A seller cannot bid on their own auction.'') d
          else
            (case parse_auction listing of
               None \<Rightarrow> refuse (refused RBidNotAuction InvalidState ''This listing is not an auction.'') d
             | Some auction \<Rightarrow>
                 if fetch_auction_reserve d (cmd_aggregate_id command) = None
                 then refuse (refused RInvariantViolation InvariantViolation
                        ''The auction reserve authority is missing.'') d
                 else if au_status auction \<noteq> ''active''
                 then refuse (refused RAuctionClosed AuctionClosed ''The auction is not open for bidding.'') d
                 else if cmd_expected_revision command \<noteq> ls_server_revision listing
                 then refuse (refused_with_revision RRevisionConflict RevisionConflict
                        ''The auction revision is stale.'' (ls_server_revision listing)) d
                 else if now < au_starts_at auction \<or> au_ends_at auction \<le> now
                 then refuse (refused RAuctionClosed AuctionClosed ''The auction is not open for bidding.'') d
                 else if currency (pb_maximum_amount payload) \<noteq> ls_unit_price_currency listing
                         \<or> exponent (pb_maximum_amount payload) \<noteq> ls_unit_price_exponent listing
                 then refuse (refused RBidWrongAsset InvalidCommand
                        ''Bid maximum must use the auction asset and exponent.'') d
                 else if amount_minor (pb_maximum_amount payload)
                         < personal_minimum_next_bid (amount_minor (au_current_price auction))
                             (amount_minor (au_minimum_increment auction))
                             (bidder_previous_maximum (fetch_bids d (ls_aggregate_id listing)) actor)
                 then refuse (refused_with_revision RBidTooLow BidTooLow
                        ''Bid maximum must meet the current visible price increment and exceed the prior maximum.''
                        (ls_server_revision listing)) d
                 else record_bid new_v4 actor command listing auction (pb_maximum_amount payload) now d))"

section \<open>The reserve\<close>

definition reserve_satisfied ::
  "listing_row \<Rightarrow> auction_state \<Rightarrow> auction_reserve_row \<Rightarrow> db_error + bool" where
  "reserve_satisfied listing auction reserve =
     (if rs_listing_aggregate_id reserve \<noteq> ls_aggregate_id listing
         \<or> rs_listing_revision reserve \<noteq> ls_listing_revision listing
      then Inl (Protocol ''auction reserve revision is inconsistent'')
      else if currency (au_current_price auction) \<noteq> ls_unit_price_currency listing
         \<or> exponent (au_current_price auction) \<noteq> ls_unit_price_exponent listing
         \<or> currency (au_minimum_increment auction) \<noteq> ls_unit_price_currency listing
         \<or> exponent (au_minimum_increment auction) \<noteq> ls_unit_price_exponent listing
      then Inl (Protocol ''auction current-price asset is inconsistent'')
      else
        (case rs_reserve_price reserve of
           None \<Rightarrow> Inr True
         | Some reserve_price \<Rightarrow>
             if currency reserve_price \<noteq> ls_unit_price_currency listing
                \<or> exponent reserve_price \<noteq> ls_unit_price_exponent listing
             then Inl (Protocol ''auction reserve asset is inconsistent'')
             else Inr (amount_minor reserve_price \<le> amount_minor (au_current_price auction))))"

text \<open>\<open>AuctionReserveRow::reserve_met\<close>; \<^const>\<open>None\<close> is \<open>ListingProjectionError\<close>.\<close>

definition reserve_met :: "auction_reserve_row \<Rightarrow> auction_state \<Rightarrow> bool option" where
  "reserve_met reserve auction =
     (case au_leader_pubky auction of
        None \<Rightarrow> Some False
      | Some _ \<Rightarrow>
          (case rs_reserve_price reserve of
             None \<Rightarrow> Some True
           | Some price \<Rightarrow>
               if \<not> same_asset price (au_current_price auction) then None
               else Some (amount_minor price \<le> amount_minor (au_current_price auction))))"

record reserve_view =
  vw_reserve_price :: "money option"
  vw_reserve_met :: bool
  vw_reserve_record_revision :: int
  vw_last_reserve_command_id :: uuid

text \<open>The reserve fields of \<open>projection_for_actor_with_auction\<close>: only the seller's copy has any.\<close>

definition reserve_projection ::
  "listing_row \<Rightarrow> pubky \<Rightarrow> auction_reserve_row option \<Rightarrow> reserve_view option option" where
  "reserve_projection listing actor reserve =
     (if ls_sale_format listing = ''auction'' \<and> actor = ls_seller_pubky listing
      then
        (case (reserve, ls_auction listing) of
           (Some r, Some auction) \<Rightarrow>
             if rs_listing_aggregate_id r \<noteq> ls_aggregate_id listing
                \<or> rs_listing_revision r \<noteq> ls_listing_revision listing then None
             else if currency (au_current_price auction) \<noteq> ls_unit_price_currency listing
                \<or> exponent (au_current_price auction) \<noteq> ls_unit_price_exponent listing
                \<or> currency (au_minimum_increment auction) \<noteq> ls_unit_price_currency listing
                \<or> exponent (au_minimum_increment auction) \<noteq> ls_unit_price_exponent listing then None
             else map_option (\<lambda>met. Some
                    \<lparr>vw_reserve_price = rs_reserve_price r, vw_reserve_met = met,
                     vw_reserve_record_revision = rs_record_revision r,
                     vw_last_reserve_command_id = rs_last_command_id r\<rparr>) (reserve_met r auction)
         | _ \<Rightarrow> None)
      else Some None)"

section \<open>Closing\<close>

text \<open>The rows of a sale: reservation, order and payment, with the order's line at the final price.\<close>

definition winning_reservation :: "listing_row \<Rightarrow> pubky \<Rightarrow> uuid \<Rightarrow> datetime \<Rightarrow> reservation_row" where
  "winning_reservation listing winner command_id now =
     \<lparr>rv_id = command_id, rv_listing_aggregate_id = ls_aggregate_id listing, rv_buyer_pubky = winner,
      rv_quantity = 1, rv_status = ''active'', rv_expires_at = now + seconds AUCTION_HOLD_SECONDS,
      rv_created_at = now, rv_updated_at = now, rv_drop_aggregate_id = None, rv_offer_award_id = None\<rparr>"

definition winning_line :: "listing_row \<Rightarrow> money \<Rightarrow> order_line" where
  "winning_line listing final_price =
     \<lparr>ol_listing_aggregate_id = ls_aggregate_id listing, ol_listing_revision = ls_listing_revision listing,
      ol_content_hash = Some (ls_content_hash listing), ol_title = ls_title listing, ol_quantity = 1,
      ol_unit_price = final_price, ol_subtotal = final_price, ol_version_at_payment = None,
      ol_digital_kind = None,
      ol_fulfillment = None, ol_variant_id = None, ol_variant_options = None, ol_offer = None\<rparr>"

definition winning_order ::
  "listing_row \<Rightarrow> pubky \<Rightarrow> money \<Rightarrow> uuid \<Rightarrow> uuid \<Rightarrow> datetime \<Rightarrow> order_row" where
  "winning_order listing winner final_price order_id payment_id now =
     \<lparr>or_id = order_id, or_auction_aggregate_id = Some (ls_aggregate_id listing), or_drop_aggregate_id = None,
      or_buyer_pubky = winner, or_seller_pubky = ls_seller_pubky listing, or_revision = 1,
      or_state = ''pending_payment'', or_lines = [winning_line listing final_price],
      or_subtotal_minor = amount_minor final_price, or_shipping_minor = ls_shipping_minor listing,
      or_total_minor = wrap_i64 (amount_minor final_price + ls_shipping_minor listing),
      or_currency = currency final_price, or_exponent = exponent final_price,
      or_guarantee_policy_version = 1, or_payment_id = payment_id, or_cancellation_reason = None,
      or_stock_held = False, or_hold_expires_at = None, or_hold_source = None, or_shipment = None,
      or_return_request = None, or_external_refund = None, or_payment_method = None,
      or_paykit_request_state = None, or_paykit_invoice_id = None, or_paykit_stack_id = None,
      or_paykit_stack_endpoint = None, or_paykit_total_sats = None, or_paykit_activation_state = None,
      or_fulfillment = ''shipping'', or_first_revealed_at = None, or_checkout_command_id = None,
      or_delivery_address = None, or_receipt_id = None, or_edition = None, or_digital_delivered_at = None, or_digital_message_delivered_at = None, or_delivery_assumed = False,
      or_payment_reversed_at = None,
      or_offer_award_id = None, or_priced_from = ''listing'', or_created_at = now, or_updated_at = now\<rparr>"

definition winning_payment :: "order_row \<Rightarrow> payment_row" where
  "winning_payment order =
     \<lparr>pm_id = or_payment_id order, pm_order_id = or_id order, pm_buyer_pubky = or_buyer_pubky order,
      pm_seller_pubky = or_seller_pubky order, pm_revision = 1, pm_adapter = ''sandbox'',
      pm_state = ''awaiting_entitlement'', pm_confirmations = 0, pm_amount_minor = or_total_minor order,
      pm_currency = or_currency order, pm_exponent = or_exponent order, pm_merchandise = None,
      pm_manual_review_entered_at = None, pm_review_reason = None, pm_resolution_outcome = None,
      pm_created_at = or_created_at order, pm_updated_at = or_created_at order\<rparr>"

definition create_winning_order ::
  "uuid_source \<Rightarrow> listing_row \<Rightarrow> pubky \<Rightarrow> money \<Rightarrow> pubky \<Rightarrow> uuid \<Rightarrow> uuid \<Rightarrow> datetime \<Rightarrow> db
     \<Rightarrow> (reservation_row \<times> order_row \<times> payment_row \<times> uuid) tx" where
  "create_winning_order new_v4 listing winner final_price actor command_id close_event_id now d =
     (let reservation = winning_reservation listing winner command_id now
      in seq (insert_reservation reservation d)
           (\<lambda>_ d1.
              let (order_id, d2) = draw_uuid new_v4 d1;
                  (payment_id, d3) = draw_uuid new_v4 d2;
                  order = winning_order listing winner final_price order_id payment_id now;
                  payment = winning_payment order
              in seq (insert_order order d3)
                   (\<lambda>_ d4. seq (insert_payment payment d4)
                     (\<lambda>_ d5. seq (insert_event new_v4 command_id (order_aggregate_id order_id) 1 actor
                                    ''order.created'' now d5)
                       (\<lambda>order_event_id d6.
                          Inr ((reservation, order, payment, order_event_id),
                            insert_notification_intent close_event_id ''auction_won'' winner actor
                              (ls_aggregate_id listing) (Some final_price) now d6))))))"

definition other_bidders :: "db \<Rightarrow> string \<Rightarrow> pubky option \<Rightarrow> pubky list" where
  "other_bidders d aggregate_id winner =
     filter (\<lambda>b. winner \<noteq> Some b)
       (sort_by (\<lambda>a b. \<not> str_less b a)
          (remdups (map bd_bidder_pubky (filter (\<lambda>b. bd_listing_aggregate_id b = aggregate_id) (st_bids d)))))"

definition notify_ended :: "uuid \<Rightarrow> pubky \<Rightarrow> string \<Rightarrow> money \<Rightarrow> datetime \<Rightarrow> pubky list \<Rightarrow> db \<Rightarrow> db" where
  "notify_ended close_event_id actor aggregate_id final_price now bidders d =
     foldl (\<lambda>d' bidder. insert_notification_intent close_event_id ''auction_ended'' bidder actor aggregate_id
              (Some final_price) now d') d bidders"

definition auction_winner :: "listing_row \<Rightarrow> auction_state \<Rightarrow> bool \<Rightarrow> pubky option" where
  "auction_winner listing auction satisfied =
     (if satisfied \<and> \<not> is_deleted listing then au_leader_pubky auction else None)"

definition closed_row :: "auction_state \<Rightarrow> bool \<Rightarrow> datetime \<Rightarrow> listing_row \<Rightarrow> listing_row" where
  "closed_row auction sold now l =
     (let delta = if sold then 1 else 0
      in l\<lparr>ls_server_revision := ls_server_revision l + 1,
           ls_state := (if sold then ''reserved'' else ''available''),
           ls_available_quantity := ls_available_quantity l - delta,
           ls_reserved_quantity := ls_reserved_quantity l + delta,
           ls_auction := Some (auction_to_value
              (auction\<lparr>au_status := (if sold then ''sold'' else ''unsold'')\<rparr>)),
           ls_updated_at := now\<rparr>)"

text \<open>\<open>auction->>'status' = 'active'\<close>: no row whose document is null.\<close>

definition stored_active :: "listing_row \<Rightarrow> bool" where
  "stored_active l \<longleftrightarrow> (case ls_auction l of Some a \<Rightarrow> au_status a = ''active'' | None \<Rightarrow> False)"

text \<open>What follows the close event: the sale, when there is a winner, and the notices.\<close>

definition settle_close ::
  "uuid_source \<Rightarrow> listing_row \<Rightarrow> auction_state \<Rightarrow> auction_reserve_row \<Rightarrow> pubky option \<Rightarrow> pubky \<Rightarrow> uuid
     \<Rightarrow> datetime \<Rightarrow> listing_row \<Rightarrow> uuid \<Rightarrow> db \<Rightarrow> auction_close_outcome tx" where
  "settle_close new_v4 listing auction reserve winner actor command_id now updated close_event_id d =
     (let final_price = au_current_price auction;
          finish = \<lambda>reservation order payment event_ids d'.
            Inr (\<lparr>ac_sold = (winner \<noteq> None), ac_winner_pubky = winner, ac_listing = updated,
                  ac_reserve = reserve, ac_reservation = reservation, ac_order = order,
                  ac_payment = payment, ac_event_ids = close_event_id # event_ids\<rparr>,
                 notify_ended close_event_id actor (ls_aggregate_id listing) final_price now
                   (other_bidders d' (ls_aggregate_id listing) winner) d')
      in case winner of
           None \<Rightarrow> finish None None None [] d
         | Some winner_pubky \<Rightarrow>
             seq (create_winning_order new_v4 listing winner_pubky final_price actor command_id
                    close_event_id now d)
               (\<lambda>(reservation, order, payment, order_event_id).
                  finish (Some reservation) (Some order) (Some payment) [order_event_id]))"

definition close_with_reserve ::
  "uuid_source \<Rightarrow> listing_row \<Rightarrow> auction_state \<Rightarrow> auction_reserve_row \<Rightarrow> bool \<Rightarrow> pubky \<Rightarrow> uuid \<Rightarrow> datetime \<Rightarrow> db
     \<Rightarrow> auction_close_outcome tx" where
  "close_with_reserve new_v4 listing auction reserve satisfied actor command_id now d =
     (let winner = auction_winner listing auction satisfied;
          sold = (winner \<noteq> None)
      in seq (fetch_one (update_listings
                (\<lambda>l. ls_aggregate_id l = ls_aggregate_id listing \<and> stored_active l)
                (closed_row auction sold now) d))
           (\<lambda>updated d1.
              seq (insert_event new_v4 command_id (ls_aggregate_id listing) (ls_server_revision updated) actor
                     (if sold then ''auction.closed_sold'' else ''auction.closed_unsold'') now d1)
                (\<lambda>close_event_id d2.
                   settle_close new_v4 listing auction reserve winner actor command_id now updated
                     close_event_id d2)))"

definition close_locked_auction ::
  "uuid_source \<Rightarrow> listing_row \<Rightarrow> auction_state \<Rightarrow> pubky \<Rightarrow> uuid \<Rightarrow> datetime \<Rightarrow> db \<Rightarrow> auction_close_outcome tx" where
  "close_locked_auction new_v4 listing auction actor command_id now d =
     (case fetch_auction_reserve d (ls_aggregate_id listing) of
        None \<Rightarrow> Inl (Protocol ''auction reserve authority is missing'')
      | Some reserve \<Rightarrow>
          (case reserve_satisfied listing auction reserve of
             Inl e \<Rightarrow> Inl e
           | Inr satisfied \<Rightarrow>
               close_with_reserve new_v4 listing auction reserve satisfied actor command_id now d))"

text \<open>\<open>close\<close>, the seller's command; the result's projection may fail.\<close>

definition close_auction :: "uuid_source \<Rightarrow> pubky \<Rightarrow> command \<Rightarrow> datetime \<Rightarrow> db \<Rightarrow> handler_result tx" where
  "close_auction new_v4 actor command now d =
     (case fetch_listing d (cmd_aggregate_id command) of
        None \<Rightarrow> refuse (refused RNotFound NotFound ''The auction listing is not registered.'') d
      | Some listing \<Rightarrow>
          if ls_seller_pubky listing \<noteq> actor
          then refuse (refused RUnauthorized Unauthorized ''Only the seller may close this sandbox auction.'') d
          else
            (case parse_auction listing of
               None \<Rightarrow> refuse (refused RInvalidState InvalidState ''The auction is not active.'') d
             | Some auction \<Rightarrow>
                 if au_status auction \<noteq> ''active''
                 then refuse (refused RInvalidState InvalidState ''The auction is not active.'') d
                 else if cmd_expected_revision command \<noteq> ls_server_revision listing
                 then refuse (refused_with_revision RRevisionConflict RevisionConflict
                        ''The auction revision is stale.'' (ls_server_revision listing)) d
                 else if now < au_ends_at auction
                 then refuse (refused RAuctionClosed AuctionClosed ''The auction has not ended yet.'') d
                 else
                   seq (close_locked_auction new_v4 listing auction actor (cmd_command_id command) now d)
                     (\<lambda>outcome d1.
                        case reserve_projection (ac_listing outcome) actor (Some (ac_reserve outcome)) of
                          None \<Rightarrow> Inl (Protocol ''stored auction projection state is inconsistent'')
                        | Some _ \<Rightarrow>
                            Inr (Inr \<lparr>hs_revision = ls_server_revision (ac_listing outcome),
                                      hs_event_ids = ac_event_ids outcome,
                                      hs_result = ResultAuction outcome\<rparr>, d1))))"

section \<open>The worker\<close>

definition AUCTION_CLOSE_BATCH_SIZE :: nat where
  "AUCTION_CLOSE_BATCH_SIZE = 100"

record auction_close_batch_summary =
  cs_closed :: nat
  cs_failed :: nat

definition is_due_auction :: "datetime \<Rightarrow> listing_row \<Rightarrow> bool" where
  "is_due_auction now l \<longleftrightarrow>
     ls_sale_format l = ''auction''
     \<and> (case ls_auction l of Some a \<Rightarrow> au_status a = ''active'' \<and> au_ends_at a \<le> now | None \<Rightarrow> False)"

definition ends_before :: "listing_row \<Rightarrow> listing_row \<Rightarrow> bool" where
  "ends_before x y \<longleftrightarrow>
     (let a = au_ends_at (the (ls_auction x)); b = au_ends_at (the (ls_auction y))
      in a < b \<or> a = b \<and> \<not> str_less (ls_aggregate_id y) (ls_aggregate_id x))"

definition due_auctions :: "db \<Rightarrow> datetime \<Rightarrow> string list" where
  "due_auctions d now =
     map ls_aggregate_id
       (take AUCTION_CLOSE_BATCH_SIZE (sort_by ends_before (filter (is_due_auction now) (st_listings d))))"

text \<open>\<open>close_one_due_auction\<close>: \<open>None\<close> when the auction is not due any more.\<close>

definition close_one_due_auction :: "uuid_source \<Rightarrow> datetime \<Rightarrow> string \<Rightarrow> db \<Rightarrow> bool option tx" where
  "close_one_due_auction new_v4 now aggregate_id d =
     (case fetch_listing d aggregate_id of
        None \<Rightarrow> Inr (None, d)
      | Some listing \<Rightarrow>
          if ls_sale_format listing \<noteq> ''auction'' \<or> \<not> stored_active listing then Inr (None, d)
          else
            (case parse_auction listing of
               None \<Rightarrow> Inl (Protocol ''stored auction state is invalid'')
             | Some auction \<Rightarrow>
                 if now < au_ends_at auction then Inr (None, d)
                 else
                   let (command_id, d1) = draw_uuid new_v4 d
                   in seq (close_locked_auction new_v4 listing auction (ls_seller_pubky listing) command_id now d1)
                        (\<lambda>outcome d2. Inr (Some (ac_sold outcome), d2))))"

text \<open>Each auction has its own transaction: an error leaves the database as it was.\<close>

fun close_auctions ::
  "uuid_source \<Rightarrow> datetime \<Rightarrow> string list \<Rightarrow> auction_close_batch_summary \<Rightarrow> db
     \<Rightarrow> auction_close_batch_summary \<times> db" where
  "close_auctions new_v4 now [] summary d = (summary, d)"
| "close_auctions new_v4 now (a # rest) summary d =
     (case close_one_due_auction new_v4 now a d of
        Inr (Some _, d') \<Rightarrow> close_auctions new_v4 now rest (summary\<lparr>cs_closed := cs_closed summary + 1\<rparr>) d'
      | Inr (None, d') \<Rightarrow> close_auctions new_v4 now rest summary d'
      | Inl _ \<Rightarrow> close_auctions new_v4 now rest (summary\<lparr>cs_failed := cs_failed summary + 1\<rparr>) d)"

definition close_due_auctions :: "uuid_source \<Rightarrow> datetime \<Rightarrow> db \<Rightarrow> auction_close_batch_summary \<times> db" where
  "close_due_auctions new_v4 now d =
     close_auctions new_v4 now (due_auctions d now) \<lparr>cs_closed = 0, cs_failed = 0\<rparr> d"

end
