(* ===== verification/Records.thy ===== *)
theory Records
  imports Store
begin

text \<open>
  The seller-signed records the service reads from a homeserver, and the guard that keeps an auction's
  reserve out of public documents: \<^verbatim>\<open>homeserver.rs\<close> (the event stream, the award terms of a listing
  record, the registration payload derived from it, the drop record) and \<^verbatim>\<open>reserve_secrecy.rs\<close>.
  \<open>serde_json\<close> is a parameter where bytes become a value; typed records (\<open>ListingRecord\<close>, \<open>DropRecord\<close>)
  start from the decoded structure, as the commands do in \<open>Validation\<close>.
\<close>

section \<open>Reading JSON\<close>

definition as_str :: "json \<Rightarrow> string option" where
  "as_str v = (case v of JString s \<Rightarrow> Some s | _ \<Rightarrow> None)"

definition as_i64 :: "json \<Rightarrow> int option" where
  "as_i64 v = (case v of JInt i \<Rightarrow> if in_range i64_min i64_max i then Some i else None | _ \<Rightarrow> None)"

definition as_bool :: "json \<Rightarrow> bool option" where
  "as_bool v = (case v of JBool b \<Rightarrow> Some b | _ \<Rightarrow> None)"

definition as_array :: "json \<Rightarrow> json list option" where
  "as_array v = (case v of JArray vs \<Rightarrow> Some vs | _ \<Rightarrow> None)"

definition as_object :: "json \<Rightarrow> (string \<times> json) list option" where
  "as_object v = (case v of JObject kvs \<Rightarrow> Some kvs | _ \<Rightarrow> None)"

text \<open>\<open>Value::get\<close>: nothing for a value that is no object.\<close>

definition json_get :: "json \<Rightarrow> string \<Rightarrow> json option" where
  "json_get v k = Option.bind (as_object v) (\<lambda>object. map_of object k)"

text \<open>\<open>Option::ok_or\<close>, the operator \<open>?\<close> and \<open>collect::<Result<Vec<_>, _>>\<close>.\<close>

definition ok_or :: "'e \<Rightarrow> 'a option \<Rightarrow> 'e + 'a" where
  "ok_or e x = (case x of None \<Rightarrow> Inl e | Some y \<Rightarrow> Inr y)"

definition or_return :: "'e + 'a \<Rightarrow> ('a \<Rightarrow> 'e + 'b) \<Rightarrow> 'e + 'b" where
  "or_return r f = (case r of Inl e \<Rightarrow> Inl e | Inr x \<Rightarrow> f x)"

fun collect_results :: "('e + 'a) list \<Rightarrow> 'e + 'a list" where
  "collect_results [] = Inr []"
| "collect_results (r # rs) = or_return r (\<lambda>x. or_return (collect_results rs) (\<lambda>xs. Inr (x # xs)))"

section \<open>Reserve secrecy\<close>

definition FORBIDDEN_RESERVE_KEYS :: "string list" where
  "FORBIDDEN_RESERVE_KEYS = [''reserve_price'', ''reservePrice'', ''reserve_met'', ''reserveMet'']"

definition SELLER_ONLY_RESERVE_METADATA_KEYS :: "string list" where
  "SELLER_ONLY_RESERVE_METADATA_KEYS = [''reserve_record_revision'', ''last_reserve_command_id'']"

definition is_reserve_audience_key :: "string \<Rightarrow> bool" where
  "is_reserve_audience_key key \<longleftrightarrow>
     List.member FORBIDDEN_RESERVE_KEYS key \<or> List.member SELLER_ONLY_RESERVE_METADATA_KEYS key"

datatype forbidden_reserve_key = ForbiddenReserveKey

text \<open>The two guards walk the value in the order of its members and stop at the first refusal.\<close>

fun ensure_reserve_free :: "json \<Rightarrow> forbidden_reserve_key + unit"
  and reserve_free_members :: "(string \<times> json) list \<Rightarrow> forbidden_reserve_key + unit"
  and reserve_free_values :: "json list \<Rightarrow> forbidden_reserve_key + unit" where
  "ensure_reserve_free (JObject object) = reserve_free_members object"
| "ensure_reserve_free (JArray values) = reserve_free_values values"
| "ensure_reserve_free _ = Inr ()"
| "reserve_free_members [] = Inr ()"
| "reserve_free_members ((key, v) # object) =
     (if is_reserve_audience_key key then Inl ForbiddenReserveKey
      else or_return (ensure_reserve_free v) (\<lambda>_. reserve_free_members object))"
| "reserve_free_values [] = Inr ()"
| "reserve_free_values (v # values) = or_return (ensure_reserve_free v) (\<lambda>_. reserve_free_values values)"

definition seller_reserve_key :: "string \<Rightarrow> bool" where
  "seller_reserve_key key \<longleftrightarrow>
     List.member [''reserve_price'', ''reserve_met'', ''reserve_record_revision'', ''last_reserve_command_id''] key"

definition seller_object :: "string \<Rightarrow> (string \<times> json) list \<Rightarrow> bool" where
  "seller_object actor object \<longleftrightarrow> Option.bind (map_of object ''seller_pubky'') as_str = Some actor"

fun ensure_actor_reserve_audience :: "json \<Rightarrow> string \<Rightarrow> forbidden_reserve_key + unit"
  and audience_members :: "bool \<Rightarrow> (string \<times> json) list \<Rightarrow> string \<Rightarrow> forbidden_reserve_key + unit"
  and audience_values :: "json list \<Rightarrow> string \<Rightarrow> forbidden_reserve_key + unit" where
  "ensure_actor_reserve_audience (JObject object) actor = audience_members (seller_object actor object) object actor"
| "ensure_actor_reserve_audience (JArray values) actor = audience_values values actor"
| "ensure_actor_reserve_audience _ actor = Inr ()"
| "audience_members seller [] actor = Inr ()"
| "audience_members seller ((key, v) # object) actor =
     (if is_reserve_audience_key key \<and> \<not> (seller \<and> seller_reserve_key key) then Inl ForbiddenReserveKey
      else or_return (ensure_actor_reserve_audience v actor) (\<lambda>_. audience_members seller object actor))"
| "audience_values [] actor = Inr ()"
| "audience_values (v # values) actor =
     or_return (ensure_actor_reserve_audience v actor) (\<lambda>_. audience_values values actor)"

definition internal_envelope :: json where
  "internal_envelope =
     JObject [(''ok'', JBool False),
       (''error'', JObject [(''code'', JString ''INTERNAL''),
          (''message'', JString ''The command could not be processed.'')])]"

definition guard_command_result :: "string \<Rightarrow> json \<Rightarrow> json + json" where
  "guard_command_result actor body =
     (case ensure_actor_reserve_audience body actor of Inl _ \<Rightarrow> Inl internal_envelope | Inr _ \<Rightarrow> Inr body)"

text \<open>\<open>HomeserverFetchOutcome\<close>; a raw fetch may also exceed the size limit.\<close>

datatype 'r fetch_outcome = Found 'r | RecordNotFound | Unavailable

datatype raw_fetch_outcome = RawFound string | RawNotFound | RawTooLarge | RawUnavailable

section \<open>The event stream\<close>

datatype homeserver_event_kind = Put | Del

record homeserver_event =
  hv_kind :: homeserver_event_kind
  hv_uri :: string
  hv_cursor :: string

text \<open>\<open>str::lines\<close>: pieces that end with a line feed, which is dropped with a carriage return before it.\<close>

fun split_inclusive :: "string \<Rightarrow> string list" where
  "split_inclusive [] = []"
| "split_inclusive (c # cs) =
     (if c = CHR 0x0A then [c] # split_inclusive cs
      else case split_inclusive cs of [] \<Rightarrow> [[c]] | l # ls \<Rightarrow> (c # l) # ls)"

definition strip_line_end :: "string \<Rightarrow> string" where
  "strip_line_end l =
     (case strip_suffix [CHR 0x0A] l of
        None \<Rightarrow> l
      | Some l1 \<Rightarrow> (case strip_suffix [CHR 0x0D] l1 of None \<Rightarrow> l1 | Some l2 \<Rightarrow> l2))"

definition str_lines :: "string \<Rightarrow> string list" where
  "str_lines s = map strip_line_end (split_inclusive s)"

record event_fields =
  ef_kind :: "homeserver_event_kind option"
  ef_uri :: "string option"
  ef_cursor :: "string option"

definition no_fields :: event_fields where
  "no_fields = \<lparr>ef_kind = None, ef_uri = None, ef_cursor = None\<rparr>"

definition finish_event :: "event_fields \<Rightarrow> homeserver_event list \<Rightarrow> homeserver_event list option" where
  "finish_event f events =
     (case (ef_kind f, ef_uri f, ef_cursor f) of
        (None, None, None) \<Rightarrow> Some events
      | (Some k, Some u, Some c) \<Rightarrow> Some (events @ [\<lparr>hv_kind = k, hv_uri = u, hv_cursor = c\<rparr>])
      | _ \<Rightarrow> None)"

definition event_kind_of :: "string \<Rightarrow> homeserver_event_kind option" where
  "event_kind_of name = (if name = ''PUT'' then Some Put else if name = ''DEL'' then Some Del else None)"

text \<open>One line that is not empty: the fields after it, or a rejected batch.\<close>

definition read_data :: "string \<Rightarrow> event_fields \<Rightarrow> event_fields option" where
  "read_data data f =
     (case strip_prefix ''cursor: '' data of
        Some v \<Rightarrow> if ef_cursor f \<noteq> None \<or> \<not> is_cursor v then None else Some (f\<lparr>ef_cursor := Some v\<rparr>)
      | None \<Rightarrow>
          if strip_prefix ''pubky://'' data \<noteq> None
          then (if ef_uri f \<noteq> None then None else Some (f\<lparr>ef_uri := Some data\<rparr>))
          else if strip_prefix ''content_hash: '' data = None then None
          else Some f)"

definition read_line :: "string \<Rightarrow> event_fields \<Rightarrow> event_fields option" where
  "read_line line f =
     (if take 1 line = '':'' then Some f
      else case strip_prefix ''event: '' line of
        Some name \<Rightarrow>
          if ef_kind f \<noteq> None then None
          else map_option (\<lambda>k. f\<lparr>ef_kind := Some k\<rparr>) (event_kind_of name)
      | None \<Rightarrow>
          (case strip_prefix ''data: '' line of
             Some data \<Rightarrow> read_data data f
           | None \<Rightarrow> None))"

fun read_lines :: "string list \<Rightarrow> event_fields \<Rightarrow> homeserver_event list \<Rightarrow> homeserver_event list option" where
  "read_lines [] f events = finish_event f events"
| "read_lines (line # lines) f events =
     (if line = [] then Option.bind (finish_event f events) (read_lines lines no_fields)
      else Option.bind (read_line line f) (\<lambda>f'. read_lines lines f' events))"

definition parse_event_stream :: "string \<Rightarrow> homeserver_event list option" where
  "parse_event_stream body = read_lines (str_lines body) no_fields []"

section \<open>Award terms\<close>

definition MAX_AWARD_LISTING_BYTES :: nat where
  "MAX_AWARD_LISTING_BYTES = 1048576"

record award_variant_snapshot =
  va_id :: string
  va_sku :: "string option"
  va_options :: "variant_option list"
  va_quantity :: int
  va_price :: "money option"

record award_listing_snapshot =
  al_raw_sha256 :: string
  al_revision :: int
  al_title :: string
  al_currency :: string
  al_exponent :: int
  al_shipping_minor :: int
  al_fulfillment_methods :: "string list"
  al_variants :: "award_variant_snapshot list"

definition filter_option :: "('a \<Rightarrow> bool) \<Rightarrow> 'a option \<Rightarrow> 'a option" where
  "filter_option P x = Option.bind x (\<lambda>y. if P y then Some y else None)"

definition some_strings :: "json list \<Rightarrow> string list" where
  "some_strings vs = map the (filter (\<lambda>x. x \<noteq> None) (map as_str vs))"

definition array_member :: "(string \<times> json) list \<Rightarrow> string \<Rightarrow> json list" where
  "array_member object key = (case Option.bind (map_of object key) as_array of None \<Rightarrow> [] | Some vs \<Rightarrow> vs)"

definition record_physical_fulfillment_methods :: "(string \<times> json) list \<Rightarrow> string list" where
  "record_physical_fulfillment_methods object =
     (let methods = foldl (\<lambda>seen method. if List.member [''shipping'', ''pickup''] method \<and> \<not> List.member seen method
            then seen @ [method] else seen) [] (some_strings (array_member object ''fulfillmentMethods''))
      in if methods = [] then [''shipping''] else methods)"

definition record_money :: "json \<Rightarrow> string + money" where
  "record_money v =
     or_return (ok_or ''invalid money'' (as_object v))
       (\<lambda>object.
          if \<not> list_all (\<lambda>(key, _). List.member [''amountMinor'', ''currency'', ''exponent''] key) object
          then Inl ''unknown money shape''
          else
            or_return (ok_or ''invalid money amount'' (Option.bind (map_of object ''amountMinor'') as_i64))
              (\<lambda>amount.
                 or_return (ok_or ''invalid money currency'' (Option.bind (map_of object ''currency'') as_str))
                   (\<lambda>curr.
                      or_return (ok_or ''invalid money exponent'' (Option.bind (map_of object ''exponent'') as_i64))
                        (\<lambda>expo.
                           if amount \<le> 0 \<or> \<not> in_range 0 18 expo \<or> curr = [] then Inl ''invalid money''
                           else Inr \<lparr>amount_minor = amount, currency = curr, exponent = expo\<rparr>))))"

definition nonempty_str :: "(string \<times> json) list \<Rightarrow> string \<Rightarrow> string option" where
  "nonempty_str object key = filter_option (\<lambda>s. s \<noteq> []) (Option.bind (map_of object key) as_str)"

definition award_option :: "json \<Rightarrow> string + variant_option" where
  "award_option option =
     or_return (ok_or ''invalid variant option'' (as_object option))
       (\<lambda>object.
          or_return (ok_or ''invalid variant option name'' (nonempty_str object ''name''))
            (\<lambda>name.
               or_return (ok_or ''invalid variant option value'' (nonempty_str object ''value''))
                 (\<lambda>val. Inr \<lparr>vo_name = name, vo_value = val\<rparr>)))"

definition option_before :: "variant_option \<Rightarrow> variant_option \<Rightarrow> bool" where
  "option_before a b \<longleftrightarrow>
     str_less (vo_name a) (vo_name b) \<or> vo_name a = vo_name b \<and> \<not> str_less (vo_value b) (vo_value a)"

text \<open>A member that may be absent or null, else must decode.\<close>

definition optional_member :: "(string \<times> json) list \<Rightarrow> string \<Rightarrow> (json \<Rightarrow> string + 'a) \<Rightarrow> string + 'a option" where
  "optional_member object key decode =
     (case map_of object key of
        None \<Rightarrow> Inr None
      | Some JNull \<Rightarrow> Inr None
      | Some v \<Rightarrow> or_return (decode v) (\<lambda>x. Inr (Some x)))"

definition award_variant :: "json \<Rightarrow> string + award_variant_snapshot" where
  "award_variant variant =
     or_return (ok_or ''invalid variant'' (as_object variant))
       (\<lambda>object.
          if Option.bind (map_of object ''enabled'') as_bool \<noteq> Some True then Inl ''selected variant disabled''
          else
            or_return (ok_or ''invalid variant id'' (nonempty_str object ''id''))
              (\<lambda>id'.
                 or_return (ok_or ''invalid variant quantity''
                     (filter_option (\<lambda>q. 0 < q) (Option.bind (map_of object ''quantity'') as_i64)))
                   (\<lambda>quantity.
                      or_return (collect_results (map award_option (array_member object ''options'')))
                        (\<lambda>options.
                           if 100 < length options then Inl ''too many variant options''
                           else
                             or_return (optional_member object ''sku''
                                 (\<lambda>v. ok_or ''invalid variant sku'' (filter_option (\<lambda>s. s \<noteq> []) (as_str v))))
                               (\<lambda>sku.
                                  or_return (optional_member object ''priceOverride'' record_money)
                                    (\<lambda>price.
                                       Inr \<lparr>va_id = id', va_sku = sku, va_options = sort_by option_before options,
                                            va_quantity = quantity, va_price = price\<rparr>))))))"

definition variant_id_is :: "string \<Rightarrow> json \<Rightarrow> bool" where
  "variant_id_is k variant \<longleftrightarrow> Option.bind (json_get variant ''id'') as_str = Some k"

definition variant_enabled :: "json \<Rightarrow> bool" where
  "variant_enabled variant \<longleftrightarrow> Option.bind (json_get variant ''enabled'') as_bool = Some True"

definition check_selected :: "string option \<Rightarrow> json list \<Rightarrow> string + unit" where
  "check_selected selected raw_variants =
     (case selected of
        None \<Rightarrow> Inr ()
      | Some k \<Rightarrow>
          or_return (ok_or ''selected variant missing'' (find (variant_id_is k) raw_variants))
            (\<lambda>variant. if variant_enabled variant then Inr () else Inl ''selected variant disabled''))"

definition award_variants :: "string option \<Rightarrow> json list \<Rightarrow> money \<Rightarrow> string + award_variant_snapshot list" where
  "award_variants selected raw_variants unit_price =
     or_return (check_selected selected raw_variants)
       (\<lambda>_. or_return (collect_results (map award_variant (filter
               (\<lambda>variant. variant_enabled variant
                  \<and> (case selected of None \<Rightarrow> True | Some k \<Rightarrow> variant_id_is k variant)) raw_variants)))
          (\<lambda>variants.
             if variants = [] \<or> \<not> distinct (map va_id variants) then Inl ''invalid enabled variants''
             else if list_ex (\<lambda>v. case va_price v of None \<Rightarrow> False
                    | Some price \<Rightarrow> currency price \<noteq> currency unit_price \<or> exponent price \<noteq> exponent unit_price) variants
             then Inl ''variant money mismatch''
             else Inr variants))"

definition shipping_option_price :: "money \<Rightarrow> json \<Rightarrow> string + int" where
  "shipping_option_price unit_price option =
     or_return (ok_or ''invalid shipping option'' (as_object option))
       (\<lambda>object.
          case Option.bind (map_of object ''pricing'') as_str of
            None \<Rightarrow> Inl ''unpriceable shipping''
          | Some pricing \<Rightarrow>
              if pricing = ''free'' then Inr 0
              else if pricing = ''flat''
              then or_return (or_return (ok_or ''missing shipping price'' (map_of object ''price'')) record_money)
                     (\<lambda>price.
                        if currency price \<noteq> currency unit_price \<or> exponent price \<noteq> exponent unit_price
                        then Inl ''shipping money mismatch'' else Inr (amount_minor price))
              else Inl ''unpriceable shipping'')"

definition award_shipping :: "(string \<times> json) list \<Rightarrow> string list \<Rightarrow> money \<Rightarrow> string + int" where
  "award_shipping object methods unit_price =
     (if \<not> List.member methods ''shipping'' then Inr 0
      else case map_of object ''shippingOptions'' of
        None \<Rightarrow> Inr 0
      | Some v \<Rightarrow>
          or_return (ok_or ''invalid shipping options'' (as_array v))
            (\<lambda>options.
               if options = [] then Inl ''unpriceable shipping''
               else or_return (collect_results (map (shipping_option_price unit_price) options))
                      (\<lambda>prices. Inr (fold min prices (hd prices)))))"

text \<open>The terms of a decoded record; the digest of the bytes is the caller's.\<close>

definition award_terms_of :: "string \<Rightarrow> string option \<Rightarrow> json \<Rightarrow> string + award_listing_snapshot" where
  "award_terms_of digest selected v =
     or_return (ok_or ''record is not an object'' (as_object v))
       (\<lambda>object.
          or_return (ok_or ''invalid revision''
              (filter_option (\<lambda>r. 0 < r) (Option.bind (map_of object ''revision'') as_i64)))
            (\<lambda>revision.
               or_return (ok_or ''missing sale'' (Option.bind (map_of object ''sale'') as_object))
                 (\<lambda>sale.
                    if Option.bind (map_of sale ''format'') as_str \<noteq> Some ''fixed_price''
                    then Inl ''offer requires fixed-price listing''
                    else
                      or_return (or_return (ok_or ''missing unit price'' (map_of sale ''unitPrice'')) record_money)
                        (\<lambda>unit_price.
                           or_return (ok_or ''missing variants'' (Option.bind (map_of object ''variants'') as_array))
                             (\<lambda>raw_variants.
                                or_return (award_variants selected raw_variants unit_price)
                                  (\<lambda>variants.
                                     let methods = record_physical_fulfillment_methods object
                                     in or_return (award_shipping object methods unit_price)
                                          (\<lambda>shipping.
                                             Inr \<lparr>al_raw_sha256 = digest, al_revision = revision,
                                               al_title = (case filter_option (\<lambda>t. trim t \<noteq> [])
                                                   (Option.bind (map_of object ''title'') as_str) of
                                                 None \<Rightarrow> ''Marketplace item'' | Some t \<Rightarrow> t),
                                               al_currency = currency unit_price,
                                               al_exponent = exponent unit_price, al_shipping_minor = shipping,
                                               al_fulfillment_methods = methods, al_variants = variants\<rparr>)))))))"

text \<open>\<open>serde_json::from_slice\<close> and the SHA-256 of the bytes, which the source takes from its libraries.\<close>

record record_codec =
  cd_from_slice :: "string \<Rightarrow> json option"
  cd_sha256_hex :: "string \<Rightarrow> string"

definition award_terms_from_bytes_for_variant ::
  "record_codec \<Rightarrow> string \<Rightarrow> string option \<Rightarrow> string + award_listing_snapshot" where
  "award_terms_from_bytes_for_variant codec bytes selected =
     (if MAX_AWARD_LISTING_BYTES < length bytes then Inl ''record exceeds size limit''
      else or_return (ok_or ''record is not JSON'' (cd_from_slice codec bytes))
             (award_terms_of (cd_sha256_hex codec bytes) selected))"

definition award_terms_from_bytes :: "record_codec \<Rightarrow> string \<Rightarrow> string + award_listing_snapshot" where
  "award_terms_from_bytes codec bytes = award_terms_from_bytes_for_variant codec bytes None"

section \<open>The registration a listing record derives\<close>

record record_sale =
  sa_format :: string
  sa_unit_price :: "money option"
  sa_starting_price :: "money option"
  sa_starts_at :: "datetime option"
  sa_ends_at :: "datetime option"
  sa_minimum_increment :: "money option"
  sa_anti_sniping_window_seconds :: "int option"
  sa_anti_sniping_extension_seconds :: "int option"

record record_shipping_option =
  so_pricing :: string
  so_price :: "money option"

text \<open>\<open>ListingRecord\<close>: of a media entry the content hash, of a variant the quantity; of the lock the policy
  and the criterion as the record has them.\<close>

record listing_record =
  lr_record_type :: string
  lr_schema_version :: int
  lr_owner_pubky :: pubky
  lr_listing_id :: string
  lr_title :: "string option"
  lr_revision :: int
  lr_media :: "string option list"
  lr_variants :: "int list"
  lr_shipping_options :: "record_shipping_option list"
  lr_sale :: record_sale
  lr_fulfillment_methods :: "string list"
  lr_digital_lock :: "digital_lock_metadata option"

datatype malformed_digital_lock = MalformedDigitalLock

definition option_price :: "string \<Rightarrow> record_shipping_option \<Rightarrow> int option" where
  "option_price listing_currency option =
     (if so_pricing option = ''free'' then Some 0
      else if so_pricing option = ''flat''
      then map_option amount_minor
             (filter_option (\<lambda>price. currency price = listing_currency \<and> 0 \<le> amount_minor price) (so_price option))
      else None)"

definition shipping_minor_from_options :: "record_shipping_option list \<Rightarrow> string \<Rightarrow> int" where
  "shipping_minor_from_options options listing_currency =
     (case map the (filter (\<lambda>x. x \<noteq> None) (map (option_price listing_currency) options)) of
        [] \<Rightarrow> 0
      | p # ps \<Rightarrow> fold min ps p)"

definition record_publishes_physical_fulfillment :: "json \<Rightarrow> bool" where
  "record_publishes_physical_fulfillment v =
     (let methods = (case Option.bind (json_get v ''fulfillmentMethods'') as_array of
          None \<Rightarrow> [] | Some vs \<Rightarrow> some_strings vs)
      in list_ex (\<lambda>m. m = ''shipping'' \<or> m = ''pickup'') methods \<or> \<not> List.member methods ''digital'')"

definition method_of_record :: "bool \<Rightarrow> string \<Rightarrow> fulfillment_method option" where
  "method_of_record locks_listing name =
     (if name = ''shipping'' then Some Shipping
      else if name = ''pickup'' then Some Pickup
      else if name = ''digital'' \<and> \<not> locks_listing then Some Digital
      else None)"

text \<open>\<open>retain(|m| seen.insert(m))\<close>: the first occurrences, in order.\<close>

fun retain_first :: "'a list \<Rightarrow> 'a list \<Rightarrow> 'a list" where
  "retain_first seen [] = []"
| "retain_first seen (x # xs) =
     (if List.member seen x then retain_first seen xs else x # retain_first (x # seen) xs)"

definition record_methods :: "listing_record \<Rightarrow> fulfillment_method list" where
  "record_methods r =
     (let methods = retain_first [] (map the (filter (\<lambda>x. x \<noteq> None)
            (map (method_of_record (lr_digital_lock r \<noteq> None)) (lr_fulfillment_methods r))))
      in if methods = [] then default_fulfillment_methods else methods)"

definition record_sale_format :: "string \<Rightarrow> sale_format option" where
  "record_sale_format name =
     (if name = ''fixed_price'' then Some FixedPrice else if name = ''auction'' then Some Auction else None)"

definition record_auction_terms :: "record_sale \<Rightarrow> auction_terms option" where
  "record_auction_terms sale =
     (case (sa_starts_at sale, sa_ends_at sale, sa_minimum_increment sale, sa_anti_sniping_window_seconds sale,
            sa_anti_sniping_extension_seconds sale) of
        (Some starts_at, Some ends_at, Some minimum_increment, Some window, Some extension) \<Rightarrow>
          Some \<lparr>at_starts_at = starts_at, at_ends_at = ends_at, at_minimum_increment = minimum_increment,
            at_anti_sniping_window_seconds = window, at_anti_sniping_extension_seconds = extension\<rparr>
      | _ \<Rightarrow> None)"

definition record_digital_lock ::
  "externals \<Rightarrow> digital_lock_metadata option \<Rightarrow> malformed_digital_lock + digital_lock_metadata option" where
  "record_digital_lock ext lock =
     (case lock of
        None \<Rightarrow> Inr None
      | Some l \<Rightarrow>
          (case canonical_lock_resource ext (dl_policy_uri l) of
             Some policy_uri \<Rightarrow>
               if is_valid_entity_id (dl_criterion_id l)
               then Inr (Some \<lparr>dl_policy_uri = policy_uri, dl_criterion_id = dl_criterion_id l\<rparr>)
               else Inl MalformedDigitalLock
           | None \<Rightarrow> Inl MalformedDigitalLock))"

text \<open>The payload of a listing record; \<open>decode\<close> is \<open>serde_json::from_value::<ListingRecord>\<close>.\<close>

definition registration_payload ::
  "externals \<Rightarrow> pubky \<Rightarrow> string \<Rightarrow> listing_record \<Rightarrow> malformed_digital_lock + register_listing_payload option" where
  "registration_payload ext seller_pubky listing_id r =
     (if lr_record_type r \<noteq> ''listing'' \<or> lr_schema_version r \<noteq> 1 \<or> lr_owner_pubky r \<noteq> seller_pubky
         \<or> lr_listing_id r \<noteq> listing_id
      then Inr None
      else case record_sale_format (sa_format (lr_sale r)) of
        None \<Rightarrow> Inr None
      | Some sale_format \<Rightarrow>
          (case (if sale_format = FixedPrice then sa_unit_price (lr_sale r) else sa_starting_price (lr_sale r)) of
             None \<Rightarrow> Inr None
           | Some unit_price \<Rightarrow>
               let auction_terms = (if sale_format = Auction then record_auction_terms (lr_sale r) else None)
               in if sale_format = Auction \<and> auction_terms = None then Inr None
                  else
                    or_return (record_digital_lock ext (lr_digital_lock r))
                      (\<lambda>digital_lock.
                         Inr (Some \<lparr>rl_seller_pubky = seller_pubky, rl_listing_id = listing_id,
                           rl_title = (case filter_option (\<lambda>t. trim t \<noteq> []) (lr_title r) of
                             None \<Rightarrow> ''Marketplace item'' | Some t \<Rightarrow> t),
                           rl_listing_revision = lr_revision r,
                           rl_content_hash = (case lr_media r of Some h # _ \<Rightarrow> h | _ \<Rightarrow> []),
                           rl_quantity = sum_i64 (lr_variants r), rl_unit_price = unit_price,
                           rl_shipping_minor =
                             shipping_minor_from_options (lr_shipping_options r) (currency unit_price),
                           rl_sale_format = sale_format, rl_auction_terms = auction_terms, rl_auction_reserve = None,
                           rl_fulfillment_methods = record_methods r, rl_digital_lock = digital_lock\<rparr>))))"

definition registration_payload_from_record ::
  "externals \<Rightarrow> (json \<Rightarrow> listing_record option) \<Rightarrow> pubky \<Rightarrow> string \<Rightarrow> json
     \<Rightarrow> malformed_digital_lock + register_listing_payload option" where
  "registration_payload_from_record ext decode seller_pubky listing_id v =
     (case ensure_reserve_free v of
        Inl _ \<Rightarrow> Inr None
      | Inr _ \<Rightarrow>
          (case decode v of
             None \<Rightarrow> Inr None
           | Some r \<Rightarrow> registration_payload ext seller_pubky listing_id r))"

section \<open>The drop record\<close>

text \<open>\<open>DropRecord\<close>; of the media only the count is read.\<close>

record drop_record =
  dd_schema_version :: int
  dd_record_type :: string
  dd_owner_pubky :: pubky
  dd_revision :: int
  dd_created_at :: datetime
  dd_updated_at :: datetime
  dd_drop_id :: string
  dd_title :: string
  dd_description :: string
  dd_media :: nat
  dd_format :: string
  dd_starts_at :: datetime
  dd_ends_at :: "datetime option"
  dd_listing_ids :: "string list"
  dd_total_quantity :: int
  dd_per_buyer_limit :: int
  dd_stock_display :: string

fun drop_listing_issues :: "nat \<Rightarrow> string list \<Rightarrow> string list \<Rightarrow> validation_issue list" where
  "drop_listing_issues index seen [] = []"
| "drop_listing_issues index seen (listing_id # ids) =
     require (is_valid_entity_id listing_id) (''record.listingIds.'' @ show_nat index)
       ''Expected a path-safe commerce identifier''
   @ require (\<not> List.member seen listing_id) ''record.listingIds'' ''Listing ids must be unique''
   @ drop_listing_issues (Suc index) (listing_id # seen) ids"

definition drop_record_issues :: "pubky \<Rightarrow> string \<Rightarrow> drop_record \<Rightarrow> validation_issue list" where
  "drop_record_issues seller_pubky drop_id r =
     require (dd_schema_version r = 1) ''record.schemaVersion'' ''Expected version 1''
   @ require (dd_record_type r = ''drop'') ''record.recordType'' ''Expected \"drop\"''
   @ require (dd_owner_pubky r = seller_pubky) ''record.ownerPubky'' ''Expected the seller the record was fetched from''
   @ require (dd_drop_id r = drop_id) ''record.dropId'' ''Expected the drop id the record was fetched for''
   @ require (1 \<le> dd_revision r) ''record.revision'' ''Expected a positive record revision''
   @ require (1 \<le> chars_count (trim (dd_title r)) \<and> chars_count (trim (dd_title r)) \<le> 120) ''record.title''
       ''Expected between 1 and 120 characters''
   @ require (chars_count (dd_description r) \<le> 2000) ''record.description'' ''Expected at most 2000 characters''
   @ require (dd_media r \<le> 10) ''record.media'' ''Expected at most 10 media entries''
   @ require (dd_format r = ''fcfs'') ''record.format'' ''Expected \"fcfs\"''
   @ require (case dd_ends_at r of None \<Rightarrow> True | Some ends_at \<Rightarrow> dd_starts_at r < ends_at) ''record.endsAt''
       ''Expected the drop end to follow its start''
   @ require (dd_listing_ids r \<noteq> [] \<and> length (dd_listing_ids r) \<le> 20) ''record.listingIds''
       ''Expected between 1 and 20 listing ids''
   @ drop_listing_issues 0 [] (dd_listing_ids r)
   @ require (in_range 1 1000000 (dd_total_quantity r)) ''record.totalQuantity''
       ''Expected a quantity between 1 and 1000000''
   @ (if in_range 1 100 (dd_per_buyer_limit r)
      then require (dd_per_buyer_limit r \<le> dd_total_quantity r) ''record.perBuyerLimit''
             ''Expected a limit no greater than the total quantity''
      else [issue ''record.perBuyerLimit'' ''Expected a limit between 1 and 100''])
   @ require (List.member [''exact'', ''bands'', ''hidden''] (dd_stock_display r)) ''record.stockDisplay''
       ''Expected exact, bands, or hidden''"

definition validated_drop_record ::
  "(json \<Rightarrow> drop_record option) \<Rightarrow> pubky \<Rightarrow> string \<Rightarrow> json \<Rightarrow> validation_issue list + drop_record" where
  "validated_drop_record decode seller_pubky drop_id v =
     (case decode v of
        None \<Rightarrow> Inl [issue ''record'' ''Expected a schema-version-1 drop record with no unknown fields'']
      | Some r \<Rightarrow>
          let issues = drop_record_issues seller_pubky drop_id r
          in if issues = [] then Inr r else Inl issues)"

end
