(* ===== verification/Drops.thy ===== *)
theory Drops
  imports Records Machines
begin

text \<open>
  \<^verbatim>\<open>crates/service/src/handlers/drops.rs\<close>: timed, limited releases.  Registration and re-sync from the
  seller's record, cancellation, release of the listings, the gate that debits a hold from the bound
  drop, the credit of a released hold and the count of paid units.

  The homeserver client and the decoder of a drop record are parameters of \<open>drop_sync\<close>.
  The facts at the end are about the books: in every drop the units still on offer and the units its
  buyers hold add up to its total, and each operation keeps it so.
\<close>

section \<open>Refusal copy\<close>

definition DROP_NOT_STARTED :: string where "DROP_NOT_STARTED = ''The drop has not started.''"
definition DROP_ENDED :: string where "DROP_ENDED = ''The drop has ended.''"
definition DROP_SOLD_OUT :: string where "DROP_SOLD_OUT = ''The drop is sold out.''"
definition DROP_PER_BUYER_LIMIT :: string where
  "DROP_PER_BUYER_LIMIT = ''You have reached this drop's per-buyer limit.''"
definition DROP_RELEASE_BEFORE_END :: string where
  "DROP_RELEASE_BEFORE_END = ''Listings release only after the drop ends.''"

section \<open>States on server time\<close>

definition fetch_drop :: "db \<Rightarrow> string \<Rightarrow> drop_row option" where
  "fetch_drop d aggregate_id = fetch dr_aggregate_id aggregate_id (st_drops d)"

definition derived_state :: "datetime \<Rightarrow> datetime option \<Rightarrow> datetime \<Rightarrow> string" where
  "derived_state starts_at ends_at now =
     (if (case ends_at of Some e \<Rightarrow> e \<le> now | None \<Rightarrow> False) then ''ended_closed''
      else if starts_at \<le> now then ''live''
      else ''announced'')"

definition is_active_state :: "string \<Rightarrow> bool" where
  "is_active_state state \<longleftrightarrow> state = ''announced'' \<or> state = ''live''"

text \<open>The effective state of a stored drop: an ended state stands, an active one follows the clock.\<close>

definition effective_state :: "drop_row \<Rightarrow> datetime \<Rightarrow> string" where
  "effective_state drp now =
     (if is_active_state (dr_state drp) then derived_state (dr_starts_at drp) (dr_ends_at drp) now
      else dr_state drp)"

section \<open>Bindings\<close>

definition deactivate_drop_listing_bindings :: "string \<Rightarrow> db \<Rightarrow> db" where
  "deactivate_drop_listing_bindings drop_key d =
     d\<lparr>st_drop_listings :=
        map (\<lambda>b. if dg_drop_aggregate_id b = drop_key then b\<lparr>dg_active := False\<rparr> else b)
          (st_drop_listings d)\<rparr>"

definition drop_listing_clash :: "drop_listing_row \<Rightarrow> drop_listing_row \<Rightarrow> bool" where
  "drop_listing_clash a b \<longleftrightarrow>
     dg_drop_aggregate_id a = dg_drop_aggregate_id b
       \<and> dg_seller_pubky a = dg_seller_pubky b \<and> dg_listing_id a = dg_listing_id b
     \<or> dg_active a \<and> dg_active b \<and> dg_seller_pubky a = dg_seller_pubky b
       \<and> dg_listing_id a = dg_listing_id b \<and> dg_listing_generation a = dg_listing_generation b"

text \<open>\<open>INSERT ... SELECT generation FROM listings\<close>: no row when the listing is missing.\<close>

definition insert_drop_listing :: "drop_row \<Rightarrow> string \<Rightarrow> bool \<Rightarrow> db \<Rightarrow> unit tx" where
  "insert_drop_listing drp listing_id active d =
     (case fetch_listing d (listing_aggregate_id (dr_seller_pubky drp) listing_id) of
        None \<Rightarrow> Inr ((), d)
      | Some l \<Rightarrow>
          seq (sql_insert (\<lambda>_. True) drop_listing_clash
                 \<lparr>dg_drop_aggregate_id = dr_aggregate_id drp, dg_seller_pubky = dr_seller_pubky drp,
                  dg_listing_id = listing_id, dg_active = active, dg_released = False,
                  dg_listing_generation = ls_generation l\<rparr> (st_drop_listings d))
            (\<lambda>u rows. Inr (u, d\<lparr>st_drop_listings := rows\<rparr>)))"

fun insert_drop_listings :: "drop_row \<Rightarrow> bool \<Rightarrow> string list \<Rightarrow> db \<Rightarrow> unit tx" where
  "insert_drop_listings drp active [] d = Inr ((), d)"
| "insert_drop_listings drp active (listing_id # rest) d =
     seq (insert_drop_listing drp listing_id active d) (\<lambda>_. insert_drop_listings drp active rest)"

definition unregistered_listings :: "string list \<Rightarrow> command_failure" where
  "unregistered_listings missing =
     refused_with_issues RInvalidCommand InvalidCommand ''The drop references unregistered listings.''
       (map (\<lambda>listing_id. issue ''payload.listing_ids'' (''Unregistered listing: '' @ listing_id)) missing)"

text \<open>The listings of the drop that are live at the generation they were bound at.\<close>

definition live_bound_listings :: "drop_row \<Rightarrow> string list \<Rightarrow> db \<Rightarrow> string list" where
  "live_bound_listings drp listing_ids d =
     [ls_listing_id l. l \<leftarrow> st_listings d, b \<leftarrow> st_drop_listings d,
        dg_drop_aggregate_id b = dr_aggregate_id drp \<and> dg_seller_pubky b = ls_seller_pubky l
        \<and> dg_listing_id b = ls_listing_id l
        \<and> ls_aggregate_id l \<in> set (map (listing_aggregate_id (dr_seller_pubky drp)) listing_ids)
        \<and> ls_deleted_at l = None \<and> ls_generation l = dg_listing_generation b]"

definition insert_drop_listing_bindings ::
  "drop_row \<Rightarrow> string list \<Rightarrow> bool \<Rightarrow> db \<Rightarrow> (command_failure + unit) tx" where
  "insert_drop_listing_bindings drp listing_ids active d0 =
     seq (insert_drop_listings drp active listing_ids d0)
       (\<lambda>_ d.
          let live = live_bound_listings drp listing_ids d;
              missing = filter (\<lambda>i. i \<notin> set live) listing_ids
          in if missing = [] then Inr (Inr (), d) else refuse (unregistered_listings missing) d)"

section \<open>Registration\<close>

definition drop_success :: "drop_row \<Rightarrow> uuid list \<Rightarrow> handler_success" where
  "drop_success drp event_ids =
     \<lparr>hs_revision = dr_revision drp, hs_event_ids = event_ids, hs_result = ResultDrop drp\<rparr>"

definition insert_drop :: "drop_row \<Rightarrow> db \<Rightarrow> unit tx" where
  "insert_drop drp d =
     seq (sql_insert drop_check
            (\<lambda>a b. dr_aggregate_id a = dr_aggregate_id b
               \<or> dr_seller_pubky a = dr_seller_pubky b \<and> dr_drop_id a = dr_drop_id b)
            drp (st_drops d))
       (\<lambda>u rows. Inr (u, d\<lparr>st_drops := rows\<rparr>))"

definition apply_registration ::
  "uuid_source \<Rightarrow> pubky \<Rightarrow> command \<Rightarrow> sync_drop_payload \<Rightarrow> drop_record \<Rightarrow> datetime \<Rightarrow> db
     \<Rightarrow> handler_result tx" where
  "apply_registration new_v4 actor command payload record now d0 =
     (let state = derived_state (dd_starts_at record) (dd_ends_at record) now;
          drp = \<lparr>dr_aggregate_id = cmd_aggregate_id command, dr_seller_pubky = sd_seller_pubky payload,
                  dr_drop_id = sd_drop_id payload, dr_record_revision = dd_revision record,
                  dr_revision = 1, dr_state = state, dr_format = ''fcfs'',
                  dr_starts_at = dd_starts_at record, dr_ends_at = dd_ends_at record,
                  dr_total_quantity = dd_total_quantity record,
                  dr_per_buyer_limit = dd_per_buyer_limit record,
                  dr_remaining_quantity = dd_total_quantity record, dr_paid_quantity = 0,
                  dr_stock_display = dd_stock_display record,
                  dr_listing_ids = dd_listing_ids record, dr_created_at = now, dr_updated_at = now\<rparr>
      in seq (insert_drop drp d0)
           (\<lambda>_ d1.
              attempt (insert_drop_listing_bindings drp (dd_listing_ids record) (is_active_state state) d1)
                (\<lambda>_ d2.
                     seq (insert_event new_v4 (cmd_command_id command) (cmd_aggregate_id command) 1
                            actor ''drop.synced'' now d2)
                       (\<lambda>event_id d3. Inr (Inr (drop_success drp [event_id]), d3)))))"

definition apply_resync ::
  "uuid_source \<Rightarrow> pubky \<Rightarrow> command \<Rightarrow> drop_record \<Rightarrow> drop_row \<Rightarrow> datetime \<Rightarrow> db
     \<Rightarrow> handler_result tx" where
  "apply_resync new_v4 actor command record current now d0 =
     (if effective_state current now \<noteq> ''announced''
      then refuse (refused_with_revision RInvalidState InvalidState
                     ''The drop's terms are locked at launch.'' (dr_revision current)) d0
      else
        let state = derived_state (dd_starts_at record) (dd_ends_at record) now;
            new_revision = dr_revision current + 1
        in seq (fetch_one (update_drops (\<lambda>r. dr_aggregate_id r = cmd_aggregate_id command)
                  (\<lambda>r. r\<lparr>dr_record_revision := dd_revision record, dr_revision := new_revision,
                          dr_state := state, dr_starts_at := dd_starts_at record,
                          dr_ends_at := dd_ends_at record,
                          dr_total_quantity := dd_total_quantity record,
                          dr_per_buyer_limit := dd_per_buyer_limit record,
                          dr_remaining_quantity := dd_total_quantity record,
                          dr_stock_display := dd_stock_display record,
                          dr_listing_ids := dd_listing_ids record, dr_updated_at := now\<rparr>) d0))
             (\<lambda>drp d1.
                let d2 = d1\<lparr>st_drop_listings :=
                  filter (\<lambda>b. dg_drop_aggregate_id b \<noteq> cmd_aggregate_id command) (st_drop_listings d1)\<rparr>
                in attempt (insert_drop_listing_bindings drp (dd_listing_ids record)
                          (is_active_state state) d2)
                     (\<lambda>_ d3.
                          seq (insert_event new_v4 (cmd_command_id command) (cmd_aggregate_id command)
                                 new_revision actor ''drop.synced'' now d3)
                            (\<lambda>event_id d4.
                               Inr (Inr (\<lparr>hs_revision = new_revision, hs_event_ids = [event_id],
                                          hs_result = ResultDrop drp\<rparr>), d4)))))"

definition drop_sync ::
  "uuid_source \<Rightarrow> (json \<Rightarrow> drop_record option) \<Rightarrow> pubky \<Rightarrow> command
     \<Rightarrow> sync_drop_payload \<Rightarrow> (pubky \<Rightarrow> string \<Rightarrow> json fetch_outcome) option \<Rightarrow> datetime \<Rightarrow> db
     \<Rightarrow> handler_result tx" where
  "drop_sync new_v4 decode actor command payload homeserver now d =
     (case homeserver of
        None \<Rightarrow> refuse (refused RInvalidCommand InvalidCommand
                         ''Drop sync is not enabled on this deployment.'') d
      | Some fetch_drop_record \<Rightarrow>
          if cmd_aggregate_id command \<noteq> drop_aggregate_id (sd_seller_pubky payload) (sd_drop_id payload)
          then refuse (refused RInvalidCommand InvalidCommand
                 ''The drop aggregate id does not match its seller and drop.'') d
          else case fetch_drop_record (sd_seller_pubky payload) (sd_drop_id payload) of
            RecordNotFound \<Rightarrow> refuse (refused RNotFound NotFound
              ''The seller's homeserver has no such drop record.'') d
          | Unavailable \<Rightarrow> refuse (refused RUpstreamUnavailable UpstreamUnavailable
              ''The seller's homeserver could not be reached. Try again shortly.'') d
          | Found raw \<Rightarrow>
              (case validated_drop_record decode (sd_seller_pubky payload) (sd_drop_id payload) raw of
                 Inl issues \<Rightarrow> refuse (refused_with_issues RInvalidState InvalidState
                   ''The seller's drop record does not satisfy drop invariants.'' issues) d
               | Inr record \<Rightarrow>
                   (let missing = filter
                      (\<lambda>i. fetch_live_listing d (listing_aggregate_id (sd_seller_pubky payload) i) = None)
                      (dd_listing_ids record)
                    in if missing \<noteq> [] then refuse (unregistered_listings missing) d
                       else case fetch_drop d (cmd_aggregate_id command) of
                         Some current \<Rightarrow>
                           if dd_revision record \<le> dr_record_revision current
                           then Inr (Inr (drop_success current []), d)
                           else apply_resync new_v4 actor command record current now d
                       | None \<Rightarrow> apply_registration new_v4 actor command payload record now d)))"

section \<open>Cancellation and release\<close>

definition drop_cancel ::
  "uuid_source \<Rightarrow> pubky \<Rightarrow> command \<Rightarrow> datetime \<Rightarrow> db \<Rightarrow> handler_result tx" where
  "drop_cancel new_v4 actor command now d =
     (case fetch_drop d (cmd_aggregate_id command) of
        None \<Rightarrow> refuse (refused RNotFound NotFound ''The drop was not found.'') d
      | Some drp \<Rightarrow>
          if dr_seller_pubky drp \<noteq> actor
          then refuse (refused RUnauthorized Unauthorized ''Only the seller may cancel a drop.'') d
          else if cmd_expected_revision command \<noteq> dr_revision drp
          then refuse (refused_with_revision RRevisionConflict RevisionConflict
                 ''The drop revision is stale.'' (dr_revision drp)) d
          else if \<not> is_active_state (effective_state drp now)
          then refuse (refused_with_revision RInvalidState InvalidState
                 ''This drop can no longer be cancelled.'' (dr_revision drp)) d
          else
            let new_revision = dr_revision drp + 1
            in seq (fetch_one (update_drops (\<lambda>r. dr_aggregate_id r = cmd_aggregate_id command)
                      (\<lambda>r. r\<lparr>dr_state := ''ended_cancelled'', dr_revision := new_revision,
                              dr_updated_at := now\<rparr>) d))
                 (\<lambda>cancelled d1.
                    let d2 = deactivate_drop_listing_bindings (cmd_aggregate_id command) d1
                    in seq (insert_event new_v4 (cmd_command_id command) (cmd_aggregate_id command)
                              new_revision actor ''drop.cancelled'' now d2)
                         (\<lambda>event_id d3.
                            Inr (Inr \<lparr>hs_revision = new_revision, hs_event_ids = [event_id],
                                      hs_result = ResultDrop cancelled\<rparr>, d3))))"

definition apply_time_transitions ::
  "uuid_source \<Rightarrow> drop_row \<Rightarrow> uuid \<Rightarrow> datetime \<Rightarrow> db \<Rightarrow> drop_row tx" where
  "apply_time_transitions new_v4 drp command_id now d =
     (if \<not> is_active_state (dr_state drp) then Inr (drp, d)
      else
        let target = derived_state (dr_starts_at drp) (dr_ends_at drp) now
        in if target = dr_state drp then Inr (drp, d)
           else
             let new_revision = dr_revision drp + 1
             in seq (fetch_one (update_drops (\<lambda>r. dr_aggregate_id r = dr_aggregate_id drp)
                       (\<lambda>r. r\<lparr>dr_state := target, dr_revision := new_revision, dr_updated_at := now\<rparr>) d))
                  (\<lambda>transitioned d1.
                     let d2 = (if \<not> is_active_state target
                               then deactivate_drop_listing_bindings (dr_aggregate_id drp) d1 else d1)
                     in seq (insert_event new_v4 command_id (dr_aggregate_id drp) new_revision
                               (dr_seller_pubky drp)
                               (if target = ''live'' then ''drop.started'' else ''drop.ended'') now d2)
                          (\<lambda>_ d3. Inr (transitioned, d3))))"

definition release_listings ::
  "uuid_source \<Rightarrow> pubky \<Rightarrow> command \<Rightarrow> datetime \<Rightarrow> db \<Rightarrow> handler_result tx" where
  "release_listings new_v4 actor command now d =
     (case fetch_drop d (cmd_aggregate_id command) of
        None \<Rightarrow> refuse (refused RNotFound NotFound ''The drop was not found.'') d
      | Some drp0 \<Rightarrow>
          if dr_seller_pubky drp0 \<noteq> actor
          then refuse (refused RUnauthorized Unauthorized
                 ''Only the seller may release a drop's listings.'') d
          else if cmd_expected_revision command \<noteq> dr_revision drp0
          then refuse (refused_with_revision RRevisionConflict RevisionConflict
                 ''The drop revision is stale.'' (dr_revision drp0)) d
          else
            seq (apply_time_transitions new_v4 drp0 (cmd_command_id command) now d)
              (\<lambda>drp d1.
                 if is_active_state (dr_state drp)
                 then refuse (refused_with_revision RInvalidState InvalidState
                        DROP_RELEASE_BEFORE_END (dr_revision drp)) d1
                 else
                   let d2 = d1\<lparr>st_drop_listings :=
                         map (\<lambda>b. if dg_drop_aggregate_id b = cmd_aggregate_id command
                                  then b\<lparr>dg_active := False, dg_released := True\<rparr> else b)
                           (st_drop_listings d1)\<rparr>;
                       new_revision = dr_revision drp + 1
                   in seq (fetch_one (update_drops (\<lambda>r. dr_aggregate_id r = cmd_aggregate_id command)
                             (\<lambda>r. r\<lparr>dr_revision := new_revision, dr_updated_at := now\<rparr>) d2))
                        (\<lambda>released d3.
                           seq (insert_event new_v4 (cmd_command_id command) (cmd_aggregate_id command)
                                  new_revision actor ''drop.listings_released'' now d3)
                             (\<lambda>event_id d4.
                                Inr (Inr \<lparr>hs_revision = new_revision, hs_event_ids = [event_id],
                                          hs_result = ResultDrop released\<rparr>, d4)))))"

section \<open>Gating\<close>

text \<open>\<open>ORDER BY dl.active DESC, d.updated_at DESC, d.aggregate_id LIMIT 1\<close> over the bindings of the
  listing's current generation that are not released.\<close>

definition bound_before :: "drop_listing_row \<times> drop_row \<Rightarrow> drop_listing_row \<times> drop_row \<Rightarrow> bool" where
  "bound_before x y \<longleftrightarrow>
     (if dg_active (fst x) \<noteq> dg_active (fst y) then dg_active (fst x)
      else if dr_updated_at (snd x) \<noteq> dr_updated_at (snd y)
      then dr_updated_at (snd y) < dr_updated_at (snd x)
      else \<not> str_less (dr_aggregate_id (snd y)) (dr_aggregate_id (snd x)))"

definition lock_bound_drop :: "pubky \<Rightarrow> string \<Rightarrow> db \<Rightarrow> drop_row option" where
  "lock_bound_drop seller_pubky listing_id d =
     (case sort_by bound_before
        [(b, r). r \<leftarrow> st_drops d, b \<leftarrow> st_drop_listings d, l \<leftarrow> st_listings d,
           dg_drop_aggregate_id b = dr_aggregate_id r
           \<and> ls_seller_pubky l = dg_seller_pubky b \<and> ls_listing_id l = dg_listing_id b
           \<and> dg_seller_pubky b = seller_pubky \<and> dg_listing_id b = listing_id
           \<and> \<not> dg_released b \<and> dg_listing_generation b = ls_generation l] of
        [] \<Rightarrow> None | (b, r) # _ \<Rightarrow> Some r)"

definition drop_held :: "db \<Rightarrow> string \<Rightarrow> pubky \<Rightarrow> int" where
  "drop_held d drop_key buyer =
     (case find (\<lambda>p. dp_drop_aggregate_id p = drop_key \<and> dp_buyer_pubky p = buyer)
        (st_drop_purchases d) of
        Some p \<Rightarrow> dp_quantity p | None \<Rightarrow> 0)"

text \<open>\<open>INSERT ... ON CONFLICT DO UPDATE SET quantity = quantity + EXCLUDED.quantity\<close>.\<close>

definition add_drop_purchase :: "string \<Rightarrow> pubky \<Rightarrow> int \<Rightarrow> int \<Rightarrow> db \<Rightarrow> unit tx" where
  "add_drop_purchase drop_key buyer units per_buyer_limit d =
     (if list_ex (\<lambda>p. dp_drop_aggregate_id p = drop_key \<and> dp_buyer_pubky p = buyer)
           (st_drop_purchases d)
      then seq (update_drop_purchases
             (\<lambda>p. dp_drop_aggregate_id p = drop_key \<and> dp_buyer_pubky p = buyer)
             (\<lambda>p. p\<lparr>dp_quantity := dp_quantity p + units\<rparr>) d) (\<lambda>_ d'. Inr ((), d'))
      else seq (sql_insert drop_purchase_check (\<lambda>_ _. False)
             \<lparr>dp_drop_aggregate_id = drop_key, dp_buyer_pubky = buyer, dp_quantity = units,
              dp_per_buyer_limit = per_buyer_limit\<rparr> (st_drop_purchases d))
             (\<lambda>u rows. Inr (u, d\<lparr>st_drop_purchases := rows\<rparr>)))"

definition enforce_drop_gate ::
  "uuid_source \<Rightarrow> drop_row \<Rightarrow> pubky \<Rightarrow> int \<Rightarrow> uuid \<Rightarrow> datetime \<Rightarrow> db \<Rightarrow> (command_failure + drop_row) tx" where
  "enforce_drop_gate new_v4 drp0 buyer units command_id now d0 =
     seq (apply_time_transitions new_v4 drp0 command_id now d0)
       (\<lambda>drp d.
          if dr_state drp = ''announced''
          then refuse (refused RInvalidState InvalidState DROP_NOT_STARTED) d
          else if dr_state drp \<noteq> ''live''
          then refuse (refused RInvalidState InvalidState DROP_ENDED) d
          else if dr_remaining_quantity drp < units
          then refuse (refused RInsufficientInventory InsufficientInventory DROP_SOLD_OUT) d
          else if dr_per_buyer_limit drp < drop_held d (dr_aggregate_id drp) buyer + units
          then refuse (refused RInvalidState InvalidState DROP_PER_BUYER_LIMIT) d
          else
            seq (fetch_one (update_drops (\<lambda>r. dr_aggregate_id r = dr_aggregate_id drp)
                   (\<lambda>r. r\<lparr>dr_remaining_quantity := dr_remaining_quantity r - units,
                           dr_revision := dr_revision r + 1, dr_updated_at := now\<rparr>) d))
              (\<lambda>debited d1.
                 seq (add_drop_purchase (dr_aggregate_id drp) buyer units (dr_per_buyer_limit drp) d1)
                   (\<lambda>_ d2. Inr (Inr debited, d2))))"

section \<open>Paid units and released holds\<close>

text \<open>The last paid unit of a live drop ends it.\<close>

definition end_sold_out :: "uuid_source \<Rightarrow> drop_row \<Rightarrow> string \<Rightarrow> pubky \<Rightarrow> uuid \<Rightarrow> datetime \<Rightarrow> db \<Rightarrow> unit tx" where
  "end_sold_out new_v4 drp drop_key actor command_id now d0 =
     (let new_revision = dr_revision drp + 1
      in seq (update_drops (\<lambda>r. dr_aggregate_id r = drop_key)
                (\<lambda>r. r\<lparr>dr_state := ''ended_sold_out'', dr_revision := new_revision, dr_updated_at := now\<rparr>) d0)
           (\<lambda>_ d1.
              let d2 = deactivate_drop_listing_bindings drop_key d1
              in seq (insert_event new_v4 command_id drop_key new_revision actor ''drop.ended'' now d2)
                   (\<lambda>event_id d3.
                      Inr ((), insert_notification_intent event_id ''drop_sold_out''
                        (dr_seller_pubky drp) actor drop_key None now d3))))"

definition record_paid_unit ::
  "uuid_source \<Rightarrow> string \<Rightarrow> pubky \<Rightarrow> uuid \<Rightarrow> datetime \<Rightarrow> db \<Rightarrow> (command_failure + int) tx" where
  "record_paid_unit new_v4 drop_key actor command_id now d0 =
     (case fetch_drop d0 drop_key of
        None \<Rightarrow> refuse (refused RInvariantViolation InvariantViolation ''The order's drop is missing.'') d0
      | Some drp0 \<Rightarrow>
          seq (apply_time_transitions new_v4 drp0 command_id now d0)
            (\<lambda>_ d1.
               seq (fetch_one (update_drops (\<lambda>r. dr_aggregate_id r = drop_key)
                      (\<lambda>r. r\<lparr>dr_paid_quantity := dr_paid_quantity r + 1,
                              dr_revision := dr_revision r + 1, dr_updated_at := now\<rparr>) d1))
                 (\<lambda>drp d2.
                    seq (if dr_paid_quantity drp = dr_total_quantity drp \<and> dr_state drp = ''live''
                         then end_sold_out new_v4 drp drop_key actor command_id now d2
                         else Inr ((), d2))
                      (\<lambda>_ d3. Inr (Inr (dr_paid_quantity drp), d3)))))"

definition credit_drop_release :: "string \<Rightarrow> pubky \<Rightarrow> int \<Rightarrow> datetime \<Rightarrow> db \<Rightarrow> bool tx" where
  "credit_drop_release drop_key buyer units now d =
     (if fetch_drop d drop_key = None then Inr (False, d)
      else
        seq (update_drops
               (\<lambda>r. dr_aggregate_id r = drop_key
                  \<and> dr_remaining_quantity r + units \<le> dr_total_quantity r)
               (\<lambda>r. r\<lparr>dr_remaining_quantity := dr_remaining_quantity r + units,
                       dr_revision := dr_revision r + 1, dr_updated_at := now\<rparr>) d)
          (\<lambda>credited d1.
             if length credited \<noteq> 1 then Inr (False, d1)
             else
               seq (update_drop_purchases
                      (\<lambda>p. dp_drop_aggregate_id p = drop_key \<and> dp_buyer_pubky p = buyer
                         \<and> units \<le> dp_quantity p)
                      (\<lambda>p. p\<lparr>dp_quantity := dp_quantity p - units\<rparr>) d1)
                 (\<lambda>debited d2. Inr (length debited = 1, d2))))"

section \<open>The books of a drop\<close>

definition held_units :: "db \<Rightarrow> string \<Rightarrow> int" where
  "held_units d drop_key =
     sum_list (map (\<lambda>p. if dp_drop_aggregate_id p = drop_key then dp_quantity p else 0) (st_drop_purchases d))"

definition drop_tables_ok :: "db \<Rightarrow> bool" where
  "drop_tables_ok d \<longleftrightarrow>
     table_ok dr_aggregate_id drop_check (st_drops d)
     \<and> table_ok (\<lambda>p. (dp_drop_aggregate_id p, dp_buyer_pubky p)) drop_purchase_check (st_drop_purchases d)"

text \<open>What is on offer and what the buyers hold add up to the total.\<close>

definition balanced :: "db \<Rightarrow> drop_row \<Rightarrow> bool" where
  "balanced d r \<longleftrightarrow> dr_remaining_quantity r + held_units d (dr_aggregate_id r) = dr_total_quantity r"

definition drops_ok :: "db \<Rightarrow> bool" where
  "drops_ok d \<longleftrightarrow> drop_tables_ok d \<and> list_all (balanced d) (st_drops d)"

text \<open>The tables that no drop operation writes.\<close>

definition drop_frame :: "db \<Rightarrow> db \<Rightarrow> bool" where
  "drop_frame d d' \<longleftrightarrow>
     st_listings d' = st_listings d \<and> st_reservations d' = st_reservations d
     \<and> st_orders d' = st_orders d \<and> st_payments d' = st_payments d \<and> st_bids d' = st_bids d
     \<and> st_reserves d' = st_reserves d"

section \<open>A sample\<close>

definition sample_drop :: drop_row where
  "sample_drop =
     \<lparr>dr_aggregate_id = ''drop:d'', dr_seller_pubky = ''seller'', dr_drop_id = ''d'', dr_record_revision = 1,
      dr_revision = 4, dr_state = ''announced'', dr_format = ''fcfs'', dr_starts_at = 100,
      dr_ends_at = Some 900, dr_total_quantity = 5, dr_per_buyer_limit = 2, dr_remaining_quantity = 4,
      dr_paid_quantity = 1, dr_stock_display = ''exact'', dr_listing_ids = [''l''], dr_created_at = 0,
      dr_updated_at = 0\<rparr>"

definition sample_drop_db :: db where
  "sample_drop_db =
     empty_db\<lparr>st_drops := [sample_drop],
       st_drop_purchases := [\<lparr>dp_drop_aggregate_id = ''drop:d'', dp_buyer_pubky = ''buyer'', dp_quantity = 1,
         dp_per_buyer_limit = 2\<rparr>]\<rparr>"

section \<open>Facts\<close>

lemma drop_frame_refl [simp]: "drop_frame d d"
  by (simp add: drop_frame_def)

lemma drop_frame_trans: "drop_frame d d' \<Longrightarrow> drop_frame d' d'' \<Longrightarrow> drop_frame d d''"
  by (simp add: drop_frame_def)

lemma derived_state_cases: "derived_state s e now \<in> {''announced'', ''live'', ''ended_closed''}"
  by (simp add: derived_state_def)

lemma drops_ok_balanced:
  assumes "drops_ok d" "fetch_drop d k = Some r"
  shows "balanced d r" "dr_aggregate_id r = k"
  using assms fetch_Some [of dr_aggregate_id k "st_drops d" r]
  by (auto simp: drops_ok_def fetch_drop_def list_all_iff)

text \<open>Updating one drop without touching its quantities or purchases keeps the books.\<close>

lemma drops_ok_update:
  assumes ok: "drops_ok d" and u: "update_drops c f d = Inr (w, d')"
    and f: "\<And>r. dr_aggregate_id (f r) = dr_aggregate_id r"
      "\<And>r. dr_remaining_quantity (f r) = dr_remaining_quantity r"
      "\<And>r. dr_total_quantity (f r) = dr_total_quantity r"
  shows "drops_ok d'"
proof -
  from u have d': "d' = d\<lparr>st_drops := map (\<lambda>r. if c r then f r else r) (st_drops d)\<rparr>"
    by (simp add: drops.upd_Inr)
  have "table_ok dr_aggregate_id drop_check (st_drops d')"
    using ok drops.upd_ok [OF u f(1)] by (simp add: drops_ok_def drop_tables_ok_def)
  with ok f show ?thesis
    by (auto simp: drops_ok_def drop_tables_ok_def list_all_iff balanced_def held_units_def d')
qed

lemma drops_ok_cong:
  "st_drops d' = st_drops d \<Longrightarrow> st_drop_purchases d' = st_drop_purchases d \<Longrightarrow> drops_ok d' = drops_ok d"
  by (simp add: drops_ok_def drop_tables_ok_def held_units_def balanced_def [abs_def])

lemma apply_time_transitions_effect:
  assumes ok: "drops_ok d" and r0: "fetch_drop d (dr_aggregate_id r0) = Some r0"
    and run: "apply_time_transitions new_v4 r0 command_id now d = Inr (r, d')"
  shows "drops_ok d'" "fetch_drop d' (dr_aggregate_id r0) = Some r" "drop_frame d d'"
    "st_drop_purchases d' = st_drop_purchases d" "dr_state r = effective_state r0 now"
    "dr_remaining_quantity r = dr_remaining_quantity r0" "dr_total_quantity r = dr_total_quantity r0"
    "dr_per_buyer_limit r = dr_per_buyer_limit r0" "dr_paid_quantity r = dr_paid_quantity r0"
    "dr_aggregate_id r = dr_aggregate_id r0"
proof -
  let ?target = "derived_state (dr_starts_at r0) (dr_ends_at r0) now"
  let ?f = "\<lambda>r. r\<lparr>dr_state := ?target, dr_revision := dr_revision r0 + 1, dr_updated_at := now\<rparr>"
  have all: "drops_ok d' \<and> fetch_drop d' (dr_aggregate_id r0) = Some r \<and> drop_frame d d'
    \<and> st_drop_purchases d' = st_drop_purchases d \<and> dr_state r = effective_state r0 now
    \<and> dr_remaining_quantity r = dr_remaining_quantity r0 \<and> dr_total_quantity r = dr_total_quantity r0
    \<and> dr_per_buyer_limit r = dr_per_buyer_limit r0 \<and> dr_paid_quantity r = dr_paid_quantity r0
    \<and> dr_aggregate_id r = dr_aggregate_id r0"
  proof (cases "is_active_state (dr_state r0) \<and> ?target \<noteq> dr_state r0")
    case False
    with run ok r0 show ?thesis
      by (auto simp: apply_time_transitions_def effective_state_def Let_def split: if_splits)
  next
    case True
    then obtain w d1 e d2 where u: "update_drops (\<lambda>r. dr_aggregate_id r = dr_aggregate_id r0) ?f d = Inr (r # w, d1)"
      and d2: "d2 = (if \<not> is_active_state ?target then deactivate_drop_listing_bindings (dr_aggregate_id r0) d1 else d1)"
      and ev: "insert_event new_v4 command_id (dr_aggregate_id r0) (dr_revision r0 + 1) (dr_seller_pubky r0)
          (if ?target = ''live'' then ''drop.started'' else ''drop.ended'') now d2 = Inr (e, d')"
      using run by (auto simp: apply_time_transitions_def Let_def seq_eq_Inr fetch_one_Inr)
    have same: "st_drops d' = st_drops d1" "st_drop_purchases d' = st_drop_purchases d1" "drop_frame d1 d'"
      using insert_event_Inr [OF ev]
      by (auto simp: d2 deactivate_drop_listing_bindings_def drop_frame_def)
    have t: "table_ok dr_aggregate_id drop_check (st_drops d)"
      using ok by (simp add: drops_ok_def drop_tables_ok_def)
    have r: "r = ?f r0"
      using u r0 drops.upd_key_row [OF t, of "dr_aggregate_id r0"]
      by (simp add: drops.upd_Inr fetch_drop_def)
    have "drops_ok d1" by (rule drops_ok_update [OF ok u]) simp_all
    moreover have "drop_frame d d1" "st_drop_purchases d1 = st_drop_purchases d"
      using u by (auto simp: drops.upd_Inr drop_frame_def)
    moreover have "fetch_drop d1 (dr_aggregate_id r0) = Some r"
      using drops.upd_fetch [OF u, of "dr_aggregate_id r0"] r0 by (simp add: fetch_drop_def r)
    ultimately show ?thesis
      using same True drop_frame_trans drops_ok_cong [of d' d1]
      by (auto simp: fetch_drop_def r effective_state_def)
  qed
  then show "drops_ok d'" "fetch_drop d' (dr_aggregate_id r0) = Some r" "drop_frame d d'"
    "st_drop_purchases d' = st_drop_purchases d" "dr_state r = effective_state r0 now"
    "dr_remaining_quantity r = dr_remaining_quantity r0" "dr_total_quantity r = dr_total_quantity r0"
    "dr_per_buyer_limit r = dr_per_buyer_limit r0" "dr_paid_quantity r = dr_paid_quantity r0"
    "dr_aggregate_id r = dr_aggregate_id r0" by simp_all
qed

lemma find_purchase:
  "find (\<lambda>p. dp_drop_aggregate_id p = k \<and> dp_buyer_pubky p = b) rows
   = fetch (\<lambda>p. (dp_drop_aggregate_id p, dp_buyer_pubky p)) (k, b) rows"
  by (simp add: fetch_def)

lemma drop_held_fetch:
  "drop_held d k b = (case fetch (\<lambda>p. (dp_drop_aggregate_id p, dp_buyer_pubky p)) (k, b) (st_drop_purchases d) of
     Some p \<Rightarrow> dp_quantity p | None \<Rightarrow> 0)"
  by (simp add: drop_held_def find_purchase)

text \<open>Adding \<open>u\<close> units to the counter of one buyer, with a guard on the row.\<close>

lemma update_purchase_effect:
  assumes ok: "drop_tables_ok d"
    and u: "update_drop_purchases (\<lambda>p. dp_drop_aggregate_id p = k \<and> dp_buyer_pubky p = b \<and> P p)
      (\<lambda>p. p\<lparr>dp_quantity := dp_quantity p + u\<rparr>) d = Inr (w, d')" and w: "w \<noteq> []"
  shows "drop_tables_ok d'" "held_units d' k' = held_units d k' + (if k' = k then u else 0)"
    "drop_held d' k b = drop_held d k b + u" "st_drops d' = st_drops d" "drop_frame d d'" "length w = 1"
proof -
  let ?key = "\<lambda>p. (dp_drop_aggregate_id p, dp_buyer_pubky p)"
  have t: "table_ok ?key drop_purchase_check (st_drop_purchases d)"
    using ok by (simp add: drop_tables_ok_def)
  have u': "update_drop_purchases (\<lambda>p. ?key p = (k, b) \<and> P p)
      (\<lambda>p. p\<lparr>dp_quantity := dp_quantity p + u\<rparr>) d = Inr (w, d')"
    using u by simp
  obtain p where p: "fetch ?key (k, b) (st_drop_purchases d) = Some p" "P p"
    "w = [p\<lparr>dp_quantity := dp_quantity p + u\<rparr>]"
    using purchases.upd_one [OF t u'] w by auto
  show "st_drops d' = st_drops d" "drop_frame d d'" "length w = 1"
    using u p(3) by (auto simp: purchases.upd_Inr drop_frame_def)
  show "drop_tables_ok d'"
    using purchases.upd_ok [OF u' _ t] ok \<open>st_drops d' = st_drops d\<close> by (simp add: drop_tables_ok_def)
  have rows: "filter (\<lambda>p. ?key p = (k, b) \<and> P p) (st_drop_purchases d) = [p]"
    using purchases.upd_key_rows [OF t, of "(k, b)" P] p by simp
  have pk: "dp_drop_aggregate_id p = k"
    using fetch_Some [OF p(1)] by simp
  show "held_units d' k' = held_units d k' + (if k' = k then u else 0)"
    unfolding held_units_def purchases.upd_sum [OF u'] rows using pk by simp
  show "drop_held d' k b = drop_held d k b + u"
    using purchases.upd_fetch [OF u', of "(k, b)"] p fetch_Some [OF p(1)]
    by (simp add: drop_held_fetch)
qed

lemma add_drop_purchase_effect:
  assumes ok: "drop_tables_ok d" and run: "add_drop_purchase k b u limit d = Inr (x, d')"
  shows "drop_tables_ok d'" "held_units d' k' = held_units d k' + (if k' = k then u else 0)"
    "drop_held d' k b = drop_held d k b + u" "st_drops d' = st_drops d" "drop_frame d d'"
proof -
  let ?key = "\<lambda>p. (dp_drop_aggregate_id p, dp_buyer_pubky p)"
  have all: "drop_tables_ok d' \<and> held_units d' k' = held_units d k' + (if k' = k then u else 0)
    \<and> drop_held d' k b = drop_held d k b + u \<and> st_drops d' = st_drops d \<and> drop_frame d d'"
  proof (cases "list_ex (\<lambda>p. dp_drop_aggregate_id p = k \<and> dp_buyer_pubky p = b) (st_drop_purchases d)")
    case True
    then obtain w where w: "update_drop_purchases
        (\<lambda>p. dp_drop_aggregate_id p = k \<and> dp_buyer_pubky p = b \<and> True)
        (\<lambda>p. p\<lparr>dp_quantity := dp_quantity p + u\<rparr>) d = Inr (w, d')"
      using run by (auto simp: add_drop_purchase_def seq_eq_Inr)
    have ne: "w \<noteq> []"
      using w True by (auto simp: purchases.upd_Inr list_ex_iff filter_empty_conv)
    note e = update_purchase_effect [where P = "\<lambda>_. True", OF ok w ne]
    show ?thesis by (intro conjI e)
  next
    case False
    then have d': "d' = d\<lparr>st_drop_purchases := st_drop_purchases d @
        [\<lparr>dp_drop_aggregate_id = k, dp_buyer_pubky = b, dp_quantity = u, dp_per_buyer_limit = limit\<rparr>]\<rparr>"
      and c: "drop_purchase_check
        \<lparr>dp_drop_aggregate_id = k, dp_buyer_pubky = b, dp_quantity = u, dp_per_buyer_limit = limit\<rparr>"
      using run by (auto simp: add_drop_purchase_def sql_insert_def seq_eq_Inr list_ex_iff split: if_splits)
    have none: "fetch ?key (k, b) (st_drop_purchases d) = None"
      using False by (auto simp: fetch_None list_ex_iff)
    have app: "fetch ?key (k, b) (rows @ [p]) = (case fetch ?key (k, b) rows of Some q \<Rightarrow> Some q
        | None \<Rightarrow> if ?key p = (k, b) then Some p else None)" for rows p
      by (induction rows) (auto simp: fetch_def)
    show ?thesis
      using ok c False none
      by (auto simp: d' drop_tables_ok_def table_ok_def drop_frame_def held_units_def drop_held_fetch app
          list_ex_iff)
  qed
  then show "drop_tables_ok d'" "held_units d' k' = held_units d k' + (if k' = k then u else 0)"
    "drop_held d' k b = drop_held d k b + u" "st_drops d' = st_drops d" "drop_frame d d'" by simp_all
qed

text \<open>Moving \<open>u\<close> units of one drop between the offer and its buyers.\<close>

lemma drops_ok_move:
  assumes ok: "drops_ok d"
    and u: "update_drops (\<lambda>r. dr_aggregate_id r = k \<and> P r)
      (\<lambda>r. r\<lparr>dr_remaining_quantity := dr_remaining_quantity r + m, dr_revision := dr_revision r + 1,
              dr_updated_at := now\<rparr>) d = Inr (w, d1)"
    and w: "w \<noteq> []"
    and d2: "drop_tables_ok d2" "st_drops d2 = st_drops d1"
      "\<And>k'. held_units d2 k' = held_units d1 k' - (if k' = k then m else 0)"
  shows "drops_ok d2"
proof -
  have t: "table_ok dr_aggregate_id drop_check (st_drops d)"
    using ok by (simp add: drops_ok_def drop_tables_ok_def)
  obtain r where r: "fetch dr_aggregate_id k (st_drops d) = Some r" "P r"
    using drops.upd_one [OF t u] w by auto
  have d1: "d1 = d\<lparr>st_drops := map (\<lambda>r. if dr_aggregate_id r = k \<and> P r
      then r\<lparr>dr_remaining_quantity := dr_remaining_quantity r + m, dr_revision := dr_revision r + 1,
              dr_updated_at := now\<rparr> else r) (st_drops d)\<rparr>"
    using u by (simp add: drops.upd_Inr)
  have only: "r' = r" if "r' \<in> set (st_drops d)" "dr_aggregate_id r' = k" for r'
    using fetch_unique [OF t r(1) that] .
  have held: "held_units d1 k' = held_units d k'" for k'
    by (simp add: d1 held_units_def)
  have "balanced d2 r'" if "r' \<in> set (st_drops d2)" for r'
  proof -
    from that obtain q where q: "q \<in> set (st_drops d)" "r' = (if dr_aggregate_id q = k \<and> P q
        then q\<lparr>dr_remaining_quantity := dr_remaining_quantity q + m, dr_revision := dr_revision q + 1,
              dr_updated_at := now\<rparr> else q)"
      by (auto simp: d2 d1)
    have "balanced d q" using ok q(1) by (auto simp: drops_ok_def list_all_iff)
    with q only [of q] r(2) show ?thesis by (auto simp: balanced_def d2 held)
  qed
  with d2(1) show ?thesis by (auto simp: drops_ok_def list_all_iff)
qed

lemma enforce_drop_gate_effect:
  assumes ok: "drops_ok d" and r0: "fetch_drop d (dr_aggregate_id r0) = Some r0"
    and run: "enforce_drop_gate new_v4 r0 buyer units command_id now d = Inr (Inr r, d')"
  shows "drops_ok d'" "drop_frame d d'" "effective_state r0 now = ''live''"
    "dr_remaining_quantity r = dr_remaining_quantity r0 - units" "0 \<le> dr_remaining_quantity r"
    "dr_aggregate_id r = dr_aggregate_id r0"
    "drop_held d' (dr_aggregate_id r0) buyer = drop_held d (dr_aggregate_id r0) buyer + units"
    "drop_held d' (dr_aggregate_id r0) buyer \<le> dr_per_buyer_limit r0"
proof -
  let ?k = "dr_aggregate_id r0"
  let ?f = "\<lambda>r. r\<lparr>dr_remaining_quantity := dr_remaining_quantity r - units,
      dr_revision := dr_revision r + 1, dr_updated_at := now\<rparr>"
  obtain r1 d1 w d2 x where t1: "apply_time_transitions new_v4 r0 command_id now d = Inr (r1, d1)"
    and live: "dr_state r1 = ''live''" and cap: "units \<le> dr_remaining_quantity r1"
      "drop_held d1 (dr_aggregate_id r1) buyer + units \<le> dr_per_buyer_limit r1"
    and u: "update_drops (\<lambda>r. dr_aggregate_id r = dr_aggregate_id r1) ?f d1 = Inr (r # w, d2)"
    and p: "add_drop_purchase (dr_aggregate_id r1) buyer units (dr_per_buyer_limit r1) d2 = Inr (x, d')"
    using run
    by (auto simp: enforce_drop_gate_def seq_eq_Inr fetch_one_Inr refuse_def not_less split: if_splits)
  note e1 = apply_time_transitions_effect [OF ok r0 t1]
  have k: "dr_aggregate_id r1 = ?k" by (rule e1)
  have u': "update_drops (\<lambda>r. dr_aggregate_id r = ?k \<and> True)
    (\<lambda>r. r\<lparr>dr_remaining_quantity := dr_remaining_quantity r + (- units), dr_revision := dr_revision r + 1,
              dr_updated_at := now\<rparr>) d1 = Inr (r # w, d2)"
    using u by (simp add: k)
  have t: "table_ok dr_aggregate_id drop_check (st_drops d1)"
    using e1(1) by (simp add: drops_ok_def drop_tables_ok_def)
  have r: "r = ?f r1" "drop_check r"
    using u e1(2) drops.upd_key_row [OF t, of ?k] by (auto simp: drops.upd_Inr fetch_drop_def k)
  have t2: "drop_tables_ok d2" "st_drop_purchases d2 = st_drop_purchases d1" "drop_frame d1 d2"
    using e1(1) drops.upd_ok [OF u _ t] u
    by (auto simp: drops_ok_def drop_tables_ok_def drops.upd_Inr drop_frame_def)
  note e2 = add_drop_purchase_effect [OF t2(1) p]
  have held: "drop_held d' ?k buyer = drop_held d ?k buyer + units"
    using e2(3) t2(2) e1(4) by (simp add: k drop_held_def)
  show "drops_ok d'"
    by (rule drops_ok_move [OF e1(1) u' _ e2(1,4)]) (simp_all add: e2(2) k)
  show "drop_frame d d'"
    using e1(3) t2(3) e2(5) drop_frame_trans by blast
  show "effective_state r0 now = ''live''" using live e1(5) by simp
  show "dr_remaining_quantity r = dr_remaining_quantity r0 - units" "dr_aggregate_id r = ?k"
    using e1(6,10) by (simp_all add: r(1))
  show "0 \<le> dr_remaining_quantity r" using r(2) by (simp add: drop_check_def)
  show "drop_held d' ?k buyer = drop_held d ?k buyer + units" by (rule held)
  show "drop_held d' ?k buyer \<le> dr_per_buyer_limit r0"
    using held cap(2) e1(4,8,10) by (simp add: drop_held_def)
qed

lemma credit_drop_release_effect:
  assumes ok: "drops_ok d" and run: "credit_drop_release k buyer units now d = Inr (True, d')"
  shows "drops_ok d'" "drop_frame d d'" "drop_held d' k buyer = drop_held d k buyer - units"
proof -
  obtain r w d1 w2 where u: "update_drops
      (\<lambda>r. dr_aggregate_id r = k \<and> dr_remaining_quantity r + units \<le> dr_total_quantity r)
      (\<lambda>r. r\<lparr>dr_remaining_quantity := dr_remaining_quantity r + units, dr_revision := dr_revision r + 1,
              dr_updated_at := now\<rparr>) d = Inr (r # w, d1)"
    and p: "update_drop_purchases (\<lambda>p. dp_drop_aggregate_id p = k \<and> dp_buyer_pubky p = buyer \<and> units \<le> dp_quantity p)
      (\<lambda>p. p\<lparr>dp_quantity := dp_quantity p - units\<rparr>) d1 = Inr (w2, d')" and w2: "length w2 = 1"
    using run by (auto simp: credit_drop_release_def seq_eq_Inr length_Suc_conv split: if_splits)
  have t: "table_ok dr_aggregate_id drop_check (st_drops d)"
    using ok by (simp add: drops_ok_def drop_tables_ok_def)
  have t1: "drop_tables_ok d1" "st_drop_purchases d1 = st_drop_purchases d" "drop_frame d d1"
    using ok drops.upd_ok [OF u _ t] u
    by (auto simp: drops_ok_def drop_tables_ok_def drops.upd_Inr drop_frame_def)
  have p': "update_drop_purchases (\<lambda>p. dp_drop_aggregate_id p = k \<and> dp_buyer_pubky p = buyer \<and> units \<le> dp_quantity p)
      (\<lambda>p. p\<lparr>dp_quantity := dp_quantity p + (- units)\<rparr>) d1 = Inr (w2, d')"
    using p by simp
  have "w2 \<noteq> []" using w2 by auto
  note e = update_purchase_effect [OF t1(1) p' this]
  show "drops_ok d'"
    by (rule drops_ok_move [OF ok u _ e(1,4)]) (simp_all add: e(2))
  show "drop_frame d d'" using t1(3) e(5) drop_frame_trans by blast
  show "drop_held d' k buyer = drop_held d k buyer - units"
    using e(3) t1(2) by (simp add: drop_held_def)
qed

lemma end_sold_out_effect:
  assumes ok: "drops_ok d" and r: "fetch_drop d k = Some r"
    and run: "end_sold_out new_v4 r k actor command_id now d = Inr (x, d')"
  shows "drops_ok d'"
    "fetch_drop d' k = Some (r\<lparr>dr_state := ''ended_sold_out'', dr_revision := dr_revision r + 1, dr_updated_at := now\<rparr>)"
proof -
  let ?f = "\<lambda>q. q\<lparr>dr_state := ''ended_sold_out'', dr_revision := dr_revision r + 1, dr_updated_at := now\<rparr>"
  obtain w d1 e d3 where u: "update_drops (\<lambda>r. dr_aggregate_id r = k) ?f d = Inr (w, d1)"
    and ev: "insert_event new_v4 command_id k (dr_revision r + 1) actor ''drop.ended'' now
      (deactivate_drop_listing_bindings k d1) = Inr (e, d3)"
    and d': "d' = insert_notification_intent e ''drop_sold_out'' (dr_seller_pubky r) actor k None now d3"
    using run by (auto simp: end_sold_out_def Let_def seq_eq_Inr)
  have same: "st_drops d' = st_drops d1" "st_drop_purchases d' = st_drop_purchases d1"
    using insert_event_Inr [OF ev]
    by (auto simp: d' insert_notification_intent_def deactivate_drop_listing_bindings_def)
  have "drops_ok d1" by (rule drops_ok_update [OF ok u]) simp_all
  with same drops_ok_cong show "drops_ok d'" by blast
  show "fetch_drop d' k = Some (?f r)"
    using drops.upd_fetch [OF u, of k] r drops_ok_balanced(2) [OF ok r] by (simp add: fetch_drop_def same)
qed

lemma record_paid_unit_effect:
  assumes ok: "drops_ok d" and r0: "fetch_drop d k = Some r0"
    and run: "record_paid_unit new_v4 k actor command_id now d = Inr (Inr edition, d')"
  shows "drops_ok d'" "edition = dr_paid_quantity r0 + 1" "edition \<le> dr_total_quantity r0"
    "\<exists>r. fetch_drop d' k = Some r \<and> dr_paid_quantity r = edition
      \<and> dr_state r = (if edition = dr_total_quantity r0 \<and> effective_state r0 now = ''live''
                        then ''ended_sold_out'' else effective_state r0 now)"
proof -
  let ?f = "\<lambda>r. r\<lparr>dr_paid_quantity := dr_paid_quantity r + 1, dr_revision := dr_revision r + 1,
    dr_updated_at := now\<rparr>"
  have k: "dr_aggregate_id r0 = k" using drops_ok_balanced(2) [OF ok r0] .
  obtain r1 d1 r w d2 x where t1: "apply_time_transitions new_v4 r0 command_id now d = Inr (r1, d1)"
    and u: "update_drops (\<lambda>r. dr_aggregate_id r = k) ?f d1 = Inr (r # w, d2)"
    and tail: "(if dr_paid_quantity r = dr_total_quantity r \<and> dr_state r = ''live''
      then end_sold_out new_v4 r k actor command_id now d2 else Inr ((), d2)) = Inr (x, d')"
    and edition: "edition = dr_paid_quantity r"
    using run r0 by (auto simp: record_paid_unit_def seq_eq_Inr fetch_one_Inr)
  note e1 = apply_time_transitions_effect [OF ok _ t1, unfolded k, OF r0]
  have t: "table_ok dr_aggregate_id drop_check (st_drops d1)"
    using e1(1) by (simp add: drops_ok_def drop_tables_ok_def)
  have r: "r = ?f r1" "drop_check r"
    using u e1(2) drops.upd_key_row [OF t, of k] by (auto simp: drops.upd_Inr fetch_drop_def)
  have d2: "drops_ok d2" "fetch_drop d2 k = Some r"
    using drops_ok_update [OF e1(1) u] drops.upd_fetch [OF u, of k] e1(2) e1(10)
    by (simp_all add: fetch_drop_def r(1))
  show "edition = dr_paid_quantity r0 + 1" using e1(9) by (simp add: edition r(1))
  show "edition \<le> dr_total_quantity r0"
    using r(2) e1(7) by (simp add: drop_check_def edition r(1))
  show "drops_ok d'" using tail d2 end_sold_out_effect(1) [OF d2] by (auto split: if_splits)
  show "\<exists>r. fetch_drop d' k = Some r \<and> dr_paid_quantity r = edition
      \<and> dr_state r = (if edition = dr_total_quantity r0 \<and> effective_state r0 now = ''live''
                        then ''ended_sold_out'' else effective_state r0 now)"
    using tail d2 end_sold_out_effect(2) [OF d2] e1(5,7)
    by (auto simp: edition r(1) split: if_splits)
qed

lemma sample_drop_ok: "drops_ok sample_drop_db" "fetch_drop sample_drop_db ''drop:d'' = Some sample_drop"
  by (simp_all add: drops_ok_def drop_tables_ok_def table_ok_def sample_drop_db_def sample_drop_def
      empty_db_def drop_check_def drop_purchase_check_def balanced_def held_units_def fetch_drop_def
      fetch_def in_bigint_def i64_min_def i64_max_def)

section \<open>Properties\<close>

text \<open>C10: The gate never oversells.  When it admits a hold, the drop is live on server time, what
  remains stays non-negative, the buyer's counter grows by exactly the held units and stays within the
  per-buyer limit, and the books of every drop still balance: units on offer plus units held equal the
  total.\<close>

theorem drop_gate_keeps_books:
  assumes "drops_ok d" "fetch_drop d (dr_aggregate_id r0) = Some r0"
    and "enforce_drop_gate new_v4 r0 buyer units command_id now d = Inr (Inr r, d')"
  shows "drops_ok d' \<and> effective_state r0 now = ''live''
    \<and> dr_remaining_quantity r = dr_remaining_quantity r0 - units \<and> 0 \<le> dr_remaining_quantity r
    \<and> drop_held d' (dr_aggregate_id r0) buyer = drop_held d (dr_aggregate_id r0) buyer + units
    \<and> drop_held d' (dr_aggregate_id r0) buyer \<le> dr_per_buyer_limit r0"
  using enforce_drop_gate_effect [OF assms] by simp

theorem drop_gate_keeps_books_witness:
  "\<exists>r d'. enforce_drop_gate (\<lambda>n. show_nat n) sample_drop ''buyer'' 1 ''c'' 200 sample_drop_db = Inr (Inr r, d')
     \<and> drops_ok d' \<and> dr_remaining_quantity r = 3 \<and> drop_held d' ''drop:d'' ''buyer'' = 2"
proof -
  have "accepted (enforce_drop_gate (\<lambda>n. show_nat n) sample_drop ''buyer'' 1 ''c'' 200 sample_drop_db)"
    by code_simp
  then obtain r d' where run:
    "enforce_drop_gate (\<lambda>n. show_nat n) sample_drop ''buyer'' 1 ''c'' 200 sample_drop_db = Inr (Inr r, d')"
    by (auto simp: accepted_iff)
  have "dr_aggregate_id sample_drop = ''drop:d''" "dr_remaining_quantity sample_drop = 4"
    "drop_held sample_drop_db ''drop:d'' ''buyer'' = 1"
    by (simp_all add: sample_drop_def sample_drop_db_def empty_db_def drop_held_def)
  with run drop_gate_keeps_books [OF sample_drop_ok(1) _ run] sample_drop_ok(2) show ?thesis by simp
qed

text \<open>A credited release undoes a hold.  When \<open>credit_drop_release\<close> answers true the units are
  back on offer, the buyer's counter lost exactly them, and the books of every drop still balance.\<close>

theorem drop_credit_keeps_books:
  assumes "drops_ok d" "credit_drop_release k buyer units now d = Inr (True, d')"
  shows "drops_ok d' \<and> drop_held d' k buyer = drop_held d k buyer - units"
  using credit_drop_release_effect [OF assms] by simp

theorem drop_credit_keeps_books_witness:
  "\<exists>d'. credit_drop_release ''drop:d'' ''buyer'' 1 200 sample_drop_db = Inr (True, d')
     \<and> drops_ok d' \<and> drop_held d' ''drop:d'' ''buyer'' = 0"
proof -
  obtain d' where run: "credit_drop_release ''drop:d'' ''buyer'' 1 200 sample_drop_db = Inr (True, d')"
    by (simp add: credit_drop_release_def sample_drop_db_def sample_drop_def empty_db_def fetch_drop_def
        fetch_def update_drops_def sql_update_def drop_check_def in_bigint_def i64_min_def i64_max_def
        update_drop_purchases_def drop_purchase_check_def Let_def)
  have "drop_held sample_drop_db ''drop:d'' ''buyer'' = 1"
    by (simp add: sample_drop_db_def empty_db_def drop_held_def)
  with run drop_credit_keeps_books [OF sample_drop_ok(1) run] show ?thesis by simp
qed

text \<open>Editions are numbered one by one.  Recording a paid unit answers the previous paid count
  plus one, never more than the drop's total, stores that count, ends the drop as sold out exactly when
  a live drop reaches its total, and leaves the books balanced.\<close>

theorem paid_units_number_editions:
  assumes "drops_ok d" "fetch_drop d k = Some r0"
    and "record_paid_unit new_v4 k actor command_id now d = Inr (Inr edition, d')"
  shows "drops_ok d' \<and> edition = dr_paid_quantity r0 + 1 \<and> edition \<le> dr_total_quantity r0
    \<and> (\<exists>r. fetch_drop d' k = Some r \<and> dr_paid_quantity r = edition
         \<and> dr_state r = (if edition = dr_total_quantity r0 \<and> effective_state r0 now = ''live''
                           then ''ended_sold_out'' else effective_state r0 now))"
  using record_paid_unit_effect [OF assms] by simp

theorem paid_units_number_editions_witness:
  "\<exists>d' r. record_paid_unit (\<lambda>n. show_nat n) ''drop:d'' ''seller'' ''c'' 200 sample_drop_db = Inr (Inr 2, d')
     \<and> fetch_drop d' ''drop:d'' = Some r \<and> dr_paid_quantity r = 2 \<and> dr_state r = ''live''"
proof -
  have "accepted (record_paid_unit (\<lambda>n. show_nat n) ''drop:d'' ''seller'' ''c'' 200 sample_drop_db)"
    by code_simp
  then obtain e d' where run:
    "record_paid_unit (\<lambda>n. show_nat n) ''drop:d'' ''seller'' ''c'' 200 sample_drop_db = Inr (Inr e, d')"
    by (auto simp: accepted_iff)
  have "dr_paid_quantity sample_drop = 1" "dr_total_quantity sample_drop = 5"
    "effective_state sample_drop 200 = ''live''"
    by (simp_all add: sample_drop_def effective_state_def is_active_state_def derived_state_def)
  with run paid_units_number_editions [OF sample_drop_ok run] show ?thesis by auto
qed

end
