(* ===== verification/Holds.thy ===== *)
theory Holds
  imports Drops
begin

text \<open>
  \<^verbatim>\<open>crates/service/src/handlers/holds.rs\<close>: the inventory an order holds.  \<open>release_lines\<close> returns the
  lines of an order to stock, \<open>acquire_payment_hold\<close> takes them from it.

  The facts are about the ledger: what a listing counts as reserved is what its active reservations and
  the orders that hold stock of their own account for, line by line.  \<open>ledger_off\<close> allows a difference
  per listing, so that the loops over the lines can be followed step by step.
\<close>

section \<open>Refusal copy\<close>

definition SOLD_OUT_BEFORE_PAYMENT :: string where
  "SOLD_OUT_BEFORE_PAYMENT = ''The listing sold out before this payment started.''"

definition HOLDING_COPY :: string where
  "HOLDING_COPY = ''Another buyer's payment is holding this item. If it isn't completed in time, the item restocks.''"

definition LISTING_REMOVED_COPY :: string where
  "LISTING_REMOVED_COPY = ''The seller removed this listing before this payment started.''"

section \<open>Releasing lines\<close>

datatype held_quantity = Reserved | Sold

fun held_column :: "held_quantity \<Rightarrow> listing_row \<Rightarrow> int" where
  "held_column Reserved l = ls_reserved_quantity l"
| "held_column Sold l = ls_sold_quantity l"

fun subtract_held :: "held_quantity \<Rightarrow> int \<Rightarrow> listing_row \<Rightarrow> listing_row" where
  "subtract_held Reserved q l = l\<lparr>ls_reserved_quantity := ls_reserved_quantity l - q\<rparr>"
| "subtract_held Sold q l = l\<lparr>ls_sold_quantity := ls_sold_quantity l - q\<rparr>"

definition released_row :: "held_quantity \<Rightarrow> int \<Rightarrow> datetime \<Rightarrow> listing_row \<Rightarrow> listing_row" where
  "released_row held quantity now l =
     (subtract_held held quantity l)\<lparr>ls_server_revision := ls_server_revision l + 1,
        ls_state := ''available'', ls_available_quantity := ls_available_quantity l + quantity,
        ls_updated_at := now\<rparr>"

definition missing_listing :: command_failure where
  "missing_listing =
     refused RInvariantViolation InvariantViolation ''An order line's listing is missing.''"

definition unaccounted_inventory :: command_failure where
  "unaccounted_inventory =
     refused RInvariantViolation InvariantViolation
       ''The inventory held by this order is no longer accounted to its listing.''"

definition release_line ::
  "held_quantity \<Rightarrow> order_line \<Rightarrow> datetime \<Rightarrow> db \<Rightarrow> (command_failure + unit) tx" where
  "release_line held line now d =
     (case fetch_listing d (ol_listing_aggregate_id line) of
        None \<Rightarrow> refuse missing_listing d
      | Some _ \<Rightarrow>
          seq (update_listings
                 (\<lambda>l. ls_aggregate_id l = ol_listing_aggregate_id line
                    \<and> ol_quantity line \<le> held_column held l)
                 (released_row held (ol_quantity line) now) d)
            (\<lambda>updated d1. if length updated \<noteq> 1 then refuse unaccounted_inventory d1
                          else Inr (Inr (), d1)))"

fun release_line_list ::
  "held_quantity \<Rightarrow> order_line list \<Rightarrow> datetime \<Rightarrow> db \<Rightarrow> (command_failure + unit) tx" where
  "release_line_list held [] now d = Inr (Inr (), d)"
| "release_line_list held (line # lines) now d =
     attempt (release_line held line now d) (\<lambda>_. release_line_list held lines now)"

definition release_lines ::
  "order_row \<Rightarrow> held_quantity \<Rightarrow> datetime \<Rightarrow> db \<Rightarrow> (command_failure + unit) tx" where
  "release_lines order held now d = release_line_list held (or_lines order) now d"

section \<open>Acquiring a hold\<close>

definition held_state :: "listing_row \<Rightarrow> int \<Rightarrow> string" where
  "held_state listing quantity =
     (if ls_available_quantity listing = quantity then ''reserved'' else ''available'')"

definition reserved_row :: "string \<Rightarrow> int \<Rightarrow> datetime \<Rightarrow> listing_row \<Rightarrow> listing_row" where
  "reserved_row new_state quantity now l =
     l\<lparr>ls_server_revision := ls_server_revision l + 1, ls_state := new_state,
       ls_available_quantity := ls_available_quantity l - quantity,
       ls_reserved_quantity := ls_reserved_quantity l + quantity, ls_updated_at := now\<rparr>"

definition sold_out_before_payment :: command_failure where
  "sold_out_before_payment =
     refused RInsufficientInventory InsufficientInventory SOLD_OUT_BEFORE_PAYMENT"

definition hold_line :: "datetime \<Rightarrow> order_line \<Rightarrow> datetime \<Rightarrow> db \<Rightarrow> (command_failure + unit) tx" where
  "hold_line created_at line now d =
     (case fetch_listing d (ol_listing_aggregate_id line) of
        None \<Rightarrow> refuse missing_listing d
      | Some listing \<Rightarrow>
          if \<not> accepts_commitment_created_at listing created_at
          then refuse (refused RNotFound NotFound LISTING_REMOVED_COPY) d
          else if ls_available_quantity listing < ol_quantity line
          then (if ls_state listing = ''reserved'' \<or> 0 < ls_reserved_quantity listing
                then refuse (refused RInvalidState InvalidState HOLDING_COPY) d
                else refuse sold_out_before_payment d)
          else
            seq (update_listings
                   (\<lambda>l. ls_aggregate_id l = ol_listing_aggregate_id line
                      \<and> ol_quantity line \<le> ls_available_quantity l)
                   (reserved_row (held_state listing (ol_quantity line)) (ol_quantity line) now) d)
              (\<lambda>updated d1. if length updated \<noteq> 1 then refuse sold_out_before_payment d1
                            else Inr (Inr (), d1)))"

fun hold_line_list ::
  "datetime \<Rightarrow> order_line list \<Rightarrow> datetime \<Rightarrow> db \<Rightarrow> (command_failure + unit) tx" where
  "hold_line_list created_at [] now d = Inr (Inr (), d)"
| "hold_line_list created_at (line # lines) now d =
     attempt (hold_line created_at line now d) (\<lambda>_. hold_line_list created_at lines now)"

definition acquire_payment_hold ::
  "order_row \<Rightarrow> int \<Rightarrow> string \<Rightarrow> datetime \<Rightarrow> db \<Rightarrow> (command_failure + order_row) tx" where
  "acquire_payment_hold order window_seconds hold_source now d =
     (if or_auction_aggregate_id order \<noteq> None then Inr (Inr order, d)
      else if or_state order \<noteq> ''pending_payment''
      then refuse (refused RInvalidState InvalidState
             ''Only an order pending payment can start a payment.'') d
      else
        let hold_expires_at = now + seconds window_seconds
        in if or_stock_held order
           then seq (fetch_one (update_orders (\<lambda>r. or_id r = or_id order)
                       (\<lambda>r. r\<lparr>or_hold_expires_at := Some hold_expires_at,
                               or_hold_source := Some hold_source, or_updated_at := now\<rparr>) d))
                  (\<lambda>rearmed d1. Inr (Inr rearmed, d1))
           else
             attempt (hold_line_list (or_created_at order) (or_lines order) now d)
               (\<lambda>_ d1.
                  seq (fetch_one (update_orders (\<lambda>r. or_id r = or_id order)
                         (\<lambda>r. r\<lparr>or_stock_held := True, or_hold_expires_at := Some hold_expires_at,
                                 or_hold_source := Some hold_source, or_updated_at := now\<rparr>) d1))
                    (\<lambda>held d2. Inr (Inr held, d2))))"

section \<open>The ledger\<close>

definition line_units :: "order_line list \<Rightarrow> string \<Rightarrow> int" where
  "line_units lines a =
     sum_list (map (\<lambda>line. if ol_listing_aggregate_id line = a then ol_quantity line else 0) lines)"

definition order_holds :: "order_row \<Rightarrow> string \<Rightarrow> int" where
  "order_holds o' a = (if or_stock_held o' then line_units (or_lines o') a else 0)"

definition reservation_holds :: "reservation_row \<Rightarrow> string \<Rightarrow> int" where
  "reservation_holds r a =
     (if rv_listing_aggregate_id r = a \<and> rv_status r = ''active'' then rv_quantity r else 0)"

definition accounted :: "db \<Rightarrow> string \<Rightarrow> int" where
  "accounted d a =
     sum_list (map (\<lambda>r. reservation_holds r a) (st_reservations d))
   + sum_list (map (\<lambda>o'. order_holds o' a) (st_orders d))"

definition stock_tables_ok :: "db \<Rightarrow> bool" where
  "stock_tables_ok d \<longleftrightarrow>
     table_ok ls_aggregate_id listing_check (st_listings d)
     \<and> table_ok rv_id reservation_check (st_reservations d)
     \<and> table_ok or_id order_check (st_orders d)"

definition ledger_off :: "(string \<Rightarrow> int) \<Rightarrow> db \<Rightarrow> bool" where
  "ledger_off g d \<longleftrightarrow>
     list_all (\<lambda>l. ls_reserved_quantity l = accounted d (ls_aggregate_id l) + g (ls_aggregate_id l))
       (st_listings d)"

text \<open>Every listing's reserved quantity is accounted for.\<close>

definition stock_ok :: "db \<Rightarrow> bool" where
  "stock_ok d \<longleftrightarrow> stock_tables_ok d \<and> ledger_off (\<lambda>_. 0) d"

definition total_stock :: "db \<Rightarrow> string \<Rightarrow> int option" where
  "total_stock d a = map_option ls_total_quantity (fetch_listing d a)"

text \<open>What one move of a line leaves: only listings change, their constraints hold, totals stand.\<close>

definition listings_step :: "db \<Rightarrow> db \<Rightarrow> bool" where
  "listings_step d d' \<longleftrightarrow>
     (\<exists>rows. d' = d\<lparr>st_listings := rows\<rparr>)
     \<and> table_ok ls_aggregate_id listing_check (st_listings d') \<and> (\<forall>a. total_stock d' a = total_stock d a)"

section \<open>A sample\<close>

definition sample_listing :: listing_row where
  "sample_listing =
     \<lparr>ls_aggregate_id = ''listing:l'', ls_seller_pubky = ''seller'', ls_listing_id = ''l'', ls_title = ''Mug'',
      ls_listing_revision = 1, ls_content_hash = ''h'', ls_server_revision = 7, ls_state = ''available'',
      ls_total_quantity = 5, ls_available_quantity = 4, ls_reserved_quantity = 1, ls_sold_quantity = 0,
      ls_unit_price_amount_minor = 100, ls_unit_price_currency = ''USD'', ls_unit_price_exponent = 2,
      ls_shipping_minor = 0, ls_sale_format = ''fixed_price'', ls_auction = None,
      ls_fulfillment_methods = [''shipping''], ls_updated_at = 0, ls_deleted_at = None,
      ls_recreated_at = None, ls_generation = 0, ls_digital_delivery_kind = None,
      ls_digital_delivery_content_type = None, ls_digital_delivery_size_bytes = None,
      ls_digital_lock_policy_uri = None, ls_digital_lock_criterion_id = None, ls_deleted_event_cursor = None,
      ls_revived_from_cursor = None, ls_record_epoch = 0\<rparr>"

definition sample_line :: order_line where
  "sample_line =
     \<lparr>ol_listing_aggregate_id = ''listing:l'', ol_listing_revision = 1, ol_content_hash = Some ''h'',
      ol_title = ''Mug'', ol_quantity = 2,
      ol_unit_price = \<lparr>amount_minor = 100, currency = ''USD'', exponent = 2\<rparr>,
      ol_subtotal = \<lparr>amount_minor = 200, currency = ''USD'', exponent = 2\<rparr>,
      ol_version_at_payment = None, ol_digital_kind = None,
      ol_fulfillment = None, ol_variant_id = None, ol_variant_options = None, ol_offer = None\<rparr>"

definition sample_order :: order_row where
  "sample_order =
     \<lparr>or_id = ''o1'', or_auction_aggregate_id = None, or_drop_aggregate_id = None, or_buyer_pubky = ''buyer'',
      or_seller_pubky = ''seller'', or_revision = 1, or_state = ''pending_payment'', or_lines = [sample_line],
      or_subtotal_minor = 200, or_shipping_minor = 0, or_total_minor = 200, or_currency = ''USD'',
      or_exponent = 2, or_guarantee_policy_version = 1, or_payment_id = ''p1'', or_cancellation_reason = None,
      or_stock_held = False, or_hold_expires_at = None, or_hold_source = None, or_shipment = None,
      or_return_request = None, or_external_refund = None, or_payment_method = None,
      or_paykit_request_state = None, or_paykit_invoice_id = None, or_paykit_stack_id = None,
      or_paykit_stack_endpoint = None, or_paykit_total_sats = None, or_paykit_activation_state = None,
      or_fulfillment = ''shipping'', or_first_revealed_at = None, or_checkout_command_id = None,
      or_delivery_address = None, or_receipt_id = None, or_edition = None, or_digital_delivered_at = None, or_digital_message_delivered_at = None, or_delivery_assumed = False,
      or_payment_reversed_at = None,
      or_offer_award_id = None, or_priced_from = ''listing'', or_created_at = 0, or_updated_at = 0\<rparr>"

definition sample_reservation :: reservation_row where
  "sample_reservation =
     \<lparr>rv_id = ''r1'', rv_listing_aggregate_id = ''listing:l'', rv_buyer_pubky = ''other'', rv_quantity = 1,
      rv_status = ''active'', rv_expires_at = 600, rv_created_at = 0, rv_updated_at = 0,
      rv_drop_aggregate_id = None, rv_offer_award_id = None\<rparr>"

definition sample_stock_db :: db where
  "sample_stock_db =
     empty_db\<lparr>st_listings := [sample_listing], st_reservations := [sample_reservation],
       st_orders := [sample_order]\<rparr>"

section \<open>Facts\<close>

lemma released_row_simps [simp]:
  "ls_aggregate_id (released_row h q now l) = ls_aggregate_id l"
  "ls_total_quantity (released_row h q now l) = ls_total_quantity l"
  "ls_available_quantity (released_row h q now l) = ls_available_quantity l + q"
  "ls_reserved_quantity (released_row h q now l) = ls_reserved_quantity l - (if h = Reserved then q else 0)"
  "ls_sold_quantity (released_row h q now l) = ls_sold_quantity l - (if h = Sold then q else 0)"
  "ls_server_revision (released_row h q now l) = ls_server_revision l + 1"
  "ls_state (released_row h q now l) = ''available''"
  by (cases h; simp add: released_row_def)+

lemma reserved_row_simps [simp]:
  "ls_aggregate_id (reserved_row s q now l) = ls_aggregate_id l"
  "ls_total_quantity (reserved_row s q now l) = ls_total_quantity l"
  "ls_available_quantity (reserved_row s q now l) = ls_available_quantity l - q"
  "ls_reserved_quantity (reserved_row s q now l) = ls_reserved_quantity l + q"
  "ls_sold_quantity (reserved_row s q now l) = ls_sold_quantity l"
  "ls_server_revision (reserved_row s q now l) = ls_server_revision l + 1"
  "ls_state (reserved_row s q now l) = s"
  by (simp_all add: reserved_row_def)

lemma accounted_cong:
  "st_reservations d' = st_reservations d \<Longrightarrow> st_orders d' = st_orders d \<Longrightarrow> accounted d' a = accounted d a"
  by (simp add: accounted_def)

lemma stock_ok_frame: "drop_frame d d' \<Longrightarrow> stock_ok d \<Longrightarrow> stock_ok d'"
  by (simp add: stock_ok_def stock_tables_ok_def ledger_off_def drop_frame_def accounted_def)

text \<open>A listing moves \<open>q\<close> units into its reserved column.\<close>

lemma ledger_off_move:
  assumes t: "table_ok ls_aggregate_id listing_check (st_listings d)" and l: "ledger_off g d"
    and u: "update_listings (\<lambda>l. ls_aggregate_id l = a \<and> P l) f d = Inr (w, d')" and w: "w \<noteq> []"
    and f: "\<And>l. ls_aggregate_id (f l) = ls_aggregate_id l"
      "\<And>l. ls_reserved_quantity (f l) = ls_reserved_quantity l + q"
  shows "ledger_off (g(a := g a + q)) d'"
proof -
  obtain l0 where l0: "fetch ls_aggregate_id a (st_listings d) = Some l0" "P l0"
    using listings.upd_one [OF t u] w by auto
  have d': "d' = d\<lparr>st_listings := map (\<lambda>l. if ls_aggregate_id l = a \<and> P l then f l else l) (st_listings d)\<rparr>"
    using u by (simp add: listings.upd_Inr)
  have "ls_reserved_quantity l' = accounted d' (ls_aggregate_id l') + (g(a := g a + q)) (ls_aggregate_id l')"
    if "l' \<in> set (st_listings d')" for l'
  proof -
    from that obtain l1 where l1: "l1 \<in> set (st_listings d)"
      "l' = (if ls_aggregate_id l1 = a \<and> P l1 then f l1 else l1)"
      by (auto simp: d')
    have "ls_reserved_quantity l1 = accounted d (ls_aggregate_id l1) + g (ls_aggregate_id l1)"
      using l l1(1) by (auto simp: ledger_off_def list_all_iff)
    with l1 f l0(2) fetch_unique [OF t l0(1) l1(1)] show ?thesis
      by (auto simp: d' accounted_def)
  qed
  then show ?thesis by (auto simp: ledger_off_def list_all_iff)
qed

text \<open>The accounts change by \<open>k\<close>: the difference absorbs it.\<close>

lemma ledger_off_account:
  assumes "ledger_off g d" "st_listings d' = st_listings d"
    and "\<And>a. accounted d' a = accounted d a + k a"
  shows "ledger_off (\<lambda>a. g a - k a) d'"
  using assms by (auto simp: ledger_off_def list_all_iff)

lemma line_units_simps [simp]:
  "line_units [] a = 0"
  "line_units (line # lines) a
   = (if ol_listing_aggregate_id line = a then ol_quantity line else 0) + line_units lines a"
  by (simp_all add: line_units_def)

lemma listings_step_refl:
  "table_ok ls_aggregate_id listing_check (st_listings d) \<Longrightarrow> listings_step d d"
  by (auto simp: listings_step_def intro!: exI [of _ "st_listings d"])

lemma listings_step_trans: "listings_step d d' \<Longrightarrow> listings_step d' d'' \<Longrightarrow> listings_step d d''"
  by (auto simp: listings_step_def)

lemma listings_stepD:
  assumes "listings_step d d'"
  shows "st_reservations d' = st_reservations d" "st_orders d' = st_orders d"
    "st_payments d' = st_payments d" "st_drops d' = st_drops d" "st_drop_purchases d' = st_drop_purchases d"
    "table_ok ls_aggregate_id listing_check (st_listings d')"
  using assms by (auto simp: listings_step_def)

lemma update_listings_step:
  assumes t: "table_ok ls_aggregate_id listing_check (st_listings d)"
    and u: "update_listings c f d = Inr (w, d')"
    and f: "\<And>l. ls_aggregate_id (f l) = ls_aggregate_id l" "\<And>l. ls_total_quantity (f l) = ls_total_quantity l"
  shows "listings_step d d'"
proof -
  have "total_stock d' a = total_stock d a" for a
    using listings.upd_fetch [OF u f(1), of a] f(2)
    by (cases "fetch ls_aggregate_id a (st_listings d)") (auto simp: total_stock_def fetch_listing_def)
  with listings.upd_ok [OF u f(1) t] u show ?thesis
    by (auto simp: listings_step_def listings.upd_Inr)
qed

lemma release_line_effect:
  assumes t: "table_ok ls_aggregate_id listing_check (st_listings d)" and l: "ledger_off g d"
    and run: "release_line held line now d = Inr (Inr x, d')"
  shows "listings_step d d'"
    "ledger_off (g(ol_listing_aggregate_id line :=
       g (ol_listing_aggregate_id line) - (if held = Reserved then ol_quantity line else 0))) d'"
proof -
  obtain w where u: "update_listings (\<lambda>l. ls_aggregate_id l = ol_listing_aggregate_id line
      \<and> ol_quantity line \<le> held_column held l) (released_row held (ol_quantity line) now) d = Inr (w, d')"
    and "length w = 1"
    using run by (auto simp: release_line_def seq_eq_Inr refuse_def split: option.splits if_splits)
  then have w: "w \<noteq> []" by auto
  show "listings_step d d'" by (rule update_listings_step [OF t u]) simp_all
  have "ledger_off (g(ol_listing_aggregate_id line := g (ol_listing_aggregate_id line)
      + (- (if held = Reserved then ol_quantity line else 0)))) d'"
    by (rule ledger_off_move [OF t l u w]) simp_all
  then show "ledger_off (g(ol_listing_aggregate_id line :=
       g (ol_listing_aggregate_id line) - (if held = Reserved then ol_quantity line else 0))) d'"
    by simp
qed

lemma release_line_list_effect:
  assumes "table_ok ls_aggregate_id listing_check (st_listings d)" "ledger_off g d"
    and "release_line_list held lines now d = Inr (Inr x, d')"
  shows "listings_step d d' \<and> ledger_off (\<lambda>a. g a - (if held = Reserved then line_units lines a else 0)) d'"
  using assms
proof (induction lines arbitrary: d g)
  case Nil
  then show ?case by (simp add: listings_step_refl cong: if_cong)
next
  case (Cons line lines)
  then obtain d1 where d1: "release_line held line now d = Inr (Inr (), d1)"
    and rest: "release_line_list held lines now d1 = Inr (Inr x, d')"
    by (auto simp: attempt_accept)
  note e = release_line_effect [OF Cons.prems(1,2) d1]
  have "listings_step d1 d' \<and> ledger_off (\<lambda>a. (g(ol_listing_aggregate_id line :=
       g (ol_listing_aggregate_id line) - (if held = Reserved then ol_quantity line else 0))) a
       - (if held = Reserved then line_units lines a else 0)) d'"
    by (rule Cons.IH [OF listings_stepD(6) [OF e(1)] e(2) rest])
  moreover have "(\<lambda>a. (g(ol_listing_aggregate_id line :=
       g (ol_listing_aggregate_id line) - (if held = Reserved then ol_quantity line else 0))) a
       - (if held = Reserved then line_units lines a else 0))
     = (\<lambda>a. g a - (if held = Reserved then line_units (line # lines) a else 0))"
    by (auto simp: fun_eq_iff)
  ultimately show ?case using e(1) listings_step_trans by auto
qed

lemma hold_line_effect:
  assumes t: "table_ok ls_aggregate_id listing_check (st_listings d)" and l: "ledger_off g d"
    and run: "hold_line created_at line now d = Inr (Inr x, d')"
  shows "listings_step d d'"
    "ledger_off (g(ol_listing_aggregate_id line := g (ol_listing_aggregate_id line) + ol_quantity line)) d'"
proof -
  obtain listing w where u: "update_listings (\<lambda>l. ls_aggregate_id l = ol_listing_aggregate_id line
      \<and> ol_quantity line \<le> ls_available_quantity l)
      (reserved_row (held_state listing (ol_quantity line)) (ol_quantity line) now) d = Inr (w, d')"
    and "length w = 1"
    using run by (auto simp: hold_line_def seq_eq_Inr refuse_def split: option.splits if_splits)
  then have w: "w \<noteq> []" by auto
  show "listings_step d d'" by (rule update_listings_step [OF t u]) simp_all
  show "ledger_off (g(ol_listing_aggregate_id line := g (ol_listing_aggregate_id line) + ol_quantity line)) d'"
    by (rule ledger_off_move [OF t l u w]) simp_all
qed

lemma hold_line_list_effect:
  assumes "table_ok ls_aggregate_id listing_check (st_listings d)" "ledger_off g d"
    and "hold_line_list created_at lines now d = Inr (Inr x, d')"
  shows "listings_step d d' \<and> ledger_off (\<lambda>a. g a + line_units lines a) d'"
  using assms
proof (induction lines arbitrary: d g)
  case Nil
  then show ?case by (simp add: listings_step_refl cong: if_cong)
next
  case (Cons line lines)
  then obtain d1 where d1: "hold_line created_at line now d = Inr (Inr (), d1)"
    and rest: "hold_line_list created_at lines now d1 = Inr (Inr x, d')"
    by (auto simp: attempt_accept)
  note e = hold_line_effect [OF Cons.prems(1,2) d1]
  have "listings_step d1 d' \<and> ledger_off (\<lambda>a. (g(ol_listing_aggregate_id line :=
       g (ol_listing_aggregate_id line) + ol_quantity line)) a + line_units lines a) d'"
    by (rule Cons.IH [OF listings_stepD(6) [OF e(1)] e(2) rest])
  moreover have "(\<lambda>a. (g(ol_listing_aggregate_id line := g (ol_listing_aggregate_id line) + ol_quantity line)) a
       + line_units lines a) = (\<lambda>a. g a + line_units (line # lines) a)"
    by (auto simp: fun_eq_iff)
  ultimately show ?case using e(1) listings_step_trans by auto
qed

text \<open>Rewriting one order changes the accounts by what it holds.\<close>

lemma accounted_update_order:
  assumes t: "table_ok or_id order_check (st_orders d)" and r: "fetch or_id k (st_orders d) = Some r"
    and u: "update_orders (\<lambda>r. or_id r = k) f d = Inr (w, d')"
  shows "accounted d' a = accounted d a + (order_holds (f r) a - order_holds r a)"
    "w = [f r]" "st_listings d' = st_listings d" "st_reservations d' = st_reservations d"
proof -
  have rows: "filter (\<lambda>r. or_id r = k) (st_orders d) = [r]"
    using orders.upd_key_row [OF t, of k] r by simp
  show "w = [f r]" "st_listings d' = st_listings d" and res: "st_reservations d' = st_reservations d"
    using u rows by (simp_all add: orders.upd_Inr)
  show "accounted d' a = accounted d a + (order_holds (f r) a - order_holds r a)"
    using orders.upd_sum [OF u, of "\<lambda>o'. order_holds o' a"] rows by (simp add: accounted_def res)
qed

lemma ledger_off_cong: "ledger_off g d \<Longrightarrow> (\<And>a. g a = g' a) \<Longrightarrow> ledger_off g' d"
  by (simp add: ledger_off_def)

text \<open>Rewriting one order from a state whose difference is exactly what the rewrite accounts for.\<close>

lemma stock_ok_update_order:
  assumes t: "stock_tables_ok d" and l: "ledger_off g d" and r: "fetch or_id k (st_orders d) = Some r"
    and u: "update_orders (\<lambda>r. or_id r = k) f d = Inr (w, d')"
    and f: "\<And>r. or_id (f r) = or_id r" and g: "\<And>a. g a = order_holds (f r) a - order_holds r a"
  shows "stock_ok d'" "w = [f r]" "st_listings d' = st_listings d"
proof -
  have to: "table_ok or_id order_check (st_orders d)" using t by (simp add: stock_tables_ok_def)
  note e = accounted_update_order [OF to r u]
  show "w = [f r]" "st_listings d' = st_listings d" by (rule e)+
  have "ledger_off (\<lambda>a. g a - (order_holds (f r) a - order_holds r a)) d'"
    by (rule ledger_off_account [OF l e(3)]) (rule e(1))
  then have "ledger_off (\<lambda>_. 0) d'" by (rule ledger_off_cong) (simp add: g)
  moreover have "stock_tables_ok d'"
    using t orders.upd_ok [OF u f to] e(3,4) by (simp add: stock_tables_ok_def)
  ultimately show "stock_ok d'" by (simp add: stock_ok_def)
qed

lemma acquire_payment_hold_effect:
  assumes ok: "stock_ok d" and o0: "fetch_order d (or_id o0) = Some o0"
    and run: "acquire_payment_hold o0 window source now d = Inr (Inr o1, d')"
  shows "stock_ok d'" "\<forall>a. total_stock d' a = total_stock d a"
    "or_auction_aggregate_id o0 = None \<Longrightarrow> or_stock_held o1 \<and> or_hold_expires_at o1 = Some (now + seconds window)"
    "or_stock_held o0 \<Longrightarrow> st_listings d' = st_listings d"
proof -
  let ?rearm = "\<lambda>r. r\<lparr>or_hold_expires_at := Some (now + seconds window), or_hold_source := Some source,
    or_updated_at := now\<rparr>"
  let ?hold = "\<lambda>r. r\<lparr>or_stock_held := True, or_hold_expires_at := Some (now + seconds window),
    or_hold_source := Some source, or_updated_at := now\<rparr>"
  have r: "fetch or_id (or_id o0) (st_orders d) = Some o0" using o0 by (simp add: fetch_order_def)
  have t: "stock_tables_ok d" and l: "ledger_off (\<lambda>_. 0) d" using ok by (simp_all add: stock_ok_def)
  consider (auction) "or_auction_aggregate_id o0 \<noteq> None" "o1 = o0" "d' = d"
    | (rearm) w where "or_auction_aggregate_id o0 = None" "or_stock_held o0"
        "update_orders (\<lambda>r. or_id r = or_id o0) ?rearm d = Inr (o1 # w, d')"
    | (hold) d1 w x where "or_auction_aggregate_id o0 = None" "\<not> or_stock_held o0"
        "hold_line_list (or_created_at o0) (or_lines o0) now d = Inr (Inr x, d1)"
        "update_orders (\<lambda>r. or_id r = or_id o0) ?hold d1 = Inr (o1 # w, d')"
    using run
    by (auto simp: acquire_payment_hold_def Let_def seq_eq_Inr fetch_one_Inr attempt_accept split: if_splits)
  then have "stock_ok d' \<and> (\<forall>a. total_stock d' a = total_stock d a)
    \<and> (or_auction_aggregate_id o0 = None \<longrightarrow> or_stock_held o1 \<and> or_hold_expires_at o1 = Some (now + seconds window))
    \<and> (or_stock_held o0 \<longrightarrow> st_listings d' = st_listings d)"
  proof cases
    case auction
    with ok show ?thesis by auto
  next
    case rearm
    have "stock_ok d'" "o1 # w = [?rearm o0]" "st_listings d' = st_listings d"
      by (rule stock_ok_update_order [OF t l r rearm(3)]; simp add: order_holds_def)+
    with rearm(1,2) show ?thesis by (auto simp: total_stock_def fetch_listing_def)
  next
    case hold
    have tl: "table_ok ls_aggregate_id listing_check (st_listings d)"
      using t by (simp add: stock_tables_ok_def)
    have s: "listings_step d d1" and l1: "ledger_off (\<lambda>a. line_units (or_lines o0) a) d1"
      using hold_line_list_effect [OF tl l hold(3)] by auto
    have t1: "stock_tables_ok d1" and r1: "fetch or_id (or_id o0) (st_orders d1) = Some o0"
      using t r listings_stepD [OF s] by (simp_all add: stock_tables_ok_def)
    have "stock_ok d'" "o1 # w = [?hold o0]" "st_listings d' = st_listings d1"
      using hold(2)
      by (rule_tac stock_ok_update_order [OF t1 l1 r1 hold(4)]; simp add: order_holds_def)+
    with s hold(1,2) show ?thesis
      by (auto simp: listings_step_def total_stock_def fetch_listing_def)
  qed
  then show "stock_ok d'" "\<forall>a. total_stock d' a = total_stock d a"
    "or_auction_aggregate_id o0 = None \<Longrightarrow> or_stock_held o1 \<and> or_hold_expires_at o1 = Some (now + seconds window)"
    "or_stock_held o0 \<Longrightarrow> st_listings d' = st_listings d" by simp_all
qed

lemma sample_stock_ok: "stock_ok sample_stock_db" "fetch_order sample_stock_db ''o1'' = Some sample_order"
  by (simp_all add: stock_ok_def stock_tables_ok_def table_ok_def sample_stock_db_def sample_listing_def
      sample_reservation_def sample_order_def sample_line_def empty_db_def listing_check_def deletion_evidence_check_def
      reservation_check_def order_check_def ORDER_STATES_def in_bigint_def i64_min_def i64_max_def
      ledger_off_def accounted_def reservation_holds_def order_holds_def fetch_order_def fetch_def)

lemma sample_stock_drops: "drops_ok sample_stock_db"
  by (simp add: drops_ok_def drop_tables_ok_def table_ok_def sample_stock_db_def empty_db_def)

section \<open>Properties\<close>

text \<open>Taking a payment hold keeps the ledger.  When every unit a listing counts as reserved is
  accounted to an active reservation or to an order that holds stock, the same is true after
  \<open>acquire_payment_hold\<close> succeeds; no listing's total changes; an order that already held its stock only
  has its window re-armed, so the units are never taken twice.\<close>

theorem payment_hold_keeps_ledger:
  assumes "stock_ok d" "fetch_order d (or_id o0) = Some o0"
    and "acquire_payment_hold o0 window source now d = Inr (Inr o1, d')"
  shows "stock_ok d' \<and> (\<forall>a. total_stock d' a = total_stock d a)
    \<and> (or_auction_aggregate_id o0 = None \<longrightarrow>
        or_stock_held o1 \<and> or_hold_expires_at o1 = Some (now + seconds window))
    \<and> (or_stock_held o0 \<longrightarrow> st_listings d' = st_listings d)"
  using acquire_payment_hold_effect [OF assms] by simp

theorem payment_hold_keeps_ledger_witness:
  "\<exists>o1 d'. acquire_payment_hold sample_order 600 ''bind'' 50 sample_stock_db = Inr (Inr o1, d')
     \<and> stock_ok d' \<and> or_stock_held o1"
proof -
  have "accepted (acquire_payment_hold sample_order 600 ''bind'' 50 sample_stock_db)"
    by code_simp
  then obtain o1 d' where run:
    "acquire_payment_hold sample_order 600 ''bind'' 50 sample_stock_db = Inr (Inr o1, d')"
    by (auto simp: accepted_iff)
  have "or_id sample_order = ''o1''" "or_auction_aggregate_id sample_order = None"
    by (simp_all add: sample_order_def)
  with run payment_hold_keeps_ledger [OF sample_stock_ok(1) _ run] sample_stock_ok(2)
  show ?thesis by simp
qed

end
