(* ===== verification/Reservations.thy ===== *)
theory Reservations
  imports Holds
begin

text \<open>
  \<^verbatim>\<open>handlers/reserve_inventory.rs\<close>, the command \<open>inventory.reserve\<close>, and \<^verbatim>\<open>expiry.rs\<close>, the sweep that
  expires due reservations on server time and returns their units.  The facts: both keep the stock
  ledger and the books of the drops, the sweep cannot fail for want of reserved units, and it leaves no
  due reservation active.
\<close>

section \<open>Reserving\<close>

definition stale_listing :: "int \<Rightarrow> command_failure" where
  "stale_listing revision =
     refused_with_revision RRevisionConflict RevisionConflict ''The listing revision is stale.'' revision"

text \<open>The drop gate of a reserve: the stamp for the hold, or the refusal.\<close>

definition reserve_drop_gate ::
  "uuid_source \<Rightarrow> pubky \<Rightarrow> command \<Rightarrow> reserve_inventory_payload \<Rightarrow> listing_row \<Rightarrow> datetime \<Rightarrow> db
     \<Rightarrow> (command_failure + string option) tx" where
  "reserve_drop_gate new_v4 actor command payload listing now d =
     (case lock_bound_drop (ls_seller_pubky listing) (ls_listing_id listing) d of
        None \<Rightarrow> Inr (Inr None, d)
      | Some bound \<Rightarrow>
          if ri_quantity payload \<noteq> 1
          then refuse (refused RInvalidCommand InvalidCommand
                 ''A drop-bound listing can be reserved one unit at a time.'') d
          else attempt (enforce_drop_gate new_v4 bound actor 1 (cmd_command_id command) now d)
                 (\<lambda>drp d1. Inr (Inr (Some (dr_aggregate_id drp)), d1)))"

text \<open>The rows after the compare-and-swap: none when the revision moved, else the listing to stamp the
  reservation and the event with.\<close>

definition reserve_commit ::
  "uuid_source \<Rightarrow> pubky \<Rightarrow> command \<Rightarrow> reserve_inventory_payload \<Rightarrow> string option \<Rightarrow> datetime
     \<Rightarrow> listing_row list \<Rightarrow> db \<Rightarrow> handler_result tx" where
  "reserve_commit new_v4 actor command payload stamp now updated d =
     (case updated of
        [] \<Rightarrow> refuse (stale_listing (current_listing_revision d (cmd_aggregate_id command))) d
      | row # _ \<Rightarrow>
          let reservation =
            \<lparr>rv_id = cmd_command_id command, rv_listing_aggregate_id = cmd_aggregate_id command,
             rv_buyer_pubky = actor, rv_quantity = ri_quantity payload, rv_status = ''active'',
             rv_expires_at = now + seconds (ri_reservation_ttl_seconds payload),
             rv_created_at = now, rv_updated_at = now, rv_drop_aggregate_id = stamp,
             rv_offer_award_id = None\<rparr>
          in seq (insert_reservation reservation d)
               (\<lambda>_ d1.
                  seq (insert_event new_v4 (cmd_command_id command) (cmd_aggregate_id command)
                         (ls_server_revision row) actor ''inventory.reserved'' now d1)
                    (\<lambda>event_id d2.
                       Inr (Inr \<lparr>hs_revision = ls_server_revision row, hs_event_ids = [event_id],
                                 hs_result = ResultReservation row reservation\<rparr>, d2))))"

definition reserve_inventory ::
  "uuid_source \<Rightarrow> pubky \<Rightarrow> command \<Rightarrow> reserve_inventory_payload \<Rightarrow> datetime \<Rightarrow> db \<Rightarrow> handler_result tx" where
  "reserve_inventory new_v4 actor command payload now d =
     (case fetch_live_listing d (cmd_aggregate_id command) of
        None \<Rightarrow> refuse (refused RNotFound NotFound ''The listing is not registered.'') d
      | Some listing \<Rightarrow>
          if ls_seller_pubky listing = actor
          then refuse (refused RUnauthorized Unauthorized ''A seller cannot reserve their own listing.'') d
          else if cmd_expected_revision command \<noteq> ls_server_revision listing
          then refuse (stale_listing (ls_server_revision listing)) d
          else if ls_available_quantity listing < ri_quantity payload
          then refuse (refused_with_revision RInsufficientInventory InsufficientInventory
                 ''The requested quantity is unavailable.'' (ls_server_revision listing)) d
          else
            attempt (reserve_drop_gate new_v4 actor command payload listing now d)
              (\<lambda>stamp d1.
                 let new_state = held_state listing (ri_quantity payload)
                 in if \<not> can_transition listing_machine (ls_state listing) new_state
                    then refuse (refused_with_revision RInvariantViolation InvariantViolation
                           ''The listing cannot enter the reserved state.'' (ls_server_revision listing)) d1
                    else
                      seq (update_listings
                             (\<lambda>l. ls_aggregate_id l = cmd_aggregate_id command
                                \<and> ls_server_revision l = cmd_expected_revision command
                                \<and> ri_quantity payload \<le> ls_available_quantity l)
                             (reserved_row new_state (ri_quantity payload) now) d1)
                        (reserve_commit new_v4 actor command payload stamp now)))"

section \<open>Expiry\<close>

text \<open>The exclusion: an auction winner whose Paykit payment awaits the seller keeps the hold.\<close>

definition paykit_preserved :: "db \<Rightarrow> reservation_row \<Rightarrow> bool" where
  "paykit_preserved d r \<longleftrightarrow>
     list_ex (\<lambda>o'. list_ex (\<lambda>p.
         pm_order_id p = or_id o'
         \<and> or_auction_aggregate_id o' = Some (rv_listing_aggregate_id r)
         \<and> or_buyer_pubky o' = rv_buyer_pubky r
         \<and> or_payment_method o' = Some ''bitcoin'' \<and> pm_adapter p = ''paykit''
         \<and> (or_paykit_request_state o' = Some ''awaiting_seller_confirmation''
            \<or> pm_state p = ''manual_review'')) (st_payments d)) (st_orders d)"

definition is_due :: "db \<Rightarrow> datetime \<Rightarrow> reservation_row \<Rightarrow> bool" where
  "is_due d now r \<longleftrightarrow>
     rv_status r = ''active'' \<and> rv_expires_at r \<le> now \<and> rv_offer_award_id r = None \<and> \<not> paykit_preserved d r"

definition due_reservations :: "db \<Rightarrow> datetime \<Rightarrow> reservation_row list" where
  "due_reservations d now =
     sort_by (\<lambda>a b. rv_expires_at a \<le> rv_expires_at b) (filter (is_due d now) (st_reservations d))"

definition credit_stamp :: "reservation_row \<Rightarrow> datetime \<Rightarrow> db \<Rightarrow> unit tx" where
  "credit_stamp reservation now d =
     (case rv_drop_aggregate_id reservation of
        None \<Rightarrow> Inr ((), d)
      | Some drop_key \<Rightarrow>
          seq (credit_drop_release drop_key (rv_buyer_pubky reservation) (rv_quantity reservation) now d)
            (\<lambda>credited d1. if credited then Inr ((), d1)
                           else Inl (Protocol ''expired reservation could not credit its drop'')))"

definition expire_reservation :: "uuid_source \<Rightarrow> datetime \<Rightarrow> reservation_row \<Rightarrow> db \<Rightarrow> bool tx" where
  "expire_reservation new_v4 now reservation d =
     seq (update_reservations (\<lambda>r. rv_id r = rv_id reservation \<and> rv_status r = ''active'')
            (\<lambda>r. r\<lparr>rv_status := ''expired'', rv_updated_at := now\<rparr>) d)
       (\<lambda>flipped d1.
          if length flipped \<noteq> 1 then Inr (False, d1)
          else
            seq (credit_stamp reservation now d1)
              (\<lambda>_ d2.
                 seq (fetch_one (update_listings
                        (\<lambda>l. ls_aggregate_id l = rv_listing_aggregate_id reservation
                           \<and> rv_quantity reservation \<le> ls_reserved_quantity l)
                        (released_row Reserved (rv_quantity reservation) now) d2))
                   (\<lambda>row d3.
                      seq (insert_event new_v4 (rv_id reservation) (rv_listing_aggregate_id reservation)
                             (ls_server_revision row) (rv_buyer_pubky reservation)
                             ''inventory.reservation_expired'' now d3)
                        (\<lambda>_ d4. Inr (True, d4)))))"

fun expire_reservations ::
  "uuid_source \<Rightarrow> datetime \<Rightarrow> reservation_row list \<Rightarrow> nat \<Rightarrow> db \<Rightarrow> nat tx" where
  "expire_reservations new_v4 now [] expired d = Inr (expired, d)"
| "expire_reservations new_v4 now (r # rs) expired d =
     seq (expire_reservation new_v4 now r d)
       (\<lambda>done. expire_reservations new_v4 now rs (if done then Suc expired else expired))"

definition expire_due_reservations :: "uuid_source \<Rightarrow> datetime \<Rightarrow> db \<Rightarrow> nat tx" where
  "expire_due_reservations new_v4 now d = expire_reservations new_v4 now (due_reservations d now) 0 d"

text \<open>What the foreign key of a reservation and the creation of an order promise.\<close>

definition holds_wf :: "db \<Rightarrow> bool" where
  "holds_wf d \<longleftrightarrow>
     list_all (\<lambda>r. fetch_listing d (rv_listing_aggregate_id r) \<noteq> None) (st_reservations d)
     \<and> list_all (\<lambda>o'. list_all (\<lambda>line. 0 \<le> ol_quantity line) (or_lines o')) (st_orders d)"

definition sample_reserve_command :: command where
  "sample_reserve_command =
     \<lparr>cmd_command_id = ''c1'', cmd_aggregate_id = ''listing:l'',
      cmd_expected_revision = 7, cmd_issued_at = 0,
      cmd_payload = ReserveInventory \<lparr>ri_quantity = 2, ri_reservation_ttl_seconds = 300\<rparr>\<rparr>"

section \<open>Facts\<close>

lemma lock_bound_drop_fetch:
  assumes "drop_tables_ok d" "lock_bound_drop seller listing_id d = Some r"
  shows "fetch_drop d (dr_aggregate_id r) = Some r"
proof -
  let ?xs = "[(b, r). r \<leftarrow> st_drops d, b \<leftarrow> st_drop_listings d, l \<leftarrow> st_listings d,
           dg_drop_aggregate_id b = dr_aggregate_id r
           \<and> ls_seller_pubky l = dg_seller_pubky b \<and> ls_listing_id l = dg_listing_id b
           \<and> dg_seller_pubky b = seller \<and> dg_listing_id b = listing_id
           \<and> \<not> dg_released b \<and> dg_listing_generation b = ls_generation l]"
  obtain b rest where "sort_by bound_before ?xs = (b, r) # rest"
    using assms(2) by (auto simp: lock_bound_drop_def split: list.splits)
  then have "(b, r) \<in> set (sort_by bound_before ?xs)" by simp
  then have "(b, r) \<in> set ?xs" by (simp only: set_sort_by)
  then have "r \<in> set (st_drops d)" by auto
  with assms(1) show ?thesis
    by (auto simp: fetch_drop_def fetch_Some_iff drop_tables_ok_def table_ok_def)
qed

lemma stock_ok_cong:
  "st_listings d' = st_listings d \<Longrightarrow> st_reservations d' = st_reservations d \<Longrightarrow> st_orders d' = st_orders d \<Longrightarrow>
   stock_ok d' = stock_ok d"
  by (simp add: stock_ok_def stock_tables_ok_def ledger_off_def accounted_def)

lemma reserve_drop_gate_effect:
  assumes "drops_ok d" "reserve_drop_gate new_v4 actor command payload listing now d = Inr (Inr stamp, d')"
  shows "drops_ok d'" "drop_frame d d'"
    "stamp \<noteq> None \<Longrightarrow> ri_quantity payload = 1"
proof -
  have t: "drop_tables_ok d" using assms(1) by (simp add: drops_ok_def)
  have "drops_ok d' \<and> drop_frame d d' \<and> (stamp \<noteq> None \<longrightarrow> ri_quantity payload = 1)"
  proof (cases "lock_bound_drop (ls_seller_pubky listing) (ls_listing_id listing) d")
    case None
    with assms show ?thesis by (auto simp: reserve_drop_gate_def)
  next
    case (Some bound)
    with assms obtain drp where q: "ri_quantity payload = 1"
      and g: "enforce_drop_gate new_v4 bound actor 1 (cmd_command_id command) now d = Inr (Inr drp, d')"
      by (auto simp: reserve_drop_gate_def attempt_accept split: if_splits)
    with enforce_drop_gate_effect(1,2) [OF assms(1) lock_bound_drop_fetch [OF t Some] g] show ?thesis
      by simp
  qed
  then show "drops_ok d'" "drop_frame d d'" "stamp \<noteq> None \<Longrightarrow> ri_quantity payload = 1" by simp_all
qed

lemma insert_reservation_effect:
  assumes t: "stock_tables_ok d" and l: "ledger_off g d" and run: "insert_reservation r d = Inr (x, d')"
  shows "stock_tables_ok d'" "ledger_off (\<lambda>a. g a - reservation_holds r a) d'"
    "d' = d\<lparr>st_reservations := st_reservations d @ [r]\<rparr>" "reservation_check r"
proof -
  have d': "d' = d\<lparr>st_reservations := st_reservations d @ [r]\<rparr>" and c: "reservation_check r"
    and fresh: "\<not> list_ex (\<lambda>b. rv_id r = rv_id b) (st_reservations d)"
    using run by (auto simp: insert_reservation_def sql_insert_def reservation_clash_def list_ex_iff split: if_splits)
  show "d' = d\<lparr>st_reservations := st_reservations d @ [r]\<rparr>" "reservation_check r" by fact+
  show "stock_tables_ok d'"
    using t c fresh by (auto simp: stock_tables_ok_def table_ok_def d' list_ex_iff)
  show "ledger_off (\<lambda>a. g a - reservation_holds r a) d'"
    using l by (rule ledger_off_account) (simp_all add: d' accounted_def)
qed

lemma insert_order_effect:
  assumes t: "stock_tables_ok d" and l: "ledger_off g d" and run: "insert_order r d = Inr (x, d')"
  shows "stock_tables_ok d'" "ledger_off (\<lambda>a. g a - order_holds r a) d'"
    "d' = d\<lparr>st_orders := st_orders d @ [r]\<rparr>"
proof -
  have d': "d' = d\<lparr>st_orders := st_orders d @ [r]\<rparr>" and c: "order_check r"
    and fresh: "\<not> list_ex (order_clash r) (st_orders d)"
    using run by (auto simp: insert_order_def sql_insert_def split: if_splits)
  show "d' = d\<lparr>st_orders := st_orders d @ [r]\<rparr>" by fact
  show "stock_tables_ok d'"
    using t c fresh by (auto simp: stock_tables_ok_def table_ok_def d' list_ex_iff order_clash_def)
  show "ledger_off (\<lambda>a. g a - order_holds r a) d'"
    using l by (rule ledger_off_account) (simp_all add: d' accounted_def)
qed

lemma reserve_inventory_effect:
  assumes ok: "stock_ok d" "drops_ok d"
    and run: "reserve_inventory new_v4 actor command payload now d = Inr (Inr s, d')"
  shows "stock_ok d'" "drops_ok d'"
    "\<exists>l l'. fetch_listing d (cmd_aggregate_id command) = Some l
      \<and> fetch_listing d' (cmd_aggregate_id command) = Some l'
      \<and> ls_available_quantity l' = ls_available_quantity l - ri_quantity payload
      \<and> ls_reserved_quantity l' = ls_reserved_quantity l + ri_quantity payload
      \<and> ls_total_quantity l' = ls_total_quantity l
      \<and> ls_server_revision l' = cmd_expected_revision command + 1
      \<and> hs_revision s = ls_server_revision l'"
proof -
  let ?a = "cmd_aggregate_id command" and ?q = "ri_quantity payload"
  obtain listing stamp d1 row w d2 r d3 e where
    live: "fetch_live_listing d ?a = Some listing"
    and gate: "reserve_drop_gate new_v4 actor command payload listing now d = Inr (Inr stamp, d1)"
    and u: "update_listings (\<lambda>l. ls_aggregate_id l = ?a \<and> ls_server_revision l = cmd_expected_revision command
        \<and> ?q \<le> ls_available_quantity l) (reserved_row (held_state listing ?q) ?q now) d1 = Inr (row # w, d2)"
    and r: "r = \<lparr>rv_id = cmd_command_id command, rv_listing_aggregate_id = ?a, rv_buyer_pubky = actor,
        rv_quantity = ?q, rv_status = ''active'',
        rv_expires_at = now + seconds (ri_reservation_ttl_seconds payload), rv_created_at = now,
        rv_updated_at = now, rv_drop_aggregate_id = stamp, rv_offer_award_id = None\<rparr>"
    and ins: "insert_reservation r d2 = Inr ((), d3)"
    and ev: "insert_event new_v4 (cmd_command_id command) ?a (ls_server_revision row) actor
        ''inventory.reserved'' now d3 = Inr (e, d')"
    and s: "hs_revision s = ls_server_revision row"
  proof -
    obtain listing stamp d1 updated d2 where "fetch_live_listing d ?a = Some listing"
      "reserve_drop_gate new_v4 actor command payload listing now d = Inr (Inr stamp, d1)"
      "update_listings (\<lambda>l. ls_aggregate_id l = ?a \<and> ls_server_revision l = cmd_expected_revision command
        \<and> ?q \<le> ls_available_quantity l) (reserved_row (held_state listing ?q) ?q now) d1 = Inr (updated, d2)"
      "reserve_commit new_v4 actor command payload stamp now updated d2 = Inr (Inr s, d')"
      using run by (auto simp: reserve_inventory_def attempt_accept seq_eq_Inr Let_def
          split: option.splits if_splits)
    then show thesis
      by (cases updated) (auto simp: reserve_commit_def seq_eq_Inr Let_def intro!: that)
  qed
  note g = reserve_drop_gate_effect [OF ok(2) gate]
  have ok1: "stock_ok d1" using stock_ok_frame [OF g(2) ok(1)] .
  then have t1: "stock_tables_ok d1" and l1: "ledger_off (\<lambda>_. 0) d1" by (simp_all add: stock_ok_def)
  have tl1: "table_ok ls_aggregate_id listing_check (st_listings d1)"
    using t1 by (simp add: stock_tables_ok_def)
  have step: "listings_step d1 d2" by (rule update_listings_step [OF tl1 u]) simp_all
  have l2: "ledger_off ((\<lambda>_. 0)(?a := 0 + ?q)) d2"
    by (rule ledger_off_move [OF tl1 l1 u]) simp_all
  have t2: "stock_tables_ok d2"
    using t1 listings_stepD [OF step] by (simp add: stock_tables_ok_def)
  note i = insert_reservation_effect [OF t2 l2 ins]
  have "ledger_off (\<lambda>_. 0) d3"
    by (rule ledger_off_cong [OF i(2)]) (simp add: r reservation_holds_def)
  with i(1) have ok3: "stock_ok d3" by (simp add: stock_ok_def)
  have same: "st_listings d' = st_listings d3" "st_reservations d' = st_reservations d3"
    "st_orders d' = st_orders d3" "st_drops d' = st_drops d3" "st_drop_purchases d' = st_drop_purchases d3"
    using insert_event_Inr [OF ev] by auto
  show "stock_ok d'" using ok3 stock_ok_cong [of d' d3] same by simp
  show "drops_ok d'"
    using g(1) drops_ok_cong [of d' d1] same listings_stepD(4,5) [OF step] by (simp add: i(3))
  obtain l where l: "fetch_listing d1 ?a = Some l" "row = reserved_row (held_state listing ?q) ?q now l"
    "ls_server_revision l = cmd_expected_revision command" "?q \<le> ls_available_quantity l"
    using listings.upd_one [OF tl1 u] by (auto simp: fetch_listing_def)
  have "fetch_listing d' ?a = Some row"
    using listings.upd_fetch [OF u, of ?a] l fetch_Some [of ls_aggregate_id ?a "st_listings d1" l]
    by (simp add: fetch_listing_def same i(3))
  moreover have "fetch_listing d ?a = Some l"
    using l(1) g(2) by (simp add: drop_frame_def fetch_listing_def)
  ultimately show "\<exists>l l'. fetch_listing d ?a = Some l \<and> fetch_listing d' ?a = Some l'
      \<and> ls_available_quantity l' = ls_available_quantity l - ?q
      \<and> ls_reserved_quantity l' = ls_reserved_quantity l + ?q
      \<and> ls_total_quantity l' = ls_total_quantity l
      \<and> ls_server_revision l' = cmd_expected_revision command + 1
      \<and> hs_revision s = ls_server_revision l'"
    using l(2,3) s by simp
qed

lemma credit_stamp_effect:
  assumes "drops_ok d" "credit_stamp r now d = Inr (x, d')"
  shows "drops_ok d' \<and> drop_frame d d'"
  using assms credit_drop_release_effect(1,2)
  by (auto simp: credit_stamp_def seq_eq_Inr split: option.splits if_splits)

text \<open>The order in which a database state is carried through one expiry.\<close>

lemma flip_reservation_effect:
  assumes t: "stock_tables_ok d" and l: "ledger_off g d"
    and r: "fetch rv_id (rv_id r) (st_reservations d) = Some r" "rv_status r = ''active''"
    and u: "update_reservations (\<lambda>x. rv_id x = rv_id r \<and> rv_status x = ''active'')
      (\<lambda>x. x\<lparr>rv_status := s, rv_updated_at := now\<rparr>) d = Inr (w, d')" and s: "s \<noteq> ''active''"
  shows "length w = 1" "stock_tables_ok d'"
    "ledger_off (\<lambda>a. g a + (if a = rv_listing_aggregate_id r then rv_quantity r else 0)) d'"
    "d' = d\<lparr>st_reservations := map (\<lambda>x. if rv_id x = rv_id r \<and> rv_status x = ''active''
        then x\<lparr>rv_status := s, rv_updated_at := now\<rparr> else x) (st_reservations d)\<rparr>"
proof -
  have tr: "table_ok rv_id reservation_check (st_reservations d)" using t by (simp add: stock_tables_ok_def)
  have rows: "filter (\<lambda>x. rv_id x = rv_id r \<and> rv_status x = ''active'') (st_reservations d) = [r]"
    using reservations.upd_key_rows [OF tr, of "rv_id r" "\<lambda>x. rv_status x = ''active''"] r by simp
  show "length w = 1" using u rows by (simp add: reservations.upd_Inr)
  show d': "d' = d\<lparr>st_reservations := map (\<lambda>x. if rv_id x = rv_id r \<and> rv_status x = ''active''
        then x\<lparr>rv_status := s, rv_updated_at := now\<rparr> else x) (st_reservations d)\<rparr>"
    using u by (simp add: reservations.upd_Inr)
  show "stock_tables_ok d'"
    using t reservations.upd_ok [OF u _ tr] by (simp add: stock_tables_ok_def d')
  have "accounted d' a = accounted d a + (- (if a = rv_listing_aggregate_id r then rv_quantity r else 0))" for a
    using reservations.upd_sum [OF u, of "\<lambda>x. reservation_holds x a"] rows r(2) s
    by (auto simp: accounted_def d' reservation_holds_def)
  then have "ledger_off (\<lambda>a. g a - (- (if a = rv_listing_aggregate_id r then rv_quantity r else 0))) d'"
    by (intro ledger_off_account [OF l]) (simp_all add: d')
  then show "ledger_off (\<lambda>a. g a + (if a = rv_listing_aggregate_id r then rv_quantity r else 0)) d'" by simp
qed

lemma expire_reservation_effect:
  assumes ok: "stock_ok d" "drops_ok d"
    and r: "fetch rv_id (rv_id r) (st_reservations d) = Some r" "rv_status r = ''active''"
    and run: "expire_reservation new_v4 now r d = Inr (b, d')"
  shows "b" "stock_ok d'" "drops_ok d'" "st_orders d' = st_orders d" "st_payments d' = st_payments d"
    "st_reservations d' = map (\<lambda>x. if rv_id x = rv_id r \<and> rv_status x = ''active''
        then x\<lparr>rv_status := ''expired'', rv_updated_at := now\<rparr> else x) (st_reservations d)"
    "\<forall>a. total_stock d' a = total_stock d a"
proof -
  have t: "stock_tables_ok d" and l: "ledger_off (\<lambda>_. 0) d" using ok(1) by (simp_all add: stock_ok_def)
  obtain w d1 where u: "update_reservations (\<lambda>x. rv_id x = rv_id r \<and> rv_status x = ''active'')
      (\<lambda>x. x\<lparr>rv_status := ''expired'', rv_updated_at := now\<rparr>) d = Inr (w, d1)"
    using run by (auto simp: expire_reservation_def seq_eq_Inr)
  note f = flip_reservation_effect [OF t l r u, simplified]
  obtain x d2 row w' d3 e where c: "credit_stamp r now d1 = Inr (x, d2)"
    and ul: "update_listings (\<lambda>l. ls_aggregate_id l = rv_listing_aggregate_id r
        \<and> rv_quantity r \<le> ls_reserved_quantity l) (released_row Reserved (rv_quantity r) now) d2 = Inr (row # w', d3)"
    and ev: "insert_event new_v4 (rv_id r) (rv_listing_aggregate_id r) (ls_server_revision row)
        (rv_buyer_pubky r) ''inventory.reservation_expired'' now d3 = Inr (e, d')"
    and b: b
    using run u f(1) by (auto simp: expire_reservation_def seq_eq_Inr fetch_one_Inr)
  show b by fact
  have dr1: "drops_ok d1" using ok(2) drops_ok_cong [of d1 d] by (simp add: f(4))
  have dr2: "drops_ok d2" "drop_frame d1 d2" using credit_stamp_effect [OF dr1 c] by simp_all
  have t2: "stock_tables_ok d2"
    and l2: "ledger_off (\<lambda>a. if a = rv_listing_aggregate_id r then rv_quantity r else 0) d2"
    using f(2,3) dr2(2) by (auto simp: drop_frame_def stock_tables_ok_def ledger_off_def accounted_def)
  have tl2: "table_ok ls_aggregate_id listing_check (st_listings d2)" using t2 by (simp add: stock_tables_ok_def)
  have step: "listings_step d2 d3" by (rule update_listings_step [OF tl2 ul]) simp_all
  have "ledger_off ((\<lambda>a. if a = rv_listing_aggregate_id r then rv_quantity r else 0)
      (rv_listing_aggregate_id r := (if rv_listing_aggregate_id r = rv_listing_aggregate_id r then rv_quantity r else 0)
        + (- rv_quantity r))) d3"
    by (rule ledger_off_move [OF tl2 l2 ul]) simp_all
  then have l3: "ledger_off (\<lambda>_. 0) d3" by (rule ledger_off_cong) simp
  have t3: "stock_tables_ok d3" using t2 listings_stepD [OF step] by (simp add: stock_tables_ok_def)
  have same: "st_listings d' = st_listings d3" "st_reservations d' = st_reservations d3"
    "st_orders d' = st_orders d3" "st_drops d' = st_drops d3" "st_drop_purchases d' = st_drop_purchases d3"
    "st_payments d' = st_payments d3"
    using insert_event_Inr [OF ev] by auto
  show "stock_ok d'" using t3 l3 stock_ok_cong [of d' d3] same by (simp add: stock_ok_def)
  show "drops_ok d'" using dr2(1) drops_ok_cong [of d' d2] same listings_stepD(4,5) [OF step] by simp
  show "st_orders d' = st_orders d" "st_payments d' = st_payments d"
    "st_reservations d' = map (\<lambda>x. if rv_id x = rv_id r \<and> rv_status x = ''active''
        then x\<lparr>rv_status := ''expired'', rv_updated_at := now\<rparr> else x) (st_reservations d)"
    using same listings_stepD(1-3) [OF step] dr2(2) by (simp_all add: drop_frame_def f(4))
  show "\<forall>a. total_stock d' a = total_stock d a"
    using step same dr2(2)
    by (simp add: listings_step_def total_stock_def fetch_listing_def drop_frame_def f(4))
qed

text \<open>The loop: a reservation still to expire is as it was read.\<close>

lemma fetch_flipped:
  "k \<noteq> rv_id r \<Longrightarrow> fetch rv_id k (map (\<lambda>x. if rv_id x = rv_id r \<and> rv_status x = ''active''
     then x\<lparr>rv_status := ''expired'', rv_updated_at := now\<rparr> else x) rows) = fetch rv_id k rows"
  by (induction rows) (auto simp: fetch_def)

lemma expire_reservations_effect:
  assumes "stock_ok d" "drops_ok d" "distinct (map rv_id rs)"
    and "\<And>r. r \<in> set rs \<Longrightarrow> fetch rv_id (rv_id r) (st_reservations d) = Some r \<and> rv_status r = ''active''"
    and "expire_reservations new_v4 now rs n d = Inr (m, d')"
  shows "m = n + length rs \<and> stock_ok d' \<and> drops_ok d' \<and> st_orders d' = st_orders d
    \<and> st_payments d' = st_payments d \<and> (\<forall>a. total_stock d' a = total_stock d a)
    \<and> st_reservations d' = map (\<lambda>x. if rv_id x \<in> rv_id ` set rs \<and> rv_status x = ''active''
        then x\<lparr>rv_status := ''expired'', rv_updated_at := now\<rparr> else x) (st_reservations d)"
  using assms
proof (induction rs arbitrary: n d)
  case Nil
  then show ?case by (simp cong: map_cong)
next
  case (Cons r rs)
  obtain b d1 where one: "expire_reservation new_v4 now r d = Inr (b, d1)"
    and rest: "expire_reservations new_v4 now rs (if b then Suc n else n) d1 = Inr (m, d')"
    using Cons.prems(5) by (auto simp: seq_eq_Inr)
  have r: "fetch rv_id (rv_id r) (st_reservations d) = Some r" "rv_status r = ''active''"
    using Cons.prems(4) [of r] by simp_all
  note e = expire_reservation_effect [OF Cons.prems(1,2) r one]
  have still: "fetch rv_id (rv_id q) (st_reservations d1) = Some q \<and> rv_status q = ''active''"
    if "q \<in> set rs" for q
  proof -
    have "rv_id q \<noteq> rv_id r" using that Cons.prems(3) by (force simp: image_iff)
    then show ?thesis using Cons.prems(4) [of q] that by (simp add: e(6) fetch_flipped)
  qed
  have d: "distinct (map rv_id rs)" using Cons.prems(3) by simp
  note ih = Cons.IH [OF e(2,3) d still rest]
  have "st_reservations d' = map (\<lambda>x. if rv_id x \<in> rv_id ` set (r # rs) \<and> rv_status x = ''active''
        then x\<lparr>rv_status := ''expired'', rv_updated_at := now\<rparr> else x) (st_reservations d)"
    using ih by (auto simp: e(6))
  with ih e show ?case by auto
qed

lemma distinct_sort_by [simp]: "distinct (map f (sort_by le xs)) = distinct (map f xs)"
proof -
  have a: "distinct (map f ys) = (card (f ` set ys) = length ys)" for ys
    by (metis card_distinct distinct_card length_map set_map)
  show ?thesis by (simp only: a set_sort_by length_sort_by)
qed

lemma due_reservations_read:
  assumes "stock_ok d"
  shows "distinct (map rv_id (due_reservations d now))"
    "r \<in> set (due_reservations d now) \<Longrightarrow>
     fetch rv_id (rv_id r) (st_reservations d) = Some r \<and> rv_status r = ''active''"
proof -
  have t: "distinct (map rv_id (st_reservations d))"
    using assms by (simp add: stock_ok_def stock_tables_ok_def table_ok_def)
  then show "distinct (map rv_id (due_reservations d now))"
    by (simp add: due_reservations_def distinct_map_filter)
  show "r \<in> set (due_reservations d now) \<Longrightarrow>
     fetch rv_id (rv_id r) (st_reservations d) = Some r \<and> rv_status r = ''active''"
    by (auto simp: due_reservations_def is_due_def fetch_Some_iff [OF t])
qed

lemma sum_list_member_le:
  fixes f :: "'a \<Rightarrow> int"
  assumes "\<And>y. y \<in> set xs \<Longrightarrow> 0 \<le> f y" "x \<in> set xs"
  shows "f x \<le> sum_list (map f xs)"
  using assms
proof (induction xs)
  case (Cons y ys)
  have "0 \<le> sum_list (map f ys)" using Cons.prems(1) by (intro sum_list_nonneg) auto
  with Cons show ?case by (cases "x = y") (fastforce simp: add_increasing)+
qed simp

lemma reserved_covers:
  assumes ok: "stock_ok d" and wf: "holds_wf d" and r: "r \<in> set (st_reservations d)" "rv_status r = ''active''"
    and l: "fetch_listing d (rv_listing_aggregate_id r) = Some l"
  shows "rv_quantity r \<le> ls_reserved_quantity l"
proof -
  let ?a = "rv_listing_aggregate_id r"
  have "0 \<le> reservation_holds x ?a" if "x \<in> set (st_reservations d)" for x
    using that ok by (auto simp: reservation_holds_def stock_ok_def stock_tables_ok_def table_ok_def
        list_all_iff reservation_check_def)
  from sum_list_member_le [of "st_reservations d" "\<lambda>x. reservation_holds x ?a", OF this r(1)]
  have "rv_quantity r \<le> sum_list (map (\<lambda>x. reservation_holds x ?a) (st_reservations d))"
    using r(2) by (simp add: reservation_holds_def)
  moreover have "0 \<le> order_holds o' ?a" if "o' \<in> set (st_orders d)" for o'
    using that wf by (auto simp: order_holds_def line_units_def holds_wf_def list_all_iff intro!: sum_list_nonneg)
  then have "0 \<le> sum_list (map (\<lambda>o'. order_holds o' ?a) (st_orders d))"
    by (intro sum_list_nonneg) auto
  moreover have "ls_reserved_quantity l = accounted d ?a"
    using ok l fetch_Some [of ls_aggregate_id ?a "st_listings d" l]
    by (auto simp: stock_ok_def ledger_off_def list_all_iff fetch_listing_def)
  ultimately show ?thesis by (simp add: accounted_def)
qed

lemma insert_event_no_row: "insert_event new_v4 c a r p k t d \<noteq> Inl RowNotFound"
  by (simp add: insert_event_def draw_uuid_def sql_insert_def seq_eq_Inl)

lemma credit_no_row: "credit_drop_release k b u now d \<noteq> Inl RowNotFound"
  by (auto simp: credit_drop_release_def seq_eq_Inl drops.upd_Inl purchases.upd_Inl split: if_splits)

lemma expire_reservation_has_units:
  assumes ok: "stock_ok d" and wf: "holds_wf d"
    and r: "fetch rv_id (rv_id r) (st_reservations d) = Some r" "rv_status r = ''active''"
  shows "expire_reservation new_v4 now r d \<noteq> Inl RowNotFound"
proof
  assume run: "expire_reservation new_v4 now r d = Inl RowNotFound"
  have mem: "r \<in> set (st_reservations d)" using fetch_Some [OF r(1)] by simp
  then obtain l where l: "fetch_listing d (rv_listing_aggregate_id r) = Some l"
    using wf by (auto simp: holds_wf_def list_all_iff)
  have q: "rv_quantity r \<le> ls_reserved_quantity l" by (rule reserved_covers [OF ok wf mem r(2) l])
  from run obtain w d1 x d2 where
      u: "update_reservations (\<lambda>x. rv_id x = rv_id r \<and> rv_status x = ''active'')
        (\<lambda>x. x\<lparr>rv_status := ''expired'', rv_updated_at := now\<rparr>) d = Inr (w, d1)"
    and c: "credit_stamp r now d1 = Inr (x, d2)"
    and no: "fetch_one (update_listings (\<lambda>l. ls_aggregate_id l = rv_listing_aggregate_id r
        \<and> rv_quantity r \<le> ls_reserved_quantity l) (released_row Reserved (rv_quantity r) now) d2) = Inl RowNotFound"
    using credit_no_row
    by (auto simp: expire_reservation_def seq_eq_Inl reservations.upd_Inl insert_event_no_row
        credit_stamp_def split: if_splits option.splits)
  have "st_listings d1 = st_listings d" using u by (simp add: reservations.upd_Inr)
  moreover have "st_listings d2 = st_listings d1"
    using c by (auto simp: credit_stamp_def credit_drop_release_def seq_eq_Inr drops.upd_Inr purchases.upd_Inr
        split: option.splits if_splits)
  ultimately have "l \<in> set (st_listings d2)" "ls_aggregate_id l = rv_listing_aggregate_id r"
    using fetch_Some [of ls_aggregate_id _ "st_listings d" l] l by (auto simp: fetch_listing_def)
  with no q show False
    by (auto simp: fetch_one_def listings.upd_Inl listings.upd_Inr filter_empty_conv split: sum.splits list.splits)
qed

text \<open>Every step of the sweep keeps what the next one relies on.\<close>

lemma holds_wf_step:
  assumes wf: "holds_wf d" and "st_orders d' = st_orders d" "\<forall>a. total_stock d' a = total_stock d a"
    and r: "map rv_listing_aggregate_id (st_reservations d') = map rv_listing_aggregate_id (st_reservations d)"
  shows "holds_wf d'"
proof -
  have "(fetch_listing d' a = None) = (fetch_listing d a = None)" for a
    using assms(3) [rule_format, of a] by (auto simp: total_stock_def)
  moreover have "list_all (\<lambda>r. fetch_listing d' (rv_listing_aggregate_id r) \<noteq> None) (st_reservations d')
    = list_all (\<lambda>r. fetch_listing d' (rv_listing_aggregate_id r) \<noteq> None) (st_reservations d)"
    using arg_cong [OF r, of "list_all (\<lambda>a. fetch_listing d' a \<noteq> None)"]
    by (simp add: list.pred_map comp_def)
  ultimately show ?thesis using wf assms(2) by (simp only: holds_wf_def)
qed

lemma expire_reservations_has_units:
  assumes "stock_ok d" "drops_ok d" "holds_wf d" "distinct (map rv_id rs)"
    and "\<And>r. r \<in> set rs \<Longrightarrow> fetch rv_id (rv_id r) (st_reservations d) = Some r \<and> rv_status r = ''active''"
  shows "expire_reservations new_v4 now rs n d \<noteq> Inl RowNotFound"
  using assms
proof (induction rs arbitrary: n d)
  case (Cons r rs)
  have r: "fetch rv_id (rv_id r) (st_reservations d) = Some r" "rv_status r = ''active''"
    using Cons.prems(5) [of r] by simp_all
  show ?case
  proof
    assume "expire_reservations new_v4 now (r # rs) n d = Inl RowNotFound"
    then obtain b d1 where one: "expire_reservation new_v4 now r d = Inr (b, d1)"
      and rest: "expire_reservations new_v4 now rs (if b then Suc n else n) d1 = Inl RowNotFound"
      using expire_reservation_has_units [OF Cons.prems(1,3) r] by (auto simp: seq_eq_Inl)
    note e = expire_reservation_effect [OF Cons.prems(1,2) r one]
    have wf: "holds_wf d1"
      by (rule holds_wf_step [OF Cons.prems(3) e(4,7)]) (auto simp: e(6))
    have still: "fetch rv_id (rv_id q) (st_reservations d1) = Some q \<and> rv_status q = ''active''"
      if "q \<in> set rs" for q
    proof -
      have "rv_id q \<noteq> rv_id r" using that Cons.prems(4) by (force simp: image_iff)
      then show ?thesis using Cons.prems(5) [of q] that by (simp add: e(6) fetch_flipped)
    qed
    have "distinct (map rv_id rs)" using Cons.prems(4) by simp
    from Cons.IH [OF e(2,3) wf this still] rest show False by blast
  qed
qed simp

section \<open>Properties\<close>

text \<open>An accepted reservation keeps the ledger of the stock and the books of the drops.  It moves
  exactly the requested units of the listing from available to reserved, leaves the total, and publishes
  the revision that follows the one the buyer asked for.\<close>

theorem reserve_keeps_ledger:
  assumes "stock_ok d" "drops_ok d"
    and "reserve_inventory new_v4 actor command payload now d = Inr (Inr s, d')"
  shows "stock_ok d' \<and> drops_ok d'
    \<and> (\<exists>l l'. fetch_listing d (cmd_aggregate_id command) = Some l
        \<and> fetch_listing d' (cmd_aggregate_id command) = Some l'
        \<and> ls_available_quantity l' = ls_available_quantity l - ri_quantity payload
        \<and> ls_reserved_quantity l' = ls_reserved_quantity l + ri_quantity payload
        \<and> ls_total_quantity l' = ls_total_quantity l
        \<and> ls_server_revision l' = cmd_expected_revision command + 1
        \<and> hs_revision s = ls_server_revision l')"
  using reserve_inventory_effect [OF assms] by simp

text \<open>A sweep that ends keeps the ledger, the books of the drops and every total.  It counts each due
  reservation once, and no reservation that is due at that time is left active.\<close>

theorem expiry_sweep_complete:
  assumes "stock_ok d" "drops_ok d" "expire_due_reservations new_v4 now d = Inr (n, d')"
  shows "stock_ok d' \<and> drops_ok d' \<and> (\<forall>a. total_stock d' a = total_stock d a)
    \<and> n = length (filter (is_due d now) (st_reservations d)) \<and> due_reservations d' now = []"
proof -
  note read = due_reservations_read [OF assms(1), where now = now]
  have run: "expire_reservations new_v4 now (due_reservations d now) 0 d = Inr (n, d')"
    using assms(3) by (simp add: expire_due_reservations_def)
  note e = expire_reservations_effect [OF assms(1,2) read(1) read(2) run]
  have "is_due d' now r \<longleftrightarrow> is_due d now r" for r using e by (simp add: is_due_def paykit_preserved_def)
  moreover have "\<not> is_due d now x" if "x \<in> set (st_reservations d')" for x
    using that e by (fastforce simp: due_reservations_def is_due_def image_iff)
  ultimately have "filter (is_due d' now) (st_reservations d') = []" by (simp add: filter_empty_conv)
  then have "due_reservations d' now = []" by (simp add: due_reservations_def sort_by_def)
  moreover have "n = length (filter (is_due d now) (st_reservations d))"
    using e by (simp add: due_reservations_def)
  ultimately show ?thesis using e by blast
qed

text \<open>The sweep never misses the units it returns: on a ledger that is in order every due
  reservation's units are still counted as reserved by its listing, so the guarded update of the listing
  always finds its row.\<close>

theorem expiry_sweep_finds_units:
  assumes "stock_ok d" "drops_ok d" "holds_wf d"
  shows "expire_due_reservations new_v4 now d \<noteq> Inl RowNotFound"
  using expire_reservations_has_units [OF assms due_reservations_read [OF assms(1)]]
  by (simp add: expire_due_reservations_def)

theorem reserve_keeps_ledger_witness:
  "\<exists>s d'. reserve_inventory show_nat ''buyer'' sample_reserve_command
       \<lparr>ri_quantity = 2, ri_reservation_ttl_seconds = 300\<rparr> 50 sample_stock_db = Inr (Inr s, d')
     \<and> stock_ok d' \<and> hs_revision s = 8"
proof -
  let ?run = "reserve_inventory show_nat ''buyer'' sample_reserve_command
       \<lparr>ri_quantity = 2, ri_reservation_ttl_seconds = 300\<rparr> 50 sample_stock_db"
  have "accepted ?run" by code_simp
  then obtain s d' where run: "?run = Inr (Inr s, d')" by (auto simp: accepted_iff)
  have "cmd_expected_revision sample_reserve_command = 7" by (simp add: sample_reserve_command_def)
  with run reserve_keeps_ledger [OF sample_stock_ok(1) sample_stock_drops run] show ?thesis by auto
qed

theorem expiry_sweep_complete_witness:
  "\<exists>d'. expire_due_reservations show_nat 700 sample_stock_db = Inr (1, d')
     \<and> stock_ok d' \<and> due_reservations d' 700 = []"
proof -
  have "case expire_due_reservations show_nat 700 sample_stock_db of Inr (n, _) \<Rightarrow> n = 1 | Inl _ \<Rightarrow> False"
    by code_simp
  then obtain d' where run: "expire_due_reservations show_nat 700 sample_stock_db = Inr (1, d')"
    by (auto split: sum.splits prod.splits)
  with expiry_sweep_complete [OF sample_stock_ok(1) sample_stock_drops run] show ?thesis by auto
qed

theorem expiry_sweep_finds_units_witness:
  "holds_wf sample_stock_db \<and> expire_due_reservations show_nat 700 sample_stock_db \<noteq> Inl RowNotFound"
proof -
  have wf: "holds_wf sample_stock_db" by code_simp
  with expiry_sweep_finds_units [OF sample_stock_ok(1) sample_stock_drops wf] show ?thesis by blast
qed

end
