(* ===== verification/Auction_Facts.thy ===== *)
theory Auction_Facts
  imports Auction Reservations
begin

text \<open>
  Facts about \<^verbatim>\<open>handlers/auction.rs\<close>: the ranking of the proxy maximums meets its specification, the
  visible price never falls and never passes the leader's maximum, a close sells to the leader exactly
  when the reserve is met, at the visible price, with one order, one payment and one reservation, and
  bids and closes keep the ledger of the stock.
\<close>

section \<open>The invariant of the auctions\<close>

text \<open>What the stored document says of the accepted bids: their number, the leader, the visible price;
  and the bounds the command validation gives the amounts.\<close>

definition bidding_ok :: "db \<Rightarrow> listing_row \<Rightarrow> auction_state \<Rightarrow> bool" where
  "bidding_ok d l auction \<longleftrightarrow>
     (let bids = fetch_bids d (ls_aggregate_id l);
          ranked = ranked_bidder_maximums bids;
          increment = amount_minor (au_minimum_increment auction);
          start_price = ls_unit_price_amount_minor l
      in 1 \<le> increment \<and> increment \<le> MAX_SAFE_INTEGER
         \<and> 0 < start_price \<and> start_price \<le> MAX_SAFE_INTEGER
         \<and> au_bid_count auction = int (length bids)
         \<and> list_all (\<lambda>b. start_price \<le> bd_maximum_amount_minor b
                       \<and> bd_maximum_amount_minor b \<le> MAX_SAFE_INTEGER
                       \<and> 1 \<le> bd_sequence b \<and> bd_sequence b \<le> au_bid_count auction) bids
         \<and> au_leader_pubky auction = (case ranked of [] \<Rightarrow> None | leader # _ \<Rightarrow> Some (bd_bidder_pubky leader))
         \<and> amount_minor (au_current_price auction) = visible_amount ranked increment start_price)"

definition auctions_ok :: "db \<Rightarrow> bool" where
  "auctions_ok d \<longleftrightarrow>
     list_all (\<lambda>l. case parse_auction l of None \<Rightarrow> True | Some auction \<Rightarrow> bidding_ok d l auction) (st_listings d)"

text \<open>One bid per bidder, the bidder's best: what the fold has after any prefix of the bids.\<close>

definition bests :: "bid_row list \<Rightarrow> bid_row list \<Rightarrow> bool" where
  "bests bids latest \<longleftrightarrow>
     distinct (map bd_bidder_pubky latest) \<and> bd_bidder_pubky ` set latest = bd_bidder_pubky ` set bids
     \<and> (\<forall>c \<in> set latest. c \<in> set bids
          \<and> (\<forall>b \<in> set bids. bd_bidder_pubky b = bd_bidder_pubky c \<longrightarrow> ranks_before c b))"

text \<open>The amounts of an auction: an increment and maximums within the bounds of a validated command.\<close>

definition amounts_ok :: "int \<Rightarrow> int \<Rightarrow> bid_row list \<Rightarrow> bool" where
  "amounts_ok increment start_price bids \<longleftrightarrow>
     1 \<le> increment \<and> increment \<le> MAX_SAFE_INTEGER \<and> 0 < start_price
     \<and> (\<forall>b \<in> set bids. start_price \<le> bd_maximum_amount_minor b \<and> bd_maximum_amount_minor b \<le> MAX_SAFE_INTEGER)"

definition bid_of :: "pubky \<Rightarrow> command \<Rightarrow> listing_row \<Rightarrow> auction_state \<Rightarrow> money \<Rightarrow> datetime \<Rightarrow> bid_row" where
  "bid_of actor command listing auction maximum now =
     \<lparr>bd_id = cmd_command_id command, bd_listing_aggregate_id = ls_aggregate_id listing,
      bd_bidder_pubky = actor, bd_maximum_amount_minor = amount_minor maximum,
      bd_currency = currency maximum, bd_exponent = exponent maximum,
      bd_sequence = au_bid_count auction + 1, bd_created_at = now, bd_visible_amount_minor = None\<rparr>"

definition bid_leader :: "bid_row list \<Rightarrow> pubky" where
  "bid_leader bids = bd_bidder_pubky (hd (ranked_bidder_maximums bids))"

definition bid_price :: "bid_row list \<Rightarrow> listing_row \<Rightarrow> auction_state \<Rightarrow> int" where
  "bid_price bids listing auction =
     visible_amount (ranked_bidder_maximums bids) (amount_minor (au_minimum_increment auction))
       (ls_unit_price_amount_minor listing)"

text \<open>The document and the listing row an accepted bid writes.\<close>

definition bid_list :: "db \<Rightarrow> pubky \<Rightarrow> command \<Rightarrow> listing_row \<Rightarrow> auction_state \<Rightarrow> money \<Rightarrow> datetime \<Rightarrow> bid_row list" where
  "bid_list d actor command listing auction maximum now =
     fetch_bids d (ls_aggregate_id listing) @ [bid_of actor command listing auction maximum now]"

definition bid_document :: "bid_row list \<Rightarrow> listing_row \<Rightarrow> auction_state \<Rightarrow> datetime \<Rightarrow> auction_state" where
  "bid_document bids listing auction now =
     auction_to_value (auction_after_bid auction (bid_price bids listing auction) (bid_leader bids) now)"

definition bid_listing :: "auction_state \<Rightarrow> datetime \<Rightarrow> listing_row \<Rightarrow> listing_row" where
  "bid_listing document now l =
     l\<lparr>ls_server_revision := ls_server_revision l + 1, ls_auction := Some document, ls_updated_at := now\<rparr>"

text \<open>A list of one or none.\<close>

definition some_list :: "'a option \<Rightarrow> 'a list" where
  "some_list x = (case x of None \<Rightarrow> [] | Some y \<Rightarrow> [y])"

section \<open>A sample\<close>

definition sample_auction :: auction_state where
  "sample_auction =
     \<lparr>au_starts_at = 0, au_ends_at = seconds 1000,
      au_minimum_increment = \<lparr>amount_minor = 10, currency = ''USD'', exponent = 2\<rparr>,
      au_anti_sniping_window_seconds = 300, au_anti_sniping_extension_seconds = 0,
      au_status = ''active'', au_current_price = \<lparr>amount_minor = 100, currency = ''USD'', exponent = 2\<rparr>,
      au_leader_pubky = Some ''ann'', au_bid_count = 1\<rparr>"

definition sample_bid :: bid_row where
  "sample_bid =
     \<lparr>bd_id = ''b1'', bd_listing_aggregate_id = ''listing:a'', bd_bidder_pubky = ''ann'',
      bd_maximum_amount_minor = 500, bd_currency = ''USD'', bd_exponent = 2, bd_sequence = 1,
      bd_created_at = 5, bd_visible_amount_minor = Some 100\<rparr>"

definition sample_auction_listing :: listing_row where
  "sample_auction_listing =
     sample_listing\<lparr>ls_aggregate_id := ''listing:a'', ls_listing_id := ''a'', ls_total_quantity := 1,
       ls_available_quantity := 1, ls_reserved_quantity := 0, ls_sale_format := ''auction'',
       ls_auction := Some sample_auction\<rparr>"

definition sample_auction_db :: db where
  "sample_auction_db =
     empty_db\<lparr>st_listings := [sample_auction_listing], st_bids := [sample_bid],
       st_reserves := [\<lparr>rs_listing_aggregate_id = ''listing:a'', rs_listing_revision = 1,
         rs_record_revision = 1, rs_reserve_price = None, rs_last_command_id = ''c0'', rs_updated_at = 0\<rparr>]\<rparr>"

definition sample_bid_payload :: place_bid_payload where
  "sample_bid_payload = \<lparr>pb_maximum_amount = \<lparr>amount_minor = 600, currency = ''USD'', exponent = 2\<rparr>\<rparr>"

definition sample_auction_command :: "uuid \<Rightarrow> int \<Rightarrow> command_payload \<Rightarrow> command" where
  "sample_auction_command command_id revision payload =
     \<lparr>cmd_command_id = command_id, cmd_aggregate_id = ''listing:a'', cmd_expected_revision = revision,
      cmd_issued_at = 0, cmd_payload = payload\<rparr>"

definition sample_reserve_one :: reserve_inventory_payload where
  "sample_reserve_one = \<lparr>ri_quantity = 1, ri_reservation_ttl_seconds = 300\<rparr>"

text \<open>The same auction with an extension of 300 seconds.\<close>

definition sample_extending_db :: db where
  "sample_extending_db =
     sample_auction_db\<lparr>st_listings := [sample_auction_listing\<lparr>ls_auction :=
       Some (sample_auction\<lparr>au_anti_sniping_extension_seconds := 300\<rparr>)\<rparr>]\<rparr>"

section \<open>Facts about the ranking\<close>

lemma sorted_insert_by:
  assumes "\<And>x y. le x y \<or> le y x" "\<And>x y z. le x y \<Longrightarrow> le y z \<Longrightarrow> le x z" "sorted_wrt le ys"
  shows "sorted_wrt le (insert_by le x ys)"
  using assms(3)
proof (induction ys)
  case (Cons y ys)
  with assms(1) [of x y] show ?case by (auto intro: assms(2))
qed simp

lemma sorted_sort_by:
  assumes "\<And>x y. le x y \<or> le y x" "\<And>x y z. le x y \<Longrightarrow> le y z \<Longrightarrow> le x z"
  shows "sorted_wrt le (sort_by le xs)"
  by (induction xs) (simp_all add: sort_by_def sorted_insert_by assms)

lemma insert_by_last: "le x z \<Longrightarrow> insert_by le x (ys @ [z]) = insert_by le x ys @ [z]"
  by (induction ys) simp_all

lemma sort_by_last: "(\<And>x. x \<in> set xs \<Longrightarrow> le x z) \<Longrightarrow> sort_by le (xs @ [z]) = sort_by le xs @ [z]"
  by (induction xs) (simp_all add: sort_by_def insert_by_last)

lemma sort_by_map:
  assumes "\<And>x y. le (f x) (f y) = le x y"
  shows "sort_by le (map f xs) = map f (sort_by le xs)"
proof -
  have "insert_by le (f x) (map f ys) = map f (insert_by le x ys)" for x ys
    using assms by (induction ys) simp_all
  then show ?thesis by (induction xs) (simp_all add: sort_by_def)
qed

lemma ranks_before_total: "ranks_before x y \<or> ranks_before y x"
  by (auto simp: ranks_before_def)

lemma ranks_before_trans: "ranks_before x y \<Longrightarrow> ranks_before y z \<Longrightarrow> ranks_before x z"
  by (auto simp: ranks_before_def)

lemma outranks_iff: "outranks x y \<longleftrightarrow> \<not> ranks_before y x"
  by (auto simp: outranks_def ranks_before_def)

lemma bidders_note_maximum:
  "map bd_bidder_pubky (note_maximum latest bid) =
   (if bd_bidder_pubky bid \<in> bd_bidder_pubky ` set latest then map bd_bidder_pubky latest
    else map bd_bidder_pubky latest @ [bd_bidder_pubky bid])"
  by (induction latest) auto

lemma note_maximum_best:
  assumes "distinct (map bd_bidder_pubky latest)" "c \<in> set (note_maximum latest bid)"
  shows "c \<in> set latest \<and> bd_bidder_pubky c \<noteq> bd_bidder_pubky bid
    \<or> bd_bidder_pubky c = bd_bidder_pubky bid \<and> ranks_before c bid \<and> (c = bid \<or> c \<in> set latest)
      \<and> (\<forall>o' \<in> set latest. bd_bidder_pubky o' = bd_bidder_pubky bid \<longrightarrow> ranks_before c o')"
  using assms
proof (induction latest)
  case Nil
  then show ?case by (simp add: ranks_before_def)
next
  case (Cons a latest)
  show ?case
  proof (cases "bd_bidder_pubky a = bd_bidder_pubky bid")
    case True
    with Cons.prems(1) have "\<forall>o' \<in> set latest. bd_bidder_pubky o' \<noteq> bd_bidder_pubky bid"
      by (auto simp: image_iff)
    with True Cons.prems(2) show ?thesis
      using ranks_before_total [of a bid] ranks_before_total [of a a] ranks_before_total [of bid bid]
      by (auto simp: outranks_iff split: if_splits)
  next
    case False
    with Cons show ?thesis by auto
  qed
qed

lemma bests_snoc:
  assumes "bests bids latest"
  shows "bests (bids @ [bid]) (note_maximum latest bid)"
proof -
  have d: "distinct (map bd_bidder_pubky latest)"
    and s: "bd_bidder_pubky ` set latest = bd_bidder_pubky ` set bids"
    and best: "\<And>c b. c \<in> set latest \<Longrightarrow> b \<in> set bids \<Longrightarrow> bd_bidder_pubky b = bd_bidder_pubky c \<Longrightarrow> ranks_before c b"
    and sub: "set latest \<subseteq> set bids"
    using assms by (auto simp: bests_def)
  have "c \<in> set (bids @ [bid])
      \<and> (\<forall>b \<in> set (bids @ [bid]). bd_bidder_pubky b = bd_bidder_pubky c \<longrightarrow> ranks_before c b)"
    if "c \<in> set (note_maximum latest bid)" for c
  proof (cases "bd_bidder_pubky c = bd_bidder_pubky bid")
    case False
    with note_maximum_best [OF d that] sub best show ?thesis by auto
  next
    case True
    with note_maximum_best [OF d that] have c: "ranks_before c bid" "c = bid \<or> c \<in> set latest"
      "\<And>o'. o' \<in> set latest \<Longrightarrow> bd_bidder_pubky o' = bd_bidder_pubky bid \<Longrightarrow> ranks_before c o'"
      by auto
    have "ranks_before c b" if b: "b \<in> set bids" "bd_bidder_pubky b = bd_bidder_pubky bid" for b
    proof -
      obtain o' where "o' \<in> set latest" "bd_bidder_pubky o' = bd_bidder_pubky bid"
        using s b by (metis image_iff)
      with best [of o' b] b c(3) show ?thesis by (metis ranks_before_trans)
    qed
    with c True sub show ?thesis by auto
  qed
  moreover have "bd_bidder_pubky ` set (note_maximum latest bid) = bd_bidder_pubky ` set (bids @ [bid])"
    using arg_cong [OF bidders_note_maximum [of latest bid], of set] s by (auto split: if_splits)
  moreover have "distinct (map bd_bidder_pubky (note_maximum latest bid))"
    using d by (auto simp: bidders_note_maximum)
  ultimately show ?thesis by (auto simp: bests_def)
qed

lemma bests_fold: "bests bids (foldl note_maximum [] bids)"
proof (induction bids rule: rev_induct)
  case Nil
  show ?case by (simp add: bests_def)
next
  case (snoc bid bids)
  then show ?case by (simp add: bests_snoc)
qed

lemma ranked_bests: "bests bids (ranked_bidder_maximums bids)"
  using bests_fold [of bids]
  by (simp add: bests_def ranked_bidder_maximums_def distinct_sort_by)

lemma ranked_sorted: "sorted_wrt ranks_before (ranked_bidder_maximums bids)"
  unfolding ranked_bidder_maximums_def
  by (rule sorted_sort_by) (use ranks_before_total ranks_before_trans in blast)+

lemma ranked_Nil [simp]: "ranked_bidder_maximums bids = [] \<longleftrightarrow> bids = []"
  using ranked_bests [of bids] by (auto simp: bests_def)

lemma ranked_covers:
  assumes "b \<in> set bids"
  shows "\<exists>c \<in> set (ranked_bidder_maximums bids). bd_bidder_pubky c = bd_bidder_pubky b \<and> ranks_before c b"
proof -
  have "bd_bidder_pubky b \<in> bd_bidder_pubky ` set (ranked_bidder_maximums bids)"
    using ranked_bests [of bids] assms by (simp add: bests_def)
  then obtain c where c: "c \<in> set (ranked_bidder_maximums bids)" "bd_bidder_pubky c = bd_bidder_pubky b"
    by (metis image_iff)
  then have "ranks_before c b" using ranked_bests [of bids] assms by (simp add: bests_def)
  with c show ?thesis by blast
qed

lemma leader_best:
  assumes "ranked_bidder_maximums bids = leader # rest"
  shows "leader \<in> set bids" "\<And>b. b \<in> set bids \<Longrightarrow> ranks_before leader b"
proof -
  note r = ranked_bests [of bids] ranked_sorted [of bids]
  show "leader \<in> set bids" using r(1) assms by (simp add: bests_def)
  show "ranks_before leader b" if b: "b \<in> set bids" for b
  proof -
    obtain c where c: "c \<in> set (leader # rest)" "ranks_before c b"
      using ranked_covers [OF b] assms by auto
    have "ranks_before leader c"
      using r(2) assms c ranks_before_total [of leader leader] by auto
    then show ?thesis using c(2) by (metis ranks_before_trans)
  qed
qed

lemma runner_best:
  assumes "ranked_bidder_maximums bids = leader # runner # rest"
  shows "runner \<in> set bids" "bd_bidder_pubky runner \<noteq> bd_bidder_pubky leader"
    "\<And>b. b \<in> set bids \<Longrightarrow> bd_bidder_pubky b \<noteq> bd_bidder_pubky leader \<Longrightarrow> ranks_before runner b"
proof -
  note r = ranked_bests [of bids] ranked_sorted [of bids]
  show "runner \<in> set bids" "bd_bidder_pubky runner \<noteq> bd_bidder_pubky leader"
    using r(1) assms by (auto simp: bests_def)
  show "ranks_before runner b"
    if b: "b \<in> set bids" "bd_bidder_pubky b \<noteq> bd_bidder_pubky leader" for b
  proof -
    obtain c where c: "c \<in> set (runner # rest)" "ranks_before c b"
      using ranked_covers [OF b(1)] assms b(2) by auto
    have "ranks_before runner c"
      using r(2) assms c ranks_before_total [of runner runner] by auto
    then show ?thesis using c(2) by (metis ranks_before_trans)
  qed
qed

section \<open>Facts about the visible price\<close>

lemma ranks_before_max: "ranks_before x y \<Longrightarrow> bd_maximum_amount_minor y \<le> bd_maximum_amount_minor x"
  by (auto simp: ranks_before_def)

lemma wrap_amount:
  "0 < x \<Longrightarrow> x \<le> MAX_SAFE_INTEGER \<Longrightarrow> 1 \<le> y \<Longrightarrow> y \<le> MAX_SAFE_INTEGER \<Longrightarrow> wrap_i64 (x + y) = x + y"
  by (rule wrap_i64_exact) (simp_all add: i64_min_def i64_max_def MAX_SAFE_INTEGER_def)

lemma visible_two:
  assumes "amounts_ok inc start bids" "ranked_bidder_maximums bids = leader # runner # rest"
  shows "visible_amount (ranked_bidder_maximums bids) inc start
    = min (bd_maximum_amount_minor leader) (bd_maximum_amount_minor runner + inc)"
proof -
  have "runner \<in> set bids" using assms(2) by (rule runner_best(1))
  with assms(1) have "0 < bd_maximum_amount_minor runner" "bd_maximum_amount_minor runner \<le> MAX_SAFE_INTEGER"
    by (auto simp: amounts_ok_def)
  with assms show ?thesis by (simp add: wrap_amount amounts_ok_def)
qed

lemma visible_bounds:
  assumes "amounts_ok inc start bids" "ranked_bidder_maximums bids = leader # rest"
  shows "start \<le> visible_amount (ranked_bidder_maximums bids) inc start"
    "visible_amount (ranked_bidder_maximums bids) inc start \<le> bd_maximum_amount_minor leader"
proof -
  have l: "start \<le> bd_maximum_amount_minor leader"
    using assms(1) leader_best(1) [OF assms(2)] by (auto simp: amounts_ok_def)
  have "start \<le> visible_amount (ranked_bidder_maximums bids) inc start
    \<and> visible_amount (ranked_bidder_maximums bids) inc start \<le> bd_maximum_amount_minor leader"
  proof (cases rest)
    case Nil
    with assms l show ?thesis by simp
  next
    case (Cons runner rest')
    with assms(2) have two: "ranked_bidder_maximums bids = leader # runner # rest'" by simp
    have "start \<le> bd_maximum_amount_minor runner" "1 \<le> inc"
      using assms(1) runner_best(1) [OF two] by (auto simp: amounts_ok_def)
    with l visible_two [OF assms(1) two] show ?thesis by simp
  qed
  then show "start \<le> visible_amount (ranked_bidder_maximums bids) inc start"
    "visible_amount (ranked_bidder_maximums bids) inc start \<le> bd_maximum_amount_minor leader" by simp_all
qed

lemma visible_mono:
  assumes ok: "amounts_ok inc start bids'" and sub: "set bids \<subseteq> set bids'" and ne: "bids' \<noteq> []"
  shows "visible_amount (ranked_bidder_maximums bids) inc start
    \<le> visible_amount (ranked_bidder_maximums bids') inc start"
proof -
  obtain l' rest' where l': "ranked_bidder_maximums bids' = l' # rest'"
    using ne by (cases "ranked_bidder_maximums bids'") auto
  have "visible_amount xs inc start = start \<or> (\<exists>l r rest. xs = l # r # rest)" for xs
    by (cases "(xs, inc, start)" rule: visible_amount.cases) auto
  then consider "visible_amount (ranked_bidder_maximums bids) inc start = start"
    | l r rest where "ranked_bidder_maximums bids = l # r # rest" by blast
  then show ?thesis
  proof cases
    case 1
    with visible_bounds(1) [OF ok l'] show ?thesis by simp
  next
    case 2
    have ok0: "amounts_ok inc start bids" using ok sub by (auto simp: amounts_ok_def)
    have lr: "l \<in> set bids'" "r \<in> set bids'" "bd_bidder_pubky r \<noteq> bd_bidder_pubky l"
      using sub leader_best(1) [OF 2] runner_best(1,2) [OF 2] by auto
    obtain c where "c \<in> set (l' # rest')" "bd_bidder_pubky c \<noteq> bd_bidder_pubky l'"
      using ranked_covers [OF lr(1)] ranked_covers [OF lr(2)] lr(3) l' by metis
    then obtain r' rest'' where two: "ranked_bidder_maximums bids' = l' # r' # rest''"
      using l' by (cases rest') auto
    have "bd_maximum_amount_minor l \<le> bd_maximum_amount_minor l'"
      using leader_best(2) [OF l' lr(1)] by (rule ranks_before_max)
    moreover have "bd_maximum_amount_minor r \<le> bd_maximum_amount_minor r'"
    proof (cases "bd_bidder_pubky r = bd_bidder_pubky l'")
      case False
      from runner_best(3) [OF two lr(2) False] show ?thesis by (rule ranks_before_max)
    next
      case True
      with lr(3) have "ranks_before r' l" by (intro runner_best(3) [OF two lr(1)]) simp
      moreover have "ranks_before l r" using leader_best(2) [OF 2] runner_best(1) [OF 2] by simp
      ultimately show ?thesis by (blast intro: ranks_before_max ranks_before_trans)
    qed
    ultimately show ?thesis by (auto simp: visible_two [OF ok0 2] visible_two [OF ok two] min_def)
  qed
qed

text \<open>The visible amount written to a bid does not touch its rank.\<close>

lemma ranked_map:
  assumes "\<And>b. bd_bidder_pubky (f b) = bd_bidder_pubky b"
    "\<And>b. bd_maximum_amount_minor (f b) = bd_maximum_amount_minor b" "\<And>b. bd_sequence (f b) = bd_sequence b"
  shows "ranked_bidder_maximums (map f bids) = map f (ranked_bidder_maximums bids)"
proof -
  have "note_maximum (map f latest) (f bid) = map f (note_maximum latest bid)" for latest bid
    using assms by (induction latest) (auto simp: outranks_def)
  then have "foldl note_maximum (map f latest) (map f bids) = map f (foldl note_maximum latest bids)" for latest
    by (induction bids arbitrary: latest) simp_all
  from this [of "[]"] show ?thesis
    by (simp add: ranked_bidder_maximums_def sort_by_map ranks_before_def assms)
qed

lemma visible_map:
  "(\<And>b. bd_maximum_amount_minor (f b) = bd_maximum_amount_minor b) \<Longrightarrow>
   visible_amount (map f ranked) inc start = visible_amount ranked inc start"
  by (cases "(ranked, inc, start)" rule: visible_amount.cases) auto

section \<open>Facts about bidding\<close>

lemma fetch_map_row:
  "(\<And>x. ls_aggregate_id (f x) = ls_aggregate_id x) \<Longrightarrow>
   fetch ls_aggregate_id k (map (\<lambda>x. if ls_aggregate_id x = k then f x else x) rows)
   = map_option f (fetch ls_aggregate_id k rows)"
  by (induction rows) (auto simp: fetch_def)

lemma fetch_live_listing_Some:
  "fetch_live_listing d a = Some l \<longleftrightarrow> fetch_listing d a = Some l \<and> \<not> is_deleted l"
  by (auto simp: fetch_live_listing_def split: option.splits)

lemma insert_notification_frame [simp]:
  "st_listings (insert_notification_intent e t r p a m now d) = st_listings d"
  "st_reservations (insert_notification_intent e t r p a m now d) = st_reservations d"
  "st_orders (insert_notification_intent e t r p a m now d) = st_orders d"
  "st_payments (insert_notification_intent e t r p a m now d) = st_payments d"
  "st_bids (insert_notification_intent e t r p a m now d) = st_bids d"
  "st_drops (insert_notification_intent e t r p a m now d) = st_drops d"
  "st_drop_purchases (insert_notification_intent e t r p a m now d) = st_drop_purchases d"
  "st_reserves (insert_notification_intent e t r p a m now d) = st_reserves d"
  by (simp_all add: insert_notification_intent_def)

lemma notify_outbid_frame [simp]:
  "st_listings (notify_outbid e p l a x v now d) = st_listings d"
  "st_reservations (notify_outbid e p l a x v now d) = st_reservations d"
  "st_orders (notify_outbid e p l a x v now d) = st_orders d"
  "st_bids (notify_outbid e p l a x v now d) = st_bids d"
  "st_drops (notify_outbid e p l a x v now d) = st_drops d"
  "st_drop_purchases (notify_outbid e p l a x v now d) = st_drop_purchases d"
  by (simp_all add: notify_outbid_def split: option.splits)

text \<open>The guards of an accepted bid.\<close>

lemma place_bid_accepted:
  assumes "place_bid new_v4 actor command payload now d = Inr (Inr s, d')"
  obtains listing auction where "fetch_listing d (cmd_aggregate_id command) = Some listing"
    "\<not> is_deleted listing" "ls_seller_pubky listing \<noteq> actor" "parse_auction listing = Some auction"
    "au_status auction = ''active''" "cmd_expected_revision command = ls_server_revision listing"
    "au_starts_at auction \<le> now" "now < au_ends_at auction"
    "personal_minimum_next_bid (amount_minor (au_current_price auction))
       (amount_minor (au_minimum_increment auction))
       (bidder_previous_maximum (fetch_bids d (ls_aggregate_id listing)) actor)
     \<le> amount_minor (pb_maximum_amount payload)"
    "record_bid new_v4 actor command listing auction (pb_maximum_amount payload) now d = Inr (Inr s, d')"
  using assms
  by (auto simp: place_bid_def fetch_live_listing_Some split: option.splits if_splits intro!: that)

lemma bid_listing_simps [simp]:
  "ls_aggregate_id (bid_listing doc now l) = ls_aggregate_id l"
  "ls_reserved_quantity (bid_listing doc now l) = ls_reserved_quantity l"
  "ls_total_quantity (bid_listing doc now l) = ls_total_quantity l"
  "ls_unit_price_amount_minor (bid_listing doc now l) = ls_unit_price_amount_minor l"
  "ls_server_revision (bid_listing doc now l) = ls_server_revision l + 1"
  "parse_auction (bid_listing doc now l) = (if ls_sale_format l = ''auction'' then Some doc else None)"
  by (simp_all add: bid_listing_def parse_auction_def)

lemma parse_bid_listing: "parse_auction l = Some auction \<Longrightarrow> parse_auction (bid_listing doc now l) = Some doc"
  by (simp add: parse_auction_def bid_listing_def split: if_splits)

text \<open>The tables after an accepted bid.\<close>

lemma record_bid_tables:
  fixes listing auction actor command maximum now d
  defines "bids \<equiv> bid_list d actor command listing auction maximum now"
    and "bid \<equiv> bid_of actor command listing auction maximum now"
  assumes t: "table_ok ls_aggregate_id listing_check (st_listings d)"
    and run: "record_bid new_v4 actor command listing auction maximum now d = Inr (Inr s, d')"
  shows "st_bids d' = st_bids d @ [bid\<lparr>bd_visible_amount_minor := Some (bid_price bids listing auction)\<rparr>]"
    "st_listings d' = map (\<lambda>l. if ls_aggregate_id l = ls_aggregate_id listing
       then bid_listing (bid_document bids listing auction now) now l else l) (st_listings d)"
    "table_ok ls_aggregate_id listing_check (st_listings d')"
    "\<forall>a. total_stock d' a = total_stock d a"
    "st_reservations d' = st_reservations d" "st_orders d' = st_orders d" "st_drops d' = st_drops d"
    "st_drop_purchases d' = st_drop_purchases d"
proof -
  let ?v = "bid_price bids listing auction" and ?f = "bid_listing (bid_document bids listing auction now) now"
  obtain d1 row w d2 e d3 where i: "insert_bid bid d = Inr ((), d1)"
    and u: "update_listings (\<lambda>l. ls_aggregate_id l = ls_aggregate_id listing) ?f
        (set_visible_amount (bd_id bid) ?v d1) = Inr (row # w, d2)"
    and ev: "insert_event new_v4 (cmd_command_id command) (ls_aggregate_id listing) (ls_server_revision row) actor
       ''auction.bid_placed'' now d2 = Inr (e, d3)"
    and d': "d' = notify_outbid e (au_leader_pubky auction) (bid_leader bids) actor listing ?v now d3"
    using run
    by (auto simp: record_bid_def Let_def seq_eq_Inr fetch_one_Inr bid_of_def bid_def bids_def bid_list_def
        bid_leader_def bid_price_def bid_document_def bid_listing_def [abs_def])
  have d1: "d1 = d\<lparr>st_bids := st_bids d @ [bid]\<rparr>" and fresh: "\<forall>b \<in> set (st_bids d). bd_id b \<noteq> bd_id bid"
    using i by (auto simp: insert_bid_def sql_insert_def bid_clash_def list_ex_iff split: if_splits)
  have t1: "table_ok ls_aggregate_id listing_check (st_listings (set_visible_amount (bd_id bid) ?v d1))"
    using t by (simp add: d1 set_visible_amount_def)
  have step: "listings_step (set_visible_amount (bd_id bid) ?v d1) d2"
    by (rule update_listings_step [OF t1 u]) simp_all
  have d2: "st_bids d2 = st_bids (set_visible_amount (bd_id bid) ?v d1)"
    using u by (simp add: listings.upd_Inr)
  have d3: "st_bids d3 = st_bids d2" "st_listings d3 = st_listings d2" "st_reservations d3 = st_reservations d2"
    "st_orders d3 = st_orders d2" "st_drops d3 = st_drops d2" "st_drop_purchases d3 = st_drop_purchases d2"
    using insert_event_Inr [OF ev] by auto
  have "map (\<lambda>b. if bd_id b = bd_id bid then b\<lparr>bd_visible_amount_minor := Some ?v\<rparr> else b) (st_bids d) = st_bids d"
    using fresh by (intro map_idI) auto
  then show "st_bids d' = st_bids d @ [bid\<lparr>bd_visible_amount_minor := Some ?v\<rparr>]"
    by (simp add: d' d3 d2 d1 set_visible_amount_def)
  show "st_listings d' = map (\<lambda>l. if ls_aggregate_id l = ls_aggregate_id listing then ?f l else l) (st_listings d)"
    using listings.upd_get [OF u] by (simp add: d' d3 d1 set_visible_amount_def)
  show "table_ok ls_aggregate_id listing_check (st_listings d')"
    using listings_stepD(6) [OF step] by (simp add: d' d3)
  show "\<forall>a. total_stock d' a = total_stock d a"
    using step by (simp add: listings_step_def total_stock_def fetch_listing_def d' d3 d1 set_visible_amount_def)
  show "st_reservations d' = st_reservations d" "st_orders d' = st_orders d" "st_drops d' = st_drops d"
    "st_drop_purchases d' = st_drop_purchases d"
    using listings_stepD(1,2,4,5) [OF step] by (simp_all add: d' d3 d1 set_visible_amount_def)
qed

lemma bidding_ok_amounts:
  assumes "bidding_ok d l auction"
  shows "amounts_ok (amount_minor (au_minimum_increment auction)) (ls_unit_price_amount_minor l)
    (fetch_bids d (ls_aggregate_id l))"
  using assms by (auto simp: bidding_ok_def amounts_ok_def Let_def list_all_iff)

lemma bidding_ok_leader:
  "bidding_ok d l auction \<Longrightarrow> au_leader_pubky auction = Some p \<Longrightarrow>
   \<exists>leader rest. ranked_bidder_maximums (fetch_bids d (ls_aggregate_id l)) = leader # rest
     \<and> p = bd_bidder_pubky leader"
  by (auto simp: bidding_ok_def Let_def split: list.splits)

lemma bidding_ok_price:
  assumes "bidding_ok d l auction"
  shows "ls_unit_price_amount_minor l \<le> amount_minor (au_current_price auction)"
    "amount_minor (au_current_price auction) \<le> MAX_SAFE_INTEGER"
    "\<And>leader rest. ranked_bidder_maximums (fetch_bids d (ls_aggregate_id l)) = leader # rest \<Longrightarrow>
      amount_minor (au_current_price auction) \<le> bd_maximum_amount_minor leader"
proof -
  let ?bids = "fetch_bids d (ls_aggregate_id l)"
  note a = bidding_ok_amounts [OF assms]
  have price: "amount_minor (au_current_price auction) = visible_amount (ranked_bidder_maximums ?bids)
      (amount_minor (au_minimum_increment auction)) (ls_unit_price_amount_minor l)"
    and safe: "ls_unit_price_amount_minor l \<le> MAX_SAFE_INTEGER"
      "\<forall>b \<in> set ?bids. bd_maximum_amount_minor b \<le> MAX_SAFE_INTEGER"
    using assms by (auto simp: bidding_ok_def Let_def list_all_iff)
  show "amount_minor (au_current_price auction) \<le> bd_maximum_amount_minor leader"
    if "ranked_bidder_maximums ?bids = leader # rest" for leader rest
    using visible_bounds(2) [OF a that] price by simp
  have "ls_unit_price_amount_minor l \<le> amount_minor (au_current_price auction)
    \<and> amount_minor (au_current_price auction) \<le> MAX_SAFE_INTEGER"
  proof (cases "ranked_bidder_maximums ?bids")
    case Nil
    with price safe(1) show ?thesis by (simp only: visible_amount.simps) simp
  next
    case (Cons leader rest)
    from visible_bounds [OF a Cons] price safe(2) leader_best(1) [OF Cons] show ?thesis by force
  qed
  then show "ls_unit_price_amount_minor l \<le> amount_minor (au_current_price auction)"
    "amount_minor (au_current_price auction) \<le> MAX_SAFE_INTEGER" by simp_all
qed

text \<open>An accepted maximum passes the visible price by the increment and the bidder's own maximum.\<close>

lemma personal_minimum_bound:
  assumes "personal_minimum_next_bid price inc previous \<le> m" "0 \<le> price" "price \<le> MAX_SAFE_INTEGER"
    "1 \<le> inc" "inc \<le> MAX_SAFE_INTEGER" "0 \<le> previous" "previous \<le> MAX_SAFE_INTEGER"
  shows "price + inc \<le> m" "0 < previous \<Longrightarrow> previous < m"
proof -
  have sat: "saturating_add price inc = price + inc" "saturating_add previous 1 = previous + 1"
    using assms(2-7) by (auto intro!: saturating_add_exact simp: MAX_SAFE_INTEGER_def i64_min_def i64_max_def)
  from assms(1) show "price + inc \<le> m" "0 < previous \<Longrightarrow> previous < m"
    by (auto simp: personal_minimum_next_bid_def Let_def sat split: if_splits)
qed

lemma foldl_max_ge: "y \<in> set (x # xs) \<Longrightarrow> y \<le> foldl max (x :: int) xs"
proof (induction xs arbitrary: x y)
  case (Cons z zs)
  consider "y = x" | "y = z" | "y \<in> set zs" using Cons.prems by auto
  then show ?case
  proof cases
    case 3
    with Cons.IH [of y "max x z"] show ?thesis by simp
  qed (use Cons.IH [of "max x z" "max x z"] in auto)
qed simp

lemma foldl_max_in: "foldl max (x :: int) xs \<in> set (x # xs)"
proof (induction xs arbitrary: x)
  case (Cons z zs)
  from Cons.IH [of "max x z"] show ?case by (auto simp: max_def split: if_splits)
qed simp

lemma previous_maximum:
  "b \<in> set bids \<Longrightarrow> bd_bidder_pubky b = actor \<Longrightarrow> bd_maximum_amount_minor b \<le> bidder_previous_maximum bids actor"
  "bidder_previous_maximum bids actor = 0
   \<or> (\<exists>b \<in> set bids. bidder_previous_maximum bids actor = bd_maximum_amount_minor b)"
proof -
  let ?xs = "map bd_maximum_amount_minor (filter (\<lambda>b. bd_bidder_pubky b = actor) bids)"
  have "x \<in> set ?xs \<Longrightarrow> x \<le> max_or_zero ?xs" for x
    using foldl_max_ge by (cases ?xs) auto
  then show "b \<in> set bids \<Longrightarrow> bd_bidder_pubky b = actor \<Longrightarrow> bd_maximum_amount_minor b \<le> bidder_previous_maximum bids actor"
    by (simp add: bidder_previous_maximum_def)
  have "max_or_zero ?xs = 0 \<or> max_or_zero ?xs \<in> set ?xs"
    using foldl_max_in by (cases ?xs) auto
  then show "bidder_previous_maximum bids actor = 0
   \<or> (\<exists>b \<in> set bids. bidder_previous_maximum bids actor = bd_maximum_amount_minor b)"
    unfolding bidder_previous_maximum_def by auto
qed

lemma fetch_bids_snoc:
  assumes "st_bids d' = st_bids d @ [b]"
    and "\<And>x. x \<in> set (fetch_bids d (bd_listing_aggregate_id b)) \<Longrightarrow> bd_sequence x \<le> bd_sequence b"
  shows "fetch_bids d' k = fetch_bids d k @ (if bd_listing_aggregate_id b = k then [b] else [])"
  using assms by (auto simp: fetch_bids_def intro!: sort_by_last)

text \<open>The document after a bid describes the bids after it.\<close>

lemma bidding_ok_step:
  assumes ok: "bidding_ok d l auction"
    and bids: "fetch_bids d' (ls_aggregate_id l) = fetch_bids d (ls_aggregate_id l) @ [b']"
    and b': "b' = f b" "f = (\<lambda>x. if x = b then x\<lparr>bd_visible_amount_minor := v\<rparr> else x)"
    and fresh: "b \<notin> set (fetch_bids d (ls_aggregate_id l))"
    and m: "ls_unit_price_amount_minor l \<le> bd_maximum_amount_minor b" "bd_maximum_amount_minor b \<le> MAX_SAFE_INTEGER"
    and s: "bd_sequence b = au_bid_count auction + 1"
    and l': "ls_aggregate_id l' = ls_aggregate_id l" "ls_unit_price_amount_minor l' = ls_unit_price_amount_minor l"
    and bs: "bs = fetch_bids d (ls_aggregate_id l) @ [b]"
  shows "bidding_ok d' l' (bid_document bs l auction now)"
proof -
  have f: "bd_bidder_pubky (f x) = bd_bidder_pubky x" "bd_maximum_amount_minor (f x) = bd_maximum_amount_minor x"
    "bd_sequence (f x) = bd_sequence x" for x
    by (simp_all add: b'(2))
  have "map f (fetch_bids d (ls_aggregate_id l)) = fetch_bids d (ls_aggregate_id l)"
    using fresh by (intro map_idI) (auto simp: b'(2))
  then have all: "fetch_bids d' (ls_aggregate_id l) = map f bs" by (simp add: bids bs b'(1))
  have r: "ranked_bidder_maximums (map f bs) = map f (ranked_bidder_maximums bs)" by (rule ranked_map) (rule f)+
  obtain leader rest where lr: "ranked_bidder_maximums bs = leader # rest"
    by (cases "ranked_bidder_maximums bs") (auto simp: bs)
  have vis: "visible_amount (f leader # map f rest) i p = visible_amount (leader # rest) i p" for i p
    using visible_map [of f "leader # rest"] f by simp
  have "list_all (\<lambda>b. ls_unit_price_amount_minor l \<le> bd_maximum_amount_minor b
      \<and> bd_maximum_amount_minor b \<le> MAX_SAFE_INTEGER
      \<and> 1 \<le> bd_sequence b \<and> bd_sequence b \<le> au_bid_count auction + 1) (map f bs)"
    using ok m s by (auto simp: list_all_iff bs f bidding_ok_def Let_def)
  then show ?thesis
    using ok
    by (simp add: bidding_ok_def l' all r vis f lr bid_document_def bid_leader_def bid_price_def auction_to_value_def
        auction_after_bid_def Let_def) (simp add: bs)
qed

lemma auctions_okD:
  "auctions_ok d \<Longrightarrow> l \<in> set (st_listings d) \<Longrightarrow> parse_auction l = Some auction \<Longrightarrow> bidding_ok d l auction"
  by (auto simp: auctions_ok_def list_all_iff split: option.splits)

lemma bidding_ok_cong:
  "fetch_bids d' (ls_aggregate_id l) = fetch_bids d (ls_aggregate_id l) \<Longrightarrow> bidding_ok d' l auction = bidding_ok d l auction"
  by (simp add: bidding_ok_def)

lemma bidding_ok_bids:
  assumes "bidding_ok d l auction" "b \<in> set (fetch_bids d (ls_aggregate_id l))"
  shows "bd_sequence b \<le> au_bid_count auction" "bd_maximum_amount_minor b \<le> MAX_SAFE_INTEGER"
    "0 < bd_maximum_amount_minor b"
  using assms by (auto simp: bidding_ok_def Let_def list_all_iff)

lemma set_fetch_bids: "set (fetch_bids d a) = {b \<in> set (st_bids d). bd_listing_aggregate_id b = a}"
  by (auto simp: fetch_bids_def)

lemma record_bid_fresh:
  "record_bid new_v4 actor command listing auction maximum now d = Inr (Inr s, d') \<Longrightarrow>
   bid_of actor command listing auction maximum now \<notin> set (fetch_bids d a)"
  by (auto simp: record_bid_def Let_def seq_eq_Inr insert_bid_def sql_insert_def bid_clash_def list_ex_iff
      bid_of_def set_fetch_bids split: if_splits)

text \<open>What \<open>minimum_next_bid\<close> says of an accepted maximum.\<close>

lemma accepted_maximum:
  assumes ok: "bidding_ok d l auction"
    and m: "personal_minimum_next_bid (amount_minor (au_current_price auction))
       (amount_minor (au_minimum_increment auction))
       (bidder_previous_maximum (fetch_bids d (ls_aggregate_id l)) actor) \<le> m"
  shows "amount_minor (au_current_price auction) + amount_minor (au_minimum_increment auction) \<le> m"
    "\<And>b. b \<in> set (fetch_bids d (ls_aggregate_id l)) \<Longrightarrow> bd_bidder_pubky b = actor \<Longrightarrow> bd_maximum_amount_minor b < m"
    "ls_unit_price_amount_minor l \<le> m"
proof -
  let ?bids = "fetch_bids d (ls_aggregate_id l)"
  have inc: "1 \<le> amount_minor (au_minimum_increment auction)"
    "amount_minor (au_minimum_increment auction) \<le> MAX_SAFE_INTEGER" "0 < ls_unit_price_amount_minor l"
    using bidding_ok_amounts [OF ok] by (auto simp: amounts_ok_def)
  have price: "0 \<le> amount_minor (au_current_price auction)" using bidding_ok_price(1) [OF ok] inc(3) by simp
  have prev: "0 \<le> bidder_previous_maximum ?bids actor" "bidder_previous_maximum ?bids actor \<le> MAX_SAFE_INTEGER"
    using previous_maximum(2) [of ?bids actor] bidding_ok_bids [OF ok] by (force simp: MAX_SAFE_INTEGER_def)+
  note p = personal_minimum_bound [OF m price bidding_ok_price(2) [OF ok] inc(1,2) prev]
  show "amount_minor (au_current_price auction) + amount_minor (au_minimum_increment auction) \<le> m" by (rule p)
  then show "ls_unit_price_amount_minor l \<le> m" using bidding_ok_price(1) [OF ok] inc by simp
  show "bd_maximum_amount_minor b < m" if "b \<in> set ?bids" "bd_bidder_pubky b = actor" for b
    using p(2) previous_maximum(1) [OF that] bidding_ok_bids(3) [OF ok that(1)] by simp
qed

lemma record_bid_stock:
  assumes ok: "stock_ok d"
    and run: "record_bid new_v4 actor command listing auction maximum now d = Inr (Inr s, d')"
  shows "stock_ok d'"
proof -
  have t: "table_ok ls_aggregate_id listing_check (st_listings d)"
    using ok by (simp add: stock_ok_def stock_tables_ok_def)
  note tab = record_bid_tables [OF t run]
  have acc: "accounted d' = accounted d" using tab(5,6) by (auto simp: accounted_def fun_eq_iff)
  have "list_all (\<lambda>x. ls_reserved_quantity x = accounted d (ls_aggregate_id x)) (st_listings d')"
    using ok by (auto simp: tab(2) list_all_iff stock_ok_def ledger_off_def)
  with acc tab(3,5,6) ok show ?thesis by (simp add: stock_ok_def stock_tables_ok_def ledger_off_def)
qed

text \<open>The bids after it: one more for this auction, the others as they were.\<close>

lemma record_bid_bids:
  assumes t: "table_ok ls_aggregate_id listing_check (st_listings d)" and b: "bidding_ok d l auction"
    and run: "record_bid new_v4 actor command l auction maximum now d = Inr (Inr s, d')"
  shows "fetch_bids d' k = fetch_bids d k @ (if ls_aggregate_id l = k
    then [(bid_of actor command l auction maximum now)\<lparr>bd_visible_amount_minor :=
      Some (bid_price (bid_list d actor command l auction maximum now) l auction)\<rparr>] else [])"
proof -
  let ?b = "(bid_of actor command l auction maximum now)\<lparr>bd_visible_amount_minor :=
      Some (bid_price (bid_list d actor command l auction maximum now) l auction)\<rparr>"
  have a: "bd_listing_aggregate_id ?b = ls_aggregate_id l" "bd_sequence ?b = au_bid_count auction + 1"
    by (simp_all add: bid_of_def)
  have "fetch_bids d' k = fetch_bids d k @ (if bd_listing_aggregate_id ?b = k then [?b] else [])"
  proof (rule fetch_bids_snoc [OF record_bid_tables(1) [OF t run]])
    fix x assume "x \<in> set (fetch_bids d (bd_listing_aggregate_id ?b))"
    with bidding_ok_bids(1) [OF b, of x] show "bd_sequence x \<le> bd_sequence ?b" by (simp add: a)
  qed
  then show ?thesis by (simp add: a(1))
qed

lemma record_bid_bidding:
  assumes t: "table_ok ls_aggregate_id listing_check (st_listings d)" and b: "bidding_ok d l auction"
    and m: "ls_unit_price_amount_minor l \<le> amount_minor maximum" "amount_minor maximum \<le> MAX_SAFE_INTEGER"
    and run: "record_bid new_v4 actor command l auction maximum now d = Inr (Inr s, d')"
  shows "bidding_ok d' (bid_listing doc now l)
    (bid_document (bid_list d actor command l auction maximum now) l auction now)"
proof (rule bidding_ok_step [OF b _ _ refl _ _ _ _ _ _ bid_list_def])
  show "bid_of actor command l auction maximum now \<notin> set (fetch_bids d (ls_aggregate_id l))"
    by (rule record_bid_fresh [OF run])
qed (use m in \<open>simp_all add: record_bid_bids [OF t b run] bid_of_def\<close>)

lemma record_bid_auctions:
  assumes ok: "stock_ok d" "auctions_ok d" and l: "fetch_listing d a = Some l" "parse_auction l = Some auction"
    and m: "ls_unit_price_amount_minor l \<le> amount_minor maximum" "amount_minor maximum \<le> MAX_SAFE_INTEGER"
    and run: "record_bid new_v4 actor command l auction maximum now d = Inr (Inr s, d')"
  shows "auctions_ok d'"
proof -
  have t: "table_ok ls_aggregate_id listing_check (st_listings d)"
    using ok(1) by (simp add: stock_ok_def stock_tables_ok_def)
  have f: "fetch ls_aggregate_id (ls_aggregate_id l) (st_listings d) = Some l" "l \<in> set (st_listings d)"
    using fetch_Some [of ls_aggregate_id a "st_listings d" l] l by (auto simp: fetch_listing_def)
  have b: "bidding_ok d l auction" by (rule auctions_okD [OF ok(2) f(2) l(2)])
  have "bidding_ok d' x au" if x: "x \<in> set (st_listings d')" and p: "parse_auction x = Some au" for x au
  proof -
    from x obtain y where y: "y \<in> set (st_listings d)" "x = (if ls_aggregate_id y = ls_aggregate_id l
       then bid_listing (bid_document (bid_list d actor command l auction maximum now) l auction now) now y else y)"
      using record_bid_tables(2) [OF t run] by auto
    show ?thesis
    proof (cases "ls_aggregate_id y = ls_aggregate_id l")
      case True
      then have "y = l" by (rule fetch_unique [OF t f(1) y(1)])
      with y(2) p record_bid_bidding [OF t b m run] show ?thesis by (auto split: if_splits)
    next
      case False
      then have "fetch_bids d' (ls_aggregate_id y) = fetch_bids d (ls_aggregate_id y)"
        using record_bid_bids [OF t b run] by simp
      moreover have "x = y" using y(2) False by simp
      ultimately show ?thesis using auctions_okD [OF ok(2) y(1), of au] p bidding_ok_cong [of d' y d au] by simp
    qed
  qed
  then show ?thesis by (auto simp: auctions_ok_def list_all_iff split: option.splits)
qed

lemma place_bid_effect:
  assumes ok: "stock_ok d" "auctions_ok d"
    and small: "amount_minor (pb_maximum_amount payload) \<le> MAX_SAFE_INTEGER"
    and run: "place_bid new_v4 actor command payload now d = Inr (Inr s, d')"
  obtains l auction where "fetch_listing d (cmd_aggregate_id command) = Some l" "parse_auction l = Some auction"
    "record_bid new_v4 actor command l auction (pb_maximum_amount payload) now d = Inr (Inr s, d')"
    "stock_ok d'" "auctions_ok d'" "drops_ok d \<Longrightarrow> drops_ok d'" "\<forall>a. total_stock d' a = total_stock d a"
    "fetch_listing d' (cmd_aggregate_id command) = Some (bid_listing
       (bid_document (bid_list d actor command l auction (pb_maximum_amount payload) now) l auction now) now l)"
    "bidding_ok d l auction" "au_starts_at auction \<le> now" "now < au_ends_at auction"
    "amount_minor (au_current_price auction) + amount_minor (au_minimum_increment auction)
     \<le> amount_minor (pb_maximum_amount payload)"
    "ls_unit_price_amount_minor l \<le> amount_minor (pb_maximum_amount payload)"
proof -
  let ?m = "pb_maximum_amount payload"
  obtain l auction where l: "fetch_listing d (cmd_aggregate_id command) = Some l"
    and p: "parse_auction l = Some auction" "au_starts_at auction \<le> now" "now < au_ends_at auction"
    and pm: "personal_minimum_next_bid (amount_minor (au_current_price auction))
       (amount_minor (au_minimum_increment auction))
       (bidder_previous_maximum (fetch_bids d (ls_aggregate_id l)) actor) \<le> amount_minor ?m"
    and rec: "record_bid new_v4 actor command l auction ?m now d = Inr (Inr s, d')"
    using run by (rule place_bid_accepted)
  have t: "table_ok ls_aggregate_id listing_check (st_listings d)"
    using ok(1) by (simp add: stock_ok_def stock_tables_ok_def)
  have mem: "l \<in> set (st_listings d)" "ls_aggregate_id l = cmd_aggregate_id command"
    using fetch_Some [of ls_aggregate_id _ "st_listings d" l] l by (auto simp: fetch_listing_def)
  have b: "bidding_ok d l auction" by (rule auctions_okD [OF ok(2) mem(1) p(1)])
  note acc = accepted_maximum [OF b pm] and tab = record_bid_tables [OF t rec]
  show thesis
  proof (rule that [OF l p(1) rec record_bid_stock [OF ok(1) rec]
        record_bid_auctions [OF ok l p(1) acc(3) small rec] _ tab(4) _ b p(2,3) acc(1,3)])
    show "drops_ok d \<Longrightarrow> drops_ok d'" using drops_ok_cong [of d' d] tab(7,8) by simp
    show "fetch_listing d' (cmd_aggregate_id command) = Some (bid_listing
       (bid_document (bid_list d actor command l auction ?m now) l auction now) now l)"
      using l by (simp add: fetch_listing_def tab(2) fetch_map_row mem(2))
  qed
qed

lemma bid_price_mono:
  assumes b: "bidding_ok d l auction"
    and m: "ls_unit_price_amount_minor l \<le> amount_minor maximum" "amount_minor maximum \<le> MAX_SAFE_INTEGER"
  shows "amount_minor (au_current_price auction)
    \<le> bid_price (bid_list d actor command l auction maximum now) l auction"
proof -
  let ?bs = "bid_list d actor command l auction maximum now"
  have "amounts_ok (amount_minor (au_minimum_increment auction)) (ls_unit_price_amount_minor l) ?bs"
    using bidding_ok_amounts [OF b] m by (auto simp: amounts_ok_def bid_list_def bid_of_def)
  then have "visible_amount (ranked_bidder_maximums (fetch_bids d (ls_aggregate_id l)))
       (amount_minor (au_minimum_increment auction)) (ls_unit_price_amount_minor l) \<le> bid_price ?bs l auction"
    unfolding bid_price_def by (rule visible_mono) (auto simp: bid_list_def)
  then show ?thesis using b by (simp add: bidding_ok_def Let_def)
qed

section \<open>Facts about closing\<close>

lemma create_winning_order_effect:
  assumes t: "stock_tables_ok d" and l: "ledger_off g d"
    and run: "create_winning_order new_v4 listing winner price actor c e now d = Inr ((r, o', p, oe), d')"
  shows "stock_tables_ok d'" "ledger_off (\<lambda>a. g a - (if a = ls_aggregate_id listing then 1 else 0)) d'"
    "st_listings d' = st_listings d" "st_bids d' = st_bids d" "st_drops d' = st_drops d"
    "st_drop_purchases d' = st_drop_purchases d" "r = winning_reservation listing winner c now"
    "\<exists>i j. o' = winning_order listing winner price i j now" "p = winning_payment o'"
    "st_reservations d' = st_reservations d @ [r]" "st_orders d' = st_orders d @ [o']"
    "st_payments d' = st_payments d @ [p]"
proof -
  let ?r = "winning_reservation listing winner c now"
  obtain d1 i j d3 d4 d5 d6 where i: "insert_reservation ?r d = Inr ((), d1)"
    and d3: "d3 = d1\<lparr>st_next_uuid := Suc (Suc (st_next_uuid d1))\<rparr>"
    and o': "o' = winning_order listing winner price i j now" "insert_order o' d3 = Inr ((), d4)"
    and p: "p = winning_payment o'" "insert_payment p d4 = Inr ((), d5)"
    and ev: "insert_event new_v4 c (order_aggregate_id i) 1 actor ''order.created'' now d5 = Inr (oe, d6)"
    and r: "r = ?r"
    and d': "d' = insert_notification_intent e ''auction_won'' winner actor (ls_aggregate_id listing) (Some price) now d6"
    using run by (auto simp: create_winning_order_def Let_def draw_uuid_def seq_eq_Inr)
  note r1 = insert_reservation_effect [OF t l i]
  have "stock_tables_ok d3" "ledger_off (\<lambda>a. g a - reservation_holds ?r a) d3"
    using r1(1,2) by (simp_all add: d3 stock_tables_ok_def ledger_off_def accounted_def)
  note r2 = insert_order_effect [OF this o'(2)]
  have d5: "d5 = d4\<lparr>st_payments := st_payments d4 @ [p]\<rparr>"
    using p(2) by (auto simp: insert_payment_def sql_insert_def split: if_splits)
  have d6: "d6 = d5\<lparr>st_next_uuid := Suc (st_next_uuid d5), st_events := st_events d6\<rparr>"
    using insert_event_Inr [OF ev] by simp
  note same = d' d6 d5 r2(3) d3 r1(3)
  show "stock_tables_ok d'" using r2(1) by (subst d', subst d6, subst d5) (simp add: stock_tables_ok_def)
  have h: "reservation_holds ?r a + order_holds o' a = (if a = ls_aggregate_id listing then 1 else 0)" for a
    by (simp add: reservation_holds_def winning_reservation_def order_holds_def o'(1) winning_order_def)
  have "ledger_off (\<lambda>a. g a - (if a = ls_aggregate_id listing then 1 else 0)) d4"
    by (rule ledger_off_cong [OF r2(2)]) (simp add: h [symmetric])
  then show "ledger_off (\<lambda>a. g a - (if a = ls_aggregate_id listing then 1 else 0)) d'"
    by (subst d', subst d6, subst d5) (simp add: ledger_off_def accounted_def)
  show "st_listings d' = st_listings d" "st_bids d' = st_bids d" "st_drops d' = st_drops d"
    "st_drop_purchases d' = st_drop_purchases d" "st_reservations d' = st_reservations d @ [r]"
    "st_orders d' = st_orders d @ [o']" "st_payments d' = st_payments d @ [p]"
    by (subst d', simp, subst d6, simp add: d5 r2(3) d3 r1(3) r)+
  show "r = ?r" "p = winning_payment o'" by fact+
  show "\<exists>i j. o' = winning_order listing winner price i j now" using o'(1) by blast
qed

lemma notify_ended_frame [simp]:
  "st_listings (notify_ended e actor a m now bs d) = st_listings d"
  "st_reservations (notify_ended e actor a m now bs d) = st_reservations d"
  "st_orders (notify_ended e actor a m now bs d) = st_orders d"
  "st_payments (notify_ended e actor a m now bs d) = st_payments d"
  "st_bids (notify_ended e actor a m now bs d) = st_bids d"
  "st_drops (notify_ended e actor a m now bs d) = st_drops d"
  "st_drop_purchases (notify_ended e actor a m now bs d) = st_drop_purchases d"
  by (induction bs arbitrary: d) (simp_all add: notify_ended_def)

lemma settle_close_effect:
  assumes t: "stock_tables_ok d" and l: "ledger_off g d"
    and run: "settle_close new_v4 listing auction reserve winner actor c now updated e d = Inr (oc, d')"
  shows "stock_tables_ok d'"
    "ledger_off (\<lambda>a. g a - (if winner \<noteq> None \<and> a = ls_aggregate_id listing then 1 else 0)) d'"
    "st_listings d' = st_listings d" "st_bids d' = st_bids d" "st_drops d' = st_drops d"
    "st_drop_purchases d' = st_drop_purchases d"
    "ac_sold oc = (winner \<noteq> None)" "ac_winner_pubky oc = winner" "ac_listing oc = updated"
    "ac_reserve oc = reserve"
    "ac_reservation oc = map_option (\<lambda>w. winning_reservation listing w c now) winner"
    "\<exists>i j. ac_order oc = map_option (\<lambda>w. winning_order listing w (au_current_price auction) i j now) winner"
    "ac_payment oc = map_option winning_payment (ac_order oc)"
    "st_reservations d' = st_reservations d @ some_list (ac_reservation oc)"
    "st_orders d' = st_orders d @ some_list (ac_order oc)"
    "st_payments d' = st_payments d @ some_list (ac_payment oc)"
proof -
  have *: "stock_tables_ok d' = stock_tables_ok d1 \<and> (\<forall>g. ledger_off g d' = ledger_off g d1)"
    if "d' = notify_ended e actor a m now bs d1" for d1 a m bs
    using that by (simp add: stock_tables_ok_def ledger_off_def accounted_def)
  note all = create_winning_order_effect [OF t l]
  from run consider bs where "winner = None" "ac_order oc = None" "ac_reservation oc = None" "ac_payment oc = None"
      "d' = notify_ended e actor (ls_aggregate_id listing) (au_current_price auction) now bs d"
    | w r o' p oe d1 bs where "winner = Some w"
      "create_winning_order new_v4 listing w (au_current_price auction) actor c e now d = Inr ((r, o', p, oe), d1)"
      "ac_order oc = Some o'" "ac_reservation oc = Some r" "ac_payment oc = Some p"
      "d' = notify_ended e actor (ls_aggregate_id listing) (au_current_price auction) now bs d1"
    by (cases winner) (auto simp: settle_close_def Let_def seq_eq_Inr)
  then have "stock_tables_ok d'
    \<and> ledger_off (\<lambda>a. g a - (if winner \<noteq> None \<and> a = ls_aggregate_id listing then 1 else 0)) d'
    \<and> st_listings d' = st_listings d \<and> st_bids d' = st_bids d \<and> st_drops d' = st_drops d
    \<and> st_drop_purchases d' = st_drop_purchases d
    \<and> ac_reservation oc = map_option (\<lambda>w. winning_reservation listing w c now) winner
    \<and> (\<exists>i j. ac_order oc = map_option (\<lambda>w. winning_order listing w (au_current_price auction) i j now) winner)
    \<and> ac_payment oc = map_option winning_payment (ac_order oc)
    \<and> st_reservations d' = st_reservations d @ some_list (ac_reservation oc)
    \<and> st_orders d' = st_orders d @ some_list (ac_order oc)
    \<and> st_payments d' = st_payments d @ some_list (ac_payment oc)"
  proof cases
    case 1
    with t l * show ?thesis by (auto simp: some_list_def)
  next
    case 2
    note e = all [OF 2(2)]
    from 2 e(1-7,9-12) * show ?thesis using e(8) by (auto simp: some_list_def)
  qed
  then show "stock_tables_ok d'"
    "ledger_off (\<lambda>a. g a - (if winner \<noteq> None \<and> a = ls_aggregate_id listing then 1 else 0)) d'"
    "st_listings d' = st_listings d" "st_bids d' = st_bids d" "st_drops d' = st_drops d"
    "st_drop_purchases d' = st_drop_purchases d"
    "ac_reservation oc = map_option (\<lambda>w. winning_reservation listing w c now) winner"
    "\<exists>i j. ac_order oc = map_option (\<lambda>w. winning_order listing w (au_current_price auction) i j now) winner"
    "ac_payment oc = map_option winning_payment (ac_order oc)"
    "st_reservations d' = st_reservations d @ some_list (ac_reservation oc)"
    "st_orders d' = st_orders d @ some_list (ac_order oc)"
    "st_payments d' = st_payments d @ some_list (ac_payment oc)"
    by blast+
  show "ac_sold oc = (winner \<noteq> None)" "ac_winner_pubky oc = winner" "ac_listing oc = updated"
    "ac_reserve oc = reserve"
    using run by (cases winner; auto simp: settle_close_def Let_def seq_eq_Inr)+
qed

lemma closed_row_simps [simp]:
  "ls_aggregate_id (closed_row auction sold now l) = ls_aggregate_id l"
  "ls_total_quantity (closed_row auction sold now l) = ls_total_quantity l"
  "ls_reserved_quantity (closed_row auction sold now l) = ls_reserved_quantity l + (if sold then 1 else 0)"
  "ls_available_quantity (closed_row auction sold now l) = ls_available_quantity l - (if sold then 1 else 0)"
  "ls_server_revision (closed_row auction sold now l) = ls_server_revision l + 1"
  "ls_unit_price_amount_minor (closed_row auction sold now l) = ls_unit_price_amount_minor l"
  "ls_sale_format (closed_row auction sold now l) = ls_sale_format l"
  "ls_auction (closed_row auction sold now l)
   = Some (auction_to_value (auction\<lparr>au_status := (if sold then ''sold'' else ''unsold'')\<rparr>))"
  by (simp_all add: closed_row_def Let_def)

lemma close_with_reserve_effect:
  assumes ok: "stock_ok d" and l: "fetch_listing d (ls_aggregate_id l) = Some l"
    and run: "close_with_reserve new_v4 l auction reserve satisfied actor c now d = Inr (oc, d')"
  defines "winner \<equiv> auction_winner l auction satisfied"
  shows "stock_ok d'" "\<forall>a. total_stock d' a = total_stock d a" "stored_active l"
    "st_listings d' = map (\<lambda>x. if ls_aggregate_id x = ls_aggregate_id l
       then closed_row auction (winner \<noteq> None) now x else x) (st_listings d)"
    "st_bids d' = st_bids d" "st_drops d' = st_drops d" "st_drop_purchases d' = st_drop_purchases d"
    "ac_sold oc = (winner \<noteq> None)" "ac_winner_pubky oc = winner"
    "ac_listing oc = closed_row auction (winner \<noteq> None) now l" "ac_reserve oc = reserve"
    "ac_reservation oc = map_option (\<lambda>w. winning_reservation l w c now) winner"
    "\<exists>i j. ac_order oc = map_option (\<lambda>w. winning_order l w (au_current_price auction) i j now) winner"
    "ac_payment oc = map_option winning_payment (ac_order oc)"
    "st_reservations d' = st_reservations d @ some_list (ac_reservation oc)"
    "st_orders d' = st_orders d @ some_list (ac_order oc)"
    "st_payments d' = st_payments d @ some_list (ac_payment oc)"
proof -
  let ?sold = "winner \<noteq> None"
  obtain row w d1 e d2 where u: "update_listings (\<lambda>x. ls_aggregate_id x = ls_aggregate_id l \<and> stored_active x)
      (closed_row auction ?sold now) d = Inr (row # w, d1)"
    and ev: "insert_event new_v4 c (ls_aggregate_id l) (ls_server_revision row) actor
      (if ?sold then ''auction.closed_sold'' else ''auction.closed_unsold'') now d1 = Inr (e, d2)"
    and settle: "settle_close new_v4 l auction reserve winner actor c now row e d2 = Inr (oc, d')"
    using run by (auto simp: close_with_reserve_def Let_def seq_eq_Inr fetch_one_Inr winner_def)
  have t: "table_ok ls_aggregate_id listing_check (st_listings d)" and lo: "ledger_off (\<lambda>_. 0) d"
    using ok by (simp_all add: stock_ok_def stock_tables_ok_def)
  have lf: "fetch ls_aggregate_id (ls_aggregate_id l) (st_listings d) = Some l" using l by (simp add: fetch_listing_def)
  have one: "stored_active l" "row = closed_row auction ?sold now l"
    using listings.upd_one [OF t u] lf by auto
  show "stored_active l" by (rule one(1))
  have step: "listings_step d d1" by (rule update_listings_step [OF t u]) simp_all
  have "ledger_off ((\<lambda>_. 0)(ls_aggregate_id l := 0 + (if ?sold then 1 else 0))) d1"
    by (rule ledger_off_move [OF t lo u]) simp_all
  then have lo1: "ledger_off (\<lambda>a. if ?sold \<and> a = ls_aggregate_id l then 1 else 0) d1"
    by (rule ledger_off_cong) simp
  have d2: "d2 = d1\<lparr>st_next_uuid := Suc (st_next_uuid d1), st_events := st_events d2\<rparr>"
    using insert_event_Inr [OF ev] by simp
  have t2: "stock_tables_ok d2" and lo2: "ledger_off (\<lambda>a. if ?sold \<and> a = ls_aggregate_id l then 1 else 0) d2"
    using ok lo1 listings_stepD [OF step]
    by (subst d2, simp add: stock_ok_def stock_tables_ok_def ledger_off_def accounted_def)+
  note s = settle_close_effect [OF t2 lo2 settle]
  have "ledger_off (\<lambda>_. 0) d'" by (rule ledger_off_cong [OF s(2)]) simp
  then show "stock_ok d'" using s(1) by (simp add: stock_ok_def)
  have d1: "st_listings d1 = map (\<lambda>x. if ls_aggregate_id x = ls_aggregate_id l
       then closed_row auction ?sold now x else x) (st_listings d)"
    using listings.upd_get [OF u] fetch_unique [OF t lf] one(1) by (auto intro!: map_cong)
  have same: "st_listings d2 = st_listings d1" "st_bids d2 = st_bids d1" "st_drops d2 = st_drops d1"
    "st_drop_purchases d2 = st_drop_purchases d1" "st_reservations d2 = st_reservations d1"
    "st_orders d2 = st_orders d1" "st_payments d2 = st_payments d1"
    by (subst d2, simp)+
  show "st_listings d' = map (\<lambda>x. if ls_aggregate_id x = ls_aggregate_id l
       then closed_row auction ?sold now x else x) (st_listings d)"
    by (simp add: s(3) same d1)
  show "\<forall>a. total_stock d' a = total_stock d a"
    using step by (simp add: listings_step_def total_stock_def fetch_listing_def s(3) same)
  show "st_bids d' = st_bids d" using u by (simp add: s(4) same listings.upd_Inr)
  show "st_drops d' = st_drops d" "st_drop_purchases d' = st_drop_purchases d"
    "st_reservations d' = st_reservations d @ some_list (ac_reservation oc)"
    "st_orders d' = st_orders d @ some_list (ac_order oc)"
    "st_payments d' = st_payments d @ some_list (ac_payment oc)"
    using listings_stepD [OF step] by (simp_all add: s same)
  show "ac_sold oc = ?sold" "ac_winner_pubky oc = winner" "ac_listing oc = closed_row auction ?sold now l"
    "ac_reserve oc = reserve" "ac_reservation oc = map_option (\<lambda>w. winning_reservation l w c now) winner"
    "\<exists>i j. ac_order oc = map_option (\<lambda>w. winning_order l w (au_current_price auction) i j now) winner"
    "ac_payment oc = map_option winning_payment (ac_order oc)"
    using s(7-13) one(2) by simp_all
qed

lemma close_locked_Inr:
  "close_locked_auction new_v4 l auction actor c now d = Inr (oc, d') \<Longrightarrow>
   \<exists>reserve satisfied. fetch_auction_reserve d (ls_aggregate_id l) = Some reserve
     \<and> reserve_satisfied l auction reserve = Inr satisfied
     \<and> close_with_reserve new_v4 l auction reserve satisfied actor c now d = Inr (oc, d')"
  by (auto simp: close_locked_auction_def split: option.splits sum.splits)

lemma fetch_listing_key: "fetch_listing d a = Some l \<Longrightarrow> ls_aggregate_id l = a \<and> l \<in> set (st_listings d)"
  using fetch_Some [of ls_aggregate_id a "st_listings d" l] by (auto simp: fetch_listing_def)

lemma close_keeps_auctions:
  assumes ok: "stock_ok d" "auctions_ok d" and l: "fetch_listing d (ls_aggregate_id l) = Some l"
    "parse_auction l = Some auction"
    and run: "close_with_reserve new_v4 l auction reserve satisfied actor c now d = Inr (oc, d')"
  shows "auctions_ok d'"
proof -
  let ?doc = "\<lambda>sold. auction_to_value (auction\<lparr>au_status := (if sold then ''sold'' else ''unsold'')\<rparr>)"
  note e = close_with_reserve_effect [OF ok(1) l(1) run]
  have t: "table_ok ls_aggregate_id listing_check (st_listings d)"
    using ok(1) by (simp add: stock_ok_def stock_tables_ok_def)
  have fb: "fetch_bids d' k = fetch_bids d k" for k by (simp add: fetch_bids_def e(5))
  have b: "bidding_ok d l auction" using auctions_okD [OF ok(2) _ l(2)] fetch_listing_key [OF l(1)] by simp
  have "bidding_ok d' x au" if x: "x \<in> set (st_listings d')" and p: "parse_auction x = Some au" for x au
  proof -
    from x obtain y where y: "y \<in> set (st_listings d)" "x = (if ls_aggregate_id y = ls_aggregate_id l
       then closed_row auction (auction_winner l auction satisfied \<noteq> None) now y else y)"
      using e(4) by auto
    show ?thesis
    proof (cases "ls_aggregate_id y = ls_aggregate_id l")
      case True
      then have "y = l" by (rule fetch_unique [OF t l(1) [unfolded fetch_listing_def] y(1)])
      with y(2) p b show ?thesis
        by (auto simp: parse_auction_def bidding_ok_def Let_def fb auction_to_value_def split: if_splits)
    next
      case False
      with y p auctions_okD [OF ok(2) y(1), of au] bidding_ok_cong [of d' y d au] fb show ?thesis by simp
    qed
  qed
  then show ?thesis by (auto simp: auctions_ok_def list_all_iff split: option.splits)
qed

section \<open>Facts about the batch\<close>

lemma auctions_ok_cong:
  assumes "st_listings d' = st_listings d" "st_bids d' = st_bids d"
  shows "auctions_ok d' = auctions_ok d"
proof -
  have "bidding_ok d' = bidding_ok d" using assms by (simp add: fun_eq_iff bidding_ok_def fetch_bids_def)
  then show ?thesis by (simp only: auctions_ok_def assms)
qed

lemma close_one_effect:
  assumes ok: "stock_ok d" "drops_ok d" "auctions_ok d"
    and run: "close_one_due_auction new_v4 now a d = Inr (x, d')"
  shows "stock_ok d' \<and> drops_ok d' \<and> auctions_ok d'
    \<and> (\<forall>b. b \<noteq> a \<longrightarrow> fetch_listing d' b = fetch_listing d b)"
proof (cases x)
  case None
  with run have "d' = d"
    by (auto simp: close_one_due_auction_def seq_eq_Inr draw_uuid_def Let_def split: option.splits if_splits)
  with ok show ?thesis by simp
next
  case (Some sold)
  let ?d = "d\<lparr>st_next_uuid := Suc (st_next_uuid d)\<rparr>"
  obtain l auction oc where l: "fetch_listing d a = Some l" "parse_auction l = Some auction"
    and c: "close_locked_auction new_v4 l auction (ls_seller_pubky l) (new_v4 (st_next_uuid d)) now ?d = Inr (oc, d')"
    using run Some
    by (auto simp: close_one_due_auction_def seq_eq_Inr draw_uuid_def Let_def split: option.splits if_splits)
  obtain reserve satisfied where
    r: "close_with_reserve new_v4 l auction reserve satisfied (ls_seller_pubky l) (new_v4 (st_next_uuid d)) now ?d
      = Inr (oc, d')"
    using close_locked_Inr [OF c] by blast
  have ok': "stock_ok ?d" "drops_ok ?d" "auctions_ok ?d" "fetch_listing ?d (ls_aggregate_id l) = Some l"
    using ok stock_ok_cong [of ?d d] drops_ok_cong [of ?d d] auctions_ok_cong [of ?d d] l(1) fetch_listing_key [OF l(1)]
    by (simp_all add: fetch_listing_def)
  note e = close_with_reserve_effect [OF ok'(1,4) r]
  have "fetch_listing d' b = fetch_listing d b" if "b \<noteq> a" for b
  proof -
    have "fetch ls_aggregate_id b (map (\<lambda>x. if ls_aggregate_id x = a then closed_row auction s now x else x) rows)
        = fetch ls_aggregate_id b rows" for s rows
      using that by (induction rows) (auto simp: fetch_def)
    then show ?thesis using fetch_listing_key [OF l(1)] by (simp add: fetch_listing_def e(4))
  qed
  moreover have "drops_ok d'" using ok(2) drops_ok_cong [of d' d] e(6,7) by simp
  ultimately show ?thesis using e(1) close_keeps_auctions [OF ok'(1,3,4) l(2) r] by blast
qed

lemma close_one_due:
  assumes "fetch_listing d a = Some l" "is_due_auction now l"
  shows "close_one_due_auction new_v4 now a d \<noteq> Inr (None, d')"
  using assms
  by (auto simp: close_one_due_auction_def is_due_auction_def stored_active_def parse_auction_def draw_uuid_def
      seq_eq_Inr split: option.splits)

lemma close_auctions_effect:
  assumes "stock_ok d" "drops_ok d" "auctions_ok d" "distinct as"
    and "\<And>a. a \<in> set as \<Longrightarrow> \<exists>l. fetch_listing d a = Some l \<and> is_due_auction now l"
    and "close_auctions new_v4 now as summary d = (summary', d')"
  shows "stock_ok d' \<and> drops_ok d' \<and> auctions_ok d'
    \<and> cs_closed summary' + cs_failed summary' = cs_closed summary + cs_failed summary + length as"
  using assms
proof (induction as arbitrary: summary d)
  case (Cons a as)
  obtain l where l: "fetch_listing d a = Some l" "is_due_auction now l" using Cons.prems(5) [of a] by auto
  show ?case
  proof (cases "close_one_due_auction new_v4 now a d")
    case (Inl e)
    with Cons.IH [OF Cons.prems(1-3), of "summary\<lparr>cs_failed := cs_failed summary + 1\<rparr>"] Cons.prems(4-6)
    show ?thesis by simp
  next
    case (Inr y)
    then obtain sold d1 where one: "close_one_due_auction new_v4 now a d = Inr (Some sold, d1)"
      using close_one_due [OF l] by (cases y; cases "fst y") auto
    note e = close_one_effect [OF Cons.prems(1-3) one]
    have due: "\<exists>l. fetch_listing d1 b = Some l \<and> is_due_auction now l" if "b \<in> set as" for b
      using e Cons.prems(4) Cons.prems(5) [of b] that by auto
    have "distinct as" using Cons.prems(4) by simp
    from Cons.IH [OF _ _ _ this due, of "summary\<lparr>cs_closed := cs_closed summary + 1\<rparr>"] e one Cons.prems(6)
    show ?thesis by simp
  qed
qed simp

lemma due_auctions_read:
  assumes "stock_ok d"
  shows "distinct (due_auctions d now)"
    "a \<in> set (due_auctions d now) \<Longrightarrow> \<exists>l. fetch_listing d a = Some l \<and> is_due_auction now l"
proof -
  have t: "distinct (map ls_aggregate_id (st_listings d))"
    using assms by (simp add: stock_ok_def stock_tables_ok_def table_ok_def)
  have "distinct (map ls_aggregate_id (sort_by ends_before (filter (is_due_auction now) (st_listings d))))"
    using t by (simp add: distinct_map_filter)
  then show "distinct (due_auctions d now)" by (simp add: due_auctions_def take_map [symmetric])
  assume "a \<in> set (due_auctions d now)"
  then obtain l where "l \<in> set (st_listings d)" "is_due_auction now l" "ls_aggregate_id l = a"
    using set_take_subset [of AUCTION_CLOSE_BATCH_SIZE "sort_by ends_before (filter (is_due_auction now) (st_listings d))"]
    by (auto simp: due_auctions_def)
  then show "\<exists>l. fetch_listing d a = Some l \<and> is_due_auction now l"
    using t by (auto simp: fetch_listing_def fetch_Some_iff)
qed

lemma sample_auction_ok: "stock_ok sample_auction_db" "drops_ok sample_auction_db" "auctions_ok sample_auction_db"
proof -
  show "stock_ok sample_auction_db"
    by (simp add: stock_ok_def stock_tables_ok_def table_ok_def sample_auction_db_def sample_auction_listing_def
      sample_listing_def empty_db_def listing_check_def deletion_evidence_check_def in_bigint_def i64_min_def i64_max_def ledger_off_def accounted_def)
  show "drops_ok sample_auction_db"
    by (simp add: drops_ok_def drop_tables_ok_def table_ok_def sample_auction_db_def empty_db_def)
  show "auctions_ok sample_auction_db" by code_simp
qed

lemma sample_extending_ok: "stock_ok sample_extending_db" "auctions_ok sample_extending_db"
proof -
  show "stock_ok sample_extending_db"
    by (simp add: stock_ok_def stock_tables_ok_def table_ok_def sample_extending_db_def sample_auction_db_def
      sample_auction_listing_def sample_listing_def empty_db_def listing_check_def deletion_evidence_check_def in_bigint_def i64_min_def
      i64_max_def ledger_off_def accounted_def)
  show "auctions_ok sample_extending_db" by code_simp
qed

lemma close_sale_rows:
  assumes "ac_winner_pubky oc = winner"
    "ac_reservation oc = map_option (\<lambda>w. winning_reservation l w c now) winner"
    "\<exists>i j. ac_order oc = map_option (\<lambda>w. winning_order l w price i j now) winner"
    "ac_payment oc = map_option winning_payment (ac_order oc)"
  shows "case ac_winner_pubky oc of
      None \<Rightarrow> ac_order oc = None \<and> ac_reservation oc = None \<and> ac_payment oc = None
    | Some w \<Rightarrow> \<exists>o' r p. ac_order oc = Some o' \<and> ac_reservation oc = Some r \<and> ac_payment oc = Some p
        \<and> or_buyer_pubky o' = w \<and> or_state o' = ''pending_payment''
        \<and> or_subtotal_minor o' = amount_minor price
        \<and> or_total_minor o' = wrap_i64 (amount_minor price + ls_shipping_minor l)
        \<and> rv_buyer_pubky r = w \<and> rv_quantity r = 1
        \<and> pm_order_id p = or_id o' \<and> pm_amount_minor p = or_total_minor o'"
  using assms
  by (cases winner) (auto simp: winning_order_def winning_reservation_def winning_payment_def)

section \<open>Properties\<close>

text \<open>The proxy ranking.  Every bidder with a bid appears exactly once, with the bid of their highest
  maximum (the earliest of equal ones), and the entries are ordered by maximum, largest first, then by
  the sequence in which they were accepted.\<close>

theorem proxy_ranking:
  "distinct (map bd_bidder_pubky (ranked_bidder_maximums bids))
   \<and> bd_bidder_pubky ` set (ranked_bidder_maximums bids) = bd_bidder_pubky ` set bids
   \<and> (\<forall>c \<in> set (ranked_bidder_maximums bids). c \<in> set bids
        \<and> (\<forall>b \<in> set bids. bd_bidder_pubky b = bd_bidder_pubky c \<longrightarrow>
             bd_maximum_amount_minor b < bd_maximum_amount_minor c
             \<or> bd_maximum_amount_minor c = bd_maximum_amount_minor b \<and> bd_sequence c \<le> bd_sequence b))
   \<and> sorted_wrt (\<lambda>x y. bd_maximum_amount_minor y < bd_maximum_amount_minor x
        \<or> bd_maximum_amount_minor x = bd_maximum_amount_minor y \<and> bd_sequence x \<le> bd_sequence y)
       (ranked_bidder_maximums bids)"
  using ranked_bests [of bids] ranked_sorted [of bids]
  by (auto simp: bests_def ranks_before_def [abs_def])

text \<open>C12: An accepted bid.  In a database whose auctions agree with their bids, a bid is accepted only
  inside the auction's time and only when it passes the visible price by the increment; the visible
  price does not fall and stays within the new leader's maximum, the listing advances one revision, and
  the auctions still agree with their bids and the stock with its ledger.\<close>

theorem bid_keeps_auctions:
  assumes "stock_ok d" "auctions_ok d" "amount_minor (pb_maximum_amount payload) \<le> MAX_SAFE_INTEGER"
    and "place_bid new_v4 actor command payload now d = Inr (Inr s, d')"
  shows "stock_ok d' \<and> auctions_ok d'
    \<and> (\<exists>l auction l' auction' leader.
         fetch_listing d (cmd_aggregate_id command) = Some l \<and> parse_auction l = Some auction
         \<and> fetch_listing d' (cmd_aggregate_id command) = Some l' \<and> parse_auction l' = Some auction'
         \<and> au_starts_at auction \<le> now \<and> now < au_ends_at auction
         \<and> amount_minor (au_current_price auction) + amount_minor (au_minimum_increment auction)
             \<le> amount_minor (pb_maximum_amount payload)
         \<and> amount_minor (au_current_price auction) \<le> amount_minor (au_current_price auction')
         \<and> leader \<in> set (fetch_bids d' (cmd_aggregate_id command))
         \<and> au_leader_pubky auction' = Some (bd_bidder_pubky leader)
         \<and> amount_minor (au_current_price auction') \<le> bd_maximum_amount_minor leader
         \<and> au_bid_count auction' = au_bid_count auction + 1
         \<and> ls_server_revision l' = ls_server_revision l + 1)"
proof -
  obtain l auction where l: "fetch_listing d (cmd_aggregate_id command) = Some l" "parse_auction l = Some auction"
    and e: "stock_ok d'" "auctions_ok d'"
      "fetch_listing d' (cmd_aggregate_id command) = Some (bid_listing
        (bid_document (bid_list d actor command l auction (pb_maximum_amount payload) now) l auction now) now l)"
      "bidding_ok d l auction" "au_starts_at auction \<le> now" "now < au_ends_at auction"
      "amount_minor (au_current_price auction) + amount_minor (au_minimum_increment auction)
        \<le> amount_minor (pb_maximum_amount payload)"
      "ls_unit_price_amount_minor l \<le> amount_minor (pb_maximum_amount payload)"
    using place_bid_effect [OF assms] by metis
  let ?doc = "bid_document (bid_list d actor command l auction (pb_maximum_amount payload) now) l auction now"
  have p': "parse_auction (bid_listing ?doc now l) = Some ?doc"
    by (rule parse_bid_listing [OF l(2)])
  have b': "bidding_ok d' (bid_listing ?doc now l) ?doc"
    using auctions_okD [OF e(2) _ p'] fetch_listing_key [OF e(3)] by simp
  obtain p where "au_leader_pubky ?doc = Some p"
    by (simp add: bid_document_def auction_to_value_def auction_after_bid_def)
  then obtain leader rest where lr:
    "ranked_bidder_maximums (fetch_bids d' (cmd_aggregate_id command)) = leader # rest"
    "au_leader_pubky ?doc = Some (bd_bidder_pubky leader)"
    using bidding_ok_leader [OF b'] fetch_listing_key [OF e(3)] by auto
  have "amount_minor (au_current_price ?doc) \<le> bd_maximum_amount_minor leader"
    using bidding_ok_price(3) [OF b'] lr(1) fetch_listing_key [OF e(3)] by simp
  moreover have "amount_minor (au_current_price auction) \<le> amount_minor (au_current_price ?doc)"
    using bid_price_mono [OF e(4,8) assms(3)]
    by (simp add: bid_document_def auction_to_value_def auction_after_bid_def)
  moreover have "au_bid_count ?doc = au_bid_count auction + 1"
    by (simp add: bid_document_def auction_to_value_def auction_after_bid_def)
  ultimately show ?thesis
    using l e p' lr leader_best(1) [OF lr(1)] bid_listing_simps(5) [of ?doc now l] by blast
qed

text \<open>The end of an auction.  A bid sets the end to the extension after the bid when it falls in the
  window and leaves it alone otherwise, so with an extension that is at least the window no bid brings
  the end forward.  (A stored end carries milliseconds.)\<close>

theorem bid_end_of_auction:
  assumes "stock_ok d" "auctions_ok d" "amount_minor (pb_maximum_amount payload) \<le> MAX_SAFE_INTEGER"
    and "place_bid new_v4 actor command payload now d = Inr (Inr s, d')"
    and "fetch_listing d (cmd_aggregate_id command) = Some l" "parse_auction l = Some auction"
    and "format_timestamp (au_ends_at auction) = au_ends_at auction"
    and "au_anti_sniping_window_seconds auction \<le> au_anti_sniping_extension_seconds auction"
  shows "\<exists>l' auction'. fetch_listing d' (cmd_aggregate_id command) = Some l' \<and> parse_auction l' = Some auction'
    \<and> au_ends_at auction \<le> au_ends_at auction'"
proof -
  obtain l0 auction0 where l0: "fetch_listing d (cmd_aggregate_id command) = Some l0" "parse_auction l0 = Some auction0"
    and e: "fetch_listing d' (cmd_aggregate_id command) = Some (bid_listing
        (bid_document (bid_list d actor command l0 auction0 (pb_maximum_amount payload) now) l0 auction0 now) now l0)"
    using place_bid_effect [OF assms(1-4)] by metis
  have same: "l0 = l" "auction0 = auction" using l0 assms(5,6) by simp_all
  let ?doc = "bid_document (bid_list d actor command l auction (pb_maximum_amount payload) now) l auction now"
  have "format_timestamp (au_ends_at auction) \<le> format_timestamp (if should_extend auction now
      then now + seconds (au_anti_sniping_extension_seconds auction) else au_ends_at auction)"
    unfolding format_timestamp_def
    by (intro mult_right_mono zdiv_mono1) (use assms(8) in \<open>auto simp: should_extend_def seconds_def\<close>)
  then have "au_ends_at auction \<le> au_ends_at ?doc"
    using assms(7) by (simp add: bid_document_def auction_to_value_def auction_after_bid_def)
  moreover have "parse_auction (bid_listing ?doc now l) = Some ?doc"
    by (rule parse_bid_listing [OF assms(6)])
  ultimately show ?thesis using e same by blast
qed



text \<open>The worker's batch.  Every auction that is due when the batch is read is either closed or counted as
  failed, an auction that fails leaves the others to be closed, and the batch keeps the ledger, the
  books of the drops and the auctions' agreement with their bids.\<close>

theorem auction_batch_complete:
  assumes "stock_ok d" "drops_ok d" "auctions_ok d" "close_due_auctions new_v4 now d = (summary, d')"
  shows "stock_ok d' \<and> drops_ok d' \<and> auctions_ok d'
    \<and> cs_closed summary + cs_failed summary
        = min AUCTION_CLOSE_BATCH_SIZE (length (filter (is_due_auction now) (st_listings d)))"
proof -
  have run: "close_auctions new_v4 now (due_auctions d now) \<lparr>cs_closed = 0, cs_failed = 0\<rparr> d = (summary, d')"
    using assms(4) by (simp add: close_due_auctions_def)
  note due = due_auctions_read [OF assms(1), where now = now]
  from close_auctions_effect [OF assms(1-3) due(1) due(2) run] show ?thesis
    by (simp add: due_auctions_def min.commute)
qed

text \<open>C40: The unit of an auction can be taken from under it.  \<open>inventory.reserve\<close> does not look at the
  sale format: a buyer can reserve the auction's only unit, and the close of the auction then fails on
  the stock constraint of the listing.\<close>

theorem reserve_blocks_close:
  "\<exists>s d1. reserve_inventory show_nat ''eve'' (sample_auction_command ''c2'' 7 (ReserveInventory sample_reserve_one))
       sample_reserve_one (seconds 900) sample_auction_db = Inr (Inr s, d1)
     \<and> close_auction show_nat ''seller'' (sample_auction_command ''c3'' 8 CloseAuction) (seconds 1000) d1
         = Inl CheckViolation"
proof -
  have "accepted_with (reserve_inventory show_nat ''eve''
        (sample_auction_command ''c2'' 7 (ReserveInventory sample_reserve_one))
        sample_reserve_one (seconds 900) sample_auction_db)
      (\<lambda>_ d1. close_auction show_nat ''seller'' (sample_auction_command ''c3'' 8 CloseAuction) (seconds 1000) d1
         = Inl CheckViolation)"
    by code_simp
  then show ?thesis by (auto simp: accepted_with_iff)
qed

section \<open>Witnesses\<close>

theorem proxy_ranking_witness:
  "map bd_bidder_pubky (ranked_bidder_maximums [sample_bid, sample_bid\<lparr>bd_bidder_pubky := ''bob'', bd_sequence := 2\<rparr>])
     = [''ann'', ''bob'']
   \<and> distinct (map bd_bidder_pubky
       (ranked_bidder_maximums [sample_bid, sample_bid\<lparr>bd_bidder_pubky := ''bob'', bd_sequence := 2\<rparr>]))"
proof -
  have "map bd_bidder_pubky (ranked_bidder_maximums [sample_bid, sample_bid\<lparr>bd_bidder_pubky := ''bob'', bd_sequence := 2\<rparr>])
     = [''ann'', ''bob'']"
    by code_simp
  with proxy_ranking [of "[sample_bid, sample_bid\<lparr>bd_bidder_pubky := ''bob'', bd_sequence := 2\<rparr>]"]
  show ?thesis by blast
qed

theorem bid_keeps_auctions_witness:
  "\<exists>s d'. place_bid show_nat ''bob'' (sample_auction_command ''b2'' 7 (PlaceBid sample_bid_payload))
       sample_bid_payload (seconds 500) sample_auction_db = Inr (Inr s, d')
     \<and> stock_ok d' \<and> auctions_ok d'"
proof -
  let ?run = "place_bid show_nat ''bob'' (sample_auction_command ''b2'' 7 (PlaceBid sample_bid_payload))
       sample_bid_payload (seconds 500) sample_auction_db"
  have "accepted ?run" by code_simp
  then obtain s d' where run: "?run = Inr (Inr s, d')" by (auto simp: accepted_iff)
  have "amount_minor (pb_maximum_amount sample_bid_payload) \<le> MAX_SAFE_INTEGER" by code_simp
  from bid_keeps_auctions [OF sample_auction_ok(1,3) this run] run show ?thesis by blast
qed

theorem bid_end_of_auction_witness:
  "\<exists>s d' l' auction'. place_bid show_nat ''bob'' (sample_auction_command ''b2'' 7 (PlaceBid sample_bid_payload))
       sample_bid_payload (seconds 800) sample_extending_db = Inr (Inr s, d')
     \<and> fetch_listing d' ''listing:a'' = Some l' \<and> parse_auction l' = Some auction'
     \<and> au_ends_at sample_auction \<le> au_ends_at auction'"
proof -
  let ?run = "place_bid show_nat ''bob'' (sample_auction_command ''b2'' 7 (PlaceBid sample_bid_payload))
       sample_bid_payload (seconds 800) sample_extending_db"
  have "accepted ?run" by code_simp
  then obtain s d' where run: "?run = Inr (Inr s, d')" by (auto simp: accepted_iff)
  let ?a = "sample_auction\<lparr>au_anti_sniping_extension_seconds := 300\<rparr>"
  let ?l = "sample_auction_listing\<lparr>ls_auction := Some ?a\<rparr>"
  have ok: "stock_ok sample_extending_db" "auctions_ok sample_extending_db"
    "amount_minor (pb_maximum_amount sample_bid_payload) \<le> MAX_SAFE_INTEGER"
    "format_timestamp (au_ends_at ?a) = au_ends_at ?a"
    "au_anti_sniping_window_seconds ?a \<le> au_anti_sniping_extension_seconds ?a"
    by (rule sample_extending_ok | code_simp)+
  have l: "fetch_listing sample_extending_db
      (cmd_aggregate_id (sample_auction_command ''b2'' 7 (PlaceBid sample_bid_payload))) = Some ?l"
    "parse_auction ?l = Some ?a"
    by (simp_all add: sample_extending_db_def sample_auction_db_def sample_auction_command_def fetch_listing_def
        fetch_def sample_auction_listing_def parse_auction_def)
  have c: "cmd_aggregate_id (sample_auction_command ''b2'' 7 (PlaceBid sample_bid_payload)) = ''listing:a''"
    by (simp add: sample_auction_command_def)
  from bid_end_of_auction [OF ok(1-3) run l ok(4,5)] run show ?thesis unfolding c by auto
qed


theorem auction_batch_complete_witness:
  "\<exists>summary d'. close_due_auctions show_nat (seconds 2000) sample_auction_db = (summary, d')
     \<and> stock_ok d' \<and> cs_closed summary + cs_failed summary = 1"
proof -
  obtain summary d' where run: "close_due_auctions show_nat (seconds 2000) sample_auction_db = (summary, d')"
    by fastforce
  have "min AUCTION_CLOSE_BATCH_SIZE
      (length (filter (is_due_auction (seconds 2000)) (st_listings sample_auction_db))) = 1"
    by code_simp
  with run auction_batch_complete [OF sample_auction_ok(1,2,3) run] show ?thesis by simp
qed

end
