(* ===== verification/Orders.thy ===== *)
theory Orders
  imports Holds
begin

text \<open>
  The commands that act on an order after checkout: \<^verbatim>\<open>handlers/fulfillment.rs\<close> (ship, delivery, pickup),
  \<^verbatim>\<open>handlers/returns.rs\<close> (return and external refund) and \<^verbatim>\<open>handlers/cancellation.rs\<close> (request,
  approval, and the release of held stock, drop units and the Paykit request).

  Every one of them reads the order under its row lock, runs \<open>guard_order_action\<close> and its own guards,
  writes the order with its revision as the compare-and-swap, and ends in \<open>finish_order_action\<close>.
  \<open>debug_assert!\<close>s are not part of the release build; that they hold is a property here.  The
  attestor's salted \<open>order_ref\<close> is a parameter.
\<close>

section \<open>Shared shapes\<close>

text \<open>The opening of every handler: the order, or the refusal.\<close>

definition with_order ::
  "uuid \<Rightarrow> pubky \<Rightarrow> command \<Rightarrow> db \<Rightarrow> (order_row \<Rightarrow> handler_result tx) \<Rightarrow> handler_result tx" where
  "with_order order_id actor command d body =
     (case fetch_order d order_id of
        None \<Rightarrow> refuse (refused RNotFound NotFound ''The order was not found.'') d
      | Some order \<Rightarrow>
          (case guard_order_action actor command order of
             Some failure \<Rightarrow> refuse failure d
           | None \<Rightarrow> body order))"

text \<open>\<open>UPDATE orders ... WHERE id = $1 AND revision = $2 RETURNING\<close>, then the event and the notice.\<close>

definition write_order :: "order_row \<Rightarrow> (order_row \<Rightarrow> order_row) \<Rightarrow> db \<Rightarrow> order_row tx" where
  "write_order order f d =
     fetch_one (update_orders (\<lambda>r. or_id r = or_id order \<and> or_revision r = or_revision order) f d)"

definition advance_order ::
  "uuid_source \<Rightarrow> pubky \<Rightarrow> command \<Rightarrow> order_row \<Rightarrow> (order_row \<Rightarrow> order_row) \<Rightarrow> string
     \<Rightarrow> string \<times> (order_row \<Rightarrow> pubky) \<Rightarrow> datetime \<Rightarrow> db \<Rightarrow> handler_result tx" where
  "advance_order new_v4 actor command order f event_kind notice now d =
     seq (write_order order f d)
       (\<lambda>updated. finish_order_action new_v4 actor command updated event_kind
                    (fst notice, snd notice updated) now)"

section \<open>Fulfillment\<close>

definition moved :: "string \<Rightarrow> datetime \<Rightarrow> order_row \<Rightarrow> order_row" where
  "moved to_state now r = r\<lparr>or_revision := or_revision r + 1, or_state := to_state, or_updated_at := now\<rparr>"

definition ship :: "uuid_source \<Rightarrow> pubky \<Rightarrow> command \<Rightarrow> ship_order_payload \<Rightarrow> datetime \<Rightarrow> db \<Rightarrow> handler_result tx" where
  "ship new_v4 actor command payload now d =
     with_order (so_order_id payload) actor command d
       (\<lambda>order.
          if or_seller_pubky order \<noteq> actor
          then refuse (refused RUnauthorized Unauthorized ''Only the seller may ship this order.'') d
          else if or_fulfillment order = ''pickup''
          then refuse (refused RInvalidState InvalidState
                 ''A pickup order cannot be shipped; use the pickup handover commands.'') d
          else if or_fulfillment order = ''digital''
          then refuse (refused RInvalidState InvalidState ''A digital order is not shipped.'') d
          else if or_state order \<notin> set [''paid'', ''processing'']
          then refuse (refused RInvalidState InvalidState ''The order is not ready to ship.'') d
          else
            let shipment = \<lparr>sh_carrier = so_carrier payload, sh_tracking_number = so_tracking_number payload,
                            sh_state = ''shipped'', sh_shipped_at = format_timestamp now,
                            sh_delivered_at = None\<rparr>
            in advance_order new_v4 actor command order
                 (\<lambda>r. (moved ''shipped'' now r)\<lparr>or_shipment := Some shipment\<rparr>)
                 ''fulfillment.shipped'' (''order_shipped'', or_buyer_pubky) now d)"

definition confirm_delivery ::
  "uuid_source \<Rightarrow> pubky \<Rightarrow> command \<Rightarrow> order_action_payload \<Rightarrow> datetime \<Rightarrow> db \<Rightarrow> handler_result tx" where
  "confirm_delivery new_v4 actor command payload now d =
     with_order (oap_order_id payload) actor command d
       (\<lambda>order.
          if or_buyer_pubky order \<noteq> actor
          then refuse (refused RUnauthorized Unauthorized ''Only the buyer may confirm delivery.'') d
          else if or_fulfillment order = ''pickup''
          then refuse (refused RInvalidState InvalidState
                 ''A pickup order has no shipment to confirm; use fulfillment.confirm_pickup.'') d
          else if or_fulfillment order = ''digital''
          then refuse (refused RInvalidState InvalidState ''A digital order has no shipment to confirm.'') d
          else
            (case (if or_state order = ''shipped'' then or_shipment order else None) of
               None \<Rightarrow> refuse (refused RInvalidState InvalidState
                         ''The order is not awaiting delivery confirmation.'') d
             | Some shipment \<Rightarrow>
                 advance_order new_v4 actor command order
                   (\<lambda>r. (moved ''delivered'' now r)\<lparr>or_shipment :=
                      Some (shipment\<lparr>sh_state := ''delivered'', sh_delivered_at := Some (format_timestamp now)\<rparr>)\<rparr>)
                   ''fulfillment.delivered'' (''order_delivered'', or_seller_pubky) now d))"

definition guard_pickup_order :: "order_row \<Rightarrow> command_failure option" where
  "guard_pickup_order order =
     (if or_fulfillment order \<noteq> ''pickup''
      then Some (refused RInvalidState InvalidState ''This command applies only to pickup orders.'')
      else None)"

definition mark_ready ::
  "uuid_source \<Rightarrow> pubky \<Rightarrow> command \<Rightarrow> order_action_payload \<Rightarrow> datetime \<Rightarrow> db \<Rightarrow> handler_result tx" where
  "mark_ready new_v4 actor command payload now d =
     with_order (oap_order_id payload) actor command d
       (\<lambda>order.
          if or_seller_pubky order \<noteq> actor
          then refuse (refused RUnauthorized Unauthorized
                 ''Only the seller may mark the order ready for pickup.'') d
          else
            (case guard_pickup_order order of
               Some failure \<Rightarrow> refuse failure d
             | None \<Rightarrow>
                 if or_state order \<noteq> ''paid''
                 then refuse (refused RInvalidState InvalidState
                        ''The order is not awaiting pickup readiness.'') d
                 else advance_order new_v4 actor command order (moved ''ready_for_pickup'' now)
                        ''fulfillment.ready_for_pickup'' (''pickup_ready'', or_buyer_pubky) now d))"

text \<open>\<open>SELECT MAX(d.version) ... WHERE c.cleared_at IS NULL\<close>.\<close>

definition pickup_cleared :: "db \<Rightarrow> string \<Rightarrow> bool" where
  "pickup_cleared d aggregate_id \<longleftrightarrow>
     list_ex (\<lambda>c. pc_aggregate_id c = aggregate_id \<and> pc_cleared_at c \<noteq> None) (st_pickup_counters d)"

definition current_pickup_version :: "db \<Rightarrow> string \<Rightarrow> int option" where
  "current_pickup_version d aggregate_id =
     (case [pv_version v. v \<leftarrow> st_pickup_details d, pv_aggregate_id v = aggregate_id \<and> \<not> pickup_cleared d aggregate_id] of
        [] \<Rightarrow> None
      | v # vs \<Rightarrow> Some (foldl max v vs))"

definition line_terms_changed :: "db \<Rightarrow> order_line \<Rightarrow> bool" where
  "line_terms_changed d line =
     (case ol_version_at_payment line of
        None \<Rightarrow> False
      | Some version_at_payment \<Rightarrow>
          (case current_pickup_version d (ol_listing_aggregate_id line) of
             None \<Rightarrow> True
           | Some current_version \<Rightarrow> version_at_payment < current_version))"

definition order_has_unresolved_terms_change :: "db \<Rightarrow> order_row \<Rightarrow> bool" where
  "order_has_unresolved_terms_change d order \<longleftrightarrow>
     or_fulfillment order = ''pickup'' \<and> list_ex (line_terms_changed d) (or_lines order)"

text \<open>\<open>INSERT ... ON CONFLICT (order_id) DO NOTHING\<close>.\<close>

definition insert_handover :: "uuid \<Rightarrow> string \<Rightarrow> datetime \<Rightarrow> db \<Rightarrow> db" where
  "insert_handover order_id confirmed_by now d =
     (if list_ex (\<lambda>h. ph_order_id h = order_id) (st_handovers d) then d
      else d\<lparr>st_handovers := st_handovers d @
               [\<lparr>ph_order_id = order_id, ph_confirmed_by = confirmed_by, ph_confirmed_at = now\<rparr>]\<rparr>)"

definition confirm_pickup ::
  "uuid_source \<Rightarrow> pubky \<Rightarrow> command \<Rightarrow> order_action_payload \<Rightarrow> datetime \<Rightarrow> db \<Rightarrow> handler_result tx" where
  "confirm_pickup new_v4 actor command payload now d =
     with_order (oap_order_id payload) actor command d
       (\<lambda>order.
          case guard_pickup_order order of
            Some failure \<Rightarrow> refuse failure d
          | None \<Rightarrow>
              if or_state order \<notin> set [''paid'', ''ready_for_pickup'']
              then refuse (refused RInvalidState InvalidState
                     ''The order is not awaiting a pickup handover.'') d
              else if actor \<noteq> or_buyer_pubky order \<and> order_has_unresolved_terms_change d order
              then refuse (refused RInvalidState InvalidState
                     ''The pickup terms changed after payment; the seller cannot confirm the handover until the buyer has seen the change.'') d
              else
                let role = if actor = or_buyer_pubky order then ''buyer'' else ''seller''
                in advance_order new_v4 actor command order (moved ''delivered'' now) ''fulfillment.delivered''
                     (''order_delivered'', if role = ''buyer'' then or_seller_pubky else or_buyer_pubky) now
                     (insert_handover (or_id order) role now d))"

section \<open>Returns\<close>

definition return_request ::
  "uuid_source \<Rightarrow> pubky \<Rightarrow> command \<Rightarrow> request_return_payload \<Rightarrow> datetime \<Rightarrow> db \<Rightarrow> handler_result tx" where
  "return_request new_v4 actor command payload now d =
     with_order (rr_order_id payload) actor command d
       (\<lambda>order.
          if or_buyer_pubky order \<noteq> actor
          then refuse (refused RUnauthorized Unauthorized ''Only the buyer may request a return.'') d
          else if or_fulfillment order = ''digital''
          then refuse (refused_with_reason RInvalidState InvalidState
                 ''Digital purchases cannot be returned.'' ''returns_unavailable_for_digital'') d
          else if or_state order \<notin> set [''delivered'', ''completed'']
                  \<or> or_total_minor order < rr_requested_amount_minor payload
          then refuse (refused RInvalidState InvalidState
                 ''The order is not eligible for this return amount.'') d
          else
            let request = \<lparr>rq_state = ''requested'', rq_reason = rr_reason payload,
                           rq_requested_amount_minor = rr_requested_amount_minor payload,
                           rq_requested_at = format_timestamp now, rq_updated_at = format_timestamp now\<rparr>
            in advance_order new_v4 actor command order
                 (\<lambda>r. (moved ''return_requested'' now r)\<lparr>or_return_request := Some request\<rparr>)
                 ''return.requested'' (''return_updated'', or_seller_pubky) now d)"

record return_step =
  from_order_state :: string
  to_order_state :: string
  to_return_state :: string
  invalid_message :: string
  step_event_kind :: string

definition advance_return ::
  "uuid_source \<Rightarrow> pubky \<Rightarrow> command \<Rightarrow> order_action_payload \<Rightarrow> return_step \<Rightarrow> datetime \<Rightarrow> db \<Rightarrow> handler_result tx" where
  "advance_return new_v4 actor command payload step now d =
     with_order (oap_order_id payload) actor command d
       (\<lambda>order.
          if or_seller_pubky order \<noteq> actor
          then refuse (refused RUnauthorized Unauthorized
                 (if to_return_state step = ''approved'' then ''Only the seller may approve this return.''
                  else ''Only the seller may receive this return.'')) d
          else
            (case (if or_state order = from_order_state step then or_return_request order else None) of
               None \<Rightarrow> refuse (refused RInvalidState InvalidState (invalid_message step)) d
             | Some request \<Rightarrow>
                 advance_order new_v4 actor command order
                   (\<lambda>r. (moved (to_order_state step) now r)\<lparr>or_return_request :=
                      Some (request\<lparr>rq_state := to_return_state step, rq_updated_at := format_timestamp now\<rparr>)\<rparr>)
                   (step_event_kind step) (''return_updated'', or_buyer_pubky) now d))"

definition approve_step :: return_step where
  "approve_step = \<lparr>from_order_state = ''return_requested'', to_order_state = ''return_approved'',
     to_return_state = ''approved'', invalid_message = ''No return is pending approval.'',
     step_event_kind = ''return.approved''\<rparr>"

definition receive_step :: return_step where
  "receive_step = \<lparr>from_order_state = ''return_approved'', to_order_state = ''return_received'',
     to_return_state = ''received'', invalid_message = ''The return is not approved.'',
     step_event_kind = ''return.received''\<rparr>"

definition return_approve ::
  "uuid_source \<Rightarrow> pubky \<Rightarrow> command \<Rightarrow> order_action_payload \<Rightarrow> datetime \<Rightarrow> db \<Rightarrow> handler_result tx" where
  "return_approve new_v4 actor command payload = advance_return new_v4 actor command payload approve_step"

definition return_receive ::
  "uuid_source \<Rightarrow> pubky \<Rightarrow> command \<Rightarrow> order_action_payload \<Rightarrow> datetime \<Rightarrow> db \<Rightarrow> handler_result tx" where
  "return_receive new_v4 actor command payload = advance_return new_v4 actor command payload receive_step"

text \<open>What a recorded refund already covers: \<open>None\<close> refuses a second record.\<close>

definition recorded_minor :: "db \<Rightarrow> order_row \<Rightarrow> int option" where
  "recorded_minor d order =
     (case or_external_refund order of
        None \<Rightarrow> Some 0
      | Some existing \<Rightarrow>
          if (or_id order, case er_transaction_id existing of Some t \<Rightarrow> t | None \<Rightarrow> '''') \<in> set (st_gateway_refunds d)
          then er_amount_minor existing else None)"

definition refundable_state :: "order_row \<Rightarrow> bool" where
  "refundable_state order \<longleftrightarrow>
     or_state order \<in> set [''return_received'', ''cancelled'']
     \<or> or_fulfillment order = ''digital'' \<and> or_state order \<in> set [''delivered'', ''completed'']"

definition insert_annotation :: "(uuid \<Rightarrow> string) option \<Rightarrow> uuid_source \<Rightarrow> uuid \<Rightarrow> string \<Rightarrow> db \<Rightarrow> db" where
  "insert_annotation order_ref new_v4 order_id outcome d =
     (case order_ref of
        None \<Rightarrow> d
      | Some f \<Rightarrow> (snd (draw_uuid new_v4 d))\<lparr>st_annotations := st_annotations d @ [(f order_id, outcome)]\<rparr>)"

definition refunded_row :: "record_external_refund_payload \<Rightarrow> datetime \<Rightarrow> order_row \<Rightarrow> order_row \<Rightarrow> order_row" where
  "refunded_row payload now order r =
     (moved ''refunded_external'' now r)\<lparr>
        or_external_refund := Some \<lparr>er_amount_minor = Some (rer_amount_minor payload),
          er_transaction_id = Some (rer_transaction_id payload), er_recorded_at = format_timestamp now\<rparr>,
        or_return_request := map_option
          (\<lambda>q. q\<lparr>rq_state := ''refunded'', rq_updated_at := format_timestamp now\<rparr>) (or_return_request order)\<rparr>"

definition record_external_refund ::
  "(uuid \<Rightarrow> string) option \<Rightarrow> uuid_source \<Rightarrow> pubky \<Rightarrow> command \<Rightarrow> record_external_refund_payload \<Rightarrow> datetime \<Rightarrow> db
     \<Rightarrow> handler_result tx" where
  "record_external_refund order_ref new_v4 actor command payload now d =
     with_order (rer_order_id payload) actor command d
       (\<lambda>order.
          if or_seller_pubky order \<noteq> actor
          then refuse (refused RUnauthorized Unauthorized ''Only the seller may record a refund.'') d
          else if \<not> refundable_state order
                  \<or> or_total_minor order < rer_amount_minor payload
                  \<or> (case recorded_minor d order of
                       None \<Rightarrow> True | Some recorded \<Rightarrow> rer_amount_minor payload < recorded)
          then refuse (refused RInvalidState InvalidState ''The external refund cannot be recorded.'') d
          else
            seq (write_order order (refunded_row payload now order) d)
              (\<lambda>updated d1.
                 finish_order_action new_v4 actor command updated ''refund.recorded_external''
                   (''refund_recorded'', or_buyer_pubky updated) now
                   (insert_annotation order_ref new_v4 (or_id updated) ''refunded'' d1)))"

section \<open>Cancellation\<close>

definition paykit_money_observed :: "order_row \<Rightarrow> bool" where
  "paykit_money_observed order \<longleftrightarrow>
     or_paykit_request_state order
       \<in> set [Some ''detected'', Some ''awaiting_seller_confirmation'', Some ''confirmed'']"

definition lock_payment :: "db \<Rightarrow> uuid \<Rightarrow> payment_row option" where
  "lock_payment d order_id = fetch pm_order_id order_id (st_payments d)"

record paykit_void_pin =
  vp_invoice_id :: uuid
  vp_stack_id :: string
  vp_stack_endpoint :: string

text \<open>\<open>paykit_attempts::record_released_attempt\<close>: \<open>INSERT ... SELECT ... ON CONFLICT DO NOTHING\<close>.\<close>

definition record_released_attempt :: "uuid \<Rightarrow> db \<Rightarrow> db" where
  "record_released_attempt order_id d =
     (case fetch_order d order_id of
        None \<Rightarrow> d
      | Some r \<Rightarrow>
          (case (or_paykit_invoice_id r, or_paykit_stack_id r, or_paykit_stack_endpoint r, or_paykit_total_sats r) of
             (Some invoice_id, Some _, Some _, Some total_sats) \<Rightarrow>
               if 0 < total_sats \<and> (order_id, invoice_id) \<notin> set (st_released_attempts d)
               then d\<lparr>st_released_attempts := st_released_attempts d @ [(order_id, invoice_id)]\<rparr>
               else d
           | _ \<Rightarrow> d))"

definition stamp_activate_rows :: "uuid \<Rightarrow> datetime \<Rightarrow> db \<Rightarrow> db" where
  "stamp_activate_rows order_id now d =
     d\<lparr>st_outbox := map (\<lambda>b. if ob_kind b = ''paykit.activate'' \<and> ob_payload b = PaykitActivate order_id
                                \<and> ob_delivered_at b = None
                             then b\<lparr>ob_delivered_at := Some now\<rparr> else b) (st_outbox d)\<rparr>"

definition void_preparing_request :: "uuid \<Rightarrow> datetime \<Rightarrow> db \<Rightarrow> unit tx" where
  "void_preparing_request order_id now d =
     seq (update_orders (\<lambda>r. or_id r = order_id \<and> or_paykit_activation_state r = Some ''preparing'')
            (\<lambda>r. r\<lparr>or_paykit_activation_state := Some ''voided'', or_paykit_request_state := None,
                    or_updated_at := now\<rparr>) d)
       (\<lambda>voided d1.
          Inr ((), stamp_activate_rows order_id now
                     (if length voided = 1 then record_released_attempt order_id d1 else d1)))"

definition enqueue_paykit_void ::
  "uuid \<Rightarrow> uuid \<Rightarrow> paykit_void_pin \<Rightarrow> string \<Rightarrow> datetime \<Rightarrow> db \<Rightarrow> db" where
  "enqueue_paykit_void event_id order_id pin reason now d =
     d\<lparr>st_outbox := st_outbox d @
        [\<lparr>ob_event_id = event_id, ob_kind = ''paykit.void'',
          ob_payload = PaykitVoid (vp_invoice_id pin) order_id (vp_stack_id pin) (vp_stack_endpoint pin) reason,
          ob_created_at = now, ob_delivered_at = None\<rparr>]\<rparr>"

text \<open>The \<open>awaiting_entitlement\<close> payment of a Paykit order expires.\<close>

definition expire_payment ::
  "uuid_source \<Rightarrow> payment_row \<Rightarrow> pubky \<Rightarrow> uuid \<Rightarrow> datetime \<Rightarrow> db \<Rightarrow> unit tx" where
  "expire_payment new_v4 payment actor command_id now d =
     (if pm_state payment \<noteq> ''awaiting_entitlement'' then Inr ((), d)
      else
        seq (fetch_one (update_payments (\<lambda>p. pm_id p = pm_id payment)
               (\<lambda>p. p\<lparr>pm_state := ''expired'', pm_revision := pm_revision p + 1, pm_updated_at := now\<rparr>) d))
          (\<lambda>row d1.
             seq (insert_event new_v4 command_id (payment_aggregate_id (pm_id payment)) (pm_revision row) actor
                    ''payment.expired'' now d1)
               (\<lambda>_ d2. Inr ((), d2))))"

definition end_paykit_request ::
  "uuid_source \<Rightarrow> order_row \<Rightarrow> payment_row \<Rightarrow> pubky \<Rightarrow> uuid \<Rightarrow> datetime \<Rightarrow> db \<Rightarrow> paykit_void_pin option tx" where
  "end_paykit_request new_v4 order payment actor command_id now d =
     (if pm_adapter payment \<noteq> ''paykit'' then Inr (None, d)
      else
        seq (expire_payment new_v4 payment actor command_id now d)
          (\<lambda>_ d1.
             if or_paykit_activation_state order \<noteq> Some ''preparing'' then Inr (None, d1)
             else
               (case (or_paykit_invoice_id order, or_paykit_stack_id order, or_paykit_stack_endpoint order) of
                  (Some invoice_id, Some stack_id, Some stack_endpoint) \<Rightarrow>
                    seq (void_preparing_request (or_id order) now d1)
                      (\<lambda>_ d2. Inr (Some \<lparr>vp_invoice_id = invoice_id, vp_stack_id = stack_id,
                                        vp_stack_endpoint = stack_endpoint\<rparr>, d2))
                | _ \<Rightarrow> Inr (None, d1))))"

definition drop_unaccounted :: command_failure where
  "drop_unaccounted =
     refused RInvariantViolation InvariantViolation
       ''The drop units held by this order are no longer accounted to its drop.''"

definition credit_order_drop :: "order_row \<Rightarrow> datetime \<Rightarrow> db \<Rightarrow> (command_failure + unit) tx" where
  "credit_order_drop order now d =
     (case or_drop_aggregate_id order of
        None \<Rightarrow> Inr (Inr (), d)
      | Some drop_key \<Rightarrow>
          seq (credit_drop_release drop_key (or_buyer_pubky order)
                 (sum_list (map ol_quantity (or_lines order))) now d)
            (\<lambda>credited d1. if credited then Inr (Inr (), d1) else refuse drop_unaccounted d1))"

definition release_reserved_hold :: "order_row \<Rightarrow> string \<Rightarrow> datetime \<Rightarrow> db \<Rightarrow> (command_failure + unit) tx" where
  "release_reserved_hold order auction_key now d =
     seq (update_reservations
            (\<lambda>r. rv_listing_aggregate_id r = auction_key \<and> rv_buyer_pubky r = or_buyer_pubky order
               \<and> rv_status r = ''active'')
            (\<lambda>r. r\<lparr>rv_status := ''released'', rv_updated_at := now\<rparr>) d)
       (\<lambda>released d1. if released = [] then Inr (Inr (), d1) else release_lines order Reserved now d1)"

definition legacy_null_expiry_unaccounted :: "order_row \<Rightarrow> command_failure \<Rightarrow> bool" where
  "legacy_null_expiry_unaccounted order failure \<longleftrightarrow>
     or_hold_expires_at order = None \<and> cf_code failure = InvariantViolation"

text \<open>A step of the best-effort release: a legacy hold tolerates its refusal, and keeps what it wrote.\<close>

definition tolerate ::
  "order_row \<Rightarrow> (command_failure + unit) tx \<Rightarrow> (db \<Rightarrow> (command_failure + unit) tx) \<Rightarrow> (command_failure + unit) tx" where
  "tolerate order step rest =
     seq step
       (\<lambda>answer d.
          case answer of
            Inr _ \<Rightarrow> rest d
          | Inl failure \<Rightarrow> if legacy_null_expiry_unaccounted order failure then rest d else refuse failure d)"

text \<open>What a cancellation returns to stock: the reserved units of an unpaid order, the sold units of a
  pickup order the buyer leaves unilaterally, nothing when the seller has to approve.\<close>

definition release_cancelled ::
  "order_row \<Rightarrow> bool \<Rightarrow> bool \<Rightarrow> datetime \<Rightarrow> db \<Rightarrow> (command_failure + unit) tx" where
  "release_cancelled order immediate unilateral now d =
     (if immediate
      then
        (case or_auction_aggregate_id order of
           Some auction_key \<Rightarrow> release_reserved_hold order auction_key now d
         | None \<Rightarrow>
             if or_stock_held order
             then tolerate order (credit_order_drop order now d)
                    (\<lambda>d1. tolerate order (release_lines order Reserved now d1) (\<lambda>d2. Inr (Inr (), d2)))
             else Inr (Inr (), d))
      else if unilateral
      then attempt (credit_order_drop order now d) (\<lambda>_. release_lines order Sold now)
      else Inr (Inr (), d))"

definition cancel_outcome :: "bool \<Rightarrow> bool \<Rightarrow> string \<times> string" where
  "cancel_outcome immediate unilateral =
     (if immediate then (''cancelled'', ''order.cancelled'')
      else if unilateral then (''cancelled'', ''order.cancelled_terms_change'')
      else (''cancel_requested'', ''order.cancel_requested''))"

definition cancelled_row :: "string \<Rightarrow> string \<Rightarrow> datetime \<Rightarrow> order_row \<Rightarrow> order_row" where
  "cancelled_row to_state reason now r =
     (moved to_state now r)\<lparr>or_cancellation_reason := Some reason, or_stock_held := False,
        or_hold_expires_at := None\<rparr>"

definition enqueue_void_of ::
  "paykit_void_pin option \<Rightarrow> uuid \<Rightarrow> datetime \<Rightarrow> handler_success \<Rightarrow> db \<Rightarrow> handler_result tx" where
  "enqueue_void_of pin order_id now success d =
     (case pin of
        None \<Rightarrow> Inr (Inr success, d)
      | Some p \<Rightarrow> Inr (Inr success,
          enqueue_paykit_void (hd (hs_event_ids success)) order_id p ''order_cancelled'' now d))"

definition is_unilateral :: "db \<Rightarrow> order_row \<Rightarrow> bool" where
  "is_unilateral d order \<longleftrightarrow>
     or_fulfillment order = ''pickup'' \<and> or_state order \<in> set [''paid'', ''ready_for_pickup'']
     \<and> (order_has_unresolved_terms_change d order \<or> or_first_revealed_at order \<noteq> None)"

text \<open>The part of \<open>request\<close> after its guards.\<close>

definition end_payment ::
  "uuid_source \<Rightarrow> order_row \<Rightarrow> payment_row option \<Rightarrow> bool \<Rightarrow> pubky \<Rightarrow> uuid \<Rightarrow> datetime \<Rightarrow> db
     \<Rightarrow> paykit_void_pin option tx" where
  "end_payment new_v4 order payment immediate actor command_id now d =
     (case payment of
        Some p \<Rightarrow> if immediate then end_paykit_request new_v4 order p actor command_id now d else Inr (None, d)
      | None \<Rightarrow> Inr (None, d))"

definition cancel_order ::
  "uuid_source \<Rightarrow> pubky \<Rightarrow> command \<Rightarrow> string \<Rightarrow> payment_row option \<Rightarrow> order_row \<Rightarrow> datetime \<Rightarrow> db
     \<Rightarrow> handler_result tx" where
  "cancel_order new_v4 actor command reason payment order now d =
     (let unilateral = is_unilateral d order;
          immediate = (or_state order = ''pending_payment'');
          (to_state, event_kind) = cancel_outcome immediate unilateral
      in attempt (release_cancelled order immediate unilateral now d)
           (\<lambda>_ d1.
              seq (end_payment new_v4 order payment immediate actor (cmd_command_id command) now d1)
                (\<lambda>pin d2.
                   attempt (advance_order new_v4 actor command order (cancelled_row to_state reason now)
                              event_kind (''order_cancelled'', or_seller_pubky) now d2)
                     (enqueue_void_of pin (or_id order) now))))"

definition cancel_request ::
  "uuid_source \<Rightarrow> pubky \<Rightarrow> command \<Rightarrow> request_cancellation_payload \<Rightarrow> datetime \<Rightarrow> db \<Rightarrow> handler_result tx" where
  "cancel_request new_v4 actor command payload now d =
     with_order (rc_order_id payload) actor command d
       (\<lambda>order.
          if or_buyer_pubky order \<noteq> actor
          then refuse (refused RUnauthorized Unauthorized ''Only the buyer may request cancellation.'') d
          else if or_fulfillment order = ''digital'' \<and> or_state order \<in> set [''delivered'', ''completed'']
          then refuse (refused_with_reason RInvalidState InvalidState
                 ''A delivered digital order cannot be cancelled.'' ''digital_order_delivered'') d
          else if or_state order \<notin> set [''pending_payment'', ''paid'', ''processing'', ''ready_for_pickup'']
                  \<or> or_state order = ''pending_payment'' \<and> paykit_money_observed order
          then refuse (refused RInvalidState InvalidState ''This order can no longer be cancelled.'') d
          else cancel_order new_v4 actor command (rc_reason payload)
                 (lock_payment d (rc_order_id payload)) order now d)"

text \<open>The lines a cancel approval returns: not an instant digital line the buyer has opened.\<close>

definition line_kind :: "order_line \<Rightarrow> digital_delivery_kind option" where
  "line_kind line = Option.bind (ol_digital_kind line) delivery_kind_parse"

definition releasable_lines :: "db \<Rightarrow> order_row \<Rightarrow> order_row" where
  "releasable_lines d order =
     (if or_fulfillment order \<noteq> ''digital'' then order
      else order\<lparr>or_lines :=
        map snd (filter
          (\<lambda>(i, line). \<not> ((case line_kind line of Some k \<Rightarrow> is_instant k | None \<Rightarrow> False)
                            \<and> (or_id order, i) \<in> set (st_digital_access d)))
          (enumerate 0 (or_lines order)))\<rparr>)"

definition cancel_approve ::
  "uuid_source \<Rightarrow> pubky \<Rightarrow> command \<Rightarrow> order_action_payload \<Rightarrow> datetime \<Rightarrow> db \<Rightarrow> handler_result tx" where
  "cancel_approve new_v4 actor command payload now d =
     with_order (oap_order_id payload) actor command d
       (\<lambda>order.
          if or_seller_pubky order \<noteq> actor
          then refuse (refused RUnauthorized Unauthorized ''Only the seller may approve cancellation.'') d
          else if or_state order \<noteq> ''cancel_requested''
          then refuse (refused RInvalidState InvalidState ''No cancellation is pending.'') d
          else
            attempt (credit_order_drop (releasable_lines d order) now d)
              (\<lambda>_ d1.
                 attempt (release_lines (releasable_lines d order) Sold now d1)
                   (\<lambda>_ d2. advance_order new_v4 actor command order (moved ''cancelled'' now)
                             ''order.cancelled'' (''order_cancelled'', or_buyer_pubky) now d2)))"

section \<open>Dispatch\<close>

text \<open>The arms of \<open>executor::dispatch\<close> for the commands of this theory; \<open>None\<close> for another command.\<close>

definition dispatch_order ::
  "(uuid \<Rightarrow> string) option \<Rightarrow> uuid_source \<Rightarrow> pubky \<Rightarrow> command \<Rightarrow> datetime \<Rightarrow> db \<Rightarrow> handler_result tx option" where
  "dispatch_order order_ref new_v4 actor command now d =
     (case cmd_payload command of
        RequestCancellation payload \<Rightarrow> Some (cancel_request new_v4 actor command payload now d)
      | ApproveCancellation payload \<Rightarrow> Some (cancel_approve new_v4 actor command payload now d)
      | ShipOrder payload \<Rightarrow> Some (ship new_v4 actor command payload now d)
      | ConfirmDelivery payload \<Rightarrow> Some (confirm_delivery new_v4 actor command payload now d)
      | MarkReadyForPickup payload \<Rightarrow> Some (mark_ready new_v4 actor command payload now d)
      | ConfirmPickup payload \<Rightarrow> Some (confirm_pickup new_v4 actor command payload now d)
      | RequestReturn payload \<Rightarrow> Some (return_request new_v4 actor command payload now d)
      | ApproveReturn payload \<Rightarrow> Some (return_approve new_v4 actor command payload now d)
      | ReceiveReturn payload \<Rightarrow> Some (return_receive new_v4 actor command payload now d)
      | RecordExternalRefund payload \<Rightarrow>
          Some (record_external_refund order_ref new_v4 actor command payload now d)
      | _ \<Rightarrow> None)"

end
