(* ===== verification/Orders_Facts.thy ===== *)
theory Orders_Facts
  imports Orders Reservations
begin

text \<open>
  What the order commands of \<^verbatim>\<open>Orders\<close> do, for every one of them at once (\<open>dispatch_order\<close>): the order
  moves along an edge of \<open>order_machine\<close> that names the command, its revision grows by one, nothing else
  about the deal changes and no other order is touched; the stock ledger and the books of the drops stay
  balanced; refunds stay within what was paid; a return follows \<open>return_machine\<close>.

  Two examples at the end show what a legacy hold without a deadline leaves behind.
\<close>

section \<open>Vocabulary\<close>

fun order_named :: "command_payload \<Rightarrow> uuid option" where
  "order_named (RequestCancellation payload) = Some (rc_order_id payload)"
| "order_named (ApproveCancellation payload) = Some (oap_order_id payload)"
| "order_named (ShipOrder payload) = Some (so_order_id payload)"
| "order_named (ConfirmDelivery payload) = Some (oap_order_id payload)"
| "order_named (MarkReadyForPickup payload) = Some (oap_order_id payload)"
| "order_named (ConfirmPickup payload) = Some (oap_order_id payload)"
| "order_named (RequestReturn payload) = Some (rr_order_id payload)"
| "order_named (ApproveReturn payload) = Some (oap_order_id payload)"
| "order_named (ReceiveReturn payload) = Some (oap_order_id payload)"
| "order_named (RecordExternalRefund payload) = Some (rer_order_id payload)"
| "order_named _ = None"

definition has_edge :: "aggregate_machine \<Rightarrow> string \<Rightarrow> string \<Rightarrow> string \<Rightarrow> bool" where
  "has_edge m kind from to \<longleftrightarrow>
     list_ex (\<lambda>tr. tr_from tr = from \<and> tr_to tr = to \<and> Command kind \<in> set (tr_via tr)) (transitions m)"

text \<open>What no order command changes: the parties, what was sold, for how much and how it is delivered.\<close>

definition same_deal :: "order_row \<Rightarrow> order_row \<Rightarrow> bool" where
  "same_deal r r' \<longleftrightarrow>
     or_id r' = or_id r \<and> or_buyer_pubky r' = or_buyer_pubky r \<and> or_seller_pubky r' = or_seller_pubky r
     \<and> or_lines r' = or_lines r \<and> or_total_minor r' = or_total_minor r \<and> or_currency r' = or_currency r
     \<and> or_fulfillment r' = or_fulfillment r \<and> or_payment_id r' = or_payment_id r
     \<and> or_auction_aggregate_id r' = or_auction_aggregate_id r \<and> or_drop_aggregate_id r' = or_drop_aggregate_id r
     \<and> or_created_at r' = or_created_at r"

text \<open>What a command does to the return of an order: a request opens it, the others move it or leave it.\<close>

definition returned_state :: "string \<Rightarrow> string \<Rightarrow> string" where
  "returned_state kind state =
     (if kind = ''return.approve'' then ''approved'' else if kind = ''return.receive'' then ''received''
      else if kind = ''refund.record_external'' then ''refunded'' else state)"

definition returns_by :: "string \<Rightarrow> order_row \<Rightarrow> order_row \<Rightarrow> bool" where
  "returns_by kind r r' \<longleftrightarrow>
     (if kind = ''return.request''
      then \<exists>q. or_return_request r' = Some q \<and> rq_state q = ''requested''
             \<and> rq_requested_amount_minor q \<le> or_total_minor r
      else map_option (\<lambda>q. (rq_state q, rq_reason q, rq_requested_amount_minor q)) (or_return_request r')
         = map_option (\<lambda>q. (returned_state kind (rq_state q), rq_reason q, rq_requested_amount_minor q))
             (or_return_request r))"

definition moves_by :: "string \<Rightarrow> order_row \<Rightarrow> order_row \<Rightarrow> bool" where
  "moves_by kind r r' \<longleftrightarrow>
     same_deal r r' \<and> or_revision r' = or_revision r + 1
     \<and> has_edge order_machine kind (or_state r) (or_state r') \<and> returns_by kind r r'"

text \<open>Only the order \<open>k\<close> changes, from \<open>r\<close> to \<open>r'\<close>.\<close>

definition order_change :: "uuid \<Rightarrow> order_row \<Rightarrow> order_row \<Rightarrow> db \<Rightarrow> db \<Rightarrow> bool" where
  "order_change k r r' d d' \<longleftrightarrow>
     fetch_order d k = Some r \<and> fetch_order d' k = Some r'
     \<and> (\<forall>k'. k' \<noteq> k \<longrightarrow> fetch_order d' k' = fetch_order d k')
     \<and> map or_id (st_orders d') = map or_id (st_orders d)"

text \<open>A hold is one of an unpaid order that is not an auction's, and it has a deadline.\<close>

definition hold_shape :: "order_row \<Rightarrow> bool" where
  "hold_shape r \<longleftrightarrow>
     (or_stock_held r \<longrightarrow> or_state r = ''pending_payment'' \<and> or_auction_aggregate_id r = None
        \<and> or_hold_expires_at r \<noteq> None)"

text \<open>What ending a Paykit request may rewrite of an order.\<close>

definition paykit_only :: "order_row \<Rightarrow> order_row \<Rightarrow> bool" where
  "paykit_only r r' \<longleftrightarrow>
     r' = r\<lparr>or_paykit_activation_state := or_paykit_activation_state r',
            or_paykit_request_state := or_paykit_request_state r', or_updated_at := or_updated_at r'\<rparr>"

definition paykit_ended :: "uuid \<Rightarrow> db \<Rightarrow> db \<Rightarrow> bool" where
  "paykit_ended k d d' \<longleftrightarrow>
     (\<exists>g. (\<forall>x. paykit_only x (g x)) \<and> (\<forall>x. or_id x \<noteq> k \<longrightarrow> g x = x) \<and> st_orders d' = map g (st_orders d))
     \<and> list_all order_check (st_orders d') \<and> st_listings d' = st_listings d
     \<and> st_reservations d' = st_reservations d \<and> st_drops d' = st_drops d
     \<and> st_drop_purchases d' = st_drop_purchases d"

text \<open>The state a cancellation request leads to.\<close>

definition cancel_target :: "db \<Rightarrow> order_row \<Rightarrow> string" where
  "cancel_target d order =
     fst (cancel_outcome (or_state order = ''pending_payment'') (is_unilateral d order))"

text \<open>An accepted command \<open>kind\<close> moved the order \<open>k\<close>, for a participant who had read its revision.\<close>

definition accepted_move ::
  "string \<Rightarrow> uuid \<Rightarrow> pubky \<Rightarrow> command \<Rightarrow> handler_success \<Rightarrow> db \<Rightarrow> db \<Rightarrow> bool" where
  "accepted_move kind k actor command s d d' \<longleftrightarrow>
     (\<exists>r r'. order_change k r r' d d' \<and> moves_by kind r r' \<and> hs_revision s = or_revision r'
        \<and> cmd_expected_revision command = or_revision r
        \<and> actor \<in> {or_buyer_pubky r, or_seller_pubky r})"

text \<open>The reservations an auction's winner holds on its listing, and when they are exactly the order's units.\<close>

definition winner_reservations :: "db \<Rightarrow> order_row \<Rightarrow> string \<Rightarrow> reservation_row list" where
  "winner_reservations d r a =
     filter (\<lambda>v. rv_listing_aggregate_id v = a \<and> rv_buyer_pubky v = or_buyer_pubky r \<and> rv_status v = ''active'')
       (st_reservations d)"

definition winner_hold :: "db \<Rightarrow> order_row \<Rightarrow> bool" where
  "winner_hold d r \<longleftrightarrow>
     (\<forall>a. or_auction_aggregate_id r = Some a \<longrightarrow> winner_reservations d r a = []
        \<or> (\<forall>x. line_units (or_lines r) x
                = (if x = a then sum_list (map rv_quantity (winner_reservations d r a)) else 0)))"

text \<open>The books: the stock ledger, the drops and the shape of the holds.\<close>

definition books_ok :: "db \<Rightarrow> bool" where
  "books_ok d \<longleftrightarrow> stock_ok d \<and> drops_ok d \<and> list_all hold_shape (st_orders d)"

text \<open>A command whose handler checks the order, writes it and does its bookkeeping, and no more.\<close>

definition simple_advance ::
  "string \<Rightarrow> uuid \<Rightarrow> pubky \<Rightarrow> command \<Rightarrow> handler_success \<Rightarrow> db \<Rightarrow> db \<Rightarrow> bool" where
  "simple_advance kind k actor command s d d' \<longleftrightarrow>
     (\<exists>new_v4 order f event notice now handovers.
        fetch_order d k = Some order \<and> guard_order_action actor command order = None
        \<and> or_state order \<noteq> ''pending_payment''
        \<and> advance_order new_v4 actor command order f event notice now (d\<lparr>st_handovers := handovers\<rparr>) = Inr (Inr s, d')
        \<and> (\<forall>x. or_id (f x) = or_id x \<and> or_stock_held (f x) = or_stock_held x)
        \<and> moves_by kind order (f order))"

text \<open>The return document of an order matches its state.\<close>

definition return_shape :: "order_row \<Rightarrow> bool" where
  "return_shape r \<longleftrightarrow>
     (case or_return_request r of
        None \<Rightarrow> True
      | Some q \<Rightarrow> (or_state r, rq_state q)
          \<in> set [(''return_requested'', ''requested''), (''return_approved'', ''approved''),
                 (''return_received'', ''received''), (''refunded_external'', ''refunded'')])"

text \<open>The return of \<open>r\<close> moves along an edge of \<open>return_machine\<close> that \<open>kind\<close> triggers, or opens.\<close>

definition return_edge :: "string \<Rightarrow> order_row \<Rightarrow> order_row \<Rightarrow> bool" where
  "return_edge kind r r' \<longleftrightarrow>
     (case (or_return_request r, or_return_request r') of
        (None, None) \<Rightarrow> True
      | (None, Some q') \<Rightarrow> kind = ''return.request'' \<and> rq_state q' = initial return_machine
          \<and> rq_requested_amount_minor q' \<le> or_total_minor r
      | (Some q, Some q') \<Rightarrow> has_edge return_machine kind (rq_state q) (rq_state q')
          \<and> rq_requested_amount_minor q' = rq_requested_amount_minor q
      | (Some _, None) \<Rightarrow> False)"

section \<open>A sample\<close>

definition sample_held_db :: db where
  "sample_held_db =
     sample_stock_db\<lparr>st_listings := [sample_listing\<lparr>ls_available_quantity := 2, ls_reserved_quantity := 3\<rparr>],
       st_orders := [sample_order\<lparr>or_stock_held := True, or_hold_expires_at := Some 600\<rparr>]\<rparr>"

definition sample_cancel :: command where
  "sample_cancel =
     \<lparr>cmd_command_id = ''c1'', cmd_aggregate_id = order_aggregate_id ''o1'', cmd_expected_revision = 1,
      cmd_issued_at = 0, cmd_payload = RequestCancellation \<lparr>rc_order_id = ''o1'', rc_reason = ''late''\<rparr>\<rparr>"

definition sample_returned_db :: db where
  "sample_returned_db = sample_stock_db\<lparr>st_orders := [sample_order\<lparr>or_state := ''return_received'',
     or_return_request := Some \<lparr>rq_state = ''received'', rq_reason = ''broken'', rq_requested_amount_minor = 150,
       rq_requested_at = 0, rq_updated_at = 0\<rparr>\<rparr>]\<rparr>"

definition sample_refund :: command where
  "sample_refund =
     \<lparr>cmd_command_id = ''c2'', cmd_aggregate_id = order_aggregate_id ''o1'', cmd_expected_revision = 1,
      cmd_issued_at = 0, cmd_payload = RecordExternalRefund
        \<lparr>rer_order_id = ''o1'', rer_amount_minor = 150, rer_transaction_id = ''tx''\<rparr>\<rparr>"

text \<open>A hold from before deadlines, on a drop whose counters do not know its buyer.\<close>

definition legacy_drop_db :: db where
  "legacy_drop_db =
     sample_held_db\<lparr>
       st_orders := [sample_order\<lparr>or_stock_held := True, or_drop_aggregate_id := Some ''drop:d'',
         or_lines := [sample_line\<lparr>ol_quantity := 1\<rparr>]\<rparr>],
       st_listings := [sample_listing\<lparr>ls_available_quantity := 3, ls_reserved_quantity := 2\<rparr>],
       st_drops := [sample_drop], st_drop_purchases := [\<lparr>dp_drop_aggregate_id = ''drop:d'',
         dp_buyer_pubky = ''other'', dp_quantity = 1, dp_per_buyer_limit = 2\<rparr>]\<rparr>"

section \<open>The shared opening and writing\<close>

lemma with_order_accept:
  "with_order k actor command d body = Inr (Inr s, d') \<longleftrightarrow>
   (\<exists>order. fetch_order d k = Some order \<and> guard_order_action actor command order = None
      \<and> body order = Inr (Inr s, d'))"
  by (auto simp: with_order_def split: option.splits)

lemma guard_order_action_None:
  "guard_order_action actor command order = None \<longleftrightarrow>
   (actor = or_buyer_pubky order \<or> actor = or_seller_pubky order)
   \<and> cmd_aggregate_id command = order_aggregate_id (or_id order)
   \<and> cmd_expected_revision command = or_revision order"
  by (auto simp: guard_order_action_def)

lemma fetch_order_id: "fetch_order d k = Some r \<Longrightarrow> or_id r = k"
  using fetch_Some by (fastforce simp: fetch_order_def)

lemma moved_simps [simp]:
  "or_id (moved s now r) = or_id r" "or_revision (moved s now r) = or_revision r + 1"
  "or_state (moved s now r) = s" "same_deal r (moved s now r)"
  "or_stock_held (moved s now r) = or_stock_held r" "or_lines (moved s now r) = or_lines r"
  "or_hold_expires_at (moved s now r) = or_hold_expires_at r"
  "or_auction_aggregate_id (moved s now r) = or_auction_aggregate_id r"
  "or_return_request (moved s now r) = or_return_request r"
  by (simp_all add: moved_def same_deal_def)

text \<open>The compare-and-swap on the revision the handler read is an update of the one row.\<close>

lemma update_order_cas:
  assumes t: "table_ok or_id order_check (st_orders d)" and r: "fetch_order d k = Some r"
  shows "update_orders (\<lambda>x. or_id x = k \<and> or_revision x = or_revision r) f d
    = update_orders (\<lambda>x. or_id x = k) f d"
proof -
  have "(or_id x = k \<and> or_revision x = or_revision r) = (or_id x = k)" if "x \<in> set (st_orders d)" for x
    using fetch_unique [OF t r [unfolded fetch_order_def] that] by auto
  then have "filter (\<lambda>x. or_id x = k \<and> or_revision x = or_revision r) (st_orders d)
      = filter (\<lambda>x. or_id x = k) (st_orders d)"
    "map (\<lambda>x. if or_id x = k \<and> or_revision x = or_revision r then f x else x) (st_orders d)
      = map (\<lambda>x. if or_id x = k then f x else x) (st_orders d)"
    by (auto intro: filter_cong)
  then show ?thesis by (simp only: update_orders_def sql_update_def)
qed

lemma update_order_change:
  assumes t: "table_ok or_id order_check (st_orders d)" and r: "fetch_order d k = Some r"
    and u: "update_orders (\<lambda>x. or_id x = k) f d = Inr (w, d')" and f: "\<And>x. or_id (f x) = or_id x"
  shows "order_change k r (f r) d d'" "w = [f r]" "table_ok or_id order_check (st_orders d')"
proof -
  have fetch: "fetch_order d' k' = map_option (\<lambda>x. if or_id x = k then f x else x) (fetch_order d k')" for k'
    using orders.upd_fetch [OF u f] by (simp add: fetch_order_def)
  have "fetch_order d' k' = fetch_order d k'" if "k' \<noteq> k" for k'
    using that fetch_order_id [of d k'] by (cases "fetch_order d k'") (auto simp: fetch)
  moreover have "map or_id (st_orders d') = map or_id (st_orders d)"
    using f by (auto simp: orders.upd_get [OF u])
  ultimately show "order_change k r (f r) d d'"
    using r fetch_order_id [OF r] by (simp add: order_change_def fetch)
  show "w = [f r]" using u r orders.upd_key_row [OF t, of k] by (simp add: orders.upd_Inr fetch_order_def)
  show "table_ok or_id order_check (st_orders d')" by (rule orders.upd_ok [OF u f t])
qed

lemma write_order_Inr:
  assumes t: "table_ok or_id order_check (st_orders d)" and r: "fetch_order d (or_id order) = Some r"
    and rev: "or_revision order = or_revision r"
    and run: "write_order order f d = Inr (updated, d')"
  shows "\<exists>w. update_orders (\<lambda>x. or_id x = or_id order) f d = Inr (updated # w, d')"
proof -
  have "update_orders (\<lambda>x. or_id x = or_id order \<and> or_revision x = or_revision order) f d
      = update_orders (\<lambda>x. or_id x = or_id order) f d"
    using update_order_cas [OF t r, of f] by (simp only: rev)
  then show ?thesis using run by (simp only: write_order_def fetch_one_Inr)
qed

lemma order_change_log:
  assumes "order_change k r r' d d1" "log_step d1 d'"
  shows "order_change k r r' d d'"
  using assms(1) log_stepD(5) [OF assms(2)] by (simp add: order_change_def fetch_order_def)

text \<open>What a handler that ends in \<open>advance_order\<close> leaves: the row it wrote and its bookkeeping.\<close>

lemma advance_order_effect:
  assumes t: "table_ok or_id order_check (st_orders d)" and r: "fetch_order d (or_id order) = Some r"
    and rev: "or_revision order = or_revision r" and f: "\<And>x. or_id (f x) = or_id x"
    and run: "advance_order new_v4 actor command order f kind notice now d = Inr (Inr s, d')"
  obtains w d1 where "update_orders (\<lambda>x. or_id x = or_id order) f d = Inr (f r # w, d1)" "log_step d1 d'"
    "order_change (or_id order) r (f r) d d'" "hs_revision s = or_revision (f r)"
proof -
  obtain updated d1 where wr: "write_order order f d = Inr (updated, d1)"
    and fin: "finish_order_action new_v4 actor command updated kind (fst notice, snd notice updated) now d1
        = Inr (Inr s, d')"
    using run by (auto simp: advance_order_def seq_eq_Inr)
  obtain w where u: "update_orders (\<lambda>x. or_id x = or_id order) f d = Inr (updated # w, d1)"
    using write_order_Inr [OF t r rev wr] by blast
  note e = update_order_change [OF t r u f]
  have updated: "updated = f r" using e(2) by simp
  note log = finish_order_action_log [OF fin]
  show thesis
    by (rule that) (use u log order_change_log [OF e(1) log(1)] in \<open>simp_all add: updated\<close>)
qed

section \<open>Cancellation\<close>

lemma attempt_cases:
  assumes "attempt r k = Inr (y, d')"
  obtains (stop) failure where "r = Inr (Inl failure, d')" "y = Inl failure"
    | (go) x d where "r = Inr (Inr x, d)" "k x d = Inr (y, d')"
proof -
  obtain z d where z: "r = Inr (z, d)"
      "(case z of Inl failure \<Rightarrow> refuse failure d | Inr x \<Rightarrow> k x d) = Inr (y, d')"
    using assms by (auto simp: attempt_def seq_eq_Inr)
  then show thesis by (cases z) (use stop go in \<open>auto simp: refuse_def\<close>)
qed

lemma tolerate_cases:
  assumes "tolerate order step rest = Inr (y, d')"
  obtains (stop) failure where "step = Inr (Inl failure, d')" "y = Inl failure"
      "\<not> legacy_null_expiry_unaccounted order failure"
    | (skip) failure d where "step = Inr (Inl failure, d)" "legacy_null_expiry_unaccounted order failure"
      "rest d = Inr (y, d')"
    | (go) x d where "step = Inr (Inr x, d)" "rest d = Inr (y, d')"
proof -
  obtain z d where z: "step = Inr (z, d)"
      "(case z of Inr _ \<Rightarrow> rest d
        | Inl failure \<Rightarrow> if legacy_null_expiry_unaccounted order failure then rest d else refuse failure d)
       = Inr (y, d')"
    using assms by (auto simp: tolerate_def seq_eq_Inr)
  then show thesis by (cases z) (use stop skip go in \<open>auto simp: refuse_def split: if_splits\<close>)
qed

lemma release_line_list_frame:
  "release_line_list held lines now d = Inr (x, d') \<Longrightarrow>
   st_orders d' = st_orders d \<and> st_reservations d' = st_reservations d \<and> st_drops d' = st_drops d
   \<and> st_drop_purchases d' = st_drop_purchases d \<and> st_payments d' = st_payments d
   \<and> st_receipts d' = st_receipts d \<and> st_offers d' = st_offers d"
proof (induction lines arbitrary: d)
  case (Cons line lines)
  then obtain y d1 where y: "release_line held line now d = Inr (y, d1)"
    and rest: "d' = d1 \<or> release_line_list held lines now d1 = Inr (x, d')"
    by (fastforce elim: attempt_cases)
  have "st_orders d1 = st_orders d \<and> st_reservations d1 = st_reservations d \<and> st_drops d1 = st_drops d
    \<and> st_drop_purchases d1 = st_drop_purchases d \<and> st_payments d1 = st_payments d
    \<and> st_receipts d1 = st_receipts d \<and> st_offers d1 = st_offers d"
    using y by (auto simp: release_line_def refuse_def seq_eq_Inr listings.upd_Inr split: option.splits if_splits)
  with rest Cons.IH [of d1] show ?case by auto
qed simp

lemma credit_order_drop_frame:
  "credit_order_drop order now d = Inr (x, d') \<Longrightarrow> drop_frame d d'"
  by (auto simp: credit_order_drop_def credit_drop_release_def seq_eq_Inr refuse_def drops.upd_Inr
      purchases.upd_Inr drop_frame_def split: option.splits if_splits)

lemma release_cancelled_orders:
  assumes "release_cancelled order immediate unilateral now d = Inr (x, d')"
  shows "st_orders d' = st_orders d"
proof -
  have credit: "st_orders d2 = st_orders d1" if "credit_order_drop order now d1 = Inr (y, d2)" for y d1 d2
    using credit_order_drop_frame [OF that] by (simp add: drop_frame_def)
  have lines: "st_orders d2 = st_orders d1" if "release_lines order held now d1 = Inr (y, d2)" for held y d1 d2
    using release_line_list_frame that by (auto simp: release_lines_def)
  have hold: "st_orders d2 = st_orders d1" if "release_reserved_hold order a now d1 = Inr (y, d2)" for a y d1 d2
    using that by (auto simp: release_reserved_hold_def seq_eq_Inr reservations.upd_Inr dest!: lines split: if_splits)
  have sold: "st_orders d2 = st_orders d1"
    if "attempt (credit_order_drop order now d1) (\<lambda>_. release_lines order Sold now) = Inr (y, d2)" for y d1 d2
    using that by (rule attempt_cases) (auto dest!: credit lines)
  have reserved: "st_orders d2 = st_orders d1"
    if "tolerate order (release_lines order Reserved now d1) (\<lambda>d2. Inr (Inr (), d2)) = Inr (y, d2)" for y d1 d2
    using that by (rule tolerate_cases) (auto dest!: lines)
  have both: "st_orders d2 = st_orders d1"
    if "tolerate order (credit_order_drop order now d1)
          (\<lambda>d1. tolerate order (release_lines order Reserved now d1) (\<lambda>d2. Inr (Inr (), d2))) = Inr (y, d2)" for y d1 d2
    using that by (rule tolerate_cases) (auto dest!: credit reserved)
  show ?thesis
    using assms hold sold both
    by (auto simp: release_cancelled_def split: if_splits option.splits)
qed

lemma paykit_only_refl [simp]: "paykit_only r r"
  by (simp add: paykit_only_def)

lemma paykit_onlyD:
  assumes "paykit_only r r'"
  shows "or_id r' = or_id r" "or_revision r' = or_revision r" "or_state r' = or_state r" "same_deal r r'"
    "or_stock_held r' = or_stock_held r" "or_hold_expires_at r' = or_hold_expires_at r"
    "or_lines r' = or_lines r" "or_auction_aggregate_id r' = or_auction_aggregate_id r"
    "or_return_request r' = or_return_request r"
  by (subst assms [unfolded paykit_only_def], simp add: same_deal_def)+

lemma paykit_ended_refl: "list_all order_check (st_orders d) \<Longrightarrow> paykit_ended k d d"
  by (auto simp: paykit_ended_def intro!: exI [of _ "\<lambda>x. x"])

lemma record_released_attempt_frame:
  "st_orders (record_released_attempt k d) = st_orders d \<and> st_listings (record_released_attempt k d) = st_listings d
   \<and> st_reservations (record_released_attempt k d) = st_reservations d
   \<and> st_drops (record_released_attempt k d) = st_drops d
   \<and> st_drop_purchases (record_released_attempt k d) = st_drop_purchases d"
  by (simp add: record_released_attempt_def split: option.split)

lemma void_preparing_request_effect:
  assumes c: "list_all order_check (st_orders d)" and run: "void_preparing_request k now d = Inr (x, d')"
  shows "paykit_ended k d d'"
proof -
  let ?c = "\<lambda>r. or_id r = k \<and> or_paykit_activation_state r = Some ''preparing''"
  let ?f = "\<lambda>r. r\<lparr>or_paykit_activation_state := Some ''voided'', or_paykit_request_state := None, or_updated_at := now\<rparr>"
  obtain w d1 where u: "update_orders ?c ?f d = Inr (w, d1)"
    and d': "st_orders d' = st_orders d1" "st_listings d' = st_listings d1" "st_reservations d' = st_reservations d1"
      "st_drops d' = st_drops d1" "st_drop_purchases d' = st_drop_purchases d1"
    using run record_released_attempt_frame
    by (fastforce simp: void_preparing_request_def seq_eq_Inr stamp_activate_rows_def)
  have "st_orders d1 = map (\<lambda>r. if ?c r then ?f r else r) (st_orders d)" by (rule orders.upd_get [OF u])
  moreover have "list_all order_check (st_orders d1)"
    using c u by (auto simp: orders.upd_Inr list_all_iff)
  moreover have "paykit_only r (if ?c r then ?f r else r)" for r by (simp add: paykit_only_def)
  ultimately show ?thesis
    using d' u unfolding paykit_ended_def
    by (intro conjI exI [of _ "\<lambda>r. if ?c r then ?f r else r"]) (simp_all add: orders.upd_Inr)
qed

lemma expire_payment_frame:
  assumes "expire_payment new_v4 p actor c now d = Inr (x, d')"
  shows "st_orders d' = st_orders d \<and> st_listings d' = st_listings d \<and> st_reservations d' = st_reservations d
    \<and> st_drops d' = st_drops d \<and> st_drop_purchases d' = st_drop_purchases d"
  using assms log_stepD [OF insert_event_log]
  by (auto simp: expire_payment_def seq_eq_Inr fetch_one_Inr payments.upd_Inr split: if_splits)

lemma end_payment_effect:
  assumes c: "list_all order_check (st_orders d)"
    and run: "end_payment new_v4 order payment immediate actor cid now d = Inr (pin, d')"
  shows "paykit_ended (or_id order) d d'"
proof (cases "\<exists>p. payment = Some p \<and> immediate \<and> pm_adapter p = ''paykit''")
  case False
  with run c paykit_ended_refl show ?thesis
    by (auto simp: end_payment_def end_paykit_request_def split: option.splits if_splits)
next
  case True
  then obtain p x d1 where e: "expire_payment new_v4 p actor cid now d = Inr (x, d1)"
    and rest: "d' = d1 \<or> (\<exists>y. void_preparing_request (or_id order) now d1 = Inr (y, d'))"
    using run
    by (auto simp: end_payment_def end_paykit_request_def seq_eq_Inr split: if_splits option.splits)
  note same = expire_payment_frame [OF e]
  have "list_all order_check (st_orders d1)" using c same by simp
  then have "paykit_ended (or_id order) d1 d'"
    using rest paykit_ended_refl void_preparing_request_effect by blast
  with same show ?thesis by (simp add: paykit_ended_def)
qed

lemma paykit_ended_fetch:
  assumes "paykit_ended k d d'"
  shows "\<exists>r'. fetch_order d k = Some r \<longrightarrow> fetch_order d' k = Some r' \<and> paykit_only r r'"
    "k' \<noteq> k \<Longrightarrow> fetch_order d' k' = fetch_order d k'"
    "map or_id (st_orders d') = map or_id (st_orders d)"
proof -
  obtain g where g: "\<And>x. paykit_only x (g x)" "\<And>x. or_id x \<noteq> k \<Longrightarrow> g x = x"
    and o': "st_orders d' = map g (st_orders d)"
    using assms by (auto simp: paykit_ended_def)
  have id: "or_id (g x) = or_id x" for x using paykit_onlyD(1) [OF g(1)] .
  have "fetch or_id j (map g rows) = map_option g (fetch or_id j rows)" for j rows
    by (induction rows) (auto simp: fetch_def id)
  then have fetch: "fetch_order d' j = map_option g (fetch_order d j)" for j
    by (simp add: fetch_order_def o')
  show "\<exists>r'. fetch_order d k = Some r \<longrightarrow> fetch_order d' k = Some r' \<and> paykit_only r r'"
    using g(1) by (auto simp: fetch)
  show "fetch_order d' k' = fetch_order d k'" if "k' \<noteq> k"
    using that g(2) fetch_order_id [of d k'] by (cases "fetch_order d k'") (auto simp: fetch)
  show "map or_id (st_orders d') = map or_id (st_orders d)" by (simp add: o' id)
qed

text \<open>The row that \<open>cancel_order\<close> writes, whatever was released before it.\<close>

lemma cancelled_row_simps [simp]:
  "or_id (cancelled_row s reason now r) = or_id r" "or_revision (cancelled_row s reason now r) = or_revision r + 1"
  "or_state (cancelled_row s reason now r) = s" "same_deal r (cancelled_row s reason now r)"
  "\<not> or_stock_held (cancelled_row s reason now r)" "or_lines (cancelled_row s reason now r) = or_lines r"
  "or_return_request (cancelled_row s reason now r) = or_return_request r"
  by (simp_all add: cancelled_row_def same_deal_def moved_def)

lemma same_deal_trans: "same_deal a b \<Longrightarrow> same_deal b c \<Longrightarrow> same_deal a c"
  by (simp add: same_deal_def)

lemma enqueue_void_of_Inr:
  assumes "enqueue_void_of pin k now s d = Inr (Inr s', d')"
  shows "s' = s" "log_step d d'"
proof -
  show "s' = s" using assms by (auto simp: enqueue_void_of_def split: option.splits)
  have "d' = d\<lparr>st_events := st_events d, st_outbox := st_outbox d', st_next_uuid := st_next_uuid d\<rparr>"
    using assms by (auto simp: enqueue_void_of_def enqueue_paykit_void_def split: option.splits)
  then show "log_step d d'" by (rule log_stepI)
qed

text \<open>The states a cancellation goes through: released, payment ended, row written, bookkeeping.\<close>

lemma cancel_order_run:
  assumes t: "table_ok or_id order_check (st_orders d)" and r: "fetch_order d (or_id order) = Some order"
    and run: "cancel_order new_v4 actor command reason payment order now d = Inr (Inr s, d')"
  obtains d1 d2 d3 r2 w where
    "release_cancelled order (or_state order = ''pending_payment'') (is_unilateral d order) now d = Inr (Inr (), d1)"
    "paykit_ended (or_id order) d1 d2" "fetch_order d2 (or_id order) = Some r2" "paykit_only order r2"
    "table_ok or_id order_check (st_orders d2)"
    "update_orders (\<lambda>x. or_id x = or_id order) (cancelled_row (cancel_target d order) reason now) d2
       = Inr (cancelled_row (cancel_target d order) reason now r2 # w, d3)"
    "log_step d3 d'" "order_change (or_id order) order (cancelled_row (cancel_target d order) reason now r2) d d'"
    "hs_revision s = or_revision order + 1"
proof -
  let ?f = "cancelled_row (cancel_target d order) reason now"
  obtain d1 d2 pin s0 d4 notice kind where
      rel: "release_cancelled order (or_state order = ''pending_payment'') (is_unilateral d order) now d = Inr (Inr (), d1)"
    and pay: "end_payment new_v4 order payment (or_state order = ''pending_payment'') actor (cmd_command_id command) now d1
        = Inr (pin, d2)"
    and adv: "advance_order new_v4 actor command order ?f kind notice now d2 = Inr (Inr s0, d4)"
    and fin: "enqueue_void_of pin (or_id order) now s0 d4 = Inr (Inr s, d')"
    using run by (auto simp: cancel_order_def cancel_target_def Let_def attempt_accept seq_eq_Inr split: prod.splits)
  have o1: "st_orders d1 = st_orders d" by (rule release_cancelled_orders [OF rel])
  have c1: "list_all order_check (st_orders d1)" using t o1 by (simp add: table_ok_def)
  note ended = end_payment_effect [OF c1 pay]
  obtain r2 where r2: "fetch_order d2 (or_id order) = Some r2" "paykit_only order r2"
    using paykit_ended_fetch(1) [OF ended, of order] r o1 by (auto simp: fetch_order_def)
  have t2: "table_ok or_id order_check (st_orders d2)"
    using t ended paykit_ended_fetch(3) [OF ended] by (simp add: table_ok_def o1 paykit_ended_def)
  obtain w d3 where u: "update_orders (\<lambda>x. or_id x = or_id order) ?f d2 = Inr (?f r2 # w, d3)" "log_step d3 d4"
      "order_change (or_id order) r2 (?f r2) d2 d4" "hs_revision s0 = or_revision (?f r2)"
    using advance_order_effect [OF t2 r2(1) _ _ adv] paykit_onlyD(2) [OF r2(2)] by auto
  note v = enqueue_void_of_Inr [OF fin]
  have change: "order_change (or_id order) order (?f r2) d d'"
    using order_change_log [OF u(3) v(2)] paykit_ended_fetch(2,3) [OF ended] r
    by (simp add: order_change_def o1 fetch_order_def)
  show thesis
    using log_step_trans [OF u(2) v(2)] u(4) v(1) paykit_onlyD(2) [OF r2(2)]
    by (intro that [OF rel ended r2 t2 u(1) _ change]) simp_all
qed

section \<open>Every command moves its order along an edge\<close>

lemmas returns_def = returns_by_def returned_state_def option.map_comp o_def

lemma order_edges [simp]:
  "has_edge order_machine ''fulfillment.ship'' ''paid'' ''shipped''"
  "has_edge order_machine ''fulfillment.ship'' ''processing'' ''shipped''"
  "has_edge order_machine ''fulfillment.confirm_delivery'' ''shipped'' ''delivered''"
  "has_edge order_machine ''fulfillment.mark_ready'' ''paid'' ''ready_for_pickup''"
  "has_edge order_machine ''fulfillment.confirm_pickup'' ''paid'' ''delivered''"
  "has_edge order_machine ''fulfillment.confirm_pickup'' ''ready_for_pickup'' ''delivered''"
  "has_edge order_machine ''return.request'' ''delivered'' ''return_requested''"
  "has_edge order_machine ''return.request'' ''completed'' ''return_requested''"
  "has_edge order_machine ''return.approve'' ''return_requested'' ''return_approved''"
  "has_edge order_machine ''return.receive'' ''return_approved'' ''return_received''"
  "has_edge order_machine ''refund.record_external'' ''return_received'' ''refunded_external''"
  "has_edge order_machine ''refund.record_external'' ''cancelled'' ''refunded_external''"
  "has_edge order_machine ''refund.record_external'' ''delivered'' ''refunded_external''"
  "has_edge order_machine ''refund.record_external'' ''completed'' ''refunded_external''"
  "has_edge order_machine ''order.cancel_request'' ''pending_payment'' ''cancelled''"
  "has_edge order_machine ''order.cancel_request'' ''paid'' ''cancelled''"
  "has_edge order_machine ''order.cancel_request'' ''ready_for_pickup'' ''cancelled''"
  "has_edge order_machine ''order.cancel_request'' ''paid'' ''cancel_requested''"
  "has_edge order_machine ''order.cancel_request'' ''processing'' ''cancel_requested''"
  "has_edge order_machine ''order.cancel_request'' ''ready_for_pickup'' ''cancel_requested''"
  "has_edge order_machine ''order.cancel_approve'' ''cancel_requested'' ''cancelled''"
  by code_simp+

lemma accepted_moveI:
  assumes "order_change k r r' d d'" "moves_by kind r r'" "hs_revision s = or_revision r'"
    "guard_order_action actor command r = None"
  shows "accepted_move kind k actor command s d d'"
  using assms unfolding accepted_move_def by (intro exI [of _ r] exI [of _ r']) (auto simp: guard_order_action_None)

lemma advance_moves:
  assumes t: "table_ok or_id order_check (st_orders d)" and o1: "st_orders d1 = st_orders d"
    and order: "fetch_order d k = Some order" and guard: "guard_order_action actor command order = None"
    and run: "advance_order new_v4 actor command order f event notice now d1 = Inr (Inr s, d')"
    and f: "\<And>x. or_id (f x) = or_id x" and m: "moves_by kind order (f order)"
  shows "accepted_move kind k actor command s d d'"
proof -
  have k: "or_id order = k" by (rule fetch_order_id [OF order])
  have "fetch_order d1 (or_id order) = Some order" using order by (simp add: fetch_order_def o1 k)
  moreover have "table_ok or_id order_check (st_orders d1)" using t by (simp add: o1)
  ultimately obtain "order_change k order (f order) d1 d'" "hs_revision s = or_revision (f order)"
    using advance_order_effect [OF _ _ refl f run] by (metis k)
  moreover from this(1) have "order_change k order (f order) d d'"
    by (simp add: order_change_def fetch_order_def o1)
  ultimately show ?thesis by (intro accepted_moveI [OF _ m _ guard]) simp_all
qed

lemma simple_advanceI:
  assumes "fetch_order d k = Some order" "guard_order_action actor command order = None"
    "advance_order new_v4 actor command order f event notice now d1 = Inr (Inr s, d')"
    "d1 = d\<lparr>st_handovers := handovers\<rparr>" "or_state order \<noteq> ''pending_payment''"
    "\<And>x. or_id (f x) = or_id x" "\<And>x. or_stock_held (f x) = or_stock_held x" "moves_by kind order (f order)"
  shows "simple_advance kind k actor command s d d'"
  using assms unfolding simple_advance_def by blast

lemma simple_advance_moves:
  assumes "table_ok or_id order_check (st_orders d)" "simple_advance kind k actor command s d d'"
  shows "accepted_move kind k actor command s d d'"
proof -
  obtain new_v4 order f event notice now handovers where o: "fetch_order d k = Some order"
      "guard_order_action actor command order = None"
    and run: "advance_order new_v4 actor command order f event notice now (d\<lparr>st_handovers := handovers\<rparr>) = Inr (Inr s, d')"
    and f: "\<And>x. or_id (f x) = or_id x" and m: "moves_by kind order (f order)"
    using assms(2) unfolding simple_advance_def by blast
  show ?thesis by (rule advance_moves [OF assms(1) _ o run f m]) simp
qed

lemma ship_simple:
  assumes run: "ship new_v4 actor command payload now d = Inr (Inr s, d')"
  shows "simple_advance ''fulfillment.ship'' (so_order_id payload) actor command s d d'"
proof -
  obtain order shipment notice where o: "fetch_order d (so_order_id payload) = Some order"
      "guard_order_action actor command order = None"
    and st: "or_state order \<in> {''paid'', ''processing''}"
    and adv: "advance_order new_v4 actor command order
      (\<lambda>r. (moved ''shipped'' now r)\<lparr>or_shipment := shipment\<rparr>) ''fulfillment.shipped'' notice now d = Inr (Inr s, d')"
    using run by (auto simp: ship_def with_order_accept Let_def split: if_splits)
  show ?thesis
    by (rule simple_advanceI [OF o adv, where handovers = "st_handovers d"])
       (use st in \<open>auto simp: moves_by_def moved_def same_deal_def returns_def\<close>)
qed

lemma confirm_delivery_simple:
  assumes run: "confirm_delivery new_v4 actor command payload now d = Inr (Inr s, d')"
  shows "simple_advance ''fulfillment.confirm_delivery'' (oap_order_id payload) actor command s d d'"
proof -
  obtain order shipment notice where o: "fetch_order d (oap_order_id payload) = Some order"
      "guard_order_action actor command order = None"
    and st: "or_state order = ''shipped''"
    and adv: "advance_order new_v4 actor command order
      (\<lambda>r. (moved ''delivered'' now r)\<lparr>or_shipment := shipment\<rparr>) ''fulfillment.delivered'' notice now d = Inr (Inr s, d')"
    using run by (auto simp: confirm_delivery_def with_order_accept split: if_splits option.splits)
  show ?thesis
    by (rule simple_advanceI [OF o adv, where handovers = "st_handovers d"])
       (use st in \<open>auto simp: moves_by_def moved_def same_deal_def returns_def\<close>)
qed

lemma mark_ready_simple:
  assumes run: "mark_ready new_v4 actor command payload now d = Inr (Inr s, d')"
  shows "simple_advance ''fulfillment.mark_ready'' (oap_order_id payload) actor command s d d'"
proof -
  obtain order notice where o: "fetch_order d (oap_order_id payload) = Some order"
      "guard_order_action actor command order = None"
    and st: "or_state order = ''paid''"
    and adv: "advance_order new_v4 actor command order (moved ''ready_for_pickup'' now)
      ''fulfillment.ready_for_pickup'' notice now d = Inr (Inr s, d')"
    using run by (auto simp: mark_ready_def with_order_accept split: if_splits option.splits)
  show ?thesis
    by (rule simple_advanceI [OF o adv, where handovers = "st_handovers d"]) (use st in \<open>auto simp: moves_by_def returns_def\<close>)
qed

lemma confirm_pickup_simple:
  assumes run: "confirm_pickup new_v4 actor command payload now d = Inr (Inr s, d')"
  shows "simple_advance ''fulfillment.confirm_pickup'' (oap_order_id payload) actor command s d d'"
proof -
  obtain order notice role where o: "fetch_order d (oap_order_id payload) = Some order"
      "guard_order_action actor command order = None"
    and st: "or_state order \<in> {''paid'', ''ready_for_pickup''}"
    and adv: "advance_order new_v4 actor command order (moved ''delivered'' now)
      ''fulfillment.delivered'' notice now (insert_handover (or_id order) role now d) = Inr (Inr s, d')"
    using run by (auto simp: confirm_pickup_def with_order_accept Let_def split: if_splits option.splits)
  show ?thesis
    by (rule simple_advanceI [OF o adv, where handovers = "st_handovers (insert_handover (or_id order) role now d)"])
       (use st in \<open>auto simp: moves_by_def returns_def insert_handover_def\<close>)
qed

lemma return_request_simple:
  assumes run: "return_request new_v4 actor command payload now d = Inr (Inr s, d')"
  shows "simple_advance ''return.request'' (rr_order_id payload) actor command s d d'"
proof -
  let ?q = "\<lparr>rq_state = ''requested'', rq_reason = rr_reason payload,
    rq_requested_amount_minor = rr_requested_amount_minor payload, rq_requested_at = format_timestamp now,
    rq_updated_at = format_timestamp now\<rparr>"
  obtain order where o: "fetch_order d (rr_order_id payload) = Some order"
      "guard_order_action actor command order = None"
    and st: "or_state order \<in> {''delivered'', ''completed''}" "rr_requested_amount_minor payload \<le> or_total_minor order"
    and adv: "advance_order new_v4 actor command order
      (\<lambda>r. (moved ''return_requested'' now r)\<lparr>or_return_request := Some ?q\<rparr>) ''return.requested''
      (''return_updated'', or_seller_pubky) now d = Inr (Inr s, d')"
    using run by (auto simp: return_request_def with_order_accept Let_def not_less split: if_splits)
  show ?thesis
    by (rule simple_advanceI [OF o adv, where handovers = "st_handovers d"])
       (use st in \<open>auto simp: moves_by_def moved_def same_deal_def returns_def\<close>)
qed

lemma advance_return_simple:
  assumes run: "advance_return new_v4 actor command payload step now d = Inr (Inr s, d')"
    and edge: "has_edge order_machine kind (from_order_state step) (to_order_state step)"
      "from_order_state step \<noteq> ''pending_payment''"
    and kind: "kind \<noteq> ''return.request''" "\<And>x. to_return_state step = returned_state kind x"
  shows "simple_advance kind (oap_order_id payload) actor command s d d'"
proof -
  obtain order notice request event where o: "fetch_order d (oap_order_id payload) = Some order"
      "guard_order_action actor command order = None"
    and st: "or_state order = from_order_state step" "or_return_request order = Some request"
    and adv: "advance_order new_v4 actor command order
      (\<lambda>r. (moved (to_order_state step) now r)\<lparr>or_return_request :=
         Some (request\<lparr>rq_state := to_return_state step, rq_updated_at := format_timestamp now\<rparr>)\<rparr>) event notice now d = Inr (Inr s, d')"
    using run by (auto simp: advance_return_def with_order_accept split: if_splits option.splits)
  show ?thesis
    by (rule simple_advanceI [OF o adv, where handovers = "st_handovers d"])
       (use st edge kind in \<open>auto simp: moves_by_def moved_def same_deal_def returns_by_def\<close>)
qed

lemma return_approve_simple:
  assumes "return_approve new_v4 actor command payload now d = Inr (Inr s, d')"
  shows "simple_advance ''return.approve'' (oap_order_id payload) actor command s d d'"
  using assms unfolding return_approve_def
  by (rule advance_return_simple) (simp_all add: approve_step_def returned_state_def)

lemma return_receive_simple:
  assumes "return_receive new_v4 actor command payload now d = Inr (Inr s, d')"
  shows "simple_advance ''return.receive'' (oap_order_id payload) actor command s d d'"
  using assms unfolding return_receive_def
  by (rule advance_return_simple) (simp_all add: receive_step_def returned_state_def)

lemmas simple_handlers =
  ship_simple confirm_delivery_simple mark_ready_simple confirm_pickup_simple return_request_simple
  return_approve_simple return_receive_simple

lemma refund_as_advance:
  assumes "record_external_refund order_ref new_v4 actor command payload now d = Inr (Inr s, d')"
  shows "\<exists>order updated d1. fetch_order d (rer_order_id payload) = Some order
    \<and> guard_order_action actor command order = None \<and> refundable_state order
    \<and> or_seller_pubky order = actor \<and> rer_amount_minor payload \<le> or_total_minor order
    \<and> (\<exists>recorded. recorded_minor d order = Some recorded \<and> recorded \<le> rer_amount_minor payload)
    \<and> write_order order (refunded_row payload now order) d = Inr (updated, d1)
    \<and> finish_order_action new_v4 actor command updated ''refund.recorded_external''
        (''refund_recorded'', or_buyer_pubky updated) now
        (insert_annotation order_ref new_v4 (or_id updated) ''refunded'' d1) = Inr (Inr s, d')"
  using assms
  by (auto simp: record_external_refund_def with_order_accept seq_eq_Inr split: if_splits option.splits)

lemma insert_annotation_frame:
  "st_orders (insert_annotation f new_v4 k x d) = st_orders d"
  "st_listings (insert_annotation f new_v4 k x d) = st_listings d"
  "st_reservations (insert_annotation f new_v4 k x d) = st_reservations d"
  "st_drops (insert_annotation f new_v4 k x d) = st_drops d"
  "st_drop_purchases (insert_annotation f new_v4 k x d) = st_drop_purchases d"
  by (simp_all add: insert_annotation_def draw_uuid_def split: option.split)

lemma refunded_row_simps [simp]:
  "or_id (refunded_row payload now order r) = or_id r"
  "or_revision (refunded_row payload now order r) = or_revision r + 1"
  "or_state (refunded_row payload now order r) = ''refunded_external''"
  "same_deal r (refunded_row payload now order r)"
  "or_stock_held (refunded_row payload now order r) = or_stock_held r"
  "or_lines (refunded_row payload now order r) = or_lines r"
  "or_hold_expires_at (refunded_row payload now order r) = or_hold_expires_at r"
  "or_auction_aggregate_id (refunded_row payload now order r) = or_auction_aggregate_id r"
  "or_return_request (refunded_row payload now order r)
     = map_option (\<lambda>q. q\<lparr>rq_state := ''refunded'', rq_updated_at := format_timestamp now\<rparr>) (or_return_request order)"
  by (simp_all add: refunded_row_def same_deal_def moved_def)

lemma refund_run:
  assumes t: "table_ok or_id order_check (st_orders d)"
    and run: "record_external_refund order_ref new_v4 actor command payload now d = Inr (Inr s, d')"
  obtains order w d1 where "fetch_order d (rer_order_id payload) = Some order"
    "guard_order_action actor command order = None" "refundable_state order" "or_seller_pubky order = actor"
    "rer_amount_minor payload \<le> or_total_minor order"
    "\<exists>recorded. recorded_minor d order = Some recorded \<and> recorded \<le> rer_amount_minor payload"
    "update_orders (\<lambda>x. or_id x = rer_order_id payload) (refunded_row payload now order) d
       = Inr (refunded_row payload now order order # w, d1)"
    "order_change (rer_order_id payload) order (refunded_row payload now order order) d d'"
    "hs_revision s = or_revision order + 1"
    "st_listings d' = st_listings d1" "st_reservations d' = st_reservations d1" "st_orders d' = st_orders d1"
    "st_drops d' = st_drops d1" "st_drop_purchases d' = st_drop_purchases d1"
proof -
  let ?k = "rer_order_id payload"
  obtain order updated d1 where o: "fetch_order d ?k = Some order"
      "guard_order_action actor command order = None" "refundable_state order" "or_seller_pubky order = actor"
      "rer_amount_minor payload \<le> or_total_minor order"
      "\<exists>recorded. recorded_minor d order = Some recorded \<and> recorded \<le> rer_amount_minor payload"
    and wr: "write_order order (refunded_row payload now order) d = Inr (updated, d1)"
    and fin: "finish_order_action new_v4 actor command updated ''refund.recorded_external''
        (''refund_recorded'', or_buyer_pubky updated) now
        (insert_annotation order_ref new_v4 (or_id updated) ''refunded'' d1) = Inr (Inr s, d')"
    using refund_as_advance [OF run] by blast
  have k: "or_id order = ?k" by (rule fetch_order_id [OF o(1)])
  obtain w where u: "update_orders (\<lambda>x. or_id x = ?k) (refunded_row payload now order) d = Inr (updated # w, d1)"
    using write_order_Inr [OF t _ refl wr] o(1) k by auto
  note e = update_order_change [OF t o(1) u refunded_row_simps(1)]
  have updated: "updated = refunded_row payload now order order" using e(2) by simp
  note log = finish_order_action_log [OF fin]
  note same = log_stepD [OF log(1), unfolded insert_annotation_frame]
  have "order_change ?k order (refunded_row payload now order order) d d'"
    using e(1) by (simp add: order_change_def fetch_order_def same)
  then show thesis
    using that [OF o u [unfolded updated]] log(2) same by (simp add: updated)
qed

lemma refund_moves:
  assumes t: "table_ok or_id order_check (st_orders d)"
    and run: "record_external_refund order_ref new_v4 actor command payload now d = Inr (Inr s, d')"
  shows "accepted_move ''refund.record_external'' (rer_order_id payload) actor command s d d'"
proof (rule refund_run [OF t run])
  fix order w d1
  assume o: "guard_order_action actor command order = None" "refundable_state order"
    and c: "order_change (rer_order_id payload) order (refunded_row payload now order order) d d'"
    and s: "hs_revision s = or_revision order + 1"
  have "has_edge order_machine ''refund.record_external'' (or_state order) ''refunded_external''"
    using o(2) by (auto simp: refundable_state_def)
  then have "moves_by ''refund.record_external'' order (refunded_row payload now order order)"
    by (simp add: moves_by_def returns_def)
  then show ?thesis by (rule accepted_moveI [OF c]) (simp_all add: s o(1))
qed

lemma cancel_edge:
  assumes "or_state order \<in> set [''pending_payment'', ''paid'', ''processing'', ''ready_for_pickup'']"
  shows "has_edge order_machine ''order.cancel_request'' (or_state order) (cancel_target d order)"
  using assms by (auto simp: cancel_target_def cancel_outcome_def is_unilateral_def)

lemma cancel_request_run:
  assumes "cancel_request new_v4 actor command payload now d = Inr (Inr s, d')"
  obtains order where "fetch_order d (rc_order_id payload) = Some order"
    "guard_order_action actor command order = None"
    "or_state order \<in> set [''pending_payment'', ''paid'', ''processing'', ''ready_for_pickup'']"
    "cancel_order new_v4 actor command (rc_reason payload) (lock_payment d (rc_order_id payload)) order now d
       = Inr (Inr s, d')"
  using assms by (auto simp: cancel_request_def with_order_accept split: if_splits)

lemma cancel_request_moves:
  assumes t: "table_ok or_id order_check (st_orders d)"
    and run: "cancel_request new_v4 actor command payload now d = Inr (Inr s, d')"
  shows "accepted_move ''order.cancel_request'' (rc_order_id payload) actor command s d d'"
proof (rule cancel_request_run [OF run])
  fix order
  assume o: "fetch_order d (rc_order_id payload) = Some order" "guard_order_action actor command order = None"
    and st: "or_state order \<in> set [''pending_payment'', ''paid'', ''processing'', ''ready_for_pickup'']"
    and c: "cancel_order new_v4 actor command (rc_reason payload) (lock_payment d (rc_order_id payload)) order now d
       = Inr (Inr s, d')"
  have k: "or_id order = rc_order_id payload" by (rule fetch_order_id [OF o(1)])
  have order: "fetch_order d (or_id order) = Some order" using o(1) by (simp add: k)
  show ?thesis
  proof (rule cancel_order_run [OF t order c])
    fix r2
    assume p: "paykit_only order r2" and s: "hs_revision s = or_revision order + 1"
      and ch: "order_change (or_id order) order (cancelled_row (cancel_target d order) (rc_reason payload) now r2) d d'"
    have "moves_by ''order.cancel_request'' order (cancelled_row (cancel_target d order) (rc_reason payload) now r2)"
      using same_deal_trans [OF paykit_onlyD(4) [OF p] cancelled_row_simps(4)] paykit_onlyD(2,9) [OF p] cancel_edge [OF st]
      by (simp add: moves_by_def returns_def)
    then show ?thesis
      by (rule accepted_moveI [OF ch [unfolded k]]) (simp_all add: s o(2) paykit_onlyD(2) [OF p])
  qed
qed

lemma cancel_approve_run:
  assumes "cancel_approve new_v4 actor command payload now d = Inr (Inr s, d')"
  obtains order d1 d2 where "fetch_order d (oap_order_id payload) = Some order"
    "guard_order_action actor command order = None" "or_state order = ''cancel_requested''"
    "credit_order_drop (releasable_lines d order) now d = Inr (Inr (), d1)"
    "release_lines (releasable_lines d order) Sold now d1 = Inr (Inr (), d2)"
    "advance_order new_v4 actor command order (moved ''cancelled'' now) ''order.cancelled''
       (''order_cancelled'', or_buyer_pubky) now d2 = Inr (Inr s, d')"
  using assms by (auto simp: cancel_approve_def with_order_accept attempt_accept split: if_splits)

lemma cancel_approve_moves:
  assumes t: "table_ok or_id order_check (st_orders d)"
    and run: "cancel_approve new_v4 actor command payload now d = Inr (Inr s, d')"
  shows "accepted_move ''order.cancel_approve'' (oap_order_id payload) actor command s d d'"
proof (rule cancel_approve_run [OF run])
  fix order d1 d2
  assume o: "fetch_order d (oap_order_id payload) = Some order" "guard_order_action actor command order = None"
    and st: "or_state order = ''cancel_requested''"
    and c: "credit_order_drop (releasable_lines d order) now d = Inr (Inr (), d1)"
    and l: "release_lines (releasable_lines d order) Sold now d1 = Inr (Inr (), d2)"
    and adv: "advance_order new_v4 actor command order (moved ''cancelled'' now) ''order.cancelled''
       (''order_cancelled'', or_buyer_pubky) now d2 = Inr (Inr s, d')"
  have "st_orders d2 = st_orders d"
    using credit_order_drop_frame [OF c] release_line_list_frame l
    by (auto simp: release_lines_def drop_frame_def)
  then show ?thesis
    by (rule advance_moves [OF t _ o adv]) (use st in \<open>auto simp: moves_by_def returns_def\<close>)
qed

lemma dispatch_order_moves:
  assumes t: "table_ok or_id order_check (st_orders d)"
    and run: "dispatch_order order_ref new_v4 actor command now d = Some (Inr (Inr s, d'))"
  shows "\<exists>k. order_named (cmd_payload command) = Some k
    \<and> accepted_move (payload_kind (cmd_payload command)) k actor command s d d'"
proof (cases "cmd_payload command")
qed (use run t in \<open>auto simp: dispatch_order_def
    intro: simple_advance_moves simple_handlers refund_moves cancel_request_moves cancel_approve_moves\<close>)

section \<open>Every command keeps the books\<close>

lemma books_ok_cong:
  assumes "st_listings d' = st_listings d" "st_reservations d' = st_reservations d" "st_orders d' = st_orders d"
    "st_drops d' = st_drops d" "st_drop_purchases d' = st_drop_purchases d"
  shows "books_ok d' = books_ok d"
  using assms stock_ok_cong [of d' d] drops_ok_cong [of d' d] by (simp add: books_ok_def)

lemma total_stock_cong: "st_listings d' = st_listings d \<Longrightarrow> total_stock d' a = total_stock d a"
  by (simp add: total_stock_def fetch_listing_def)

lemma books_log: "log_step d d' \<Longrightarrow> books_ok d' = books_ok d" "log_step d d' \<Longrightarrow> total_stock d' a = total_stock d a"
  using books_ok_cong [of d' d] total_stock_cong [of d' d a] by (auto dest: log_stepD)

text \<open>Rewriting the order \<open>k\<close> when the ledger is off by exactly what the rewrite accounts for.\<close>

lemma books_ok_update_order:
  assumes t: "stock_tables_ok d" and l: "ledger_off g d" and ok: "drops_ok d" and h: "list_all hold_shape (st_orders d)"
    and r: "fetch_order d k = Some r" and u: "update_orders (\<lambda>x. or_id x = k) f d = Inr (w, d')"
    and f: "\<And>x. or_id (f x) = or_id x" and g: "\<And>a. g a = order_holds (f r) a - order_holds r a"
    and shape: "hold_shape (f r)"
  shows "books_ok d'" "st_listings d' = st_listings d"
proof -
  have r': "fetch or_id k (st_orders d) = Some r" using r by (simp add: fetch_order_def)
  note e = stock_ok_update_order [OF t l r' u f g]
  have to: "table_ok or_id order_check (st_orders d)" using t by (simp add: stock_tables_ok_def)
  have "hold_shape (if or_id x = k then f x else x)" if "x \<in> set (st_orders d)" for x
    using that h shape fetch_unique [OF to r' that] by (auto simp: list_all_iff)
  then have "list_all hold_shape (st_orders d')" by (simp only: orders.upd_get [OF u] list.pred_map) (simp add: list_all_iff)
  moreover have "drops_ok d'" using ok u drops_ok_cong [of d' d] by (auto simp: orders.upd_Inr)
  ultimately show "books_ok d'" "st_listings d' = st_listings d" using e by (simp_all add: books_ok_def)
qed

text \<open>Rewriting an order without touching what it holds.\<close>

lemma write_order_books:
  assumes ok: "books_ok d" and order: "fetch_order d k = Some order"
    and u: "update_orders (\<lambda>r. or_id r = or_id order \<and> or_revision r = or_revision order) f d = Inr (updated # w, d')"
    and f: "\<And>x. or_id (f x) = or_id x" "\<And>a. order_holds (f order) a = order_holds order a" "hold_shape (f order)"
  shows "updated = f order" "books_ok d'" "order_change k order (f order) d d'"
    "d' = d\<lparr>st_orders := map (\<lambda>x. if or_id x = k then f x else x) (st_orders d)\<rparr>"
proof -
  have k: "or_id order = k" by (rule fetch_order_id [OF order])
  have t: "stock_tables_ok d" and l: "ledger_off (\<lambda>_. 0) d" and dr: "drops_ok d" and h: "list_all hold_shape (st_orders d)"
    using ok by (simp_all add: books_ok_def stock_ok_def)
  have to: "table_ok or_id order_check (st_orders d)" using t by (simp add: stock_tables_ok_def)
  have u': "update_orders (\<lambda>x. or_id x = k) f d = Inr (updated # w, d')"
    using u update_order_cas [OF to, of "or_id order" order f] order by (simp add: k)
  note c = orders.upd_change [OF to order [unfolded fetch_order_def] u' f(1)]
  show "updated = f order" using c(1) by simp
  show "books_ok d'"
    by (rule books_ok_update_order(1) [OF t l dr h order u' f(1)]) (simp_all add: f)
  show "order_change k order (f order) d d'" using order c(3-5) by (simp add: order_change_def fetch_order_def)
  show "d' = d\<lparr>st_orders := map (\<lambda>x. if or_id x = k then f x else x) (st_orders d)\<rparr>" by (rule c(7))
qed

text \<open>A handler that only advances an order which holds nothing.\<close>

lemma advance_books:
  assumes ok: "books_ok d" and order: "fetch_order d k = Some order" and held: "\<not> or_stock_held order"
    and run: "advance_order new_v4 actor command order f event notice now d = Inr (Inr s, d')"
    and f: "\<And>x. or_id (f x) = or_id x" "\<And>x. or_stock_held (f x) = or_stock_held x"
  shows "books_ok d' \<and> (\<forall>a. total_stock d' a = total_stock d a)"
proof -
  have k: "or_id order = k" by (rule fetch_order_id [OF order])
  have t: "stock_tables_ok d" and l: "ledger_off (\<lambda>_. 0) d" and dr: "drops_ok d"
    and h: "list_all hold_shape (st_orders d)"
    using ok by (simp_all add: books_ok_def stock_ok_def)
  have to: "table_ok or_id order_check (st_orders d)" using t by (simp add: stock_tables_ok_def)
  obtain w d1 where u: "update_orders (\<lambda>x. or_id x = k) f d = Inr (f order # w, d1)" and log: "log_step d1 d'"
    using advance_order_effect [OF to _ refl f(1) run] order by (metis k)
  note e = books_ok_update_order [OF t l dr h order u f(1)]
  have b: "books_ok d1" "st_listings d1 = st_listings d"
    using e held f(2) by (auto simp: order_holds_def hold_shape_def)
  then show ?thesis
    using log_stepD [OF log] books_ok_cong [of d' d1] total_stock_cong [of d' d] by simp
qed

lemma unpaid_holds_only:
  assumes "books_ok d" "fetch_order d k = Some order" "or_state order \<noteq> ''pending_payment''"
  shows "\<not> or_stock_held order"
proof -
  have "order \<in> set (st_orders d)" using assms(2) fetch_Some by (fastforce simp: fetch_order_def)
  then show ?thesis using assms(1,3) by (auto simp: books_ok_def list_all_iff hold_shape_def)
qed

lemma credit_order_drop_effect:
  assumes "drops_ok d" "credit_order_drop order now d = Inr (Inr x, d')"
  shows "drops_ok d'" "drop_frame d d'"
proof -
  show "drops_ok d'"
    using assms credit_drop_release_effect(1) [OF assms(1)]
    by (auto simp: credit_order_drop_def seq_eq_Inr refuse_def split: option.splits if_splits)
  show "drop_frame d d'" by (rule credit_order_drop_frame [OF assms(2)])
qed

text \<open>Releasing lines from a state whose ledger is off by \<open>g\<close>.\<close>

lemma release_lines_effect:
  assumes t: "stock_tables_ok d" and l: "ledger_off g d" and run: "release_lines order held now d = Inr (Inr x, d')"
  shows "stock_tables_ok d'" "ledger_off (\<lambda>a. g a - (if held = Reserved then line_units (or_lines order) a else 0)) d'"
    "\<forall>a. total_stock d' a = total_stock d a"
    "st_orders d' = st_orders d" "st_drops d' = st_drops d" "st_drop_purchases d' = st_drop_purchases d"
proof -
  have tl: "table_ok ls_aggregate_id listing_check (st_listings d)" using t by (simp add: stock_tables_ok_def)
  note e = release_line_list_effect [OF tl l run [unfolded release_lines_def]]
  note s = listings_stepD [OF conjunct1 [OF e]]
  show "stock_tables_ok d'" using t s by (simp add: stock_tables_ok_def)
  show "ledger_off (\<lambda>a. g a - (if held = Reserved then line_units (or_lines order) a else 0)) d'"
    using e by simp
  show "\<forall>a. total_stock d' a = total_stock d a" using e by (simp add: listings_step_def)
  show "st_orders d' = st_orders d" "st_drops d' = st_drops d" "st_drop_purchases d' = st_drop_purchases d"
    by (rule s)+
qed

lemma flip_winner_reservations:
  assumes t: "stock_tables_ok d" and l: "ledger_off g d"
    and u: "update_reservations (\<lambda>v. rv_listing_aggregate_id v = a \<and> rv_buyer_pubky v = or_buyer_pubky r
        \<and> rv_status v = ''active'') (\<lambda>v. v\<lparr>rv_status := s, rv_updated_at := now\<rparr>) d = Inr (w, d')"
    and s: "s \<noteq> ''active''"
  shows "stock_tables_ok d'" "(w = []) = (winner_reservations d r a = [])"
    "ledger_off (\<lambda>x. g x + (if x = a then sum_list (map rv_quantity (winner_reservations d r a)) else 0)) d'"
    "st_listings d' = st_listings d" "st_orders d' = st_orders d" "st_drops d' = st_drops d"
    "st_drop_purchases d' = st_drop_purchases d"
proof -
  let ?ws = "winner_reservations d r a"
  show same: "st_listings d' = st_listings d" "st_orders d' = st_orders d" "st_drops d' = st_drops d"
    "st_drop_purchases d' = st_drop_purchases d"
    using u by (auto simp: reservations.upd_Inr)
  have tr: "table_ok rv_id reservation_check (st_reservations d)" using t by (simp add: stock_tables_ok_def)
  show "stock_tables_ok d'"
    using t same reservations.upd_ok [OF u _ tr] by (simp add: stock_tables_ok_def)
  show "(w = []) = (?ws = [])" using u by (auto simp: reservations.upd_Inr winner_reservations_def)
  have holds: "reservation_holds (v\<lparr>rv_status := s, rv_updated_at := now\<rparr>) x - reservation_holds v x
      = - (if x = a then rv_quantity v else 0)"
    if "v \<in> set ?ws" for v x
    using that s by (auto simp: reservation_holds_def winner_reservations_def)
  have "sum_list (map (\<lambda>v. reservation_holds (v\<lparr>rv_status := s, rv_updated_at := now\<rparr>) x - reservation_holds v x) ?ws)
      = - (if x = a then sum_list (map rv_quantity ?ws) else 0)" for x
    by (simp add: holds uminus_sum_list_map o_def sum_list_0 cong: map_cong)
  then have "accounted d' x = accounted d x + - (if x = a then sum_list (map rv_quantity ?ws) else 0)" for x
    using reservations.upd_sum [OF u, of "\<lambda>v. reservation_holds v x"]
    by (simp add: accounted_def same winner_reservations_def)
  then have "ledger_off (\<lambda>x. g x - - (if x = a then sum_list (map rv_quantity ?ws) else 0)) d'"
    by (rule ledger_off_account [OF l same(1)])
  then show "ledger_off (\<lambda>x. g x + (if x = a then sum_list (map rv_quantity ?ws) else 0)) d'"
    by (simp add: algebra_simps)
qed

lemma release_reserved_hold_effect:
  assumes t: "stock_tables_ok d" and l: "ledger_off (\<lambda>_. 0) d" and w: "winner_hold d order"
    and a: "or_auction_aggregate_id order = Some a"
    and run: "release_reserved_hold order a now d = Inr (Inr x, d')"
  shows "stock_tables_ok d'" "ledger_off (\<lambda>_. 0) d'" "\<forall>b. total_stock d' b = total_stock d b"
    "st_orders d' = st_orders d" "st_drops d' = st_drops d" "st_drop_purchases d' = st_drop_purchases d"
proof -
  obtain released d1 where u: "update_reservations
      (\<lambda>v. rv_listing_aggregate_id v = a \<and> rv_buyer_pubky v = or_buyer_pubky order \<and> rv_status v = ''active'')
      (\<lambda>v. v\<lparr>rv_status := ''released'', rv_updated_at := now\<rparr>) d = Inr (released, d1)"
    and rest: "if released = [] then d' = d1 else release_lines order Reserved now d1 = Inr (Inr (), d')"
    using run by (auto simp: release_reserved_hold_def seq_eq_Inr split: if_splits)
  note e = flip_winner_reservations [OF t l u, simplified]
  have totals: "total_stock d1 b = total_stock d b" for b by (rule total_stock_cong [OF e(4)])
  have "stock_tables_ok d' \<and> ledger_off (\<lambda>_. 0) d' \<and> (\<forall>b. total_stock d' b = total_stock d b)
    \<and> st_orders d' = st_orders d \<and> st_drops d' = st_drops d \<and> st_drop_purchases d' = st_drop_purchases d"
  proof (cases "released = []")
    case True
    with e rest totals show ?thesis by (auto cong: if_cong)
  next
    case False
    then have rel: "release_lines order Reserved now d1 = Inr (Inr (), d')" using rest by simp
    note r = release_lines_effect [OF e(1,3) rel]
    have "line_units (or_lines order) b
        = (if b = a then sum_list (map rv_quantity (winner_reservations d order a)) else 0)" for b
      using w a False e(2) by (auto simp: winner_hold_def)
    then have "ledger_off (\<lambda>_. 0) d'" using ledger_off_cong [OF r(2), of "\<lambda>_. 0"] by simp
    with r e(4-) totals show ?thesis by simp
  qed
  then show "stock_tables_ok d'" "ledger_off (\<lambda>_. 0) d'" "\<forall>b. total_stock d' b = total_stock d b"
    "st_orders d' = st_orders d" "st_drops d' = st_drops d" "st_drop_purchases d' = st_drop_purchases d" by simp_all
qed

lemma credit_then_release:
  assumes ok: "stock_ok d" "drops_ok d" and c: "credit_order_drop order now d = Inr (Inr x, d1)"
    and rel: "release_lines order' held now d1 = Inr (Inr y, d')"
  shows "stock_tables_ok d'" "ledger_off (\<lambda>a. - (if held = Reserved then line_units (or_lines order') a else 0)) d'"
    "drops_ok d'" "\<forall>a. total_stock d' a = total_stock d a" "st_orders d' = st_orders d"
proof -
  note e = credit_order_drop_effect [OF ok(2) c]
  have s1: "stock_ok d1" by (rule stock_ok_frame [OF e(2) ok(1)])
  have l1: "stock_tables_ok d1" "ledger_off (\<lambda>_. 0) d1" using s1 by (simp_all add: stock_ok_def)
  note r = release_lines_effect [OF l1 rel]
  show "stock_tables_ok d'" by (rule r(1))
  show "ledger_off (\<lambda>a. - (if held = Reserved then line_units (or_lines order') a else 0)) d'"
    using ledger_off_cong [OF r(2)] by simp
  show "drops_ok d'" using e(1) r(5,6) drops_ok_cong [of d' d1] by simp
  show "\<forall>a. total_stock d' a = total_stock d a"
    using r(3) e(2) total_stock_cong [of d1 d] by (simp add: drop_frame_def)
  show "st_orders d' = st_orders d" using r(4) e(2) by (simp add: drop_frame_def)
qed

lemma tolerate_deadline:
  assumes "or_hold_expires_at order \<noteq> None" "tolerate order step rest = Inr (Inr x, d')"
  obtains y d where "step = Inr (Inr y, d)" "rest d = Inr (Inr x, d')"
  using assms(2) by (rule tolerate_cases) (use assms(1) that in \<open>auto simp: legacy_null_expiry_unaccounted_def\<close>)

text \<open>What a cancellation releases, when the holds have the shape of \<open>hold_shape\<close>.\<close>

lemma release_cancelled_cases:
  assumes order: "hold_shape order"
    and run: "release_cancelled order (or_state order = ''pending_payment'') unilateral now d = Inr (Inr x, d')"
  obtains (auction) a where "or_auction_aggregate_id order = Some a" "release_reserved_hold order a now d = Inr (Inr x, d')"
    | (held) d1 y where "or_stock_held order" "credit_order_drop order now d = Inr (Inr y, d1)"
        "release_lines order Reserved now d1 = Inr (Inr x, d')"
    | (sold) d1 y where "\<not> or_stock_held order" "credit_order_drop order now d = Inr (Inr y, d1)"
        "release_lines order Sold now d1 = Inr (Inr x, d')"
    | (kept) "\<not> or_stock_held order" "d' = d"
proof (cases "or_state order = ''pending_payment'' \<and> or_auction_aggregate_id order = None \<and> or_stock_held order")
  case True
  then have dl: "or_hold_expires_at order \<noteq> None" using order by (simp add: hold_shape_def)
  have "tolerate order (credit_order_drop order now d)
      (\<lambda>d1. tolerate order (release_lines order Reserved now d1) (\<lambda>d2. Inr (Inr (), d2))) = Inr (Inr x, d')"
    using run True by (simp add: release_cancelled_def)
  then show thesis
    by (rule tolerate_deadline [OF dl]) (erule tolerate_deadline [OF dl], use held True in auto)
next
  case False
  then have "\<not> or_stock_held order" using order by (auto simp: hold_shape_def)
  moreover from False this run have "(\<exists>a. or_auction_aggregate_id order = Some a
        \<and> release_reserved_hold order a now d = Inr (Inr x, d'))
    \<or> (\<exists>d1 y. credit_order_drop order now d = Inr (Inr y, d1) \<and> release_lines order Sold now d1 = Inr (Inr x, d'))
    \<or> d' = d"
    by (auto simp: release_cancelled_def attempt_accept split: if_splits option.splits)
  ultimately show thesis using auction sold kept by blast
qed

lemma release_cancelled_effect:
  assumes ok: "books_ok d" and order: "hold_shape order" "winner_hold d order"
    and run: "release_cancelled order (or_state order = ''pending_payment'') unilateral now d = Inr (Inr x, d')"
  shows "stock_tables_ok d' \<and> ledger_off (\<lambda>a. - order_holds order a) d' \<and> drops_ok d'
    \<and> (\<forall>a. total_stock d' a = total_stock d a)"
proof -
  have st: "stock_ok d" "drops_ok d" and t: "stock_tables_ok d" and l: "ledger_off (\<lambda>_. 0) d"
    using ok by (simp_all add: books_ok_def stock_ok_def)
  show ?thesis
    using order(1) run
  proof (cases rule: release_cancelled_cases)
    case auction
    then have "\<not> or_stock_held order" using order(1) by (simp add: hold_shape_def)
    with release_reserved_hold_effect [OF t l order(2) auction] st(2) drops_ok_cong [of d' d]
    show ?thesis by (simp add: order_holds_def)
  next
    case held
    with credit_then_release [OF st held(2,3)] show ?thesis by (simp add: order_holds_def)
  next
    case sold
    with credit_then_release [OF st sold(2,3)] show ?thesis by (simp add: order_holds_def)
  next
    case kept
    with t l st show ?thesis by (simp add: order_holds_def)
  qed
qed

lemma paykit_ended_stock:
  assumes e: "paykit_ended k d d'" and t: "stock_tables_ok d" and l: "ledger_off g d"
    and h: "list_all hold_shape (st_orders d)"
  shows "stock_tables_ok d'" "ledger_off g d'" "list_all hold_shape (st_orders d')"
proof -
  obtain p where p: "\<And>x. paykit_only x (p x)" and o': "st_orders d' = map p (st_orders d)"
    and c: "list_all order_check (st_orders d')" and same: "st_listings d' = st_listings d"
      "st_reservations d' = st_reservations d"
    using e unfolding paykit_ended_def by blast
  have "map or_id (st_orders d') = map or_id (st_orders d)" by (rule paykit_ended_fetch(3) [OF e])
  with t c same show "stock_tables_ok d'" by (simp add: stock_tables_ok_def table_ok_def)
  have "order_holds (p x) a = order_holds x a" for x a
    using paykit_onlyD(5,7) [OF p, of x] by (simp add: order_holds_def)
  then have "accounted d' a = accounted d a" for a by (simp add: accounted_def o' same(2) o_def)
  with l same(1) show "ledger_off g d'" by (simp add: ledger_off_def)
  have "hold_shape (p x) = hold_shape x" for x
    using paykit_onlyD(3,5,6,8) [OF p, of x] by (simp add: hold_shape_def)
  with h show "list_all hold_shape (st_orders d')" by (simp add: o' list_all_iff)
qed

lemma cancel_order_books:
  assumes ok: "books_ok d" and order: "fetch_order d (or_id order) = Some order" "winner_hold d order"
    and run: "cancel_order new_v4 actor command reason payment order now d = Inr (Inr s, d')"
  shows "books_ok d' \<and> (\<forall>a. total_stock d' a = total_stock d a)"
proof -
  let ?f = "cancelled_row (cancel_target d order) reason now"
  have to: "table_ok or_id order_check (st_orders d)" and h: "list_all hold_shape (st_orders d)"
    using ok by (simp_all add: books_ok_def stock_ok_def stock_tables_ok_def)
  have shape: "hold_shape order"
    using order(1) h fetch_Some by (fastforce simp: fetch_order_def list_all_iff)
  show ?thesis
  proof (rule cancel_order_run [OF to order(1) run])
    fix d1 d2 d3 r2 w
    assume rel: "release_cancelled order (or_state order = ''pending_payment'') (is_unilateral d order) now d = Inr (Inr (), d1)"
      and ended: "paykit_ended (or_id order) d1 d2" and r2: "fetch_order d2 (or_id order) = Some r2" "paykit_only order r2"
      and u: "update_orders (\<lambda>x. or_id x = or_id order) ?f d2 = Inr (?f r2 # w, d3)" and log: "log_step d3 d'"
    note e1 = release_cancelled_effect [OF ok shape order(2) rel]
    have "list_all hold_shape (st_orders d1)" using h release_cancelled_orders [OF rel] by simp
    note e2 = paykit_ended_stock [OF ended _ _ this, of "\<lambda>a. - order_holds order a"]
    have dr: "drops_ok d2" "st_listings d2 = st_listings d1"
      using e1 ended drops_ok_cong [of d2 d1] by (auto simp: paykit_ended_def)
    have same: "order_holds r2 a = order_holds order a" for a
      using paykit_onlyD(5,7) [OF r2(2)] by (simp add: order_holds_def)
    have "books_ok d3" "st_listings d3 = st_listings d2"
      by (rule books_ok_update_order [OF e2(1) e2(2) dr(1) e2(3) r2(1) u];
          use e1 in \<open>simp add: same order_holds_def [of "?f r2"] hold_shape_def\<close>)+
    then show ?thesis
      using log_stepD [OF log] books_ok_cong [of d' d3] e1 dr(2) total_stock_cong [of d' d1] by simp
  qed
qed

lemma simple_advance_books:
  assumes ok: "books_ok d" and run: "simple_advance kind k actor command s d d'"
  shows "books_ok d' \<and> (\<forall>a. total_stock d' a = total_stock d a)"
proof -
  obtain new_v4 order f event notice now handovers where o: "fetch_order d k = Some order"
    and st: "or_state order \<noteq> ''pending_payment''"
    and adv: "advance_order new_v4 actor command order f event notice now (d\<lparr>st_handovers := handovers\<rparr>) = Inr (Inr s, d')"
    and f: "\<And>x. or_id (f x) = or_id x" "\<And>x. or_stock_held (f x) = or_stock_held x"
    using run unfolding simple_advance_def by blast
  let ?d = "d\<lparr>st_handovers := handovers\<rparr>"
  have b: "books_ok ?d" using ok books_ok_cong [of ?d d] by simp
  have o': "fetch_order ?d k = Some order" using o by (simp add: fetch_order_def)
  show ?thesis
    using advance_books [OF b o' unpaid_holds_only [OF ok o st] adv f] total_stock_cong [of ?d d] by simp
qed

lemma refund_books:
  assumes ok: "books_ok d"
    and run: "record_external_refund order_ref new_v4 actor command payload now d = Inr (Inr s, d')"
  shows "books_ok d' \<and> (\<forall>a. total_stock d' a = total_stock d a)"
proof -
  have t: "stock_tables_ok d" and l: "ledger_off (\<lambda>_. 0) d" and dr: "drops_ok d"
    and h: "list_all hold_shape (st_orders d)" and to: "table_ok or_id order_check (st_orders d)"
    using ok by (simp_all add: books_ok_def stock_ok_def stock_tables_ok_def)
  show ?thesis
  proof (rule refund_run [OF to run])
    fix order w d1
    assume o: "fetch_order d (rer_order_id payload) = Some order" "refundable_state order"
      and u: "update_orders (\<lambda>x. or_id x = rer_order_id payload) (refunded_row payload now order) d
        = Inr (refunded_row payload now order order # w, d1)"
      and same: "st_listings d' = st_listings d1" "st_reservations d' = st_reservations d1"
        "st_orders d' = st_orders d1" "st_drops d' = st_drops d1" "st_drop_purchases d' = st_drop_purchases d1"
    have "or_state order \<noteq> ''pending_payment''" using o(2) by (auto simp: refundable_state_def)
    then have held: "\<not> or_stock_held order" by (rule unpaid_holds_only [OF ok o(1)])
    have "books_ok d1" "st_listings d1 = st_listings d"
      by (rule books_ok_update_order [OF t l dr h o(1) u]; use held in \<open>simp add: order_holds_def hold_shape_def\<close>)+
    with same show ?thesis using books_ok_cong [of d' d1] total_stock_cong [of d' d] by simp
  qed
qed

lemma cancel_request_books:
  assumes ok: "books_ok d" and w: "list_all (winner_hold d) (st_orders d)"
    and run: "cancel_request new_v4 actor command payload now d = Inr (Inr s, d')"
  shows "books_ok d' \<and> (\<forall>a. total_stock d' a = total_stock d a)"
proof (rule cancel_request_run [OF run])
  fix order
  assume o: "fetch_order d (rc_order_id payload) = Some order"
    and c: "cancel_order new_v4 actor command (rc_reason payload) (lock_payment d (rc_order_id payload)) order now d
      = Inr (Inr s, d')"
  have "order \<in> set (st_orders d)" using o fetch_Some by (fastforce simp: fetch_order_def)
  then have "winner_hold d order" using w by (simp add: list_all_iff)
  then show ?thesis
    using cancel_order_books [OF ok _ _ c] o fetch_order_id [OF o] by simp
qed

lemma cancel_approve_books:
  assumes ok: "books_ok d" and run: "cancel_approve new_v4 actor command payload now d = Inr (Inr s, d')"
  shows "books_ok d' \<and> (\<forall>a. total_stock d' a = total_stock d a)"
proof (rule cancel_approve_run [OF run])
  fix order d1 d2
  assume o: "fetch_order d (oap_order_id payload) = Some order" and st: "or_state order = ''cancel_requested''"
    and c: "credit_order_drop (releasable_lines d order) now d = Inr (Inr (), d1)"
    and l: "release_lines (releasable_lines d order) Sold now d1 = Inr (Inr (), d2)"
    and adv: "advance_order new_v4 actor command order (moved ''cancelled'' now) ''order.cancelled''
       (''order_cancelled'', or_buyer_pubky) now d2 = Inr (Inr s, d')"
  have ok': "stock_ok d" "drops_ok d" "list_all hold_shape (st_orders d)" using ok by (simp_all add: books_ok_def)
  note e = credit_then_release [OF ok'(1,2) c l]
  have b: "books_ok d2" using e ok'(3) by (simp add: books_ok_def stock_ok_def)
  have o2: "fetch_order d2 (oap_order_id payload) = Some order" using o e(5) by (simp add: fetch_order_def)
  have "\<not> or_stock_held order" by (rule unpaid_holds_only [OF ok o]) (simp add: st)
  then show ?thesis using advance_books [OF b o2 _ adv] e(4) by simp
qed

lemma dispatch_order_books:
  assumes ok: "books_ok d" "list_all (winner_hold d) (st_orders d)"
    and run: "dispatch_order order_ref new_v4 actor command now d = Some (Inr (Inr s, d'))"
  shows "books_ok d' \<and> (\<forall>a. total_stock d' a = total_stock d a)"
proof -
  note simple = simple_handlers [THEN simple_advance_books [OF ok(1)]]
  show ?thesis
  proof (cases "cmd_payload command")
  qed (use run in \<open>auto simp: dispatch_order_def
      dest: simple refund_books [OF ok(1)] cancel_request_books [OF ok] cancel_approve_books [OF ok(1)]\<close>)
qed

section \<open>Returns\<close>

lemma order_change_all:
  assumes c: "order_change k r r' d d'" and t: "distinct (map or_id (st_orders d))"
    and all: "list_all P (st_orders d)" and r': "P r'"
  shows "list_all P (st_orders d')"
proof -
  have "P x" if x: "x \<in> set (st_orders d')" for x
  proof (cases "or_id x = k")
    case True
    have "fetch_order d' k = Some x"
      using x True c t fetch_Some_iff [of or_id "st_orders d'" k] by (simp add: order_change_def fetch_order_def)
    with c r' show ?thesis by (simp add: order_change_def)
  next
    case False
    have "fetch_order d' (or_id x) = Some x"
      using x c t fetch_Some_iff [of or_id "st_orders d'" "or_id x"] by (simp add: order_change_def fetch_order_def)
    then have "x \<in> set (st_orders d)"
      using c False fetch_Some [of or_id "or_id x" "st_orders d" x] by (simp add: order_change_def fetch_order_def)
    with all show ?thesis by (simp add: list_all_iff)
  qed
  then show ?thesis by (simp add: list_all_iff)
qed

lemma return_order_edges:
  "has_edge order_machine kind ''return_requested'' t \<Longrightarrow> kind = ''return.approve'' \<and> t = ''return_approved''"
  "has_edge order_machine kind ''return_approved'' t \<Longrightarrow> kind = ''return.receive'' \<and> t = ''return_received''"
  "has_edge order_machine kind ''return_received'' t \<Longrightarrow> kind = ''refund.record_external'' \<and> t = ''refunded_external''"
  "\<not> has_edge order_machine kind ''refunded_external'' t"
  "has_edge order_machine ''return.request'' s t \<Longrightarrow> t = ''return_requested''"
  by (auto simp: has_edge_def machine_defs)

lemma return_edges [simp]:
  "has_edge return_machine ''return.approve'' ''requested'' ''approved''"
  "has_edge return_machine ''return.receive'' ''approved'' ''received''"
  "has_edge return_machine ''refund.record_external'' ''received'' ''refunded''"
  "initial return_machine = ''requested''"
  by (simp_all add: has_edge_def machine_defs)

lemma returns_follow_open:
  assumes shape: "return_shape r" and m: "moves_by kind r r'" and Some: "or_return_request r = Some q"
  shows "return_shape r' \<and> return_edge kind r r'"
proof -
  have e: "has_edge order_machine kind (or_state r) (or_state r')" and rb: "returns_by kind r r'"
    using m by (simp_all add: moves_by_def)
  have "(or_state r = ''return_requested'' \<and> rq_state q = ''requested'') \<or> (or_state r = ''return_approved'' \<and> rq_state q = ''approved'')
     \<or> (or_state r = ''return_received'' \<and> rq_state q = ''received'') \<or> (or_state r = ''refunded_external'' \<and> rq_state q = ''refunded'')"
    using shape Some by (simp only: return_shape_def option.case set_simps insert_iff empty_iff prod.inject simp_thms)
  then consider
      (approve) "or_state r = ''return_requested''" "rq_state q = ''requested''"
    | (receive) "or_state r = ''return_approved''" "rq_state q = ''approved''"
    | (refund) "or_state r = ''return_received''" "rq_state q = ''received''"
    | (ended) "or_state r = ''refunded_external''"
    by (elim disjE conjE)
  then show ?thesis
  proof cases
    case approve
    with e return_order_edges(1) [of kind "or_state r'"]
    have k: "kind = ''return.approve''" "or_state r' = ''return_approved''" by simp_all
    then obtain q' where "or_return_request r' = Some q'" "rq_state q' = ''approved''"
      "rq_requested_amount_minor q' = rq_requested_amount_minor q"
      using rb Some by (cases "or_return_request r'") (simp_all add: returns_by_def returned_state_def)
    with approve k Some show ?thesis by (simp add: return_shape_def return_edge_def)
  next
    case receive
    with e return_order_edges(2) [of kind "or_state r'"]
    have k: "kind = ''return.receive''" "or_state r' = ''return_received''" by simp_all
    then obtain q' where "or_return_request r' = Some q'" "rq_state q' = ''received''"
      "rq_requested_amount_minor q' = rq_requested_amount_minor q"
      using rb Some by (cases "or_return_request r'") (simp_all add: returns_by_def returned_state_def)
    with receive k Some show ?thesis by (simp add: return_shape_def return_edge_def)
  next
    case refund
    with e return_order_edges(3) [of kind "or_state r'"]
    have k: "kind = ''refund.record_external''" "or_state r' = ''refunded_external''" by simp_all
    then obtain q' where "or_return_request r' = Some q'" "rq_state q' = ''refunded''"
      "rq_requested_amount_minor q' = rq_requested_amount_minor q"
      using rb Some by (cases "or_return_request r'") (simp_all add: returns_by_def returned_state_def)
    with refund k Some show ?thesis by (simp add: return_shape_def return_edge_def)
  next
    case ended
    with e return_order_edges(4) show ?thesis by simp
  qed
qed

lemma returns_follow:
  assumes shape: "return_shape r" and m: "moves_by kind r r'"
  shows "return_shape r' \<and> return_edge kind r r'"
proof (cases "or_return_request r")
  case None
  show ?thesis
  proof (cases "kind = ''return.request''")
    case True
    with None m return_order_edges(5) show ?thesis
      by (auto simp: moves_by_def returns_by_def return_shape_def return_edge_def)
  next
    case False
    with None m show ?thesis by (simp add: moves_by_def returns_by_def return_shape_def return_edge_def)
  qed
next
  case (Some q)
  with assms show ?thesis by (rule returns_follow_open)
qed

section \<open>Properties\<close>

text \<open>C2: Every accepted order command follows the order machine.  Whichever of the ten commands on an
  existing order is accepted, its actor is the buyer or the seller and had read the current revision; the
  order named by the command moves along an edge of \<open>order_machine\<close> that lists this very command, its
  revision grows by exactly one and is the revision answered; parties, lines, total, payment and
  delivery stay as agreed; no other order changes and none is added or removed.\<close>

theorem order_commands_follow_machine:
  assumes "table_ok or_id order_check (st_orders d)"
    and "dispatch_order order_ref new_v4 actor command now d = Some (Inr (Inr s, d'))"
  shows "\<exists>k r r'. order_named (cmd_payload command) = Some k \<and> order_change k r r' d d'
    \<and> has_edge order_machine (payload_kind (cmd_payload command)) (or_state r) (or_state r')
    \<and> or_revision r' = or_revision r + 1 \<and> hs_revision s = or_revision r' \<and> same_deal r r'
    \<and> cmd_expected_revision command = or_revision r \<and> actor \<in> {or_buyer_pubky r, or_seller_pubky r}"
  using dispatch_order_moves [OF assms] by (auto simp: accepted_move_def moves_by_def)

theorem order_commands_follow_machine_witness:
  "\<exists>s d' r'. dispatch_order None show_nat ''buyer'' sample_cancel 50 sample_held_db = Some (Inr (Inr s, d'))
     \<and> fetch_order d' ''o1'' = Some r' \<and> or_revision r' = 2 \<and> hs_revision s = 2"
proof -
  have "case dispatch_order None show_nat ''buyer'' sample_cancel 50 sample_held_db of
      Some r \<Rightarrow> accepted r | None \<Rightarrow> False"
    by code_simp
  then obtain s d' where run:
    "dispatch_order None show_nat ''buyer'' sample_cancel 50 sample_held_db = Some (Inr (Inr s, d'))"
    by (auto simp: accepted_iff split: option.splits)
  have t: "table_ok or_id order_check (st_orders sample_held_db)" by code_simp
  have "order_named (cmd_payload sample_cancel) = Some ''o1''" "cmd_expected_revision sample_cancel = 1"
    by (simp_all add: sample_cancel_def)
  with run order_commands_follow_machine [OF t run] show ?thesis
    by (auto simp: order_change_def)
qed

text \<open>C3: Every accepted order command keeps the books.  When each unit a listing counts as reserved is
  accounted to a reservation or a held order, each drop's units add up and each hold belongs to an unpaid
  order with a deadline (and the winner of an auction has reserved exactly what the order sells), the
  same is true afterwards, whether the command released reserved units, returned sold ones, credited a
  drop or did none of it; and no listing's total changes.\<close>

theorem order_commands_keep_books:
  assumes "stock_ok d" "drops_ok d" "list_all hold_shape (st_orders d)" "list_all (winner_hold d) (st_orders d)"
    and "dispatch_order order_ref new_v4 actor command now d = Some (Inr (Inr s, d'))"
  shows "stock_ok d' \<and> drops_ok d' \<and> list_all hold_shape (st_orders d')
    \<and> (\<forall>a. total_stock d' a = total_stock d a)"
  using dispatch_order_books [OF _ assms(4,5)] assms(1-3) by (simp add: books_ok_def)

theorem order_commands_keep_books_witness:
  "\<exists>s d' l. dispatch_order None show_nat ''buyer'' sample_cancel 50 sample_held_db = Some (Inr (Inr s, d'))
     \<and> stock_ok d' \<and> fetch_listing d' ''listing:l'' = Some l \<and> ls_available_quantity l = 4"
proof -
  let ?run = "dispatch_order None show_nat ''buyer'' sample_cancel 50 sample_held_db"
  have "case ?run of Some r \<Rightarrow> accepted_with r (\<lambda>_ d'. case fetch_listing d' ''listing:l'' of
      Some l \<Rightarrow> ls_available_quantity l = 4 | None \<Rightarrow> False) | None \<Rightarrow> False"
    by code_simp
  then obtain s d' l where run: "?run = Some (Inr (Inr s, d'))"
      "fetch_listing d' ''listing:l'' = Some l" "ls_available_quantity l = 4"
    by (auto simp: accepted_with_iff split: option.splits)
  have ok: "stock_ok sample_held_db" "drops_ok sample_held_db" "list_all hold_shape (st_orders sample_held_db)"
    by code_simp+
  have "list_all (winner_hold sample_held_db) (st_orders sample_held_db)"
    by (simp add: sample_held_db_def sample_order_def winner_hold_def)
  with order_commands_keep_books [OF ok _ run(1)] run show ?thesis by blast
qed

text \<open>A return follows its machine.  When the return document of every order matches its state, an
  accepted order command keeps it so; a return is opened only by \<open>return.request\<close>, in the initial state
  and for no more than the order's total, is never dropped, and moves only along an edge of
  \<open>return_machine\<close> that lists the command, its amount unchanged.\<close>

theorem returns_follow_machine:
  assumes "table_ok or_id order_check (st_orders d)" "list_all return_shape (st_orders d)"
    and "dispatch_order order_ref new_v4 actor command now d = Some (Inr (Inr s, d'))"
  shows "list_all return_shape (st_orders d')
    \<and> (\<exists>k r r'. order_named (cmd_payload command) = Some k \<and> order_change k r r' d d'
        \<and> return_edge (payload_kind (cmd_payload command)) r r')"
proof -
  obtain k r r' where k: "order_named (cmd_payload command) = Some k" and c: "order_change k r r' d d'"
    and m: "moves_by (payload_kind (cmd_payload command)) r r'"
    using dispatch_order_moves [OF assms(1,3)] by (auto simp: accepted_move_def)
  have "r \<in> set (st_orders d)" using c fetch_Some by (fastforce simp: order_change_def fetch_order_def)
  then have "return_shape r" using assms(2) by (simp add: list_all_iff)
  note f = returns_follow [OF this m]
  have "list_all return_shape (st_orders d')"
    using order_change_all [OF c _ assms(2)] f assms(1) by (simp add: table_ok_def)
  with k c f show ?thesis by blast
qed

theorem returns_follow_machine_witness:
  "\<exists>s d' r'. dispatch_order None show_nat ''seller'' sample_refund 50 sample_returned_db = Some (Inr (Inr s, d'))
     \<and> list_all return_shape (st_orders d') \<and> fetch_order d' ''o1'' = Some r'
     \<and> or_state r' = ''refunded_external''"
proof -
  let ?run = "dispatch_order None show_nat ''seller'' sample_refund 50 sample_returned_db"
  have "case ?run of Some r \<Rightarrow> accepted_with r (\<lambda>_ d'. case fetch_order d' ''o1'' of
      Some r' \<Rightarrow> or_state r' = ''refunded_external'' | None \<Rightarrow> False) | None \<Rightarrow> False"
    by code_simp
  then obtain s d' r' where run: "?run = Some (Inr (Inr s, d'))"
      "fetch_order d' ''o1'' = Some r'" "or_state r' = ''refunded_external''"
    by (auto simp: accepted_with_iff split: option.splits)
  have "table_ok or_id order_check (st_orders sample_returned_db)"
    "list_all return_shape (st_orders sample_returned_db)"
    by code_simp+
  with returns_follow_machine [OF _ _ run(1)] run show ?thesis by blast
qed

text \<open>An external refund is recorded by the seller, for an order that was cancelled, came back or was
  delivered digitally, and for no more than the order's total; a refund the gateway already recorded is
  never lowered, one recorded by hand is never replaced; the order then carries the amount and the
  transaction, and its return is refunded.\<close>

theorem refund_within_total:
  assumes "table_ok or_id order_check (st_orders d)"
    and "record_external_refund order_ref new_v4 actor command payload now d = Inr (Inr s, d')"
  shows "\<exists>r r'. order_change (rer_order_id payload) r r' d d' \<and> or_seller_pubky r = actor \<and> refundable_state r
    \<and> rer_amount_minor payload \<le> or_total_minor r
    \<and> (\<exists>recorded. recorded_minor d r = Some recorded \<and> recorded \<le> rer_amount_minor payload)
    \<and> or_external_refund r' = Some \<lparr>er_amount_minor = Some (rer_amount_minor payload),
         er_transaction_id = Some (rer_transaction_id payload), er_recorded_at = format_timestamp now\<rparr>
    \<and> or_state r' = ''refunded_external''"
proof (rule refund_run [OF assms])
  fix order w d1
  assume "refundable_state order" "or_seller_pubky order = actor" "rer_amount_minor payload \<le> or_total_minor order"
    "\<exists>recorded. recorded_minor d order = Some recorded \<and> recorded \<le> rer_amount_minor payload"
    "order_change (rer_order_id payload) order (refunded_row payload now order order) d d'"
  moreover have "or_external_refund (refunded_row payload now order order)
      = Some \<lparr>er_amount_minor = Some (rer_amount_minor payload),
          er_transaction_id = Some (rer_transaction_id payload), er_recorded_at = format_timestamp now\<rparr>"
    by (simp add: refunded_row_def)
  ultimately show ?thesis using refunded_row_simps(3) by blast
qed

theorem refund_within_total_witness:
  "\<exists>s d'. record_external_refund None show_nat ''seller'' sample_refund
       \<lparr>rer_order_id = ''o1'', rer_amount_minor = 150, rer_transaction_id = ''tx''\<rparr> 50 sample_returned_db
       = Inr (Inr s, d')
     \<and> (\<exists>r'. fetch_order d' ''o1'' = Some r' \<and> or_state r' = ''refunded_external'')"
proof -
  let ?p = "\<lparr>rer_order_id = ''o1'', rer_amount_minor = 150, rer_transaction_id = ''tx''\<rparr>"
  have "accepted (record_external_refund None show_nat ''seller'' sample_refund ?p 50 sample_returned_db)"
    by code_simp
  then obtain s d' where run:
    "record_external_refund None show_nat ''seller'' sample_refund ?p 50 sample_returned_db = Inr (Inr s, d')"
    by (auto simp: accepted_iff)
  have "table_ok or_id order_check (st_orders sample_returned_db)" by code_simp
  with refund_within_total [OF _ run] run show ?thesis by (auto simp: order_change_def)
qed


end
