(* ===== verification/Sealing.thy ===== *)
theory Sealing
  imports Commands
begin

text \<open>
  Secrets at rest: \<^verbatim>\<open>crates/service/src/seal.rs\<close> (nonce and ciphertext of one sealed value),
  \<^verbatim>\<open>rotating_keys.rs\<close> and the \<open>PickupKeys\<close> of \<^verbatim>\<open>pickup.rs\<close> (a current key and the previous one during a
  rotation) and the associated data of \<^verbatim>\<open>pickup.rs\<close> and \<^verbatim>\<open>digital.rs\<close>, which binds a sealed value to its row.

  The XChaCha20-Poly1305 implementation is a parameter: a record of its two functions.  \<open>aead_ok\<close> is what
  its documentation promises and the code relies on: decryption inverts encryption, a ciphertext is never
  empty (it carries a tag) and authenticates only under its own key, nonce and associated data.  The random
  nonce of \<open>seal\<close> is an argument.  A byte string is a \<^typ>\<open>string\<close>.
\<close>

section \<open>The cipher\<close>

record aead =
  ae_encrypt :: "string \<Rightarrow> string \<Rightarrow> string \<Rightarrow> string \<Rightarrow> string"
  ae_decrypt :: "string \<Rightarrow> string \<Rightarrow> string \<Rightarrow> string \<Rightarrow> string option"

definition aead_ok :: "aead \<Rightarrow> bool" where
  "aead_ok c \<longleftrightarrow>
     (\<forall>key nonce aad msg. ae_encrypt c key nonce aad msg \<noteq> []
        \<and> ae_decrypt c key nonce aad (ae_encrypt c key nonce aad msg) = Some msg)
     \<and> (\<forall>key nonce aad msg key' aad' msg'.
          ae_decrypt c key' nonce aad' (ae_encrypt c key nonce aad msg) = Some msg' \<longrightarrow> key' = key \<and> aad' = aad)"

definition XNONCE_LEN :: nat where "XNONCE_LEN = 24"
definition KEY_LEN :: nat where "KEY_LEN = 32"

definition seal :: "aead \<Rightarrow> string \<Rightarrow> string \<Rightarrow> string \<Rightarrow> string \<Rightarrow> string" where
  "seal c nonce key aad plaintext = nonce @ ae_encrypt c key nonce aad plaintext"

definition open_sealed :: "aead \<Rightarrow> string \<Rightarrow> string \<Rightarrow> string \<Rightarrow> string option" where
  "open_sealed c key aad sealed =
     (if length sealed \<le> XNONCE_LEN then None
      else ae_decrypt c key (take XNONCE_LEN sealed) aad (drop XNONCE_LEN sealed))"

section \<open>Keys\<close>

definition hex_digit :: "char \<Rightarrow> nat option" where
  "hex_digit ch =
     (if is_ascii_digit ch then Some (byte ch - 48)
      else if 97 \<le> byte ch \<and> byte ch \<le> 102 then Some (byte ch - 87)
      else if 65 \<le> byte ch \<and> byte ch \<le> 70 then Some (byte ch - 55)
      else None)"

fun hex_decode :: "string \<Rightarrow> string option" where
  "hex_decode [] = Some []"
| "hex_decode [_] = None"
| "hex_decode (a # b # rest) =
     (case (hex_digit a, hex_digit b, hex_decode rest) of
        (Some x, Some y, Some bytes) \<Rightarrow> Some (char_of (16 * x + y) # bytes)
      | _ \<Rightarrow> None)"

definition parse_key :: "string \<Rightarrow> string \<Rightarrow> string + string" where
  "parse_key name hex_value =
     (case hex_decode (trim hex_value) of
        None \<Rightarrow> Inl (name @ '' must be 64 hexadecimal characters'')
      | Some bytes \<Rightarrow> if length bytes = KEY_LEN then Inr bytes
                      else Inl (name @ '' must decode to exactly 32 bytes''))"

record key_family =
  kf_current_env :: string
  kf_previous_env :: string
  kf_description :: string

record sealing_keys =
  ky_current :: string
  ky_previous :: "string option"

definition keys_from_hex :: "key_family \<Rightarrow> string \<Rightarrow> string option \<Rightarrow> string + sealing_keys" where
  "keys_from_hex f current_hex previous_hex =
     (case parse_key (kf_current_env f) current_hex of
        Inl e \<Rightarrow> Inl e
      | Inr current \<Rightarrow>
          (case (case previous_hex of
                   None \<Rightarrow> Inr None
                 | Some h \<Rightarrow> (case parse_key (kf_previous_env f) h of Inl e \<Rightarrow> Inl e | Inr k \<Rightarrow> Inr (Some k))) of
             Inl e \<Rightarrow> Inl e
           | Inr previous \<Rightarrow>
               if previous = Some current
               then Inl (kf_current_env f @ '' and '' @ kf_previous_env f @ '' must be distinct keys'')
               else Inr \<lparr>ky_current = current, ky_previous = previous\<rparr>))"

text \<open>\<open>from_env\<close>, with the two environment variables as arguments.\<close>

definition keys_from_env :: "key_family \<Rightarrow> string option \<Rightarrow> string option \<Rightarrow> string + sealing_keys option" where
  "keys_from_env f current previous =
     (case current of
        None \<Rightarrow> if previous \<noteq> None then Inl (kf_previous_env f @ '' requires '' @ kf_current_env f) else Inr None
      | Some c \<Rightarrow> (case keys_from_hex f c previous of Inl e \<Rightarrow> Inl e | Inr keys \<Rightarrow> Inr (Some keys)))"

definition pickup_family :: key_family where
  "pickup_family = \<lparr>kf_current_env = ''PICKUP_DETAILS_ENCRYPTION_KEY'',
     kf_previous_env = ''PICKUP_DETAILS_ENCRYPTION_KEY_PREVIOUS'', kf_description = ''pickup''\<rparr>"

definition digital_family :: key_family where
  "digital_family = \<lparr>kf_current_env = ''DIGITAL_DELIVERY_ENCRYPTION_KEY'',
     kf_previous_env = ''DIGITAL_DELIVERY_ENCRYPTION_KEY_PREVIOUS'', kf_description = ''digital delivery''\<rparr>"

definition has_previous :: "sealing_keys \<Rightarrow> bool" where
  "has_previous keys \<longleftrightarrow> ky_previous keys \<noteq> None"

definition key_material :: "sealing_keys \<Rightarrow> string list" where
  "key_material keys = ky_current keys # (case ky_previous keys of None \<Rightarrow> [] | Some k \<Rightarrow> [k])"

definition keys_seal :: "aead \<Rightarrow> string \<Rightarrow> sealing_keys \<Rightarrow> string \<Rightarrow> string \<Rightarrow> string" where
  "keys_seal c nonce keys aad plaintext = seal c nonce (ky_current keys) aad plaintext"

definition keys_open :: "aead \<Rightarrow> sealing_keys \<Rightarrow> string \<Rightarrow> string \<Rightarrow> string option" where
  "keys_open c keys aad sealed =
     (case open_sealed c (ky_current keys) aad sealed of
        Some plaintext \<Rightarrow> Some plaintext
      | None \<Rightarrow> (case ky_previous keys of None \<Rightarrow> None | Some previous \<Rightarrow> open_sealed c previous aad sealed))"

definition opens_under_current :: "aead \<Rightarrow> sealing_keys \<Rightarrow> string \<Rightarrow> string \<Rightarrow> bool" where
  "opens_under_current c keys aad sealed \<longleftrightarrow> open_sealed c (ky_current keys) aad sealed \<noteq> None"

definition open_under_previous :: "aead \<Rightarrow> sealing_keys \<Rightarrow> string \<Rightarrow> string \<Rightarrow> string option" where
  "open_under_previous c keys aad sealed =
     (case ky_previous keys of None \<Rightarrow> None | Some previous \<Rightarrow> open_sealed c previous aad sealed)"

text \<open>\<open>ensure_distinct_keys\<close>: \<open>locks\<close> holds the bundle key and the lookup HMAC key.\<close>

definition ensure_distinct_keys ::
  "sealing_keys \<Rightarrow> (string \<times> string) option \<Rightarrow> sealing_keys option \<Rightarrow> bool" where
  "ensure_distinct_keys keys locks pickup \<longleftrightarrow>
     list_all (\<lambda>key.
        (case locks of None \<Rightarrow> True | Some (bundle, hmac) \<Rightarrow> key \<noteq> bundle \<and> key \<noteq> hmac)
        \<and> (case pickup of None \<Rightarrow> True | Some p \<Rightarrow> \<not> list_ex (\<lambda>k. k = key) (key_material p)))
       (key_material keys)"

section \<open>Associated data\<close>

definition show_int :: "int \<Rightarrow> string" where
  "show_int i = (if i < 0 then ''-'' @ show_nat (nat (- i)) else show_nat (nat i))"

text \<open>\<open>Uuid::as_bytes\<close> of the canonical rendering.\<close>

definition uuid_bytes :: "uuid \<Rightarrow> string" where
  "uuid_bytes u = (case hex_decode (filter (\<lambda>ch. ch \<noteq> CHR ''-'') u) of Some bytes \<Rightarrow> bytes | None \<Rightarrow> [])"

definition newline :: string where "newline = [char_of (10 :: nat)]"

definition details_aad :: "string \<Rightarrow> int \<Rightarrow> string" where
  "details_aad aggregate_id version = aggregate_id @ newline @ show_int version"

definition snapshot_aad :: "uuid \<Rightarrow> nat \<Rightarrow> int \<Rightarrow> string" where
  "snapshot_aad order_id line_index version =
     uuid_bytes order_id @ newline @ show_nat line_index @ newline @ show_int version"

definition version_aad :: "string \<Rightarrow> string \<Rightarrow> int \<Rightarrow> digital_delivery_kind \<Rightarrow> string" where
  "version_aad listing_key deliverable_id version kind =
     ''digital-version/v1|'' @ listing_key @ ''|'' @ deliverable_id @ ''|'' @ show_int version
       @ ''|'' @ delivery_kind_as_str kind"

definition pin_aad :: "uuid \<Rightarrow> nat \<Rightarrow> string \<Rightarrow> string \<Rightarrow> int \<Rightarrow> string" where
  "pin_aad order_id line_index listing_key deliverable_id version =
     ''digital-pin/v1|'' @ order_id @ ''|'' @ show_nat line_index @ ''|'' @ listing_key
       @ ''|'' @ deliverable_id @ ''|'' @ show_int version"

definition email_aad :: "uuid \<Rightarrow> pubky \<Rightarrow> string" where
  "email_aad order_id buyer_pubky = ''buyer-email/v1|'' @ order_id @ ''|'' @ buyer_pubky"

section \<open>A sample cipher\<close>

text \<open>A function that has the promised behaviour, to show that \<open>aead_ok\<close> can hold.\<close>

definition escaped :: "string \<Rightarrow> string" where
  "escaped s = concat (map (\<lambda>ch. [CHR ''+'', ch]) s) @ ''.''"

definition sample_cipher :: aead where
  "sample_cipher =
     \<lparr>ae_encrypt = (\<lambda>key nonce aad msg. escaped key @ escaped aad @ msg),
      ae_decrypt = (\<lambda>key nonce aad sealed.
        let header = escaped key @ escaped aad
        in if take (length header) sealed = header then Some (drop (length header) sealed) else None)\<rparr>"

definition sample_hex :: "char \<Rightarrow> string" where
  "sample_hex ch = replicate 64 ch"

definition sample_nonce :: string where
  "sample_nonce = replicate 24 CHR ''n''"

section \<open>Facts\<close>

lemma append_sep:
  assumes "c \<notin> set a" "c \<notin> set a'"
  shows "a @ c # r = a' @ c # r' \<longleftrightarrow> a = a' \<and> r = r'"
proof
  assume eq: "a @ c # r = a' @ c # r'"
  have "takeWhile (\<lambda>x. x \<noteq> c) (a @ c # r) = a" "takeWhile (\<lambda>x. x \<noteq> c) (a' @ c # r') = a'"
    using assms by (auto simp: takeWhile_append2 takeWhile_tail)
  with eq have "a = a'" by simp
  with eq show "a = a' \<and> r = r'" by simp
qed simp

lemma append_sep_last:
  assumes "c \<notin> set r" "c \<notin> set r'"
  shows "a @ c # r = a' @ c # r' \<longleftrightarrow> a = a' \<and> r = r'"
  using append_sep [of c "rev r" "rev r'" "rev a" "rev a'"] assms
  by (metis append.assoc append_Cons append_Nil rev.simps(2) rev_append rev_is_rev_conv set_rev)

lemma show_nat_digits: "list_all is_ascii_digit (show_nat n)"
proof (induction n rule: show_nat.induct)
  case (1 n)
  have "is_ascii_digit (char_of (48 + m :: nat))" if "m < 10" for m :: nat
    using that by (simp add: is_ascii_digit_def)
  with 1 show ?case by (subst show_nat.simps) simp
qed

lemma show_nat_no: "\<not> is_ascii_digit c \<Longrightarrow> c \<notin> set (show_nat n)"
  using show_nat_digits [of n] by (auto simp: list_all_iff)

lemma show_nat_value: "foldl (\<lambda>v ch. 10 * v + (byte ch - 48)) 0 (show_nat n) = n"
proof (induction n rule: show_nat.induct)
  case (1 n)
  then show ?case by (subst show_nat.simps) simp
qed

lemma show_nat_inj: "show_nat a = show_nat b \<longleftrightarrow> a = b"
  using show_nat_value by metis

lemma show_int_no: "\<not> is_ascii_digit c \<Longrightarrow> c \<noteq> CHR ''-'' \<Longrightarrow> c \<notin> set (show_int i)"
  using show_nat_no by (auto simp: show_int_def)

lemma show_int_inj: "show_int a = show_int b \<longleftrightarrow> a = b"
proof -
  have "show_nat n \<noteq> CHR ''-'' # r" for n r
    using show_nat_digits [of n] by (cases "show_nat n") (auto simp: is_ascii_digit_def)
  then show ?thesis by (auto simp: show_int_def show_nat_inj split: if_splits) (metis)+
qed

lemma kind_no_bar: "CHR ''|'' \<notin> set (delivery_kind_as_str k)"
  by (cases k) auto

lemma kind_inj: "delivery_kind_as_str k = delivery_kind_as_str k' \<longleftrightarrow> k = k'"
  by (metis delivery_kind_parse_as_str option.inject)

lemma not_digit [simp]: "\<not> is_ascii_digit CHR ''|''" "\<not> is_ascii_digit (char_of (10 :: nat))"
  by (simp_all add: is_ascii_digit_def)

lemma newline_not_sign [simp]: "char_of (10 :: nat) \<noteq> CHR ''-''"
  by code_simp

lemma details_aad_inj: "details_aad a v = details_aad a' v' \<longleftrightarrow> a = a' \<and> v = v'"
proof -
  have "char_of (10 :: nat) \<notin> set (show_int i)" for i by (rule show_int_no) simp_all
  then show ?thesis by (simp add: details_aad_def newline_def append_sep_last show_int_inj)
qed

lemma snapshot_aad_inj:
  assumes "length (uuid_bytes u) = length (uuid_bytes u')"
  shows "snapshot_aad u i v = snapshot_aad u' i' v' \<longleftrightarrow> uuid_bytes u = uuid_bytes u' \<and> i = i' \<and> v = v'"
proof -
  have "char_of (10 :: nat) \<notin> set (show_nat n)" for n by (rule show_nat_no) simp
  then show ?thesis
    using assms by (simp add: snapshot_aad_def newline_def append_sep show_int_inj show_nat_inj)
qed

lemma version_aad_inj:
  assumes "CHR ''|'' \<notin> set l" "CHR ''|'' \<notin> set l'" "CHR ''|'' \<notin> set x" "CHR ''|'' \<notin> set x'"
  shows "version_aad l x v k = version_aad l' x' v' k' \<longleftrightarrow> l = l' \<and> x = x' \<and> v = v' \<and> k = k'"
proof -
  have "CHR ''|'' \<notin> set (show_int i)" for i by (rule show_int_no) simp_all
  with assms show ?thesis by (simp add: version_aad_def append_sep show_int_inj kind_inj)
qed

lemma pin_aad_inj:
  assumes "CHR ''|'' \<notin> set u" "CHR ''|'' \<notin> set u'" "CHR ''|'' \<notin> set l" "CHR ''|'' \<notin> set l'"
    "CHR ''|'' \<notin> set x" "CHR ''|'' \<notin> set x'"
  shows "pin_aad u i l x v = pin_aad u' i' l' x' v' \<longleftrightarrow> u = u' \<and> i = i' \<and> l = l' \<and> x = x' \<and> v = v'"
proof -
  have "CHR ''|'' \<notin> set (show_nat n)" for n by (rule show_nat_no) simp
  with assms show ?thesis by (simp add: pin_aad_def append_sep show_int_inj show_nat_inj)
qed

lemma email_aad_inj:
  assumes "CHR ''|'' \<notin> set u" "CHR ''|'' \<notin> set u'"
  shows "email_aad u b = email_aad u' b' \<longleftrightarrow> u = u' \<and> b = b'"
  using assms by (simp add: email_aad_def append_sep)

lemma aad_families_distinct:
  "version_aad l x v k \<noteq> pin_aad u i l' x' v'" "version_aad l x v k \<noteq> email_aad u b"
  "pin_aad u i l x v \<noteq> email_aad u' b"
  by (simp_all add: version_aad_def pin_aad_def email_aad_def)

lemma open_seal:
  assumes "aead_ok c" "length nonce = XNONCE_LEN"
  shows "open_sealed c key aad (seal c nonce key aad p) = Some p"
  using assms by (simp add: open_sealed_def seal_def aead_ok_def)

lemma open_seal_only:
  assumes "aead_ok c" "length nonce = XNONCE_LEN" "open_sealed c key' aad' (seal c nonce key aad p) = Some q"
  shows "key' = key" "aad' = aad" "q = p"
proof -
  have "ae_decrypt c key' nonce aad' (ae_encrypt c key nonce aad p) = Some q"
    using assms(2,3) by (simp add: open_sealed_def seal_def split: if_splits)
  then show "key' = key" "aad' = aad" using assms(1) unfolding aead_ok_def by blast+
  then show "q = p" using assms open_seal [OF assms(1,2), of key aad p] by simp
qed

lemma keys_open_seal:
  assumes "aead_ok c" "length nonce = XNONCE_LEN" "ky_current old \<in> set (key_material keys)"
  shows "keys_open c keys aad (keys_seal c nonce old aad p) = Some p"
proof (cases "open_sealed c (ky_current keys) aad (keys_seal c nonce old aad p)")
  case None
  have "ky_current old \<noteq> ky_current keys"
    using None open_seal [OF assms(1,2), of "ky_current keys" aad p] by (auto simp: keys_seal_def)
  then have "ky_previous keys = Some (ky_current old)"
    using assms(3) by (auto simp: key_material_def split: option.splits)
  with None show ?thesis by (simp add: keys_open_def keys_seal_def open_seal [OF assms(1,2)])
next
  case (Some q)
  then show ?thesis using open_seal_only(3) [OF assms(1,2)] by (simp add: keys_open_def keys_seal_def)
qed

lemma keys_open_only:
  assumes "aead_ok c" "length nonce = XNONCE_LEN" "keys_open c keys aad' (keys_seal c nonce old aad p) = Some q"
  shows "ky_current old \<in> set (key_material keys)" "aad' = aad" "q = p"
proof -
  obtain key where key: "key \<in> set (key_material keys)"
      "open_sealed c key aad' (seal c nonce (ky_current old) aad p) = Some q"
    using assms(3) by (auto simp: keys_open_def keys_seal_def key_material_def split: option.splits)
  note only = open_seal_only [OF assms(1,2) key(2)]
  show "ky_current old \<in> set (key_material keys)" "aad' = aad" "q = p" using key(1) only by simp_all
qed

lemma length_concat_pairs: "length (concat (map (\<lambda>ch. [f ch, ch]) s)) = 2 * length s"
  by (induction s) simp_all

lemma escaped_append: "escaped a @ r = escaped b @ t \<longleftrightarrow> a = b \<and> r = t"
proof (induction a arbitrary: b)
  case Nil
  then show ?case by (cases b) (auto simp: escaped_def)
next
  case (Cons ch a)
  then show ?case by (cases b) (auto simp: escaped_def)
qed

lemma sample_cipher_ok: "aead_ok sample_cipher"
proof -
  have "key' = key \<and> aad' = aad"
    if "take (length (escaped key' @ escaped aad')) (escaped key @ escaped aad @ msg) = escaped key' @ escaped aad'"
    for key key' aad aad' msg
  proof -
    have "escaped key @ escaped aad @ msg = escaped key' @ escaped aad'
        @ drop (length (escaped key' @ escaped aad')) (escaped key @ escaped aad @ msg)"
      using that by (metis append.assoc append_take_drop_id)
    then show ?thesis by (simp only: escaped_append)
  qed
  then have "key' = key \<and> aad' = aad"
    if "ae_decrypt sample_cipher key' nonce aad' (ae_encrypt sample_cipher key nonce aad msg) = Some msg'"
    for key key' nonce aad aad' msg msg'
    using that unfolding sample_cipher_def aead.simps Let_def by (metis option.distinct(1))
  moreover have "ae_encrypt sample_cipher key nonce aad msg \<noteq> []"
    "ae_decrypt sample_cipher key nonce aad (ae_encrypt sample_cipher key nonce aad msg) = Some msg" for key nonce aad msg
    by (simp_all add: sample_cipher_def escaped_def)
  ultimately show ?thesis unfolding aead_ok_def by blast
qed

lemma keys_from_hex_distinct:
  "keys_from_hex f a b = Inr keys \<Longrightarrow>
   length (ky_current keys) = KEY_LEN \<and> ky_previous keys \<noteq> Some (ky_current keys)"
  by (auto simp: keys_from_hex_def parse_key_def split: sum.splits option.splits if_splits)

lemma hex_decode_replicate:
  "hex_digit c = Some x \<Longrightarrow> hex_decode (replicate (2 * n) c) = Some (replicate n (char_of (16 * x + x)))"
  by (induction n) simp_all

lemma sample_hex_decode:
  "hex_decode (sample_hex CHR ''7'') = Some (replicate KEY_LEN CHR ''w'')"
  "hex_decode (sample_hex CHR ''6'') = Some (replicate KEY_LEN CHR ''f'')"
proof -
  have "hex_digit CHR ''7'' = Some 7" "hex_digit CHR ''6'' = Some 6" by code_simp+
  moreover have "char_of (119 :: nat) = CHR ''w''" "char_of (102 :: nat) = CHR ''f''" by code_simp+
  ultimately
  show "hex_decode (sample_hex CHR ''7'') = Some (replicate KEY_LEN CHR ''w'')"
    "hex_decode (sample_hex CHR ''6'') = Some (replicate KEY_LEN CHR ''f'')"
    using hex_decode_replicate [of "CHR ''7''" 7 KEY_LEN] hex_decode_replicate [of "CHR ''6''" 6 KEY_LEN]
    by (simp_all add: sample_hex_def KEY_LEN_def)
qed

lemma sample_trim: "trim (sample_hex CHR ''7'') = sample_hex CHR ''7''" "trim (sample_hex CHR ''6'') = sample_hex CHR ''6''"
  by (rule trim_graphic, simp add: sample_hex_def list_all_iff)+

lemma sample_keys:
  "keys_from_hex f (sample_hex CHR ''7'') None = Inr \<lparr>ky_current = replicate KEY_LEN CHR ''w'', ky_previous = None\<rparr>"
  "keys_from_hex f (sample_hex CHR ''6'') None = Inr \<lparr>ky_current = replicate KEY_LEN CHR ''f'', ky_previous = None\<rparr>"
  "keys_from_hex f (sample_hex CHR ''6'') (Some (sample_hex CHR ''7''))
   = Inr \<lparr>ky_current = replicate KEY_LEN CHR ''f'', ky_previous = Some (replicate KEY_LEN CHR ''w'')\<rparr>"
  by (simp_all add: keys_from_hex_def parse_key_def sample_trim sample_hex_decode KEY_LEN_def)

section \<open>Properties\<close>

text \<open>A key rotation loses nothing and opens nothing.  What the keys before the rotation sealed opens
  under the rotated keys, to the same plaintext, and so does what the rotated keys seal; the keys without
  their previous key open the new values only.\<close>

theorem rotation_window:
  assumes "aead_ok c" "length nonce = XNONCE_LEN" "keys_from_hex f old_hex None = Inr old"
    and "keys_from_hex f new_hex (Some old_hex) = Inr rotated" "keys_from_hex f new_hex None = Inr fresh"
  shows "keys_open c rotated aad (keys_seal c nonce old aad p) = Some p
    \<and> keys_open c rotated aad (keys_seal c nonce rotated aad p) = Some p
    \<and> keys_open c fresh aad (keys_seal c nonce rotated aad p) = Some p
    \<and> keys_open c fresh aad (keys_seal c nonce old aad p) = None"
proof -
  have k: "ky_previous rotated = Some (ky_current old)" "ky_current fresh = ky_current rotated" "ky_previous fresh = None"
    using assms(3-5) by (auto simp: keys_from_hex_def parse_key_def split: sum.splits option.splits if_splits)
  have ne: "ky_current old \<noteq> ky_current rotated" using keys_from_hex_distinct [OF assms(4)] k(1) by auto
  have "keys_open c fresh aad (keys_seal c nonce old aad p) = None"
  proof (rule ccontr)
    assume "keys_open c fresh aad (keys_seal c nonce old aad p) \<noteq> None"
    then obtain q where "keys_open c fresh aad (keys_seal c nonce old aad p) = Some q" by auto
    from keys_open_only(1) [OF assms(1,2) this] show False using k ne by (simp add: key_material_def)
  qed
  then show ?thesis
    using keys_open_seal [OF assms(1,2)] k by (simp add: key_material_def)
qed

theorem rotation_window_witness:
  "\<exists>old rotated fresh. keys_from_hex digital_family (sample_hex CHR ''7'') None = Inr old
     \<and> keys_from_hex digital_family (sample_hex CHR ''6'') (Some (sample_hex CHR ''7'')) = Inr rotated
     \<and> keys_from_hex digital_family (sample_hex CHR ''6'') None = Inr fresh
     \<and> keys_open sample_cipher rotated ''aad'' (keys_seal sample_cipher sample_nonce old ''aad'' ''secret'')
         = Some ''secret''
     \<and> keys_open sample_cipher fresh ''aad'' (keys_seal sample_cipher sample_nonce old ''aad'' ''secret'') = None"
proof -
  have "length sample_nonce = XNONCE_LEN" by (simp add: XNONCE_LEN_def sample_nonce_def)
  from rotation_window [OF sample_cipher_ok this sample_keys(1,3,2) [of digital_family], of "''aad''" "''secret''"]
  show ?thesis using sample_keys [of digital_family] by blast
qed

text \<open>A sealed value opens only in its own place.  Whatever keys a value was sealed under, opening it as
  the pin of an order line succeeds only when it was sealed as the pin of that very order, line, listing,
  deliverable and version, and then yields what was sealed; never when it was sealed as a deliverable's
  version or as a buyer's email.  The fields contain no separator, as their formats ensure.\<close>

theorem sealed_pin_bound:
  assumes "aead_ok c" "length nonce = XNONCE_LEN"
    and "CHR ''|'' \<notin> set order_id \<union> set order_id' \<union> set l \<union> set l' \<union> set x \<union> set x'"
    and "keys_open c keys (pin_aad order_id' i' l' x' v') (keys_seal c nonce old aad p) = Some q"
  shows "q = p \<and> (\<forall>l x v k. aad \<noteq> version_aad l x v k) \<and> (\<forall>u b. aad \<noteq> email_aad u b)
    \<and> (aad = pin_aad order_id i l x v \<longrightarrow> order_id' = order_id \<and> i' = i \<and> l' = l \<and> x' = x \<and> v' = v)"
proof -
  note only = keys_open_only [OF assms(1,2,4)]
  have "aad = pin_aad order_id i l x v \<longrightarrow> order_id' = order_id \<and> i' = i \<and> l' = l \<and> x' = x \<and> v' = v"
    using assms(3) only(2) pin_aad_inj [of order_id' order_id l' l x' x i' v' i v] by auto
  then show ?thesis
    using only(2,3) aad_families_distinct(1,3) by metis
qed

theorem sealed_pin_bound_witness:
  "keys_open sample_cipher \<lparr>ky_current = ''k'', ky_previous = None\<rparr> (pin_aad ''o'' 0 ''l'' ''x'' 1)
     (keys_seal sample_cipher sample_nonce \<lparr>ky_current = ''k'', ky_previous = None\<rparr> (pin_aad ''o'' 0 ''l'' ''x'' 1) ''secret'')
   = Some ''secret''
   \<and> pin_aad ''o'' 0 ''l'' ''x'' 1 \<noteq> email_aad ''o'' ''b''"
proof -
  let ?k = "\<lparr>ky_current = ''k'', ky_previous = None\<rparr>"
  let ?a = "pin_aad ''o'' 0 ''l'' ''x'' 1"
  have n: "length sample_nonce = XNONCE_LEN" by (simp add: XNONCE_LEN_def sample_nonce_def)
  have run: "keys_open sample_cipher ?k ?a (keys_seal sample_cipher sample_nonce ?k ?a ''secret'') = Some ''secret''"
    by (rule keys_open_seal [OF sample_cipher_ok n]) (simp add: key_material_def)
  have "CHR ''|'' \<notin> set ''o'' \<union> set ''o'' \<union> set ''l'' \<union> set ''l'' \<union> set ''x'' \<union> set ''x''" by simp
  from sealed_pin_bound [OF sample_cipher_ok n this run] run show ?thesis by blast
qed

end
