(* ===== verification/Payments.thy ===== *)
theory Payments
  imports Orders Sealing
begin

text \<open>
  Payment confirmation.  \<^verbatim>\<open>handlers/payment.rs\<close>: \<open>advance\<close> (the sandbox command) and \<open>confirm_order\<close>, the one
  writer every confirming path shares; what a confirmation pins of the delivery, from
  \<^verbatim>\<open>handlers/digital_orders.rs\<close> and \<^verbatim>\<open>handlers/pickup.rs\<close>; and \<open>refund_required\<close> of \<^verbatim>\<open>bitcoin_review.rs\<close>, the
  way out for an order that cannot be delivered.

  The BLAKE3 hash of the receipt's canonical JSON is the parameter \<open>receipt_hash\<close> of the receipt's fields.
  A seal draws its nonce at the counter that also numbers the UUIDs.
\<close>

section \<open>Keys\<close>

record keyring =
  kr_cipher :: aead
  kr_nonce :: "nat \<Rightarrow> string"
  kr_keys :: sealing_keys

record confirm_keys =
  ck_pickup :: "keyring option"
  ck_digital :: "keyring option"

definition draw_seal :: "keyring \<Rightarrow> string \<Rightarrow> string \<Rightarrow> db \<Rightarrow> string \<times> db" where
  "draw_seal ring aad plaintext d =
     (keys_seal (kr_cipher ring) (kr_nonce ring (st_next_uuid d)) (kr_keys ring) aad plaintext,
      d\<lparr>st_next_uuid := Suc (st_next_uuid d)\<rparr>)"

definition ring_open :: "keyring \<Rightarrow> string \<Rightarrow> string \<Rightarrow> string option" where
  "ring_open ring = keys_open (kr_cipher ring) (kr_keys ring)"

section \<open>Digital lines\<close>

definition instant_lines :: "order_row \<Rightarrow> (nat \<times> string \<times> digital_delivery_kind) list" where
  "instant_lines order =
     List.map_filter
       (\<lambda>(i, line). case line_kind line of
          Some kind \<Rightarrow> if is_instant kind then Some (i, ol_listing_aggregate_id line, kind) else None
        | None \<Rightarrow> None)
       (enumerate 0 (or_lines order))"

definition all_lines_instant :: "order_row \<Rightarrow> bool" where
  "all_lines_instant order \<longleftrightarrow>
     or_lines order \<noteq> []
     \<and> list_all (\<lambda>line. case line_kind line of Some kind \<Rightarrow> is_instant kind | None \<Rightarrow> False) (or_lines order)"

definition current_version :: "db \<Rightarrow> string \<Rightarrow> digital_version_row option" where
  "current_version d aggregate_id =
     find (\<lambda>v. dv_listing_aggregate_id v = aggregate_id \<and> dv_superseded_at v = None) (st_digital_versions d)"

definition unpinnable :: "db \<Rightarrow> order_row \<Rightarrow> bool" where
  "unpinnable d order \<longleftrightarrow>
     or_fulfillment order = ''digital''
     \<and> list_ex (\<lambda>(_, a, kind). case current_version d a of
                   Some current \<Rightarrow> dv_kind current \<noteq> delivery_kind_as_str kind
                 | None \<Rightarrow> True) (instant_lines order)"

definition digital_pin_check :: "digital_pin_row \<Rightarrow> bool" where
  "digital_pin_check p \<longleftrightarrow>
     0 < dx_version p \<and> dx_kind p \<in> set [''file'', ''link'', ''text''] \<and> is_valid_deliverable_id (dx_deliverable_id p)"

definition insert_digital_pin :: "digital_pin_row \<Rightarrow> db \<Rightarrow> unit tx" where
  "insert_digital_pin p d =
     seq (sql_insert digital_pin_check
            (\<lambda>a b. dx_order_id a = dx_order_id b \<and> dx_line_index a = dx_line_index b) p (st_digital_pins d))
       (\<lambda>u rows. Inr (u, d\<lparr>st_digital_pins := rows\<rparr>))"

fun pin_line_list ::
  "uuid \<Rightarrow> string \<Rightarrow> keyring \<Rightarrow> datetime \<Rightarrow> (nat \<times> string \<times> digital_delivery_kind) list \<Rightarrow> db \<Rightarrow> unit tx" where
  "pin_line_list order_id confirming_adapter ring now [] d = Inr ((), d)"
| "pin_line_list order_id confirming_adapter ring now ((i, a, kind) # lines) d =
     (case current_version d a of
        None \<Rightarrow> Inl (Protocol ''a digital order line lost its deliverable inside the receipt transaction'')
      | Some current \<Rightarrow>
          (case ring_open ring (version_aad a (dv_deliverable_id current) (dv_version current) kind)
                  (dv_ciphertext current) of
             None \<Rightarrow> Inl (Protocol ''a digital deliverable version did not open under the configured key'')
           | Some plaintext \<Rightarrow>
               let (sealed, d1) =
                 draw_seal ring (pin_aad order_id i a (dv_deliverable_id current) (dv_version current)) plaintext d
               in seq (insert_digital_pin
                         \<lparr>dx_order_id = order_id, dx_line_index = i, dx_listing_aggregate_id = a,
                          dx_deliverable_id = dv_deliverable_id current, dx_version = dv_version current,
                          dx_kind = delivery_kind_as_str kind, dx_ciphertext = sealed,
                          dx_confirming_adapter = confirming_adapter, dx_created_at = now\<rparr> d1)
                    (\<lambda>_. pin_line_list order_id confirming_adapter ring now lines)))"

definition pin_digital_lines :: "order_row \<Rightarrow> string \<Rightarrow> keyring option \<Rightarrow> datetime \<Rightarrow> db \<Rightarrow> unit tx" where
  "pin_digital_lines order confirming_adapter keys now d =
     (if instant_lines order = [] then Inr ((), d)
      else
        (case keys of
           None \<Rightarrow> Inl (Protocol ''a digital order confirmed without DIGITAL_DELIVERY_ENCRYPTION_KEY'')
         | Some ring \<Rightarrow> pin_line_list (or_id order) confirming_adapter ring now (instant_lines order) d))"

section \<open>Pickup lines\<close>

text \<open>\<open>ORDER BY d.version DESC LIMIT 1\<close>; the versions of an aggregate are distinct.\<close>

definition current_details :: "db \<Rightarrow> string \<Rightarrow> pickup_details_row option" where
  "current_details d aggregate_id =
     (if pickup_cleared d aggregate_id then None
      else
        (case sort_by (\<lambda>x y. pv_version y \<le> pv_version x)
                (filter (\<lambda>v. pv_aggregate_id v = aggregate_id) (st_pickup_details d)) of
           [] \<Rightarrow> None
         | v # _ \<Rightarrow> Some v))"

text \<open>\<open>INSERT ... ON CONFLICT (order_id, line_index) DO NOTHING\<close>, with the constraint on the version.\<close>

definition insert_pickup_snapshot :: "pickup_snapshot_row \<Rightarrow> db \<Rightarrow> unit tx" where
  "insert_pickup_snapshot p d =
     (if \<not> 0 < ps_version p then Inl CheckViolation
      else if list_ex (\<lambda>q. ps_order_id q = ps_order_id p \<and> ps_line_index q = ps_line_index p) (st_pickup_snapshots d)
      then Inr ((), d)
      else Inr ((), d\<lparr>st_pickup_snapshots := st_pickup_snapshots d @ [p]\<rparr>))"

definition pin_pickup_line ::
  "uuid \<Rightarrow> string \<Rightarrow> keyring \<Rightarrow> datetime \<Rightarrow> nat \<Rightarrow> order_line \<Rightarrow> db \<Rightarrow> order_line tx" where
  "pin_pickup_line order_id confirming_adapter ring now i line d =
     (if ol_fulfillment line \<noteq> Some ''pickup'' then Inr (line, d)
      else
        (case current_details d (ol_listing_aggregate_id line) of
           None \<Rightarrow> Inr (line, d)
         | Some details \<Rightarrow>
             (case ring_open ring (details_aad (ol_listing_aggregate_id line) (pv_version details))
                     (pv_ciphertext details) of
                None \<Rightarrow> Inl (Protocol ''sealed pickup details did not authenticate under the configured pickup key'')
              | Some plaintext \<Rightarrow>
                  let (snapshot, d1) = draw_seal ring (snapshot_aad order_id i (pv_version details)) plaintext d
                  in seq (insert_pickup_snapshot
                            \<lparr>ps_order_id = order_id, ps_line_index = i,
                             ps_listing_aggregate_id = ol_listing_aggregate_id line,
                             ps_version = pv_version details, ps_ciphertext = snapshot,
                             ps_confirming_adapter = confirming_adapter, ps_created_at = now\<rparr> d1)
                       (\<lambda>_ d2. Inr (line\<lparr>ol_version_at_payment := Some (pv_version details)\<rparr>, d2)))))"

fun pin_pickup_line_list ::
  "uuid \<Rightarrow> string \<Rightarrow> keyring \<Rightarrow> datetime \<Rightarrow> nat \<Rightarrow> order_line list \<Rightarrow> db \<Rightarrow> order_line list tx" where
  "pin_pickup_line_list order_id confirming_adapter ring now i [] d = Inr ([], d)"
| "pin_pickup_line_list order_id confirming_adapter ring now i (line # lines) d =
     seq (pin_pickup_line order_id confirming_adapter ring now i line d)
       (\<lambda>pinned d1.
          seq (pin_pickup_line_list order_id confirming_adapter ring now (Suc i) lines d1)
            (\<lambda>rest d2. Inr (pinned # rest, d2)))"

definition pin_pickup_lines ::
  "uuid \<Rightarrow> order_line list \<Rightarrow> string \<Rightarrow> keyring option \<Rightarrow> datetime \<Rightarrow> db \<Rightarrow> order_line list tx" where
  "pin_pickup_lines order_id lines confirming_adapter keys now d =
     (case keys of
        None \<Rightarrow> Inr (lines, d)
      | Some ring \<Rightarrow> pin_pickup_line_list order_id confirming_adapter ring now 0 lines d)"

section \<open>Refund required\<close>

datatype resolution_failure =
    AlreadyResolved | NotInManualReview | StockUnavailable | RefundRequired | MissingPin
  | Internal string

text \<open>\<open>map_err(|e| ResolutionFailure::Internal(..))\<close> on a statement, and on the refusal of a step.\<close>

definition internal :: "string \<Rightarrow> 'a tx \<Rightarrow> resolution_failure + ('a \<times> db)" where
  "internal what r = (case r of Inl _ \<Rightarrow> Inl (Internal what) | Inr x \<Rightarrow> Inr x)"

definition internal_step :: "string \<Rightarrow> (command_failure + 'a) tx \<Rightarrow> resolution_failure + ('a \<times> db)" where
  "internal_step what r =
     (case r of Inr (Inr x, d) \<Rightarrow> Inr (x, d) | _ \<Rightarrow> Inl (Internal what))"

definition and_then ::
  "resolution_failure + ('a \<times> db) \<Rightarrow> ('a \<Rightarrow> db \<Rightarrow> resolution_failure + ('b \<times> db)) \<Rightarrow> resolution_failure + ('b \<times> db)" where
  "and_then r k = (case r of Inl e \<Rightarrow> Inl e | Inr (x, d) \<Rightarrow> k x d)"

definition stamp_review_reason ::
  "uuid_source \<Rightarrow> payment_row \<Rightarrow> string \<Rightarrow> string \<Rightarrow> uuid \<Rightarrow> pubky \<Rightarrow> datetime \<Rightarrow> db \<Rightarrow> resolution_failure + (uuid \<times> db)" where
  "stamp_review_reason new_v4 payment reason target_state command_id event_actor now d =
     and_then
       (internal ''stamp review_reason''
          (update_payments
             (\<lambda>p. pm_id p = pm_id payment
                \<and> pm_state p \<in> set [''expired'', ''awaiting_entitlement'', ''manual_review'', ''detected'']
                \<and> pm_resolution_outcome p = None)
             (\<lambda>p. p\<lparr>pm_state := target_state, pm_revision := pm_revision p + 1, pm_review_reason := Some reason,
                     pm_manual_review_entered_at :=
                       (if target_state = ''manual_review'' then Some now else pm_manual_review_entered_at p),
                     pm_updated_at := now\<rparr>) d))
       (\<lambda>written d1.
          case written of
            [] \<Rightarrow> Inl (Internal ''stamp review_reason'')
          | row # _ \<Rightarrow>
              internal ''review event''
                (insert_event new_v4 command_id (payment_aggregate_id (pm_id payment)) (pm_revision row) event_actor
                   ''payment.manual_review'' now d1))"

definition cancel_late_order ::
  "uuid_source \<Rightarrow> order_row \<Rightarrow> string \<Rightarrow> uuid \<Rightarrow> pubky \<Rightarrow> datetime \<Rightarrow> db \<Rightarrow> resolution_failure + (unit \<times> db)" where
  "cancel_late_order new_v4 order cancellation_reason command_id event_actor now d =
     and_then
       (internal ''late cancel''
          (update_orders (\<lambda>r. or_id r = or_id order \<and> or_state r = ''pending_payment'')
             (\<lambda>r. r\<lparr>or_state := ''cancelled'', or_revision := or_revision r + 1,
                     or_cancellation_reason := Some cancellation_reason, or_stock_held := False,
                     or_hold_expires_at := None, or_updated_at := now\<rparr>) d))
       (\<lambda>written d1.
          case written of
            [] \<Rightarrow> Inr ((), d1)
          | row # _ \<Rightarrow>
              and_then
                (internal ''late cancel event''
                   (insert_event new_v4 command_id (order_aggregate_id (or_id order)) (or_revision row) event_actor
                      ''order.cancelled'' now d1))
                (\<lambda>_ d2. Inr ((), d2)))"

definition release_late_hold :: "order_row \<Rightarrow> datetime \<Rightarrow> db \<Rightarrow> resolution_failure + (unit \<times> db)" where
  "release_late_hold order now d =
     (if or_stock_held order \<and> or_auction_aggregate_id order = None
      then and_then (internal_step ''drop credit'' (credit_order_drop order now d))
             (\<lambda>_ d1. internal_step ''hold release'' (release_lines order Reserved now d1))
      else Inr ((), d))"

definition refund_required ::
  "uuid_source \<Rightarrow> payment_row \<Rightarrow> order_row \<Rightarrow> string \<Rightarrow> uuid \<Rightarrow> pubky \<Rightarrow> datetime \<Rightarrow> db
     \<Rightarrow> resolution_failure + (uuid \<times> db)" where
  "refund_required new_v4 payment order cancellation_reason command_id event_actor now d =
     and_then
       (stamp_review_reason new_v4 payment ''refund_required'' ''manual_review'' command_id event_actor now d)
       (\<lambda>event_id d1.
          and_then
            (if or_state order = ''pending_payment''
             then and_then (release_late_hold order now d1)
                    (\<lambda>_. cancel_late_order new_v4 order cancellation_reason command_id event_actor now)
             else Inr ((), d1))
            (\<lambda>_ d2.
               Inr (event_id,
                 foldl (\<lambda>d' recipient. insert_notification_intent event_id ''payment_refund_required'' recipient
                          event_actor (order_aggregate_id (or_id order)) None now d') d2
                   [or_buyer_pubky order, or_seller_pubky order])))"

section \<open>Confirmation\<close>

definition no_longer_held :: string where
  "no_longer_held = ''The reserved inventory for this order is no longer held.''"

definition sold_state :: "listing_row \<Rightarrow> int \<Rightarrow> string" where
  "sold_state listing quantity =
     (if 0 < ls_available_quantity listing then ''available''
      else if quantity < ls_reserved_quantity listing then ''reserved'' else ''sold'')"

definition sold_row :: "string \<Rightarrow> int \<Rightarrow> datetime \<Rightarrow> listing_row \<Rightarrow> listing_row" where
  "sold_row new_state quantity now l =
     l\<lparr>ls_server_revision := ls_server_revision l + 1, ls_state := new_state,
       ls_reserved_quantity := ls_reserved_quantity l - quantity,
       ls_sold_quantity := ls_sold_quantity l + quantity, ls_updated_at := now\<rparr>"

definition sell_line :: "order_line \<Rightarrow> datetime \<Rightarrow> db \<Rightarrow> (command_failure + unit) tx" where
  "sell_line line now d =
     (case fetch_listing d (ol_listing_aggregate_id line) of
        None \<Rightarrow> refuse missing_listing d
      | Some listing \<Rightarrow>
          if ls_reserved_quantity listing < ol_quantity line
          then refuse (refused RInvalidState InvalidState no_longer_held) d
          else
            seq (update_listings (\<lambda>l. ls_aggregate_id l = ol_listing_aggregate_id line)
                   (sold_row (sold_state listing (ol_quantity line)) (ol_quantity line) now) d)
              (\<lambda>_ d1. Inr (Inr (), d1)))"

fun sell_line_list :: "order_line list \<Rightarrow> datetime \<Rightarrow> db \<Rightarrow> (command_failure + unit) tx" where
  "sell_line_list [] now d = Inr (Inr (), d)"
| "sell_line_list (line # lines) now d = attempt (sell_line line now d) (\<lambda>_. sell_line_list lines now)"

text \<open>The winning reservations of an auction order convert; none left is a refusal.\<close>

definition convert_reservations :: "order_row \<Rightarrow> datetime \<Rightarrow> db \<Rightarrow> (command_failure + unit) tx" where
  "convert_reservations order now d =
     (case or_auction_aggregate_id order of
        None \<Rightarrow> Inr (Inr (), d)
      | Some auction_key \<Rightarrow>
          seq (update_reservations
                 (\<lambda>r. rv_listing_aggregate_id r = auction_key \<and> rv_buyer_pubky r = or_buyer_pubky order
                    \<and> rv_status r = ''active'')
                 (\<lambda>r. r\<lparr>rv_status := ''converted'', rv_updated_at := now\<rparr>) d)
            (\<lambda>converted d1.
               if converted = [] then refuse (refused RInvalidState InvalidState no_longer_held) d1
               else Inr (Inr (), d1)))"

definition take_edition ::
  "uuid_source \<Rightarrow> order_row \<Rightarrow> pubky \<Rightarrow> uuid \<Rightarrow> datetime \<Rightarrow> db \<Rightarrow> (command_failure + int option) tx" where
  "take_edition new_v4 order actor command_id now d =
     (case or_drop_aggregate_id order of
        None \<Rightarrow> Inr (Inr None, d)
      | Some drop_key \<Rightarrow>
          attempt (record_paid_unit new_v4 drop_key actor command_id now d) (\<lambda>edition d1. Inr (Inr (Some edition), d1)))"

definition order_money :: "order_row \<Rightarrow> money" where
  "order_money order = \<lparr>amount_minor = or_total_minor order, currency = or_currency order, exponent = or_exponent order\<rparr>"

definition receipt_money :: "order_row \<Rightarrow> money" where
  "receipt_money order =
     (case or_paykit_total_sats order of
        Some sats \<Rightarrow> \<lparr>amount_minor = sats, currency = ''SAT'', exponent = 0\<rparr>
      | None \<Rightarrow> order_money order)"

type_synonym receipt_hash = "uuid \<Rightarrow> uuid \<Rightarrow> money \<Rightarrow> money \<Rightarrow> datetime \<Rightarrow> string"

definition issue_receipt ::
  "uuid_source \<Rightarrow> receipt_hash \<Rightarrow> payment_row \<Rightarrow> order_row \<Rightarrow> datetime \<Rightarrow> db \<Rightarrow> receipt_row tx" where
  "issue_receipt new_v4 receipt_hash payment order now d =
     (let (receipt_id, d1) = draw_uuid new_v4 d;
          receipt = \<lparr>re_id = receipt_id, re_order_id = or_id order, re_payment_id = pm_id payment,
            re_issuer_pubky = or_seller_pubky order, re_recipient_pubky = or_buyer_pubky order,
            re_total = receipt_money order, re_merchandise_total = order_money order,
            re_content_hash = receipt_hash (or_id order) (pm_id payment) (receipt_money order) (order_money order)
              (format_timestamp now),
            re_issued_at = now\<rparr>
      in seq (insert_receipt receipt d1) (\<lambda>_ d2. Inr (receipt, d2)))"

text \<open>What the confirmation pins of the delivery; the lines to store.\<close>

definition pin_order :: "confirm_keys \<Rightarrow> string \<Rightarrow> order_row \<Rightarrow> datetime \<Rightarrow> db \<Rightarrow> order_line list tx" where
  "pin_order keys adapter order now d =
     seq (if or_fulfillment order = ''pickup''
          then pin_pickup_lines (or_id order) (or_lines order) adapter (ck_pickup keys) now d
          else Inr (or_lines order, d))
       (\<lambda>lines d1.
          seq (if or_fulfillment order = ''digital''
               then pin_digital_lines order adapter (ck_digital keys) now d1 else Inr ((), d1))
            (\<lambda>_ d2. Inr (lines, d2)))"

definition delivered_now :: "order_row \<Rightarrow> bool" where
  "delivered_now order \<longleftrightarrow> or_fulfillment order = ''digital'' \<and> all_lines_instant order"

definition confirmed_row ::
  "order_row \<Rightarrow> uuid \<Rightarrow> int option \<Rightarrow> order_line list \<Rightarrow> datetime \<Rightarrow> order_row \<Rightarrow> order_row" where
  "confirmed_row order receipt_id edition lines now r =
     r\<lparr>or_revision := or_revision r + 1, or_state := (if delivered_now order then ''delivered'' else ''paid''),
       or_receipt_id := Some receipt_id, or_edition := edition, or_stock_held := False, or_hold_expires_at := None,
       or_lines := lines, or_updated_at := now,
       or_digital_delivered_at := (if delivered_now order then Some now else or_digital_delivered_at r)\<rparr>"

text \<open>The part of \<open>confirm_order\<close> after the stock has moved.\<close>

definition record_confirmation ::
  "uuid_source \<Rightarrow> receipt_hash \<Rightarrow> pubky \<Rightarrow> uuid \<Rightarrow> payment_row \<Rightarrow> order_row \<Rightarrow> int option \<Rightarrow> confirm_keys \<Rightarrow> datetime \<Rightarrow> db
     \<Rightarrow> (order_row \<times> receipt_row \<times> uuid) tx" where
  "record_confirmation new_v4 receipt_hash actor command_id payment order edition keys now d =
     seq (issue_receipt new_v4 receipt_hash payment order now d)
       (\<lambda>receipt d1.
          seq (pin_order keys (pm_adapter payment) order now d1)
            (\<lambda>lines d2.
               seq (fetch_one (update_orders (\<lambda>r. or_id r = or_id order)
                      (confirmed_row order (re_id receipt) edition lines now) d2))
                 (\<lambda>updated d3.
                    seq (insert_event new_v4 command_id (order_aggregate_id (or_id order)) (or_revision updated) actor
                           ''receipt.issued'' now d3)
                      (\<lambda>event_id d4.
                         Inr ((updated, receipt, event_id),
                           if delivered_now order
                           then insert_notification_intent event_id ''order_delivered'' (or_buyer_pubky updated) actor
                                  (order_aggregate_id (or_id updated)) None now d4
                           else d4)))))"

definition confirm_order ::
  "uuid_source \<Rightarrow> receipt_hash \<Rightarrow> pubky \<Rightarrow> uuid \<Rightarrow> payment_row \<Rightarrow> order_row \<Rightarrow> confirm_keys \<Rightarrow> datetime \<Rightarrow> db
     \<Rightarrow> (command_failure + order_row \<times> receipt_row \<times> uuid) tx" where
  "confirm_order new_v4 receipt_hash actor command_id payment order keys now d =
     (if \<not> can_transition order_machine (or_state order) ''paid''
      then refuse (refused RInvalidState InvalidState ''The order can no longer be paid.'') d
      else if unpinnable d order
      then refuse (refused_with_reason RInvalidState InvalidState
             ''The seller's digital delivery is not set up.'' ''digital_delivery_not_ready'') d
      else if or_auction_aggregate_id order = None \<and> \<not> or_stock_held order
      then refuse (refused RInvariantViolation InvariantViolation no_longer_held) d
      else
        attempt (convert_reservations order now d)
          (\<lambda>_ d1.
             attempt (take_edition new_v4 order actor command_id now d1)
               (\<lambda>edition d2.
                  attempt (sell_line_list (or_lines order) now d2)
                    (\<lambda>_ d3.
                       seq (record_confirmation new_v4 receipt_hash actor command_id payment order edition keys now d3)
                         (\<lambda>confirmed d4. Inr (Inr confirmed, d4))))))"

section \<open>The sandbox command\<close>

definition sandbox_targets :: "string \<Rightarrow> string list" where
  "sandbox_targets state =
     (if state = ''awaiting_entitlement'' then [''detected'', ''confirmed'', ''expired'', ''manual_review'']
      else if state = ''detected'' then [''confirmed'', ''manual_review'']
      else [])"

definition HOLD_SOURCE_SANDBOX :: string where
  "HOLD_SOURCE_SANDBOX = ''sandbox''"

definition advanced_payment :: "string \<Rightarrow> int \<Rightarrow> datetime \<Rightarrow> payment_row \<Rightarrow> payment_row" where
  "advanced_payment target confirmations now p =
     p\<lparr>pm_revision := pm_revision p + 1, pm_state := target, pm_confirmations := confirmations,
       pm_manual_review_entered_at := (if target = ''manual_review'' then Some now else None),
       pm_updated_at := now\<rparr>"

definition payment_result :: "int \<Rightarrow> uuid list \<Rightarrow> payment_row \<Rightarrow> order_row \<Rightarrow> receipt_row option \<Rightarrow> db \<Rightarrow> handler_success" where
  "payment_result revision event_ids payment order receipt d =
     \<lparr>hs_revision = revision, hs_event_ids = event_ids,
      hs_result = ResultPayment payment order (fetch_order_reviews d (or_id order)) receipt\<rparr>"

text \<open>An undeliverable order of a confirmed payment: the refund route, and the rows read back.\<close>

definition sandbox_refund ::
  "uuid_source \<Rightarrow> pubky \<Rightarrow> command \<Rightarrow> payment_row \<Rightarrow> order_row \<Rightarrow> datetime \<Rightarrow> db \<Rightarrow> handler_result tx" where
  "sandbox_refund new_v4 actor command payment order now d =
     (case refund_required new_v4 payment order ''digital delivery unavailable at payment''
             (cmd_command_id command) actor now d of
        Inl _ \<Rightarrow> Inl (Protocol ''sandbox refund route failed'')
      | Inr (event_id, d1) \<Rightarrow>
          (case (fetch pm_id (pm_id payment) (st_payments d1), fetch_order d1 (pm_order_id payment)) of
             (Some payment', Some order') \<Rightarrow>
               Inr (Inr (payment_result (pm_revision payment') [event_id] payment' order' None d1), d1)
           | _ \<Rightarrow> Inl RowNotFound))"

definition advance_payment_row ::
  "uuid_source \<Rightarrow> receipt_hash \<Rightarrow> pubky \<Rightarrow> command \<Rightarrow> advance_sandbox_payment_payload \<Rightarrow> payment_row \<Rightarrow> order_row
     \<Rightarrow> confirm_keys \<Rightarrow> datetime \<Rightarrow> db \<Rightarrow> handler_result tx" where
  "advance_payment_row new_v4 receipt_hash actor command payload payment order keys now d =
     (let target = sandbox_target_as_str (asp_target payload)
      in seq (fetch_one (update_payments (\<lambda>p. pm_id p = pm_id payment)
                (advanced_payment target (asp_confirmations payload) now) d))
           (\<lambda>updated d1.
              seq (insert_event new_v4 (cmd_command_id command) (cmd_aggregate_id command) (pm_revision updated) actor
                     (''payment.'' @ target) now d1)
                (\<lambda>event_id d2.
                   if target = ''confirmed''
                   then attempt (confirm_order new_v4 receipt_hash actor (cmd_command_id command) payment order keys now d2)
                          (\<lambda>(order', receipt, receipt_event_id) d3.
                             let d4 = insert_notification_intent event_id ''payment_confirmed'' (or_seller_pubky order')
                                        actor (order_aggregate_id (or_id order')) None now d3
                             in Inr (Inr (payment_result (pm_revision updated) [event_id, receipt_event_id] updated
                                            order' (Some receipt) d4), d4))
                   else Inr (Inr (payment_result (pm_revision updated) [event_id] updated order None d2), d2))))"

definition advance_locked ::
  "uuid_source \<Rightarrow> receipt_hash \<Rightarrow> pubky \<Rightarrow> command \<Rightarrow> advance_sandbox_payment_payload \<Rightarrow> int \<Rightarrow> payment_row \<Rightarrow> order_row
     \<Rightarrow> confirm_keys \<Rightarrow> datetime \<Rightarrow> db \<Rightarrow> handler_result tx" where
  "advance_locked new_v4 receipt_hash actor command payload window_seconds payment order keys now d =
     attempt (if pm_state payment = ''awaiting_entitlement''
              then acquire_payment_hold order window_seconds HOLD_SOURCE_SANDBOX now d
              else Inr (Inr order, d))
       (\<lambda>order d1.
          if sandbox_target_as_str (asp_target payload) = ''confirmed'' \<and> unpinnable d1 order
          then sandbox_refund new_v4 actor command payment order now d1
          else advance_payment_row new_v4 receipt_hash actor command payload payment order keys now d1)"

definition advance ::
  "uuid_source \<Rightarrow> receipt_hash \<Rightarrow> pubky \<Rightarrow> command \<Rightarrow> advance_sandbox_payment_payload \<Rightarrow> int \<Rightarrow> confirm_keys \<Rightarrow> datetime
     \<Rightarrow> db \<Rightarrow> handler_result tx" where
  "advance new_v4 receipt_hash actor command payload window_seconds keys now d =
     (case fetch pm_id (asp_payment_id payload) (st_payments d) of
        None \<Rightarrow> refuse (refused RNotFound NotFound ''The sandbox payment was not found.'') d
      | Some payment \<Rightarrow>
          let target = sandbox_target_as_str (asp_target payload)
          in if pm_buyer_pubky payment \<noteq> actor
             then refuse (refused RUnauthorized Unauthorized ''Only the buyer may advance a sandbox payment.'') d
             else if pm_adapter payment \<noteq> ''sandbox''
             then refuse (refused RInvalidState InvalidState
                    ''A Locks-correlated payment advances only by server-side verification.'') d
             else if cmd_aggregate_id command \<noteq> payment_aggregate_id (pm_id payment)
             then refuse (refused RInvalidCommand InvalidCommand ''The payment aggregate id is invalid.'') d
             else if cmd_expected_revision command \<noteq> pm_revision payment
             then refuse (refused_with_revision RRevisionConflict RevisionConflict
                    ''The payment revision is stale.'' (pm_revision payment)) d
             else if target \<notin> set (sandbox_targets (pm_state payment))
             then refuse (refused RInvalidState InvalidState ''The sandbox payment transition is invalid.'') d
             else if target = ''confirmed'' \<and> asp_confirmations payload < 1
             then refuse (refused RInvalidCommand InvalidCommand
                    ''Confirmed payment requires at least one confirmation.'') d
             else
               (case fetch_order d (pm_order_id payment) of
                  None \<Rightarrow> refuse (refused RInvariantViolation InvariantViolation ''Payment order is missing.'') d
                | Some order \<Rightarrow>
                    advance_locked new_v4 receipt_hash actor command payload window_seconds payment order keys now d))"

text \<open>The arm of \<open>executor::dispatch\<close>: a deployment without sandbox payments refuses the command.\<close>

definition dispatch_sandbox_payment ::
  "bool \<Rightarrow> uuid_source \<Rightarrow> receipt_hash \<Rightarrow> pubky \<Rightarrow> command \<Rightarrow> advance_sandbox_payment_payload \<Rightarrow> int \<Rightarrow> confirm_keys
     \<Rightarrow> datetime \<Rightarrow> db \<Rightarrow> handler_result tx" where
  "dispatch_sandbox_payment enabled new_v4 receipt_hash actor command payload window_seconds keys now d =
     (if \<not> enabled
      then refuse (refused RInvalidCommand InvalidCommand
             ''Sandbox payment commands are disabled on this deployment.'') d
      else advance new_v4 receipt_hash actor command payload window_seconds keys now d)"

end
