(* ===== verification/Payments_Facts.thy ===== *)
theory Payments_Facts
  imports Payments Orders_Facts
begin

text \<open>
  What a payment confirmation does: it keeps the books (reserved units become sold units, the winning
  reservation converts, the drop counts the unit), issues one receipt, moves the payment along
  \<open>payment_machine\<close>, and pins for the buyer exactly what the seller's listing delivered at that moment.
\<close>

section \<open>Vocabulary\<close>

text \<open>What pinning writes.\<close>

definition pin_step :: "db \<Rightarrow> db \<Rightarrow> bool" where
  "pin_step d d' \<longleftrightarrow>
     (\<exists>snapshots pins n. d' = d\<lparr>st_pickup_snapshots := snapshots, st_digital_pins := pins, st_next_uuid := n\<rparr>)"

text \<open>The tables that counting a paid unit leaves alone.\<close>

definition paid_frame :: "db \<Rightarrow> db \<Rightarrow> bool" where
  "paid_frame d d' \<longleftrightarrow>
     drop_frame d d' \<and> st_drop_purchases d' = st_drop_purchases d \<and> st_receipts d' = st_receipts d
     \<and> st_digital_versions d' = st_digital_versions d \<and> st_digital_pins d' = st_digital_pins d"

text \<open>The money side of an accepted sandbox command: the payment takes one step of \<open>payment_machine\<close>, and a
  receipt is issued exactly when it becomes confirmed, the first one of its order.\<close>

definition receipt_outcome :: "payment_row \<Rightarrow> payment_row \<Rightarrow> db \<Rightarrow> db \<Rightarrow> bool" where
  "receipt_outcome p p' d d' \<longleftrightarrow>
     (if pm_state p' = ''confirmed''
      then \<exists>receipt order. st_receipts d' = st_receipts d @ [receipt]
        \<and> fetch_order d' (pm_order_id p) = Some order \<and> or_receipt_id order = Some (re_id receipt)
        \<and> or_state order \<in> {''paid'', ''delivered''} \<and> re_order_id receipt = pm_order_id p
        \<and> re_payment_id receipt = pm_id p
        \<and> \<not> list_ex (\<lambda>r. re_order_id r = pm_order_id p \<or> re_payment_id r = pm_id p) (st_receipts d)
      else st_receipts d' = st_receipts d)"

definition payment_step :: "payment_row \<Rightarrow> db \<Rightarrow> db \<Rightarrow> bool" where
  "payment_step p d d' \<longleftrightarrow>
     (\<exists>p'. fetch pm_id (pm_id p) (st_payments d') = Some p' \<and> pm_revision p' = pm_revision p + 1
        \<and> has_edge payment_machine ''payment.sandbox_advance'' (pm_state p) (pm_state p')
        \<and> receipt_outcome p p' d d')"

section \<open>Samples\<close>

definition sample_payment :: payment_row where
  "sample_payment =
     \<lparr>pm_id = ''p1'', pm_order_id = ''o1'', pm_buyer_pubky = ''buyer'', pm_seller_pubky = ''seller'', pm_revision = 1,
      pm_adapter = ''sandbox'', pm_state = ''awaiting_entitlement'', pm_confirmations = 0, pm_amount_minor = 200,
      pm_currency = ''USD'', pm_exponent = 2, pm_merchandise = None, pm_manual_review_entered_at = None,
      pm_review_reason = None, pm_resolution_outcome = None, pm_created_at = 0, pm_updated_at = 0\<rparr>"

definition sample_pay_db :: db where
  "sample_pay_db = sample_stock_db\<lparr>st_payments := [sample_payment]\<rparr>"

definition sample_target :: advance_sandbox_payment_payload where
  "sample_target = \<lparr>asp_payment_id = ''p1'', asp_target = Confirmed, asp_confirmations = 1\<rparr>"

definition sample_pay :: command where
  "sample_pay =
     \<lparr>cmd_command_id = ''c3'', cmd_aggregate_id = payment_aggregate_id ''p1'', cmd_expected_revision = 1,
      cmd_issued_at = 0, cmd_payload = AdvanceSandboxPayment sample_target\<rparr>"

definition sample_ring :: keyring where
  "sample_ring = \<lparr>kr_cipher = sample_cipher, kr_nonce = (\<lambda>_. sample_nonce),
     kr_keys = \<lparr>ky_current = ''k'', ky_previous = None\<rparr>\<rparr>"

definition sample_keys_of :: confirm_keys where
  "sample_keys_of = \<lparr>ck_pickup = None, ck_digital = Some sample_ring\<rparr>"

definition sample_deliverable :: string where
  "sample_deliverable = replicate 32 CHR ''a''"

definition sample_digital_order :: order_row where
  "sample_digital_order = sample_order\<lparr>or_fulfillment := ''digital'', or_stock_held := True,
     or_hold_expires_at := Some 600, or_lines := [sample_line\<lparr>ol_digital_kind := Some ''text''\<rparr>]\<rparr>"

definition sample_version :: digital_version_row where
  "sample_version =
     \<lparr>dv_listing_aggregate_id = ''listing:l'', dv_deliverable_id = sample_deliverable, dv_version = 1, dv_kind = ''text'',
      dv_ciphertext = keys_seal sample_cipher sample_nonce (kr_keys sample_ring)
        (version_aad ''listing:l'' sample_deliverable 1 KText) ''the text'',
      dv_superseded_at = None, dv_seller_pubky = ''seller'', dv_ciphertext_blake3 = None, dv_size_bytes = None,
      dv_content_type = None, dv_created_at = 0\<rparr>"

definition sample_digital_db :: db where
  "sample_digital_db =
     sample_held_db\<lparr>st_payments := [sample_payment], st_orders := [sample_digital_order],
       st_digital_versions := [sample_version]\<rparr>"

section \<open>Frames\<close>

lemma pin_stepI: "d' = d\<lparr>st_pickup_snapshots := s, st_digital_pins := p, st_next_uuid := n\<rparr> \<Longrightarrow> pin_step d d'"
  unfolding pin_step_def by blast

lemma pin_step_refl [simp]: "pin_step d d"
  by (rule pin_stepI [where s = "st_pickup_snapshots d" and p = "st_digital_pins d" and n = "st_next_uuid d"]) simp

lemma pin_step_trans:
  assumes "pin_step d d'" "pin_step d' d''"
  shows "pin_step d d''"
proof -
  obtain s p n where "d'' = d'\<lparr>st_pickup_snapshots := s, st_digital_pins := p, st_next_uuid := n\<rparr>"
    using assms(2) unfolding pin_step_def by blast
  with assms(1) have "d'' = d\<lparr>st_pickup_snapshots := s, st_digital_pins := p, st_next_uuid := n\<rparr>"
    by (auto simp: pin_step_def)
  then show ?thesis by (rule pin_stepI)
qed

lemma pin_stepD:
  assumes "pin_step d d'"
  shows "st_listings d' = st_listings d" "st_reservations d' = st_reservations d" "st_orders d' = st_orders d"
    "st_payments d' = st_payments d" "st_drops d' = st_drops d" "st_drop_purchases d' = st_drop_purchases d"
    "st_receipts d' = st_receipts d" "st_digital_versions d' = st_digital_versions d"
  using assms by (auto simp: pin_step_def)

lemma draw_seal_step: "draw_seal ring aad p d = (sealed, d') \<Longrightarrow> pin_step d d'"
  by (rule pin_stepI [where s = "st_pickup_snapshots d" and p = "st_digital_pins d" and n = "st_next_uuid d'"])
    (auto simp: draw_seal_def)

lemma insert_pickup_snapshot_step: "insert_pickup_snapshot p d = Inr (x, d') \<Longrightarrow> pin_step d d'"
  by (rule pin_stepI [where s = "st_pickup_snapshots d'" and p = "st_digital_pins d" and n = "st_next_uuid d"])
    (auto simp: insert_pickup_snapshot_def split: if_splits)

lemma insert_digital_pin_step: "insert_digital_pin p d = Inr (x, d') \<Longrightarrow> pin_step d d'"
  by (rule pin_stepI [where s = "st_pickup_snapshots d" and p = "st_digital_pins d'" and n = "st_next_uuid d"])
    (auto simp: insert_digital_pin_def sql_insert_def split: if_splits)

lemma pin_pickup_line_step:
  assumes "pin_pickup_line order_id adapter ring now i line d = Inr (line', d')"
  shows "pin_step d d'"
  using assms
  by (auto simp: pin_pickup_line_def Let_def seq_eq_Inr split: if_splits option.splits prod.splits
      dest!: draw_seal_step insert_pickup_snapshot_step intro: pin_step_trans)

lemma pin_pickup_line_list_step:
  "pin_pickup_line_list order_id adapter ring now i lines d = Inr (lines', d') \<Longrightarrow> pin_step d d'"
  by (induction lines arbitrary: i d lines')
    (auto simp: seq_eq_Inr dest: pin_pickup_line_step intro: pin_step_trans)

lemma pin_line_list_step:
  "pin_line_list order_id adapter ring now lines d = Inr (x, d') \<Longrightarrow> pin_step d d'"
proof (induction lines arbitrary: d x)
  case (Cons l lines)
  obtain i a kind where l: "l = (i, a, kind)" by (cases l)
  show ?case
    using Cons.prems
    by (auto simp: l Let_def seq_eq_Inr split: option.splits prod.splits
        dest!: draw_seal_step insert_digital_pin_step Cons.IH intro: pin_step_trans)
qed simp

lemma pin_order_step: "pin_order keys adapter order now d = Inr (lines, d') \<Longrightarrow> pin_step d d'"
  by (auto simp: pin_order_def pin_pickup_lines_def pin_digital_lines_def seq_eq_Inr split: if_splits option.splits
      dest: pin_pickup_line_list_step pin_line_list_step intro: pin_step_trans)

lemma update_drops_paid: "update_drops c f d = Inr (w, d') \<Longrightarrow> paid_frame d d'"
  by (auto simp: drops.upd_Inr paid_frame_def drop_frame_def)

lemma log_step_paid: "log_step d d' \<Longrightarrow> paid_frame d d'"
  by (auto simp: log_step_def paid_frame_def drop_frame_def)

lemma paid_frame_refl [simp]: "paid_frame d d"
  by (simp add: paid_frame_def)

lemma paid_frame_trans: "paid_frame d d' \<Longrightarrow> paid_frame d' d'' \<Longrightarrow> paid_frame d d''"
  by (auto simp: paid_frame_def intro: drop_frame_trans)

lemmas paid_frame_steps = update_drops_paid insert_event_log [THEN log_step_paid]
  insert_notification_log [THEN log_step_paid]

lemma deactivate_paid: "paid_frame d (deactivate_drop_listing_bindings k d)"
  by (simp add: deactivate_drop_listing_bindings_def paid_frame_def drop_frame_def)

lemma apply_time_transitions_paid:
  assumes "apply_time_transitions new_v4 r command_id now d = Inr (x, d')"
  shows "paid_frame d d'"
proof -
  consider "d' = d"
    | w f d1 d2 c k v p e o' u where "update_drops (\<lambda>q. dr_aggregate_id q = dr_aggregate_id r) f d = Inr (w, d1)"
        "d2 = d1 \<or> d2 = deactivate_drop_listing_bindings (dr_aggregate_id r) d1"
        "insert_event new_v4 c k v p e o' d2 = Inr (u, d')"
    using assms
    by (force simp: apply_time_transitions_def Let_def seq_eq_Inr fetch_one_Inr split: if_splits)
  then show ?thesis
    by cases (auto dest!: paid_frame_steps(1,2) intro: paid_frame_trans paid_frame_trans [OF _ deactivate_paid [THEN paid_frame_trans]])
qed

lemma end_sold_out_paid:
  assumes "end_sold_out new_v4 r k actor command_id now d = Inr (x, d')"
  shows "paid_frame d d'"
proof -
  obtain w d1 u d3 where u: "update_drops (\<lambda>q. dr_aggregate_id q = k)
      (\<lambda>q. q\<lparr>dr_state := ''ended_sold_out'', dr_revision := dr_revision r + 1, dr_updated_at := now\<rparr>) d = Inr (w, d1)"
    and e: "insert_event new_v4 command_id k (dr_revision r + 1) actor ''drop.ended'' now
      (deactivate_drop_listing_bindings k d1) = Inr (u, d3)"
    and d': "d' = insert_notification_intent u ''drop_sold_out'' (dr_seller_pubky r) actor k None now d3"
    using assms by (auto simp: end_sold_out_def Let_def seq_eq_Inr)
  show ?thesis unfolding d'
    by (rule paid_frame_trans [OF paid_frame_trans [OF paid_frame_trans [OF paid_frame_steps(1) [OF u] deactivate_paid]
          paid_frame_steps(2) [OF e]] paid_frame_steps(3)])
qed

lemma record_paid_unit_paid:
  assumes "record_paid_unit new_v4 k actor command_id now d = Inr (Inr edition, d')"
  shows "paid_frame d d'"
proof -
  obtain r x d1 f w d2 y where "apply_time_transitions new_v4 r command_id now d = Inr (x, d1)"
    and "update_drops (\<lambda>q. dr_aggregate_id q = k) f d1 = Inr (y # w, d2)"
    and "d' = d2 \<or> end_sold_out new_v4 y k actor command_id now d2 = Inr ((), d')"
    using assms by (force simp: record_paid_unit_def seq_eq_Inr fetch_one_Inr split: option.splits if_splits)
  then show ?thesis
    by (auto dest!: apply_time_transitions_paid end_sold_out_paid update_drops_paid intro: paid_frame_trans)
qed

lemma take_edition_effect:
  assumes ok: "drops_ok d" and run: "take_edition new_v4 order actor command_id now d = Inr (Inr edition, d')"
  shows "drops_ok d'" "paid_frame d d'"
proof -
  have "drops_ok d' \<and> paid_frame d d'"
  proof (cases "or_drop_aggregate_id order")
    case (Some k)
    with run obtain n where n: "record_paid_unit new_v4 k actor command_id now d = Inr (Inr n, d')"
      by (auto simp: take_edition_def attempt_accept)
    then obtain r0 where "fetch_drop d k = Some r0" by (auto simp: record_paid_unit_def split: option.splits)
    with n show ?thesis using record_paid_unit_effect(1) [OF ok _ n] record_paid_unit_paid by blast
  qed (use run ok in \<open>simp add: take_edition_def\<close>)
  then show "drops_ok d'" "paid_frame d d'" by simp_all
qed

section \<open>Stock\<close>

lemma sold_row_simps [simp]:
  "ls_aggregate_id (sold_row s q now l) = ls_aggregate_id l"
  "ls_total_quantity (sold_row s q now l) = ls_total_quantity l"
  "ls_reserved_quantity (sold_row s q now l) = ls_reserved_quantity l - q"
  by (simp_all add: sold_row_def)

lemma sell_line_effect:
  assumes t: "table_ok ls_aggregate_id listing_check (st_listings d)" and l: "ledger_off g d"
    and run: "sell_line line now d = Inr (Inr x, d')"
  shows "listings_step d d'"
    "ledger_off (g(ol_listing_aggregate_id line := g (ol_listing_aggregate_id line) - ol_quantity line)) d'"
proof -
  let ?a = "ol_listing_aggregate_id line"
  obtain listing w where f: "fetch_listing d ?a = Some listing"
    and u: "update_listings (\<lambda>l. ls_aggregate_id l = ?a)
      (sold_row (sold_state listing (ol_quantity line)) (ol_quantity line) now) d = Inr (w, d')"
    using run by (auto simp: sell_line_def seq_eq_Inr split: option.splits if_splits)
  have w: "w \<noteq> []"
    using u f listings.upd_key_row [OF t, of ?a] by (simp add: listings.upd_Inr fetch_listing_def)
  show "listings_step d d'" by (rule update_listings_step [OF t u]) simp_all
  have u': "update_listings (\<lambda>l. ls_aggregate_id l = ?a \<and> True)
      (sold_row (sold_state listing (ol_quantity line)) (ol_quantity line) now) d = Inr (w, d')"
    using u by simp
  have "ledger_off (g(?a := g ?a + - ol_quantity line)) d'" by (rule ledger_off_move [OF t l u' w]) simp_all
  then show "ledger_off (g(?a := g ?a - ol_quantity line)) d'" by simp
qed

lemma sell_line_list_effect:
  assumes "table_ok ls_aggregate_id listing_check (st_listings d)" "ledger_off g d"
    and "sell_line_list lines now d = Inr (Inr x, d')"
  shows "listings_step d d' \<and> ledger_off (\<lambda>a. g a - line_units lines a) d'"
  using assms
proof (induction lines arbitrary: d g)
  case Nil
  then show ?case by (simp add: listings_step_refl)
next
  case (Cons line lines)
  then obtain d1 where d1: "sell_line line now d = Inr (Inr (), d1)"
    and rest: "sell_line_list lines now d1 = Inr (Inr x, d')"
    by (auto simp: attempt_accept)
  note e = sell_line_effect [OF Cons.prems(1,2) d1]
  note ih = Cons.IH [OF listings_stepD(6) [OF e(1)] e(2) rest]
  have "ledger_off (\<lambda>a. g a - line_units (line # lines) a) d'"
    by (rule ledger_off_cong [OF conjunct2 [OF ih]]) simp
  with ih e(1) show ?case using listings_step_trans by blast
qed

text \<open>The units that move to \<open>sold\<close> are the ones the order, or its winning reservation, held.\<close>

lemma convert_reservations_effect:
  assumes t: "stock_tables_ok d" and l: "ledger_off (\<lambda>_. 0) d" and w: "winner_hold d order" and h: "hold_shape order"
    and held: "or_auction_aggregate_id order = None \<longrightarrow> or_stock_held order"
    and run: "convert_reservations order now d = Inr (Inr x, d')"
  shows "stock_tables_ok d'" "ledger_off (\<lambda>a. line_units (or_lines order) a - order_holds order a) d'"
    "\<exists>rows. d' = d\<lparr>st_reservations := rows\<rparr>"
proof -
  have "stock_tables_ok d' \<and> ledger_off (\<lambda>a. line_units (or_lines order) a - order_holds order a) d'
    \<and> (\<exists>rows. d' = d\<lparr>st_reservations := rows\<rparr>)"
  proof (cases "or_auction_aggregate_id order")
    case None
    with run held t ledger_off_cong [OF l] show ?thesis
      by (auto simp: convert_reservations_def order_holds_def intro: exI [of _ "st_reservations d"])
  next
    case (Some a)
    then obtain v where u: "update_reservations
        (\<lambda>r. rv_listing_aggregate_id r = a \<and> rv_buyer_pubky r = or_buyer_pubky order \<and> rv_status r = ''active'')
        (\<lambda>r. r\<lparr>rv_status := ''converted'', rv_updated_at := now\<rparr>) d = Inr (v, d')" and v: "v \<noteq> []"
      using run by (auto simp: convert_reservations_def seq_eq_Inr split: if_splits)
    note e = flip_winner_reservations [OF t l u, simplified]
    have "line_units (or_lines order) x
        = (if x = a then sum_list (map rv_quantity (winner_reservations d order a)) else 0)" for x
      using w Some v e(2) by (auto simp: winner_hold_def)
    moreover have "\<not> or_stock_held order" using h Some by (auto simp: hold_shape_def)
    ultimately show ?thesis
      using e(1) ledger_off_cong [OF e(3)] u by (auto simp: order_holds_def reservations.upd_Inr)
  qed
  then show "stock_tables_ok d'" "ledger_off (\<lambda>a. line_units (or_lines order) a - order_holds order a) d'"
    "\<exists>rows. d' = d\<lparr>st_reservations := rows\<rparr>" by simp_all
qed

section \<open>Confirmation\<close>

lemma issue_receipt_Inr:
  assumes "issue_receipt new_v4 receipt_hash payment order now d = Inr (receipt, d')"
  shows "d' = d\<lparr>st_receipts := st_receipts d @ [receipt], st_next_uuid := Suc (st_next_uuid d)\<rparr>"
    "re_order_id receipt = or_id order" "re_payment_id receipt = pm_id payment"
    "re_total receipt = receipt_money order" "re_recipient_pubky receipt = or_buyer_pubky order"
    "re_issuer_pubky receipt = or_seller_pubky order"
    "\<not> list_ex (receipt_clash receipt) (st_receipts d)"
  using assms
  by (auto simp: issue_receipt_def draw_uuid_def Let_def insert_receipt_def sql_insert_def split: if_splits)

lemma confirmed_row_simps [simp]:
  "or_id (confirmed_row order rid edition lines now r) = or_id r"
  "or_stock_held (confirmed_row order rid edition lines now r) = False"
  "or_state (confirmed_row order rid edition lines now r) = (if delivered_now order then ''delivered'' else ''paid'')"
  "or_receipt_id (confirmed_row order rid edition lines now r) = Some rid"
  "or_revision (confirmed_row order rid edition lines now r) = or_revision r + 1"
  "or_edition (confirmed_row order rid edition lines now r) = edition"
  "or_buyer_pubky (confirmed_row order rid edition lines now r) = or_buyer_pubky r"
  "or_seller_pubky (confirmed_row order rid edition lines now r) = or_seller_pubky r"
  by (simp_all add: confirmed_row_def)

lemma record_confirmation_run:
  assumes "record_confirmation new_v4 receipt_hash actor command_id payment order edition keys now d
      = Inr ((updated, receipt, e), d')"
  obtains d1 lines d2 w d3 where
    "issue_receipt new_v4 receipt_hash payment order now d = Inr (receipt, d1)"
    "pin_order keys (pm_adapter payment) order now d1 = Inr (lines, d2)"
    "update_orders (\<lambda>r. or_id r = or_id order) (confirmed_row order (re_id receipt) edition lines now) d2
       = Inr (updated # w, d3)"
    "log_step d3 d'"
proof -
  obtain d1 lines d2 w d3 d4 where r: "issue_receipt new_v4 receipt_hash payment order now d = Inr (receipt, d1)"
    "pin_order keys (pm_adapter payment) order now d1 = Inr (lines, d2)"
    "update_orders (\<lambda>r. or_id r = or_id order) (confirmed_row order (re_id receipt) edition lines now) d2
       = Inr (updated # w, d3)"
    and ev: "insert_event new_v4 command_id (order_aggregate_id (or_id order)) (or_revision updated) actor
       ''receipt.issued'' now d3 = Inr (e, d4)"
    and d': "d' = (if delivered_now order
       then insert_notification_intent e ''order_delivered'' (or_buyer_pubky updated) actor
              (order_aggregate_id (or_id updated)) None now d4 else d4)"
    using assms by (auto simp: record_confirmation_def seq_eq_Inr fetch_one_Inr)
  have "log_step d4 d'" by (simp add: d' insert_notification_log)
  with insert_event_log [OF ev] have "log_step d3 d'" by (rule log_step_trans)
  with that r show thesis by blast
qed

lemma record_confirmation_effect:
  assumes t: "stock_tables_ok d" and l: "ledger_off (\<lambda>a. - order_holds order a) d" and ok: "drops_ok d"
    and h: "list_all hold_shape (st_orders d)" and order: "fetch_order d (or_id order) = Some order"
    and run: "record_confirmation new_v4 receipt_hash actor command_id payment order edition keys now d
      = Inr ((updated, receipt, e), d')"
  shows "books_ok d'" "st_listings d' = st_listings d" "st_payments d' = st_payments d"
    "st_receipts d' = st_receipts d @ [receipt]" "order_change (or_id order) order updated d d'"
    "\<exists>lines. updated = confirmed_row order (re_id receipt) edition lines now order"
proof -
  obtain d1 lines d2 w d3 where r: "issue_receipt new_v4 receipt_hash payment order now d = Inr (receipt, d1)"
    and p: "pin_order keys (pm_adapter payment) order now d1 = Inr (lines, d2)"
    and u: "update_orders (\<lambda>r. or_id r = or_id order) (confirmed_row order (re_id receipt) edition lines now) d2
       = Inr (updated # w, d3)" and log: "log_step d3 d'"
    by (rule record_confirmation_run [OF run])
  note d1 = issue_receipt_Inr(1) [OF r]
  note same = pin_stepD [OF pin_order_step [OF p]]
  have d2: "st_listings d2 = st_listings d" "st_reservations d2 = st_reservations d" "st_orders d2 = st_orders d"
    "st_payments d2 = st_payments d" "st_drops d2 = st_drops d" "st_drop_purchases d2 = st_drop_purchases d"
    "st_receipts d2 = st_receipts d @ [receipt]"
    by (simp_all add: same d1)
  have t2: "stock_tables_ok d2" and l2: "ledger_off (\<lambda>a. - order_holds order a) d2"
    and ok2: "drops_ok d2" and h2: "list_all hold_shape (st_orders d2)"
    and o2: "fetch_order d2 (or_id order) = Some order"
    using t l ok h order drops_ok_cong [of d2 d]
    by (simp_all add: d2 stock_tables_ok_def ledger_off_def accounted_def fetch_order_def)
  note b = books_ok_update_order [OF t2 l2 ok2 h2 o2 u confirmed_row_simps(1)]
  have b3: "books_ok d3" "st_listings d3 = st_listings d2"
    using b by (auto simp: order_holds_def hold_shape_def)
  have d3: "st_payments d3 = st_payments d2" "st_receipts d3 = st_receipts d2"
    using u by (auto simp: orders.upd_Inr)
  note s = log_stepD [OF log]
  have to: "table_ok or_id order_check (st_orders d2)" using t2 by (simp add: stock_tables_ok_def)
  note c = update_order_change [OF to o2 u confirmed_row_simps(1)]
  show "books_ok d'" using b3(1) books_ok_cong [of d' d3] s by simp
  show "st_listings d' = st_listings d" "st_payments d' = st_payments d"
    "st_receipts d' = st_receipts d @ [receipt]"
    using s b3(2) d3 d2 by simp_all
  show "\<exists>lines. updated = confirmed_row order (re_id receipt) edition lines now order" using c(2) by auto
  have up: "updated = confirmed_row order (re_id receipt) edition lines now order" using c(2) by simp
  show "order_change (or_id order) order updated d d'"
    using order_change_log [OF c(1) log] by (simp add: order_change_def fetch_order_def d2 up)
qed

lemma confirm_order_run:
  assumes "confirm_order new_v4 receipt_hash actor command_id payment order keys now d
      = Inr (Inr (updated, receipt, e), d')"
  obtains d1 edition d2 d3 where
    "can_transition order_machine (or_state order) ''paid''" "\<not> unpinnable d order"
    "or_auction_aggregate_id order = None \<longrightarrow> or_stock_held order"
    "convert_reservations order now d = Inr (Inr (), d1)"
    "take_edition new_v4 order actor command_id now d1 = Inr (Inr edition, d2)"
    "sell_line_list (or_lines order) now d2 = Inr (Inr (), d3)"
    "record_confirmation new_v4 receipt_hash actor command_id payment order edition keys now d3
       = Inr ((updated, receipt, e), d')"
  using assms by (auto simp: confirm_order_def attempt_accept seq_eq_Inr split: if_splits)

text \<open>The stock has moved and the drop has counted the unit; the order still has to be written.\<close>

lemma confirm_moves_stock:
  assumes ok: "books_ok d" and order: "fetch_order d (or_id order) = Some order" and w: "winner_hold d order"
    and held: "or_auction_aggregate_id order = None \<longrightarrow> or_stock_held order"
    and c: "convert_reservations order now d = Inr (Inr (), d1)"
    and e: "take_edition new_v4 order actor command_id now d1 = Inr (Inr edition, d2)"
    and s: "sell_line_list (or_lines order) now d2 = Inr (Inr (), d3)"
  shows "stock_tables_ok d3" "ledger_off (\<lambda>a. - order_holds order a) d3" "drops_ok d3"
    "st_orders d3 = st_orders d" "\<forall>a. total_stock d3 a = total_stock d a"
    "st_payments d3 = st_payments d" "st_receipts d3 = st_receipts d"
    "st_digital_versions d3 = st_digital_versions d" "st_digital_pins d3 = st_digital_pins d"
proof -
  have h: "hold_shape order"
    using ok order fetch_Some by (fastforce simp: books_ok_def list_all_iff fetch_order_def)
  have t: "stock_tables_ok d" "ledger_off (\<lambda>_. 0) d" "drops_ok d" using ok by (simp_all add: books_ok_def stock_ok_def)
  note c1 = convert_reservations_effect [OF t(1,2) w h held c]
  have dr1: "drops_ok d1" using t(3) c1(3) drops_ok_cong [of d1 d] by auto
  note e2 = take_edition_effect [OF dr1 e]
  have d2: "stock_tables_ok d2" "ledger_off (\<lambda>a. line_units (or_lines order) a - order_holds order a) d2"
    using c1(1,2) e2(2) by (simp_all add: paid_frame_def drop_frame_def stock_tables_ok_def ledger_off_def accounted_def)
  have tl: "table_ok ls_aggregate_id listing_check (st_listings d2)" using d2(1) by (simp add: stock_tables_ok_def)
  note s3 = sell_line_list_effect [OF tl d2(2) s]
  note f3 = listings_stepD [OF conjunct1 [OF s3]]
  show "stock_tables_ok d3" using d2(1) f3 by (simp add: stock_tables_ok_def)
  show "ledger_off (\<lambda>a. - order_holds order a) d3" by (rule ledger_off_cong [OF conjunct2 [OF s3]]) simp
  show "drops_ok d3" using e2(1) f3 drops_ok_cong [of d3 d2] by simp
  show "st_orders d3 = st_orders d" "st_payments d3 = st_payments d"
    using f3 e2(2) c1(3) by (auto simp: paid_frame_def drop_frame_def)
  have "\<forall>a. total_stock d2 a = total_stock d a"
    using e2(2) c1(3) by (auto simp: paid_frame_def drop_frame_def intro!: total_stock_cong)
  then show "\<forall>a. total_stock d3 a = total_stock d a" using s3 by (simp add: listings_step_def)
  show "st_receipts d3 = st_receipts d" "st_digital_versions d3 = st_digital_versions d"
    "st_digital_pins d3 = st_digital_pins d"
    using s3 e2(2) c1(3) by (auto simp: paid_frame_def listings_step_def)
qed

lemma confirm_order_effect:
  assumes ok: "books_ok d" and order: "fetch_order d (or_id order) = Some order" and w: "winner_hold d order"
    and run: "confirm_order new_v4 receipt_hash actor command_id payment order keys now d
      = Inr (Inr (updated, receipt, e), d')"
  shows "books_ok d'" "\<forall>a. total_stock d' a = total_stock d a" "st_payments d' = st_payments d"
    "st_receipts d' = st_receipts d @ [receipt]" "order_change (or_id order) order updated d d'"
    "re_order_id receipt = or_id order" "re_payment_id receipt = pm_id payment" "re_total receipt = receipt_money order"
    "or_receipt_id updated = Some (re_id receipt)" "\<not> list_ex (receipt_clash receipt) (st_receipts d)"
    "or_state updated = (if delivered_now order then ''delivered'' else ''paid'')"
    "or_revision updated = or_revision order + 1"
proof -
  obtain d1 edition d2 d3 where held: "or_auction_aggregate_id order = None \<longrightarrow> or_stock_held order"
    and s: "convert_reservations order now d = Inr (Inr (), d1)"
      "take_edition new_v4 order actor command_id now d1 = Inr (Inr edition, d2)"
      "sell_line_list (or_lines order) now d2 = Inr (Inr (), d3)"
    and r: "record_confirmation new_v4 receipt_hash actor command_id payment order edition keys now d3
       = Inr ((updated, receipt, e), d')"
    by (rule confirm_order_run [OF run])
  note m = confirm_moves_stock [OF ok order w held s]
  have h: "list_all hold_shape (st_orders d3)" using ok by (simp add: m books_ok_def)
  have o3: "fetch_order d3 (or_id order) = Some order" using order by (simp add: m fetch_order_def)
  note rc = record_confirmation_effect [OF m(1-3) h o3 r]
  show "books_ok d'" by (rule rc(1))
  show "\<forall>a. total_stock d' a = total_stock d a" using m(5) total_stock_cong [OF rc(2)] by simp
  show "st_payments d' = st_payments d" "st_receipts d' = st_receipts d @ [receipt]"
    by (simp_all add: rc(3,4) m(6,7))
  show "order_change (or_id order) order updated d d'"
    using rc(5) by (simp add: order_change_def fetch_order_def m(4))
  show "or_receipt_id updated = Some (re_id receipt)" "or_revision updated = or_revision order + 1"
    "or_state updated = (if delivered_now order then ''delivered'' else ''paid'')"
    using rc(6) by auto
  obtain d4 where "issue_receipt new_v4 receipt_hash payment order now d3 = Inr (receipt, d4)"
    by (rule record_confirmation_run [OF r]) blast
  note i = issue_receipt_Inr [OF this]
  show "re_order_id receipt = or_id order" "re_payment_id receipt = pm_id payment" "re_total receipt = receipt_money order"
    by (rule i)+
  show "\<not> list_ex (receipt_clash receipt) (st_receipts d)" using i(7) by (simp add: m(7))
qed

section \<open>The lock point\<close>

lemma acquire_hold_run:
  assumes run: "acquire_payment_hold o0 window source now d = Inr (Inr o1, d')"
  obtains (auction) "or_auction_aggregate_id o0 \<noteq> None" "o1 = o0" "d' = d"
    | (taken) f g d1 w where "or_auction_aggregate_id o0 = None" "or_state o0 = ''pending_payment''"
        "d1 = d \<and> or_stock_held o0 \<and> g = (\<lambda>_. 0)
          \<or> \<not> or_stock_held o0 \<and> g = line_units (or_lines o0)
            \<and> hold_line_list (or_created_at o0) (or_lines o0) now d = Inr (Inr (), d1)"
        "update_orders (\<lambda>r. or_id r = or_id o0) f d1 = Inr (o1 # w, d')"
        "\<And>r. or_id (f r) = or_id r" "\<And>r. or_lines (f r) = or_lines r" "\<And>r. or_state (f r) = or_state r"
        "\<And>r. or_auction_aggregate_id (f r) = or_auction_aggregate_id r" "\<And>r. or_revision (f r) = or_revision r"
        "or_stock_held (f o0)" "or_hold_expires_at (f o0) \<noteq> None"
        "\<And>r. or_fulfillment (f r) = or_fulfillment r"
proof (cases "or_auction_aggregate_id o0 = None")
  case False
  with run have "o1 = o0" "d' = d" by (auto simp: acquire_payment_hold_def)
  with False show ?thesis by (rule auction)
next
  case True
  then have st: "or_state o0 = ''pending_payment''"
    using run by (auto simp: acquire_payment_hold_def split: if_splits)
  show ?thesis
  proof (cases "or_stock_held o0")
    case held: True
    with True st run obtain w where u: "update_orders (\<lambda>r. or_id r = or_id o0)
        (\<lambda>r. r\<lparr>or_hold_expires_at := Some (now + seconds window), or_hold_source := Some source,
          or_updated_at := now\<rparr>) d = Inr (o1 # w, d')"
      by (auto simp: acquire_payment_hold_def Let_def seq_eq_Inr fetch_one_Inr)
    show ?thesis by (rule taken [OF True st _ u, where g = "\<lambda>_. 0"]) (use held in simp_all)
  next
    case False
    with True st run obtain d1 w where h: "hold_line_list (or_created_at o0) (or_lines o0) now d = Inr (Inr (), d1)"
      and u: "update_orders (\<lambda>r. or_id r = or_id o0)
        (\<lambda>r. r\<lparr>or_stock_held := True, or_hold_expires_at := Some (now + seconds window),
          or_hold_source := Some source, or_updated_at := now\<rparr>) d1 = Inr (o1 # w, d')"
      by (auto simp: acquire_payment_hold_def Let_def seq_eq_Inr fetch_one_Inr attempt_accept)
    show ?thesis by (rule taken [OF True st _ u, where g = "line_units (or_lines o0)"]) (use False h in simp_all)
  qed
qed

lemma acquire_hold_books:
  assumes ok: "books_ok d" and o0: "fetch_order d (or_id o0) = Some o0" and w0: "winner_hold d o0"
    and run: "acquire_payment_hold o0 window source now d = Inr (Inr o1, d')"
  shows "books_ok d' \<and> (\<forall>a. total_stock d' a = total_stock d a) \<and> order_change (or_id o0) o0 o1 d d'
    \<and> winner_hold d' o1 \<and> or_id o1 = or_id o0 \<and> or_state o1 = or_state o0
    \<and> st_payments d' = st_payments d \<and> st_receipts d' = st_receipts d
    \<and> st_digital_versions d' = st_digital_versions d"
  using run
proof (cases rule: acquire_hold_run)
  case auction
  with ok o0 w0 show ?thesis by (simp add: order_change_def)
next
  case (taken f g d1 w)
  have t: "stock_tables_ok d" "ledger_off (\<lambda>_. 0) d" "drops_ok d" "list_all hold_shape (st_orders d)"
    using ok by (simp_all add: books_ok_def stock_ok_def)
  have tl: "table_ok ls_aggregate_id listing_check (st_listings d)" using t(1) by (simp add: stock_tables_ok_def)
  have s: "listings_step d d1" and l1: "ledger_off g d1"
    using taken(3) t(2) listings_step_refl [OF tl] hold_line_list_effect [OF tl t(2)] by auto
  note f1 = listings_stepD [OF s]
  have d1: "stock_tables_ok d1" "drops_ok d1" "list_all hold_shape (st_orders d1)"
      "fetch_order d1 (or_id o0) = Some o0" "st_receipts d1 = st_receipts d"
      "st_digital_versions d1 = st_digital_versions d"
    using t o0 f1 drops_ok_cong [of d1 d] s by (auto simp: stock_tables_ok_def fetch_order_def listings_step_def)
  have to: "table_ok or_id order_check (st_orders d1)" using d1(1) by (simp add: stock_tables_ok_def)
  have g: "g a = order_holds (f o0) a - order_holds o0 a" for a
    using taken(3,6,10) by (auto simp: order_holds_def)
  have shape: "hold_shape (f o0)" using taken(1,2,7,8,11) by (simp add: hold_shape_def)
  note b = books_ok_update_order [OF d1(1) l1 d1(2,3,4) taken(4,5) g shape]
  note c = update_order_change [OF to d1(4) taken(4,5)]
  have o1: "o1 = f o0" using c(2) by simp
  have tot: "\<forall>a. total_stock d' a = total_stock d a" using s total_stock_cong [OF b(2)] by (simp add: listings_step_def)
  have ch: "order_change (or_id o0) o0 o1 d d'"
    using c(1) f1(2) by (simp add: order_change_def fetch_order_def o1)
  have same: "st_payments d' = st_payments d" "st_receipts d' = st_receipts d"
      "st_digital_versions d' = st_digital_versions d"
    using taken(4) f1(3) d1(5,6) by (auto simp: orders.upd_Inr)
  have "winner_hold d' o1" using taken(1) by (simp add: winner_hold_def o1 taken(8))
  with b(1) tot ch same show ?thesis by (simp add: o1 taken(5,7))
qed

section \<open>The refund route\<close>

lemma and_then_eq_Inr: "and_then r k = Inr y \<longleftrightarrow> (\<exists>x d. r = Inr (x, d) \<and> k x d = Inr y)"
  by (auto simp: and_then_def split: sum.splits)

lemma internal_eq_Inr: "internal what r = Inr y \<longleftrightarrow> r = Inr y"
  by (auto simp: internal_def split: sum.splits)

lemma internal_step_eq_Inr: "internal_step what r = Inr (x, d) \<longleftrightarrow> r = Inr (Inr x, d)"
  by (auto simp: internal_step_def split: sum.splits)

lemmas route_simps = and_then_eq_Inr internal_eq_Inr internal_step_eq_Inr

text \<open>A condition the row read satisfies does not narrow an update by its key.\<close>

lemma update_order_guard:
  assumes t: "table_ok or_id order_check (st_orders d)" and r: "fetch_order d k = Some r" and P: "P r"
  shows "update_orders (\<lambda>x. or_id x = k \<and> P x) f d = update_orders (\<lambda>x. or_id x = k) f d"
proof -
  have "(or_id x = k \<and> P x) = (or_id x = k)" if "x \<in> set (st_orders d)" for x
    using fetch_unique [OF t r [unfolded fetch_order_def] that] P by auto
  then have "filter (\<lambda>x. or_id x = k \<and> P x) (st_orders d) = filter (\<lambda>x. or_id x = k) (st_orders d)"
    "map (\<lambda>x. if or_id x = k \<and> P x then f x else x) (st_orders d)
      = map (\<lambda>x. if or_id x = k then f x else x) (st_orders d)"
    by (auto intro: filter_cong)
  then show ?thesis by (simp only: update_orders_def sql_update_def)
qed

lemma release_late_hold_effect:
  assumes ok: "books_ok d" and run: "release_late_hold order now d = Inr (x, d')" and h: "hold_shape order"
  shows "stock_tables_ok d'" "ledger_off (\<lambda>a. - order_holds order a) d'" "drops_ok d'"
    "\<forall>a. total_stock d' a = total_stock d a" "st_orders d' = st_orders d"
proof -
  have t: "stock_ok d" "drops_ok d" using ok by (simp_all add: books_ok_def)
  have "stock_tables_ok d' \<and> ledger_off (\<lambda>a. - order_holds order a) d' \<and> drops_ok d'
    \<and> (\<forall>a. total_stock d' a = total_stock d a) \<and> st_orders d' = st_orders d"
  proof (cases "or_stock_held order")
    case False
    with run t show ?thesis by (auto simp: release_late_hold_def order_holds_def stock_ok_def)
  next
    case True
    with run h obtain d1 where "credit_order_drop order now d = Inr (Inr (), d1)"
      "release_lines order Reserved now d1 = Inr (Inr (), d')"
      by (auto simp: release_late_hold_def hold_shape_def route_simps)
    note e = credit_then_release [OF t this]
    have "ledger_off (\<lambda>a. - order_holds order a) d'"
      by (rule ledger_off_cong [OF e(2)]) (simp add: order_holds_def True)
    with e show ?thesis by simp
  qed
  then show "stock_tables_ok d'" "ledger_off (\<lambda>a. - order_holds order a) d'" "drops_ok d'"
    "\<forall>a. total_stock d' a = total_stock d a" "st_orders d' = st_orders d" by simp_all
qed

lemma cancel_late_order_effect:
  assumes t: "stock_tables_ok d" "ledger_off (\<lambda>a. - order_holds order a) d" "drops_ok d"
    and h: "list_all hold_shape (st_orders d)" and order: "fetch_order d (or_id order) = Some order"
    and st: "or_state order = ''pending_payment''"
    and run: "cancel_late_order new_v4 order reason command_id actor now d = Inr (x, d')"
  shows "books_ok d'" "st_listings d' = st_listings d" "st_payments d' = st_payments d" "st_receipts d' = st_receipts d"
    "\<exists>o1. fetch_order d' (or_id order) = Some o1 \<and> or_state o1 = ''cancelled''"
proof -
  let ?f = "\<lambda>r. r\<lparr>or_state := ''cancelled'', or_revision := or_revision r + 1,
    or_cancellation_reason := Some reason, or_stock_held := False, or_hold_expires_at := None, or_updated_at := now\<rparr>"
  have to: "table_ok or_id order_check (st_orders d)" using t(1) by (simp add: stock_tables_ok_def)
  note guard = update_order_guard [OF to order, of "\<lambda>r. or_state r = ''pending_payment''" ?f, OF st]
  obtain w d1 where u: "update_orders (\<lambda>r. or_id r = or_id order) ?f d = Inr (w, d1)"
    and rest: "(case w of [] \<Rightarrow> Inr ((), d1)
      | row # _ \<Rightarrow> and_then (internal ''late cancel event''
          (insert_event new_v4 command_id (order_aggregate_id (or_id order)) (or_revision row) actor
             ''order.cancelled'' now d1)) (\<lambda>_ d2. Inr ((), d2))) = Inr (x, d')"
    using run unfolding cancel_late_order_def guard route_simps by blast
  have log: "log_step d1 d'"
    using rest insert_event_log by (auto simp: route_simps split: list.splits)
  note b = books_ok_update_order [OF t h order u]
  have b1: "books_ok d1" "st_listings d1 = st_listings d" using b by (auto simp: order_holds_def hold_shape_def)
  have d1: "st_payments d1 = st_payments d" "st_receipts d1 = st_receipts d" using u by (auto simp: orders.upd_Inr)
  note s = log_stepD [OF log]
  show "books_ok d'" using b1(1) books_ok_cong [of d' d1] s by simp
  show "st_listings d' = st_listings d" "st_payments d' = st_payments d" "st_receipts d' = st_receipts d"
    using s b1(2) d1 by simp_all
  have "order_change (or_id order) order (?f order) d d'"
    using update_order_change(1) [OF to order u] order_change_log [OF _ log] by simp
  then show "\<exists>o1. fetch_order d' (or_id order) = Some o1 \<and> or_state o1 = ''cancelled''"
    by (auto simp: order_change_def)
qed

lemma release_late_hold_frame:
  assumes "release_late_hold order now d = Inr (x, d')"
  shows "st_payments d' = st_payments d" "st_receipts d' = st_receipts d"
proof -
  have "st_payments d' = st_payments d \<and> st_receipts d' = st_receipts d"
  proof (cases "or_stock_held order \<and> or_auction_aggregate_id order = None")
    case True
    with assms obtain d1 where c: "credit_order_drop order now d = Inr (Inr (), d1)"
      and r: "release_lines order Reserved now d1 = Inr (Inr (), d')"
      by (auto simp: release_late_hold_def route_simps)
    have "st_payments d1 = st_payments d \<and> st_receipts d1 = st_receipts d"
      using c by (auto simp: credit_order_drop_def credit_drop_release_def seq_eq_Inr drops.upd_Inr purchases.upd_Inr
          refuse_def split: option.splits if_splits)
    moreover have "st_payments d' = st_payments d1 \<and> st_receipts d' = st_receipts d1"
      using release_line_list_frame [OF r [unfolded release_lines_def]] by auto
    ultimately show ?thesis by simp
  qed (use assms in \<open>auto simp: release_late_hold_def\<close>)
  then show "st_payments d' = st_payments d" "st_receipts d' = st_receipts d" by simp_all
qed

lemma stamp_review_reason_effect:
  assumes t: "table_ok pm_id payment_check (st_payments d)"
    and run: "stamp_review_reason new_v4 payment reason ''manual_review'' command_id actor now d = Inr (e, d')"
  shows "\<exists>p p'. fetch pm_id (pm_id payment) (st_payments d) = Some p
      \<and> pm_state p \<in> {''expired'', ''awaiting_entitlement'', ''manual_review'', ''detected''}
      \<and> fetch pm_id (pm_id payment) (st_payments d') = Some p' \<and> pm_state p' = ''manual_review''
      \<and> pm_revision p' = pm_revision p + 1 \<and> pm_review_reason p' = Some reason"
    "\<exists>payments d1. d1 = d\<lparr>st_payments := payments\<rparr> \<and> log_step d1 d'"
proof -
  let ?P = "\<lambda>p. pm_state p \<in> set [''expired'', ''awaiting_entitlement'', ''manual_review'', ''detected'']
    \<and> pm_resolution_outcome p = None"
  let ?f = "\<lambda>p. p\<lparr>pm_state := ''manual_review'', pm_revision := pm_revision p + 1, pm_review_reason := Some reason,
    pm_manual_review_entered_at := (if ''manual_review'' = ''manual_review'' then Some now else pm_manual_review_entered_at p),
    pm_updated_at := now\<rparr>"
  obtain w d1 where u: "update_payments (\<lambda>p. pm_id p = pm_id payment \<and> ?P p) ?f d = Inr (w, d1)"
    and rest: "(case w of [] \<Rightarrow> Inl (Internal ''stamp review_reason'')
      | row # _ \<Rightarrow> internal ''review event''
          (insert_event new_v4 command_id (payment_aggregate_id (pm_id payment)) (pm_revision row) actor
             ''payment.manual_review'' now d1)) = Inr (e, d')"
    using run unfolding stamp_review_reason_def route_simps by blast
  have w: "w \<noteq> []" and log: "log_step d1 d'"
    using rest insert_event_log by (auto simp: route_simps split: list.splits)
  obtain p where p: "fetch pm_id (pm_id payment) (st_payments d) = Some p" "?P p"
    using payments.upd_one [OF t u] w by auto
  have "pm_id p = pm_id payment" using fetch_Some [OF p(1)] by simp
  with p have "fetch pm_id (pm_id payment) (st_payments d1) = Some (?f p)"
    using payments.upd_fetch [OF u, of "pm_id payment"] by simp
  moreover have "st_payments d' = st_payments d1" by (rule log_stepD(6) [OF log])
  ultimately show "\<exists>p p'. fetch pm_id (pm_id payment) (st_payments d) = Some p
      \<and> pm_state p \<in> {''expired'', ''awaiting_entitlement'', ''manual_review'', ''detected''}
      \<and> fetch pm_id (pm_id payment) (st_payments d') = Some p' \<and> pm_state p' = ''manual_review''
      \<and> pm_revision p' = pm_revision p + 1 \<and> pm_review_reason p' = Some reason"
    using p by (intro exI [of _ p] exI [of _ "?f p"]) simp
  show "\<exists>payments d1. d1 = d\<lparr>st_payments := payments\<rparr> \<and> log_step d1 d'"
    using u log by (auto simp: payments.upd_Inr)
qed

lemma refund_notices_log:
  "log_step d (foldl (\<lambda>d' recipient. insert_notification_intent e kind recipient actor a None now d') d recipients)"
  by (induction recipients arbitrary: d) (auto intro: log_step_trans insert_notification_log)

lemma refund_required_effect:
  assumes ok: "books_ok d" and t: "table_ok pm_id payment_check (st_payments d)"
    and order: "fetch_order d (or_id order) = Some order"
    and run: "refund_required new_v4 payment order reason command_id actor now d = Inr (e, d')"
  shows "books_ok d'" "\<forall>a. total_stock d' a = total_stock d a" "st_receipts d' = st_receipts d"
    "\<exists>p p'. fetch pm_id (pm_id payment) (st_payments d) = Some p
      \<and> fetch pm_id (pm_id payment) (st_payments d') = Some p' \<and> pm_state p' = ''manual_review''
      \<and> pm_revision p' = pm_revision p + 1"
proof -
  obtain d1 d2 where st: "stamp_review_reason new_v4 payment ''refund_required'' ''manual_review'' command_id actor now d
      = Inr (e, d1)"
    and mid: "(if or_state order = ''pending_payment''
       then and_then (release_late_hold order now d1)
              (\<lambda>_. cancel_late_order new_v4 order reason command_id actor now)
       else Inr ((), d1)) = Inr ((), d2)"
    and d': "d' = foldl (\<lambda>d' recipient. insert_notification_intent e ''payment_refund_required'' recipient
        actor (order_aggregate_id (or_id order)) None now d') d2 [or_buyer_pubky order, or_seller_pubky order]"
    using run by (auto simp: refund_required_def and_then_eq_Inr simp del: foldl.simps)
  have log: "log_step d2 d'" unfolding d' by (rule refund_notices_log)
  note sp = stamp_review_reason_effect [OF t st]
  obtain payments d0 where d0: "d0 = d\<lparr>st_payments := payments\<rparr>" "log_step d0 d1" using sp(2) by blast
  note s1 = log_stepD [OF d0(2)]
  have b1: "books_ok d1" and l1: "st_listings d1 = st_listings d" "st_receipts d1 = st_receipts d"
      "fetch_order d1 (or_id order) = Some order"
    using ok order books_ok_cong [of d1 d] by (simp_all add: s1 d0(1) fetch_order_def)
  have "books_ok d2 \<and> (\<forall>a. total_stock d2 a = total_stock d1 a) \<and> st_receipts d2 = st_receipts d1
    \<and> st_payments d2 = st_payments d1"
  proof (cases "or_state order = ''pending_payment''")
    case False
    with mid b1 show ?thesis by auto
  next
    case True
    with mid obtain dm where rel: "release_late_hold order now d1 = Inr ((), dm)"
      and can: "cancel_late_order new_v4 order reason command_id actor now dm = Inr ((), d2)"
      by (auto simp: and_then_eq_Inr)
    have h: "hold_shape order" "list_all hold_shape (st_orders d1)"
      using b1 l1(3) fetch_Some by (fastforce simp: books_ok_def list_all_iff fetch_order_def)+
    note r = release_late_hold_effect [OF b1 rel h(1)]
    have hm: "list_all hold_shape (st_orders dm)" "fetch_order dm (or_id order) = Some order"
      using h(2) l1(3) by (simp_all add: r(5) fetch_order_def)
    note c = cancel_late_order_effect [OF r(1-3) hm True can]
    show ?thesis
      using c(1,3,4) r(4) total_stock_cong [OF c(2)] release_late_hold_frame [OF rel] by simp
  qed
  note d2 = this
  note s2 = log_stepD [OF log]
  show "books_ok d'" using d2 books_ok_cong [of d' d2] s2 by simp
  show "\<forall>a. total_stock d' a = total_stock d a"
    using d2 total_stock_cong [OF s2(1)] total_stock_cong [OF l1(1)] by simp
  show "st_receipts d' = st_receipts d" using d2 s2 l1 by simp
  show "\<exists>p p'. fetch pm_id (pm_id payment) (st_payments d) = Some p
      \<and> fetch pm_id (pm_id payment) (st_payments d') = Some p' \<and> pm_state p' = ''manual_review''
      \<and> pm_revision p' = pm_revision p + 1"
    using sp(1) d2 s2(6) by auto
qed

section \<open>The sandbox command\<close>

lemma sandbox_edges:
  "has_edge payment_machine ''payment.sandbox_advance'' ''awaiting_entitlement'' ''detected''"
  "has_edge payment_machine ''payment.sandbox_advance'' ''awaiting_entitlement'' ''confirmed''"
  "has_edge payment_machine ''payment.sandbox_advance'' ''awaiting_entitlement'' ''expired''"
  "has_edge payment_machine ''payment.sandbox_advance'' ''awaiting_entitlement'' ''manual_review''"
  "has_edge payment_machine ''payment.sandbox_advance'' ''detected'' ''confirmed''"
  "has_edge payment_machine ''payment.sandbox_advance'' ''detected'' ''manual_review''"
  by code_simp+

lemma payment_edges:
  assumes "target \<in> set (sandbox_targets state)"
  shows "has_edge payment_machine ''payment.sandbox_advance'' state target"
    "has_edge payment_machine ''payment.sandbox_advance'' state ''manual_review''"
  using assms by (auto simp: sandbox_targets_def sandbox_edges split: if_splits)

lemma advance_run:
  assumes "advance new_v4 receipt_hash actor command payload window keys now d = Inr (Inr s, d')"
  obtains payment order order' d1 where
    "fetch pm_id (asp_payment_id payload) (st_payments d) = Some payment" "pm_buyer_pubky payment = actor"
    "sandbox_target_as_str (asp_target payload) \<in> set (sandbox_targets (pm_state payment))"
    "fetch_order d (pm_order_id payment) = Some order"
    "d1 = d \<and> order' = order \<or> acquire_payment_hold order window HOLD_SOURCE_SANDBOX now d = Inr (Inr order', d1)"
    "sandbox_refund new_v4 actor command payment order' now d1 = Inr (Inr s, d')
     \<or> advance_payment_row new_v4 receipt_hash actor command payload payment order' keys now d1 = Inr (Inr s, d')"
proof -
  obtain payment order where p: "fetch pm_id (asp_payment_id payload) (st_payments d) = Some payment"
      "pm_buyer_pubky payment = actor"
      "sandbox_target_as_str (asp_target payload) \<in> set (sandbox_targets (pm_state payment))"
      "fetch_order d (pm_order_id payment) = Some order"
    and l: "advance_locked new_v4 receipt_hash actor command payload window payment order keys now d = Inr (Inr s, d')"
    using assms by (auto simp: advance_def Let_def split: option.splits if_splits)
  obtain order' d1 where
      "d1 = d \<and> order' = order \<or> acquire_payment_hold order window HOLD_SOURCE_SANDBOX now d = Inr (Inr order', d1)"
      "sandbox_refund new_v4 actor command payment order' now d1 = Inr (Inr s, d')
       \<or> advance_payment_row new_v4 receipt_hash actor command payload payment order' keys now d1 = Inr (Inr s, d')"
    using l unfolding advance_locked_def attempt_accept by (metis Inr_inject prod.inject)
  with that p show thesis by blast
qed

lemma sandbox_refund_effect:
  assumes ok: "books_ok d" "table_ok pm_id payment_check (st_payments d)"
    and p: "fetch pm_id (pm_id payment) (st_payments d) = Some payment"
    and target: "target \<in> set (sandbox_targets (pm_state payment))"
    and order: "fetch_order d (or_id order) = Some order"
    and run: "sandbox_refund new_v4 actor command payment order now d = Inr (Inr s, d')"
  shows "books_ok d' \<and> (\<forall>a. total_stock d' a = total_stock d a) \<and> payment_step payment d d'"
proof -
  obtain e where r: "refund_required new_v4 payment order ''digital delivery unavailable at payment''
      (cmd_command_id command) actor now d = Inr (e, d')"
    using run by (auto simp: sandbox_refund_def split: sum.splits option.splits)
  note e = refund_required_effect [OF ok order r]
  obtain p' where p': "fetch pm_id (pm_id payment) (st_payments d') = Some p'" "pm_state p' = ''manual_review''"
      "pm_revision p' = pm_revision payment + 1"
    using e(4) p by auto
  have "payment_step payment d d'"
    unfolding payment_step_def receipt_outcome_def
    using p' e(3) payment_edges(2) [OF target] by (intro exI [of _ p']) simp
  with e(1,2) show ?thesis by simp
qed

lemma advance_payment_row_effect:
  assumes ok: "books_ok d" "table_ok pm_id payment_check (st_payments d)"
    and p: "fetch pm_id (pm_id payment) (st_payments d) = Some payment"
    and target: "sandbox_target_as_str (asp_target payload) \<in> set (sandbox_targets (pm_state payment))"
    and order: "fetch_order d (pm_order_id payment) = Some order" and w: "winner_hold d order"
    and run: "advance_payment_row new_v4 receipt_hash actor command payload payment order keys now d = Inr (Inr s, d')"
  shows "books_ok d' \<and> (\<forall>a. total_stock d' a = total_stock d a) \<and> payment_step payment d d'"
proof -
  let ?t = "sandbox_target_as_str (asp_target payload)"
  let ?f = "advanced_payment ?t (asp_confirmations payload) now"
  obtain updated v d1 e d2 where u: "update_payments (\<lambda>p. pm_id p = pm_id payment) ?f d = Inr (updated # v, d1)"
    and ev: "insert_event new_v4 (cmd_command_id command) (cmd_aggregate_id command) (pm_revision updated) actor
       (''payment.'' @ ?t) now d1 = Inr (e, d2)"
    and tail: "(if ?t = ''confirmed''
       then attempt (confirm_order new_v4 receipt_hash actor (cmd_command_id command) payment order keys now d2)
              (\<lambda>(order', receipt, receipt_event_id) d3.
                 Inr (Inr (payment_result (pm_revision updated) [e, receipt_event_id] updated order' (Some receipt)
                        (insert_notification_intent e ''payment_confirmed'' (or_seller_pubky order') actor
                           (order_aggregate_id (or_id order')) None now d3)),
                      insert_notification_intent e ''payment_confirmed'' (or_seller_pubky order') actor
                        (order_aggregate_id (or_id order')) None now d3))
       else Inr (Inr (payment_result (pm_revision updated) [e] updated order None d2), d2)) = Inr (Inr s, d')"
    using run unfolding advance_payment_row_def Let_def seq_eq_Inr fetch_one_Inr by blast
  have rest: "if ?t = ''confirmed''
       then \<exists>order' receipt re d3. confirm_order new_v4 receipt_hash actor (cmd_command_id command) payment order keys now d2
              = Inr (Inr (order', receipt, re), d3) \<and> log_step d3 d'
       else d' = d2"
    using tail by (cases "?t = ''confirmed''") (auto simp: attempt_accept intro: insert_notification_log)
  have p1: "fetch pm_id (pm_id payment) (st_payments d1) = Some (?f payment)"
    using payments.upd_fetch [OF u, of "pm_id payment"] p by (simp add: advanced_payment_def)
  note s1 = log_stepD [OF insert_event_log [OF ev]]
  have d1: "d1 = d\<lparr>st_payments := st_payments d1\<rparr>" using u by (auto simp: payments.upd_Inr)
  have same: "st_listings d2 = st_listings d" "st_reservations d2 = st_reservations d" "st_orders d2 = st_orders d"
      "st_drops d2 = st_drops d" "st_drop_purchases d2 = st_drop_purchases d" "st_receipts d2 = st_receipts d"
    unfolding s1 by (subst d1, simp)+
  have b2: "books_ok d2" "\<forall>a. total_stock d2 a = total_stock d a"
    using ok(1) books_ok_cong [of d2 d] total_stock_cong [of d2 d] same by simp_all
  have k: "or_id order = pm_order_id payment" by (rule fetch_order_id [OF order])
  have wr: "winner_reservations d2 = winner_reservations d" by (simp add: fun_eq_iff winner_reservations_def same)
  have o2: "fetch_order d2 (or_id order) = Some order" "winner_hold d2 order"
    using order w by (simp_all only: k fetch_order_def winner_hold_def same wr)
  have edge: "has_edge payment_machine ''payment.sandbox_advance'' (pm_state payment) ?t" by (rule payment_edges(1) [OF target])
  have step: "payment_step payment d d'"
    if "st_payments d' = st_payments d1" "receipt_outcome payment (?f payment) d d'"
    unfolding payment_step_def using that p1 edge
    by (intro exI [of _ "?f payment"]) (simp add: advanced_payment_def)
  show ?thesis
  proof (cases "?t = ''confirmed''")
    case False
    then have "d' = d2" using rest by simp
    moreover have "receipt_outcome payment (?f payment) d d2"
      using False same by (simp add: receipt_outcome_def advanced_payment_def)
    ultimately show ?thesis using b2 step s1(6) by simp
  next
    case True
    then obtain order' receipt re d3 where c: "confirm_order new_v4 receipt_hash actor (cmd_command_id command) payment
        order keys now d2 = Inr (Inr (order', receipt, re), d3)" and log: "log_step d3 d'"
      using rest by auto
    note ce = confirm_order_effect [OF b2(1) o2 c]
    note s3 = log_stepD [OF log]
    have "receipt_outcome payment (?f payment) d d'"
      unfolding receipt_outcome_def
      using True ce(4,5,6,7,9,10,11) same(6)
      by (auto simp: advanced_payment_def s3 order_change_def fetch_order_def k receipt_clash_def list_ex_iff
          intro!: exI [of _ receipt])
    moreover have "st_payments d' = st_payments d1" using s3(6) ce(3) s1(6) by simp
    moreover have "books_ok d'" using ce(1) books_ok_cong [of d' d3] s3 by simp
    moreover have "\<forall>a. total_stock d' a = total_stock d a"
      using ce(2) b2(2) total_stock_cong [OF s3(1)] by simp
    ultimately show ?thesis using step by simp
  qed
qed

lemma advance_effect:
  assumes ok: "books_ok d" "table_ok pm_id payment_check (st_payments d)" "list_all (winner_hold d) (st_orders d)"
    and run: "advance new_v4 receipt_hash actor command payload window keys now d = Inr (Inr s, d')"
  shows "books_ok d' \<and> (\<forall>a. total_stock d' a = total_stock d a)
    \<and> (\<exists>p. fetch pm_id (asp_payment_id payload) (st_payments d) = Some p \<and> pm_buyer_pubky p = actor
         \<and> payment_step p d d')"
proof -
  obtain payment order order' d1 where p: "fetch pm_id (asp_payment_id payload) (st_payments d) = Some payment"
      "pm_buyer_pubky payment = actor"
      "sandbox_target_as_str (asp_target payload) \<in> set (sandbox_targets (pm_state payment))"
    and order: "fetch_order d (pm_order_id payment) = Some order"
    and d1: "d1 = d \<and> order' = order \<or> acquire_payment_hold order window HOLD_SOURCE_SANDBOX now d = Inr (Inr order', d1)"
    and rest: "sandbox_refund new_v4 actor command payment order' now d1 = Inr (Inr s, d')
     \<or> advance_payment_row new_v4 receipt_hash actor command payload payment order' keys now d1 = Inr (Inr s, d')"
    by (rule advance_run [OF run])
  have k: "or_id order = pm_order_id payment" by (rule fetch_order_id [OF order])
  have pk: "pm_id payment = asp_payment_id payload" using fetch_Some [OF p(1)] by simp
  have w: "winner_hold d order" using ok(3) order fetch_Some by (fastforce simp: list_all_iff fetch_order_def)
  have o': "fetch_order d (or_id order) = Some order" using order by (simp add: k)
  have a: "books_ok d1 \<and> (\<forall>a. total_stock d1 a = total_stock d a) \<and> fetch_order d1 (pm_order_id payment) = Some order'
    \<and> winner_hold d1 order' \<and> or_id order' = pm_order_id payment \<and> st_payments d1 = st_payments d
    \<and> st_receipts d1 = st_receipts d"
    using d1 ok(1) order w acquire_hold_books [OF ok(1) o' w] by (auto simp: k order_change_def)
  have t1: "table_ok pm_id payment_check (st_payments d1)"
    and p1: "fetch pm_id (pm_id payment) (st_payments d1) = Some payment"
    and o1: "fetch_order d1 (or_id order') = Some order'"
    using ok(2) p(1) a by (simp_all add: pk)
  have "books_ok d' \<and> (\<forall>a. total_stock d' a = total_stock d1 a) \<and> payment_step payment d1 d'"
    using rest sandbox_refund_effect [OF _ t1 p1 p(3) o1] advance_payment_row_effect [OF _ t1 p1 p(3)] a by blast
  moreover have "payment_step payment d1 d' = payment_step payment d d'"
    using a by (simp add: payment_step_def receipt_outcome_def)
  ultimately show ?thesis using p(1,2) a by auto
qed

section \<open>Pins\<close>

lemma ring_open_draw_seal:
  assumes "aead_ok (kr_cipher ring)" "\<And>n. length (kr_nonce ring n) = XNONCE_LEN"
    and "draw_seal ring aad p d = (sealed, d')"
  shows "ring_open ring aad sealed = Some p"
  using assms keys_open_seal [OF assms(1,2)] by (auto simp: draw_seal_def ring_open_def key_material_def)

lemma insert_digital_pin_rows:
  "insert_digital_pin p d = Inr (x, d') \<Longrightarrow> st_digital_pins d' = st_digital_pins d @ [p]"
  by (auto simp: insert_digital_pin_def sql_insert_def split: if_splits)

lemma pin_line_list_pins:
  assumes "aead_ok (kr_cipher ring)" "\<And>n. length (kr_nonce ring n) = XNONCE_LEN"
    and "pin_line_list order_id adapter ring now lines d = Inr (x, d')"
  shows "set (st_digital_pins d) \<subseteq> set (st_digital_pins d')
    \<and> (\<forall>(i, a, kind) \<in> set lines. \<exists>v pin. current_version d a = Some v \<and> pin \<in> set (st_digital_pins d')
         \<and> dx_order_id pin = order_id \<and> dx_line_index pin = i \<and> dx_listing_aggregate_id pin = a
         \<and> dx_version pin = dv_version v
         \<and> ring_open ring (pin_aad order_id i a (dv_deliverable_id v) (dv_version v)) (dx_ciphertext pin)
             = ring_open ring (version_aad a (dv_deliverable_id v) (dv_version v) kind) (dv_ciphertext v)
         \<and> ring_open ring (version_aad a (dv_deliverable_id v) (dv_version v) kind) (dv_ciphertext v) \<noteq> None)"
  using assms(3)
proof (induction lines arbitrary: d)
  case (Cons l lines)
  obtain i a kind where l: "l = (i, a, kind)" by (cases l)
  obtain v p sealed d1 d2 pin where v: "current_version d a = Some v"
    and p: "ring_open ring (version_aad a (dv_deliverable_id v) (dv_version v) kind) (dv_ciphertext v) = Some p"
    and s: "draw_seal ring (pin_aad order_id i a (dv_deliverable_id v) (dv_version v)) p d = (sealed, d1)"
    and ins: "insert_digital_pin pin d1 = Inr ((), d2)"
    and pin: "pin = \<lparr>dx_order_id = order_id, dx_line_index = i, dx_listing_aggregate_id = a,
       dx_deliverable_id = dv_deliverable_id v, dx_version = dv_version v, dx_kind = delivery_kind_as_str kind,
       dx_ciphertext = sealed, dx_confirming_adapter = adapter, dx_created_at = now\<rparr>"
    and rest: "pin_line_list order_id adapter ring now lines d2 = Inr (x, d')"
    using Cons.prems by (auto simp: l Let_def seq_eq_Inr split: option.splits prod.splits)
  have versions: "current_version d2 b = current_version d b" for b
    using pin_stepD(8) [OF draw_seal_step [OF s]] pin_stepD(8) [OF insert_digital_pin_step [OF ins]]
    by (simp add: current_version_def)
  have pins: "st_digital_pins d2 = st_digital_pins d @ [pin]"
    using insert_digital_pin_rows [OF ins] s by (auto simp: draw_seal_def)
  note ih = Cons.IH [OF rest, unfolded versions pins]
  have "ring_open ring (pin_aad order_id i a (dv_deliverable_id v) (dv_version v)) (dx_ciphertext pin) = Some p"
    using ring_open_draw_seal [OF assms(1,2) s] by (simp add: pin)
  moreover have "pin \<in> set (st_digital_pins d')" using ih by auto
  moreover have "dx_order_id pin = order_id" "dx_line_index pin = i" "dx_listing_aggregate_id pin = a"
      "dx_version pin = dv_version v" by (simp_all add: pin)
  ultimately show ?case using ih v p by (auto simp: l)
qed simp

lemma sell_line_list_frame: "sell_line_list lines now d = Inr (x, d') \<Longrightarrow> st_digital_versions d' = st_digital_versions d"
proof (induction lines arbitrary: d)
  case (Cons line lines)
  then obtain y d1 where y: "sell_line line now d = Inr (y, d1)"
    and rest: "d' = d1 \<or> sell_line_list lines now d1 = Inr (x, d')"
    by (fastforce elim: attempt_cases)
  have "st_digital_versions d1 = st_digital_versions d"
    using y by (auto simp: sell_line_def refuse_def seq_eq_Inr listings.upd_Inr split: option.splits if_splits)
  with rest Cons.IH [of d1] show ?case by auto
qed simp

lemma confirm_pins:
  assumes run: "confirm_order new_v4 receipt_hash actor command_id payment order keys now d
      = Inr (Inr (updated, receipt, e), d')" and dg: "or_fulfillment order = ''digital''"
    and ne: "instant_lines order \<noteq> []"
  obtains d3 ring d4 d5 where "st_digital_versions d3 = st_digital_versions d" "ck_digital keys = Some ring"
    "pin_line_list (or_id order) (pm_adapter payment) ring now (instant_lines order) d3 = Inr ((), d4)"
    "st_digital_pins d' = st_digital_pins d4"
proof (rule confirm_order_run [OF run])
  fix d1 edition d2 d3
  assume s: "convert_reservations order now d = Inr (Inr (), d1)"
      "take_edition new_v4 order actor command_id now d1 = Inr (Inr edition, d2)"
      "sell_line_list (or_lines order) now d2 = Inr (Inr (), d3)"
    and r: "record_confirmation new_v4 receipt_hash actor command_id payment order edition keys now d3
       = Inr ((updated, receipt, e), d')"
  have "st_digital_versions d1 = st_digital_versions d"
    using s(1) by (auto simp: convert_reservations_def seq_eq_Inr reservations.upd_Inr split: option.splits if_splits)
  moreover have "st_digital_versions d2 = st_digital_versions d1"
    using s(2) record_paid_unit_paid
    by (fastforce simp: take_edition_def attempt_accept paid_frame_def split: option.splits)
  ultimately have v3: "st_digital_versions d3 = st_digital_versions d" using sell_line_list_frame [OF s(3)] by simp
  show thesis
  proof (rule record_confirmation_run [OF r])
    fix d4 lines d5 w d6
    assume i: "issue_receipt new_v4 receipt_hash payment order now d3 = Inr (receipt, d4)"
      and p: "pin_order keys (pm_adapter payment) order now d4 = Inr (lines, d5)"
      and u: "update_orders (\<lambda>r. or_id r = or_id order) (confirmed_row order (re_id receipt) edition lines now) d5
         = Inr (updated # w, d6)" and log: "log_step d6 d'"
    obtain ring where "ck_digital keys = Some ring"
      "pin_line_list (or_id order) (pm_adapter payment) ring now (instant_lines order) d4 = Inr ((), d5)"
      using p dg ne by (auto simp: pin_order_def pin_digital_lines_def seq_eq_Inr split: option.splits)
    moreover have "st_digital_versions d4 = st_digital_versions d"
      using issue_receipt_Inr(1) [OF i] v3 by simp
    moreover have "st_digital_pins d' = st_digital_pins d5"
      using u log by (auto simp: orders.upd_Inr log_step_def)
    ultimately show thesis using that by blast
  qed
qed

section \<open>Properties\<close>

lemma sample_pay_ok:
  "books_ok sample_pay_db" "table_ok pm_id payment_check (st_payments sample_pay_db)"
  "list_all (winner_hold sample_pay_db) (st_orders sample_pay_db)"
proof -
  have "stock_ok sample_pay_db = stock_ok sample_stock_db" "drops_ok sample_pay_db = drops_ok sample_stock_db"
    by (rule stock_ok_cong drops_ok_cong; simp add: sample_pay_db_def)+
  then show "books_ok sample_pay_db"
    using sample_stock_ok(1) sample_stock_drops
    by (simp add: books_ok_def hold_shape_def sample_pay_db_def sample_stock_db_def sample_order_def)
  show "table_ok pm_id payment_check (st_payments sample_pay_db)"
    by (simp add: table_ok_def sample_pay_db_def sample_payment_def payment_check_def in_bigint_def i64_min_def i64_max_def)
  show "list_all (winner_hold sample_pay_db) (st_orders sample_pay_db)"
    by (simp add: sample_pay_db_def sample_stock_db_def sample_order_def winner_hold_def)
qed



text \<open>What the buyer paid for is what is pinned.  After an accepted confirmation of a digital order, every
  line that is delivered at once has a pin of its own order, line and listing; it carries the version that was
  current, of the kind the line promised, and opens under the configured keys to exactly the payload the seller
  had sealed as that version.\<close>

theorem confirmed_lines_pinned:
  assumes "aead_ok (kr_cipher ring)" "\<forall>n. length (kr_nonce ring n) = XNONCE_LEN" "ck_digital keys = Some ring"
    and "or_fulfillment order = ''digital''" "(i, a, kind) \<in> set (instant_lines order)"
    and "confirm_order new_v4 receipt_hash actor command_id payment order keys now d
      = Inr (Inr (updated, receipt, e), d')"
  shows "\<exists>v pin p. current_version d a = Some v \<and> dv_kind v = delivery_kind_as_str kind
    \<and> pin \<in> set (st_digital_pins d') \<and> dx_order_id pin = or_id order \<and> dx_line_index pin = i
    \<and> dx_listing_aggregate_id pin = a \<and> dx_version pin = dv_version v
    \<and> ring_open ring (version_aad a (dv_deliverable_id v) (dv_version v) kind) (dv_ciphertext v) = Some p
    \<and> ring_open ring (pin_aad (or_id order) i a (dv_deliverable_id v) (dv_version v)) (dx_ciphertext pin) = Some p"
proof -
  have ne: "instant_lines order \<noteq> []" using assms(5) by auto
  obtain d3 d4 where v3: "st_digital_versions d3 = st_digital_versions d"
    and pl: "pin_line_list (or_id order) (pm_adapter payment) ring now (instant_lines order) d3 = Inr ((), d4)"
    and pins: "st_digital_pins d' = st_digital_pins d4"
    using confirm_pins [OF assms(6,4) ne] assms(3) by (metis option.inject)
  have versions: "current_version d3 b = current_version d b" for b by (simp add: current_version_def v3)
  have pinnable: "\<not> unpinnable d order" using assms(6) by (auto simp: confirm_order_def split: if_splits)
  obtain v pin where "current_version d a = Some v" "pin \<in> set (st_digital_pins d')" "dx_order_id pin = or_id order"
      "dx_line_index pin = i" "dx_listing_aggregate_id pin = a" "dx_version pin = dv_version v"
      "ring_open ring (pin_aad (or_id order) i a (dv_deliverable_id v) (dv_version v)) (dx_ciphertext pin)
         = ring_open ring (version_aad a (dv_deliverable_id v) (dv_version v) kind) (dv_ciphertext v)"
      "ring_open ring (version_aad a (dv_deliverable_id v) (dv_version v) kind) (dv_ciphertext v) \<noteq> None"
    using pin_line_list_pins [OF assms(1) _ pl] assms(2,5) versions pins by fastforce
  moreover from this(1) have "dv_kind v = delivery_kind_as_str kind"
    using assms(4,5) pinnable by (auto simp: unpinnable_def list_ex_iff)
  ultimately show ?thesis by auto
qed

theorem confirmed_lines_pinned_witness:
  "\<exists>c d' pin. confirm_order (\<lambda>n. show_nat n) (\<lambda>_ _ _ _ _. ''hash'') ''buyer'' ''c3'' sample_payment sample_digital_order
       sample_keys_of 50 sample_digital_db = Inr (Inr c, d')
     \<and> pin \<in> set (st_digital_pins d')
     \<and> ring_open sample_ring (pin_aad ''o1'' 0 ''listing:l'' sample_deliverable 1) (dx_ciphertext pin) = Some ''the text''"
proof -
  let ?run = "confirm_order (\<lambda>n. show_nat n) (\<lambda>_ _ _ _ _. ''hash'') ''buyer'' ''c3'' sample_payment sample_digital_order
       sample_keys_of 50 sample_digital_db"
  have "accepted ?run" by code_simp
  then obtain o1 re e d' where run: "?run = Inr (Inr (o1, re, e), d')" by (auto simp: accepted_iff)
  have n: "length sample_nonce = XNONCE_LEN" by (simp add: XNONCE_LEN_def sample_nonce_def)
  have h: "aead_ok (kr_cipher sample_ring)" "\<forall>n. length (kr_nonce sample_ring n) = XNONCE_LEN"
      "ck_digital sample_keys_of = Some sample_ring" "or_fulfillment sample_digital_order = ''digital''"
      "or_id sample_digital_order = ''o1''"
    using sample_cipher_ok n by (simp_all add: sample_ring_def sample_keys_of_def sample_digital_order_def sample_order_def)
  have "instant_lines sample_digital_order = [(0, ''listing:l'', KText)]" by code_simp
  then have i: "(0, ''listing:l'', KText) \<in> set (instant_lines sample_digital_order)" by simp
  have v: "current_version sample_digital_db ''listing:l'' = Some sample_version"
    by (simp add: current_version_def sample_digital_db_def sample_version_def)
  have "ring_open sample_ring (version_aad ''listing:l'' sample_deliverable 1 KText) (dv_ciphertext sample_version)
      = Some ''the text''"
    unfolding ring_open_def sample_version_def
    using keys_open_seal [OF sample_cipher_ok n] by (simp add: sample_ring_def key_material_def)
  moreover have "dv_deliverable_id sample_version = sample_deliverable" "dv_version sample_version = 1"
    by (simp_all add: sample_version_def)
  ultimately obtain pin where "pin \<in> set (st_digital_pins d')"
      "ring_open sample_ring (pin_aad ''o1'' 0 ''listing:l'' sample_deliverable 1) (dx_ciphertext pin) = Some ''the text''"
    using confirmed_lines_pinned [OF h(1-4) i run] v h(5) by auto
  with run show ?thesis by blast
qed

end
