(* ===== verification/Checkout.thy ===== *)
theory Checkout
  imports Payments
begin

text \<open>
  \<^verbatim>\<open>handlers/checkout.rs\<close>: \<open>checkout.create\<close>.  The lines are read, gated by a drop when one is bound, validated
  again, grouped by seller and fulfillment, and every group becomes one order with its payment; a drop
  checkout holds its unit at once, any other holds nothing.

  The subtotal is computed in \<open>i64\<close> and wraps in the release profile.  BLAKE3 is the parameter \<open>blake3_hex\<close>.
\<close>

section \<open>Reading the lines\<close>

type_synonym resolved_line = "checkout_line \<times> listing_row"

definition checkout_unavailable :: command_failure where
  "checkout_unavailable = refused RNotFound NotFound ''A checkout listing is unavailable.''"

fun peek_lines :: "pubky \<Rightarrow> checkout_line list \<Rightarrow> db \<Rightarrow> command_failure + resolved_line list" where
  "peek_lines actor [] d = Inr []"
| "peek_lines actor (line # lines) d =
     (case fetch_live_listing d (cl_listing_aggregate_id line) of
        None \<Rightarrow> Inl checkout_unavailable
      | Some listing \<Rightarrow>
          if ls_seller_pubky listing = actor
          then Inl (refused RUnauthorized Unauthorized ''A buyer cannot purchase their own listing.'')
          else if ls_sale_format listing \<noteq> ''fixed_price''
          then Inl (refused RInvalidState InvalidState ''Only fixed-price listings can enter checkout.'')
          else (case peek_lines actor lines d of Inl f \<Rightarrow> Inl f | Inr rest \<Rightarrow> Inr ((line, listing) # rest)))"

fun bound_drop :: "resolved_line list \<Rightarrow> db \<Rightarrow> drop_row option" where
  "bound_drop [] d = None"
| "bound_drop ((_, listing) # rest) d =
     (case lock_bound_drop (ls_seller_pubky listing) (ls_listing_id listing) d of
        Some drp \<Rightarrow> Some drp
      | None \<Rightarrow> bound_drop rest d)"

definition DROP_SINGLE_LINE :: string where
  "DROP_SINGLE_LINE = ''A drop order is one unit of one listing per checkout.''"

definition gate_checkout ::
  "uuid_source \<Rightarrow> pubky \<Rightarrow> uuid \<Rightarrow> resolved_line list \<Rightarrow> datetime \<Rightarrow> db \<Rightarrow> (command_failure + string option) tx" where
  "gate_checkout new_v4 actor command_id peeked now d =
     (case bound_drop peeked d of
        None \<Rightarrow> Inr (Inr None, d)
      | Some drp \<Rightarrow>
          if length peeked \<noteq> 1 \<or> cl_quantity (fst (hd peeked)) \<noteq> 1
          then refuse (refused RInvalidCommand InvalidCommand DROP_SINGLE_LINE) d
          else
            attempt (enforce_drop_gate new_v4 drp actor 1 command_id now d)
              (\<lambda>drp d1. Inr (Inr (Some (dr_aggregate_id drp)), d1)))"

fun resolve_lines :: "checkout_line list \<Rightarrow> db \<Rightarrow> command_failure + resolved_line list" where
  "resolve_lines [] d = Inr []"
| "resolve_lines (line # lines) d =
     (case fetch_live_listing d (cl_listing_aggregate_id line) of
        None \<Rightarrow> Inl checkout_unavailable
      | Some listing \<Rightarrow>
          if ls_state listing = ''reserved'' then Inl (refused RInvalidState InvalidState HOLDING_COPY)
          else if ls_state listing = ''sold''
          then Inl (refused RInvalidState InvalidState ''This listing has sold out.'')
          else if ls_state listing \<noteq> ''available''
          then Inl (refused RInvalidState InvalidState ''Only available fixed-price listings can enter checkout.'')
          else if cl_expected_revision line \<noteq> ls_server_revision listing
          then Inl (refused_with_revision RRevisionConflict RevisionConflict
                 ''A checkout listing revision is stale.'' (ls_server_revision listing))
          else if ls_available_quantity listing < cl_quantity line
          then Inl (refused_with_revision RInsufficientInventory InsufficientInventory
                 ''Checkout quantity is unavailable.'' (ls_server_revision listing))
          else (case resolve_lines lines d of Inl f \<Rightarrow> Inl f | Inr rest \<Rightarrow> Inr ((line, listing) # rest)))"

definition same_assets :: "resolved_line list \<Rightarrow> bool" where
  "same_assets resolved \<longleftrightarrow>
     list_all (\<lambda>(_, listing). ls_unit_price_currency listing = ls_unit_price_currency (snd (hd resolved))
                 \<and> ls_unit_price_exponent listing = ls_unit_price_exponent (snd (hd resolved))) resolved"

section \<open>Grouping\<close>

record checkout_group =
  cg_seller :: pubky
  cg_method :: fulfillment_method
  cg_lines :: "resolved_line list"

definition line_method :: "checkout_line \<Rightarrow> fulfillment_method" where
  "line_method line = (case cl_fulfillment line of Some m \<Rightarrow> m | None \<Rightarrow> Shipping)"

definition digital_unavailable :: command_failure where
  "digital_unavailable =
     refused_with_reason RInvalidState InvalidState ''Digital delivery is unavailable on this deployment.''
       ''digital_delivery_unavailable''"

text \<open>The checks a line passes before it joins its group.\<close>

definition line_refusal :: "bool \<Rightarrow> resolved_line \<Rightarrow> command_failure option" where
  "line_refusal digital_enabled rl =
     (let (line, listing) = rl; method = line_method line
      in if fulfillment_as_str method \<notin> set (ls_fulfillment_methods listing)
         then Some (refused_with_reason RInvalidState InvalidState
                ''A checkout line's listing does not publish the chosen fulfillment method.''
                ''fulfillment_not_published'')
         else if method = Digital \<and> \<not> digital_enabled then Some digital_unavailable
         else if method = Digital \<and> Option.bind (ls_digital_delivery_kind listing) delivery_kind_parse = None
         then Some (refused_with_reason RInvalidState InvalidState
                ''The seller has not finished setting up delivery for this item.'' ''digital_delivery_not_ready'')
         else None)"

fun join_group :: "resolved_line \<Rightarrow> checkout_group list \<Rightarrow> checkout_group list" where
  "join_group (line, listing) [] =
     [\<lparr>cg_seller = ls_seller_pubky listing, cg_method = line_method line, cg_lines = [(line, listing)]\<rparr>]"
| "join_group (line, listing) (g # gs) =
     (if cg_seller g = ls_seller_pubky listing \<and> cg_method g = line_method line
      then g\<lparr>cg_lines := cg_lines g @ [(line, listing)]\<rparr> # gs
      else g # join_group (line, listing) gs)"

fun group_lines ::
  "bool \<Rightarrow> resolved_line list \<Rightarrow> checkout_group list \<Rightarrow> command_failure + checkout_group list" where
  "group_lines digital_enabled [] groups = Inr groups"
| "group_lines digital_enabled (rl # rest) groups =
     (case line_refusal digital_enabled rl of
        Some failure \<Rightarrow> Inl failure
      | None \<Rightarrow> group_lines digital_enabled rest (join_group rl groups))"

definition is_email_line :: "resolved_line \<Rightarrow> bool" where
  "is_email_line rl \<longleftrightarrow> ls_digital_delivery_kind (snd rl) = Some ''email''"

definition is_email_group :: "checkout_group \<Rightarrow> bool" where
  "is_email_group g \<longleftrightarrow> cg_method g = Digital \<and> list_ex is_email_line (cg_lines g)"

definition invalid_email :: command_failure where
  "invalid_email =
     refused_with_reason RInvalidCommand InvalidCommand ''The delivery email address is not valid.''
       ''invalid_delivery_email''"

text \<open>The address and email rules, once the groups are known.\<close>

definition contact_refusal :: "create_checkout_payload \<Rightarrow> checkout_group list \<Rightarrow> command_failure option" where
  "contact_refusal payload groups =
     (let any_shipped = list_ex (\<lambda>g. cg_method g = Shipping) groups;
          any_email_line = list_ex is_email_group groups
      in if cc_delivery_address payload \<noteq> None \<and> \<not> any_shipped
         then Some (refused RInvalidCommand InvalidCommand
                ''A checkout with no shipped group must not carry a delivery address.'')
         else if cc_delivery_address payload = None \<and> any_shipped
         then Some (refused RInvalidCommand InvalidCommand
                ''A delivery address is required when any checkout group ships.'')
         else
           (case cc_delivery_email payload of
              None \<Rightarrow>
                if any_email_line
                then Some (refused_with_reason RInvalidCommand InvalidCommand
                       ''An email for delivery is required for this checkout.'' ''delivery_email_required'')
                else None
            | Some email \<Rightarrow>
                if \<not> any_email_line
                then Some (refused_with_reason RInvalidCommand InvalidCommand
                       ''No item in this checkout is delivered by email.'' ''delivery_email_not_needed'')
                else if \<not> email_is_well_formed email then Some invalid_email
                else None))"

section \<open>One order per group\<close>

definition line_subtotal :: "resolved_line \<Rightarrow> int" where
  "line_subtotal rl = wrap_i64 (ls_unit_price_amount_minor (snd rl) * cl_quantity (fst rl))"

definition checkout_order_line :: "fulfillment_method \<Rightarrow> resolved_line \<Rightarrow> order_line" where
  "checkout_order_line method rl =
     (let (line, listing) = rl
      in \<lparr>ol_listing_aggregate_id = ls_aggregate_id listing, ol_listing_revision = ls_listing_revision listing,
          ol_content_hash = Some (ls_content_hash listing), ol_title = ls_title listing,
          ol_quantity = cl_quantity line,
          ol_unit_price = \<lparr>amount_minor = ls_unit_price_amount_minor listing,
            currency = ls_unit_price_currency listing, exponent = ls_unit_price_exponent listing\<rparr>,
          ol_subtotal = \<lparr>amount_minor = line_subtotal rl,
            currency = ls_unit_price_currency listing, exponent = ls_unit_price_exponent listing\<rparr>,
          ol_version_at_payment = None,
          ol_digital_kind = (if method = Digital then ls_digital_delivery_kind listing else None),
          ol_fulfillment = Some (fulfillment_as_str method),
          ol_variant_id = cl_variant_id line, ol_variant_options = cl_variant_options line, ol_offer = None\<rparr>)"

definition group_subtotal :: "checkout_group \<Rightarrow> int" where
  "group_subtotal g = sum_i64 (map line_subtotal (cg_lines g))"

definition group_shipping :: "checkout_group \<Rightarrow> int" where
  "group_shipping g =
     (if cg_method g \<noteq> Shipping then 0 else sum_i64 (map (\<lambda>rl. ls_shipping_minor (snd rl)) (cg_lines g)))"

definition group_total :: "checkout_group \<Rightarrow> int" where
  "group_total g = wrap_i64 (group_subtotal g + group_shipping g)"

record checkout_terms =
  ct_buyer :: pubky
  ct_command_id :: uuid
  ct_payload :: create_checkout_payload
  ct_currency :: string
  ct_exponent :: int
  ct_drop :: "string option"
  ct_drop_claim_seconds :: int
  ct_now :: datetime

definition HOLD_SOURCE_DROP_CLAIM :: string where
  "HOLD_SOURCE_DROP_CLAIM = ''drop_claim''"

text \<open>\<open>OrderRow::new_for_insert\<close> and the columns the insert binds.\<close>

definition checkout_order :: "checkout_terms \<Rightarrow> checkout_group \<Rightarrow> uuid \<Rightarrow> uuid \<Rightarrow> order_row" where
  "checkout_order terms g order_id payment_id =
     \<lparr>or_id = order_id, or_auction_aggregate_id = None, or_drop_aggregate_id = ct_drop terms,
      or_buyer_pubky = ct_buyer terms, or_seller_pubky = cg_seller g, or_revision = 1,
      or_state = ''pending_payment'', or_lines = map (checkout_order_line (cg_method g)) (cg_lines g),
      or_subtotal_minor = group_subtotal g, or_shipping_minor = group_shipping g, or_total_minor = group_total g,
      or_currency = ct_currency terms, or_exponent = ct_exponent terms,
      or_guarantee_policy_version = cc_guarantee_policy_version (ct_payload terms), or_payment_id = payment_id,
      or_cancellation_reason = None, or_stock_held = (ct_drop terms \<noteq> None),
      or_hold_expires_at = map_option (\<lambda>_. ct_now terms + seconds (ct_drop_claim_seconds terms)) (ct_drop terms),
      or_hold_source = map_option (\<lambda>_. HOLD_SOURCE_DROP_CLAIM) (ct_drop terms),
      or_shipment = None, or_return_request = None, or_external_refund = None, or_payment_method = None,
      or_paykit_request_state = None, or_paykit_invoice_id = None, or_paykit_stack_id = None,
      or_paykit_stack_endpoint = None, or_paykit_total_sats = None, or_paykit_activation_state = None,
      or_fulfillment = fulfillment_as_str (cg_method g), or_first_revealed_at = None,
      or_checkout_command_id = Some (ct_command_id terms),
      or_delivery_address = (if cg_method g \<noteq> Shipping then None else cc_delivery_address (ct_payload terms)),
      or_receipt_id = None, or_edition = None, or_digital_delivered_at = None, or_digital_message_delivered_at = None, or_delivery_assumed = False,
      or_payment_reversed_at = None, or_offer_award_id = None,
      or_priced_from = ''listing'', or_created_at = ct_now terms, or_updated_at = ct_now terms\<rparr>"

definition checkout_payment :: "checkout_terms \<Rightarrow> checkout_group \<Rightarrow> uuid \<Rightarrow> uuid \<Rightarrow> payment_row" where
  "checkout_payment terms g order_id payment_id =
     \<lparr>pm_id = payment_id, pm_order_id = order_id, pm_buyer_pubky = ct_buyer terms, pm_seller_pubky = cg_seller g,
      pm_revision = 1, pm_adapter = ''sandbox'', pm_state = ''awaiting_entitlement'', pm_confirmations = 0,
      pm_amount_minor = group_total g, pm_currency = ct_currency terms, pm_exponent = ct_exponent terms,
      pm_merchandise = Some \<lparr>amount_minor = group_total g, currency = ct_currency terms, exponent = ct_exponent terms\<rparr>,
      pm_manual_review_entered_at = None, pm_review_reason = None, pm_resolution_outcome = None,
      pm_created_at = ct_now terms, pm_updated_at = ct_now terms\<rparr>"

text \<open>\<open>INSERT ... ON CONFLICT (order_id) DO UPDATE\<close>.\<close>

definition store_delivery_email :: "keyring \<Rightarrow> uuid \<Rightarrow> pubky \<Rightarrow> delivery_email \<Rightarrow> datetime \<Rightarrow> db \<Rightarrow> db" where
  "store_delivery_email ring order_id buyer email now d =
     (let (sealed, d1) = draw_seal ring (email_aad order_id buyer) email d
      in if list_ex (\<lambda>e. em_order_id e = order_id) (st_delivery_emails d1)
         then d1\<lparr>st_delivery_emails :=
                map (\<lambda>e. if em_order_id e = order_id
                         then e\<lparr>em_ciphertext := Some sealed, em_updated_at := now, em_purged_at := None\<rparr> else e)
                  (st_delivery_emails d1)\<rparr>
         else d1\<lparr>st_delivery_emails := st_delivery_emails d1 @
                [\<lparr>em_order_id = order_id, em_buyer_pubky = buyer, em_ciphertext = Some sealed, em_created_at = now,
                  em_updated_at = now, em_emailed_at = None, em_purged_at = None\<rparr>]\<rparr>)"

definition store_group_email ::
  "keyring option \<Rightarrow> checkout_terms \<Rightarrow> checkout_group \<Rightarrow> uuid \<Rightarrow> db \<Rightarrow> (command_failure + unit) tx" where
  "store_group_email digital terms g order_id d =
     (if \<not> is_email_group g then Inr (Inr (), d)
      else
        (case (cc_delivery_email (ct_payload terms), digital) of
           (Some email, Some ring) \<Rightarrow>
             Inr (Inr (), store_delivery_email ring order_id (ct_buyer terms) email (ct_now terms) d)
         | _ \<Rightarrow> refuse (refused RInvariantViolation InvariantViolation
                  ''An email-kind order reached storage without its address or key.'') d))"

record locks_keys =
  lz_cipher :: aead
  lz_nonce :: "nat \<Rightarrow> string"
  lz_encryption :: string

definition encrypt_prepared_value :: "locks_keys \<Rightarrow> uuid \<Rightarrow> string \<Rightarrow> string \<Rightarrow> db \<Rightarrow> string \<times> db" where
  "encrypt_prepared_value keys payment_id domain value d =
     (seal (lz_cipher keys) (lz_nonce keys (st_next_uuid d)) (lz_encryption keys) (domain @ uuid_bytes payment_id) value,
      d\<lparr>st_next_uuid := Suc (st_next_uuid d)\<rparr>)"

definition lock_pairs :: "checkout_group \<Rightarrow> (string \<times> string) list" where
  "lock_pairs g =
     remdups (List.map_filter
       (\<lambda>(_, listing). case (ls_digital_lock_policy_uri listing, ls_digital_lock_criterion_id listing) of
          (Some policy_uri, Some criterion_id) \<Rightarrow> Some (policy_uri, criterion_id) | _ \<Rightarrow> None) (cg_lines g))"

definition snapshot_lock ::
  "(string \<Rightarrow> string) \<Rightarrow> locks_keys option \<Rightarrow> checkout_group \<Rightarrow> payment_row \<Rightarrow> datetime \<Rightarrow> db \<Rightarrow> unit tx" where
  "snapshot_lock blake3_hex keys g payment now d =
     (case (keys, lock_pairs g) of
        (Some keys, [(policy_uri, criterion_id)]) \<Rightarrow>
          (let (sealed, d1) = encrypt_prepared_value keys (pm_id payment) ''locks-checkout-resource:'' policy_uri d
           in seq (sql_insert (\<lambda>_. True) (\<lambda>a b. lk_payment_id a = lk_payment_id b)
                     \<lparr>lk_payment_id = pm_id payment, lk_order_id = pm_order_id payment,
                      lk_resource_ciphertext = sealed, lk_resource_hash = blake3_hex policy_uri,
                      lk_criterion_id = criterion_id, lk_merchandise = pm_merchandise payment,
                      lk_expected_reader_pubky = pm_buyer_pubky payment,
                      lk_expected_recipient_pubky = pm_seller_pubky payment, lk_created_at = now\<rparr>
                     (st_locks_snapshots d1))
                (\<lambda>_ rows. Inr ((), d1\<lparr>st_locks_snapshots := rows\<rparr>)))
      | _ \<Rightarrow> Inr ((), d))"

record checkout_context =
  cx_blake3_hex :: "string \<Rightarrow> string"
  cx_locks :: "locks_keys option"
  cx_digital :: "keyring option"

definition create_group ::
  "uuid_source \<Rightarrow> checkout_context \<Rightarrow> checkout_terms \<Rightarrow> checkout_group \<Rightarrow> db
     \<Rightarrow> (command_failure + order_row \<times> payment_row \<times> uuid) tx" where
  "create_group new_v4 context terms g d0 =
     (let (order_id, d1) = draw_uuid new_v4 d0;
          (payment_id, d2) = draw_uuid new_v4 d1;
          order = checkout_order terms g order_id payment_id;
          payment = checkout_payment terms g order_id payment_id
      in seq (insert_order order d2)
           (\<lambda>_ d3.
              attempt (store_group_email (cx_digital context) terms g order_id d3)
                (\<lambda>_ d4.
                   seq (insert_payment payment d4)
                     (\<lambda>_ d5.
                        seq (snapshot_lock (cx_blake3_hex context) (cx_locks context) g payment (ct_now terms) d5)
                          (\<lambda>_ d6.
                             seq (insert_event new_v4 (ct_command_id terms) (order_aggregate_id order_id) 1
                                    (ct_buyer terms) ''order.created'' (ct_now terms) d6)
                               (\<lambda>event_id d7. Inr (Inr (order, payment, event_id), d7)))))))"

fun create_groups ::
  "uuid_source \<Rightarrow> checkout_context \<Rightarrow> checkout_terms \<Rightarrow> checkout_group list \<Rightarrow> db
     \<Rightarrow> (command_failure + (order_row \<times> payment_row \<times> uuid) list) tx" where
  "create_groups new_v4 context terms [] d = Inr (Inr [], d)"
| "create_groups new_v4 context terms (g # gs) d =
     attempt (create_group new_v4 context terms g d)
       (\<lambda>created d1.
          attempt (create_groups new_v4 context terms gs d1) (\<lambda>rest d2. Inr (Inr (created # rest), d2)))"

section \<open>Claiming a drop's unit\<close>

definition claim_line :: "resolved_line \<Rightarrow> datetime \<Rightarrow> db \<Rightarrow> (command_failure + unit) tx" where
  "claim_line rl now d =
     (let (line, listing) = rl; new_state = held_state listing (cl_quantity line)
      in if \<not> can_transition listing_machine (ls_state listing) new_state
         then refuse (refused_with_revision RInvariantViolation InvariantViolation
                ''The listing cannot enter the reserved state.'' (ls_server_revision listing)) d
         else
           seq (update_listings
                  (\<lambda>l. ls_aggregate_id l = ls_aggregate_id listing
                     \<and> ls_server_revision l = cl_expected_revision line \<and> cl_quantity line \<le> ls_available_quantity l)
                  (reserved_row new_state (cl_quantity line) now) d)
             (\<lambda>updated d1.
                if length updated \<noteq> 1
                then refuse (refused_with_revision RRevisionConflict RevisionConflict
                       ''A checkout listing revision is stale.''
                       (current_listing_revision d1 (ls_aggregate_id listing))) d1
                else Inr (Inr (), d1)))"

fun claim_lines :: "resolved_line list \<Rightarrow> datetime \<Rightarrow> db \<Rightarrow> (command_failure + unit) tx" where
  "claim_lines [] now d = Inr (Inr (), d)"
| "claim_lines (rl # rest) now d = attempt (claim_line rl now d) (\<lambda>_. claim_lines rest now)"

section \<open>The command\<close>

text \<open>The part of \<open>handle\<close> after the drop gate.\<close>

definition place_checkout ::
  "uuid_source \<Rightarrow> checkout_context \<Rightarrow> int \<Rightarrow> pubky \<Rightarrow> command \<Rightarrow> create_checkout_payload \<Rightarrow> string option
     \<Rightarrow> datetime \<Rightarrow> db \<Rightarrow> handler_result tx" where
  "place_checkout new_v4 context drop_claim_seconds actor command payload drop_key now d =
     (case resolve_lines (cc_lines payload) d of
        Inl failure \<Rightarrow> refuse failure d
      | Inr resolved \<Rightarrow>
          if \<not> same_assets resolved
          then refuse (refused RInvalidCommand InvalidCommand
                 ''One checkout may contain only one asset and exponent.'') d
          else
            (case group_lines (cx_digital context \<noteq> None) resolved [] of
               Inl failure \<Rightarrow> refuse failure d
             | Inr groups \<Rightarrow>
                 (case contact_refusal payload groups of
                    Some failure \<Rightarrow> refuse failure d
                  | None \<Rightarrow>
                      attempt (create_groups new_v4 context
                           \<lparr>ct_buyer = actor, ct_command_id = cmd_command_id command, ct_payload = payload,
                            ct_currency = ls_unit_price_currency (snd (hd resolved)),
                            ct_exponent = ls_unit_price_exponent (snd (hd resolved)), ct_drop = drop_key,
                            ct_drop_claim_seconds = drop_claim_seconds, ct_now = now\<rparr> groups d)
                        (\<lambda>created d1.
                           attempt (if drop_key \<noteq> None then claim_lines resolved now d1 else Inr (Inr (), d1))
                             (\<lambda>_ d2.
                                Inr (Inr \<lparr>hs_revision = 1, hs_event_ids = map (\<lambda>(_, _, e). e) created,
                                          hs_result = ResultCheckout (map fst created)
                                            (map (\<lambda>(_, p, _). p) created)\<rparr>, d2))))))"

definition create_checkout ::
  "uuid_source \<Rightarrow> checkout_context \<Rightarrow> int \<Rightarrow> pubky \<Rightarrow> command \<Rightarrow> create_checkout_payload \<Rightarrow> datetime \<Rightarrow> db
     \<Rightarrow> handler_result tx" where
  "create_checkout new_v4 context drop_claim_seconds actor command payload now d =
     (if cmd_aggregate_id command \<noteq> checkout_aggregate_id (cmd_command_id command) \<or> cmd_expected_revision command \<noteq> 0
      then refuse (refused RInvalidCommand InvalidCommand ''Checkout aggregate identity or revision is invalid.'') d
      else
        (case peek_lines actor (cc_lines payload) d of
           Inl failure \<Rightarrow> refuse failure d
         | Inr peeked \<Rightarrow>
             attempt (gate_checkout new_v4 actor (cmd_command_id command) peeked now d)
               (\<lambda>drop_key. place_checkout new_v4 context drop_claim_seconds actor command payload drop_key now)))"

end
