(* ===== verification/Checkout_Facts.thy ===== *)
theory Checkout_Facts
  imports Checkout Payments_Facts
begin

text \<open>
  What \<open>checkout.create\<close> promises: the lines are split into exactly one order per seller and fulfillment, in
  the order the cart has them; the orders charge the listed price and shipping as long as the arithmetic
  stays within \<open>i64\<close>; a checkout keeps the books, and holds stock only when it claims a drop's unit.
\<close>

section \<open>Vocabulary\<close>

definition line_key :: "resolved_line \<Rightarrow> pubky \<times> fulfillment_method" where
  "line_key rl = (ls_seller_pubky (snd rl), line_method (fst rl))"

definition group_key :: "checkout_group \<Rightarrow> pubky \<times> fulfillment_method" where
  "group_key g = (cg_seller g, cg_method g)"

text \<open>The distinct elements of a list in the order of their first occurrence.\<close>

definition first_occurrences :: "'a list \<Rightarrow> 'a list" where
  "first_occurrences xs = rev (remdups (rev xs))"

text \<open>The reference: one group per key, with the lines of that key.\<close>

definition reference_groups :: "resolved_line list \<Rightarrow> checkout_group list" where
  "reference_groups resolved =
     map (\<lambda>k. \<lparr>cg_seller = fst k, cg_method = snd k, cg_lines = filter (\<lambda>rl. line_key rl = k) resolved\<rparr>)
       (first_occurrences (map line_key resolved))"

text \<open>What an order created for the lines of one key looks like, and its payment.\<close>

definition order_of_lines :: "pubky \<Rightarrow> resolved_line list \<Rightarrow> pubky \<times> fulfillment_method \<Rightarrow> order_row \<Rightarrow> payment_row \<Rightarrow> bool" where
  "order_of_lines buyer resolved k o' p \<longleftrightarrow>
     or_buyer_pubky o' = buyer \<and> or_seller_pubky o' = fst k \<and> or_fulfillment o' = fulfillment_as_str (snd k)
     \<and> or_state o' = ''pending_payment''
     \<and> or_lines o' = map (checkout_order_line (snd k)) (filter (\<lambda>rl. line_key rl = k) resolved)
     \<and> pm_order_id p = or_id o' \<and> pm_id p = or_payment_id o' \<and> pm_amount_minor p = or_total_minor o'
     \<and> pm_state p = ''awaiting_entitlement''"

text \<open>The amount of a group in unbounded arithmetic.\<close>

definition exact_total :: "checkout_group \<Rightarrow> int" where
  "exact_total g =
     sum_list (map (\<lambda>rl. ls_unit_price_amount_minor (snd rl) * cl_quantity (fst rl)) (cg_lines g))
     + (if cg_method g = Shipping then sum_list (map (\<lambda>rl. ls_shipping_minor (snd rl)) (cg_lines g)) else 0)"

definition amounts_in_range :: "checkout_group \<Rightarrow> bool" where
  "amounts_in_range g \<longleftrightarrow>
     length (cg_lines g) \<le> 50
     \<and> list_all (\<lambda>rl. 0 \<le> ls_unit_price_amount_minor (snd rl) * cl_quantity (fst rl)
          \<and> ls_unit_price_amount_minor (snd rl) * cl_quantity (fst rl) \<le> MAX_SAFE_INTEGER
          \<and> 0 \<le> ls_shipping_minor (snd rl) \<and> ls_shipping_minor (snd rl) \<le> MAX_SAFE_INTEGER) (cg_lines g)"

section \<open>Samples\<close>

definition sample_cart_line :: "string \<Rightarrow> int \<Rightarrow> checkout_line" where
  "sample_cart_line a q =
     \<lparr>cl_listing_aggregate_id = a, cl_expected_revision = 7, cl_quantity = q, cl_variant_id = None,
      cl_variant_options = None, cl_fulfillment = None\<rparr>"

definition sample_address :: delivery_address where
  "sample_address =
     \<lparr>da_name = ''B'', da_line1 = ''1 Road'', da_line2 = [], da_city = ''Town'', da_region = [],
      da_postal_code = ''1'', da_country_code = ''NO''\<rparr>"

definition sample_cart :: "checkout_line list \<Rightarrow> create_checkout_payload" where
  "sample_cart lines =
     \<lparr>cc_lines = lines, cc_delivery_address = Some sample_address, cc_delivery_email = None,
      cc_guarantee_policy_version = 1\<rparr>"

definition sample_checkout :: "create_checkout_payload \<Rightarrow> command" where
  "sample_checkout payload =
     \<lparr>cmd_command_id = ''k1'', cmd_aggregate_id = checkout_aggregate_id ''k1'', cmd_expected_revision = 0,
      cmd_issued_at = 0, cmd_payload = CreateCheckout payload\<rparr>"

definition sample_context :: checkout_context where
  "sample_context = \<lparr>cx_blake3_hex = (\<lambda>s. s), cx_locks = None, cx_digital = None\<rparr>"

text \<open>Two sellers; and a listing at the highest price times a quantity that \<open>i64\<close> cannot hold.\<close>

definition sample_market_db :: db where
  "sample_market_db =
     sample_stock_db\<lparr>st_listings := [sample_listing, sample_listing\<lparr>ls_aggregate_id := ''listing:m'',
       ls_listing_id := ''m'', ls_seller_pubky := ''other'', ls_reserved_quantity := 0, ls_available_quantity := 5\<rparr>]\<rparr>"

definition sample_overflow_db :: db where
  "sample_overflow_db =
     empty_db\<lparr>st_listings := [sample_listing\<lparr>ls_total_quantity := 5000, ls_available_quantity := 5000,
       ls_reserved_quantity := 0, ls_unit_price_amount_minor := 4503599627370496\<rparr>]\<rparr>"

section \<open>Grouping\<close>

lemma first_occurrences_snoc:
  "first_occurrences (xs @ [x]) = (if x \<in> set xs then first_occurrences xs else first_occurrences xs @ [x])"
  by (simp add: first_occurrences_def)

lemma set_first_occurrences [simp]: "set (first_occurrences xs) = set xs"
  by (simp add: first_occurrences_def)

lemma distinct_first_occurrences [simp]: "distinct (first_occurrences xs)"
  by (simp add: first_occurrences_def)

lemma join_group_new:
  "\<forall>g \<in> set gs. group_key g \<noteq> line_key rl \<Longrightarrow>
   join_group rl gs = gs @ [\<lparr>cg_seller = fst (line_key rl), cg_method = snd (line_key rl), cg_lines = [rl]\<rparr>]"
  by (cases rl) (induction gs; auto simp: group_key_def line_key_def)

lemma join_group_old:
  "distinct (map group_key gs) \<Longrightarrow> \<exists>g \<in> set gs. group_key g = line_key rl \<Longrightarrow>
   join_group rl gs = map (\<lambda>g. if group_key g = line_key rl then g\<lparr>cg_lines := cg_lines g @ [rl]\<rparr> else g) gs"
proof (induction gs)
  case (Cons g gs)
  show ?case
  proof (cases "group_key g = line_key rl")
    case True
    then have "\<forall>h \<in> set gs. group_key h \<noteq> line_key rl" using Cons.prems(1) by force
    then have "map (\<lambda>g. if group_key g = line_key rl then g\<lparr>cg_lines := cg_lines g @ [rl]\<rparr> else g) gs = gs"
      by (intro map_idI) auto
    with True show ?thesis by (cases rl) (simp add: group_key_def line_key_def)
  next
    case False
    with Cons have "join_group rl gs
        = map (\<lambda>g. if group_key g = line_key rl then g\<lparr>cg_lines := cg_lines g @ [rl]\<rparr> else g) gs" by auto
    with False show ?thesis by (cases rl) (auto simp: group_key_def line_key_def)
  qed
qed simp

lemma group_key_reference: "map group_key (reference_groups resolved) = first_occurrences (map line_key resolved)"
  by (simp add: reference_groups_def group_key_def o_def)

lemma join_group_reference: "join_group rl (reference_groups resolved) = reference_groups (resolved @ [rl])"
proof (cases "line_key rl \<in> set (map line_key resolved)")
  case True
  have "distinct (map group_key (reference_groups resolved))" by (simp add: group_key_reference)
  moreover have "\<exists>g \<in> set (reference_groups resolved). group_key g = line_key rl"
    using True by (force simp: reference_groups_def group_key_def)
  ultimately have "join_group rl (reference_groups resolved)
    = map (\<lambda>g. if group_key g = line_key rl then g\<lparr>cg_lines := cg_lines g @ [rl]\<rparr> else g) (reference_groups resolved)"
    by (rule join_group_old)
  also have "\<dots> = reference_groups (resolved @ [rl])"
    using True by (auto simp: reference_groups_def group_key_def first_occurrences_snoc)
  finally show ?thesis .
next
  case False
  then have none: "filter (\<lambda>x. line_key x = line_key rl) resolved = []"
    by (simp add: filter_empty_conv del: split_paired_All) (metis image_eqI)
  from False have "\<forall>g \<in> set (reference_groups resolved). group_key g \<noteq> line_key rl"
    by (simp add: reference_groups_def group_key_def) (metis image_eqI)
  then have "join_group rl (reference_groups resolved) = reference_groups resolved
      @ [\<lparr>cg_seller = fst (line_key rl), cg_method = snd (line_key rl), cg_lines = [rl]\<rparr>]"
    by (rule join_group_new)
  also have "\<dots> = reference_groups (resolved @ [rl])"
    using False none by (auto simp: reference_groups_def first_occurrences_snoc)
  finally show ?thesis .
qed

lemma group_lines_from:
  "group_lines digital lines (reference_groups done) = Inr groups \<Longrightarrow>
   groups = reference_groups (done @ lines) \<and> list_all (\<lambda>rl. line_refusal digital rl = None) lines"
proof (induction lines arbitrary: "done")
  case (Cons rl lines)
  then have "line_refusal digital rl = None"
    and "group_lines digital lines (reference_groups (done @ [rl])) = Inr groups"
    by (auto simp: join_group_reference split: option.splits)
  with Cons.IH [of "done @ [rl]"] show ?case by simp
qed simp

lemma group_lines_reference:
  assumes "group_lines digital resolved [] = Inr groups"
  shows "groups = reference_groups resolved" "list_all (\<lambda>rl. line_refusal digital rl = None) resolved"
  using group_lines_from [of digital resolved "[]" groups] assms
  by (simp_all add: reference_groups_def first_occurrences_def)

section \<open>Creating the orders\<close>

lemma insert_order_rows:
  assumes "insert_order r d = Inr (x, d')"
  shows "d' = d\<lparr>st_orders := st_orders d @ [r]\<rparr>" "order_check r" "\<not> list_ex (\<lambda>o'. or_id o' = or_id r) (st_orders d)"
  using assms
  by (auto simp: insert_order_def sql_insert_def order_clash_def list_ex_iff split: if_splits)

text \<open>What creating an order with its payment leaves alone.\<close>

definition created_frame :: "db \<Rightarrow> db \<Rightarrow> bool" where
  "created_frame d d' \<longleftrightarrow>
     st_listings d' = st_listings d \<and> st_reservations d' = st_reservations d \<and> st_drops d' = st_drops d
     \<and> st_drop_purchases d' = st_drop_purchases d \<and> st_receipts d' = st_receipts d \<and> st_offers d' = st_offers d"

lemma created_frame_refl [simp]: "created_frame d d"
  by (simp add: created_frame_def)

lemma created_frame_trans: "created_frame d d' \<Longrightarrow> created_frame d' d'' \<Longrightarrow> created_frame d d''"
  by (auto simp: created_frame_def)

lemma store_group_email_frame:
  assumes "store_group_email digital terms g k d = Inr (Inr x, d')"
  shows "created_frame d d' \<and> st_orders d' = st_orders d \<and> st_payments d' = st_payments d"
  using assms
  by (auto simp: store_group_email_def store_delivery_email_def draw_seal_def Let_def created_frame_def
      split: if_splits option.splits)

lemma snapshot_lock_frame:
  assumes "snapshot_lock h keys g p now d = Inr (x, d')"
  shows "created_frame d d' \<and> st_orders d' = st_orders d \<and> st_payments d' = st_payments d"
  using assms
  by (auto simp: snapshot_lock_def encrypt_prepared_value_def Let_def seq_eq_Inr created_frame_def
      split: option.splits list.splits)

lemma create_group_rows:
  assumes "create_group new_v4 context terms g d = Inr (Inr (order, payment, e), d')"
  shows "created_frame d d'" "st_orders d' = st_orders d @ [order]" "st_payments d' = st_payments d @ [payment]"
    "order_check order" "\<not> list_ex (\<lambda>o'. or_id o' = or_id order) (st_orders d)"
    "order = checkout_order terms g (or_id order) (or_payment_id order)"
    "payment = checkout_payment terms g (or_id order) (or_payment_id order)"
proof -
  let ?k = "new_v4 (st_next_uuid d)" and ?p = "new_v4 (Suc (st_next_uuid d))"
  let ?d2 = "d\<lparr>st_next_uuid := Suc (Suc (st_next_uuid d))\<rparr>"
  obtain d3 d4 d5 d6 where o: "order = checkout_order terms g ?k ?p" and p: "payment = checkout_payment terms g ?k ?p"
    and io: "insert_order order ?d2 = Inr ((), d3)"
    and em: "store_group_email (cx_digital context) terms g ?k d3 = Inr (Inr (), d4)"
    and ip: "insert_payment payment d4 = Inr ((), d5)"
    and sn: "snapshot_lock (cx_blake3_hex context) (cx_locks context) g payment (ct_now terms) d5 = Inr ((), d6)"
    and ev: "insert_event new_v4 (ct_command_id terms) (order_aggregate_id ?k) 1 (ct_buyer terms)
       ''order.created'' (ct_now terms) d6 = Inr (e, d')"
    using assms by (auto simp: create_group_def draw_uuid_def Let_def seq_eq_Inr attempt_accept)
  have p5: "d5 = d4\<lparr>st_payments := st_payments d4 @ [payment]\<rparr>"
    using ip by (auto simp: insert_payment_def sql_insert_def split: if_splits)
  note io' = insert_order_rows [OF io]
  note f = store_group_email_frame [OF em] snapshot_lock_frame [OF sn] log_stepD [OF insert_event_log [OF ev]]
  show "created_frame d d'"
    using f by (simp add: created_frame_def io'(1) p5)
  show "st_orders d' = st_orders d @ [order]" "st_payments d' = st_payments d @ [payment]"
    using f by (simp_all add: io'(1) p5)
  show "order_check order" by (rule io')
  show "\<not> list_ex (\<lambda>o'. or_id o' = or_id order) (st_orders d)" using io'(3) by simp
  show "order = checkout_order terms g (or_id order) (or_payment_id order)"
    "payment = checkout_payment terms g (or_id order) (or_payment_id order)"
    by (simp_all add: o p checkout_order_def)
qed

lemma create_groups_rows:
  assumes "create_groups new_v4 context terms groups d = Inr (Inr created, d')"
    and "distinct (map or_id (st_orders d))"
  shows "created_frame d d' \<and> st_orders d' = st_orders d @ map fst created
    \<and> st_payments d' = st_payments d @ map (\<lambda>(_, p, _). p) created
    \<and> list_all (\<lambda>(o', _, _). order_check o') created \<and> distinct (map or_id (st_orders d'))
    \<and> list_all2 (\<lambda>g (o', p, _). o' = checkout_order terms g (or_id o') (or_payment_id o')
         \<and> p = checkout_payment terms g (or_id o') (or_payment_id o')) groups created"
  using assms
proof (induction groups arbitrary: d created)
  case (Cons g gs)
  obtain o' p e d1 rest where c: "create_group new_v4 context terms g d = Inr (Inr (o', p, e), d1)"
    and r: "create_groups new_v4 context terms gs d1 = Inr (Inr rest, d')" and created: "created = (o', p, e) # rest"
    using Cons.prems(1) by (auto simp: attempt_accept)
  note g = create_group_rows [OF c]
  have "distinct (map or_id (st_orders d1))" using Cons.prems(2) g(2,5) by (auto simp: list_ex_iff)
  note ih = Cons.IH [OF r this]
  have "o' = checkout_order terms g (or_id o') (or_payment_id o')
      \<and> p = checkout_payment terms g (or_id o') (or_payment_id o')" using g(6,7) by blast
  moreover have "created_frame d d'" using ih g(1) created_frame_trans by blast
  moreover have "distinct (map or_id (st_orders d'))" using ih by blast
  ultimately show ?case using ih g(2-4) by (simp add: created)
qed simp

section \<open>Stock\<close>

definition cart_units :: "resolved_line list \<Rightarrow> string \<Rightarrow> int" where
  "cart_units lines a =
     sum_list (map (\<lambda>rl. if ls_aggregate_id (snd rl) = a then cl_quantity (fst rl) else 0) lines)"

lemma line_units_checkout: "line_units (map (checkout_order_line m) lines) a = cart_units lines a"
  by (induction lines) (auto simp: cart_units_def checkout_order_line_def)

lemma join_group_units:
  "sum_list (map (\<lambda>g. cart_units (cg_lines g) a) (join_group rl gs))
   = sum_list (map (\<lambda>g. cart_units (cg_lines g) a) gs) + cart_units [rl] a"
  by (cases rl) (induction gs; simp add: cart_units_def)

lemma group_lines_units:
  "group_lines digital lines gs = Inr groups \<Longrightarrow>
   sum_list (map (\<lambda>g. cart_units (cg_lines g) a) groups)
   = sum_list (map (\<lambda>g. cart_units (cg_lines g) a) gs) + cart_units lines a"
proof (induction lines arbitrary: gs)
  case (Cons rl lines)
  then have "group_lines digital lines (join_group rl gs) = Inr groups" by (auto split: option.splits)
  from Cons.IH [OF this] show ?case by (simp add: join_group_units) (simp add: cart_units_def)
qed (simp add: cart_units_def)

lemma claim_line_effect:
  assumes t: "table_ok ls_aggregate_id listing_check (st_listings d)" and l: "ledger_off g d"
    and run: "claim_line rl now d = Inr (Inr x, d')"
  shows "listings_step d d' \<and> ledger_off (\<lambda>a. g a + cart_units [rl] a) d'"
proof -
  obtain line listing where rl: "rl = (line, listing)" by (cases rl)
  let ?f = "reserved_row (held_state listing (cl_quantity line)) (cl_quantity line) now"
  obtain w where u: "update_listings (\<lambda>l. ls_aggregate_id l = ls_aggregate_id listing
      \<and> ls_server_revision l = cl_expected_revision line \<and> cl_quantity line \<le> ls_available_quantity l) ?f d = Inr (w, d')"
    and "length w = 1"
    using run by (auto simp: claim_line_def rl Let_def seq_eq_Inr refuse_def split: if_splits)
  then have w: "w \<noteq> []" by auto
  have "listings_step d d'" by (rule update_listings_step [OF t u]) simp_all
  moreover have "ledger_off (g(ls_aggregate_id listing := g (ls_aggregate_id listing) + cl_quantity line)) d'"
    by (rule ledger_off_move [OF t l u w]) simp_all
  then have "ledger_off (\<lambda>a. g a + cart_units [rl] a) d'"
    by (rule ledger_off_cong) (simp add: cart_units_def rl)
  ultimately show ?thesis by simp
qed

lemma claim_lines_effect:
  assumes "table_ok ls_aggregate_id listing_check (st_listings d)" "ledger_off g d"
    and "claim_lines rls now d = Inr (Inr x, d')"
  shows "listings_step d d' \<and> ledger_off (\<lambda>a. g a + cart_units rls a) d'"
  using assms
proof (induction rls arbitrary: d g)
  case Nil
  then show ?case by (simp add: listings_step_refl cart_units_def)
next
  case (Cons rl rls)
  then obtain d1 where c: "claim_line rl now d = Inr (Inr (), d1)" and r: "claim_lines rls now d1 = Inr (Inr x, d')"
    by (auto simp: attempt_accept)
  note e = claim_line_effect [OF Cons.prems(1,2) c]
  note ih = Cons.IH [OF listings_stepD(6) [OF conjunct1 [OF e]] conjunct2 [OF e] r]
  have "ledger_off (\<lambda>a. g a + cart_units (rl # rls) a) d'"
    by (rule ledger_off_cong [OF conjunct2 [OF ih]]) (simp add: cart_units_def)
  with ih e show ?case using listings_step_trans by blast
qed

lemma claim_lines_frame:
  "claim_lines rls now d = Inr (x, d') \<Longrightarrow> st_orders d' = st_orders d \<and> st_payments d' = st_payments d"
proof (induction rls arbitrary: d)
  case (Cons rl rls)
  then obtain y d1 where y: "claim_line rl now d = Inr (y, d1)" and r: "d' = d1 \<or> claim_lines rls now d1 = Inr (x, d')"
    by (fastforce elim: attempt_cases)
  have "st_orders d1 = st_orders d \<and> st_payments d1 = st_payments d"
    using y by (cases rl) (auto simp: claim_line_def Let_def refuse_def seq_eq_Inr listings.upd_Inr split: if_splits)
  with r Cons.IH [of d1] show ?case by auto
qed simp

lemma place_checkout_run:
  assumes "place_checkout new_v4 context claim actor command payload drop_key now d = Inr (Inr s, d')"
  obtains resolved groups terms created d1 where
    "resolve_lines (cc_lines payload) d = Inr resolved" "same_assets resolved"
    "group_lines (cx_digital context \<noteq> None) resolved [] = Inr groups" "contact_refusal payload groups = None"
    "terms = \<lparr>ct_buyer = actor, ct_command_id = cmd_command_id command, ct_payload = payload,
       ct_currency = ls_unit_price_currency (snd (hd resolved)),
       ct_exponent = ls_unit_price_exponent (snd (hd resolved)), ct_drop = drop_key,
       ct_drop_claim_seconds = claim, ct_now = now\<rparr>"
    "create_groups new_v4 context terms groups d = Inr (Inr created, d1)"
    "if drop_key = None then d' = d1 else claim_lines resolved now d1 = Inr (Inr (), d')"
  using assms
  by (auto simp: place_checkout_def attempt_accept split: sum.splits if_splits option.splits)

lemma checkout_order_simps [simp]:
  "or_id (checkout_order terms g i j) = i" "or_payment_id (checkout_order terms g i j) = j"
  "or_stock_held (checkout_order terms g i j) = (ct_drop terms \<noteq> None)"
  "or_lines (checkout_order terms g i j) = map (checkout_order_line (cg_method g)) (cg_lines g)"
  "or_state (checkout_order terms g i j) = ''pending_payment''"
  "or_auction_aggregate_id (checkout_order terms g i j) = None"
  "or_hold_expires_at (checkout_order terms g i j)
     = map_option (\<lambda>_. ct_now terms + seconds (ct_drop_claim_seconds terms)) (ct_drop terms)"
  "or_buyer_pubky (checkout_order terms g i j) = ct_buyer terms"
  "or_seller_pubky (checkout_order terms g i j) = cg_seller g"
  "or_fulfillment (checkout_order terms g i j) = fulfillment_as_str (cg_method g)"
  "or_subtotal_minor (checkout_order terms g i j) = group_subtotal g"
  "or_shipping_minor (checkout_order terms g i j) = group_shipping g"
  "or_total_minor (checkout_order terms g i j) = group_total g"
  by (simp_all add: checkout_order_def)

lemma checkout_row_shape:
  assumes "ct_buyer terms = buyer"
    and "o' = checkout_order terms \<lparr>cg_seller = fst k, cg_method = snd k, cg_lines = filter (\<lambda>rl. line_key rl = k) resolved\<rparr>
          (or_id o') (or_payment_id o')"
    and "p = checkout_payment terms \<lparr>cg_seller = fst k, cg_method = snd k, cg_lines = filter (\<lambda>rl. line_key rl = k) resolved\<rparr>
          (or_id o') (or_payment_id o')"
  shows "order_of_lines buyer resolved k o' p"
proof -
  obtain i j where o: "o' = checkout_order terms \<lparr>cg_seller = fst k, cg_method = snd k,
      cg_lines = filter (\<lambda>rl. line_key rl = k) resolved\<rparr> i j"
    and p: "p = checkout_payment terms \<lparr>cg_seller = fst k, cg_method = snd k,
      cg_lines = filter (\<lambda>rl. line_key rl = k) resolved\<rparr> i j"
    using assms(2,3) by (metis checkout_order_simps(1,2))
  show ?thesis unfolding o p order_of_lines_def using assms(1) by (simp add: checkout_payment_def)
qed

lemma created_match:
  assumes c2: "list_all2 (\<lambda>g (o', p, _). o' = checkout_order terms g (or_id o') (or_payment_id o')
         \<and> p = checkout_payment terms g (or_id o') (or_payment_id o')) (reference_groups resolved) created"
    and terms: "ct_buyer terms = actor"
  shows "list_all2 (\<lambda>k (o', p). order_of_lines actor resolved k o' p) (first_occurrences (map line_key resolved))
    (zip (map fst created) (map (\<lambda>(_, p, _). p) created))"
proof -
  let ?keys = "first_occurrences (map line_key resolved)"
  let ?pairs = "zip (map fst created) (map (\<lambda>(_, p, _). p) created)"
  have len: "length ?keys = length created"
    using list_all2_lengthD [OF c2] by (simp add: reference_groups_def)
  have "(\<lambda>(o', p). order_of_lines actor resolved (?keys ! n) o' p) (?pairs ! n)" if n: "n < length created" for n
  proof -
    obtain o' p e where c: "created ! n = (o', p, e)" by (cases "created ! n")
    have "reference_groups resolved ! n = \<lparr>cg_seller = fst (?keys ! n), cg_method = snd (?keys ! n),
        cg_lines = filter (\<lambda>rl. line_key rl = ?keys ! n) resolved\<rparr>"
      using n len by (simp add: reference_groups_def)
    then have "order_of_lines actor resolved (?keys ! n) o' p"
      using list_all2_nthD2 [OF c2 n] c by (intro checkout_row_shape [OF terms]) simp_all
    then show ?thesis using n by (simp add: c)
  qed
  then show ?thesis using len by (simp add: list_all2_conv_all_nth)
qed

text \<open>The ledger after the orders are in: off by what they claim.\<close>

lemma created_orders_hold:
  assumes "list_all2 (\<lambda>g (o', p, _). o' = checkout_order terms g (or_id o') (or_payment_id o') \<and> Q o' p g) groups created"
  shows "sum_list (map (\<lambda>o'. order_holds o' a) (map fst created))
    = (if ct_drop terms = None then 0 else sum_list (map (\<lambda>g. cart_units (cg_lines g) a) groups))"
  using assms
proof (induction groups created rule: list_all2_induct)
  case (Cons g gs c cs)
  obtain o' p e where c: "c = (o', p, e)" by (cases c)
  obtain i j where o': "o' = checkout_order terms g i j" using Cons(1) by (auto simp: c)
  show ?case using Cons(3) by (simp add: c o' order_holds_def line_units_checkout)
qed simp

lemma place_checkout_books:
  assumes ok: "books_ok d"
    and run: "place_checkout new_v4 context claim actor command payload drop_key now d = Inr (Inr s, d')"
  shows "books_ok d' \<and> (\<forall>a. total_stock d' a = total_stock d a)"
proof -
  obtain resolved groups terms created d1 where
    g: "group_lines (cx_digital context \<noteq> None) resolved [] = Inr groups"
    and terms: "terms = \<lparr>ct_buyer = actor, ct_command_id = cmd_command_id command, ct_payload = payload,
       ct_currency = ls_unit_price_currency (snd (hd resolved)),
       ct_exponent = ls_unit_price_exponent (snd (hd resolved)), ct_drop = drop_key,
       ct_drop_claim_seconds = claim, ct_now = now\<rparr>"
    and c: "create_groups new_v4 context terms groups d = Inr (Inr created, d1)"
    and rest: "if drop_key = None then d' = d1 else claim_lines resolved now d1 = Inr (Inr (), d')"
    by (rule place_checkout_run [OF run])
  have t: "stock_tables_ok d" "ledger_off (\<lambda>_. 0) d" "drops_ok d" "list_all hold_shape (st_orders d)"
    using ok by (simp_all add: books_ok_def stock_ok_def)
  have dist: "distinct (map or_id (st_orders d))" using t(1) by (simp add: stock_tables_ok_def table_ok_def)
  note rows = create_groups_rows [OF c dist]
  have r: "created_frame d d1" "st_orders d1 = st_orders d @ map fst created" "distinct (map or_id (st_orders d1))"
      "list_all (\<lambda>(o', _, _). order_check o') created"
      "list_all2 (\<lambda>g (o', p, _). o' = checkout_order terms g (or_id o') (or_payment_id o')
         \<and> p = checkout_payment terms g (or_id o') (or_payment_id o')) groups created"
    using rows by blast+
  note f = r(1) [unfolded created_frame_def]
  let ?units = "\<lambda>a. if drop_key = None then 0 else cart_units resolved a"
  have "sum_list (map (\<lambda>o'. order_holds o' a) (map fst created)) = ?units a" for a
    using created_orders_hold [OF r(5)] group_lines_units [OF g, of a] by (simp add: terms)
  then have acc: "accounted d1 a = accounted d a + ?units a" for a
    using f r(2) by (simp add: accounted_def)
  have l1: "ledger_off (\<lambda>a. 0 - ?units a) d1" by (rule ledger_off_account [OF t(2)]) (use f acc in simp_all)
  have checks: "list_all order_check (st_orders d1)"
    using t(1) r(2,4) by (auto simp: stock_tables_ok_def table_ok_def list_all_iff)
  have t1: "stock_tables_ok d1" using t(1) f r(3) checks by (simp add: stock_tables_ok_def table_ok_def)
  have dr1: "drops_ok d1" using t(3) f drops_ok_cong [of d1 d] by simp
  have "hold_shape o'" if mem: "(o', p, e) \<in> set created" for o' p e
  proof -
    obtain n where "n < length created" "created ! n = (o', p, e)" using mem by (auto simp: in_set_conv_nth)
    then obtain gr where "o' = checkout_order terms gr (or_id o') (or_payment_id o')"
      using list_all2_nthD2 [OF r(5), of n] by auto
    then obtain i j where "o' = checkout_order terms gr i j" by blast
    then show ?thesis by (auto simp: hold_shape_def)
  qed
  then have h1: "list_all hold_shape (st_orders d1)" using t(4) r(2) by (auto simp: list_all_iff)
  show ?thesis
  proof (cases "drop_key = None")
    case True
    have "ledger_off (\<lambda>_. 0) d1" by (rule ledger_off_cong [OF l1]) (simp add: True)
    with True rest t1 dr1 h1 f show ?thesis
      by (auto simp: books_ok_def stock_ok_def intro: total_stock_cong)
  next
    case False
    with rest have cl: "claim_lines resolved now d1 = Inr (Inr (), d')" by simp
    have tl: "table_ok ls_aggregate_id listing_check (st_listings d1)" using t1 by (simp add: stock_tables_ok_def)
    note e = claim_lines_effect [OF tl l1 cl]
    note s = listings_stepD [OF conjunct1 [OF e]]
    have "ledger_off (\<lambda>_. 0) d'" by (rule ledger_off_cong [OF conjunct2 [OF e]]) (simp add: False)
    moreover have "stock_tables_ok d'" using t1 s by (simp add: stock_tables_ok_def)
    moreover have "drops_ok d'" using dr1 s drops_ok_cong [of d' d1] by simp
    moreover have "list_all hold_shape (st_orders d')" using h1 s by simp
    moreover have "\<forall>a. total_stock d' a = total_stock d a"
      using e f total_stock_cong [of d1 d] by (simp add: listings_step_def)
    ultimately show ?thesis by (simp add: books_ok_def stock_ok_def)
  qed
qed

lemma bound_drop_fetch:
  "drop_tables_ok d \<Longrightarrow> bound_drop peeked d = Some r \<Longrightarrow> fetch_drop d (dr_aggregate_id r) = Some r"
  by (induction peeked) (auto dest: lock_bound_drop_fetch split: option.splits)

lemma gate_checkout_effect:
  assumes ok: "books_ok d" and run: "gate_checkout new_v4 actor command_id peeked now d = Inr (Inr drop_key, d')"
  shows "books_ok d'" "\<forall>a. total_stock d' a = total_stock d a" "drop_frame d d'"
    "drop_key \<noteq> None \<Longrightarrow> length peeked = 1 \<and> cl_quantity (fst (hd peeked)) = 1"
proof -
  have dr: "drops_ok d" using ok by (simp add: books_ok_def)
  have "drops_ok d' \<and> drop_frame d d' \<and> (drop_key \<noteq> None \<longrightarrow> length peeked = 1 \<and> cl_quantity (fst (hd peeked)) = 1)"
  proof (cases "bound_drop peeked d")
    case None
    with run dr show ?thesis by (auto simp: gate_checkout_def)
  next
    case (Some r)
    with run obtain r' where q: "length peeked = 1" "cl_quantity (fst (hd peeked)) = 1"
      and g: "enforce_drop_gate new_v4 r actor 1 command_id now d = Inr (Inr r', d')"
      by (auto simp: gate_checkout_def attempt_accept split: if_splits)
    have "fetch_drop d (dr_aggregate_id r) = Some r"
      by (rule bound_drop_fetch [OF _ Some]) (use dr in \<open>simp add: drops_ok_def\<close>)
    from enforce_drop_gate_effect(1,2) [OF dr this g] q show ?thesis by simp
  qed
  note e = this
  show "drop_frame d d'" "drop_key \<noteq> None \<Longrightarrow> length peeked = 1 \<and> cl_quantity (fst (hd peeked)) = 1" using e by simp_all
  show "books_ok d'" using ok e stock_ok_frame [of d d'] by (simp add: books_ok_def drop_frame_def)
  show "\<forall>a. total_stock d' a = total_stock d a" using e total_stock_cong [of d' d] by (simp add: drop_frame_def)
qed

lemma create_checkout_run:
  assumes "create_checkout new_v4 context claim actor command payload now d = Inr (Inr s, d')"
  obtains peeked drop_key d1 where "peek_lines actor (cc_lines payload) d = Inr peeked"
    "gate_checkout new_v4 actor (cmd_command_id command) peeked now d = Inr (Inr drop_key, d1)"
    "place_checkout new_v4 context claim actor command payload drop_key now d1 = Inr (Inr s, d')"
  using assms by (auto simp: create_checkout_def attempt_accept split: if_splits sum.splits)

section \<open>Amounts\<close>

lemma sum_i64_exact:
  assumes "list_all (\<lambda>x. 0 \<le> x \<and> x \<le> b) xs" "0 \<le> a" "a + int (length xs) * b \<le> i64_max"
  shows "foldl (\<lambda>a x. wrap_i64 (a + x)) a xs = a + sum_list xs"
  using assms
proof (induction xs arbitrary: a)
  case (Cons x xs)
  have x: "0 \<le> x" "x \<le> b" using Cons.prems(1) by simp_all
  then have "0 \<le> b * int (length xs)" by simp
  moreover have "a + b + b * int (length xs) \<le> i64_max" using Cons.prems(3) by (simp add: algebra_simps)
  ultimately have "a + x \<le> i64_max" using x by linarith
  then have "wrap_i64 (a + x) = a + x"
    using Cons.prems(2) x(1) by (intro wrap_i64_exact) (simp_all add: i64_min_def)
  with Cons.IH [of "a + x"] Cons.prems show ?case by (simp add: algebra_simps)
qed simp

lemma sum_list_bounded:
  "list_all (\<lambda>x :: int. 0 \<le> x \<and> x \<le> b) xs \<Longrightarrow> 0 \<le> sum_list xs \<and> sum_list xs \<le> int (length xs) * b"
  by (induction xs) (auto simp: algebra_simps)

lemma length_bound: "n \<le> (50 :: nat) \<Longrightarrow> int n * MAX_SAFE_INTEGER \<le> 450359962737049550"
  by (simp add: MAX_SAFE_INTEGER_def)

lemma line_subtotal_exact:
  "0 \<le> ls_unit_price_amount_minor (snd rl) * cl_quantity (fst rl) \<Longrightarrow>
   ls_unit_price_amount_minor (snd rl) * cl_quantity (fst rl) \<le> MAX_SAFE_INTEGER \<Longrightarrow>
   line_subtotal rl = ls_unit_price_amount_minor (snd rl) * cl_quantity (fst rl)"
  unfolding line_subtotal_def by (rule wrap_i64_exact) (simp_all add: i64_min_def i64_max_def MAX_SAFE_INTEGER_def)

lemma group_total_exact:
  assumes "amounts_in_range g"
  shows "group_total g = exact_total g"
proof -
  let ?p = "map (\<lambda>rl. ls_unit_price_amount_minor (snd rl) * cl_quantity (fst rl)) (cg_lines g)"
  let ?s = "map (\<lambda>rl. ls_shipping_minor (snd rl)) (cg_lines g)"
  have n: "int (length (cg_lines g)) * MAX_SAFE_INTEGER \<le> 450359962737049550"
    using assms by (intro length_bound) (simp add: amounts_in_range_def)
  have all: "list_all (\<lambda>x. 0 \<le> x \<and> x \<le> MAX_SAFE_INTEGER) ?p" "list_all (\<lambda>x. 0 \<le> x \<and> x \<le> MAX_SAFE_INTEGER) ?s"
    using assms by (auto simp: amounts_in_range_def list_all_iff)
  have m: "map line_subtotal (cg_lines g) = ?p"
    using assms by (auto simp: amounts_in_range_def list_all_iff line_subtotal_exact)
  have p: "group_subtotal g = sum_list ?p"
    unfolding group_subtotal_def sum_i64_def m
    using sum_i64_exact [OF all(1), of 0] n by (simp add: i64_max_def)
  have s: "sum_i64 ?s = sum_list ?s"
    using sum_i64_exact [OF all(2), of 0] n by (simp add: sum_i64_def i64_max_def)
  have b: "0 \<le> sum_list ?p" "sum_list ?p \<le> 450359962737049550" "0 \<le> sum_list ?s" "sum_list ?s \<le> 450359962737049550"
    using sum_list_bounded [OF all(1)] sum_list_bounded [OF all(2)] n by simp_all
  have "wrap_i64 (sum_list ?p + (if cg_method g = Shipping then sum_list ?s else 0))
      = sum_list ?p + (if cg_method g = Shipping then sum_list ?s else 0)"
    using b by (intro wrap_i64_exact) (auto simp: i64_min_def i64_max_def)
  then show ?thesis
    by (cases "cg_method g = Shipping") (simp_all add: group_total_def exact_total_def p group_shipping_def s)
qed

section \<open>Properties\<close>

lemma resolve_lines_read:
  "resolve_lines lines d = Inr resolved \<Longrightarrow>
   map fst resolved = lines
   \<and> list_all (\<lambda>(line, listing). fetch_live_listing d (cl_listing_aggregate_id line) = Some listing
        \<and> ls_server_revision listing = cl_expected_revision line \<and> cl_quantity line \<le> ls_available_quantity listing) resolved"
  by (induction lines arbitrary: resolved) (auto split: option.splits if_splits sum.splits)

lemma fetch_live_frame: "drop_frame d d' \<Longrightarrow> fetch_live_listing d' a = fetch_live_listing d a"
  by (simp add: drop_frame_def fetch_live_listing_def fetch_listing_def)

text \<open>C7: A checkout keeps the books.  After an accepted \<open>checkout.create\<close> every reserved unit is still accounted
  for, the drops balance, every hold has a deadline and no listing's total has changed: an ordinary checkout
  takes nothing from stock, a drop's checkout moves the unit it claims from the drop and from the listing to
  the order.\<close>

theorem checkout_keeps_books:
  assumes "books_ok d" "create_checkout new_v4 context claim actor command payload now d = Inr (Inr s, d')"
  shows "books_ok d' \<and> (\<forall>a. total_stock d' a = total_stock d a)"
proof -
  obtain peeked drop_key d1 where g: "gate_checkout new_v4 actor (cmd_command_id command) peeked now d = Inr (Inr drop_key, d1)"
    and p: "place_checkout new_v4 context claim actor command payload drop_key now d1 = Inr (Inr s, d')"
    by (rule create_checkout_run [OF assms(2)])
  note e = gate_checkout_effect [OF assms(1) g]
  show ?thesis using place_checkout_books [OF e(1) p] e(2) by simp
qed

text \<open>C6: One order per seller and fulfillment.  The orders an accepted checkout creates are, in this order, the
  orders of the distinct pairs of seller and fulfillment of the cart's lines as they first occur, each with
  exactly the cart's lines of that pair in the cart's order, priced from the listing the buyer had read at its
  revision; every order waits for payment and has a payment of its own for its total.\<close>

theorem checkout_creates_orders:
  assumes "books_ok d" "create_checkout new_v4 context claim actor command payload now d = Inr (Inr s, d')"
  shows "\<exists>resolved orders payments.
    map fst resolved = cc_lines payload
    \<and> list_all (\<lambda>(line, listing). fetch_live_listing d (cl_listing_aggregate_id line) = Some listing
         \<and> ls_server_revision listing = cl_expected_revision line) resolved
    \<and> st_orders d' = st_orders d @ orders \<and> st_payments d' = st_payments d @ payments
    \<and> list_all2 (\<lambda>k (o', p). order_of_lines actor resolved k o' p)
        (first_occurrences (map line_key resolved)) (zip orders payments)
    \<and> length orders = length payments"
proof -
  obtain peeked drop_key d1 where g: "gate_checkout new_v4 actor (cmd_command_id command) peeked now d = Inr (Inr drop_key, d1)"
    and p: "place_checkout new_v4 context claim actor command payload drop_key now d1 = Inr (Inr s, d')"
    by (rule create_checkout_run [OF assms(2)])
  note e = gate_checkout_effect [OF assms(1) g]
  obtain resolved groups terms created d2 where res: "resolve_lines (cc_lines payload) d1 = Inr resolved"
    and gr: "group_lines (cx_digital context \<noteq> None) resolved [] = Inr groups"
    and terms': "terms = \<lparr>ct_buyer = actor, ct_command_id = cmd_command_id command, ct_payload = payload,
       ct_currency = ls_unit_price_currency (snd (hd resolved)),
       ct_exponent = ls_unit_price_exponent (snd (hd resolved)), ct_drop = drop_key,
       ct_drop_claim_seconds = claim, ct_now = now\<rparr>"
    and c: "create_groups new_v4 context terms groups d1 = Inr (Inr created, d2)"
    and r: "if drop_key = None then d' = d2 else claim_lines resolved now d2 = Inr (Inr (), d')"
    by (rule place_checkout_run [OF p])
  have terms: "ct_buyer terms = actor" by (simp add: terms')
  have rest: "st_orders d' = st_orders d2 \<and> st_payments d' = st_payments d2"
    using r claim_lines_frame by (cases "drop_key = None") auto
  have dist: "distinct (map or_id (st_orders d1))"
    using e(1) by (simp add: books_ok_def stock_ok_def stock_tables_ok_def table_ok_def)
  have rows: "st_orders d2 = st_orders d1 @ map fst created" "st_payments d2 = st_payments d1 @ map (\<lambda>(_, p, _). p) created"
      "list_all2 (\<lambda>g (o', p, _). o' = checkout_order terms g (or_id o') (or_payment_id o')
         \<and> p = checkout_payment terms g (or_id o') (or_payment_id o')) groups created"
    using create_groups_rows [OF c dist] by blast+
  have groups: "groups = reference_groups resolved" by (rule group_lines_reference [OF gr])
  note created_match [OF rows(3) [unfolded groups] terms]
  moreover have "st_orders d1 = st_orders d" "st_payments d1 = st_payments d"
    using e(3) by (simp_all add: drop_frame_def)
  ultimately show ?thesis
    using resolve_lines_read [OF res] rows(1,2) rest
    by (intro exI [of _ resolved] exI [of _ "map fst created"] exI [of _ "map (\<lambda>(_, p, _). p) created"])
       (auto simp: fetch_live_frame [OF e(3)] list_all_iff)
qed

text \<open>A checkout charges the listed price.  When every line's amount and shipping are at most \<open>MAX_SAFE_INTEGER\<close>
  and the cart has no more lines than the validation lets through, the total the order stores is price times
  quantity plus the flat shipping of every line, and nothing wraps on the way.\<close>

theorem checkout_total_exact:
  assumes "amounts_in_range g"
  shows "or_total_minor (checkout_order terms g order_id payment_id) = exact_total g
    \<and> pm_amount_minor (checkout_payment terms g order_id payment_id) = exact_total g"
  using group_total_exact [OF assms] by (simp add: checkout_payment_def)

theorem checkout_total_exact_witness:
  "group_total \<lparr>cg_seller = ''seller'', cg_method = Shipping, cg_lines = [(sample_cart_line ''listing:l'' 3, sample_listing)]\<rparr> = 300"
proof -
  let ?g = "\<lparr>cg_seller = ''seller'', cg_method = Shipping, cg_lines = [(sample_cart_line ''listing:l'' 3, sample_listing)]\<rparr>"
  have "amounts_in_range ?g" "exact_total ?g = 300" by code_simp+
  with checkout_total_exact [of ?g undefined undefined undefined] show ?thesis by simp
qed

theorem checkout_keeps_books_witness:
  "\<exists>s d'. create_checkout show_nat sample_context 600 ''buyer'' (sample_checkout (sample_cart [sample_cart_line ''listing:l'' 3]))
       (sample_cart [sample_cart_line ''listing:l'' 3]) 50 sample_pay_db = Inr (Inr s, d') \<and> books_ok d'"
proof -
  have "accepted (create_checkout show_nat sample_context 600 ''buyer'' (sample_checkout (sample_cart [sample_cart_line ''listing:l'' 3]))
       (sample_cart [sample_cart_line ''listing:l'' 3]) 50 sample_pay_db)"
    by code_simp
  then obtain s d' where run: "create_checkout show_nat sample_context 600 ''buyer''
      (sample_checkout (sample_cart [sample_cart_line ''listing:l'' 3]))
      (sample_cart [sample_cart_line ''listing:l'' 3]) 50 sample_pay_db = Inr (Inr s, d')"
    by (auto simp: accepted_iff)
  with checkout_keeps_books [OF sample_pay_ok(1) run] show ?thesis by blast
qed

lemma sample_market_ok: "books_ok sample_market_db"
proof -
  have "stock_ok sample_market_db" by code_simp
  moreover have "drops_ok sample_market_db = drops_ok sample_stock_db"
    by (rule drops_ok_cong) (simp_all add: sample_market_db_def)
  ultimately show ?thesis
    using sample_stock_drops
    by (simp add: books_ok_def hold_shape_def sample_market_db_def sample_stock_db_def sample_order_def)
qed

theorem checkout_creates_orders_witness:
  "\<exists>s d' orders. create_checkout show_nat sample_context 600 ''buyer''
       (sample_checkout (sample_cart [sample_cart_line ''listing:l'' 1, sample_cart_line ''listing:m'' 2]))
       (sample_cart [sample_cart_line ''listing:l'' 1, sample_cart_line ''listing:m'' 2]) 50 sample_market_db = Inr (Inr s, d')
     \<and> st_orders d' = st_orders sample_market_db @ orders \<and> length orders = 2"
proof -
  let ?run = "create_checkout show_nat sample_context 600 ''buyer''
       (sample_checkout (sample_cart [sample_cart_line ''listing:l'' 1, sample_cart_line ''listing:m'' 2]))
       (sample_cart [sample_cart_line ''listing:l'' 1, sample_cart_line ''listing:m'' 2]) 50 sample_market_db"
  have "accepted_with ?run (\<lambda>_ d'. length (st_orders d') = 3)" by code_simp
  then obtain s d' where run: "?run = Inr (Inr s, d')" and n: "length (st_orders d') = 3"
    by (auto simp: accepted_with_iff)
  obtain orders where "st_orders d' = st_orders sample_market_db @ orders"
    using checkout_creates_orders [OF sample_market_ok run] by blast
  moreover from this have "length orders = 2" using n by (simp add: sample_market_db_def sample_stock_db_def)
  ultimately show ?thesis using run by blast
qed

text \<open>C34: The subtotal of a checkout can wrap.  A price and a quantity that the validation accepts multiply to
  \<open>2^64\<close>: the checkout of 4096 units at 45035996273704.96 each is accepted, and the order it creates asks for
  nothing.\<close>

theorem checkout_total_wraps:
  "4503599627370496 \<le> MAX_SAFE_INTEGER \<and> accepted_with
     (create_checkout show_nat sample_context 600 ''buyer'' (sample_checkout (sample_cart [sample_cart_line ''listing:l'' 4096]))
        (sample_cart [sample_cart_line ''listing:l'' 4096]) 50 sample_overflow_db)
     (\<lambda>_ d'. map or_total_minor (st_orders d') = [0] \<and> map pm_amount_minor (st_payments d') = [0])"
proof
  show "4503599627370496 \<le> MAX_SAFE_INTEGER" by (simp add: MAX_SAFE_INTEGER_def)
  show "accepted_with
     (create_checkout show_nat sample_context 600 ''buyer'' (sample_checkout (sample_cart [sample_cart_line ''listing:l'' 4096]))
        (sample_cart [sample_cart_line ''listing:l'' 4096]) 50 sample_overflow_db)
     (\<lambda>_ d'. map or_total_minor (st_orders d') = [0] \<and> map pm_amount_minor (st_payments d') = [0])"
    by code_simp
qed

end
