(* ===== verification/Records_Facts.thy ===== *)
theory Records_Facts
  imports Records
begin

text \<open>
  What reading a seller's records promises: the reserve guards agree with a description by the objects a
  document contains, the event stream parser inverts a printer and accepts only well-formed events, award
  terms satisfy the constraints of the table they are stored in, and a drop record is accepted exactly when
  its terms are in range.
\<close>

section \<open>Vocabulary\<close>

text \<open>The values a document contains, itself included.\<close>

inductive within :: "json \<Rightarrow> json \<Rightarrow> bool" where
  within_self: "within v v"
| within_member: "(k, w) \<in> set object \<Longrightarrow> within v w \<Longrightarrow> within v (JObject object)"
| within_element: "w \<in> set values \<Longrightarrow> within v w \<Longrightarrow> within v (JArray values)"

inductive_simps within_object: "within v (JObject object)"
inductive_simps within_array: "within v (JArray values)"
inductive_simps within_scalar: "within v JNull" "within v (JBool b)" "within v (JInt i)" "within v (JFloat f)"
  "within v (JString s)"

definition carries_reserve :: "string \<Rightarrow> (string \<times> json) list \<Rightarrow> bool" where
  "carries_reserve key object \<longleftrightarrow> key \<in> set (map fst object) \<and> is_reserve_audience_key key"

definition event_wf :: "homeserver_event \<Rightarrow> bool" where
  "event_wf e \<longleftrightarrow> strip_prefix ''pubky://'' (hv_uri e) \<noteq> None \<and> CHR 0x0A \<notin> set (hv_uri e) \<and> is_cursor (hv_cursor e)"

text \<open>The framing of the stream, as the homeserver writes it.\<close>

definition event_lines :: "homeserver_event \<Rightarrow> string list" where
  "event_lines e =
     [''event: '' @ (case hv_kind e of Put \<Rightarrow> ''PUT'' | Del \<Rightarrow> ''DEL''), ''data: '' @ hv_uri e,
      ''data: cursor: '' @ hv_cursor e, []]"

definition render_events :: "homeserver_event list \<Rightarrow> string" where
  "render_events es = concat (map (\<lambda>l. l @ [CHR 0x0A]) (concat (map event_lines es)))"

text \<open>What the columns of an accepted offer ask of the terms.\<close>

definition award_terms_ok :: "award_listing_snapshot \<Rightarrow> bool" where
  "award_terms_ok s \<longleftrightarrow>
     0 < al_revision s \<and> al_currency s \<noteq> [] \<and> 0 \<le> al_exponent s \<and> al_exponent s \<le> 18 \<and> 0 \<le> al_shipping_minor s
     \<and> al_fulfillment_methods s \<noteq> [] \<and> distinct (al_fulfillment_methods s)
     \<and> set (al_fulfillment_methods s) \<subseteq> set [''shipping'', ''pickup'']
     \<and> (''shipping'' \<in> set (al_fulfillment_methods s) \<or> al_shipping_minor s = 0)
     \<and> al_variants s \<noteq> [] \<and> distinct (map va_id (al_variants s))
     \<and> list_all (\<lambda>v. va_id v \<noteq> [] \<and> 0 < va_quantity v \<and> length (va_options v) \<le> 100) (al_variants s)"

section \<open>Results\<close>

lemma or_return_Inr [simp]: "or_return r f = Inr y \<longleftrightarrow> (\<exists>x. r = Inr x \<and> f x = Inr y)"
  by (cases r) (auto simp: or_return_def)

lemma or_returnE: "or_return r f = Inr y \<Longrightarrow> (\<And>x. r = Inr x \<Longrightarrow> f x = Inr y \<Longrightarrow> P) \<Longrightarrow> P"
  by auto

lemma if_InlE: "(if b then Inl e else r) = Inr y \<Longrightarrow> (\<not> b \<Longrightarrow> r = Inr y \<Longrightarrow> P) \<Longrightarrow> P"
  by (simp split: if_splits)

lemma ok_or_Inr [simp]: "ok_or e x = Inr y \<longleftrightarrow> x = Some y"
  by (cases x) (auto simp: ok_or_def)

lemma collect_results_Inr: "collect_results rs = Inr xs \<longleftrightarrow> rs = map Inr xs"
  by (induction rs arbitrary: xs) (auto simp: Cons_eq_map_conv)

lemma filter_option_Some [simp]: "filter_option P x = Some y \<longleftrightarrow> x = Some y \<and> P y"
  by (cases x) (auto simp: filter_option_def)

lemma unit_result: "(r :: 'e + unit) = Inr () \<longleftrightarrow> (\<exists>x. r = Inr x)"
  by simp

section \<open>Reserve secrecy\<close>

text \<open>Every reserve field of a document is a direct member of the actor's own object, in snake case.\<close>

definition reserve_kept :: "string \<Rightarrow> json \<Rightarrow> bool" where
  "reserve_kept actor v \<longleftrightarrow>
     (\<forall>object. within (JObject object) v \<longrightarrow>
        (\<forall>key. carries_reserve key object \<longrightarrow> seller_object actor object \<and> seller_reserve_key key))"

lemma reserve_kept_object:
  "reserve_kept actor (JObject object) \<longleftrightarrow>
     (\<forall>key. carries_reserve key object \<longrightarrow> seller_object actor object \<and> seller_reserve_key key)
     \<and> (\<forall>kv \<in> set object. reserve_kept actor (snd kv))"
proof -
  have "within (JObject o') (JObject object) \<longleftrightarrow> o' = object \<or> (\<exists>kv \<in> set object. within (JObject o') (snd kv))" for o'
    by (simp only: within_object json.inject Bex_def split_paired_Ex snd_conv) blast
  moreover define Q where "Q o' \<longleftrightarrow> (\<forall>key. carries_reserve key o' \<longrightarrow> seller_object actor o' \<and> seller_reserve_key key)" for o'
  ultimately show ?thesis unfolding reserve_kept_def Q_def [symmetric] by (simp only:) blast
qed

lemma reserve_kept_array: "reserve_kept actor (JArray vs) \<longleftrightarrow> (\<forall>w \<in> set vs. reserve_kept actor w)"
  unfolding reserve_kept_def by (simp only: within_array json.distinct simp_thms) blast

lemma reserve_kept_scalar:
  "reserve_kept actor JNull" "reserve_kept actor (JBool b)" "reserve_kept actor (JInt i)"
  "reserve_kept actor (JFloat f)" "reserve_kept actor (JString t)"
  by (simp_all add: reserve_kept_def within_scalar)

lemmas reserve_kept_simps = reserve_kept_object reserve_kept_array reserve_kept_scalar

lemma carries_reserve_Cons:
  "carries_reserve key ((k, v) # object) \<longleftrightarrow> key = k \<and> is_reserve_audience_key k \<or> carries_reserve key object"
  by (auto simp: carries_reserve_def)

lemma audience_walk:
  "ensure_actor_reserve_audience v actor = Inr () \<longleftrightarrow> reserve_kept actor v"
  "audience_members seller object actor = Inr () \<longleftrightarrow>
     (\<forall>key. carries_reserve key object \<longrightarrow> seller \<and> seller_reserve_key key)
     \<and> (\<forall>kv \<in> set object. reserve_kept actor (snd kv))"
  "audience_values vs actor = Inr () \<longleftrightarrow> (\<forall>w \<in> set vs. reserve_kept actor w)"
  by (induction v actor and seller object actor and vs actor
      rule: ensure_actor_reserve_audience_audience_members_audience_values.induct)
    (auto simp: carries_reserve_Cons reserve_kept_simps carries_reserve_def [of _ "[]"])

lemma audience_Inl: "(\<exists>e. ensure_actor_reserve_audience v actor = Inl e) \<longleftrightarrow> \<not> reserve_kept actor v"
  by (cases "ensure_actor_reserve_audience v actor") (simp_all flip: audience_walk(1))

text \<open>C33: The reserve guard on command results is exact: a body is let through, unchanged, exactly when every
  reserve field anywhere in it is a direct member of an object whose seller is the reading actor (and spelled in
  snake case); any other body is replaced by an envelope that carries no reserve field at all.\<close>

theorem guard_command_result_exact:
  "guard_command_result actor body = (if reserve_kept actor body then Inr body else Inl internal_envelope)
   \<and> (\<forall>reader. reserve_kept reader internal_envelope)"
proof
  show "guard_command_result actor body = (if reserve_kept actor body then Inr body else Inl internal_envelope)"
    using audience_Inl [of body actor]
    by (cases "ensure_actor_reserve_audience body actor") (auto simp: guard_command_result_def)
  show "\<forall>reader. reserve_kept reader internal_envelope"
    by (simp add: internal_envelope_def reserve_kept_simps carries_reserve_def is_reserve_audience_key_def
        FORBIDDEN_RESERVE_KEYS_def SELLER_ONLY_RESERVE_METADATA_KEYS_def) auto
qed

theorem guard_command_result_exact_sample:
  "guard_command_result ''s'' (JObject [(''seller_pubky'', JString ''s''), (''reserve_price'', JNull)])
     = Inr (JObject [(''seller_pubky'', JString ''s''), (''reserve_price'', JNull)])"
  by code_simp

section \<open>The event stream\<close>

lemma split_inclusive_line:
  "CHR 0x0A \<notin> set l \<Longrightarrow> split_inclusive (l @ CHR 0x0A # s) = (l @ [CHR 0x0A]) # split_inclusive s"
  by (induction l) auto

lemma strip_suffix_end [simp]: "strip_suffix p (x @ p) = Some x"
  by (simp add: strip_suffix_Some)

lemma strip_line_end_LF: "l = [] \<or> last l \<noteq> CHR 0x0D \<Longrightarrow> strip_line_end (l @ [CHR 0x0A]) = l"
proof -
  assume l: "l = [] \<or> last l \<noteq> CHR 0x0D"
  have "strip_suffix [CHR 0x0A] (l @ [CHR 0x0A]) = Some l" by (simp add: strip_suffix_Some)
  moreover have "strip_suffix [CHR 0x0D] l = None"
  proof (rule ccontr)
    assume "strip_suffix [CHR 0x0D] l \<noteq> None"
    then obtain r where "l = r @ [CHR 0x0D]" by (auto simp: strip_suffix_Some)
    with l show False by simp
  qed
  ultimately show ?thesis by (simp add: strip_line_end_def)
qed

lemma str_lines_concat:
  "list_all (\<lambda>l. CHR 0x0A \<notin> set l \<and> (l = [] \<or> last l \<noteq> CHR 0x0D)) ls \<Longrightarrow>
   str_lines (concat (map (\<lambda>l. l @ [CHR 0x0A]) ls)) = ls"
  by (induction ls) (auto simp: str_lines_def split_inclusive_line strip_line_end_LF)

lemma split_inclusive_pieces:
  "l \<in> set (split_inclusive s) \<Longrightarrow> CHR 0x0A \<notin> set l \<or> (\<exists>x. l = x @ [CHR 0x0A] \<and> CHR 0x0A \<notin> set x)"
proof (induction s arbitrary: l)
  case (Cons c cs)
  show ?case
  proof (cases "c = CHR 0x0A")
    case True
    with Cons show ?thesis by auto
  next
    case False
    show ?thesis
    proof (cases "split_inclusive cs")
      case Nil
      with False Cons.prems show ?thesis by auto
    next
      case (Cons p ps)
      with False Cons.prems consider "l = c # p" | "l \<in> set ps" by auto
      then show ?thesis
      proof cases
        case 1
        have "CHR 0x0A \<notin> set p \<or> (\<exists>x. p = x @ [CHR 0x0A] \<and> CHR 0x0A \<notin> set x)" using Cons.IH Cons by simp
        then show ?thesis
        proof
          assume "\<exists>x. p = x @ [CHR 0x0A] \<and> CHR 0x0A \<notin> set x"
          then obtain x where "p = x @ [CHR 0x0A]" "CHR 0x0A \<notin> set x" by blast
          then have "l = (c # x) @ [CHR 0x0A] \<and> CHR 0x0A \<notin> set (c # x)" using 1 False by simp
          then show ?thesis by blast
        qed (use 1 False in simp)
      qed (use Cons.IH Cons in simp)
    qed
  qed
qed simp

lemma str_lines_no_LF: "l \<in> set (str_lines s) \<Longrightarrow> CHR 0x0A \<notin> set l"
proof -
  assume "l \<in> set (str_lines s)"
  then obtain p where p: "p \<in> set (split_inclusive s)" and l: "l = strip_line_end p" by (auto simp: str_lines_def)
  from split_inclusive_pieces [OF p] show ?thesis
    by (auto simp: l strip_line_end_def strip_suffix_Some split: option.splits)
qed

lemma read_three_lines:
  "a \<noteq> [] \<Longrightarrow> b \<noteq> [] \<Longrightarrow> c \<noteq> [] \<Longrightarrow> read_line a f = Some f1 \<Longrightarrow> read_line b f1 = Some f2 \<Longrightarrow>
   read_line c f2 = Some f3 \<Longrightarrow>
   read_lines ([a, b, c, []] @ rest) f events = Option.bind (finish_event f3 events) (read_lines rest no_fields)"
  by simp

text \<open>Reading the three lines of an event and the empty one after them.\<close>

lemma read_event_lines:
  assumes "event_wf e"
  shows "read_lines (event_lines e @ rest) no_fields events = read_lines rest no_fields (events @ [e])"
proof -
  obtain u where u: "hv_uri e = ''pubky://'' @ u" using assms by (auto simp: event_wf_def strip_prefix_Some)
  have k: "read_line (''event: '' @ (case hv_kind e of Put \<Rightarrow> ''PUT'' | Del \<Rightarrow> ''DEL'')) no_fields
      = Some (no_fields\<lparr>ef_kind := Some (hv_kind e)\<rparr>)"
    by (cases "hv_kind e") (simp_all add: read_line_def strip_prefix_def no_fields_def event_kind_of_def)
  have d: "read_line (''data: '' @ hv_uri e) f = Some (f\<lparr>ef_uri := Some (hv_uri e)\<rparr>)" if "ef_uri f = None" for f
    using that by (simp add: read_line_def read_data_def strip_prefix_def u)
  have c: "read_line (''data: cursor: '' @ hv_cursor e) f = Some (f\<lparr>ef_cursor := Some (hv_cursor e)\<rparr>)"
    if "ef_cursor f = None" for f
    using that assms by (simp add: read_line_def read_data_def strip_prefix_def event_wf_def)
  have "read_lines (event_lines e @ rest) no_fields events
      = Option.bind (finish_event (no_fields\<lparr>ef_kind := Some (hv_kind e), ef_uri := Some (hv_uri e),
          ef_cursor := Some (hv_cursor e)\<rparr>) events) (read_lines rest no_fields)"
    unfolding event_lines_def
    by (rule read_three_lines [OF _ _ _ k d c]) (simp_all add: no_fields_def)
  then show ?thesis by (cases e) (simp add: finish_event_def)
qed

lemma read_rendered:
  "list_all event_wf es \<Longrightarrow> read_lines (concat (map event_lines es)) no_fields events = Some (events @ es)"
proof (induction es arbitrary: events)
  case Nil
  then show ?case by (simp add: finish_event_def no_fields_def)
next
  case (Cons e es)
  then show ?case by (simp add: read_event_lines)
qed

text \<open>The fields read so far are those of a well-formed event.\<close>

definition fields_wf :: "event_fields \<Rightarrow> bool" where
  "fields_wf f \<longleftrightarrow>
     (\<forall>u. ef_uri f = Some u \<longrightarrow> strip_prefix ''pubky://'' u \<noteq> None \<and> CHR 0x0A \<notin> set u)
     \<and> (\<forall>c. ef_cursor f = Some c \<longrightarrow> is_cursor c)"

lemma read_data_wf:
  "read_data data f = Some f' \<Longrightarrow> fields_wf f \<Longrightarrow> CHR 0x0A \<notin> set data \<Longrightarrow> fields_wf f'"
  by (auto simp: read_data_def fields_wf_def split: option.splits if_splits)

lemma fields_wf_kind: "fields_wf (f\<lparr>ef_kind := k\<rparr>) = fields_wf f"
  by (simp add: fields_wf_def)

lemma read_line_wf:
  "read_line line f = Some f' \<Longrightarrow> fields_wf f \<Longrightarrow> CHR 0x0A \<notin> set line \<Longrightarrow> fields_wf f'"
  unfolding read_line_def
  using read_data_wf
  by (fastforce simp: strip_prefix_Some [of "''event: ''"] strip_prefix_Some [of "''data: ''"] fields_wf_kind
      split: option.splits if_splits)

lemma finish_event_wf:
  "finish_event f events = Some ev \<Longrightarrow> fields_wf f \<Longrightarrow> list_all event_wf events \<Longrightarrow> list_all event_wf ev"
  by (auto simp: finish_event_def fields_wf_def event_wf_def [of "\<lparr>hv_kind = k, hv_uri = u, hv_cursor = c\<rparr>" for k u c]
      split: option.splits)

lemma read_lines_wf:
  "read_lines ls f events = Some es \<Longrightarrow> fields_wf f \<Longrightarrow> list_all event_wf events \<Longrightarrow>
   list_all (\<lambda>l. CHR 0x0A \<notin> set l) ls \<Longrightarrow> list_all event_wf es"
proof (induction ls arbitrary: f events)
  case Nil
  then show ?case using finish_event_wf by simp
next
  case (Cons l ls)
  show ?case
  proof (cases "l = []")
    case True
    with Cons.prems obtain ev where "finish_event f events = Some ev" "read_lines ls no_fields ev = Some es"
      by (auto simp: bind_eq_Some_conv)
    moreover from this Cons.prems have "list_all event_wf ev" using finish_event_wf by blast
    ultimately show ?thesis using Cons.IH [of no_fields ev] Cons.prems by (simp add: fields_wf_def no_fields_def)
  next
    case False
    with Cons.prems obtain f' where "read_line l f = Some f'" "read_lines ls f' events = Some es"
      by (auto simp: bind_eq_Some_conv)
    with Cons show ?thesis using read_line_wf by simp
  qed
qed

text \<open>The event stream parser inverts the homeserver's framing: printing well-formed events and parsing
  them gives the events back, and whatever it accepts is a list of well-formed events (an address under
  \<open>pubky://\<close> on one line, a cursor of one to twenty digits).\<close>

theorem parse_event_stream_roundtrip:
  "(list_all (\<lambda>e. event_wf e \<and> last (hv_uri e) \<noteq> CHR 0x0D) es \<longrightarrow> parse_event_stream (render_events es) = Some es)
   \<and> (parse_event_stream body = Some parsed \<longrightarrow> list_all event_wf parsed)"
proof (intro conjI impI)
  assume wf: "list_all (\<lambda>e. event_wf e \<and> last (hv_uri e) \<noteq> CHR 0x0D) es"
  have "list_all (\<lambda>l. CHR 0x0A \<notin> set l \<and> (l = [] \<or> last l \<noteq> CHR 0x0D)) (event_lines e)"
    if "event_wf e" "last (hv_uri e) \<noteq> CHR 0x0D" for e
  proof -
    have "hv_uri e \<noteq> []" using that(1) by (auto simp: event_wf_def strip_prefix_Some)
    moreover have "hv_cursor e \<noteq> []" and digits: "list_all is_ascii_digit (hv_cursor e)"
      using that(1) by (simp_all add: event_wf_def is_cursor_def)
    moreover have "is_ascii_digit (last (hv_cursor e))" using digits calculation(2) by (simp add: list_all_iff)
    then have "CHR 0x0A \<notin> set (hv_cursor e)" "last (hv_cursor e) \<noteq> CHR 0x0D"
      using digits by (auto simp: list_all_iff is_ascii_digit_def)
    ultimately show ?thesis
      using that by (cases "hv_kind e") (simp_all add: event_lines_def event_wf_def)
  qed
  with wf have "list_all (\<lambda>l. CHR 0x0A \<notin> set l \<and> (l = [] \<or> last l \<noteq> CHR 0x0D)) (concat (map event_lines es))"
    by (induction es) auto
  then have "str_lines (render_events es) = concat (map event_lines es)"
    unfolding render_events_def by (rule str_lines_concat)
  moreover have "list_all event_wf es" using wf by (auto simp: list_all_iff)
  ultimately show "parse_event_stream (render_events es) = Some es"
    using read_rendered [of es "[]"] by (simp add: parse_event_stream_def)
next
  assume "parse_event_stream body = Some parsed"
  then show "list_all event_wf parsed"
    unfolding parse_event_stream_def
    by (rule read_lines_wf) (auto simp: fields_wf_def no_fields_def list_all_iff dest: str_lines_no_LF)
qed

definition sample_events :: "homeserver_event list" where
  "sample_events = [\<lparr>hv_kind = Del, hv_uri = ''pubky://s/x'', hv_cursor = ''43''\<rparr>, \<lparr>hv_kind = Put, hv_uri = ''pubky://s/y'', hv_cursor = ''44''\<rparr>]"

theorem parse_event_stream_roundtrip_witness:
  "list_all (\<lambda>e. event_wf e \<and> last (hv_uri e) \<noteq> CHR 0x0D) sample_events
   \<and> parse_event_stream (render_events sample_events) = Some sample_events
   \<and> parse_event_stream ''event: PUT'' = None"
proof -
  have wf: "list_all (\<lambda>e. event_wf e \<and> last (hv_uri e) \<noteq> CHR 0x0D) sample_events" by code_simp
  with parse_event_stream_roundtrip [of sample_events "[]" "[]"] show ?thesis
    by (simp only: simp_thms) code_simp
qed

section \<open>Award terms\<close>

lemma record_money_ok:
  "record_money v = Inr m \<Longrightarrow> 0 < amount_minor m \<and> currency m \<noteq> [] \<and> 0 \<le> exponent m \<and> exponent m \<le> 18"
  by (auto simp: record_money_def in_range_def split: if_splits)

lemma nonempty_str_Some: "nonempty_str object key = Some s \<longleftrightarrow> Option.bind (map_of object key) as_str = Some s \<and> s \<noteq> []"
  by (simp add: nonempty_str_def)

lemma award_variant_ok:
  assumes "award_variant variant = Inr v"
  shows "va_id v \<noteq> [] \<and> 0 < va_quantity v \<and> length (va_options v) \<le> 100
     \<and> Option.bind (json_get variant ''id'') as_str = Some (va_id v)"
proof -
  obtain object where o: "as_object variant = Some object" and "nonempty_str object ''id'' = Some (va_id v)"
    and "0 < va_quantity v" "length (va_options v) \<le> 100"
    using assms unfolding award_variant_def by (elim or_returnE if_InlE) (rule that, auto)
  then show ?thesis by (simp add: nonempty_str_Some json_get_def)
qed

lemma shipping_option_price_ok: "shipping_option_price u option = Inr p \<Longrightarrow> 0 \<le> p"
  unfolding shipping_option_price_def
proof (elim or_returnE)
  fix object
  assume "(case Option.bind (map_of object ''pricing'') as_str of
      None \<Rightarrow> Inl ''unpriceable shipping''
    | Some pricing \<Rightarrow>
        if pricing = ''free'' then Inr 0
        else if pricing = ''flat''
        then or_return (or_return (ok_or ''missing shipping price'' (map_of object ''price'')) record_money)
               (\<lambda>price.
                  if currency price \<noteq> currency u \<or> exponent price \<noteq> exponent u
                  then Inl ''shipping money mismatch'' else Inr (amount_minor price))
        else Inl ''unpriceable shipping'') = Inr p"
  then consider "p = 0" | m v where "record_money v = Inr m" "p = amount_minor m"
    by (simp split: option.split_asm if_split_asm) blast+
  then show ?thesis using record_money_ok by cases (auto simp: less_imp_le)
qed

lemma fold_min_ge: "\<forall>x \<in> set xs. b \<le> x \<Longrightarrow> b \<le> a \<Longrightarrow> b \<le> fold min xs (a :: int)"
  by (induction xs arbitrary: a) auto

lemma award_shipping_ok:
  assumes "award_shipping object methods u = Inr p"
  shows "0 \<le> p \<and> (''shipping'' \<in> set methods \<or> p = 0)"
proof (cases "''shipping'' \<in> set methods \<and> map_of object ''shippingOptions'' \<noteq> None")
  case True
  with assms obtain options prices where ps: "map (shipping_option_price u) options = map Inr prices" "options \<noteq> []"
    and p: "p = fold min prices (hd prices)"
    by (auto simp: award_shipping_def collect_results_Inr split: if_splits)
  then have ne: "prices \<noteq> []" by auto
  have "\<forall>x \<in> set prices. 0 \<le> x"
  proof
    fix x assume "x \<in> set prices"
    then have "Inr x \<in> set (map (shipping_option_price u) options)" by (simp add: ps(1))
    then obtain opt where "shipping_option_price u opt = Inr x" by auto
    then show "0 \<le> x" by (rule shipping_option_price_ok)
  qed
  with ne True show ?thesis unfolding p by (simp add: fold_min_ge)
next
  case False
  with assms show ?thesis by (auto simp: award_shipping_def split: if_splits)
qed

lemma award_variants_ok:
  assumes "award_variants selected raw u = Inr vs"
  shows "vs \<noteq> []" "distinct (map va_id vs)"
    "list_all (\<lambda>v. va_id v \<noteq> [] \<and> 0 < va_quantity v \<and> length (va_options v) \<le> 100) vs"
    "selected = Some k \<Longrightarrow> map va_id vs = [k]"
proof -
  obtain rs where rs: "map award_variant rs = map Inr vs"
    "rs = filter (\<lambda>variant. variant_enabled variant
        \<and> (case selected of None \<Rightarrow> True | Some k \<Rightarrow> variant_id_is k variant)) raw"
    and ne: "vs \<noteq> []" and di: "distinct (map va_id vs)"
    using assms by (auto simp: award_variants_def collect_results_Inr split: if_splits)
  have each: "\<exists>r \<in> set rs. award_variant r = Inr v" if "v \<in> set vs" for v
  proof -
    have "Inr v \<in> set (map award_variant rs)" using that by (simp add: rs(1))
    then show ?thesis by auto
  qed
  show "vs \<noteq> []" "distinct (map va_id vs)" by fact+
  show "list_all (\<lambda>v. va_id v \<noteq> [] \<and> 0 < va_quantity v \<and> length (va_options v) \<le> 100) vs"
    using each award_variant_ok by (fastforce simp: list_all_iff)
  show "map va_id vs = [k]" if "selected = Some k"
  proof -
    have "va_id v = k" if mem: "v \<in> set vs" for v
      using each [OF mem] award_variant_ok \<open>selected = Some k\<close> by (fastforce simp: rs(2) variant_id_is_def)
    then have "set (map va_id vs) \<subseteq> {k}" by auto
    moreover have "length (map va_id vs) = card (set (map va_id vs))" using di by (metis distinct_card)
    ultimately have "length vs \<le> 1" by (metis card_mono card.empty card.insert empty_iff finite.emptyI
        finite_insert length_map One_nat_def)
    with ne \<open>set (map va_id vs) \<subseteq> {k}\<close> show ?thesis by (cases vs) auto
  qed
qed

lemma physical_methods_fold:
  "set seen \<subseteq> set [''shipping'', ''pickup''] \<Longrightarrow> distinct seen \<Longrightarrow>
   (let ms = foldl (\<lambda>seen m. if List.member [''shipping'', ''pickup''] m \<and> \<not> List.member seen m then seen @ [m] else seen)
      seen names in set ms \<subseteq> set [''shipping'', ''pickup''] \<and> distinct ms)"
  by (induction names arbitrary: seen) (auto simp: Let_def)

lemma physical_methods_ok:
  "record_physical_fulfillment_methods object \<noteq> []" "distinct (record_physical_fulfillment_methods object)"
  "set (record_physical_fulfillment_methods object) \<subseteq> set [''shipping'', ''pickup'']"
  using physical_methods_fold [of "[]" "some_strings (array_member object ''fulfillmentMethods'')"]
  by (simp_all add: record_physical_fulfillment_methods_def Let_def)

text \<open>C35: Award terms read from a seller's record satisfy every constraint of the columns that store them (a
  positive revision, an exponent of 0 to 18, one or two distinct physical methods, free shipping where the record
  only offers pickup, distinct variants with stock), and reading for a chosen variant yields that variant alone.\<close>

theorem award_terms_meet_constraints:
  assumes "award_terms_from_bytes_for_variant codec bytes selected = Inr s"
  shows "award_terms_ok s \<and> al_raw_sha256 s = cd_sha256_hex codec bytes
    \<and> (\<forall>k. selected = Some k \<longrightarrow> map va_id (al_variants s) = [k])"
proof -
  obtain object raw u where vs: "award_variants selected raw u = Inr (al_variants s)"
    and sh: "award_shipping object (al_fulfillment_methods s) u = Inr (al_shipping_minor s)"
    and ms: "al_fulfillment_methods s = record_physical_fulfillment_methods object"
    and u: "\<exists>v. record_money v = Inr u" and c: "al_currency s = currency u" "al_exponent s = exponent u"
    and r: "0 < al_revision s" "al_raw_sha256 s = cd_sha256_hex codec bytes"
    using assms
    by (auto simp: award_terms_from_bytes_for_variant_def award_terms_of_def Let_def split: if_splits) blast
  show ?thesis
    using award_variants_ok [OF vs] award_shipping_ok [OF sh] physical_methods_ok [of object] r u
    by (auto simp: award_terms_ok_def c ms dest: record_money_ok)
qed

definition sample_record :: json where
  "sample_record =
     JObject [(''revision'', JInt 3), (''sale'', JObject [(''format'', JString ''fixed_price''),
         (''unitPrice'', JObject [(''amountMinor'', JInt 900), (''currency'', JString ''USD''), (''exponent'', JInt 2)])]),
       (''variants'', JArray [JObject [(''id'', JString ''v1''), (''enabled'', JBool True), (''quantity'', JInt 4)],
          JObject [(''id'', JString ''v2''), (''enabled'', JBool True), (''quantity'', JInt 1)]]),
       (''fulfillmentMethods'', JArray [JString ''pickup'', JString ''pickup'', JString ''physical''])]"

definition sample_codec :: record_codec where
  "sample_codec = \<lparr>cd_from_slice = (\<lambda>b. if b = ''r'' then Some sample_record else None), cd_sha256_hex = (\<lambda>b. b)\<rparr>"

theorem award_terms_meet_constraints_witness:
  "\<exists>s. award_terms_from_bytes_for_variant sample_codec ''r'' (Some ''v2'') = Inr s \<and> award_terms_ok s
     \<and> map va_id (al_variants s) = [''v2'']"
proof -
  let ?s = "projr (award_terms_from_bytes_for_variant sample_codec ''r'' (Some ''v2''))"
  have "award_terms_of ''r'' (Some ''v2'') sample_record = Inr (projr (award_terms_of ''r'' (Some ''v2'') sample_record))"
    by code_simp
  then have "award_terms_from_bytes_for_variant sample_codec ''r'' (Some ''v2'') = Inr ?s"
    by (simp add: award_terms_from_bytes_for_variant_def sample_codec_def MAX_AWARD_LISTING_BYTES_def or_return_def ok_or_def)
  from award_terms_meet_constraints [OF this] this show ?thesis by blast
qed

end
