(* ===== verification/Offers.thy ===== *)
theory Offers
  imports Holds
begin

text \<open>
  \<^verbatim>\<open>handlers/offers.rs\<close>, the negotiation (\<open>offer.create\<close>, \<open>offer.counter\<close>, \<open>offer.accept\<close>, \<open>offer.reject\<close>,
  \<open>offer.withdraw\<close>), and \<^verbatim>\<open>handlers/offer_checkout.rs\<close>, the order an accepted offer is converted into.
  The homeserver client is the parameter \<open>listing_client\<close>: its fetch, and the codec its bytes are read with.
\<close>

record listing_client =
  lc_codec :: record_codec
  lc_fetch_listing_raw :: "pubky \<Rightarrow> string \<Rightarrow> raw_fetch_outcome"

definition ACCEPTED_OFFER_HOLD_SECONDS :: int where
  "ACCEPTED_OFFER_HOLD_SECONDS = 30 * 60"

definition history_entry :: "int \<Rightarrow> pubky \<Rightarrow> string \<Rightarrow> money \<Rightarrow> int \<Rightarrow> string \<Rightarrow> datetime \<Rightarrow> offer_history_entry" where
  "history_entry revision actor action amount quantity message occurred_at =
     \<lparr>he_revision = revision, he_actor_pubky = actor, he_action = action, he_amount = amount,
      he_quantity = quantity, he_message = message, he_occurred_at = format_timestamp occurred_at\<rparr>"

definition offer_amount :: "offer_row \<Rightarrow> money" where
  "offer_amount r = \<lparr>amount_minor = ro_amount_minor r, currency = ro_currency r, exponent = ro_exponent r\<rparr>"

definition offer_listing_changed :: command_failure where
  "offer_listing_changed =
     refused RAwardListingChanged AwardListingChanged ''The listing snapshot does not match the offer terms.''"

definition offer_listing_missing :: command_failure where
  "offer_listing_missing = refused RNotFound NotFound ''The offer listing is unavailable.''"

definition stale_offer :: "offer_row \<Rightarrow> command_failure" where
  "stale_offer r = refused_with_revision RRevisionConflict RevisionConflict ''The offer revision is stale.'' (ro_revision r)"

definition variant_mismatch :: command_failure where
  "variant_mismatch =
     refused RAwardVariantMismatch AwardVariantMismatch ''The checkout variant does not match the accepted offer.''"

section \<open>Creating\<close>

text \<open>The terms at creation: none when no record can be had, a refusal when the record does not read.\<close>

definition offer_terms :: "listing_client option \<Rightarrow> listing_row \<Rightarrow> command_failure + award_listing_snapshot option" where
  "offer_terms homeserver listing =
     (case homeserver of
        None \<Rightarrow> Inr None
      | Some client \<Rightarrow>
          (case lc_fetch_listing_raw client (ls_seller_pubky listing) (ls_listing_id listing) of
             RawFound raw \<Rightarrow>
               (case award_terms_from_bytes (lc_codec client) raw of
                  Inr snapshot \<Rightarrow> Inr (Some snapshot) | Inl _ \<Rightarrow> Inl offer_listing_changed)
           | RawTooLarge \<Rightarrow> Inl offer_listing_changed
           | RawNotFound \<Rightarrow> Inr None
           | RawUnavailable \<Rightarrow> Inr None))"

definition sole_variant :: "award_listing_snapshot \<Rightarrow> string option" where
  "sole_variant snapshot = (case al_variants snapshot of [v] \<Rightarrow> Some (va_id v) | _ \<Rightarrow> None)"

definition terms_doc :: "award_listing_snapshot \<Rightarrow> string option \<Rightarrow> terms_snapshot_doc" where
  "terms_doc snapshot variant =
     \<lparr>td_revision = al_revision snapshot, td_title = al_title snapshot, td_currency = al_currency snapshot,
      td_exponent = al_exponent snapshot, td_shipping_minor = al_shipping_minor snapshot, td_variant = variant\<rparr>"

definition offer_insert ::
  "pubky \<Rightarrow> command \<Rightarrow> offer_terms_payload \<Rightarrow> listing_row \<Rightarrow> award_listing_snapshot option \<Rightarrow> datetime \<Rightarrow> offer_row" where
  "offer_insert actor command payload listing terms now =
     (let selected = Option.bind terms sole_variant
      in \<lparr>ro_id = cmd_command_id command, ro_aggregate_id = offer_aggregate_id (cmd_command_id command),
          ro_listing_aggregate_id = ls_aggregate_id listing, ro_buyer_pubky = actor,
          ro_seller_pubky = ls_seller_pubky listing, ro_revision = 1, ro_state = ''pending'', ro_offered_by = actor,
          ro_amount_minor = amount_minor (ot_amount payload), ro_currency = currency (ot_amount payload),
          ro_exponent = exponent (ot_amount payload), ro_quantity = ot_quantity payload, ro_message = ot_message payload,
          ro_history = [history_entry 1 actor ''created'' (ot_amount payload) (ot_quantity payload) (ot_message payload) now],
          ro_expires_at = now + seconds (ot_expires_in_seconds payload), ro_created_at = now, ro_updated_at = now,
          ro_variant_id = selected, ro_terms_listing_revision = map_option al_revision terms,
          ro_terms_listing_record_sha256 = map_option al_raw_sha256 terms,
          ro_terms_snapshot = map_option (\<lambda>s. terms_doc s selected) terms, ro_award_id = None, ro_accepted_at = None,
          ro_award_expires_at = None, ro_reservation_id = None, ro_accepted_unit_price_minor = None,
          ro_accepted_currency = None, ro_accepted_exponent = None, ro_accepted_quantity = None,
          ro_accepted_listing_aggregate_id = None, ro_accepted_listing_title = None,
          ro_accepted_listing_revision = None, ro_accepted_listing_record_sha256 = None, ro_accepted_variant_id = None,
          ro_accepted_variant_sku = None, ro_accepted_variant_options = None, ro_accepted_shipping_minor = None,
          ro_accepted_subtotal_minor = None, ro_accepted_total_minor = None, ro_accepted_fulfillment = None,
          ro_accepted_fulfillment_methods = None, ro_converted_order_id = None, ro_converted_at = None,
          ro_expiry_reason = None\<rparr>)"

text \<open>Answering with the offer after its event; \<open>notice\<close> is the notification it queues, if any.\<close>

definition finish_offer_action ::
  "uuid_source \<Rightarrow> pubky \<Rightarrow> command \<Rightarrow> offer_row \<Rightarrow> string \<Rightarrow> (string \<times> pubky) option \<Rightarrow> datetime \<Rightarrow> db \<Rightarrow> handler_result tx" where
  "finish_offer_action new_v4 actor command offer kind notice now d =
     seq (insert_event new_v4 (cmd_command_id command) (ro_aggregate_id offer) (ro_revision offer) actor kind now d)
       (\<lambda>event_id d1.
          Inr (Inr \<lparr>hs_revision = ro_revision offer, hs_event_ids = [event_id], hs_result = ResultOffer offer\<rparr>,
            case notice of
              None \<Rightarrow> d1
            | Some (notification, recipient) \<Rightarrow>
                insert_notification_intent event_id notification recipient actor (ro_aggregate_id offer)
                  (Some (offer_amount offer)) now d1))"

definition create_offer ::
  "uuid_source \<Rightarrow> pubky \<Rightarrow> command \<Rightarrow> offer_terms_payload \<Rightarrow> listing_client option \<Rightarrow> datetime \<Rightarrow> db \<Rightarrow> handler_result tx" where
  "create_offer new_v4 actor command payload homeserver now d =
     (case fetch_live_listing d (cmd_aggregate_id command) of
        None \<Rightarrow> refuse (refused RNotFound NotFound ''The listing is not registered.'') d
      | Some listing \<Rightarrow>
          if ls_seller_pubky listing = actor
          then refuse (refused RUnauthorized Unauthorized ''A seller cannot make an offer on their own listing.'') d
          else if cmd_expected_revision command \<noteq> ls_server_revision listing
          then refuse (refused_with_revision RRevisionConflict RevisionConflict ''The listing revision is stale.''
                 (ls_server_revision listing)) d
          else if ls_available_quantity listing < ot_quantity payload
          then refuse (refused_with_revision RInsufficientInventory InsufficientInventory
                 ''The requested offer quantity is unavailable.'' (ls_server_revision listing)) d
          else if ls_unit_price_currency listing \<noteq> currency (ot_amount payload)
                  \<or> ls_unit_price_exponent listing \<noteq> exponent (ot_amount payload)
          then refuse (refused RInvalidCommand InvalidCommand
                 ''Offer amount must use the listing asset and exponent.'') d
          else if \<not> list_ex (\<lambda>m. m = ''shipping'' \<or> m = ''pickup'') (ls_fulfillment_methods listing)
          then refuse (refused_with_reason RInvalidState InvalidState ''Offers are not available on digital items.''
                 ''offers_unavailable_for_digital'') d
          else
            (case offer_terms homeserver listing of
               Inl failure \<Rightarrow> refuse failure d
             | Inr terms \<Rightarrow>
                 let offer = offer_insert actor command payload listing terms now
                 in seq (insert_offer offer d)
                      (\<lambda>_. finish_offer_action new_v4 actor command offer ''offer.created''
                              (Some (''offer_received'', ro_seller_pubky offer)) now)))"

section \<open>Acting on an offer\<close>

definition fetch_offer :: "db \<Rightarrow> uuid \<Rightarrow> offer_row option" where
  "fetch_offer d offer_id = fetch ro_id offer_id (st_offers d)"

definition actionable_offer :: "db \<Rightarrow> pubky \<Rightarrow> uuid \<Rightarrow> string \<Rightarrow> datetime \<Rightarrow> command_failure + offer_row" where
  "actionable_offer d actor offer_id aggregate_id now =
     (case fetch_offer d offer_id of
        None \<Rightarrow> Inl (refused RNotFound NotFound ''The offer was not found.'')
      | Some offer \<Rightarrow>
          if aggregate_id \<noteq> ro_aggregate_id offer
          then Inl (refused RInvalidCommand InvalidCommand ''The offer aggregate id is invalid.'')
          else if actor \<noteq> ro_buyer_pubky offer \<and> actor \<noteq> ro_seller_pubky offer
          then Inl (refused RUnauthorized Unauthorized ''Only offer participants may act on it.'')
          else if ro_state offer \<noteq> ''pending'' \<and> ro_state offer \<noteq> ''countered''
          then Inl (refused RInvalidState InvalidState ''The offer is no longer actionable.'')
          else if ro_expires_at offer \<le> now
          then Inl (refused ROfferExpired OfferExpired ''The offer has expired.'')
          else Inr offer)"

definition other_participant :: "offer_row \<Rightarrow> pubky \<Rightarrow> pubky" where
  "other_participant offer actor = (if actor = ro_seller_pubky offer then ro_buyer_pubky offer else ro_seller_pubky offer)"

text \<open>A terminal state with its history entry.\<close>

definition finished_offer :: "offer_row \<Rightarrow> pubky \<Rightarrow> string \<Rightarrow> datetime \<Rightarrow> offer_row \<Rightarrow> offer_row" where
  "finished_offer offer actor state now r =
     r\<lparr>ro_revision := ro_revision offer + 1, ro_state := state, ro_updated_at := now,
       ro_history := ro_history r
         @ [history_entry (ro_revision offer + 1) actor state (offer_amount offer) (ro_quantity offer) [] now]\<rparr>"

definition finish_offer :: "offer_row \<Rightarrow> pubky \<Rightarrow> string \<Rightarrow> datetime \<Rightarrow> db \<Rightarrow> offer_row tx" where
  "finish_offer offer actor state now d =
     fetch_one (update_offers (\<lambda>r. ro_id r = ro_id offer) (finished_offer offer actor state now) d)"

definition reject_offer ::
  "uuid_source \<Rightarrow> pubky \<Rightarrow> command \<Rightarrow> offer_action_payload \<Rightarrow> datetime \<Rightarrow> db \<Rightarrow> handler_result tx" where
  "reject_offer new_v4 actor command payload now d =
     (case actionable_offer d actor (oa_offer_id payload) (cmd_aggregate_id command) now of
        Inl failure \<Rightarrow> refuse failure d
      | Inr offer \<Rightarrow>
          if cmd_expected_revision command \<noteq> ro_revision offer then refuse (stale_offer offer) d
          else if actor = ro_offered_by offer
          then refuse (refused RUnauthorized Unauthorized ''The current offer author cannot reject their own terms.'') d
          else seq (finish_offer offer actor ''rejected'' now d)
                 (\<lambda>updated. finish_offer_action new_v4 actor command updated ''offer.rejected''
                    (Some (''offer_rejected'', other_participant updated actor)) now))"

definition withdraw_offer ::
  "uuid_source \<Rightarrow> pubky \<Rightarrow> command \<Rightarrow> offer_action_payload \<Rightarrow> datetime \<Rightarrow> db \<Rightarrow> handler_result tx" where
  "withdraw_offer new_v4 actor command payload now d =
     (case actionable_offer d actor (oa_offer_id payload) (cmd_aggregate_id command) now of
        Inl failure \<Rightarrow> refuse failure d
      | Inr offer \<Rightarrow>
          if actor \<noteq> ro_offered_by offer
          then refuse (refused RUnauthorized Unauthorized ''Only the current offer author may withdraw it.'') d
          else if cmd_expected_revision command \<noteq> ro_revision offer then refuse (stale_offer offer) d
          else seq (finish_offer offer actor ''withdrawn'' now d)
                 (\<lambda>updated. finish_offer_action new_v4 actor command updated ''offer.withdrawn'' None now))"

section \<open>Countering\<close>

text \<open>The record a counter or an acceptance reads, for the variant the offer names.\<close>

definition fetch_award_terms :: "listing_client \<Rightarrow> offer_row \<Rightarrow> db \<Rightarrow> command_failure + award_listing_snapshot" where
  "fetch_award_terms client locator d =
     (case fetch_listing d (ro_listing_aggregate_id locator) of
        None \<Rightarrow> Inl offer_listing_missing
      | Some listing \<Rightarrow>
          (case lc_fetch_listing_raw client (ro_seller_pubky locator) (ls_listing_id listing) of
             RawFound raw \<Rightarrow>
               (case award_terms_from_bytes_for_variant (lc_codec client) raw (ro_variant_id locator) of
                  Inr snapshot \<Rightarrow> Inr snapshot | Inl _ \<Rightarrow> Inl offer_listing_changed)
           | RawTooLarge \<Rightarrow> Inl offer_listing_changed
           | _ \<Rightarrow> Inl (refused RInvalidState InvalidState ''The seller listing record is unavailable.'')))"

definition refreshed_terms ::
  "listing_client option \<Rightarrow> pubky \<Rightarrow> uuid \<Rightarrow> db \<Rightarrow> command_failure + award_listing_snapshot option" where
  "refreshed_terms homeserver actor offer_id d =
     (case (homeserver, find (\<lambda>r. ro_id r = offer_id \<and> (ro_buyer_pubky r = actor \<or> ro_seller_pubky r = actor)) (st_offers d)) of
        (Some client, Some locator) \<Rightarrow>
          (case fetch_award_terms client locator d of Inl failure \<Rightarrow> Inl failure | Inr snapshot \<Rightarrow> Inr (Some snapshot))
      | _ \<Rightarrow> Inr None)"

text \<open>The variant an offer means in a record: the one it names, or the only one.\<close>

definition award_variant_of :: "offer_row \<Rightarrow> award_listing_snapshot \<Rightarrow> award_variant_snapshot option" where
  "award_variant_of offer snapshot =
     (case ro_variant_id offer of
        Some k \<Rightarrow> find (\<lambda>v. va_id v = k) (al_variants snapshot)
      | None \<Rightarrow> (case al_variants snapshot of [v] \<Rightarrow> Some v | _ \<Rightarrow> None))"

definition refreshed_variant ::
  "offer_row \<Rightarrow> counter_offer_payload \<Rightarrow> award_listing_snapshot option \<Rightarrow> command_failure + string option" where
  "refreshed_variant offer payload terms =
     (case terms of
        None \<Rightarrow> Inr None
      | Some snapshot \<Rightarrow>
          if al_currency snapshot \<noteq> currency (co_amount payload) \<or> al_exponent snapshot \<noteq> exponent (co_amount payload)
          then Inl offer_listing_changed
          else case award_variant_of offer snapshot of
            None \<Rightarrow> Inl variant_mismatch
          | Some variant \<Rightarrow>
              if va_quantity variant < co_quantity payload
              then Inl (refused_with_revision RInsufficientInventory InsufficientInventory
                     ''The counteroffer quantity is unavailable.'' (ro_revision offer))
              else Inr (Some (va_id variant)))"

definition coalesce :: "'a option \<Rightarrow> 'a option \<Rightarrow> 'a option" where
  "coalesce a b = (case a of Some _ \<Rightarrow> a | None \<Rightarrow> b)"

definition countered_offer ::
  "offer_row \<Rightarrow> pubky \<Rightarrow> counter_offer_payload \<Rightarrow> award_listing_snapshot option \<Rightarrow> string option \<Rightarrow> datetime \<Rightarrow> offer_row \<Rightarrow> offer_row" where
  "countered_offer offer actor payload terms variant now r =
     r\<lparr>ro_revision := ro_revision offer + 1, ro_state := ''countered'', ro_offered_by := actor,
       ro_amount_minor := amount_minor (co_amount payload), ro_quantity := co_quantity payload,
       ro_message := co_message payload, ro_expires_at := now + seconds (co_expires_in_seconds payload),
       ro_updated_at := now,
       ro_history := ro_history r @ [history_entry (ro_revision offer + 1) actor ''countered'' (co_amount payload)
         (co_quantity payload) (co_message payload) now],
       ro_variant_id := coalesce variant (ro_variant_id r),
       ro_terms_listing_revision := coalesce (map_option al_revision terms) (ro_terms_listing_revision r),
       ro_terms_listing_record_sha256 := coalesce (map_option al_raw_sha256 terms) (ro_terms_listing_record_sha256 r),
       ro_terms_snapshot := coalesce (map_option (\<lambda>s. terms_doc s (coalesce variant (ro_variant_id offer))) terms)
         (ro_terms_snapshot r)\<rparr>"

text \<open>The live listing of an offer, unless it was created anew after the offer.\<close>

definition offer_listing :: "db \<Rightarrow> offer_row \<Rightarrow> listing_row option" where
  "offer_listing d offer =
     filter_option (\<lambda>l. accepts_commitment_created_at l (ro_created_at offer))
       (fetch_live_listing d (ro_listing_aggregate_id offer))"

definition counter_offer ::
  "uuid_source \<Rightarrow> pubky \<Rightarrow> command \<Rightarrow> counter_offer_payload \<Rightarrow> listing_client option \<Rightarrow> datetime \<Rightarrow> db \<Rightarrow> handler_result tx" where
  "counter_offer new_v4 actor command payload homeserver now d =
     (case refreshed_terms homeserver actor (co_offer_id payload) d of
        Inl failure \<Rightarrow> refuse failure d
      | Inr terms \<Rightarrow>
          (case actionable_offer d actor (co_offer_id payload) (cmd_aggregate_id command) now of
             Inl failure \<Rightarrow> refuse failure d
           | Inr offer \<Rightarrow>
               if cmd_expected_revision command \<noteq> ro_revision offer then refuse (stale_offer offer) d
               else if actor = ro_offered_by offer
               then refuse (refused RUnauthorized Unauthorized
                      ''The current offer author cannot counter their own terms.'') d
               else if ro_currency offer \<noteq> currency (co_amount payload) \<or> ro_exponent offer \<noteq> exponent (co_amount payload)
               then refuse (refused RInvalidCommand InvalidCommand
                      ''Counteroffer amount must use the original asset and exponent.'') d
               else
                 (case refreshed_variant offer payload terms of
                    Inl failure \<Rightarrow> refuse failure d
                  | Inr variant \<Rightarrow>
                      (case offer_listing d offer of
                         None \<Rightarrow> refuse offer_listing_missing d
                       | Some listing \<Rightarrow>
                           if ls_available_quantity listing < co_quantity payload
                           then refuse (refused_with_revision RInsufficientInventory InsufficientInventory
                                  ''The counteroffer quantity is unavailable.'' (ro_revision offer)) d
                           else
                             seq (fetch_one (update_offers (\<lambda>r. ro_id r = ro_id offer)
                                    (countered_offer offer actor payload terms variant now) d))
                               (\<lambda>updated. finish_offer_action new_v4 actor command updated ''offer.countered''
                                  (Some (''offer_countered'', other_participant updated actor)) now)))))"

section \<open>Accepting\<close>

text \<open>Without a homeserver the offer's own terms stand in for the record.\<close>

definition unsigned_terms :: "offer_row \<Rightarrow> award_listing_snapshot" where
  "unsigned_terms locator =
     \<lparr>al_raw_sha256 = (case ro_terms_listing_record_sha256 locator of None \<Rightarrow> ro_listing_aggregate_id locator | Some h \<Rightarrow> h),
      al_revision = (case ro_terms_listing_revision locator of None \<Rightarrow> 1 | Some r \<Rightarrow> r),
      al_title = ''Marketplace item'', al_currency = ro_currency locator, al_exponent = ro_exponent locator,
      al_shipping_minor = 0, al_fulfillment_methods = [''shipping''],
      al_variants = [\<lparr>va_id = (case ro_variant_id locator of None \<Rightarrow> ro_listing_aggregate_id locator | Some v \<Rightarrow> v),
        va_sku = None, va_options = [], va_quantity = ro_quantity locator, va_price = None\<rparr>]\<rparr>"

text \<open>The snapshot to award, and the identity it was fetched under.\<close>

definition accept_terms ::
  "listing_client option \<Rightarrow> offer_row \<Rightarrow> db \<Rightarrow> command_failure + award_listing_snapshot \<times> (pubky \<times> string \<times> string) option" where
  "accept_terms homeserver locator d =
     (case homeserver of
        None \<Rightarrow> Inr (unsigned_terms locator, None)
      | Some client \<Rightarrow>
          (case fetch_award_terms client locator d of
             Inl failure \<Rightarrow> Inl failure
           | Inr snapshot \<Rightarrow>
               Inr (snapshot, Some (ro_seller_pubky locator, ro_listing_aggregate_id locator,
                 case fetch_listing d (ro_listing_aggregate_id locator) of None \<Rightarrow> [] | Some l \<Rightarrow> ls_listing_id l))))"

definition identity_changed :: "(pubky \<times> string \<times> string) option \<Rightarrow> offer_row \<Rightarrow> db \<Rightarrow> bool" where
  "identity_changed identity offer d =
     (case identity of
        None \<Rightarrow> False
      | Some (seller, listing_key, listing_id) \<Rightarrow>
          ro_seller_pubky offer \<noteq> seller \<or> ro_listing_aggregate_id offer \<noteq> listing_key
          \<or> (case fetch_listing d (ro_listing_aggregate_id offer) of
               None \<Rightarrow> True
             | Some l \<Rightarrow> ls_seller_pubky l \<noteq> seller \<or> ls_listing_id l \<noteq> listing_id \<or> ls_aggregate_id l \<noteq> listing_key))"

definition terms_moved :: "offer_row \<Rightarrow> award_listing_snapshot \<Rightarrow> bool" where
  "terms_moved offer snapshot \<longleftrightarrow>
     (case ro_terms_listing_record_sha256 offer of None \<Rightarrow> False | Some h \<Rightarrow> h \<noteq> al_raw_sha256 snapshot)
     \<or> (case ro_terms_listing_revision offer of None \<Rightarrow> False | Some r \<Rightarrow> r \<noteq> al_revision snapshot)"

definition accepted_offer ::
  "offer_row \<Rightarrow> pubky \<Rightarrow> award_listing_snapshot \<Rightarrow> award_variant_snapshot \<Rightarrow> uuid \<Rightarrow> uuid \<Rightarrow> datetime \<Rightarrow> datetime \<Rightarrow> offer_row \<Rightarrow> offer_row" where
  "accepted_offer offer actor snapshot variant award_id reservation_id expires_at now r =
     r\<lparr>ro_revision := ro_revision offer + 1, ro_state := ''accepted'', ro_updated_at := now,
       ro_award_id := Some award_id, ro_accepted_at := Some now, ro_award_expires_at := Some expires_at,
       ro_reservation_id := Some reservation_id, ro_accepted_unit_price_minor := Some (ro_amount_minor r),
       ro_accepted_currency := Some (ro_currency r), ro_accepted_exponent := Some (ro_exponent r),
       ro_accepted_quantity := Some (ro_quantity r),
       ro_accepted_listing_aggregate_id := Some (ro_listing_aggregate_id r),
       ro_accepted_listing_title := Some (al_title snapshot), ro_accepted_listing_revision := Some (al_revision snapshot),
       ro_accepted_listing_record_sha256 := Some (al_raw_sha256 snapshot), ro_accepted_variant_id := Some (va_id variant),
       ro_accepted_variant_sku := va_sku variant, ro_accepted_variant_options := Some (va_options variant),
       ro_accepted_shipping_minor := Some (al_shipping_minor snapshot),
       ro_accepted_subtotal_minor := Some (ro_amount_minor offer * ro_quantity offer),
       ro_accepted_total_minor := Some (ro_amount_minor offer * ro_quantity offer + al_shipping_minor snapshot),
       ro_accepted_fulfillment := Some ''shipping'',
       ro_accepted_fulfillment_methods := Some (al_fulfillment_methods snapshot),
       ro_history := ro_history r @ [history_entry (ro_revision offer + 1) actor ''accepted'' (offer_amount offer)
         (ro_quantity offer) [] now]\<rparr>"

text \<open>\<open>checked_mul\<close> and \<open>checked_add\<close> on \<open>i64\<close>.\<close>

definition checked :: "int \<Rightarrow> int option" where
  "checked x = (if in_range i64_min i64_max x then Some x else None)"

definition award_overflow :: "offer_row \<Rightarrow> award_listing_snapshot \<Rightarrow> string option" where
  "award_overflow offer snapshot =
     (case checked (ro_amount_minor offer * ro_quantity offer) of
        None \<Rightarrow> Some ''offer amount overflow''
      | Some subtotal \<Rightarrow>
          (case checked (subtotal + al_shipping_minor snapshot) of
             None \<Rightarrow> Some ''offer total overflow''
           | Some _ \<Rightarrow> None))"

definition award_reservation :: "command \<Rightarrow> offer_row \<Rightarrow> listing_row \<Rightarrow> uuid \<Rightarrow> datetime \<Rightarrow> datetime \<Rightarrow> reservation_row" where
  "award_reservation command offer listing award_id expires_at now =
     \<lparr>rv_id = cmd_command_id command, rv_listing_aggregate_id = ls_aggregate_id listing,
      rv_buyer_pubky = ro_buyer_pubky offer, rv_quantity = ro_quantity offer, rv_status = ''active'',
      rv_expires_at = expires_at, rv_created_at = now, rv_updated_at = now, rv_drop_aggregate_id = None,
      rv_offer_award_id = Some award_id\<rparr>"

text \<open>The acceptance after the listing has given its units.\<close>

definition award_offer ::
  "uuid_source \<Rightarrow> pubky \<Rightarrow> command \<Rightarrow> offer_row \<Rightarrow> award_listing_snapshot \<Rightarrow> award_variant_snapshot \<Rightarrow> listing_row
     \<Rightarrow> listing_row \<Rightarrow> datetime \<Rightarrow> db \<Rightarrow> handler_result tx" where
  "award_offer new_v4 actor command offer snapshot variant listing updated_listing now d =
     (let expires_at = now + seconds ACCEPTED_OFFER_HOLD_SECONDS;
          (award_id, d1) = draw_uuid new_v4 d;
          reservation = award_reservation command offer listing award_id expires_at now
      in seq (insert_reservation reservation d1)
           (\<lambda>_ d2.
              case award_overflow offer snapshot of
                Some message \<Rightarrow> Inl (Protocol message)
              | None \<Rightarrow>
                seq (fetch_one (update_offers (\<lambda>r. ro_id r = ro_id offer)
                       (accepted_offer offer actor snapshot variant award_id (cmd_command_id command) expires_at now) d2))
                  (\<lambda>accepted d3.
                     seq (insert_event new_v4 (cmd_command_id command) (ro_aggregate_id offer) (ro_revision accepted)
                            actor ''offer.accepted'' now d3)
                       (\<lambda>offer_event d4.
                          seq (insert_event new_v4 (cmd_command_id command) (ls_aggregate_id listing)
                                 (ls_server_revision updated_listing) actor ''inventory.reserved'' now d4)
                            (\<lambda>inventory_event d5.
                               Inr (Inr \<lparr>hs_revision = ro_revision accepted, hs_event_ids = [offer_event, inventory_event],
                                         hs_result = ResultAcceptedOffer accepted updated_listing reservation\<rparr>,
                                 insert_notification_intent offer_event ''offer_accepted''
                                   (other_participant accepted actor) actor (ro_aggregate_id offer)
                                   (Some (offer_amount accepted)) now d5))))))"

text \<open>The acceptance once the offer may be acted on.\<close>

definition accept_actionable ::
  "uuid_source \<Rightarrow> pubky \<Rightarrow> command \<Rightarrow> offer_row \<Rightarrow> award_listing_snapshot \<Rightarrow> datetime \<Rightarrow> db \<Rightarrow> handler_result tx" where
  "accept_actionable new_v4 actor command offer snapshot now d =
     (if cmd_expected_revision command \<noteq> ro_revision offer then refuse (stale_offer offer) d
      else if actor = ro_offered_by offer
      then refuse (refused RUnauthorized Unauthorized ''The current offer author cannot accept their own terms.'') d
      else if terms_moved offer snapshot then refuse offer_listing_changed d
      else case award_variant_of offer snapshot of
        None \<Rightarrow> refuse variant_mismatch d
      | Some variant \<Rightarrow>
          if va_quantity variant < ro_quantity offer \<or> al_currency snapshot \<noteq> ro_currency offer
             \<or> al_exponent snapshot \<noteq> ro_exponent offer
          then refuse (refused RInvalidCommand InvalidCommand ''Offer amount must use the listing asset and exponent.'') d
          else case offer_listing d offer of
            None \<Rightarrow> refuse offer_listing_missing d
          | Some listing \<Rightarrow>
              if ls_available_quantity listing < ro_quantity offer
              then refuse (refused_with_revision RInsufficientInventory InsufficientInventory
                     ''The offered quantity is no longer available.'' (ro_revision offer)) d
              else
                let new_state = held_state listing (ro_quantity offer)
                in if \<not> can_transition listing_machine (ls_state listing) new_state
                   then refuse (refused_with_revision RInvariantViolation InvariantViolation
                          ''The listing cannot enter the reserved state.'' (ls_server_revision listing)) d
                   else
                     seq (fetch_one (update_listings
                            (\<lambda>l. ls_aggregate_id l = ls_aggregate_id listing \<and> ls_server_revision l = ls_server_revision listing
                               \<and> ro_quantity offer \<le> ls_available_quantity l)
                            (reserved_row new_state (ro_quantity offer) now) d))
                       (\<lambda>updated_listing. award_offer new_v4 actor command offer snapshot variant listing updated_listing now))"

definition accept_offer ::
  "uuid_source \<Rightarrow> pubky \<Rightarrow> command \<Rightarrow> offer_action_payload \<Rightarrow> listing_client option \<Rightarrow> datetime \<Rightarrow> db \<Rightarrow> handler_result tx" where
  "accept_offer new_v4 actor command payload homeserver now d =
     (case fetch_offer d (oa_offer_id payload) of
        None \<Rightarrow> refuse (refused RNotFound NotFound ''The offer was not found.'') d
      | Some locator \<Rightarrow>
          (case accept_terms homeserver locator d of
             Inl failure \<Rightarrow> refuse failure d
           | Inr (snapshot, identity) \<Rightarrow>
               (case actionable_offer d actor (oa_offer_id payload) (cmd_aggregate_id command) now of
                  Inl failure \<Rightarrow> refuse failure d
                | Inr offer \<Rightarrow>
                    if identity_changed identity offer d then refuse offer_listing_changed d
                    else accept_actionable new_v4 actor command offer snapshot now d)))"

section \<open>Converting an accepted offer\<close>

definition award_buyer_only :: command_failure where
  "award_buyer_only = refused RUnauthorized Unauthorized ''Only the accepted offer's buyer may place this order.''"

definition award_expired :: command_failure where
  "award_expired =
     refused RAwardExpired AwardExpired ''This accepted offer's checkout window has expired. Nothing was ordered.''"

definition award_hold_missing :: command_failure where
  "award_hold_missing =
     refused RAwardHoldMissing AwardHoldMissing ''The inventory reserved for this accepted offer is no longer held.''"

text \<open>The checks on the offer, in order; \<open>None\<close> when it may be converted.\<close>

definition award_refusal :: "pubky \<Rightarrow> command \<Rightarrow> offer_checkout_payload \<Rightarrow> offer_row \<Rightarrow> datetime \<Rightarrow> command_failure option" where
  "award_refusal actor command payload offer now =
     (if cmd_aggregate_id command \<noteq> offer_aggregate_id (ro_id offer)
      then Some (refused RInvalidCommand InvalidCommand ''The offer checkout input is invalid.'')
      else if actor \<noteq> ro_buyer_pubky offer then Some award_buyer_only
      else if ro_state offer = ''converted''
      then Some (refused RAwardAlreadyConverted AwardAlreadyConverted
             ''This accepted offer has already been converted to an order.'')
      else if cmd_expected_revision command \<noteq> ro_revision offer then Some (stale_offer offer)
      else if ro_expiry_reason offer = Some ''award_window''
              \<or> ro_state offer = ''accepted''
                 \<and> (case ro_award_expires_at offer of None \<Rightarrow> True | Some deadline \<Rightarrow> deadline \<le> now)
      then Some award_expired
      else if ro_state offer \<noteq> ''accepted''
      then Some (refused RInvalidState InvalidState ''Only an accepted offer can enter offer checkout.'')
      else if ro_accepted_variant_id offer \<noteq> Some (oc_variant_id payload) then Some variant_mismatch
      else if ro_award_id offer \<noteq> Some (oc_award_id payload)
              \<or> ro_accepted_listing_aggregate_id offer \<noteq> Some (oc_listing_aggregate_id payload)
              \<or> ro_accepted_listing_revision offer \<noteq> Some (oc_listing_revision payload)
              \<or> ro_accepted_listing_record_sha256 offer \<noteq> Some (oc_listing_record_sha256 payload)
      then Some offer_listing_changed
      else if ro_accepted_quantity offer \<noteq> Some (oc_quantity payload)
      then Some (refused RAwardQuantityMismatch AwardQuantityMismatch
             ''The checkout quantity does not match the accepted offer.'')
      else None)"

definition award_fulfillment_methods :: "offer_row \<Rightarrow> string list" where
  "award_fulfillment_methods offer =
     (case ro_accepted_fulfillment_methods offer of None \<Rightarrow> [''shipping''] | Some ms \<Rightarrow> ms)"

text \<open>The checks on the held stock and on the fulfillment the buyer chose.\<close>

definition award_hold_refusal ::
  "offer_checkout_payload \<Rightarrow> offer_row \<Rightarrow> reservation_row \<Rightarrow> datetime \<Rightarrow> db \<Rightarrow> command_failure option" where
  "award_hold_refusal payload offer reservation now d =
     (if rv_status reservation \<noteq> ''active'' \<or> rv_expires_at reservation \<le> now then Some award_expired
      else case fetch_listing d (rv_listing_aggregate_id reservation) of
        None \<Rightarrow> Some award_hold_missing
      | Some listing \<Rightarrow>
          if \<not> accepts_commitment_created_at listing (ro_created_at offer) then Some offer_listing_missing
          else if rv_buyer_pubky reservation \<noteq> ro_buyer_pubky offer
                  \<or> rv_listing_aggregate_id reservation \<noteq> oc_listing_aggregate_id payload
                  \<or> rv_quantity reservation \<noteq> oc_quantity payload
                  \<or> rv_offer_award_id reservation \<noteq> Some (oc_award_id payload)
                  \<or> ls_reserved_quantity listing < rv_quantity reservation
          then Some award_hold_missing
          else None)"

definition award_method :: "offer_checkout_payload \<Rightarrow> fulfillment_method" where
  "award_method payload = (case oc_fulfillment payload of None \<Rightarrow> Shipping | Some m \<Rightarrow> m)"

definition award_method_refusal :: "offer_checkout_payload \<Rightarrow> offer_row \<Rightarrow> command_failure option" where
  "award_method_refusal payload offer =
     (if \<not> List.member (award_fulfillment_methods offer) (fulfillment_as_str (award_method payload))
      then Some (refused_with_reason RInvalidState InvalidState
             ''The accepted offer does not include the chosen fulfillment method.'' ''fulfillment_not_published'')
      else case (oc_delivery_address payload, award_method payload = Pickup) of
        (Some _, True) \<Rightarrow> Some (refused RInvalidCommand InvalidCommand
          ''A checkout with no shipped group must not carry a delivery address.'')
      | (None, False) \<Rightarrow> Some (refused RInvalidCommand InvalidCommand
          ''A delivery address is required when any checkout group ships.'')
      | _ \<Rightarrow> None)"

record award_amounts =
  aw_subtotal :: int
  aw_shipping :: int
  aw_total :: int
  aw_currency :: string
  aw_exponent :: int

definition or_else :: "'a \<Rightarrow> 'a option \<Rightarrow> 'a" where
  "or_else x y = (case y of None \<Rightarrow> x | Some z \<Rightarrow> z)"

definition award_amounts_of :: "offer_checkout_payload \<Rightarrow> offer_row \<Rightarrow> db_error + award_amounts" where
  "award_amounts_of payload offer =
     (case ro_accepted_subtotal_minor offer of
        None \<Rightarrow> Inl (Protocol ''accepted offer has no subtotal'')
      | Some subtotal \<Rightarrow>
          let pickup = (award_method payload = Pickup);
              amounts = (\<lambda>shipping all_in. \<lparr>aw_subtotal = subtotal, aw_shipping = shipping, aw_total = all_in,
                aw_currency = or_else (ro_currency offer) (ro_accepted_currency offer),
                aw_exponent = or_else (ro_exponent offer) (ro_accepted_exponent offer)\<rparr>)
          in if pickup then Inr (amounts 0 subtotal)
             else case ro_accepted_total_minor offer of
               None \<Rightarrow> Inl (Protocol ''accepted offer has no total'')
             | Some all_in \<Rightarrow> Inr (amounts (or_else 0 (ro_accepted_shipping_minor offer)) all_in))"

definition in_asset :: "award_amounts \<Rightarrow> int \<Rightarrow> money" where
  "in_asset amounts amount = \<lparr>amount_minor = amount, currency = aw_currency amounts, exponent = aw_exponent amounts\<rparr>"

text \<open>The line of the order; the constraints of an accepted offer make every field present.\<close>

definition award_line :: "offer_checkout_payload \<Rightarrow> offer_row \<Rightarrow> reservation_row \<Rightarrow> award_amounts \<Rightarrow> order_line" where
  "award_line payload offer reservation amounts =
     \<lparr>ol_listing_aggregate_id = or_else [] (ro_accepted_listing_aggregate_id offer),
      ol_listing_revision = or_else 0 (ro_accepted_listing_revision offer), ol_content_hash = None,
      ol_title = or_else [] (ro_accepted_listing_title offer), ol_quantity = rv_quantity reservation,
      ol_unit_price = in_asset amounts (or_else 0 (ro_accepted_unit_price_minor offer)),
      ol_subtotal = in_asset amounts (aw_subtotal amounts), ol_version_at_payment = None, ol_digital_kind = None,
      ol_fulfillment = Some (fulfillment_as_str (award_method payload)), ol_variant_id = Some (oc_variant_id payload),
      ol_variant_options = None,
      ol_offer = Some \<lparr>of_shipping = in_asset amounts (aw_shipping amounts), of_offer_id = ro_id offer,
        of_award_id = oc_award_id payload\<rparr>\<rparr>"

definition award_order ::
  "pubky \<Rightarrow> command \<Rightarrow> offer_checkout_payload \<Rightarrow> offer_row \<Rightarrow> reservation_row \<Rightarrow> award_amounts \<Rightarrow> uuid \<Rightarrow> uuid \<Rightarrow> int \<Rightarrow> datetime \<Rightarrow> order_row" where
  "award_order actor command payload offer reservation amounts order_id payment_id window now =
     \<lparr>or_id = order_id, or_auction_aggregate_id = None, or_drop_aggregate_id = None, or_buyer_pubky = actor,
      or_seller_pubky = ro_seller_pubky offer, or_revision = 1, or_state = ''pending_payment'',
      or_lines = [award_line payload offer reservation amounts], or_subtotal_minor = aw_subtotal amounts,
      or_shipping_minor = aw_shipping amounts, or_total_minor = aw_total amounts, or_currency = aw_currency amounts,
      or_exponent = aw_exponent amounts, or_guarantee_policy_version = oc_guarantee_policy_version payload,
      or_payment_id = payment_id, or_cancellation_reason = None, or_stock_held = True,
      or_hold_expires_at = Some (now + seconds window), or_hold_source = None, or_shipment = None,
      or_return_request = None, or_external_refund = None, or_payment_method = None, or_paykit_request_state = None,
      or_paykit_invoice_id = None, or_paykit_stack_id = None, or_paykit_stack_endpoint = None,
      or_paykit_total_sats = None, or_paykit_activation_state = None,
      or_fulfillment = fulfillment_as_str (award_method payload), or_first_revealed_at = None,
      or_checkout_command_id = Some (cmd_command_id command), or_delivery_address = oc_delivery_address payload,
      or_receipt_id = None, or_edition = None, or_digital_delivered_at = None, or_digital_message_delivered_at = None, or_delivery_assumed = False,
      or_payment_reversed_at = None,
      or_offer_award_id = Some (oc_award_id payload), or_priced_from = ''offer'', or_created_at = now,
      or_updated_at = now\<rparr>"

definition award_payment :: "pubky \<Rightarrow> offer_row \<Rightarrow> award_amounts \<Rightarrow> uuid \<Rightarrow> uuid \<Rightarrow> datetime \<Rightarrow> payment_row" where
  "award_payment actor offer amounts order_id payment_id now =
     \<lparr>pm_id = payment_id, pm_order_id = order_id, pm_buyer_pubky = actor, pm_seller_pubky = ro_seller_pubky offer,
      pm_revision = 1, pm_adapter = ''sandbox'', pm_state = ''awaiting_entitlement'', pm_confirmations = 0,
      pm_amount_minor = aw_total amounts, pm_currency = aw_currency amounts, pm_exponent = aw_exponent amounts,
      pm_merchandise = Some (in_asset amounts (aw_total amounts)), pm_manual_review_entered_at = None,
      pm_review_reason = None, pm_resolution_outcome = None, pm_created_at = now, pm_updated_at = now\<rparr>"

text \<open>The writes of a conversion: the reservation, the order, its payment, the offer, the events.\<close>

definition convert_award ::
  "uuid_source \<Rightarrow> pubky \<Rightarrow> command \<Rightarrow> offer_checkout_payload \<Rightarrow> offer_row \<Rightarrow> reservation_row \<Rightarrow> award_amounts \<Rightarrow> int
     \<Rightarrow> datetime \<Rightarrow> db \<Rightarrow> handler_result tx" where
  "convert_award new_v4 actor command payload offer reservation amounts window now d =
     (let (order_id, d1) = draw_uuid new_v4 d;
          (payment_id, d2) = draw_uuid new_v4 d1;
          order = award_order actor command payload offer reservation amounts order_id payment_id window now
      in seq (update_reservations (\<lambda>r. rv_id r = rv_id reservation \<and> rv_status r = ''active'')
                (\<lambda>r. r\<lparr>rv_status := ''converted'', rv_updated_at := now\<rparr>) d2)
           (\<lambda>converted d3.
              if converted = [] then refuse award_hold_missing d3
              else
                seq (insert_order order d3)
                  (\<lambda>_ d4.
                     seq (insert_payment (award_payment actor offer amounts order_id payment_id now) d4)
                       (\<lambda>_ d5.
                          seq (update_offers (\<lambda>r. ro_id r = ro_id offer)
                                 (\<lambda>r. r\<lparr>ro_state := ''converted'', ro_revision := ro_revision r + 1,
                                    ro_converted_order_id := Some order_id, ro_converted_at := Some now,
                                    ro_updated_at := now\<rparr>) d5)
                            (\<lambda>_ d6.
                               seq (insert_event new_v4 (cmd_command_id command) (ro_aggregate_id offer)
                                      (ro_revision offer + 1) actor ''offer.converted'' now d6)
                                 (\<lambda>event_id d7.
                                    seq (insert_event new_v4 (cmd_command_id command) (order_aggregate_id order_id) 1 actor
                                           ''order.created'' now d7)
                                      (\<lambda>order_event d8.
                                         Inr (Inr \<lparr>hs_revision = ro_revision offer + 1, hs_event_ids = [event_id, order_event],
                                                   hs_result = ResultOrder order []\<rparr>,
                                           insert_notification_intent order_event ''order_created'' (ro_seller_pubky offer)
                                             actor (order_aggregate_id order_id) None now d8))))))))"

definition offer_checkout ::
  "uuid_source \<Rightarrow> pubky \<Rightarrow> command \<Rightarrow> offer_checkout_payload \<Rightarrow> int \<Rightarrow> datetime \<Rightarrow> db \<Rightarrow> handler_result tx" where
  "offer_checkout new_v4 actor command payload hold_window_seconds now d =
     (case fetch_offer d (oc_offer_id payload) of
        None \<Rightarrow> refuse award_buyer_only d
      | Some offer \<Rightarrow>
          (case award_refusal actor command payload offer now of
             Some failure \<Rightarrow> refuse failure d
           | None \<Rightarrow>
               (case ro_reservation_id offer of
                  None \<Rightarrow> Inl (Protocol ''accepted offer has no reservation'')
                | Some reservation_id \<Rightarrow>
                    (case fetch rv_id reservation_id (st_reservations d) of
                       None \<Rightarrow> refuse award_hold_missing d
                     | Some reservation \<Rightarrow>
                         (case award_hold_refusal payload offer reservation now d of
                            Some failure \<Rightarrow> refuse failure d
                          | None \<Rightarrow>
                              (case award_method_refusal payload offer of
                                 Some failure \<Rightarrow> refuse failure d
                               | None \<Rightarrow>
                                   (case award_amounts_of payload offer of
                                      Inl e \<Rightarrow> Inl e
                                    | Inr amounts \<Rightarrow>
                                        convert_award new_v4 actor command payload offer reservation amounts
                                          hold_window_seconds now d)))))))"

text \<open>The arms of \<open>executor::dispatch\<close> for offers.\<close>

definition dispatch_offer ::
  "listing_client option \<Rightarrow> int \<Rightarrow> uuid_source \<Rightarrow> pubky \<Rightarrow> command \<Rightarrow> datetime \<Rightarrow> db \<Rightarrow> handler_result tx option" where
  "dispatch_offer homeserver hold_window_seconds new_v4 actor command now d =
     (case cmd_payload command of
        CreateOffer payload \<Rightarrow> Some (create_offer new_v4 actor command payload homeserver now d)
      | CounterOffer payload \<Rightarrow> Some (counter_offer new_v4 actor command payload homeserver now d)
      | AcceptOffer payload \<Rightarrow> Some (accept_offer new_v4 actor command payload homeserver now d)
      | OfferCheckout payload \<Rightarrow> Some (offer_checkout new_v4 actor command payload hold_window_seconds now d)
      | RejectOffer payload \<Rightarrow> Some (reject_offer new_v4 actor command payload now d)
      | WithdrawOffer payload \<Rightarrow> Some (withdraw_offer new_v4 actor command payload now d)
      | _ \<Rightarrow> None)"

end
