(* ===== verification/Offers_Facts.thy ===== *)
theory Offers_Facts
  imports Offers Orders_Facts Records_Facts
begin

text \<open>
  What the negotiation promises: every accepted offer command moves one offer along an edge of \<open>offer_machine\<close>
  for the party whose turn it is, keeps the books and the agreement between an award and its amounts; the order
  an award converts into charges what was agreed, once.
\<close>

section \<open>Vocabulary\<close>

definition offer_change :: "uuid \<Rightarrow> offer_row \<Rightarrow> offer_row \<Rightarrow> db \<Rightarrow> db \<Rightarrow> bool" where
  "offer_change k r r' d d' \<longleftrightarrow>
     fetch_offer d k = Some r \<and> fetch_offer d' k = Some r'
     \<and> (\<forall>k'. k' \<noteq> k \<longrightarrow> fetch_offer d' k' = fetch_offer d k')
     \<and> map ro_id (st_offers d') = map ro_id (st_offers d)"

definition same_parties :: "offer_row \<Rightarrow> offer_row \<Rightarrow> bool" where
  "same_parties r r' \<longleftrightarrow>
     ro_id r' = ro_id r \<and> ro_aggregate_id r' = ro_aggregate_id r
     \<and> ro_listing_aggregate_id r' = ro_listing_aggregate_id r \<and> ro_buyer_pubky r' = ro_buyer_pubky r
     \<and> ro_seller_pubky r' = ro_seller_pubky r \<and> ro_currency r' = ro_currency r \<and> ro_exponent r' = ro_exponent r
     \<and> ro_created_at r' = ro_created_at r"

text \<open>The history only grows, by an entry of the revision it belongs to.\<close>

definition history_grows :: "offer_row \<Rightarrow> offer_row \<Rightarrow> bool" where
  "history_grows r r' \<longleftrightarrow>
     take (length (ro_history r)) (ro_history r') = ro_history r
     \<and> list_all (\<lambda>e. he_revision e = ro_revision r') (drop (length (ro_history r)) (ro_history r'))"

text \<open>Whose turn it is: the author of the terms may only withdraw them, the other party answers.\<close>

definition turn_ok :: "string \<Rightarrow> pubky \<Rightarrow> offer_row \<Rightarrow> bool" where
  "turn_ok kind actor r \<longleftrightarrow>
     (if kind = ''offer.withdraw'' then actor = ro_offered_by r
      else if kind = ''offer.checkout'' then actor = ro_buyer_pubky r
      else actor \<noteq> ro_offered_by r)"

definition offer_moved :: "string \<Rightarrow> pubky \<Rightarrow> command \<Rightarrow> handler_success \<Rightarrow> db \<Rightarrow> db \<Rightarrow> bool" where
  "offer_moved kind actor command s d d' \<longleftrightarrow>
     (\<exists>k r r'. offer_change k r r' d d' \<and> same_parties r r' \<and> ro_revision r' = ro_revision r + 1
        \<and> has_edge offer_machine kind (ro_state r) (ro_state r') \<and> history_grows r r'
        \<and> hs_revision s = ro_revision r' \<and> cmd_expected_revision command = ro_revision r
        \<and> actor \<in> {ro_buyer_pubky r, ro_seller_pubky r} \<and> turn_ok kind actor r)"

definition offer_opened :: "pubky \<Rightarrow> command \<Rightarrow> handler_success \<Rightarrow> db \<Rightarrow> db \<Rightarrow> bool" where
  "offer_opened actor command s d d' \<longleftrightarrow>
     (\<exists>r. st_offers d' = st_offers d @ [r] \<and> ro_id r = cmd_command_id command \<and> ro_state r = initial offer_machine
        \<and> ro_revision r = 1 \<and> hs_revision s = 1 \<and> ro_buyer_pubky r = actor \<and> ro_offered_by r = actor
        \<and> ro_seller_pubky r \<noteq> actor)"

definition offer_step :: "string \<Rightarrow> pubky \<Rightarrow> command \<Rightarrow> handler_success \<Rightarrow> db \<Rightarrow> db \<Rightarrow> bool" where
  "offer_step kind actor command s d d' \<longleftrightarrow>
     (if kind = ''offer.create'' then offer_opened actor command s d d' else offer_moved kind actor command s d d')"

text \<open>An award's amounts follow from its unit price and quantity, and pickup alone ships for nothing.\<close>

definition award_agreed :: "offer_row \<Rightarrow> bool" where
  "award_agreed r \<longleftrightarrow>
     (ro_state r \<in> {''accepted'', ''converted''} \<longrightarrow>
        (case (ro_accepted_unit_price_minor r, ro_accepted_quantity r, ro_accepted_shipping_minor r,
               ro_accepted_subtotal_minor r, ro_accepted_total_minor r) of
           (Some u, Some q, Some sh, Some sub, Some t) \<Rightarrow>
             u = ro_amount_minor r \<and> q = ro_quantity r \<and> sub = u * q \<and> t = sub + sh
         | _ \<Rightarrow> False)
        \<and> ro_accepted_currency r = Some (ro_currency r) \<and> ro_accepted_exponent r = Some (ro_exponent r)
        \<and> ro_accepted_listing_aggregate_id r = Some (ro_listing_aggregate_id r))"

definition offers_ok :: "db \<Rightarrow> bool" where
  "offers_ok d \<longleftrightarrow> table_ok ro_id offer_check (st_offers d) \<and> list_all award_agreed (st_offers d)"

section \<open>A sample\<close>

text \<open>An offer of 80 for two mugs listed at 100, accepted with 5 of shipping and held by the reservation \<open>v1\<close>.\<close>

definition sample_offer :: offer_row where
  "sample_offer =
     \<lparr>ro_id = ''f1'', ro_aggregate_id = offer_aggregate_id ''f1'', ro_listing_aggregate_id = ''listing:l'',
      ro_buyer_pubky = ''buyer'', ro_seller_pubky = ''seller'', ro_revision = 2, ro_state = ''accepted'',
      ro_offered_by = ''buyer'', ro_amount_minor = 80, ro_currency = ''USD'', ro_exponent = 2, ro_quantity = 2,
      ro_message = [], ro_history = [], ro_expires_at = 500, ro_created_at = 0, ro_updated_at = 0,
      ro_variant_id = Some ''v'', ro_terms_listing_revision = Some 1, ro_terms_listing_record_sha256 = Some ''h'',
      ro_terms_snapshot = None, ro_award_id = Some ''a1'', ro_accepted_at = Some 0, ro_award_expires_at = Some 600,
      ro_reservation_id = Some ''v1'', ro_accepted_unit_price_minor = Some 80, ro_accepted_currency = Some ''USD'',
      ro_accepted_exponent = Some 2, ro_accepted_quantity = Some 2,
      ro_accepted_listing_aggregate_id = Some ''listing:l'', ro_accepted_listing_title = Some ''Mug'',
      ro_accepted_listing_revision = Some 1, ro_accepted_listing_record_sha256 = Some ''h'',
      ro_accepted_variant_id = Some ''v'', ro_accepted_variant_sku = None, ro_accepted_variant_options = Some [],
      ro_accepted_shipping_minor = Some 5, ro_accepted_subtotal_minor = Some 160, ro_accepted_total_minor = Some 165,
      ro_accepted_fulfillment = Some ''shipping'', ro_accepted_fulfillment_methods = Some [''shipping'', ''pickup''],
      ro_converted_order_id = None, ro_converted_at = None, ro_expiry_reason = None\<rparr>"

definition sample_award_db :: db where
  "sample_award_db =
     empty_db\<lparr>st_listings := [sample_listing\<lparr>ls_available_quantity := 3, ls_reserved_quantity := 2\<rparr>],
       st_reservations := [sample_reservation\<lparr>rv_id := ''v1'', rv_buyer_pubky := ''buyer'', rv_quantity := 2,
         rv_offer_award_id := Some ''a1''\<rparr>],
       st_offers := [sample_offer]\<rparr>"

definition sample_award_payload :: offer_checkout_payload where
  "sample_award_payload =
     \<lparr>oc_offer_id = ''f1'', oc_award_id = ''a1'', oc_listing_aggregate_id = ''listing:l'', oc_listing_revision = 1,
      oc_listing_record_sha256 = ''h'', oc_variant_id = ''v'', oc_quantity = 2, oc_delivery_address = None,
      oc_fulfillment = Some Pickup, oc_guarantee_policy_version = 1\<rparr>"

definition sample_award_checkout :: command where
  "sample_award_checkout =
     \<lparr>cmd_command_id = ''c1'', cmd_aggregate_id = offer_aggregate_id ''f1'', cmd_expected_revision = 2,
      cmd_issued_at = 0, cmd_payload = OfferCheckout sample_award_payload\<rparr>"

section \<open>Rewriting one row\<close>

lemma offer_update_change:
  assumes ok: "offers_ok d" and r: "fetch_offer d k = Some r"
    and u: "update_offers (\<lambda>x. ro_id x = ro_id r) f d = Inr (w, d')" and f: "\<And>x. ro_id (f x) = ro_id x"
    and a: "award_agreed (f r)"
  shows "w = [f r]" "offer_change k r (f r) d d'" "offers_ok d'"
    "d' = d\<lparr>st_offers := map (\<lambda>x. if ro_id x = ro_id r then f x else x) (st_offers d)\<rparr>" "offer_check (f r)"
proof -
  have k: "ro_id r = k" using fetch_Some [of ro_id k "st_offers d" r] r by (simp add: fetch_offer_def)
  have t: "table_ok ro_id offer_check (st_offers d)" using ok by (simp add: offers_ok_def)
  note c = offers.upd_change [OF t r [unfolded fetch_offer_def] u [unfolded k] f]
  show "w = [f r]" "offer_check (f r)" by (rule c)+
  show "offer_change k r (f r) d d'" using r c(3-5) by (simp add: offer_change_def fetch_offer_def)
  show "offers_ok d'" using ok c(6) c(8) [of award_agreed] a by (simp add: offers_ok_def)
  show "d' = d\<lparr>st_offers := map (\<lambda>x. if ro_id x = ro_id r then f x else x) (st_offers d)\<rparr>" using c(7) by (simp add: k)
qed

lemma finish_offer_action_log:
  assumes "finish_offer_action new_v4 actor command offer kind notice now d = Inr (Inr s, d')"
  shows "log_step d d'" "hs_revision s = ro_revision offer"
proof -
  obtain e d1 where ev: "insert_event new_v4 (cmd_command_id command) (ro_aggregate_id offer) (ro_revision offer) actor kind now d
      = Inr (e, d1)" and s: "hs_revision s = ro_revision offer"
    and d': "d' = d1 \<or> (\<exists>n p. d' = insert_notification_intent e n p actor (ro_aggregate_id offer) (Some (offer_amount offer)) now d1)"
    using assms by (auto simp: finish_offer_action_def seq_eq_Inr split: option.splits) blast
  show "log_step d d'" using insert_event_log [OF ev] d' insert_notification_log log_step_trans by metis
  show "hs_revision s = ro_revision offer" by (rule s)
qed

lemma offers_ok_cong: "st_offers d' = st_offers d \<Longrightarrow> offers_ok d' = offers_ok d"
  by (simp add: offers_ok_def)

lemma offer_change_cong: "st_offers d2 = st_offers d1 \<Longrightarrow> offer_change k r r' d d2 = offer_change k r r' d d1"
  by (simp add: offer_change_def fetch_offer_def)

section \<open>Commands that only move the offer\<close>

lemma offer_edges:
  "has_edge offer_machine ''offer.counter'' ''pending'' ''countered''"
  "has_edge offer_machine ''offer.counter'' ''countered'' ''countered''"
  "has_edge offer_machine ''offer.accept'' ''pending'' ''accepted''"
  "has_edge offer_machine ''offer.accept'' ''countered'' ''accepted''"
  "has_edge offer_machine ''offer.reject'' ''pending'' ''rejected''"
  "has_edge offer_machine ''offer.reject'' ''countered'' ''rejected''"
  "has_edge offer_machine ''offer.withdraw'' ''pending'' ''withdrawn''"
  "has_edge offer_machine ''offer.withdraw'' ''countered'' ''withdrawn''"
  "has_edge offer_machine ''offer.checkout'' ''accepted'' ''converted''"
  by code_simp+

lemma actionable_offerD:
  assumes "actionable_offer d actor k agg now = Inr r"
  shows "fetch_offer d k = Some r" "actor \<in> {ro_buyer_pubky r, ro_seller_pubky r}"
    "ro_state r = ''pending'' \<or> ro_state r = ''countered''"
  using assms by (auto simp: actionable_offer_def split: option.splits if_splits)

lemma history_snoc:
  "ro_history r' = ro_history r @ [e] \<Longrightarrow> he_revision e = ro_revision r' \<Longrightarrow> history_grows r r'"
  by (simp add: history_grows_def)

lemma offer_movedI:
  "offer_change k r r' d d' \<Longrightarrow> same_parties r r' \<Longrightarrow> ro_revision r' = ro_revision r + 1 \<Longrightarrow>
   has_edge offer_machine kind (ro_state r) (ro_state r') \<Longrightarrow> history_grows r r' \<Longrightarrow> hs_revision s = ro_revision r' \<Longrightarrow>
   cmd_expected_revision command = ro_revision r \<Longrightarrow> actor \<in> {ro_buyer_pubky r, ro_seller_pubky r} \<Longrightarrow>
   turn_ok kind actor r \<Longrightarrow> offer_moved kind actor command s d d'"
  unfolding offer_moved_def by blast

lemma move_offer_row:
  assumes ok: "books_ok d" "offers_ok d" and r: "fetch_offer d k = Some r"
    and u: "update_offers (\<lambda>x. ro_id x = ro_id r) f d = Inr (u # w, d1)"
    and fin: "finish_offer_action new_v4 actor command u event notice now d1 = Inr (Inr s, d')"
    and f: "\<And>x. ro_id (f x) = ro_id x" "same_parties r (f r)" "ro_revision (f r) = ro_revision r + 1" "history_grows r (f r)"
    and e: "has_edge offer_machine kind (ro_state r) (ro_state (f r))" and a: "award_agreed (f r)"
    and c: "cmd_expected_revision command = ro_revision r" "actor \<in> {ro_buyer_pubky r, ro_seller_pubky r}" "turn_ok kind actor r"
  shows "books_ok d' \<and> (\<forall>a. total_stock d' a = total_stock d a) \<and> offers_ok d' \<and> offer_moved kind actor command s d d'"
proof -
  note c1 = offer_update_change [OF ok(2) r u f(1) a]
  note l = finish_offer_action_log [OF fin]
  have "books_ok d1 = books_ok d" by (rule books_ok_cong) (simp_all add: c1(4))
  moreover have "total_stock d1 a = total_stock d a" for a by (rule total_stock_cong) (simp add: c1(4))
  moreover have "offers_ok d'" using c1(3) offers_ok_cong [OF log_stepD(11) [OF l(1)]] by simp
  moreover have "offer_change k r (f r) d d'" using c1(2) offer_change_cong [OF log_stepD(11) [OF l(1)]] by simp
  moreover from this(1) have "offer_moved kind actor command s d d'"
    by (rule offer_movedI [OF _ f(2,3) e f(4) _ c]) (use l(2) c1(1) in simp)
  ultimately show ?thesis using books_log [OF l(1)] ok(1) by simp
qed

lemma reject_offer_step:
  assumes ok: "books_ok d" "offers_ok d" and run: "reject_offer new_v4 actor command payload now d = Inr (Inr s, d')"
  shows "books_ok d' \<and> (\<forall>a. total_stock d' a = total_stock d a) \<and> offers_ok d' \<and> offer_moved ''offer.reject'' actor command s d d'"
proof -
  obtain r u w d1 where act: "actionable_offer d actor (oa_offer_id payload) (cmd_aggregate_id command) now = Inr r"
    and c: "cmd_expected_revision command = ro_revision r" "actor \<noteq> ro_offered_by r"
    and u: "update_offers (\<lambda>x. ro_id x = ro_id r) (finished_offer r actor ''rejected'' now) d = Inr (u # w, d1)"
    and fin: "finish_offer_action new_v4 actor command u ''offer.rejected''
        (Some (''offer_rejected'', other_participant u actor)) now d1 = Inr (Inr s, d')"
    using run by (auto simp: reject_offer_def finish_offer_def seq_eq_Inr fetch_one_Inr refuse_def split: sum.splits if_splits)
  note a = actionable_offerD [OF act]
  show ?thesis
  proof (rule move_offer_row [OF ok a(1) u fin])
    show "history_grows r (finished_offer r actor ''rejected'' now r)"
      by (rule history_snoc, simp add: finished_offer_def, simp add: finished_offer_def history_entry_def)
    show "has_edge offer_machine ''offer.reject'' (ro_state r) (ro_state (finished_offer r actor ''rejected'' now r))"
      using a(3) offer_edges by (auto simp: finished_offer_def)
  qed (use c a in \<open>simp_all add: finished_offer_def same_parties_def award_agreed_def turn_ok_def\<close>)
qed

lemma withdraw_offer_step:
  assumes ok: "books_ok d" "offers_ok d" and run: "withdraw_offer new_v4 actor command payload now d = Inr (Inr s, d')"
  shows "books_ok d' \<and> (\<forall>a. total_stock d' a = total_stock d a) \<and> offers_ok d' \<and> offer_moved ''offer.withdraw'' actor command s d d'"
proof -
  obtain r u w d1 where act: "actionable_offer d actor (oa_offer_id payload) (cmd_aggregate_id command) now = Inr r"
    and c: "cmd_expected_revision command = ro_revision r" "actor = ro_offered_by r"
    and u: "update_offers (\<lambda>x. ro_id x = ro_id r) (finished_offer r actor ''withdrawn'' now) d = Inr (u # w, d1)"
    and fin: "finish_offer_action new_v4 actor command u ''offer.withdrawn'' None now d1 = Inr (Inr s, d')"
    using run by (auto simp: withdraw_offer_def finish_offer_def seq_eq_Inr fetch_one_Inr refuse_def split: sum.splits if_splits)
  note a = actionable_offerD [OF act]
  show ?thesis
  proof (rule move_offer_row [OF ok a(1) u fin])
    show "history_grows r (finished_offer r actor ''withdrawn'' now r)"
      by (rule history_snoc, simp add: finished_offer_def, simp add: finished_offer_def history_entry_def)
    show "has_edge offer_machine ''offer.withdraw'' (ro_state r) (ro_state (finished_offer r actor ''withdrawn'' now r))"
      using a(3) offer_edges by (auto simp: finished_offer_def)
  qed (use c a in \<open>simp_all add: finished_offer_def same_parties_def award_agreed_def turn_ok_def\<close>)
qed

lemma counter_offer_step:
  assumes ok: "books_ok d" "offers_ok d" and run: "counter_offer new_v4 actor command payload hs now d = Inr (Inr s, d')"
  shows "books_ok d' \<and> (\<forall>a. total_stock d' a = total_stock d a) \<and> offers_ok d' \<and> offer_moved ''offer.counter'' actor command s d d'"
proof -
  obtain r terms variant u w d1 where act: "actionable_offer d actor (co_offer_id payload) (cmd_aggregate_id command) now = Inr r"
    and c: "cmd_expected_revision command = ro_revision r" "actor \<noteq> ro_offered_by r"
    and u: "update_offers (\<lambda>x. ro_id x = ro_id r) (countered_offer r actor payload terms variant now) d = Inr (u # w, d1)"
    and fin: "finish_offer_action new_v4 actor command u ''offer.countered''
        (Some (''offer_countered'', other_participant u actor)) now d1 = Inr (Inr s, d')"
    using run by (auto simp: counter_offer_def seq_eq_Inr fetch_one_Inr refuse_def
        split: sum.splits option.splits if_splits)
  note a = actionable_offerD [OF act]
  show ?thesis
  proof (rule move_offer_row [OF ok a(1) u fin])
    show "history_grows r (countered_offer r actor payload terms variant now r)"
      by (rule history_snoc, simp add: countered_offer_def, simp add: countered_offer_def history_entry_def)
    show "has_edge offer_machine ''offer.counter'' (ro_state r) (ro_state (countered_offer r actor payload terms variant now r))"
      using a(3) offer_edges by (auto simp: countered_offer_def)
  qed (use c a in \<open>simp_all add: countered_offer_def same_parties_def award_agreed_def turn_ok_def\<close>)
qed

lemma create_offer_step:
  assumes ok: "books_ok d" "offers_ok d" and run: "create_offer new_v4 actor command payload hs now d = Inr (Inr s, d')"
  shows "books_ok d' \<and> (\<forall>a. total_stock d' a = total_stock d a) \<and> offers_ok d' \<and> offer_opened actor command s d d'"
proof -
  obtain listing terms r d1 where r: "r = offer_insert actor command payload listing terms now"
    and seller: "ls_seller_pubky listing \<noteq> actor" and ins: "insert_offer r d = Inr ((), d1)"
    and fin: "finish_offer_action new_v4 actor command r ''offer.created''
        (Some (''offer_received'', ro_seller_pubky r)) now d1 = Inr (Inr s, d')"
    using run by (auto simp: create_offer_def seq_eq_Inr refuse_def Let_def split: sum.splits option.splits if_splits)
  have d1: "d1 = d\<lparr>st_offers := st_offers d @ [r]\<rparr>" and check: "offer_check r"
    and fresh: "ro_id r \<notin> ro_id ` set (st_offers d)"
    using ins by (auto simp: insert_offer_def sql_insert_def list_ex_iff split: if_splits)
  note l = finish_offer_action_log [OF fin]
  have row: "ro_id r = cmd_command_id command" "ro_state r = ''pending''" "ro_revision r = 1" "ro_buyer_pubky r = actor"
    "ro_offered_by r = actor" "ro_seller_pubky r = ls_seller_pubky listing"
    by (simp_all add: r offer_insert_def Let_def)
  have "offers_ok d1"
    using ok(2) check fresh row by (auto simp: offers_ok_def table_ok_def d1 award_agreed_def)
  then have "offers_ok d'" using offers_ok_cong [OF log_stepD(11) [OF l(1)]] by simp
  moreover have "books_ok d1 = books_ok d" by (rule books_ok_cong) (simp_all add: d1)
  moreover have "total_stock d1 a = total_stock d a" for a by (rule total_stock_cong) (simp add: d1)
  moreover have "offer_opened actor command s d d'"
    unfolding offer_opened_def using row seller l(2) log_stepD(11) [OF l(1)] by (simp add: d1 offer_machine_def)
  ultimately show ?thesis using books_log [OF l(1)] ok(1) by simp
qed

section \<open>Accepting\<close>

lemma accept_offer_run:
  assumes "accept_offer new_v4 actor command payload hs now d = Inr (Inr s, d')"
  obtains r snapshot variant l row w d1 where
    "actionable_offer d actor (oa_offer_id payload) (cmd_aggregate_id command) now = Inr r"
    "cmd_expected_revision command = ro_revision r" "actor \<noteq> ro_offered_by r" "award_variant_of r snapshot = Some variant"
    "offer_listing d r = Some l"
    "update_listings (\<lambda>x. ls_aggregate_id x = ls_aggregate_id l \<and> ls_server_revision x = ls_server_revision l
        \<and> ro_quantity r \<le> ls_available_quantity x) (reserved_row (held_state l (ro_quantity r)) (ro_quantity r) now) d
      = Inr (row # w, d1)"
    "award_offer new_v4 actor command r snapshot variant l row now d1 = Inr (Inr s, d')"
  using assms
  by (auto simp: accept_offer_def accept_actionable_def seq_eq_Inr fetch_one_Inr refuse_def Let_def
      split: sum.splits option.splits if_splits prod.splits)

lemma award_offer_run:
  assumes "award_offer new_v4 actor command r snapshot variant l row now d = Inr (Inr s, d')"
  obtains expires_at award_id d1 d2 u w d3 where
    "log_step d d1" "insert_reservation (award_reservation command r l award_id expires_at now) d1 = Inr ((), d2)"
    "update_offers (\<lambda>x. ro_id x = ro_id r)
       (accepted_offer r actor snapshot variant award_id (cmd_command_id command) expires_at now) d2 = Inr (u # w, d3)"
    "log_step d3 d'" "hs_revision s = ro_revision u"
proof -
  obtain award_id d1 where dr: "draw_uuid new_v4 d = (award_id, d1)" by (cases "draw_uuid new_v4 d")
  define t where "t = now + seconds ACCEPTED_OFFER_HOLD_SECONDS"
  obtain d2 u w d3 e1 d4 e2 d5 where ins: "insert_reservation (award_reservation command r l award_id t now) d1 = Inr ((), d2)"
    and u: "update_offers (\<lambda>x. ro_id x = ro_id r)
       (accepted_offer r actor snapshot variant award_id (cmd_command_id command) t now) d2 = Inr (u # w, d3)"
    and e1: "insert_event new_v4 (cmd_command_id command) (ro_aggregate_id r) (ro_revision u) actor ''offer.accepted'' now d3
       = Inr (e1, d4)"
    and e2: "insert_event new_v4 (cmd_command_id command) (ls_aggregate_id l) (ls_server_revision row) actor
       ''inventory.reserved'' now d4 = Inr (e2, d5)"
    and d': "d' = insert_notification_intent e1 ''offer_accepted'' (other_participant u actor) actor (ro_aggregate_id r)
       (Some (offer_amount u)) now d5"
    and s: "hs_revision s = ro_revision u"
    using assms dr
    by (auto simp: award_offer_def Let_def seq_eq_Inr fetch_one_Inr t_def split: option.splits)
  have "log_step d3 d'"
    unfolding d' by (rule log_step_trans [OF log_step_trans [OF insert_event_log [OF e1] insert_event_log [OF e2]] insert_notification_log])
  with that [OF draw_uuid_log [OF dr] ins u] s show thesis by blast
qed

lemma award_line_units: "reservation_holds (award_reservation command r l k e now) a = (if ls_aggregate_id l = a then ro_quantity r else 0)"
  by (simp add: reservation_holds_def award_reservation_def)

lemma accept_offer_step:
  assumes ok: "books_ok d" "offers_ok d" and run: "accept_offer new_v4 actor command payload hs now d = Inr (Inr s, d')"
  shows "books_ok d' \<and> (\<forall>a. total_stock d' a = total_stock d a) \<and> offers_ok d' \<and> offer_moved ''offer.accept'' actor command s d d'"
proof -
  obtain r snapshot variant l row w d1 where
    act: "actionable_offer d actor (oa_offer_id payload) (cmd_aggregate_id command) now = Inr r"
    and c: "cmd_expected_revision command = ro_revision r" "actor \<noteq> ro_offered_by r"
    and ul: "update_listings (\<lambda>x. ls_aggregate_id x = ls_aggregate_id l \<and> ls_server_revision x = ls_server_revision l
        \<and> ro_quantity r \<le> ls_available_quantity x) (reserved_row (held_state l (ro_quantity r)) (ro_quantity r) now) d
      = Inr (row # w, d1)"
    and aw: "award_offer new_v4 actor command r snapshot variant l row now d1 = Inr (Inr s, d')"
    by (rule accept_offer_run [OF run])
  obtain t k d2 d3 u w' d4 where l2: "log_step d1 d2"
    and ins: "insert_reservation (award_reservation command r l k t now) d2 = Inr ((), d3)"
    and u: "update_offers (\<lambda>x. ro_id x = ro_id r)
       (accepted_offer r actor snapshot variant k (cmd_command_id command) t now) d3 = Inr (u # w', d4)"
    and l4: "log_step d4 d'" and s: "hs_revision s = ro_revision u"
    by (rule award_offer_run [OF aw])
  note a = actionable_offerD [OF act]
  let ?f = "accepted_offer r actor snapshot variant k (cmd_command_id command) t now"
  have st: "stock_ok d" using ok(1) by (simp add: books_ok_def)
  then have t0: "stock_tables_ok d" and l0: "ledger_off (\<lambda>_. 0) d" by (simp_all add: stock_ok_def)
  have tl: "table_ok ls_aggregate_id listing_check (st_listings d)" using t0 by (simp add: stock_tables_ok_def)
  have step: "listings_step d d1" by (rule update_listings_step [OF tl ul]) simp_all
  have ld1: "ledger_off ((\<lambda>_. 0)(ls_aggregate_id l := 0 + ro_quantity r)) d1"
    by (rule ledger_off_move [OF tl l0 ul]) simp_all
  have td1: "stock_tables_ok d1" using t0 listings_stepD [OF step] by (simp add: stock_tables_ok_def)
  have td2: "stock_tables_ok d2" and ld2: "ledger_off ((\<lambda>_. 0)(ls_aggregate_id l := 0 + ro_quantity r)) d2"
    using td1 ld1 log_stepD [OF l2] by (simp_all add: stock_tables_ok_def ledger_off_def accounted_def)
  note i = insert_reservation_effect [OF td2 ld2 ins]
  have "ledger_off (\<lambda>_. 0) d3" by (rule ledger_off_cong [OF i(2)]) (auto simp: award_line_units)
  with i(1) have ok3: "stock_ok d3" by (simp add: stock_ok_def)
  have off: "st_offers d3 = st_offers d"
    using log_stepD [OF l2] step by (auto simp: i(3) listings_step_def)
  have books3: "books_ok d3"
    using ok(1) ok3 drops_ok_cong [of d3 d] listings_stepD [OF step] log_stepD [OF l2] by (simp add: books_ok_def i(3))
  have "award_agreed (?f r)" by (simp add: award_agreed_def accepted_offer_def)
  note ch = offer_update_change [OF offers_ok_cong [OF off, THEN iffD2, OF ok(2)] _ u _ this, of "oa_offer_id payload"]
  have ch': "u = ?f r" "offer_change (oa_offer_id payload) r (?f r) d3 d4" "offers_ok d4"
    "d4 = d3\<lparr>st_offers := map (\<lambda>x. if ro_id x = ro_id r then ?f x else x) (st_offers d3)\<rparr>"
    using ch a(1) by (simp_all add: fetch_offer_def off accepted_offer_def)
  have "books_ok d4" using books3 books_ok_cong [of d4 d3] by (simp add: ch'(4))
  moreover have "total_stock d4 x = total_stock d x" for x
    using step log_stepD [OF l2] by (simp add: listings_step_def ch'(4) total_stock_def fetch_listing_def i(3))
  moreover have "offers_ok d'" using ch'(3) offers_ok_cong [OF log_stepD(11) [OF l4]] by simp
  moreover have "offer_change (oa_offer_id payload) r (?f r) d3 d'"
    using ch'(2) offer_change_cong [OF log_stepD(11) [OF l4]] by simp
  then have "offer_change (oa_offer_id payload) r (?f r) d d'" unfolding offer_change_def fetch_offer_def off .
  then have "offer_moved ''offer.accept'' actor command s d d'"
  proof (rule offer_movedI)
    show "history_grows r (?f r)" by (rule history_snoc, simp add: accepted_offer_def, simp add: accepted_offer_def history_entry_def)
    show "has_edge offer_machine ''offer.accept'' (ro_state r) (ro_state (?f r))"
      using a(3) offer_edges by (auto simp: accepted_offer_def)
  qed (use c a s ch'(1) in \<open>simp_all add: accepted_offer_def same_parties_def turn_ok_def\<close>)
  ultimately show ?thesis using books_log [OF l4] by simp
qed

section \<open>Converting an award\<close>

abbreviation converted_row :: "uuid \<Rightarrow> datetime \<Rightarrow> offer_row \<Rightarrow> offer_row" where
  "converted_row k now r \<equiv> r\<lparr>ro_state := ''converted'', ro_revision := ro_revision r + 1, ro_converted_order_id := Some k,
     ro_converted_at := Some now, ro_updated_at := now\<rparr>"

lemma offer_checkout_run:
  assumes "offer_checkout new_v4 actor command payload window now d = Inr (Inr s, d')"
  obtains r k v amounts where "fetch_offer d (oc_offer_id payload) = Some r"
    "award_refusal actor command payload r now = None" "fetch rv_id k (st_reservations d) = Some v"
    "award_hold_refusal payload r v now d = None" "award_method_refusal payload r = None"
    "award_amounts_of payload r = Inr amounts"
    "convert_award new_v4 actor command payload r v amounts window now d = Inr (Inr s, d')"
  using assms by (auto simp: offer_checkout_def refuse_def split: option.split_asm sum.split_asm)

lemma convert_award_run:
  assumes "convert_award new_v4 actor command payload r v amounts window now d = Inr (Inr s, d')"
  obtains k p d2 w d3 d4 d5 w' d6 where "log_step d d2"
    "update_reservations (\<lambda>x. rv_id x = rv_id v \<and> rv_status x = ''active'')
       (\<lambda>x. x\<lparr>rv_status := ''converted'', rv_updated_at := now\<rparr>) d2 = Inr (w, d3)"
    "insert_order (award_order actor command payload r v amounts k p window now) d3 = Inr ((), d4)"
    "insert_payment (award_payment actor r amounts k p now) d4 = Inr ((), d5)"
    "update_offers (\<lambda>x. ro_id x = ro_id r) (converted_row k now) d5 = Inr (w', d6)"
    "log_step d6 d'" "hs_revision s = ro_revision r + 1"
    "hs_result s = ResultOrder (award_order actor command payload r v amounts k p window now) []"
proof -
  obtain k d1 where k: "draw_uuid new_v4 d = (k, d1)" by (cases "draw_uuid new_v4 d")
  obtain p d2 where p: "draw_uuid new_v4 d1 = (p, d2)" by (cases "draw_uuid new_v4 d1")
  let ?o = "award_order actor command payload r v amounts k p window now"
  obtain w d3 d4 d5 w' d6 e1 d7 e2 d8 where u: "update_reservations (\<lambda>x. rv_id x = rv_id v \<and> rv_status x = ''active'')
       (\<lambda>x. x\<lparr>rv_status := ''converted'', rv_updated_at := now\<rparr>) d2 = Inr (w, d3)"
    and o: "insert_order ?o d3 = Inr ((), d4)"
    and pm: "insert_payment (award_payment actor r amounts k p now) d4 = Inr ((), d5)"
    and of: "update_offers (\<lambda>x. ro_id x = ro_id r) (converted_row k now) d5 = Inr (w', d6)"
    and e1: "insert_event new_v4 (cmd_command_id command) (ro_aggregate_id r) (ro_revision r + 1) actor ''offer.converted''
       now d6 = Inr (e1, d7)"
    and e2: "insert_event new_v4 (cmd_command_id command) (order_aggregate_id k) 1 actor ''order.created'' now d7 = Inr (e2, d8)"
    and d': "d' = insert_notification_intent e2 ''order_created'' (ro_seller_pubky r) actor (order_aggregate_id k) None now d8"
    and s: "hs_revision s = ro_revision r + 1" "hs_result s = ResultOrder ?o []"
    using assms by (auto simp: convert_award_def k p Let_def seq_eq_Inr refuse_def split: if_split_asm)
  have "log_step d6 d'"
    unfolding d' by (rule log_step_trans [OF log_step_trans [OF insert_event_log [OF e1] insert_event_log [OF e2]] insert_notification_log])
  with that [OF log_step_trans [OF draw_uuid_log [OF k] draw_uuid_log [OF p]] u o pm of] s show thesis by blast
qed

lemma award_refusalD:
  assumes "award_refusal actor command payload r now = None"
  shows "actor = ro_buyer_pubky r" "ro_state r = ''accepted''" "cmd_expected_revision command = ro_revision r"
    "ro_accepted_listing_aggregate_id r = Some (oc_listing_aggregate_id payload)"
    "ro_accepted_quantity r = Some (oc_quantity payload)" "ro_award_id r = Some (oc_award_id payload)"
  using assms by (auto simp: award_refusal_def split: if_split_asm)

lemma award_hold_refusalD:
  assumes "award_hold_refusal payload r v now d = None"
  shows "rv_status v = ''active''" "rv_listing_aggregate_id v = oc_listing_aggregate_id payload"
    "rv_quantity v = oc_quantity payload" "rv_offer_award_id v = Some (oc_award_id payload)"
  using assms by (auto simp: award_hold_refusal_def split: if_split_asm option.split_asm)

lemma award_order_units:
  assumes "ro_accepted_listing_aggregate_id r = Some a" "rv_listing_aggregate_id v = a"
  shows "order_holds (award_order actor command payload r v amounts k p window now) x
    = (if x = rv_listing_aggregate_id v then rv_quantity v else 0)"
  using assms by (auto simp: order_holds_def award_order_def line_units_def award_line_def or_else_def)

lemma offer_checkout_effect:
  assumes ok: "books_ok d" "offers_ok d" and run: "offer_checkout new_v4 actor command payload window now d = Inr (Inr s, d')"
  shows "books_ok d' \<and> (\<forall>a. total_stock d' a = total_stock d a) \<and> offers_ok d'
    \<and> (\<exists>r k. award_refusal actor command payload r now = None \<and> hs_revision s = ro_revision r + 1
         \<and> offer_change (oc_offer_id payload) r (converted_row k now r) d d')"
proof -
  obtain r i v amounts where r: "fetch_offer d (oc_offer_id payload) = Some r"
    and ar: "award_refusal actor command payload r now = None" and v: "fetch rv_id i (st_reservations d) = Some v"
    and hr: "award_hold_refusal payload r v now d = None"
    and cv: "convert_award new_v4 actor command payload r v amounts window now d = Inr (Inr s, d')"
    by (rule offer_checkout_run [OF run])
  obtain k p d2 w d3 d4 d5 w' d6 where l2: "log_step d d2"
    and ur: "update_reservations (\<lambda>x. rv_id x = rv_id v \<and> rv_status x = ''active'')
       (\<lambda>x. x\<lparr>rv_status := ''converted'', rv_updated_at := now\<rparr>) d2 = Inr (w, d3)"
    and io: "insert_order (award_order actor command payload r v amounts k p window now) d3 = Inr ((), d4)"
    and ip: "insert_payment (award_payment actor r amounts k p now) d4 = Inr ((), d5)"
    and uo: "update_offers (\<lambda>x. ro_id x = ro_id r) (converted_row k now) d5 = Inr (w', d6)"
    and l6: "log_step d6 d'" and s: "hs_revision s = ro_revision r + 1"
    by (rule convert_award_run [OF cv])
  note a = award_refusalD [OF ar] and h = award_hold_refusalD [OF hr]
  have l0: "st_listings d2 = st_listings d" "st_reservations d2 = st_reservations d" "st_orders d2 = st_orders d"
    "st_offers d2 = st_offers d" "st_drops d2 = st_drops d" "st_drop_purchases d2 = st_drop_purchases d"
    using log_stepD [OF l2] by simp_all
  have b2: "stock_tables_ok d2" "ledger_off (\<lambda>_. 0) d2"
    using books_log(1) [OF l2] ok(1) by (simp_all add: books_ok_def stock_ok_def)
  have v': "fetch rv_id (rv_id v) (st_reservations d2) = Some v" using v fetch_Some [OF v] l0 by simp
  note f = flip_reservation_effect [OF b2 v' h(1) ur, simplified]
  note o = insert_order_effect [OF f(2,3) io]
  have "ledger_off (\<lambda>_. 0) d4"
    by (rule ledger_off_cong [OF o(2)]) (use a(4) h(2) in \<open>simp add: award_order_units\<close>)
  with o(1) have st4: "stock_ok d4" by (simp add: stock_ok_def)
  have d5: "d5 = d4\<lparr>st_payments := st_payments d4 @ [award_payment actor r amounts k p now]\<rparr>"
    using ip by (auto simp: insert_payment_def sql_insert_def split: if_splits)
  have "list_all hold_shape (st_orders d4)"
    using ok(1) by (simp add: o(3) f(4) l0 books_ok_def hold_shape_def award_order_def)
  moreover have "drops_ok d4" using ok(1) drops_ok_cong [of d4 d] by (simp add: o(3) f(4) l0 books_ok_def)
  ultimately have "books_ok d4" using st4 by (simp add: books_ok_def)
  then have b5: "books_ok d5" using books_ok_cong [of d5 d4] by (simp add: d5)
  have off: "st_offers d5 = st_offers d" by (simp add: d5 o(3) f(4) l0)
  have "award_agreed r"
    using ok(2) fetch_Some [OF r [unfolded fetch_offer_def]] by (auto simp: offers_ok_def list_all_iff)
  then have "award_agreed (converted_row k now r)" using a(2) by (auto simp: award_agreed_def split: option.split_asm)
  note ch = offer_update_change [OF offers_ok_cong [OF off, THEN iffD2, OF ok(2)] _ uo _ this, of "oc_offer_id payload"]
  have ch': "offer_change (oc_offer_id payload) r (converted_row k now r) d5 d6" "offers_ok d6"
    "d6 = d5\<lparr>st_offers := map (\<lambda>x. if ro_id x = ro_id r then converted_row k now x else x) (st_offers d5)\<rparr>"
    using ch r by (simp_all add: fetch_offer_def off)
  have b6: "books_ok d6" using b5 books_ok_cong [of d6 d5] by (simp add: ch'(3))
  have t6: "total_stock d6 x = total_stock d x" for x
    by (rule total_stock_cong) (simp add: ch'(3) d5 o(3) f(4) l0)
  have "offer_change (oc_offer_id payload) r (converted_row k now r) d5 d'"
    using ch'(1) offer_change_cong [OF log_stepD(11) [OF l6]] by simp
  then have "offer_change (oc_offer_id payload) r (converted_row k now r) d d'" unfolding offer_change_def fetch_offer_def off .
  with ar s have "\<exists>r k. award_refusal actor command payload r now = None \<and> hs_revision s = ro_revision r + 1
      \<and> offer_change (oc_offer_id payload) r (converted_row k now r) d d'" by blast
  moreover have "offers_ok d'" using ch'(2) offers_ok_cong [OF log_stepD(11) [OF l6]] by simp
  ultimately show ?thesis using books_log [OF l6] b6 t6 by simp
qed

lemma offer_checkout_step:
  assumes ok: "books_ok d" "offers_ok d" and run: "offer_checkout new_v4 actor command payload window now d = Inr (Inr s, d')"
  shows "books_ok d' \<and> (\<forall>a. total_stock d' a = total_stock d a) \<and> offers_ok d' \<and> offer_moved ''offer.checkout'' actor command s d d'"
proof -
  obtain r k where ar: "award_refusal actor command payload r now = None" and s: "hs_revision s = ro_revision r + 1"
    and ch: "offer_change (oc_offer_id payload) r (converted_row k now r) d d'"
    and books: "books_ok d'" "\<forall>a. total_stock d' a = total_stock d a" "offers_ok d'"
    using offer_checkout_effect [OF ok run] by blast
  note a = award_refusalD [OF ar]
  from ch have "offer_moved ''offer.checkout'' actor command s d d'"
  proof (rule offer_movedI)
    show "has_edge offer_machine ''offer.checkout'' (ro_state r) (ro_state (converted_row k now r))"
      using a(2) offer_edges by simp
  qed (use a s in \<open>simp_all add: same_parties_def turn_ok_def history_grows_def\<close>)
  with books show ?thesis by simp
qed

lemma offer_checkout_rows:
  assumes run: "offer_checkout new_v4 actor command payload window now d = Inr (Inr s, d')"
  obtains r v amounts k p where "fetch_offer d (oc_offer_id payload) = Some r"
    "award_refusal actor command payload r now = None" "award_hold_refusal payload r v now d = None"
    "award_amounts_of payload r = Inr amounts"
    "hs_result s = ResultOrder (award_order actor command payload r v amounts k p window now) []"
    "st_orders d' = st_orders d @ [award_order actor command payload r v amounts k p window now]"
    "st_payments d' = st_payments d @ [award_payment actor r amounts k p now]"
proof -
  obtain r i v amounts where r: "fetch_offer d (oc_offer_id payload) = Some r"
    and ar: "award_refusal actor command payload r now = None" and hr: "award_hold_refusal payload r v now d = None"
    and am: "award_amounts_of payload r = Inr amounts"
    and cv: "convert_award new_v4 actor command payload r v amounts window now d = Inr (Inr s, d')"
    by (rule offer_checkout_run [OF run])
  obtain k p d2 w d3 d4 d5 w' d6 where l2: "log_step d d2"
    and ur: "update_reservations (\<lambda>x. rv_id x = rv_id v \<and> rv_status x = ''active'')
       (\<lambda>x. x\<lparr>rv_status := ''converted'', rv_updated_at := now\<rparr>) d2 = Inr (w, d3)"
    and io: "insert_order (award_order actor command payload r v amounts k p window now) d3 = Inr ((), d4)"
    and ip: "insert_payment (award_payment actor r amounts k p now) d4 = Inr ((), d5)"
    and uo: "update_offers (\<lambda>x. ro_id x = ro_id r) (converted_row k now) d5 = Inr (w', d6)"
    and l6: "log_step d6 d'" and hs: "hs_result s = ResultOrder (award_order actor command payload r v amounts k p window now) []"
    by (rule convert_award_run [OF cv])
  have d3: "st_orders d3 = st_orders d2 \<and> st_payments d3 = st_payments d2" using ur by (auto simp: reservations.upd_Inr)
  have d4: "d4 = d3\<lparr>st_orders := st_orders d3 @ [award_order actor command payload r v amounts k p window now]\<rparr>"
    using io by (auto simp: insert_order_def sql_insert_def split: if_split_asm)
  have d5: "d5 = d4\<lparr>st_payments := st_payments d4 @ [award_payment actor r amounts k p now]\<rparr>"
    using ip by (auto simp: insert_payment_def sql_insert_def split: if_split_asm)
  have d6: "st_orders d6 = st_orders d5 \<and> st_payments d6 = st_payments d5" using uo by (auto simp: offers.upd_Inr)
  show thesis
    by (rule that [OF r ar hr am hs]) (use d3 d6 log_stepD [OF l2] log_stepD [OF l6] in \<open>simp_all add: d4 d5\<close>)
qed

lemma award_agreed_amounts:
  assumes "award_agreed r" "ro_state r = ''accepted''" "award_amounts_of payload r = Inr amounts"
  shows "aw_subtotal amounts = ro_amount_minor r * ro_quantity r" "aw_total amounts = aw_subtotal amounts + aw_shipping amounts"
    "aw_currency amounts = ro_currency r" "aw_exponent amounts = ro_exponent r"
    "Some (aw_shipping amounts) = (if award_method payload = Pickup then Some 0 else ro_accepted_shipping_minor r)"
    "ro_accepted_quantity r = Some (ro_quantity r)"
    "ro_accepted_listing_aggregate_id r = Some (ro_listing_aggregate_id r)"
  using assms
  by (auto simp: award_agreed_def award_amounts_of_def Let_def or_else_def split: option.split_asm if_split_asm)

lemma converted_offer_refused:
  "fetch_offer d (oc_offer_id payload) = Some r \<Longrightarrow> ro_state r = ''converted'' \<Longrightarrow>
   offer_checkout new_v4 actor command payload window now d \<noteq> Inr (Inr s, d')"
  by (simp add: offer_checkout_def award_refusal_def refuse_def)

section \<open>Properties\<close>

text \<open>C8: C6: 
  An accepted offer command keeps the books balanced, the total stock of every listing and the agreement of every
  award with its amounts. It either opens a pending offer of the actor, or moves exactly one offer, by one revision
  and along an edge of \<open>offer_machine\<close> for that command, on the revision the command expected, for a participant
  whose turn it is; the parties, the listing and the currency stand and the history only grows.
\<close>

theorem offer_commands_step:
  assumes "books_ok d" "offers_ok d"
    and "dispatch_offer homeserver window new_v4 actor command now d = Some (Inr (Inr s, d'))"
  shows "books_ok d' \<and> (\<forall>a. total_stock d' a = total_stock d a) \<and> offers_ok d'
    \<and> offer_step (payload_kind (cmd_payload command)) actor command s d d'"
  using assms(3) create_offer_step [OF assms(1,2)] counter_offer_step [OF assms(1,2)] accept_offer_step [OF assms(1,2)]
    offer_checkout_step [OF assms(1,2)] reject_offer_step [OF assms(1,2)] withdraw_offer_step [OF assms(1,2)]
  by (cases "cmd_payload command") (simp_all add: dispatch_offer_def offer_step_def)

text \<open>C9: C7: 
  An accepted offer is ordered at the agreed price, once: the order and its payment charge the accepted unit price
  times the accepted quantity plus the accepted shipping (none for pickup) in the offer's currency, for that quantity
  of that listing and between the offer's parties, and no later checkout of the same offer is accepted.
\<close>

theorem award_order_price:
  assumes "books_ok d" "offers_ok d" "offer_checkout new_v4 actor command payload window now d = Inr (Inr s, d')"
  shows "\<exists>offer order payment shipping. fetch_offer d (oc_offer_id payload) = Some offer
    \<and> hs_result s = ResultOrder order [] \<and> st_orders d' = st_orders d @ [order] \<and> st_payments d' = st_payments d @ [payment]
    \<and> Some shipping = (if award_method payload = Pickup then Some 0 else ro_accepted_shipping_minor offer)
    \<and> or_subtotal_minor order = ro_amount_minor offer * ro_quantity offer \<and> or_shipping_minor order = shipping
    \<and> or_total_minor order = or_subtotal_minor order + shipping
    \<and> pm_amount_minor payment = or_total_minor order \<and> pm_order_id payment = or_id order
    \<and> or_currency order = ro_currency offer \<and> pm_currency payment = ro_currency offer
    \<and> or_buyer_pubky order = ro_buyer_pubky offer \<and> or_seller_pubky order = ro_seller_pubky offer
    \<and> order_holds order (ro_listing_aggregate_id offer) = ro_quantity offer \<and> or_offer_award_id order = ro_award_id offer
    \<and> (\<forall>new_v4' actor' command' payload' window' now' s' d''. oc_offer_id payload' = oc_offer_id payload \<longrightarrow>
         offer_checkout new_v4' actor' command' payload' window' now' d' \<noteq> Inr (Inr s', d''))"
proof -
  obtain r v amounts k p where r: "fetch_offer d (oc_offer_id payload) = Some r"
    and ar: "award_refusal actor command payload r now = None" and hr: "award_hold_refusal payload r v now d = None"
    and am: "award_amounts_of payload r = Inr amounts"
    and rows: "hs_result s = ResultOrder (award_order actor command payload r v amounts k p window now) []"
    "st_orders d' = st_orders d @ [award_order actor command payload r v amounts k p window now]"
    "st_payments d' = st_payments d @ [award_payment actor r amounts k p now]"
    by (rule offer_checkout_rows [OF assms(3)])
  note a = award_refusalD [OF ar] and h = award_hold_refusalD [OF hr]
  have "award_agreed r"
    using assms(2) fetch_Some [OF r [unfolded fetch_offer_def]] by (auto simp: offers_ok_def list_all_iff)
  note am' = award_agreed_amounts [OF this a(2) am]
  have units: "order_holds (award_order actor command payload r v amounts k p window now) (ro_listing_aggregate_id r)
      = ro_quantity r"
    using award_order_units [OF am'(7)] a(4,5) h(2,3) am'(6,7) by simp
  obtain r' where r': "fetch_offer d' (oc_offer_id payload) = Some r'" "ro_state r' = ''converted''"
    using offer_checkout_effect [OF assms] by (auto simp: offer_change_def)
  have once: "offer_checkout new_v4' actor' command' payload' window' now' d' \<noteq> Inr (Inr s', d'')"
    if "oc_offer_id payload' = oc_offer_id payload" for new_v4' actor' command' payload' window' now' s' d''
    using converted_offer_refused [OF _ r'(2)] r'(1) that by metis
  show ?thesis
    by (rule exI [of _ r], rule exI [of _ "award_order actor command payload r v amounts k p window now"],
        rule exI [of _ "award_payment actor r amounts k p now"], rule exI [of _ "aw_shipping amounts"])
      (use r rows am' a units once in \<open>simp add: award_order_def award_payment_def\<close>)
qed

theorem offer_commands_step_witness:
  "case dispatch_offer None 900 show_nat ''buyer'' sample_award_checkout 0 sample_award_db of
     Some (Inr (Inr s, d')) \<Rightarrow> books_ok d' \<and> offers_ok d' \<and> offer_step ''offer.checkout'' ''buyer'' sample_award_checkout s sample_award_db d'
   | _ \<Rightarrow> False"
proof -
  have "books_ok sample_award_db" "offers_ok sample_award_db" by code_simp+
  note p = offer_commands_step [OF this, of None 900 show_nat "''buyer''" sample_award_checkout 0]
  have k: "payload_kind (cmd_payload sample_award_checkout) = ''offer.checkout''" by code_simp
  have "case dispatch_offer None 900 show_nat ''buyer'' sample_award_checkout 0 sample_award_db of
     Some (Inr (Inr s, d')) \<Rightarrow> True | _ \<Rightarrow> False" by code_simp
  then obtain s d' where run: "dispatch_offer None 900 show_nat ''buyer'' sample_award_checkout 0 sample_award_db
      = Some (Inr (Inr s, d'))" by (auto split: option.splits sum.splits)
  from p [OF run] show ?thesis by (simp add: run k)
qed

theorem award_order_price_witness:
  "case offer_checkout show_nat ''buyer'' sample_award_checkout sample_award_payload 900 0 sample_award_db of
     Inr (Inr s, d') \<Rightarrow> (\<exists>order. st_orders d' = [order] \<and> or_total_minor order = 160)
       \<and> (\<forall>s' d''. offer_checkout show_nat ''buyer'' sample_award_checkout sample_award_payload 900 0 d' \<noteq> Inr (Inr s', d''))
   | _ \<Rightarrow> False"
proof -
  have "books_ok sample_award_db" "offers_ok sample_award_db" by code_simp+
  note p = award_order_price [OF this, of show_nat "''buyer''" sample_award_checkout sample_award_payload 900 0]
  have v: "st_orders sample_award_db = []" "award_method sample_award_payload = Pickup"
    "fetch_offer sample_award_db (oc_offer_id sample_award_payload) = Some sample_offer" "ro_amount_minor sample_offer = 80"
    "ro_quantity sample_offer = 2" by code_simp+
  have "case offer_checkout show_nat ''buyer'' sample_award_checkout sample_award_payload 900 0 sample_award_db of
     Inr (Inr s, d') \<Rightarrow> True | _ \<Rightarrow> False" by code_simp
  then obtain s d' where run: "offer_checkout show_nat ''buyer'' sample_award_checkout sample_award_payload 900 0 sample_award_db
      = Inr (Inr s, d')" by (auto split: sum.splits)
  from p [OF run] show ?thesis by (auto simp: run v)
qed

end
