(* ===== verification/Reviews.thy ===== *)
theory Reviews
  imports Orders Sealing
begin

text \<open>
  Reviews and purchase attestations: \<^verbatim>\<open>handlers/reviews.rs\<close>, \<open>set_band_consent\<close> of
  \<^verbatim>\<open>handlers/attestation.rs\<close> and the attestor (\<^verbatim>\<open>attestor.rs\<close>).  The attestor's key and salt come
  with what its crates compute: Blake3, Ed25519, base64, the bytes of a JSON document and the texts of a
  time and of its day.
\<close>

section \<open>The attestor\<close>

record attestor =
  ax_pubky :: pubky
  ax_order_salt :: string
  ax_blake3_hex :: "string \<Rightarrow> string"
  ax_to_vec :: "json \<Rightarrow> string"
  ax_base64 :: "string \<Rightarrow> string"
  ax_sign :: "string \<Rightarrow> string"
  ax_day :: "datetime \<Rightarrow> string"
  ax_timestamp :: "datetime \<Rightarrow> string"

definition PURCHASE_ATTESTATION_TYP :: string where "PURCHASE_ATTESTATION_TYP = ''pubky-purchase-attestation+v1''"
definition RECEIPT_ATTESTATION_TYP :: string where "RECEIPT_ATTESTATION_TYP = ''pubky-order-receipt+v1''"
definition RECEIPT_ATTESTATION_V2_TYP :: string where "RECEIPT_ATTESTATION_V2_TYP = ''pubky-order-receipt+v2''"
definition DROP_EDITION_ATTESTATION_TYP :: string where "DROP_EDITION_ATTESTATION_TYP = ''pubky-drop-edition+v1''"
definition SELLER_STATS_TYP :: string where "SELLER_STATS_TYP = ''pubky-seller-stats+v1''"

definition order_ref :: "attestor \<Rightarrow> uuid \<Rightarrow> string" where
  "order_ref attestor order_id = ax_blake3_hex attestor (uuid_bytes order_id @ ax_order_salt attestor)"

definition sign_compact :: "attestor \<Rightarrow> string \<Rightarrow> json \<Rightarrow> string" where
  "sign_compact attestor typ payload =
     (let header = JObject [(''alg'', JString ''EdDSA''), (''typ'', JString typ)];
          signing_input = ax_base64 attestor (ax_to_vec attestor header) @ ''.'' @ ax_base64 attestor (ax_to_vec attestor payload)
      in signing_input @ ''.'' @ ax_base64 attestor (ax_sign attestor signing_input))"

text \<open>\<open>DateTime::timestamp\<close>.\<close>

definition unix_seconds :: "datetime \<Rightarrow> int" where
  "unix_seconds t = t div 1000000000"

record issued_attestation =
  ia_jws :: string
  ia_claims :: json
  ia_order_ref :: string

definition issue_purchase_attestation ::
  "attestor \<Rightarrow> uuid \<Rightarrow> pubky \<Rightarrow> pubky \<Rightarrow> string \<Rightarrow> string \<Rightarrow> string \<Rightarrow> string option \<Rightarrow> datetime \<Rightarrow> issued_attestation" where
  "issue_purchase_attestation attestor order_id reviewer counterparty role listing_uri completed_on amount_band now =
     (let ref = order_ref attestor order_id;
          claims = JObject
            ([(''v'', JInt 1), (''iss'', JString (ax_pubky attestor)), (''sub'', JString reviewer),
              (''cpk'', JString counterparty), (''role'', JString role), (''listing'', JString listing_uri),
              (''order_ref'', JString ref), (''completed_on'', JString completed_on)]
             @ (case amount_band of None \<Rightarrow> [] | Some band \<Rightarrow> [(''amount_band'', JString band)])
             @ [(''iat'', JInt (unix_seconds now))])
      in \<lparr>ia_jws = sign_compact attestor PURCHASE_ATTESTATION_TYP claims, ia_claims = claims, ia_order_ref = ref\<rparr>)"

definition sign_seller_stats :: "attestor \<Rightarrow> json \<Rightarrow> string" where
  "sign_seller_stats attestor body = sign_compact attestor SELLER_STATS_TYP body"

text \<open>A receipt or an edition is attested from stored rows alone, so it is issued again byte for byte.\<close>

definition issue_receipt_attestation ::
  "attestor \<Rightarrow> uuid \<Rightarrow> uuid \<Rightarrow> pubky \<Rightarrow> pubky \<Rightarrow> int \<Rightarrow> string \<Rightarrow> int \<Rightarrow> datetime \<Rightarrow> string \<times> json" where
  "issue_receipt_attestation attestor order_id receipt_id buyer seller total_minor asset scale paid_at =
     (let claims = JObject
            [(''v'', JInt 1), (''iss'', JString (ax_pubky attestor)), (''buyer'', JString buyer),
             (''seller'', JString seller), (''order'', JString order_id), (''receipt'', JString receipt_id),
             (''total_minor'', JInt total_minor), (''currency'', JString asset), (''exponent'', JInt scale),
             (''paid_at'', JString (ax_timestamp attestor (format_timestamp paid_at))), (''iat'', JInt (unix_seconds paid_at))]
      in (sign_compact attestor RECEIPT_ATTESTATION_TYP claims, claims))"

definition issue_receipt_attestation_v2 ::
  "attestor \<Rightarrow> uuid \<Rightarrow> uuid \<Rightarrow> pubky \<Rightarrow> pubky \<Rightarrow> json \<Rightarrow> json \<Rightarrow> datetime \<Rightarrow> string \<times> json" where
  "issue_receipt_attestation_v2 attestor order_id receipt_id buyer seller settlement_total merchandise_total paid_at =
     (let claims = JObject
            [(''v'', JInt 2), (''iss'', JString (ax_pubky attestor)), (''buyer'', JString buyer),
             (''seller'', JString seller), (''order'', JString order_id), (''receipt'', JString receipt_id),
             (''settlement_total'', settlement_total), (''merchandise_total'', merchandise_total),
             (''paid_at'', JString (ax_timestamp attestor (format_timestamp paid_at))), (''iat'', JInt (unix_seconds paid_at))]
      in (sign_compact attestor RECEIPT_ATTESTATION_V2_TYP claims, claims))"

definition issue_drop_edition_attestation ::
  "attestor \<Rightarrow> uuid \<Rightarrow> pubky \<Rightarrow> pubky \<Rightarrow> string \<Rightarrow> int \<Rightarrow> int \<Rightarrow> datetime \<Rightarrow> string \<times> json" where
  "issue_drop_edition_attestation attestor receipt_id buyer seller drop_id edition total_units issued_at =
     (let claims = JObject
            [(''v'', JInt 1), (''iss'', JString (ax_pubky attestor)), (''buyer'', JString buyer),
             (''seller'', JString seller), (''drop'', JString drop_id), (''edition'', JInt edition),
             (''of'', JInt total_units), (''receipt'', JString receipt_id), (''iat'', JInt (unix_seconds issued_at))]
      in (sign_compact attestor DROP_EDITION_ATTESTATION_TYP claims, claims))"

definition claim_role :: "string \<Rightarrow> string" where
  "claim_role reviewer_role = (if reviewer_role = ''buyer'' then ''buyer_reviewing_seller'' else ''seller_reviewing_buyer'')"

text \<open>\<open>i64::ilog10\<close> of a positive number.\<close>

fun ilog10 :: "nat \<Rightarrow> nat" where
  "ilog10 n = (if n < 10 then 0 else Suc (ilog10 (n div 10)))"

declare ilog10.simps [simp del]

definition amount_band :: "string \<Rightarrow> int \<Rightarrow> string option" where
  "amount_band asset total_minor =
     (if total_minor < 1 then None else Some (asset @ '':'' @ show_nat (ilog10 (nat total_minor))))"

section \<open>Issuing an attestation\<close>

text \<open>\<open>None\<close> is the \<open>expect\<close> that panics.\<close>

definition listing_uri_from_order :: "order_row \<Rightarrow> string option" where
  "listing_uri_from_order order =
     (case or_lines order of
        [] \<Rightarrow> None
      | line # _ \<Rightarrow>
          map_option
            (\<lambda>listing_id. ''pubky://'' @ or_seller_pubky order @ ''/pub/pubky.app/marketplace/v1/listings/'' @ listing_id)
            (strip_prefix (''listing:'' @ or_seller_pubky order @ ''_'') (ol_listing_aggregate_id line)))"

text \<open>The latest \<open>fulfillment.delivered\<close> event, or the moment of issuance.\<close>

definition completed_at :: "db \<Rightarrow> uuid \<Rightarrow> datetime \<Rightarrow> datetime" where
  "completed_at d order_id now =
     (case map ev_occurred_at (filter (\<lambda>e. ev_aggregate_id e = order_aggregate_id order_id
               \<and> ev_kind e = ''fulfillment.delivered'') (st_events d)) of
        [] \<Rightarrow> now
      | t # ts \<Rightarrow> foldl max t ts)"

definition seller_allows_band :: "db \<Rightarrow> pubky \<Rightarrow> bool" where
  "seller_allows_band d seller =
     (case fetch bc_seller_pubky seller (st_band_consents d) of None \<Rightarrow> False | Some row \<Rightarrow> bc_allows_amount_band row)"

definition attestation_clash :: "attestation_row \<Rightarrow> attestation_row \<Rightarrow> bool" where
  "attestation_clash a b \<longleftrightarrow> at_order_id a = at_order_id b \<and> at_reviewer_pubky a = at_reviewer_pubky b"

definition insert_attestation :: "attestation_row \<Rightarrow> db \<Rightarrow> unit tx" where
  "insert_attestation r d =
     seq (sql_insert (\<lambda>_. True) attestation_clash r (st_attestations d))
       (\<lambda>u rows. Inr (u, d\<lparr>st_attestations := rows\<rparr>))"

definition consented_band :: "db \<Rightarrow> order_row \<Rightarrow> bool \<Rightarrow> string option" where
  "consented_band d order reviewer_allows =
     (if reviewer_allows \<and> seller_allows_band d (or_seller_pubky order)
      then amount_band (or_currency order) (or_total_minor order) else None)"

definition issue_attestation ::
  "attestor \<Rightarrow> order_row \<Rightarrow> pubky \<Rightarrow> pubky \<Rightarrow> string \<Rightarrow> bool \<Rightarrow> datetime \<Rightarrow> db \<Rightarrow> (string \<times> json) tx" where
  "issue_attestation attestor order reviewer subject role reviewer_allows_band now d =
     (case listing_uri_from_order order of
        None \<Rightarrow> Inl (Panicked ''listing_uri_from_order'')
      | Some listing_uri \<Rightarrow>
          let issued = issue_purchase_attestation attestor (or_id order) reviewer subject (claim_role role) listing_uri
                         (ax_day attestor (completed_at d (or_id order) now))
                         (consented_band d order reviewer_allows_band) now
          in seq (insert_attestation \<lparr>at_order_id = or_id order, at_reviewer_pubky = reviewer,
                    at_order_ref = ia_order_ref issued, at_jws = ia_jws issued, at_claims = ia_claims issued,
                    at_issued_at = now\<rparr> d)
               (\<lambda>_ d1. Inr ((ia_jws issued, ia_claims issued), d1)))"

definition fetch_attestation_json :: "db \<Rightarrow> uuid \<Rightarrow> pubky \<Rightarrow> (string \<times> json) option" where
  "fetch_attestation_json d order_id reviewer =
     map_option (\<lambda>r. (at_jws r, at_claims r))
       (find (\<lambda>r. at_order_id r = order_id \<and> at_reviewer_pubky r = reviewer) (st_attestations d))"

section \<open>Review commands\<close>

definition REVIEW_EDIT_WINDOW_SECONDS :: int where
  "REVIEW_EDIT_WINDOW_SECONDS = 86400"

definition REVIEWABLE_STATES :: "string list" where
  "REVIEWABLE_STATES = [''delivered'', ''completed'', ''closed'']"

definition review_role :: "order_row \<Rightarrow> pubky \<Rightarrow> string \<times> pubky" where
  "review_role order actor =
     (if actor = or_buyer_pubky order then (''buyer'', or_seller_pubky order) else (''seller'', or_buyer_pubky order))"

definition new_review :: "command \<Rightarrow> order_row \<Rightarrow> pubky \<Rightarrow> review_terms_payload \<Rightarrow> datetime \<Rightarrow> review_row" where
  "new_review command order actor payload now =
     \<lparr>rw_id = cmd_command_id command, rw_order_id = or_id order, rw_reviewer_pubky = actor,
      rw_reviewer_role = fst (review_role order actor), rw_subject_pubky = snd (review_role order actor),
      rw_rating = rt_rating payload, rw_text = rt_text payload, rw_created_at = now, rw_updated_at = now\<rparr>"

definition maybe_attest ::
  "attestor option \<Rightarrow> order_row \<Rightarrow> pubky \<Rightarrow> review_terms_payload \<Rightarrow> datetime \<Rightarrow> db \<Rightarrow> (string \<times> json) option tx" where
  "maybe_attest attestor order actor payload now d =
     (case attestor of
        None \<Rightarrow> Inr (None, d)
      | Some a \<Rightarrow>
          seq (issue_attestation a order actor (snd (review_role order actor)) (fst (review_role order actor))
                 (rt_allow_amount_band payload) now d)
            (\<lambda>x d1. Inr (Some x, d1)))"

definition reviewed_state :: "string \<Rightarrow> string" where
  "reviewed_state state = (if state = ''delivered'' then ''completed'' else state)"

definition create_review ::
  "attestor option \<Rightarrow> uuid_source \<Rightarrow> pubky \<Rightarrow> command \<Rightarrow> review_terms_payload \<Rightarrow> datetime \<Rightarrow> db \<Rightarrow> handler_result tx" where
  "create_review attestor new_v4 actor command payload now d =
     with_order (rt_order_id payload) actor command d
       (\<lambda>order.
          if \<not> List.member REVIEWABLE_STATES (or_state order)
          then refuse (refused RInvalidState InvalidState ''The order is not eligible for review.'') d
          else if list_ex (\<lambda>r. rw_order_id r = or_id order \<and> rw_reviewer_pubky r = actor) (st_reviews d)
          then refuse (refused RInvalidState InvalidState ''This participant already reviewed the order.'') d
          else
            let review = new_review command order actor payload now
            in seq (insert_review review d)
                 (\<lambda>_ d1.
                    seq (maybe_attest attestor order actor payload now d1)
                      (\<lambda>attestation d2.
                         seq (update_orders (\<lambda>r. or_id r = or_id order \<and> or_revision r = or_revision order)
                                (moved (reviewed_state (or_state order)) now) d2)
                              (\<lambda>rows d3.
                                 case rows of
                                   [] \<Rightarrow>
                                     (case fetch_order d3 (or_id order) of
                                        None \<Rightarrow> Inl RowNotFound
                                      | Some current \<Rightarrow>
                                          refuse (refused_with_revision RRevisionConflict RevisionConflict
                                            ''The order revision is stale.'' (or_revision current)) d3)
                                 | updated # _ \<Rightarrow>
                                     seq (insert_event new_v4 (cmd_command_id command) (order_aggregate_id (or_id updated))
                                            (or_revision updated) actor ''review.created'' now d3)
                                       (\<lambda>event_id d4.
                                          let d5 = insert_notification_intent event_id ''review_received''
                                                     (snd (review_role order actor)) actor
                                                     (order_aggregate_id (or_id updated)) None now d4
                                          in Inr (Inr \<lparr>hs_revision = or_revision updated, hs_event_ids = [event_id],
                                                   hs_result = ResultReview updated (fetch_order_reviews d5 (or_id updated))
                                                     review attestation\<rparr>, d5))))))"

definition update_review ::
  "uuid_source \<Rightarrow> pubky \<Rightarrow> command \<Rightarrow> review_terms_payload \<Rightarrow> datetime \<Rightarrow> db \<Rightarrow> handler_result tx" where
  "update_review new_v4 actor command payload now d =
     with_order (rt_order_id payload) actor command d
       (\<lambda>order.
          case find (\<lambda>r. rw_order_id r = or_id order \<and> rw_reviewer_pubky r = actor) (st_reviews d) of
            None \<Rightarrow> refuse (refused RNotFound NotFound ''This participant has not reviewed the order.'') d
          | Some review \<Rightarrow>
              if rw_created_at review + seconds REVIEW_EDIT_WINDOW_SECONDS < now
              then refuse (refused RInvalidState InvalidState ''The review edit window has closed.'') d
              else
                seq (fetch_one (update_reviews (\<lambda>r. rw_id r = rw_id review)
                       (\<lambda>r. r\<lparr>rw_rating := rt_rating payload, rw_text := rt_text payload, rw_updated_at := now\<rparr>) d))
                  (\<lambda>updated_review d1.
                     seq (write_order order (\<lambda>r. r\<lparr>or_revision := or_revision r + 1, or_updated_at := now\<rparr>) d1)
                       (\<lambda>updated d2.
                          seq (insert_event new_v4 (cmd_command_id command) (order_aggregate_id (or_id updated))
                                 (or_revision updated) actor ''review.updated'' now d2)
                            (\<lambda>event_id d3.
                               Inr (Inr \<lparr>hs_revision = or_revision updated, hs_event_ids = [event_id],
                                 hs_result = ResultReview updated (fetch_order_reviews d3 (or_id updated)) updated_review
                                   (fetch_attestation_json d3 (or_id updated) actor)\<rparr>, d3)))))"

section \<open>Consent to the amount band\<close>

definition consent_check :: "band_consent_row \<Rightarrow> bool" where
  "consent_check r \<longleftrightarrow> 0 < bc_revision r \<and> in_bigint (bc_revision r)"

text \<open>\<open>INSERT ... ON CONFLICT (seller_pubky) DO UPDATE\<close>.\<close>

definition upsert_consent :: "band_consent_row \<Rightarrow> db \<Rightarrow> unit tx" where
  "upsert_consent row d =
     (if \<not> consent_check row then Inl CheckViolation
      else if list_ex (\<lambda>r. bc_seller_pubky r = bc_seller_pubky row) (st_band_consents d)
      then Inr ((), d\<lparr>st_band_consents := map (\<lambda>r. if bc_seller_pubky r = bc_seller_pubky row then row else r)
                        (st_band_consents d)\<rparr>)
      else Inr ((), d\<lparr>st_band_consents := st_band_consents d @ [row]\<rparr>))"

definition set_band_consent ::
  "uuid_source \<Rightarrow> pubky \<Rightarrow> command \<Rightarrow> set_band_consent_payload \<Rightarrow> datetime \<Rightarrow> db \<Rightarrow> handler_result tx" where
  "set_band_consent new_v4 actor command payload now d =
     (if cmd_aggregate_id command \<noteq> seller_settings_aggregate_id actor
      then refuse (refused RInvalidCommand InvalidCommand
             ''Band consent may only be set on the actor's own settings aggregate.'') d
      else
        let current_revision = (case fetch bc_seller_pubky actor (st_band_consents d) of None \<Rightarrow> 0 | Some r \<Rightarrow> bc_revision r)
        in if cmd_expected_revision command \<noteq> current_revision
           then refuse (refused_with_revision RRevisionConflict RevisionConflict ''The band consent revision is stale.''
                  current_revision) d
           else
             let row = \<lparr>bc_seller_pubky = actor, bc_allows_amount_band = sbc_allows_amount_band payload,
                        bc_revision = current_revision + 1, bc_updated_at = now\<rparr>
             in seq (upsert_consent row d)
                  (\<lambda>_ d1.
                     seq (insert_event new_v4 (cmd_command_id command) (cmd_aggregate_id command) (current_revision + 1)
                            actor ''attestation.band_consent_set'' now d1)
                       (\<lambda>event_id d2.
                          Inr (Inr \<lparr>hs_revision = current_revision + 1, hs_event_ids = [event_id],
                            hs_result = ResultBandConsent row\<rparr>, d2))))"

text \<open>The arms of \<open>executor::dispatch\<close> for reviews and consent.\<close>

definition dispatch_review ::
  "attestor option \<Rightarrow> uuid_source \<Rightarrow> pubky \<Rightarrow> command \<Rightarrow> datetime \<Rightarrow> db \<Rightarrow> handler_result tx option" where
  "dispatch_review attestor new_v4 actor command now d =
     (case cmd_payload command of
        CreateReview payload \<Rightarrow> Some (create_review attestor new_v4 actor command payload now d)
      | UpdateReview payload \<Rightarrow> Some (update_review new_v4 actor command payload now d)
      | SetBandConsent payload \<Rightarrow> Some (set_band_consent new_v4 actor command payload now d)
      | _ \<Rightarrow> None)"

end
