(* ===== verification/Reviews_Facts.thy ===== *)
theory Reviews_Facts
  imports Reviews Orders_Facts
begin

text \<open>
  What the review commands promise: one review per order and role, by the party of that role about the other, that
  only its author edits, for a day; the order advances one revision along its machine and the books stand.  An
  attestation shows the magnitude of an amount only with the consent of both sides.
\<close>

section \<open>Vocabulary\<close>

definition review_of_order :: "db \<Rightarrow> review_row \<Rightarrow> bool" where
  "review_of_order d r \<longleftrightarrow>
     (case fetch_order d (rw_order_id r) of
        None \<Rightarrow> False
      | Some order \<Rightarrow> (rw_reviewer_role r, rw_subject_pubky r) = review_role order (rw_reviewer_pubky r)
          \<and> rw_reviewer_pubky r \<in> {or_buyer_pubky order, or_seller_pubky order})"

definition review_key :: "review_row \<Rightarrow> uuid \<times> string" where
  "review_key r = (rw_order_id r, rw_reviewer_role r)"

definition reviews_ok :: "db \<Rightarrow> bool" where
  "reviews_ok d \<longleftrightarrow>
     table_ok rw_id review_check (st_reviews d) \<and> distinct (map review_key (st_reviews d))
     \<and> list_all (review_of_order d) (st_reviews d)"

text \<open>A review command advances the order; a first review of a delivered order completes it.\<close>

definition order_reviewed :: "string \<Rightarrow> uuid \<Rightarrow> db \<Rightarrow> db \<Rightarrow> bool" where
  "order_reviewed kind k d d' \<longleftrightarrow>
     (\<exists>r r'. order_change k r r' d d' \<and> same_deal r r' \<and> or_revision r' = or_revision r + 1
        \<and> (or_state r' = or_state r \<or> has_edge order_machine kind (or_state r) (or_state r')))"

definition review_added :: "pubky \<Rightarrow> command \<Rightarrow> review_terms_payload \<Rightarrow> db \<Rightarrow> db \<Rightarrow> bool" where
  "review_added actor command payload d d' \<longleftrightarrow>
     (\<exists>r. st_reviews d' = st_reviews d @ [r] \<and> rw_id r = cmd_command_id command \<and> rw_order_id r = rt_order_id payload
        \<and> rw_reviewer_pubky r = actor \<and> rw_rating r = rt_rating payload \<and> rw_text r = rt_text payload)"

definition review_edited :: "pubky \<Rightarrow> review_terms_payload \<Rightarrow> datetime \<Rightarrow> db \<Rightarrow> db \<Rightarrow> bool" where
  "review_edited actor payload now d d' \<longleftrightarrow>
     (\<exists>r. r \<in> set (st_reviews d) \<and> rw_order_id r = rt_order_id payload \<and> rw_reviewer_pubky r = actor
        \<and> now \<le> rw_created_at r + seconds REVIEW_EDIT_WINDOW_SECONDS
        \<and> st_reviews d' = map (\<lambda>x. if rw_id x = rw_id r
              then x\<lparr>rw_rating := rt_rating payload, rw_text := rt_text payload, rw_updated_at := now\<rparr> else x) (st_reviews d)
        \<and> st_attestations d' = st_attestations d)"

definition attested_by :: "db \<Rightarrow> db \<Rightarrow> bool" where
  "attested_by d d' \<longleftrightarrow> (\<exists>rows. st_attestations d' = st_attestations d @ rows \<and> length rows \<le> 1)"

text \<open>The claims of the design.\<close>

definition purchase_claim_keys :: "string list" where
  "purchase_claim_keys = [''v'', ''iss'', ''sub'', ''cpk'', ''role'', ''listing'', ''order_ref'', ''completed_on'', ''amount_band'', ''iat'']"

section \<open>A sample\<close>

definition sample_attestor :: attestor where
  "sample_attestor =
     \<lparr>ax_pubky = ''attestor'', ax_order_salt = ''salt'', ax_blake3_hex = (\<lambda>s. ''b3:'' @ s), ax_to_vec = (\<lambda>_. ''doc''),
      ax_base64 = id, ax_sign = (\<lambda>s. ''sig''), ax_day = (\<lambda>_. ''2026-01-01''), ax_timestamp = (\<lambda>_. ''2026-01-01T00:00:00Z'')\<rparr>"

definition sample_delivered_db :: db where
  "sample_delivered_db =
     sample_stock_db\<lparr>st_orders := [sample_order\<lparr>or_state := ''delivered'',
         or_lines := [sample_line\<lparr>ol_listing_aggregate_id := ''listing:seller_l''\<rparr>]\<rparr>],
       st_band_consents := [\<lparr>bc_seller_pubky = ''seller'', bc_allows_amount_band = True, bc_revision = 1, bc_updated_at = 0\<rparr>]\<rparr>"

definition sample_review_terms :: review_terms_payload where
  "sample_review_terms = \<lparr>rt_order_id = ''o1'', rt_rating = 5, rt_text = ''good'', rt_allow_amount_band = True\<rparr>"

definition sample_review :: command where
  "sample_review =
     \<lparr>cmd_command_id = ''w1'', cmd_aggregate_id = order_aggregate_id ''o1'', cmd_expected_revision = 1,
      cmd_issued_at = 0, cmd_payload = CreateReview sample_review_terms\<rparr>"

section \<open>The log10 of an amount\<close>

lemma ilog10_bounds: "0 < n \<Longrightarrow> 10 ^ ilog10 n \<le> n \<and> n < 10 ^ Suc (ilog10 n)"
proof (induction n rule: ilog10.induct)
  case (1 n)
  show ?case
  proof (cases "n < 10")
    case True
    then show ?thesis using 1 by (subst (1 2) ilog10.simps) simp
  next
    case False
    then have ih: "10 ^ ilog10 (n div 10) \<le> n div 10" "n div 10 < 10 ^ Suc (ilog10 (n div 10))" using 1 by auto
    have "10 ^ Suc (ilog10 (n div 10)) \<le> 10 * (n div 10)" using ih(1) by simp
    also have "\<dots> \<le> n" by simp
    finally have lo: "10 ^ Suc (ilog10 (n div 10)) \<le> n" .
    have "Suc (n div 10) \<le> 10 ^ Suc (ilog10 (n div 10))" using ih(2) by simp
    then have "10 * Suc (n div 10) \<le> 10 ^ Suc (Suc (ilog10 (n div 10)))" by simp
    moreover have "n < 10 * Suc (n div 10)" by presburger
    ultimately have "n < 10 ^ Suc (Suc (ilog10 (n div 10)))" by linarith
    with lo False show ?thesis by (subst (1 2) ilog10.simps) simp
  qed
qed

section \<open>Orders under review\<close>

lemma review_of_order_cong:
  assumes "order_change k r r' d d'" "same_deal r r'"
  shows "review_of_order d' = review_of_order d"
proof
  fix x
  show "review_of_order d' x = review_of_order d x"
    using assms
    by (cases "rw_order_id x = k") (simp_all add: review_of_order_def order_change_def same_deal_def review_role_def)
qed

lemma log_attestations: "log_step d d' \<Longrightarrow> st_attestations d' = st_attestations d"
  by (auto simp: log_step_def)

lemma maybe_attest_frame:
  assumes "maybe_attest attestor order actor payload now d = Inr (x, d')"
  shows "\<exists>rows. d' = d\<lparr>st_attestations := st_attestations d @ rows\<rparr> \<and> length rows \<le> 1"
proof (cases attestor)
  case None
  then show ?thesis using assms by (auto simp: maybe_attest_def intro: exI [of _ "[]"])
next
  case (Some a)
  then obtain r where "d' = d\<lparr>st_attestations := st_attestations d @ [r]\<rparr>"
    using assms
    by (auto simp: maybe_attest_def issue_attestation_def insert_attestation_def sql_insert_def Let_def seq_eq_Inr
        split: option.split_asm if_split_asm)
  then show ?thesis by (intro exI [of _ "[r]"]) simp
qed

lemma case_rows_eq:
  "(case rows of [] \<Rightarrow> a | y # ys \<Rightarrow> f y ys) = c \<longleftrightarrow> rows = [] \<and> a = c \<or> (\<exists>y ys. rows = y # ys \<and> f y ys = c)"
  by (cases rows) auto

lemma create_review_run:
  assumes "create_review attestor new_v4 actor command payload now d = Inr (Inr s, d')"
  obtains order att d1 d2 updated w d3 reviews where
    "fetch_order d (rt_order_id payload) = Some order" "guard_order_action actor command order = None"
    "List.member REVIEWABLE_STATES (or_state order)"
    "insert_review (new_review command order actor payload now) d = Inr ((), d1)"
    "maybe_attest attestor order actor payload now d1 = Inr (att, d2)"
    "update_orders (\<lambda>r. or_id r = or_id order \<and> or_revision r = or_revision order)
       (moved (reviewed_state (or_state order)) now) d2 = Inr (updated # w, d3)"
    "log_step d3 d'" "hs_revision s = or_revision updated"
    "hs_result s = ResultReview updated reviews (new_review command order actor payload now) att"
proof -
  let ?f = "\<lambda>order. moved (reviewed_state (or_state order)) now"
  obtain order d1 att d2 updated w d3 e d4 where
    o: "fetch_order d (rt_order_id payload) = Some order" "guard_order_action actor command order = None"
    and m: "List.member REVIEWABLE_STATES (or_state order)"
    and i: "insert_review (new_review command order actor payload now) d = Inr ((), d1)"
    and a: "maybe_attest attestor order actor payload now d1 = Inr (att, d2)"
    and u: "update_orders (\<lambda>r. or_id r = or_id order \<and> or_revision r = or_revision order) (?f order) d2 = Inr (updated # w, d3)"
    and e: "insert_event new_v4 (cmd_command_id command) (order_aggregate_id (or_id updated)) (or_revision updated) actor
       ''review.created'' now d3 = Inr (e, d4)"
    and d': "d' = insert_notification_intent e ''review_received'' (snd (review_role order actor)) actor
       (order_aggregate_id (or_id updated)) None now d4"
    and s: "hs_revision s = or_revision updated"
      "hs_result s = ResultReview updated (fetch_order_reviews d' (or_id updated)) (new_review command order actor payload now) att"
    using assms
    by (auto simp: create_review_def with_order_def refuse_def seq_eq_Inr Let_def case_rows_eq
        split: if_split_asm option.split_asm)
  have "log_step d3 d'" unfolding d' by (rule log_step_trans [OF insert_event_log [OF e] insert_notification_log])
  with that [OF o m i a u] s show thesis by blast
qed

lemma insert_review_rows:
  assumes "insert_review r d = Inr (x, d')"
  shows "d' = d\<lparr>st_reviews := st_reviews d @ [r]\<rparr>" "review_check r" "\<not> list_ex (review_clash r) (st_reviews d)"
  using assms by (auto simp: insert_review_def sql_insert_def split: if_split_asm)

lemma reviewable_moves:
  assumes "List.member REVIEWABLE_STATES s"
  shows "s \<noteq> ''pending_payment''"
    "reviewed_state s = s \<or> has_edge order_machine ''review.create'' s (reviewed_state s)"
proof -
  show "s \<noteq> ''pending_payment''" using assms by (auto simp: REVIEWABLE_STATES_def List.member_iff)
  have "has_edge order_machine ''review.create'' ''delivered'' ''completed''" by code_simp
  then show "reviewed_state s = s \<or> has_edge order_machine ''review.create'' s (reviewed_state s)"
    by (simp add: reviewed_state_def)
qed

lemma reviewed_moved_simps [simp]:
  "or_id (moved s now r) = or_id r" "or_stock_held (moved s now r) = or_stock_held r" "or_state (moved s now r) = s"
  "or_revision (moved s now r) = or_revision r + 1" "same_deal r (moved s now r)"
  by (simp_all add: moved_def same_deal_def)

lemma guard_participant:
  "guard_order_action actor command order = None \<Longrightarrow> actor \<in> {or_buyer_pubky order, or_seller_pubky order}"
  by (auto simp: guard_order_action_def split: if_split_asm)

lemma order_reviewedI:
  "order_change k r r' d d1 \<Longrightarrow> log_step d1 d' \<Longrightarrow> same_deal r r' \<Longrightarrow> or_revision r' = or_revision r + 1 \<Longrightarrow>
   or_state r' = or_state r \<or> has_edge order_machine kind (or_state r) (or_state r') \<Longrightarrow> order_reviewed kind k d d'"
  unfolding order_reviewed_def using order_change_log by blast

lemma order_change_frame:
  "order_change k r r' d d' \<Longrightarrow> st_orders d0 = st_orders d \<Longrightarrow> order_change k r r' d0 d'"
  by (simp add: order_change_def fetch_order_def)

lemma create_review_step:
  assumes ok: "books_ok d" "reviews_ok d" and run: "create_review attestor new_v4 actor command payload now d = Inr (Inr s, d')"
  shows "books_ok d' \<and> (\<forall>a. total_stock d' a = total_stock d a) \<and> reviews_ok d' \<and> attested_by d d'
    \<and> review_added actor command payload d d' \<and> order_reviewed ''review.create'' (rt_order_id payload) d d'"
proof -
  obtain order att d1 d2 updated w d3 reviews where order: "fetch_order d (rt_order_id payload) = Some order"
    and g: "guard_order_action actor command order = None" and m: "List.member REVIEWABLE_STATES (or_state order)"
    and i: "insert_review (new_review command order actor payload now) d = Inr ((), d1)"
    and a: "maybe_attest attestor order actor payload now d1 = Inr (att, d2)"
    and u: "update_orders (\<lambda>r. or_id r = or_id order \<and> or_revision r = or_revision order)
       (moved (reviewed_state (or_state order)) now) d2 = Inr (updated # w, d3)"
    and l: "log_step d3 d'"
    by (rule create_review_run [OF run])
  let ?r = "new_review command order actor payload now"
  let ?o = "moved (reviewed_state (or_state order)) now order"
  note i' = insert_review_rows [OF i]
  obtain rows where d2: "d2 = d1\<lparr>st_attestations := st_attestations d1 @ rows\<rparr>" and rows: "length rows \<le> 1"
    using maybe_attest_frame [OF a] by blast
  have b2: "books_ok d2" using ok(1) books_ok_cong [of d2 d] by (simp add: d2 i'(1))
  have held: "\<not> or_stock_held order" by (rule unpaid_holds_only [OF ok(1) order reviewable_moves(1) [OF m]])
  have order2: "fetch_order d2 (rt_order_id payload) = Some order" using order by (simp add: d2 i'(1) fetch_order_def)
  have f: "order_holds ?o a = order_holds order a" "hold_shape ?o" for a using held by (simp_all add: order_holds_def hold_shape_def)
  note w = write_order_books [OF b2 order2 u reviewed_moved_simps(1) f]
  have ch: "order_change (rt_order_id payload) order ?o d d3"
    by (rule order_change_frame [OF w(3)]) (simp add: d2 i'(1))
  have k: "or_id order = rt_order_id payload" by (rule fetch_order_id [OF order])
  have rv: "st_reviews d' = st_reviews d @ [?r]" using log_stepD [OF l] by (simp add: w(4) d2 i'(1))
  have ch': "order_change (rt_order_id payload) order ?o d d'" by (rule order_change_log [OF ch l])
  have "review_of_order d ?r"
    using order guard_participant [OF g] by (simp add: review_of_order_def new_review_def k)
  moreover have "review_key ?r \<notin> review_key ` set (st_reviews d)"
    "rw_id ?r \<notin> rw_id ` set (st_reviews d)"
    using i'(3) by (auto simp: list_ex_iff review_clash_def review_key_def)
  ultimately have "reviews_ok d'"
    using ok(2) i'(2) review_of_order_cong [OF ch'] by (simp add: reviews_ok_def rv table_ok_def)
  moreover have "attested_by d d'"
    unfolding attested_by_def using rows log_attestations [OF l] by (intro exI [of _ rows]) (simp add: w(4) d2 i'(1))
  moreover have "review_added actor command payload d d'"
    unfolding review_added_def using rv by (intro exI [of _ ?r]) (simp add: new_review_def k)
  moreover have "order_reviewed ''review.create'' (rt_order_id payload) d d'"
    by (rule order_reviewedI [OF ch l]) (use reviewable_moves(2) [OF m] in simp_all)
  moreover have "total_stock d3 x = total_stock d x" for x
    by (rule total_stock_cong) (simp add: w(4) d2 i'(1))
  ultimately show ?thesis using books_log [OF l] w(2) by simp
qed

lemma update_review_run:
  assumes "update_review new_v4 actor command payload now d = Inr (Inr s, d')"
  obtains order r ur w d1 updated w' d2 where
    "fetch_order d (rt_order_id payload) = Some order" "guard_order_action actor command order = None"
    "find (\<lambda>r. rw_order_id r = or_id order \<and> rw_reviewer_pubky r = actor) (st_reviews d) = Some r"
    "now \<le> rw_created_at r + seconds REVIEW_EDIT_WINDOW_SECONDS"
    "update_reviews (\<lambda>x. rw_id x = rw_id r)
       (\<lambda>x. x\<lparr>rw_rating := rt_rating payload, rw_text := rt_text payload, rw_updated_at := now\<rparr>) d = Inr (ur # w, d1)"
    "update_orders (\<lambda>x. or_id x = or_id order \<and> or_revision x = or_revision order)
       (\<lambda>x. x\<lparr>or_revision := or_revision x + 1, or_updated_at := now\<rparr>) d1 = Inr (updated # w', d2)"
    "log_step d2 d'"
proof -
  obtain order r ur w d1 updated w' d2 e where
    o: "fetch_order d (rt_order_id payload) = Some order" "guard_order_action actor command order = None"
    and r: "find (\<lambda>r. rw_order_id r = or_id order \<and> rw_reviewer_pubky r = actor) (st_reviews d) = Some r"
    and c: "now \<le> rw_created_at r + seconds REVIEW_EDIT_WINDOW_SECONDS"
    and ur: "update_reviews (\<lambda>x. rw_id x = rw_id r)
       (\<lambda>x. x\<lparr>rw_rating := rt_rating payload, rw_text := rt_text payload, rw_updated_at := now\<rparr>) d = Inr (ur # w, d1)"
    and u: "update_orders (\<lambda>x. or_id x = or_id order \<and> or_revision x = or_revision order)
       (\<lambda>x. x\<lparr>or_revision := or_revision x + 1, or_updated_at := now\<rparr>) d1 = Inr (updated # w', d2)"
    and e: "insert_event new_v4 (cmd_command_id command) (order_aggregate_id (or_id updated)) (or_revision updated) actor
       ''review.updated'' now d2 = Inr (e, d')"
    using assms
    by (auto simp: update_review_def with_order_def write_order_def refuse_def seq_eq_Inr fetch_one_Inr
        split: if_split_asm option.split_asm)
  show thesis by (rule that [OF o r c ur u insert_event_log [OF e]])
qed

lemma update_review_step:
  assumes ok: "books_ok d" "reviews_ok d" and run: "update_review new_v4 actor command payload now d = Inr (Inr s, d')"
  shows "books_ok d' \<and> (\<forall>a. total_stock d' a = total_stock d a) \<and> reviews_ok d'
    \<and> review_edited actor payload now d d' \<and> order_reviewed ''review.update'' (rt_order_id payload) d d'"
proof -
  obtain order r ur w d1 updated w' d2 where order: "fetch_order d (rt_order_id payload) = Some order"
    and find: "find (\<lambda>r. rw_order_id r = or_id order \<and> rw_reviewer_pubky r = actor) (st_reviews d) = Some r"
    and c: "now \<le> rw_created_at r + seconds REVIEW_EDIT_WINDOW_SECONDS"
    and ur: "update_reviews (\<lambda>x. rw_id x = rw_id r)
       (\<lambda>x. x\<lparr>rw_rating := rt_rating payload, rw_text := rt_text payload, rw_updated_at := now\<rparr>) d = Inr (ur # w, d1)"
    and u: "update_orders (\<lambda>x. or_id x = or_id order \<and> or_revision x = or_revision order)
       (\<lambda>x. x\<lparr>or_revision := or_revision x + 1, or_updated_at := now\<rparr>) d1 = Inr (updated # w', d2)"
    and l: "log_step d2 d'"
    by (rule update_review_run [OF run])
  let ?f = "\<lambda>x. x\<lparr>rw_rating := rt_rating payload, rw_text := rt_text payload, rw_updated_at := now\<rparr>"
  let ?g = "\<lambda>x. x\<lparr>or_revision := or_revision x + 1, or_updated_at := now\<rparr>"
  let ?m = "\<lambda>x. if rw_id x = rw_id r then ?f x else x"
  have k: "or_id order = rt_order_id payload" by (rule fetch_order_id [OF order])
  have r: "r \<in> set (st_reviews d)" "rw_order_id r = or_id order" "rw_reviewer_pubky r = actor"
    using find by (auto simp: find_Some_iff)
  have t: "table_ok rw_id review_check (st_reviews d)" using ok(2) by (simp add: reviews_ok_def)
  have rows: "d1 = d\<lparr>st_reviews := map ?m (st_reviews d)\<rparr>" using ur by (simp add: reviews.upd_Inr)
  have t1: "table_ok rw_id review_check (st_reviews d1)" by (rule reviews.upd_ok [OF ur _ t]) simp
  have b1: "books_ok d1" using ok(1) books_ok_cong [of d1 d] by (simp add: rows)
  have order1: "fetch_order d1 (rt_order_id payload) = Some order" using order by (simp add: rows fetch_order_def)
  have "hold_shape order" using ok(1) fetch_Some [OF order [unfolded fetch_order_def]] by (auto simp: books_ok_def list_all_iff)
  then have g: "or_id (?g x) = or_id x" "order_holds (?g order) a = order_holds order a" "hold_shape (?g order)" for x a
    by (simp_all add: order_holds_def hold_shape_def)
  note w = write_order_books [OF b1 order1 u g]
  have ch: "order_change (rt_order_id payload) order (?g order) d d2"
    by (rule order_change_frame [OF w(3)]) (simp add: rows)
  have same: "same_deal order (?g order)" by (simp add: same_deal_def)
  have rv: "st_reviews d' = map ?m (st_reviews d)" using log_stepD [OF l] by (simp add: w(4) rows)
  have "review_of_order d (?m x) = review_of_order d x" "review_key (?m x) = review_key x" for x
    by (simp_all add: review_of_order_def review_key_def split: option.split)
  then have "list_all (review_of_order d) (map ?m (st_reviews d))" "distinct (map review_key (map ?m (st_reviews d)))"
    using ok(2) by (simp_all only: reviews_ok_def list.pred_map o_def map_map)
  moreover have "table_ok rw_id review_check (map ?m (st_reviews d))" using t1 by (simp add: rows)
  ultimately have "reviews_ok d'"
    unfolding reviews_ok_def rv review_of_order_cong [OF order_change_log [OF ch l] same] by blast
  moreover have "review_edited actor payload now d d'"
    unfolding review_edited_def using r k c rv log_attestations [OF l] by (intro exI [of _ r]) (simp add: w(4) rows)
  moreover have "order_reviewed ''review.update'' (rt_order_id payload) d d'"
    by (rule order_reviewedI [OF ch l same]) simp_all
  moreover have "total_stock d2 x = total_stock d x" for x by (rule total_stock_cong) (simp add: w(4) rows)
  ultimately show ?thesis using books_log [OF l] w(2) by simp
qed

section \<open>What an attestation says\<close>

lemma purchase_claims_band:
  "json_get (ia_claims (issue_purchase_attestation a k r c role uri day band now)) ''amount_band'' = map_option JString band"
  "set (map fst (the (as_object (ia_claims (issue_purchase_attestation a k r c role uri day band now))))) \<subseteq> set purchase_claim_keys"
  by (cases band; simp add: issue_purchase_attestation_def Let_def json_get_def as_object_def purchase_claim_keys_def)+

lemma create_review_attestation:
  assumes run: "create_review (Some attestor) new_v4 actor command payload now d = Inr (Inr s, d')"
  obtains order uri day updated reviews review where "fetch_order d (rt_order_id payload) = Some order"
    "hs_result s = ResultReview updated reviews review
       (Some (ia_jws (issue_purchase_attestation attestor (or_id order) actor (snd (review_role order actor))
                (claim_role (fst (review_role order actor))) uri day (consented_band d order (rt_allow_amount_band payload)) now),
              ia_claims (issue_purchase_attestation attestor (or_id order) actor (snd (review_role order actor))
                (claim_role (fst (review_role order actor))) uri day (consented_band d order (rt_allow_amount_band payload)) now)))"
proof -
  obtain order att d1 d2 updated w d3 reviews where order: "fetch_order d (rt_order_id payload) = Some order"
    and i: "insert_review (new_review command order actor payload now) d = Inr ((), d1)"
    and a: "maybe_attest (Some attestor) order actor payload now d1 = Inr (att, d2)"
    and s: "hs_result s = ResultReview updated reviews (new_review command order actor payload now) att"
    by (rule create_review_run [OF run])
  have b: "consented_band d1 order x = consented_band d order x" for x
    by (simp add: consented_band_def seller_allows_band_def insert_review_rows(1) [OF i])
  from a obtain uri day where "att = Some (ia_jws (issue_purchase_attestation attestor (or_id order) actor (snd (review_role order actor))
                (claim_role (fst (review_role order actor))) uri day (consented_band d order (rt_allow_amount_band payload)) now),
              ia_claims (issue_purchase_attestation attestor (or_id order) actor (snd (review_role order actor))
                (claim_role (fst (review_role order actor))) uri day (consented_band d order (rt_allow_amount_band payload)) now))"
    by (auto simp: maybe_attest_def issue_attestation_def Let_def seq_eq_Inr b split: option.split_asm)
  with that [OF order] s show thesis by blast
qed

section \<open>Properties\<close>

text \<open>C32: C11: 
  A review command keeps one review per order and role.  An accepted \<open>review.create\<close> adds one review, of the order by
  the actor, and at most one attestation; an accepted \<open>review.update\<close> rewrites the rating and the text of the
  actor's own review, within a day of its creation, and no attestation.  Either advances the order by one revision,
  leaves the deal alone and moves its state only along an edge of the machine; reviews still match the parties of
  their orders and the books balance.
\<close>

theorem review_commands_step:
  assumes "books_ok d" "reviews_ok d"
    and "dispatch_review attestor new_v4 actor command now d = Some (Inr (Inr s, d'))"
  shows "(\<forall>payload. cmd_payload command = CreateReview payload \<longrightarrow>
        books_ok d' \<and> reviews_ok d' \<and> (\<forall>a. total_stock d' a = total_stock d a) \<and> attested_by d d'
        \<and> review_added actor command payload d d' \<and> order_reviewed ''review.create'' (rt_order_id payload) d d')
    \<and> (\<forall>payload. cmd_payload command = UpdateReview payload \<longrightarrow>
        books_ok d' \<and> reviews_ok d' \<and> (\<forall>a. total_stock d' a = total_stock d a)
        \<and> review_edited actor payload now d d' \<and> order_reviewed ''review.update'' (rt_order_id payload) d d')"
  using assms(3) create_review_step [OF assms(1,2)] update_review_step [OF assms(1,2)]
  by (auto simp: dispatch_review_def)

text \<open>C12: 
  A purchase attestation names an amount only by its power of ten, and only when the reviewer opted in and the
  seller's standing preference allows it: without either consent the claims carry no band, with both they carry the
  decade of a positive total, and there are no claims but the ten of the design.
\<close>

theorem attestation_band_consent:
  assumes "create_review (Some attestor) new_v4 actor command payload now d = Inr (Inr s, d')"
  shows "\<exists>order updated reviews review jws claims.
    fetch_order d (rt_order_id payload) = Some order
    \<and> hs_result s = ResultReview updated reviews review (Some (jws, claims))
    \<and> jws = sign_compact attestor PURCHASE_ATTESTATION_TYP claims
    \<and> set (map fst (the (as_object claims))) \<subseteq> set purchase_claim_keys
    \<and> (if rt_allow_amount_band payload \<and> seller_allows_band d (or_seller_pubky order) \<and> 1 \<le> or_total_minor order
       then \<exists>b. json_get claims ''amount_band'' = Some (JString (or_currency order @ '':'' @ show_nat b))
              \<and> 10 ^ b \<le> or_total_minor order \<and> or_total_minor order < 10 ^ Suc b
       else json_get claims ''amount_band'' = None)"
proof -
  obtain order uri day updated reviews review where o: "fetch_order d (rt_order_id payload) = Some order"
    and r: "hs_result s = ResultReview updated reviews review
       (Some (ia_jws (issue_purchase_attestation attestor (or_id order) actor (snd (review_role order actor))
                (claim_role (fst (review_role order actor))) uri day (consented_band d order (rt_allow_amount_band payload)) now),
              ia_claims (issue_purchase_attestation attestor (or_id order) actor (snd (review_role order actor))
                (claim_role (fst (review_role order actor))) uri day (consented_band d order (rt_allow_amount_band payload)) now)))"
    by (rule create_review_attestation [OF assms])
  let ?i = "issue_purchase_attestation attestor (or_id order) actor (snd (review_role order actor))
    (claim_role (fst (review_role order actor))) uri day (consented_band d order (rt_allow_amount_band payload)) now"
  have j: "ia_jws ?i = sign_compact attestor PURCHASE_ATTESTATION_TYP (ia_claims ?i)"
    by (simp add: issue_purchase_attestation_def Let_def)
  have "10 ^ ilog10 (nat t) \<le> t \<and> t < 10 ^ Suc (ilog10 (nat t))" if "1 \<le> t" for t :: int
    using ilog10_bounds [of "nat t"] that by (metis int_nat_eq int_one_le_iff_zero_less nat_0_iff not_le of_nat_le_iff of_nat_less_iff of_nat_numeral of_nat_power zero_less_nat_eq zle_int)
  then have "if rt_allow_amount_band payload \<and> seller_allows_band d (or_seller_pubky order) \<and> 1 \<le> or_total_minor order
       then \<exists>b. json_get (ia_claims ?i) ''amount_band'' = Some (JString (or_currency order @ '':'' @ show_nat b))
              \<and> 10 ^ b \<le> or_total_minor order \<and> or_total_minor order < 10 ^ Suc b
       else json_get (ia_claims ?i) ''amount_band'' = None"
    unfolding purchase_claims_band(1) by (auto simp: consented_band_def amount_band_def)
  with o r j purchase_claims_band(2) show ?thesis by blast
qed

theorem review_commands_step_witness:
  "case dispatch_review (Some sample_attestor) show_nat ''buyer'' sample_review 0 sample_delivered_db of
     Some (Inr (Inr s, d')) \<Rightarrow> books_ok d' \<and> reviews_ok d' \<and> order_reviewed ''review.create'' ''o1'' sample_delivered_db d'
   | _ \<Rightarrow> False"
proof -
  have "books_ok sample_delivered_db" "reviews_ok sample_delivered_db" by code_simp+
  note p = review_commands_step [OF this, of "Some sample_attestor" show_nat "''buyer''" sample_review 0]
  have v: "cmd_payload sample_review = CreateReview sample_review_terms" "rt_order_id sample_review_terms = ''o1''"
    by (simp_all add: sample_review_def sample_review_terms_def)
  have "case dispatch_review (Some sample_attestor) show_nat ''buyer'' sample_review 0 sample_delivered_db of
     Some (Inr (Inr s, d')) \<Rightarrow> True | _ \<Rightarrow> False" by code_simp
  then obtain s d' where run: "dispatch_review (Some sample_attestor) show_nat ''buyer'' sample_review 0 sample_delivered_db
      = Some (Inr (Inr s, d'))" by (auto split: option.splits sum.splits)
  from p [OF run] show ?thesis by (simp add: run v)
qed

theorem attestation_band_consent_witness:
  "case create_review (Some sample_attestor) show_nat ''buyer'' sample_review sample_review_terms 0 sample_delivered_db of
     Inr (Inr s, d') \<Rightarrow> (\<exists>updated reviews review jws claims b. hs_result s = ResultReview updated reviews review (Some (jws, claims))
        \<and> json_get claims ''amount_band'' = Some (JString (''USD'' @ '':'' @ show_nat b)) \<and> 10 ^ b \<le> (200 :: int) \<and> (200 :: int) < 10 ^ Suc b)
   | _ \<Rightarrow> False"
proof -
  have v: "rt_allow_amount_band sample_review_terms" "seller_allows_band sample_delivered_db ''seller''"
    "map_option (\<lambda>r. (or_seller_pubky r, or_total_minor r, or_currency r)) (fetch_order sample_delivered_db (rt_order_id sample_review_terms))
      = Some (''seller'', 200, ''USD'')"
    by code_simp+
  have "case create_review (Some sample_attestor) show_nat ''buyer'' sample_review sample_review_terms 0 sample_delivered_db of
     Inr (Inr s, d') \<Rightarrow> True | _ \<Rightarrow> False" by code_simp
  then obtain s d' where run: "create_review (Some sample_attestor) show_nat ''buyer'' sample_review sample_review_terms 0
      sample_delivered_db = Inr (Inr s, d')" by (auto split: sum.splits)
  from attestation_band_consent [OF run] v show ?thesis by (fastforce simp: run)
qed

end
