(* ===== verification/Listings.thy ===== *)
theory Listings
  imports Auction Drops
begin

text \<open>
  Listings: \<^verbatim>\<open>handlers/register_listing.rs\<close> (\<open>listing.register\<close>, by the seller, with the fields of the command),
  \<^verbatim>\<open>handlers/sync_listing.rs\<close> (\<open>listing.sync\<close>, by anyone, with the fields of the seller's record) and the tombstone of
  \<^verbatim>\<open>listing_deletion.rs\<close>, with the triggers of the migrations 0050 and 0051 that guard it.  The homeserver is the
  parameter \<open>homeserver_client\<close>.
\<close>

section \<open>The homeserver\<close>

datatype homeserver_events_outcome = Events "homeserver_event list" | UnknownUser | EventsUnavailable

record homeserver_client =
  hc_fetch_listing :: "pubky \<Rightarrow> string \<Rightarrow> json fetch_outcome"
  hc_listing_events :: "pubky \<Rightarrow> string \<Rightarrow> string option \<Rightarrow> bool \<Rightarrow> nat \<Rightarrow> homeserver_events_outcome"

text \<open>How a record is read: the validator's externals and \<open>serde_json::from_value::<ListingRecord>\<close>.\<close>

record record_reader =
  rd_externals :: externals
  rd_decode :: "json \<Rightarrow> listing_record option"

section \<open>Writing a listing\<close>

definition sale_format_str :: "sale_format \<Rightarrow> string" where
  "sale_format_str format = (case format of FixedPrice \<Rightarrow> ''fixed_price'' | Auction \<Rightarrow> ''auction'')"

text \<open>The trigger \<open>listings_record_epoch\<close>: the epoch counts accepted records and nothing else moves it.\<close>

definition record_epoch_trigger :: "listing_row \<Rightarrow> listing_row \<Rightarrow> listing_row" where
  "record_epoch_trigger old new =
     (if is_deleted old \<and> \<not> is_deleted new
         \<or> ls_listing_revision new \<noteq> ls_listing_revision old \<or> ls_title new \<noteq> ls_title old
         \<or> ls_content_hash new \<noteq> ls_content_hash old
         \<or> ls_unit_price_amount_minor new \<noteq> ls_unit_price_amount_minor old
         \<or> ls_shipping_minor new \<noteq> ls_shipping_minor old
         \<or> ls_fulfillment_methods new \<noteq> ls_fulfillment_methods old
         \<or> ls_digital_lock_policy_uri new \<noteq> ls_digital_lock_policy_uri old
         \<or> ls_digital_lock_criterion_id new \<noteq> ls_digital_lock_criterion_id old
      then new\<lparr>ls_record_epoch := ls_record_epoch old + 1\<rparr>
      else if ls_record_epoch new \<noteq> ls_record_epoch old + 1
      then new\<lparr>ls_record_epoch := ls_record_epoch old\<rparr>
      else new)"

text \<open>\<open>::numeric\<close> of a cursor.\<close>

definition cursor_number :: "string \<Rightarrow> nat" where
  "cursor_number cursor = foldl (\<lambda>n c. 10 * n + (of_char c - 48)) 0 cursor"

text \<open>The trigger \<open>listings_deletion_guard\<close> on a revival: the delete it supersedes is kept.\<close>

definition revival_trigger :: "listing_row \<Rightarrow> listing_row \<Rightarrow> listing_row" where
  "revival_trigger old new =
     (if is_deleted old \<and> \<not> is_deleted new
      then
        (case (ls_deleted_event_cursor old, ls_revived_from_cursor new) of
           (Some cursor, None) \<Rightarrow> new\<lparr>ls_revived_from_cursor := Some cursor\<rparr>
         | (Some cursor, Some kept) \<Rightarrow>
             if cursor_number kept < cursor_number cursor then new\<lparr>ls_revived_from_cursor := Some cursor\<rparr> else new
         | (None, _) \<Rightarrow> new)
      else new)"

definition listing_triggers :: "listing_row \<Rightarrow> listing_row \<Rightarrow> listing_row" where
  "listing_triggers old new = record_epoch_trigger old (revival_trigger old new)"

text \<open>The auction document of a registration: an edit keeps what the bids made of it.\<close>

definition auction_json :: "auction_terms \<Rightarrow> register_listing_payload \<Rightarrow> auction_state option \<Rightarrow> datetime \<Rightarrow> auction_state" where
  "auction_json terms payload current now =
     \<lparr>au_starts_at = format_timestamp (at_starts_at terms), au_ends_at = format_timestamp (at_ends_at terms),
      au_minimum_increment = at_minimum_increment terms,
      au_anti_sniping_window_seconds = at_anti_sniping_window_seconds terms,
      au_anti_sniping_extension_seconds = at_anti_sniping_extension_seconds terms,
      au_status = (case current of None \<Rightarrow> if now < at_starts_at terms then ''scheduled'' else ''active'' | Some a \<Rightarrow> au_status a),
      au_current_price = (case current of None \<Rightarrow> rl_unit_price payload | Some a \<Rightarrow> au_current_price a),
      au_leader_pubky = (case current of None \<Rightarrow> None | Some a \<Rightarrow> au_leader_pubky a),
      au_bid_count = (case current of None \<Rightarrow> 0 | Some a \<Rightarrow> au_bid_count a)\<rparr>"

definition registered_state :: "int \<Rightarrow> int \<Rightarrow> string" where
  "registered_state quantity committed =
     (if quantity = committed then (if 0 < committed then ''reserved'' else ''sold'') else ''available'')"

definition inserted_listing :: "string \<Rightarrow> register_listing_payload \<Rightarrow> datetime \<Rightarrow> listing_row" where
  "inserted_listing aggregate_id payload now =
     \<lparr>ls_aggregate_id = aggregate_id, ls_seller_pubky = rl_seller_pubky payload, ls_listing_id = rl_listing_id payload,
      ls_title = rl_title payload, ls_listing_revision = rl_listing_revision payload,
      ls_content_hash = rl_content_hash payload, ls_server_revision = 1,
      ls_state = registered_state (rl_quantity payload) 0, ls_total_quantity = rl_quantity payload,
      ls_available_quantity = rl_quantity payload, ls_reserved_quantity = 0, ls_sold_quantity = 0,
      ls_unit_price_amount_minor = amount_minor (rl_unit_price payload),
      ls_unit_price_currency = currency (rl_unit_price payload), ls_unit_price_exponent = exponent (rl_unit_price payload),
      ls_shipping_minor = rl_shipping_minor payload, ls_sale_format = sale_format_str (rl_sale_format payload),
      ls_auction = map_option (\<lambda>terms. auction_json terms payload None now) (rl_auction_terms payload),
      ls_fulfillment_methods = map fulfillment_as_str (rl_fulfillment_methods payload), ls_updated_at = now,
      ls_deleted_at = None, ls_recreated_at = None, ls_generation = 0, ls_digital_delivery_kind = None,
      ls_digital_delivery_content_type = None, ls_digital_delivery_size_bytes = None,
      ls_digital_lock_policy_uri = map_option dl_policy_uri (rl_digital_lock payload),
      ls_digital_lock_criterion_id = map_option dl_criterion_id (rl_digital_lock payload),
      ls_deleted_event_cursor = None, ls_revived_from_cursor = None, ls_record_epoch = 0\<rparr>"

definition reregistered_listing ::
  "register_listing_payload \<Rightarrow> listing_row \<Rightarrow> datetime \<Rightarrow> listing_row \<Rightarrow> listing_row" where
  "reregistered_listing payload current now r =
     (let committed = ls_reserved_quantity current + ls_sold_quantity current
      in listing_triggers r
           (r\<lparr>ls_title := rl_title payload, ls_listing_revision := rl_listing_revision payload,
              ls_content_hash := rl_content_hash payload, ls_server_revision := ls_server_revision current + 1,
              ls_state := registered_state (rl_quantity payload) committed, ls_total_quantity := rl_quantity payload,
              ls_available_quantity := rl_quantity payload - committed,
              ls_unit_price_amount_minor := amount_minor (rl_unit_price payload),
              ls_unit_price_currency := currency (rl_unit_price payload),
              ls_unit_price_exponent := exponent (rl_unit_price payload),
              ls_shipping_minor := rl_shipping_minor payload, ls_sale_format := sale_format_str (rl_sale_format payload),
              ls_auction := map_option (\<lambda>terms. auction_json terms payload (ls_auction current) now) (rl_auction_terms payload),
              ls_fulfillment_methods := map fulfillment_as_str (rl_fulfillment_methods payload),
              ls_digital_lock_policy_uri := map_option dl_policy_uri (rl_digital_lock payload),
              ls_digital_lock_criterion_id := map_option dl_criterion_id (rl_digital_lock payload), ls_updated_at := now,
              ls_recreated_at := (if is_deleted r then Some now else ls_recreated_at r),
              ls_generation := (if is_deleted r then ls_generation r + 1 else ls_generation r),
              ls_deleted_at := None, ls_deleted_event_cursor := None\<rparr>))"

text \<open>\<open>INSERT ... ON CONFLICT (aggregate_id) DO NOTHING\<close>: whether a row was written.\<close>

definition insert_listing :: "listing_row \<Rightarrow> db \<Rightarrow> bool tx" where
  "insert_listing r d =
     (if list_ex (\<lambda>l. ls_aggregate_id l = ls_aggregate_id r) (st_listings d) then Inr (False, d)
      else if \<not> listing_check r then Inl CheckViolation
      else Inr (True, d\<lparr>st_listings := st_listings d @ [r]\<rparr>))"

definition write_listing ::
  "string \<Rightarrow> register_listing_payload \<Rightarrow> listing_row option \<Rightarrow> datetime \<Rightarrow> db \<Rightarrow> bool tx" where
  "write_listing aggregate_id payload current now d =
     (case current of
        None \<Rightarrow> insert_listing (inserted_listing aggregate_id payload now) d
      | Some c \<Rightarrow>
          seq (update_listings (\<lambda>l. ls_aggregate_id l = aggregate_id \<and> ls_server_revision l = ls_server_revision c)
                 (reregistered_listing payload c now) d)
            (\<lambda>rows d1. Inr (length rows = 1, d1)))"

section \<open>The private reserve\<close>

definition reserve_check :: "auction_reserve_row \<Rightarrow> bool" where
  "reserve_check r \<longleftrightarrow>
     0 < rs_listing_revision r \<and> 0 < rs_record_revision r
     \<and> (case rs_reserve_price r of
          None \<Rightarrow> True
        | Some price \<Rightarrow> 1 \<le> amount_minor price \<and> amount_minor price \<le> 9007199254740991
            \<and> currency_regex (currency price) \<and> 0 \<le> exponent price \<and> exponent price \<le> 18)"

definition reserve_of ::
  "string \<Rightarrow> int \<Rightarrow> uuid \<Rightarrow> auction_reserve \<Rightarrow> datetime \<Rightarrow> auction_reserve_row" where
  "reserve_of aggregate_id listing_revision command_id reserve now =
     \<lparr>rs_listing_aggregate_id = aggregate_id, rs_listing_revision = listing_revision,
      rs_record_revision = ar_record_revision reserve, rs_reserve_price = ar_reserve_price reserve,
      rs_last_command_id = command_id, rs_updated_at = now\<rparr>"

definition persist_reserve ::
  "string \<Rightarrow> int \<Rightarrow> uuid \<Rightarrow> auction_reserve \<Rightarrow> auction_reserve_row option \<Rightarrow> datetime \<Rightarrow> db \<Rightarrow> unit tx" where
  "persist_reserve aggregate_id listing_revision command_id reserve current now d =
     (let row = reserve_of aggregate_id listing_revision command_id reserve now
      in case current of
           None \<Rightarrow>
             seq (sql_insert reserve_check (\<lambda>a b. rs_listing_aggregate_id a = rs_listing_aggregate_id b) row (st_reserves d))
               (\<lambda>u rows. Inr (u, d\<lparr>st_reserves := rows\<rparr>))
         | Some _ \<Rightarrow>
             seq (sql_update reserve_check
                    (\<lambda>r. rs_listing_aggregate_id r = aggregate_id
                       \<and> rs_record_revision r = ar_expected_record_revision reserve)
                    (\<lambda>r. row) (st_reserves d))
               (\<lambda>written rows.
                  if length written \<noteq> 1 then Inl (Protocol ''reserve compare-and-swap failed'')
                  else Inr ((), d\<lparr>st_reserves := rows\<rparr>)))"

section \<open>Applying a registration\<close>

definition listing_stale :: "int \<Rightarrow> command_failure" where
  "listing_stale revision = refused_with_revision RRevisionConflict RevisionConflict ''The listing revision is stale.'' revision"

definition apply_registration ::
  "uuid_source \<Rightarrow> pubky \<Rightarrow> uuid \<Rightarrow> string \<Rightarrow> register_listing_payload \<Rightarrow> listing_row option \<Rightarrow> auction_reserve_row option
     \<Rightarrow> string \<Rightarrow> datetime \<Rightarrow> db \<Rightarrow> handler_result tx" where
  "apply_registration new_v4 actor command_id aggregate_id payload current current_reserve event_kind now d =
     (let current_revision = (case current of None \<Rightarrow> 0 | Some c \<Rightarrow> ls_server_revision c);
          committed = (case current of None \<Rightarrow> 0 | Some c \<Rightarrow> ls_reserved_quantity c + ls_sold_quantity c)
      in if rl_quantity payload < committed
         then refuse (refused_with_revision RInvariantViolation InvariantViolation
                ''Listing quantity cannot fall below committed inventory.'' current_revision) d
         else
           seq (write_listing aggregate_id payload current now d)
             (\<lambda>written d1.
                if \<not> written then refuse (listing_stale (current_listing_revision d1 aggregate_id)) d1
                else
                  seq (case rl_auction_reserve payload of
                         None \<Rightarrow> Inr ((), d1)
                       | Some reserve \<Rightarrow>
                           persist_reserve aggregate_id (rl_listing_revision payload) command_id reserve current_reserve now d1)
                    (\<lambda>_ d2.
                       seq (insert_event new_v4 command_id aggregate_id (current_revision + 1) actor event_kind now d2)
                         (\<lambda>event_id d3.
                            case fetch_listing d3 aggregate_id of
                              None \<Rightarrow> Inl (Panicked ''listing was just written in this transaction'')
                            | Some listing \<Rightarrow>
                                (case reserve_projection listing actor (fetch_auction_reserve d3 aggregate_id) of
                                   None \<Rightarrow> Inl (Protocol ''stored auction projection state is inconsistent'')
                                 | Some _ \<Rightarrow>
                                     Inr (Inr \<lparr>hs_revision = current_revision + 1, hs_event_ids = [event_id],
                                               hs_result = ResultListing listing\<rparr>, d3))))))"

section \<open>listing.register\<close>

datatype register_record_prefetch = NotNeeded | PrefetchFound json | PrefetchNotFound | PrefetchUnavailable | NoHomeserver

definition UNLIMITED_STOCK_ON_PHYSICAL_LISTING :: string where
  "UNLIMITED_STOCK_ON_PHYSICAL_LISTING = ''unlimited_stock_on_physical_listing''"

definition unlimited_cap_refusal :: command_failure where
  "unlimited_cap_refusal =
     refused_with_reason RInvalidState InvalidState
       ''1000000 is reserved for unlimited digital stock; a listing that ships or offers pickup cannot register it.''
       UNLIMITED_STOCK_ON_PHYSICAL_LISTING"

definition needs_public_record :: "register_listing_payload \<Rightarrow> bool" where
  "needs_public_record payload \<longleftrightarrow>
     rl_sale_format payload = Auction
     \<or> rl_digital_lock payload \<noteq> None \<and> registers_unlimited_cap_with_physical_methods payload"

definition register_addresses_its_own_listing :: "pubky \<Rightarrow> command \<Rightarrow> register_listing_payload \<Rightarrow> bool" where
  "register_addresses_its_own_listing actor command payload \<longleftrightarrow>
     actor = rl_seller_pubky payload
     \<and> cmd_aggregate_id command = listing_aggregate_id (rl_seller_pubky payload) (rl_listing_id payload)"

definition public_record_request :: "db \<Rightarrow> pubky \<Rightarrow> command \<Rightarrow> register_listing_payload option" where
  "public_record_request d actor command =
     (case cmd_payload command of
        RegisterListing payload \<Rightarrow>
          if \<not> register_addresses_its_own_listing actor command payload then None
          else if needs_public_record payload then Some payload
          else if cmd_expected_revision command \<noteq> 0 then None
          else
            (case fetch_listing d (cmd_aggregate_id command) of
               None \<Rightarrow> None | Some listing \<Rightarrow> if is_deleted listing then Some payload else None)
      | _ \<Rightarrow> None)"

definition prefetch_public_record :: "homeserver_client option \<Rightarrow> register_listing_payload \<Rightarrow> register_record_prefetch" where
  "prefetch_public_record homeserver payload =
     (case homeserver of
        None \<Rightarrow> NoHomeserver
      | Some client \<Rightarrow>
          (case hc_fetch_listing client (rl_seller_pubky payload) (rl_listing_id payload) of
             Found v \<Rightarrow> PrefetchFound v | RecordNotFound \<Rightarrow> PrefetchNotFound | Unavailable \<Rightarrow> PrefetchUnavailable))"

definition record_not_found :: command_failure where
  "record_not_found = refused RNotFound NotFound ''The seller's homeserver has no such listing record.''"

definition record_unavailable :: command_failure where
  "record_unavailable =
     refused RUpstreamUnavailable UpstreamUnavailable ''The seller's homeserver could not be reached. Try again shortly.''"

definition refuse_revival_without_record :: "register_record_prefetch \<Rightarrow> command_failure option" where
  "refuse_revival_without_record prefetched =
     (case prefetched of
        PrefetchFound _ \<Rightarrow> None
      | PrefetchNotFound \<Rightarrow> Some record_not_found
      | PrefetchUnavailable \<Rightarrow> Some record_unavailable
      | _ \<Rightarrow> Some (refused RInvalidState InvalidState
                 ''This listing was deleted. Publish its record again to re-create it.''))"

definition uninterpretable_record :: command_failure where
  "uninterpretable_record =
     refused RInvalidState InvalidState ''The seller's listing record could not be interpreted for registration.''"

definition record_breaks_invariants :: "validation_issue list \<Rightarrow> command_failure" where
  "record_breaks_invariants issues =
     refused_with_issues RInvalidState InvalidState
       ''The seller's listing record does not satisfy registration invariants.'' issues"

definition public_candidate ::
  "record_reader \<Rightarrow> register_listing_payload \<Rightarrow> json \<Rightarrow> command_failure + register_listing_payload" where
  "public_candidate reader payload v =
     (case registration_payload_from_record (rd_externals reader) (rd_decode reader) (rl_seller_pubky payload)
             (rl_listing_id payload) v of
        Inr (Some candidate) \<Rightarrow>
          (case validate_public_listing_payload (rd_externals reader) candidate of
             Inl issues \<Rightarrow> Inl (record_breaks_invariants issues) | Inr c \<Rightarrow> Inr c)
      | _ \<Rightarrow> Inl uninterpretable_record)"

definition refuse_unlimited_cap ::
  "record_reader \<Rightarrow> register_listing_payload \<Rightarrow> register_record_prefetch \<Rightarrow> command_failure option" where
  "refuse_unlimited_cap reader payload prefetched =
     (if \<not> registers_unlimited_cap_with_physical_methods payload then None
      else if rl_digital_lock payload = None then Some unlimited_cap_refusal
      else case prefetched of
        PrefetchNotFound \<Rightarrow> Some record_not_found
      | PrefetchUnavailable \<Rightarrow> Some record_unavailable
      | PrefetchFound v \<Rightarrow>
          if record_publishes_physical_fulfillment v then Some unlimited_cap_refusal
          else
            (case public_candidate reader payload v of
               Inr candidate \<Rightarrow>
                 if rl_fulfillment_methods candidate = rl_fulfillment_methods payload
                    \<and> rl_digital_lock candidate = rl_digital_lock payload \<and> rl_quantity candidate = rl_quantity payload
                    \<and> rl_listing_revision candidate = rl_listing_revision payload
                    \<and> rl_content_hash candidate = rl_content_hash payload
                 then None else Some unlimited_cap_refusal
             | Inl _ \<Rightarrow> Some unlimited_cap_refusal)
      | _ \<Rightarrow> Some unlimited_cap_refusal)"

text \<open>The auction's public authority: the command is what the record says, but for the reserve.\<close>

definition refuse_auction_candidate ::
  "record_reader \<Rightarrow> register_listing_payload \<Rightarrow> register_record_prefetch \<Rightarrow> command_failure option" where
  "refuse_auction_candidate reader payload prefetched =
     (if rl_sale_format payload \<noteq> Auction then None
      else case prefetched of
        PrefetchNotFound \<Rightarrow> Some record_not_found
      | PrefetchUnavailable \<Rightarrow> Some record_unavailable
      | PrefetchFound v \<Rightarrow>
          (case public_candidate reader payload v of
             Inl refusal \<Rightarrow> Some refusal
           | Inr candidate \<Rightarrow>
               if candidate \<noteq> payload\<lparr>rl_auction_reserve := None\<rparr>
               then Some (refused RRevisionConflict RevisionConflict
                      ''The public listing candidate does not match the registration command.'')
               else None)
      | _ \<Rightarrow> Some (refused RInvalidCommand InvalidCommand ''Listing registration is not enabled on this deployment.''))"

definition recreated_auction_refused :: command_failure where
  "recreated_auction_refused =
     refused RInvalidState InvalidState ''This listing id was deleted. Publish the auction under a new id.''"

definition sale_format_changed :: command_failure where
  "sale_format_changed = refused RInvalidState InvalidState ''The listing sale format cannot change after registration.''"

text \<open>The checks against the stored row, in order.\<close>

definition register_current_refusal ::
  "command \<Rightarrow> register_listing_payload \<Rightarrow> register_record_prefetch \<Rightarrow> listing_row option \<Rightarrow> command_failure option" where
  "register_current_refusal command payload prefetched current =
     (let current_revision = (case current of None \<Rightarrow> 0 | Some c \<Rightarrow> ls_server_revision c);
          reviving = (case current of None \<Rightarrow> False | Some c \<Rightarrow> is_deleted c)
      in if cmd_expected_revision command \<noteq> current_revision \<and> \<not> (reviving \<and> cmd_expected_revision command = 0)
         then Some (listing_stale current_revision)
         else case current of
           None \<Rightarrow> None
         | Some c \<Rightarrow>
             if reviving
             then (if rl_sale_format payload \<noteq> FixedPrice \<or> ls_sale_format c \<noteq> ''fixed_price''
                   then Some recreated_auction_refused else refuse_revival_without_record prefetched)
             else if rl_listing_revision payload \<le> ls_listing_revision c
             then Some (refused_with_revision RRevisionConflict RevisionConflict
                    ''The public listing revision must advance.'' current_revision)
             else if ls_sale_format c \<noteq> sale_format_str (rl_sale_format payload) then Some sale_format_changed
             else None)"

definition reserve_stale :: "int \<Rightarrow> command_failure" where
  "reserve_stale revision = refused_with_revision RRevisionConflict RevisionConflict ''The reserve record revision is stale.'' revision"

definition reserve_refusal ::
  "register_listing_payload \<Rightarrow> listing_row option \<Rightarrow> auction_reserve_row option \<Rightarrow> command_failure option" where
  "reserve_refusal payload current current_reserve =
     (case (current, current_reserve, rl_auction_reserve payload) of
        (None, None, Some reserve) \<Rightarrow>
          if rl_listing_revision payload \<noteq> 1 \<or> ar_expected_record_revision reserve \<noteq> 0 \<or> ar_record_revision reserve \<noteq> 1
          then Some (reserve_stale 0) else None
      | (None, None, None) \<Rightarrow> None
      | (Some listing, Some stored, Some reserve) \<Rightarrow>
          if ls_sale_format listing = ''auction''
          then (if ar_expected_record_revision reserve \<noteq> rs_record_revision stored
                   \<or> ar_record_revision reserve \<noteq> rs_record_revision stored + 1
                then Some (reserve_stale (ls_server_revision listing)) else None)
          else Some (refused RInvariantViolation InvariantViolation ''The listing reserve authority is inconsistent.'')
      | (Some listing, None, None) \<Rightarrow>
          if ls_sale_format listing = ''fixed_price'' then None
          else Some (refused RInvariantViolation InvariantViolation ''The listing reserve authority is inconsistent.'')
      | _ \<Rightarrow> Some (refused RInvariantViolation InvariantViolation ''The listing reserve authority is inconsistent.''))"

definition reserve_authority_missing :: command_failure where
  "reserve_authority_missing =
     refused RInvariantViolation InvariantViolation ''The auction reserve authority is missing.''"

definition allowed_decrease :: "money option \<Rightarrow> money option \<Rightarrow> auction_state \<Rightarrow> datetime \<Rightarrow> bool" where
  "allowed_decrease stored_price candidate_price stored_auction now =
     (case (stored_price, candidate_price) of
        (Some stored, Some candidate) \<Rightarrow>
          same_asset candidate stored \<and> amount_minor candidate < amount_minor stored
          \<and> au_status stored_auction = ''scheduled'' \<and> now < au_starts_at stored_auction \<and> au_bid_count stored_auction = 0
      | _ \<Rightarrow> False)"

definition terms_changed :: "listing_row \<Rightarrow> auction_state \<Rightarrow> register_listing_payload \<Rightarrow> auction_terms \<Rightarrow> bool" where
  "terms_changed current stored payload terms \<longleftrightarrow>
     ls_unit_price_amount_minor current \<noteq> amount_minor (rl_unit_price payload)
     \<or> ls_unit_price_currency current \<noteq> currency (rl_unit_price payload)
     \<or> ls_unit_price_exponent current \<noteq> exponent (rl_unit_price payload)
     \<or> au_starts_at stored \<noteq> at_starts_at terms \<or> au_ends_at stored \<noteq> at_ends_at terms
     \<or> au_minimum_increment stored \<noteq> at_minimum_increment terms
     \<or> au_anti_sniping_window_seconds stored \<noteq> at_anti_sniping_window_seconds terms
     \<or> au_anti_sniping_extension_seconds stored \<noteq> at_anti_sniping_extension_seconds terms"

definition validate_edit ::
  "listing_row \<Rightarrow> auction_reserve_row option \<Rightarrow> register_listing_payload \<Rightarrow> datetime \<Rightarrow> db_error + command_failure option" where
  "validate_edit current current_reserve payload now =
     (if ls_sale_format current \<noteq> sale_format_str (rl_sale_format payload) then Inr (Some sale_format_changed)
      else if ls_sale_format current \<noteq> ''auction'' then Inr None
      else case (current_reserve, rl_auction_reserve payload) of
        (Some stored_reserve, Some candidate_reserve) \<Rightarrow>
          (case ls_auction current of
             None \<Rightarrow> Inl (Protocol ''auction state is missing'')
           | Some stored_auction \<Rightarrow>
               (case rl_auction_terms payload of
                  None \<Rightarrow> Inl (Panicked ''validated auction payload has terms'')
                | Some terms \<Rightarrow>
                    if terms_changed current stored_auction payload terms
                    then Inr (Some (refused RInvalidState InvalidState ''Auction terms cannot change after registration.''))
                    else if rs_reserve_price stored_reserve = ar_reserve_price candidate_reserve then Inr None
                    else if \<not> allowed_decrease (rs_reserve_price stored_reserve) (ar_reserve_price candidate_reserve)
                               stored_auction now
                    then Inr (Some (refused RInvalidState InvalidState ''The auction reserve change is not permitted.''))
                    else Inr None))
      | _ \<Rightarrow> Inr (Some reserve_authority_missing))"

definition register_listing ::
  "record_reader \<Rightarrow> uuid_source \<Rightarrow> pubky \<Rightarrow> command \<Rightarrow> register_listing_payload \<Rightarrow> register_record_prefetch \<Rightarrow> datetime \<Rightarrow> db
     \<Rightarrow> handler_result tx" where
  "register_listing reader new_v4 actor command payload prefetched now d =
     (if actor \<noteq> rl_seller_pubky payload
      then refuse (refused RUnauthorized Unauthorized ''Only the listing seller may register inventory.'') d
      else if \<not> register_addresses_its_own_listing actor command payload
      then refuse (refused RInvalidCommand InvalidCommand
             ''The listing aggregate id does not match its seller and listing.'') d
      else case refuse_unlimited_cap reader payload prefetched of
        Some refusal \<Rightarrow> refuse refusal d
      | None \<Rightarrow>
          (case refuse_auction_candidate reader payload prefetched of
             Some refusal \<Rightarrow> refuse refusal d
           | None \<Rightarrow>
               let current = fetch_listing d (cmd_aggregate_id command);
                   current_reserve = fetch_auction_reserve d (cmd_aggregate_id command)
               in case register_current_refusal command payload prefetched current of
                    Some refusal \<Rightarrow> refuse refusal d
                  | None \<Rightarrow>
                      (case reserve_refusal payload current current_reserve of
                         Some refusal \<Rightarrow> refuse refusal d
                       | None \<Rightarrow>
                           (case (case current of None \<Rightarrow> Inr None | Some c \<Rightarrow> validate_edit c current_reserve payload now) of
                              Inl e \<Rightarrow> Inl e
                            | Inr (Some failure) \<Rightarrow> refuse failure d
                            | Inr None \<Rightarrow>
                                apply_registration new_v4 actor (cmd_command_id command) (cmd_aggregate_id command) payload
                                  current current_reserve ''listing.registered'' now d))))"

section \<open>Tombstones\<close>

definition LISTING_DELETED_EVENT :: string where "LISTING_DELETED_EVENT = ''listing.deleted''"

definition CONFIRM_WINDOW :: nat where "CONFIRM_WINDOW = 20"

definition LISTINGS_PATH :: string where "LISTINGS_PATH = ''/pub/pubky.app/marketplace/v1/listings/''"

definition listing_record_path :: "string \<Rightarrow> string" where
  "listing_record_path listing_id = LISTINGS_PATH @ listing_id"

definition listing_record_uri :: "pubky \<Rightarrow> string \<Rightarrow> string" where
  "listing_record_uri seller_pubky listing_id = ''pubky://'' @ seller_pubky @ listing_record_path listing_id"

datatype deletion_check = Deleted string | NotDeleted | CheckUnavailable

definition latest_event_is_delete :: "homeserver_client \<Rightarrow> pubky \<Rightarrow> string \<Rightarrow> deletion_check" where
  "latest_event_is_delete homeserver seller_pubky listing_id =
     (case hc_listing_events homeserver seller_pubky (listing_record_path listing_id) None True CONFIRM_WINDOW of
        Events events \<Rightarrow>
          (case find (\<lambda>event. hv_uri event = listing_record_uri seller_pubky listing_id) events of
             Some event \<Rightarrow> if hv_kind event = Del then Deleted (hv_cursor event) else NotDeleted
           | None \<Rightarrow> NotDeleted)
      | UnknownUser \<Rightarrow> NotDeleted
      | EventsUnavailable \<Rightarrow> CheckUnavailable)"

definition confirm_deleted :: "homeserver_client \<Rightarrow> pubky \<Rightarrow> string \<Rightarrow> deletion_check" where
  "confirm_deleted homeserver seller_pubky listing_id =
     (case hc_fetch_listing homeserver seller_pubky listing_id of
        RecordNotFound \<Rightarrow> latest_event_is_delete homeserver seller_pubky listing_id
      | Found _ \<Rightarrow> NotDeleted
      | Unavailable \<Rightarrow> CheckUnavailable)"

record live_listing =
  lv_generation :: int
  lv_record_epoch :: int

definition observe_live :: "db \<Rightarrow> string \<Rightarrow> live_listing option" where
  "observe_live d aggregate_id =
     (case fetch_listing d aggregate_id of
        None \<Rightarrow> None
      | Some l \<Rightarrow> if is_deleted l then None else Some \<lparr>lv_generation = ls_generation l, lv_record_epoch = ls_record_epoch l\<rparr>)"

definition tombstone_fence :: "string \<Rightarrow> int \<Rightarrow> listing_row \<Rightarrow> bool" where
  "tombstone_fence event_cursor observed_epoch l \<longleftrightarrow>
     ls_record_epoch l = observed_epoch
     \<and> (case ls_revived_from_cursor l of None \<Rightarrow> True | Some kept \<Rightarrow> cursor_number kept \<le> cursor_number event_cursor)"

text \<open>When the trigger raises on a tombstone: no authority, another epoch, or a delete older than the revival.\<close>

definition deletion_guard_raises :: "bool \<Rightarrow> int \<Rightarrow> string \<Rightarrow> listing_row \<Rightarrow> bool" where
  "deletion_guard_raises authority observed_epoch event_cursor old \<longleftrightarrow>
     \<not> authority \<or> observed_epoch \<noteq> ls_record_epoch old
     \<or> (case ls_revived_from_cursor old of
          None \<Rightarrow> False | Some kept \<Rightarrow> is_cursor event_cursor \<and> cursor_number event_cursor < cursor_number kept)"

definition release_listing_bindings :: "pubky \<Rightarrow> string \<Rightarrow> db \<Rightarrow> db" where
  "release_listing_bindings seller_pubky listing_id d =
     d\<lparr>st_drop_listings := map (\<lambda>b. if dg_seller_pubky b = seller_pubky \<and> dg_listing_id b = listing_id \<and> \<not> dg_released b
         then b\<lparr>dg_active := False, dg_released := True\<rparr> else b) (st_drop_listings d)\<rparr>"

text \<open>\<open>authority\<close> says whether the declared authority is current: a command's always is.\<close>

definition tombstone ::
  "uuid_source \<Rightarrow> bool \<Rightarrow> string \<Rightarrow> string \<Rightarrow> int \<Rightarrow> pubky \<Rightarrow> uuid \<Rightarrow> datetime \<Rightarrow> db \<Rightarrow> (listing_row \<times> uuid) option tx" where
  "tombstone new_v4 authority aggregate_id event_cursor observed_epoch actor command_id now d =
     (let target = (\<lambda>l. ls_aggregate_id l = aggregate_id \<and> \<not> is_deleted l \<and> tombstone_fence event_cursor observed_epoch l)
      in case find target (st_listings d) of
           None \<Rightarrow> Inr (None, d)
         | Some live \<Rightarrow>
             let d1 = release_listing_bindings (ls_seller_pubky live) (ls_listing_id live) d
             in if list_ex (deletion_guard_raises authority observed_epoch event_cursor) (filter target (st_listings d1))
                then Inl (Protocol ''listing tombstone refused'')
                else
                  seq (update_listings target
                         (\<lambda>l. record_epoch_trigger l
                            (l\<lparr>ls_deleted_at := Some now, ls_deleted_event_cursor := Some event_cursor,
                               ls_server_revision := ls_server_revision l + 1, ls_updated_at := now\<rparr>)) d1)
                    (\<lambda>rows d2.
                       case rows of
                         [] \<Rightarrow> Inr (None, d)
                       | deleted # _ \<Rightarrow>
                           seq (insert_event new_v4 command_id aggregate_id (ls_server_revision deleted) actor
                                  LISTING_DELETED_EVENT now d2)
                             (\<lambda>event_id d3. Inr (Some (deleted, event_id), d3))))"

section \<open>listing.sync\<close>

definition seller_registration_required :: command_failure where
  "seller_registration_required =
     refused RInvalidState SellerRegistrationRequired
       ''The seller must register this auction with its private reserve authority.''"

definition deleted_success :: "listing_row \<Rightarrow> uuid list \<Rightarrow> handler_success" where
  "deleted_success listing event_ids =
     \<lparr>hs_revision = ls_server_revision listing, hs_event_ids = event_ids, hs_result = ResultListingDeleted listing\<rparr>"

definition confirm_record :: "string \<Rightarrow> db \<Rightarrow> unit tx" where
  "confirm_record aggregate_id d =
     seq (update_listings (\<lambda>l. ls_aggregate_id l = aggregate_id)
            (\<lambda>l. record_epoch_trigger l (l\<lparr>ls_record_epoch := ls_record_epoch l + 1\<rparr>)) d)
       (\<lambda>_ d1. Inr ((), d1))"

definition settle_missing_record ::
  "uuid_source \<Rightarrow> pubky \<Rightarrow> command \<Rightarrow> sync_listing_payload \<Rightarrow> homeserver_client \<Rightarrow> datetime \<Rightarrow> db \<Rightarrow> handler_result tx" where
  "settle_missing_record new_v4 actor command payload homeserver now d =
     (case fetch_listing d (cmd_aggregate_id command) of
        None \<Rightarrow> refuse record_not_found d
      | Some current \<Rightarrow>
          if is_deleted current then Inr (Inr (deleted_success current []), d)
          else
            (case observe_live d (cmd_aggregate_id command) of
               None \<Rightarrow> refuse record_not_found d
             | Some observed \<Rightarrow>
                 (case latest_event_is_delete homeserver (sl_seller_pubky payload) (sl_listing_id payload) of
                    Deleted cursor \<Rightarrow>
                      seq (tombstone new_v4 True (cmd_aggregate_id command) cursor (lv_record_epoch observed) actor
                             (cmd_command_id command) now d)
                        (\<lambda>outcome d1.
                           case outcome of
                             Some (deleted, event_id) \<Rightarrow> Inr (Inr (deleted_success deleted [event_id]), d1)
                           | None \<Rightarrow>
                               (case fetch_listing d1 (cmd_aggregate_id command) of
                                  Some deleted \<Rightarrow>
                                    if is_deleted deleted then Inr (Inr (deleted_success deleted []), d1)
                                    else refuse record_not_found d1
                                | None \<Rightarrow> refuse record_not_found d1))
                  | _ \<Rightarrow> refuse record_not_found d)))"

text \<open>The registration a sync applies: what the record derives, validated.\<close>

definition sync_registration ::
  "record_reader \<Rightarrow> sync_listing_payload \<Rightarrow> json \<Rightarrow> command_failure + register_listing_payload" where
  "sync_registration reader payload v =
     (case registration_payload_from_record (rd_externals reader) (rd_decode reader) (sl_seller_pubky payload)
             (sl_listing_id payload) v of
        Inr None \<Rightarrow> Inl uninterpretable_record
      | Inl _ \<Rightarrow> Inl (refused RInvalidState InvalidState
                   ''The seller's listing record carries an invalid Locks payment lock.'')
      | Inr (Some registration) \<Rightarrow>
          if registers_unlimited_cap_with_physical_methods registration \<and> record_publishes_physical_fulfillment v
          then Inl unlimited_cap_refusal
          else
            (case validate_public_listing_payload (rd_externals reader) registration of
               Inl issues \<Rightarrow> Inl (record_breaks_invariants issues) | Inr r \<Rightarrow> Inr r))"

definition lock_columns :: "digital_lock_metadata option \<Rightarrow> string option \<times> string option" where
  "lock_columns lock = (map_option dl_policy_uri lock, map_option dl_criterion_id lock)"

definition derived_fields_differ :: "register_listing_payload \<Rightarrow> listing_row \<Rightarrow> bool" where
  "derived_fields_differ registration current \<longleftrightarrow>
     rl_shipping_minor registration \<noteq> ls_shipping_minor current
     \<or> map fulfillment_as_str (rl_fulfillment_methods registration) \<noteq> ls_fulfillment_methods current
     \<or> lock_columns (rl_digital_lock registration)
        \<noteq> (ls_digital_lock_policy_uri current, ls_digital_lock_criterion_id current)"

definition healed_listing :: "register_listing_payload \<Rightarrow> datetime \<Rightarrow> listing_row \<Rightarrow> listing_row" where
  "healed_listing registration now l =
     listing_triggers l
       (l\<lparr>ls_server_revision := ls_server_revision l + 1, ls_shipping_minor := rl_shipping_minor registration,
          ls_fulfillment_methods := map fulfillment_as_str (rl_fulfillment_methods registration),
          ls_digital_lock_policy_uri := fst (lock_columns (rl_digital_lock registration)),
          ls_digital_lock_criterion_id := snd (lock_columns (rl_digital_lock registration)), ls_updated_at := now\<rparr>)"

definition projected :: "listing_row \<Rightarrow> pubky \<Rightarrow> auction_reserve_row option \<Rightarrow> int \<Rightarrow> uuid list \<Rightarrow> db \<Rightarrow> handler_result tx" where
  "projected listing actor reserve revision event_ids d =
     (case reserve_projection listing actor reserve of
        None \<Rightarrow> Inl (Protocol ''stored auction projection state is inconsistent'')
      | Some _ \<Rightarrow> Inr (Inr \<lparr>hs_revision = revision, hs_event_ids = event_ids, hs_result = ResultListing listing\<rparr>, d))"

text \<open>A record that is not newer: the derived fields are healed, or nothing changes.\<close>

definition sync_settled ::
  "uuid_source \<Rightarrow> pubky \<Rightarrow> command \<Rightarrow> register_listing_payload \<Rightarrow> listing_row \<Rightarrow> datetime \<Rightarrow> db \<Rightarrow> handler_result tx" where
  "sync_settled new_v4 actor command registration current now d =
     (if rl_listing_revision registration = ls_listing_revision current \<and> derived_fields_differ registration current
      then
        seq (fetch_one (update_listings (\<lambda>l. ls_aggregate_id l = cmd_aggregate_id command) (healed_listing registration now) d))
          (\<lambda>healed d1.
             seq (insert_event new_v4 (cmd_command_id command) (cmd_aggregate_id command) (ls_server_revision healed) actor
                    ''listing.synced'' now d1)
               (\<lambda>event_id d2. projected healed actor None (ls_server_revision healed) [event_id] d2))
      else
        seq (confirm_record (cmd_aggregate_id command) d)
          (\<lambda>_ d1. projected current actor None (ls_server_revision current) [] d1))"

definition sync_auction ::
  "pubky \<Rightarrow> command \<Rightarrow> register_listing_payload \<Rightarrow> listing_row \<Rightarrow> db \<Rightarrow> handler_result tx" where
  "sync_auction actor command registration current d =
     (case fetch_auction_reserve d (cmd_aggregate_id command) of
        None \<Rightarrow> refuse seller_registration_required d
      | Some reserve \<Rightarrow>
          if rl_sale_format registration \<noteq> Auction \<or> ls_listing_revision current < rl_listing_revision registration
          then refuse seller_registration_required d
          else
            seq (confirm_record (cmd_aggregate_id command) d)
              (\<lambda>_ d1.
                 if ls_auction current = None
                    \<and> list_ex (\<lambda>b. bd_listing_aggregate_id b = ls_aggregate_id current \<and> bd_bidder_pubky b = actor) (st_bids d1)
                 then Inl (Protocol ''auction state is missing'')
                 else projected current actor (Some reserve) (ls_server_revision current) [] d1))"

definition sync_listing ::
  "record_reader \<Rightarrow> homeserver_client option \<Rightarrow> uuid_source \<Rightarrow> pubky \<Rightarrow> command \<Rightarrow> sync_listing_payload \<Rightarrow> datetime \<Rightarrow> db
     \<Rightarrow> handler_result tx" where
  "sync_listing reader homeserver new_v4 actor command payload now d =
     (case homeserver of
        None \<Rightarrow> refuse (refused RInvalidCommand InvalidCommand ''Listing sync is not enabled on this deployment.'') d
      | Some client \<Rightarrow>
          if cmd_aggregate_id command \<noteq> listing_aggregate_id (sl_seller_pubky payload) (sl_listing_id payload)
          then refuse (refused RInvalidCommand InvalidCommand
                 ''The listing aggregate id does not match its seller and listing.'') d
          else
            (case hc_fetch_listing client (sl_seller_pubky payload) (sl_listing_id payload) of
               RecordNotFound \<Rightarrow> settle_missing_record new_v4 actor command payload client now d
             | Unavailable \<Rightarrow> refuse record_unavailable d
             | Found v \<Rightarrow>
                 (case sync_registration reader payload v of
                    Inl refusal \<Rightarrow> refuse refusal d
                  | Inr registration \<Rightarrow>
                      let register = (\<lambda>current. apply_registration new_v4 actor (cmd_command_id command)
                            (cmd_aggregate_id command) registration current None ''listing.synced'' now d)
                      in case fetch_listing d (cmd_aggregate_id command) of
                           None \<Rightarrow>
                             if rl_sale_format registration = Auction then refuse seller_registration_required d
                             else register None
                         | Some current \<Rightarrow>
                             if is_deleted current
                             then (if ls_sale_format current \<noteq> ''fixed_price'' \<or> rl_sale_format registration \<noteq> FixedPrice
                                   then refuse recreated_auction_refused d else register (Some current))
                             else if ls_sale_format current = ''auction''
                             then sync_auction actor command registration current d
                             else if rl_sale_format registration = Auction then refuse seller_registration_required d
                             else if rl_listing_revision registration \<le> ls_listing_revision current
                             then sync_settled new_v4 actor command registration current now d
                             else register (Some current))))"

text \<open>The arms of \<open>executor::dispatch\<close> for listings.\<close>

definition dispatch_listing ::
  "record_reader \<Rightarrow> homeserver_client option \<Rightarrow> uuid_source \<Rightarrow> pubky \<Rightarrow> command \<Rightarrow> register_record_prefetch \<Rightarrow> datetime \<Rightarrow> db
     \<Rightarrow> handler_result tx option" where
  "dispatch_listing reader homeserver new_v4 actor command prefetched now d =
     (case cmd_payload command of
        RegisterListing payload \<Rightarrow> Some (register_listing reader new_v4 actor command payload prefetched now d)
      | SyncListing payload \<Rightarrow> Some (sync_listing reader homeserver new_v4 actor command payload now d)
      | _ \<Rightarrow> None)"

end
