(* ===== verification/Listings_Facts.thy ===== *)
theory Listings_Facts
  imports Listings Orders_Facts Auction_Facts Validation_Facts
begin

text \<open>
  What registering, syncing and deleting a listing promise.  A registration sets the stock of its own listing and keeps
  what is committed of it, so the books still balance and the running auctions still agree with their bids.  A listing is
  deleted only on the seller's own delete, and lives again only with the seller's record.
\<close>

section \<open>Vocabulary\<close>

text \<open>What the foreign keys say: units are held, and bids placed, on registered listings.\<close>

definition holds_listed :: "db \<Rightarrow> bool" where
  "holds_listed d \<longleftrightarrow>
     list_all (\<lambda>r. fetch_listing d (rv_listing_aggregate_id r) \<noteq> None) (st_reservations d)
     \<and> list_all (\<lambda>o'. list_all (\<lambda>line. fetch_listing d (ol_listing_aggregate_id line) \<noteq> None) (or_lines o')) (st_orders d)
     \<and> list_all (\<lambda>b. fetch_listing d (bd_listing_aggregate_id b) \<noteq> None) (st_bids d)"

text \<open>Only the listing \<open>a\<close> is written, from \<open>c\<close> (if there was one) to \<open>l\<close>.\<close>

definition listing_written :: "string \<Rightarrow> listing_row option \<Rightarrow> listing_row \<Rightarrow> db \<Rightarrow> db \<Rightarrow> bool" where
  "listing_written a c l d d' \<longleftrightarrow>
     fetch_listing d a = c \<and> fetch_listing d' a = Some l \<and> (\<forall>b. b \<noteq> a \<longrightarrow> fetch_listing d' b = fetch_listing d b)
     \<and> st_reservations d' = st_reservations d \<and> st_orders d' = st_orders d \<and> st_payments d' = st_payments d
     \<and> st_drops d' = st_drops d \<and> st_drop_purchases d' = st_drop_purchases d \<and> st_bids d' = st_bids d"

text \<open>What a registration leaves in the listing: the payload's stock and price, and what is committed.\<close>

definition carries_registration :: "register_listing_payload \<Rightarrow> listing_row option \<Rightarrow> listing_row \<Rightarrow> bool" where
  "carries_registration payload c l \<longleftrightarrow>
     ls_total_quantity l = rl_quantity payload
     \<and> ls_reserved_quantity l = (case c of None \<Rightarrow> 0 | Some x \<Rightarrow> ls_reserved_quantity x)
     \<and> ls_sold_quantity l = (case c of None \<Rightarrow> 0 | Some x \<Rightarrow> ls_sold_quantity x)
     \<and> ls_available_quantity l = rl_quantity payload - ls_reserved_quantity l - ls_sold_quantity l
     \<and> 0 \<le> ls_available_quantity l
     \<and> ls_server_revision l = (case c of None \<Rightarrow> 1 | Some x \<Rightarrow> ls_server_revision x + 1)
     \<and> ls_listing_revision l = rl_listing_revision payload \<and> ls_title l = rl_title payload
     \<and> ls_unit_price_amount_minor l = amount_minor (rl_unit_price payload)
     \<and> ls_unit_price_currency l = currency (rl_unit_price payload) \<and> ls_shipping_minor l = rl_shipping_minor payload
     \<and> ls_sale_format l = sale_format_str (rl_sale_format payload) \<and> \<not> is_deleted l"

text \<open>An auction listing agrees with its bids.\<close>

definition auction_agrees :: "db \<Rightarrow> listing_row \<Rightarrow> bool" where
  "auction_agrees d l \<longleftrightarrow> (case parse_auction l of None \<Rightarrow> True | Some auction \<Rightarrow> bidding_ok d l auction)"

text \<open>A tombstone at the cursor of the seller's delete: the stock stays as it is, and the drops let the listing go.\<close>

definition tombstoned :: "string \<Rightarrow> string \<Rightarrow> datetime \<Rightarrow> listing_row \<Rightarrow> listing_row \<Rightarrow> db \<Rightarrow> db \<Rightarrow> bool" where
  "tombstoned a cursor now c l d d' \<longleftrightarrow>
     listing_written a (Some c) l d d' \<and> \<not> is_deleted c
     \<and> ls_deleted_at l = Some now \<and> ls_deleted_event_cursor l = Some cursor \<and> is_cursor cursor
     \<and> (case ls_revived_from_cursor c of None \<Rightarrow> True | Some kept \<Rightarrow> cursor_number kept \<le> cursor_number cursor)
     \<and> ls_server_revision l = ls_server_revision c + 1 \<and> ls_generation l = ls_generation c
     \<and> ls_record_epoch l = ls_record_epoch c \<and> ls_sale_format l = ls_sale_format c \<and> ls_auction l = ls_auction c
     \<and> ls_unit_price_amount_minor l = ls_unit_price_amount_minor c
     \<and> ls_total_quantity l = ls_total_quantity c \<and> ls_available_quantity l = ls_available_quantity c
     \<and> ls_reserved_quantity l = ls_reserved_quantity c \<and> ls_sold_quantity l = ls_sold_quantity c
     \<and> list_all (\<lambda>b. dg_seller_pubky b = ls_seller_pubky c \<and> dg_listing_id b = ls_listing_id c \<longrightarrow> dg_released b)
         (st_drop_listings d')"

text \<open>The three states a listing may be left in by \<open>listing.sync\<close>: registered from the record, healed or confirmed, deleted.\<close>

definition synced_live :: "listing_row option \<Rightarrow> register_listing_payload \<Rightarrow> listing_row \<Rightarrow> bool" where
  "synced_live c registration l \<longleftrightarrow>
     carries_registration registration c l
       \<and> (case c of None \<Rightarrow> True | Some x \<Rightarrow> is_deleted x \<or> ls_listing_revision x < ls_listing_revision l)
     \<or> (\<exists>x. c = Some x \<and> \<not> is_deleted x \<and> \<not> is_deleted l \<and> ls_listing_revision l = ls_listing_revision x
          \<and> ls_total_quantity l = ls_total_quantity x \<and> ls_available_quantity l = ls_available_quantity x
          \<and> ls_reserved_quantity l = ls_reserved_quantity x \<and> ls_sold_quantity l = ls_sold_quantity x
          \<and> ls_unit_price_amount_minor l = ls_unit_price_amount_minor x \<and> ls_auction l = ls_auction x
          \<and> ls_record_epoch l = ls_record_epoch x + 1)"

section \<open>A sample\<close>

definition sample_shop_db :: db where
  "sample_shop_db =
     empty_db\<lparr>st_listings := [sample_listing\<lparr>ls_aggregate_id := ''listing:seller_l''\<rparr>],
       st_reservations := [sample_reservation\<lparr>rv_listing_aggregate_id := ''listing:seller_l''\<rparr>]\<rparr>"

definition sample_reader :: record_reader where
  "sample_reader = \<lparr>rd_externals = sample_externals, rd_decode = (\<lambda>_. None)\<rparr>"

definition sample_registration :: register_listing_payload where
  "sample_registration =
     \<lparr>rl_seller_pubky = ''seller'', rl_listing_id = ''l'', rl_title = ''Mug'', rl_listing_revision = 2, rl_content_hash = ''h2'',
      rl_quantity = 9, rl_unit_price = \<lparr>amount_minor = 120, currency = ''USD'', exponent = 2\<rparr>, rl_shipping_minor = 0,
      rl_sale_format = FixedPrice, rl_auction_terms = None, rl_auction_reserve = None, rl_fulfillment_methods = [Shipping],
      rl_digital_lock = None\<rparr>"

definition sample_register :: command where
  "sample_register =
     \<lparr>cmd_command_id = ''c7'', cmd_aggregate_id = ''listing:seller_l'', cmd_expected_revision = 7, cmd_issued_at = 0,
      cmd_payload = RegisterListing sample_registration\<rparr>"

text \<open>A homeserver on which the record is gone and whose last event for it is a delete.\<close>

definition sample_homeserver :: homeserver_client where
  "sample_homeserver =
     \<lparr>hc_fetch_listing = (\<lambda>_ _. RecordNotFound),
      hc_listing_events = (\<lambda>seller path _ _ _. Events [\<lparr>hv_kind = Del, hv_uri = ''pubky://'' @ seller @ path, hv_cursor = ''42''\<rparr>])\<rparr>"

definition sample_sync :: command where
  "sample_sync =
     \<lparr>cmd_command_id = ''c8'', cmd_aggregate_id = ''listing:seller_l'', cmd_expected_revision = 0, cmd_issued_at = 0,
      cmd_payload = SyncListing \<lparr>sl_seller_pubky = ''seller'', sl_listing_id = ''l''\<rparr>\<rparr>"

section \<open>Triggers\<close>

lemma listing_triggers_frame [simp]:
  "ls_aggregate_id (listing_triggers o' l) = ls_aggregate_id l" "ls_seller_pubky (listing_triggers o' l) = ls_seller_pubky l"
  "ls_listing_id (listing_triggers o' l) = ls_listing_id l" "ls_title (listing_triggers o' l) = ls_title l"
  "ls_listing_revision (listing_triggers o' l) = ls_listing_revision l"
  "ls_server_revision (listing_triggers o' l) = ls_server_revision l" "ls_total_quantity (listing_triggers o' l) = ls_total_quantity l"
  "ls_available_quantity (listing_triggers o' l) = ls_available_quantity l"
  "ls_reserved_quantity (listing_triggers o' l) = ls_reserved_quantity l" "ls_sold_quantity (listing_triggers o' l) = ls_sold_quantity l"
  "ls_unit_price_amount_minor (listing_triggers o' l) = ls_unit_price_amount_minor l"
  "ls_unit_price_currency (listing_triggers o' l) = ls_unit_price_currency l" "ls_shipping_minor (listing_triggers o' l) = ls_shipping_minor l"
  "ls_sale_format (listing_triggers o' l) = ls_sale_format l" "ls_auction (listing_triggers o' l) = ls_auction l"
  "ls_deleted_at (listing_triggers o' l) = ls_deleted_at l" "ls_recreated_at (listing_triggers o' l) = ls_recreated_at l"
  "ls_generation (listing_triggers o' l) = ls_generation l"
  by (auto simp: listing_triggers_def record_epoch_trigger_def revival_trigger_def split: option.split)

lemma epoch_trigger_frame [simp]:
  "ls_aggregate_id (record_epoch_trigger o' l) = ls_aggregate_id l" "ls_total_quantity (record_epoch_trigger o' l) = ls_total_quantity l"
  "ls_reserved_quantity (record_epoch_trigger o' l) = ls_reserved_quantity l"
  "ls_sale_format (record_epoch_trigger o' l) = ls_sale_format l" "ls_auction (record_epoch_trigger o' l) = ls_auction l"
  "ls_unit_price_amount_minor (record_epoch_trigger o' l) = ls_unit_price_amount_minor l"
  "ls_deleted_at (record_epoch_trigger o' l) = ls_deleted_at l"
  "ls_deleted_event_cursor (record_epoch_trigger o' l) = ls_deleted_event_cursor l"
  "ls_available_quantity (record_epoch_trigger o' l) = ls_available_quantity l"
  "ls_sold_quantity (record_epoch_trigger o' l) = ls_sold_quantity l"
  by (auto simp: record_epoch_trigger_def)

section \<open>Writing one listing\<close>

context db_table
begin

lemma upd_cas:
  assumes t: "table_ok key check (get d)" and r: "fetch key k (get d) = Some r" and p: "P r"
  shows "upd (\<lambda>x. key x = k \<and> P x) f d = upd (\<lambda>x. key x = k) f d"
proof -
  have "(key x = k \<and> P x) = (key x = k)" if "x \<in> set (get d)" for x
    using fetch_unique [OF t r that] p by auto
  then have f: "filter (\<lambda>x. key x = k \<and> P x) (get d) = filter (\<lambda>x. key x = k) (get d)"
    and m: "map (\<lambda>x. if key x = k \<and> P x then f x else x) (get d) = map (\<lambda>x. if key x = k then f x else x) (get d)"
    by (auto intro!: filter_cong)
  show ?thesis
  proof (cases "upd (\<lambda>x. key x = k) f d")
    case (Inl e)
    then have "upd (\<lambda>x. key x = k \<and> P x) f d = Inl e" using f by (simp add: upd_Inl)
    with Inl show ?thesis by simp
  next
    case (Inr s)
    obtain w d' where s: "s = (w, d')" by (cases s)
    have "upd (\<lambda>x. key x = k \<and> P x) f d = Inr (w, d')" using Inr unfolding s by (simp only: upd_Inr f m)
    with Inr s show ?thesis by simp
  qed
qed

end

lemma accounted_unlisted:
  assumes "holds_listed d" "fetch_listing d a = None"
  shows "accounted d a = 0"
proof -
  have "map (\<lambda>r. reservation_holds r a) (st_reservations d) = map (\<lambda>_. 0) (st_reservations d)"
    using assms by (auto simp: holds_listed_def list_all_iff reservation_holds_def)
  moreover have "line_units (or_lines o') a = 0" if "o' \<in> set (st_orders d)" for o'
  proof -
    have "map (\<lambda>line. if ol_listing_aggregate_id line = a then ol_quantity line else 0) (or_lines o') = map (\<lambda>_. 0) (or_lines o')"
      using assms that by (fastforce simp: holds_listed_def list_all_iff)
    then show ?thesis by (simp only: line_units_def) simp
  qed
  then have "map (\<lambda>o'. order_holds o' a) (st_orders d) = map (\<lambda>_. 0) (st_orders d)" by (simp add: order_holds_def)
  ultimately show ?thesis by (simp only: accounted_def) simp
qed

lemma fetch_snoc: "fetch key k (rows @ [r]) = (case fetch key k rows of None \<Rightarrow> if key r = k then Some r else None | Some x \<Rightarrow> Some x)"
  by (induction rows) (auto simp: fetch_def)

lemma insert_listing_books:
  assumes ok: "books_ok d" "holds_listed d" and run: "insert_listing r d = Inr (True, d')"
    and r: "ls_reserved_quantity r = 0"
  shows "books_ok d'" "listing_written (ls_aggregate_id r) None r d d'" "d' = d\<lparr>st_listings := st_listings d @ [r]\<rparr>"
proof -
  have d': "d' = d\<lparr>st_listings := st_listings d @ [r]\<rparr>" and c: "listing_check r"
    and fresh: "\<not> list_ex (\<lambda>l. ls_aggregate_id l = ls_aggregate_id r) (st_listings d)"
    using run by (auto simp: insert_listing_def split: if_split_asm)
  show "d' = d\<lparr>st_listings := st_listings d @ [r]\<rparr>" by (rule d')
  have none: "fetch_listing d (ls_aggregate_id r) = None"
    using fresh by (auto simp: fetch_listing_def fetch_def find_None_iff list_ex_iff)
  have fetch': "fetch_listing d' b = (if b = ls_aggregate_id r then Some r else fetch_listing d b)" for b
    using none by (auto simp: fetch_listing_def d' fetch_snoc split: option.split)
  have acc: "accounted d' = accounted d" by (simp add: fun_eq_iff accounted_def d')
  have "ledger_off (\<lambda>_. 0) d'"
    using ok accounted_unlisted [OF ok(2) none] r
    by (simp add: books_ok_def stock_ok_def ledger_off_def acc) (simp add: d')
  moreover have "stock_tables_ok d'"
    using ok(1) c fresh by (auto simp: books_ok_def stock_ok_def stock_tables_ok_def table_ok_def d' list_ex_iff)
  moreover have "drops_ok d'" using ok(1) drops_ok_cong [of d' d] by (simp add: books_ok_def d')
  ultimately show "books_ok d'" using ok(1) by (simp add: books_ok_def stock_ok_def d')
  show "listing_written (ls_aggregate_id r) None r d d'"
    using none fetch' by (simp add: listing_written_def) (simp add: d')
qed

lemma update_listing_books:
  assumes ok: "books_ok d" and c: "fetch_listing d a = Some c"
    and u: "update_listings (\<lambda>l. ls_aggregate_id l = a) f d = Inr (w, d')"
    and f: "\<And>l. ls_aggregate_id (f l) = ls_aggregate_id l" "ls_reserved_quantity (f c) = ls_reserved_quantity c"
  shows "books_ok d'" "listing_written a (Some c) (f c) d d'" "w = [f c]" "listing_check (f c)"
    "d' = d\<lparr>st_listings := map (\<lambda>l. if ls_aggregate_id l = a then f l else l) (st_listings d)\<rparr>"
proof -
  have t: "table_ok ls_aggregate_id listing_check (st_listings d)"
    using ok by (simp add: books_ok_def stock_ok_def stock_tables_ok_def)
  note e = listings.upd_change [OF t c [unfolded fetch_listing_def] u f(1)]
  show "w = [f c]" "listing_check (f c)" by (rule e)+
  show d': "d' = d\<lparr>st_listings := map (\<lambda>l. if ls_aggregate_id l = a then f l else l) (st_listings d)\<rparr>" by (rule e(7))
  have acc: "accounted d' = accounted d" by (simp add: fun_eq_iff accounted_def d')
  let ?P = "\<lambda>l. ls_reserved_quantity l = accounted d (ls_aggregate_id l)"
  have all: "list_all ?P (st_listings d)" using ok by (simp add: books_ok_def stock_ok_def ledger_off_def)
  then have "?P c" using fetch_Some [OF c [unfolded fetch_listing_def]] by (simp add: list_all_iff)
  then have "?P (f c)" using f by simp
  with e(8) [OF all] have "list_all ?P (st_listings d')" .
  then have "ledger_off (\<lambda>_. 0) d'" by (simp add: ledger_off_def acc)
  moreover have "stock_tables_ok d'" using ok e(6) by (simp add: books_ok_def stock_ok_def stock_tables_ok_def d')
  moreover have "drops_ok d'" using ok drops_ok_cong [of d' d] by (simp add: books_ok_def d')
  ultimately show "books_ok d'" using ok by (simp add: books_ok_def stock_ok_def d')
  show "listing_written a (Some c) (f c) d d'"
    using c e(3,4) by (simp add: listing_written_def fetch_listing_def) (simp add: d')
qed

lemma listing_written_log:
  assumes "listing_written a c l d d1" "log_step d1 d'"
  shows "listing_written a c l d d'"
  using assms(1) log_stepD [OF assms(2)] by (simp add: listing_written_def fetch_listing_def)

lemma write_listing_books:
  assumes ok: "books_ok d" "holds_listed d" and run: "write_listing a payload (fetch_listing d a) now d = Inr (True, d')"
    and q: "(case fetch_listing d a of None \<Rightarrow> 0 | Some c \<Rightarrow> ls_reserved_quantity c + ls_sold_quantity c) \<le> rl_quantity payload"
  shows "books_ok d' \<and> (\<exists>rows. d' = d\<lparr>st_listings := rows\<rparr>)
    \<and> listing_written a (fetch_listing d a)
        (case fetch_listing d a of None \<Rightarrow> inserted_listing a payload now | Some c \<Rightarrow> reregistered_listing payload c now c) d d'"
proof (cases "fetch_listing d a")
  case None
  then have "insert_listing (inserted_listing a payload now) d = Inr (True, d')" using run by (simp add: write_listing_def)
  note i = insert_listing_books [OF ok this]
  then show ?thesis using None by (auto simp: inserted_listing_def)
next
  case (Some c)
  have t: "table_ok ls_aggregate_id listing_check (st_listings d)"
    using ok by (simp add: books_ok_def stock_ok_def stock_tables_ok_def)
  obtain w where "update_listings (\<lambda>l. ls_aggregate_id l = a \<and> ls_server_revision l = ls_server_revision c)
      (reregistered_listing payload c now) d = Inr (w, d')"
    using run Some by (auto simp: write_listing_def seq_eq_Inr)
  then have u: "update_listings (\<lambda>l. ls_aggregate_id l = a) (reregistered_listing payload c now) d = Inr (w, d')"
    using listings.upd_cas [OF t Some [unfolded fetch_listing_def], of "\<lambda>l. ls_server_revision l = ls_server_revision c"] by simp
  have "ls_aggregate_id (reregistered_listing payload c now l) = ls_aggregate_id l"
    "ls_reserved_quantity (reregistered_listing payload c now c) = ls_reserved_quantity c" for l
    by (simp_all add: reregistered_listing_def Let_def)
  note u' = update_listing_books [OF ok(1) Some u this]
  then show ?thesis using Some by auto
qed

lemma carries_written:
  assumes "(case c of None \<Rightarrow> 0 | Some x \<Rightarrow> ls_reserved_quantity x + ls_sold_quantity x) \<le> rl_quantity payload"
  shows "carries_registration payload c
    (case c of None \<Rightarrow> inserted_listing a payload now | Some x \<Rightarrow> reregistered_listing payload x now x)"
  using assms
  by (cases c) (simp_all add: carries_registration_def inserted_listing_def reregistered_listing_def Let_def is_deleted_def)

lemma persist_reserve_frame:
  assumes "persist_reserve a r k reserve current now d = Inr (x, d')"
  shows "\<exists>rows. d' = d\<lparr>st_reserves := rows\<rparr>"
  using assms by (auto simp: persist_reserve_def Let_def seq_eq_Inr split: option.split_asm if_split_asm)

lemma apply_registration_run:
  assumes "apply_registration new_v4 actor k a payload current current_reserve event now d = Inr (Inr s, d')"
  obtains d1 d2 reserves listing where
    "(case current of None \<Rightarrow> 0 | Some c \<Rightarrow> ls_reserved_quantity c + ls_sold_quantity c) \<le> rl_quantity payload"
    "write_listing a payload current now d = Inr (True, d1)" "d2 = d1\<lparr>st_reserves := reserves\<rparr>" "log_step d2 d'"
    "fetch_listing d' a = Some listing" "hs_result s = ResultListing listing"
proof -
  obtain d1 d2 e listing where
    q: "(case current of None \<Rightarrow> 0 | Some c \<Rightarrow> ls_reserved_quantity c + ls_sold_quantity c) \<le> rl_quantity payload"
    and w: "write_listing a payload current now d = Inr (True, d1)"
    and r: "(case rl_auction_reserve payload of None \<Rightarrow> Inr ((), d1)
        | Some reserve \<Rightarrow> persist_reserve a (rl_listing_revision payload) k reserve current_reserve now d1) = Inr ((), d2)"
    and e: "insert_event new_v4 k a ((case current of None \<Rightarrow> 0 | Some c \<Rightarrow> ls_server_revision c) + 1) actor event now d2 = Inr (e, d')"
    and l: "fetch_listing d' a = Some listing" "hs_result s = ResultListing listing"
    using assms by (auto simp: apply_registration_def Let_def refuse_def seq_eq_Inr not_less split: if_split_asm option.split_asm)
  obtain reserves where "d2 = d1\<lparr>st_reserves := reserves\<rparr>"
  proof (cases "rl_auction_reserve payload")
    case None
    then have "d2 = d1\<lparr>st_reserves := st_reserves d1\<rparr>" using r by simp
    then show ?thesis by (rule that)
  next
    case (Some reserve)
    then show ?thesis using r persist_reserve_frame that by fastforce
  qed
  with that [OF q w _ insert_event_log [OF e] l] show thesis by blast
qed

section \<open>The auctions\<close>

lemma auctions_ok_written:
  assumes au: "auctions_ok d" and w: "listing_written a c l d d'" and b: "books_ok d'" and l: "auction_agrees d l"
  shows "auctions_ok d'"
proof -
  have t: "table_ok ls_aggregate_id listing_check (st_listings d')"
    using b by (simp add: books_ok_def stock_ok_def stock_tables_ok_def)
  have fetch: "fetch_bids d' a = fetch_bids d a" for a using w by (simp add: listing_written_def fetch_bids_def)
  have "auction_agrees d x" if x: "x \<in> set (st_listings d')" for x
  proof (cases "ls_aggregate_id x = a")
    case True
    then have "x = l" using w x fetch_unique [OF t, of a l] by (simp add: listing_written_def fetch_listing_def)
    then show ?thesis using l by simp
  next
    case False
    have "fetch_listing d' (ls_aggregate_id x) = Some x"
      using t x by (simp add: fetch_listing_def table_ok_def fetch_Some_iff)
    then have "fetch_listing d (ls_aggregate_id x) = Some x" using w False by (simp add: listing_written_def)
    then have "x \<in> set (st_listings d)"
      using fetch_Some [of ls_aggregate_id "ls_aggregate_id x" "st_listings d" x] by (simp add: fetch_listing_def)
    then show ?thesis using au by (simp add: auctions_ok_def list_all_iff auction_agrees_def)
  qed
  then show ?thesis by (simp add: auctions_ok_def list_all_iff auction_agrees_def bidding_ok_cong [OF fetch] cong: option.case_cong)
qed

lemma holds_listed_written:
  assumes h: "holds_listed d" and w: "listing_written a c l d d'"
  shows "holds_listed d'"
proof -
  have "fetch_listing d' b \<noteq> None" if "fetch_listing d b \<noteq> None" for b
    using w that by (cases "b = a") (simp_all add: listing_written_def)
  moreover have "st_reservations d' = st_reservations d" "st_orders d' = st_orders d" "st_bids d' = st_bids d"
    using w by (simp_all add: listing_written_def)
  ultimately show ?thesis using h by (simp add: holds_listed_def list_all_iff)
qed

lemma refuse_auction_candidate_None:
  assumes "refuse_auction_candidate reader payload prefetched = None" "rl_sale_format payload = Auction"
  shows "listing_ok False (payload\<lparr>rl_auction_reserve := None\<rparr>)"
proof -
  obtain v where v: "public_candidate reader payload v = Inr (payload\<lparr>rl_auction_reserve := None\<rparr>)"
    using assms by (auto simp: refuse_auction_candidate_def split: register_record_prefetch.split_asm sum.split_asm if_split_asm)
  then obtain c where "validate_listing_payload (rd_externals reader) c False = Inr (payload\<lparr>rl_auction_reserve := None\<rparr>)"
    by (auto simp: public_candidate_def validate_public_listing_payload_def split: sum.split_asm option.split_asm)
  then show ?thesis using validate_listing_payload_Inr by blast
qed

lemma sale_format_str_auction [simp]: "sale_format_str f = ''auction'' \<longleftrightarrow> f = Auction"
  by (cases f) (simp_all add: sale_format_str_def)

lemma fetch_bids_unlisted:
  assumes "holds_listed d" "fetch_listing d a = None"
  shows "fetch_bids d a = []"
proof -
  have "filter (\<lambda>b. bd_listing_aggregate_id b = a) (st_bids d) = []"
    using assms by (fastforce simp: holds_listed_def list_all_iff filter_empty_conv)
  then show ?thesis by (simp only: fetch_bids_def) (simp add: sort_by_def)
qed

lemma inserted_agrees:
  assumes h: "holds_listed d" "fetch_listing d a = None"
    and a: "rl_sale_format payload = Auction \<Longrightarrow> listing_ok False (payload\<lparr>rl_auction_reserve := None\<rparr>)"
  shows "auction_agrees d (inserted_listing a payload now)"
proof (cases "rl_sale_format payload = Auction")
  case False
  then show ?thesis by (simp add: auction_agrees_def parse_auction_def inserted_listing_def)
next
  case True
  obtain t where t: "rl_auction_terms payload = Some t" "terms_ok (rl_unit_price payload) t" "money_ok (rl_unit_price payload)"
    using a [OF True] True by (auto simp: listing_ok_def)
  have r: "ranked_bidder_maximums [] = []" by (simp add: ranked_bidder_maximums_def sort_by_def)
  show ?thesis
    using t True fetch_bids_unlisted [OF h]
    by (simp add: r in_range_def auction_agrees_def parse_auction_def inserted_listing_def auction_json_def bidding_ok_def Let_def
        terms_ok_def money_ok_def)
qed

lemma reregistered_agrees:
  assumes c: "auction_agrees d c" "ls_sale_format c = sale_format_str (rl_sale_format payload)"
    and e: "validate_edit c reserve payload now = Inr None"
  shows "auction_agrees d (reregistered_listing payload c now c)"
proof (cases "rl_sale_format payload = Auction")
  case False
  then show ?thesis by (simp add: auction_agrees_def parse_auction_def reregistered_listing_def Let_def)
next
  case True
  then obtain s t where s: "ls_auction c = Some s" "rl_auction_terms payload = Some t" "\<not> terms_changed c s payload t"
    using e c(2) by (auto simp: validate_edit_def split: option.split_asm if_split_asm)
  then have "bidding_ok d c s" using c True by (simp add: auction_agrees_def parse_auction_def)
  then show ?thesis
    using s True
    by (auto simp: auction_agrees_def parse_auction_def reregistered_listing_def Let_def auction_json_def bidding_ok_def
        terms_changed_def elim: list.pred_mono_strong)
qed

section \<open>Registration\<close>

text \<open>An applied registration: the listing carries it, the books balance and the auctions agree.\<close>

lemma apply_registration_books:
  assumes ok: "books_ok d" "auctions_ok d" "holds_listed d"
    and run: "apply_registration new_v4 actor k a payload (fetch_listing d a) current_reserve event now d = Inr (Inr s, d')"
    and ag: "auction_agrees d (case fetch_listing d a of None \<Rightarrow> inserted_listing a payload now
               | Some c \<Rightarrow> reregistered_listing payload c now c)"
  shows "books_ok d' \<and> auctions_ok d' \<and> holds_listed d'
    \<and> (\<exists>l. listing_written a (fetch_listing d a) l d d' \<and> carries_registration payload (fetch_listing d a) l
         \<and> hs_result s = ResultListing l)"
proof -
  let ?l = "case fetch_listing d a of None \<Rightarrow> inserted_listing a payload now | Some c \<Rightarrow> reregistered_listing payload c now c"
  obtain d1 d2 reserves listing where
    q: "(case fetch_listing d a of None \<Rightarrow> 0 | Some c \<Rightarrow> ls_reserved_quantity c + ls_sold_quantity c) \<le> rl_quantity payload"
    and w: "write_listing a payload (fetch_listing d a) now d = Inr (True, d1)"
    and d2: "d2 = d1\<lparr>st_reserves := reserves\<rparr>" and log: "log_step d2 d'"
    and l: "fetch_listing d' a = Some listing" "hs_result s = ResultListing listing"
    using run by (rule apply_registration_run)
  note b1 = write_listing_books [OF ok(1,3) w q]
  have "listing_written a (fetch_listing d a) ?l d d2"
    using b1 by (simp add: d2 listing_written_def fetch_listing_def)
  then have lw: "listing_written a (fetch_listing d a) ?l d d'" using log by (rule listing_written_log)
  have "books_ok d2" using b1 books_ok_cong [of d2 d1] by (simp add: d2)
  then have bd: "books_ok d'" using books_log(1) [OF log] by simp
  have "listing = ?l" using lw l(1) by (simp add: listing_written_def)
  then show ?thesis
    using bd auctions_ok_written [OF ok(2) lw bd ag] holds_listed_written [OF ok(3) lw] lw carries_written [OF q] l(2) by blast
qed

lemma register_listing_books:
  assumes ok: "books_ok d" "auctions_ok d" "holds_listed d"
    and run: "register_listing reader new_v4 actor command payload prefetched now d = Inr (Inr s, d')"
  shows "books_ok d' \<and> auctions_ok d' \<and> holds_listed d'
    \<and> (\<exists>l. listing_written (cmd_aggregate_id command) (fetch_listing d (cmd_aggregate_id command)) l d d'
         \<and> carries_registration payload (fetch_listing d (cmd_aggregate_id command)) l \<and> hs_result s = ResultListing l)"
proof -
  let ?a = "cmd_aggregate_id command"
  let ?c = "fetch_listing d ?a" and ?r = "fetch_auction_reserve d ?a"
  have cand: "refuse_auction_candidate reader payload prefetched = None"
    and cur: "register_current_refusal command payload prefetched ?c = None"
    and edit: "(case ?c of None \<Rightarrow> Inr None | Some c \<Rightarrow> validate_edit c ?r payload now) = Inr None"
    and app: "apply_registration new_v4 actor (cmd_command_id command) ?a payload ?c ?r ''listing.registered'' now d = Inr (Inr s, d')"
    using run by (auto simp: register_listing_def Let_def refuse_def split: if_split_asm option.split_asm sum.split_asm)
  have ag: "auction_agrees d (case ?c of None \<Rightarrow> inserted_listing ?a payload now | Some c \<Rightarrow> reregistered_listing payload c now c)"
  proof (cases ?c)
    case None
    then show ?thesis using inserted_agrees [OF ok(3) None refuse_auction_candidate_None [OF cand]] by simp
  next
    case (Some c)
    have "c \<in> set (st_listings d)" using fetch_Some [OF Some [unfolded fetch_listing_def]] by simp
    then have "auction_agrees d c" using ok(2) by (simp add: auctions_ok_def list_all_iff auction_agrees_def)
    moreover have "validate_edit c ?r payload now = Inr None" using edit Some by simp
    moreover from this have "ls_sale_format c = sale_format_str (rl_sale_format payload)"
      by (auto simp: validate_edit_def split: if_split_asm)
    ultimately show ?thesis using reregistered_agrees Some by simp
  qed
  show ?thesis by (rule apply_registration_books [OF ok app ag])
qed

section \<open>Tombstones\<close>

lemma fence_no_raise: "tombstone_fence cursor epoch l \<Longrightarrow> \<not> deletion_guard_raises True epoch cursor l"
  by (auto simp: tombstone_fence_def deletion_guard_raises_def split: option.split_asm)

lemma find_key:
  assumes t: "table_ok key check rows" and r: "fetch key k rows = Some r"
  shows "find (\<lambda>x. key x = k \<and> P x) rows = (if P r then Some r else None)"
proof -
  have "(key x = k \<and> P x) = (key x = k \<and> P r)" if "x \<in> set rows" for x
    using fetch_unique [OF t r that] by auto
  then have "find (\<lambda>x. key x = k \<and> P x) rows = find (\<lambda>x. key x = k \<and> P r) rows"
    by (intro find_cong) auto
  then show ?thesis using r by (cases "P r") (simp_all add: fetch_def find_None_iff)
qed

lemma tombstone_run:
  assumes ok: "books_ok d" and c: "fetch_listing d a = Some c"
    and run: "tombstone new_v4 True a cursor epoch actor k now d = Inr (outcome, d')"
  shows "(outcome = None \<and> d' = d \<and> (is_deleted c \<or> \<not> tombstone_fence cursor epoch c))
    \<or> (\<exists>l e. outcome = Some (l, e) \<and> tombstoned a cursor now c l d d' \<and> books_ok d')"
proof (cases "is_deleted c \<or> \<not> tombstone_fence cursor epoch c")
  case True
  have t: "table_ok ls_aggregate_id listing_check (st_listings d)"
    using ok by (simp add: books_ok_def stock_ok_def stock_tables_ok_def)
  show ?thesis
    using run True find_key [OF t c [unfolded fetch_listing_def], of "\<lambda>l. \<not> is_deleted l \<and> tombstone_fence cursor epoch l"]
    by (auto simp: tombstone_def Let_def)
next
  case False
  let ?P = "\<lambda>l. \<not> is_deleted l \<and> tombstone_fence cursor epoch l"
  let ?d1 = "release_listing_bindings (ls_seller_pubky c) (ls_listing_id c) d"
  let ?f = "\<lambda>l. record_epoch_trigger l (l\<lparr>ls_deleted_at := Some now, ls_deleted_event_cursor := Some cursor,
                               ls_server_revision := ls_server_revision l + 1, ls_updated_at := now\<rparr>)"
  have d1: "st_listings ?d1 = st_listings d" "st_reservations ?d1 = st_reservations d" "st_orders ?d1 = st_orders d"
    "st_drops ?d1 = st_drops d" "st_drop_purchases ?d1 = st_drop_purchases d" "st_payments ?d1 = st_payments d" "st_bids ?d1 = st_bids d"
    by (simp_all add: release_listing_bindings_def)
  have b1: "books_ok ?d1" using ok books_ok_cong [of ?d1 d] d1 by simp
  then have t1: "table_ok ls_aggregate_id listing_check (st_listings ?d1)"
    by (simp add: books_ok_def stock_ok_def stock_tables_ok_def)
  have c1: "fetch_listing ?d1 a = Some c" using c by (simp add: fetch_listing_def d1)
  have "find (\<lambda>l. ls_aggregate_id l = a \<and> ?P l) (st_listings d) = Some c"
    using find_key [OF t1 c1 [unfolded fetch_listing_def], of ?P] False by (simp add: d1)
  then obtain w d2 where u: "update_listings (\<lambda>l. ls_aggregate_id l = a \<and> ?P l) ?f ?d1 = Inr (w, d2)"
    and rest: "(case w of [] \<Rightarrow> Inr (None, d) | deleted # _ \<Rightarrow>
        seq (insert_event new_v4 k a (ls_server_revision deleted) actor LISTING_DELETED_EVENT now d2)
          (\<lambda>event_id d3. Inr (Some (deleted, event_id), d3))) = Inr (outcome, d')"
    using run by (auto simp: tombstone_def Let_def seq_eq_Inr split: if_split_asm)
  have "update_listings (\<lambda>l. ls_aggregate_id l = a) ?f ?d1 = Inr (w, d2)"
    using u listings.upd_cas [OF t1 c1 [unfolded fetch_listing_def], of ?P ?f] False by simp
  note e = update_listing_books [OF b1 c1 this]
  have w: "w = [?f c]" by (rule e(3)) simp_all
  obtain event where ev: "insert_event new_v4 k a (ls_server_revision (?f c)) actor LISTING_DELETED_EVENT now d2 = Inr (event, d')"
    and o': "outcome = Some (?f c, event)"
    using rest unfolding w by (auto simp: seq_eq_Inr)
  note log = insert_event_log [OF ev]
  have lw2: "listing_written a (Some c) (?f c) ?d1 d2" by (rule e(2)) simp_all
  have "listing_written a (Some c) (?f c) d d2"
    using lw2 unfolding listing_written_def fetch_listing_def d1 .
  then have lw: "listing_written a (Some c) (?f c) d d'" using log by (rule listing_written_log)
  have "books_ok d2" by (rule e(1)) simp_all
  then have b: "books_ok d'" using books_log(1) [OF log] by simp
  have d2: "d2 = ?d1\<lparr>st_listings := map (\<lambda>l. if ls_aggregate_id l = a then ?f l else l) (st_listings ?d1)\<rparr>"
    by (rule e(5)) simp_all
  have "listing_check (?f c)" by (rule e(4)) simp_all
  then have cur: "is_cursor cursor" by (simp add: listing_check_def deletion_evidence_check_def split: option.split_asm)
  have "st_drop_listings d' = st_drop_listings ?d1" using log_stepD(8) [OF log] by (simp add: d2)
  then have rel: "list_all (\<lambda>b. dg_seller_pubky b = ls_seller_pubky c \<and> dg_listing_id b = ls_listing_id c \<longrightarrow> dg_released b)
      (st_drop_listings d')"
    by (auto simp: release_listing_bindings_def list_all_iff)
  have "ls_server_revision (?f c) = ls_server_revision c + 1" "ls_generation (?f c) = ls_generation c"
    "ls_record_epoch (?f c) = ls_record_epoch c"
    using False by (auto simp: record_epoch_trigger_def is_deleted_def)
  then have "tombstoned a cursor now c (?f c) d d'"
    using lw rel cur False by (simp add: tombstoned_def tombstone_fence_def)
  then show ?thesis using o' b by blast
qed

section \<open>Syncing\<close>

lemma agrees_kept:
  assumes "auction_agrees d c" "ls_sale_format l = ls_sale_format c" "ls_auction l = ls_auction c"
    "ls_unit_price_amount_minor l = ls_unit_price_amount_minor c" "ls_aggregate_id l = ls_aggregate_id c"
  shows "auction_agrees d l"
proof -
  have "bidding_ok d l x = bidding_ok d c x" for x using assms(4,5) by (simp add: bidding_ok_def)
  moreover have "parse_auction l = parse_auction c" using assms(2,3) by (simp add: parse_auction_def)
  ultimately show ?thesis using assms(1) by (cases "parse_auction c") (simp_all add: auction_agrees_def)
qed

lemma fetch_agrees: "auctions_ok d \<Longrightarrow> fetch_listing d a = Some c \<Longrightarrow> auction_agrees d c"
  unfolding auctions_ok_def list_all_iff auction_agrees_def fetch_listing_def by (blast dest: fetch_Some)

lemma fixed_price_agrees: "ls_sale_format l \<noteq> ''auction'' \<Longrightarrow> auction_agrees d l"
  by (simp add: auction_agrees_def parse_auction_def)

text \<open>An update that leaves the stock and the auction of a listing alone.\<close>

lemma touch_listing:
  assumes ok: "books_ok d" "auctions_ok d" "holds_listed d" and c: "fetch_listing d a = Some c"
    and u: "update_listings (\<lambda>l. ls_aggregate_id l = a) f d = Inr (w, d1)" and log: "log_step d1 d'"
    and f: "\<And>l. ls_aggregate_id (f l) = ls_aggregate_id l" "ls_reserved_quantity (f c) = ls_reserved_quantity c"
      "ls_sale_format (f c) = ls_sale_format c" "ls_auction (f c) = ls_auction c"
      "ls_unit_price_amount_minor (f c) = ls_unit_price_amount_minor c"
  shows "books_ok d' \<and> auctions_ok d' \<and> holds_listed d' \<and> listing_written a (Some c) (f c) d d' \<and> w = [f c]"
proof -
  note e = update_listing_books [OF ok(1) c u f(1,2)]
  have b: "books_ok d'" using e(1) books_log(1) [OF log] by simp
  have lw: "listing_written a (Some c) (f c) d d'" using e(2) log by (rule listing_written_log)
  have "auction_agrees d (f c)" using agrees_kept [OF fetch_agrees [OF ok(2) c]] f by simp
  then show ?thesis using b lw auctions_ok_written [OF ok(2) lw b] holds_listed_written [OF ok(3) lw] e(3) by blast
qed

lemma confirm_record_effect:
  assumes ok: "books_ok d" "auctions_ok d" "holds_listed d" and c: "fetch_listing d a = Some c" "\<not> is_deleted c"
    and run: "confirm_record a d = Inr (u, d')"
  shows "books_ok d' \<and> auctions_ok d' \<and> holds_listed d'
    \<and> (\<exists>l. listing_written a (Some c) l d d' \<and> synced_live (Some c) registration l)"
proof -
  let ?f = "\<lambda>l. record_epoch_trigger l (l\<lparr>ls_record_epoch := ls_record_epoch l + 1\<rparr>)"
  obtain w where "update_listings (\<lambda>l. ls_aggregate_id l = a) ?f d = Inr (w, d')"
    using run by (auto simp: confirm_record_def seq_eq_Inr)
  note t = touch_listing [OF ok c(1) this log_step_refl]
  have "synced_live (Some c) registration (?f c)"
    using c by (auto simp: synced_live_def record_epoch_trigger_def is_deleted_def)
  then show ?thesis using t by auto
qed

lemma healed_effect:
  assumes ok: "books_ok d" "auctions_ok d" "holds_listed d" and c: "fetch_listing d a = Some c" "\<not> is_deleted c"
    and differ: "derived_fields_differ registration c"
    and u: "update_listings (\<lambda>l. ls_aggregate_id l = a) (healed_listing registration now) d = Inr (w, d1)" and log: "log_step d1 d'"
  shows "books_ok d' \<and> auctions_ok d' \<and> holds_listed d'
    \<and> (\<exists>l. listing_written a (Some c) l d d' \<and> synced_live (Some c) registration l)"
proof -
  have f: "ls_aggregate_id (healed_listing registration now l) = ls_aggregate_id l"
    "ls_reserved_quantity (healed_listing registration now l) = ls_reserved_quantity l"
    "ls_sale_format (healed_listing registration now l) = ls_sale_format l"
    "ls_auction (healed_listing registration now l) = ls_auction l"
    "ls_unit_price_amount_minor (healed_listing registration now l) = ls_unit_price_amount_minor l" for l
    by (simp_all add: healed_listing_def)
  have "ls_record_epoch (healed_listing registration now c) = ls_record_epoch c + 1"
    using differ c(2)
    by (auto simp: healed_listing_def listing_triggers_def revival_trigger_def record_epoch_trigger_def is_deleted_def
        derived_fields_differ_def lock_columns_def)
  moreover have "\<not> is_deleted (healed_listing registration now c)" using c(2) by (simp add: healed_listing_def is_deleted_def)
  ultimately have "synced_live (Some c) registration (healed_listing registration now c)"
    using c(2) by (simp add: synced_live_def f) (simp add: healed_listing_def)
  then show ?thesis using touch_listing [OF ok c(1) u log f(1) f(2-5)] by blast
qed

text \<open>What a sync that found the record does.\<close>

lemma register_synced:
  assumes ok: "books_ok d" "auctions_ok d" "holds_listed d"
    and run: "apply_registration new_v4 actor k a registration (fetch_listing d a) None event now d = Inr (Inr s, d')"
    and f: "rl_sale_format registration = FixedPrice"
    and newer: "case fetch_listing d a of None \<Rightarrow> True
                | Some x \<Rightarrow> is_deleted x \<or> ls_listing_revision x < rl_listing_revision registration"
  shows "books_ok d' \<and> auctions_ok d' \<and> holds_listed d'
    \<and> (\<exists>l. listing_written a (fetch_listing d a) l d d' \<and> synced_live (fetch_listing d a) registration l)"
proof -
  have "auction_agrees d (case fetch_listing d a of None \<Rightarrow> inserted_listing a registration now
      | Some c \<Rightarrow> reregistered_listing registration c now c)"
    using f by (intro fixed_price_agrees)
      (simp add: inserted_listing_def reregistered_listing_def Let_def split: option.split)
  note r = apply_registration_books [OF ok run this]
  then obtain l where l: "listing_written a (fetch_listing d a) l d d'" "carries_registration registration (fetch_listing d a) l" by blast
  have "synced_live (fetch_listing d a) registration l"
    using l(2) newer by (auto simp: synced_live_def carries_registration_def split: option.split)
  then show ?thesis using r l by blast
qed

lemma sync_settled_effect:
  assumes ok: "books_ok d" "auctions_ok d" "holds_listed d" and c: "fetch_listing d (cmd_aggregate_id command) = Some c" "\<not> is_deleted c"
    and run: "sync_settled new_v4 actor command registration c now d = Inr (Inr s, d')"
  shows "books_ok d' \<and> auctions_ok d' \<and> holds_listed d'
    \<and> (\<exists>l. listing_written (cmd_aggregate_id command) (Some c) l d d' \<and> synced_live (Some c) registration l)"
proof (cases "rl_listing_revision registration = ls_listing_revision c \<and> derived_fields_differ registration c")
  case True
  then obtain w d1 e r where u: "update_listings (\<lambda>l. ls_aggregate_id l = cmd_aggregate_id command) (healed_listing registration now) d = Inr (w, d1)"
    and e: "insert_event new_v4 (cmd_command_id command) (cmd_aggregate_id command) r actor ''listing.synced'' now d1 = Inr (e, d')"
    using run by (auto simp: sync_settled_def seq_eq_Inr fetch_one_Inr projected_def split: option.split_asm)
  show ?thesis using healed_effect [OF ok c _ u insert_event_log [OF e]] True by blast
next
  case False
  then have "confirm_record (cmd_aggregate_id command) d = Inr ((), d')"
    using run by (auto simp: sync_settled_def seq_eq_Inr projected_def split: option.split_asm)
  then show ?thesis using confirm_record_effect [OF ok c] by blast
qed

lemma sync_auction_effect:
  assumes ok: "books_ok d" "auctions_ok d" "holds_listed d" and c: "fetch_listing d (cmd_aggregate_id command) = Some c" "\<not> is_deleted c"
    and run: "sync_auction actor command registration c d = Inr (Inr s, d')"
  shows "books_ok d' \<and> auctions_ok d' \<and> holds_listed d'
    \<and> (\<exists>l. listing_written (cmd_aggregate_id command) (Some c) l d d' \<and> synced_live (Some c) registration l)"
proof -
  have "confirm_record (cmd_aggregate_id command) d = Inr ((), d')"
    using run by (auto simp: sync_auction_def refuse_def seq_eq_Inr projected_def split: option.split_asm if_split_asm)
  then show ?thesis using confirm_record_effect [OF ok c] by blast
qed

lemma sync_found:
  assumes ok: "books_ok d" "auctions_ok d" "holds_listed d"
    and v: "hc_fetch_listing client (sl_seller_pubky payload) (sl_listing_id payload) = Found v"
    and run: "sync_listing reader (Some client) new_v4 actor command payload now d = Inr (Inr s, d')"
  obtains registration l where "sync_registration reader payload v = Inr registration"
    "listing_written (cmd_aggregate_id command) (fetch_listing d (cmd_aggregate_id command)) l d d'"
    "synced_live (fetch_listing d (cmd_aggregate_id command)) registration l"
    "books_ok d'" "auctions_ok d'" "holds_listed d'"
proof -
  let ?a = "cmd_aggregate_id command"
  obtain registration where reg: "sync_registration reader payload v = Inr registration"
    using run v by (auto simp: sync_listing_def refuse_def split: if_split_asm sum.split_asm)
  have fixed: "rl_sale_format registration = FixedPrice" if "rl_sale_format registration \<noteq> Auction"
    using that by (cases "rl_sale_format registration") auto
  have "books_ok d' \<and> auctions_ok d' \<and> holds_listed d'
    \<and> (\<exists>l. listing_written ?a (fetch_listing d ?a) l d d' \<and> synced_live (fetch_listing d ?a) registration l)"
  proof (cases "fetch_listing d ?a")
    case None
    then have r: "apply_registration new_v4 actor (cmd_command_id command) ?a registration (fetch_listing d ?a) None ''listing.synced'' now d
        = Inr (Inr s, d')" "rl_sale_format registration \<noteq> Auction"
      using run v reg by (auto simp: sync_listing_def refuse_def split: if_split_asm)
    show ?thesis by (rule register_synced [OF ok r(1) fixed [OF r(2)]]) (simp add: None)
  next
    case (Some c)
    consider (settled) "\<not> is_deleted c" "sync_settled new_v4 actor command registration c now d = Inr (Inr s, d')"
      | (auction) "\<not> is_deleted c" "sync_auction actor command registration c d = Inr (Inr s, d')"
      | (register) "is_deleted c \<or> ls_listing_revision c < rl_listing_revision registration" "rl_sale_format registration \<noteq> Auction"
          "apply_registration new_v4 actor (cmd_command_id command) ?a registration (fetch_listing d ?a) None ''listing.synced'' now d
             = Inr (Inr s, d')"
      using run v reg Some by (auto simp: sync_listing_def refuse_def not_le split: if_split_asm)
    then show ?thesis
    proof cases
      case settled
      then show ?thesis using sync_settled_effect [OF ok Some] Some by simp
    next
      case auction
      then show ?thesis using sync_auction_effect [OF ok Some] Some by simp
    next
      case register
      show ?thesis by (rule register_synced [OF ok register(3) fixed [OF register(2)]]) (use register(1) Some in simp)
    qed
  qed
  with reg that show thesis by blast
qed

lemma settle_missing_record_effect:
  assumes ok: "books_ok d" "auctions_ok d" "holds_listed d"
    and run: "settle_missing_record new_v4 actor command payload client now d = Inr (Inr s, d')"
  obtains (already) c where "fetch_listing d (cmd_aggregate_id command) = Some c" "is_deleted c" "d' = d"
  | (deleted) c cursor l where "latest_event_is_delete client (sl_seller_pubky payload) (sl_listing_id payload) = Deleted cursor"
      "tombstoned (cmd_aggregate_id command) cursor now c l d d'" "hs_result s = ResultListingDeleted l"
      "books_ok d'" "auctions_ok d'" "holds_listed d'"
proof -
  let ?a = "cmd_aggregate_id command"
  obtain c where c: "fetch_listing d ?a = Some c"
    using run by (auto simp: settle_missing_record_def refuse_def split: option.split_asm)
  show thesis
  proof (cases "is_deleted c")
    case True
    then have "d' = d" using run c by (simp add: settle_missing_record_def)
    with c True show thesis by (rule already)
  next
    case False
    then obtain cursor outcome d1 where
      cur: "latest_event_is_delete client (sl_seller_pubky payload) (sl_listing_id payload) = Deleted cursor"
      and t: "tombstone new_v4 True ?a cursor (ls_record_epoch c) actor (cmd_command_id command) now d = Inr (outcome, d1)"
      and rest: "(case outcome of Some (deleted, event_id) \<Rightarrow> Inr (Inr (deleted_success deleted [event_id]), d1)
         | None \<Rightarrow> (case fetch_listing d1 ?a of
              Some deleted \<Rightarrow> if is_deleted deleted then Inr (Inr (deleted_success deleted []), d1) else refuse record_not_found d1
            | None \<Rightarrow> refuse record_not_found d1)) = Inr (Inr s, d')"
      using run c by (auto simp: settle_missing_record_def observe_live_def refuse_def seq_eq_Inr split: deletion_check.split_asm)
    have "outcome \<noteq> None" using rest tombstone_run [OF ok(1) c t] c False by (auto simp: refuse_def)
    then obtain l e where o': "outcome = Some (l, e)" "tombstoned ?a cursor now c l d d1" "books_ok d1"
      using tombstone_run [OF ok(1) c t] by blast
    then have d': "d' = d1" "hs_result s = ResultListingDeleted l" using rest by (auto simp: deleted_success_def)
    have lw: "listing_written ?a (Some c) l d d1" using o'(2) by (simp add: tombstoned_def)
    have "auction_agrees d l"
      by (rule agrees_kept [OF fetch_agrees [OF ok(2) c]])
        (use o'(2) fetch_Some [OF c [unfolded fetch_listing_def]] in \<open>auto simp: tombstoned_def listing_written_def fetch_listing_def dest: fetch_Some\<close>)
    then have "auctions_ok d1" using auctions_ok_written [OF ok(2) lw o'(3)] by blast
    then show thesis using deleted [OF cur] o' d' holds_listed_written [OF ok(3) lw] by blast
  qed
qed

section \<open>Properties\<close>

text \<open>C13: A registration the seller's command is accepted for leaves exactly its own listing changed: the listing carries
  the command's price, title and stock, what is reserved and sold stays, the rest is available, and the revision moves by
  one.  The reserved units still equal what the reservations and held orders account for, and every auction document still
  agrees with its bids.\<close>

theorem registration_keeps_books:
  assumes "books_ok d" "auctions_ok d" "holds_listed d"
    and "register_listing reader new_v4 actor command payload prefetched now d = Inr (Inr s, d')"
  shows "books_ok d' \<and> auctions_ok d' \<and> holds_listed d'
    \<and> (\<exists>l. listing_written (cmd_aggregate_id command) (fetch_listing d (cmd_aggregate_id command)) l d d'
         \<and> carries_registration payload (fetch_listing d (cmd_aggregate_id command)) l \<and> hs_result s = ResultListing l)"
  using assms by (rule register_listing_books)

lemma sample_shop_ok: "books_ok sample_shop_db" "auctions_ok sample_shop_db" "holds_listed sample_shop_db"
  by code_simp+

theorem registration_keeps_books_witness:
  "\<exists>s d' l. register_listing sample_reader show_nat ''seller'' sample_register sample_registration NotNeeded 50 sample_shop_db
      = Inr (Inr s, d') \<and> books_ok d' \<and> hs_result s = ResultListing l \<and> ls_total_quantity l = 9"
proof -
  let ?r = "register_listing sample_reader show_nat ''seller'' sample_register sample_registration NotNeeded 50 sample_shop_db"
  have "?r = Inr (Inr (projr (fst (projr ?r))), snd (projr ?r))" by code_simp
  from registration_keeps_books [OF sample_shop_ok this] this
  show ?thesis by (fastforce simp: carries_registration_def sample_registration_def)
qed



end
