(* ===== verification/Delivery.thy ===== *)
theory Delivery
  imports Checkout
begin

text \<open>
  What a seller hands over outside the post: \<^verbatim>\<open>handlers/pickup.rs\<close> (the sealed pickup details of a listing, and
  their reveal to a buyer who paid), \<^verbatim>\<open>handlers/digital.rs\<close> (the sealed deliverable of a listing) and
  \<^verbatim>\<open>handlers/digital_manual.rs\<close> (the buyer's delivery email, and marking a purchase delivered).  The serde
  serializers are parameters; a seal draws its nonce from the key ring.
\<close>

section \<open>Shared\<close>

text \<open>\<open>String::from_utf8\<close>: the byte sequences of RFC 3629.\<close>

definition is_cont_byte :: "nat \<Rightarrow> nat \<Rightarrow> char \<Rightarrow> bool" where
  "is_cont_byte lo hi c \<longleftrightarrow> lo \<le> byte c \<and> byte c \<le> hi"

fun is_utf8 :: "string \<Rightarrow> bool" where
  "is_utf8 [] \<longleftrightarrow> True"
| "is_utf8 (a # rest) \<longleftrightarrow>
     (if byte a < 128 then is_utf8 rest
      else if 194 \<le> byte a \<and> byte a \<le> 223
      then (case rest of b # r \<Rightarrow> is_cont_byte 128 191 b \<and> is_utf8 r | _ \<Rightarrow> False)
      else if 224 \<le> byte a \<and> byte a \<le> 239
      then (case rest of
              b # c # r \<Rightarrow> is_cont_byte (if byte a = 224 then 160 else 128) (if byte a = 237 then 159 else 191) b
                \<and> is_cont_byte 128 191 c \<and> is_utf8 r
            | _ \<Rightarrow> False)
      else if 240 \<le> byte a \<and> byte a \<le> 244
      then (case rest of
              b # c # e # r \<Rightarrow> is_cont_byte (if byte a = 240 then 144 else 128) (if byte a = 244 then 143 else 191) b
                \<and> is_cont_byte 128 191 c \<and> is_cont_byte 128 191 e \<and> is_utf8 r
            | _ \<Rightarrow> False)
      else False)"

definition from_utf8 :: "string \<Rightarrow> string option" where
  "from_utf8 bytes = (if is_utf8 bytes then Some bytes else None)"

text \<open>\<open>SELECT COALESCE(MAX(revision), 0) + 1 FROM events WHERE aggregate_id = $1\<close>.\<close>

definition next_event_revision :: "db \<Rightarrow> string \<Rightarrow> int" where
  "next_event_revision d aggregate_id =
     (case [ev_revision e. e \<leftarrow> st_events d, ev_aggregate_id e = aggregate_id] of
        [] \<Rightarrow> 1 | r # rs \<Rightarrow> foldl max r rs + 1)"

definition strip_listing :: "string \<Rightarrow> string" where
  "strip_listing aggregate_id = (case strip_prefix ''listing:'' aggregate_id of Some s \<Rightarrow> s | None \<Rightarrow> aggregate_id)"

datatype read_failure = ReadError error_code string "string option" | InternalError string

definition line_names :: "string \<Rightarrow> order_row \<Rightarrow> bool" where
  "line_names aggregate_id order \<longleftrightarrow> list_ex (\<lambda>line. ol_listing_aggregate_id line = aggregate_id) (or_lines order)"

section \<open>Pickup details\<close>

definition TERMINAL_ORDER_STATES :: "string list" where
  "TERMINAL_ORDER_STATES = [''completed'', ''cancelled'', ''refunded_external'', ''closed'']"

definition PICKUP_UNAVAILABLE :: string where
  "PICKUP_UNAVAILABLE = ''Pickup is unavailable on this deployment.''"

definition details_aggregate_id :: "string \<Rightarrow> string" where
  "details_aggregate_id aggregate_id = ''pickup_details:'' @ strip_listing aggregate_id"

definition pickup_unavailable :: command_failure where
  "pickup_unavailable = refused RInvalidState InvalidState PICKUP_UNAVAILABLE"

definition guard_details_command ::
  "db \<Rightarrow> pubky \<Rightarrow> command \<Rightarrow> keyring option \<Rightarrow> bool \<Rightarrow> command_failure + keyring \<times> listing_row" where
  "guard_details_command d actor command pickup sandbox_payments_enabled =
     (case pickup of
        None \<Rightarrow> Inl pickup_unavailable
      | Some keys \<Rightarrow>
          if sandbox_payments_enabled then Inl pickup_unavailable
          else
            (case fetch_listing d (cmd_aggregate_id command) of
               None \<Rightarrow> Inl (refused RNotFound NotFound ''The listing was not found.'')
             | Some listing \<Rightarrow>
                 if ls_seller_pubky listing \<noteq> actor
                 then Inl (refused RUnauthorized Unauthorized ''Only the listing seller may manage its pickup details.'')
                 else Inr (keys, listing)))"

definition pickup_counter_check :: "pickup_counter_row \<Rightarrow> bool" where
  "pickup_counter_check c \<longleftrightarrow> 0 \<le> pc_last_version c"

definition pickup_details_check :: "pickup_details_row \<Rightarrow> bool" where
  "pickup_details_check v \<longleftrightarrow> 0 < pv_version v"

text \<open>The counter row exists afterwards: \<open>INSERT ... ON CONFLICT DO NOTHING\<close>.\<close>

definition ensure_pickup_counter :: "listing_row \<Rightarrow> datetime \<Rightarrow> db \<Rightarrow> db" where
  "ensure_pickup_counter listing now d =
     (if list_ex (\<lambda>c. pc_aggregate_id c = ls_aggregate_id listing) (st_pickup_counters d) then d
      else d\<lparr>st_pickup_counters := st_pickup_counters d @
             [\<lparr>pc_aggregate_id = ls_aggregate_id listing, pc_seller_pubky = ls_seller_pubky listing, pc_last_version = 0,
               pc_cleared_at = None, pc_updated_at = now\<rparr>]\<rparr>)"

definition pickup_counter_cas ::
  "listing_row \<Rightarrow> int \<Rightarrow> datetime \<Rightarrow> db \<Rightarrow> (command_failure + pickup_counter_row) tx" where
  "pickup_counter_cas listing expected_version now d =
     (let d1 = ensure_pickup_counter listing now d
      in case fetch pc_aggregate_id (ls_aggregate_id listing) (st_pickup_counters d1) of
           None \<Rightarrow> Inl RowNotFound
         | Some counter \<Rightarrow>
             if pc_last_version counter \<noteq> expected_version
             then refuse (refused_with_revision RRevisionConflict RevisionConflict
                    ''The pickup details version is stale.'' (pc_last_version counter)) d1
             else Inr (Inr counter, d1))"

definition update_pickup_counters ::
  "string \<Rightarrow> (pickup_counter_row \<Rightarrow> pickup_counter_row) \<Rightarrow> db \<Rightarrow> unit tx" where
  "update_pickup_counters aggregate_id f d =
     seq (sql_update pickup_counter_check (\<lambda>c. pc_aggregate_id c = aggregate_id) f (st_pickup_counters d))
       (\<lambda>_ rows. Inr ((), d\<lparr>st_pickup_counters := rows\<rparr>))"

text \<open>The orders whose buyers still wait for a paid pickup of this listing.\<close>

definition awaits_pickup :: "string \<Rightarrow> order_row \<Rightarrow> bool" where
  "awaits_pickup aggregate_id order \<longleftrightarrow>
     or_fulfillment order = ''pickup'' \<and> or_receipt_id order \<noteq> None \<and> or_state order \<notin> set TERMINAL_ORDER_STATES
     \<and> line_names aggregate_id order"

fun notify_each ::
  "uuid_source \<Rightarrow> command \<Rightarrow> string \<Rightarrow> string \<Rightarrow> pubky \<Rightarrow> datetime \<Rightarrow> (pubky \<times> uuid) list \<Rightarrow> int \<Rightarrow> db \<Rightarrow> unit tx" where
  "notify_each new_v4 command notification_type details_aggregate actor now [] revision d = Inr ((), d)"
| "notify_each new_v4 command notification_type details_aggregate actor now ((buyer, order_id) # buyers) revision d =
     seq (insert_event new_v4 (cmd_command_id command) details_aggregate revision actor ''pickup_details.buyer_notified'' now d)
       (\<lambda>event_id d1.
          notify_each new_v4 command notification_type details_aggregate actor now buyers (revision + 1)
            (insert_notification_intent event_id notification_type buyer actor (order_aggregate_id order_id) None now d1))"

definition notify_paid_buyers ::
  "uuid_source \<Rightarrow> command \<Rightarrow> string \<Rightarrow> listing_row \<Rightarrow> pubky \<Rightarrow> datetime \<Rightarrow> db \<Rightarrow> unit tx" where
  "notify_paid_buyers new_v4 command notification_type listing actor now d =
     (let buyers = remdups (map (\<lambda>o'. (or_buyer_pubky o', or_id o'))
                      (filter (awaits_pickup (ls_aggregate_id listing)) (st_orders d)));
          details_aggregate = details_aggregate_id (ls_aggregate_id listing)
      in if buyers = [] then Inr ((), d)
         else notify_each new_v4 command notification_type details_aggregate actor now buyers
                (next_event_revision d details_aggregate) d)"

text \<open>The event of a details command and the notices, in the order of the handlers.\<close>

definition finish_details ::
  "uuid_source \<Rightarrow> command \<Rightarrow> listing_row \<Rightarrow> pubky \<Rightarrow> string \<Rightarrow> string \<Rightarrow> int \<Rightarrow> bool \<Rightarrow> datetime \<Rightarrow> db \<Rightarrow> handler_result tx" where
  "finish_details new_v4 command listing actor event_kind notification_type version cleared now d =
     (let details_aggregate = details_aggregate_id (ls_aggregate_id listing)
      in seq (insert_event new_v4 (cmd_command_id command) details_aggregate (next_event_revision d details_aggregate)
                actor event_kind now d)
           (\<lambda>event_id d1.
              seq (notify_paid_buyers new_v4 command notification_type listing actor now d1)
                (\<lambda>_ d2. Inr (Inr \<lparr>hs_revision = version, hs_event_ids = [event_id],
                     hs_result = ResultPickupDetails (ls_aggregate_id listing) version cleared (format_timestamp now)\<rparr>, d2))))"

definition set_pickup_details ::
  "(pickup_details \<Rightarrow> string) \<Rightarrow> uuid_source \<Rightarrow> pubky \<Rightarrow> command \<Rightarrow> set_pickup_details_payload \<Rightarrow> keyring option \<Rightarrow> bool
     \<Rightarrow> datetime \<Rightarrow> db \<Rightarrow> handler_result tx" where
  "set_pickup_details to_vec new_v4 actor command payload pickup sandbox_payments_enabled now d =
     (case guard_details_command d actor command pickup sandbox_payments_enabled of
        Inl failure \<Rightarrow> refuse failure d
      | Inr (keys, listing) \<Rightarrow>
          if \<not> list_ex (\<lambda>m. m = ''pickup'') (ls_fulfillment_methods listing)
          then refuse (refused RInvalidState InvalidState ''The listing does not publish pickup.'') d
          else
            attempt (pickup_counter_cas listing (spd_expected_version payload) now d)
              (\<lambda>counter d1.
                 let new_version = pc_last_version counter + 1;
                     (ciphertext, d2) = draw_seal keys (details_aad (ls_aggregate_id listing) new_version)
                        (to_vec (spd_details payload)) d1
                 in seq (sql_insert pickup_details_check
                           (\<lambda>a b. pv_aggregate_id a = pv_aggregate_id b \<and> pv_version a = pv_version b)
                           \<lparr>pv_aggregate_id = ls_aggregate_id listing, pv_seller_pubky = ls_seller_pubky listing,
                            pv_version = new_version, pv_ciphertext = ciphertext, pv_created_at = now, pv_updated_at = now\<rparr>
                           (st_pickup_details d2))
                      (\<lambda>_ rows.
                         seq (update_pickup_counters (ls_aggregate_id listing)
                                (\<lambda>c. c\<lparr>pc_last_version := new_version, pc_cleared_at := None, pc_updated_at := now\<rparr>)
                                (d2\<lparr>st_pickup_details := rows\<rparr>))
                           (\<lambda>_. finish_details new_v4 command listing actor ''pickup_details.set'' ''pickup_details_updated''
                                   new_version False now))))"

text \<open>A version a live paid order pinned outlives a clear.\<close>

definition pinned_by_live_order :: "db \<Rightarrow> pickup_details_row \<Rightarrow> bool" where
  "pinned_by_live_order d v \<longleftrightarrow>
     list_ex (\<lambda>s. ps_listing_aggregate_id s = pv_aggregate_id v \<and> ps_version s = pv_version v
        \<and> list_ex (\<lambda>o'. or_id o' = ps_order_id s \<and> or_receipt_id o' \<noteq> None \<and> or_state o' \<notin> set TERMINAL_ORDER_STATES)
            (st_orders d)) (st_pickup_snapshots d)"

definition clear_pickup_details ::
  "uuid_source \<Rightarrow> pubky \<Rightarrow> command \<Rightarrow> clear_pickup_details_payload \<Rightarrow> keyring option \<Rightarrow> bool \<Rightarrow> datetime \<Rightarrow> db
     \<Rightarrow> handler_result tx" where
  "clear_pickup_details new_v4 actor command payload pickup sandbox_payments_enabled now d =
     (case guard_details_command d actor command pickup sandbox_payments_enabled of
        Inl failure \<Rightarrow> refuse failure d
      | Inr (_, listing) \<Rightarrow>
          attempt (pickup_counter_cas listing (cpd_expected_version payload) now d)
            (\<lambda>counter d1.
               let kept = filter (\<lambda>v. pv_aggregate_id v \<noteq> ls_aggregate_id listing \<or> pinned_by_live_order d1 v)
                            (st_pickup_details d1)
               in seq (update_pickup_counters (ls_aggregate_id listing)
                         (\<lambda>c. c\<lparr>pc_cleared_at := Some now, pc_updated_at := now\<rparr>) (d1\<lparr>st_pickup_details := kept\<rparr>))
                    (\<lambda>_. finish_details new_v4 command listing actor ''pickup_details.cleared'' ''pickup_details_cleared''
                            (pc_last_version counter) True now)))"

section \<open>Reading pickup details\<close>

record 'a owner_details =
  od_listing_aggregate_id :: string
  od_current :: "('a \<times> int \<times> datetime) option"
  od_last_version :: int

text \<open>\<open>from_slice\<close> is \<open>serde_json::from_slice\<close>.\<close>

definition get_listing_pickup_details ::
  "(string \<Rightarrow> 'a option) \<Rightarrow> keyring option \<Rightarrow> pubky \<Rightarrow> string \<Rightarrow> db \<Rightarrow> read_failure + 'a owner_details" where
  "get_listing_pickup_details from_slice pickup actor aggregate_id d =
     (case find (\<lambda>l. ls_aggregate_id l = aggregate_id \<and> ls_seller_pubky l = actor) (st_listings d) of
        None \<Rightarrow> Inl (ReadError NotFound ''The listing was not found.'' None)
      | Some listing \<Rightarrow>
          (case pickup of
             None \<Rightarrow> Inl (ReadError InvalidState PICKUP_UNAVAILABLE None)
           | Some keys \<Rightarrow>
               let last_version = (case fetch pc_aggregate_id (ls_aggregate_id listing) (st_pickup_counters d) of
                                     None \<Rightarrow> 0 | Some c \<Rightarrow> pc_last_version c);
                   answer = (\<lambda>current. Inr \<lparr>od_listing_aggregate_id = ls_aggregate_id listing, od_current = current,
                                             od_last_version = last_version\<rparr>)
               in case current_details d (ls_aggregate_id listing) of
                    None \<Rightarrow> answer None
                  | Some row \<Rightarrow>
                      (case ring_open keys (details_aad (ls_aggregate_id listing) (pv_version row)) (pv_ciphertext row) of
                         None \<Rightarrow> Inl (InternalError ''pickup details open'')
                       | Some plaintext \<Rightarrow>
                           (case from_slice plaintext of
                              None \<Rightarrow> Inl (InternalError ''pickup details parse'')
                            | Some details \<Rightarrow> answer (Some (details, pv_version row, format_timestamp (pv_updated_at row)))))))"

record 'a revealed_line =
  rvl_line_index :: nat
  rvl_aggregate_id :: string
  rvl_version :: int
  rvl_current_version :: "int option"
  rvl_updated_since_payment :: bool
  rvl_withdrawn_by_seller :: bool
  rvl_pinned_at :: datetime
  rvl_details :: 'a

fun reveal_lines ::
  "(string \<Rightarrow> 'a option) \<Rightarrow> keyring \<Rightarrow> uuid \<Rightarrow> db \<Rightarrow> pickup_snapshot_row list \<Rightarrow> read_failure + 'a revealed_line list" where
  "reveal_lines from_slice keys order_id d [] = Inr []"
| "reveal_lines from_slice keys order_id d (s # ss) =
     (case ring_open keys (snapshot_aad order_id (ps_line_index s) (ps_version s)) (ps_ciphertext s) of
        None \<Rightarrow> Inl (InternalError ''pickup snapshot open'')
      | Some plaintext \<Rightarrow>
          (case from_slice plaintext of
             None \<Rightarrow> Inl (InternalError ''pickup snapshot parse'')
           | Some details \<Rightarrow>
               let current = current_pickup_version d (ps_listing_aggregate_id s)
               in case reveal_lines from_slice keys order_id d ss of
                    Inl e \<Rightarrow> Inl e
                  | Inr lines \<Rightarrow>
                      Inr (\<lparr>rvl_line_index = ps_line_index s, rvl_aggregate_id = ps_listing_aggregate_id s,
                            rvl_version = ps_version s, rvl_current_version = current,
                            rvl_updated_since_payment = (case current of None \<Rightarrow> False | Some v \<Rightarrow> ps_version s < v),
                            rvl_withdrawn_by_seller = (current = None), rvl_pinned_at = format_timestamp (ps_created_at s),
                            rvl_details = details\<rparr> # lines)))"

definition reveal_refusal :: "pubky \<Rightarrow> bool \<Rightarrow> order_row \<Rightarrow> read_failure option" where
  "reveal_refusal actor sandbox_payments_enabled order =
     (if or_buyer_pubky order \<noteq> actor
      then Some (ReadError Unauthorized ''Only the buyer may reveal the pickup details.'' None)
      else if sandbox_payments_enabled then Some (ReadError InvalidState PICKUP_UNAVAILABLE None)
      else None)"

definition unpaid_or_over :: "order_row \<Rightarrow> read_failure option" where
  "unpaid_or_over order =
     (if or_receipt_id order = None
      then Some (ReadError InvalidState ''The order carries no payment confirmation.'' None)
      else if or_state order \<in> set TERMINAL_ORDER_STATES
      then Some (ReadError InvalidState ''The order is terminal; the pickup details are no longer revealed.'' None)
      else if or_fulfillment order \<noteq> ''pickup''
      then Some (ReadError InvalidState ''Only pickup orders carry pickup details.'' None)
      else None)"

definition snapshots_of :: "db \<Rightarrow> uuid \<Rightarrow> pickup_snapshot_row list" where
  "snapshots_of d order_id =
     sort_by (\<lambda>a b. ps_line_index a \<le> ps_line_index b) (filter (\<lambda>s. ps_order_id s = order_id) (st_pickup_snapshots d))"

text \<open>\<open>UPDATE orders SET first_revealed_at = $2 ... AND first_revealed_at IS NULL\<close>.\<close>

definition stamp_reveal :: "uuid \<Rightarrow> datetime \<Rightarrow> db \<Rightarrow> order_row list tx" where
  "stamp_reveal order_id now d =
     update_orders (\<lambda>r. or_id r = order_id \<and> or_first_revealed_at r = None) (\<lambda>r. r\<lparr>or_first_revealed_at := Some now\<rparr>) d"

definition get_order_pickup_details ::
  "(string \<Rightarrow> 'a option) \<Rightarrow> keyring option \<Rightarrow> bool \<Rightarrow> pubky \<Rightarrow> uuid \<Rightarrow> datetime \<Rightarrow> db
     \<Rightarrow> (read_failure + datetime \<times> 'a revealed_line list) \<times> db" where
  "get_order_pickup_details from_slice pickup sandbox_payments_enabled actor order_id now d =
     (case find (\<lambda>o'. or_id o' = order_id \<and> (or_buyer_pubky o' = actor \<or> or_seller_pubky o' = actor)) (st_orders d) of
        None \<Rightarrow> (Inl (ReadError NotFound ''The order was not found.'' None), d)
      | Some order \<Rightarrow>
          (case reveal_refusal actor sandbox_payments_enabled order of
             Some e \<Rightarrow> (Inl e, d)
           | None \<Rightarrow>
               (case pickup of
                  None \<Rightarrow> (Inl (ReadError InvalidState PICKUP_UNAVAILABLE None), d)
                | Some keys \<Rightarrow>
                    (case unpaid_or_over order of
                       Some e \<Rightarrow> (Inl e, d)
                     | None \<Rightarrow>
                         let snapshots = snapshots_of d (or_id order)
                         in if list_ex (\<lambda>s. ps_confirming_adapter s = ''sandbox'') snapshots
                            then (Inl (ReadError InvalidState
                              ''This order was confirmed by a sandbox payment; its pickup details are never revealed.'' None), d)
                            else if snapshots = []
                            then (Inl (ReadError InvalidState ''This order carries no pinned pickup details.'' None), d)
                            else
                              (case reveal_lines from_slice keys (or_id order) d snapshots of
                                 Inl e \<Rightarrow> (Inl e, d)
                               | Inr lines \<Rightarrow>
                                   (case stamp_reveal (or_id order) now d of
                                      Inl _ \<Rightarrow> (Inl (InternalError ''first reveal stamp''), d)
                                    | Inr (_, d1) \<Rightarrow>
                                        (Inr (format_timestamp (case or_first_revealed_at order of Some t \<Rightarrow> t | None \<Rightarrow> now),
                                              lines), d1)))))))"

section \<open>Digital delivery of a listing\<close>

definition DIGITAL_ENDED_ORDER_STATES :: "string list" where
  "DIGITAL_ENDED_ORDER_STATES = [''cancelled'', ''refunded_external'', ''closed'']"

datatype taken_back = Reversed | Refunded

definition payment_taken_back :: "order_row \<Rightarrow> taken_back option" where
  "payment_taken_back order =
     (if or_payment_reversed_at order \<noteq> None then Some Reversed
      else if or_external_refund order \<noteq> None \<and> or_state order \<notin> set DIGITAL_ENDED_ORDER_STATES then Some Refunded
      else None)"

definition taken_back_reason :: "taken_back \<Rightarrow> string" where
  "taken_back_reason t = (case t of Reversed \<Rightarrow> ''payment_reversed'' | Refunded \<Rightarrow> ''payment_refunded'')"

definition taken_back_message :: "taken_back \<Rightarrow> string" where
  "taken_back_message t =
     (case t of
        Reversed \<Rightarrow> ''The payment was reversed, so the purchase is no longer available.''
      | Refunded \<Rightarrow> ''PayPal refunded this payment, so the purchase is no longer available.'')"

definition unverifiable :: "error_code \<Rightarrow> refusal_kind \<Rightarrow> command_failure" where
  "unverifiable code kind =
     refused_with_reason kind code ''The deliverable could not be read back from the seller's homeserver.''
       ''deliverable_unverifiable''"

definition events_aggregate_id :: "string \<Rightarrow> string" where
  "events_aggregate_id aggregate_id = ''digital_delivery:'' @ strip_listing aggregate_id"

definition not_seller :: command_failure where
  "not_seller = refused RUnauthorized Unauthorized ''Only the listing seller may manage its digital delivery.''"

definition listing_not_found :: command_failure where
  "listing_not_found = refused RNotFound NotFound ''The listing was not found.''"

definition publishes_digital :: "listing_row \<Rightarrow> bool" where
  "publishes_digital listing \<longleftrightarrow> list_ex (\<lambda>m. m = ''digital'') (ls_fulfillment_methods listing)"

definition not_digital :: command_failure where
  "not_digital = refused RInvalidState InvalidState ''The listing does not publish digital delivery.''"

definition digital_in_use_by :: "string \<Rightarrow> order_row \<Rightarrow> bool" where
  "digital_in_use_by aggregate_id order \<longleftrightarrow>
     or_fulfillment order = ''digital''
     \<and> (or_state order = ''pending_payment''
        \<or> or_receipt_id order \<noteq> None \<and> or_state order \<notin> set DIGITAL_ENDED_ORDER_STATES)
     \<and> line_names aggregate_id order"

definition listing_digital_in_use :: "db \<Rightarrow> string \<Rightarrow> bool" where
  "listing_digital_in_use d aggregate_id \<longleftrightarrow> list_ex (digital_in_use_by aggregate_id) (st_orders d)"

definition in_use :: command_failure where
  "in_use =
     refused_with_reason RInvalidState InvalidState
       ''Buyers are paying for or still downloading this listing's digital delivery.'' ''digital_delivery_in_use''"

definition digital_counter_check :: "digital_counter_row \<Rightarrow> bool" where
  "digital_counter_check c \<longleftrightarrow> 0 \<le> dc_last_version c"

definition ensure_digital_counter :: "listing_row \<Rightarrow> datetime \<Rightarrow> db \<Rightarrow> db" where
  "ensure_digital_counter listing now d =
     (if list_ex (\<lambda>c. dc_listing_aggregate_id c = ls_aggregate_id listing) (st_digital_counters d) then d
      else d\<lparr>st_digital_counters := st_digital_counters d @
             [\<lparr>dc_listing_aggregate_id = ls_aggregate_id listing, dc_seller_pubky = ls_seller_pubky listing,
               dc_last_version = 0, dc_cleared_at = None, dc_updated_at = now\<rparr>]\<rparr>)"

definition digital_counter_cas :: "listing_row \<Rightarrow> int \<Rightarrow> datetime \<Rightarrow> db \<Rightarrow> (command_failure + int) tx" where
  "digital_counter_cas listing expected_version now d =
     (let d1 = ensure_digital_counter listing now d
      in case fetch dc_listing_aggregate_id (ls_aggregate_id listing) (st_digital_counters d1) of
           None \<Rightarrow> Inl RowNotFound
         | Some counter \<Rightarrow>
             if dc_last_version counter \<noteq> expected_version
             then refuse (refused_with_revision RRevisionConflict RevisionConflict
                    ''The digital delivery version is stale.'' (dc_last_version counter)) d1
             else Inr (Inr (dc_last_version counter), d1))"

definition update_digital_counters ::
  "string \<Rightarrow> (digital_counter_row \<Rightarrow> digital_counter_row) \<Rightarrow> db \<Rightarrow> unit tx" where
  "update_digital_counters aggregate_id f d =
     seq (sql_update digital_counter_check (\<lambda>c. dc_listing_aggregate_id c = aggregate_id) f (st_digital_counters d))
       (\<lambda>_ rows. Inr ((), d\<lparr>st_digital_counters := rows\<rparr>))"

definition version_pinned :: "db \<Rightarrow> digital_version_row \<Rightarrow> bool" where
  "version_pinned d v \<longleftrightarrow>
     list_ex (\<lambda>p. dx_listing_aggregate_id p = dv_listing_aggregate_id v \<and> dx_version p = dv_version v
        \<and> list_ex (\<lambda>o'. or_id o' = dx_order_id p \<and> or_state o' \<notin> set DIGITAL_ENDED_ORDER_STATES) (st_orders d))
       (st_digital_pins d)"

definition supersede_versions :: "string \<Rightarrow> datetime \<Rightarrow> db \<Rightarrow> db" where
  "supersede_versions aggregate_id now d =
     (let superseded = map (\<lambda>v. if dv_listing_aggregate_id v = aggregate_id \<and> dv_superseded_at v = None
                                then v\<lparr>dv_superseded_at := Some now\<rparr> else v) (st_digital_versions d)
      in d\<lparr>st_digital_versions :=
             filter (\<lambda>v. dv_listing_aggregate_id v \<noteq> aggregate_id \<or> dv_superseded_at v = None \<or> version_pinned d v) superseded\<rparr>)"

text \<open>The JSON that is sealed; it holds no field of another kind.\<close>

definition sealed_payload :: "digital_delivery \<Rightarrow> json" where
  "sealed_payload delivery =
     (case delivery of
        DFile file \<Rightarrow> JObject [(''key'', JString (df_key file)), (''iv'', JString (df_iv file)),
          (''ciphertext_blake3'', JString (df_ciphertext_blake3 file)),
          (''plaintext_blake3'', JString (df_plaintext_blake3 file)), (''size_bytes'', JInt (df_size_bytes file)),
          (''content_type'', JString (df_content_type file)), (''file_name'', JString (df_file_name file))]
      | DLink url \<Rightarrow> JObject [(''url'', JString url)]
      | DText text \<Rightarrow> JObject [(''text'', JString text)]
      | _ \<Rightarrow> JObject [])"

datatype deliverable_fetch_outcome =
  DeliverableFound string int | DeliverableNotFound | DeliverableTooLarge | DeliverableUnavailable

text \<open>\<open>fetch_deliverable_digest\<close>: seller, deliverable id, version, expected length.\<close>

type_synonym deliverable_client = "pubky \<Rightarrow> string \<Rightarrow> int \<Rightarrow> int \<Rightarrow> deliverable_fetch_outcome"

definition AES_GCM_TAG_BYTES :: int where "AES_GCM_TAG_BYTES = 16"

definition verify_file :: "deliverable_client option \<Rightarrow> pubky \<Rightarrow> digital_file \<Rightarrow> command_failure option" where
  "verify_file homeserver seller_pubky file =
     (case homeserver of
        None \<Rightarrow> Some (unverifiable UpstreamUnavailable RUpstreamUnavailable)
      | Some fetch_digest \<Rightarrow>
          let expected_len = df_size_bytes file + AES_GCM_TAG_BYTES
          in case fetch_digest seller_pubky (df_deliverable_id file) (df_version file) expected_len of
               DeliverableFound blake3 len \<Rightarrow>
                 if len = expected_len \<and> blake3 = df_ciphertext_blake3 file then None
                 else Some (unverifiable InvalidState RInvalidState)
             | DeliverableUnavailable \<Rightarrow> Some (unverifiable UpstreamUnavailable RUpstreamUnavailable)
             | _ \<Rightarrow> Some (unverifiable InvalidState RInvalidState))"

definition digital_version_check :: "digital_version_row \<Rightarrow> bool" where
  "digital_version_check v \<longleftrightarrow>
     is_valid_deliverable_id (dv_deliverable_id v) \<and> 0 < dv_version v
     \<and> dv_kind v \<in> set [''file'', ''link'', ''text'', ''email'', ''message'']
     \<and> (case dv_ciphertext_blake3 v of None \<Rightarrow> True | Some h \<Rightarrow> length h = 64 \<and> list_all is_hex_lower h)
     \<and> (case dv_size_bytes v of None \<Rightarrow> True | Some n \<Rightarrow> 0 < n)
     \<and> (dv_kind v = ''file'') = (dv_ciphertext_blake3 v \<noteq> None \<and> dv_size_bytes v \<noteq> None \<and> dv_content_type v \<noteq> None)"

definition digital_version_clash :: "digital_version_row \<Rightarrow> digital_version_row \<Rightarrow> bool" where
  "digital_version_clash a b \<longleftrightarrow>
     dv_listing_aggregate_id a = dv_listing_aggregate_id b
     \<and> (dv_version a = dv_version b \<or> dv_superseded_at a = None \<and> dv_superseded_at b = None)"

definition set_listing_delivery ::
  "string \<Rightarrow> string option \<Rightarrow> string option \<Rightarrow> int option \<Rightarrow> db \<Rightarrow> unit tx" where
  "set_listing_delivery aggregate_id kind content_type size_bytes d =
     seq (update_listings (\<lambda>l. ls_aggregate_id l = aggregate_id)
            (\<lambda>l. l\<lparr>ls_digital_delivery_kind := kind, ls_digital_delivery_content_type := content_type,
                   ls_digital_delivery_size_bytes := size_bytes\<rparr>) d)
       (\<lambda>_ d1. Inr ((), d1))"

definition finish_digital ::
  "uuid_source \<Rightarrow> command \<Rightarrow> listing_row \<Rightarrow> pubky \<Rightarrow> string \<Rightarrow> (string \<times> string) option \<Rightarrow> int \<Rightarrow> datetime \<Rightarrow> db
     \<Rightarrow> handler_result tx" where
  "finish_digital new_v4 command listing actor event_kind delivered version now d =
     (let events_aggregate = events_aggregate_id (ls_aggregate_id listing)
      in seq (insert_event new_v4 (cmd_command_id command) events_aggregate (next_event_revision d events_aggregate)
                actor event_kind now d)
           (\<lambda>event_id d1. Inr (Inr \<lparr>hs_revision = version, hs_event_ids = [event_id],
              hs_result = ResultDigitalDelivery (ls_aggregate_id listing) delivered version (format_timestamp now)\<rparr>, d1)))"

definition file_refusal ::
  "deliverable_client option \<Rightarrow> int \<Rightarrow> listing_row \<Rightarrow> digital_delivery \<Rightarrow> command_failure option" where
  "file_refusal homeserver max_bytes listing delivery =
     (case delivery of
        DFile file \<Rightarrow>
          if max_bytes < df_size_bytes file
          then Some (refused_with_reason RInvalidCommand InvalidCommand ''The file is larger than this deployment accepts.''
                 ''deliverable_too_large'')
          else verify_file homeserver (ls_seller_pubky listing) file
      | _ \<Rightarrow> None)"

text \<open>\<open>Uuid::new_v4().simple()\<close>: the hexadecimal digits of a fresh id.\<close>

definition random_deliverable_id :: "uuid_source \<Rightarrow> db \<Rightarrow> string \<times> db" where
  "random_deliverable_id new_v4 d = (let (u, d1) = draw_uuid new_v4 d in (filter (\<lambda>ch. ch \<noteq> CHR ''-'') u, d1))"

definition new_version_row ::
  "listing_row \<Rightarrow> digital_delivery \<Rightarrow> string \<Rightarrow> int \<Rightarrow> string \<Rightarrow> datetime \<Rightarrow> digital_version_row" where
  "new_version_row listing delivery deliverable_id version ciphertext now =
     \<lparr>dv_listing_aggregate_id = ls_aggregate_id listing, dv_deliverable_id = deliverable_id, dv_version = version,
      dv_kind = delivery_kind_as_str (digital_delivery_kind_of delivery), dv_ciphertext = ciphertext,
      dv_superseded_at = None, dv_seller_pubky = ls_seller_pubky listing,
      dv_ciphertext_blake3 = (case delivery of DFile file \<Rightarrow> Some (df_ciphertext_blake3 file) | _ \<Rightarrow> None),
      dv_size_bytes = (case delivery of DFile file \<Rightarrow> Some (df_size_bytes file) | _ \<Rightarrow> None),
      dv_content_type = (case delivery of DFile file \<Rightarrow> Some (df_content_type file) | _ \<Rightarrow> None), dv_created_at = now\<rparr>"

text \<open>The writes of \<open>digital_delivery.set\<close>, once the version is agreed.\<close>

definition store_version ::
  "(json \<Rightarrow> string) \<Rightarrow> uuid_source \<Rightarrow> pubky \<Rightarrow> command \<Rightarrow> digital_delivery \<Rightarrow> keyring \<Rightarrow> listing_row \<Rightarrow> int \<Rightarrow> datetime \<Rightarrow> db
     \<Rightarrow> handler_result tx" where
  "store_version to_vec new_v4 actor command delivery keys listing new_version now d =
     (let kind = digital_delivery_kind_of delivery;
          (deliverable_id, d1) = (case delivery of DFile file \<Rightarrow> (df_deliverable_id file, d) | _ \<Rightarrow> random_deliverable_id new_v4 d);
          (ciphertext, d2) = draw_seal keys (version_aad (ls_aggregate_id listing) deliverable_id new_version kind)
             (to_vec (sealed_payload delivery)) d1;
          row = new_version_row listing delivery deliverable_id new_version ciphertext now;
          d3 = supersede_versions (ls_aggregate_id listing) now d2
      in seq (sql_insert digital_version_check digital_version_clash row (st_digital_versions d3))
           (\<lambda>_ rows.
              seq (update_digital_counters (ls_aggregate_id listing)
                     (\<lambda>c. c\<lparr>dc_last_version := new_version, dc_cleared_at := None, dc_updated_at := now\<rparr>)
                     (d3\<lparr>st_digital_versions := rows\<rparr>))
                (\<lambda>_ d4.
                   seq (set_listing_delivery (ls_aggregate_id listing) (Some (dv_kind row)) (dv_content_type row)
                          (dv_size_bytes row) d4)
                     (\<lambda>_. finish_digital new_v4 command listing actor ''digital_delivery.set''
                             (Some (dv_kind row, deliverable_id)) new_version now))))"

definition set_digital_delivery ::
  "(json \<Rightarrow> string) \<Rightarrow> uuid_source \<Rightarrow> pubky \<Rightarrow> command \<Rightarrow> set_digital_delivery_payload \<Rightarrow> keyring option
     \<Rightarrow> deliverable_client option \<Rightarrow> int \<Rightarrow> datetime \<Rightarrow> db \<Rightarrow> handler_result tx" where
  "set_digital_delivery to_vec new_v4 actor command payload digital homeserver max_bytes now d =
     (case digital of
        None \<Rightarrow> refuse digital_unavailable d
      | Some keys \<Rightarrow>
          (case fetch_listing d (cmd_aggregate_id command) of
             None \<Rightarrow> refuse listing_not_found d
           | Some listing \<Rightarrow>
               if ls_seller_pubky listing \<noteq> actor then refuse not_seller d
               else if \<not> publishes_digital listing then refuse not_digital d
               else
                 (case file_refusal homeserver max_bytes listing (sdd_delivery payload) of
                    Some failure \<Rightarrow> refuse failure d
                  | None \<Rightarrow>
                      attempt (digital_counter_cas listing (sdd_expected_version payload) now d)
                        (\<lambda>last_version d1.
                           if (case current_version d1 (ls_aggregate_id listing) of
                                 None \<Rightarrow> False
                               | Some current \<Rightarrow>
                                   dv_kind current \<noteq> delivery_kind_as_str (digital_delivery_kind_of (sdd_delivery payload))
                                   \<and> listing_digital_in_use d1 (ls_aggregate_id listing))
                           then refuse in_use d1
                           else store_version to_vec new_v4 actor command (sdd_delivery payload) keys listing
                                  (last_version + 1) now d1))))"

definition clear_digital_delivery ::
  "uuid_source \<Rightarrow> pubky \<Rightarrow> command \<Rightarrow> clear_digital_delivery_payload \<Rightarrow> keyring option \<Rightarrow> datetime \<Rightarrow> db
     \<Rightarrow> handler_result tx" where
  "clear_digital_delivery new_v4 actor command payload digital now d =
     (case digital of
        None \<Rightarrow> refuse digital_unavailable d
      | Some _ \<Rightarrow>
          (case fetch_listing d (cmd_aggregate_id command) of
             None \<Rightarrow> refuse listing_not_found d
           | Some listing \<Rightarrow>
               if ls_seller_pubky listing \<noteq> actor then refuse not_seller d
               else
                 attempt (digital_counter_cas listing (cdd_expected_version payload) now d)
                   (\<lambda>last_version d1.
                      if listing_digital_in_use d1 (ls_aggregate_id listing) then refuse in_use d1
                      else
                        seq (update_digital_counters (ls_aggregate_id listing)
                               (\<lambda>c. c\<lparr>dc_cleared_at := Some now, dc_updated_at := now\<rparr>)
                               (supersede_versions (ls_aggregate_id listing) now d1))
                          (\<lambda>_ d2.
                             seq (set_listing_delivery (ls_aggregate_id listing) None None None d2)
                               (\<lambda>_. finish_digital new_v4 command listing actor ''digital_delivery.cleared'' None
                                       last_version now)))))"

section \<open>Deliveries by hand\<close>

definition manual_kinds :: "order_row \<Rightarrow> digital_delivery_kind list" where
  "manual_kinds order =
     remdups (filter (\<lambda>kind. \<not> is_instant kind) (List.map_filter line_kind (or_lines order)))"

definition has_email_line :: "order_row \<Rightarrow> bool" where
  "has_email_line order \<longleftrightarrow> or_fulfillment order = ''digital'' \<and> list_ex (\<lambda>kind. kind = KEmail) (manual_kinds order)"

definition email_row :: "db \<Rightarrow> uuid \<Rightarrow> delivery_email_row option" where
  "email_row d order_id = fetch em_order_id order_id (st_delivery_emails d)"

definition already_emailed :: "db \<Rightarrow> uuid \<Rightarrow> bool" where
  "already_emailed d order_id \<longleftrightarrow> (case email_row d order_id of None \<Rightarrow> False | Some row \<Rightarrow> em_emailed_at row \<noteq> None)"

definition order_action_success ::
  "uuid_source \<Rightarrow> pubky \<Rightarrow> command \<Rightarrow> order_row \<Rightarrow> string \<Rightarrow> (string \<times> pubky) option \<Rightarrow> datetime \<Rightarrow> db \<Rightarrow> handler_result tx" where
  "order_action_success new_v4 actor command order event_kind notify now d =
     (let aggregate = order_aggregate_id (or_id order)
      in seq (insert_event new_v4 (cmd_command_id command) aggregate (or_revision order) actor event_kind now d)
           (\<lambda>event_id d1.
              let d2 = (case notify of
                          None \<Rightarrow> d1
                        | Some (notification, recipient) \<Rightarrow>
                            insert_notification_intent event_id notification recipient actor aggregate None now d1)
              in Inr (Inr \<lparr>hs_revision = or_revision order, hs_event_ids = [event_id],
                           hs_result = ResultOrder order (fetch_order_reviews d2 (or_id order))\<rparr>, d2)))"

definition emailed_already :: "string \<Rightarrow> command_failure" where
  "emailed_already message = refused_with_reason RInvalidState InvalidState message ''already_emailed''"

definition set_delivery_email ::
  "uuid_source \<Rightarrow> pubky \<Rightarrow> command \<Rightarrow> set_delivery_email_payload \<Rightarrow> keyring option \<Rightarrow> datetime \<Rightarrow> db \<Rightarrow> handler_result tx" where
  "set_delivery_email new_v4 actor command payload digital now d =
     (case digital of
        None \<Rightarrow> refuse digital_unavailable d
      | Some keys \<Rightarrow>
          with_order (sde_order_id payload) actor command d
            (\<lambda>order.
               if or_buyer_pubky order \<noteq> actor
               then refuse (refused RUnauthorized Unauthorized ''Only the buyer may change the delivery email.'') d
               else if \<not> has_email_line order
               then refuse (refused_with_reason RInvalidState InvalidState ''No item in this order is delivered by email.''
                      ''delivery_email_not_needed'') d
               else if or_state order \<notin> set [''pending_payment'', ''paid'']
               then refuse (refused RInvalidState InvalidState ''The delivery email can no longer be changed.'') d
               else if already_emailed d (or_id order) then refuse (emailed_already ''The seller already emailed the purchase.'') d
               else if \<not> email_is_well_formed (sde_delivery_email payload) then refuse invalid_email d
               else
                 seq (write_order order (\<lambda>r. r\<lparr>or_revision := or_revision r + 1, or_updated_at := now\<rparr>)
                        (store_delivery_email keys (or_id order) (or_buyer_pubky order) (sde_delivery_email payload) now d))
                   (\<lambda>updated.
                      order_action_success new_v4 actor command updated ''order.delivery_email_set''
                        (if or_receipt_id updated \<noteq> None then Some (''delivery_email_updated'', or_seller_pubky updated) else None)
                        now)))"

definition channel_refusal ::
  "db \<Rightarrow> order_row \<Rightarrow> digital_delivery_channel \<Rightarrow> command_failure option" where
  "channel_refusal d order channel =
     (case channel of
        ChannelEmail \<Rightarrow>
          if already_emailed d (or_id order) then Some (emailed_already ''The purchase was already marked emailed.'')
          else if (case email_row d (or_id order) of None \<Rightarrow> True | Some row \<Rightarrow> em_ciphertext row = None)
          then Some (refused_with_reason RInvalidState InvalidState ''The buyer has not given a delivery email.'' ''email_missing'')
          else None
      | ChannelMessage \<Rightarrow>
          if or_digital_message_delivered_at order \<noteq> None
          then Some (refused RInvalidState InvalidState ''The purchase was already marked delivered.'')
          else None)"

definition mark_emailed :: "uuid \<Rightarrow> datetime \<Rightarrow> db \<Rightarrow> db" where
  "mark_emailed order_id now d =
     d\<lparr>st_delivery_emails := map (\<lambda>e. if em_order_id e = order_id then e\<lparr>em_emailed_at := Some now\<rparr> else e) (st_delivery_emails d)\<rparr>"

text \<open>Every kind the order asks for by hand is done, counting the channel just marked.\<close>

definition delivery_complete :: "db \<Rightarrow> order_row \<Rightarrow> digital_delivery_channel \<Rightarrow> bool" where
  "delivery_complete d order channel \<longleftrightarrow>
     (\<not> list_ex (\<lambda>kind. kind = KEmail) (manual_kinds order) \<or> already_emailed d (or_id order) \<or> channel = ChannelEmail)
     \<and> (\<not> list_ex (\<lambda>kind. kind = KMessage) (manual_kinds order) \<or> or_digital_message_delivered_at order \<noteq> None
        \<or> channel = ChannelMessage)"

definition delivered_order :: "bool \<Rightarrow> digital_delivery_channel \<Rightarrow> datetime \<Rightarrow> order_row \<Rightarrow> order_row" where
  "delivered_order delivered channel now r =
     r\<lparr>or_revision := or_revision r + 1, or_updated_at := now,
       or_state := (if delivered then ''delivered'' else or_state r),
       or_digital_delivered_at := (if delivered then Some now else or_digital_delivered_at r),
       or_digital_message_delivered_at := (if channel = ChannelMessage then Some now else or_digital_message_delivered_at r)\<rparr>"

definition not_awaiting_delivery :: "order_row \<Rightarrow> command_failure" where
  "not_awaiting_delivery order =
     refused RInvalidState InvalidState
       (if or_state order = ''cancel_requested''
        then ''This order has a cancellation request; approve or decline it first.''
        else ''The order is not awaiting delivery.'')"

definition deliver_digital ::
  "uuid_source \<Rightarrow> pubky \<Rightarrow> command \<Rightarrow> deliver_digital_payload \<Rightarrow> datetime \<Rightarrow> db \<Rightarrow> handler_result tx" where
  "deliver_digital new_v4 actor command payload now d =
     with_order (dd_order_id payload) actor command d
       (\<lambda>order.
          if or_seller_pubky order \<noteq> actor
          then refuse (refused RUnauthorized Unauthorized ''Only the seller may mark this delivered.'') d
          else if or_fulfillment order \<noteq> ''digital''
                  \<or> \<not> list_ex (\<lambda>kind. kind = channel_kind (dd_channel payload)) (manual_kinds order)
          then refuse (refused_with_reason RInvalidState InvalidState ''No item in this order is delivered that way.''
                 ''wrong_delivery_channel'') d
          else if or_state order \<noteq> ''paid'' then refuse (not_awaiting_delivery order) d
          else
            (case channel_refusal d order (dd_channel payload) of
               Some failure \<Rightarrow> refuse failure d
             | None \<Rightarrow>
                 let d1 = (case dd_channel payload of ChannelEmail \<Rightarrow> mark_emailed (or_id order) now d | ChannelMessage \<Rightarrow> d);
                     delivered = delivery_complete d order (dd_channel payload)
                 in seq (write_order order (delivered_order delivered (dd_channel payload) now) d1)
                      (\<lambda>updated.
                         order_action_success new_v4 actor command updated
                           (if delivered then ''fulfillment.digital_delivered'' else ''fulfillment.digital_channel_delivered'')
                           (if delivered then Some (''order_delivered'', or_buyer_pubky updated) else None) now)))"

section \<open>Reading the delivery email\<close>

definition seller_email_refusal :: "order_row \<Rightarrow> read_failure option" where
  "seller_email_refusal order =
     (if or_receipt_id order = None
      then Some (ReadError InvalidState ''The buyer's email appears once payment is confirmed.'' (Some ''not_paid''))
      else case payment_taken_back order of
        Some t \<Rightarrow> Some (ReadError InvalidState (taken_back_message t) (Some (taken_back_reason t)))
      | None \<Rightarrow>
          if or_state order \<in> set DIGITAL_ENDED_ORDER_STATES
          then Some (ReadError InvalidState ''This order was cancelled or refunded.'' (Some ''delivery_ended''))
          else None)"

definition read_delivery_email ::
  "keyring option \<Rightarrow> pubky \<Rightarrow> uuid \<Rightarrow> db \<Rightarrow> read_failure + string \<times> datetime option" where
  "read_delivery_email digital actor order_id d =
     (case find (\<lambda>o'. or_id o' = order_id \<and> (or_buyer_pubky o' = actor \<or> or_seller_pubky o' = actor)) (st_orders d) of
        None \<Rightarrow> Inl (ReadError NotFound ''The order was not found.'' None)
      | Some order \<Rightarrow>
          if \<not> has_email_line order then Inl (ReadError NotFound ''The order was not found.'' None)
          else
            (case (if or_buyer_pubky order \<noteq> actor then seller_email_refusal order else None) of
               Some e \<Rightarrow> Inl e
             | None \<Rightarrow>
                 (case digital of
                    None \<Rightarrow> Inl (ReadError InvalidState ''Digital delivery is unavailable on this deployment.''
                              (Some ''digital_delivery_unavailable''))
                  | Some keys \<Rightarrow>
                      (case email_row d (or_id order) of
                         None \<Rightarrow> Inl (ReadError InvalidState ''No delivery email is on file for this order.'' (Some ''email_missing''))
                       | Some row \<Rightarrow>
                           (case em_ciphertext row of
                              None \<Rightarrow> Inl (ReadError InvalidState ''No delivery email is on file for this order.'' (Some ''email_missing''))
                            | Some ciphertext \<Rightarrow>
                                (case ring_open keys (email_aad (or_id order) (em_buyer_pubky row)) ciphertext of
                                   None \<Rightarrow> Inl (InternalError ''delivery email open'')
                                 | Some plaintext \<Rightarrow>
                                     (case from_utf8 plaintext of
                                        None \<Rightarrow> Inl (InternalError ''delivery email decode'')
                                      | Some email \<Rightarrow> Inr (email, map_option format_timestamp (em_emailed_at row)))))))))"

section \<open>Dispatch\<close>

record delivery_context =
  de_details_to_vec :: "pickup_details \<Rightarrow> string"
  de_to_vec :: "json \<Rightarrow> string"
  de_pickup :: "keyring option"
  de_digital :: "keyring option"
  de_homeserver :: "deliverable_client option"
  de_max_bytes :: int
  de_sandbox_payments_enabled :: bool

text \<open>The arms of \<open>executor::dispatch\<close> for pickup details and digital delivery.\<close>

definition dispatch_delivery ::
  "delivery_context \<Rightarrow> uuid_source \<Rightarrow> pubky \<Rightarrow> command \<Rightarrow> datetime \<Rightarrow> db \<Rightarrow> handler_result tx option" where
  "dispatch_delivery context new_v4 actor command now d =
     (case cmd_payload command of
        SetPickupDetails payload \<Rightarrow>
          Some (set_pickup_details (de_details_to_vec context) new_v4 actor command payload (de_pickup context)
                  (de_sandbox_payments_enabled context) now d)
      | ClearPickupDetails payload \<Rightarrow>
          Some (clear_pickup_details new_v4 actor command payload (de_pickup context)
                  (de_sandbox_payments_enabled context) now d)
      | SetDigitalDelivery payload \<Rightarrow>
          Some (set_digital_delivery (de_to_vec context) new_v4 actor command payload (de_digital context)
                  (de_homeserver context) (de_max_bytes context) now d)
      | ClearDigitalDelivery payload \<Rightarrow>
          Some (clear_digital_delivery new_v4 actor command payload (de_digital context) now d)
      | SetDeliveryEmail payload \<Rightarrow>
          Some (set_delivery_email new_v4 actor command payload (de_digital context) now d)
      | DeliverDigital payload \<Rightarrow> Some (deliver_digital new_v4 actor command payload now d)
      | _ \<Rightarrow> None)"

end
