(* ===== verification/Delivery_Facts.thy ===== *)
theory Delivery_Facts
  imports Delivery Listings_Facts Payments_Facts
begin

text \<open>
  What the delivery commands promise: they move no stock, versions of pickup details only grow and the last one set is
  the one read back, pickup details are revealed to the buyer who paid for them and to nobody else, and a delivery email
  reaches the parties of its order only.
\<close>

section \<open>Vocabulary\<close>

text \<open>The sealed versions of pickup details: numbered within the counter of their listing.\<close>

definition pickup_versions_ok :: "db \<Rightarrow> bool" where
  "pickup_versions_ok d \<longleftrightarrow>
     distinct (map pc_aggregate_id (st_pickup_counters d))
     \<and> distinct (map (\<lambda>v. (pv_aggregate_id v, pv_version v)) (st_pickup_details d))
     \<and> list_all (\<lambda>v. case fetch pc_aggregate_id (pv_aggregate_id v) (st_pickup_counters d) of
                        None \<Rightarrow> False | Some c \<Rightarrow> 1 \<le> pv_version v \<and> pv_version v \<le> pc_last_version c) (st_pickup_details d)"

text \<open>A key ring that opens what it seals.\<close>

definition ring_ok :: "keyring \<Rightarrow> bool" where
  "ring_ok ring \<longleftrightarrow> aead_ok (kr_cipher ring) \<and> (\<forall>n. length (kr_nonce ring n) = XNONCE_LEN)"

text \<open>What a delivery command does to the orders: nothing, or a new revision of one order that keeps what was sold and
  what is held, in the same state or delivered along an edge of the order machine.\<close>

definition delivery_of_order :: "order_row \<Rightarrow> order_row \<Rightarrow> bool" where
  "delivery_of_order r r' \<longleftrightarrow>
     same_deal r r' \<and> or_revision r' = or_revision r + 1 \<and> or_stock_held r' = or_stock_held r
     \<and> (or_state r' = or_state r
        \<or> has_edge order_machine ''fulfillment.deliver_digital'' (or_state r) (or_state r')
            \<and> or_fulfillment r = ''digital'' \<and> or_digital_delivered_at r' \<noteq> None)"

definition delivery_step :: "db \<Rightarrow> db \<Rightarrow> bool" where
  "delivery_step d d' \<longleftrightarrow>
     books_ok d' \<and> auctions_ok d' \<and> pickup_versions_ok d' \<and> (\<forall>a. total_stock d' a = total_stock d a)
     \<and> st_reservations d' = st_reservations d \<and> st_payments d' = st_payments d \<and> st_bids d' = st_bids d
     \<and> (st_orders d' = st_orders d \<or> (\<exists>k r r'. order_change k r r' d d' \<and> delivery_of_order r r'))"

text \<open>Each delivery email belongs to the buyer of its order.\<close>

definition emails_ok :: "db \<Rightarrow> bool" where
  "emails_ok d \<longleftrightarrow>
     distinct (map em_order_id (st_delivery_emails d))
     \<and> list_all (\<lambda>e. case fetch_order d (em_order_id e) of
                        None \<Rightarrow> False | Some o' \<Rightarrow> em_buyer_pubky e = or_buyer_pubky o') (st_delivery_emails d)"

text \<open>A step of the digital tables alone: the listings, the orders and the pickup tables stay.\<close>

definition digital_frame :: "db \<Rightarrow> db \<Rightarrow> bool" where
  "digital_frame d d' \<longleftrightarrow>
     st_listings d' = st_listings d \<and> st_reservations d' = st_reservations d \<and> st_orders d' = st_orders d
     \<and> st_payments d' = st_payments d \<and> st_bids d' = st_bids d \<and> st_drops d' = st_drops d
     \<and> st_drop_purchases d' = st_drop_purchases d \<and> st_pickup_details d' = st_pickup_details d
     \<and> st_pickup_counters d' = st_pickup_counters d"

section \<open>Samples\<close>

definition sample_pickup_details :: pickup_details where
  "sample_pickup_details =
     \<lparr>pd_kind = PickupSpot, pd_address = None, pd_spot = Some ''gate'', pd_instructions = ''ring'',
      pd_availability = \<lparr>pa_windows = None, pa_zone = ''UTC''\<rparr>\<rparr>"

definition sample_pickup_db :: db where
  "sample_pickup_db = sample_stock_db\<lparr>st_listings := [sample_listing\<lparr>ls_fulfillment_methods := [''pickup'']\<rparr>]\<rparr>"

definition sample_set_pickup :: set_pickup_details_payload where
  "sample_set_pickup = \<lparr>spd_expected_version = 0, spd_details = sample_pickup_details\<rparr>"

definition sample_pickup_command :: command where
  "sample_pickup_command =
     \<lparr>cmd_command_id = ''c9'', cmd_aggregate_id = ''listing:l'', cmd_expected_revision = 0, cmd_issued_at = 0,
      cmd_payload = SetPickupDetails sample_set_pickup\<rparr>"

definition sample_delivery_context :: delivery_context where
  "sample_delivery_context =
     \<lparr>de_details_to_vec = (\<lambda>_. ''{}''), de_to_vec = (\<lambda>_. ''{}''), de_pickup = Some sample_ring, de_digital = Some sample_ring,
      de_homeserver = None, de_max_bytes = 1000, de_sandbox_payments_enabled = False\<rparr>"

text \<open>A paid pickup order with the place pinned at payment.\<close>

definition sample_reveal_db :: db where
  "sample_reveal_db =
     sample_pickup_db\<lparr>st_orders := [sample_order\<lparr>or_fulfillment := ''pickup'', or_state := ''paid'', or_receipt_id := Some ''rc''\<rparr>],
       st_pickup_snapshots := [\<lparr>ps_order_id = ''o1'', ps_line_index = 0, ps_listing_aggregate_id = ''listing:l'', ps_version = 1,
         ps_ciphertext = keys_seal sample_cipher sample_nonce (kr_keys sample_ring) (snapshot_aad ''o1'' 0 1) ''{}'',
         ps_confirming_adapter = ''locks_lnd'', ps_created_at = 0\<rparr>]\<rparr>"

definition sample_email_order :: order_row where
  "sample_email_order = sample_order\<lparr>or_fulfillment := ''digital'', or_lines := [sample_line\<lparr>ol_digital_kind := Some ''email''\<rparr>]\<rparr>"

definition sample_email_db :: db where
  "sample_email_db = sample_stock_db\<lparr>st_orders := [sample_email_order]\<rparr>"

definition sample_set_email :: set_delivery_email_payload where
  "sample_set_email = \<lparr>sde_order_id = ''o1'', sde_delivery_email = ''ann@example.org''\<rparr>"

definition sample_email_command :: command where
  "sample_email_command =
     \<lparr>cmd_command_id = ''c10'', cmd_aggregate_id = order_aggregate_id ''o1'', cmd_expected_revision = 1, cmd_issued_at = 0,
      cmd_payload = SetDeliveryEmail sample_set_email\<rparr>"

section \<open>Frames\<close>

lemma draw_seal_log: "draw_seal ring aad msg d = (c, d') \<Longrightarrow> log_step d d'"
  unfolding log_step_def draw_seal_def by (auto intro!: exI [of _ "st_events d"] exI [of _ "st_outbox d"])

lemma notify_each_log:
  "notify_each new_v4 command n a actor now buyers r d = Inr (u, d') \<Longrightarrow> log_step d d'"
proof (induction buyers arbitrary: r d)
  case Nil
  then show ?case by simp
next
  case (Cons b buyers)
  obtain buyer order_id where b: "b = (buyer, order_id)" by (cases b)
  then obtain e d1 where e: "insert_event new_v4 (cmd_command_id command) a r actor ''pickup_details.buyer_notified'' now d = Inr (e, d1)"
    and rest: "notify_each new_v4 command n a actor now buyers (r + 1)
        (insert_notification_intent e n buyer actor (order_aggregate_id order_id) None now d1) = Inr (u, d')"
    using Cons.prems by (auto simp: seq_eq_Inr)
  show ?case
    using log_step_trans [OF insert_event_log [OF e] log_step_trans [OF insert_notification_log Cons.IH [OF rest]]] .
qed

lemma notify_paid_buyers_log: "notify_paid_buyers new_v4 command n l actor now d = Inr (u, d') \<Longrightarrow> log_step d d'"
  by (auto simp: notify_paid_buyers_def Let_def split: if_split_asm dest: notify_each_log)

lemma finish_details_run:
  assumes "finish_details new_v4 command l actor e n v cleared now d = Inr (r, d')"
  obtains s where "r = Inr s" "log_step d d'" "hs_revision s = v"
    "hs_result s = ResultPickupDetails (ls_aggregate_id l) v cleared (format_timestamp now)"
proof -
  obtain i d1 where i: "insert_event new_v4 (cmd_command_id command) (details_aggregate_id (ls_aggregate_id l))
      (next_event_revision d (details_aggregate_id (ls_aggregate_id l))) actor e now d = Inr (i, d1)"
    and p: "notify_paid_buyers new_v4 command n l actor now d1 = Inr ((), d')"
    and r: "r = Inr \<lparr>hs_revision = v, hs_event_ids = [i],
        hs_result = ResultPickupDetails (ls_aggregate_id l) v cleared (format_timestamp now)\<rparr>"
    using assms by (auto simp: finish_details_def Let_def seq_eq_Inr)
  show thesis using that [OF r log_step_trans [OF insert_event_log [OF i] notify_paid_buyers_log [OF p]]] by simp
qed

lemma finish_digital_run:
  assumes "finish_digital new_v4 command l actor e x v now d = Inr (r, d')"
  obtains s where "r = Inr s" "log_step d d'" "hs_revision s = v"
  using assms by (auto simp: finish_digital_def Let_def seq_eq_Inr dest!: insert_event_log)

lemma order_action_success_log:
  assumes "order_action_success new_v4 actor command order e notify now d = Inr (r, d')"
  obtains s where "r = Inr s" "log_step d d'" "hs_revision s = or_revision order"
proof -
  obtain i d1 where i: "insert_event new_v4 (cmd_command_id command) (order_aggregate_id (or_id order)) (or_revision order) actor e now d = Inr (i, d1)"
    and d': "d' = (case notify of None \<Rightarrow> d1 | Some (n, rcp) \<Rightarrow>
        insert_notification_intent i n rcp actor (order_aggregate_id (or_id order)) None now d1)"
    and r: "\<exists>s. r = Inr s \<and> hs_revision s = or_revision order"
    using assms by (auto simp: order_action_success_def Let_def seq_eq_Inr)
  have "log_step d1 d'" unfolding d' by (cases notify) (auto simp: insert_notification_log)
  then show thesis using that r log_step_trans [OF insert_event_log [OF i]] by blast
qed

lemma log_pickup:
  "log_step d d' \<Longrightarrow> st_pickup_details d' = st_pickup_details d" "log_step d d' \<Longrightarrow> st_pickup_counters d' = st_pickup_counters d"
  "log_step d d' \<Longrightarrow> st_delivery_emails d' = st_delivery_emails d" "log_step d d' \<Longrightarrow> st_digital_versions d' = st_digital_versions d"
  "log_step d d' \<Longrightarrow> st_pickup_snapshots d' = st_pickup_snapshots d" "log_step d d' \<Longrightarrow> st_digital_pins d' = st_digital_pins d"
  by (auto simp: log_step_def)

section \<open>Versions of pickup details\<close>

lemma pickup_versions_cong:
  "st_pickup_details d' = st_pickup_details d \<Longrightarrow> st_pickup_counters d' = st_pickup_counters d
    \<Longrightarrow> pickup_versions_ok d' = pickup_versions_ok d"
  by (simp add: pickup_versions_ok_def)

lemma ensure_pickup_counter_ok:
  assumes "pickup_versions_ok d"
  shows "pickup_versions_ok (ensure_pickup_counter l now d)"
proof (cases "list_ex (\<lambda>c. pc_aggregate_id c = ls_aggregate_id l) (st_pickup_counters d)")
  case True
  then show ?thesis using assms by (simp add: ensure_pickup_counter_def)
next
  case False
  then have d: "distinct (map pc_aggregate_id (st_pickup_counters (ensure_pickup_counter l now d)))"
    using assms by (auto simp: pickup_versions_ok_def ensure_pickup_counter_def list_ex_iff)
  have "fetch pc_aggregate_id a (st_pickup_counters (ensure_pickup_counter l now d)) = Some c"
    if "fetch pc_aggregate_id a (st_pickup_counters d) = Some c" for a c
    using that False by (simp add: ensure_pickup_counter_def fetch_snoc)
  then show ?thesis
    using assms d False
    by (auto simp: pickup_versions_ok_def list_all_iff ensure_pickup_counter_def split: option.split_asm)
qed

lemma ensure_pickup_counter_frame: "\<exists>rows. ensure_pickup_counter l now d = d\<lparr>st_pickup_counters := rows\<rparr>"
proof (cases "list_ex (\<lambda>c. pc_aggregate_id c = ls_aggregate_id l) (st_pickup_counters d)")
  case True
  then have "ensure_pickup_counter l now d = d\<lparr>st_pickup_counters := st_pickup_counters d\<rparr>" by (simp add: ensure_pickup_counter_def)
  then show ?thesis ..
qed (auto simp: ensure_pickup_counter_def)

lemma pickup_counter_cas_run:
  assumes "pickup_counter_cas l expected now d = Inr (Inr counter, d1)"
  shows "d1 = ensure_pickup_counter l now d" "pc_last_version counter = expected"
    "fetch pc_aggregate_id (ls_aggregate_id l) (st_pickup_counters d1) = Some counter"
  using assms by (auto simp: pickup_counter_cas_def Let_def refuse_def split: option.split_asm if_split_asm)

lemma fetch_map_update:
  assumes "\<And>x. key (f x) = key x"
  shows "fetch key k (map (\<lambda>x. if key x = a then f x else x) rows)
    = (if k = a then map_option f (fetch key k rows) else fetch key k rows)"
  by (induction rows) (auto simp: fetch_def assms)

text \<open>The counter moves on, never back.\<close>

lemma update_pickup_counters_run:
  assumes "update_pickup_counters a f d = Inr (u, d')" "\<And>c. pc_aggregate_id (f c) = pc_aggregate_id c"
  shows "d' = d\<lparr>st_pickup_counters := map (\<lambda>c. if pc_aggregate_id c = a then f c else c) (st_pickup_counters d)\<rparr>"
    "fetch pc_aggregate_id b (st_pickup_counters d')
      = (if b = a then map_option f (fetch pc_aggregate_id b (st_pickup_counters d))
         else fetch pc_aggregate_id b (st_pickup_counters d))"
    "map pc_aggregate_id (st_pickup_counters d') = map pc_aggregate_id (st_pickup_counters d)"
proof -
  show d': "d' = d\<lparr>st_pickup_counters := map (\<lambda>c. if pc_aggregate_id c = a then f c else c) (st_pickup_counters d)\<rparr>"
    using assms(1) by (auto simp: update_pickup_counters_def sql_update_def Let_def seq_def split: if_split_asm)
  show "fetch pc_aggregate_id b (st_pickup_counters d')
      = (if b = a then map_option f (fetch pc_aggregate_id b (st_pickup_counters d))
         else fetch pc_aggregate_id b (st_pickup_counters d))"
    using fetch_map_update [of pc_aggregate_id f b a, OF assms(2)] by (simp add: d')
  show "map pc_aggregate_id (st_pickup_counters d') = map pc_aggregate_id (st_pickup_counters d)"
    using assms(2) by (auto simp: d')
qed

lemma set_pickup_details_run:
  assumes run: "set_pickup_details to_vec new_v4 actor command payload pickup sandbox now d = Inr (Inr s, d')"
  obtains keys l row cs where "pickup = Some keys" "\<not> sandbox" "fetch_listing d (cmd_aggregate_id command) = Some l"
    "ls_seller_pubky l = actor" "list_ex (\<lambda>m. m = ''pickup'') (ls_fulfillment_methods l)"
    "row = \<lparr>pv_aggregate_id = ls_aggregate_id l, pv_seller_pubky = ls_seller_pubky l,
       pv_version = spd_expected_version payload + 1,
       pv_ciphertext = keys_seal (kr_cipher keys) (kr_nonce keys (st_next_uuid d)) (kr_keys keys)
         (details_aad (ls_aggregate_id l) (spd_expected_version payload + 1)) (to_vec (spd_details payload)),
       pv_created_at = now, pv_updated_at = now\<rparr>"
    "st_pickup_details d' = st_pickup_details d @ [row]" "0 < pv_version row"
    "\<not> list_ex (\<lambda>v. pv_aggregate_id row = pv_aggregate_id v \<and> pv_version row = pv_version v) (st_pickup_details d)"
    "st_pickup_counters d' = map (\<lambda>c. if pc_aggregate_id c = ls_aggregate_id l
       then c\<lparr>pc_last_version := spd_expected_version payload + 1, pc_cleared_at := None, pc_updated_at := now\<rparr> else c)
       (st_pickup_counters (ensure_pickup_counter l now d))"
    "\<exists>c. fetch pc_aggregate_id (ls_aggregate_id l) (st_pickup_counters (ensure_pickup_counter l now d)) = Some c
       \<and> pc_last_version c = spd_expected_version payload"
    "log_step (d\<lparr>st_pickup_details := st_pickup_details d', st_pickup_counters := st_pickup_counters d'\<rparr>) d'"
    "hs_revision s = spd_expected_version payload + 1"
proof -
  obtain keys l where g: "guard_details_command d actor command pickup sandbox = Inr (keys, l)"
    and m: "list_ex (\<lambda>m. m = ''pickup'') (ls_fulfillment_methods l)"
    using run by (auto simp: set_pickup_details_def refuse_def split: sum.split_asm if_split_asm)
  have guard: "pickup = Some keys" "\<not> sandbox" "fetch_listing d (cmd_aggregate_id command) = Some l" "ls_seller_pubky l = actor"
    using g by (auto simp: guard_details_command_def split: option.split_asm if_split_asm)
  let ?v = "spd_expected_version payload + 1" and ?d1 = "ensure_pickup_counter l now d"
  obtain rows where frame: "?d1 = d\<lparr>st_pickup_counters := rows\<rparr>" using ensure_pickup_counter_frame by blast
  let ?row = "\<lparr>pv_aggregate_id = ls_aggregate_id l, pv_seller_pubky = ls_seller_pubky l, pv_version = ?v,
       pv_ciphertext = keys_seal (kr_cipher keys) (kr_nonce keys (st_next_uuid d)) (kr_keys keys)
         (details_aad (ls_aggregate_id l) ?v) (to_vec (spd_details payload)), pv_created_at = now, pv_updated_at = now\<rparr>"
  obtain counter d3 where cas: "pickup_counter_cas l (spd_expected_version payload) now d = Inr (Inr counter, ?d1)"
    and ins: "sql_insert pickup_details_check (\<lambda>a b. pv_aggregate_id a = pv_aggregate_id b \<and> pv_version a = pv_version b)
        ?row (st_pickup_details d) = Inr ((), st_pickup_details d @ [?row])"
    and up: "update_pickup_counters (ls_aggregate_id l) (\<lambda>c. c\<lparr>pc_last_version := ?v, pc_cleared_at := None, pc_updated_at := now\<rparr>)
        (?d1\<lparr>st_next_uuid := Suc (st_next_uuid d), st_pickup_details := st_pickup_details d @ [?row]\<rparr>) = Inr ((), d3)"
    and fin: "finish_details new_v4 command l actor ''pickup_details.set'' ''pickup_details_updated'' ?v False now d3 = Inr (Inr s, d')"
  proof -
    obtain counter d1 where c: "pickup_counter_cas l (spd_expected_version payload) now d = Inr (Inr counter, d1)"
      using run g m by (auto simp: set_pickup_details_def elim: attempt_cases)
    note cc = pickup_counter_cas_run [OF c]
    show thesis
      using run g m c cc that frame
      by (auto simp: set_pickup_details_def attempt_def seq_eq_Inr draw_seal_def Let_def sql_insert_def split: if_split_asm)
  qed
  note d3 = update_pickup_counters_run(1) [OF up, simplified]
  obtain log: "log_step d3 d'" and rev: "hs_revision s = ?v" using finish_details_run [OF fin] by auto
  have new: "0 < pv_version ?row" "\<not> list_ex (\<lambda>v. pv_aggregate_id ?row = pv_aggregate_id v \<and> pv_version ?row = pv_version v) (st_pickup_details d)"
    using ins by (auto simp: sql_insert_def pickup_details_check_def split: if_split_asm)
  have cs: "st_pickup_counters d' = map (\<lambda>c. if pc_aggregate_id c = ls_aggregate_id l
       then c\<lparr>pc_last_version := ?v, pc_cleared_at := None, pc_updated_at := now\<rparr> else c) (st_pickup_counters ?d1)"
    "st_pickup_details d' = st_pickup_details d @ [?row]"
    using log_pickup(1,2) [OF log] by (simp_all add: d3)
  have "log_step (d\<lparr>st_pickup_details := st_pickup_details d', st_pickup_counters := st_pickup_counters d'\<rparr>) d'"
  proof -
    obtain ev ob n where e: "d' = d3\<lparr>st_events := ev, st_outbox := ob, st_next_uuid := n\<rparr>"
      using log unfolding log_step_def by blast
    show ?thesis
      unfolding log_step_def by (rule exI [of _ ev], rule exI [of _ ob], rule exI [of _ n]) (simp add: e d3 frame)
  qed
  then show thesis
    using that [OF guard m refl cs(2) new cs(1)] pickup_counter_cas_run [OF cas] rev by blast
qed

lemma find_conj: "find P xs = Some x \<Longrightarrow> Q x \<Longrightarrow> find (\<lambda>x. P x \<and> Q x) xs = Some x"
  by (induction xs) (auto split: if_split_asm)

lemma set_pickup_versions_ok:
  assumes ok: "pickup_versions_ok d"
    and run: "set_pickup_details to_vec new_v4 actor command payload pickup sandbox now d = Inr (Inr s, d')"
  shows "pickup_versions_ok d'"
proof -
  from run obtain keys l row where r: "st_pickup_details d' = st_pickup_details d @ [row]" "0 < pv_version row"
    "\<not> list_ex (\<lambda>v. pv_aggregate_id row = pv_aggregate_id v \<and> pv_version row = pv_version v) (st_pickup_details d)"
    "pv_version row = spd_expected_version payload + 1" "pv_aggregate_id row = ls_aggregate_id l"
    and cs: "st_pickup_counters d' = map (\<lambda>c. if pc_aggregate_id c = ls_aggregate_id l
       then c\<lparr>pc_last_version := spd_expected_version payload + 1, pc_cleared_at := None, pc_updated_at := now\<rparr> else c)
       (st_pickup_counters (ensure_pickup_counter l now d))"
    and c: "\<exists>c. fetch pc_aggregate_id (ls_aggregate_id l) (st_pickup_counters (ensure_pickup_counter l now d)) = Some c
       \<and> pc_last_version c = spd_expected_version payload"
    by (rule set_pickup_details_run) simp
  let ?d1 = "ensure_pickup_counter l now d"
  have ok1: "pickup_versions_ok ?d1" using ok by (rule ensure_pickup_counter_ok)
  have det: "st_pickup_details ?d1 = st_pickup_details d" by (simp add: ensure_pickup_counter_def)
  have f: "fetch pc_aggregate_id b (st_pickup_counters d')
      = (if b = ls_aggregate_id l
         then map_option (\<lambda>c. c\<lparr>pc_last_version := spd_expected_version payload + 1, pc_cleared_at := None, pc_updated_at := now\<rparr>)
           (fetch pc_aggregate_id b (st_pickup_counters ?d1))
         else fetch pc_aggregate_id b (st_pickup_counters ?d1))" for b
    unfolding cs by (rule fetch_map_update) simp
  have keys: "map pc_aggregate_id (st_pickup_counters d') = map pc_aggregate_id (st_pickup_counters ?d1)" by (auto simp: cs)
  have "case fetch pc_aggregate_id (pv_aggregate_id v) (st_pickup_counters d') of
      None \<Rightarrow> False | Some c \<Rightarrow> 1 \<le> pv_version v \<and> pv_version v \<le> pc_last_version c" if "v \<in> set (st_pickup_details d')" for v
  proof (cases "v = row")
    case True
    then show ?thesis using c r by (auto simp: f)
  next
    case False
    then have "v \<in> set (st_pickup_details ?d1)" using that r(1) det by auto
    then have "case fetch pc_aggregate_id (pv_aggregate_id v) (st_pickup_counters ?d1) of
      None \<Rightarrow> False | Some c \<Rightarrow> 1 \<le> pv_version v \<and> pv_version v \<le> pc_last_version c"
      using ok1 by (simp add: pickup_versions_ok_def list_all_iff)
    then show ?thesis using c by (auto simp: f split: option.split_asm)
  qed
  moreover have "distinct (map (\<lambda>v. (pv_aggregate_id v, pv_version v)) (st_pickup_details d'))"
    using ok r(1,3) by (force simp: pickup_versions_ok_def list_ex_iff)
  ultimately show ?thesis using ok1 keys by (simp add: pickup_versions_ok_def list_all_iff)
qed

lemma clear_pickup_details_run:
  assumes run: "clear_pickup_details new_v4 actor command payload pickup sandbox now d = Inr (Inr s, d')"
  obtains keys l where "pickup = Some keys" "\<not> sandbox" "fetch_listing d (cmd_aggregate_id command) = Some l"
    "ls_seller_pubky l = actor"
    "st_pickup_details d' = filter (\<lambda>v. pv_aggregate_id v \<noteq> ls_aggregate_id l \<or> pinned_by_live_order d v) (st_pickup_details d)"
    "st_pickup_counters d' = map (\<lambda>c. if pc_aggregate_id c = ls_aggregate_id l
       then c\<lparr>pc_cleared_at := Some now, pc_updated_at := now\<rparr> else c) (st_pickup_counters (ensure_pickup_counter l now d))"
    "\<exists>c. fetch pc_aggregate_id (ls_aggregate_id l) (st_pickup_counters (ensure_pickup_counter l now d)) = Some c"
    "log_step (d\<lparr>st_pickup_details := st_pickup_details d', st_pickup_counters := st_pickup_counters d'\<rparr>) d'"
proof -
  obtain keys l where g: "guard_details_command d actor command pickup sandbox = Inr (keys, l)"
    using run by (auto simp: clear_pickup_details_def refuse_def split: sum.split_asm)
  have guard: "pickup = Some keys" "\<not> sandbox" "fetch_listing d (cmd_aggregate_id command) = Some l" "ls_seller_pubky l = actor"
    using g by (auto simp: guard_details_command_def split: option.split_asm if_split_asm)
  let ?d1 = "ensure_pickup_counter l now d"
  obtain rows where frame: "?d1 = d\<lparr>st_pickup_counters := rows\<rparr>" using ensure_pickup_counter_frame by blast
  let ?kept = "filter (\<lambda>v. pv_aggregate_id v \<noteq> ls_aggregate_id l \<or> pinned_by_live_order d v) (st_pickup_details d)"
  have pin: "pinned_by_live_order ?d1 v = pinned_by_live_order d v" for v by (simp add: frame pinned_by_live_order_def)
  obtain counter d1 where c: "pickup_counter_cas l (cpd_expected_version payload) now d = Inr (Inr counter, d1)"
    using run g by (auto simp: clear_pickup_details_def elim: attempt_cases)
  note cc = pickup_counter_cas_run [OF c]
  obtain d3 where up: "update_pickup_counters (ls_aggregate_id l) (\<lambda>c. c\<lparr>pc_cleared_at := Some now, pc_updated_at := now\<rparr>)
        (?d1\<lparr>st_pickup_details := ?kept\<rparr>) = Inr ((), d3)"
    and fin: "finish_details new_v4 command l actor ''pickup_details.cleared'' ''pickup_details_cleared''
        (pc_last_version counter) True now d3 = Inr (Inr s, d')"
    using run g c cc pin frame by (auto simp: clear_pickup_details_def attempt_def seq_eq_Inr Let_def)
  note d3 = update_pickup_counters_run(1) [OF up, simplified]
  obtain log: "log_step d3 d'" using finish_details_run [OF fin] by auto
  have cs: "st_pickup_counters d' = map (\<lambda>c. if pc_aggregate_id c = ls_aggregate_id l
       then c\<lparr>pc_cleared_at := Some now, pc_updated_at := now\<rparr> else c) (st_pickup_counters ?d1)"
    "st_pickup_details d' = ?kept"
    using log_pickup(1,2) [OF log] by (simp_all add: d3)
  obtain ev ob n where e: "d' = d3\<lparr>st_events := ev, st_outbox := ob, st_next_uuid := n\<rparr>"
    using log unfolding log_step_def by blast
  have "log_step (d\<lparr>st_pickup_details := st_pickup_details d', st_pickup_counters := st_pickup_counters d'\<rparr>) d'"
    unfolding log_step_def by (rule exI [of _ ev], rule exI [of _ ob], rule exI [of _ n]) (simp add: e d3 frame)
  then show thesis using that [OF guard cs(2,1)] cc by blast
qed

lemma clear_pickup_versions_ok:
  assumes ok: "pickup_versions_ok d"
    and run: "clear_pickup_details new_v4 actor command payload pickup sandbox now d = Inr (Inr s, d')"
  shows "pickup_versions_ok d'"
proof -
  from run obtain l where r: "st_pickup_details d' = filter (\<lambda>v. pv_aggregate_id v \<noteq> ls_aggregate_id l \<or> pinned_by_live_order d v) (st_pickup_details d)"
    and cs: "st_pickup_counters d' = map (\<lambda>c. if pc_aggregate_id c = ls_aggregate_id l
       then c\<lparr>pc_cleared_at := Some now, pc_updated_at := now\<rparr> else c) (st_pickup_counters (ensure_pickup_counter l now d))"
    by (rule clear_pickup_details_run) simp
  let ?d1 = "ensure_pickup_counter l now d"
  have ok1: "pickup_versions_ok ?d1" using ok by (rule ensure_pickup_counter_ok)
  have f: "fetch pc_aggregate_id b (st_pickup_counters d')
      = (if b = ls_aggregate_id l
         then map_option (\<lambda>c. c\<lparr>pc_cleared_at := Some now, pc_updated_at := now\<rparr>) (fetch pc_aggregate_id b (st_pickup_counters ?d1))
         else fetch pc_aggregate_id b (st_pickup_counters ?d1))" for b
    unfolding cs by (rule fetch_map_update) simp
  have keys: "map pc_aggregate_id (st_pickup_counters d') = map pc_aggregate_id (st_pickup_counters ?d1)" by (auto simp: cs)
  have "st_pickup_details ?d1 = st_pickup_details d" by (simp add: ensure_pickup_counter_def)
  then have "list_all (\<lambda>v. case fetch pc_aggregate_id (pv_aggregate_id v) (st_pickup_counters d') of
      None \<Rightarrow> False | Some c \<Rightarrow> 1 \<le> pv_version v \<and> pv_version v \<le> pc_last_version c) (st_pickup_details d)"
    using ok1 by (auto simp: pickup_versions_ok_def list_all_iff f split: option.split_asm)
  moreover have "distinct (map (\<lambda>v. (pv_aggregate_id v, pv_version v)) (st_pickup_details d'))"
    using ok unfolding r by (simp add: pickup_versions_ok_def distinct_map_filter)
  ultimately show ?thesis using ok1 keys by (simp add: pickup_versions_ok_def list_all_iff r)
qed

lemma sort_by_greatest:
  assumes x: "x \<in> set xs" and top: "\<And>y. y \<in> set xs \<Longrightarrow> y \<noteq> x \<Longrightarrow> (k y :: int) < k x"
  shows "\<exists>rest. sort_by (\<lambda>a b. k b \<le> k a) xs = x # rest"
proof -
  let ?s = "sort_by (\<lambda>a b. k b \<le> k a) xs"
  have s: "sorted_wrt (\<lambda>a b. k b \<le> k a) ?s" by (rule sorted_sort_by) auto
  obtain h rest where h: "?s = h # rest" using x by (cases ?s) (metis empty_iff list.set(1) set_sort_by)+
  have "h = x"
  proof (rule ccontr)
    assume ne: "h \<noteq> x"
    have "x \<in> set ?s" "h \<in> set xs" using x set_sort_by h by (metis list.set_intros(1))+
    then have "k x \<le> k h" using s ne h by auto
    then show False using top [OF \<open>h \<in> set xs\<close> ne] by simp
  qed
  then show ?thesis using h by blast
qed

text \<open>The version just set is the current one.\<close>

lemma set_pickup_current:
  assumes ok: "pickup_versions_ok d"
    and run: "set_pickup_details to_vec new_v4 actor command payload pickup sandbox now d = Inr (Inr s, d')"
  obtains keys l where "pickup = Some keys" "fetch_listing d' (cmd_aggregate_id command) = Some l" "ls_seller_pubky l = actor"
    "current_details d' (ls_aggregate_id l) = Some
      \<lparr>pv_aggregate_id = ls_aggregate_id l, pv_seller_pubky = ls_seller_pubky l,
       pv_version = spd_expected_version payload + 1,
       pv_ciphertext = keys_seal (kr_cipher keys) (kr_nonce keys (st_next_uuid d)) (kr_keys keys)
         (details_aad (ls_aggregate_id l) (spd_expected_version payload + 1)) (to_vec (spd_details payload)),
       pv_created_at = now, pv_updated_at = now\<rparr>"
    "\<exists>c. fetch pc_aggregate_id (ls_aggregate_id l) (st_pickup_counters d') = Some c
       \<and> pc_last_version c = spd_expected_version payload + 1 \<and> pc_cleared_at c = None"
proof -
  from run obtain keys l row where k: "pickup = Some keys" "fetch_listing d (cmd_aggregate_id command) = Some l" "ls_seller_pubky l = actor"
    and row: "row = \<lparr>pv_aggregate_id = ls_aggregate_id l, pv_seller_pubky = ls_seller_pubky l,
       pv_version = spd_expected_version payload + 1,
       pv_ciphertext = keys_seal (kr_cipher keys) (kr_nonce keys (st_next_uuid d)) (kr_keys keys)
         (details_aad (ls_aggregate_id l) (spd_expected_version payload + 1)) (to_vec (spd_details payload)),
       pv_created_at = now, pv_updated_at = now\<rparr>"
    and r: "st_pickup_details d' = st_pickup_details d @ [row]"
    and cs: "st_pickup_counters d' = map (\<lambda>c. if pc_aggregate_id c = ls_aggregate_id l
       then c\<lparr>pc_last_version := spd_expected_version payload + 1, pc_cleared_at := None, pc_updated_at := now\<rparr> else c)
       (st_pickup_counters (ensure_pickup_counter l now d))"
    and c: "\<exists>c. fetch pc_aggregate_id (ls_aggregate_id l) (st_pickup_counters (ensure_pickup_counter l now d)) = Some c
       \<and> pc_last_version c = spd_expected_version payload"
    and log: "log_step (d\<lparr>st_pickup_details := st_pickup_details d', st_pickup_counters := st_pickup_counters d'\<rparr>) d'"
    by (rule set_pickup_details_run) simp
  let ?d1 = "ensure_pickup_counter l now d"
  have ok1: "pickup_versions_ok ?d1" using ok by (rule ensure_pickup_counter_ok)
  have det: "st_pickup_details ?d1 = st_pickup_details d" by (simp add: ensure_pickup_counter_def)
  have f: "fetch pc_aggregate_id (ls_aggregate_id l) (st_pickup_counters d')
      = map_option (\<lambda>c. c\<lparr>pc_last_version := spd_expected_version payload + 1, pc_cleared_at := None, pc_updated_at := now\<rparr>)
           (fetch pc_aggregate_id (ls_aggregate_id l) (st_pickup_counters ?d1))"
    unfolding cs by (subst fetch_map_update) simp_all
  have fetch': "\<exists>c. fetch pc_aggregate_id (ls_aggregate_id l) (st_pickup_counters d') = Some c
       \<and> pc_last_version c = spd_expected_version payload + 1 \<and> pc_cleared_at c = None"
    using c by (auto simp: f)
  have open': "\<not> pickup_cleared d' (ls_aggregate_id l)" by (auto simp: pickup_cleared_def list_ex_iff cs)
  let ?mine = "filter (\<lambda>v. pv_aggregate_id v = ls_aggregate_id l) (st_pickup_details d')"
  have "pv_version y < pv_version row" if "y \<in> set ?mine" "y \<noteq> row" for y
  proof -
    have "y \<in> set (st_pickup_details ?d1)" "pv_aggregate_id y = ls_aggregate_id l"
      using that r det by (auto split: if_split_asm)
    then have "pv_version y \<le> spd_expected_version payload"
      using ok1 c by (auto simp: pickup_versions_ok_def list_all_iff)
    then show ?thesis by (simp add: row)
  qed
  then obtain rest where "sort_by (\<lambda>a b. pv_version b \<le> pv_version a) ?mine = row # rest"
    using sort_by_greatest [of row ?mine pv_version] r by (auto simp: row)
  then have cur: "current_details d' (ls_aggregate_id l) = Some row" using open' by (simp add: current_details_def)
  have "fetch_listing d' (cmd_aggregate_id command) = Some l"
    using k(2) log_stepD(1) [OF log] by (simp add: fetch_listing_def)
  then show thesis using that [OF k(1) _ k(3)] cur fetch' unfolding row by blast
qed

lemma ring_open_seal:
  assumes "ring_ok ring"
  shows "ring_open ring aad (keys_seal (kr_cipher ring) (kr_nonce ring n) (kr_keys ring) aad p) = Some p"
  using assms unfolding ring_ok_def ring_open_def
  by (intro keys_open_seal) (simp_all add: key_material_def)

lemma set_then_read:
  assumes ok: "pickup_versions_ok d" "ring_ok keys" and serde: "from_slice (to_vec (spd_details payload)) = Some v"
    and run: "set_pickup_details to_vec new_v4 actor command payload (Some keys) sandbox now d = Inr (Inr s, d')"
  shows "get_listing_pickup_details from_slice (Some keys) actor (cmd_aggregate_id command) d' = Inr
    \<lparr>od_listing_aggregate_id = cmd_aggregate_id command,
     od_current = Some (v, spd_expected_version payload + 1, format_timestamp now),
     od_last_version = spd_expected_version payload + 1\<rparr>"
proof -
  from ok(1) run obtain l where l: "fetch_listing d' (cmd_aggregate_id command) = Some l" "ls_seller_pubky l = actor"
    and cur: "current_details d' (ls_aggregate_id l) = Some
      \<lparr>pv_aggregate_id = ls_aggregate_id l, pv_seller_pubky = ls_seller_pubky l,
       pv_version = spd_expected_version payload + 1,
       pv_ciphertext = keys_seal (kr_cipher keys) (kr_nonce keys (st_next_uuid d)) (kr_keys keys)
         (details_aad (ls_aggregate_id l) (spd_expected_version payload + 1)) (to_vec (spd_details payload)),
       pv_created_at = now, pv_updated_at = now\<rparr>"
    and c: "\<exists>c. fetch pc_aggregate_id (ls_aggregate_id l) (st_pickup_counters d') = Some c
       \<and> pc_last_version c = spd_expected_version payload + 1 \<and> pc_cleared_at c = None"
    by (rule set_pickup_current) simp
  have k: "ls_aggregate_id l = cmd_aggregate_id command"
    using fetch_Some [OF l(1) [unfolded fetch_listing_def]] by simp
  have "find (\<lambda>x. ls_aggregate_id x = cmd_aggregate_id command \<and> ls_seller_pubky x = actor) (st_listings d') = Some l"
    using l by (intro find_conj) (simp_all add: fetch_listing_def fetch_def)
  then show ?thesis
    using c cur serde ring_open_seal [OF ok(2)] k by (auto simp: get_listing_pickup_details_def Let_def)
qed

section \<open>The reveal\<close>

lemma reveal_lines_run:
  assumes "reveal_lines from_slice keys k d ss = Inr lines"
  shows "list_all2 (\<lambda>s line. rvl_line_index line = ps_line_index s \<and> rvl_aggregate_id line = ps_listing_aggregate_id s
    \<and> rvl_version line = ps_version s
    \<and> (\<exists>p. ring_open keys (snapshot_aad k (ps_line_index s) (ps_version s)) (ps_ciphertext s) = Some p
         \<and> from_slice p = Some (rvl_details line))
    \<and> (rvl_withdrawn_by_seller line \<longleftrightarrow> current_pickup_version d (ps_listing_aggregate_id s) = None)) ss lines"
  using assms by (induction ss arbitrary: lines) (auto simp: Let_def split: option.split_asm sum.split_asm)

section \<open>Steps\<close>

text \<open>Pickup details hold no stock.\<close>

lemma pickup_step:
  assumes ok: "books_ok d" "auctions_ok d" "pickup_versions_ok d'"
    and log: "log_step (d\<lparr>st_pickup_details := a, st_pickup_counters := b\<rparr>) d'"
  shows "delivery_step d d'"
  using ok log_stepD [OF log] books_ok_cong [of d' d] auctions_ok_cong [of d' d] total_stock_cong [of d' d]
  by (simp add: delivery_step_def)

text \<open>The delivery columns of a listing.\<close>

lemma set_listing_delivery_step:
  assumes ok: "books_ok d" "auctions_ok d" and l: "fetch_listing d a = Some l"
    and run: "set_listing_delivery a k c n d = Inr (u, d')"
  shows "books_ok d' \<and> auctions_ok d' \<and> (\<forall>b. total_stock d' b = total_stock d b)
    \<and> (\<exists>rows. d' = d\<lparr>st_listings := rows\<rparr>)"
proof -
  let ?f = "\<lambda>l. l\<lparr>ls_digital_delivery_kind := k, ls_digital_delivery_content_type := c, ls_digital_delivery_size_bytes := n\<rparr>"
  obtain w where u: "update_listings (\<lambda>l. ls_aggregate_id l = a) ?f d = Inr (w, d')"
    using run by (auto simp: set_listing_delivery_def seq_eq_Inr)
  note e = update_listing_books [OF ok(1) l u]
  have b: "books_ok d'" and lw: "listing_written a (Some l) (?f l) d d'"
    and d': "d' = d\<lparr>st_listings := map (\<lambda>l. if ls_aggregate_id l = a then ?f l else l) (st_listings d)\<rparr>"
    by (rule e; simp)+
  have "auction_agrees d (?f l)" by (rule agrees_kept [OF fetch_agrees [OF ok(2) l]]) simp_all
  then have "auctions_ok d'" using auctions_ok_written [OF ok(2) lw b] by blast
  moreover have "total_stock d' b = total_stock d b" for b
    using lw l by (cases "b = a") (simp_all add: total_stock_def listing_written_def)
  ultimately show ?thesis using b d' by blast
qed

lemma digital_counter_cas_run:
  assumes "digital_counter_cas l expected now d = Inr (Inr v, d1)"
  shows "v = expected" "\<exists>rows. d1 = d\<lparr>st_digital_counters := rows\<rparr>"
proof -
  have d1: "d1 = ensure_digital_counter l now d" and "v = expected"
    using assms by (auto simp: digital_counter_cas_def Let_def refuse_def split: option.split_asm if_split_asm)
  then show "v = expected" by simp
  show "\<exists>rows. d1 = d\<lparr>st_digital_counters := rows\<rparr>"
  proof (cases "list_ex (\<lambda>c. dc_listing_aggregate_id c = ls_aggregate_id l) (st_digital_counters d)")
    case True
    then have "d1 = d\<lparr>st_digital_counters := st_digital_counters d\<rparr>" by (simp add: d1 ensure_digital_counter_def)
    then show ?thesis ..
  qed (auto simp: d1 ensure_digital_counter_def)
qed

lemma update_digital_counters_frame:
  "update_digital_counters a f d = Inr (u, d') \<Longrightarrow> \<exists>rows. d' = d\<lparr>st_digital_counters := rows\<rparr>"
  by (auto simp: update_digital_counters_def sql_update_def Let_def seq_def split: if_split_asm)

lemma digital_frameI: "digital_frame d d" "digital_frame d (d\<lparr>st_digital_counters := c\<rparr>)"
    "digital_frame d (d\<lparr>st_digital_versions := v\<rparr>)" "digital_frame d (supersede_versions a now d)"
    "log_step d d' \<Longrightarrow> digital_frame d d'"
  by (auto simp: digital_frame_def supersede_versions_def Let_def log_step_def)

lemma digital_frame_trans: "digital_frame d d1 \<Longrightarrow> digital_frame d1 d' \<Longrightarrow> digital_frame d d'"
  by (simp add: digital_frame_def)

lemma random_deliverable_id_log: "random_deliverable_id new_v4 d = (x, d') \<Longrightarrow> log_step d d'"
  by (auto simp: random_deliverable_id_def draw_uuid_def log_step_def intro!: exI [of _ "st_events d"] exI [of _ "st_outbox d"])

text \<open>Both digital commands end in the columns of the listing and an event.\<close>

lemma digital_step:
  assumes ok: "books_ok d" "auctions_ok d" "pickup_versions_ok d" and l: "fetch_listing d a = Some l"
    and fr: "digital_frame d d1" and run: "set_listing_delivery a k c n d1 = Inr (u, d2)" and log: "log_step d2 d'"
  shows "delivery_step d d'"
proof -
  have ok1: "books_ok d1" "auctions_ok d1"
    using ok(1,2) fr books_ok_cong [of d1 d] auctions_ok_cong [of d1 d] by (simp_all add: digital_frame_def)
  have "fetch_listing d1 a = Some l" using l fr by (simp add: digital_frame_def fetch_listing_def)
  note s = set_listing_delivery_step [OF ok1 this run]
  then obtain rows where d2: "d2 = d1\<lparr>st_listings := rows\<rparr>" by blast
  have "total_stock d1 = total_stock d" using fr total_stock_cong [of d1 d] by (auto simp: digital_frame_def)
  then show ?thesis
    using s ok(3) fr log_stepD [OF log] log_pickup(1,2) [OF log] books_log [OF log] auctions_ok_cong [of d' d2]
      pickup_versions_cong [of d' d]
    by (simp add: delivery_step_def d2 digital_frame_def)
qed

lemma set_digital_step:
  assumes ok: "books_ok d" "auctions_ok d" "pickup_versions_ok d"
    and run: "set_digital_delivery to_vec new_v4 actor command payload digital homeserver max_bytes now d = Inr (Inr s, d')"
  shows "delivery_step d d'"
proof -
  obtain keys l d1 v where l: "fetch_listing d (cmd_aggregate_id command) = Some l"
    and cas: "digital_counter_cas l (sdd_expected_version payload) now d = Inr (Inr v, d1)"
    and st: "store_version to_vec new_v4 actor command (sdd_delivery payload) keys l (v + 1) now d1 = Inr (Inr s, d')"
    using run
    by (auto simp: set_digital_delivery_def refuse_def split: option.split_asm if_split_asm elim!: attempt_cases)
  have k: "ls_aggregate_id l = cmd_aggregate_id command"
    using fetch_Some [OF l [unfolded fetch_listing_def]] by simp
  obtain d2 d3 x y rows d4 d5 u1 u2 K C N e where
    x: "(case sdd_delivery payload of DFile file \<Rightarrow> (df_deliverable_id file, d1) | _ \<Rightarrow> random_deliverable_id new_v4 d1) = (x, d2)"
    and y: "\<exists>aad msg. draw_seal keys aad msg d2 = (y, d3)"
    and c: "update_digital_counters (ls_aggregate_id l) e ((supersede_versions (ls_aggregate_id l) now d3)\<lparr>st_digital_versions := rows\<rparr>)
        = Inr (u1, d4)"
    and sl: "set_listing_delivery (ls_aggregate_id l) K C N d4 = Inr (u2, d5)"
    and fin: "\<exists>ev z w. finish_digital new_v4 command l actor ev z w now d5 = Inr (Inr s, d')"
    using st by (auto simp: store_version_def Let_def seq_eq_Inr split: prod.split_asm) blast
  have "digital_frame d1 d2"
    using x random_deliverable_id_log [of new_v4 d1 x d2] by (auto intro: digital_frameI split: digital_delivery.split_asm)
  moreover have "digital_frame d2 d3" using y draw_seal_log digital_frameI(5) by blast
  moreover have "digital_frame d d1" using digital_counter_cas_run(2) [OF cas] digital_frameI(2) by blast
  moreover have "digital_frame d3 d4"
    using update_digital_counters_frame [OF c] digital_frameI(2,3,4) digital_frame_trans by metis
  ultimately have "digital_frame d d4" by (blast intro: digital_frame_trans)
  moreover have "log_step d5 d'" using fin finish_digital_run by blast
  ultimately show ?thesis using digital_step [OF ok l] sl k by metis
qed

lemma clear_digital_step:
  assumes ok: "books_ok d" "auctions_ok d" "pickup_versions_ok d"
    and run: "clear_digital_delivery new_v4 actor command payload digital now d = Inr (Inr s, d')"
  shows "delivery_step d d'"
proof -
  obtain l d1 v where l: "fetch_listing d (cmd_aggregate_id command) = Some l"
    and cas: "digital_counter_cas l (cdd_expected_version payload) now d = Inr (Inr v, d1)"
    and st: "seq (update_digital_counters (ls_aggregate_id l) (\<lambda>c. c\<lparr>dc_cleared_at := Some now, dc_updated_at := now\<rparr>)
         (supersede_versions (ls_aggregate_id l) now d1)) (\<lambda>_ d2.
           seq (set_listing_delivery (ls_aggregate_id l) None None None d2)
             (\<lambda>_. finish_digital new_v4 command l actor ''digital_delivery.cleared'' None v now)) = Inr (Inr s, d')"
    using run
    by (auto simp: clear_digital_delivery_def refuse_def split: option.split_asm if_split_asm elim!: attempt_cases)
  have k: "ls_aggregate_id l = cmd_aggregate_id command"
    using fetch_Some [OF l [unfolded fetch_listing_def]] by simp
  obtain d2 d3 where c: "update_digital_counters (ls_aggregate_id l) (\<lambda>c. c\<lparr>dc_cleared_at := Some now, dc_updated_at := now\<rparr>)
         (supersede_versions (ls_aggregate_id l) now d1) = Inr ((), d2)"
    and sl: "set_listing_delivery (ls_aggregate_id l) None None None d2 = Inr ((), d3)"
    and fin: "finish_digital new_v4 command l actor ''digital_delivery.cleared'' None v now d3 = Inr (Inr s, d')"
    using st by (auto simp: seq_eq_Inr)
  have "digital_frame d d1" using digital_counter_cas_run(2) [OF cas] digital_frameI(2) by blast
  moreover have "digital_frame d1 d2"
    using update_digital_counters_frame [OF c] digital_frameI(2,4) digital_frame_trans by metis
  ultimately have "digital_frame d d2" by (rule digital_frame_trans)
  moreover have "log_step d3 d'" using fin finish_digital_run by blast
  ultimately show ?thesis using digital_step [OF ok l] sl k by metis
qed

text \<open>The two commands on an order.\<close>

lemma delivered_order_edge [simp]: "has_edge order_machine ''fulfillment.deliver_digital'' ''paid'' ''delivered''"
  by code_simp

lemma order_delivery_step:
  assumes ok: "books_ok d" "auctions_ok d" "pickup_versions_ok d" and order: "fetch_order d k = Some order"
    and emails: "d1 = d\<lparr>st_delivery_emails := rows, st_next_uuid := n\<rparr>"
    and w: "write_order order f d1 = Inr (updated, d2)" and log: "log_step d2 d'"
    and f: "\<And>x. or_id (f x) = or_id x" "\<And>x. or_stock_held (f x) = or_stock_held x" "\<And>x. or_lines (f x) = or_lines x"
      "delivery_of_order order (f order)" "hold_shape order \<Longrightarrow> hold_shape (f order)"
  shows "delivery_step d d' \<and> updated = f order \<and> order_change k order (f order) d d'"
proof -
  have ok1: "books_ok d1" using ok(1) books_ok_cong [of d1 d] by (simp add: emails)
  have o1: "fetch_order d1 k = Some order" using order by (simp add: emails fetch_order_def)
  have shape: "hold_shape order"
    using ok(1) fetch_Some [OF order [unfolded fetch_order_def]] by (simp add: books_ok_def list_all_iff)
  obtain ws where u: "update_orders (\<lambda>r. or_id r = or_id order \<and> or_revision r = or_revision order) f d1 = Inr (updated # ws, d2)"
    using w by (auto simp: write_order_def fetch_one_Inr)
  have holds: "order_holds (f order) a = order_holds order a" for a
    using f(2,3) by (simp add: order_holds_def)
  note b = write_order_books [OF ok1 o1 u f(1) holds f(5) [OF shape]]
  have ch: "order_change k order (f order) d d'"
    using b(3) order log_stepD(5) [OF log] by (simp add: order_change_def fetch_order_def emails)
  have "delivery_step d d'"
    using ok b f(4) ch log_stepD [OF log] log_pickup(1,2) [OF log] books_log [OF log] auctions_ok_cong [of d' d]
      pickup_versions_cong [of d' d] total_stock_cong [of d' d]
    by (auto simp: delivery_step_def emails)
  then show ?thesis using b(1) ch by blast
qed

lemma store_delivery_email_frame:
  "\<exists>rows n. store_delivery_email keys k buyer email now d = d\<lparr>st_delivery_emails := rows, st_next_uuid := n\<rparr>"
proof -
  let ?e = "store_delivery_email keys k buyer email now d"
  have "?e = d\<lparr>st_delivery_emails := st_delivery_emails ?e, st_next_uuid := st_next_uuid ?e\<rparr>"
    by (simp add: store_delivery_email_def draw_seal_def Let_def)
  then show ?thesis by blast
qed

lemma set_delivery_email_run:
  assumes "set_delivery_email new_v4 actor command payload digital now d = Inr (Inr s, d')"
  obtains keys order updated d2 where "digital = Some keys" "fetch_order d (sde_order_id payload) = Some order"
    "or_buyer_pubky order = actor" "has_email_line order" "or_state order \<in> set [''pending_payment'', ''paid'']"
    "\<not> already_emailed d (or_id order)" "email_is_well_formed (sde_delivery_email payload)"
    "write_order order (\<lambda>r. r\<lparr>or_revision := or_revision r + 1, or_updated_at := now\<rparr>)
       (store_delivery_email keys (or_id order) (or_buyer_pubky order) (sde_delivery_email payload) now d) = Inr (updated, d2)"
    "log_step d2 d'"
proof -
  obtain keys where k: "digital = Some keys"
    using assms by (auto simp: set_delivery_email_def refuse_def split: option.split_asm)
  let ?f = "\<lambda>r. r\<lparr>or_revision := or_revision r + 1, or_updated_at := now\<rparr>"
  obtain order updated d2 e n where o': "fetch_order d (sde_order_id payload) = Some order"
    and g: "or_buyer_pubky order = actor" "has_email_line order" "or_state order \<in> set [''pending_payment'', ''paid'']"
    "\<not> already_emailed d (or_id order)" "email_is_well_formed (sde_delivery_email payload)"
    and w: "write_order order ?f
       (store_delivery_email keys (or_id order) (or_buyer_pubky order) (sde_delivery_email payload) now d) = Inr (updated, d2)"
    and fin: "order_action_success new_v4 actor command updated e n now d2 = Inr (Inr s, d')"
    using assms k
    by (auto simp: set_delivery_email_def with_order_accept refuse_def seq_eq_Inr split: if_split_asm)
  show thesis
    by (rule order_action_success_log [OF fin]) (rule that [OF k o' g w])
qed

lemma set_delivery_email_step:
  assumes ok: "books_ok d" "auctions_ok d" "pickup_versions_ok d"
    and run: "set_delivery_email new_v4 actor command payload digital now d = Inr (Inr s, d')"
  shows "delivery_step d d'"
proof -
  let ?f = "\<lambda>r. r\<lparr>or_revision := or_revision r + 1, or_updated_at := now\<rparr>"
  obtain keys order updated d2 where o': "fetch_order d (sde_order_id payload) = Some order"
    and w: "write_order order ?f
       (store_delivery_email keys (or_id order) (or_buyer_pubky order) (sde_delivery_email payload) now d) = Inr (updated, d2)"
    and log: "log_step d2 d'"
    using run by (rule set_delivery_email_run)
  obtain rows n where e: "store_delivery_email keys (or_id order) (or_buyer_pubky order) (sde_delivery_email payload) now d
      = d\<lparr>st_delivery_emails := rows, st_next_uuid := n\<rparr>"
    using store_delivery_email_frame by blast
  have "delivery_of_order order (?f order)" by (simp add: delivery_of_order_def same_deal_def)
  moreover have "hold_shape order \<Longrightarrow> hold_shape (?f order)" by (simp add: hold_shape_def)
  ultimately show ?thesis using order_delivery_step [OF ok o' e w log] by simp
qed

lemma deliver_digital_step:
  assumes ok: "books_ok d" "auctions_ok d" "pickup_versions_ok d"
    and run: "deliver_digital new_v4 actor command payload now d = Inr (Inr s, d')"
  shows "delivery_step d d'"
proof -
  obtain order updated d2 e n where o': "fetch_order d (dd_order_id payload) = Some order"
    and g: "or_seller_pubky order = actor" "or_fulfillment order = ''digital''" "or_state order = ''paid''"
    and w: "write_order order (delivered_order (delivery_complete d order (dd_channel payload)) (dd_channel payload) now)
       (case dd_channel payload of ChannelEmail \<Rightarrow> mark_emailed (or_id order) now d | ChannelMessage \<Rightarrow> d) = Inr (updated, d2)"
    and fin: "order_action_success new_v4 actor command updated e n now d2 = Inr (Inr s, d')"
    using run
    by (auto simp: deliver_digital_def with_order_accept refuse_def seq_eq_Inr Let_def split: if_split_asm option.split_asm)
  let ?f = "delivered_order (delivery_complete d order (dd_channel payload)) (dd_channel payload) now"
  obtain rows n where e: "(case dd_channel payload of ChannelEmail \<Rightarrow> mark_emailed (or_id order) now d | ChannelMessage \<Rightarrow> d)
      = d\<lparr>st_delivery_emails := rows, st_next_uuid := n\<rparr>"
  proof (cases "dd_channel payload")
    case ChannelEmail
    then show thesis using that [of "st_next_uuid d" "st_delivery_emails (mark_emailed (or_id order) now d)"] by (simp add: mark_emailed_def)
  next
    case ChannelMessage
    then show thesis using that [of "st_next_uuid d" "st_delivery_emails d"] by simp
  qed
  have f: "or_id (?f x) = or_id x" "or_stock_held (?f x) = or_stock_held x" "or_lines (?f x) = or_lines x" for x
    by (simp_all add: delivered_order_def)
  have "delivery_of_order order (?f order)"
    using g by (simp add: delivery_of_order_def same_deal_def delivered_order_def)
  moreover have "hold_shape order \<Longrightarrow> hold_shape (?f order)" using g by (auto simp: hold_shape_def delivered_order_def)
  moreover have "log_step d2 d'" using order_action_success_log [OF fin] by blast
  ultimately show ?thesis using order_delivery_step [OF ok o' e w _ f] by blast
qed
text \<open>The revision check of an order command does not depend on the emails, so what a delivery command writes is read back.\<close>

lemma order_written:
  assumes "books_ok d" "fetch_order d k = Some order" "write_order order f d = Inr (updated, d2)"
    and f: "\<And>x. or_id (f x) = or_id x" "\<And>x. or_stock_held (f x) = or_stock_held x" "\<And>x. or_lines (f x) = or_lines x"
      "hold_shape order \<Longrightarrow> hold_shape (f order)"
  shows "updated = f order" "fetch_order d2 k = Some (f order)" "st_delivery_emails d2 = st_delivery_emails d"
proof -
  obtain ws where u: "update_orders (\<lambda>r. or_id r = or_id order \<and> or_revision r = or_revision order) f d = Inr (updated # ws, d2)"
    using assms(3) by (auto simp: write_order_def fetch_one_Inr)
  have shape: "hold_shape order"
    using assms(1) fetch_Some [OF assms(2) [unfolded fetch_order_def]] by (simp add: books_ok_def list_all_iff)
  have holds: "order_holds (f order) a = order_holds order a" for a using f(2,3) by (simp add: order_holds_def)
  note b = write_order_books [OF assms(1,2) u f(1) holds f(4) [OF shape]]
  show "updated = f order" "fetch_order d2 k = Some (f order)" using b(1,3) by (simp_all add: order_change_def)
  show "st_delivery_emails d2 = st_delivery_emails d"
    using u by (auto simp: update_orders_def sql_update_def Let_def seq_def split: if_split_asm)
qed

lemma stored_email_row:
  assumes "emails_ok d" "fetch_order d k = Some order"
  shows "\<exists>row. email_row (store_delivery_email keys k (or_buyer_pubky order) email now d) k = Some row
    \<and> em_buyer_pubky row = or_buyer_pubky order
    \<and> em_ciphertext row = Some (keys_seal (kr_cipher keys) (kr_nonce keys (st_next_uuid d)) (kr_keys keys)
        (email_aad k (or_buyer_pubky order)) email)"
proof (cases "fetch em_order_id k (st_delivery_emails d)")
  case None
  then have "\<not> list_ex (\<lambda>e. em_order_id e = k) (st_delivery_emails d)"
    by (auto simp: fetch_None list_ex_iff)
  then show ?thesis using None by (simp add: store_delivery_email_def draw_seal_def Let_def email_row_def fetch_snoc)
next
  case (Some row)
  then have "list_ex (\<lambda>e. em_order_id e = k) (st_delivery_emails d)"
    using fetch_Some [OF Some] by (auto simp: list_ex_iff)
  moreover have "em_buyer_pubky row = or_buyer_pubky order"
    using assms fetch_Some [OF Some] by (auto simp: emails_ok_def list_all_iff)
  ultimately show ?thesis
    using Some by (simp add: store_delivery_email_def draw_seal_def Let_def email_row_def fetch_map_update)
qed
lemma delivery_dispatch_step:
  assumes ok: "books_ok d" "auctions_ok d" "pickup_versions_ok d"
    and run: "dispatch_delivery context new_v4 actor command now d = Some (Inr (Inr s, d'))"
  shows "delivery_step d d'"
proof (cases "cmd_payload command")
  case (SetPickupDetails payload)
  then have run: "set_pickup_details (de_details_to_vec context) new_v4 actor command payload (de_pickup context)
      (de_sandbox_payments_enabled context) now d = Inr (Inr s, d')" using run by (simp add: dispatch_delivery_def)
  show ?thesis
    using pickup_step [OF ok(1,2) set_pickup_versions_ok [OF ok(3) run]] set_pickup_details_run [OF run] by metis
next
  case (ClearPickupDetails payload)
  then have run: "clear_pickup_details new_v4 actor command payload (de_pickup context)
      (de_sandbox_payments_enabled context) now d = Inr (Inr s, d')" using run by (simp add: dispatch_delivery_def)
  show ?thesis
    using pickup_step [OF ok(1,2) clear_pickup_versions_ok [OF ok(3) run]] clear_pickup_details_run [OF run] by metis
qed (use run set_digital_step [OF ok] clear_digital_step [OF ok] set_delivery_email_step [OF ok] deliver_digital_step [OF ok]
      in \<open>auto simp: dispatch_delivery_def\<close>)

section \<open>Properties\<close>

lemma sample_ring_ok: "ring_ok sample_ring"
  using sample_cipher_ok by (simp add: ring_ok_def sample_ring_def sample_nonce_def XNONCE_LEN_def)

lemma sample_pickup_db_ok: "books_ok sample_pickup_db" "auctions_ok sample_pickup_db" "pickup_versions_ok sample_pickup_db"
  by code_simp+



text \<open>C30: Pickup details are read back as they were set.  After an accepted \<open>pickup_details.set\<close> the seller who set them
  reads exactly those details, at the version after the one the command expected, whatever versions came before; the key
  ring only has to open what it seals and the JSON codec to decode what it encodes.\<close>

theorem pickup_details_roundtrip:
  assumes "pickup_versions_ok d" "ring_ok keys" "from_slice (to_vec (spd_details payload)) = Some v"
    and "set_pickup_details to_vec new_v4 actor command payload (Some keys) sandbox now d = Inr (Inr s, d')"
  shows "get_listing_pickup_details from_slice (Some keys) actor (cmd_aggregate_id command) d' = Inr
    \<lparr>od_listing_aggregate_id = cmd_aggregate_id command,
     od_current = Some (v, spd_expected_version payload + 1, format_timestamp now),
     od_last_version = spd_expected_version payload + 1\<rparr>"
  using assms by (rule set_then_read)

theorem pickup_details_roundtrip_witness:
  "\<exists>s d'. set_pickup_details (\<lambda>_. ''{}'') show_nat ''seller'' sample_pickup_command sample_set_pickup (Some sample_ring) False 50
        sample_pickup_db = Inr (Inr s, d')
    \<and> get_listing_pickup_details (\<lambda>_. Some sample_pickup_details) (Some sample_ring) ''seller'' ''listing:l'' d'
      = Inr \<lparr>od_listing_aggregate_id = ''listing:l'', od_current = Some (sample_pickup_details, 1, format_timestamp 50), od_last_version = 1\<rparr>"
proof -
  let ?r = "set_pickup_details (\<lambda>_. ''{}'') show_nat ''seller'' sample_pickup_command sample_set_pickup (Some sample_ring) False 50
        sample_pickup_db"
  have run: "?r = Inr (Inr (projr (fst (projr ?r))), snd (projr ?r))" by code_simp
  have c: "(\<lambda>_. Some sample_pickup_details) ((\<lambda>_. ''{}'') (spd_details sample_set_pickup)) = Some sample_pickup_details" by simp
  from pickup_details_roundtrip [OF sample_pickup_db_ok(3) sample_ring_ok c run] run show ?thesis
    by (auto simp: sample_pickup_command_def sample_set_pickup_def)
qed

text \<open>C27: Pickup details reach the buyer who paid and nobody else.  The reveal answers only the buyer of a pickup order that
  carries a receipt and is not over, never on a deployment with sandbox payments and never for an order a sandbox payment
  confirmed; it shows, line by line, what was sealed into the order's snapshots at payment, whatever the seller has set
  since, and it writes nothing but the time of the first reveal.\<close>

theorem pickup_reveal_safety:
  assumes "get_order_pickup_details from_slice pickup sandbox actor k now d = (Inr (at, lines), d')"
  shows "\<not> sandbox
    \<and> (\<exists>order keys. order \<in> set (st_orders d) \<and> or_id order = k \<and> or_buyer_pubky order = actor \<and> or_fulfillment order = ''pickup''
        \<and> or_receipt_id order \<noteq> None \<and> or_state order \<notin> set TERMINAL_ORDER_STATES
        \<and> at = format_timestamp (case or_first_revealed_at order of Some t \<Rightarrow> t | None \<Rightarrow> now)
        \<and> pickup = Some keys \<and> snapshots_of d k \<noteq> []
        \<and> list_all2 (\<lambda>s line. ps_confirming_adapter s \<noteq> ''sandbox'' \<and> rvl_line_index line = ps_line_index s
            \<and> rvl_version line = ps_version s
            \<and> (\<exists>p. ring_open keys (snapshot_aad k (ps_line_index s) (ps_version s)) (ps_ciphertext s) = Some p
                 \<and> from_slice p = Some (rvl_details line))) (snapshots_of d k) lines)
    \<and> d' = d\<lparr>st_orders := map (\<lambda>r. if or_id r = k \<and> or_first_revealed_at r = None then r\<lparr>or_first_revealed_at := Some now\<rparr> else r)
        (st_orders d)\<rparr>"
proof -
  obtain order keys where f: "find (\<lambda>o'. or_id o' = k \<and> (or_buyer_pubky o' = actor \<or> or_seller_pubky o' = actor)) (st_orders d) = Some order"
    and g: "reveal_refusal actor sandbox order = None" "pickup = Some keys" "unpaid_or_over order = None"
    and sb: "\<not> list_ex (\<lambda>s. ps_confirming_adapter s = ''sandbox'') (snapshots_of d (or_id order))" "snapshots_of d (or_id order) \<noteq> []"
    and l: "reveal_lines from_slice keys (or_id order) d (snapshots_of d (or_id order)) = Inr lines"
    and st: "\<exists>ws. stamp_reveal (or_id order) now d = Inr (ws, d')"
    and t: "at = format_timestamp (case or_first_revealed_at order of Some t \<Rightarrow> t | None \<Rightarrow> now)"
    using assms
    by (auto simp: get_order_pickup_details_def Let_def split: option.split_asm if_split_asm sum.split_asm prod.split_asm)
  have o': "order \<in> set (st_orders d)" "or_id order = k" using f by (auto simp: find_Some_iff)
  have "list_all2 (\<lambda>s line. ps_confirming_adapter s \<noteq> ''sandbox'' \<and> rvl_line_index line = ps_line_index s
            \<and> rvl_version line = ps_version s
            \<and> (\<exists>p. ring_open keys (snapshot_aad k (ps_line_index s) (ps_version s)) (ps_ciphertext s) = Some p
                 \<and> from_slice p = Some (rvl_details line))) (snapshots_of d k) lines"
    using reveal_lines_run [OF l] sb(1) unfolding o'(2) by (auto simp: list_all2_conv_all_nth list_ex_iff)
  moreover have "d' = d\<lparr>st_orders := map (\<lambda>r. if or_id r = k \<and> or_first_revealed_at r = None
        then r\<lparr>or_first_revealed_at := Some now\<rparr> else r) (st_orders d)\<rparr>"
    using st unfolding o'(2) by (auto simp: stamp_reveal_def update_orders_def sql_update_def Let_def seq_def split: if_split_asm)
  ultimately show ?thesis
    using g sb o' t by (auto simp: reveal_refusal_def unpaid_or_over_def split: if_split_asm)
qed

theorem pickup_reveal_safety_witness:
  "\<exists>at lines d'. get_order_pickup_details (\<lambda>_. Some sample_pickup_details) (Some sample_ring) False ''buyer'' ''o1'' 70 sample_reveal_db
      = (Inr (at, lines), d') \<and> snapshots_of sample_reveal_db ''o1'' \<noteq> []"
proof -
  let ?r = "get_order_pickup_details (\<lambda>_. Some sample_pickup_details) (Some sample_ring) False ''buyer'' ''o1'' 70 sample_reveal_db"
  have run: "?r = (Inr (fst (projr (fst ?r)), snd (projr (fst ?r))), snd ?r)" by code_simp
  from pickup_reveal_safety [OF run] run show ?thesis by blast
qed

text \<open>A delivery email comes back to its buyer.  After an accepted \<open>order.set_delivery_email\<close> the buyer reads the
  address that was set, replacing any earlier one, and a reader who is neither the buyer nor the seller of the order reads
  nothing; the seller reads it only with a receipt on the order, the payment not taken back and the order not ended.\<close>

theorem delivery_email_roundtrip:
  assumes ok: "books_ok d" "emails_ok d" "ring_ok keys" "is_utf8 (sde_delivery_email payload)"
    and run: "set_delivery_email new_v4 actor command payload (Some keys) now d = Inr (Inr s, d')"
  shows "(\<exists>sent. read_delivery_email (Some keys) actor (sde_order_id payload) d' = Inr (sde_delivery_email payload, sent))
    \<and> (\<forall>reader answer. read_delivery_email (Some keys) reader (sde_order_id payload) d' = Inr answer
         \<longrightarrow> (\<exists>order. order \<in> set (st_orders d') \<and> or_id order = sde_order_id payload
              \<and> (reader = or_buyer_pubky order \<or> reader = or_seller_pubky order \<and> seller_email_refusal order = None)))"
proof -
  let ?f = "\<lambda>r. r\<lparr>or_revision := or_revision r + 1, or_updated_at := now\<rparr>" and ?k = "sde_order_id payload"
  obtain order updated d2 where o': "fetch_order d ?k = Some order" "or_buyer_pubky order = actor" "has_email_line order"
    and w: "write_order order ?f
       (store_delivery_email keys (or_id order) (or_buyer_pubky order) (sde_delivery_email payload) now d) = Inr (updated, d2)"
    and log: "log_step d2 d'"
    using run by (rule set_delivery_email_run) simp
  have k: "or_id order = ?k" using o'(1) by (rule fetch_order_id)
  let ?d1 = "store_delivery_email keys ?k (or_buyer_pubky order) (sde_delivery_email payload) now d"
  obtain rows n where e: "?d1 = d\<lparr>st_delivery_emails := rows, st_next_uuid := n\<rparr>" using store_delivery_email_frame by blast
  have d1: "books_ok ?d1" "fetch_order ?d1 ?k = Some order"
    using ok(1) o'(1) books_ok_cong [of ?d1 d] by (simp_all add: e fetch_order_def)
  note wr = order_written [OF d1 w [unfolded k], simplified]
  have "hold_shape order \<Longrightarrow> hold_shape (?f order)" by (simp add: hold_shape_def)
  note wr = wr [OF this]
  obtain row where row: "email_row d' ?k = Some row" "em_buyer_pubky row = or_buyer_pubky order"
      "em_ciphertext row = Some (keys_seal (kr_cipher keys) (kr_nonce keys (st_next_uuid d)) (kr_keys keys)
        (email_aad ?k (or_buyer_pubky order)) (sde_delivery_email payload))"
    using stored_email_row [OF ok(2) o'(1), of keys "sde_delivery_email payload" now] wr(3) log_pickup(3) [OF log]
    by (auto simp: email_row_def)
  have "fetch_order d' ?k = Some (?f order)" using wr(2) log_stepD(5) [OF log] by (simp add: fetch_order_def)
  then have "find (\<lambda>o'. or_id o' = ?k \<and> (or_buyer_pubky o' = actor \<or> or_seller_pubky o' = actor)) (st_orders d') = Some (?f order)"
    using o'(2) by (intro find_conj) (simp_all add: fetch_order_def fetch_def)
  then have "\<exists>sent. read_delivery_email (Some keys) actor ?k d' = Inr (sde_delivery_email payload, sent)"
    using o'(2,3) row ok(4) ring_open_seal [OF ok(3)] k
    by (simp add: read_delivery_email_def has_email_line_def manual_kinds_def from_utf8_def)
  moreover have "\<exists>order. order \<in> set (st_orders d') \<and> or_id order = ?k
      \<and> (reader = or_buyer_pubky order \<or> reader = or_seller_pubky order \<and> seller_email_refusal order = None)"
    if read: "read_delivery_email (Some keys) reader ?k d' = Inr answer" for reader answer
  proof -
    obtain order where f: "find (\<lambda>o'. or_id o' = ?k \<and> (or_buyer_pubky o' = reader \<or> or_seller_pubky o' = reader)) (st_orders d') = Some order"
      and g: "or_buyer_pubky order = reader \<or> seller_email_refusal order = None"
      using read by (auto simp: read_delivery_email_def split: option.split_asm if_split_asm)
    have "order \<in> set (st_orders d') \<and> or_id order = ?k \<and> (or_buyer_pubky order = reader \<or> or_seller_pubky order = reader)"
      using f by (auto simp: find_Some_iff)
    then show ?thesis using g by (intro exI [of _ order]) auto
  qed
  ultimately show ?thesis by blast
qed

theorem delivery_email_roundtrip_witness:
  "\<exists>s d' sent. set_delivery_email show_nat ''buyer'' sample_email_command sample_set_email (Some sample_ring) 50 sample_email_db
        = Inr (Inr s, d')
    \<and> read_delivery_email (Some sample_ring) ''buyer'' ''o1'' d' = Inr (''ann@example.org'', sent)"
proof -
  let ?r = "set_delivery_email show_nat ''buyer'' sample_email_command sample_set_email (Some sample_ring) 50 sample_email_db"
  have run: "?r = Inr (Inr (projr (fst (projr ?r))), snd (projr ?r))" by code_simp
  have ok: "books_ok sample_email_db" "emails_ok sample_email_db" "is_utf8 (sde_delivery_email sample_set_email)" by code_simp+
  from delivery_email_roundtrip [OF ok(1,2) sample_ring_ok ok(3) run] run show ?thesis
    by (auto simp: sample_set_email_def)
qed

end
