(* ===== verification/Locks.thy ===== *)
theory Locks
  imports Delivery Records
begin

text \<open>
  Payments by a Locks content lock: the strict document of \<^verbatim>\<open>content_lock.rs\<close> with its identity check and its
  payment policy, the keys of \<^verbatim>\<open>locks.rs\<close> and the two commands of \<^verbatim>\<open>handlers/locks.rs\<close>.  The typed decoder,
  the canonical serializer, BLAKE3, HMAC, the random reference and the parser of a public key are library code: the
  records \<open>lock_codec\<close> and \<open>locks_runtime\<close> hold them.
\<close>

section \<open>Content locks\<close>

record guarded_resource =
  gr_path :: string
  gr_hash :: "8 word list"
  gr_content_type :: string
  gr_size :: nat

record secondary_guarded_resource =
  sg_hash :: "8 word list"
  sg_content_type :: string
  sg_size :: nat

datatype verifier_type = DevStatic | PaykitPayment

record criterion =
  cr_criterion_id :: string
  cr_verifier_type :: verifier_type
  cr_params :: json

datatype lock_logic = All "string list" | Any "string list"

record content_lock =
  cl_version :: nat
  cl_creator :: string
  cl_primary_resource :: "guarded_resource option"
  cl_secondary_resources :: "(string \<times> secondary_guarded_resource) list"
  cl_criteria :: "criterion list"
  cl_lock_logic :: lock_logic
  cl_requested_credential_ttl_seconds :: nat
  cl_lock_server_override :: "string option"
  cl_created_at :: string

text \<open>A \<open>PubkyIdentity\<close> is its normalized rendering; \<open>lc_identity\<close> is \<open>PubkyIdentity::parse\<close>.\<close>

record lock_codec =
  lc_externals :: externals
  lc_identity :: "string \<Rightarrow> string option"
  lc_decode :: "json \<Rightarrow> content_lock option"
  lc_canonical :: "content_lock \<Rightarrow> string option"
  lc_blake3 :: "string \<Rightarrow> 8 word list"

definition lock_id :: "lock_codec \<Rightarrow> content_lock \<Rightarrow> string option" where
  "lock_id codec lock =
     map_option (\<lambda>canonical. base32_encode (lc_externals codec) (lc_blake3 codec canonical)) (lc_canonical codec lock)"

datatype params_rejection =
  NotObject | MissingField string | UnknownField string | InvalidRecipientPubky | InvalidAmount | InvalidAsset

datatype policy_rejection =
  MustBeOnlyCriterion | InvalidParams params_rejection | RecipientMustMatchCreator | InvalidLockLogic string

definition amount_string_ok :: "string \<Rightarrow> bool" where
  "amount_string_ok amount \<longleftrightarrow> amount \<noteq> [] \<and> list_all is_ascii_digit amount \<and> list_ex (\<lambda>c. c \<noteq> CHR ''0'') amount"

definition required_str :: "(string \<times> json) list \<Rightarrow> string \<Rightarrow> params_rejection \<Rightarrow> params_rejection + string" where
  "required_str object key mistyped =
     (case map_of object key of
        None \<Rightarrow> Inl (MissingField key)
      | Some v \<Rightarrow> (case as_str v of None \<Rightarrow> Inl mistyped | Some s \<Rightarrow> Inr s))"

definition validate_paykit_payment_params :: "lock_codec \<Rightarrow> json \<Rightarrow> params_rejection option" where
  "validate_paykit_payment_params codec params =
     (case as_object params of
        None \<Rightarrow> Some NotObject
      | Some object \<Rightarrow>
          (case find (\<lambda>key. key \<notin> set [''recipient_pubky'', ''amount'', ''asset'']) (map fst object) of
             Some key \<Rightarrow> Some (UnknownField key)
           | None \<Rightarrow>
               (case required_str object ''recipient_pubky'' (MissingField ''recipient_pubky'') of
                  Inl e \<Rightarrow> Some e
                | Inr recipient \<Rightarrow>
                    if lc_identity codec recipient = None then Some InvalidRecipientPubky
                    else
                      (case required_str object ''amount'' InvalidAmount of
                         Inl e \<Rightarrow> Some e
                       | Inr amount \<Rightarrow>
                           if \<not> amount_string_ok amount then Some InvalidAmount
                           else
                             (case required_str object ''asset'' InvalidAsset of
                                Inl e \<Rightarrow> Some e
                              | Inr asset \<Rightarrow> if asset = [] then Some InvalidAsset else None)))))"

definition logic_criteria :: "lock_logic \<Rightarrow> string list" where
  "logic_criteria l = (case l of All cs \<Rightarrow> cs | Any cs \<Rightarrow> cs)"

definition recipient_of :: "lock_codec \<Rightarrow> criterion \<Rightarrow> string option" where
  "recipient_of codec c =
     Option.bind (Option.bind (json_get (cr_params c) ''recipient_pubky'') as_str) (lc_identity codec)"

text \<open>\<open>None\<close> is acceptance.\<close>

definition validate_paykit_payment_v1_policy :: "lock_codec \<Rightarrow> content_lock \<Rightarrow> policy_rejection option" where
  "validate_paykit_payment_v1_policy codec lock =
     (case find (\<lambda>c. cr_verifier_type c = PaykitPayment) (cl_criteria lock) of
        None \<Rightarrow> None
      | Some c \<Rightarrow>
          if length (cl_criteria lock) \<noteq> 1 then Some MustBeOnlyCriterion
          else
            (case validate_paykit_payment_params codec (cr_params c) of
               Some e \<Rightarrow> Some (InvalidParams e)
             | None \<Rightarrow>
                 (case recipient_of codec c of
                    None \<Rightarrow> Some (InvalidParams InvalidRecipientPubky)
                  | Some recipient \<Rightarrow>
                      if recipient \<noteq> cl_creator lock then Some RecipientMustMatchCreator
                      else if logic_criteria (cl_lock_logic lock) \<noteq> [cr_criterion_id c]
                      then Some (InvalidLockLogic (cr_criterion_id c))
                      else None)))"

datatype content_lock_identity_rejection = InvalidResource | InvalidDocument | CreatorMismatch | PathMismatch

record lock_resource_parts =
  lp_creator :: string
  lp_lock_id :: string

definition parse_lock_resource_typed :: "lock_codec \<Rightarrow> string \<Rightarrow> lock_resource_parts option" where
  "parse_lock_resource_typed codec resource =
     Option.bind (canonical_lock_resource (lc_externals codec) resource) (\<lambda>canonical.
       Option.bind (split_lock_resource canonical) (\<lambda>(creator, _, path).
         Option.bind (lc_identity codec creator) (\<lambda>identity.
           map_option (\<lambda>stem. \<lparr>lp_creator = identity, lp_lock_id = stem\<rparr>) (strip_suffix ''.json'' path))))"

definition validate_content_lock_value ::
  "lock_codec \<Rightarrow> json \<Rightarrow> string \<Rightarrow> content_lock_identity_rejection + content_lock" where
  "validate_content_lock_value codec document expected_resource =
     (case parse_lock_resource_typed codec expected_resource of
        None \<Rightarrow> Inl InvalidResource
      | Some expected \<Rightarrow>
          (case lc_decode codec document of
             None \<Rightarrow> Inl InvalidDocument
           | Some lock \<Rightarrow>
               if cl_creator lock \<noteq> lp_creator expected then Inl CreatorMismatch
               else
                 (case lock_id codec lock of
                    None \<Rightarrow> Inl InvalidDocument
                  | Some actual \<Rightarrow> if actual \<noteq> lp_lock_id expected then Inl PathMismatch else Inr lock)))"

section \<open>Keys\<close>

record locks_runtime =
  lr_keys :: locks_keys
  lr_lookup_hmac :: string
  lr_hmac_sha256 :: "string \<Rightarrow> string \<Rightarrow> string"
  lr_random_reference :: "nat \<Rightarrow> string"
  lr_blake3_hex :: "string \<Rightarrow> string"
  lr_codec :: lock_codec

definition encrypt_bundle_id :: "locks_keys \<Rightarrow> uuid \<Rightarrow> string \<Rightarrow> db \<Rightarrow> string \<times> db" where
  "encrypt_bundle_id keys payment_id bundle_id d =
     (seal (lz_cipher keys) (lz_nonce keys (st_next_uuid d)) (lz_encryption keys) (uuid_bytes payment_id) bundle_id,
      d\<lparr>st_next_uuid := Suc (st_next_uuid d)\<rparr>)"

definition decrypt_bundle_id :: "locks_keys \<Rightarrow> uuid \<Rightarrow> string \<Rightarrow> string option" where
  "decrypt_bundle_id keys payment_id sealed =
     Option.bind (open_sealed (lz_cipher keys) (lz_encryption keys) (uuid_bytes payment_id) sealed) from_utf8"

definition open_prepared_value :: "locks_keys \<Rightarrow> uuid \<Rightarrow> string \<Rightarrow> string \<Rightarrow> string option" where
  "open_prepared_value keys payment_id domain sealed =
     Option.bind (open_sealed (lz_cipher keys) (lz_encryption keys) (domain @ uuid_bytes payment_id) sealed) from_utf8"

definition result_reference_aad :: "uuid \<Rightarrow> pubky \<Rightarrow> string" where
  "result_reference_aad payment_id buyer = ''locks-client-reference:'' @ uuid_bytes payment_id @ buyer"

definition seal_result_client_reference :: "locks_keys \<Rightarrow> string \<Rightarrow> uuid \<Rightarrow> pubky \<Rightarrow> string \<Rightarrow> string" where
  "seal_result_client_reference keys nonce payment_id buyer client_reference =
     seal (lz_cipher keys) nonce (lz_encryption keys) (result_reference_aad payment_id buyer) client_reference"

definition open_result_client_reference :: "locks_keys \<Rightarrow> uuid \<Rightarrow> pubky \<Rightarrow> string \<Rightarrow> string option" where
  "open_result_client_reference keys payment_id buyer sealed =
     Option.bind (open_sealed (lz_cipher keys) (lz_encryption keys) (result_reference_aad payment_id buyer) sealed) from_utf8"

definition mint_client_reference :: "locks_runtime \<Rightarrow> db \<Rightarrow> string \<times> db" where
  "mint_client_reference locks d = (lr_random_reference locks (st_next_uuid d), d\<lparr>st_next_uuid := Suc (st_next_uuid d)\<rparr>)"

definition lookup_token :: "locks_runtime \<Rightarrow> string \<Rightarrow> string \<Rightarrow> string" where
  "lookup_token locks creator bundle_id =
     lr_hmac_sha256 locks (lr_lookup_hmac locks) (creator @ newline @ bundle_id)"

definition purge_terminal_locks_checkout_snapshots :: "int \<Rightarrow> datetime \<Rightarrow> db \<Rightarrow> nat \<times> db" where
  "purge_terminal_locks_checkout_snapshots retention_days now d =
     (let due = (\<lambda>s. lk_created_at s < now - seconds (retention_days * 86400)
            \<and> list_ex (\<lambda>p. pm_id p = lk_payment_id s \<and> pm_state p \<in> set [''confirmed'', ''expired'']) (st_payments d));
          purged = map lk_payment_id
            (take 500 (sort_by (\<lambda>a b. lk_created_at a \<le> lk_created_at b) (filter due (st_locks_snapshots d))));
          kept = filter (\<lambda>s. lk_payment_id s \<notin> set purged) (st_locks_snapshots d)
      in (length (st_locks_snapshots d) - length kept, d\<lparr>st_locks_snapshots := kept\<rparr>))"

section \<open>The correlation\<close>

definition OUTCOME_PREPARED :: string where "OUTCOME_PREPARED = ''prepared''"
definition OUTCOME_REGISTERED :: string where "OUTCOME_REGISTERED = ''registered''"

definition correlation_check :: "locks_correlation_row \<Rightarrow> bool" where
  "correlation_check c \<longleftrightarrow>
     0 \<le> co_amount_minor c \<and> 0 \<le> co_exponent c \<and> co_exponent c \<le> 18
     \<and> co_verification_state c \<in> set [''pending'', ''completed'', ''upstream_failed'', ''upstream_expired'']
     \<and> co_preparation_state c \<in> set [''prepared'', ''registered'']
     \<and> (co_preparation_state c = ''prepared'' \<longrightarrow>
          co_expected_resource_ciphertext c \<noteq> None \<and> co_expected_resource_hash c \<noteq> None \<and> co_criterion_id c \<noteq> None
          \<and> co_expected_reader_pubky c \<noteq> None \<and> co_expected_recipient_pubky c \<noteq> None
          \<and> co_client_reference_ciphertext c \<noteq> None \<and> co_bundle_id_ciphertext c = None \<and> co_bundle_lookup_token c = None)
     \<and> (co_preparation_state c = ''registered'' \<longrightarrow>
          co_bundle_id_ciphertext c \<noteq> None \<and> co_bundle_lookup_token c \<noteq> None)"

definition correlation_clash :: "locks_correlation_row \<Rightarrow> locks_correlation_row \<Rightarrow> bool" where
  "correlation_clash a b \<longleftrightarrow>
     co_id a = co_id b \<or> co_payment_id a = co_payment_id b \<or> co_order_id a = co_order_id b
     \<or> co_bundle_lookup_token a \<noteq> None \<and> co_bundle_lookup_token a = co_bundle_lookup_token b"

definition record_binding_outcome :: "uuid_source \<Rightarrow> uuid \<Rightarrow> uuid \<Rightarrow> string \<Rightarrow> datetime \<Rightarrow> db \<Rightarrow> unit tx" where
  "record_binding_outcome new_v4 command_id payment_id outcome now d =
     (let (outcome_id, d1) = draw_uuid new_v4 d
      in seq (sql_insert (\<lambda>b. bo_outcome b \<in> set [''prepared'', ''registered'']) (\<lambda>a b. bo_id a = bo_id b)
                \<lparr>bo_id = outcome_id, bo_payment_id = payment_id, bo_command_id = command_id, bo_outcome = outcome,
                 bo_recorded_at = now\<rparr> (st_binding_outcomes d1))
           (\<lambda>u rows. Inr (u, d1\<lparr>st_binding_outcomes := rows\<rparr>)))"

text \<open>\<open>UPDATE payments SET revision = revision + 1, adapter = 'locks'\<close>.\<close>

definition bind_payment :: "uuid \<Rightarrow> datetime \<Rightarrow> db \<Rightarrow> payment_row tx" where
  "bind_payment payment_id now d =
     fetch_one (update_payments (\<lambda>p. pm_id p = payment_id)
       (\<lambda>p. p\<lparr>pm_revision := pm_revision p + 1, pm_adapter := ''locks'', pm_updated_at := now\<rparr>) d)"

text \<open>The checks both commands open with.\<close>

definition locks_payment ::
  "db \<Rightarrow> pubky \<Rightarrow> command \<Rightarrow> uuid \<Rightarrow> string \<Rightarrow> command_failure + payment_row" where
  "locks_payment d actor command payment_id verb =
     (case fetch pm_id payment_id (st_payments d) of
        None \<Rightarrow> Inl (refused RNotFound NotFound ''The payment was not found.'')
      | Some payment \<Rightarrow>
          if pm_buyer_pubky payment \<noteq> actor
          then Inl (refused RLocksIdentityMismatch Unauthorized (''Only the buyer may '' @ verb))
          else if cmd_aggregate_id command \<noteq> payment_aggregate_id (pm_id payment)
          then Inl (refused RInvalidCommand InvalidCommand ''The payment aggregate id is invalid.'')
          else Inr payment)"

definition invalid_state :: "string \<Rightarrow> command_failure" where
  "invalid_state message = refused RInvalidState InvalidState message"

definition payment_stale :: "payment_row \<Rightarrow> command_failure" where
  "payment_stale payment =
     refused_with_revision RRevisionConflict RevisionConflict ''The payment revision is stale.'' (pm_revision payment)"

definition order_missing :: command_failure where
  "order_missing = refused RInvariantViolation InvariantViolation ''Payment order is missing.''"

section \<open>payment.register_locks\<close>

definition attach_bundle :: "string \<Rightarrow> string \<Rightarrow> datetime \<Rightarrow> locks_correlation_row \<Rightarrow> locks_correlation_row" where
  "attach_bundle ciphertext token now c =
     c\<lparr>co_bundle_id_ciphertext := Some ciphertext, co_bundle_lookup_token := Some token,
       co_preparation_state := ''registered'', co_verification_state := ''pending'',
       co_binding_outcome := Some OUTCOME_REGISTERED, co_updated_at := now\<rparr>"

text \<open>The update with the unique index on the token.\<close>

definition attach_correlation :: "uuid \<Rightarrow> string \<Rightarrow> string \<Rightarrow> datetime \<Rightarrow> db \<Rightarrow> unit tx" where
  "attach_correlation correlation_id ciphertext token now d =
     (if list_ex (\<lambda>c. co_id c \<noteq> correlation_id \<and> co_bundle_lookup_token c = Some token) (st_locks_correlations d)
      then Inl UniqueViolation
      else seq (sql_update correlation_check (\<lambda>c. co_id c = correlation_id) (attach_bundle ciphertext token now)
                  (st_locks_correlations d))
             (\<lambda>_ rows. Inr ((), d\<lparr>st_locks_correlations := rows\<rparr>)))"

definition register_refusal :: "db \<Rightarrow> payment_row \<Rightarrow> locks_correlation_row \<Rightarrow> datetime \<Rightarrow> command_failure option" where
  "register_refusal d payment c now =
     (if co_preparation_state c \<noteq> ''prepared'' then Some (invalid_state ''The payment already has a registered Locks bundle.'')
      else case fetch_order d (pm_order_id payment) of
        None \<Rightarrow> Some order_missing
      | Some order \<Rightarrow>
          if or_state order \<noteq> ''pending_payment'' \<or> \<not> or_stock_held order
             \<or> or_hold_expires_at order \<noteq> Some (co_window_expires_at c)
          then Some (invalid_state ''The order no longer holds the prepared Locks payment window.'')
          else if co_window_expires_at c \<le> now then Some (invalid_state ''The Locks preparation has expired.'')
          else None)"

definition register_locks ::
  "uuid_source \<Rightarrow> pubky \<Rightarrow> command \<Rightarrow> register_locks_payload \<Rightarrow> locks_runtime option \<Rightarrow> datetime \<Rightarrow> db \<Rightarrow> handler_result tx" where
  "register_locks new_v4 actor command payload runtime now d =
     (case runtime of
        None \<Rightarrow> refuse (refused RInvalidCommand InvalidCommand ''Locks verification is not enabled on this deployment.'') d
      | Some locks \<Rightarrow>
          (case locks_payment d actor command (rk_payment_id payload) ''register the Locks correlation.'' of
             Inl failure \<Rightarrow> refuse failure d
           | Inr payment \<Rightarrow>
               if cmd_expected_revision command \<noteq> pm_revision payment then refuse (payment_stale payment) d
               else if pm_state payment \<noteq> ''awaiting_entitlement''
               then refuse (invalid_state ''Only a payment awaiting entitlement can register a Locks correlation.'') d
               else
                 (case fetch co_payment_id (pm_id payment) (st_locks_correlations d) of
                    None \<Rightarrow> refuse (invalid_state
                              ''Prepare the seller-authorized Locks payment before registering a bundle.'') d
                  | Some c \<Rightarrow>
                      (case register_refusal d payment c now of
                         Some failure \<Rightarrow> refuse failure d
                       | None \<Rightarrow>
                           let (ciphertext, d1) = encrypt_bundle_id (lr_keys locks) (pm_id payment) (rk_bundle_id payload) d;
                               token = lookup_token locks (co_creator_pubky c) (rk_bundle_id payload)
                           in seq (attach_correlation (co_id c) ciphertext token now d1) (\<lambda>_ d2.
                                seq (record_binding_outcome new_v4 (cmd_command_id command) (pm_id payment) OUTCOME_REGISTERED
                                       now d2) (\<lambda>_ d3.
                                  seq (bind_payment (pm_id payment) now d3) (\<lambda>updated d4.
                                    seq (insert_event new_v4 (cmd_command_id command) (cmd_aggregate_id command)
                                           (pm_revision updated) actor ''payment.locks_registered'' now d4) (\<lambda>event_id d5.
                                      Inr (Inr \<lparr>hs_revision = pm_revision updated, hs_event_ids = [event_id],
                                        hs_result = ResultLocksRegistered updated
                                          (format_timestamp (co_window_expires_at c))\<rparr>, d5)))))))))"

section \<open>payment.prepare_locks\<close>

definition snapshot_matches_price_of_record :: "money \<Rightarrow> payment_row \<Rightarrow> bool" where
  "snapshot_matches_price_of_record price payment \<longleftrightarrow>
     pm_merchandise payment = Some price \<and> pm_amount_minor payment = amount_minor price
     \<and> pm_currency payment = currency price \<and> pm_exponent payment = exponent price"

definition locks_denomination :: "string \<Rightarrow> int \<Rightarrow> int \<Rightarrow> (string \<times> int) option" where
  "locks_denomination code places amount =
     (if code = ''USD'' \<and> places = 2 then Some (''USD'', amount)
      else if code = ''BTC'' \<and> places = 8 \<or> code = ''SAT'' \<and> places = 0 then Some (''BTC'', amount)
      else None)"

definition criterion_matches_payment :: "lock_codec \<Rightarrow> content_lock \<Rightarrow> string \<Rightarrow> money \<Rightarrow> bool" where
  "criterion_matches_payment codec lock criterion_id price =
     (case locks_denomination (currency price) (exponent price) (amount_minor price) of
        None \<Rightarrow> False
      | Some (lock_asset, lock_amount) \<Rightarrow>
          (case cl_criteria lock of
             [c] \<Rightarrow>
               cr_criterion_id c = criterion_id \<and> cr_verifier_type c = PaykitPayment
               \<and> recipient_of codec c = Some (cl_creator lock)
               \<and> Option.bind (json_get (cr_params c) ''asset'') as_str = Some lock_asset
               \<and> Option.bind (json_get (cr_params c) ''amount'') as_str = Some (show_int lock_amount)
           | _ \<Rightarrow> False))"

definition prepared_result :: "payment_row \<Rightarrow> string \<Rightarrow> datetime \<Rightarrow> handler_success" where
  "prepared_result payment client_reference expires_at =
     \<lparr>hs_revision = pm_revision payment, hs_event_ids = [],
      hs_result = ResultLocksPrepared client_reference (format_timestamp expires_at)\<rparr>"

text \<open>A payment that has a correlation already: a live preparation is recovered, anything else is refused.\<close>

definition existing_preparation ::
  "locks_runtime \<Rightarrow> payment_row \<Rightarrow> locks_correlation_row \<Rightarrow> datetime \<Rightarrow> command_failure + handler_success" where
  "existing_preparation locks payment c now =
     (case co_client_reference_ciphertext c of
        None \<Rightarrow> Inl (invalid_state ''The payment already has a Locks preparation.'')
      | Some sealed_reference \<Rightarrow>
          if co_preparation_state c \<noteq> ''prepared''
          then Inl (invalid_state ''The payment already has a Locks preparation.'')
          else if co_window_expires_at c \<le> now then Inl (invalid_state ''The Locks preparation has expired.'')
          else
            (case open_prepared_value (lr_keys locks) (pm_id payment) ''locks-client-reference:'' sealed_reference of
               None \<Rightarrow> Inl (invalid_state ''The payment already has a Locks preparation.'')
             | Some client_reference \<Rightarrow> Inr (prepared_result payment client_reference (co_window_expires_at c))))"

text \<open>The snapshot taken at checkout is the authority: what it says must still hold of the payment, and the seller's
  document must be the lock it names.\<close>

definition snapshot_mismatch :: command_failure where
  "snapshot_mismatch = invalid_state ''The checkout Locks snapshot does not match the payment.''"

definition document_mismatch :: command_failure where
  "document_mismatch = invalid_state ''The seller's Locks document does not match the payment.''"

definition snapshot_resource ::
  "locks_runtime \<Rightarrow> payment_row \<Rightarrow> order_row \<Rightarrow> locks_snapshot_row \<Rightarrow> money \<Rightarrow> command_failure + string" where
  "snapshot_resource locks payment order snapshot price =
     (if or_payment_method order \<noteq> None
      then Inl (invalid_state ''The payment is already bound to a non-Locks payment rail.'')
      else if lk_order_id snapshot \<noteq> pm_order_id payment \<or> lk_expected_reader_pubky snapshot \<noteq> pm_buyer_pubky payment
              \<or> lk_expected_recipient_pubky snapshot \<noteq> pm_seller_pubky payment
              \<or> \<not> snapshot_matches_price_of_record price payment
      then Inl snapshot_mismatch
      else
        (case open_prepared_value (lr_keys locks) (pm_id payment) ''locks-checkout-resource:'' (lk_resource_ciphertext snapshot) of
           None \<Rightarrow> Inl (refused RInvariantViolation InvariantViolation ''The checkout Locks snapshot could not be opened.'')
         | Some resource \<Rightarrow>
             if lr_blake3_hex locks resource \<noteq> lk_resource_hash snapshot then Inl snapshot_mismatch else Inr resource))"

definition lock_location :: "locks_runtime \<Rightarrow> payment_row \<Rightarrow> string \<Rightarrow> command_failure + string \<times> string" where
  "lock_location locks payment resource =
     (case Option.bind (canonical_lock_resource (lc_externals (lr_codec locks)) resource) split_lock_resource of
        None \<Rightarrow> Inl (invalid_state ''The seller's Locks resource is invalid.'')
      | Some (creator, prefix, content_path) \<Rightarrow>
          if creator \<noteq> pm_seller_pubky payment
          then Inl (invalid_state ''The seller's Locks resource creator does not match the order.'')
          else Inr (creator, prefix @ content_path))"

definition verified_lock ::
  "locks_runtime \<Rightarrow> (pubky \<Rightarrow> string \<Rightarrow> json fetch_outcome) \<Rightarrow> payment_row \<Rightarrow> locks_snapshot_row \<Rightarrow> money \<Rightarrow> string
     \<Rightarrow> command_failure option" where
  "verified_lock locks fetch_content_lock payment snapshot price resource =
     (case lock_location locks payment resource of
        Inl failure \<Rightarrow> Some failure
      | Inr (creator, path) \<Rightarrow>
          (case fetch_content_lock creator path of
             RecordNotFound \<Rightarrow> Some (invalid_state ''The seller's Locks document is unavailable.'')
           | Unavailable \<Rightarrow> Some (refused RLocksUpstreamUnavailable UpstreamUnavailable
                               ''The seller's Locks document could not be reached.'')
           | Found content \<Rightarrow>
               (case validate_content_lock_value (lr_codec locks) content resource of
                  Inl _ \<Rightarrow> Some document_mismatch
                | Inr lock \<Rightarrow>
                    if validate_paykit_payment_v1_policy (lr_codec locks) lock \<noteq> None
                       \<or> \<not> criterion_matches_payment (lr_codec locks) lock (lk_criterion_id snapshot) price
                    then Some document_mismatch else None)))"

definition prepared_correlation ::
  "uuid \<Rightarrow> payment_row \<Rightarrow> locks_snapshot_row \<Rightarrow> money \<Rightarrow> nat \<Rightarrow> datetime \<Rightarrow> string \<Rightarrow> string \<Rightarrow> datetime \<Rightarrow> locks_correlation_row" where
  "prepared_correlation correlation_id payment snapshot price policy_version window_expires_at resource_ciphertext
       reference_ciphertext now =
     \<lparr>co_id = correlation_id, co_payment_id = pm_id payment, co_order_id = lk_order_id snapshot,
      co_buyer_pubky = lk_expected_reader_pubky snapshot, co_creator_pubky = lk_expected_recipient_pubky snapshot,
      co_lock_resource_hash = lk_resource_hash snapshot, co_amount_minor = amount_minor price, co_asset = currency price,
      co_exponent = exponent price, co_policy_version = policy_version, co_verification_state = ''pending'',
      co_window_expires_at = window_expires_at, co_expected_resource_ciphertext = Some resource_ciphertext,
      co_expected_resource_hash = Some (lk_resource_hash snapshot), co_criterion_id = Some (lk_criterion_id snapshot),
      co_expected_reader_pubky = Some (lk_expected_reader_pubky snapshot),
      co_expected_recipient_pubky = Some (lk_expected_recipient_pubky snapshot),
      co_client_reference_ciphertext = Some reference_ciphertext, co_preparation_state = ''prepared'',
      co_binding_outcome = Some OUTCOME_PREPARED, co_bundle_id_ciphertext = None, co_bundle_lookup_token = None,
      co_created_at = now, co_updated_at = now\<rparr>"

text \<open>The hold, the prepared row, its outcome and the adapter, in one transaction.\<close>

definition create_preparation ::
  "uuid_source \<Rightarrow> command \<Rightarrow> locks_runtime \<Rightarrow> payment_row \<Rightarrow> order_row \<Rightarrow> locks_snapshot_row \<Rightarrow> money \<Rightarrow> string \<Rightarrow> int
     \<Rightarrow> datetime \<Rightarrow> db \<Rightarrow> handler_result tx" where
  "create_preparation new_v4 command locks payment order snapshot price resource payment_window_seconds now d =
     attempt (acquire_payment_hold order payment_window_seconds ''locks'' now d)
       (\<lambda>_ d1.
          let (client_reference, d2) = mint_client_reference locks d1;
              (correlation_id, d3) = draw_uuid new_v4 d2;
              window_expires_at = now + seconds payment_window_seconds;
              (resource_ciphertext, d4) = encrypt_prepared_value (lr_keys locks) (pm_id payment) ''locks-resource:'' resource d3;
              (reference_ciphertext, d5) = encrypt_prepared_value (lr_keys locks) (pm_id payment) ''locks-client-reference:''
                 client_reference d4
          in case fetch_order d5 (lk_order_id snapshot) of
               None \<Rightarrow> Inl CheckViolation
             | Some current \<Rightarrow>
                 seq (sql_insert correlation_check correlation_clash
                        (prepared_correlation correlation_id payment snapshot price (or_guarantee_policy_version current)
                           window_expires_at resource_ciphertext reference_ciphertext now) (st_locks_correlations d5))
                   (\<lambda>_ rows.
                      seq (record_binding_outcome new_v4 (cmd_command_id command) (pm_id payment) OUTCOME_PREPARED now
                             (d5\<lparr>st_locks_correlations := rows\<rparr>))
                        (\<lambda>_ d6.
                           seq (bind_payment (pm_id payment) now d6)
                             (\<lambda>updated d7. Inr (Inr (prepared_result updated client_reference window_expires_at), d7)))))"

definition prepare_locks ::
  "uuid_source \<Rightarrow> pubky \<Rightarrow> command \<Rightarrow> prepare_locks_payload \<Rightarrow> locks_runtime option
     \<Rightarrow> (pubky \<Rightarrow> string \<Rightarrow> json fetch_outcome) option \<Rightarrow> int \<Rightarrow> datetime \<Rightarrow> db \<Rightarrow> handler_result tx" where
  "prepare_locks new_v4 actor command payload runtime homeserver payment_window_seconds now d =
     (case (runtime, homeserver) of
        (Some locks, Some fetch_content_lock) \<Rightarrow>
          (case locks_payment d actor command (pk_payment_id payload) ''prepare the Locks payment.'' of
             Inl failure \<Rightarrow> refuse failure d
           | Inr payment \<Rightarrow>
               (case fetch co_payment_id (pm_id payment) (st_locks_correlations d) of
                  Some c \<Rightarrow> Inr (existing_preparation locks payment c now, d)
                | None \<Rightarrow>
                    if cmd_expected_revision command \<noteq> pm_revision payment then refuse (payment_stale payment) d
                    else if pm_state payment \<noteq> ''awaiting_entitlement''
                    then refuse (invalid_state ''Only a payment awaiting entitlement can prepare Locks.'') d
                    else
                      (case fetch_order d (pm_order_id payment) of
                         None \<Rightarrow> refuse order_missing d
                       | Some order \<Rightarrow>
                           if or_state order \<noteq> ''pending_payment''
                           then refuse (invalid_state ''Only a pending order can prepare Locks.'') d
                           else
                             (case fetch lk_payment_id (pm_id payment) (st_locks_snapshots d) of
                                None \<Rightarrow> refuse (invalid_state
                                  ''The order has no seller-authored Locks payment lock snapshot.'') d
                              | Some snapshot \<Rightarrow>
                                  (case lk_merchandise snapshot of
                                     None \<Rightarrow> Inl (Protocol ''unexpected null; try decoding as an Option'')
                                   | Some price \<Rightarrow>
                                       (case snapshot_resource locks payment order snapshot price of
                                          Inl failure \<Rightarrow> refuse failure d
                                        | Inr resource \<Rightarrow>
                                            (case verified_lock locks fetch_content_lock payment snapshot price resource of
                                               Some failure \<Rightarrow> refuse failure d
                                             | None \<Rightarrow>
                                                 create_preparation new_v4 command locks payment order snapshot price resource
                                                   payment_window_seconds now d)))))))
      | _ \<Rightarrow> refuse (refused RInvalidCommand InvalidCommand ''Locks preparation is not enabled on this deployment.'') d)"

definition dispatch_locks ::
  "locks_runtime option \<Rightarrow> (pubky \<Rightarrow> string \<Rightarrow> json fetch_outcome) option \<Rightarrow> int \<Rightarrow> uuid_source \<Rightarrow> pubky \<Rightarrow> command \<Rightarrow> datetime
     \<Rightarrow> db \<Rightarrow> handler_result tx option" where
  "dispatch_locks runtime homeserver payment_window_seconds new_v4 actor command now d =
     (case cmd_payload command of
        RegisterLocks payload \<Rightarrow> Some (register_locks new_v4 actor command payload runtime now d)
      | PrepareLocks payload \<Rightarrow>
          Some (prepare_locks new_v4 actor command payload runtime homeserver payment_window_seconds now d)
      | _ \<Rightarrow> None)"

end
