(* ===== verification/Locks_Facts.thy ===== *)
theory Locks_Facts
  imports Locks Payments_Facts Validation_Facts
begin

text \<open>
  What the two Locks commands promise: they keep the books, a preparation rests on the lock the seller published at
  checkout and on nothing the buyer sends, and a bundle attaches once, inside the prepared window, sealed so that the
  service reads back what was registered.
\<close>

section \<open>Vocabulary\<close>

text \<open>The payment of a Locks command: a new revision, the adapter of the rail, and everything else as it was.\<close>

definition locks_bound :: "uuid \<Rightarrow> datetime \<Rightarrow> payment_row list \<Rightarrow> payment_row list" where
  "locks_bound k now =
     map (\<lambda>p. if pm_id p = k then p\<lparr>pm_revision := pm_revision p + 1, pm_adapter := ''locks'', pm_updated_at := now\<rparr> else p)"

text \<open>A lock that asks the price, in the unit Locks counts it in, paid to the seller and nothing else.\<close>

definition lock_asks :: "locks_runtime \<Rightarrow> content_lock \<Rightarrow> string \<Rightarrow> money \<Rightarrow> bool" where
  "lock_asks locks lock criterion_id price \<longleftrightarrow>
     (\<exists>c asset. cl_criteria lock = [c] \<and> cr_criterion_id c = criterion_id \<and> cr_verifier_type c = PaykitPayment
        \<and> logic_criteria (cl_lock_logic lock) = [criterion_id]
        \<and> recipient_of (lr_codec locks) c = Some (cl_creator lock)
        \<and> locks_denomination (currency price) (exponent price) (amount_minor price) = Some (asset, amount_minor price)
        \<and> json_get (cr_params c) ''asset'' = Some (JString asset)
        \<and> json_get (cr_params c) ''amount'' = Some (JString (show_int (amount_minor price))))"

section \<open>Samples\<close>

definition sample_seller_key :: string where "sample_seller_key = replicate 52 CHR ''y''"

definition sample_lock_stem :: string where "sample_lock_stem = sample_encode (replicate 32 0)"

definition sample_resource :: string where
  "sample_resource = sample_seller_key @ ''/pub/locks.app/'' @ sample_lock_stem @ ''.json''"

definition sample_content_lock :: content_lock where
  "sample_content_lock =
     \<lparr>cl_version = 1, cl_creator = sample_seller_key, cl_primary_resource = None, cl_secondary_resources = [],
      cl_criteria = [\<lparr>cr_criterion_id = ''c'', cr_verifier_type = PaykitPayment,
        cr_params = JObject [(''recipient_pubky'', JString sample_seller_key), (''amount'', JString ''200''), (''asset'', JString ''USD'')]\<rparr>],
      cl_lock_logic = All [''c''], cl_requested_credential_ttl_seconds = 60, cl_lock_server_override = None,
      cl_created_at = ''2026''\<rparr>"

definition sample_lock_codec :: lock_codec where
  "sample_lock_codec =
     \<lparr>lc_externals = sample_externals, lc_identity = Some, lc_decode = (\<lambda>_. Some sample_content_lock),
      lc_canonical = (\<lambda>_. Some ''{}''), lc_blake3 = (\<lambda>_. replicate 32 0)\<rparr>"

definition sample_locks :: locks_runtime where
  "sample_locks =
     \<lparr>lr_keys = \<lparr>lz_cipher = sample_cipher, lz_nonce = (\<lambda>_. sample_nonce), lz_encryption = ''k''\<rparr>,
      lr_lookup_hmac = ''h'', lr_hmac_sha256 = (\<lambda>k m. k @ m), lr_random_reference = show_nat, lr_blake3_hex = (\<lambda>s. s),
      lr_codec = sample_lock_codec\<rparr>"

definition sample_price :: money where "sample_price = \<lparr>amount_minor = 200, currency = ''USD'', exponent = 2\<rparr>"

definition sample_locks_db :: db where
  "sample_locks_db = sample_stock_db\<lparr>
     st_payments := [sample_payment\<lparr>pm_merchandise := Some sample_price, pm_seller_pubky := sample_seller_key\<rparr>],
     st_locks_snapshots := [\<lparr>lk_payment_id = ''p1'', lk_order_id = ''o1'',
       lk_resource_ciphertext = seal sample_cipher sample_nonce ''k'' (''locks-checkout-resource:'' @ uuid_bytes ''p1'') sample_resource,
       lk_resource_hash = sample_resource, lk_criterion_id = ''c'', lk_merchandise = Some sample_price,
       lk_expected_reader_pubky = ''buyer'', lk_expected_recipient_pubky = sample_seller_key, lk_created_at = 0\<rparr>]\<rparr>"

definition sample_prepare :: command where
  "sample_prepare =
     \<lparr>cmd_command_id = ''c11'', cmd_aggregate_id = payment_aggregate_id ''p1'', cmd_expected_revision = 1, cmd_issued_at = 0,
      cmd_payload = PrepareLocks \<lparr>pk_payment_id = ''p1''\<rparr>\<rparr>"

definition sample_register_locks :: command where
  "sample_register_locks =
     \<lparr>cmd_command_id = ''c12'', cmd_aggregate_id = payment_aggregate_id ''p1'', cmd_expected_revision = 2, cmd_issued_at = 0,
      cmd_payload = RegisterLocks \<lparr>rk_payment_id = ''p1'', rk_bundle_id = ''B''\<rparr>\<rparr>"

definition sample_prepared_db :: db where
  "sample_prepared_db =
     snd (projr (prepare_locks show_nat ''buyer'' sample_prepare \<lparr>pk_payment_id = ''p1''\<rparr> (Some sample_locks)
       (Some (\<lambda>_ _. Found JNull)) 600 50 sample_locks_db))"
section \<open>Frames\<close>

lemma bind_payment_run:
  assumes "bind_payment k now d = Inr (p, d')"
  shows "d' = d\<lparr>st_payments := locks_bound k now (st_payments d)\<rparr>"
  using assms by (auto simp: bind_payment_def fetch_one_Inr payments.upd_Inr locks_bound_def)

lemma binding_outcome_run:
  assumes "record_binding_outcome new_v4 command_id k outcome now d = Inr (u, d')"
  shows "\<exists>n rows. d' = d\<lparr>st_next_uuid := n, st_binding_outcomes := rows\<rparr>"
  using assms
  by (auto simp: record_binding_outcome_def draw_uuid_def Let_def seq_eq_Inr sql_insert_def split: if_split_asm)

lemma attach_correlation_run:
  assumes "attach_correlation k ciphertext token now d = Inr (u, d')"
  shows "d' = d\<lparr>st_locks_correlations := map (\<lambda>c. if co_id c = k then attach_bundle ciphertext token now c else c) (st_locks_correlations d)\<rparr>"
    "\<not> list_ex (\<lambda>c. co_id c \<noteq> k \<and> co_bundle_lookup_token c = Some token) (st_locks_correlations d)"
  using assms by (auto simp: attach_correlation_def sql_update_def Let_def seq_def split: if_split_asm)

lemma locks_payment_run:
  assumes "locks_payment d actor command k verb = Inr payment"
  shows "fetch pm_id k (st_payments d) = Some payment" "pm_buyer_pubky payment = actor" "pm_id payment = k"
  using assms fetch_Some [of pm_id k "st_payments d" payment]
  by (auto simp: locks_payment_def split: option.split_asm if_split_asm)

section \<open>Registering\<close>

lemma register_locks_run:
  assumes run: "register_locks new_v4 actor command payload (Some locks) now d = Inr (Inr s, d')"
  obtains payment c order n rows where
    "fetch pm_id (rk_payment_id payload) (st_payments d) = Some payment" "pm_buyer_pubky payment = actor"
    "pm_state payment = ''awaiting_entitlement''" "pm_id payment = rk_payment_id payload"
    "fetch co_payment_id (rk_payment_id payload) (st_locks_correlations d) = Some c" "co_preparation_state c = ''prepared''"
    "fetch_order d (pm_order_id payment) = Some order" "or_state order = ''pending_payment''" "or_stock_held order"
    "or_hold_expires_at order = Some (co_window_expires_at c)" "now < co_window_expires_at c"
    "\<not> list_ex (\<lambda>x. co_id x \<noteq> co_id c
        \<and> co_bundle_lookup_token x = Some (lookup_token locks (co_creator_pubky c) (rk_bundle_id payload))) (st_locks_correlations d)"
    "log_step (d\<lparr>st_payments := locks_bound (rk_payment_id payload) now (st_payments d),
       st_locks_correlations := map (\<lambda>x. if co_id x = co_id c
         then attach_bundle (fst (encrypt_bundle_id (lr_keys locks) (rk_payment_id payload) (rk_bundle_id payload) d))
           (lookup_token locks (co_creator_pubky c) (rk_bundle_id payload)) now x else x) (st_locks_correlations d),
       st_next_uuid := n, st_binding_outcomes := rows\<rparr>) d'"
proof -
  let ?k = "rk_payment_id payload"
  obtain payment where p: "locks_payment d actor command ?k ''register the Locks correlation.'' = Inr payment"
    using run by (auto simp: register_locks_def refuse_def split: sum.split_asm)
  note pp = locks_payment_run [OF p]
  obtain c where c: "fetch co_payment_id ?k (st_locks_correlations d) = Some c" "register_refusal d payment c now = None"
    and st: "pm_state payment = ''awaiting_entitlement''"
    using run p pp(3) by (auto simp: register_locks_def refuse_def split: option.split_asm if_split_asm)
  let ?t = "lookup_token locks (co_creator_pubky c) (rk_bundle_id payload)"
  let ?x = "encrypt_bundle_id (lr_keys locks) ?k (rk_bundle_id payload) d"
  obtain u2 d2 u3 d3 u d4 e where a: "attach_correlation (co_id c) (fst ?x) ?t now (snd ?x) = Inr (u2, d2)"
    and b: "record_binding_outcome new_v4 (cmd_command_id command) ?k OUTCOME_REGISTERED now d2 = Inr (u3, d3)"
    and w: "bind_payment ?k now d3 = Inr (u, d4)"
    and i: "insert_event new_v4 (cmd_command_id command) (cmd_aggregate_id command) (pm_revision u) actor
        ''payment.locks_registered'' now d4 = Inr (e, d')"
    using run p pp(3) c st
    by (auto simp: register_locks_def refuse_def seq_eq_Inr Let_def split: if_split_asm prod.split_asm)
  obtain order where o': "fetch_order d (pm_order_id payment) = Some order" "or_state order = ''pending_payment''" "or_stock_held order"
    "or_hold_expires_at order = Some (co_window_expires_at c)" "now < co_window_expires_at c" "co_preparation_state c = ''prepared''"
    using c(2) by (auto simp: register_refusal_def split: option.split_asm if_split_asm)
  note aa = attach_correlation_run [OF a]
  obtain n rows where d3: "d3 = d2\<lparr>st_next_uuid := n, st_binding_outcomes := rows\<rparr>" using binding_outcome_run [OF b] by blast
  have d4: "d4 = d\<lparr>st_payments := locks_bound ?k now (st_payments d),
       st_locks_correlations := map (\<lambda>x. if co_id x = co_id c then attach_bundle (fst ?x) ?t now x else x) (st_locks_correlations d),
       st_next_uuid := n, st_binding_outcomes := rows\<rparr>"
    by (simp add: bind_payment_run [OF w] d3 aa(1) encrypt_bundle_id_def)
  have free: "\<not> list_ex (\<lambda>x. co_id x \<noteq> co_id c \<and> co_bundle_lookup_token x = Some ?t) (st_locks_correlations d)"
    using aa(2) by (simp add: encrypt_bundle_id_def)
  show thesis
    by (rule that [OF pp(1,2) st pp(3) c(1) o'(6,1-5) free]) (use insert_event_log [OF i] d4 in simp)
qed

section \<open>Preparing\<close>

lemma criterion_asks:
  assumes "validate_paykit_payment_v1_policy (lr_codec locks) lock = None"
    and "criterion_matches_payment (lr_codec locks) lock criterion_id price"
  shows "lock_asks locks lock criterion_id price"
proof -
  obtain c where one: "cl_criteria lock = [c]"
    using assms(2)
    by (cases "cl_criteria lock"; cases "tl (cl_criteria lock)") (auto simp: criterion_matches_payment_def split: option.split_asm prod.split_asm)
  obtain asset amount where c: "cl_criteria lock = [c]" "cr_criterion_id c = criterion_id" "cr_verifier_type c = PaykitPayment"
    "recipient_of (lr_codec locks) c = Some (cl_creator lock)"
    and den: "locks_denomination (currency price) (exponent price) (amount_minor price) = Some (asset, amount)"
    and j: "Option.bind (json_get (cr_params c) ''asset'') as_str = Some asset"
      "Option.bind (json_get (cr_params c) ''amount'') as_str = Some (show_int amount)"
    using assms(2) one by (auto simp: criterion_matches_payment_def split: option.split_asm prod.split_asm)
  have "amount = amount_minor price" using den by (auto simp: locks_denomination_def split: if_split_asm)
  moreover have "logic_criteria (cl_lock_logic lock) = [criterion_id]"
    using assms(1) c by (auto simp: validate_paykit_payment_v1_policy_def split: option.split_asm if_split_asm)
  moreover have "as_str v = Some x \<Longrightarrow> v = JString x" for v x by (cases v) (auto simp: as_str_def)
  ultimately show ?thesis
    using c den j unfolding lock_asks_def by (auto simp: Option.bind_eq_Some_conv)
qed
lemma hold_line_list_frame:
  "hold_line_list t lines now d = Inr (Inr x, d') \<Longrightarrow> \<exists>rows. d' = d\<lparr>st_listings := rows\<rparr>"
proof (induction lines arbitrary: d)
  case Nil
  then have "d' = d\<lparr>st_listings := st_listings d\<rparr>" by simp
  then show ?case ..
next
  case (Cons line lines)
  then obtain u d1 where l: "hold_line t line now d = Inr (Inr u, d1)" and r: "hold_line_list t lines now d1 = Inr (Inr x, d')"
    by (auto simp: attempt_accept)
  have "\<exists>rows. d1 = d\<lparr>st_listings := rows\<rparr>"
    using l by (auto simp: hold_line_def seq_eq_Inr listings.upd_Inr split: option.split_asm if_split_asm)
  then show ?case using Cons.IH [OF r] by auto
qed

lemma acquire_frame:
  assumes "acquire_payment_hold o0 window source now d = Inr (Inr o1, d')"
  shows "\<exists>ls os. d' = d\<lparr>st_listings := ls, st_orders := os\<rparr>"
  using assms
proof (cases rule: acquire_hold_run)
  case auction
  then have "d' = d\<lparr>st_listings := st_listings d, st_orders := st_orders d\<rparr>" by simp
  then show ?thesis by blast
next
  case (taken f g d1 w)
  have "\<exists>ls. d1 = d\<lparr>st_listings := ls\<rparr>"
  proof (cases "d1 = d")
    case True
    then have "d1 = d\<lparr>st_listings := st_listings d\<rparr>" by simp
    then show ?thesis ..
  next
    case False
    then show ?thesis using taken(3) hold_line_list_frame by blast
  qed
  then show ?thesis using taken(4) by (auto simp: orders.upd_Inr)
qed

lemma create_preparation_run:
  assumes run: "create_preparation new_v4 command locks payment order snapshot price resource window now d = Inr (Inr s, d')"
  obtains o1 d1 c n rows where "acquire_payment_hold order window ''locks'' now d = Inr (Inr o1, d1)"
    "c = prepared_correlation (co_id c) payment snapshot price (co_policy_version c) (now + seconds window)
      (the (co_expected_resource_ciphertext c)) (the (co_client_reference_ciphertext c)) now"
    "co_client_reference_ciphertext c = Some (seal (lz_cipher (lr_keys locks)) (lz_nonce (lr_keys locks) (st_next_uuid d + 3))
       (lz_encryption (lr_keys locks)) (''locks-client-reference:'' @ uuid_bytes (pm_id payment)) (lr_random_reference locks (st_next_uuid d)))"
    "\<not> list_ex (correlation_clash c) (st_locks_correlations d)"
    "d' = d1\<lparr>st_payments := locks_bound (pm_id payment) now (st_payments d),
       st_locks_correlations := st_locks_correlations d @ [c], st_next_uuid := n, st_binding_outcomes := rows\<rparr>"
    "\<exists>updated. s = prepared_result updated (lr_random_reference locks (st_next_uuid d)) (now + seconds window)"
proof -
  obtain o1 d1 where h: "acquire_payment_hold order window ''locks'' now d = Inr (Inr o1, d1)"
    using run by (auto simp: create_preparation_def attempt_accept)
  obtain ls os where d1: "d1 = d\<lparr>st_listings := ls, st_orders := os\<rparr>" using acquire_frame [OF h] by blast
  let ?d5 = "d1\<lparr>st_next_uuid := st_next_uuid d + 4\<rparr>"
  let ?ref = "seal (lz_cipher (lr_keys locks)) (lz_nonce (lr_keys locks) (st_next_uuid d + 3))
       (lz_encryption (lr_keys locks)) (''locks-client-reference:'' @ uuid_bytes (pm_id payment)) (lr_random_reference locks (st_next_uuid d))"
  obtain i v rc rows0 u6 d6 updated where
    ins: "sql_insert correlation_check correlation_clash (prepared_correlation i payment snapshot price v (now + seconds window) rc ?ref now)
        (st_locks_correlations d) = Inr ((), rows0)"
    and b: "record_binding_outcome new_v4 (cmd_command_id command) (pm_id payment) OUTCOME_PREPARED now
        (?d5\<lparr>st_locks_correlations := rows0\<rparr>) = Inr (u6, d6)"
    and w: "bind_payment (pm_id payment) now d6 = Inr (updated, d')"
    and s: "s = prepared_result updated (lr_random_reference locks (st_next_uuid d)) (now + seconds window)"
    using run h
    by (auto simp: create_preparation_def attempt_def mint_client_reference_def draw_uuid_def encrypt_prepared_value_def
        Let_def seq_eq_Inr d1 numeral_eq_Suc split: option.split_asm)
  let ?c = "prepared_correlation i payment snapshot price v (now + seconds window) rc ?ref now"
  have rows0: "rows0 = st_locks_correlations d @ [?c]" and free: "\<not> list_ex (correlation_clash ?c) (st_locks_correlations d)"
    using ins by (auto simp: sql_insert_def split: if_split_asm)
  obtain n rows where d6: "d6 = ?d5\<lparr>st_locks_correlations := rows0, st_next_uuid := n, st_binding_outcomes := rows\<rparr>"
    using binding_outcome_run [OF b] by auto
  have d': "d' = d1\<lparr>st_payments := locks_bound (pm_id payment) now (st_payments d),
       st_locks_correlations := st_locks_correlations d @ [?c], st_next_uuid := n, st_binding_outcomes := rows\<rparr>"
    by (simp add: bind_payment_run [OF w] d6 rows0 d1)
  show thesis by (rule that [OF h _ _ free d']) (use s in \<open>auto simp: prepared_correlation_def\<close>)
qed

lemma prepare_locks_run:
  assumes run: "prepare_locks new_v4 actor command payload (Some locks) (Some fetch_lock) window now d = Inr (Inr s, d')"
    and new: "fetch co_payment_id (pk_payment_id payload) (st_locks_correlations d) = None"
  obtains payment order snapshot price resource where
    "fetch pm_id (pk_payment_id payload) (st_payments d) = Some payment" "pm_buyer_pubky payment = actor"
    "pm_id payment = pk_payment_id payload" "pm_state payment = ''awaiting_entitlement''"
    "fetch_order d (pm_order_id payment) = Some order" "or_state order = ''pending_payment''"
    "fetch lk_payment_id (pk_payment_id payload) (st_locks_snapshots d) = Some snapshot" "lk_merchandise snapshot = Some price"
    "snapshot_resource locks payment order snapshot price = Inr resource"
    "verified_lock locks fetch_lock payment snapshot price resource = None"
    "create_preparation new_v4 command locks payment order snapshot price resource window now d = Inr (Inr s, d')"
proof -
  let ?k = "pk_payment_id payload"
  obtain payment where p: "locks_payment d actor command ?k ''prepare the Locks payment.'' = Inr payment"
    using run by (auto simp: prepare_locks_def refuse_def split: sum.split_asm)
  note pp = locks_payment_run [OF p]
  show thesis
    using run p pp new that [OF pp(1,2,3)]
    by (auto simp: prepare_locks_def refuse_def split: option.split_asm if_split_asm sum.split_asm)
qed
section \<open>Books\<close>

lemma log_step_correlations: "log_step d d' \<Longrightarrow> st_locks_correlations d' = st_locks_correlations d"
  by (auto simp: log_step_def)

lemma acquire_books:
  assumes ok: "books_ok d" and o0: "fetch_order d k = Some o0"
    and run: "acquire_payment_hold o0 window source now d = Inr (Inr o1, d')"
  shows "books_ok d' \<and> (\<forall>a. total_stock d' a = total_stock d a) \<and> order_change k o0 o1 d d' \<and> or_state o1 = or_state o0"
proof (cases "or_auction_aggregate_id o0")
  case None
  have k: "or_id o0 = k" using o0 by (rule fetch_order_id)
  show ?thesis using acquire_hold_books [OF ok _ _ run] o0 None k by (simp add: winner_hold_def)
next
  case (Some a)
  then show ?thesis using run ok o0 by (auto simp: acquire_payment_hold_def order_change_def)
qed

lemma prepare_books:
  assumes ok: "books_ok d"
    and run: "prepare_locks new_v4 actor command payload runtime homeserver window now d = Inr (Inr s, d')"
  shows "books_ok d' \<and> (\<forall>a. total_stock d' a = total_stock d a)
    \<and> (st_orders d' = st_orders d \<or> (\<exists>k o0 o1. order_change k o0 o1 d d' \<and> or_state o1 = or_state o0))
    \<and> (st_payments d' = st_payments d \<or> st_payments d' = locks_bound (pk_payment_id payload) now (st_payments d))"
proof -
  obtain locks fetch_lock where rt: "runtime = Some locks" "homeserver = Some fetch_lock"
    using run by (auto simp: prepare_locks_def refuse_def split: option.split_asm)
  note run = run [unfolded rt]
  show ?thesis
  proof (cases "fetch co_payment_id (pk_payment_id payload) (st_locks_correlations d)")
    case None
    obtain payment order snapshot price resource where k: "pm_id payment = pk_payment_id payload"
      and o': "fetch_order d (pm_order_id payment) = Some order"
      and cr: "create_preparation new_v4 command locks payment order snapshot price resource window now d = Inr (Inr s, d')"
      using run None by (rule prepare_locks_run) blast
    obtain o1 d1 c n rows where h: "acquire_payment_hold order window ''locks'' now d = Inr (Inr o1, d1)"
      and d': "d' = d1\<lparr>st_payments := locks_bound (pm_id payment) now (st_payments d),
       st_locks_correlations := st_locks_correlations d @ [c], st_next_uuid := n, st_binding_outcomes := rows\<rparr>"
      using cr by (rule create_preparation_run) blast
    note b = acquire_books [OF ok o' h]
    have "books_ok d'" using b books_ok_cong [of d' d1] by (simp add: d')
    moreover have "order_change (pm_order_id payment) order o1 d d'" using b by (simp add: order_change_def d' fetch_order_def)
    moreover have "total_stock d' a = total_stock d a" for a using b total_stock_cong [of d' d1 a] by (simp add: d')
    moreover have "st_payments d' = locks_bound (pk_payment_id payload) now (st_payments d)" by (simp add: d' k)
    ultimately show ?thesis using b by blast
  next
    case (Some c)
    then have "d' = d"
      using run by (auto simp: prepare_locks_def locks_payment_def refuse_def dest: fetch_Some split: option.split_asm if_split_asm)
    then show ?thesis using ok by simp
  qed
qed

lemma register_books:
  assumes ok: "books_ok d"
    and run: "register_locks new_v4 actor command payload runtime now d = Inr (Inr s, d')"
  shows "books_ok d' \<and> (\<forall>a. total_stock d' a = total_stock d a) \<and> st_orders d' = st_orders d
    \<and> st_payments d' = locks_bound (rk_payment_id payload) now (st_payments d)"
proof -
  obtain locks where rt: "runtime = Some locks"
    using run by (auto simp: register_locks_def refuse_def split: option.split_asm)
  obtain cs n rows where log: "log_step (d\<lparr>st_payments := locks_bound (rk_payment_id payload) now (st_payments d),
       st_locks_correlations := cs, st_next_uuid := n, st_binding_outcomes := rows\<rparr>) d'"
    using run [unfolded rt] by (rule register_locks_run) blast
  show ?thesis
    using ok log_stepD [OF log] books_ok_cong [of d' d] total_stock_cong [of d' d] by simp
qed

section \<open>Properties\<close>

text \<open>C22: The Locks commands keep the books.  A payment prepared or registered for Locks changes by one revision and its
  adapter and by nothing else, no listing's total changes, at most one order changes and stays in its state, and the
  stock ledger balances: the units a preparation holds come out of the listings they are lines of.\<close>

theorem locks_commands_keep_books:
  assumes ok: "books_ok d"
    and run: "dispatch_locks runtime homeserver window new_v4 actor command now d = Some (Inr (Inr s, d'))"
  shows "books_ok d' \<and> (\<forall>a. total_stock d' a = total_stock d a)
    \<and> (st_orders d' = st_orders d \<or> (\<exists>k o0 o1. order_change k o0 o1 d d' \<and> or_state o1 = or_state o0))
    \<and> (st_payments d' = st_payments d \<or> (\<exists>k. st_payments d' = locks_bound k now (st_payments d)))"
proof (cases "cmd_payload command")
  case (RegisterLocks payload)
  then show ?thesis using run register_books [OF ok, of new_v4 actor command payload runtime now s d'] by (auto simp: dispatch_locks_def)
next
  case (PrepareLocks payload)
  then show ?thesis
    using run prepare_books [OF ok, of new_v4 actor command payload runtime homeserver window now s d'] by (auto simp: dispatch_locks_def)
qed (use run in \<open>auto simp: dispatch_locks_def\<close>)

theorem locks_commands_keep_books_witness:
  "\<exists>s d'. dispatch_locks (Some sample_locks) (Some (\<lambda>_ _. Found JNull)) 600 show_nat ''buyer'' sample_prepare 50 sample_locks_db
      = Some (Inr (Inr s, d')) \<and> books_ok d'"
proof -
  let ?r = "the (dispatch_locks (Some sample_locks) (Some (\<lambda>_ _. Found JNull)) 600 show_nat ''buyer'' sample_prepare 50 sample_locks_db)"
  have run: "dispatch_locks (Some sample_locks) (Some (\<lambda>_ _. Found JNull)) 600 show_nat ''buyer'' sample_prepare 50 sample_locks_db
      = Some (Inr (Inr (projr (fst (projr ?r))), snd (projr ?r)))" by code_simp
  have "books_ok sample_locks_db" by code_simp
  from locks_commands_keep_books [OF this run] run show ?thesis by blast
qed

text \<open>C26: A preparation rests on the lock of the checkout.  When the first \<open>payment.prepare_locks\<close> of a payment is
  accepted, the actor is the buyer of a payment that still has the price snapshotted at checkout, the sealed snapshot
  opens to the resource it was hashed from, the document fetched from the seller's homeserver is the lock that resource
  names, and that lock asks the snapshotted price, in Locks' own unit, paid to the seller, and nothing else.  The
  correlation written takes every fact from the snapshot, is the only one of its payment and order, and its window is the
  time for which the order now holds its stock.\<close>

theorem preparation_rests_on_checkout_lock:
  assumes ok: "books_ok d" and new: "fetch co_payment_id (pk_payment_id payload) (st_locks_correlations d) = None"
    and run: "prepare_locks new_v4 actor command payload (Some locks) (Some fetch_lock) window now d = Inr (Inr s, d')"
  shows "\<exists>payment order snapshot price resource path document lock c.
      fetch pm_id (pk_payment_id payload) (st_payments d) = Some payment \<and> pm_buyer_pubky payment = actor
    \<and> fetch lk_payment_id (pk_payment_id payload) (st_locks_snapshots d) = Some snapshot
    \<and> lk_merchandise snapshot = Some price \<and> snapshot_matches_price_of_record price payment
    \<and> open_prepared_value (lr_keys locks) (pm_id payment) ''locks-checkout-resource:'' (lk_resource_ciphertext snapshot) = Some resource
    \<and> lr_blake3_hex locks resource = lk_resource_hash snapshot
    \<and> fetch_lock (pm_seller_pubky payment) path = Found document
    \<and> validate_content_lock_value (lr_codec locks) document resource = Inr lock
    \<and> lock_asks locks lock (lk_criterion_id snapshot) price
    \<and> st_locks_correlations d' = st_locks_correlations d @ [c] \<and> \<not> list_ex (correlation_clash c) (st_locks_correlations d)
    \<and> c = prepared_correlation (co_id c) payment snapshot price (co_policy_version c) (now + seconds window)
        (the (co_expected_resource_ciphertext c)) (the (co_client_reference_ciphertext c)) now
    \<and> fetch_order d (pm_order_id payment) = Some order
    \<and> (or_auction_aggregate_id order = None \<longrightarrow>
        (\<exists>o1. fetch_order d' (pm_order_id payment) = Some o1 \<and> or_stock_held o1
           \<and> or_hold_expires_at o1 = Some (co_window_expires_at c)))"
proof -
  obtain payment order snapshot price resource where p: "fetch pm_id (pk_payment_id payload) (st_payments d) = Some payment"
    "pm_buyer_pubky payment = actor" "pm_id payment = pk_payment_id payload"
    and o': "fetch_order d (pm_order_id payment) = Some order"
    and sn: "fetch lk_payment_id (pk_payment_id payload) (st_locks_snapshots d) = Some snapshot" "lk_merchandise snapshot = Some price"
      "snapshot_resource locks payment order snapshot price = Inr resource"
    and v: "verified_lock locks fetch_lock payment snapshot price resource = None"
    and cr: "create_preparation new_v4 command locks payment order snapshot price resource window now d = Inr (Inr s, d')"
    using run new by (rule prepare_locks_run) blast
  obtain o1 d1 c n rows where h: "acquire_payment_hold order window ''locks'' now d = Inr (Inr o1, d1)"
    and c: "c = prepared_correlation (co_id c) payment snapshot price (co_policy_version c) (now + seconds window)
      (the (co_expected_resource_ciphertext c)) (the (co_client_reference_ciphertext c)) now"
      "\<not> list_ex (correlation_clash c) (st_locks_correlations d)"
    and d': "d' = d1\<lparr>st_payments := locks_bound (pm_id payment) now (st_payments d),
       st_locks_correlations := st_locks_correlations d @ [c], st_next_uuid := n, st_binding_outcomes := rows\<rparr>"
    using cr by (rule create_preparation_run) blast
  have res: "snapshot_matches_price_of_record price payment"
    "open_prepared_value (lr_keys locks) (pm_id payment) ''locks-checkout-resource:'' (lk_resource_ciphertext snapshot) = Some resource"
    "lr_blake3_hex locks resource = lk_resource_hash snapshot"
    using sn(3) by (auto simp: snapshot_resource_def split: option.split_asm if_split_asm)
  obtain creator path where loc: "lock_location locks payment resource = Inr (creator, path)"
    using v by (auto simp: verified_lock_def split: sum.split_asm)
  obtain document lock where f: "fetch_lock creator path = Found document"
    and val: "validate_content_lock_value (lr_codec locks) document resource = Inr lock"
    and pol: "validate_paykit_payment_v1_policy (lr_codec locks) lock = None"
      "criterion_matches_payment (lr_codec locks) lock (lk_criterion_id snapshot) price"
    using v loc by (auto simp: verified_lock_def split: fetch_outcome.split_asm sum.split_asm if_split_asm)
  have cre: "creator = pm_seller_pubky payment"
    using loc by (auto simp: lock_location_def split: option.split_asm if_split_asm)
  have ok': "stock_ok d" "fetch_order d (or_id order) = Some order"
    using ok o' fetch_order_id [OF o'] by (simp_all add: books_ok_def)
  have w: "co_window_expires_at c = now + seconds window"
    using arg_cong [OF c(1), of co_window_expires_at] by (simp add: prepared_correlation_def)
  have "fetch_order d' (pm_order_id payment) = Some o1"
    using acquire_books [OF ok o' h] by (simp add: order_change_def d' fetch_order_def)
  then have "or_auction_aggregate_id order = None \<longrightarrow>
        (\<exists>o1. fetch_order d' (pm_order_id payment) = Some o1 \<and> or_stock_held o1
           \<and> or_hold_expires_at o1 = Some (co_window_expires_at c))"
    using acquire_payment_hold_effect(3) [OF ok' h] by (simp add: w)
  moreover have "st_locks_correlations d' = st_locks_correlations d @ [c]" by (simp add: d')
  ultimately show ?thesis
    by (intro exI [of _ payment] exI [of _ order] exI [of _ snapshot] exI [of _ price] exI [of _ resource] exI [of _ path]
        exI [of _ document] exI [of _ lock] exI [of _ c] conjI p(1,2) sn(1,2) res f [unfolded cre] val
        criterion_asks [OF pol] c o')
qed
theorem preparation_rests_on_checkout_lock_witness:
  "\<exists>s d' snapshot. prepare_locks show_nat ''buyer'' sample_prepare \<lparr>pk_payment_id = ''p1''\<rparr> (Some sample_locks)
        (Some (\<lambda>_ _. Found JNull)) 600 50 sample_locks_db = Inr (Inr s, d')
    \<and> fetch lk_payment_id ''p1'' (st_locks_snapshots sample_locks_db) = Some snapshot
    \<and> lr_blake3_hex sample_locks sample_resource = lk_resource_hash snapshot"
proof -
  let ?r = "prepare_locks show_nat ''buyer'' sample_prepare \<lparr>pk_payment_id = ''p1''\<rparr> (Some sample_locks)
        (Some (\<lambda>_ _. Found JNull)) 600 50 sample_locks_db"
  have run: "?r = Inr (Inr (projr (fst (projr ?r))), snd (projr ?r))" by code_simp
  have ok: "books_ok sample_locks_db"
    "fetch co_payment_id (pk_payment_id \<lparr>pk_payment_id = ''p1''\<rparr>) (st_locks_correlations sample_locks_db) = None" by code_simp+
  have sn: "lk_resource_hash (the (fetch lk_payment_id ''p1'' (st_locks_snapshots sample_locks_db))) = sample_resource" by code_simp
  from preparation_rests_on_checkout_lock [OF ok run] obtain snapshot
    where "fetch lk_payment_id ''p1'' (st_locks_snapshots sample_locks_db) = Some snapshot" by auto
  with run sn show ?thesis by (auto simp: sample_locks_def)
qed

text \<open>A bundle attaches once, inside the window, and reads back.  An accepted \<open>payment.register_locks\<close> comes from the
  buyer of a payment with a preparation that has no bundle yet, while the order still holds its stock for exactly the
  prepared window and the window is open.  Afterwards the correlation is registered, no other correlation has its lookup
  token, the sealed bundle id opens to the one registered, and a second registration is refused.\<close>

theorem registered_bundle_reads_back:
  assumes keys: "aead_ok (lz_cipher (lr_keys locks))" "\<forall>n. length (lz_nonce (lr_keys locks) n) = XNONCE_LEN"
      "is_utf8 (rk_bundle_id payload)"
    and run: "register_locks new_v4 actor command payload (Some locks) now d = Inr (Inr s, d')"
  shows "\<exists>payment order c c' ciphertext token.
      fetch pm_id (rk_payment_id payload) (st_payments d) = Some payment \<and> pm_buyer_pubky payment = actor
    \<and> fetch co_payment_id (rk_payment_id payload) (st_locks_correlations d) = Some c \<and> co_preparation_state c = ''prepared''
    \<and> fetch_order d (pm_order_id payment) = Some order \<and> or_stock_held order
    \<and> or_hold_expires_at order = Some (co_window_expires_at c) \<and> now < co_window_expires_at c
    \<and> fetch co_payment_id (rk_payment_id payload) (st_locks_correlations d') = Some c' \<and> co_id c' = co_id c
    \<and> co_preparation_state c' = ''registered'' \<and> co_bundle_lookup_token c' = Some token
    \<and> token = lookup_token locks (co_creator_pubky c) (rk_bundle_id payload)
    \<and> list_all (\<lambda>x. co_bundle_lookup_token x \<noteq> Some token \<or> co_id x = co_id c) (st_locks_correlations d')
    \<and> co_bundle_id_ciphertext c' = Some ciphertext
    \<and> decrypt_bundle_id (lr_keys locks) (rk_payment_id payload) ciphertext = Some (rk_bundle_id payload)
    \<and> (\<forall>new_v4' actor' command' b' now'. \<not> accepted (register_locks new_v4' actor' command'
          \<lparr>rk_payment_id = rk_payment_id payload, rk_bundle_id = b'\<rparr> (Some locks) now' d'))"
proof -
  let ?k = "rk_payment_id payload"
  obtain payment c order n rows where r: "fetch pm_id ?k (st_payments d) = Some payment" "pm_buyer_pubky payment = actor"
    "fetch co_payment_id ?k (st_locks_correlations d) = Some c" "co_preparation_state c = ''prepared''"
    "fetch_order d (pm_order_id payment) = Some order" "or_stock_held order"
    "or_hold_expires_at order = Some (co_window_expires_at c)" "now < co_window_expires_at c"
    and free: "\<not> list_ex (\<lambda>x. co_id x \<noteq> co_id c
        \<and> co_bundle_lookup_token x = Some (lookup_token locks (co_creator_pubky c) (rk_bundle_id payload))) (st_locks_correlations d)"
    and log: "log_step (d\<lparr>st_payments := locks_bound ?k now (st_payments d),
       st_locks_correlations := map (\<lambda>x. if co_id x = co_id c
         then attach_bundle (fst (encrypt_bundle_id (lr_keys locks) ?k (rk_bundle_id payload) d))
           (lookup_token locks (co_creator_pubky c) (rk_bundle_id payload)) now x else x) (st_locks_correlations d),
       st_next_uuid := n, st_binding_outcomes := rows\<rparr>) d'"
    using run by (rule register_locks_run) blast
  let ?x = "fst (encrypt_bundle_id (lr_keys locks) ?k (rk_bundle_id payload) d)"
  let ?t = "lookup_token locks (co_creator_pubky c) (rk_bundle_id payload)"
  have cs: "st_locks_correlations d' = map (\<lambda>x. if co_id x = co_id c then attach_bundle ?x ?t now x else x) (st_locks_correlations d)"
    using log_step_correlations [OF log] by simp
  have f: "fetch co_payment_id ?k (st_locks_correlations d') = Some (attach_bundle ?x ?t now c)"
  proof -
    have "fetch co_payment_id ?k (map (\<lambda>x. if co_id x = co_id c then attach_bundle ?x ?t now x else x) rows)
      = map_option (\<lambda>x. if co_id x = co_id c then attach_bundle ?x ?t now x else x) (fetch co_payment_id ?k rows)" for rows
      by (induction rows) (auto simp: fetch_def attach_bundle_def)
    then show ?thesis using r(3) by (simp add: cs)
  qed
  have tok: "list_all (\<lambda>x. co_bundle_lookup_token x \<noteq> Some ?t \<or> co_id x = co_id c) (st_locks_correlations d')"
    using free by (auto simp: cs list_all_iff list_ex_iff attach_bundle_def)
  have dec: "decrypt_bundle_id (lr_keys locks) ?k ?x = Some (rk_bundle_id payload)"
    using keys open_seal by (simp add: decrypt_bundle_id_def encrypt_bundle_id_def from_utf8_def)
  have again: "\<not> accepted (register_locks new_v4' actor' command' \<lparr>rk_payment_id = ?k, rk_bundle_id = b'\<rparr> (Some locks) now' d')"
    for new_v4' actor' command' b' now'
  proof
    assume "accepted (register_locks new_v4' actor' command' \<lparr>rk_payment_id = ?k, rk_bundle_id = b'\<rparr> (Some locks) now' d')"
    then obtain s' d'' where "register_locks new_v4' actor' command' \<lparr>rk_payment_id = ?k, rk_bundle_id = b'\<rparr> (Some locks) now' d'
        = Inr (Inr s', d'')" by (auto simp: accepted_def split: sum.split_asm prod.split_asm)
    then obtain c' where "fetch co_payment_id ?k (st_locks_correlations d') = Some c'" "co_preparation_state c' = ''prepared''"
      by (rule register_locks_run) simp
    then show False using f by (auto simp: attach_bundle_def)
  qed
  show ?thesis
    by (intro exI [of _ payment] exI [of _ order] exI [of _ c] exI [of _ "attach_bundle ?x ?t now c"] exI [of _ ?x] exI [of _ ?t]
        conjI r f tok dec allI again) (simp_all add: attach_bundle_def)
qed

theorem registered_bundle_reads_back_witness:
  "\<exists>s d' ciphertext. register_locks show_nat ''buyer'' sample_register_locks \<lparr>rk_payment_id = ''p1'', rk_bundle_id = ''B''\<rparr>
        (Some sample_locks) 60 sample_prepared_db = Inr (Inr s, d')
    \<and> decrypt_bundle_id (lr_keys sample_locks) ''p1'' ciphertext = Some ''B''"
proof -
  let ?p = "\<lparr>rk_payment_id = ''p1'', rk_bundle_id = ''B''\<rparr>"
  let ?r = "register_locks show_nat ''buyer'' sample_register_locks ?p (Some sample_locks) 60 sample_prepared_db"
  have run: "?r = Inr (Inr (projr (fst (projr ?r))), snd (projr ?r))" by code_simp
  have keys: "aead_ok (lz_cipher (lr_keys sample_locks))" "\<forall>n. length (lz_nonce (lr_keys sample_locks) n) = XNONCE_LEN"
    "is_utf8 (rk_bundle_id ?p)"
    using sample_cipher_ok by (simp_all add: sample_locks_def sample_nonce_def XNONCE_LEN_def)
  from registered_bundle_reads_back [OF keys run] run show ?thesis by auto
qed

end
