(* ===== verification/Refusal_Audit.thy ===== *)
theory Refusal_Audit
  imports Locks
begin

text \<open>
  The refusal audit of \<^verbatim>\<open>refusal_audit.rs\<close> as far as the executor meets it: the keys with their epochs and
  rotation, the tags that stand for an actor and a command, the descriptor of a refusal and the bounded queue it is put
  on.  HKDF, HMAC and base64 are library code: the record \<open>audit_crypto\<close> holds them.  The writer that empties the queue
  is in the theory of the writer.
\<close>

section \<open>Kinds\<close>

datatype surface_kind = V1Command | BitcoinManualResolve

fun surface_number :: "surface_kind \<Rightarrow> nat" where
  "surface_number V1Command = 1"
| "surface_number BitcoinManualResolve = 2"

datatype audit_command_kind =
    KInvalidEnvelope | KRegisterListing | KSyncListing | KSyncDrop | KCancelDrop | KReleaseDropListings | KReserveInventory
  | KCreateCheckout | KCreateOffer | KCounterOffer | KAcceptOffer | KOfferCheckout | KRejectOffer | KWithdrawOffer | KPlaceBid
  | KCloseAuction | KAdvanceSandboxPayment | KPrepareLocks | KRegisterLocks | KRequestCancellation | KApproveCancellation
  | KShipOrder | KConfirmDelivery | KSetPickupDetails | KClearPickupDetails | KMarkReadyForPickup | KConfirmPickup
  | KRequestReturn | KApproveReturn | KReceiveReturn | KRecordExternalRefund | KCreateReview | KUpdateReview | KSetBandConsent
  | KManualResolve | KSetDigitalDelivery | KClearDigitalDelivery | KSetDeliveryEmail | KDeliverDigital

section \<open>Keys\<close>

definition HKDF_SALT :: string where "HKDF_SALT = ''marketplace/refusal-audit/hkdf-salt/v1''"
definition ACTOR_INFO :: string where "ACTOR_INFO = ''marketplace/refusal-audit/actor-key/v1''"
definition SAMPLE_INFO :: string where "SAMPLE_INFO = ''marketplace/refusal-audit/sample-key/v1''"
definition ACTOR_DOMAIN :: string where "ACTOR_DOMAIN = ''marketplace/refusal-audit/actor-tag/v1''"
definition SAMPLE_DOMAIN :: string where "SAMPLE_DOMAIN = ''marketplace/refusal-audit/sample-command-tag/v1''"
definition QUEUE_CAPACITY :: nat where "QUEUE_CAPACITY = 4096"

record audit_crypto =
  ac_hkdf :: "string \<Rightarrow> string \<Rightarrow> string \<Rightarrow> string"
  ac_hmac :: "string \<Rightarrow> string \<Rightarrow> string"
  ac_base64_decode :: "string \<Rightarrow> string option"
  ac_base64_encode :: "string \<Rightarrow> string"

text \<open>The epoch, the actor key and the sample key of a root.\<close>

record epoch_keys =
  ek_epoch :: nat
  ek_actor :: string
  ek_sample :: string

record audit_keys =
  ak_crypto :: audit_crypto
  ak_active :: epoch_keys
  ak_previous :: "epoch_keys option"

fun be_bytes :: "nat \<Rightarrow> nat \<Rightarrow> string" where
  "be_bytes 0 n = []"
| "be_bytes (Suc w) n = be_bytes w (n div 256) @ [char_of (n mod 256)]"

fun digits_value :: "nat \<Rightarrow> string \<Rightarrow> nat" where
  "digits_value acc [] = acc"
| "digits_value acc (c # cs) = digits_value (10 * acc + (of_char c - 48)) cs"

definition parse_root :: "audit_crypto \<Rightarrow> string \<Rightarrow> string option" where
  "parse_root crypto value =
     (if trim value \<noteq> value then None
      else case ac_base64_decode crypto value of
        None \<Rightarrow> None
      | Some decoded \<Rightarrow>
          if length decoded \<noteq> 32 \<or> ac_base64_encode crypto decoded \<noteq> value then None else Some decoded)"

definition parse_epoch :: "string \<Rightarrow> nat option" where
  "parse_epoch value =
     (if value = [] \<or> \<not> list_all is_ascii_digit value \<or> 1 < length value \<and> hd value = CHR ''0'' then None
      else if 32767 < digits_value 0 value \<or> digits_value 0 value < 1 then None
      else Some (digits_value 0 value))"

definition derive_keys :: "audit_crypto \<Rightarrow> string \<Rightarrow> nat \<Rightarrow> epoch_keys" where
  "derive_keys crypto root epoch =
     \<lparr>ek_epoch = epoch, ek_actor = ac_hkdf crypto HKDF_SALT root (ACTOR_INFO @ be_bytes 2 epoch),
      ek_sample = ac_hkdf crypto HKDF_SALT root (SAMPLE_INFO @ be_bytes 2 epoch)\<rparr>"

definition parse_audit_keys ::
  "audit_crypto \<Rightarrow> string \<Rightarrow> string \<Rightarrow> string option \<Rightarrow> string option \<Rightarrow> audit_keys option" where
  "parse_audit_keys crypto active_root_b64 active_epoch0 previous_root_b64 previous_epoch0 =
     Option.bind (parse_epoch active_epoch0) (\<lambda>active_epoch.
       Option.bind (parse_root crypto active_root_b64) (\<lambda>active_root.
         let active = derive_keys crypto active_root active_epoch
         in case (previous_root_b64, previous_epoch0) of
              (None, None) \<Rightarrow> Some \<lparr>ak_crypto = crypto, ak_active = active, ak_previous = None\<rparr>
            | (Some root0, Some epoch0) \<Rightarrow>
                Option.bind (parse_epoch epoch0) (\<lambda>epoch.
                  Option.bind (parse_root crypto root0) (\<lambda>root.
                    if epoch + 1 \<noteq> active_epoch \<or> root = active_root then None
                    else Some \<lparr>ak_crypto = crypto, ak_active = active,
                               ak_previous = Some (derive_keys crypto root epoch)\<rparr>))
            | _ \<Rightarrow> None))"

section \<open>Tags\<close>

text \<open>The tags are the first sixteen bytes of the HMAC.  The length prefix is the one of a \<open>u32\<close>; an actor that passes
  \<open>validate_actor\<close> is never too long for it.\<close>

definition actor_input :: "string \<Rightarrow> string option" where
  "actor_input actor =
     (case validate_actor actor of
        Inl _ \<Rightarrow> None
      | Inr _ \<Rightarrow> if 2 ^ 32 \<le> length actor then None else Some (ACTOR_DOMAIN @ be_bytes 4 (length actor) @ actor))"

definition sample_input :: "surface_kind \<Rightarrow> string \<Rightarrow> uuid \<Rightarrow> string option" where
  "sample_input surface actor command_id =
     (case validate_actor actor of
        Inl _ \<Rightarrow> None
      | Inr _ \<Rightarrow>
          if 2 ^ 32 \<le> length actor then None
          else Some (SAMPLE_DOMAIN @ be_bytes 2 (surface_number surface) @ be_bytes 4 (length actor) @ actor
                       @ uuid_bytes command_id))"

definition audit_tag :: "audit_crypto \<Rightarrow> string \<Rightarrow> string \<Rightarrow> string" where
  "audit_tag crypto key input = take 16 (ac_hmac crypto key input)"

definition actor_tag :: "audit_keys \<Rightarrow> string \<Rightarrow> string option" where
  "actor_tag keys actor = map_option (audit_tag (ak_crypto keys) (ek_actor (ak_active keys))) (actor_input actor)"

definition sample_tag :: "audit_keys \<Rightarrow> surface_kind \<Rightarrow> string \<Rightarrow> uuid \<Rightarrow> string option" where
  "sample_tag keys surface actor command_id =
     map_option (audit_tag (ak_crypto keys) (ek_sample (ak_active keys))) (sample_input surface actor command_id)"

text \<open>\<open>None\<close> is the error, \<open>Some None\<close> an epoch that is not loaded.\<close>

definition actor_tag_for_epoch :: "audit_keys \<Rightarrow> nat \<Rightarrow> string \<Rightarrow> string option option" where
  "actor_tag_for_epoch keys epoch actor =
     (case (if epoch = ek_epoch (ak_active keys) then Some (ak_active keys)
            else filter_option (\<lambda>e. ek_epoch e = epoch) (ak_previous keys)) of
        None \<Rightarrow> Some None
      | Some e \<Rightarrow> map_option (\<lambda>input. Some (audit_tag (ak_crypto keys) (ek_actor e) input)) (actor_input actor))"

definition verify_actor_tag :: "audit_keys \<Rightarrow> nat \<Rightarrow> string \<Rightarrow> string \<Rightarrow> bool option" where
  "verify_actor_tag keys epoch actor candidate =
     map_option (\<lambda>expected. expected = Some candidate) (actor_tag_for_epoch keys epoch actor)"

definition erasure_candidates :: "audit_keys \<Rightarrow> string \<Rightarrow> (nat \<times> string) list option" where
  "erasure_candidates keys actor =
     map_option (\<lambda>input.
       (ek_epoch (ak_active keys), audit_tag (ak_crypto keys) (ek_actor (ak_active keys)) input)
       # (case ak_previous keys of
            None \<Rightarrow> [] | Some e \<Rightarrow> [(ek_epoch e, audit_tag (ak_crypto keys) (ek_actor e) input)])) (actor_input actor)"

definition second_rotation_safe :: "audit_keys \<Rightarrow> nat \<Rightarrow> bool \<Rightarrow> bool \<Rightarrow> bool" where
  "second_rotation_safe keys retained_previous_rows replicas_expired backups_expired \<longleftrightarrow>
     \<not> (ak_previous keys \<noteq> None \<and> (retained_previous_rows \<noteq> 0 \<or> \<not> replicas_expired \<or> \<not> backups_expired))"

definition destroy_previous :: "audit_keys \<Rightarrow> nat \<Rightarrow> bool \<Rightarrow> bool \<Rightarrow> audit_keys option" where
  "destroy_previous keys retained_previous_rows replicas_expired backups_expired =
     (if second_rotation_safe keys retained_previous_rows replicas_expired backups_expired
      then Some (keys\<lparr>ak_previous := None\<rparr>) else None)"

section \<open>The queue\<close>

record refusal_envelope =
  rf_occurred_at :: datetime
  rf_surface :: surface_kind
  rf_command_kind :: audit_command_kind
  rf_refusal_kind :: refusal_kind
  rf_actor_epoch :: nat
  rf_actor_tag :: string
  rf_sample_command_tag :: "string option"
  rf_command_id_present :: bool

datatype drop_cause = QueueFull | QueueClosed | WriterUnverified | RetriesExhausted | AmbiguousCommit | WriterPanic

text \<open>The counters are atomics of 64 bits that only grow by one; they are natural numbers here.\<close>

record refusal_metrics =
  rm_delivered :: nat
  rm_dropped_queue_full :: nat
  rm_dropped_queue_closed :: nat
  rm_dropped_writer_unverified :: nat
  rm_dropped_after_retries :: nat
  rm_dropped_ambiguous_commit :: nat
  rm_retries_acquire_timeout :: nat
  rm_retries_authority_verification :: nat
  rm_retries_statement_timeout :: nat
  rm_retries_db_error :: nat
  rm_purge_failures :: nat
  rm_purge_rows :: nat
  rm_writer_panics :: nat
  rm_queue_depth :: nat
  rm_oldest_queued_at :: int
  rm_hourly_overflow :: nat
  rm_purge_backlog_seconds :: nat
  rm_oldest_retained_seconds :: nat
  rm_pending_loss_gap :: nat
  rm_writer_alive :: bool
  rm_writer_authority_verified :: bool
  rm_consecutive_unhealthy_intervals :: nat

definition default_metrics :: refusal_metrics where
  "default_metrics =
     \<lparr>rm_delivered = 0, rm_dropped_queue_full = 0, rm_dropped_queue_closed = 0, rm_dropped_writer_unverified = 0,
      rm_dropped_after_retries = 0, rm_dropped_ambiguous_commit = 0, rm_retries_acquire_timeout = 0,
      rm_retries_authority_verification = 0, rm_retries_statement_timeout = 0, rm_retries_db_error = 0,
      rm_purge_failures = 0, rm_purge_rows = 0, rm_writer_panics = 0, rm_queue_depth = 0, rm_oldest_queued_at = 0,
      rm_hourly_overflow = 0, rm_purge_backlog_seconds = 0, rm_oldest_retained_seconds = 0, rm_pending_loss_gap = 0,
      rm_writer_alive = False, rm_writer_authority_verified = False, rm_consecutive_unhealthy_intervals = 0\<rparr>"

definition record_loss :: "drop_cause \<Rightarrow> refusal_metrics \<Rightarrow> refusal_metrics" where
  "record_loss cause m =
     (case cause of
        QueueFull \<Rightarrow> m\<lparr>rm_dropped_queue_full := rm_dropped_queue_full m + 1\<rparr>
      | QueueClosed \<Rightarrow> m\<lparr>rm_dropped_queue_closed := rm_dropped_queue_closed m + 1\<rparr>
      | WriterUnverified \<Rightarrow> m\<lparr>rm_dropped_writer_unverified := rm_dropped_writer_unverified m + 1\<rparr>
      | RetriesExhausted \<Rightarrow> m\<lparr>rm_dropped_after_retries := rm_dropped_after_retries m + 1\<rparr>
      | AmbiguousCommit \<Rightarrow> m\<lparr>rm_dropped_ambiguous_commit := rm_dropped_ambiguous_commit m + 1\<rparr>
      | WriterPanic \<Rightarrow> m\<lparr>rm_writer_panics := rm_writer_panics m + 1\<rparr>)
       \<lparr>rm_pending_loss_gap := rm_pending_loss_gap m + 1\<rparr>"

record audit_runtime =
  au_keys :: audit_keys
  au_queue_open :: bool

record audit_state =
  aq_queue :: "refusal_envelope list"
  aq_metrics :: refusal_metrics

definition envelope ::
  "audit_keys \<Rightarrow> datetime \<Rightarrow> surface_kind \<Rightarrow> audit_command_kind \<Rightarrow> refusal_kind \<Rightarrow> string \<Rightarrow> uuid option \<Rightarrow> refusal_envelope option" where
  "envelope keys occurred_at surface kind refusal actor command_id =
     Option.bind (actor_tag keys actor) (\<lambda>tag.
       Option.bind (case command_id of
                      None \<Rightarrow> Some None | Some i \<Rightarrow> map_option Some (sample_tag keys surface actor i)) (\<lambda>sample.
         Some \<lparr>rf_occurred_at = occurred_at, rf_surface = surface, rf_command_kind = kind, rf_refusal_kind = refusal,
               rf_actor_epoch = ek_epoch (ak_active keys), rf_actor_tag = tag, rf_sample_command_tag = sample,
               rf_command_id_present = (command_id \<noteq> None)\<rparr>))"

text \<open>\<open>try_send\<close> at the time \<open>now\<close>; the channel holds at most \<open>QUEUE_CAPACITY\<close> envelopes.\<close>

definition try_send :: "audit_runtime \<Rightarrow> datetime \<Rightarrow> refusal_envelope \<Rightarrow> audit_state \<Rightarrow> audit_state" where
  "try_send audit now e q =
     (let m = aq_metrics q
      in if \<not> rm_writer_authority_verified m then q\<lparr>aq_metrics := record_loss WriterUnverified m\<rparr>
         else if \<not> au_queue_open audit then q\<lparr>aq_metrics := record_loss QueueClosed m\<rparr>
         else if QUEUE_CAPACITY \<le> length (aq_queue q) then q\<lparr>aq_metrics := record_loss QueueFull m\<rparr>
         else q\<lparr>aq_queue := aq_queue q @ [e],
                aq_metrics := m\<lparr>rm_queue_depth := rm_queue_depth m + 1,
                                rm_oldest_queued_at := if rm_queue_depth m = 0 then now div seconds 1 else rm_oldest_queued_at m\<rparr>\<rparr>)"

definition is_ready :: "audit_state \<Rightarrow> bool" where
  "is_ready q \<longleftrightarrow> rm_writer_alive (aq_metrics q) \<and> rm_writer_authority_verified (aq_metrics q)"

end
