(* ===== verification/Executor.thy ===== *)
theory Executor
  imports Refusal_Audit Offers Reviews Listings Auction Reservations
begin

text \<open>
  The command executor of \<^verbatim>\<open>executor.rs\<close> with the response bodies of \<^verbatim>\<open>result.rs\<close>: one accepted result per actor
  and command id, an exact replay answered from the stored result, a reuse of the id with other input refused, and a
  refused or failed command rolled back.  \<open>execute\<close> is split where the code waits for the network: \<open>admit\<close> runs before
  the transaction, \<open>settle\<close> is the transaction, and another submission may come between the two.  A body carries the typed
  result of its handler where the code carries the JSON of it.
\<close>

section \<open>The deployment\<close>

record homeserver =
  hm_listings :: homeserver_client
  hm_raw :: listing_client
  hm_fetch_drop :: "pubky \<Rightarrow> string \<Rightarrow> json fetch_outcome"
  hm_deliverable :: deliverable_client
  hm_content_lock :: "pubky \<Rightarrow> string \<Rightarrow> json fetch_outcome"

record 'v app_state =
  as_decoders :: "'v decoders"
  as_reader :: record_reader
  as_decode_drop :: "json \<Rightarrow> drop_record option"
  as_details_to_vec :: "pickup_details \<Rightarrow> string"
  as_to_vec :: "json \<Rightarrow> string"
  as_blake3_hex :: "string \<Rightarrow> string"
  as_receipt_hash :: receipt_hash
  as_request_hash :: "command \<Rightarrow> string"
  as_base64_encode :: "string \<Rightarrow> string"
  as_base64_decode :: "string \<Rightarrow> string option"
  as_homeserver :: "homeserver option"
  as_locks :: "locks_runtime option"
  as_pickup :: "keyring option"
  as_digital :: "keyring option"
  as_attestor :: "attestor option"
  as_refusal_audit :: "audit_runtime option"
  as_drop_claim_window_seconds :: int
  as_locks_payment_window_seconds :: int
  as_fiat_payment_window_seconds :: int
  as_sandbox_payment_window_seconds :: int
  as_sandbox_payments_enabled :: bool
  as_digital_max_bytes :: int

section \<open>Dispatch\<close>

text \<open>The arms of \<open>dispatch\<close>, a group at a time; the groups are disjoint and complete.\<close>

definition delivery_context_of :: "'v app_state \<Rightarrow> delivery_context" where
  "delivery_context_of st =
     \<lparr>de_details_to_vec = as_details_to_vec st, de_to_vec = as_to_vec st, de_pickup = as_pickup st, de_digital = as_digital st,
      de_homeserver = map_option hm_deliverable (as_homeserver st), de_max_bytes = as_digital_max_bytes st,
      de_sandbox_payments_enabled = as_sandbox_payments_enabled st\<rparr>"

definition hold_window_seconds :: "'v app_state \<Rightarrow> int" where
  "hold_window_seconds st =
     max (max (as_locks_payment_window_seconds st) (as_fiat_payment_window_seconds st)) (as_sandbox_payment_window_seconds st)"

definition dispatch_market ::
  "'v app_state \<Rightarrow> uuid_source \<Rightarrow> pubky \<Rightarrow> command \<Rightarrow> datetime \<Rightarrow> db \<Rightarrow> handler_result tx option" where
  "dispatch_market st new_v4 actor command now d =
     (case cmd_payload command of
        SyncDrop payload \<Rightarrow>
          Some (drop_sync new_v4 (as_decode_drop st) actor command payload (map_option hm_fetch_drop (as_homeserver st)) now d)
      | CancelDrop \<Rightarrow> Some (drop_cancel new_v4 actor command now d)
      | ReleaseDropListings \<Rightarrow> Some (release_listings new_v4 actor command now d)
      | ReserveInventory payload \<Rightarrow> Some (reserve_inventory new_v4 actor command payload now d)
      | CreateCheckout payload \<Rightarrow>
          Some (create_checkout new_v4
                  \<lparr>cx_blake3_hex = as_blake3_hex st, cx_locks = map_option lr_keys (as_locks st), cx_digital = as_digital st\<rparr>
                  (as_drop_claim_window_seconds st) actor command payload now d)
      | PlaceBid payload \<Rightarrow> Some (place_bid new_v4 actor command payload now d)
      | CloseAuction \<Rightarrow> Some (close_auction new_v4 actor command now d)
      | AdvanceSandboxPayment payload \<Rightarrow>
          Some (dispatch_sandbox_payment (as_sandbox_payments_enabled st) new_v4 (as_receipt_hash st) actor command payload
                  (as_sandbox_payment_window_seconds st) \<lparr>ck_pickup = as_pickup st, ck_digital = as_digital st\<rparr> now d)
      | _ \<Rightarrow> None)"

definition dispatch ::
  "'v app_state \<Rightarrow> uuid_source \<Rightarrow> pubky \<Rightarrow> command \<Rightarrow> register_record_prefetch \<Rightarrow> datetime \<Rightarrow> db \<Rightarrow> handler_result tx" where
  "dispatch st new_v4 actor command prefetched now d =
     (case find_map id
        [dispatch_listing (as_reader st) (map_option hm_listings (as_homeserver st)) new_v4 actor command prefetched now d,
         dispatch_market st new_v4 actor command now d,
         dispatch_offer (map_option hm_raw (as_homeserver st)) (hold_window_seconds st) new_v4 actor command now d,
         dispatch_locks (as_locks st) (map_option hm_content_lock (as_homeserver st)) (as_locks_payment_window_seconds st) new_v4
           actor command now d,
         dispatch_order (map_option order_ref (as_attestor st)) new_v4 actor command now d,
         dispatch_delivery (delivery_context_of st) new_v4 actor command now d,
         dispatch_review (as_attestor st) new_v4 actor command now d] of
        Some r \<Rightarrow> r
      | None \<Rightarrow> Inl (Panicked ''no handler''))"

section \<open>Bodies\<close>

text \<open>A stored preparation of a Locks payment has its reference sealed.\<close>

datatype stored_outcome = Plain command_result | SealedPreparation string datetime

record success_envelope =
  se_version :: nat
  se_command_id :: uuid
  se_aggregate_id :: string
  se_revision :: int
  se_event_ids :: "uuid list"
  se_result :: stored_outcome

definition success_body :: "command \<Rightarrow> handler_success \<Rightarrow> success_envelope" where
  "success_body command success =
     \<lparr>se_version = COMMERCE_CONTRACT_VERSION, se_command_id = cmd_command_id command,
      se_aggregate_id = cmd_aggregate_id command, se_revision = hs_revision success,
      se_event_ids = hs_event_ids success, se_result = Plain (hs_result success)\<rparr>"

datatype response_body = OkBody success_envelope | ErrorBody command_failure

type_synonym response = "nat \<times> response_body"

definition failure_response :: "command_failure \<Rightarrow> response" where
  "failure_response failure = (http_status (cf_code failure), ErrorBody failure)"

text \<open>The delivery address leaves every order of a replayed checkout.\<close>

definition redact_command_result :: "success_envelope \<Rightarrow> success_envelope option" where
  "redact_command_result body =
     (case se_result body of
        Plain (ResultCheckout orders payments) \<Rightarrow>
          Some (body\<lparr>se_result := Plain (ResultCheckout (map (\<lambda>o'. o'\<lparr>or_delivery_address := None\<rparr>) orders) payments)\<rparr>)
      | _ \<Rightarrow> None)"

definition seal_prepare_locks_result ::
  "'v app_state \<Rightarrow> locks_runtime \<Rightarrow> string \<Rightarrow> command \<Rightarrow> pubky \<Rightarrow> success_envelope \<Rightarrow> success_envelope option" where
  "seal_prepare_locks_result st locks nonce command actor body =
     (case (cmd_payload command, se_result body) of
        (PrepareLocks payload, Plain (ResultLocksPrepared reference expires_at)) \<Rightarrow>
          Some (body\<lparr>se_result := SealedPreparation
            (as_base64_encode st (seal_result_client_reference (lr_keys locks) nonce (pk_payment_id payload) actor reference))
            expires_at\<rparr>)
      | _ \<Rightarrow> None)"

definition unseal_prepare_locks_result ::
  "'v app_state \<Rightarrow> locks_runtime \<Rightarrow> command \<Rightarrow> pubky \<Rightarrow> success_envelope \<Rightarrow> success_envelope option" where
  "unseal_prepare_locks_result st locks command actor stored =
     (case (cmd_payload command, se_result stored) of
        (PrepareLocks payload, SealedPreparation sealed64 expires_at) \<Rightarrow>
          Option.bind (as_base64_decode st sealed64) (\<lambda>sealed.
            map_option (\<lambda>reference. stored\<lparr>se_result := Plain (ResultLocksPrepared reference expires_at)\<rparr>)
              (open_result_client_reference (lr_keys locks) (pk_payment_id payload) actor sealed))
      | _ \<Rightarrow> None)"

section \<open>Refusals\<close>

fun audited_kind :: "command_payload \<Rightarrow> audit_command_kind" where
  "audited_kind (RegisterListing _) = KRegisterListing"
| "audited_kind (SyncListing _) = KSyncListing"
| "audited_kind (SyncDrop _) = KSyncDrop"
| "audited_kind CancelDrop = KCancelDrop"
| "audited_kind ReleaseDropListings = KReleaseDropListings"
| "audited_kind (ReserveInventory _) = KReserveInventory"
| "audited_kind (CreateCheckout _) = KCreateCheckout"
| "audited_kind (CreateOffer _) = KCreateOffer"
| "audited_kind (CounterOffer _) = KCounterOffer"
| "audited_kind (AcceptOffer _) = KAcceptOffer"
| "audited_kind (OfferCheckout _) = KOfferCheckout"
| "audited_kind (RejectOffer _) = KRejectOffer"
| "audited_kind (WithdrawOffer _) = KWithdrawOffer"
| "audited_kind (PlaceBid _) = KPlaceBid"
| "audited_kind CloseAuction = KCloseAuction"
| "audited_kind (AdvanceSandboxPayment _) = KAdvanceSandboxPayment"
| "audited_kind (PrepareLocks _) = KPrepareLocks"
| "audited_kind (RegisterLocks _) = KRegisterLocks"
| "audited_kind (RequestCancellation _) = KRequestCancellation"
| "audited_kind (ApproveCancellation _) = KApproveCancellation"
| "audited_kind (ShipOrder _) = KShipOrder"
| "audited_kind (ConfirmDelivery _) = KConfirmDelivery"
| "audited_kind (SetPickupDetails _) = KSetPickupDetails"
| "audited_kind (ClearPickupDetails _) = KClearPickupDetails"
| "audited_kind (SetDigitalDelivery _) = KSetDigitalDelivery"
| "audited_kind (ClearDigitalDelivery _) = KClearDigitalDelivery"
| "audited_kind (SetDeliveryEmail _) = KSetDeliveryEmail"
| "audited_kind (DeliverDigital _) = KDeliverDigital"
| "audited_kind (MarkReadyForPickup _) = KMarkReadyForPickup"
| "audited_kind (ConfirmPickup _) = KConfirmPickup"
| "audited_kind (RequestReturn _) = KRequestReturn"
| "audited_kind (ApproveReturn _) = KApproveReturn"
| "audited_kind (ReceiveReturn _) = KReceiveReturn"
| "audited_kind (RecordExternalRefund _) = KRecordExternalRefund"
| "audited_kind (CreateReview _) = KCreateReview"
| "audited_kind (UpdateReview _) = KUpdateReview"
| "audited_kind (SetBandConsent _) = KSetBandConsent"

text \<open>The service: its database, the stored results and the audit queue.\<close>

record command_result_row =
  cm_actor_pubky :: pubky
  cm_command_id :: uuid
  cm_request_hash :: string
  cm_result :: success_envelope
  cm_created_at :: datetime

record service =
  sv_db :: db
  sv_results :: "command_result_row list"
  sv_audit :: audit_state

definition enqueue_refusal ::
  "'v app_state \<Rightarrow> pubky \<Rightarrow> datetime \<Rightarrow> audit_command_kind \<Rightarrow> refusal_kind \<Rightarrow> uuid option \<Rightarrow> service \<Rightarrow> service" where
  "enqueue_refusal st actor now kind refusal command_id sv =
     (case as_refusal_audit st of
        None \<Rightarrow> sv
      | Some audit \<Rightarrow>
          (case envelope (au_keys audit) now V1Command kind refusal actor command_id of
             None \<Rightarrow> sv | Some descriptor \<Rightarrow> sv\<lparr>sv_audit := try_send audit now descriptor (sv_audit sv)\<rparr>))"

definition refuse_command ::
  "'v app_state \<Rightarrow> pubky \<Rightarrow> command \<Rightarrow> command_failure \<Rightarrow> datetime \<Rightarrow> service \<Rightarrow> response \<times> service" where
  "refuse_command st actor command failure now sv =
     (failure_response failure,
      enqueue_refusal st actor now (audited_kind (cmd_payload command)) (cf_refusal_kind failure)
        (Some (cmd_command_id command)) sv)"

section \<open>Stored results\<close>

definition stored_command_result :: "service \<Rightarrow> pubky \<Rightarrow> uuid \<Rightarrow> (string \<times> success_envelope) option" where
  "stored_command_result sv actor command_id =
     map_option (\<lambda>r. (cm_request_hash r, cm_result r))
       (find (\<lambda>r. cm_actor_pubky r = actor \<and> cm_command_id r = command_id) (sv_results sv))"

definition unprocessable_result :: command_failure where
  "unprocessable_result =
     refused RInvariantViolation InvariantViolation ''The stored command result could not be processed.''"

definition idempotency_conflict :: command_failure where
  "idempotency_conflict =
     refused RIdempotencyConflict IdempotencyConflict ''The command id was already used with different input.''"

text \<open>What the actor who stored a result is shown of it.\<close>

definition replayed_body :: "'v app_state \<Rightarrow> pubky \<Rightarrow> command \<Rightarrow> success_envelope \<Rightarrow> success_envelope option" where
  "replayed_body st actor command stored =
     (case cmd_payload command of
        CreateCheckout _ \<Rightarrow> redact_command_result stored
      | PrepareLocks _ \<Rightarrow>
          Option.bind (as_locks st) (\<lambda>locks. unseal_prepare_locks_result st locks command actor stored)
      | _ \<Rightarrow> Some stored)"

definition stored_result_response ::
  "'v app_state \<Rightarrow> pubky \<Rightarrow> command \<Rightarrow> string \<Rightarrow> success_envelope \<Rightarrow> datetime \<Rightarrow> service \<Rightarrow> response \<times> service" where
  "stored_result_response st actor command stored_hash stored_result now sv =
     (if stored_hash = as_request_hash st command
      then case replayed_body st actor command stored_result of
             None \<Rightarrow> refuse_command st actor command unprocessable_result now sv
           | Some body \<Rightarrow> ((200, OkBody body), sv)
      else refuse_command st actor command idempotency_conflict now sv)"

section \<open>Execution\<close>

text \<open>What enters the transaction: a command, and the public record it may need.\<close>

record submission =
  su_actor :: pubky
  su_command :: command
  su_prefetched :: register_record_prefetch

definition admit ::
  "'v app_state \<Rightarrow> pubky \<Rightarrow> 'v \<Rightarrow> datetime \<Rightarrow> service \<Rightarrow> (response + submission) \<times> service" where
  "admit st actor raw now sv =
     (case validate_actor actor of
        Inl issues \<Rightarrow> (Inl (failure_response (invalid_envelope issues)), sv)
      | Inr _ \<Rightarrow>
          (case parse_command (rd_externals (as_reader st)) (as_decoders st) raw of
             Inl issues \<Rightarrow>
               (Inl (failure_response (invalid_envelope issues)),
                enqueue_refusal st actor now KInvalidEnvelope RInvalidEnvelope None sv)
           | Inr command \<Rightarrow>
               (case public_record_request (sv_db sv) actor command of
                  None \<Rightarrow> (Inr \<lparr>su_actor = actor, su_command = command, su_prefetched = NotNeeded\<rparr>, sv)
                | Some payload \<Rightarrow>
                    (case stored_command_result sv actor (cmd_command_id command) of
                       Some (stored_hash, stored_result) \<Rightarrow>
                         (let (r, sv') = stored_result_response st actor command stored_hash stored_result now sv
                          in (Inl r, sv'))
                     | None \<Rightarrow>
                         (Inr \<lparr>su_actor = actor, su_command = command,
                               su_prefetched = prefetch_public_record (map_option hm_listings (as_homeserver st)) payload\<rparr>,
                          sv)))))"

definition unprotected_result :: command_failure where
  "unprotected_result = refused RInvariantViolation InvariantViolation ''The command result could not be protected.''"

definition uniqueness_rejected :: command_failure where
  "uniqueness_rejected = refused RInvariantViolation InvariantViolation ''A uniqueness constraint rejected the command.''"

text \<open>The body that is stored; \<open>None\<close> when the result cannot be protected.\<close>

definition stored_body :: "'v app_state \<Rightarrow> string \<Rightarrow> pubky \<Rightarrow> command \<Rightarrow> success_envelope \<Rightarrow> success_envelope option" where
  "stored_body st nonce actor command body =
     (case cmd_payload command of
        PrepareLocks _ \<Rightarrow>
          Option.bind (as_locks st) (\<lambda>locks. seal_prepare_locks_result st locks nonce command actor body)
      | _ \<Rightarrow> Some body)"

text \<open>Sealing draws a nonce from the source the identifiers come from.\<close>

definition seal_nonce :: "'v app_state \<Rightarrow> db \<Rightarrow> string" where
  "seal_nonce st d = (case as_locks st of None \<Rightarrow> [] | Some locks \<Rightarrow> lz_nonce (lr_keys locks) (st_next_uuid d))"

definition drawn :: "command \<Rightarrow> db \<Rightarrow> db" where
  "drawn command d = (case cmd_payload command of PrepareLocks _ \<Rightarrow> d\<lparr>st_next_uuid := Suc (st_next_uuid d)\<rparr> | _ \<Rightarrow> d)"

text \<open>The transaction: \<open>Inl\<close> is the database error that reaches the caller.  Dropping the database a handler returned is
  the rollback.\<close>

definition settle ::
  "'v app_state \<Rightarrow> uuid_source \<Rightarrow> submission \<Rightarrow> datetime \<Rightarrow> service \<Rightarrow> (db_error + response) \<times> service" where
  "settle st new_v4 su now sv =
     (let actor = su_actor su; command = su_command su
      in case stored_command_result sv actor (cmd_command_id command) of
           Some (stored_hash, stored_result) \<Rightarrow>
             (let (r, sv') = stored_result_response st actor command stored_hash stored_result now sv in (Inr r, sv'))
         | None \<Rightarrow>
             (case dispatch st new_v4 actor command (su_prefetched su) now (sv_db sv) of
                Inl UniqueViolation \<Rightarrow> map_prod Inr id (refuse_command st actor command uniqueness_rejected now sv)
              | Inl error \<Rightarrow> (Inl error, sv)
              | Inr (Inl failure, _) \<Rightarrow> map_prod Inr id (refuse_command st actor command failure now sv)
              | Inr (Inr success, d) \<Rightarrow>
                  (let body = success_body command success
                   in case stored_body st (seal_nonce st d) actor command body of
                        None \<Rightarrow> map_prod Inr id (refuse_command st actor command unprotected_result now sv)
                      | Some stored \<Rightarrow>
                          (Inr (200, OkBody body),
                           sv\<lparr>sv_db := drawn command d,
                              sv_results := sv_results sv @
                                [\<lparr>cm_actor_pubky = actor, cm_command_id = cmd_command_id command,
                                  cm_request_hash = as_request_hash st command, cm_result = stored, cm_created_at = now\<rparr>]\<rparr>))))"

definition execute ::
  "'v app_state \<Rightarrow> uuid_source \<Rightarrow> pubky \<Rightarrow> 'v \<Rightarrow> datetime \<Rightarrow> service \<Rightarrow> (db_error + response) \<times> service" where
  "execute st new_v4 actor raw now sv =
     (case admit st actor raw now sv of
        (Inl r, sv1) \<Rightarrow> (Inr r, sv1)
      | (Inr su, sv1) \<Rightarrow> settle st new_v4 su now sv1)"

section \<open>Interleaving\<close>

text \<open>The service with the submissions that have been admitted and not settled.  A submission is admitted at one state and
  settled at a later one; the advisory lock and the row locks make the transaction one step.\<close>

type_synonym answer = "pubky \<times> uuid \<times> (db_error + response)"

definition answer_of :: "'v app_state \<Rightarrow> pubky \<Rightarrow> 'v \<Rightarrow> response \<Rightarrow> answer option" where
  "answer_of st actor raw r =
     (case parse_command (rd_externals (as_reader st)) (as_decoders st) raw of
        Inl _ \<Rightarrow> None | Inr command \<Rightarrow> Some (actor, cmd_command_id command, Inr r))"

inductive service_step ::
  "'v app_state \<Rightarrow> uuid_source \<Rightarrow> submission list \<times> service \<Rightarrow> answer option
     \<Rightarrow> submission list \<times> service \<Rightarrow> bool" for st new_v4 where
  admitted: "admit st actor raw now sv = (Inr su, sv') \<Longrightarrow> service_step st new_v4 (waiting, sv) None (su # waiting, sv')"
| answered: "admit st actor raw now sv = (Inl r, sv')
    \<Longrightarrow> service_step st new_v4 (waiting, sv) (answer_of st actor raw r) (waiting, sv')"
| settled: "settle st new_v4 su now sv = (r, sv')
    \<Longrightarrow> service_step st new_v4 (before @ su # after, sv) (Some (su_actor su, cmd_command_id (su_command su), r))
          (before @ after, sv')"

text \<open>A run of labelled steps with the labels that are not silent, in order.\<close>

inductive labelled_run :: "('s \<Rightarrow> 'l option \<Rightarrow> 's \<Rightarrow> bool) \<Rightarrow> 's \<Rightarrow> 'l list \<Rightarrow> 's \<Rightarrow> bool" for move where
  stay: "labelled_run move s [] s"
| go: "move s l s' \<Longrightarrow> labelled_run move s' ls s'' \<Longrightarrow> labelled_run move s (case l of None \<Rightarrow> ls | Some a \<Rightarrow> a # ls) s''"

end
