(* ===== verification/Executor_Facts.thy ===== *)
theory Executor_Facts
  imports Executor Locks_Facts Checkout_Facts Listings_Facts Records_Facts
begin

text \<open>
  What the executor promises: every interleaving of submissions is one of an abstract machine that runs the handler of
  an actor's command id at most once, answers a replay from what it stored and changes nothing on a refusal; and the
  answer a replay gets is the answer the first submission got.
\<close>

section \<open>The abstract machine\<close>

type_synonym once_state = "db \<times> (pubky \<times> uuid \<Rightarrow> (string \<times> success_envelope) option)"

inductive once_step :: "'v app_state \<Rightarrow> uuid_source \<Rightarrow> once_state \<Rightarrow> answer option \<Rightarrow> once_state \<Rightarrow> bool" for st new_v4 where
  silent: "once_step st new_v4 (d, m) None (d, m)"
| failed: "once_step st new_v4 (d, m) (Some (a, k, Inl e)) (d, m)"
| refused: "once_step st new_v4 (d, m) (Some (a, k, Inr (n, ErrorBody f))) (d, m)"
| replay: "m (a, cmd_command_id c) = Some (as_request_hash st c, stored) \<Longrightarrow> replayed_body st a c stored = Some b
    \<Longrightarrow> once_step st new_v4 (d, m) (Some (a, cmd_command_id c, Inr (200, OkBody b))) (d, m)"
| first: "m (a, cmd_command_id c) = None \<Longrightarrow> dispatch st new_v4 a c p now d = Inr (Inr s, d')
    \<Longrightarrow> stored_body st (seal_nonce st d') a c (success_body c s) = Some stored
    \<Longrightarrow> once_step st new_v4 (d, m) (Some (a, cmd_command_id c, Inr (200, OkBody (success_body c s))))
          (drawn c d', m((a, cmd_command_id c) \<mapsto> (as_request_hash st c, stored)))"

inductive_simps once_silent: "once_step st new_v4 s None s'"

definition results_of :: "service \<Rightarrow> pubky \<times> uuid \<Rightarrow> (string \<times> success_envelope) option" where
  "results_of sv = (\<lambda>(a, k). stored_command_result sv a k)"

definition abs_service :: "submission list \<times> service \<Rightarrow> once_state" where
  "abs_service s = (sv_db (snd s), results_of (snd s))"

section \<open>Vocabulary\<close>

text \<open>Equal hashes of two commands mean equal payloads; what is encoded is decoded; what is sealed is opened.\<close>

definition hashes_ok :: "'v app_state \<Rightarrow> bool" where
  "hashes_ok st \<longleftrightarrow> (\<forall>c c'. as_request_hash st c = as_request_hash st c' \<longrightarrow> cmd_payload c = cmd_payload c')"

definition results_open :: "'v app_state \<Rightarrow> bool" where
  "results_open st \<longleftrightarrow>
     (\<forall>x. as_base64_decode st (as_base64_encode st x) = Some x)
     \<and> (case as_locks st of
          None \<Rightarrow> True
        | Some locks \<Rightarrow>
            aead_ok (lz_cipher (lr_keys locks)) \<and> (\<forall>n. length (lz_nonce (lr_keys locks) n) = XNONCE_LEN)
            \<and> (\<forall>n. is_utf8 (lr_random_reference locks n)))"

text \<open>What a replay shows of an answer: all of it but the delivery addresses of a checkout.\<close>

definition shown :: "command \<Rightarrow> success_envelope \<Rightarrow> success_envelope" where
  "shown c b = (case cmd_payload c of CreateCheckout _ \<Rightarrow> the (redact_command_result b) | _ \<Rightarrow> b)"

definition result_keys :: "service \<Rightarrow> (pubky \<times> uuid) list" where
  "result_keys sv = map (\<lambda>r. (cm_actor_pubky r, cm_command_id r)) (sv_results sv)"

section \<open>A sample\<close>

definition sample_app :: "unit app_state" where
  "sample_app =
     \<lparr>as_decoders = sample_decoders sample_envelope, as_reader = sample_reader, as_decode_drop = (\<lambda>_. None),
      as_details_to_vec = (\<lambda>_. ''{}''), as_to_vec = (\<lambda>_. ''{}''), as_blake3_hex = (\<lambda>s. s),
      as_receipt_hash = (\<lambda>_ _ _ _ _. ''r''), as_request_hash = cmd_aggregate_id, as_base64_encode = (\<lambda>s. s),
      as_base64_decode = Some,
      as_homeserver = Some \<lparr>hm_listings = sample_homeserver,
        hm_raw = \<lparr>lc_codec = sample_codec, lc_fetch_listing_raw = (\<lambda>_ _. RawNotFound)\<rparr>,
        hm_fetch_drop = (\<lambda>_ _. RecordNotFound), hm_deliverable = (\<lambda>_ _ _ _. DeliverableUnavailable),
        hm_content_lock = (\<lambda>_ _. Found JNull)\<rparr>,
      as_locks = Some sample_locks, as_pickup = Some sample_ring, as_digital = Some sample_ring, as_attestor = None,
      as_refusal_audit = None, as_drop_claim_window_seconds = 600, as_locks_payment_window_seconds = 600,
      as_fiat_payment_window_seconds = 600, as_sandbox_payment_window_seconds = 600, as_sandbox_payments_enabled = False,
      as_digital_max_bytes = 1000\<rparr>"

definition sample_submission :: submission where
  "sample_submission = \<lparr>su_actor = ''buyer'', su_command = sample_prepare, su_prefetched = NotNeeded\<rparr>"

definition sample_service :: service where
  "sample_service = \<lparr>sv_db = sample_locks_db, sv_results = [], sv_audit = \<lparr>aq_queue = [], aq_metrics = default_metrics\<rparr>\<rparr>"

section \<open>Logs that only grow\<close>

text \<open>A system that keeps a book of what it has done, changes the world only together with a new entry and never changes
  an entry.\<close>

locale once_log =
  fixes move :: "'s \<Rightarrow> 'l option \<Rightarrow> 's \<Rightarrow> bool" and book :: "'s \<Rightarrow> 'k \<Rightarrow> 'v option" and world :: "'s \<Rightarrow> 'w"
  assumes grows: "move s l s' \<Longrightarrow> book s' = book s \<or> (\<exists>k v. book s k = None \<and> book s' = (book s)(k \<mapsto> v))"
    and quiet: "move s l s' \<Longrightarrow> book s' = book s \<Longrightarrow> world s' = world s"
begin

lemma move_le: "move s l s' \<Longrightarrow> book s \<subseteq>\<^sub>m book s'"
  using grows [of s l s'] by (auto simp: map_le_def)

lemma run_le: "labelled_run move s ls s' \<Longrightarrow> book s \<subseteq>\<^sub>m book s'"
proof (induction rule: labelled_run.induct)
  case (stay s)
  show ?case by simp
next
  case (go s l s' ls s'')
  show ?case using map_le_trans [OF move_le [OF go.hyps(1)] go.IH] .
qed

lemma run_keeps: "labelled_run move s ls s' \<Longrightarrow> book s k = Some v \<Longrightarrow> book s' k = Some v"
  by (drule run_le) (fastforce simp: map_le_def dom_def)

lemma run_quiet: "labelled_run move s ls s' \<Longrightarrow> book s' = book s \<Longrightarrow> world s' = world s"
proof (induction rule: labelled_run.induct)
  case (stay s)
  show ?case by simp
next
  case (go s l s' ls s'')
  have "book s' \<subseteq>\<^sub>m book s" using run_le [OF go.hyps(2)] go.prems by simp
  then have "book s' = book s" using move_le [OF go.hyps(1)] by (simp add: map_le_antisym)
  then show ?case using quiet [OF go.hyps(1)] go.IH go.prems by simp
qed

end

interpretation abstract: once_log "once_step st new_v4" snd fst for st :: "'v app_state" and new_v4
proof
  fix s l s'
  assume "once_step st new_v4 s l s'"
  then show "snd s' = snd s \<or> (\<exists>k v. snd s k = None \<and> snd s' = (snd s)(k \<mapsto> v))" by cases auto
next
  fix s l s'
  assume "once_step st new_v4 s l s'" "snd s' = snd s"
  then show "fst s' = fst s" by cases (auto simp: fun_upd_idem_iff)
qed

section \<open>Stored results\<close>

lemma enqueue_frame [simp]:
  "sv_db (enqueue_refusal st a now k r i sv) = sv_db sv" "sv_results (enqueue_refusal st a now k r i sv) = sv_results sv"
  by (simp_all add: enqueue_refusal_def split: option.split)

lemma results_of_cong: "sv_results sv' = sv_results sv \<Longrightarrow> results_of sv' = results_of sv"
  by (simp add: results_of_def stored_command_result_def fun_eq_iff)

lemma refuse_command_frame:
  "refuse_command st a c f now sv = (r, sv') \<Longrightarrow> \<exists>g. r = (http_status (cf_code g), ErrorBody g) \<and> sv_db sv' = sv_db sv \<and> sv_results sv' = sv_results sv"
  by (auto simp: refuse_command_def failure_response_def)

lemma stored_response_run:
  assumes "stored_result_response st a c h stored now sv = (r, sv')"
  obtains (error) f where "r = (http_status (cf_code f), ErrorBody f)" "sv_db sv' = sv_db sv" "sv_results sv' = sv_results sv"
    | (replay) b where "r = (200, OkBody b)" "h = as_request_hash st c" "replayed_body st a c stored = Some b" "sv' = sv"
  using assms
  by (auto simp: stored_result_response_def split: if_split_asm option.split_asm dest!: refuse_command_frame)

lemma find_snoc: "find P (xs @ [x]) = (case find P xs of None \<Rightarrow> if P x then Some x else None | Some y \<Rightarrow> Some y)"
  by (induction xs) auto

lemma results_snoc:
  assumes "sv_results sv' = sv_results sv @ [r]" "stored_command_result sv (cm_actor_pubky r) (cm_command_id r) = None"
  shows "results_of sv' = (results_of sv)((cm_actor_pubky r, cm_command_id r) \<mapsto> (cm_request_hash r, cm_result r))"
  using assms
  by (auto simp: results_of_def stored_command_result_def fun_eq_iff find_snoc split: option.split)

lemma settle_run:
  assumes "settle st new_v4 su now sv = (r, sv')"
  obtains (failed) e where "r = Inl e" "sv' = sv"
    | (error) f where "r = Inr (http_status (cf_code f), ErrorBody f)" "sv_db sv' = sv_db sv" "sv_results sv' = sv_results sv"
    | (replay) stored b where "r = Inr (200, OkBody b)" "sv' = sv"
        "stored_command_result sv (su_actor su) (cmd_command_id (su_command su)) = Some (as_request_hash st (su_command su), stored)"
        "replayed_body st (su_actor su) (su_command su) stored = Some b"
    | (first) s d stored where "r = Inr (200, OkBody (success_body (su_command su) s))"
        "stored_command_result sv (su_actor su) (cmd_command_id (su_command su)) = None"
        "dispatch st new_v4 (su_actor su) (su_command su) (su_prefetched su) now (sv_db sv) = Inr (Inr s, d)"
        "stored_body st (seal_nonce st d) (su_actor su) (su_command su) (success_body (su_command su) s) = Some stored"
        "sv_db sv' = drawn (su_command su) d" "sv_audit sv' = sv_audit sv"
        "sv_results sv' = sv_results sv @ [\<lparr>cm_actor_pubky = su_actor su, cm_command_id = cmd_command_id (su_command su),
           cm_request_hash = as_request_hash st (su_command su), cm_result = stored, cm_created_at = now\<rparr>]"
proof (cases "stored_command_result sv (su_actor su) (cmd_command_id (su_command su))")
  case (Some hs)
  obtain h stored where hs: "hs = (h, stored)" by (cases hs)
  obtain q where q: "stored_result_response st (su_actor su) (su_command su) h stored now sv = (q, sv')" "r = Inr q"
    using assms Some hs by (auto simp: settle_def Let_def split: prod.split_asm)
  from q(1) show ?thesis
    by (cases rule: stored_response_run) (use error replay q(2) Some hs in auto)
next
  case None
  note new = None
  show ?thesis
  proof (cases "dispatch st new_v4 (su_actor su) (su_command su) (su_prefetched su) now (sv_db sv)")
    case (Inl e)
    then show ?thesis
      using assms new failed error
      by (cases e) (auto simp: settle_def Let_def map_prod_def split: prod.split_asm dest!: refuse_command_frame)
  next
    case (Inr x)
    obtain y d where x: "x = (y, d)" by (cases x)
    show ?thesis
    proof (cases y)
      case (Inl f)
      then show ?thesis
        using assms new Inr x error
        by (auto simp: settle_def Let_def map_prod_def split: prod.split_asm dest!: refuse_command_frame)
    next
      case s: (Inr s)
      show ?thesis
      proof (cases "stored_body st (seal_nonce st d) (su_actor su) (su_command su) (success_body (su_command su) s)")
        case None
        then show ?thesis
          using assms new Inr x s error
          by (auto simp: settle_def Let_def map_prod_def split: prod.split_asm dest!: refuse_command_frame)
      next
        case (Some stored)
        then show ?thesis
          using first [of s d stored] assms new Inr x s by (auto simp: settle_def Let_def)
      qed
    qed
  qed
qed
lemma admit_run:
  assumes "admit st actor raw now sv = (x, sv')"
  obtains (error) f where "x = Inl (http_status (cf_code f), ErrorBody f)" "sv_db sv' = sv_db sv" "sv_results sv' = sv_results sv"
    | (replay) c stored b where "x = Inl (200, OkBody b)" "sv' = sv"
        "parse_command (rd_externals (as_reader st)) (as_decoders st) raw = Inr c"
        "stored_command_result sv actor (cmd_command_id c) = Some (as_request_hash st c, stored)"
        "replayed_body st actor c stored = Some b"
    | (enter) su where "x = Inr su" "sv' = sv"
proof (cases "parse_command (rd_externals (as_reader st)) (as_decoders st) raw")
  case (Inl issues)
  then show ?thesis using assms error by (auto simp: admit_def failure_response_def split: sum.split_asm)
next
  case (Inr c)
  note parsed = Inr
  show ?thesis
  proof (cases "validate_actor actor")
    case (Inl issues)
    then show ?thesis using assms error by (auto simp: admit_def failure_response_def)
  next
    case (Inr u)
    show ?thesis
    proof (cases "public_record_request (sv_db sv) actor c")
      case None
      then show ?thesis using assms enter parsed Inr by (auto simp: admit_def)
    next
      case (Some payload)
      note wants = Some
      show ?thesis
      proof (cases "stored_command_result sv actor (cmd_command_id c)")
        case None
        then show ?thesis using assms enter parsed Inr wants by (auto simp: admit_def)
      next
        case (Some hs)
        obtain h stored where hs: "hs = (h, stored)" by (cases hs)
        obtain q where q: "stored_result_response st actor c h stored now sv = (q, sv')" "x = Inl q"
          using assms parsed Inr wants Some hs by (auto simp: admit_def Let_def split: prod.split_asm)
        from q(1) show ?thesis
          by (cases rule: stored_response_run) (use error replay q(2) Some hs parsed in auto)
      qed
    qed
  qed
qed

section \<open>Refinement\<close>

lemma service_step_refines:
  assumes "service_step st new_v4 s l s'"
  shows "once_step st new_v4 (abs_service s) l (abs_service s')"
  using assms
proof cases
  case (admitted actor raw now sv su sv' waiting)
  from admitted(4) have "sv' = sv" by (cases rule: admit_run) auto
  then show ?thesis using admitted by (simp add: abs_service_def once_step.silent)
next
  case (answered actor raw now sv r sv' waiting)
  from answered(4) show ?thesis
  proof (cases rule: admit_run)
    case (error f)
    have "abs_service s' = abs_service s"
      using answered(1,3) error(2) results_of_cong [OF error(3)] by (simp add: abs_service_def)
    then show ?thesis
      using answered(2) error(1)
      by (cases "parse_command (rd_externals (as_reader st)) (as_decoders st) raw"; cases "abs_service s")
        (simp_all add: answer_of_def once_step.silent once_step.refused)
  next
    case (replay c stored b)
    then show ?thesis
      using answered once_step.replay [of "results_of sv" actor c st stored b new_v4 "sv_db sv"]
      by (auto simp: abs_service_def answer_of_def results_of_def)
  qed auto
next
  case (settled su now sv r sv' before after)
  from settled(4) show ?thesis
  proof (cases rule: settle_run)
    case (failed e)
    then show ?thesis using settled by (simp add: abs_service_def once_step.failed)
  next
    case (error f)
    have "abs_service s' = abs_service s"
      using settled(1,3) error(2) results_of_cong [OF error(3)] by (simp add: abs_service_def)
    then show ?thesis using settled(2) error(1) by (cases "abs_service s") (simp add: once_step.refused)
  next
    case (replay stored b)
    then show ?thesis
      using settled once_step.replay [of "results_of sv" "su_actor su" "su_command su" st stored b new_v4 "sv_db sv"]
      by (simp add: abs_service_def results_of_def)
  next
    case (first z d stored)
    have r: "results_of sv' = (results_of sv)((su_actor su, cmd_command_id (su_command su)) \<mapsto> (as_request_hash st (su_command su), stored))"
      using results_snoc [OF first(7)] first(2) by simp
    show ?thesis
      using settled first once_step.first [of "results_of sv" "su_actor su" "su_command su" st new_v4 "su_prefetched su" now "sv_db sv" z d stored]
      by (simp add: abs_service_def r) (simp add: results_of_def)
  qed
qed

interpretation concrete: once_log "service_step st new_v4" "\<lambda>s. results_of (snd s)" "\<lambda>s. sv_db (snd s)"
  for st :: "'v app_state" and new_v4
proof
  fix s l s'
  assume "service_step st new_v4 s l s'"
  from abstract.grows [OF service_step_refines [OF this]]
  show "results_of (snd s') = results_of (snd s)
      \<or> (\<exists>k v. results_of (snd s) k = None \<and> results_of (snd s') = (results_of (snd s))(k \<mapsto> v))"
    by (simp add: abs_service_def)
next
  fix s l s'
  assume "service_step st new_v4 s l s'" "results_of (snd s') = results_of (snd s)"
  then show "sv_db (snd s') = sv_db (snd s)" using abstract.quiet [OF service_step_refines] by (simp add: abs_service_def)
qed
section \<open>Replays\<close>

lemma dispatch_checkout:
  assumes "cmd_payload c = CreateCheckout p" "dispatch st new_v4 a c pre now d = Inr (Inr s, d')"
  shows "\<exists>orders payments. hs_result s = ResultCheckout orders payments"
proof -
  obtain cx claim where "create_checkout new_v4 cx claim a c p now d = Inr (Inr s, d')"
    using assms by (auto simp: dispatch_def dispatch_listing_def dispatch_market_def)
  then obtain drop_key d1 where "place_checkout new_v4 cx claim a c p drop_key now d1 = Inr (Inr s, d')"
    by (rule create_checkout_run)
  then show ?thesis by (auto simp: place_checkout_def attempt_accept Let_def split: option.split_asm sum.split_asm if_split_asm)
qed

lemma dispatch_prepare:
  assumes pl: "cmd_payload c = PrepareLocks p" and ok: "results_open st"
    and run: "dispatch st new_v4 a c pre now d = Inr (Inr s, d')"
  shows "\<exists>locks reference t. as_locks st = Some locks \<and> hs_result s = ResultLocksPrepared reference t \<and> is_utf8 reference"
proof -
  obtain homeserver window where r: "prepare_locks new_v4 a c p (as_locks st) homeserver window now d = Inr (Inr s, d')"
    using pl run by (auto simp: dispatch_def dispatch_listing_def dispatch_market_def dispatch_offer_def dispatch_locks_def)
  then obtain locks fetch_lock where rt: "as_locks st = Some locks" "homeserver = Some fetch_lock"
    by (auto simp: prepare_locks_def refuse_def split: option.split_asm)
  have utf: "is_utf8 (lr_random_reference locks n)" for n using ok rt by (simp add: results_open_def)
  note r = r [unfolded rt]
  have "\<exists>reference t. hs_result s = ResultLocksPrepared reference t \<and> is_utf8 reference"
  proof (cases "fetch co_payment_id (pk_payment_id p) (st_locks_correlations d)")
    case None
    obtain payment order snapshot price resource
      where "create_preparation new_v4 c locks payment order snapshot price resource window now d = Inr (Inr s, d')"
      using r None by (rule prepare_locks_run)
    then obtain updated where "s = prepared_result updated (lr_random_reference locks (st_next_uuid d)) (now + seconds window)"
      by (rule create_preparation_run) blast
    then show ?thesis using utf by (simp add: prepared_result_def)
  next
    case (Some x)
    obtain payment where p: "locks_payment d a c (pk_payment_id p) ''prepare the Locks payment.'' = Inr payment"
      using r by (auto simp: prepare_locks_def refuse_def split: sum.split_asm)
    then have "existing_preparation locks payment x now = Inr s"
      using r Some locks_payment_run(3) [OF p] by (simp add: prepare_locks_def)
    then show ?thesis
      by (auto simp: existing_preparation_def prepared_result_def open_prepared_value_def from_utf8_def Option.bind_eq_Some_conv
          split: option.split_asm if_split_asm)
  qed
  then show ?thesis using rt by blast
qed

text \<open>What was stored for an accepted command is shown again as it was first answered.\<close>

lemma replay_shows:
  assumes ok: "results_open st" and run: "dispatch st new_v4 a c pre now d = Inr (Inr s, d')"
    and st: "stored_body st (seal_nonce st d') a c (success_body c s) = Some stored"
    and same: "cmd_payload c' = cmd_payload c"
  shows "replayed_body st a c' stored = Some (shown c (success_body c s))"
proof (cases "cmd_payload c")
  case (CreateCheckout p)
  then show ?thesis
    using dispatch_checkout [OF CreateCheckout run] st same
    by (auto simp: replayed_body_def stored_body_def shown_def redact_command_result_def success_body_def)
next
  case (PrepareLocks p)
  obtain locks reference t where l: "as_locks st = Some locks" "hs_result s = ResultLocksPrepared reference t" "is_utf8 reference"
    using dispatch_prepare [OF PrepareLocks ok run] by blast
  have k: "aead_ok (lz_cipher (lr_keys locks))" "length (lz_nonce (lr_keys locks) n) = XNONCE_LEN"
      "as_base64_decode st (as_base64_encode st x) = Some x" for n x
    using ok l(1) by (simp_all add: results_open_def)
  have "open_result_client_reference (lr_keys locks) (pk_payment_id p) a
      (seal_result_client_reference (lr_keys locks) (seal_nonce st d') (pk_payment_id p) a reference) = Some reference"
    using open_seal [OF k(1)] k(2) l by (simp add: open_result_client_reference_def seal_result_client_reference_def
        seal_nonce_def from_utf8_def)
  then show ?thesis
    using PrepareLocks st same l k(3)
    by (auto simp: replayed_body_def stored_body_def shown_def seal_prepare_locks_result_def unseal_prepare_locks_result_def
        success_body_def)
qed (use st same in \<open>simp_all add: replayed_body_def stored_body_def shown_def\<close>)

lemma settle_replays:
  assumes "stored_command_result sv (su_actor su) (cmd_command_id (su_command su)) = Some (as_request_hash st (su_command su), stored)"
    and "replayed_body st (su_actor su) (su_command su) stored = Some b"
  shows "settle st new_v4 su now sv = (Inr (200, OkBody b), sv)"
  using assms by (simp add: settle_def Let_def stored_result_response_def)

section \<open>Keys\<close>

lemma fresh_key: "stored_command_result sv a k = None \<longleftrightarrow> (a, k) \<notin> set (result_keys sv)"
  by (auto simp: stored_command_result_def result_keys_def find_None_iff image_iff)

lemma step_results:
  assumes "service_step st new_v4 s l s'"
  shows "(\<exists>rows. sv_results (snd s') = sv_results (snd s) @ rows) \<and> (distinct (result_keys (snd s)) \<longrightarrow> distinct (result_keys (snd s')))"
  using assms
proof cases
  case (admitted actor raw now sv su sv' waiting)
  from admitted(4) have "sv' = sv" by (cases rule: admit_run) auto
  then show ?thesis using admitted by simp
next
  case (answered actor raw now sv r sv' waiting)
  from answered(4) have "sv_results sv' = sv_results sv" by (cases rule: admit_run) auto
  then show ?thesis using answered by (simp add: result_keys_def)
next
  case (settled su now sv r sv' before after)
  from settled(4) show ?thesis
  proof (cases rule: settle_run)
    case (first z d stored)
    then show ?thesis
      using settled fresh_key [of sv "su_actor su" "cmd_command_id (su_command su)"] by (auto simp: result_keys_def)
  qed (use settled in \<open>auto simp: result_keys_def\<close>)
qed

lemma run_results:
  assumes "labelled_run (service_step st new_v4) s ls s'"
  shows "(\<exists>rows. sv_results (snd s') = sv_results (snd s) @ rows) \<and> (distinct (result_keys (snd s)) \<longrightarrow> distinct (result_keys (snd s')))"
  using assms
proof (induction rule: labelled_run.induct)
  case (stay s)
  show ?case by simp
next
  case (go s l s' ls s'')
  then show ?case using step_results [OF go.hyps(1)] by (metis append.assoc)
qed
section \<open>Dispatch\<close>

text \<open>Every command has a handler.\<close>

lemma dispatch_handled:
  "find_map id
        [dispatch_listing (as_reader st) (map_option hm_listings (as_homeserver st)) new_v4 actor command prefetched now d,
         dispatch_market st new_v4 actor command now d,
         dispatch_offer (map_option hm_raw (as_homeserver st)) (hold_window_seconds st) new_v4 actor command now d,
         dispatch_locks (as_locks st) (map_option hm_content_lock (as_homeserver st)) (as_locks_payment_window_seconds st) new_v4
           actor command now d,
         dispatch_order (map_option order_ref (as_attestor st)) new_v4 actor command now d,
         dispatch_delivery (delivery_context_of st) new_v4 actor command now d,
         dispatch_review (as_attestor st) new_v4 actor command now d] \<noteq> None"
  by (cases "cmd_payload command")
    (simp_all add: dispatch_listing_def dispatch_market_def dispatch_offer_def dispatch_locks_def dispatch_order_def
      dispatch_delivery_def dispatch_review_def)

section \<open>Properties\<close>

lemma sample_results_open: "results_open sample_app"
proof -
  have ascii: "list_all (\<lambda>c. of_char c < (128 :: nat)) s \<Longrightarrow> is_utf8 s" for s by (induction s) simp_all
  have "list_all (\<lambda>c. of_char c < (128 :: nat)) (show_nat n)" for n
    using show_nat_digits [of n] by (auto simp: list_all_iff is_ascii_digit_def)
  then have "is_utf8 (show_nat n)" for n using ascii by blast
  then show ?thesis
    using sample_cipher_ok by (simp add: results_open_def sample_app_def sample_locks_def sample_nonce_def XNONCE_LEN_def)
qed
lemma settle_labelled_run:
  assumes "settle st new_v4 su now sv = (r, sv')"
  shows "labelled_run (service_step st new_v4) ([su], sv) [(su_actor su, cmd_command_id (su_command su), r)] ([], sv')"
proof -
  have "service_step st new_v4 ([] @ su # [], sv) (Some (su_actor su, cmd_command_id (su_command su), r)) ([] @ [], sv')"
    by (rule service_step.settled [OF assms])
  then have "service_step st new_v4 ([su], sv) (Some (su_actor su, cmd_command_id (su_command su), r)) ([], sv')" by simp
  from labelled_run.go [where move = "service_step st new_v4", OF this labelled_run.stay [where move = "service_step st new_v4"]]
  show ?thesis by simp
qed

text \<open>C1: The executor refines the machine that does each command once.  Whatever submissions arrive and however their
  transactions interleave, every run of the service is a run of the abstract machine with the same answers: the handler of
  an actor's command id runs with effect at most once, a later answer for that id is either the stored result to an exact
  replay or an error, and no other step changes the database or the stored results.\<close>

theorem executor_refines_once:
  assumes "labelled_run (service_step st new_v4) s ls s'"
  shows "labelled_run (once_step st new_v4) (abs_service s) ls (abs_service s')"
  using assms
proof (induction rule: labelled_run.induct)
  case (stay s)
  show ?case by (rule labelled_run.stay)
next
  case (go s l s' ls s'')
  show ?case by (rule labelled_run.go [OF service_step_refines [OF go.hyps(1)] go.IH])
qed

lemma sample_settles:
  "settle sample_app show_nat sample_submission 50 sample_service
     = (Inr (200, OkBody (case fst (settle sample_app show_nat sample_submission 50 sample_service) of
          Inr (n, OkBody b) \<Rightarrow> b)), snd (settle sample_app show_nat sample_submission 50 sample_service))"
  by code_simp

theorem executor_refines_once_witness:
  "\<exists>b sv'. labelled_run (once_step sample_app show_nat) (abs_service ([sample_submission], sample_service))
     [(''buyer'', ''c11'', Inr (200, OkBody b))] (abs_service ([], sv'))"
proof -
  obtain b sv' where s: "settle sample_app show_nat sample_submission 50 sample_service = (Inr (200, OkBody b), sv')"
    using sample_settles by blast
  from executor_refines_once [OF settle_labelled_run [OF s]] show ?thesis
    by (auto simp: sample_submission_def sample_prepare_def)
qed


text \<open>Along every interleaving there is one stored result per actor and command id, a stored result is never changed or
  removed, and the database is what it was unless a new result was stored with the change.\<close>

theorem one_result_per_command:
  assumes "labelled_run (service_step st new_v4) s ls s'" "distinct (result_keys (snd s))"
  shows "distinct (result_keys (snd s')) \<and> (\<exists>rows. sv_results (snd s') = sv_results (snd s) @ rows)
    \<and> (sv_results (snd s') = sv_results (snd s) \<longrightarrow> sv_db (snd s') = sv_db (snd s))"
  using run_results [OF assms(1)] assms(2) concrete.run_quiet [OF assms(1)] results_of_cong by blast

theorem one_result_per_command_witness:
  "\<exists>l sv'. labelled_run (service_step sample_app show_nat) ([sample_submission], sample_service) [l] ([], sv')
    \<and> distinct (result_keys sv')"
proof -
  obtain b sv' where s: "settle sample_app show_nat sample_submission 50 sample_service = (Inr (200, OkBody b), sv')"
    using sample_settles by blast
  note run = settle_labelled_run [OF s]
  have "distinct (result_keys (snd ([sample_submission], sample_service)))" by (simp add: result_keys_def sample_service_def)
  from one_result_per_command [OF run this] run show ?thesis by auto
qed

text \<open>C4: A replay gets the first answer.  After a first submission was accepted, whatever other submissions ran in between
  and at whatever time, another submission of the same actor and command id with the same input is answered with the same
  body (the delivery addresses of a checkout left out, the sealed reference of a Locks preparation opened again) and changes
  nothing; with other input it is refused as a conflict and changes no data.\<close>

theorem replay_gets_first_answer:
  assumes ok: "results_open st"
    and new: "stored_command_result sv (su_actor su) (cmd_command_id (su_command su)) = None"
    and first: "settle st new_v4 su now sv = (Inr (200, OkBody b), sv1)"
    and run: "labelled_run (service_step st new_v4) (w, sv1) ls (w', sv2)"
    and again: "su_actor su' = su_actor su" "cmd_command_id (su_command su') = cmd_command_id (su_command su)"
    and no_collision: "as_request_hash st (su_command su') = as_request_hash st (su_command su)
        \<Longrightarrow> cmd_payload (su_command su') = cmd_payload (su_command su)"
  shows "settle st new_v4' su' now' sv2
    = (if as_request_hash st (su_command su') = as_request_hash st (su_command su)
       then (Inr (200, OkBody (shown (su_command su) b)), sv2)
       else map_prod Inr id (refuse_command st (su_actor su') (su_command su') idempotency_conflict now' sv2))"
proof -
  from first obtain s d stored where b: "b = success_body (su_command su) s"
    and run1: "dispatch st new_v4 (su_actor su) (su_command su) (su_prefetched su) now (sv_db sv) = Inr (Inr s, d)"
    and st: "stored_body st (seal_nonce st d) (su_actor su) (su_command su) (success_body (su_command su) s) = Some stored"
    and rows: "sv_results sv1 = sv_results sv @ [\<lparr>cm_actor_pubky = su_actor su, cm_command_id = cmd_command_id (su_command su),
           cm_request_hash = as_request_hash st (su_command su), cm_result = stored, cm_created_at = now\<rparr>]"
    by (cases rule: settle_run) (use new in auto)
  have "results_of sv1 (su_actor su, cmd_command_id (su_command su)) = Some (as_request_hash st (su_command su), stored)"
    using results_snoc [OF rows] new by simp
  then have "results_of sv2 (su_actor su, cmd_command_id (su_command su)) = Some (as_request_hash st (su_command su), stored)"
    using concrete.run_keeps [OF run] by simp
  then have st2: "stored_command_result sv2 (su_actor su') (cmd_command_id (su_command su')) = Some (as_request_hash st (su_command su), stored)"
    using again by (simp add: results_of_def)
  show ?thesis
  proof (cases "as_request_hash st (su_command su') = as_request_hash st (su_command su)")
    case True
    have "replayed_body st (su_actor su) (su_command su') stored = Some (shown (su_command su) b)"
      unfolding b by (rule replay_shows [OF ok run1 st no_collision [OF True]])
    then show ?thesis using settle_replays [of sv2 su' st stored] st2 again True by simp
  next
    case False
    then show ?thesis
      using st2 by (cases "refuse_command st (su_actor su') (su_command su') idempotency_conflict now' sv2")
        (simp add: settle_def Let_def stored_result_response_def)
  qed
qed

theorem replay_gets_first_answer_witness:
  "\<exists>b sv1. settle sample_app show_nat sample_submission 50 sample_service = (Inr (200, OkBody b), sv1)
    \<and> settle sample_app show_nat sample_submission 90 sv1 = (Inr (200, OkBody (shown sample_prepare b)), sv1)"
proof -
  obtain b sv1 where s: "settle sample_app show_nat sample_submission 50 sample_service = (Inr (200, OkBody b), sv1)"
    using sample_settles by blast
  have new: "stored_command_result sample_service (su_actor sample_submission) (cmd_command_id (su_command sample_submission)) = None"
    by (simp add: sample_service_def stored_command_result_def)
  from replay_gets_first_answer [OF sample_results_open new s labelled_run.stay [of _ "([], sv1)"] refl refl refl] s show ?thesis
    by (auto simp: sample_submission_def)
qed
text \<open>C15: A command that is not accepted changes nothing.  When \<open>execute\<close> answers with an error body or fails, the database
  and the stored results are what they were; an error body comes with the status of its code, which is never 200.\<close>

theorem refused_command_changes_nothing:
  assumes "execute st new_v4 actor raw now sv = (r, sv')" "\<nexists>b. r = Inr (200, OkBody b)"
  shows "sv_db sv' = sv_db sv \<and> sv_results sv' = sv_results sv
    \<and> (\<forall>q. r = Inr q \<longrightarrow> (\<exists>f. q = (http_status (cf_code f), ErrorBody f) \<and> fst q \<noteq> 200))"
proof -
  have st: "http_status e \<noteq> 200" for e by (cases e) simp_all
  show ?thesis
  proof (cases "admit st actor raw now sv")
    case (Pair x sv1)
    from Pair show ?thesis
    proof (cases rule: admit_run)
      case (error f)
      then show ?thesis using assms Pair st by (auto simp: execute_def)
    next
      case (replay c stored b)
      then show ?thesis using assms Pair by (auto simp: execute_def)
    next
      case (enter su)
      then have "settle st new_v4 su now sv = (r, sv')" using assms(1) Pair by (simp add: execute_def)
      then show ?thesis by (cases rule: settle_run) (use assms(2) st in auto)
    qed
  qed
qed

theorem refused_command_changes_nothing_witness:
  "\<exists>f sv'. execute sample_app show_nat ''nobody'' () 50 sample_service = (Inr (422, ErrorBody f), sv')
    \<and> sv_db sv' = sv_db sample_service"
proof -
  let ?r = "execute sample_app show_nat ''nobody'' () 50 sample_service"
  have e: "\<exists>f. ?r = (Inr (422, ErrorBody f), sample_service)"
    by (simp add: execute_def admit_def validate_actor_def is_valid_pubky_def failure_response_def invalid_envelope_def
        refused_with_issues_def refused_def)
  then have "\<nexists>b. fst ?r = Inr (200, OkBody b)" by auto
  from refused_command_changes_nothing [OF surjective_pairing this] e show ?thesis by auto
qed

end
