(* ===== verification/Reseal.thy ===== *)
theory Reseal
  imports Delivery_Facts
begin

text \<open>
  The key rotation of digital delivery, \<^verbatim>\<open>digital.rs\<close>: the three sealed families, the paged boot probe and the paged
  re-seal pass with its count of what is left.  The pass takes no row lock, so a writer may run between the read of a row
  and its write: the argument \<open>hook\<close> is that writer, as the \<open>ResealHook\<close> of the code is.  Its loop is a partial function;
  that it ends is proved of every writer that adds no rows.
\<close>

section \<open>Families\<close>

datatype sealed_family = VersionFamily | PinFamily | EmailFamily

definition ALL_FAMILIES :: "sealed_family list" where
  "ALL_FAMILIES = [VersionFamily, PinFamily, EmailFamily]"

fun family_name :: "sealed_family \<Rightarrow> string" where
  "family_name VersionFamily = ''version''"
| "family_name PinFamily = ''pin''"
| "family_name EmailFamily = ''email''"

record version_tuple =
  vt_id :: int
  vt_listing :: string
  vt_deliverable :: string
  vt_version :: int
  vt_kind :: string
  vt_ciphertext :: string

record pin_tuple =
  pt_id :: int
  pt_order :: uuid
  pt_line_index :: nat
  pt_listing :: string
  pt_deliverable :: string
  pt_version :: int
  pt_ciphertext :: string

record email_tuple =
  et_id :: int
  et_order :: uuid
  et_buyer :: pubky
  et_ciphertext :: "string option"

text \<open>The columns the job reads of the three tables.\<close>

record sealed_tables =
  tb_versions :: "version_tuple list"
  tb_pins :: "pin_tuple list"
  tb_emails :: "email_tuple list"

record sealed_row =
  sr_id :: int
  sr_aad :: string
  sr_ciphertext :: string

datatype direction = Ascending int | Descending

text \<open>\<open>WHERE id > after ORDER BY id ASC LIMIT n\<close>, or \<open>ORDER BY id DESC LIMIT n\<close>.\<close>

definition page :: "('r \<Rightarrow> int) \<Rightarrow> direction \<Rightarrow> nat \<Rightarrow> 'r list \<Rightarrow> 'r list" where
  "page row_id direction limit rows =
     (case direction of
        Ascending after \<Rightarrow> take limit (sort_by (\<lambda>a b. row_id a \<le> row_id b) (filter (\<lambda>r. after < row_id r) rows))
      | Descending \<Rightarrow> take limit (sort_by (\<lambda>a b. row_id b \<le> row_id a) rows))"

definition version_row :: "version_tuple \<Rightarrow> sealed_row option" where
  "version_row v =
     map_option (\<lambda>kind. \<lparr>sr_id = vt_id v, sr_aad = version_aad (vt_listing v) (vt_deliverable v) (vt_version v) kind,
                         sr_ciphertext = vt_ciphertext v\<rparr>) (delivery_kind_parse (vt_kind v))"

definition pin_row :: "pin_tuple \<Rightarrow> sealed_row" where
  "pin_row p =
     \<lparr>sr_id = pt_id p, sr_aad = pin_aad (pt_order p) (pt_line_index p) (pt_listing p) (pt_deliverable p) (pt_version p),
      sr_ciphertext = pt_ciphertext p\<rparr>"

definition email_sealed_row :: "email_tuple \<Rightarrow> sealed_row" where
  "email_sealed_row e =
     \<lparr>sr_id = et_id e, sr_aad = email_aad (et_order e) (et_buyer e), sr_ciphertext = the (et_ciphertext e)\<rparr>"

definition family_rows :: "sealed_tables \<Rightarrow> sealed_family \<Rightarrow> direction \<Rightarrow> nat \<Rightarrow> sealed_row list" where
  "family_rows t family direction limit =
     (case family of
        VersionFamily \<Rightarrow> List.map_filter version_row (page vt_id direction limit (tb_versions t))
      | PinFamily \<Rightarrow> map pin_row (page pt_id direction limit (tb_pins t))
      | EmailFamily \<Rightarrow>
          map email_sealed_row (page et_id direction limit (filter (\<lambda>e. et_ciphertext e \<noteq> None) (tb_emails t))))"

definition family_count :: "sealed_tables \<Rightarrow> sealed_family \<Rightarrow> nat" where
  "family_count t family =
     (case family of
        VersionFamily \<Rightarrow> length (tb_versions t)
      | PinFamily \<Rightarrow> length (tb_pins t)
      | EmailFamily \<Rightarrow> length (filter (\<lambda>e. et_ciphertext e \<noteq> None) (tb_emails t)))"

text \<open>The keys of the rows of a family, whatever their contents.\<close>

definition family_ids :: "sealed_tables \<Rightarrow> sealed_family \<Rightarrow> int list" where
  "family_ids t family =
     (case family of
        VersionFamily \<Rightarrow> map vt_id (tb_versions t)
      | PinFamily \<Rightarrow> map pt_id (tb_pins t)
      | EmailFamily \<Rightarrow> map et_id (tb_emails t))"

definition rows_after :: "sealed_tables \<Rightarrow> sealed_family \<Rightarrow> int \<Rightarrow> nat" where
  "rows_after t family after = length (filter (\<lambda>i. after < i) (family_ids t family))"

section \<open>Paging ends\<close>

lemma page_mem: "r \<in> set (page row_id (Ascending after) n rows) \<Longrightarrow> r \<in> set rows \<and> after < row_id r"
  by (auto simp: page_def dest: in_set_takeD)

lemma family_row_id:
  assumes "r \<in> set (family_rows t family (Ascending after) n)"
  shows "after < sr_id r" "sr_id r \<in> set (family_ids t family)"
  using assms
  by (cases family;
      force simp: family_rows_def family_ids_def version_row_def pin_row_def email_sealed_row_def map_filter_def dest!: page_mem)+

lemma length_filter_less:
  assumes "x \<in> set xs" "P x" "\<not> Q x" "\<And>y. Q y \<Longrightarrow> P y"
  shows "length (filter Q xs) < length (filter P xs)"
  using assms(1)
proof (induction xs)
  case (Cons y ys)
  have "length (filter Q ys) \<le> length (filter P ys)" by (induction ys) (auto dest: assms(4))
  then show ?case using Cons assms(2-4) by auto
qed simp

lemma page_advances:
  assumes "family_rows t family (Ascending after) n \<noteq> []"
  shows "rows_after t family (sr_id (last (family_rows t family (Ascending after) n))) < rows_after t family after"
proof -
  let ?l = "last (family_rows t family (Ascending after) n)"
  have "?l \<in> set (family_rows t family (Ascending after) n)" using assms by simp
  then have "after < sr_id ?l" "sr_id ?l \<in> set (family_ids t family)" using family_row_id by blast+
  then show ?thesis unfolding rows_after_def by (intro length_filter_less [of "sr_id ?l"]) auto
qed

section \<open>The boot probe\<close>

definition PROBE_BATCH_SIZE :: nat where "PROBE_BATCH_SIZE = 100"
definition PROBE_MAX_BATCHES :: nat where "PROBE_MAX_BATCHES = 3"

record probe_scan =
  pr_scanned :: nat
  pr_probed :: nat
  pr_family_total :: "nat option"
  pr_current_class :: bool
  pr_straggler_class :: bool

definition no_scan :: probe_scan where
  "no_scan = \<lparr>pr_scanned = 0, pr_probed = 0, pr_family_total = None, pr_current_class = False, pr_straggler_class = False\<rparr>"

definition classify :: "keyring \<Rightarrow> sealed_family \<Rightarrow> sealed_row \<Rightarrow> probe_scan \<Rightarrow> string + probe_scan" where
  "classify ring family row scan =
     (if opens_under_current (kr_cipher ring) (kr_keys ring) (sr_aad row) (sr_ciphertext row)
      then Inr (scan\<lparr>pr_current_class := True\<rparr>)
      else if open_under_previous (kr_cipher ring) (kr_keys ring) (sr_aad row) (sr_ciphertext row) \<noteq> None
      then Inr (scan\<lparr>pr_straggler_class := True\<rparr>)
      else Inl (family_name family))"

fun classify_rows :: "keyring \<Rightarrow> sealed_family \<Rightarrow> (probe_scan \<Rightarrow> probe_scan) \<Rightarrow> sealed_row list \<Rightarrow> probe_scan \<Rightarrow> string + probe_scan" where
  "classify_rows ring family count [] scan = Inr scan"
| "classify_rows ring family count (row # rows) scan =
     (case classify ring family row (count scan) of
        Inl e \<Rightarrow> Inl e | Inr scan1 \<Rightarrow> classify_rows ring family count rows scan1)"

definition probe_settled :: "keyring \<Rightarrow> nat \<Rightarrow> probe_scan \<Rightarrow> bool" where
  "probe_settled ring batches scan \<longleftrightarrow>
     pr_current_class scan \<and> (pr_straggler_class scan \<or> \<not> has_previous (kr_keys ring)) \<or> PROBE_MAX_BATCHES \<le> batches"

text \<open>The ascending scan: where it ended, whether it stopped before the end, and what it saw.\<close>

function probe_pages ::
  "keyring \<Rightarrow> sealed_tables \<Rightarrow> sealed_family \<Rightarrow> int \<Rightarrow> nat \<Rightarrow> probe_scan \<Rightarrow> string + int \<times> bool \<times> probe_scan" where
  "probe_pages ring t family after batches scan =
     (let rows = family_rows t family (Ascending after) PROBE_BATCH_SIZE
      in if rows = [] then Inr (after, False, scan)
         else case classify_rows ring family (\<lambda>s. s\<lparr>pr_scanned := pr_scanned s + 1\<rparr>) rows scan of
                Inl e \<Rightarrow> Inl e
              | Inr scan1 \<Rightarrow>
                  if probe_settled ring (batches + 1) scan1 then Inr (sr_id (last rows), True, scan1)
                  else probe_pages ring t family (sr_id (last rows)) (batches + 1) scan1)"
  by pat_completeness auto

termination
  by (relation "measure (\<lambda>(ring, t, family, after, batches, scan). rows_after t family after)")
    (simp_all add: page_advances)

definition probe_family :: "keyring \<Rightarrow> sealed_tables \<Rightarrow> sealed_family \<Rightarrow> string + probe_scan" where
  "probe_family ring t family =
     (case probe_pages ring t family 0 0 no_scan of
        Inl e \<Rightarrow> Inl e
      | Inr (after, stopped_early, scan) \<Rightarrow>
          (case classify_rows ring family (\<lambda>s. s\<lparr>pr_probed := pr_probed s + 1\<rparr>)
                  (filter (\<lambda>r. after < sr_id r) (family_rows t family Descending PROBE_BATCH_SIZE))
                  (scan\<lparr>pr_probed := pr_scanned scan\<rparr>) of
             Inl e \<Rightarrow> Inl e
           | Inr scan1 \<Rightarrow>
               Inr (if stopped_early \<and> pr_probed scan1 < family_count t family
                    then scan1\<lparr>pr_family_total := Some (family_count t family)\<rparr> else scan1)))"

definition sealed_rows_exist :: "sealed_tables \<Rightarrow> bool" where
  "sealed_rows_exist t \<longleftrightarrow> tb_versions t \<noteq> [] \<or> tb_pins t \<noteq> [] \<or> list_ex (\<lambda>e. et_ciphertext e \<noteq> None) (tb_emails t)"

fun probe_families :: "keyring \<Rightarrow> sealed_tables \<Rightarrow> sealed_family list \<Rightarrow> string + (sealed_family \<times> probe_scan) list" where
  "probe_families ring t [] = Inr []"
| "probe_families ring t (f # fs) =
     (case probe_family ring t f of
        Inl e \<Rightarrow> Inl e
      | Inr scan \<Rightarrow> (case probe_families ring t fs of Inl e \<Rightarrow> Inl e | Inr scans \<Rightarrow> Inr ((f, scan) # scans)))"

definition assert_digital_sealing_coherent ::
  "sealed_tables \<Rightarrow> keyring option \<Rightarrow> string + (sealed_family \<times> probe_scan) list" where
  "assert_digital_sealing_coherent t keys =
     (if \<not> sealed_rows_exist t then Inr []
      else case keys of
        None \<Rightarrow> Inl ''not configured''
      | Some ring \<Rightarrow> probe_families ring t ALL_FAMILIES)"

section \<open>The pass\<close>

definition RESEAL_BATCH_SIZE :: nat where "RESEAL_BATCH_SIZE = 100"

record reseal_progress =
  rp_versions_resealed :: nat
  rp_pins_resealed :: nat
  rp_emails_resealed :: nat
  rp_skipped_changed :: nat
  rp_remaining_under_previous :: nat

definition no_progress :: reseal_progress where
  "no_progress =
     \<lparr>rp_versions_resealed = 0, rp_pins_resealed = 0, rp_emails_resealed = 0, rp_skipped_changed = 0,
      rp_remaining_under_previous = 0\<rparr>"

record reseal_state =
  rs_tables :: sealed_tables
  rs_progress :: reseal_progress
  rs_unopenable :: nat
  rs_nonces :: nat

definition write_resealed :: "sealed_family \<Rightarrow> int \<Rightarrow> string \<Rightarrow> string \<Rightarrow> sealed_tables \<Rightarrow> bool \<times> sealed_tables" where
  "write_resealed family row_id read resealed t =
     (case family of
        VersionFamily \<Rightarrow>
          (length (filter (\<lambda>v. vt_id v = row_id \<and> vt_ciphertext v = read) (tb_versions t)) = 1,
           t\<lparr>tb_versions := map (\<lambda>v. if vt_id v = row_id \<and> vt_ciphertext v = read then v\<lparr>vt_ciphertext := resealed\<rparr> else v)
              (tb_versions t)\<rparr>)
      | PinFamily \<Rightarrow>
          (length (filter (\<lambda>p. pt_id p = row_id \<and> pt_ciphertext p = read) (tb_pins t)) = 1,
           t\<lparr>tb_pins := map (\<lambda>p. if pt_id p = row_id \<and> pt_ciphertext p = read then p\<lparr>pt_ciphertext := resealed\<rparr> else p)
              (tb_pins t)\<rparr>)
      | EmailFamily \<Rightarrow>
          (length (filter (\<lambda>e. et_id e = row_id \<and> et_ciphertext e = Some read) (tb_emails t)) = 1,
           t\<lparr>tb_emails := map (\<lambda>e. if et_id e = row_id \<and> et_ciphertext e = Some read then e\<lparr>et_ciphertext := Some resealed\<rparr> else e)
              (tb_emails t)\<rparr>))"

fun count_resealed :: "sealed_family \<Rightarrow> reseal_progress \<Rightarrow> reseal_progress" where
  "count_resealed VersionFamily p = p\<lparr>rp_versions_resealed := rp_versions_resealed p + 1\<rparr>"
| "count_resealed PinFamily p = p\<lparr>rp_pins_resealed := rp_pins_resealed p + 1\<rparr>"
| "count_resealed EmailFamily p = p\<lparr>rp_emails_resealed := rp_emails_resealed p + 1\<rparr>"

type_synonym reseal_hook = "sealed_family \<Rightarrow> int \<Rightarrow> sealed_tables \<Rightarrow> sealed_tables"

definition no_hook :: reseal_hook where "no_hook _ _ t = t"

definition reseal_row :: "keyring \<Rightarrow> reseal_hook \<Rightarrow> sealed_family \<Rightarrow> sealed_row \<Rightarrow> reseal_state \<Rightarrow> reseal_state" where
  "reseal_row ring hook family row s =
     (if opens_under_current (kr_cipher ring) (kr_keys ring) (sr_aad row) (sr_ciphertext row) then s
      else case open_under_previous (kr_cipher ring) (kr_keys ring) (sr_aad row) (sr_ciphertext row) of
        None \<Rightarrow> s\<lparr>rs_unopenable := rs_unopenable s + 1\<rparr>
      | Some plaintext \<Rightarrow>
          (let resealed = keys_seal (kr_cipher ring) (kr_nonce ring (rs_nonces s)) (kr_keys ring) (sr_aad row) plaintext;
               (written, t) = write_resealed family (sr_id row) (sr_ciphertext row) resealed (hook family (sr_id row) (rs_tables s));
               s1 = s\<lparr>rs_tables := t, rs_nonces := rs_nonces s + 1\<rparr>
           in if written then s1\<lparr>rs_progress := count_resealed family (rs_progress s)\<rparr>
              else s1\<lparr>rs_progress := (rs_progress s)\<lparr>rp_skipped_changed := rp_skipped_changed (rs_progress s) + 1\<rparr>\<rparr>))"

partial_function (option) reseal_pages ::
  "keyring \<Rightarrow> reseal_hook \<Rightarrow> sealed_family \<Rightarrow> int \<Rightarrow> reseal_state \<Rightarrow> reseal_state option" where
  "reseal_pages ring hook family after s =
     (let rows = family_rows (rs_tables s) family (Ascending after) RESEAL_BATCH_SIZE
      in if rows = [] then Some s
         else reseal_pages ring hook family (sr_id (last rows)) (fold (reseal_row ring hook family) rows s))"

fun reseal_families :: "keyring \<Rightarrow> reseal_hook \<Rightarrow> sealed_family list \<Rightarrow> reseal_state \<Rightarrow> reseal_state option" where
  "reseal_families ring hook [] s = Some s"
| "reseal_families ring hook (f # fs) s = Option.bind (reseal_pages ring hook f 0 s) (reseal_families ring hook fs)"

function count_pages :: "keyring \<Rightarrow> sealed_tables \<Rightarrow> sealed_family \<Rightarrow> int \<Rightarrow> nat \<Rightarrow> nat" where
  "count_pages ring t family after remaining =
     (let rows = family_rows t family (Ascending after) RESEAL_BATCH_SIZE
      in if rows = [] then remaining
         else count_pages ring t family (sr_id (last rows))
                (remaining + length (filter (\<lambda>r. open_under_previous (kr_cipher ring) (kr_keys ring) (sr_aad r) (sr_ciphertext r) \<noteq> None) rows)))"
  by pat_completeness auto

termination
  by (relation "measure (\<lambda>(ring, t, family, after, remaining). rows_after t family after)")
    (simp_all add: page_advances)

definition count_rows_under_previous :: "keyring \<Rightarrow> sealed_tables \<Rightarrow> nat" where
  "count_rows_under_previous ring t = fold (\<lambda>f n. count_pages ring t f 0 n) ALL_FAMILIES 0"

definition reseal_previous_key_batch_with_hook ::
  "keyring \<Rightarrow> reseal_hook \<Rightarrow> nat \<Rightarrow> sealed_tables \<Rightarrow> ((nat + reseal_progress) \<times> sealed_tables) option" where
  "reseal_previous_key_batch_with_hook ring hook nonces t =
     (if \<not> has_previous (kr_keys ring) then Some (Inr no_progress, t)
      else map_option (\<lambda>s.
             (if 0 < rs_unopenable s then Inl (rs_unopenable s)
              else Inr ((rs_progress s)\<lparr>rp_remaining_under_previous := count_rows_under_previous ring (rs_tables s)\<rparr>),
              rs_tables s))
            (reseal_families ring hook ALL_FAMILIES
               \<lparr>rs_tables = t, rs_progress = no_progress, rs_unopenable = 0, rs_nonces = nonces\<rparr>))"

definition reseal_previous_key_batch ::
  "keyring \<Rightarrow> nat \<Rightarrow> sealed_tables \<Rightarrow> ((nat + reseal_progress) \<times> sealed_tables) option" where
  "reseal_previous_key_batch ring nonces t = reseal_previous_key_batch_with_hook ring no_hook nonces t"

end
