(* ===== verification/Reseal_Facts.thy ===== *)
theory Reseal_Facts
  imports Reseal
begin

text \<open>
  What the re-seal pass of \<^verbatim>\<open>digital.rs\<close> achieves: it ends under every concurrent writer that adds no row, it never
  overwrites what such a writer stored, and run alone it leaves every row opening to the same plaintext under the
  current key, so that the previous key can be retired.
\<close>

section \<open>Vocabulary\<close>

text \<open>The rows of a family as the job sees them, in table order.\<close>

definition family_all :: "sealed_tables \<Rightarrow> sealed_family \<Rightarrow> sealed_row list" where
  "family_all t family =
     (case family of
        VersionFamily \<Rightarrow> List.map_filter version_row (tb_versions t)
      | PinFamily \<Rightarrow> map pin_row (tb_pins t)
      | EmailFamily \<Rightarrow> map email_sealed_row (filter (\<lambda>e. et_ciphertext e \<noteq> None) (tb_emails t)))"

text \<open>The constraints of the tables: primary keys from sequences that start at one, and the \<open>CHECK\<close> on \<open>kind\<close>.\<close>

definition sealed_tables_ok :: "sealed_tables \<Rightarrow> bool" where
  "sealed_tables_ok t \<longleftrightarrow>
     list_all (\<lambda>v. delivery_kind_parse (vt_kind v) \<noteq> None) (tb_versions t)
     \<and> list_all (\<lambda>f. distinct (family_ids t f) \<and> list_all (\<lambda>i. 0 < i) (family_ids t f)) ALL_FAMILIES"

text \<open>A row holds a value the service sealed under one of its two keys.\<close>

definition row_sealed :: "keyring \<Rightarrow> string \<Rightarrow> string \<Rightarrow> sealed_row \<Rightarrow> bool" where
  "row_sealed ring key plaintext r \<longleftrightarrow>
     key \<in> set (key_material (kr_keys ring))
     \<and> (\<exists>nonce. length nonce = XNONCE_LEN \<and> sr_ciphertext r = seal (kr_cipher ring) nonce key (sr_aad r) plaintext)"

definition rows_sealed :: "keyring \<Rightarrow> sealed_tables \<Rightarrow> bool" where
  "rows_sealed ring t \<longleftrightarrow> (\<forall>f. \<forall>r \<in> set (family_all t f). \<exists>key plaintext. row_sealed ring key plaintext r)"

text \<open>What a row becomes under the job: the same key and associated data, the same value under the current key or as it was.\<close>

definition row_step :: "keyring \<Rightarrow> sealed_row \<Rightarrow> sealed_row \<Rightarrow> bool" where
  "row_step ring r r' \<longleftrightarrow>
     sr_id r' = sr_id r \<and> sr_aad r' = sr_aad r
     \<and> (r' = r \<or> (\<exists>plaintext. (\<exists>key. row_sealed ring key plaintext r)
                     \<and> row_sealed ring (ky_current (kr_keys ring)) plaintext r'))"

definition tables_step :: "keyring \<Rightarrow> sealed_tables \<Rightarrow> sealed_tables \<Rightarrow> bool" where
  "tables_step ring t t' \<longleftrightarrow> (\<forall>f. list_all2 (row_step ring) (family_all t f) (family_all t' f))"

text \<open>The rows of a family with one of the keys are sealed under the current key.\<close>

definition fresh_rows :: "keyring \<Rightarrow> sealed_tables \<Rightarrow> sealed_family \<Rightarrow> (int \<Rightarrow> bool) \<Rightarrow> bool" where
  "fresh_rows ring t family which \<longleftrightarrow>
     (\<forall>r \<in> set (family_all t family). which (sr_id r) \<longrightarrow> (\<exists>plaintext. row_sealed ring (ky_current (kr_keys ring)) plaintext r))"

text \<open>A concurrent writer that adds no row: it may update and delete.\<close>

definition adds_no_row :: "reseal_hook \<Rightarrow> bool" where
  "adds_no_row hook \<longleftrightarrow> (\<forall>f i t g after. rows_after (hook f i t) g after \<le> rows_after t g after)"

text \<open>The write of a re-sealed row.\<close>

definition rewrite_row :: "int \<Rightarrow> string \<Rightarrow> string \<Rightarrow> sealed_row \<Rightarrow> sealed_row" where
  "rewrite_row i old new r = (if sr_id r = i \<and> sr_ciphertext r = old then r\<lparr>sr_ciphertext := new\<rparr> else r)"

text \<open>What one row of the pass does, and a page of them.\<close>

definition settled_step :: "keyring \<Rightarrow> reseal_state \<Rightarrow> reseal_state \<Rightarrow> bool" where
  "settled_step ring s s' \<longleftrightarrow>
     sealed_tables_ok (rs_tables s') \<and> tables_step ring (rs_tables s) (rs_tables s')
     \<and> rs_unopenable s' = rs_unopenable s
     \<and> rp_skipped_changed (rs_progress s') = rp_skipped_changed (rs_progress s)"

text \<open>What a row holds under both keys, the current key alone reads after the pass.\<close>

definition kept_row :: "keyring \<Rightarrow> sealed_row \<Rightarrow> sealed_row \<Rightarrow> bool" where
  "kept_row ring r r' \<longleftrightarrow>
     sr_id r' = sr_id r \<and> sr_aad r' = sr_aad r
     \<and> ring_open ring (sr_aad r) (sr_ciphertext r) \<noteq> None
     \<and> keys_open (kr_cipher ring) ((kr_keys ring)\<lparr>ky_previous := None\<rparr>) (sr_aad r') (sr_ciphertext r')
         = ring_open ring (sr_aad r) (sr_ciphertext r)"

section \<open>Concurrent writers\<close>

lemma map_untouched: "\<forall>x \<in> set xs. \<not> c x \<Longrightarrow> map (\<lambda>x. if c x then f x else x) xs = xs"
  by (induction xs) simp_all

text \<open>The write compares with what was read: a row a writer has replaced since keeps what it stored, and is not counted.\<close>

lemma write_resealed_skips:
  "\<forall>v \<in> set (tb_versions t). vt_id v = row_id \<longrightarrow> vt_ciphertext v \<noteq> read \<Longrightarrow> write_resealed VersionFamily row_id read resealed t = (False, t)"
  "\<forall>p \<in> set (tb_pins t). pt_id p = row_id \<longrightarrow> pt_ciphertext p \<noteq> read \<Longrightarrow> write_resealed PinFamily row_id read resealed t = (False, t)"
  "\<forall>e \<in> set (tb_emails t). et_id e = row_id \<longrightarrow> et_ciphertext e \<noteq> Some read \<Longrightarrow> write_resealed EmailFamily row_id read resealed t = (False, t)"
  using map_untouched [of "tb_versions t" "\<lambda>v. vt_id v = row_id \<and> vt_ciphertext v = read"]
    map_untouched [of "tb_pins t" "\<lambda>p. pt_id p = row_id \<and> pt_ciphertext p = read"]
    map_untouched [of "tb_emails t" "\<lambda>e. et_id e = row_id \<and> et_ciphertext e = Some read"]
  by (simp_all add: write_resealed_def filter_empty_conv)

section \<open>Samples\<close>

definition sample_rotation_ring :: keyring where
  "sample_rotation_ring = sample_ring\<lparr>kr_keys := \<lparr>ky_current = replicate 32 CHR ''c'', ky_previous = Some (replicate 32 CHR ''p'')\<rparr>\<rparr>"

definition sample_sealed_tables :: sealed_tables where
  "sample_sealed_tables =
     \<lparr>tb_versions = [\<lparr>vt_id = 1, vt_listing = ''listing:l'', vt_deliverable = ''d'', vt_version = 1, vt_kind = ''text'',
        vt_ciphertext = seal sample_cipher sample_nonce (replicate 32 CHR ''p'') (version_aad ''listing:l'' ''d'' 1 KText) ''old''\<rparr>],
      tb_pins = [\<lparr>pt_id = 4, pt_order = ''o1'', pt_line_index = 0, pt_listing = ''listing:l'', pt_deliverable = ''d'', pt_version = 1,
        pt_ciphertext = seal sample_cipher sample_nonce (replicate 32 CHR ''c'') (pin_aad ''o1'' 0 ''listing:l'' ''d'' 1) ''new''\<rparr>],
      tb_emails = [\<lparr>et_id = 2, et_order = ''o1'', et_buyer = ''buyer'', et_ciphertext = None\<rparr>]\<rparr>"


section \<open>Pages\<close>

lemma in_families [simp]: "f \<in> set ALL_FAMILIES" by (cases f) (simp_all add: ALL_FAMILIES_def)

lemma sealed_tables_okD:
  assumes "sealed_tables_ok t"
  shows "distinct (family_ids t f)" "i \<in> set (family_ids t f) \<Longrightarrow> 0 < i"
    "v \<in> set (tb_versions t) \<Longrightarrow> \<exists>k. delivery_kind_parse (vt_kind v) = Some k"
  using assms in_families [of f] by (auto simp: sealed_tables_ok_def list_all_iff)

lemma page_complete:
  assumes d: "distinct (map k rows)" and x: "x \<in> set rows" "after < k x"
  shows "page k (Ascending after) n rows \<noteq> [] \<Longrightarrow> k x \<le> k (last (page k (Ascending after) n rows)) \<Longrightarrow>
           x \<in> set (page k (Ascending after) n rows)"
    "page k (Ascending after) n rows = [] \<Longrightarrow> n = 0"
proof -
  let ?s = "sort_by (\<lambda>a b. k a \<le> k b) (filter (\<lambda>r. after < k r) rows)"
  have s: "sorted_wrt (\<lambda>a b. k a \<le> k b) ?s" by (rule sorted_sort_by) auto
  have in_s: "x \<in> set ?s" using x by simp
  then show "page k (Ascending after) n rows = [] \<Longrightarrow> n = 0" by (cases ?s) (auto simp: page_def)
  assume ne: "page k (Ascending after) n rows \<noteq> []" and le: "k x \<le> k (last (page k (Ascending after) n rows))"
  have pg: "page k (Ascending after) n rows = take n ?s" by (simp add: page_def)
  have both: "sorted_wrt (\<lambda>a b. k a \<le> k b) (take n ?s @ drop n ?s)" "x \<in> set (take n ?s @ drop n ?s)"
      "distinct (map k (take n ?s @ drop n ?s))"
    using s in_s d by (simp_all only: append_take_drop_id distinct_sort_by distinct_map_filter)
  have l: "last (take n ?s) \<in> set (take n ?s)" using ne unfolding pg by (rule last_in_set)
  show "x \<in> set (page k (Ascending after) n rows)"
  proof (rule ccontr)
    assume "x \<notin> set (page k (Ascending after) n rows)"
    then have dr: "x \<in> set (drop n ?s)" using both(2) unfolding pg by (simp only: set_append) blast
    have "k (last (take n ?s)) \<le> k x" using both(1) l dr unfolding sorted_wrt_append by blast
    then have eq: "k x = k (last (take n ?s))" using le unfolding pg by simp
    have "k ` set (take n ?s) \<inter> k ` set (drop n ?s) = {}" using both(3) unfolding map_append distinct_append by simp
    then show False using eq l dr by blast
  qed
qed

lemma version_rows_map:
  assumes "\<And>v. v \<in> set vs \<Longrightarrow> \<exists>k. delivery_kind_parse (vt_kind v) = Some k"
  shows "List.map_filter version_row vs = map (\<lambda>v. the (version_row v)) vs"
  using assms by (induction vs) (fastforce simp: map_filter_def version_row_def)+

lemma version_row_id: "version_row v = Some r \<Longrightarrow> sr_id r = vt_id v"
  by (auto simp: version_row_def)

lemma map_filter_mono: "set xs \<subseteq> set ys \<Longrightarrow> set (List.map_filter g xs) \<subseteq> set (List.map_filter g ys)"
  by (auto simp: map_filter_def)

lemma page_subset: "set (page k (Ascending after) n rows) \<subseteq> set rows"
  using page_mem by fast

lemma family_rows_subset: "set (family_rows t f (Ascending after) n) \<subseteq> set (family_all t f)"
  unfolding family_rows_def family_all_def
  by (cases f) (simp_all only: sealed_family.simps set_map map_filter_mono image_mono page_subset)

lemma family_all_ids: "r \<in> set (family_all t f) \<Longrightarrow> sr_id r \<in> set (family_ids t f)"
  by (cases f) (auto simp: family_all_def family_ids_def map_filter_def version_row_def pin_row_def email_sealed_row_def)

lemma family_page_complete:
  assumes ok: "sealed_tables_ok t" and r: "r \<in> set (family_all t f)" "after < sr_id r" and n: "0 < n"
  shows "family_rows t f (Ascending after) n \<noteq> []"
    "sr_id r \<le> sr_id (last (family_rows t f (Ascending after) n)) \<Longrightarrow> r \<in> set (family_rows t f (Ascending after) n)"
proof -
  have main: "map g (page k (Ascending after) n xs) \<noteq> []
      \<and> (sr_id r \<le> sr_id (last (map g (page k (Ascending after) n xs))) \<longrightarrow> r \<in> set (map g (page k (Ascending after) n xs)))"
    if "distinct (map k xs)" "\<And>x. x \<in> set xs \<Longrightarrow> sr_id (g x) = k x" "r \<in> g ` set xs" for g k and xs :: "'a list"
  proof -
    note facts = that
    obtain x where x: "x \<in> set xs" "r = g x" "after < k x" using facts r(2) by auto
    have ne: "page k (Ascending after) n xs \<noteq> []" using page_complete(2) [OF that(1) x(1,3)] n by auto
    then have "last (page k (Ascending after) n xs) \<in> set xs" using page_subset by (metis last_in_set subsetD)
    then show ?thesis
      using ne page_complete(1) [OF that(1) x(1,3) ne] that(2) x by (auto simp: last_map)
  qed
  have ids: "distinct (map vt_id (tb_versions t))" "distinct (map pt_id (tb_pins t))" "distinct (map et_id (tb_emails t))"
    using sealed_tables_okD(1) [OF ok, of VersionFamily] sealed_tables_okD(1) [OF ok, of PinFamily]
      sealed_tables_okD(1) [OF ok, of EmailFamily] by (simp_all add: family_ids_def)
  note kinds = sealed_tables_okD(3) [OF ok]
  have both: "family_rows t f (Ascending after) n \<noteq> [] \<and>
      (sr_id r \<le> sr_id (last (family_rows t f (Ascending after) n)) \<longrightarrow> r \<in> set (family_rows t f (Ascending after) n))"
  proof (cases f)
    case VersionFamily
    let ?p = "page vt_id (Ascending after) n (tb_versions t)"
    have "List.map_filter version_row ?p = map (\<lambda>v. the (version_row v)) ?p"
      by (rule version_rows_map, rule kinds, drule page_mem, simp)
    moreover have "r \<in> (\<lambda>v. the (version_row v)) ` set (tb_versions t)"
      using r(1) VersionFamily version_rows_map [of "tb_versions t", OF kinds] by (simp add: family_all_def)
    moreover have "sr_id (the (version_row v)) = vt_id v" if "v \<in> set (tb_versions t)" for v
      using kinds [OF that] by (auto simp: version_row_def)
    ultimately show ?thesis
      using main [OF ids(1), of "\<lambda>v. the (version_row v)"] VersionFamily by (simp add: family_rows_def)
  next
    case PinFamily
    then show ?thesis using main [OF ids(2), of pin_row] r(1) by (simp add: family_rows_def family_all_def pin_row_def)
  next
    case EmailFamily
    have "distinct (map et_id (filter (\<lambda>e. et_ciphertext e \<noteq> None) (tb_emails t)))" using ids(3) by (rule distinct_map_filter)
    then show ?thesis
      using main [of et_id "filter (\<lambda>e. et_ciphertext e \<noteq> None) (tb_emails t)" email_sealed_row] r(1) EmailFamily
      by (simp add: family_rows_def family_all_def email_sealed_row_def)
  qed
  show "family_rows t f (Ascending after) n \<noteq> []" using both by blast
  show "sr_id r \<le> sr_id (last (family_rows t f (Ascending after) n)) \<Longrightarrow> r \<in> set (family_rows t f (Ascending after) n)"
    using both by blast
qed

lemma page_distinct: "distinct (map k rows) \<Longrightarrow> distinct (map k (page k (Ascending after) n rows))"
  by (simp add: page_def take_map [symmetric] distinct_take distinct_map_filter)

section \<open>The pass ends\<close>

lemma write_resealed_ids: "family_ids (snd (write_resealed f i old new t)) g = family_ids t g"
  by (cases f; cases g) (auto simp: write_resealed_def family_ids_def)

lemma reseal_row_rows:
  assumes "adds_no_row hook"
  shows "rows_after (rs_tables (reseal_row ring hook f row s)) g after \<le> rows_after (rs_tables s) g after"
proof -
  have "rows_after (snd (write_resealed f i old new t)) g after = rows_after t g after" for i old new t
    by (simp add: rows_after_def write_resealed_ids)
  then show ?thesis
    using assms by (auto simp: reseal_row_def adds_no_row_def Let_def split: option.split prod.split)
      (metis snd_conv)+
qed

lemma reseal_rows_rows:
  assumes "adds_no_row hook"
  shows "rows_after (rs_tables (fold (reseal_row ring hook f) rows s)) g after \<le> rows_after (rs_tables s) g after"
  using reseal_row_rows [OF assms] by (induction rows arbitrary: s) (simp, simp, meson order_trans)

lemma reseal_pages_ends:
  assumes "adds_no_row hook"
  shows "\<exists>s'. reseal_pages ring hook f after s = Some s'"
proof (induction "rows_after (rs_tables s) f after" arbitrary: after s rule: less_induct)
  case less
  let ?rows = "family_rows (rs_tables s) f (Ascending after) RESEAL_BATCH_SIZE"
  show ?case
  proof (cases "?rows = []")
    case False
    let ?s1 = "fold (reseal_row ring hook f) ?rows s"
    have "rows_after (rs_tables ?s1) f (sr_id (last ?rows)) < rows_after (rs_tables s) f after"
      using reseal_rows_rows [OF assms] page_advances [OF False] by (rule le_less_trans)
    from less [OF this] show ?thesis by (subst reseal_pages.simps) (simp add: False Let_def)
  qed (subst reseal_pages.simps, simp)
qed

lemma reseal_families_ends:
  assumes "adds_no_row hook"
  shows "\<exists>s'. reseal_families ring hook fs s = Some s'"
  using reseal_pages_ends [OF assms] by (induction fs arbitrary: s) (simp_all, metis bind.bind_lunit)

section \<open>What a pass leaves\<close>

lemma filter_unique:
  assumes "distinct (map k xs)" "x \<in> set xs" "P x"
  shows "filter (\<lambda>y. k y = k x \<and> P y) xs = [x]"
  using assms(1,2)
proof (induction xs)
  case (Cons y ys)
  show ?case
  proof (cases "y = x")
    case True
    then have "filter (\<lambda>y. k y = k x \<and> P y) ys = []" using Cons.prems(1) by (auto simp: filter_empty_conv image_iff)
    with True assms(3) show ?thesis by simp
  next
    case False
    then have "x \<in> set ys" using Cons.prems(2) by simp
    moreover from this have "k y \<noteq> k x" using Cons.prems(1) by (auto simp: image_iff)
    ultimately show ?thesis using Cons by simp
  qed
qed simp

lemma map_filter_Cons: "List.map_filter g (x # xs) = (case g x of None \<Rightarrow> [] | Some y \<Rightarrow> [y]) @ List.map_filter g xs"
  by (simp add: map_filter_def split: option.split)

lemma write_all:
  "family_all (snd (write_resealed f i old new t)) g
   = (if g = f then map (rewrite_row i old new) (family_all t f) else family_all t g)"
proof -
  have v: "List.map_filter version_row (map (\<lambda>v. if vt_id v = i \<and> vt_ciphertext v = old then v\<lparr>vt_ciphertext := new\<rparr> else v) vs)
      = map (rewrite_row i old new) (List.map_filter version_row vs)" for vs
    by (induction vs) (auto simp: map_filter_Cons version_row_def rewrite_row_def split: option.split)
  have e: "map email_sealed_row (filter (\<lambda>e. et_ciphertext e \<noteq> None)
        (map (\<lambda>e. if et_id e = i \<and> et_ciphertext e = Some old then e\<lparr>et_ciphertext := Some new\<rparr> else e) es))
      = map (rewrite_row i old new) (map email_sealed_row (filter (\<lambda>e. et_ciphertext e \<noteq> None) es))" for es
    by (induction es) (auto simp: email_sealed_row_def rewrite_row_def)
  have p: "map pin_row (map (\<lambda>p. if pt_id p = i \<and> pt_ciphertext p = old then p\<lparr>pt_ciphertext := new\<rparr> else p) ps)
      = map (rewrite_row i old new) (map pin_row ps)" for ps
    by (induction ps) (auto simp: pin_row_def rewrite_row_def)
  show ?thesis
    unfolding family_all_def write_resealed_def
    using v [of "tb_versions t"] e [of "tb_emails t"] p [of "tb_pins t"] by (cases f; cases g) simp_all
qed

lemma write_tables_ok: "sealed_tables_ok t \<Longrightarrow> sealed_tables_ok (snd (write_resealed f i old new t))"
  unfolding sealed_tables_ok_def write_resealed_ids
  by (cases f) (auto simp: write_resealed_def list_all_iff)

lemma family_all_distinct:
  assumes "sealed_tables_ok t"
  shows "distinct (map sr_id (family_all t f))"
proof (cases f)
  case VersionFamily
  have "map sr_id (family_all t f) = map vt_id (tb_versions t)"
    using sealed_tables_okD(3) [OF assms] VersionFamily
    by (fastforce simp: family_all_def version_rows_map version_row_def)
  then show ?thesis using sealed_tables_okD(1) [OF assms, of VersionFamily] by (simp add: family_ids_def)
next
  case PinFamily
  then show ?thesis
    using sealed_tables_okD(1) [OF assms, of PinFamily] by (simp add: family_all_def family_ids_def pin_row_def comp_def)
next
  case EmailFamily
  then show ?thesis
    using distinct_map_filter [OF sealed_tables_okD(1) [OF assms, of EmailFamily, unfolded family_ids_def sealed_family.simps]]
    by (simp add: family_all_def email_sealed_row_def comp_def)
qed

lemma family_all_unique:
  assumes "sealed_tables_ok t" "r \<in> set (family_all t f)" "r' \<in> set (family_all t f)" "sr_id r = sr_id r'"
  shows "r = r'"
  using family_all_distinct [OF assms(1), of f] assms(2-4) by (auto simp: distinct_map dest: inj_onD)

lemma written_once:
  assumes ok: "sealed_tables_ok t" and r: "r \<in> set (family_all t f)"
  shows "fst (write_resealed f (sr_id r) (sr_ciphertext r) new t)"
proof -
  note ids = sealed_tables_okD(1) [OF ok, of f]
  show ?thesis
  proof (cases f)
    case VersionFamily
    then obtain v where v: "v \<in> set (tb_versions t)" "vt_id v = sr_id r" "vt_ciphertext v = sr_ciphertext r"
      using r by (auto simp: family_all_def map_filter_def version_row_def)
    then show ?thesis
      using filter_unique [of vt_id "tb_versions t" v "\<lambda>y. vt_ciphertext y = sr_ciphertext r"] ids VersionFamily
      by (simp add: write_resealed_def family_ids_def)
  next
    case PinFamily
    then obtain p where p: "p \<in> set (tb_pins t)" "pt_id p = sr_id r" "pt_ciphertext p = sr_ciphertext r"
      using r by (auto simp: family_all_def pin_row_def)
    then show ?thesis
      using filter_unique [of pt_id "tb_pins t" p "\<lambda>y. pt_ciphertext y = sr_ciphertext r"] ids PinFamily
      by (simp add: write_resealed_def family_ids_def)
  next
    case EmailFamily
    then obtain e where e: "e \<in> set (tb_emails t)" "et_id e = sr_id r" "et_ciphertext e = Some (sr_ciphertext r)"
      using r by (auto simp: family_all_def email_sealed_row_def)
    then show ?thesis
      using filter_unique [of et_id "tb_emails t" e "\<lambda>y. et_ciphertext y = Some (sr_ciphertext r)"] ids EmailFamily
      by (simp add: write_resealed_def family_ids_def)
  qed
qed
section \<open>What is sealed stays readable\<close>

lemma row_sealed_open:
  assumes "ring_ok ring" "row_sealed ring key p r"
  shows "open_sealed (kr_cipher ring) key (sr_aad r) (sr_ciphertext r) = Some p"
    "open_sealed (kr_cipher ring) key' (sr_aad r) (sr_ciphertext r) = Some q \<Longrightarrow> key' = key"
  using assms open_seal open_seal_only(1) unfolding row_sealed_def ring_ok_def by metis+

lemma row_sealed_unique:
  assumes "ring_ok ring" "row_sealed ring key p r" "row_sealed ring key' p' r"
  shows "key' = key" "p' = p"
  using row_sealed_open [OF assms(1,2)] row_sealed_open(1) [OF assms(1,3)] by auto

lemma ring_open_sealed:
  assumes "ring_ok ring" "row_sealed ring key p r"
  shows "ring_open ring (sr_aad r) (sr_ciphertext r) = Some p"
proof -
  obtain nonce where n: "length nonce = XNONCE_LEN" "sr_ciphertext r = seal (kr_cipher ring) nonce key (sr_aad r) p"
    and key: "key \<in> set (key_material (kr_keys ring))"
    using assms(2) unfolding row_sealed_def by blast
  show ?thesis
    using keys_open_seal [of "kr_cipher ring" nonce "(kr_keys ring)\<lparr>ky_current := key\<rparr>" "kr_keys ring" "sr_aad r" p] assms(1) n key
    by (simp add: ring_open_def ring_ok_def keys_seal_def)
qed

lemma row_step_trans:
  assumes "ring_ok ring" "row_step ring a b" "row_step ring b c"
  shows "row_step ring a c"
  using assms(2,3) row_sealed_unique [OF assms(1)] unfolding row_step_def by metis

lemma tables_step_refl: "tables_step ring t t"
  by (simp add: tables_step_def row_step_def list.rel_refl)

lemma tables_step_trans:
  assumes "ring_ok ring" "tables_step ring a b" "tables_step ring b c"
  shows "tables_step ring a c"
  using assms(2,3) unfolding tables_step_def by (blast intro: list_all2_trans row_step_trans [OF assms(1)])

lemma tables_step_back:
  assumes "tables_step ring t t'" "r' \<in> set (family_all t' f)"
  obtains r where "r \<in> set (family_all t f)" "row_step ring r r'"
  using assms unfolding tables_step_def list_all2_conv_all_nth by (metis in_set_conv_nth)

lemma tables_step_sealed: "tables_step ring t t' \<Longrightarrow> rows_sealed ring t \<Longrightarrow> rows_sealed ring t'"
  unfolding rows_sealed_def
proof (intro allI ballI)
  fix f r' assume step: "tables_step ring t t'" and all: "\<forall>f. \<forall>r \<in> set (family_all t f). \<exists>key p. row_sealed ring key p r"
    and r': "r' \<in> set (family_all t' f)"
  obtain r where "r \<in> set (family_all t f)" "row_step ring r r'" using tables_step_back [OF step r'] .
  then show "\<exists>key p. row_sealed ring key p r'" using all unfolding row_step_def by metis
qed

lemma tables_step_fresh:
  assumes "ring_ok ring" "tables_step ring t t'" "fresh_rows ring t f which"
  shows "fresh_rows ring t' f which"
  unfolding fresh_rows_def
proof (intro ballI impI)
  fix r' assume r': "r' \<in> set (family_all t' f)" "which (sr_id r')"
  obtain r where "r \<in> set (family_all t f)" "row_step ring r r'" using tables_step_back [OF assms(2) r'(1)] .
  then show "\<exists>p. row_sealed ring (ky_current (kr_keys ring)) p r'"
    using assms(3) r'(2) unfolding row_step_def fresh_rows_def by metis
qed

lemma settled_step_trans:
  "ring_ok ring \<Longrightarrow> settled_step ring a b \<Longrightarrow> settled_step ring b c \<Longrightarrow> settled_step ring a c"
  unfolding settled_step_def using tables_step_trans by metis

lemma count_resealed_skipped [simp]: "rp_skipped_changed (count_resealed f p) = rp_skipped_changed p"
  by (cases f) simp_all

lemma reseal_row_settles:
  assumes ring: "ring_ok ring" "ky_previous (kr_keys ring) \<noteq> Some (ky_current (kr_keys ring))"
    and t: "sealed_tables_ok (rs_tables s)" "rows_sealed ring (rs_tables s)" and r: "r \<in> set (family_all (rs_tables s) f)"
  defines "s' \<equiv> reseal_row ring no_hook f r s"
  shows "settled_step ring s s' \<and> fresh_rows ring (rs_tables s') f (\<lambda>i. i = sr_id r)
    \<and> (\<forall>r2 \<in> set (family_all (rs_tables s) f). sr_id r2 \<noteq> sr_id r \<longrightarrow> r2 \<in> set (family_all (rs_tables s') f))"
proof -
  let ?t = "rs_tables s" and ?cur = "ky_current (kr_keys ring)"
  obtain key p where rs: "row_sealed ring key p r" using t(2) r unfolding rows_sealed_def by blast
  note opened = row_sealed_open [OF ring(1) rs]
  have uniq: "x = r" if "x \<in> set (family_all ?t f)" "sr_id x = sr_id r" for x
    using family_all_unique [OF t(1) that(1) r that(2)] .
  show ?thesis
  proof (cases "key = ?cur")
    case True
    then have "s' = s" using opened(1) by (simp add: s'_def reseal_row_def opens_under_current_def)
    then show ?thesis
      using t rs True by (auto simp: settled_step_def tables_step_refl fresh_rows_def dest: uniq)
  next
    case False
    then have prev: "ky_previous (kr_keys ring) = Some key"
      using rs by (auto simp: row_sealed_def key_material_def split: option.splits)
    let ?new = "keys_seal (kr_cipher ring) (kr_nonce ring (rs_nonces s)) (kr_keys ring) (sr_aad r) p"
    let ?t' = "snd (write_resealed f (sr_id r) (sr_ciphertext r) ?new ?t)"
    have closed: "\<not> opens_under_current (kr_cipher ring) (kr_keys ring) (sr_aad r) (sr_ciphertext r)"
      using opened(2) False unfolding opens_under_current_def by blast
    have prev_open: "open_under_previous (kr_cipher ring) (kr_keys ring) (sr_aad r) (sr_ciphertext r) = Some p"
      using opened(1) prev by (simp add: open_under_previous_def)
    have s': "s' = s\<lparr>rs_tables := ?t', rs_nonces := rs_nonces s + 1, rs_progress := count_resealed f (rs_progress s)\<rparr>"
      unfolding s'_def reseal_row_def no_hook_def using closed prev_open written_once [OF t(1) r]
      by (simp add: Let_def case_prod_beta)
    have now: "row_sealed ring ?cur p (r\<lparr>sr_ciphertext := ?new\<rparr>)"
      using ring(1) by (auto simp: row_sealed_def keys_seal_def ring_ok_def key_material_def)
    have rewritten: "rewrite_row (sr_id r) (sr_ciphertext r) ?new x = (if x = r then r\<lparr>sr_ciphertext := ?new\<rparr> else x)"
      if "x \<in> set (family_all ?t f)" for x
      using uniq [OF that] by (auto simp: rewrite_row_def)
    have all': "family_all ?t' g = (if g = f then map (\<lambda>x. if x = r then r\<lparr>sr_ciphertext := ?new\<rparr> else x) (family_all ?t f)
        else family_all ?t g)" for g
      unfolding write_all using rewritten by simp
    have "row_step ring x (if x = r then r\<lparr>sr_ciphertext := ?new\<rparr> else x)" for x
      using rs now by (auto simp: row_step_def)
    then have "tables_step ring ?t ?t'"
      by (auto simp: tables_step_def all' list_all2_map2 row_step_def list.rel_refl intro!: list.rel_refl_strong)
    then show ?thesis
      using write_tables_ok [OF t(1)] now by (auto simp: s' settled_step_def fresh_rows_def all' dest: uniq)
  qed
qed
lemma no_hook_adds_no_row: "adds_no_row no_hook"
  by (simp add: adds_no_row_def no_hook_def)

lemma reseal_rows_settle:
  assumes ring: "ring_ok ring" "ky_previous (kr_keys ring) \<noteq> Some (ky_current (kr_keys ring))"
    and t: "sealed_tables_ok (rs_tables s)" "rows_sealed ring (rs_tables s)"
    and rows: "set rows \<subseteq> set (family_all (rs_tables s) f)" "distinct (map sr_id rows)"
  shows "settled_step ring s (fold (reseal_row ring no_hook f) rows s)
    \<and> fresh_rows ring (rs_tables (fold (reseal_row ring no_hook f) rows s)) f (\<lambda>i. i \<in> sr_id ` set rows)"
  using t rows
proof (induction rows arbitrary: s)
  case Nil
  then show ?case by (simp add: settled_step_def tables_step_refl fresh_rows_def)
next
  case (Cons r rows)
  let ?s1 = "reseal_row ring no_hook f r s"
  have r: "r \<in> set (family_all (rs_tables s) f)" using Cons.prems(3) by simp
  note one = reseal_row_settles [OF ring Cons.prems(1,2) r]
  have t1: "sealed_tables_ok (rs_tables ?s1)" "rows_sealed ring (rs_tables ?s1)"
    using one tables_step_sealed Cons.prems(2) unfolding settled_step_def by blast+
  have "sr_id r2 \<noteq> sr_id r" if "r2 \<in> set rows" for r2 using Cons.prems(4) that by (auto simp: image_iff)
  then have sub: "set rows \<subseteq> set (family_all (rs_tables ?s1) f)" using one Cons.prems(3) by auto
  note rest = Cons.IH [OF t1 sub]
  have step: "settled_step ring s (fold (reseal_row ring no_hook f) rows ?s1)"
    using settled_step_trans [OF ring(1)] one rest Cons.prems(4) by simp blast
  have "tables_step ring (rs_tables ?s1) (rs_tables (fold (reseal_row ring no_hook f) rows ?s1))"
    using rest Cons.prems(4) by (simp add: settled_step_def)
  from tables_step_fresh [OF ring(1) this] one
  have "fresh_rows ring (rs_tables (fold (reseal_row ring no_hook f) rows ?s1)) f (\<lambda>i. i = sr_id r)" by blast
  then show ?case using step rest Cons.prems(4) by (auto simp: fresh_rows_def)
qed

lemma family_rows_distinct:
  assumes ok: "sealed_tables_ok t"
  shows "distinct (map sr_id (family_rows t f (Ascending after) n))"
proof -
  have ids: "distinct (map vt_id (tb_versions t))" "distinct (map pt_id (tb_pins t))" "distinct (map et_id (tb_emails t))"
    using sealed_tables_okD(1) [OF ok, of VersionFamily] sealed_tables_okD(1) [OF ok, of PinFamily]
      sealed_tables_okD(1) [OF ok, of EmailFamily] by (simp_all add: family_ids_def)
  have "distinct (map sr_id (List.map_filter version_row vs))" if "distinct (map vt_id vs)" for vs
    using that by (induction vs) (auto simp: map_filter_Cons map_filter_def version_row_def split: option.split)
  then show ?thesis
    using page_distinct [OF ids(1)] page_distinct [OF ids(2)] page_distinct [OF distinct_map_filter [OF ids(3)]]
    by (cases f) (auto simp: family_rows_def pin_row_def email_sealed_row_def comp_def)
qed

lemma reseal_pages_settle:
  assumes ring: "ring_ok ring" "ky_previous (kr_keys ring) \<noteq> Some (ky_current (kr_keys ring))"
    and t: "sealed_tables_ok (rs_tables s)" "rows_sealed ring (rs_tables s)" "fresh_rows ring (rs_tables s) f (\<lambda>i. i \<le> after)"
  shows "\<exists>s'. reseal_pages ring no_hook f after s = Some s' \<and> settled_step ring s s' \<and> fresh_rows ring (rs_tables s') f (\<lambda>_. True)"
  using t
proof (induction "rows_after (rs_tables s) f after" arbitrary: after s rule: less_induct)
  case less
  let ?rows = "family_rows (rs_tables s) f (Ascending after) RESEAL_BATCH_SIZE"
  let ?s1 = "fold (reseal_row ring no_hook f) ?rows s"
  have size: "0 < RESEAL_BATCH_SIZE" by (simp add: RESEAL_BATCH_SIZE_def)
  note complete = family_page_complete [OF less.prems(1) _ _ size]
  show ?case
  proof (cases "?rows = []")
    case True
    then have "fresh_rows ring (rs_tables s) f (\<lambda>_. True)"
      using less.prems(3) complete(1) unfolding fresh_rows_def by (meson not_le)
    then show ?thesis
      using less.prems(1) by (subst reseal_pages.simps) (simp add: True settled_step_def tables_step_refl)
  next
    case False
    note page = reseal_rows_settle [OF ring less.prems(1,2) family_rows_subset family_rows_distinct [OF less.prems(1)],
        of f after RESEAL_BATCH_SIZE]
    then have t1: "sealed_tables_ok (rs_tables ?s1)" "rows_sealed ring (rs_tables ?s1)"
      and step1: "tables_step ring (rs_tables s) (rs_tables ?s1)"
      using tables_step_sealed less.prems(2) unfolding settled_step_def by blast+
    have "i \<in> sr_id ` set ?rows" if "i \<le> sr_id (last ?rows)" "\<not> i \<le> after" "i \<in> sr_id ` set (family_all (rs_tables ?s1) f)" for i
    proof -
      obtain r' where r': "r' \<in> set (family_all (rs_tables ?s1) f)" "i = sr_id r'" using \<open>i \<in> sr_id ` _\<close> by blast
      obtain r where "r \<in> set (family_all (rs_tables s) f)" "row_step ring r r'" using tables_step_back [OF step1 r'(1)] .
      then show ?thesis using complete(2) [of r] that(1,2) r'(2) by (force simp: row_step_def)
    qed
    then have fresh: "fresh_rows ring (rs_tables ?s1) f (\<lambda>i. i \<le> sr_id (last ?rows))"
      using page tables_step_fresh [OF ring(1) step1 less.prems(3)] unfolding fresh_rows_def by blast
    have "rows_after (rs_tables ?s1) f (sr_id (last ?rows)) < rows_after (rs_tables s) f after"
      using reseal_rows_rows [OF no_hook_adds_no_row] page_advances [OF False] by (rule le_less_trans)
    from less.hyps [OF this t1 fresh] page settled_step_trans [OF ring(1)] show ?thesis
      by (subst reseal_pages.simps) (simp add: False Let_def, blast)
  qed
qed

lemma reseal_families_settle:
  assumes ring: "ring_ok ring" "ky_previous (kr_keys ring) \<noteq> Some (ky_current (kr_keys ring))"
    and t: "sealed_tables_ok (rs_tables s)" "rows_sealed ring (rs_tables s)"
  shows "\<exists>s'. reseal_families ring no_hook fs s = Some s' \<and> settled_step ring s s'
    \<and> (\<forall>f \<in> set fs. fresh_rows ring (rs_tables s') f (\<lambda>_. True))"
  using t
proof (induction fs arbitrary: s)
  case Nil
  then show ?case by (simp add: settled_step_def tables_step_refl)
next
  case (Cons f fs)
  have "fresh_rows ring (rs_tables s) f (\<lambda>i. i \<le> 0)"
    using family_all_ids sealed_tables_okD(2) [OF Cons.prems(1)] unfolding fresh_rows_def by (meson not_le)
  from reseal_pages_settle [OF ring Cons.prems this] obtain s1 where
    s1: "reseal_pages ring no_hook f 0 s = Some s1" "settled_step ring s s1" "fresh_rows ring (rs_tables s1) f (\<lambda>_. True)" by blast
  have t1: "sealed_tables_ok (rs_tables s1)" "rows_sealed ring (rs_tables s1)"
    using s1(2) tables_step_sealed Cons.prems(2) unfolding settled_step_def by blast+
  from Cons.IH [OF t1] obtain s' where
    s': "reseal_families ring no_hook fs s1 = Some s'" "settled_step ring s1 s'" "\<forall>f \<in> set fs. fresh_rows ring (rs_tables s') f (\<lambda>_. True)"
    by blast
  have "fresh_rows ring (rs_tables s') f (\<lambda>_. True)"
    using tables_step_fresh [OF ring(1)] s'(2) s1(3) unfolding settled_step_def by blast
  then show ?case using s1 s' settled_step_trans [OF ring(1) s1(2) s'(2)] by simp
qed

lemma count_none:
  assumes "\<And>r. r \<in> set (family_all t f) \<Longrightarrow> open_under_previous (kr_cipher ring) (kr_keys ring) (sr_aad r) (sr_ciphertext r) = None"
  shows "count_pages ring t f after n = n"
  using assms
proof (induction ring t f after n rule: count_pages.induct)
  case (1 ring t f after n)
  let ?rows = "family_rows t f (Ascending after) RESEAL_BATCH_SIZE"
  have "filter (\<lambda>r. open_under_previous (kr_cipher ring) (kr_keys ring) (sr_aad r) (sr_ciphertext r) \<noteq> None) ?rows = []"
    using family_rows_subset 1(2) by (fastforce simp: filter_empty_conv)
  then show ?case using 1 by (subst count_pages.simps) (simp add: Let_def)
qed
section \<open>Retiring the previous key\<close>

lemma fresh_kept:
  assumes "ring_ok ring" "row_step ring r r'" "row_sealed ring (ky_current (kr_keys ring)) p r'"
  shows "kept_row ring r r'"
proof -
  obtain q key where q: "row_sealed ring key q r" "row_sealed ring (ky_current (kr_keys ring)) q r'"
    using assms(2,3) unfolding row_step_def by metis
  show ?thesis
    using assms(2) ring_open_sealed [OF assms(1) q(1)] row_sealed_open(1) [OF assms(1) q(2)]
    by (simp add: kept_row_def row_step_def keys_open_def)
qed

lemma fresh_tables_kept:
  assumes "ring_ok ring" "tables_step ring t t'" "fresh_rows ring t' f (\<lambda>_. True)"
  shows "list_all2 (kept_row ring) (family_all t f) (family_all t' f)"
  using assms(2,3) fresh_kept [OF assms(1)] unfolding tables_step_def fresh_rows_def list_all2_conv_all_nth by (metis nth_mem)

lemma fresh_not_previous:
  assumes "ring_ok ring" "ky_previous (kr_keys ring) \<noteq> Some (ky_current (kr_keys ring))"
    "row_sealed ring (ky_current (kr_keys ring)) p r"
  shows "open_under_previous (kr_cipher ring) (kr_keys ring) (sr_aad r) (sr_ciphertext r) = None"
  using row_sealed_open(2) [OF assms(1,3)] assms(2) by (auto simp: open_under_previous_def split: option.split) (metis not_None_eq)

lemma no_previous_fresh:
  assumes "\<not> has_previous (kr_keys ring)" "rows_sealed ring t"
  shows "fresh_rows ring t f which"
  using assms unfolding fresh_rows_def rows_sealed_def has_previous_def row_sealed_def
  by (auto simp: key_material_def)

text \<open>C29: The pass ends, whatever writers do between its reads and its writes, as long as they add no row.\<close>

theorem reseal_pass_terminates:
  assumes "adds_no_row hook"
  shows "\<exists>result t'. reseal_previous_key_batch_with_hook ring hook nonces t = Some (result, t')"
  using reseal_families_ends [OF assms] by (force simp: reseal_previous_key_batch_with_hook_def)
theorem reseal_pass_terminates_witness:
  "adds_no_row (\<lambda>f i t. t\<lparr>tb_emails := []\<rparr>)
   \<and> (\<exists>result t'. reseal_previous_key_batch_with_hook sample_rotation_ring (\<lambda>f i t. t\<lparr>tb_emails := []\<rparr>) 0 sample_sealed_tables
        = Some (result, t'))"
proof -
  have "rows_after (t\<lparr>tb_emails := []\<rparr>) g after \<le> rows_after t g after" for t g after
    by (cases g) (simp_all add: rows_after_def family_ids_def)
  then have "adds_no_row (\<lambda>f i t. t\<lparr>tb_emails := []\<rparr>)" by (simp add: adds_no_row_def)
  with reseal_pass_terminates show ?thesis by blast
qed

text \<open>C24: A pass that runs alone over rows the service sealed rotates them all: it returns, no row is skipped and none is left
  under the previous key, and every row of every family opens under the current key alone to what it opened to before.\<close>

theorem rotation_completes:
  assumes ring: "ring_ok ring" "ky_previous (kr_keys ring) \<noteq> Some (ky_current (kr_keys ring))"
    and t: "sealed_tables_ok t" "rows_sealed ring t"
  shows "\<exists>progress t'. reseal_previous_key_batch ring nonces t = Some (Inr progress, t')
    \<and> rp_remaining_under_previous progress = 0 \<and> rp_skipped_changed progress = 0
    \<and> (\<forall>f. list_all2 (kept_row ring) (family_all t f) (family_all t' f))"
proof (cases "has_previous (kr_keys ring)")
  case False
  then show ?thesis
    using fresh_tables_kept [OF ring(1) tables_step_refl no_previous_fresh [OF False t(2)]]
    by (simp add: reseal_previous_key_batch_def reseal_previous_key_batch_with_hook_def no_progress_def)
next
  case True
  let ?s = "\<lparr>rs_tables = t, rs_progress = no_progress, rs_unopenable = 0, rs_nonces = nonces\<rparr>"
  obtain s' where s': "reseal_families ring no_hook ALL_FAMILIES ?s = Some s'" "settled_step ring ?s s'"
      "\<And>f. fresh_rows ring (rs_tables s') f (\<lambda>_. True)"
    using reseal_families_settle [OF ring, of ?s ALL_FAMILIES] t by auto
  have "count_pages ring (rs_tables s') f 0 n = n" for f n
    using s'(3) fresh_not_previous [OF ring] unfolding fresh_rows_def by (intro count_none) blast
  then have "count_rows_under_previous ring (rs_tables s') = 0" by (simp add: count_rows_under_previous_def ALL_FAMILIES_def)
  moreover have "tables_step ring t (rs_tables s')" "rs_unopenable s' = 0" "rp_skipped_changed (rs_progress s') = 0"
    using s'(2) by (simp_all add: settled_step_def no_progress_def)
  ultimately show ?thesis
    using s' True fresh_tables_kept [OF ring(1)]
    by (simp add: reseal_previous_key_batch_def reseal_previous_key_batch_with_hook_def)
qed

lemma sample_rotation_ok:
  "ring_ok sample_rotation_ring" "sealed_tables_ok sample_sealed_tables" "rows_sealed sample_rotation_ring sample_sealed_tables"
proof -
  show "ring_ok sample_rotation_ring" using sample_ring_ok by (simp add: ring_ok_def sample_rotation_ring_def)
  show "sealed_tables_ok sample_sealed_tables" by code_simp
  have k: "delivery_kind_parse ''text'' = Some KText" by code_simp
  have n: "length sample_nonce = XNONCE_LEN" by (simp add: sample_nonce_def XNONCE_LEN_def)
  show "rows_sealed sample_rotation_ring sample_sealed_tables"
    unfolding rows_sealed_def
  proof (intro allI)
    fix f
    show "\<forall>r \<in> set (family_all sample_sealed_tables f). \<exists>key p. row_sealed sample_rotation_ring key p r"
      using n k by (cases f)
        (auto simp: row_sealed_def family_all_def sample_sealed_tables_def map_filter_def version_row_def pin_row_def key_material_def
          sample_rotation_ring_def sample_ring_def)
  qed
qed

theorem rotation_completes_witness:
  "\<exists>progress t'. reseal_previous_key_batch sample_rotation_ring 0 sample_sealed_tables = Some (Inr progress, t')
    \<and> rp_remaining_under_previous progress = 0 \<and> rp_skipped_changed progress = 0
    \<and> (\<forall>f. list_all2 (kept_row sample_rotation_ring) (family_all sample_sealed_tables f) (family_all t' f))"
  by (rule rotation_completes [OF sample_rotation_ok(1) _ sample_rotation_ok(2,3)]) code_simp


end
