(* ===== verification/Refusal_Writer.thy ===== *)
theory Refusal_Writer
  imports Refusal_Audit
begin

text \<open>
  The writer of the refusal audit, \<^verbatim>\<open>refusal_audit.rs\<close>: the delivery of one envelope into its hourly bucket with the
  admission bound, the attempts and their accounting, the loss gap and the alert conditions.  What can go wrong with the
  connection is an argument, one \<open>attempt_fault\<close> for each attempt; what other replicas commit before the advisory lock is
  granted is the argument \<open>others\<close>.  The probes of database roles, the pauses between attempts and the trigger that keeps the
  inventory of epochs are not modelled.
\<close>

section \<open>Tables\<close>

definition MAX_ADMITTED_ROWS_PER_HOUR :: int where "MAX_ADMITTED_ROWS_PER_HOUR = 10000"
definition DELIVERY_ATTEMPTS :: nat where "DELIVERY_ATTEMPTS = 3"
definition RETENTION_DAYS :: nat where "RETENTION_DAYS = 30"
definition BIGINT_MAX :: int where "BIGINT_MAX = 9223372036854775807"

text \<open>The key columns of \<open>command_refusal_audit_buckets\<close>.\<close>

record bucket_key =
  bk_bucket_start :: datetime
  bk_surface_kind :: surface_kind
  bk_command_kind :: audit_command_kind
  bk_refusal_kind :: refusal_kind
  bk_actor_key_epoch :: nat
  bk_actor_tag :: string

record bucket_row =
  bu_key :: bucket_key
  bu_occurrence_count :: int
  bu_count_saturated :: bool
  bu_first_occurred_at :: datetime
  bu_last_occurred_at :: datetime
  bu_sample_command_tag :: "string option"
  bu_command_id_present :: bool

record limit_row =
  li_bucket_start :: datetime
  li_admitted_rows :: int
  li_overflow_count :: int
  li_overflow_saturated :: bool

record audit_db =
  ad_buckets :: "bucket_row list"
  ad_limits :: "limit_row list"
  ad_loss_gap :: "int option"

section \<open>Delivery\<close>

definition hour_of :: "datetime \<Rightarrow> datetime" where
  "hour_of t = t - t mod seconds 3600"

definition envelope_key :: "refusal_envelope \<Rightarrow> bucket_key" where
  "envelope_key e =
     \<lparr>bk_bucket_start = hour_of (rf_occurred_at e), bk_surface_kind = rf_surface e, bk_command_kind = rf_command_kind e,
      bk_refusal_kind = rf_refusal_kind e, bk_actor_key_epoch = rf_actor_epoch e, bk_actor_tag = rf_actor_tag e\<rparr>"

definition saturating_count :: "int \<Rightarrow> int" where
  "saturating_count n = (if n = BIGINT_MAX then n else n + 1)"

definition bump_row :: "refusal_envelope \<Rightarrow> bucket_row \<Rightarrow> bucket_row" where
  "bump_row e r =
     r\<lparr>bu_occurrence_count := saturating_count (bu_occurrence_count r),
       bu_count_saturated := bu_count_saturated r \<or> bu_occurrence_count r = BIGINT_MAX,
       bu_last_occurred_at := max (bu_last_occurred_at r) (rf_occurred_at e)\<rparr>"

text \<open>The \<open>UPDATE\<close>: how many rows it changed, and the table.\<close>

definition bump_bucket :: "refusal_envelope \<Rightarrow> audit_db \<Rightarrow> nat \<times> audit_db" where
  "bump_bucket e d =
     (length (filter (\<lambda>r. bu_key r = envelope_key e) (ad_buckets d)),
      d\<lparr>ad_buckets := map (\<lambda>r. if bu_key r = envelope_key e then bump_row e r else r) (ad_buckets d)\<rparr>)"

definition new_bucket :: "refusal_envelope \<Rightarrow> bucket_row" where
  "new_bucket e =
     \<lparr>bu_key = envelope_key e, bu_occurrence_count = 1, bu_count_saturated = False, bu_first_occurred_at = rf_occurred_at e,
      bu_last_occurred_at = rf_occurred_at e, bu_sample_command_tag = rf_sample_command_tag e,
      bu_command_id_present = rf_command_id_present e\<rparr>"

text \<open>\<open>ON CONFLICT (bucket_start) DO NOTHING\<close>.\<close>

definition ensure_limit :: "datetime \<Rightarrow> audit_db \<Rightarrow> audit_db" where
  "ensure_limit bucket d =
     (if list_ex (\<lambda>l. li_bucket_start l = bucket) (ad_limits d) then d
      else d\<lparr>ad_limits := ad_limits d @ [\<lparr>li_bucket_start = bucket, li_admitted_rows = 0, li_overflow_count = 0,
                                         li_overflow_saturated = False\<rparr>]\<rparr>)"

definition update_limit :: "datetime \<Rightarrow> (limit_row \<Rightarrow> limit_row) \<Rightarrow> audit_db \<Rightarrow> audit_db" where
  "update_limit bucket f d = d\<lparr>ad_limits := map (\<lambda>l. if li_bucket_start l = bucket then f l else l) (ad_limits d)\<rparr>"

definition count_overflow :: "limit_row \<Rightarrow> limit_row" where
  "count_overflow l =
     l\<lparr>li_overflow_count := saturating_count (li_overflow_count l),
       li_overflow_saturated := li_overflow_saturated l \<or> li_overflow_count l = BIGINT_MAX\<rparr>"

definition admit_bucket :: "refusal_envelope \<Rightarrow> audit_db \<Rightarrow> audit_db" where
  "admit_bucket e d0 =
     (let bucket = hour_of (rf_occurred_at e);
          d = ensure_limit bucket d0
      in case find (\<lambda>l. li_bucket_start l = bucket) (ad_limits d) of
           None \<Rightarrow> d
         | Some limit \<Rightarrow>
             if li_admitted_rows limit < MAX_ADMITTED_ROWS_PER_HOUR
             then update_limit bucket (\<lambda>l. l\<lparr>li_admitted_rows := li_admitted_rows l + 1\<rparr>)
                    (d\<lparr>ad_buckets := ad_buckets d @ [new_bucket e]\<rparr>)
             else update_limit bucket count_overflow d)"

definition prepare_delivery :: "(audit_db \<Rightarrow> audit_db) \<Rightarrow> refusal_envelope \<Rightarrow> audit_db \<Rightarrow> audit_db" where
  "prepare_delivery others e d =
     (let (updated, d1) = bump_bucket e d
      in if updated \<noteq> 0 then d1
         else let (second_update, d2) = bump_bucket e (others d1)
              in if second_update \<noteq> 0 then d2 else admit_bucket e d2)"

section \<open>Erasure\<close>

definition erase_actor :: "audit_keys \<Rightarrow> string \<Rightarrow> audit_db \<Rightarrow> (nat \<times> audit_db) option" where
  "erase_actor keys actor d =
     map_option (\<lambda>candidates.
       let kept = filter (\<lambda>r. (bk_actor_key_epoch (bu_key r), bk_actor_tag (bu_key r)) \<notin> set candidates) (ad_buckets d)
       in (length (ad_buckets d) - length kept, d\<lparr>ad_buckets := kept\<rparr>)) (erasure_candidates keys actor)"

section \<open>Attempts\<close>

datatype attempt_failure = FAcquire | FAuthority | FPreCommit | FPreCommitTimeout | FAmbiguousCommit

text \<open>What happens to one attempt from outside.  A commit that reports a failure may have been applied or not.\<close>

datatype attempt_fault =
    NoFault | PoolFault | RoleProbeFault | EpochProbeFault | BeginFault | StatementFault | DeadlineFault | CommitFault bool

text \<open>The query of both \<open>assert_database_epochs_supported\<close> and \<open>assert_connection_epochs_supported\<close>.\<close>

definition database_epochs_supported :: "audit_keys \<Rightarrow> audit_db \<Rightarrow> bool" where
  "database_epochs_supported keys d \<longleftrightarrow>
     filter (\<lambda>r. bk_actor_key_epoch (bu_key r) \<noteq> ek_epoch (ak_active keys)
               \<and> (case ak_previous keys of None \<Rightarrow> True | Some e \<Rightarrow> bk_actor_key_epoch (bu_key r) \<noteq> ek_epoch e))
       (ad_buckets d) = []"

definition deliver_attempt ::
  "audit_keys \<Rightarrow> (audit_db \<Rightarrow> audit_db) \<Rightarrow> attempt_fault \<Rightarrow> refusal_envelope \<Rightarrow> audit_db \<Rightarrow> (attempt_failure + unit) \<times> audit_db" where
  "deliver_attempt keys others fault e d =
     (if fault = PoolFault then (Inl FAcquire, d)
      else if fault = RoleProbeFault \<or> fault = EpochProbeFault \<or> \<not> database_epochs_supported keys d then (Inl FAuthority, d)
      else case fault of
        BeginFault \<Rightarrow> (Inl FPreCommit, d)
      | StatementFault \<Rightarrow> (Inl FPreCommit, d)
      | DeadlineFault \<Rightarrow> (Inl FPreCommitTimeout, d)
      | CommitFault applied \<Rightarrow> (Inl FAmbiguousCommit, if applied then prepare_delivery others e d else d)
      | _ \<Rightarrow> (Inr (), prepare_delivery others e d))"

text \<open>\<open>flush_loss_gap\<close>: \<open>reached\<close> is that a connection is acquired, the probe passes and the statement is executed in time.\<close>

definition flush_loss_gap :: "bool \<Rightarrow> refusal_metrics \<Rightarrow> audit_db \<Rightarrow> refusal_metrics \<times> audit_db" where
  "flush_loss_gap reached m d =
     (let pending = rm_pending_loss_gap m;
          bound = (if int pending \<le> BIGINT_MAX then int pending else BIGINT_MAX)
      in if pending = 0 \<or> \<not> reached then (m, d)
         else (m\<lparr>rm_pending_loss_gap := 0\<rparr>,
               d\<lparr>ad_loss_gap := Some (case ad_loss_gap d of
                   None \<Rightarrow> bound
                 | Some stored \<Rightarrow> if BIGINT_MAX - bound < stored then BIGINT_MAX else stored + bound)\<rparr>))"

text \<open>The loop over the attempts, each with what happens to it.\<close>

fun delivery_attempts ::
  "audit_keys \<Rightarrow> (audit_db \<Rightarrow> audit_db) \<Rightarrow> bool \<Rightarrow> attempt_fault list \<Rightarrow> refusal_envelope \<Rightarrow> refusal_metrics \<Rightarrow> audit_db
     \<Rightarrow> refusal_metrics \<times> audit_db" where
  "delivery_attempts keys others reached [] e m d = (record_loss RetriesExhausted m, d)"
| "delivery_attempts keys others reached (fault # faults) e m d =
     (case deliver_attempt keys others fault e d of
        (Inr _, d1) \<Rightarrow>
          flush_loss_gap reached (m\<lparr>rm_delivered := rm_delivered m + 1, rm_writer_authority_verified := True\<rparr>) d1
      | (Inl FAmbiguousCommit, d1) \<Rightarrow> (record_loss AmbiguousCommit m, d1)
      | (Inl FAuthority, d1) \<Rightarrow>
          (let m1 = m\<lparr>rm_writer_authority_verified := False,
                      rm_retries_authority_verification := rm_retries_authority_verification m + 1\<rparr>
           in if faults = [] then (record_loss WriterUnverified m1, d1)
              else delivery_attempts keys others reached faults e m1 d1)
      | (Inl FAcquire, d1) \<Rightarrow>
          delivery_attempts keys others reached faults e (m\<lparr>rm_retries_acquire_timeout := rm_retries_acquire_timeout m + 1\<rparr>) d1
      | (Inl FPreCommitTimeout, d1) \<Rightarrow>
          delivery_attempts keys others reached faults e (m\<lparr>rm_retries_statement_timeout := rm_retries_statement_timeout m + 1\<rparr>) d1
      | (Inl FPreCommit, d1) \<Rightarrow>
          delivery_attempts keys others reached faults e (m\<lparr>rm_retries_db_error := rm_retries_db_error m + 1\<rparr>) d1)"

definition deliver_with_retries ::
  "audit_keys \<Rightarrow> (audit_db \<Rightarrow> audit_db) \<Rightarrow> bool \<Rightarrow> (nat \<Rightarrow> attempt_fault) \<Rightarrow> refusal_envelope \<Rightarrow> refusal_metrics \<Rightarrow> audit_db
     \<Rightarrow> refusal_metrics \<times> audit_db" where
  "deliver_with_retries keys others reached fault = delivery_attempts keys others reached (map fault [0..<DELIVERY_ATTEMPTS])"

section \<open>The loop of the writer\<close>

record writer_state =
  ws_audit :: audit_state
  ws_db :: audit_db

text \<open>One envelope taken from the queue.\<close>

definition writer_receive ::
  "audit_keys \<Rightarrow> (audit_db \<Rightarrow> audit_db) \<Rightarrow> bool \<Rightarrow> (nat \<Rightarrow> attempt_fault) \<Rightarrow> writer_state \<Rightarrow> writer_state" where
  "writer_receive keys others reached fault w =
     (case aq_queue (ws_audit w) of
        [] \<Rightarrow> w
      | e # rest \<Rightarrow>
          let m = aq_metrics (ws_audit w);
              m1 = m\<lparr>rm_queue_depth := rm_queue_depth m - 1,
                     rm_oldest_queued_at := if rm_queue_depth m = 1 then 0 else rm_oldest_queued_at m\<rparr>;
              (m2, d) = deliver_with_retries keys others reached fault e m1 (ws_db w)
          in w\<lparr>ws_audit := (ws_audit w)\<lparr>aq_queue := rest, aq_metrics := m2\<rparr>, ws_db := d\<rparr>)"

text \<open>\<open>refresh_storage_metrics\<close> at the clock of the database; the cast of the seconds of an interval rounds.\<close>

definition whole_seconds :: "int \<Rightarrow> nat" where
  "whole_seconds t = nat ((2 * max 0 t + seconds 1) div (2 * seconds 1))"

definition refresh_storage_metrics :: "datetime \<Rightarrow> audit_db \<Rightarrow> refusal_metrics \<Rightarrow> refusal_metrics" where
  "refresh_storage_metrics clock d m =
     (let starts = map (\<lambda>r. bk_bucket_start (bu_key r)) (ad_buckets d);
          cutoff = hour_of clock - seconds (30 * 86400);
          overdue = filter (\<lambda>b. b < cutoff) starts
      in m\<lparr>rm_hourly_overflow :=
             nat (max 0 (sum_list (map li_overflow_count (filter (\<lambda>l. li_bucket_start l = hour_of clock) (ad_limits d))))),
           rm_oldest_retained_seconds := (if starts = [] then 0 else whole_seconds (clock - Min (set starts))),
           rm_purge_backlog_seconds :=
             (if overdue = [] then 0 else whole_seconds (clock - seconds (30 * 86400) - Min (set overdue)))\<rparr>)"

text \<open>The tick of the probe: \<open>probed\<close> is the outcome of the connection and its role probe.\<close>

definition writer_probe :: "audit_keys \<Rightarrow> datetime \<Rightarrow> bool \<Rightarrow> writer_state \<Rightarrow> writer_state" where
  "writer_probe keys clock probed w =
     (let m = aq_metrics (ws_audit w);
          verified = (probed \<and> database_epochs_supported keys (ws_db w));
          m1 = (if verified then refresh_storage_metrics clock (ws_db w) m else m);
          m2 = m1\<lparr>rm_writer_authority_verified := verified,
                  rm_consecutive_unhealthy_intervals :=
                    if verified then 0 else rm_consecutive_unhealthy_intervals m1 + 1\<rparr>
      in w\<lparr>ws_audit := (ws_audit w)\<lparr>aq_metrics := m2\<rparr>\<rparr>)"

section \<open>Alerts\<close>

datatype refusal_audit_alert = LossAlert | HourlyOverflowAlert | WriterUnhealthyAlert | PurgeBacklogAlert | OldestDataAlert

definition alert_conditions :: "refusal_metrics \<Rightarrow> nat \<Rightarrow> nat \<Rightarrow> nat \<Rightarrow> nat \<Rightarrow> refusal_audit_alert list" where
  "alert_conditions m hourly_overflow consecutive_unhealthy_intervals purge_backlog_age_seconds oldest_data_age_seconds =
     (if 0 < rm_pending_loss_gap m then [LossAlert] else [])
     @ (if 0 < hourly_overflow then [HourlyOverflowAlert] else [])
     @ (if 2 \<le> consecutive_unhealthy_intervals then [WriterUnhealthyAlert] else [])
     @ (if 86400 < purge_backlog_age_seconds then [PurgeBacklogAlert] else [])
     @ (if (RETENTION_DAYS + 1) * 86400 < oldest_data_age_seconds then [OldestDataAlert] else [])"

text \<open>The last argument of the interval count is narrowed to eight bits.\<close>

definition emitted_alerts :: "refusal_metrics \<Rightarrow> refusal_audit_alert list" where
  "emitted_alerts m =
     alert_conditions m (rm_hourly_overflow m)
       (if rm_consecutive_unhealthy_intervals m < 256 then rm_consecutive_unhealthy_intervals m else 255)
       (rm_purge_backlog_seconds m) (rm_oldest_retained_seconds m)"

end
