(* ===== verification/Refusal_Facts.thy ===== *)
theory Refusal_Facts
  imports Refusal_Writer
begin

text \<open>
  Facts about the refusal audit: how many rows an hour may hold, that no refusal disappears without a trace, and that the
  erasure of an actor removes what that actor's tags verify.
\<close>

section \<open>Vocabulary\<close>

text \<open>What the database accounts for: counted occurrences, overflow and the stored loss gap.\<close>

definition recorded :: "audit_db \<Rightarrow> int" where
  "recorded d =
     sum_list (map bu_occurrence_count (ad_buckets d)) + sum_list (map li_overflow_count (ad_limits d))
     + (case ad_loss_gap d of None \<Rightarrow> 0 | Some n \<Rightarrow> n)"

definition saturated :: "audit_db \<Rightarrow> bool" where
  "saturated d \<longleftrightarrow>
     list_ex bu_count_saturated (ad_buckets d) \<or> list_ex li_overflow_saturated (ad_limits d) \<or> ad_loss_gap d = Some BIGINT_MAX"

definition losses :: "refusal_metrics \<Rightarrow> nat" where
  "losses m =
     rm_dropped_queue_full m + rm_dropped_queue_closed m + rm_dropped_writer_unverified m + rm_dropped_after_retries m
     + rm_dropped_ambiguous_commit m + rm_writer_panics m"

definition rows_of_hour :: "audit_db \<Rightarrow> datetime \<Rightarrow> nat" where
  "rows_of_hour d hour = length (filter (\<lambda>r. bk_bucket_start (bu_key r) = hour) (ad_buckets d))"

text \<open>The keys of the two tables, the checks on \<open>admitted_rows\<close> and \<open>pending_loss_count\<close>, and that the rows of an hour were admitted.\<close>

definition audit_db_ok :: "audit_db \<Rightarrow> bool" where
  "audit_db_ok d \<longleftrightarrow>
     distinct (map bu_key (ad_buckets d)) \<and> distinct (map li_bucket_start (ad_limits d))
     \<and> list_all (\<lambda>l. 0 \<le> li_admitted_rows l \<and> li_admitted_rows l \<le> MAX_ADMITTED_ROWS_PER_HOUR) (ad_limits d)
     \<and> list_all (\<lambda>r. \<exists>l \<in> set (ad_limits d). li_bucket_start l = bk_bucket_start (bu_key r)
                      \<and> int (rows_of_hour d (li_bucket_start l)) \<le> li_admitted_rows l) (ad_buckets d)
     \<and> (case ad_loss_gap d of None \<Rightarrow> True | Some n \<Rightarrow> 0 \<le> n)"

text \<open>The other replicas run the same writer: what they commit keeps the tables in order and forgets nothing.\<close>

definition fair_peer :: "(audit_db \<Rightarrow> audit_db) \<Rightarrow> bool" where
  "fair_peer others \<longleftrightarrow>
     (\<forall>d. recorded d \<le> recorded (others d) \<and> (audit_db_ok d \<longrightarrow> audit_db_ok (others d)))"

text \<open>The steps of the audit, with the number of envelopes they were given: a producer, the writer, its probe, an erasure.\<close>

inductive audit_step :: "audit_keys \<Rightarrow> writer_state \<Rightarrow> nat \<Rightarrow> writer_state \<Rightarrow> bool" for keys where
  sent: "audit_step keys w 1 (w\<lparr>ws_audit := try_send runtime now e (ws_audit w)\<rparr>)"
| received: "fair_peer others \<Longrightarrow> audit_step keys w 0 (writer_receive keys others reached fault w)"
| probed: "audit_step keys w 0 (writer_probe keys clock reached w)"
| erased: "erase_actor keys actor (ws_db w) = Some (n, d) \<Longrightarrow> audit_step keys w 0 (w\<lparr>ws_db := d\<rparr>)"

inductive audit_run :: "audit_keys \<Rightarrow> writer_state \<Rightarrow> nat \<Rightarrow> writer_state \<Rightarrow> bool" for keys w0 where
  start: "audit_run keys w0 0 w0"
| more: "audit_run keys w0 n w \<Longrightarrow> audit_step keys w k w' \<Longrightarrow> audit_run keys w0 (n + k) w'"

definition audit_ok :: "writer_state \<Rightarrow> bool" where
  "audit_ok w \<longleftrightarrow>
     audit_db_ok (ws_db w) \<and> length (aq_queue (ws_audit w)) \<le> QUEUE_CAPACITY
     \<and> rm_queue_depth (aq_metrics (ws_audit w)) = length (aq_queue (ws_audit w))"

text \<open>The envelopes a state accounts for: delivered, lost or waiting.\<close>

definition envelopes :: "writer_state \<Rightarrow> nat" where
  "envelopes w =
     rm_delivered (aq_metrics (ws_audit w)) + losses (aq_metrics (ws_audit w)) + length (aq_queue (ws_audit w))"

section \<open>Samples\<close>

definition sample_audit_crypto :: audit_crypto where
  "sample_audit_crypto =
     \<lparr>ac_hkdf = (\<lambda>salt root info. take 1 root), ac_hmac = (\<lambda>key input. key @ input),
      ac_base64_decode = Some, ac_base64_encode = (\<lambda>x. x)\<rparr>"

definition sample_audit_keys :: audit_keys where
  "sample_audit_keys =
     \<lparr>ak_crypto = sample_audit_crypto, ak_active = \<lparr>ek_epoch = 2, ek_actor = ''a'', ek_sample = ''a''\<rparr>,
      ak_previous = Some \<lparr>ek_epoch = 1, ek_actor = ''b'', ek_sample = ''b''\<rparr>\<rparr>"

definition sample_audit_envelope :: refusal_envelope where
  "sample_audit_envelope =
     \<lparr>rf_occurred_at = 5, rf_surface = V1Command, rf_command_kind = KPlaceBid, rf_refusal_kind = RBidTooLow, rf_actor_epoch = 2,
      rf_actor_tag = replicate 16 CHR ''t'', rf_sample_command_tag = None, rf_command_id_present = False\<rparr>"

definition empty_audit_db :: audit_db where
  "empty_audit_db = \<lparr>ad_buckets = [], ad_limits = [], ad_loss_gap = None\<rparr>"

definition sample_writer :: writer_state where
  "sample_writer =
     \<lparr>ws_audit = \<lparr>aq_queue = [], aq_metrics = default_metrics\<lparr>rm_writer_authority_verified := True\<rparr>\<rparr>, ws_db = empty_audit_db\<rparr>"

definition sample_audited_actor :: string where
  "sample_audited_actor = replicate 52 CHR ''y''"

definition sample_tagged_db :: audit_db where
  "sample_tagged_db =
     \<lparr>ad_buckets = [new_bucket (sample_audit_envelope\<lparr>rf_actor_tag := the (actor_tag sample_audit_keys sample_audited_actor)\<rparr>),
                    new_bucket sample_audit_envelope],
      ad_limits = [], ad_loss_gap = None\<rparr>"

section \<open>Nothing vanishes\<close>

lemma sum_list_map_le: "(\<And>x. x \<in> set xs \<Longrightarrow> (f x :: int) \<le> g x) \<Longrightarrow> sum_list (map f xs) \<le> sum_list (map g xs)"
  by (induction xs) (auto intro: add_mono)

lemma sum_list_bump:
  fixes f g :: "'a \<Rightarrow> int"
  assumes "x \<in> set xs" "f x + 1 \<le> g x" "\<And>y. y \<in> set xs \<Longrightarrow> f y \<le> g y"
  shows "sum_list (map f xs) + 1 \<le> sum_list (map g xs)"
  using assms
proof (induction xs)
  case (Cons y ys)
  have "sum_list (map f ys) \<le> sum_list (map g ys)" using Cons.prems(3) by (intro sum_list_map_le) simp
  then show ?case using Cons by (cases "x = y") force+
qed simp

lemma in_mapI: "x \<in> set xs \<Longrightarrow> f x \<in> set (map f xs)"
  by simp

lemma saturating_count_ge: "n \<le> saturating_count n" "n \<noteq> BIGINT_MAX \<Longrightarrow> saturating_count n = n + 1"
  by (simp_all add: saturating_count_def)

lemma bump_records:
  "fst (bump_bucket e d) \<noteq> 0 \<Longrightarrow> recorded d + 1 \<le> recorded (snd (bump_bucket e d)) \<or> saturated (snd (bump_bucket e d))"
  "fst (bump_bucket e d) = 0 \<Longrightarrow> snd (bump_bucket e d) = d"
proof -
  let ?up = "\<lambda>r. if bu_key r = envelope_key e then bump_row e r else r"
  show "recorded d + 1 \<le> recorded (snd (bump_bucket e d)) \<or> saturated (snd (bump_bucket e d))" if "fst (bump_bucket e d) \<noteq> 0"
  proof -
    from that have "filter (\<lambda>r. bu_key r = envelope_key e) (ad_buckets d) \<noteq> []" by (simp add: bump_bucket_def)
    then obtain r where r: "r \<in> set (ad_buckets d)" "bu_key r = envelope_key e" by (auto simp: filter_empty_conv)
    show ?thesis
    proof (cases "bu_occurrence_count r = BIGINT_MAX")
      case True
      then have "bu_count_saturated (?up r)" using r by (simp add: bump_row_def)
      moreover have all: "ad_buckets (snd (bump_bucket e d)) = map ?up (ad_buckets d)" by (simp add: bump_bucket_def)
      have "?up r \<in> set (ad_buckets (snd (bump_bucket e d)))" unfolding all by (rule in_mapI [OF r(1)])
      ultimately show ?thesis unfolding saturated_def list_ex_iff by blast
    next
      case False
      have "sum_list (map bu_occurrence_count (ad_buckets d)) + 1 \<le> sum_list (map (\<lambda>r. bu_occurrence_count (?up r)) (ad_buckets d))"
        using r False by (intro sum_list_bump [of r]) (simp_all add: bump_row_def saturating_count_ge)
      then show ?thesis by (simp add: recorded_def bump_bucket_def comp_def)
    qed
  qed
  show "snd (bump_bucket e d) = d" if "fst (bump_bucket e d) = 0"
  proof -
    have "map ?up (ad_buckets d) = ad_buckets d" using that by (intro map_idI) (auto simp: bump_bucket_def filter_empty_conv)
    then show ?thesis by (simp add: bump_bucket_def)
  qed
qed

lemma ensure_limit_facts:
  "recorded (ensure_limit b d) = recorded d" "\<exists>l \<in> set (ad_limits (ensure_limit b d)). li_bucket_start l = b"
  "ad_buckets (ensure_limit b d) = ad_buckets d"
  by (auto simp: ensure_limit_def recorded_def list_ex_iff)

lemma ensured_limit:
  obtains l where "find (\<lambda>l. li_bucket_start l = b) (ad_limits (ensure_limit b d)) = Some l"
    "l \<in> set (ad_limits (ensure_limit b d))" "li_bucket_start l = b"
  using ensure_limit_facts(2) [of b d] that
  by (cases "find (\<lambda>l. li_bucket_start l = b) (ad_limits (ensure_limit b d))") (auto simp: find_None_iff find_Some_iff)

lemma admit_records: "recorded d + 1 \<le> recorded (admit_bucket e d) \<or> saturated (admit_bucket e d)"
proof -
  let ?b = "hour_of (rf_occurred_at e)"
  let ?d = "ensure_limit ?b d"
  obtain l where l: "find (\<lambda>l. li_bucket_start l = ?b) (ad_limits ?d) = Some l" "l \<in> set (ad_limits ?d)" "li_bucket_start l = ?b"
    using ensured_limit [of ?b d] .
  show ?thesis
  proof (cases "li_admitted_rows l < MAX_ADMITTED_ROWS_PER_HOUR")
    case True
    then show ?thesis
      using l ensure_limit_facts(1) [of ?b d]
      by (simp add: admit_bucket_def Let_def update_limit_def recorded_def new_bucket_def comp_def if_distrib [of li_overflow_count]
          cong: if_cong)
  next
    case False
    let ?up = "\<lambda>l. if li_bucket_start l = ?b then count_overflow l else l"
    have d': "admit_bucket e d = ?d\<lparr>ad_limits := map ?up (ad_limits ?d)\<rparr>"
      using l False by (simp add: admit_bucket_def Let_def update_limit_def)
    show ?thesis
    proof (cases "li_overflow_count l = BIGINT_MAX")
      case True
      then have "li_overflow_saturated (?up l)" using l by (simp add: count_overflow_def)
      moreover have all: "ad_limits (admit_bucket e d) = map ?up (ad_limits ?d)" by (simp add: d')
      have "?up l \<in> set (ad_limits (admit_bucket e d))" unfolding all by (rule in_mapI [OF l(2)])
      ultimately show ?thesis unfolding saturated_def list_ex_iff by blast
    next
      case False
      have "sum_list (map li_overflow_count (ad_limits ?d)) + 1 \<le> sum_list (map (\<lambda>l. li_overflow_count (?up l)) (ad_limits ?d))"
        using l False by (intro sum_list_bump [of l]) (simp_all add: count_overflow_def saturating_count_ge)
      then show ?thesis using ensure_limit_facts(1) [of ?b d] by (simp add: d' recorded_def comp_def)
    qed
  qed
qed

lemma prepare_records:
  assumes "fair_peer others"
  shows "recorded d + 1 \<le> recorded (prepare_delivery others e d) \<or> saturated (prepare_delivery others e d)"
proof -
  have grows: "recorded d \<le> recorded (others d)" using assms by (simp add: fair_peer_def)
  show ?thesis
    using bump_records [of e d] bump_records [of e "others d"] admit_records [of "others d" e] grows
    by (cases "fst (bump_bucket e d) = 0"; cases "fst (bump_bucket e (others d)) = 0")
      (auto simp: prepare_delivery_def Let_def case_prod_beta)
qed
lemma record_loss_facts [simp]:
  "rm_pending_loss_gap (record_loss cause m) = rm_pending_loss_gap m + 1" "losses (record_loss cause m) = losses m + 1"
  "rm_delivered (record_loss cause m) = rm_delivered m"
  by (cases cause; simp add: record_loss_def losses_def)+

lemma losses_update [simp]:
  "losses (m\<lparr>rm_delivered := a\<rparr>) = losses m" "losses (m\<lparr>rm_writer_authority_verified := v\<rparr>) = losses m"
  "losses (m\<lparr>rm_retries_authority_verification := a\<rparr>) = losses m" "losses (m\<lparr>rm_retries_acquire_timeout := a\<rparr>) = losses m"
  "losses (m\<lparr>rm_retries_statement_timeout := a\<rparr>) = losses m" "losses (m\<lparr>rm_retries_db_error := a\<rparr>) = losses m"
  by (simp_all add: losses_def)

lemma delivery_attempt_cases:
  obtains (ok) "deliver_attempt keys others fault e d = (Inr (), prepare_delivery others e d)"
  | (ambiguous) d1 where "deliver_attempt keys others fault e d = (Inl FAmbiguousCommit, d1)" "d1 = d \<or> d1 = prepare_delivery others e d"
  | (failed) f where "deliver_attempt keys others fault e d = (Inl f, d)" "f \<noteq> FAmbiguousCommit"
  by (cases fault; cases "database_epochs_supported keys d")
    (auto simp: deliver_attempt_def split: if_split_asm)

section \<open>The admission bound\<close>

lemma bump_ok:
  assumes "audit_db_ok d"
  shows "audit_db_ok (snd (bump_bucket e d))"
proof -
  let ?up = "\<lambda>r. if bu_key r = envelope_key e then bump_row e r else r"
  have key: "bu_key (?up r) = bu_key r" "bu_key (bump_row e r) = bu_key r" for r by (simp_all add: bump_row_def)
  have rows: "rows_of_hour (snd (bump_bucket e d)) h = rows_of_hour d h" for h
    unfolding rows_of_hour_def bump_bucket_def by (simp add: filter_map comp_def key cong: if_cong)
  have keys: "map bu_key (ad_buckets (snd (bump_bucket e d))) = map bu_key (ad_buckets d)" by (simp add: bump_bucket_def key)
  have limits: "ad_limits (snd (bump_bucket e d)) = ad_limits d" by (simp add: bump_bucket_def)
  show ?thesis
    using assms unfolding audit_db_ok_def rows keys limits by (auto simp: list_all_iff bump_bucket_def key) metis
qed

lemma ensure_limit_ok: "audit_db_ok d \<Longrightarrow> audit_db_ok (ensure_limit b d)"
  by (auto simp: audit_db_ok_def ensure_limit_def rows_of_hour_def list_all_iff list_ex_iff MAX_ADMITTED_ROWS_PER_HOUR_def)

lemma update_limit_set:
  "l \<in> set (ad_limits (update_limit b f d)) \<longleftrightarrow>
     (\<exists>k \<in> set (ad_limits d). l = (if li_bucket_start k = b then f k else k))"
proof -
  have all: "ad_limits (update_limit b f d) = map (\<lambda>k. if li_bucket_start k = b then f k else k) (ad_limits d)"
    by (simp add: update_limit_def)
  show ?thesis unfolding all set_map by blast
qed

lemma update_limit_ok:
  assumes ok: "distinct (map bu_key (ad_buckets d))" "distinct (map li_bucket_start (ad_limits d))"
    and start: "\<And>l. li_bucket_start (f l) = li_bucket_start l"
    and range: "\<And>l. l \<in> set (ad_limits d) \<Longrightarrow> 0 \<le> li_admitted_rows l \<and> li_admitted_rows l \<le> MAX_ADMITTED_ROWS_PER_HOUR"
      "\<And>l. l \<in> set (ad_limits d) \<Longrightarrow> li_bucket_start l = b \<Longrightarrow>
         0 \<le> li_admitted_rows (f l) \<and> li_admitted_rows (f l) \<le> MAX_ADMITTED_ROWS_PER_HOUR"
    and gap: "case ad_loss_gap d of None \<Rightarrow> True | Some n \<Rightarrow> 0 \<le> n"
    and rows: "\<And>r. r \<in> set (ad_buckets d) \<Longrightarrow> \<exists>l \<in> set (ad_limits d). li_bucket_start l = bk_bucket_start (bu_key r)
         \<and> int (rows_of_hour d (li_bucket_start l)) \<le> (if li_bucket_start l = b then li_admitted_rows (f l) else li_admitted_rows l)"
  shows "audit_db_ok (update_limit b f d)"
proof -
  have starts: "map li_bucket_start (ad_limits (update_limit b f d)) = map li_bucket_start (ad_limits d)"
    by (simp add: update_limit_def start)
  have buckets: "ad_buckets (update_limit b f d) = ad_buckets d" "ad_loss_gap (update_limit b f d) = ad_loss_gap d"
    by (simp_all add: update_limit_def)
  have "\<exists>l \<in> set (ad_limits (update_limit b f d)). li_bucket_start l = bk_bucket_start (bu_key r)
       \<and> int (rows_of_hour (update_limit b f d) (li_bucket_start l)) \<le> li_admitted_rows l" if r: "r \<in> set (ad_buckets d)" for r
  proof -
    obtain k where k: "k \<in> set (ad_limits d)" "li_bucket_start k = bk_bucket_start (bu_key r)"
        "int (rows_of_hour d (li_bucket_start k)) \<le> (if li_bucket_start k = b then li_admitted_rows (f k) else li_admitted_rows k)"
      using rows [OF r] by blast
    let ?k = "if li_bucket_start k = b then f k else k"
    have "?k \<in> set (ad_limits (update_limit b f d))" using k(1) unfolding update_limit_set by blast
    moreover have "li_bucket_start ?k = li_bucket_start k" by (simp add: start)
    ultimately show ?thesis using k(2,3) unfolding rows_of_hour_def buckets by (intro bexI [of _ ?k]) (auto split: if_splits)
  qed
  moreover have "list_all (\<lambda>l. 0 \<le> li_admitted_rows l \<and> li_admitted_rows l \<le> MAX_ADMITTED_ROWS_PER_HOUR) (ad_limits (update_limit b f d))"
    using range by (auto simp: list_all_iff update_limit_set split: if_splits)
  ultimately show ?thesis using ok gap by (simp add: audit_db_ok_def starts buckets list_all_iff)
qed

lemma admit_ok:
  assumes ok: "audit_db_ok d" and new: "envelope_key e \<notin> bu_key ` set (ad_buckets d)"
  shows "audit_db_ok (admit_bucket e d)"
proof -
  let ?b = "hour_of (rf_occurred_at e)"
  let ?d = "ensure_limit ?b d"
  obtain l where l: "find (\<lambda>l. li_bucket_start l = ?b) (ad_limits ?d) = Some l" "l \<in> set (ad_limits ?d)" "li_bucket_start l = ?b"
    using ensured_limit [of ?b d] .
  note ok' = ensure_limit_ok [OF ok, of ?b, unfolded audit_db_ok_def list_all_iff]
  have only: "k = l" if "k \<in> set (ad_limits ?d)" "li_bucket_start k = ?b" for k
    using ok' l that by (metis distinct_map inj_onD)
  show ?thesis
  proof (cases "li_admitted_rows l < MAX_ADMITTED_ROWS_PER_HOUR")
    case False
    have cnt: "li_admitted_rows (count_overflow k) = li_admitted_rows k" for k by (simp add: count_overflow_def)
    have "audit_db_ok (update_limit ?b count_overflow ?d)"
    proof (rule update_limit_ok)
      fix r assume "r \<in> set (ad_buckets ?d)"
      then show "\<exists>k \<in> set (ad_limits ?d). li_bucket_start k = bk_bucket_start (bu_key r)
          \<and> int (rows_of_hour ?d (li_bucket_start k)) \<le> (if li_bucket_start k = ?b then li_admitted_rows (count_overflow k) else li_admitted_rows k)"
        using ok' unfolding cnt if_cancel by blast
    qed (use ok' in \<open>auto simp: count_overflow_def\<close>)
    then show ?thesis using l False by (simp add: admit_bucket_def Let_def)
  next
    case True
    let ?d1 = "?d\<lparr>ad_buckets := ad_buckets ?d @ [new_bucket e]\<rparr>"
    have rows: "rows_of_hour ?d1 h = rows_of_hour ?d h + (if h = ?b then 1 else 0)" for h
      by (auto simp: rows_of_hour_def new_bucket_def envelope_key_def)
    have none: "rows_of_hour ?d ?b = 0" if "\<not> (\<exists>r \<in> set (ad_buckets ?d). bk_bucket_start (bu_key r) = ?b)"
      using that by (auto simp: rows_of_hour_def filter_empty_conv)
    have room: "int (rows_of_hour ?d ?b) \<le> li_admitted_rows l"
    proof (cases "\<exists>r \<in> set (ad_buckets ?d). bk_bucket_start (bu_key r) = ?b")
      case True
      then show ?thesis using ok' only by metis
    next
      case False
      then show ?thesis using none ok' l(2) by simp
    qed
    have "audit_db_ok (update_limit ?b (\<lambda>l. l\<lparr>li_admitted_rows := li_admitted_rows l + 1\<rparr>) ?d1)"
    proof (rule update_limit_ok)
      show "distinct (map bu_key (ad_buckets ?d1))"
        using ok' new by (simp add: ensure_limit_facts(3) new_bucket_def)
      fix r assume "r \<in> set (ad_buckets ?d1)"
      then consider "bk_bucket_start (bu_key r) = ?b" | "r \<in> set (ad_buckets ?d)" "bk_bucket_start (bu_key r) \<noteq> ?b"
        by (auto simp: new_bucket_def envelope_key_def)
      then show "\<exists>k \<in> set (ad_limits ?d1). li_bucket_start k = bk_bucket_start (bu_key r)
          \<and> int (rows_of_hour ?d1 (li_bucket_start k))
            \<le> (if li_bucket_start k = ?b then li_admitted_rows (k\<lparr>li_admitted_rows := li_admitted_rows k + 1\<rparr>) else li_admitted_rows k)"
      proof cases
        case 1
        then show ?thesis using l room by (intro bexI [of _ l]) (simp_all add: rows)
      next
        case 2
        then obtain k where "k \<in> set (ad_limits ?d)" "li_bucket_start k = bk_bucket_start (bu_key r)"
            "int (rows_of_hour ?d (li_bucket_start k)) \<le> li_admitted_rows k"
          using ok' by blast
        then show ?thesis using 2 by (intro bexI [of _ k]) (simp_all add: rows)
      qed
    qed (use ok' True only in auto)
    then show ?thesis using l True by (simp add: admit_bucket_def Let_def)
  qed
qed

lemma prepare_ok:
  assumes "fair_peer others" "audit_db_ok d"
  shows "audit_db_ok (prepare_delivery others e d)"
proof -
  have d1: "audit_db_ok (others (snd (bump_bucket e d)))" using assms bump_ok by (auto simp: fair_peer_def)
  have new: "envelope_key e \<notin> bu_key ` set (ad_buckets (snd (bump_bucket e x)))" if "fst (bump_bucket e x) = 0" for x
    using that bump_records(2) [OF that] by (auto simp: bump_bucket_def filter_empty_conv)
  show ?thesis
    using bump_ok [OF assms(2)] bump_ok [OF d1] admit_ok [OF bump_ok [OF d1] new]
    by (auto simp: prepare_delivery_def Let_def case_prod_beta)
qed

lemma flush_ok: "audit_db_ok d \<Longrightarrow> audit_db_ok (snd (flush_loss_gap reached m d))"
  by (auto simp: flush_loss_gap_def Let_def audit_db_ok_def rows_of_hour_def BIGINT_MAX_def split: option.splits)

lemma attempts_ok:
  assumes "fair_peer others" "audit_db_ok d"
  shows "audit_db_ok (snd (delivery_attempts keys others reached faults e m d))"
proof (induction faults arbitrary: m)
  case (Cons fault faults)
  show ?case
  proof (cases rule: delivery_attempt_cases [of keys others fault e d])
    case ok
    then show ?thesis using flush_ok prepare_ok [OF assms] by simp
  next
    case ambiguous
    then show ?thesis using prepare_ok [OF assms] assms(2) by auto
  next
    case (failed f)
    then show ?thesis using Cons.IH assms(2) by (cases f) (auto simp: Let_def)
  qed
qed (simp add: assms)

lemma hour_bounded:
  assumes "audit_db_ok d"
  shows "int (rows_of_hour d hour) \<le> MAX_ADMITTED_ROWS_PER_HOUR"
proof (cases "\<exists>r \<in> set (ad_buckets d). bk_bucket_start (bu_key r) = hour")
  case True
  then show ?thesis using assms unfolding audit_db_ok_def list_all_iff by (metis order_trans)
next
  case False
  then show ?thesis by (simp add: rows_of_hour_def filter_empty_conv MAX_ADMITTED_ROWS_PER_HOUR_def)
qed


section \<open>Accounting\<close>

lemma flush_records:
  assumes "audit_db_ok d"
  shows "recorded (snd (flush_loss_gap reached m d)) + int (rm_pending_loss_gap (fst (flush_loss_gap reached m d)))
     = recorded d + int (rm_pending_loss_gap m) \<or> saturated (snd (flush_loss_gap reached m d))"
  "saturated d \<Longrightarrow> saturated (snd (flush_loss_gap reached m d))"
  "losses (fst (flush_loss_gap reached m d)) = losses m" "rm_delivered (fst (flush_loss_gap reached m d)) = rm_delivered m"
  using assms
  by (auto simp: audit_db_ok_def flush_loss_gap_def Let_def recorded_def saturated_def losses_def BIGINT_MAX_def split: option.split)

lemma attempts_account:
  fixes keys :: audit_keys and reached :: bool
  assumes "fair_peer others" "audit_db_ok d"
  defines "run \<equiv> delivery_attempts keys others reached"
  shows "(recorded d + int (rm_pending_loss_gap m) + 1
           \<le> recorded (snd (run faults e m d)) + int (rm_pending_loss_gap (fst (run faults e m d)))
         \<or> saturated (snd (run faults e m d)))
    \<and> rm_delivered (fst (run faults e m d)) + losses (fst (run faults e m d)) = rm_delivered m + losses m + 1"
proof (induction faults arbitrary: m)
  case Nil
  then show ?case by (simp add: run_def)
next
  case (Cons fault faults)
  note prepared = prepare_records [OF assms(1), of d e]
  show ?case
  proof (cases rule: delivery_attempt_cases [of keys others fault e d])
    case ok
    let ?m = "m\<lparr>rm_delivered := rm_delivered m + 1, rm_writer_authority_verified := True\<rparr>"
    show ?thesis
      using flush_records [OF prepare_ok [OF assms(1,2)], where reached = reached and m = ?m and e1 = e] prepared by (simp add: run_def ok) linarith
  next
    case ambiguous
    then show ?thesis using prepared by (auto simp: run_def)
  next
    case (failed f)
    then show ?thesis
      using Cons.IH [of "m\<lparr>rm_retries_acquire_timeout := rm_retries_acquire_timeout m + 1\<rparr>"]
        Cons.IH [of "m\<lparr>rm_retries_statement_timeout := rm_retries_statement_timeout m + 1\<rparr>"]
        Cons.IH [of "m\<lparr>rm_retries_db_error := rm_retries_db_error m + 1\<rparr>"]
        Cons.IH [of "m\<lparr>rm_writer_authority_verified := False, rm_retries_authority_verification := rm_retries_authority_verification m + 1\<rparr>"]
      by (cases f) (simp_all add: run_def Let_def)
  qed
qed
lemma erase_ok:
  assumes "audit_db_ok d" "erase_actor keys actor d = Some (n, d')"
  shows "audit_db_ok d'"
proof -
  obtain P where d': "d' = d\<lparr>ad_buckets := filter P (ad_buckets d)\<rparr>"
    using assms(2) by (auto simp: erase_actor_def Let_def)
  have len: "length (filter Q (filter P xs)) \<le> length (filter Q xs)" for Q xs by (induction xs) auto
  have fewer: "rows_of_hour d' h \<le> rows_of_hour d h" for h
    unfolding rows_of_hour_def d' using len by simp
  have "distinct (map bu_key (filter P (ad_buckets d)))" using assms(1) by (simp add: audit_db_ok_def distinct_map_filter)
  moreover have "\<exists>l \<in> set (ad_limits d). li_bucket_start l = bk_bucket_start (bu_key r) \<and> int (rows_of_hour d' (li_bucket_start l)) \<le> li_admitted_rows l"
    if "r \<in> set (ad_buckets d)" for r
    using assms(1) that fewer unfolding audit_db_ok_def list_all_iff by (meson of_nat_mono order_trans)
  ultimately show ?thesis using assms(1) by (simp add: audit_db_ok_def list_all_iff) (simp add: d')
qed

lemma losses_more [simp]:
  "losses (m\<lparr>rm_queue_depth := a\<rparr>) = losses m" "losses (m\<lparr>rm_oldest_queued_at := i\<rparr>) = losses m"
  "losses (m\<lparr>rm_hourly_overflow := a\<rparr>) = losses m" "losses (m\<lparr>rm_oldest_retained_seconds := a\<rparr>) = losses m"
  "losses (m\<lparr>rm_purge_backlog_seconds := a\<rparr>) = losses m" "losses (m\<lparr>rm_consecutive_unhealthy_intervals := a\<rparr>) = losses m"
  by (simp_all add: losses_def)

lemma record_loss_depth [simp]: "rm_queue_depth (record_loss cause m) = rm_queue_depth m"
  by (cases cause) (simp_all add: record_loss_def)

lemma attempts_depth: "rm_queue_depth (fst (delivery_attempts keys others reached faults e m d)) = rm_queue_depth m"
proof (induction faults arbitrary: m d)
  case (Cons fault faults)
  then show ?case
    by (cases rule: delivery_attempt_cases [of keys others fault e d])
      (auto simp: flush_loss_gap_def Let_def split: attempt_failure.split)
qed simp

lemma audit_step_keeps:
  assumes "audit_step keys w k w'" "audit_ok w"
  shows "audit_ok w' \<and> envelopes w' = envelopes w + k"
  using assms
proof cases
  case sent
  then show ?thesis using assms(2) by (auto simp: try_send_def Let_def audit_ok_def envelopes_def)
next
  case (received others reached fault)
  show ?thesis
  proof (cases "aq_queue (ws_audit w)")
    case Nil
    then show ?thesis using received assms(2) by (simp add: writer_receive_def)
  next
    case (Cons e rest)
    let ?m = "aq_metrics (ws_audit w)"
    let ?m1 = "?m\<lparr>rm_queue_depth := rm_queue_depth ?m - 1,
                  rm_oldest_queued_at := if rm_queue_depth ?m = 1 then 0 else rm_oldest_queued_at ?m\<rparr>"
    have w': "w' = w\<lparr>ws_audit := (ws_audit w)\<lparr>aq_queue := rest, aq_metrics := fst (deliver_with_retries keys others reached fault e ?m1 (ws_db w))\<rparr>,
        ws_db := snd (deliver_with_retries keys others reached fault e ?m1 (ws_db w))\<rparr>"
      using received Cons by (simp add: writer_receive_def Let_def case_prod_beta)
    have db: "audit_db_ok (ws_db w)" using assms(2) by (simp add: audit_ok_def)
    show ?thesis
      using attempts_account [OF received(3) db, where keys = keys and reached = reached and m = ?m1 and e = e
            and faults = "map fault [0..<DELIVERY_ATTEMPTS]"]
        attempts_ok [OF received(3) db, where keys = keys and reached = reached and m = ?m1 and e = e
            and faults = "map fault [0..<DELIVERY_ATTEMPTS]"] assms(2) Cons received(1)
      by (simp add: w' audit_ok_def envelopes_def deliver_with_retries_def attempts_depth)
  qed
next
  case probed
  then show ?thesis using assms(2) by (simp add: writer_probe_def Let_def audit_ok_def envelopes_def refresh_storage_metrics_def)
next
  case erased
  then show ?thesis using assms(2) erase_ok by (auto simp: audit_ok_def envelopes_def)
qed
section \<open>Properties\<close>

text \<open>C25: The audit never grows without bound and loses count of nothing: through any sequence of producers, deliveries with
  their faults, probes and erasures the queue stays within its capacity, no hour holds more than ten thousand rows, and
  every envelope produced is delivered, waiting or counted as a loss.\<close>

theorem audit_bounded_and_counted:
  assumes "audit_run keys w0 n w" "audit_ok w0"
  shows "length (aq_queue (ws_audit w)) \<le> QUEUE_CAPACITY
    \<and> int (rows_of_hour (ws_db w) hour) \<le> MAX_ADMITTED_ROWS_PER_HOUR
    \<and> envelopes w = envelopes w0 + n"
proof -
  have "audit_ok w \<and> envelopes w = envelopes w0 + n"
    using assms by (induction rule: audit_run.induct) (auto dest: audit_step_keeps)
  then show ?thesis using hour_bounded [of "ws_db w" hour] by (simp add: audit_ok_def)
qed

lemma same_peer: "fair_peer (\<lambda>d. d)"
  by (simp add: fair_peer_def)

theorem audit_bounded_and_counted_witness:
  "\<exists>w. audit_run sample_audit_keys sample_writer 1 w \<and> rm_delivered (aq_metrics (ws_audit w)) = 1
    \<and> int (rows_of_hour (ws_db w) 0) \<le> MAX_ADMITTED_ROWS_PER_HOUR \<and> envelopes w = 1"
proof -
  let ?w1 = "sample_writer\<lparr>ws_audit := try_send \<lparr>au_keys = sample_audit_keys, au_queue_open = True\<rparr> 5 sample_audit_envelope (ws_audit sample_writer)\<rparr>"
  let ?w2 = "writer_receive sample_audit_keys (\<lambda>d. d) True (\<lambda>_. NoFault) ?w1"
  have "audit_run sample_audit_keys sample_writer (0 + 1 + 0) ?w2"
    by (rule audit_run.more [OF audit_run.more [OF audit_run.start audit_step.sent] audit_step.received [OF same_peer]])
  then have run: "audit_run sample_audit_keys sample_writer 1 ?w2" by simp
  have "audit_ok sample_writer" "rm_delivered (aq_metrics (ws_audit ?w2)) = 1" "envelopes sample_writer = 0" by code_simp+
  with audit_bounded_and_counted [OF run] run show ?thesis by auto
qed

text \<open>C28: A refusal does not vanish: after the attempts to deliver one envelope, whatever fails, the occurrences, the overflow and
  the losses the database and the process remember have grown by at least one, or a saturation mark is set.\<close>

theorem refusal_never_vanishes:
  assumes "fair_peer others" "audit_db_ok d" "deliver_with_retries keys others reached fault e m d = (m', d')"
  shows "recorded d + int (rm_pending_loss_gap m) + 1 \<le> recorded d' + int (rm_pending_loss_gap m') \<or> saturated d'"
  using attempts_account [OF assms(1,2), where keys = keys and reached = reached and m = m and e = e
      and faults = "map fault [0..<DELIVERY_ATTEMPTS]"] assms(3)
  by (simp add: deliver_with_retries_def)

theorem refusal_never_vanishes_witness:
  "\<exists>m' d'. deliver_with_retries sample_audit_keys (\<lambda>d. d) True (\<lambda>i. if i = 0 then PoolFault else CommitFault False)
       sample_audit_envelope default_metrics empty_audit_db = (m', d')
     \<and> recorded empty_audit_db + int (rm_pending_loss_gap default_metrics) + 1 \<le> recorded d' + int (rm_pending_loss_gap m')"
proof -
  let ?r = "deliver_with_retries sample_audit_keys (\<lambda>d. d) True (\<lambda>i. if i = 0 then PoolFault else CommitFault False)
       sample_audit_envelope default_metrics empty_audit_db"
  have run: "?r = (fst ?r, snd ?r)" by simp
  have "audit_db_ok empty_audit_db" "\<not> saturated (snd ?r)" by code_simp+
  with refusal_never_vanishes [OF same_peer _ run] run show ?thesis by blast
qed

text \<open>The erasure of an actor deletes exactly the buckets whose tag verifies for that actor under a loaded epoch, and reports
  their number.\<close>


lemma parsed_epochs:
  assumes "parse_audit_keys crypto root epoch previous_root previous_epoch = Some keys" "ak_previous keys = Some e"
  shows "ek_epoch e \<noteq> ek_epoch (ak_active keys)"
  using assms
  by (auto simp: parse_audit_keys_def derive_keys_def Let_def Option.bind_eq_Some_conv split: option.splits if_splits)

lemma candidate_verified:
  assumes "parse_audit_keys crypto root epoch0 previous_root previous_epoch = Some keys"
    "erasure_candidates keys actor = Some candidates"
  shows "(epoch, tag) \<in> set candidates \<longleftrightarrow> verify_actor_tag keys epoch actor tag = Some True"
  using assms(2) parsed_epochs [OF assms(1)]
  by (auto simp: erasure_candidates_def verify_actor_tag_def actor_tag_for_epoch_def filter_option_def split: option.splits if_splits)

text \<open>C31: The erasure of an actor deletes exactly the buckets whose tag verifies for that actor under a loaded epoch, and reports
  their number.\<close>

theorem erasure_removes_verified:
  assumes keys: "parse_audit_keys crypto root epoch previous_root previous_epoch = Some keys"
    and run: "erase_actor keys actor d = Some (n, d')"
  defines "verified \<equiv> \<lambda>r. verify_actor_tag keys (bk_actor_key_epoch (bu_key r)) actor (bk_actor_tag (bu_key r)) = Some True"
  shows "d' = d\<lparr>ad_buckets := filter (\<lambda>r. \<not> verified r) (ad_buckets d)\<rparr> \<and> n = length (filter verified (ad_buckets d))"
proof -
  obtain candidates where c: "erasure_candidates keys actor = Some candidates" using run by (auto simp: erase_actor_def)
  have "length (ad_buckets d) - length (filter (\<lambda>r. \<not> verified r) (ad_buckets d)) = length (filter verified (ad_buckets d))"
    using sum_length_filter_compl [of verified "ad_buckets d"] by linarith
  then show ?thesis
    using run by (auto simp: erase_actor_def c Let_def candidate_verified [OF keys c] verified_def)
qed
lemma sample_keys_parse:
  "parse_audit_keys sample_audit_crypto (replicate 32 CHR ''a'') ''2'' (Some (replicate 32 CHR ''b'')) (Some ''1'') = Some sample_audit_keys"
proof -
  have "trim (replicate 32 CHR ''a'') = replicate 32 CHR ''a''" "trim (replicate 32 CHR ''b'') = replicate 32 CHR ''b''"
    "is_ascii_digit CHR ''1''" "is_ascii_digit CHR ''2''" by code_simp+
  then show ?thesis
    by (simp add: parse_audit_keys_def parse_epoch_def parse_root_def derive_keys_def sample_audit_keys_def sample_audit_crypto_def)
qed

lemma sample_candidates: "\<exists>c. erasure_candidates sample_audit_keys sample_audited_actor = Some c"
proof -
  have "validate_actor sample_audited_actor = Inr ()" by code_simp
  then show ?thesis by (simp add: erasure_candidates_def actor_input_def sample_audited_actor_def)
qed

theorem erasure_removes_verified_witness:
  "\<exists>n d'. erase_actor sample_audit_keys sample_audited_actor sample_tagged_db = Some (n, d')
    \<and> d' = sample_tagged_db\<lparr>ad_buckets :=
        filter (\<lambda>r. \<not> verify_actor_tag sample_audit_keys (bk_actor_key_epoch (bu_key r)) sample_audited_actor (bk_actor_tag (bu_key r)) = Some True)
          (ad_buckets sample_tagged_db)\<rparr>
    \<and> n = length (filter (\<lambda>r. verify_actor_tag sample_audit_keys (bk_actor_key_epoch (bu_key r)) sample_audited_actor (bk_actor_tag (bu_key r)) = Some True)
        (ad_buckets sample_tagged_db))"
proof -
  let ?r = "erase_actor sample_audit_keys sample_audited_actor sample_tagged_db"
  have run: "?r = Some (fst (the ?r), snd (the ?r))" using sample_candidates by (auto simp: erase_actor_def)
  have keys: "parse_audit_keys sample_audit_crypto (replicate 32 CHR ''a'') ''2'' (Some (replicate 32 CHR ''b'')) (Some ''1'')
      = Some sample_audit_keys" by (rule sample_keys_parse)
  from erasure_removes_verified [OF keys run] run show ?thesis by blast
qed


end
