(* ===== verification/Refusal_Catalogue.thy ===== *)
theory Refusal_Catalogue
  imports Refusal_Writer
begin

text \<open>
  The numbers and names of the refusal audit: the discriminants and \<open>name\<close> of \<open>CommandKind\<close> and \<open>RefusalKind\<close> in
  \<^verbatim>\<open>refusal_audit.rs\<close>, and the catalogue tables the migrations 0032, 0040 and 0043 fill, to which every bucket refers.
\<close>

section \<open>Kinds of command\<close>

definition ALL_COMMAND_KINDS :: "audit_command_kind list" where
  "ALL_COMMAND_KINDS =
     [KInvalidEnvelope, KRegisterListing, KSyncListing, KSyncDrop, KCancelDrop, KReleaseDropListings, KReserveInventory,
      KCreateCheckout, KCreateOffer, KCounterOffer, KAcceptOffer, KOfferCheckout, KRejectOffer, KWithdrawOffer, KPlaceBid,
      KCloseAuction, KAdvanceSandboxPayment, KPrepareLocks, KRegisterLocks, KRequestCancellation, KApproveCancellation,
      KShipOrder, KConfirmDelivery, KSetPickupDetails, KClearPickupDetails, KMarkReadyForPickup, KConfirmPickup,
      KRequestReturn, KApproveReturn, KReceiveReturn, KRecordExternalRefund, KCreateReview, KUpdateReview, KSetBandConsent,
      KManualResolve, KSetDigitalDelivery, KClearDigitalDelivery, KSetDeliveryEmail, KDeliverDigital]"

fun command_number :: "audit_command_kind \<Rightarrow> nat" where
  "command_number KInvalidEnvelope = 0"
| "command_number KRegisterListing = 1"
| "command_number KSyncListing = 2"
| "command_number KSyncDrop = 3"
| "command_number KCancelDrop = 4"
| "command_number KReleaseDropListings = 5"
| "command_number KReserveInventory = 6"
| "command_number KCreateCheckout = 7"
| "command_number KCreateOffer = 8"
| "command_number KCounterOffer = 9"
| "command_number KAcceptOffer = 10"
| "command_number KOfferCheckout = 11"
| "command_number KRejectOffer = 12"
| "command_number KWithdrawOffer = 13"
| "command_number KPlaceBid = 14"
| "command_number KCloseAuction = 15"
| "command_number KAdvanceSandboxPayment = 16"
| "command_number KPrepareLocks = 17"
| "command_number KRegisterLocks = 18"
| "command_number KRequestCancellation = 19"
| "command_number KApproveCancellation = 20"
| "command_number KShipOrder = 21"
| "command_number KConfirmDelivery = 22"
| "command_number KSetPickupDetails = 23"
| "command_number KClearPickupDetails = 24"
| "command_number KMarkReadyForPickup = 25"
| "command_number KConfirmPickup = 26"
| "command_number KRequestReturn = 27"
| "command_number KApproveReturn = 28"
| "command_number KReceiveReturn = 29"
| "command_number KRecordExternalRefund = 30"
| "command_number KCreateReview = 31"
| "command_number KUpdateReview = 32"
| "command_number KSetBandConsent = 33"
| "command_number KManualResolve = 34"
| "command_number KSetDigitalDelivery = 35"
| "command_number KClearDigitalDelivery = 36"
| "command_number KSetDeliveryEmail = 37"
| "command_number KDeliverDigital = 38"

fun command_name :: "audit_command_kind \<Rightarrow> string" where
  "command_name KInvalidEnvelope = ''invalid_envelope''"
| "command_name KRegisterListing = ''register_listing''"
| "command_name KSyncListing = ''sync_listing''"
| "command_name KSyncDrop = ''sync_drop''"
| "command_name KCancelDrop = ''cancel_drop''"
| "command_name KReleaseDropListings = ''release_drop_listings''"
| "command_name KReserveInventory = ''reserve_inventory''"
| "command_name KCreateCheckout = ''create_checkout''"
| "command_name KCreateOffer = ''create_offer''"
| "command_name KCounterOffer = ''counter_offer''"
| "command_name KAcceptOffer = ''accept_offer''"
| "command_name KOfferCheckout = ''offer_checkout''"
| "command_name KRejectOffer = ''reject_offer''"
| "command_name KWithdrawOffer = ''withdraw_offer''"
| "command_name KPlaceBid = ''place_bid''"
| "command_name KCloseAuction = ''close_auction''"
| "command_name KAdvanceSandboxPayment = ''advance_sandbox_payment''"
| "command_name KPrepareLocks = ''prepare_locks''"
| "command_name KRegisterLocks = ''register_locks''"
| "command_name KRequestCancellation = ''request_cancellation''"
| "command_name KApproveCancellation = ''approve_cancellation''"
| "command_name KShipOrder = ''ship_order''"
| "command_name KConfirmDelivery = ''confirm_delivery''"
| "command_name KSetPickupDetails = ''set_pickup_details''"
| "command_name KClearPickupDetails = ''clear_pickup_details''"
| "command_name KMarkReadyForPickup = ''mark_ready_for_pickup''"
| "command_name KConfirmPickup = ''confirm_pickup''"
| "command_name KRequestReturn = ''request_return''"
| "command_name KApproveReturn = ''approve_return''"
| "command_name KReceiveReturn = ''receive_return''"
| "command_name KRecordExternalRefund = ''record_external_refund''"
| "command_name KCreateReview = ''create_review''"
| "command_name KUpdateReview = ''update_review''"
| "command_name KSetBandConsent = ''set_band_consent''"
| "command_name KManualResolve = ''manual_resolve''"
| "command_name KSetDigitalDelivery = ''set_digital_delivery''"
| "command_name KClearDigitalDelivery = ''clear_digital_delivery''"
| "command_name KSetDeliveryEmail = ''set_delivery_email''"
| "command_name KDeliverDigital = ''deliver_digital''"

section \<open>Kinds of refusal\<close>

definition ALL_REFUSAL_KINDS :: "refusal_kind list" where
  "ALL_REFUSAL_KINDS =
     [RInvalidEnvelope, RInvalidCommand, RUnauthorized, RNotFound, RRevisionConflict, RIdempotencyConflict,
      RInsufficientInventory, RInvariantViolation, ROfferExpired, RInvalidState, RAuctionClosed, RBidTooLow,
      RUpstreamUnavailable, RAwardExpired, RAwardAlreadyConverted, RAwardQuantityMismatch, RAwardVariantMismatch,
      RAwardListingChanged, RAwardHoldMissing, RManualResolveInvalidReason, RManualResolveInvalidIdempotencyKey,
      RManualResolveInvalidOutcome, RManualResolveInvalidRefundReference, RManualResolveNotOrderSeller,
      RManualResolveOrderNotFound, RManualResolveNotApplicable, RManualResolveMissingPin, RManualResolveConflict,
      RManualResolveAlreadyResolved, RManualResolveNotInReview, RManualResolveStockUnavailable, RBidWrongAsset,
      RBidSellerForbidden, RBidNotAuction, RBidListingNotFound, RLocksIdentityMismatch, RLocksUpstreamUnavailable]"

fun refusal_number :: "refusal_kind \<Rightarrow> nat" where
  "refusal_number RInvalidEnvelope = 1"
| "refusal_number RInvalidCommand = 2"
| "refusal_number RUnauthorized = 3"
| "refusal_number RNotFound = 4"
| "refusal_number RRevisionConflict = 5"
| "refusal_number RIdempotencyConflict = 6"
| "refusal_number RInsufficientInventory = 7"
| "refusal_number RInvariantViolation = 8"
| "refusal_number ROfferExpired = 9"
| "refusal_number RInvalidState = 10"
| "refusal_number RAuctionClosed = 11"
| "refusal_number RBidTooLow = 12"
| "refusal_number RUpstreamUnavailable = 13"
| "refusal_number RAwardExpired = 14"
| "refusal_number RAwardAlreadyConverted = 15"
| "refusal_number RAwardQuantityMismatch = 16"
| "refusal_number RAwardVariantMismatch = 17"
| "refusal_number RAwardListingChanged = 18"
| "refusal_number RAwardHoldMissing = 19"
| "refusal_number RManualResolveInvalidReason = 22"
| "refusal_number RManualResolveInvalidIdempotencyKey = 23"
| "refusal_number RManualResolveInvalidOutcome = 24"
| "refusal_number RManualResolveInvalidRefundReference = 25"
| "refusal_number RManualResolveNotOrderSeller = 26"
| "refusal_number RManualResolveOrderNotFound = 27"
| "refusal_number RManualResolveNotApplicable = 29"
| "refusal_number RManualResolveMissingPin = 30"
| "refusal_number RManualResolveConflict = 31"
| "refusal_number RManualResolveAlreadyResolved = 32"
| "refusal_number RManualResolveNotInReview = 33"
| "refusal_number RManualResolveStockUnavailable = 34"
| "refusal_number RBidWrongAsset = 35"
| "refusal_number RBidSellerForbidden = 36"
| "refusal_number RBidNotAuction = 37"
| "refusal_number RBidListingNotFound = 38"
| "refusal_number RLocksIdentityMismatch = 39"
| "refusal_number RLocksUpstreamUnavailable = 40"

fun refusal_name :: "refusal_kind \<Rightarrow> string" where
  "refusal_name RInvalidEnvelope = ''invalid_envelope''"
| "refusal_name RInvalidCommand = ''invalid_command''"
| "refusal_name RUnauthorized = ''unauthorized''"
| "refusal_name RNotFound = ''not_found''"
| "refusal_name RRevisionConflict = ''revision_conflict''"
| "refusal_name RIdempotencyConflict = ''idempotency_conflict''"
| "refusal_name RInsufficientInventory = ''insufficient_inventory''"
| "refusal_name RInvariantViolation = ''invariant_violation''"
| "refusal_name ROfferExpired = ''offer_expired''"
| "refusal_name RInvalidState = ''invalid_state''"
| "refusal_name RAuctionClosed = ''auction_closed''"
| "refusal_name RBidTooLow = ''bid_too_low''"
| "refusal_name RUpstreamUnavailable = ''upstream_unavailable''"
| "refusal_name RAwardExpired = ''award_expired''"
| "refusal_name RAwardAlreadyConverted = ''award_already_converted''"
| "refusal_name RAwardQuantityMismatch = ''award_quantity_mismatch''"
| "refusal_name RAwardVariantMismatch = ''award_variant_mismatch''"
| "refusal_name RAwardListingChanged = ''award_listing_changed''"
| "refusal_name RAwardHoldMissing = ''award_hold_missing''"
| "refusal_name RManualResolveInvalidReason = ''manual_resolve_invalid_reason''"
| "refusal_name RManualResolveInvalidIdempotencyKey = ''manual_resolve_invalid_idempotency_key''"
| "refusal_name RManualResolveInvalidOutcome = ''manual_resolve_invalid_outcome''"
| "refusal_name RManualResolveInvalidRefundReference = ''manual_resolve_invalid_refund_reference''"
| "refusal_name RManualResolveNotOrderSeller = ''manual_resolve_not_order_seller''"
| "refusal_name RManualResolveOrderNotFound = ''manual_resolve_order_not_found''"
| "refusal_name RManualResolveNotApplicable = ''manual_resolve_not_applicable''"
| "refusal_name RManualResolveMissingPin = ''manual_resolve_missing_pin''"
| "refusal_name RManualResolveConflict = ''manual_resolve_conflict''"
| "refusal_name RManualResolveAlreadyResolved = ''manual_resolve_already_resolved''"
| "refusal_name RManualResolveNotInReview = ''manual_resolve_not_in_review''"
| "refusal_name RManualResolveStockUnavailable = ''manual_resolve_stock_unavailable''"
| "refusal_name RBidWrongAsset = ''bid_wrong_asset''"
| "refusal_name RBidSellerForbidden = ''bid_seller_forbidden''"
| "refusal_name RBidNotAuction = ''bid_not_auction''"
| "refusal_name RBidListingNotFound = ''bid_listing_not_found''"
| "refusal_name RLocksIdentityMismatch = ''locks_identity_mismatch''"
| "refusal_name RLocksUpstreamUnavailable = ''locks_upstream_unavailable''"

section \<open>The tables\<close>

text \<open>The rows of 0032, then those of 0040 and 0043.\<close>

definition command_refusal_command_kinds :: "(nat \<times> string) list" where
  "command_refusal_command_kinds =
     [(0, ''invalid_envelope''), (1, ''register_listing''), (2, ''sync_listing''), (3, ''sync_drop''),
      (4, ''cancel_drop''), (5, ''release_drop_listings''), (6, ''reserve_inventory''), (7, ''create_checkout''),
      (8, ''create_offer''), (9, ''counter_offer''), (10, ''accept_offer''), (11, ''offer_checkout''),
      (12, ''reject_offer''), (13, ''withdraw_offer''), (14, ''place_bid''), (15, ''close_auction''),
      (16, ''advance_sandbox_payment''), (17, ''prepare_locks''), (18, ''register_locks''), (19, ''request_cancellation''),
      (20, ''approve_cancellation''), (21, ''ship_order''), (22, ''confirm_delivery''), (23, ''set_pickup_details''),
      (24, ''clear_pickup_details''), (25, ''mark_ready_for_pickup''), (26, ''confirm_pickup''), (27, ''request_return''),
      (28, ''approve_return''), (29, ''receive_return''), (30, ''record_external_refund''), (31, ''create_review''),
      (32, ''update_review''), (33, ''set_band_consent''), (34, ''manual_resolve'')]
     @ [(35, ''set_digital_delivery''), (36, ''clear_digital_delivery'')]
     @ [(37, ''set_delivery_email''), (38, ''deliver_digital'')]"

definition command_refusal_kinds :: "(nat \<times> string) list" where
  "command_refusal_kinds =
     [(1, ''invalid_envelope''), (2, ''invalid_command''), (3, ''unauthorized''), (4, ''not_found''),
      (5, ''revision_conflict''), (6, ''idempotency_conflict''), (7, ''insufficient_inventory''),
      (8, ''invariant_violation''), (9, ''offer_expired''), (10, ''invalid_state''), (11, ''auction_closed''),
      (12, ''bid_too_low''), (13, ''upstream_unavailable''), (14, ''award_expired''), (15, ''award_already_converted''),
      (16, ''award_quantity_mismatch''), (17, ''award_variant_mismatch''), (18, ''award_listing_changed''),
      (19, ''award_hold_missing''), (22, ''manual_resolve_invalid_reason''),
      (23, ''manual_resolve_invalid_idempotency_key''), (24, ''manual_resolve_invalid_outcome''),
      (25, ''manual_resolve_invalid_refund_reference''), (26, ''manual_resolve_not_order_seller''),
      (27, ''manual_resolve_order_not_found''), (29, ''manual_resolve_not_applicable''),
      (30, ''manual_resolve_missing_pin''), (31, ''manual_resolve_conflict''), (32, ''manual_resolve_already_resolved''),
      (33, ''manual_resolve_not_in_review''), (34, ''manual_resolve_stock_unavailable''), (35, ''bid_wrong_asset''),
      (36, ''bid_seller_forbidden''), (37, ''bid_not_auction''), (38, ''bid_listing_not_found''),
      (39, ''locks_identity_mismatch''), (40, ''locks_upstream_unavailable'')]"

definition command_refusal_surface_kinds :: "(nat \<times> string) list" where
  "command_refusal_surface_kinds = [(1, ''v1_command''), (2, ''bitcoin_manual_resolve'')]"

text \<open>The references of \<open>command_refusal_audit_buckets\<close> to the three catalogues.\<close>

definition bucket_references_ok :: "bucket_key \<Rightarrow> bool" where
  "bucket_references_ok k \<longleftrightarrow>
     surface_number (bk_surface_kind k) \<in> set (map fst command_refusal_surface_kinds)
     \<and> command_number (bk_command_kind k) \<in> set (map fst command_refusal_command_kinds)
     \<and> refusal_number (bk_refusal_kind k) \<in> set (map fst command_refusal_kinds)"

section \<open>Parity\<close>

lemma all_command_kinds: "k \<in> set ALL_COMMAND_KINDS"
  by (cases k) (simp_all add: ALL_COMMAND_KINDS_def)

lemma all_refusal_kinds: "k \<in> set ALL_REFUSAL_KINDS"
  by (cases k) (simp_all add: ALL_REFUSAL_KINDS_def)

lemma surface_numbers: "surface_number s \<in> set (map fst command_refusal_surface_kinds)"
  by (cases s) (simp_all add: command_refusal_surface_kinds_def)

lemma command_rows: "map (\<lambda>k. (command_number k, command_name k)) ALL_COMMAND_KINDS = command_refusal_command_kinds"
  by (simp add: ALL_COMMAND_KINDS_def command_refusal_command_kinds_def)

lemma refusal_rows: "map (\<lambda>k. (refusal_number k, refusal_name k)) ALL_REFUSAL_KINDS = command_refusal_kinds"
  by (simp add: ALL_REFUSAL_KINDS_def command_refusal_kinds_def)

text \<open>The catalogue tables and the enumerations agree: each kind has exactly its own row, no row stands for two kinds, and so
  a bucket never fails on its references.\<close>

theorem catalogue_parity:
  "map (\<lambda>k. (command_number k, command_name k)) ALL_COMMAND_KINDS = command_refusal_command_kinds
   \<and> map (\<lambda>k. (refusal_number k, refusal_name k)) ALL_REFUSAL_KINDS = command_refusal_kinds
   \<and> distinct (map fst command_refusal_command_kinds) \<and> distinct (map fst command_refusal_kinds)
   \<and> set ALL_COMMAND_KINDS = UNIV \<and> set ALL_REFUSAL_KINDS = UNIV
   \<and> (\<forall>e. bucket_references_ok (envelope_key e))"
proof -
  have refs: "bucket_references_ok (envelope_key e)" for e
    using all_command_kinds all_refusal_kinds surface_numbers
    unfolding bucket_references_ok_def command_rows [symmetric] refusal_rows [symmetric] by (simp add: image_image)
  have "distinct (map fst command_refusal_command_kinds)" "distinct (map fst command_refusal_kinds)" by code_simp+
  then show ?thesis using refs command_rows refusal_rows all_command_kinds all_refusal_kinds by blast
qed

end
