(* ===== verification/Outbox.thy ===== *)
theory Outbox
  imports Records
begin

text \<open>
  The delivery of outbox intents, \<^verbatim>\<open>workers.rs\<close>: a batch is claimed by a lease, a notification row is checked, and its
  notification and its mark are written together; a row that can never be delivered is set aside.  The rows of Paykit, whose
  delivery talks to that service, go to the argument \<open>paykit\<close>.  A payload is the stored JSON.
\<close>

section \<open>Tables\<close>

record outbox_entry =
  oe_id :: int
  oe_event_id :: uuid
  oe_kind :: string
  oe_payload :: json
  oe_created_at :: datetime
  oe_lease_until :: "datetime option"
  oe_delivered_at :: "datetime option"
  oe_quarantined_at :: "datetime option"
  oe_quarantine_reason :: "string option"

record notification_row =
  nt_id :: uuid
  nt_event_id :: uuid
  nt_recipient_pubky :: string
  nt_actor_pubky :: string
  nt_type :: string
  nt_aggregate_id :: string
  nt_amount :: "json option"
  nt_review_reason :: "string option"
  nt_created_at :: datetime

record outbox_db =
  ox_rows :: "outbox_entry list"
  ox_notifications :: "notification_row list"
  ox_next_uuid :: nat

definition OUTBOX_BATCH_SIZE :: nat where "OUTBOX_BATCH_SIZE = 100"

section \<open>Claims\<close>

definition claimable :: "datetime \<Rightarrow> outbox_entry \<Rightarrow> bool" where
  "claimable now r \<longleftrightarrow>
     oe_delivered_at r = None \<and> oe_quarantined_at r = None
     \<and> (case oe_lease_until r of None \<Rightarrow> True | Some t \<Rightarrow> t \<le> now)"

definition claim_outbox_batch :: "datetime \<Rightarrow> int \<Rightarrow> outbox_db \<Rightarrow> outbox_entry list \<times> outbox_db" where
  "claim_outbox_batch now lease_seconds d =
     (let chosen = take OUTBOX_BATCH_SIZE (sort_by (\<lambda>a b. oe_id a \<le> oe_id b) (filter (claimable now) (ox_rows d)));
          stamp = (\<lambda>r. r\<lparr>oe_lease_until := Some (now + seconds lease_seconds)\<rparr>)
      in (map stamp chosen,
          d\<lparr>ox_rows := map (\<lambda>r. if oe_id r \<in> set (map oe_id chosen) then stamp r else r) (ox_rows d)\<rparr>))"

section \<open>Intents\<close>

datatype outbox_quarantine = UnroutableKind | MissingRecipientPubky | MissingActorPubky | MissingAggregateId

fun quarantine_as_str :: "outbox_quarantine \<Rightarrow> string" where
  "quarantine_as_str UnroutableKind = ''unroutable_kind''"
| "quarantine_as_str MissingRecipientPubky = ''missing_recipient_pubky''"
| "quarantine_as_str MissingActorPubky = ''missing_actor_pubky''"
| "quarantine_as_str MissingAggregateId = ''missing_aggregate_id''"

definition review_notices :: "string list" where
  "review_notices = [''late_settlement'', ''amount_mismatch'', ''confirmation_failed'', ''seller_confirmation_window_elapsed'',
     ''seller_response_overdue'']"

record notification_intent =
  ni_type :: string
  ni_recipient :: string
  ni_actor :: string
  ni_aggregate_id :: string
  ni_amount :: "json option"
  ni_review_reason :: "string option"

text \<open>Indexing a JSON value by a key it does not have gives \<open>null\<close>.\<close>

definition json_field :: "json \<Rightarrow> string \<Rightarrow> json" where
  "json_field v k = (case json_get v k of Some x \<Rightarrow> x | None \<Rightarrow> JNull)"

definition required_field :: "json \<Rightarrow> string \<Rightarrow> outbox_quarantine \<Rightarrow> outbox_quarantine + string" where
  "required_field payload k missing =
     (case as_str (json_field payload k) of
        Some v \<Rightarrow> if v = [] then Inl missing else Inr v
      | None \<Rightarrow> Inl missing)"

definition intent_amount :: "json \<Rightarrow> json option" where
  "intent_amount payload = (let v = json_field payload ''amount'' in if v = JNull then None else Some v)"

definition intent_review_reason :: "json \<Rightarrow> string option" where
  "intent_review_reason payload =
     Option.bind (as_str (json_field payload ''review_reason'')) (\<lambda>v. if v \<in> set review_notices then Some v else None)"

definition notification_intent_of :: "outbox_entry \<Rightarrow> outbox_quarantine + notification_intent" where
  "notification_intent_of r =
     (case strip_prefix ''notification.'' (oe_kind r) of
        None \<Rightarrow> Inl UnroutableKind
      | Some kind \<Rightarrow>
          if kind = [] then Inl UnroutableKind
          else case required_field (oe_payload r) ''recipient_pubky'' MissingRecipientPubky of
            Inl e \<Rightarrow> Inl e
          | Inr recipient \<Rightarrow>
              (case required_field (oe_payload r) ''actor_pubky'' MissingActorPubky of
                 Inl e \<Rightarrow> Inl e
               | Inr actor \<Rightarrow>
                   (case required_field (oe_payload r) ''aggregate_id'' MissingAggregateId of
                      Inl e \<Rightarrow> Inl e
                    | Inr aggregate_id \<Rightarrow>
                        Inr \<lparr>ni_type = kind, ni_recipient = recipient, ni_actor = actor, ni_aggregate_id = aggregate_id,
                             ni_amount = intent_amount (oe_payload r), ni_review_reason = intent_review_reason (oe_payload r)\<rparr>)))"

section \<open>Delivery\<close>

definition quarantine_outbox_row :: "int \<Rightarrow> outbox_quarantine \<Rightarrow> datetime \<Rightarrow> outbox_db \<Rightarrow> outbox_db" where
  "quarantine_outbox_row row_id reason now d =
     d\<lparr>ox_rows := map (\<lambda>r. if oe_id r = row_id \<and> oe_delivered_at r = None
                           then r\<lparr>oe_quarantined_at := Some now, oe_quarantine_reason := Some (quarantine_as_str reason),
                                  oe_lease_until := None\<rparr> else r) (ox_rows d)\<rparr>"

definition new_notification :: "uuid \<Rightarrow> outbox_entry \<Rightarrow> notification_intent \<Rightarrow> datetime \<Rightarrow> notification_row" where
  "new_notification i r n now =
     \<lparr>nt_id = i, nt_event_id = oe_event_id r, nt_recipient_pubky = ni_recipient n, nt_actor_pubky = ni_actor n, nt_type = ni_type n,
      nt_aggregate_id = ni_aggregate_id n, nt_amount = ni_amount n, nt_review_reason = ni_review_reason n, nt_created_at = now\<rparr>"

text \<open>\<open>ON CONFLICT (event_id, recipient_pubky) DO NOTHING\<close>.\<close>

definition insert_notification_once :: "notification_row \<Rightarrow> outbox_db \<Rightarrow> outbox_db" where
  "insert_notification_once n d =
     (if list_ex (\<lambda>m. nt_event_id m = nt_event_id n \<and> nt_recipient_pubky m = nt_recipient_pubky n) (ox_notifications d) then d
      else d\<lparr>ox_notifications := ox_notifications d @ [n]\<rparr>)"

definition mark_delivered :: "int \<Rightarrow> datetime \<Rightarrow> outbox_db \<Rightarrow> outbox_db" where
  "mark_delivered row_id now d =
     d\<lparr>ox_rows := map (\<lambda>r. if oe_id r = row_id then r\<lparr>oe_delivered_at := Some now\<rparr> else r) (ox_rows d)\<rparr>"

definition is_paykit_row :: "outbox_entry \<Rightarrow> bool" where
  "is_paykit_row r \<longleftrightarrow> oe_kind r \<in> set [''paykit.activate'', ''paykit.void'']"

text \<open>One notification row: whether it was delivered.\<close>

definition deliver_notification :: "(nat \<Rightarrow> uuid) \<Rightarrow> datetime \<Rightarrow> outbox_entry \<Rightarrow> outbox_db \<Rightarrow> bool \<times> outbox_db" where
  "deliver_notification new_v4 now r d =
     (case notification_intent_of r of
        Inl reason \<Rightarrow> (False, quarantine_outbox_row (oe_id r) reason now d)
      | Inr intent \<Rightarrow>
          (True, mark_delivered (oe_id r) now
                   (insert_notification_once (new_notification (new_v4 (ox_next_uuid d)) r intent now)
                      (d\<lparr>ox_next_uuid := Suc (ox_next_uuid d)\<rparr>))))"

type_synonym paykit_delivery = "outbox_entry \<Rightarrow> datetime \<Rightarrow> outbox_db \<Rightarrow> (string + bool) \<times> outbox_db"

text \<open>\<open>deliver_claimed\<close>: an error of a Paykit delivery ends the batch; what was delivered before stays.\<close>

fun deliver_claimed ::
  "(nat \<Rightarrow> uuid) \<Rightarrow> paykit_delivery option \<Rightarrow> outbox_entry list \<Rightarrow> datetime \<Rightarrow> nat \<Rightarrow> outbox_db \<Rightarrow> (string + nat) \<times> outbox_db" where
  "deliver_claimed new_v4 paykit [] now delivered d = (Inr delivered, d)"
| "deliver_claimed new_v4 paykit (r # rs) now delivered d =
     (if is_paykit_row r
      then case paykit of
             None \<Rightarrow> deliver_claimed new_v4 paykit rs now delivered d
           | Some deliver \<Rightarrow>
               (case deliver r now d of
                  (Inl e, d1) \<Rightarrow> (Inl e, d1)
                | (Inr done, d1) \<Rightarrow> deliver_claimed new_v4 paykit rs now (if done then Suc delivered else delivered) d1)
      else let (done, d1) = deliver_notification new_v4 now r d
           in deliver_claimed new_v4 paykit rs now (if done then Suc delivered else delivered) d1)"

definition drain_outbox ::
  "(nat \<Rightarrow> uuid) \<Rightarrow> paykit_delivery option \<Rightarrow> datetime \<Rightarrow> int \<Rightarrow> outbox_db \<Rightarrow> (string + nat) \<times> outbox_db" where
  "drain_outbox new_v4 paykit now lease_seconds d =
     (let (claimed, d1) = claim_outbox_batch now lease_seconds d in deliver_claimed new_v4 paykit claimed now 0 d1)"

section \<open>Interleaving\<close>

text \<open>The outbox under any number of workers: an intent is written, a batch is claimed, and a row claimed at some time,
  possibly long ago, is delivered.  The second component is every row that was ever claimed.\<close>

inductive outbox_step ::
  "(nat \<Rightarrow> uuid) \<Rightarrow> outbox_db \<times> outbox_entry list \<Rightarrow> outbox_db \<times> outbox_entry list \<Rightarrow> bool" for new_v4 where
  written: "oe_id r \<notin> oe_id ` set (ox_rows d) \<Longrightarrow> oe_delivered_at r = None \<Longrightarrow> oe_quarantined_at r = None \<Longrightarrow>
    outbox_step new_v4 (d, claims) (d\<lparr>ox_rows := ox_rows d @ [r]\<rparr>, claims)"
| claimed: "claim_outbox_batch now lease_seconds d = (rows, d') \<Longrightarrow> outbox_step new_v4 (d, claims) (d', rows @ claims)"
| delivered: "r \<in> set claims \<Longrightarrow> \<not> is_paykit_row r \<Longrightarrow>
    outbox_step new_v4 (d, claims) (snd (deliver_notification new_v4 now r d), claims)"

inductive outbox_run ::
  "(nat \<Rightarrow> uuid) \<Rightarrow> outbox_db \<times> outbox_entry list \<Rightarrow> outbox_db \<times> outbox_entry list \<Rightarrow> bool" for new_v4 s where
  none: "outbox_run new_v4 s s"
| more: "outbox_run new_v4 s t \<Longrightarrow> outbox_step new_v4 t u \<Longrightarrow> outbox_run new_v4 s u"

end
