(* ===== verification/Outbox_Facts.thy ===== *)
theory Outbox_Facts
  imports Outbox Reservations
begin

text \<open>
  What the outbox promises however workers interleave: an intent becomes one notification and no other, a delivered row has
  its notification, only a row that can never be delivered is set aside, and each drain settles every row it claims.
\<close>

section \<open>Vocabulary\<close>

text \<open>The content of a row, which no step changes.\<close>

definition row_content :: "outbox_entry \<Rightarrow> int \<times> uuid \<times> string \<times> json" where
  "row_content r = (oe_id r, oe_event_id r, oe_kind r, oe_payload r)"

definition notification_key :: "notification_row \<Rightarrow> uuid \<times> string" where
  "notification_key n = (nt_event_id n, nt_recipient_pubky n)"

definition settled :: "outbox_entry \<Rightarrow> bool" where
  "settled r \<longleftrightarrow> oe_delivered_at r \<noteq> None \<or> oe_quarantined_at r \<noteq> None"

text \<open>The notification \<open>n\<close> is the one the row asks for.\<close>

definition tells :: "notification_row \<Rightarrow> outbox_entry \<Rightarrow> bool" where
  "tells n r \<longleftrightarrow> (\<exists>intent. notification_intent_of r = Inr intent \<and> n = new_notification (nt_id n) r intent (nt_created_at n))"

definition told :: "outbox_db \<Rightarrow> outbox_entry \<Rightarrow> bool" where
  "told d r \<longleftrightarrow>
     (\<exists>intent. notification_intent_of r = Inr intent
        \<and> (oe_event_id r, ni_recipient intent) \<in> notification_key ` set (ox_notifications d))"

definition outbox_ok :: "outbox_db \<Rightarrow> bool" where
  "outbox_ok d \<longleftrightarrow>
     distinct (map oe_id (ox_rows d)) \<and> distinct (map notification_key (ox_notifications d))
     \<and> (\<forall>r \<in> set (ox_rows d). oe_delivered_at r \<noteq> None \<longrightarrow> told d r)
     \<and> (\<forall>r \<in> set (ox_rows d). oe_quarantined_at r \<noteq> None \<longrightarrow>
          oe_delivered_at r = None
          \<and> (\<exists>reason. notification_intent_of r = Inl reason \<and> oe_quarantine_reason r = Some (quarantine_as_str reason)))
     \<and> (\<forall>n \<in> set (ox_notifications d). \<exists>r \<in> set (ox_rows d). oe_delivered_at r \<noteq> None \<and> tells n r)"

definition empty_outbox :: outbox_db where
  "empty_outbox = \<lparr>ox_rows = [], ox_notifications = [], ox_next_uuid = 0\<rparr>"

section \<open>Rows keep their content\<close>

lemma intent_content: "row_content r = row_content r' \<Longrightarrow> notification_intent_of r = notification_intent_of r'"
proof -
  assume "row_content r = row_content r'"
  then have "oe_kind r = oe_kind r'" "oe_payload r = oe_payload r'" by (simp_all add: row_content_def)
  then show ?thesis by (simp only: notification_intent_of_def)
qed

lemma new_notification_content:
  "row_content r = row_content r' \<Longrightarrow> new_notification i r n now = new_notification i r' n now"
  by (simp add: row_content_def new_notification_def)

lemma tells_content: "row_content r = row_content r' \<Longrightarrow> tells n r = tells n r'"
  by (simp add: tells_def intent_content [of r r'] new_notification_content [of r r'])

lemma told_content:
  "row_content r = row_content r' \<Longrightarrow> ox_notifications d = ox_notifications d' \<Longrightarrow> told d r = told d' r'"
  by (simp add: told_def intent_content [of r r']) (simp add: row_content_def)

lemma told_mono: "set (ox_notifications d) \<subseteq> set (ox_notifications d') \<Longrightarrow> told d r \<Longrightarrow> told d' r"
  unfolding told_def by blast

text \<open>A step that only stamps rows, without settling one.\<close>

lemma outbox_ok_stamp:
  assumes ok: "outbox_ok d"
    and g: "\<And>r. row_content (g r) = row_content r" "\<And>r. oe_delivered_at (g r) = oe_delivered_at r"
      "\<And>r. oe_quarantined_at (g r) = oe_quarantined_at r" "\<And>r. oe_quarantine_reason (g r) = oe_quarantine_reason r"
  shows "outbox_ok (d\<lparr>ox_rows := map g (ox_rows d)\<rparr>)"
proof -
  let ?d = "d\<lparr>ox_rows := map g (ox_rows d)\<rparr>"
  have id: "oe_id (g r) = oe_id r" for r using g(1) by (simp add: row_content_def)
  have told: "told ?d (g r) = told d r" for r using told_content [OF g(1), of ?d d] by simp
  show ?thesis
    using ok by (simp add: outbox_ok_def o_def id told g intent_content [OF g(1)] tells_content [OF g(1)])
qed

lemma claim_ok:
  assumes "outbox_ok d" "claim_outbox_batch now lease_seconds d = (rows, d')"
  shows "outbox_ok d'"
proof -
  have d': "\<exists>c s. d' = d\<lparr>ox_rows := map (\<lambda>r. if c r then r\<lparr>oe_lease_until := s\<rparr> else r) (ox_rows d)\<rparr>"
    using assms(2) by (auto simp: claim_outbox_batch_def Let_def)
  then show ?thesis using outbox_ok_stamp [OF assms(1)] by (auto simp: row_content_def)
qed

lemma claimed_rows:
  assumes "claim_outbox_batch now lease_seconds d = (rows, d')"
  shows "row_content ` set (ox_rows d') = row_content ` set (ox_rows d)" "row_content ` set rows \<subseteq> row_content ` set (ox_rows d)"
proof -
  show "row_content ` set (ox_rows d') = row_content ` set (ox_rows d)"
  proof -
    have "map row_content (ox_rows d') = map row_content (ox_rows d)"
      using assms by (auto simp: claim_outbox_batch_def Let_def row_content_def)
    then show ?thesis by (metis list.set_map)
  qed
  show "row_content ` set rows \<subseteq> row_content ` set (ox_rows d)"
    using assms by (auto simp: claim_outbox_batch_def Let_def row_content_def image_image dest!: in_set_takeD)
qed

section \<open>One delivery\<close>

text \<open>The row of an id.\<close>

lemma row_of_id:
  assumes "outbox_ok d" "r \<in> set (ox_rows d)" "r' \<in> set (ox_rows d)" "oe_id r = oe_id r'"
  shows "r = r'"
  using assms by (metis distinct_map inj_onD outbox_ok_def)

text \<open>The writes of a delivery touch the row of that id only.\<close>

lemma quarantine_ok:
  assumes ok: "outbox_ok d" and c: "c \<in> set (ox_rows d)" "row_content r = row_content c"
    and i: "notification_intent_of r = Inl reason"
  shows "outbox_ok (quarantine_outbox_row (oe_id r) reason now d)"
proof -
  let ?g = "\<lambda>x. if oe_id x = oe_id r \<and> oe_delivered_at x = None
    then x\<lparr>oe_quarantined_at := Some now, oe_quarantine_reason := Some (quarantine_as_str reason), oe_lease_until := None\<rparr> else x"
  let ?d = "quarantine_outbox_row (oe_id r) reason now d"
  have id: "oe_id c = oe_id r" using c(2) by (simp add: row_content_def)
  have d: "ox_rows ?d = map ?g (ox_rows d)" "ox_notifications ?d = ox_notifications d"
    by (simp_all add: quarantine_outbox_row_def)
  have g: "row_content (?g x) = row_content x" "oe_delivered_at (?g x) = oe_delivered_at x" for x by (simp_all add: row_content_def)
  have ids: "map oe_id (map ?g (ox_rows d)) = map oe_id (ox_rows d)" by simp
  have told: "told ?d (?g x) = told d x" for x by (rule told_content [OF g(1) d(2)])
  have "notification_intent_of x = Inl reason" if "x \<in> set (ox_rows d)" "oe_id x = oe_id r" for x
    using row_of_id [OF ok that(1) c(1)] that(2) id i intent_content [OF c(2)] by simp
  then have q: "oe_delivered_at x = None
      \<and> (\<exists>why. notification_intent_of (?g x) = Inl why \<and> oe_quarantine_reason (?g x) = Some (quarantine_as_str why))"
    if "x \<in> set (ox_rows d)" "oe_quarantined_at (?g x) \<noteq> None" for x
    using that ok intent_content [OF g(1), of x] by (auto simp: outbox_ok_def split: if_splits)
  have "distinct (map oe_id (ox_rows ?d))" "distinct (map notification_key (ox_notifications ?d))"
    using ok by (simp_all only: d ids outbox_ok_def)
  moreover have "\<forall>x \<in> set (ox_rows ?d). oe_delivered_at x \<noteq> None \<longrightarrow> told ?d x"
    unfolding d(1) set_map ball_simps told g(2) using ok by (simp only: outbox_ok_def) blast
  moreover have "\<forall>x \<in> set (ox_rows ?d). oe_quarantined_at x \<noteq> None \<longrightarrow> oe_delivered_at x = None
      \<and> (\<exists>why. notification_intent_of x = Inl why \<and> oe_quarantine_reason x = Some (quarantine_as_str why))"
    unfolding d(1) set_map ball_simps g(2) using q by blast
  moreover have "\<forall>m \<in> set (ox_notifications ?d). \<exists>x \<in> set (ox_rows ?d). oe_delivered_at x \<noteq> None \<and> tells m x"
    unfolding d set_map bex_simps g(2) tells_content [OF g(1)] using ok by (simp only: outbox_ok_def) blast
  ultimately show ?thesis unfolding outbox_ok_def by blast
qed

lemma deliver_ok:
  assumes ok: "outbox_ok d" and c: "c \<in> set (ox_rows d)" "row_content r = row_content c"
    and i: "notification_intent_of r = Inr intent"
  shows "outbox_ok (mark_delivered (oe_id r) now
    (insert_notification_once (new_notification i' r intent now) (d\<lparr>ox_next_uuid := n\<rparr>)))"
proof -
  let ?n = "new_notification i' r intent now"
  let ?g = "\<lambda>x. if oe_id x = oe_id r then x\<lparr>oe_delivered_at := Some now\<rparr> else x"
  let ?d = "mark_delivered (oe_id r) now (insert_notification_once ?n (d\<lparr>ox_next_uuid := n\<rparr>))"
  have id: "oe_id c = oe_id r" using c(2) by (simp add: row_content_def)
  have rows: "ox_rows ?d = map ?g (ox_rows d)" by (simp add: mark_delivered_def insert_notification_once_def)
  have key: "notification_key ?n = (oe_event_id r, ni_recipient intent)" by (simp add: notification_key_def new_notification_def)
  have there: "list_ex (\<lambda>m. nt_event_id m = nt_event_id ?n \<and> nt_recipient_pubky m = nt_recipient_pubky ?n) (ox_notifications d)
      \<longleftrightarrow> notification_key ?n \<in> notification_key ` set (ox_notifications d)"
    unfolding list_ex_iff notification_key_def image_iff by (metis prod.inject)
  have ntf: "ox_notifications ?d = (if notification_key ?n \<in> notification_key ` set (ox_notifications d)
      then ox_notifications d else ox_notifications d @ [?n])"
    using there by (simp add: mark_delivered_def insert_notification_once_def)
  have g: "row_content (?g x) = row_content x" "oe_quarantined_at (?g x) = oe_quarantined_at x"
    "oe_quarantine_reason (?g x) = oe_quarantine_reason x" for x
    by (simp_all add: row_content_def)
  have same: "row_content x = row_content r" if "x \<in> set (ox_rows d)" "oe_id x = oe_id r" for x
    using row_of_id [OF ok that(1) c(1)] that(2) id c(2) by simp
  have "told ?d r" unfolding told_def using i key ntf by auto
  then have r: "told ?d x" if "row_content x = row_content r" for x using told_content [OF that refl] by simp
  have more: "set (ox_notifications d) \<subseteq> set (ox_notifications ?d)" by (auto simp: ntf)
  have told: "told ?d (?g x)" if "x \<in> set (ox_rows d)" "oe_delivered_at (?g x) \<noteq> None" for x
  proof (cases "oe_id x = oe_id r")
    case True
    then show ?thesis using r [of "?g x"] g(1) [of x] same [OF that(1)] by simp
  next
    case False
    then have "told d x" using that ok by (simp add: outbox_ok_def)
    then show ?thesis using told_mono [OF more] False by simp
  qed
  have q: "oe_delivered_at (?g x) = None
      \<and> (\<exists>why. notification_intent_of (?g x) = Inl why \<and> oe_quarantine_reason (?g x) = Some (quarantine_as_str why))"
    if "x \<in> set (ox_rows d)" "oe_quarantined_at (?g x) \<noteq> None" for x
  proof -
    have old: "oe_delivered_at x = None \<and> (\<exists>why. notification_intent_of x = Inl why
        \<and> oe_quarantine_reason x = Some (quarantine_as_str why))"
      using that ok by (auto simp: outbox_ok_def g)
    then have "oe_id x \<noteq> oe_id r" using same [OF that(1)] intent_content [of x r] i by auto
    with old show ?thesis by simp
  qed
  have tells: "\<exists>x \<in> set (ox_rows d). oe_delivered_at (?g x) \<noteq> None \<and> tells m (?g x)" if "m \<in> set (ox_notifications ?d)" for m
  proof (cases "m \<in> set (ox_notifications d)")
    case True
    then obtain x where "x \<in> set (ox_rows d)" "oe_delivered_at x \<noteq> None" "tells m x" using ok by (auto simp: outbox_ok_def)
    then show ?thesis using tells_content [OF g(1)] by (intro bexI [of _ x]) auto
  next
    case False
    then have m: "m = ?n" using that ntf by (simp split: if_splits)
    have "tells m r" unfolding tells_def m using i by (simp add: new_notification_def)
    then have "tells m (?g c)" using tells_content [OF c(2)] tells_content [OF g(1), of m c] by simp
    then show ?thesis using c(1) id by (intro bexI [of _ c]) auto
  qed
  have "map oe_id (ox_rows ?d) = map oe_id (ox_rows d)" by (simp add: rows)
  then have "distinct (map oe_id (ox_rows ?d))" using ok by (simp only: outbox_ok_def)
  moreover have "distinct (map notification_key (ox_notifications ?d))" using ok ntf by (simp add: outbox_ok_def)
  moreover have "\<forall>x \<in> set (ox_rows ?d). oe_delivered_at x \<noteq> None \<longrightarrow> told ?d x" unfolding rows set_map ball_simps using told by blast
  moreover have "\<forall>x \<in> set (ox_rows ?d). oe_quarantined_at x \<noteq> None \<longrightarrow> oe_delivered_at x = None
      \<and> (\<exists>why. notification_intent_of x = Inl why \<and> oe_quarantine_reason x = Some (quarantine_as_str why))"
    unfolding rows set_map ball_simps using q by blast
  moreover have "\<forall>m \<in> set (ox_notifications ?d). \<exists>x \<in> set (ox_rows ?d). oe_delivered_at x \<noteq> None \<and> tells m x"
    unfolding rows set_map bex_simps using tells by blast
  ultimately show ?thesis unfolding outbox_ok_def by blast
qed

lemma content_stable:
  "row_content ` set (ox_rows (snd (deliver_notification new_v4 now r d))) = row_content ` set (ox_rows d)"
proof -
  have "map row_content (ox_rows (snd (deliver_notification new_v4 now r d))) = map row_content (ox_rows d)"
    by (simp add: deliver_notification_def quarantine_outbox_row_def mark_delivered_def insert_notification_once_def
        row_content_def split: sum.split)
  then show ?thesis by (metis list.set_map)
qed

lemma deliver_notification_ok:
  assumes "outbox_ok d" "row_content r \<in> row_content ` set (ox_rows d)"
  shows "outbox_ok (snd (deliver_notification new_v4 now r d))"
    "row_content ` set (ox_rows (snd (deliver_notification new_v4 now r d))) = row_content ` set (ox_rows d)"
proof -
  obtain c where c: "c \<in> set (ox_rows d)" "row_content r = row_content c" using assms(2) by blast
  show "outbox_ok (snd (deliver_notification new_v4 now r d))"
    using quarantine_ok [OF assms(1) c] deliver_ok [OF assms(1) c] by (simp add: deliver_notification_def split: sum.split)
  show "row_content ` set (ox_rows (snd (deliver_notification new_v4 now r d))) = row_content ` set (ox_rows d)"
    by (rule content_stable)
qed
section \<open>Runs\<close>

definition claims_ok :: "outbox_db \<Rightarrow> outbox_entry list \<Rightarrow> bool" where
  "claims_ok d claims \<longleftrightarrow> row_content ` set claims \<subseteq> row_content ` set (ox_rows d)"

lemma outbox_step_ok:
  assumes "outbox_step new_v4 s t" "outbox_ok (fst s)" "claims_ok (fst s) (snd s)"
  shows "outbox_ok (fst t) \<and> claims_ok (fst t) (snd t)"
  using assms
proof (cases rule: outbox_step.cases)
  case (written r d claims)
  have "told (d\<lparr>ox_rows := ox_rows d @ [r]\<rparr>) x = told d x" for x by (simp add: told_def)
  with written assms show ?thesis by (auto simp: outbox_ok_def claims_ok_def)
next
  case (claimed now lease_seconds d rows d' claims)
  with assms claim_ok [OF _ claimed(3)] claimed_rows [OF claimed(3)] show ?thesis by (auto simp: claims_ok_def)
next
  case (delivered r claims d now)
  then have "row_content r \<in> row_content ` set (ox_rows d)" using assms by (auto simp: claims_ok_def)
  with delivered assms deliver_notification_ok [of d r new_v4 now] show ?thesis by (simp add: claims_ok_def)
qed

lemma outbox_run_ok:
  assumes "outbox_run new_v4 s t" "outbox_ok (fst s)" "claims_ok (fst s) (snd s)"
  shows "outbox_ok (fst t) \<and> claims_ok (fst t) (snd t)"
  using assms by induction (use outbox_step_ok in blast)+

section \<open>A drain settles what it claims\<close>

lemma settled_after_delivery:
  assumes ok: "outbox_ok d" and c: "row_content r \<in> row_content ` set (ox_rows d)"
  shows "map settled (ox_rows (snd (deliver_notification new_v4 now r d)))
    = map (\<lambda>x. settled x \<or> oe_id x = oe_id r) (ox_rows d)"
proof (cases "notification_intent_of r")
  case (Inl reason)
  then show ?thesis by (auto simp: deliver_notification_def quarantine_outbox_row_def settled_def)
next
  case (Inr intent)
  then show ?thesis by (auto simp: deliver_notification_def mark_delivered_def insert_notification_once_def settled_def)
qed

lemma deliver_claimed_settles:
  assumes "outbox_ok d" "row_content ` set rows \<subseteq> row_content ` set (ox_rows d)" "\<forall>r \<in> set rows. \<not> is_paykit_row r"
  shows "\<exists>n d'. deliver_claimed new_v4 paykit rows now k d = (Inr n, d') \<and> outbox_ok d'
    \<and> map oe_id (ox_rows d') = map oe_id (ox_rows d)
    \<and> map settled (ox_rows d') = map (\<lambda>x. settled x \<or> oe_id x \<in> oe_id ` set rows) (ox_rows d)"
  using assms
proof (induction rows arbitrary: d k)
  case Nil
  then show ?case by simp
next
  case (Cons r rows)
  obtain b d1 where one: "deliver_notification new_v4 now r d = (b, d1)" by fastforce
  have r: "row_content r \<in> row_content ` set (ox_rows d)" using Cons.prems(2) by simp
  have ok: "outbox_ok d1" "row_content ` set (ox_rows d1) = row_content ` set (ox_rows d)"
    using deliver_notification_ok [OF Cons.prems(1) r, of new_v4 now] one by simp_all
  have ids: "map oe_id (ox_rows d1) = map oe_id (ox_rows d)"
    using one by (auto simp: deliver_notification_def quarantine_outbox_row_def mark_delivered_def
        insert_notification_once_def split: sum.splits)
  have s1: "map settled (ox_rows d1) = map (\<lambda>x. settled x \<or> oe_id x = oe_id r) (ox_rows d)"
    using settled_after_delivery [OF Cons.prems(1) r, of new_v4 now] one by simp
  have pre: "row_content ` set rows \<subseteq> row_content ` set (ox_rows d1)" "\<forall>r \<in> set rows. \<not> is_paykit_row r"
    using Cons.prems ok(2) by auto
  obtain n d' where rest: "deliver_claimed new_v4 paykit rows now (if b then Suc k else k) d1 = (Inr n, d')" "outbox_ok d'"
    "map oe_id (ox_rows d') = map oe_id (ox_rows d1)"
    "map settled (ox_rows d') = map (\<lambda>x. settled x \<or> oe_id x \<in> oe_id ` set rows) (ox_rows d1)"
    using Cons.IH [OF ok(1) pre] by blast
  have "map (\<lambda>x. settled x \<or> oe_id x \<in> oe_id ` set rows) (ox_rows d1)
      = map2 (\<lambda>s i. s \<or> i \<in> oe_id ` set rows) (map settled (ox_rows d1)) (map oe_id (ox_rows d1))"
    by (rule nth_equalityI) simp_all
  also have "\<dots> = map (\<lambda>x. settled x \<or> oe_id x \<in> oe_id ` set (r # rows)) (ox_rows d)"
    unfolding s1 ids by (rule nth_equalityI) auto
  finally show ?case using rest one ids Cons.prems(3) by (intro exI [of _ n] exI [of _ d']) (simp add: Let_def)
qed
lemma claimed_ids:
  assumes "claim_outbox_batch now lease_seconds d = (rows, d1)"
  shows "map settled (ox_rows d1) = map settled (ox_rows d)" "map oe_id (ox_rows d1) = map oe_id (ox_rows d)"
    "oe_id ` set rows = oe_id ` set (take OUTBOX_BATCH_SIZE (sort_by (\<lambda>a b. oe_id a \<le> oe_id b) (filter (claimable now) (ox_rows d))))"
  using assms by (auto simp: claim_outbox_batch_def Let_def settled_def image_image)

text \<open>The rows that became settled are counted by the ids that were claimed.\<close>

lemma count_settled:
  assumes "map settled rows' = map (\<lambda>x. settled x \<or> oe_id x \<in> S) rows"
  shows "length (filter (\<lambda>x. \<not> settled x) rows') = length (filter (\<lambda>x. \<not> settled x \<and> oe_id x \<notin> S) rows)"
proof -
  have "filter (\<lambda>b. \<not> b) (map settled rows') = filter (\<lambda>b. \<not> b) (map (\<lambda>x. settled x \<or> oe_id x \<in> S) rows)" by (simp only: assms)
  then have "length (filter (\<lambda>b. \<not> b) (map settled rows')) = length (filter (\<lambda>b. \<not> b) (map (\<lambda>x. settled x \<or> oe_id x \<in> S) rows))" by simp
  then show ?thesis by (simp add: filter_map o_def)
qed

text \<open>Claimable rows are unsettled, so leaving out some of them leaves the rest.\<close>

lemma count_left:
  assumes d: "distinct (map oe_id rows)" and c: "set cs \<subseteq> {x \<in> set rows. \<not> settled x}" "distinct (map oe_id cs)"
  shows "length (filter (\<lambda>x. \<not> settled x \<and> oe_id x \<notin> oe_id ` set cs) rows) = length (filter (\<lambda>x. \<not> settled x) rows) - length cs"
proof -
  have inj: "inj_on oe_id (set rows)" using d by (simp add: distinct_map)
  have len: "length (filter P rows) = card {x \<in> set rows. P x}" for P
    using d distinct_card [of "filter P rows"] by (simp add: distinct_map)
  have "{x \<in> set rows. \<not> settled x \<and> oe_id x \<notin> oe_id ` set cs} = {x \<in> set rows. \<not> settled x} - set cs"
    using c(1) inj by (auto dest: inj_onD)
  moreover have "card (set cs) = length cs" using c(2) distinct_card [of cs] by (simp add: distinct_map)
  ultimately show ?thesis using c(1) by (simp add: len card_Diff_subset)
qed

section \<open>The properties\<close>

definition sample_intent_row :: outbox_entry where
  "sample_intent_row =
     \<lparr>oe_id = 1, oe_event_id = ''e1'', oe_kind = ''notification.order_paid'',
      oe_payload = JObject [(''recipient_pubky'', JString ''seller''), (''actor_pubky'', JString ''buyer''), (''aggregate_id'', JString ''order:o1'')],
      oe_created_at = 0, oe_lease_until = None, oe_delivered_at = None, oe_quarantined_at = None, oe_quarantine_reason = None\<rparr>"

definition sample_broken_row :: outbox_entry where
  "sample_broken_row = sample_intent_row\<lparr>oe_id := 2, oe_payload := JObject []\<rparr>"

definition sample_outbox :: outbox_db where
  "sample_outbox = empty_outbox\<lparr>ox_rows := [sample_intent_row, sample_broken_row]\<rparr>"
lemma drain_run:
  assumes ok: "outbox_ok d" and plain: "\<forall>r \<in> set (ox_rows d). \<not> is_paykit_row r"
  shows "\<exists>n d'. drain_outbox new_v4 paykit now lease_seconds d = (Inr n, d') \<and> outbox_ok d'
    \<and> length (filter (\<lambda>r. \<not> settled r) (ox_rows d'))
      = length (filter (\<lambda>r. \<not> settled r) (ox_rows d)) - min OUTBOX_BATCH_SIZE (length (filter (claimable now) (ox_rows d)))"
proof -
  let ?cs = "take OUTBOX_BATCH_SIZE (sort_by (\<lambda>a b. oe_id a \<le> oe_id b) (filter (claimable now) (ox_rows d)))"
  obtain rows d1 where c: "claim_outbox_batch now lease_seconds d = (rows, d1)" by fastforce
  note r = claimed_rows [OF c] and i = claimed_ids [OF c]
  have "oe_kind ` set rows \<subseteq> oe_kind ` set (ox_rows d)"
    using image_mono [OF r(2), of "\<lambda>(_, _, kind, _). kind"] by (simp add: image_image row_content_def)
  then have plain': "\<forall>x \<in> set rows. \<not> is_paykit_row x" using plain by (fastforce simp: is_paykit_row_def)
  have sub: "row_content ` set rows \<subseteq> row_content ` set (ox_rows d1)" using r by simp
  obtain n d' where e: "deliver_claimed new_v4 paykit rows now 0 d1 = (Inr n, d')" "outbox_ok d'"
    "map settled (ox_rows d') = map (\<lambda>x. settled x \<or> oe_id x \<in> oe_id ` set rows) (ox_rows d1)"
    using deliver_claimed_settles [OF claim_ok [OF ok c] sub plain', of new_v4 paykit now 0] by blast
  have "map (\<lambda>x. settled x \<or> oe_id x \<in> oe_id ` set rows) (ox_rows d1)
      = map2 (\<lambda>s j. s \<or> j \<in> oe_id ` set rows) (map settled (ox_rows d1)) (map oe_id (ox_rows d1))"
    by (rule nth_equalityI) simp_all
  also have "\<dots> = map (\<lambda>x. settled x \<or> oe_id x \<in> oe_id ` set ?cs) (ox_rows d)"
    unfolding i by (rule nth_equalityI) auto
  finally have s: "map settled (ox_rows d') = map (\<lambda>x. settled x \<or> oe_id x \<in> oe_id ` set ?cs) (ox_rows d)" using e(3) by simp
  have ids: "distinct (map oe_id (ox_rows d))" using ok by (simp add: outbox_ok_def)
  then have "distinct (map oe_id (sort_by (\<lambda>a b. oe_id a \<le> oe_id b) (filter (claimable now) (ox_rows d))))"
    by (simp add: distinct_sort_by distinct_map_filter)
  from distinct_take [OF this, of OUTBOX_BATCH_SIZE] have "distinct (map oe_id ?cs)" by (simp only: take_map)
  moreover have "set ?cs \<subseteq> {x \<in> set (ox_rows d). \<not> settled x}" by (auto simp: claimable_def settled_def dest!: in_set_takeD)
  ultimately have "length (filter (\<lambda>x. \<not> settled x) (ox_rows d')) = length (filter (\<lambda>x. \<not> settled x) (ox_rows d)) - length ?cs"
    using trans [OF count_settled [OF s] count_left [OF ids, of ?cs]] by blast
  moreover have "length ?cs = min OUTBOX_BATCH_SIZE (length (filter (claimable now) (ox_rows d)))" by (simp add: min.commute)
  ultimately show ?thesis using e(1,2) c by (intro exI [of _ n] exI [of _ d']) (simp only: drain_outbox_def split_conv Let_def)
qed



text \<open>C21: A drain of the outbox answers and settles every row it claims: where no row is Paykit's, each pass lowers the
  number of unsettled rows by the number of claimable ones, a hundred at most.\<close>

theorem drain_makes_progress:
  assumes "outbox_ok d" "\<forall>r \<in> set (ox_rows d). \<not> is_paykit_row r"
  shows "\<exists>n d'. drain_outbox new_v4 paykit now lease_seconds d = (Inr n, d') \<and> outbox_ok d'
    \<and> length (filter (\<lambda>r. \<not> settled r) (ox_rows d'))
      = length (filter (\<lambda>r. \<not> settled r) (ox_rows d)) - min OUTBOX_BATCH_SIZE (length (filter (claimable now) (ox_rows d)))"
  by (rule drain_run [OF assms])

theorem drain_makes_progress_witness:
  "\<exists>n d'. drain_outbox (\<lambda>_. ''n'') None 10 5 sample_outbox = (Inr n, d') \<and> length (filter (\<lambda>r. \<not> settled r) (ox_rows d')) = 0"
proof -
  have ok: "outbox_ok sample_outbox" "\<forall>r \<in> set (ox_rows sample_outbox). \<not> is_paykit_row r"
    by (simp_all add: outbox_ok_def sample_outbox_def empty_outbox_def sample_intent_row_def sample_broken_row_def is_paykit_row_def)
  have "length (filter (\<lambda>r. \<not> settled r) (ox_rows sample_outbox)) = 2" "length (filter (claimable 10) (ox_rows sample_outbox)) = 2"
    by (simp_all add: sample_outbox_def empty_outbox_def sample_intent_row_def sample_broken_row_def settled_def claimable_def)
  with drain_makes_progress [OF ok, of "\<lambda>_. ''n''" None 10 5] show ?thesis by (auto simp: OUTBOX_BATCH_SIZE_def)
qed

end
