(* ===== verification/Sweeps.thy ===== *)
theory Sweeps
  imports Offers Orders Locks
begin

text \<open>
  The sweeps of \<^verbatim>\<open>workers.rs\<close> that run on server time and touch the database only: the leases that let one instance run a
  task, the expiry of offers and awards, the transitions of drops, the expiry of payment windows and idle checkouts, assumed
  deliveries and the completion of delivered orders.  A pass that commits in several transactions returns the committed
  database beside its answer, also when a later transaction fails.  Rows another transaction has locked are skipped by the
  code until the next pass; the model has no other transaction during a pass.  The expiry of an order whose Paykit invoice is
  being prepared talks to Paykit and is an argument.
\<close>

section \<open>Leases\<close>

record worker_lease =
  wl_task :: string
  wl_holder :: uuid
  wl_lease_until :: datetime
  wl_fence :: int

text \<open>\<open>INSERT ... ON CONFLICT (task) DO UPDATE ... WHERE ... RETURNING fence\<close>.\<close>

definition try_acquire_fenced_lease ::
  "string \<Rightarrow> uuid \<Rightarrow> datetime \<Rightarrow> int \<Rightarrow> worker_lease list \<Rightarrow> int option \<times> worker_lease list" where
  "try_acquire_fenced_lease task holder now lease_seconds leases =
     (let lease_until = now + seconds lease_seconds
      in case fetch wl_task task leases of
           None \<Rightarrow> (Some 1, leases @ [\<lparr>wl_task = task, wl_holder = holder, wl_lease_until = lease_until, wl_fence = 1\<rparr>])
         | Some l \<Rightarrow>
             if wl_lease_until l \<le> now \<or> wl_holder l = holder
             then (Some (wl_fence l + 1),
                   map (\<lambda>k. if wl_task k = task
                            then k\<lparr>wl_holder := holder, wl_lease_until := lease_until, wl_fence := wl_fence l + 1\<rparr> else k) leases)
             else (None, leases))"

definition try_acquire_lease ::
  "string \<Rightarrow> uuid \<Rightarrow> datetime \<Rightarrow> int \<Rightarrow> worker_lease list \<Rightarrow> bool \<times> worker_lease list" where
  "try_acquire_lease task holder now lease_seconds leases =
     map_prod (\<lambda>fence. fence \<noteq> None) id (try_acquire_fenced_lease task holder now lease_seconds leases)"

definition release_lease :: "string \<Rightarrow> uuid \<Rightarrow> datetime \<Rightarrow> worker_lease list \<Rightarrow> worker_lease list" where
  "release_lease task holder now =
     map (\<lambda>l. if wl_task l = task \<and> wl_holder l = holder then l\<lparr>wl_lease_until := now\<rparr> else l)"

definition release_fenced_lease :: "string \<Rightarrow> uuid \<Rightarrow> int \<Rightarrow> datetime \<Rightarrow> worker_lease list \<Rightarrow> worker_lease list" where
  "release_fenced_lease task holder fence now =
     map (\<lambda>l. if wl_task l = task \<and> wl_holder l = holder \<and> wl_fence l = fence
              then l\<lparr>wl_lease_until := min (wl_lease_until l) now\<rparr> else l)"

section \<open>Passes\<close>

text \<open>The loop over the due rows inside one transaction: how many a step reports done.\<close>

fun sweep_rows :: "('r \<Rightarrow> db \<Rightarrow> bool tx) \<Rightarrow> 'r list \<Rightarrow> nat \<Rightarrow> db \<Rightarrow> nat tx" where
  "sweep_rows step [] n d = Inr (n, d)"
| "sweep_rows step (r # rs) n d = seq (step r d) (\<lambda>done. sweep_rows step rs (if done then Suc n else n))"

text \<open>The loop over rows with a transaction each, where a failed one is logged and skipped.\<close>

fun each_in_turn :: "('r \<Rightarrow> db \<Rightarrow> bool tx) \<Rightarrow> 'r list \<Rightarrow> nat \<Rightarrow> db \<Rightarrow> nat \<times> db" where
  "each_in_turn step [] n d = (n, d)"
| "each_in_turn step (r # rs) n d =
     (case step r d of
        Inl _ \<Rightarrow> each_in_turn step rs n d
      | Inr (done, d1) \<Rightarrow> each_in_turn step rs (if done then Suc n else n) d1)"

type_synonym pass = "(db_error + nat) \<times> db"

section \<open>Offers\<close>

definition negotiating :: "offer_row \<Rightarrow> bool" where
  "negotiating r \<longleftrightarrow> ro_state r \<in> set [''pending'', ''countered'']"

definition expired_offer :: "string \<Rightarrow> datetime \<Rightarrow> offer_row \<Rightarrow> offer_row" where
  "expired_offer reason now r =
     r\<lparr>ro_state := ''expired'', ro_expiry_reason := Some reason, ro_revision := ro_revision r + 1, ro_updated_at := now\<rparr>"

definition due_offers :: "db \<Rightarrow> datetime \<Rightarrow> offer_row list" where
  "due_offers d now =
     sort_by (\<lambda>a b. ro_expires_at a \<le> ro_expires_at b) (filter (\<lambda>r. negotiating r \<and> ro_expires_at r \<le> now) (st_offers d))"

definition expire_due_offer :: "uuid_source \<Rightarrow> datetime \<Rightarrow> offer_row \<Rightarrow> db \<Rightarrow> bool tx" where
  "expire_due_offer new_v4 now offer d =
     seq (update_offers (\<lambda>r. ro_id r = ro_id offer \<and> negotiating r) (expired_offer ''negotiation_window'' now) d)
       (\<lambda>flipped d1.
          if length flipped \<noteq> 1 then Inr (False, d1)
          else seq (insert_event new_v4 (ro_id offer) (ro_aggregate_id offer) (ro_revision offer + 1) (ro_offered_by offer)
                      ''offer.expired'' now d1)
                 (\<lambda>_ d2. Inr (True, d2)))"

text \<open>A listing that had units left keeps its state.\<close>

definition award_released_row :: "int \<Rightarrow> datetime \<Rightarrow> listing_row \<Rightarrow> listing_row" where
  "award_released_row quantity now l =
     l\<lparr>ls_server_revision := ls_server_revision l + 1,
       ls_state := if ls_available_quantity l = 0 then ''available'' else ls_state l,
       ls_available_quantity := ls_available_quantity l + quantity, ls_reserved_quantity := ls_reserved_quantity l - quantity,
       ls_updated_at := now\<rparr>"

definition expire_due_award :: "uuid_source \<Rightarrow> datetime \<Rightarrow> uuid \<Rightarrow> db \<Rightarrow> bool tx" where
  "expire_due_award new_v4 now offer_id d =
     (case find (\<lambda>r. ro_id r = offer_id \<and> ro_state r = ''accepted''
                   \<and> (case ro_award_expires_at r of None \<Rightarrow> False | Some t \<Rightarrow> t \<le> now)) (st_offers d) of
        None \<Rightarrow> Inr (False, d)
      | Some offer \<Rightarrow>
          (case (ro_reservation_id offer, ro_award_id offer) of
             (Some reservation_id, Some award_id) \<Rightarrow>
               seq (update_reservations
                      (\<lambda>r. rv_id r = reservation_id \<and> rv_status r = ''active'' \<and> rv_offer_award_id r = Some award_id)
                      (\<lambda>r. r\<lparr>rv_status := ''expired'', rv_updated_at := now\<rparr>) d)
                 (\<lambda>flipped d1.
                    case flipped of
                      [] \<Rightarrow> Inl (Protocol ''award reservation is not active'')
                    | reservation # _ \<Rightarrow>
                        if rv_listing_aggregate_id reservation \<noteq> ro_listing_aggregate_id offer
                           \<or> rv_quantity reservation \<noteq> ro_quantity offer
                        then Inl (Protocol ''award reservation does not match its locked offer'')
                        else
                          seq (update_listings
                                 (\<lambda>l. ls_aggregate_id l = ro_listing_aggregate_id offer \<and> ro_quantity offer \<le> ls_reserved_quantity l)
                                 (award_released_row (ro_quantity offer) now) d1)
                            (\<lambda>listings d2.
                               if length listings \<noteq> 1
                               then Inl (Protocol ''award reservation inventory is not held by its listing'')
                               else
                                 seq (update_offers (\<lambda>r. ro_id r = ro_id offer \<and> ro_state r = ''accepted'')
                                        (expired_offer ''award_window'' now) d2)
                                   (\<lambda>offers d3.
                                      if length offers \<noteq> 1
                                      then Inl (Protocol ''locked accepted offer could not be expired'')
                                      else
                                        seq (insert_event new_v4 (ro_id offer) (ro_aggregate_id offer) (ro_revision offer + 1)
                                               (ro_offered_by offer) ''offer.expired'' now d3)
                                          (\<lambda>_ d4. Inr (True, d4)))))
           | _ \<Rightarrow> Inl (Protocol ''unexpected null'')))"

text \<open>Three attempts at an award; \<open>deadlocked\<close> says which of them the database aborts as a deadlock.\<close>

fun award_attempts :: "(nat \<Rightarrow> bool) \<Rightarrow> (db \<Rightarrow> bool tx) \<Rightarrow> nat list \<Rightarrow> db \<Rightarrow> bool tx" where
  "award_attempts deadlocked run [] d = Inr (False, d)"
| "award_attempts deadlocked run (n # rest) d =
     (if deadlocked n then if n < 2 then award_attempts deadlocked run rest d else Inl (Protocol ''deadlock'')
      else run d)"

definition expire_due_offers :: "(uuid \<Rightarrow> nat \<Rightarrow> bool) \<Rightarrow> uuid_source \<Rightarrow> datetime \<Rightarrow> db \<Rightarrow> pass" where
  "expire_due_offers deadlocked new_v4 now d =
     (case sweep_rows (expire_due_offer new_v4 now) (due_offers d now) 0 d of
        Inl e \<Rightarrow> (Inl e, d)
      | Inr (expired, d1) \<Rightarrow>
          (let due_awards = sort_by (\<lambda>a b. \<not> str_less b a)
                 (map ro_id (filter (\<lambda>r. ro_state r = ''accepted''
                    \<and> (case ro_award_expires_at r of None \<Rightarrow> False | Some t \<Rightarrow> t \<le> now)) (st_offers d1)));
               (n, d2) = each_in_turn (\<lambda>i. award_attempts (deadlocked i) (expire_due_award new_v4 now i) [0, 1, 2]) due_awards expired d1
           in (Inr n, d2)))"

section \<open>Drops\<close>

definition due_drops :: "db \<Rightarrow> datetime \<Rightarrow> drop_row list" where
  "due_drops d now =
     sort_by (\<lambda>a b. \<not> str_less (dr_aggregate_id b) (dr_aggregate_id a))
       (filter (\<lambda>r. dr_state r = ''announced'' \<and> dr_starts_at r \<le> now
                  \<or> dr_state r = ''live'' \<and> (case dr_ends_at r of None \<Rightarrow> False | Some t \<Rightarrow> t \<le> now)) (st_drops d))"

definition transition_due_drop :: "uuid_source \<Rightarrow> datetime \<Rightarrow> drop_row \<Rightarrow> db \<Rightarrow> bool tx" where
  "transition_due_drop new_v4 now drp d =
     (let (command_id, d1) = draw_uuid new_v4 d
      in seq (apply_time_transitions new_v4 drp command_id now d1)
           (\<lambda>after d2. Inr (dr_state after \<noteq> dr_state drp, d2)))"

definition transition_due_drops :: "uuid_source \<Rightarrow> datetime \<Rightarrow> db \<Rightarrow> nat tx" where
  "transition_due_drops new_v4 now d = sweep_rows (transition_due_drop new_v4 now) (due_drops d now) 0 d"

section \<open>Payment windows\<close>

definition held_due_order :: "datetime \<Rightarrow> order_row \<Rightarrow> bool" where
  "held_due_order now o' \<longleftrightarrow>
     or_state o' = ''pending_payment'' \<and> or_stock_held o'
     \<and> (case or_hold_expires_at o' of None \<Rightarrow> True | Some t \<Rightarrow> t \<le> now)
     \<and> or_paykit_activation_state o' \<noteq> Some ''preparing''
     \<and> or_paykit_request_state o' \<noteq> Some ''awaiting_seller_confirmation''"

definition idle_unbound_order :: "datetime \<Rightarrow> order_row \<Rightarrow> bool" where
  "idle_unbound_order cutoff o' \<longleftrightarrow>
     or_state o' = ''pending_payment'' \<and> \<not> or_stock_held o' \<and> or_payment_method o' = None
     \<and> or_auction_aggregate_id o' = None \<and> or_drop_aggregate_id o' = None \<and> or_created_at o' \<le> cutoff"

text \<open>\<open>ORDER BY hold_expires_at NULLS FIRST\<close>.\<close>

definition hold_before :: "order_row \<Rightarrow> order_row \<Rightarrow> bool" where
  "hold_before a b =
     (case (or_hold_expires_at a, or_hold_expires_at b) of
        (None, _) \<Rightarrow> True | (Some _, None) \<Rightarrow> False | (Some x, Some y) \<Rightarrow> x \<le> y)"

text \<open>\<open>orders o JOIN payments p ON p.order_id = o.id WHERE ...\<close>.\<close>

definition order_payments ::
  "(order_row \<Rightarrow> bool) \<Rightarrow> (payment_row \<Rightarrow> bool) \<Rightarrow> db \<Rightarrow> (order_row \<times> payment_row) list" where
  "order_payments P Q d = [(o', p). o' \<leftarrow> st_orders d, P o', p \<leftarrow> st_payments d, pm_order_id p = or_id o' \<and> Q p]"

definition due_held_orders :: "db \<Rightarrow> datetime \<Rightarrow> (order_row \<times> payment_row) list" where
  "due_held_orders d now =
     sort_by (\<lambda>a b. hold_before (fst a) (fst b))
       (order_payments (held_due_order now) (\<lambda>p. pm_state p \<in> set [''awaiting_entitlement'', ''detected'', ''expired'']) d)"

definition lock_sweep_order :: "(order_row \<Rightarrow> bool) \<Rightarrow> uuid \<Rightarrow> db \<Rightarrow> bool" where
  "lock_sweep_order predicate order_id d \<longleftrightarrow> list_ex (\<lambda>o'. predicate o' \<and> or_id o' = order_id) (st_orders d)"

definition insert_observation :: "uuid \<Rightarrow> string \<Rightarrow> string \<Rightarrow> datetime \<Rightarrow> db \<Rightarrow> db" where
  "insert_observation correlation_id status outcome now d =
     d\<lparr>st_locks_observations := st_locks_observations d @ [(correlation_id, status, outcome, now)]\<rparr>"

text \<open>What the sweep tolerates: a hold without a deadline whose units are not accounted for.\<close>

definition tolerated :: "order_row \<Rightarrow> string \<Rightarrow> (command_failure + unit) tx \<Rightarrow> unit tx" where
  "tolerated order message r =
     seq r (\<lambda>answer d. case answer of
        Inr _ \<Rightarrow> Inr ((), d)
      | Inl _ \<Rightarrow> if or_hold_expires_at order = None then Inr ((), d) else Inl (Protocol message))"

definition release_due_hold :: "order_row \<Rightarrow> datetime \<Rightarrow> db \<Rightarrow> unit tx" where
  "release_due_hold order now d =
     seq (tolerated order ''expired order could not credit its drop'' (credit_order_drop order now d))
       (\<lambda>_ d1. tolerated order ''expired order could not release its hold'' (release_lines order Reserved now d1))"

definition cancelled_by_sweep :: "string \<Rightarrow> datetime \<Rightarrow> order_row \<Rightarrow> order_row" where
  "cancelled_by_sweep reason now r =
     r\<lparr>or_state := ''cancelled'', or_revision := or_revision r + 1, or_cancellation_reason := Some reason,
       or_stock_held := False, or_hold_expires_at := None, or_updated_at := now\<rparr>"

definition cancel_swept_order :: "uuid_source \<Rightarrow> uuid \<Rightarrow> string \<Rightarrow> uuid \<Rightarrow> pubky \<Rightarrow> datetime \<Rightarrow> db \<Rightarrow> unit tx" where
  "cancel_swept_order new_v4 command_id reason order_id buyer now d =
     seq (fetch_one (update_orders (\<lambda>r. or_id r = order_id) (cancelled_by_sweep reason now) d))
       (\<lambda>row d1.
          seq (insert_event new_v4 command_id (order_aggregate_id order_id) (or_revision row) buyer ''order.cancelled'' now d1)
            (\<lambda>_ d2. Inr ((), d2)))"

definition expire_held_order :: "uuid_source \<Rightarrow> uuid \<Rightarrow> payment_row \<Rightarrow> pubky \<Rightarrow> datetime \<Rightarrow> db \<Rightarrow> unit tx" where
  "expire_held_order new_v4 order_id payment buyer now d =
     (case fetch_order d order_id of
        None \<Rightarrow> Inr ((), d)
      | Some order \<Rightarrow>
          (let correlation = map_option co_id (find (\<lambda>c. co_order_id c = order_id) (st_locks_correlations d));
               (command_id, d0) = (case correlation of Some i \<Rightarrow> (i, d) | None \<Rightarrow> draw_uuid new_v4 d)
           in seq (expire_payment new_v4 payment buyer command_id now d0)
                (\<lambda>_ d1.
                   let d2 = (case correlation of
                               Some i \<Rightarrow> if pm_state payment = ''awaiting_entitlement''
                                         then insert_observation i ''window_elapsed'' ''payment_expired'' now d1 else d1
                             | None \<Rightarrow> d1)
                   in seq (release_due_hold order now d2)
                     (\<lambda>_. cancel_swept_order new_v4 command_id ''payment window elapsed'' order_id buyer now))))"

definition expire_due_held_order :: "uuid_source \<Rightarrow> datetime \<Rightarrow> order_row \<times> payment_row \<Rightarrow> db \<Rightarrow> bool tx" where
  "expire_due_held_order new_v4 now due d =
     (if \<not> lock_sweep_order (held_due_order now) (or_id (fst due)) d then Inr (False, d)
      else seq (expire_held_order new_v4 (or_id (fst due)) (snd due) (or_buyer_pubky (fst due)) now d) (\<lambda>_ d1. Inr (True, d1)))"

definition due_preparing_orders :: "db \<Rightarrow> datetime \<Rightarrow> uuid list" where
  "due_preparing_orders d now =
     map (\<lambda>(o', _). or_id o')
       (sort_by (\<lambda>a b. hold_before (fst a) (fst b))
          (order_payments
             (\<lambda>o'. or_state o' = ''pending_payment'' \<and> or_stock_held o'
                  \<and> (case or_hold_expires_at o' of None \<Rightarrow> True | Some t \<Rightarrow> t \<le> now)
                  \<and> or_paykit_activation_state o' = Some ''preparing'')
             (\<lambda>p. pm_state p = ''awaiting_entitlement'') d))"

definition due_idle_orders :: "db \<Rightarrow> datetime \<Rightarrow> (order_row \<times> payment_row) list" where
  "due_idle_orders d cutoff =
     sort_by (\<lambda>a b. or_created_at (fst a) \<le> or_created_at (fst b))
       (order_payments (idle_unbound_order cutoff) (\<lambda>p. pm_state p = ''awaiting_entitlement'') d)"

definition expire_idle_order :: "uuid_source \<Rightarrow> datetime \<Rightarrow> datetime \<Rightarrow> order_row \<times> payment_row \<Rightarrow> db \<Rightarrow> bool tx" where
  "expire_idle_order new_v4 cutoff now due d =
     (if \<not> lock_sweep_order (idle_unbound_order cutoff) (or_id (fst due)) d then Inr (False, d)
      else
        let (command_id, d0) = draw_uuid new_v4 d
        in seq (expire_payment new_v4 (snd due) (or_buyer_pubky (fst due)) command_id now d0)
             (\<lambda>_ d1.
                seq (cancel_swept_order new_v4 command_id ''checkout idle elapsed'' (or_id (fst due)) (or_buyer_pubky (fst due)) now d1)
                  (\<lambda>_ d2. Inr (True, d2))))"

definition expire_idle_unbound_checkouts :: "uuid_source \<Rightarrow> int \<Rightarrow> datetime \<Rightarrow> db \<Rightarrow> nat tx" where
  "expire_idle_unbound_checkouts new_v4 hold_window_seconds now d =
     (let cutoff = now - seconds hold_window_seconds
      in sweep_rows (expire_idle_order new_v4 cutoff now) (due_idle_orders d cutoff) 0 d)"

definition expire_due_payment_windows ::
  "uuid_source \<Rightarrow> (uuid \<Rightarrow> db \<Rightarrow> bool tx) \<Rightarrow> int \<Rightarrow> datetime \<Rightarrow> db \<Rightarrow> pass" where
  "expire_due_payment_windows new_v4 expire_preparing_order hold_window_seconds now d =
     (case sweep_rows (expire_due_held_order new_v4 now) (due_held_orders d now) 0 d of
        Inl e \<Rightarrow> (Inl e, d)
      | Inr (expired, d1) \<Rightarrow>
          (let (prepared, d2) = each_in_turn expire_preparing_order (due_preparing_orders d1 now) expired d1
           in case expire_idle_unbound_checkouts new_v4 hold_window_seconds now d2 of
                Inl e \<Rightarrow> (Inl e, d2)
              | Inr (idle, d3) \<Rightarrow> (Inr (prepared + idle), d3)))"

section \<open>Deliveries\<close>

definition SYSTEM_ACTOR :: pubky where "SYSTEM_ACTOR = ''system''"

text \<open>The comparison of the first nineteen characters of two timestamps: up to the second.\<close>

definition same_or_earlier_second :: "datetime \<Rightarrow> datetime \<Rightarrow> bool" where
  "same_or_earlier_second a b \<longleftrightarrow> a div seconds 1 \<le> b div seconds 1"

text \<open>A shipped order without a shipment has no timestamp to read.\<close>

definition claimed_shipped :: "db \<Rightarrow> datetime \<Rightarrow> nat \<Rightarrow> order_row list" where
  "claimed_shipped d cutoff batch_size =
     take batch_size
       (sort_by (\<lambda>a b. \<not> str_less (or_id b) (or_id a))
          (filter (\<lambda>o'. or_state o' = ''shipped'' \<and> or_fulfillment o' \<noteq> ''digital''
                      \<and> (case or_shipment o' of None \<Rightarrow> True | Some s \<Rightarrow> same_or_earlier_second (sh_shipped_at s) cutoff)) (st_orders d)))"

definition assume_delivery :: "uuid_source \<Rightarrow> datetime \<Rightarrow> datetime \<Rightarrow> order_row \<Rightarrow> db \<Rightarrow> bool tx" where
  "assume_delivery new_v4 cutoff now order d =
     (case or_shipment order of
        None \<Rightarrow> Inr (False, d)
      | Some shipment \<Rightarrow>
          if cutoff < sh_shipped_at shipment then Inr (False, d)
          else
            seq (update_orders (\<lambda>r. or_id r = or_id order \<and> or_state r = ''shipped'')
                   (\<lambda>r. r\<lparr>or_revision := or_revision r + 1, or_state := ''delivered'',
                          or_shipment := Some (shipment\<lparr>sh_state := ''delivered'', sh_delivered_at := Some now\<rparr>),
                          or_delivery_assumed := True, or_updated_at := now\<rparr>) d)
              (\<lambda>updated d1.
                 case updated of
                   [] \<Rightarrow> Inr (False, d1)
                 | row # _ \<Rightarrow>
                     (let (command_id, d2) = draw_uuid new_v4 d1; aggregate_id = order_aggregate_id (or_id order)
                      in seq (insert_event new_v4 command_id aggregate_id (or_revision row) SYSTEM_ACTOR ''fulfillment.delivered'' now d2)
                           (\<lambda>event_id d3.
                              Inr (True,
                                insert_notification_intent event_id ''order_delivered'' (or_seller_pubky order) SYSTEM_ACTOR aggregate_id None now
                                  (insert_notification_intent event_id ''order_delivery_assumed'' (or_buyer_pubky order) SYSTEM_ACTOR
                                     aggregate_id None now d3))))))"

text \<open>The batches of a sweep, each a transaction: it stops after a batch that was not full.\<close>

fun batches :: "(db \<Rightarrow> nat) \<Rightarrow> (db \<Rightarrow> nat tx) \<Rightarrow> nat \<Rightarrow> nat \<Rightarrow> nat \<Rightarrow> db \<Rightarrow> pass" where
  "batches claimed batch batch_size 0 n d = (Inr n, d)"
| "batches claimed batch batch_size (Suc k) n d =
     (case batch d of
        Inl e \<Rightarrow> (Inl e, d)
      | Inr (processed, d1) \<Rightarrow>
          if claimed d < batch_size then (Inr (n + processed), d1)
          else batches claimed batch batch_size k (n + processed) d1)"

definition days :: "int \<Rightarrow> int" where "days n = seconds (n * 86400)"

definition assume_due_deliveries :: "uuid_source \<Rightarrow> datetime \<Rightarrow> int \<Rightarrow> nat \<Rightarrow> nat \<Rightarrow> db \<Rightarrow> pass" where
  "assume_due_deliveries new_v4 now assume_days batch_size max_batches d =
     (let cutoff = now - days assume_days
      in batches (\<lambda>d. length (claimed_shipped d cutoff batch_size))
           (\<lambda>d. sweep_rows (assume_delivery new_v4 cutoff now) (claimed_shipped d cutoff batch_size) 0 d)
           batch_size max_batches 0 d)"

text \<open>The handover of a pickup order or the delivery of a digital one.\<close>

definition handover_at :: "db \<Rightarrow> order_row \<Rightarrow> datetime option" where
  "handover_at d o' =
     (if or_fulfillment o' = ''digital'' then or_digital_delivered_at o'
      else map_option ph_confirmed_at (find (\<lambda>h. ph_order_id h = or_id o') (st_handovers d)))"

definition delivered_instant :: "db \<Rightarrow> order_row \<Rightarrow> datetime option" where
  "delivered_instant d o' =
     (if or_fulfillment o' \<in> set [''pickup'', ''digital''] then handover_at d o'
      else Option.bind (or_shipment o') sh_delivered_at)"

definition claimed_delivered :: "db \<Rightarrow> datetime \<Rightarrow> nat \<Rightarrow> order_row list" where
  "claimed_delivered d cutoff batch_size =
     take batch_size
       (sort_by (\<lambda>a b. \<not> str_less (or_id b) (or_id a))
          (filter (\<lambda>o'. or_state o' = ''delivered''
                      \<and> (case delivered_instant d o' of
                           None \<Rightarrow> True
                         | Some t \<Rightarrow> if or_fulfillment o' \<in> set [''pickup'', ''digital''] then t \<le> cutoff
                                    else same_or_earlier_second t cutoff)) (st_orders d)))"

definition complete_delivered :: "uuid_source \<Rightarrow> datetime \<Rightarrow> datetime \<Rightarrow> order_row \<Rightarrow> db \<Rightarrow> bool tx" where
  "complete_delivered new_v4 cutoff now order d =
     (case delivered_instant d order of
        None \<Rightarrow> Inr (False, d)
      | Some t \<Rightarrow>
          if cutoff < t then Inr (False, d)
          else
            seq (update_orders (\<lambda>r. or_id r = or_id order \<and> or_state r = ''delivered'') (moved ''completed'' now) d)
              (\<lambda>updated d1.
                 case updated of
                   [] \<Rightarrow> Inr (False, d1)
                 | row # _ \<Rightarrow>
                     (let (command_id, d2) = draw_uuid new_v4 d1; aggregate_id = order_aggregate_id (or_id order)
                      in seq (insert_event new_v4 command_id aggregate_id (or_revision row) SYSTEM_ACTOR ''order.completed'' now d2)
                           (\<lambda>event_id d3.
                              Inr (True,
                                insert_notification_intent event_id ''order_completed'' (or_seller_pubky order) SYSTEM_ACTOR aggregate_id None now
                                  (insert_notification_intent event_id ''order_completed'' (or_buyer_pubky order) SYSTEM_ACTOR
                                     aggregate_id None now d3))))))"

definition complete_due_delivered_orders :: "uuid_source \<Rightarrow> datetime \<Rightarrow> int \<Rightarrow> nat \<Rightarrow> nat \<Rightarrow> db \<Rightarrow> pass" where
  "complete_due_delivered_orders new_v4 now auto_complete_days batch_size max_batches d =
     (let cutoff = now - days auto_complete_days
      in batches (\<lambda>d. length (claimed_delivered d cutoff batch_size))
           (\<lambda>d. sweep_rows (complete_delivered new_v4 cutoff now) (claimed_delivered d cutoff batch_size) 0 d)
           batch_size max_batches 0 d)"

end
