(* ===== verification/Sweeps_Facts.thy ===== *)
theory Sweeps_Facts
  imports Sweeps Orders_Facts Offers_Facts Listings_Facts Locks_Facts
begin

text \<open>
  What the sweeps of \<^verbatim>\<open>Sweeps\<close> do: a lease has one live holder and its fence only grows; the expiry of payment windows, offers
  and awards and the server's delivery steps keep the books, follow the machines and leave nothing due behind.
\<close>

section \<open>Vocabulary\<close>

type_synonym grant = "string \<times> uuid \<times> int"

text \<open>Instances that take and end leases, with the grants so far, the latest first.\<close>

inductive lease_step :: "worker_lease list \<times> grant list \<Rightarrow> worker_lease list \<times> grant list \<Rightarrow> bool" where
  granted: "try_acquire_fenced_lease task holder now secs leases = (Some fence, leases') \<Longrightarrow>
    lease_step (leases, gs) (leases', (task, holder, fence) # gs)"
| refused: "try_acquire_fenced_lease task holder now secs leases = (None, leases') \<Longrightarrow> lease_step (leases, gs) (leases', gs)"
| released: "lease_step (leases, gs) (release_lease task holder now leases, gs)"
| fenced: "lease_step (leases, gs) (release_fenced_lease task holder fence now leases, gs)"

inductive lease_run :: "worker_lease list \<times> grant list \<Rightarrow> worker_lease list \<times> grant list \<Rightarrow> bool" for s where
  none: "lease_run s s"
| more: "lease_run s t \<Longrightarrow> lease_step t u \<Longrightarrow> lease_run s u"

text \<open>The lease \<open>l\<close> is of the grant's task, not older than it, and the grant's own while it is the latest.\<close>

definition grant_below :: "grant \<Rightarrow> worker_lease \<Rightarrow> bool" where
  "grant_below g l \<longleftrightarrow>
     wl_task l = fst g \<and> snd (snd g) \<le> wl_fence l \<and> (snd (snd g) = wl_fence l \<longrightarrow> wl_holder l = fst (snd g))"

definition lease_wf :: "worker_lease list \<Rightarrow> grant list \<Rightarrow> bool" where
  "lease_wf leases gs \<longleftrightarrow>
     distinct (map wl_task leases)
     \<and> sorted_wrt (\<lambda>g g'. fst g = fst g' \<longrightarrow> snd (snd g') < snd (snd g)) gs
     \<and> (\<forall>g \<in> set gs. \<exists>l \<in> set leases. grant_below g l)"

text \<open>What a payment-window sweep may do to the orders and payments.\<close>

definition swept_order :: "datetime \<Rightarrow> (order_row \<Rightarrow> bool) \<Rightarrow> string \<Rightarrow> order_row \<Rightarrow> order_row \<Rightarrow> bool" where
  "swept_order now due reason r r' \<longleftrightarrow> due r \<and> r' = cancelled_by_sweep reason now r"

definition pending_order :: "db \<Rightarrow> uuid \<Rightarrow> bool" where
  "pending_order d k \<longleftrightarrow> (\<exists>r \<in> set (st_orders d). or_id r = k \<and> or_state r = ''pending_payment'')"

text \<open>Orders stay or change as \<open>change\<close> says; a payment that changed is one of an order that is not pending any more.\<close>

definition window_sweep :: "(order_row \<Rightarrow> order_row \<Rightarrow> bool) \<Rightarrow> db \<Rightarrow> db \<Rightarrow> bool" where
  "window_sweep change d d' \<longleftrightarrow>
     (\<forall>a. total_stock d' a = total_stock d a)
     \<and> (\<forall>o' \<in> set (st_orders d'). o' \<in> set (st_orders d) \<or> (\<exists>r \<in> set (st_orders d). change r o'))
     \<and> (\<forall>p' \<in> set (st_payments d'). p' \<in> set (st_payments d) \<or> \<not> pending_order d' (pm_order_id p'))
     \<and> map (\<lambda>p. (pm_id p, pm_order_id p)) (st_payments d') = map (\<lambda>p. (pm_id p, pm_order_id p)) (st_payments d)"

section \<open>Leases\<close>

lemma try_acquire_cases:
  assumes "try_acquire_fenced_lease task holder now secs leases = (r, leases')"
  obtains (new) "fetch wl_task task leases = None" "r = Some 1"
      "leases' = leases @ [\<lparr>wl_task = task, wl_holder = holder, wl_lease_until = now + seconds secs, wl_fence = 1\<rparr>]"
    | (renewed) l where "fetch wl_task task leases = Some l" "r = Some (wl_fence l + 1)"
      "leases' = map (\<lambda>k. if wl_task k = task
         then k\<lparr>wl_holder := holder, wl_lease_until := now + seconds secs, wl_fence := wl_fence l + 1\<rparr> else k) leases"
    | (busy) l where "fetch wl_task task leases = Some l" "r = None" "leases' = leases" "now < wl_lease_until l" "wl_holder l \<noteq> holder"
  using assms by (auto simp: try_acquire_fenced_lease_def Let_def split: option.splits if_splits)

lemma lease_wf_task:
  assumes "lease_wf leases gs" "k \<in> set leases" "l \<in> set leases" "wl_task k = wl_task l"
  shows "k = l"
proof -
  have "inj_on wl_task (set leases)" using assms(1) by (simp add: lease_wf_def distinct_map)
  from inj_onD [OF this assms(4,2,3)] show ?thesis .
qed

lemma lease_wf_keep:
  assumes wf: "lease_wf leases gs"
    and f: "\<And>l. wl_task (f l) = wl_task l" "\<And>l. wl_fence (f l) = wl_fence l" "\<And>l. wl_holder (f l) = wl_holder l"
  shows "lease_wf (map f leases) gs"
proof -
  have "map wl_task (map f leases) = map wl_task leases" using f(1) by simp
  moreover have "grant_below g (f l) = grant_below g l" for g l by (simp add: grant_below_def f)
  ultimately show ?thesis using wf by (simp only: lease_wf_def set_map bex_simps simp_thms) blast
qed

lemma granted_wf:
  assumes wf: "lease_wf leases gs" and t: "try_acquire_fenced_lease task holder now secs leases = (Some fence, leases')"
  shows "lease_wf leases' ((task, holder, fence) # gs)"
  using t
proof (cases rule: try_acquire_cases)
  case new
  then have none: "task \<notin> wl_task ` set leases" by (simp add: fetch_None)
  then have "fst g \<noteq> task" if "g \<in> set gs" for g using wf that unfolding lease_wf_def grant_below_def by force
  moreover have "\<exists>l \<in> set leases'. grant_below g l" if "g \<in> set gs" for g using wf that new(3) by (auto simp: lease_wf_def)
  moreover have "\<exists>l \<in> set leases'. grant_below (task, holder, fence) l" using new by (simp add: grant_below_def)
  ultimately show ?thesis using wf new(3) none by (auto simp: lease_wf_def)
next
  case (renewed l)
  let ?f = "\<lambda>k. if wl_task k = task then k\<lparr>wl_holder := holder, wl_lease_until := now + seconds secs, wl_fence := wl_fence l + 1\<rparr> else k"
  have l: "l \<in> set leases" "wl_task l = task" using fetch_Some [OF renewed(1)] by simp_all
  have ids: "map wl_task leases' = map wl_task leases" by (simp add: renewed(3))
  have below: "snd (snd g) \<le> wl_fence l" if "g \<in> set gs" "fst g = task" for g
  proof -
    note g = that
    obtain k where k: "k \<in> set leases" "grant_below g k" using wf g by (auto simp: lease_wf_def)
    then have "k = l" using lease_wf_task [OF wf k(1) l(1)] g(2) l(2) by (simp add: grant_below_def)
    with k(2) show ?thesis by (simp add: grant_below_def)
  qed
  have "\<exists>k \<in> set leases'. grant_below g k" if "g \<in> set gs" for g
  proof -
    note g = that
    obtain k where k: "k \<in> set leases" "grant_below g k" using wf g by (auto simp: lease_wf_def)
    have "grant_below g (?f k)" using k(2) below [OF g] by (auto simp: grant_below_def)
    then show ?thesis unfolding renewed(3) set_map bex_simps using k(1) by blast
  qed
  moreover have "grant_below (task, holder, fence) (?f l)" using l(2) renewed(2) by (simp add: grant_below_def)
  then have "\<exists>k \<in> set leases'. grant_below (task, holder, fence) k" unfolding renewed(3) set_map bex_simps using l(1) by blast
  moreover have "snd (snd g) < fence" if "g \<in> set gs" "fst g = task" for g using below [OF that] renewed(2) by simp
  ultimately show ?thesis using wf ids by (auto simp: lease_wf_def)
qed simp

lemma lease_step_wf:
  assumes "lease_step s t" "lease_wf (fst s) (snd s)"
  shows "lease_wf (fst t) (snd t)"
  using assms
proof (cases rule: lease_step.cases)
  case granted
  then show ?thesis using assms(2) granted_wf by simp
next
  case (refused task holder now secs leases leases' gs)
  then have "leases' = leases" by (auto elim: try_acquire_cases)
  then show ?thesis using refused assms(2) by simp
next
  case released
  then show ?thesis using assms(2) lease_wf_keep by (auto simp: release_lease_def)
next
  case fenced
  then show ?thesis using assms(2) lease_wf_keep by (auto simp: release_fenced_lease_def)
qed

lemma lease_run_wf: "lease_run s t \<Longrightarrow> lease_wf (fst s) (snd s) \<Longrightarrow> lease_wf (fst t) (snd t)"
  by (induction rule: lease_run.induct) (use lease_step_wf in blast)+

lemma stale_release:
  assumes wf: "lease_wf leases (as @ (task, holder, fence) # bs)" and later: "task \<in> fst ` set as"
  shows "release_fenced_lease task holder fence now leases = leases"
proof -
  obtain g where g: "g \<in> set as" "fst g = task" using later by auto
  then have f: "fence < snd (snd g)" using wf by (auto simp: lease_wf_def sorted_wrt_append)
  obtain l where l: "l \<in> set leases" "wl_task l = task" "snd (snd g) \<le> wl_fence l"
    using wf g by (auto simp: lease_wf_def grant_below_def)
  have "wl_fence k \<noteq> fence" if "k \<in> set leases" "wl_task k = task" for k
    using lease_wf_task [OF wf that(1) l(1)] that(2) l f by auto
  then show ?thesis unfolding release_fenced_lease_def by (intro map_idI) auto
qed
section \<open>Passes\<close>

text \<open>What a pass keeps when each of its steps keeps it.\<close>

locale sweep =
  fixes step :: "'r \<Rightarrow> db \<Rightarrow> bool tx" and inv :: "db \<Rightarrow> bool" and rel :: "db \<Rightarrow> db \<Rightarrow> bool" and fresh :: "'r \<Rightarrow> db \<Rightarrow> bool"
  assumes rel_refl: "rel d d" and rel_trans: "rel d d' \<Longrightarrow> rel d' d'' \<Longrightarrow> rel d d''"
    and fresh_stays: "rel d d' \<Longrightarrow> fresh r d \<Longrightarrow> fresh r d'"
    and step_keeps: "inv d \<Longrightarrow> fresh r d \<Longrightarrow> step r d = Inr (b, d') \<Longrightarrow> inv d' \<and> rel d d'"
begin

lemma rows_keep: "inv d \<Longrightarrow> (\<And>r. r \<in> set rs \<Longrightarrow> fresh r d) \<Longrightarrow> sweep_rows step rs n d = Inr (m, d') \<Longrightarrow> inv d' \<and> rel d d'"
proof (induction rs arbitrary: n d)
  case Nil
  then show ?case by (simp add: rel_refl)
next
  case (Cons r rs)
  then obtain b d1 where s: "step r d = Inr (b, d1)" "sweep_rows step rs (if b then Suc n else n) d1 = Inr (m, d')"
    by (auto simp: seq_eq_Inr)
  have one: "inv d1 \<and> rel d d1" by (rule step_keeps [OF Cons.prems(1) _ s(1)]) (simp add: Cons.prems(2))
  have "inv d' \<and> rel d1 d'" by (rule Cons.IH [OF _ _ s(2)]) (use one fresh_stays Cons.prems(2) in auto)
  with one show ?case using rel_trans by blast
qed

lemma turns_keep: "inv d \<Longrightarrow> (\<And>r. r \<in> set rs \<Longrightarrow> fresh r d) \<Longrightarrow> each_in_turn step rs n d = (m, d') \<Longrightarrow> inv d' \<and> rel d d'"
proof (induction rs arbitrary: n d)
  case Nil
  then show ?case by (simp add: rel_refl)
next
  case (Cons r rs)
  show ?case
  proof (cases "step r d")
    case (Inl e)
    with Cons show ?thesis by simp
  next
    case (Inr y)
    then obtain b d1 where s: "step r d = Inr (b, d1)" "each_in_turn step rs (if b then Suc n else n) d1 = (m, d')"
      using Cons.prems(3) by (cases y) auto
    have one: "inv d1 \<and> rel d d1" by (rule step_keeps [OF Cons.prems(1) _ s(1)]) (simp add: Cons.prems(2))
    have "inv d' \<and> rel d1 d'" by (rule Cons.IH [OF _ _ s(2)]) (use one fresh_stays Cons.prems(2) in auto)
    with one show ?thesis using rel_trans by blast
  qed
qed

lemma batches_keep:
  assumes "\<And>d r. inv d \<Longrightarrow> r \<in> set (rows d) \<Longrightarrow> fresh r d" "inv d"
    "batches claimed (\<lambda>d. sweep_rows step (rows d) 0 d) limit k n d = (a, d')"
  shows "inv d' \<and> rel d d'"
  using assms(2,3)
proof (induction k arbitrary: n d)
  case 0
  then show ?case by (simp add: rel_refl)
next
  case (Suc k)
  show ?case
  proof (cases "sweep_rows step (rows d) 0 d")
    case (Inl e)
    with Suc.prems show ?thesis by (simp add: rel_refl)
  next
    case (Inr y)
    then obtain m d1 where s: "sweep_rows step (rows d) 0 d = Inr (m, d1)"
      "d1 = d' \<or> batches claimed (\<lambda>d. sweep_rows step (rows d) 0 d) limit k (n + m) d1 = (a, d')"
      using Suc.prems(2) by (cases y) (auto split: if_splits)
    have one: "inv d1 \<and> rel d d1" by (rule rows_keep [OF Suc.prems(1) assms(1) [OF Suc.prems(1)] s(1)])
    from s(2) show ?thesis
    proof
      assume "d1 = d'"
      with one show ?thesis by simp
    next
      assume "batches claimed (\<lambda>d. sweep_rows step (rows d) 0 d) limit k (n + m) d1 = (a, d')"
      with Suc.IH one show ?thesis using rel_trans by blast
    qed
  qed
qed

text \<open>A row that its own step settles, and that no step unsettles, is settled after the pass.\<close>

lemma rows_settle:
  assumes settles: "\<And>d r b d'. inv d \<Longrightarrow> fresh r d \<Longrightarrow> step r d = Inr (b, d') \<Longrightarrow> finished r d'"
    and stays: "\<And>d d' r. rel d d' \<Longrightarrow> finished r d \<Longrightarrow> finished r d'"
  shows "inv d \<Longrightarrow> (\<And>r. r \<in> set rs \<Longrightarrow> fresh r d) \<Longrightarrow> sweep_rows step rs n d = Inr (m, d') \<Longrightarrow> r \<in> set rs \<Longrightarrow> finished r d'"
proof (induction rs arbitrary: n d)
  case (Cons x rs)
  then obtain b d1 where s: "step x d = Inr (b, d1)" "sweep_rows step rs (if b then Suc n else n) d1 = Inr (m, d')"
    by (auto simp: seq_eq_Inr)
  have x: "fresh x d" by (simp add: Cons.prems(2))
  have one: "inv d1 \<and> rel d d1" by (rule step_keeps [OF Cons.prems(1) x s(1)])
  have f: "fresh y d1" if "y \<in> set rs" for y using fresh_stays [OF conjunct2 [OF one] Cons.prems(2) [of y]] that by simp
  have "finished x d'"
    using stays [OF conjunct2 [OF rows_keep [OF conjunct1 [OF one] f s(2)]] settles [OF Cons.prems(1) x s(1)]] .
  with Cons.IH [OF conjunct1 [OF one] f s(2)] Cons.prems(4) show ?case by auto
qed simp

end

section \<open>Payment windows\<close>

lemma cancelled_by_sweep_simps [simp]:
  "or_id (cancelled_by_sweep reason now r) = or_id r" "or_state (cancelled_by_sweep reason now r) = ''cancelled''"
  "\<not> or_stock_held (cancelled_by_sweep reason now r)"
  by (simp_all add: cancelled_by_sweep_def)

lemma window_sweep_refl: "window_sweep change d d"
  by (auto simp: window_sweep_def)

lemma window_sweep_order:
  "window_sweep change d d' \<Longrightarrow> o' \<in> set (st_orders d') \<Longrightarrow> o' \<in> set (st_orders d) \<or> (\<exists>r \<in> set (st_orders d). change r o')"
  by (simp add: window_sweep_def)

lemma window_sweep_payment:
  "window_sweep change d d' \<Longrightarrow> p \<in> set (st_payments d') \<Longrightarrow> p \<in> set (st_payments d) \<or> \<not> pending_order d' (pm_order_id p)"
  by (simp add: window_sweep_def)

text \<open>A cancelled order is not swept again.\<close>

lemma window_sweep_pending:
  assumes c: "\<forall>r r'. change r r' \<longrightarrow> or_state r' \<noteq> ''pending_payment''" and s: "window_sweep change d d'"
  shows "o' \<in> set (st_orders d') \<Longrightarrow> or_state o' = ''pending_payment'' \<Longrightarrow> o' \<in> set (st_orders d)"
    "pending_order d' k \<Longrightarrow> pending_order d k"
    "p \<in> set (st_payments d') \<Longrightarrow> pending_order d' (pm_order_id p) \<Longrightarrow> p \<in> set (st_payments d)"
proof -
  show row: "o' \<in> set (st_orders d)" if "o' \<in> set (st_orders d')" "or_state o' = ''pending_payment''" for o'
  proof -
    show ?thesis using window_sweep_order [OF s that(1)] c that(2) by blast
  qed
  show "pending_order d k" if "pending_order d' k" for k using that row unfolding pending_order_def by blast
  show "p \<in> set (st_payments d)" if "p \<in> set (st_payments d')" "pending_order d' (pm_order_id p)" for p
    using window_sweep_payment [OF s that(1)] that(2) by blast
qed

lemma window_sweep_trans:
  assumes once: "\<And>r r'. change r r' \<Longrightarrow> or_state r = ''pending_payment'' \<and> or_state r' \<noteq> ''pending_payment''"
    and s: "window_sweep change d d'" "window_sweep change d' d''"
  shows "window_sweep change d d''"
proof -
  have c: "\<forall>r r'. change r r' \<longrightarrow> or_state r' \<noteq> ''pending_payment''" using once by blast
  note p1 = window_sweep_pending [OF c s(1)] and p2 = window_sweep_pending [OF c s(2)]
  have "o' \<in> set (st_orders d) \<or> (\<exists>r \<in> set (st_orders d). change r o')" if "o' \<in> set (st_orders d'')" for o'
  proof (cases "o' \<in> set (st_orders d')")
    case True
    then show ?thesis by (rule window_sweep_order [OF s(1)])
  next
    case False
    then have "\<exists>r \<in> set (st_orders d'). change r o'" using window_sweep_order [OF s(2) that] by blast
    then obtain r where r: "r \<in> set (st_orders d')" "change r o'" by blast
    then have "r \<in> set (st_orders d)" using p1(1) once [OF r(2)] by blast
    with r show ?thesis by blast
  qed
  moreover have "p' \<in> set (st_payments d) \<or> \<not> pending_order d'' (pm_order_id p')" if "p' \<in> set (st_payments d'')" for p'
    using that p1(3) p2(2,3) by blast
  ultimately show ?thesis using s unfolding window_sweep_def by simp
qed
text \<open>The sweep's invariant: the books, and payments with ids of their own.\<close>

definition window_inv :: "db \<Rightarrow> bool" where
  "window_inv d \<longleftrightarrow> books_ok d \<and> table_ok pm_id payment_check (st_payments d)"

text \<open>The payment a row was read with still belongs to its order.\<close>

definition read_with :: "order_row \<times> payment_row \<Rightarrow> db \<Rightarrow> bool" where
  "read_with due d \<longleftrightarrow> (pm_id (snd due), or_id (fst due)) \<in> (\<lambda>p. (pm_id p, pm_order_id p)) ` set (st_payments d)"

lemma read_with_stays: "window_sweep change d d' \<Longrightarrow> read_with due d \<Longrightarrow> read_with due d'"
  unfolding read_with_def window_sweep_def by (metis list.set_map)

lemma expire_payment_payments:
  assumes "expire_payment new_v4 p actor c now d = Inr (x, d')" "table_ok pm_id payment_check (st_payments d)"
  shows "table_ok pm_id payment_check (st_payments d')"
    "map (\<lambda>p. (pm_id p, pm_order_id p)) (st_payments d') = map (\<lambda>p. (pm_id p, pm_order_id p)) (st_payments d)"
    "p' \<in> set (st_payments d') \<Longrightarrow> p' \<in> set (st_payments d) \<or> pm_id p' = pm_id p"
proof -
  let ?f = "\<lambda>p. p\<lparr>pm_state := ''expired'', pm_revision := pm_revision p + 1, pm_updated_at := now\<rparr>"
  consider "d' = d" | w d1 where "update_payments (\<lambda>q. pm_id q = pm_id p) ?f d = Inr (w, d1)" "log_step d1 d'"
    using assms(1) insert_event_log by (fastforce simp: expire_payment_def seq_eq_Inr fetch_one_Inr split: if_splits)
  then have "table_ok pm_id payment_check (st_payments d')
    \<and> map (\<lambda>p. (pm_id p, pm_order_id p)) (st_payments d') = map (\<lambda>p. (pm_id p, pm_order_id p)) (st_payments d)
    \<and> (\<forall>p' \<in> set (st_payments d'). p' \<in> set (st_payments d) \<or> pm_id p' = pm_id p)"
  proof cases
    case 1
    with assms(2) show ?thesis by simp
  next
    case 2
    have "table_ok pm_id payment_check (st_payments d1)" by (rule payments.upd_ok [OF 2(1) _ assms(2)]) simp
    with payments.upd_get [OF 2(1)] log_stepD [OF 2(2)] show ?thesis by (auto split: if_splits)
  qed
  then show "table_ok pm_id payment_check (st_payments d')"
    "map (\<lambda>p. (pm_id p, pm_order_id p)) (st_payments d') = map (\<lambda>p. (pm_id p, pm_order_id p)) (st_payments d)"
    "p' \<in> set (st_payments d') \<Longrightarrow> p' \<in> set (st_payments d) \<or> pm_id p' = pm_id p"
    by blast+
qed

text \<open>Cancelling an order whose units the ledger has already given back.\<close>

lemma cancel_swept_order_effect:
  assumes t: "stock_tables_ok d" and l: "ledger_off (\<lambda>a. - order_holds r a) d" and ok: "drops_ok d" "list_all hold_shape (st_orders d)"
    and r: "fetch_order d k = Some r" and run: "cancel_swept_order new_v4 command_id reason k buyer now d = Inr (x, d')"
  shows "books_ok d'" "\<forall>a. total_stock d' a = total_stock d a" "st_payments d' = st_payments d"
    "st_orders d' = map (\<lambda>x. if or_id x = k then cancelled_by_sweep reason now x else x) (st_orders d)"
proof -
  obtain w ws d1 where u: "update_orders (\<lambda>r. or_id r = k) (cancelled_by_sweep reason now) d = Inr (w # ws, d1)" and log: "log_step d1 d'"
    using run insert_event_log by (fastforce simp: cancel_swept_order_def seq_eq_Inr fetch_one_Inr)
  have "books_ok d1" "st_listings d1 = st_listings d"
    by (rule books_ok_update_order [OF t l ok r u]; simp add: order_holds_def hold_shape_def)+
  then show "books_ok d'" "\<forall>a. total_stock d' a = total_stock d a"
    using books_log [OF log] total_stock_cong [of d1 d] by simp_all
  have "d1 = d\<lparr>st_orders := map (\<lambda>x. if or_id x = k then cancelled_by_sweep reason now x else x) (st_orders d)\<rparr>"
    using u by (simp add: orders.upd_Inr)
  then show "st_payments d' = st_payments d"
    "st_orders d' = map (\<lambda>x. if or_id x = k then cancelled_by_sweep reason now x else x) (st_orders d)"
    using log_stepD [OF log] by simp_all
qed

text \<open>The frame of one expiry: the order \<open>k\<close> is cancelled, and at most its payment changed.\<close>

lemma window_sweepI:
  assumes inv: "window_inv d" and ok: "books_ok d'" "table_ok pm_id payment_check (st_payments d')"
    and r: "fetch_order d (or_id (fst due)) = Some r" "change r (cancelled_by_sweep reason now r)"
    and o': "st_orders d' = map (\<lambda>x. if or_id x = or_id (fst due) then cancelled_by_sweep reason now x else x) (st_orders d)"
    and tot: "\<forall>a. total_stock d' a = total_stock d a"
    and p: "map (\<lambda>p. (pm_id p, pm_order_id p)) (st_payments d') = map (\<lambda>p. (pm_id p, pm_order_id p)) (st_payments d)"
      "\<And>p'. p' \<in> set (st_payments d') \<Longrightarrow> p' \<in> set (st_payments d) \<or> pm_id p' = pm_id (snd due)"
    and due: "read_with due d"
  shows "window_inv d'" "window_sweep change d d'" "\<not> pending_order d' (or_id (fst due))"
proof -
  show "window_inv d'" using ok by (simp add: window_inv_def)
  have t: "table_ok or_id order_check (st_orders d)" using inv by (simp add: window_inv_def books_ok_def stock_ok_def stock_tables_ok_def)
  have only: "x = r" if "x \<in> set (st_orders d)" "or_id x = or_id (fst due)" for x
    using fetch_unique [OF t r(1) [unfolded fetch_order_def] that(1)] that(2) by simp
  show gone: "\<not> pending_order d' (or_id (fst due))" by (auto simp: pending_order_def o')
  have "x \<in> set (st_orders d) \<or> (\<exists>r \<in> set (st_orders d). change r x)" if "x \<in> set (st_orders d')" for x
    using that only r(2) by (auto simp: o')
  moreover have "p' \<in> set (st_payments d) \<or> \<not> pending_order d' (pm_order_id p')" if "p' \<in> set (st_payments d')" for p'
  proof (cases "p' \<in> set (st_payments d)")
    case False
    then have id: "pm_id p' = pm_id (snd due)" using p(2) [OF that] by simp
    have "read_with due d'" using due p(1) unfolding read_with_def by (metis list.set_map)
    then obtain q where q: "q \<in> set (st_payments d')" "pm_id q = pm_id (snd due)" "pm_order_id q = or_id (fst due)"
      by (auto simp: read_with_def)
    have "inj_on pm_id (set (st_payments d'))" using ok(2) by (simp add: table_ok_def distinct_map)
    from inj_onD [OF this _ that q(1)] have "p' = q" using q(2) id by simp
    then show ?thesis using q(3) gone by simp
  qed simp
  ultimately show "window_sweep change d d'" using tot p(1) by (simp add: window_sweep_def)
qed
lemma window_invD:
  assumes "window_inv d"
  shows "books_ok d" "table_ok pm_id payment_check (st_payments d)" "stock_ok d" "drops_ok d" "list_all hold_shape (st_orders d)"
    "stock_tables_ok d" "ledger_off (\<lambda>_. 0) d" "table_ok or_id order_check (st_orders d)"
  using assms by (simp_all add: window_inv_def books_ok_def stock_ok_def stock_tables_ok_def)

lemma lock_sweep_orderD:
  assumes "table_ok or_id order_check (st_orders d)" "lock_sweep_order P k d"
  obtains r where "fetch_order d k = Some r" "P r"
proof -
  obtain r where r: "r \<in> set (st_orders d)" "P r" "or_id r = k" using assms(2) by (auto simp: lock_sweep_order_def list_ex_iff)
  then have "fetch_order d k = Some r" using assms(1) by (simp add: fetch_order_def fetch_Some_iff table_ok_def)
  then show thesis using r(2) that by blast
qed

lemma tolerated_deadline:
  assumes "or_hold_expires_at order \<noteq> None" "tolerated order message r = Inr (x, d')"
  shows "r = Inr (Inr (), d')"
proof -
  obtain answer d1 where r: "r = Inr (answer, d1)" using assms(2) by (auto simp: tolerated_def seq_eq_Inr)
  show ?thesis using assms by (cases answer) (auto simp: tolerated_def r)
qed

text \<open>An observation leaves what the books are about.\<close>

lemma observed_frame:
  "st_orders (insert_observation i s out now d) = st_orders d" "st_listings (insert_observation i s out now d) = st_listings d"
  "st_reservations (insert_observation i s out now d) = st_reservations d" "st_drops (insert_observation i s out now d) = st_drops d"
  "st_drop_purchases (insert_observation i s out now d) = st_drop_purchases d" "st_payments (insert_observation i s out now d) = st_payments d"
  by (simp_all add: insert_observation_def)

text \<open>Up to its release, an expiry touches the payment only.\<close>

lemma expire_held_run:
  assumes r: "fetch_order d k = Some r" and run: "expire_held_order new_v4 k payment buyer now d = Inr (x, d')"
  obtains command_id d0 d1 d2 d3 y where "log_step d d0" "expire_payment new_v4 payment buyer command_id now d0 = Inr (y, d1)"
    "st_orders d2 = st_orders d1" "st_listings d2 = st_listings d1" "st_reservations d2 = st_reservations d1"
    "st_drops d2 = st_drops d1" "st_drop_purchases d2 = st_drop_purchases d1" "st_payments d2 = st_payments d1"
    "release_due_hold r now d2 = Inr ((), d3)"
    "cancel_swept_order new_v4 command_id ''payment window elapsed'' k buyer now d3 = Inr (x, d')"
proof -
  show thesis
  proof (cases "find (\<lambda>c. co_order_id c = k) (st_locks_correlations d)")
    case None
    obtain command_id d0 where c: "draw_uuid new_v4 d = (command_id, d0)" by fastforce
    obtain y d1 d3 where e: "expire_payment new_v4 payment buyer command_id now d0 = Inr (y, d1)"
      "release_due_hold r now d1 = Inr ((), d3)" "cancel_swept_order new_v4 command_id ''payment window elapsed'' k buyer now d3 = Inr (x, d')"
      using run by (auto simp: expire_held_order_def r None c Let_def seq_eq_Inr)
    show thesis by (rule that [OF draw_uuid_log [OF c] e(1) refl refl refl refl refl refl e(2,3)])
  next
    case (Some c)
    let ?o = "\<lambda>d. if pm_state payment = ''awaiting_entitlement''
      then insert_observation (co_id c) ''window_elapsed'' ''payment_expired'' now d else d"
    obtain y d1 d3 where e: "expire_payment new_v4 payment buyer (co_id c) now d = Inr (y, d1)"
      "release_due_hold r now (?o d1) = Inr ((), d3)" "cancel_swept_order new_v4 (co_id c) ''payment window elapsed'' k buyer now d3 = Inr (x, d')"
      using run by (auto simp: expire_held_order_def r Some Let_def seq_eq_Inr)
    show thesis by (rule that [OF log_step_refl e(1) _ _ _ _ _ _ e(2,3)]) (simp_all add: observed_frame)
  qed
qed
lemma listings_payments:
  assumes "credit_order_drop r now d = Inr (Inr x, d1)" "release_lines r' held now d1 = Inr (Inr y, d')"
  shows "st_payments d' = st_payments d"
  using credit_order_drop_frame [OF assms(1)] release_line_list_frame [OF assms(2) [unfolded release_lines_def]]
  by (simp add: drop_frame_def)

lemma expire_held_effect:
  assumes inv: "window_inv d" and r: "fetch_order d (or_id (fst due)) = Some r" "held_due_order now r" and due: "read_with due d"
    and run: "expire_held_order new_v4 (or_id (fst due)) (snd due) buyer now d = Inr (x, d')"
  shows "window_inv d'" "window_sweep (swept_order now (held_due_order now) ''payment window elapsed'') d d'"
    "\<not> pending_order d' (or_id (fst due))"
proof -
  note i = window_invD [OF inv]
  have held: "or_stock_held r" using r(2) by (simp add: held_due_order_def)
  have "r \<in> set (st_orders d)" using fetch_Some r(1) by (fastforce simp: fetch_order_def)
  then have dl: "or_hold_expires_at r \<noteq> None" using i(5) held by (auto simp: list_all_iff hold_shape_def)
  obtain command_id d0 d1 d2 d3 y where log: "log_step d d0" and e: "expire_payment new_v4 (snd due) buyer command_id now d0 = Inr (y, d1)"
    and same: "st_orders d2 = st_orders d1" "st_listings d2 = st_listings d1" "st_reservations d2 = st_reservations d1"
      "st_drops d2 = st_drops d1" "st_drop_purchases d2 = st_drop_purchases d1" "st_payments d2 = st_payments d1"
    and rel: "release_due_hold r now d2 = Inr ((), d3)"
    and c: "cancel_swept_order new_v4 command_id ''payment window elapsed'' (or_id (fst due)) buyer now d3 = Inr (x, d')"
    by (rule expire_held_run [OF r(1) run])
  note f = expire_payment_frame [OF e] and l = log_stepD [OF log]
  have d2: "st_orders d2 = st_orders d" "st_listings d2 = st_listings d" "st_reservations d2 = st_reservations d"
    "st_drops d2 = st_drops d" "st_drop_purchases d2 = st_drop_purchases d"
    using same f l by simp_all
  obtain y1 d2' where cr: "credit_order_drop r now d2 = Inr (Inr y1, d2')" "release_lines r Reserved now d2' = Inr (Inr (), d3)"
    using rel tolerated_deadline [OF dl] by (fastforce simp: release_due_hold_def seq_eq_Inr)
  have "stock_ok d2" "drops_ok d2" using i(3,4) stock_ok_cong [of d2 d] drops_ok_cong [of d2 d] d2 by simp_all
  note g = credit_then_release [OF this cr]
  have off: "ledger_off (\<lambda>a. - order_holds r a) d3" using g(2) held by (simp add: order_holds_def)
  have sh: "list_all hold_shape (st_orders d3)" and r3: "fetch_order d3 (or_id (fst due)) = Some r"
    using i(5) r(1) g(5) d2(1) by (simp_all add: fetch_order_def)
  note h = cancel_swept_order_effect [OF g(1) off g(3) sh r3 c]
  have "st_payments d3 = st_payments d2"
    using listings_payments [OF cr] .
  then have pay: "st_payments d' = st_payments d1" using h(3) same(6) by simp
  have tp: "table_ok pm_id payment_check (st_payments d0)" using i(2) l by simp
  note q = expire_payment_payments [OF e tp]
  have tot: "\<forall>a. total_stock d' a = total_stock d a" using h(2) g(4) d2(2) total_stock_cong [of d2 d] by simp
  have ch: "swept_order now (held_due_order now) ''payment window elapsed'' r (cancelled_by_sweep ''payment window elapsed'' now r)"
    using r(2) by (simp add: swept_order_def)
  have o': "st_orders d' = map (\<lambda>x. if or_id x = or_id (fst due) then cancelled_by_sweep ''payment window elapsed'' now x else x) (st_orders d)"
    using h(4) g(5) d2(1) by simp
  show "window_inv d'" "window_sweep (swept_order now (held_due_order now) ''payment window elapsed'') d d'"
    "\<not> pending_order d' (or_id (fst due))"
    by (rule window_sweepI [where change = "swept_order now (held_due_order now) ''payment window elapsed''",
          OF inv h(1) _ r(1) ch o' tot _ _ due]; use q pay l in simp)+
qed
lemma expire_idle_effect:
  assumes inv: "window_inv d" and r: "fetch_order d (or_id (fst due)) = Some r" "idle_unbound_order cutoff r" and due: "read_with due d"
    and e: "expire_payment new_v4 (snd due) buyer command_id now d0 = Inr (y, d1)" "log_step d d0"
    and c: "cancel_swept_order new_v4 command_id ''checkout idle elapsed'' (or_id (fst due)) buyer now d1 = Inr (x, d')"
  shows "window_inv d'" "window_sweep (swept_order now (idle_unbound_order cutoff) ''checkout idle elapsed'') d d'"
    "\<not> pending_order d' (or_id (fst due))"
proof -
  note i = window_invD [OF inv] and f = expire_payment_frame [OF e(1)] and l = log_stepD [OF e(2)]
  have held: "order_holds r a = 0" for a using r(2) by (simp add: idle_unbound_order_def order_holds_def)
  have same: "st_orders d1 = st_orders d" "st_listings d1 = st_listings d" "st_reservations d1 = st_reservations d"
    "st_drops d1 = st_drops d" "st_drop_purchases d1 = st_drop_purchases d"
    using f l by simp_all
  have "stock_ok d1" "drops_ok d1" using i(3,4) stock_ok_cong [of d1 d] drops_ok_cong [of d1 d] same by simp_all
  then have off: "stock_tables_ok d1" "ledger_off (\<lambda>a. - order_holds r a) d1" "drops_ok d1" by (simp_all add: stock_ok_def held)
  have sh: "list_all hold_shape (st_orders d1)" and r1: "fetch_order d1 (or_id (fst due)) = Some r"
    using i(5) r(1) same(1) by (simp_all add: fetch_order_def)
  note h = cancel_swept_order_effect [OF off sh r1 c]
  have tp: "table_ok pm_id payment_check (st_payments d0)" using i(2) l by simp
  note q = expire_payment_payments [OF e(1) tp]
  have tot: "\<forall>a. total_stock d' a = total_stock d a" using h(2) same(2) total_stock_cong [of d1 d] by simp
  have ch: "swept_order now (idle_unbound_order cutoff) ''checkout idle elapsed'' r (cancelled_by_sweep ''checkout idle elapsed'' now r)"
    using r(2) by (simp add: swept_order_def)
  have o': "st_orders d' = map (\<lambda>x. if or_id x = or_id (fst due) then cancelled_by_sweep ''checkout idle elapsed'' now x else x) (st_orders d)"
    using h(4) same(1) by simp
  show "window_inv d'" "window_sweep (swept_order now (idle_unbound_order cutoff) ''checkout idle elapsed'') d d'"
    "\<not> pending_order d' (or_id (fst due))"
    by (rule window_sweepI [where change = "swept_order now (idle_unbound_order cutoff) ''checkout idle elapsed''",
          OF inv h(1) _ r(1) ch o' tot _ _ due]; use q h(3) l in simp)+
qed

lemma swept_once:
  assumes "\<And>r. due r \<Longrightarrow> or_state r = ''pending_payment''" "swept_order now due reason r r'"
  shows "or_state r = ''pending_payment'' \<and> or_state r' \<noteq> ''pending_payment''"
  using assms by (auto simp: swept_order_def)

lemma due_pending: "held_due_order now r \<Longrightarrow> or_state r = ''pending_payment''" "idle_unbound_order cutoff r \<Longrightarrow> or_state r = ''pending_payment''"
  by (simp_all add: held_due_order_def idle_unbound_order_def)

lemma locked_pending:
  "lock_sweep_order (held_due_order now) k d \<Longrightarrow> pending_order d k" "lock_sweep_order (idle_unbound_order cutoff) k d \<Longrightarrow> pending_order d k"
  by (auto simp: lock_sweep_order_def pending_order_def list_ex_iff dest: due_pending)

abbreviation held_sweep :: "datetime \<Rightarrow> db \<Rightarrow> db \<Rightarrow> bool" where
  "held_sweep now \<equiv> window_sweep (swept_order now (held_due_order now) ''payment window elapsed'')"

abbreviation idle_sweep :: "datetime \<Rightarrow> datetime \<Rightarrow> db \<Rightarrow> db \<Rightarrow> bool" where
  "idle_sweep cutoff now \<equiv> window_sweep (swept_order now (idle_unbound_order cutoff) ''checkout idle elapsed'')"

lemma expire_due_held_step:
  assumes inv: "window_inv d" and due: "read_with r d" and run: "expire_due_held_order new_v4 now r d = Inr (b, d')"
  shows "window_inv d' \<and> held_sweep now d d'" "\<not> lock_sweep_order (held_due_order now) (or_id (fst r)) d'"
proof -
  have "window_inv d' \<and> held_sweep now d d' \<and> \<not> lock_sweep_order (held_due_order now) (or_id (fst r)) d'"
  proof (cases "lock_sweep_order (held_due_order now) (or_id (fst r)) d")
    case True
    obtain x where x: "fetch_order d (or_id (fst r)) = Some x" "held_due_order now x"
      by (rule lock_sweep_orderD [OF window_invD(8) [OF inv] True])
    obtain y where e: "expire_held_order new_v4 (or_id (fst r)) (snd r) (or_buyer_pubky (fst r)) now d = Inr (y, d')"
      using run True by (auto simp: expire_due_held_order_def seq_eq_Inr)
    show ?thesis
      using expire_held_effect [OF inv x due e] locked_pending(1) by blast
  next
    case False
    then show ?thesis using inv run by (simp add: expire_due_held_order_def window_sweep_refl)
  qed
  then show "window_inv d' \<and> held_sweep now d d'" "\<not> lock_sweep_order (held_due_order now) (or_id (fst r)) d'" by simp_all
qed

lemma expire_idle_step:
  assumes inv: "window_inv d" and due: "read_with r d" and run: "expire_idle_order new_v4 cutoff now r d = Inr (b, d')"
  shows "window_inv d' \<and> idle_sweep cutoff now d d'" "\<not> lock_sweep_order (idle_unbound_order cutoff) (or_id (fst r)) d'"
proof -
  have "window_inv d' \<and> idle_sweep cutoff now d d' \<and> \<not> lock_sweep_order (idle_unbound_order cutoff) (or_id (fst r)) d'"
  proof (cases "lock_sweep_order (idle_unbound_order cutoff) (or_id (fst r)) d")
    case True
    obtain x where x: "fetch_order d (or_id (fst r)) = Some x" "idle_unbound_order cutoff x"
      by (rule lock_sweep_orderD [OF window_invD(8) [OF inv] True])
    obtain command_id d0 where c: "draw_uuid new_v4 d = (command_id, d0)" by fastforce
    obtain y d1 z where e: "expire_payment new_v4 (snd r) (or_buyer_pubky (fst r)) command_id now d0 = Inr (y, d1)"
      "cancel_swept_order new_v4 command_id ''checkout idle elapsed'' (or_id (fst r)) (or_buyer_pubky (fst r)) now d1 = Inr (z, d')"
      using run True by (auto simp: expire_idle_order_def c seq_eq_Inr)
    show ?thesis
      using expire_idle_effect [OF inv x due e(1) draw_uuid_log [OF c] e(2)] locked_pending(2) by blast
  next
    case False
    then show ?thesis using inv run by (simp add: expire_idle_order_def window_sweep_refl)
  qed
  then show "window_inv d' \<and> idle_sweep cutoff now d d'" "\<not> lock_sweep_order (idle_unbound_order cutoff) (or_id (fst r)) d'"
    by simp_all
qed

lemma held_sweep_trans: "held_sweep now d d' \<Longrightarrow> held_sweep now d' d'' \<Longrightarrow> held_sweep now d d''"
  by (erule window_sweep_trans [rotated]) (assumption, rule swept_once [OF due_pending(1)])

lemma idle_sweep_trans: "idle_sweep cutoff now d d' \<Longrightarrow> idle_sweep cutoff now d' d'' \<Longrightarrow> idle_sweep cutoff now d d''"
  by (erule window_sweep_trans [rotated]) (assumption, rule swept_once [OF due_pending(2)])

interpretation held: sweep "expire_due_held_order new_v4 now" window_inv "held_sweep now" read_with for new_v4 now
  by unfold_locales (rule window_sweep_refl, erule (1) held_sweep_trans, erule (1) read_with_stays,
      rule expire_due_held_step(1))

interpretation idle: sweep "expire_idle_order new_v4 cutoff now" window_inv "idle_sweep cutoff now" read_with for new_v4 cutoff now
  by unfold_locales (rule window_sweep_refl, erule (1) idle_sweep_trans, erule (1) read_with_stays, rule expire_idle_step(1))
text \<open>What is pending after a sweep was so before it, with the same payments.\<close>

lemma order_payments_shrink:
  assumes c: "\<forall>r r'. change r r' \<longrightarrow> or_state r' \<noteq> ''pending_payment''" and s: "window_sweep change d d'"
    and P: "\<And>r. P r \<Longrightarrow> or_state r = ''pending_payment''"
  shows "set (order_payments P Q d') \<subseteq> set (order_payments P Q d)"
proof
  fix x assume "x \<in> set (order_payments P Q d')"
  then obtain r p where x: "x = (r, p)" "r \<in> set (st_orders d')" "P r" "p \<in> set (st_payments d')" "pm_order_id p = or_id r" "Q p"
    by (auto simp: order_payments_def)
  have "r \<in> set (st_orders d)" by (rule window_sweep_pending(1) [OF c s x(2) P [OF x(3)]])
  moreover have "pending_order d' (pm_order_id p)" using x(2,5) P [OF x(3)] by (auto simp: pending_order_def)
  then have "p \<in> set (st_payments d)" by (rule window_sweep_pending(3) [OF c s x(4)])
  ultimately show "x \<in> set (order_payments P Q d)" using x by (auto simp: order_payments_def)
qed

lemma locked_shrink:
  assumes c: "\<forall>r r'. change r r' \<longrightarrow> or_state r' \<noteq> ''pending_payment''" and s: "window_sweep change d d'"
    and P: "\<And>r. P r \<Longrightarrow> or_state r = ''pending_payment''" and l: "\<not> lock_sweep_order P k d"
  shows "\<not> lock_sweep_order P k d'"
  using l window_sweep_pending(1) [OF c s] P unfolding lock_sweep_order_def list_ex_iff by blast

lemma swept_not_pending: "\<forall>r r'. swept_order now due reason r r' \<longrightarrow> or_state r' \<noteq> ''pending_payment''"
  by (simp add: swept_order_def)

lemma read_rows:
  "r \<in> set (order_payments P Q d) \<Longrightarrow> read_with r d" "r \<in> set (order_payments P Q d) \<Longrightarrow> lock_sweep_order P (or_id (fst r)) d"
  by (auto simp: order_payments_def read_with_def lock_sweep_order_def list_ex_iff)

lemma held_pass:
  assumes inv: "window_inv d" and run: "sweep_rows (expire_due_held_order new_v4 now) (due_held_orders d now) 0 d = Inr (n, d')"
  shows "window_inv d'" "held_sweep now d d'" "due_held_orders d' now = []"
proof -
  have f: "read_with r d" if "r \<in> set (due_held_orders d now)" for r using that read_rows(1) by (simp add: due_held_orders_def)
  note k = held.rows_keep [OF inv f run]
  show "window_inv d'" "held_sweep now d d'" using k by simp_all
  have settled: "\<not> lock_sweep_order (held_due_order now) (or_id (fst r)) d'" if "r \<in> set (due_held_orders d now)" for r
    by (rule held.rows_settle [where finished = "\<lambda>r d. \<not> lock_sweep_order (held_due_order now) (or_id (fst r)) d",
          OF expire_due_held_step(2) locked_shrink [OF swept_not_pending _ due_pending(1)] inv f run that])
  have "r \<notin> set (due_held_orders d' now)" for r
  proof
    assume "r \<in> set (due_held_orders d' now)"
    then have r: "r \<in> set (order_payments (held_due_order now) (\<lambda>p. pm_state p \<in> set [''awaiting_entitlement'', ''detected'', ''expired'']) d')"
      by (simp add: due_held_orders_def)
    then have "r \<in> set (due_held_orders d now)"
      using subsetD [OF order_payments_shrink [where P = "held_due_order now", OF swept_not_pending conjunct2 [OF k] due_pending(1)] r]
      by (simp add: due_held_orders_def)
    with settled read_rows(2) [OF r] show False by blast
  qed
  then show "due_held_orders d' now = []" by (metis list.set_sel(1))
qed
lemma idle_pass:
  assumes inv: "window_inv d"
    and run: "sweep_rows (expire_idle_order new_v4 cutoff now) (due_idle_orders d cutoff) 0 d = Inr (n, d')"
  shows "window_inv d'" "idle_sweep cutoff now d d'" "due_idle_orders d' cutoff = []"
proof -
  have f: "read_with r d" if "r \<in> set (due_idle_orders d cutoff)" for r using that read_rows(1) by (simp add: due_idle_orders_def)
  note k = idle.rows_keep [OF inv f run]
  show "window_inv d'" "idle_sweep cutoff now d d'" using k by simp_all
  have settled: "\<not> lock_sweep_order (idle_unbound_order cutoff) (or_id (fst r)) d'" if "r \<in> set (due_idle_orders d cutoff)" for r
    by (rule idle.rows_settle [where finished = "\<lambda>r d. \<not> lock_sweep_order (idle_unbound_order cutoff) (or_id (fst r)) d",
          OF expire_idle_step(2) locked_shrink [OF swept_not_pending _ due_pending(2)] inv f run that])
  have "r \<notin> set (due_idle_orders d' cutoff)" for r
  proof
    assume "r \<in> set (due_idle_orders d' cutoff)"
    then have r: "r \<in> set (order_payments (idle_unbound_order cutoff) (\<lambda>p. pm_state p = ''awaiting_entitlement'') d')"
      by (simp add: due_idle_orders_def)
    then have "r \<in> set (due_idle_orders d cutoff)"
      using subsetD [OF order_payments_shrink [where P = "idle_unbound_order cutoff", OF swept_not_pending conjunct2 [OF k] due_pending(2)] r]
      by (simp add: due_idle_orders_def)
    with settled read_rows(2) [OF r] show False by blast
  qed
  then show "due_idle_orders d' cutoff = []" by (metis list.set_sel(1))
qed

text \<open>A pass leaves the rows of the other kinds no larger.\<close>

lemma due_rows_empty:
  assumes s: "window_sweep change d d'" "\<forall>r r'. change r r' \<longrightarrow> or_state r' \<noteq> ''pending_payment''"
  shows "due_held_orders d now = [] \<Longrightarrow> due_held_orders d' now = []"
    "due_preparing_orders d now = [] \<Longrightarrow> due_preparing_orders d' now = []"
proof -
  have empty: "order_payments P Q d' = []" if "order_payments P Q d = []" "\<And>r. P r \<Longrightarrow> or_state r = ''pending_payment''" for P Q
    using order_payments_shrink [OF s(2,1), of P Q] that by auto
  have nil: "sort_by le xs = [] \<longleftrightarrow> xs = []" for le and xs :: "(order_row \<times> payment_row) list"
    by (metis length_0_conv length_sort_by)
  show "due_held_orders d' now = []" if "due_held_orders d now = []"
    using that empty [OF _ due_pending(1)] by (simp add: due_held_orders_def nil)
  show "due_preparing_orders d' now = []" if "due_preparing_orders d now = []"
    using that unfolding due_preparing_orders_def nil map_is_Nil_conv by (rule empty) simp
qed

text \<open>Which orders a whole pass may cancel, and why.\<close>

definition window_cancelled :: "datetime \<Rightarrow> int \<Rightarrow> order_row \<Rightarrow> order_row \<Rightarrow> bool" where
  "window_cancelled now hold_window_seconds r r' \<longleftrightarrow>
     swept_order now (held_due_order now) ''payment window elapsed'' r r'
     \<or> swept_order now (idle_unbound_order (now - seconds hold_window_seconds)) ''checkout idle elapsed'' r r'"

lemma window_sweep_weaken:
  "window_sweep change d d' \<Longrightarrow> (\<And>r r'. change r r' \<Longrightarrow> change' r r') \<Longrightarrow> window_sweep change' d d'"
  unfolding window_sweep_def by blast

lemma window_pass:
  assumes inv: "window_inv d" and prep: "due_preparing_orders d now = []"
    and run: "expire_due_payment_windows new_v4 expire_preparing_order hold_window_seconds now d = (Inr n, d')"
  shows "window_inv d'" "window_sweep (window_cancelled now hold_window_seconds) d d'" "due_held_orders d' now = []"
    "due_idle_orders d' (now - seconds hold_window_seconds) = []"
proof -
  let ?cutoff = "now - seconds hold_window_seconds"
  obtain k d1 where h: "sweep_rows (expire_due_held_order new_v4 now) (due_held_orders d now) 0 d = Inr (k, d1)"
    using run by (auto simp: expire_due_payment_windows_def split: sum.splits)
  note p1 = held_pass [OF inv h]
  have "due_preparing_orders d1 now = []" using due_rows_empty(2) [OF p1(2) swept_not_pending] prep by simp
  then obtain j where i: "sweep_rows (expire_idle_order new_v4 ?cutoff now) (due_idle_orders d1 ?cutoff) 0 d1 = Inr (j, d')"
    using run h by (auto simp: expire_due_payment_windows_def expire_idle_unbound_checkouts_def Let_def split: sum.splits)
  note p2 = idle_pass [OF p1(1) i]
  show "window_inv d'" "due_idle_orders d' ?cutoff = []" using p2 by simp_all
  show "due_held_orders d' now = []" using due_rows_empty(1) [OF p2(2) swept_not_pending] p1(3) by simp
  have "window_sweep (window_cancelled now hold_window_seconds) d d1" "window_sweep (window_cancelled now hold_window_seconds) d1 d'"
    by (rule window_sweep_weaken [OF p1(2)], simp add: window_cancelled_def,
        rule window_sweep_weaken [OF p2(2)], simp add: window_cancelled_def)
  then show "window_sweep (window_cancelled now hold_window_seconds) d d'"
    by (rule window_sweep_trans [rotated]) (auto simp: window_cancelled_def swept_order_def dest: due_pending)
qed

text \<open>C17: A payment-window pass with no prepared Paykit invoice among the due orders keeps the books and every listing's total,
  changes an order only by cancelling one whose hold ran out or whose checkout stayed idle, and leaves none of them behind.\<close>

theorem payment_windows_swept:
  assumes "books_ok d" "table_ok pm_id payment_check (st_payments d)" "due_preparing_orders d now = []"
    and "expire_due_payment_windows new_v4 expire_preparing_order hold_window_seconds now d = (Inr n, d')"
  shows "books_ok d' \<and> (\<forall>a. total_stock d' a = total_stock d a)
    \<and> (\<forall>r' \<in> set (st_orders d'). r' \<in> set (st_orders d) \<or> (\<exists>r \<in> set (st_orders d). window_cancelled now hold_window_seconds r r'))
    \<and> due_held_orders d' now = [] \<and> due_idle_orders d' (now - seconds hold_window_seconds) = []"
  using window_pass [OF _ assms(3,4)] assms(1,2) by (simp add: window_inv_def window_sweep_def)

definition sample_window_db :: db where
  "sample_window_db = sample_held_db\<lparr>st_payments := [sample_payment]\<rparr>"

theorem payment_windows_swept_witness:
  "\<exists>d'. expire_due_payment_windows (\<lambda>n. replicate n CHR ''u'') (\<lambda>_ d. Inr (False, d)) 900 700 sample_window_db = (Inr 1, d')
     \<and> books_ok d' \<and> map or_state (st_orders d') = [''cancelled''] \<and> due_held_orders d' 700 = []"
proof -
  let ?run = "expire_due_payment_windows (\<lambda>n. replicate n CHR ''u'') (\<lambda>_ d. Inr (False, d)) 900 700 sample_window_db"
  have "case ?run of (Inr n, d') \<Rightarrow> n = 1 \<and> map or_state (st_orders d') = [''cancelled''] | _ \<Rightarrow> False" by code_simp
  then obtain d' where run: "?run = (Inr 1, d')" "map or_state (st_orders d') = [''cancelled'']"
    by (auto split: prod.splits sum.splits)
  have "books_ok sample_window_db" "table_ok pm_id payment_check (st_payments sample_window_db)"
    "due_preparing_orders sample_window_db 700 = []"
    by code_simp+
  note p = payment_windows_swept [OF this run(1)]
  show ?thesis by (intro exI [of _ d'] conjI) (use run p in simp_all)
qed
section \<open>Deliveries\<close>

text \<open>A step the server takes on an order: an edge of the machine with that trigger, one revision on, the same deal.\<close>

definition server_move :: "string \<Rightarrow> order_row \<Rightarrow> order_row \<Rightarrow> bool" where
  "server_move trigger r r' \<longleftrightarrow>
     same_deal r r' \<and> or_revision r' = or_revision r + 1
     \<and> list_ex (\<lambda>tr. tr_from tr = or_state r \<and> tr_to tr = or_state r' \<and> Server trigger \<in> set (tr_via tr)) (transitions order_machine)"

text \<open>Orders stay or take one such step, those that were ready for it.\<close>

definition server_sweep :: "string \<Rightarrow> (order_row \<Rightarrow> order_row \<Rightarrow> bool) \<Rightarrow> db \<Rightarrow> db \<Rightarrow> bool" where
  "server_sweep trigger P d d' \<longleftrightarrow>
     (\<forall>a. total_stock d' a = total_stock d a) \<and> st_handovers d' = st_handovers d
     \<and> (\<forall>r' \<in> set (st_orders d'). r' \<in> set (st_orders d) \<or> (\<exists>r \<in> set (st_orders d). server_move trigger r r' \<and> P r r'))"

lemma server_sweep_refl: "server_sweep trigger P d d"
  by (auto simp: server_sweep_def)

lemma server_edges:
  "list_ex (\<lambda>tr. tr_from tr = s \<and> tr_to tr = s' \<and> Server ''delivery_assume'' \<in> set (tr_via tr)) (transitions order_machine)
     \<longleftrightarrow> s = ''shipped'' \<and> s' = ''delivered''"
  "list_ex (\<lambda>tr. tr_from tr = s \<and> tr_to tr = s' \<and> Server ''order_auto_complete'' \<in> set (tr_via tr)) (transitions order_machine)
     \<longleftrightarrow> s = ''delivered'' \<and> s' = ''completed''"
  by (auto simp: order_machine_def edge_def)

lemma server_sweep_trans:
  assumes "trigger \<in> {''delivery_assume'', ''order_auto_complete''}" "server_sweep trigger P d d'" "server_sweep trigger P d' d''"
  shows "server_sweep trigger P d d''"
proof -
  have once: "\<not> server_move trigger r' r''" if "server_move trigger r r'" for r r' r''
    using that assms(1) by (auto simp: server_move_def server_edges)
  have "r'' \<in> set (st_orders d) \<or> (\<exists>r \<in> set (st_orders d). server_move trigger r r'' \<and> P r r'')" if "r'' \<in> set (st_orders d'')" for r''
    using that assms(2,3) once unfolding server_sweep_def by meson
  then show ?thesis using assms(2,3) by (simp add: server_sweep_def)
qed

text \<open>The compare-and-swap of a server step on an order that holds nothing.\<close>

lemma server_update:
  assumes ok: "books_ok d" and u: "update_orders (\<lambda>r. or_id r = k \<and> or_state r = s) f d = Inr (w, d')" and s: "s \<noteq> ''pending_payment''"
    and f: "\<And>x. or_id (f x) = or_id x" "\<And>x. or_stock_held (f x) = or_stock_held x" "\<And>x. or_lines (f x) = or_lines x"
      "\<And>x. or_auction_aggregate_id (f x) = or_auction_aggregate_id x" "\<And>x. or_hold_expires_at (f x) = or_hold_expires_at x"
  shows "books_ok d'" "\<forall>a. total_stock d' a = total_stock d a" "st_handovers d' = st_handovers d"
    "r' \<in> set (st_orders d') \<Longrightarrow> r' \<in> set (st_orders d) \<or> (\<exists>r \<in> set (st_orders d). or_id r = k \<and> or_state r = s \<and> r' = f r)"
proof -
  have t: "stock_tables_ok d" and l: "ledger_off (\<lambda>_. 0) d" and dr: "drops_ok d" and h: "list_all hold_shape (st_orders d)"
    and to: "table_ok or_id order_check (st_orders d)"
    using ok by (simp_all add: books_ok_def stock_ok_def stock_tables_ok_def)
  have d': "d' = d\<lparr>st_orders := map (\<lambda>r. if or_id r = k \<and> or_state r = s then f r else r) (st_orders d)\<rparr>"
    using u by (simp add: orders.upd_Inr)
  show "st_handovers d' = st_handovers d" "\<forall>a. total_stock d' a = total_stock d a"
    by (simp_all add: d' total_stock_def fetch_listing_def)
  show "r' \<in> set (st_orders d) \<or> (\<exists>r \<in> set (st_orders d). or_id r = k \<and> or_state r = s \<and> r' = f r)" if "r' \<in> set (st_orders d')"
    using that by (auto simp: d')
  have "order_holds (if or_id r = k \<and> or_state r = s then f r else r) a = order_holds r a" for r a
    by (simp add: order_holds_def f)
  then have "accounted d' a = accounted d a" for a by (simp add: accounted_def d' o_def)
  then have "ledger_off (\<lambda>_. 0) d'" using l by (simp add: ledger_off_def d')
  moreover have "stock_tables_ok d'" using t orders.upd_ok [OF u f(1) to] by (simp add: stock_tables_ok_def d')
  moreover have "hold_shape (if or_id r = k \<and> or_state r = s then f r else r)" if "r \<in> set (st_orders d)" for r
    using that h s by (auto simp: list_all_iff hold_shape_def f)
  then have "list_all hold_shape (st_orders d')" by (simp only: orders.upd_get [OF u] list.pred_map) (simp add: list_all_iff)
  moreover have "drops_ok d'" using dr drops_ok_cong [of d' d] by (simp add: d')
  ultimately show "books_ok d'" by (simp add: books_ok_def stock_ok_def)
qed
text \<open>A row of state \<open>s\<close> that a batch claimed is still as it was read.\<close>

definition still :: "string \<Rightarrow> order_row \<Rightarrow> db \<Rightarrow> bool" where
  "still s order d \<longleftrightarrow> (\<forall>r \<in> set (st_orders d). or_id r = or_id order \<and> or_state r = s \<longrightarrow> r = order)"

lemma still_read:
  assumes "books_ok d" "order \<in> set (st_orders d)"
  shows "still s order d"
proof -
  have "inj_on or_id (set (st_orders d))"
    using assms(1) by (simp add: books_ok_def stock_ok_def stock_tables_ok_def table_ok_def distinct_map)
  then show ?thesis using assms(2) by (auto simp: still_def dest: inj_onD)
qed

lemma still_stays:
  assumes "server_sweep trigger P d d'" "still s order d" "\<And>r r'. server_move trigger r r' \<Longrightarrow> or_state r' \<noteq> s"
  shows "still s order d'"
  using assms unfolding still_def server_sweep_def by meson

lemma server_log:
  assumes "log_step d d'"
  shows "st_handovers d' = st_handovers d" "st_orders d' = st_orders d" "total_stock d' = total_stock d"
  using assms by (auto simp: log_step_def total_stock_def fetch_listing_def fun_eq_iff)

definition assumed_from :: "datetime \<Rightarrow> datetime \<Rightarrow> order_row \<Rightarrow> order_row \<Rightarrow> bool" where
  "assumed_from cutoff now r r' \<longleftrightarrow>
     or_fulfillment r \<noteq> ''digital'' \<and> or_delivery_assumed r'
     \<and> (\<exists>shipment. or_shipment r = Some shipment \<and> sh_shipped_at shipment \<le> cutoff
          \<and> or_shipment r' = Some (shipment\<lparr>sh_state := ''delivered'', sh_delivered_at := Some now\<rparr>))"

lemma assume_delivery_step:
  assumes ok: "books_ok d" and order: "still ''shipped'' order d \<and> or_fulfillment order \<noteq> ''digital''"
    and run: "assume_delivery new_v4 cutoff now order d = Inr (b, d')"
  shows "books_ok d' \<and> server_sweep ''delivery_assume'' (assumed_from cutoff now) d d'"
proof (cases "\<exists>shipment. or_shipment order = Some shipment \<and> sh_shipped_at shipment \<le> cutoff")
  case False
  then show ?thesis using ok run by (auto simp: assume_delivery_def server_sweep_refl split: option.splits if_splits)
next
  case True
  then obtain shipment where sh: "or_shipment order = Some shipment" "sh_shipped_at shipment \<le> cutoff" by blast
  let ?f = "\<lambda>r. r\<lparr>or_revision := or_revision r + 1, or_state := ''delivered'',
    or_shipment := Some (shipment\<lparr>sh_state := ''delivered'', sh_delivered_at := Some now\<rparr>), or_delivery_assumed := True, or_updated_at := now\<rparr>"
  obtain w d1 where u: "update_orders (\<lambda>r. or_id r = or_id order \<and> or_state r = ''shipped'') ?f d = Inr (w, d1)" and log: "log_step d1 d'"
  proof -
    obtain w d1 where u: "update_orders (\<lambda>r. or_id r = or_id order \<and> or_state r = ''shipped'') ?f d = Inr (w, d1)"
      using run sh by (auto simp: assume_delivery_def seq_eq_Inr)
    obtain c d2 where c: "draw_uuid new_v4 d1 = (c, d2)" by fastforce
    have "log_step d1 d'"
      using run sh u insert_event_log insert_notification_log log_step_trans [OF draw_uuid_log [OF c]]
      by (auto simp: assume_delivery_def c Let_def seq_eq_Inr split: list.splits) (meson log_step_trans)+
    with u show thesis by (rule that)
  qed
  note e = server_update [OF ok u]
  have "server_move ''delivery_assume'' r (?f r) \<and> assumed_from cutoff now r (?f r)"
    if "r \<in> set (st_orders d)" "or_id r = or_id order" "or_state r = ''shipped''" for r
  proof -
    have "r = order" using order that by (simp add: still_def)
    then show ?thesis using that sh order by (simp add: server_move_def server_edges same_deal_def assumed_from_def)
  qed
  then have "\<forall>r' \<in> set (st_orders d1). r' \<in> set (st_orders d)
      \<or> (\<exists>r \<in> set (st_orders d). server_move ''delivery_assume'' r r' \<and> assumed_from cutoff now r r')"
    using e(4) by fastforce
  with e(1-3) show ?thesis using server_log [OF log] books_log(1) [OF log] by (auto simp: server_sweep_def)
qed
definition completed_from :: "db \<Rightarrow> datetime \<Rightarrow> order_row \<Rightarrow> order_row \<Rightarrow> bool" where
  "completed_from d cutoff r r' \<longleftrightarrow> (\<exists>t. delivered_instant d r = Some t \<and> t \<le> cutoff)"

lemma delivered_instant_cong: "st_handovers d' = st_handovers d \<Longrightarrow> delivered_instant d' r = delivered_instant d r"
  by (simp add: delivered_instant_def handover_at_def)

lemma complete_delivered_step:
  assumes ok: "books_ok d \<and> st_handovers d = st_handovers d0" and order: "still ''delivered'' order d"
    and run: "complete_delivered new_v4 cutoff now order d = Inr (b, d')"
  shows "(books_ok d' \<and> st_handovers d' = st_handovers d0) \<and> server_sweep ''order_auto_complete'' (completed_from d0 cutoff) d d'"
proof (cases "\<exists>t. delivered_instant d order = Some t \<and> t \<le> cutoff")
  case False
  then show ?thesis using ok run by (auto simp: complete_delivered_def server_sweep_refl split: option.splits if_splits)
next
  case True
  then obtain t where t: "delivered_instant d order = Some t" "t \<le> cutoff" by blast
  obtain w d1 where u: "update_orders (\<lambda>r. or_id r = or_id order \<and> or_state r = ''delivered'') (moved ''completed'' now) d = Inr (w, d1)"
    and log: "log_step d1 d'"
  proof -
    obtain w d1 where u: "update_orders (\<lambda>r. or_id r = or_id order \<and> or_state r = ''delivered'') (moved ''completed'' now) d = Inr (w, d1)"
      using run t by (auto simp: complete_delivered_def seq_eq_Inr)
    obtain c d2 where c: "draw_uuid new_v4 d1 = (c, d2)" by fastforce
    have "log_step d1 d'"
      using run t u insert_event_log insert_notification_log log_step_trans [OF draw_uuid_log [OF c]]
      by (auto simp: complete_delivered_def c Let_def seq_eq_Inr split: list.splits) (meson log_step_trans)+
    with u show thesis by (rule that)
  qed
  note e = server_update [OF conjunct1 [OF ok] u]
  have "server_move ''order_auto_complete'' r (moved ''completed'' now r) \<and> completed_from d0 cutoff r (moved ''completed'' now r)"
    if "r \<in> set (st_orders d)" "or_id r = or_id order" "or_state r = ''delivered''" for r
  proof -
    have "r = order" using order that by (simp add: still_def)
    then show ?thesis
      using that t ok delivered_instant_cong [of d d0 order] by (auto simp: server_move_def server_edges completed_from_def)
  qed
  then have "\<forall>r' \<in> set (st_orders d1). r' \<in> set (st_orders d)
      \<or> (\<exists>r \<in> set (st_orders d). server_move ''order_auto_complete'' r r' \<and> completed_from d0 cutoff r r')"
    using e(4) by fastforce
  with e(1-3) ok show ?thesis using server_log [OF log] books_log(1) [OF log] by (auto simp: server_sweep_def)
qed

lemma server_move_target:
  "server_move ''delivery_assume'' r r' \<Longrightarrow> or_state r' \<noteq> ''shipped''" "server_move ''order_auto_complete'' r r' \<Longrightarrow> or_state r' \<noteq> ''delivered''"
  by (simp_all add: server_move_def server_edges)

interpretation assumed: sweep "assume_delivery new_v4 cutoff now" books_ok
  "server_sweep ''delivery_assume'' (assumed_from cutoff now)" "\<lambda>order d. still ''shipped'' order d \<and> or_fulfillment order \<noteq> ''digital''"
  for new_v4 cutoff now
proof
  show "server_sweep ''delivery_assume'' (assumed_from cutoff now) d d" for d by (rule server_sweep_refl)
  show "server_sweep ''delivery_assume'' (assumed_from cutoff now) d d''"
    if "server_sweep ''delivery_assume'' (assumed_from cutoff now) d d'" "server_sweep ''delivery_assume'' (assumed_from cutoff now) d' d''" for d d' d''
    by (rule server_sweep_trans [OF _ that]) simp
  show "still ''shipped'' order d' \<and> or_fulfillment order \<noteq> ''digital''"
    if "server_sweep ''delivery_assume'' (assumed_from cutoff now) d d'" "still ''shipped'' order d \<and> or_fulfillment order \<noteq> ''digital''" for d d' order
    using still_stays [OF that(1) _ server_move_target(1)] that(2) by simp
qed (rule assume_delivery_step)

interpretation auto_completed: sweep "complete_delivered new_v4 cutoff now" "\<lambda>d. books_ok d \<and> st_handovers d = st_handovers d0"
  "server_sweep ''order_auto_complete'' (completed_from d0 cutoff)" "still ''delivered''" for new_v4 cutoff now d0
proof
  show "server_sweep ''order_auto_complete'' (completed_from d0 cutoff) d d" for d by (rule server_sweep_refl)
  show "server_sweep ''order_auto_complete'' (completed_from d0 cutoff) d d''"
    if "server_sweep ''order_auto_complete'' (completed_from d0 cutoff) d d'" "server_sweep ''order_auto_complete'' (completed_from d0 cutoff) d' d''" for d d' d''
    by (rule server_sweep_trans [OF _ that]) simp
  show "still ''delivered'' order d'"
    if "server_sweep ''order_auto_complete'' (completed_from d0 cutoff) d d'" "still ''delivered'' order d" for d d' order
    by (rule still_stays [OF that server_move_target(2)])
qed (rule complete_delivered_step)
text \<open>C19: The server's delivery passes keep the books and move an order only along the machine's server edges: a shipped parcel
  is taken as delivered only when it was sent before the cutoff, and marked so; a delivered order is completed only when its
  handover, digital delivery or parcel is older than the cutoff; every other order stays as it was.\<close>

theorem delivery_sweeps_follow_machine:
  assumes "books_ok d" "assume_due_deliveries new_v4 now assume_days batch_size max_batches d = (a, d1)"
    and "complete_due_delivered_orders new_v4 now' auto_complete_days batch_size' max_batches' d1 = (a', d2)"
  shows "books_ok d1 \<and> server_sweep ''delivery_assume'' (assumed_from (now - days assume_days) now) d d1
    \<and> books_ok d2 \<and> server_sweep ''order_auto_complete'' (completed_from d1 (now' - days auto_complete_days)) d1 d2"
proof -
  have f1: "still ''shipped'' r e \<and> or_fulfillment r \<noteq> ''digital''" if "books_ok e" "r \<in> set (claimed_shipped e cutoff n)" for e r cutoff n
    using that still_read [of e r] by (auto simp: claimed_shipped_def dest!: in_set_takeD)
  have f2: "still ''delivered'' r e" if "books_ok e \<and> st_handovers e = st_handovers d1" "r \<in> set (claimed_delivered e cutoff n)" for e r cutoff n
    using that still_read [of e r] by (auto simp: claimed_delivered_def dest!: in_set_takeD)
  have one: "books_ok d1 \<and> server_sweep ''delivery_assume'' (assumed_from (now - days assume_days) now) d d1"
    by (rule assumed.batches_keep [OF f1 assms(1) assms(2) [unfolded assume_due_deliveries_def Let_def]])
  have "(books_ok d2 \<and> st_handovers d2 = st_handovers d1)
      \<and> server_sweep ''order_auto_complete'' (completed_from d1 (now' - days auto_complete_days)) d1 d2"
    by (rule auto_completed.batches_keep [OF f2 _ assms(3) [unfolded complete_due_delivered_orders_def Let_def]]) (use one in simp_all)
  with one show ?thesis by simp
qed

definition sample_shipped_db :: db where
  "sample_shipped_db = sample_stock_db\<lparr>st_orders := [sample_order\<lparr>or_state := ''shipped'', or_fulfillment := ''shipping'',
     or_shipment := Some \<lparr>sh_carrier = ''Post'', sh_tracking_number = ''T1'', sh_state = ''shipped'', sh_shipped_at = 0, sh_delivered_at = None\<rparr>\<rparr>]\<rparr>"

theorem delivery_sweeps_follow_machine_witness:
  "\<exists>d1 d2. assume_due_deliveries (\<lambda>n. replicate n CHR ''u'') (days 30) 14 10 2 sample_shipped_db = (Inr 1, d1)
     \<and> complete_due_delivered_orders (\<lambda>n. replicate n CHR ''u'') (days 60) 7 10 2 d1 = (Inr 1, d2)
     \<and> map or_state (st_orders d1) = [''delivered''] \<and> map or_state (st_orders d2) = [''completed''] \<and> books_ok d2"
proof -
  let ?one = "assume_due_deliveries (\<lambda>n. replicate n CHR ''u'') (days 30) 14 10 2 sample_shipped_db"
  let ?two = "complete_due_delivered_orders (\<lambda>n. replicate n CHR ''u'') (days 60) 7 10 2 (snd ?one)"
  have c: "fst ?one = Inr 1" "fst ?two = Inr 1" "map or_state (st_orders (snd ?one)) = [''delivered'']"
    "map or_state (st_orders (snd ?two)) = [''completed'']"
    by code_simp+
  have ok: "books_ok sample_shipped_db" by code_simp
  have p: "?one = (Inr 1, snd ?one)" "?two = (Inr 1, snd ?two)" using c(1,2) by (simp_all add: prod_eq_iff)
  show ?thesis
    by (rule exI [of _ "snd ?one"], rule exI [of _ "snd ?two"])
      (use p c delivery_sweeps_follow_machine [OF ok p] in simp)
qed

section \<open>Lease properties\<close>

text \<open>C20: Whoever takes and ends leases, in whatever order: the fences granted for a task only grow, so no two grants share
  one; ending a grant that a later one has replaced changes nothing; and while a lease is live no other instance gets it.\<close>

theorem fenced_leases:
  assumes "lease_run ([], []) (leases, gs)"
  shows "sorted_wrt (\<lambda>g g'. fst g = fst g' \<longrightarrow> snd (snd g') < snd (snd g)) gs
    \<and> (\<forall>as task holder fence bs now. gs = as @ (task, holder, fence) # bs \<and> task \<in> fst ` set as \<longrightarrow>
         release_fenced_lease task holder fence now leases = leases)
    \<and> (\<forall>l \<in> set leases. \<forall>holder now secs. now < wl_lease_until l \<and> holder \<noteq> wl_holder l \<longrightarrow>
         try_acquire_fenced_lease (wl_task l) holder now secs leases = (None, leases))"
proof -
  have wf: "lease_wf leases gs" using lease_run_wf [OF assms] by (simp add: lease_wf_def)
  have "try_acquire_fenced_lease (wl_task l) holder now secs leases = (None, leases)"
    if "l \<in> set leases" "now < wl_lease_until l" "holder \<noteq> wl_holder l" for l holder now secs
  proof -
    have "fetch wl_task (wl_task l) leases = Some l" using wf that(1) by (simp add: fetch_Some_iff lease_wf_def)
    then show ?thesis using that by (auto simp: try_acquire_fenced_lease_def Let_def)
  qed
  moreover have "release_fenced_lease task holder fence now leases = leases"
    if "gs = as @ (task, holder, fence) # bs \<and> task \<in> fst ` set as" for as task holder fence bs now
    using stale_release [of leases as task holder fence bs] wf that by simp
  moreover have "sorted_wrt (\<lambda>g g'. fst g = fst g' \<longrightarrow> snd (snd g') < snd (snd g)) gs" using wf by (simp add: lease_wf_def)
  ultimately show ?thesis by blast
qed

theorem fenced_leases_witness:
  "\<exists>leases. lease_run ([], []) (leases, [(''sweep'', ''b'', 2), (''sweep'', ''a'', 1)])
     \<and> release_fenced_lease ''sweep'' ''a'' 1 50 leases = leases"
proof -
  let ?l1 = "snd (try_acquire_fenced_lease ''sweep'' ''a'' 0 1 [])"
  let ?l2 = "snd (try_acquire_fenced_lease ''sweep'' ''b'' (seconds 2) 1 ?l1)"
  have "try_acquire_fenced_lease ''sweep'' ''a'' 0 1 [] = (Some 1, ?l1)" by (simp add: try_acquire_fenced_lease_def fetch_def)
  note r1 = lease_run.more [OF lease_run.none lease_step.granted [OF this]]
  have "try_acquire_fenced_lease ''sweep'' ''b'' (seconds 2) 1 ?l1 = (Some 2, ?l2)"
    by (simp add: try_acquire_fenced_lease_def fetch_def Let_def)
  note r2 = lease_run.more [OF r1 lease_step.granted [OF this]]
  have "[(''sweep'', ''b'', 2), (''sweep'', ''a'', 1)] = [(''sweep'', ''b'', 2)] @ (''sweep'', ''a'', 1) # ([] :: grant list)
      \<and> ''sweep'' \<in> fst ` set [(''sweep'', ''b'', 2 :: int)]" by simp
  then have "release_fenced_lease ''sweep'' ''a'' 1 50 ?l2 = ?l2"
    using conjunct1 [OF conjunct2 [OF fenced_leases [OF r2]]] by blast
  with r2 show ?thesis by blast
qed
section \<open>Offers and awards\<close>

text \<open>How an offer may expire: on its negotiation deadline, or as an award nobody paid.\<close>

definition offer_expired :: "datetime \<Rightarrow> offer_row \<Rightarrow> offer_row \<Rightarrow> bool" where
  "offer_expired now r r' \<longleftrightarrow>
     negotiating r \<and> ro_expires_at r \<le> now \<and> r' = expired_offer ''negotiation_window'' now r
     \<or> ro_state r = ''accepted'' \<and> (\<exists>t. ro_award_expires_at r = Some t \<and> t \<le> now) \<and> r' = expired_offer ''award_window'' now r"

definition offer_sweep :: "datetime \<Rightarrow> db \<Rightarrow> db \<Rightarrow> bool" where
  "offer_sweep now d d' \<longleftrightarrow>
     (\<forall>a. total_stock d' a = total_stock d a)
     \<and> (\<forall>r' \<in> set (st_offers d'). r' \<in> set (st_offers d) \<or> (\<exists>r \<in> set (st_offers d). offer_expired now r r'))"

lemma expired_offer_simps [simp]:
  "ro_id (expired_offer reason now r) = ro_id r" "ro_state (expired_offer reason now r) = ''expired''"
  by (simp_all add: expired_offer_def)

lemma offer_expired_state: "offer_expired now r r' \<Longrightarrow> \<not> negotiating r' \<and> ro_state r' = ''expired'' \<and> ro_state r \<noteq> ''expired''"
  by (auto simp: offer_expired_def negotiating_def)

lemma offer_sweep_refl: "offer_sweep now d d"
  by (auto simp: offer_sweep_def)

lemma offer_sweep_row: "offer_sweep now d d' \<Longrightarrow> r' \<in> set (st_offers d') \<Longrightarrow> r' \<in> set (st_offers d) \<or> (\<exists>r \<in> set (st_offers d). offer_expired now r r')"
  by (simp add: offer_sweep_def)

lemma offer_sweep_trans:
  assumes s: "offer_sweep now d d'" "offer_sweep now d' d''"
  shows "offer_sweep now d d''"
proof -
  have "r'' \<in> set (st_offers d) \<or> (\<exists>r \<in> set (st_offers d). offer_expired now r r'')" if "r'' \<in> set (st_offers d'')" for r''
    using offer_sweep_row [OF s(2) that] offer_sweep_row [OF s(1)] offer_expired_state by blast
  then show ?thesis using s by (simp add: offer_sweep_def)
qed

definition offers_inv :: "db \<Rightarrow> bool" where
  "offers_inv d \<longleftrightarrow> books_ok d \<and> offers_ok d"

text \<open>The write of an expiry: one row of the id, then the event.\<close>

lemma expire_offer_write:
  assumes ok: "offers_ok d" and u: "update_offers (\<lambda>r. ro_id r = k \<and> P r) (expired_offer reason now) d = Inr (w, d')"
    and P: "\<And>r. r \<in> set (st_offers d) \<Longrightarrow> ro_id r = k \<Longrightarrow> P r \<Longrightarrow> offer_expired now r (expired_offer reason now r)"
  shows "offers_ok d'" "offer_sweep now d d'" "books_ok d' = books_ok d"
proof -
  have d': "d' = d\<lparr>st_offers := map (\<lambda>r. if ro_id r = k \<and> P r then expired_offer reason now r else r) (st_offers d)\<rparr>"
    using u by (simp add: offers.upd_Inr)
  have t: "table_ok ro_id offer_check (st_offers d)" and a: "list_all award_agreed (st_offers d)" using ok by (simp_all add: offers_ok_def)
  have "award_agreed (expired_offer reason now r)" for r by (simp add: award_agreed_def)
  then have "list_all award_agreed (st_offers d')" using a by (auto simp: d' list_all_iff)
  moreover have "table_ok ro_id offer_check (st_offers d')" by (rule offers.upd_ok [OF u _ t]) simp
  ultimately show "offers_ok d'" by (simp add: offers_ok_def)
  show "offer_sweep now d d'" using P by (auto simp: offer_sweep_def d' total_stock_def fetch_listing_def)
  show "books_ok d' = books_ok d" by (rule books_ok_cong) (simp_all add: d')
qed

lemma offer_sweep_log:
  assumes "log_step d1 d'"
  shows "offer_sweep now d d' = offer_sweep now d d1" "offers_ok d' = offers_ok d1"
  using log_stepD [OF assms] server_log(3) [OF assms] by (simp_all add: offer_sweep_def offers_ok_def)

text \<open>A row read as due is due as long as it is under negotiation.\<close>

definition due_still :: "datetime \<Rightarrow> offer_row \<Rightarrow> db \<Rightarrow> bool" where
  "due_still now offer d \<longleftrightarrow> (\<forall>r \<in> set (st_offers d). ro_id r = ro_id offer \<and> negotiating r \<longrightarrow> ro_expires_at r \<le> now)"

lemma due_still_stays: "offer_sweep now d d' \<Longrightarrow> due_still now offer d \<Longrightarrow> due_still now offer d'"
  unfolding due_still_def using offer_sweep_row offer_expired_state by blast

lemma expire_due_offer_step:
  assumes inv: "offers_inv d" and due: "due_still now offer d" and run: "expire_due_offer new_v4 now offer d = Inr (b, d')"
  shows "offers_inv d' \<and> offer_sweep now d d'" "\<forall>r \<in> set (st_offers d'). ro_id r = ro_id offer \<longrightarrow> \<not> negotiating r"
proof -
  obtain w d1 where u: "update_offers (\<lambda>r. ro_id r = ro_id offer \<and> negotiating r) (expired_offer ''negotiation_window'' now) d = Inr (w, d1)"
    and log: "log_step d1 d'"
    using run insert_event_log by (fastforce simp: expire_due_offer_def seq_eq_Inr split: if_splits)
  have "offer_expired now r (expired_offer ''negotiation_window'' now r)"
    if "r \<in> set (st_offers d)" "ro_id r = ro_id offer" "negotiating r" for r
    using due that by (simp add: due_still_def offer_expired_def)
  note e = expire_offer_write [OF _ u this]
  show "offers_inv d' \<and> offer_sweep now d d'"
    using e inv offer_sweep_log [OF log] books_log(1) [OF log] by (simp add: offers_inv_def)
  show "\<forall>r \<in> set (st_offers d'). ro_id r = ro_id offer \<longrightarrow> \<not> negotiating r"
    using offers.upd_get [OF u] log_stepD(11) [OF log] by (auto simp: negotiating_def)
qed

interpretation negotiations: sweep "expire_due_offer new_v4 now" offers_inv "offer_sweep now" "due_still now" for new_v4 now
  by unfold_locales (rule offer_sweep_refl, erule (1) offer_sweep_trans, erule (1) due_still_stays, rule expire_due_offer_step(1))
text \<open>An expired award gives its units back to its listing.\<close>

lemma expire_due_award_cases:
  assumes run: "expire_due_award new_v4 now offer_id d = Inr (b, d')"
  obtains (none) "d' = d" | (award) offer v k reservation flipped listings offers d1 d2 d3 t where
    "offer \<in> set (st_offers d)" "ro_state offer = ''accepted''" "ro_award_expires_at offer = Some t" "t \<le> now"
    "update_reservations (\<lambda>r. rv_id r = v \<and> rv_status r = ''active'' \<and> rv_offer_award_id r = Some k)
       (\<lambda>r. r\<lparr>rv_status := ''expired'', rv_updated_at := now\<rparr>) d = Inr (reservation # flipped, d1)"
    "rv_listing_aggregate_id reservation = ro_listing_aggregate_id offer" "rv_quantity reservation = ro_quantity offer"
    "update_listings (\<lambda>l. ls_aggregate_id l = ro_listing_aggregate_id offer \<and> ro_quantity offer \<le> ls_reserved_quantity l)
       (award_released_row (ro_quantity offer) now) d1 = Inr (listings, d2)" "listings \<noteq> []"
    "update_offers (\<lambda>r. ro_id r = ro_id offer \<and> ro_state r = ''accepted'') (expired_offer ''award_window'' now) d2 = Inr (offers, d3)"
    "log_step d3 d'"
proof (cases "find (\<lambda>r. ro_id r = offer_id \<and> ro_state r = ''accepted'' \<and> (case ro_award_expires_at r of None \<Rightarrow> False | Some t \<Rightarrow> t \<le> now)) (st_offers d)")
  case None
  then show thesis using none run by (simp add: expire_due_award_def)
next
  case (Some offer)
  then have o': "offer \<in> set (st_offers d)" "ro_state offer = ''accepted''" "\<exists>t. ro_award_expires_at offer = Some t \<and> t \<le> now"
    by (auto simp: find_Some_iff split: option.splits)
  obtain v k where ids: "ro_reservation_id offer = Some v" "ro_award_id offer = Some k"
    using run Some by (auto simp: expire_due_award_def split: option.splits)
  obtain reservation flipped d1 where r: "update_reservations (\<lambda>r. rv_id r = v \<and> rv_status r = ''active'' \<and> rv_offer_award_id r = Some k)
      (\<lambda>r. r\<lparr>rv_status := ''expired'', rv_updated_at := now\<rparr>) d = Inr (reservation # flipped, d1)"
  proof -
    obtain x d1 where x: "update_reservations (\<lambda>r. rv_id r = v \<and> rv_status r = ''active'' \<and> rv_offer_award_id r = Some k)
        (\<lambda>r. r\<lparr>rv_status := ''expired'', rv_updated_at := now\<rparr>) d = Inr (x, d1)"
      using run by (auto simp: expire_due_award_def Some ids seq_eq_Inr)
    with run have "x \<noteq> []" by (auto simp: expire_due_award_def Some ids)
    with x show thesis by (cases x) (use that in simp_all)
  qed
  have m: "rv_listing_aggregate_id reservation = ro_listing_aggregate_id offer" "rv_quantity reservation = ro_quantity offer"
    using run Some ids r by (auto simp: expire_due_award_def split: if_splits)
  obtain listings d2 where l: "update_listings (\<lambda>l. ls_aggregate_id l = ro_listing_aggregate_id offer \<and> ro_quantity offer \<le> ls_reserved_quantity l)
      (award_released_row (ro_quantity offer) now) d1 = Inr (listings, d2)" "listings \<noteq> []"
    using run Some ids r m by (fastforce simp: expire_due_award_def seq_eq_Inr split: if_splits)
  obtain offers d3 where f: "update_offers (\<lambda>r. ro_id r = ro_id offer \<and> ro_state r = ''accepted'') (expired_offer ''award_window'' now) d2
      = Inr (offers, d3)" "log_step d3 d'"
    using run Some ids r m l insert_event_log by (fastforce simp: expire_due_award_def seq_eq_Inr split: if_splits)
  from o'(3) obtain t where "ro_award_expires_at offer = Some t" "t \<le> now" by blast
  then show thesis using award [OF o'(1,2) _ _ r m l f] by blast
qed

lemma award_released_row_simps [simp]:
  "ls_aggregate_id (award_released_row q now l) = ls_aggregate_id l" "ls_total_quantity (award_released_row q now l) = ls_total_quantity l"
  "ls_reserved_quantity (award_released_row q now l) = ls_reserved_quantity l - q"
  by (simp_all add: award_released_row_def)

lemma expire_due_award_step:
  assumes inv: "offers_inv d" and run: "expire_due_award new_v4 now offer_id d = Inr (b, d')"
  shows "offers_inv d' \<and> offer_sweep now d d'"
  using run
proof (cases rule: expire_due_award_cases)
  case none
  then show ?thesis using inv offer_sweep_refl by simp
next
  case (award offer v k reservation flipped listings offers d1 d2 d3 t)
  have st: "stock_tables_ok d" "ledger_off (\<lambda>_. 0) d" "drops_ok d" "list_all hold_shape (st_orders d)" "offers_ok d"
    using inv by (simp_all add: offers_inv_def books_ok_def stock_ok_def)
  have tr: "table_ok rv_id reservation_check (st_reservations d)" using st(1) by (simp add: stock_tables_ok_def)
  let ?f = "\<lambda>r. r\<lparr>rv_status := ''expired'', rv_updated_at := now\<rparr>"
  obtain r where r: "fetch rv_id v (st_reservations d) = Some r" "rv_status r = ''active''" "rv_offer_award_id r = Some k" "reservation = ?f r"
    using reservations.upd_one [OF tr award(5)] by auto
  have "update_reservations (\<lambda>x. rv_id x = v \<and> rv_status x = ''active'') ?f d = Inr (reservation # flipped, d1)"
    using award(5) reservations.upd_cas [OF tr r(1), of "\<lambda>x. rv_status x = ''active'' \<and> rv_offer_award_id x = Some k" ?f]
      reservations.upd_cas [OF tr r(1), of "\<lambda>x. rv_status x = ''active''" ?f] r by simp
  then have u: "update_reservations (\<lambda>x. rv_id x = rv_id r \<and> rv_status x = ''active'') ?f d = Inr (reservation # flipped, d1)"
    using fetch_Some [OF r(1)] by simp
  have "fetch rv_id (rv_id r) (st_reservations d) = Some r" using r(1) fetch_Some [OF r(1)] by simp
  note f = flip_reservation_effect [OF st(1,2) this r(2) u]
  have t1: "table_ok ls_aggregate_id listing_check (st_listings d1)" using f(2) by (simp add: stock_tables_ok_def)
  let ?a = "ro_listing_aggregate_id offer" and ?q = "ro_quantity offer"
  have ra: "rv_listing_aggregate_id r = ?a" "rv_quantity r = ?q" using award(6,7) r(4) by simp_all
  have l1: "ledger_off (\<lambda>a. if a = ?a then ?q else 0) d1" using f(3) unfolding ra by simp
  have "ledger_off ((\<lambda>a. if a = ?a then ?q else 0) (?a := (if ?a = ?a then ?q else 0) + - ?q)) d2"
    by (rule ledger_off_move [OF t1 l1 award(8,9)]) simp_all
  then have l2: "ledger_off (\<lambda>_. 0) d2" by (rule ledger_off_cong) simp
  have step: "listings_step d1 d2" by (rule update_listings_step [OF t1 award(8)]) simp_all
  note s = listings_stepD [OF step]
  have d1: "st_orders d1 = st_orders d" "st_drops d1 = st_drops d" "st_drop_purchases d1 = st_drop_purchases d" "st_offers d1 = st_offers d"
    "st_listings d1 = st_listings d"
    by (simp_all add: f(4))
  have off: "st_offers d2 = st_offers d1" using step by (auto simp: listings_step_def)
  have books: "books_ok d2"
    using st l2 f(2) s d1 drops_ok_cong [of d2 d] by (simp add: books_ok_def stock_ok_def stock_tables_ok_def)
  have tot: "\<forall>a. total_stock d2 a = total_stock d a" using step total_stock_cong [of d1 d] d1(5) by (simp add: listings_step_def)
  have ok2: "offers_ok d2" using st(5) off d1(4) by (simp add: offers_ok_def)
  have to: "table_ok ro_id offer_check (st_offers d2)" using ok2 by (simp add: offers_ok_def)
  have "x = offer" if "x \<in> set (st_offers d2)" "ro_id x = ro_id offer" for x
    using that award(1) to off d1(4) by (auto simp: table_ok_def distinct_map dest: inj_onD)
  then have "offer_expired now x (expired_offer ''award_window'' now x)" if "x \<in> set (st_offers d2)" "ro_id x = ro_id offer" for x
    using that award(2-4) by (auto simp: offer_expired_def)
  note w = expire_offer_write [OF ok2 award(10) this]
  have "offer_sweep now d d3" using w(2) tot off d1(4) by (simp add: offer_sweep_def)
  then show ?thesis using w(1,3) books offer_sweep_log [OF award(11)] books_log(1) [OF award(11)] by (simp add: offers_inv_def)
qed
lemma negotiated_stays:
  "offer_sweep now d d' \<Longrightarrow> \<forall>x \<in> set (st_offers d). ro_id x = ro_id r \<longrightarrow> \<not> negotiating x \<Longrightarrow>
   \<forall>x \<in> set (st_offers d'). ro_id x = ro_id r \<longrightarrow> \<not> negotiating x"
  using offer_sweep_row offer_expired_state by blast

lemma award_attempts_cases: "award_attempts deadlocked run ns d = Inr (b, d') \<Longrightarrow> d' = d \<or> run d = Inr (b, d')"
  by (induction ns) (auto split: if_splits)

interpretation awards: sweep "\<lambda>i. award_attempts (deadlocked i) (expire_due_award new_v4 now i) [0, 1, 2]" offers_inv "offer_sweep now"
  "\<lambda>_ _. True" for deadlocked new_v4 now
proof
  show "offers_inv d' \<and> offer_sweep now d d'"
    if "offers_inv d" "award_attempts (deadlocked i) (expire_due_award new_v4 now i) [0, 1, 2] d = Inr (b, d')" for i d b d'
    using award_attempts_cases [OF that(2)] that(1) expire_due_award_step offer_sweep_refl by blast
qed (rule offer_sweep_refl, erule (1) offer_sweep_trans, rule TrueI)

text \<open>C18: A pass over the offers keeps the books, the offers' own rules and every listing's total, changes an offer only by expiring
  one that is past its negotiation deadline or an award past its payment window, whatever deadlocks the database reports, and
  leaves no offer under negotiation past its deadline.\<close>

theorem offers_swept:
  assumes "books_ok d" "offers_ok d" "expire_due_offers deadlocked new_v4 now d = (Inr n, d')"
  shows "books_ok d' \<and> offers_ok d' \<and> (\<forall>a. total_stock d' a = total_stock d a)
    \<and> (\<forall>r' \<in> set (st_offers d'). r' \<in> set (st_offers d) \<or> (\<exists>r \<in> set (st_offers d). offer_expired now r r'))
    \<and> due_offers d' now = []"
proof -
  have inv: "offers_inv d" using assms(1,2) by (simp add: offers_inv_def)
  obtain k d1 where one: "sweep_rows (expire_due_offer new_v4 now) (due_offers d now) 0 d = Inr (k, d1)"
    using assms(3) by (auto simp: expire_due_offers_def split: sum.splits)
  then obtain ids where two: "each_in_turn (\<lambda>i. award_attempts (deadlocked i) (expire_due_award new_v4 now i) [0, 1, 2]) ids k d1 = (n, d')"
    using assms(3) by (auto simp: expire_due_offers_def Let_def split: prod.splits)
  have t: "table_ok ro_id offer_check (st_offers d)" using assms(2) by (simp add: offers_ok_def)
  have f: "due_still now r d" if "r \<in> set (due_offers d now)" for r
    using that t by (auto simp: due_still_def due_offers_def table_ok_def distinct_map dest: inj_onD)
  note k1 = negotiations.rows_keep [OF inv f one]
  note k2 = awards.turns_keep [OF conjunct1 [OF k1] TrueI two]
  have sweep: "offer_sweep now d d'" using offer_sweep_trans k1 k2 by blast
  have settled: "\<forall>x \<in> set (st_offers d1). ro_id x = ro_id r \<longrightarrow> \<not> negotiating x" if "r \<in> set (due_offers d now)" for r
    by (rule negotiations.rows_settle [where finished = "\<lambda>r d. \<forall>x \<in> set (st_offers d). ro_id x = ro_id r \<longrightarrow> \<not> negotiating x",
          OF expire_due_offer_step(2) negotiated_stays inv f one that])
  have "x \<notin> set (due_offers d' now)" for x
  proof
    assume "x \<in> set (due_offers d' now)"
    then have x: "x \<in> set (st_offers d')" "negotiating x" "ro_expires_at x \<le> now" by (simp_all add: due_offers_def)
    have x1: "x \<in> set (st_offers d1)" using offer_sweep_row [OF conjunct2 [OF k2] x(1)] offer_expired_state x(2) by blast
    have "x \<in> set (st_offers d)" using offer_sweep_row [OF conjunct2 [OF k1] x1] offer_expired_state x(2) by blast
    then have "x \<in> set (due_offers d now)" using x by (simp add: due_offers_def)
    with settled x1 x(2) show False by blast
  qed
  then have "due_offers d' now = []" by (metis list.set_sel(1))
  with k2 sweep show ?thesis by (simp add: offers_inv_def offer_sweep_def)
qed

theorem offers_swept_witness:
  "\<exists>d'. expire_due_offers (\<lambda>_ n. n < 2) (\<lambda>n. replicate n CHR ''u'') 700
       (sample_award_db\<lparr>st_offers := [sample_offer, sample_offer\<lparr>ro_id := ''f2'', ro_aggregate_id := offer_aggregate_id ''f2'', ro_state := ''pending''\<rparr>]\<rparr>) = (Inr 2, d')
     \<and> map ro_state (st_offers d') = [''expired'', ''expired''] \<and> books_ok d'"
proof -
  let ?d = "sample_award_db\<lparr>st_offers := [sample_offer, sample_offer\<lparr>ro_id := ''f2'', ro_aggregate_id := offer_aggregate_id ''f2'', ro_state := ''pending''\<rparr>]\<rparr>"
  let ?run = "expire_due_offers (\<lambda>_ n. n < 2) (\<lambda>n. replicate n CHR ''u'') 700 ?d"
  have c: "fst ?run = Inr 2" "map ro_state (st_offers (snd ?run)) = [''expired'', ''expired'']" by code_simp+
  have ok: "books_ok ?d" "offers_ok ?d" by code_simp+
  have p: "?run = (Inr 2, snd ?run)" using c(1) by (simp add: prod_eq_iff)
  show ?thesis by (rule exI [of _ "snd ?run"]) (use p c offers_swept [OF ok p] in simp)
qed

end
