(* ===== verification/Spec2Isabelle.thy ===== *)
theory Spec2Isabelle
  imports Domain_Core Postal Machines Validation_Facts Auction_Facts Orders_Facts Sealing Payments_Facts Checkout_Facts
    Records_Facts Offers_Facts Reviews_Facts Listings_Facts Delivery_Facts Locks_Facts Executor_Facts
    Reseal_Facts Refusal_Facts Refusal_Catalogue Outbox_Facts Sweeps_Facts
begin

text \<open>
  A model of the marketplace service and what makes it correct.

  The program. \<^verbatim>\<open>crates/domain\<close> holds the pure part: the commands of the wire contract with their validation, money, keys,
  postal regions and the state machine of every aggregate.  \<^verbatim>\<open>crates/service\<close> holds the stateful part: PostgreSQL tables
  (\<^verbatim>\<open>migrations\<close>), one handler per command (\<^verbatim>\<open>handlers\<close>), the executor that runs a handler once per command id in a
  transaction (\<^verbatim>\<open>executor.rs\<close>), workers that close auctions, expire holds and deliver notifications, sealed secrets with
  key rotation, and an audit of refusals.  A command passes through all of it: \<open>execute\<close> admits it (\<open>validate_actor\<close>, \<open>parse_command\<close>, the fetch of a
  public record), \<open>dispatch\<close> gives it to its handler, the handler reads and writes the tables, and the executor stores the
  result with the writes or drops both.

  The state. A table is the list of its rows and the database is the record \<open>db\<close> of the theory \<^verbatim>\<open>Store\<close>; \<open>sql_update\<close>
  and \<open>sql_insert\<close> apply the constraints of the migrations and fail as the database does.  A handler has the type
  \<open>db \<Rightarrow> db_error + (command_failure + handler_success) \<times> db\<close>: \<open>Inl\<close> is an error of the database or a panic, and the executor
  drops the written database for it and for a refusal, which is the rollback.  Amounts are integers with the wrap-around of
  64 bits written out where the code does not check it; times are nanoseconds; a text is its UTF-8 bytes.

  The theories, and what each models.
  \<^item> \<^verbatim>\<open>Prelude\<close>: bytes, characters and UTF-8, times, the 64-bit range, results and options, lists.
  \<^item> \<^verbatim>\<open>Domain_Core\<close>, \<^verbatim>\<open>Postal\<close>, \<^verbatim>\<open>Machines\<close>: \<^verbatim>\<open>error.rs\<close>, \<^verbatim>\<open>ids.rs\<close>, \<^verbatim>\<open>money.rs\<close>, \<^verbatim>\<open>pubky.rs\<close>; \<^verbatim>\<open>postal.rs\<close> with
    its rules file; \<^verbatim>\<open>state_machines.rs\<close>, with the locale \<open>contract_machine\<close> interpreted for the eight machines and the exact
    sets of reachable states.
  \<^item> \<^verbatim>\<open>Commands\<close>, \<^verbatim>\<open>Validation\<close>, \<^verbatim>\<open>Validation_Facts\<close>: \<^verbatim>\<open>commands.rs\<close>, every payload and validator, what acceptance means;
    the locale \<open>field_normalizer\<close> is the contract of the validators that normalize.
  \<^item> \<^verbatim>\<open>Store\<close>: the rows of \<^verbatim>\<open>model.rs\<close>, the constraints, \<^verbatim>\<open>result.rs\<close>, the helpers of \<^verbatim>\<open>handlers/mod.rs\<close>; the locale
    \<open>db_table\<close> is what the other theories use of a table, interpreted for eight of them.
  \<^item> \<^verbatim>\<open>Drops\<close>, \<^verbatim>\<open>Holds\<close>, \<^verbatim>\<open>Reservations\<close>: drops and their gate; the ledger that every reserved unit of a listing is held by
    an active reservation or an order (\<open>stock_ok\<close>, with the drops \<open>books_ok\<close>); \<open>inventory.reserve\<close> and the expiry sweep.
  \<^item> \<^verbatim>\<open>Auction\<close>, \<^verbatim>\<open>Auction_Facts\<close>: proxy bidding, the extension, the reserve, the close by the seller and by the worker.
  \<^item> \<^verbatim>\<open>Orders\<close>, \<^verbatim>\<open>Orders_Facts\<close>: fulfillment, cancellation, returns and recorded refunds; each accepted command moves its order
    along \<open>order_machine\<close> and keeps the books.
  \<^item> \<^verbatim>\<open>Sealing\<close>, \<^verbatim>\<open>Payments\<close>, \<^verbatim>\<open>Payments_Facts\<close>: sealed values with their associated data and two keys; the sandbox payment and
    the confirmation every payment ends in: receipt, edition, stock, and the pins of what the buyer bought.
  \<^item> \<^verbatim>\<open>Checkout\<close>, \<^verbatim>\<open>Checkout_Facts\<close>: \<open>checkout.create\<close>, one order and payment per seller and fulfillment, against a reference
    grouping.
  \<^item> \<^verbatim>\<open>Records\<close>, \<^verbatim>\<open>Records_Facts\<close>: the records of a homeserver: event stream, award terms, listing and drop records, and the
    guard that keeps an auction reserve out of public documents.
  \<^item> \<^verbatim>\<open>Offers\<close>, \<^verbatim>\<open>Offers_Facts\<close>: the negotiation and the checkout of an award at the agreed price.
  \<^item> \<^verbatim>\<open>Reviews\<close>, \<^verbatim>\<open>Reviews_Facts\<close>: reviews and the attestations issued for them.
  \<^item> \<^verbatim>\<open>Listings\<close>, \<^verbatim>\<open>Listings_Facts\<close>: registration and sync of a listing, the tombstone of a deleted one and its triggers.
  \<^item> \<^verbatim>\<open>Delivery\<close>, \<^verbatim>\<open>Delivery_Facts\<close>: pickup details, digital delivery and the delivery e-mail: what is set is what is read, by
    the party who may read it and nobody else.
  \<^item> \<^verbatim>\<open>Locks\<close>, \<^verbatim>\<open>Locks_Facts\<close>: the content lock document and the two commands that bind a payment to it.
  \<^item> \<^verbatim>\<open>Refusal_Audit\<close>, \<^verbatim>\<open>Refusal_Writer\<close>, \<^verbatim>\<open>Refusal_Facts\<close>, \<^verbatim>\<open>Refusal_Catalogue\<close>: \<^verbatim>\<open>refusal_audit.rs\<close>: keys and epochs, the
    queue, the delivery into hourly buckets with its faults and retries, erasure, and the catalogue tables; the queue and the
    buckets are bounded and no refusal vanishes without a count.
  \<^item> \<^verbatim>\<open>Executor\<close>, \<^verbatim>\<open>Executor_Facts\<close>: the executor.  \<open>once_step\<close> is its abstract specification, a machine that runs the
    handler of an actor's command id at most once; every interleaving of submissions refines it.  The locale \<open>once_log\<close> has
    both machines as interpretations.
  \<^item> \<^verbatim>\<open>Reseal\<close>, \<^verbatim>\<open>Reseal_Facts\<close>: the boot probe and the re-seal pass of a key rotation in \<^verbatim>\<open>digital.rs\<close>: the pass ends under
    every concurrent writer that adds no row, and after a pass that runs alone the previous key can be retired.
  \<^item> \<^verbatim>\<open>Outbox\<close>, \<^verbatim>\<open>Outbox_Facts\<close>: the claims, leases, quarantine and delivery of the outbox in \<^verbatim>\<open>workers.rs\<close>; under every
    interleaving of writers and workers (\<open>outbox_step\<close>) an intent becomes one notification, and a drain settles what it claims.
  \<^item> \<^verbatim>\<open>Sweeps\<close>, \<^verbatim>\<open>Sweeps_Facts\<close>: the other database sweeps of \<^verbatim>\<open>workers.rs\<close>: leases with their fences, the expiry of offers,
    awards, payment windows and idle checkouts, drop transitions, assumed deliveries and completion.  The locale \<open>sweep\<close> says
    what a pass keeps when its steps keep it and is interpreted for six of them.

  Loops. The model uses no fuel.  Recursion is structural, or a measure decreases: the bits left in \<open>emit_groups\<close>, the text
  left in \<open>utf8_chunks\<close>, the rows after the cursor in \<open>probe_pages\<close> and \<open>count_pages\<close>.  \<open>reseal_pages\<close>, whose rows other
  writers may change while it runs, is a partial function whose termination is a theorem.

  Parameters. Code that is not part of the repository enters as an argument: the cipher, the hashes and base64, the JSON
  decoders of \<open>serde\<close>, the random identifiers, the clock, the homeserver with its records and events, the content-lock
  decoder.  What a theorem needs of them is a named hypothesis (\<open>aead_ok\<close>, \<open>hashes_ok\<close>, that a decoder inverts its encoder),
  and its witness has a concrete function for each.

  Findings. Five theorems show behaviour the code does not intend: a checkout total that wraps to nothing
  (\<open>checkout_total_wraps\<close>), a winner's cancellation that leaks a reserved unit (\<open>reserving_winner_leaks_stock\<close>), a tolerated
  half of a drop credit (\<open>legacy_cancel_unbalances_drop\<close>), a bid that brings the end of an auction forward
  (\<open>bid_can_end_auction\<close>) and a reservation that blocks the close of an auction (\<open>reserve_blocks_close\<close>).

  Not modelled. The HTTP surface, configuration and start-up, logging, and the JSON rendering of responses: input and output
  around the handlers.  The clients of Paykit, Stripe, PayPal, carriers, the address service, the Lock server and the
  homeserver, with the workers that poll them: they are network protocols of other programs.  Grants, sessions and the
  storage of service keys.  The read models (\<^verbatim>\<open>queries.rs\<close>, \<^verbatim>\<open>inventory.rs\<close>).  The operator's resolution of a payment
  under manual review beyond what the cancellation calls.  Row locks and the advisory locks: a transaction is one step, and
  the steps interleave.
\<close>

definition sample_pair_db :: db where
  "sample_pair_db = sample_auction_db\<lparr>st_listings := [sample_auction_listing\<lparr>ls_total_quantity := 2, ls_available_quantity := 2\<rparr>]\<rparr>"

definition cancel_first_order :: "pubky \<Rightarrow> datetime \<Rightarrow> db \<Rightarrow> handler_result tx" where
  "cancel_first_order actor now d =
     (let order = hd (st_orders d); payload = \<lparr>rc_order_id = or_id order, rc_reason = ''changed my mind''\<rparr>
      in cancel_request show_nat actor
           \<lparr>cmd_command_id = ''c4'', cmd_aggregate_id = order_aggregate_id (or_id order),
            cmd_expected_revision = or_revision order, cmd_issued_at = 0, cmd_payload = RequestCancellation payload\<rparr>
           payload now d)"

definition reserve_close_cancel :: "handler_result tx" where
  "reserve_close_cancel =
     attempt (reserve_inventory show_nat ''ann'' (sample_auction_command ''c2'' 7 (ReserveInventory sample_reserve_one))
                sample_reserve_one (seconds 900) sample_pair_db)
       (\<lambda>_ d1.
          attempt (close_auction show_nat ''seller'' (sample_auction_command ''c3'' 8 CloseAuction) (seconds 1000) d1)
            (\<lambda>_. cancel_first_order ''ann'' (seconds 1010)))"

text \<open>C37: A winner who also reserved leaks a unit.  On a ledger that is in order, the leader of an auction over two
  units reserves one of them, the auction closes, and the winner cancels the order: both reservations of the winner
  are released but only the order's unit returns, so a unit stays reserved that no reservation and no order
  accounts for.\<close>

theorem reserving_winner_leaks_stock:
  "stock_ok sample_pair_db \<and> accepted_with reserve_close_cancel
     (\<lambda>_ d. map (\<lambda>l. (ls_available_quantity l, ls_reserved_quantity l)) (st_listings d) = [(1, 1)] \<and> list_all (\<lambda>r. rv_status r \<noteq> ''active'') (st_reservations d)
         \<and> list_all (\<lambda>o'. \<not> or_stock_held o' \<and> or_state o' = ''cancelled'') (st_orders d) \<and> \<not> stock_ok d)"
proof -
  have "stock_ok sample_pair_db" by code_simp
  moreover have "accepted_with reserve_close_cancel
     (\<lambda>_ d. map (\<lambda>l. (ls_available_quantity l, ls_reserved_quantity l)) (st_listings d) = [(1, 1)] \<and> list_all (\<lambda>r. rv_status r \<noteq> ''active'') (st_reservations d)
         \<and> list_all (\<lambda>o'. \<not> or_stock_held o' \<and> or_state o' = ''cancelled'') (st_orders d) \<and> \<not> stock_ok d)"
    by code_simp
  ultimately show ?thesis ..
qed

end
